(* ===== verification/Prelude.thy ===== *)
theory Prelude
  imports Main "HOL-Library.Word"
begin

text \<open>
  Shared vocabulary of the development: Rust's \<open>Result\<close>, its strings as lists of Unicode
  scalar values with their UTF-8 length, the ASCII and white-space predicates of the standard
  library, integer formatting, and the signed and unsigned machine arithmetic the billing
  code uses.  Component theories add their facts to the collections declared here.
\<close>

named_theorems result_simps \<open>characterisations of the results of constructors\<close>
named_theorems wf_intros \<open>well-formedness of values built by the constructors\<close>

section \<open>Results\<close>

text \<open>Rust's \<open>Result<T, E>\<close>: an error on the left, a value on the right.\<close>

type_synonym ('a, 'e) result = "'e + 'a"

abbreviation Ok :: "'a \<Rightarrow> ('a, 'e) result" where
  "Ok \<equiv> Inr"

abbreviation Err :: "'e \<Rightarrow> ('a, 'e) result" where
  "Err \<equiv> Inl"

definition and_then :: "('a, 'e) result \<Rightarrow> ('a \<Rightarrow> ('b, 'e) result) \<Rightarrow> ('b, 'e) result" where
  "and_then r f = (case r of Inl e \<Rightarrow> Inl e | Inr a \<Rightarrow> f a)"

definition map_err :: "('e \<Rightarrow> 'd) \<Rightarrow> ('a, 'e) result \<Rightarrow> ('a, 'd) result" where
  "map_err f r = (case r of Inl e \<Rightarrow> Inl (f e) | Inr a \<Rightarrow> Inr a)"

definition ok_or :: "'a option \<Rightarrow> 'e \<Rightarrow> ('a, 'e) result" where
  "ok_or x e = (case x of None \<Rightarrow> Inl e | Some a \<Rightarrow> Inr a)"

lemma and_then_simps [simp]:
  "and_then (Inl e) f = Inl e"
  "and_then (Inr a) f = f a"
  by (simp_all add: and_then_def)

lemma map_err_simps [simp]:
  "map_err f (Inl e) = Inl (f e)"
  "map_err f (Inr a) = Inr a"
  by (simp_all add: map_err_def)

lemma ok_or_simps [simp]:
  "ok_or None e = Inl e"
  "ok_or (Some a) e = Inr a"
  by (simp_all add: ok_or_def)

lemma and_then_Inr_iff:
  "and_then r f = Inr b \<longleftrightarrow> (\<exists>a. r = Inr a \<and> f a = Inr b)"
  by (cases r) auto

lemma and_then_OkE:
  assumes "and_then r f = Inr y"
  obtains x where "r = Inr x" "f x = Inr y"
  using assms by (auto simp: and_then_Inr_iff)

lemma map_err_Inr_iff [simp]: "map_err f r = Inr a \<longleftrightarrow> r = Inr a"
  by (cases r) auto

lemma ok_or_Inr_iff [simp]: "ok_or x e = Inr a \<longleftrightarrow> x = Some a"
  by (cases x) auto

section \<open>Strings\<close>

text \<open>
  A Rust string is the list of its Unicode scalar values; \<open>chars().count()\<close> is the
  length of that list, \<open>len()\<close> the length of its UTF-8 encoding.  An ASCII literal of
  the source is written \<open>lit ''...''\<close>.
\<close>

type_synonym scalar = nat
type_synonym rstring = "scalar list"
type_synonym byte = nat

definition lit :: "string \<Rightarrow> rstring" where
  "lit s = map of_char s"

lemma lit_inject [simp]: "lit s = lit t \<longleftrightarrow> s = t"
proof -
  have "inj (of_char :: char \<Rightarrow> nat)"
    by (rule injI) simp
  then show ?thesis
    by (simp add: lit_def inj_map_eq_map)
qed

lemma lit_simps [simp]:
  "lit [] = []"
  "lit (c # s) = of_char c # lit s"
  by (simp_all add: lit_def)

declare lit_simps(2) [simp del]

lemmas lit_eval = lit_simps(2)

lemma lit_append [simp]: "lit (s @ t) = lit s @ lit t"
  by (simp add: lit_def)

lemma lit_Nil_iff [simp]: "lit s = [] \<longleftrightarrow> s = []"  "[] = lit s \<longleftrightarrow> s = []"
  by (auto simp: lit_def)

lemma length_lit [simp]: "length (lit s) = length s"
  by (simp add: lit_def)

fun utf8_encode_scalar :: "scalar \<Rightarrow> byte list" where
  "utf8_encode_scalar c =
     (if c < 0x80 then [c]
      else if c < 0x800 then [0xC0 + c div 64, 0x80 + c mod 64]
      else if c < 0x10000 then
        [0xE0 + c div 4096, 0x80 + c div 64 mod 64, 0x80 + c mod 64]
      else [0xF0 + c div 262144, 0x80 + c div 4096 mod 64, 0x80 + c div 64 mod 64, 0x80 + c mod 64])"

declare utf8_encode_scalar.simps [simp del]

definition utf8_bytes :: "rstring \<Rightarrow> byte list" where
  "utf8_bytes s = concat (map utf8_encode_scalar s)"

definition byte_len :: "rstring \<Rightarrow> nat" where
  "byte_len s = length (utf8_bytes s)"

lemma utf8_bytes_simps [simp]:
  "utf8_bytes [] = []"
  "utf8_bytes (c # s) = utf8_encode_scalar c @ utf8_bytes s"
  "utf8_bytes (s @ t) = utf8_bytes s @ utf8_bytes t"
  by (simp_all add: utf8_bytes_def)

lemma utf8_encode_ascii: "c < 128 \<Longrightarrow> utf8_encode_scalar c = [c]"
  by (simp add: utf8_encode_scalar.simps)

lemma utf8_encode_non_ascii:
  "128 \<le> c \<Longrightarrow> utf8_encode_scalar c \<noteq> [] \<and> list_all (\<lambda>b. 128 \<le> b) (utf8_encode_scalar c)"
  by (simp add: utf8_encode_scalar.simps)

text \<open>
  A byte predicate that admits ASCII only holds of every byte of a string exactly when it
  holds of every scalar: the validators of the source test bytes, the model tests scalars.
\<close>

lemma utf8_all_ascii_iff:
  assumes "\<And>b. P b \<Longrightarrow> b < 128"
  shows "list_all P (utf8_bytes s) \<longleftrightarrow> list_all P s"
proof (induction s)
  case (Cons c s)
  have "list_all P (utf8_encode_scalar c) \<longleftrightarrow> P c"
  proof (cases "c < 128")
    case True
    then show ?thesis by (simp add: utf8_encode_ascii)
  next
    case False
    then obtain b bs where "utf8_encode_scalar c = b # bs" and "128 \<le> b"
      using utf8_encode_non_ascii [of c] by (cases "utf8_encode_scalar c") auto
    with False assms show ?thesis by fastforce
  qed
  with Cons.IH show ?case by simp
qed simp

lemma byte_len_simps [simp]:
  "byte_len [] = 0"
  "byte_len (c # s) = length (utf8_encode_scalar c) + byte_len s"
  "byte_len (s @ t) = byte_len s + byte_len t"
  by (simp_all add: byte_len_def)

lemma byte_len_ascii: "list_all (\<lambda>c. c < 128) s \<Longrightarrow> byte_len s = length s"
  by (induction s) (auto simp: utf8_encode_ascii)

lemma length_le_byte_len: "length s \<le> byte_len s"
proof (induction s)
  case (Cons c s)
  have "1 \<le> length (utf8_encode_scalar c)"
    by (simp add: utf8_encode_scalar.simps)
  with Cons.IH have "Suc (length s) \<le> length (utf8_encode_scalar c) + byte_len s"
    by linarith
  then show ?case by simp
qed simp

subsection \<open>Character classes of the standard library\<close>

definition is_ascii_digit :: "nat \<Rightarrow> bool" where
  "is_ascii_digit c \<longleftrightarrow> 48 \<le> c \<and> c \<le> 57"

definition is_ascii_uppercase :: "nat \<Rightarrow> bool" where
  "is_ascii_uppercase c \<longleftrightarrow> 65 \<le> c \<and> c \<le> 90"

definition is_ascii_lowercase :: "nat \<Rightarrow> bool" where
  "is_ascii_lowercase c \<longleftrightarrow> 97 \<le> c \<and> c \<le> 122"

definition is_ascii_alphabetic :: "nat \<Rightarrow> bool" where
  "is_ascii_alphabetic c \<longleftrightarrow> is_ascii_uppercase c \<or> is_ascii_lowercase c"

definition is_ascii_alphanumeric :: "nat \<Rightarrow> bool" where
  "is_ascii_alphanumeric c \<longleftrightarrow> is_ascii_alphabetic c \<or> is_ascii_digit c"

text \<open>\<open>is_ascii_whitespace\<close> follows WHATWG: no vertical tab.\<close>

definition is_ascii_whitespace :: "nat \<Rightarrow> bool" where
  "is_ascii_whitespace c \<longleftrightarrow> c = 32 \<or> c = 9 \<or> c = 10 \<or> c = 12 \<or> c = 13"

text \<open>\<open>char::is_whitespace\<close>: the Unicode White\_Space property.\<close>

definition is_whitespace :: "scalar \<Rightarrow> bool" where
  "is_whitespace c \<longleftrightarrow>
     9 \<le> c \<and> c \<le> 13 \<or> c = 0x20 \<or> c = 0x85 \<or> c = 0xA0 \<or> c = 0x1680 \<or>
     0x2000 \<le> c \<and> c \<le> 0x200A \<or> c = 0x2028 \<or> c = 0x2029 \<or> c = 0x202F \<or>
     c = 0x205F \<or> c = 0x3000"

text \<open>\<open>char::is_control\<close>: general category Cc.\<close>

definition is_control :: "scalar \<Rightarrow> bool" where
  "is_control c \<longleftrightarrow> c \<le> 31 \<or> 127 \<le> c \<and> c \<le> 159"

lemmas ascii_class_defs =
  is_ascii_digit_def is_ascii_uppercase_def is_ascii_lowercase_def is_ascii_alphabetic_def
  is_ascii_alphanumeric_def is_ascii_whitespace_def

definition trim_start_matches :: "(scalar \<Rightarrow> bool) \<Rightarrow> rstring \<Rightarrow> rstring" where
  "trim_start_matches p s = dropWhile p s"

definition trim_matches :: "(scalar \<Rightarrow> bool) \<Rightarrow> rstring \<Rightarrow> rstring" where
  "trim_matches p s = rev (dropWhile p (rev (dropWhile p s)))"

definition trim :: "rstring \<Rightarrow> rstring" where
  "trim s = trim_matches is_whitespace s"

definition ascii_lower :: "nat \<Rightarrow> nat" where
  "ascii_lower c = (if is_ascii_uppercase c then c + 32 else c)"

definition ascii_upper :: "nat \<Rightarrow> nat" where
  "ascii_upper c = (if is_ascii_lowercase c then c - 32 else c)"

definition to_ascii_lowercase :: "rstring \<Rightarrow> rstring" where
  "to_ascii_lowercase s = map ascii_lower s"

definition to_ascii_uppercase :: "rstring \<Rightarrow> rstring" where
  "to_ascii_uppercase s = map ascii_upper s"

definition eq_ignore_ascii_case :: "rstring \<Rightarrow> rstring \<Rightarrow> bool" where
  "eq_ignore_ascii_case s t \<longleftrightarrow> to_ascii_lowercase s = to_ascii_lowercase t"

lemma trim_matches_edges:
  assumes "trim_matches p s \<noteq> []"
  shows "\<not> p (hd (trim_matches p s))" and "\<not> p (last (trim_matches p s))"
proof -
  let ?d = "dropWhile p s"
  let ?e = "dropWhile p (rev ?d)"
  from assms have e: "?e \<noteq> []" by (simp add: trim_matches_def)
  then have "\<not> p (hd ?e)" by (rule hd_dropWhile)
  with e show "\<not> p (last (trim_matches p s))"
    by (simp add: trim_matches_def last_rev)
  from e have d: "?d \<noteq> []" by (cases "?d = []") simp_all
  obtain pre where "rev ?d = pre @ ?e"
    by (metis takeWhile_dropWhile_id)
  then have "?d = rev ?e @ rev pre" by (metis rev_append rev_rev_ident)
  with e have "hd (rev ?e) = hd ?d" by (metis hd_append rev_is_Nil_conv)
  with hd_dropWhile [OF d] show "\<not> p (hd (trim_matches p s))"
    by (simp add: trim_matches_def)
qed

lemma trim_matches_idle:
  assumes "s \<noteq> [] \<Longrightarrow> \<not> p (hd s)" and "s \<noteq> [] \<Longrightarrow> \<not> p (last s)"
  shows "trim_matches p s = s"
proof (cases "s = []")
  case False
  with assms have "dropWhile p s = s" and "dropWhile p (rev s) = rev s"
    by (simp_all add: dropWhile_eq_self_iff hd_rev)
  then show ?thesis by (simp add: trim_matches_def)
qed (simp add: trim_matches_def)

lemma trim_matches_idem [simp]: "trim_matches p (trim_matches p s) = trim_matches p s"
  by (rule trim_matches_idle) (simp_all add: trim_matches_edges)

lemma trim_idem [simp]: "trim (trim s) = trim s"
  by (simp add: trim_def)

lemma set_trim_matches: "set (trim_matches p s) \<subseteq> set s"
  by (auto simp: trim_matches_def dest!: set_dropWhileD)

lemma trim_id_of_no_whitespace: "list_all (\<lambda>c. \<not> is_whitespace c) s \<Longrightarrow> trim s = s"
  unfolding trim_def by (rule trim_matches_idle) (auto simp: list_all_iff)

lemma ascii_visible_not_whitespace: "32 < c \<Longrightarrow> c < 127 \<Longrightarrow> \<not> is_whitespace c"
  by (auto simp: is_whitespace_def)

lemma ascii_upper_lower_idem [simp]:
  "ascii_lower (ascii_lower c) = ascii_lower c"
  "ascii_upper (ascii_upper c) = ascii_upper c"
  by (auto simp: ascii_lower_def ascii_upper_def ascii_class_defs)

subsection \<open>Integer formatting and separated fields\<close>

fun show_nat :: "nat \<Rightarrow> rstring" where
  "show_nat n = (if n < 10 then [48 + n] else show_nat (n div 10) @ [48 + n mod 10])"

declare show_nat.simps [simp del]

definition show_int :: "int \<Rightarrow> rstring" where
  "show_int i = (if i < 0 then 45 # show_nat (nat (- i)) else show_nat (nat i))"

definition digits_value :: "rstring \<Rightarrow> nat" where
  "digits_value s = foldl (\<lambda>v c. v * 10 + (c - 48)) 0 s"

lemma digits_value_snoc [simp]: "digits_value (s @ [c]) = digits_value s * 10 + (c - 48)"
  by (simp add: digits_value_def)

lemma digits_value_show_nat [simp]: "digits_value (show_nat n) = n"
proof (induction n rule: show_nat.induct)
  case (1 n)
  then show ?case
    by (cases "n < 10") (simp_all add: show_nat.simps [of n] digits_value_def)
qed

lemma show_nat_digits: "list_all is_ascii_digit (show_nat n)"
proof (induction n rule: show_nat.induct)
  case (1 n)
  then show ?case
    by (cases "n < 10") (simp_all add: show_nat.simps [of n] is_ascii_digit_def)
qed

lemma show_nat_nonempty [simp]: "show_nat n \<noteq> []"
  by (subst show_nat.simps) simp

lemma show_nat_inject [simp]: "show_nat m = show_nat n \<longleftrightarrow> m = n"
  by (metis digits_value_show_nat)

lemma show_nat_no_minus: "45 \<notin> set (show_nat n)"
  using show_nat_digits [of n] by (auto simp: list_all_iff is_ascii_digit_def)

lemma show_int_inject [simp]: "show_int i = show_int j \<longleftrightarrow> i = j"
proof -
  have "45 # show_nat m \<noteq> show_nat n" for m n
    using show_nat_no_minus [of n] by (metis list.set_intros(1))
  moreover from this have "show_nat n \<noteq> 45 # show_nat m" for m n
    by metis
  ultimately show ?thesis
    by (auto simp: show_int_def)
qed

definition colon :: scalar where
  "colon = 58"

lemma show_nat_no_colon: "colon \<notin> set (show_nat n)"
  using show_nat_digits [of n] by (auto simp: list_all_iff is_ascii_digit_def colon_def)

lemma show_int_no_colon: "colon \<notin> set (show_int i)"
  using show_nat_no_colon by (simp add: show_int_def) (simp add: colon_def)

text \<open>Fields separated by a character that none of them contains can be read back.\<close>

lemma first_field_inject:
  assumes "x \<notin> set a" and "x \<notin> set b"
  shows "a @ x # r = b @ x # s \<longleftrightarrow> a = b \<and> r = s"
proof
  assume eq: "a @ x # r = b @ x # s"
  have "takeWhile (\<lambda>c. c \<noteq> x) (a @ x # r) = a" and "takeWhile (\<lambda>c. c \<noteq> x) (b @ x # s) = b"
    using assms by (auto simp: takeWhile_append takeWhile_eq_all_conv)
  with eq show "a = b \<and> r = s" by auto
qed simp

lemma last_field_inject:
  assumes "x \<notin> set a" and "x \<notin> set b"
  shows "r @ x # a = s @ x # b \<longleftrightarrow> a = b \<and> r = s"
proof -
  have "r @ x # a = s @ x # b \<longleftrightarrow> rev a @ x # rev r = rev b @ x # rev s"
    by (metis append_Cons append_Nil append_assoc rev.simps(2) rev_append rev_rev_ident)
  also have "\<dots> \<longleftrightarrow> rev a = rev b \<and> rev r = rev s"
    by (rule first_field_inject) (simp_all add: assms)
  finally show ?thesis by simp
qed

section \<open>Machine integers\<close>

text \<open>
  Unsigned Rust integers are words.  A signed integer is an \<^typ>\<open>int\<close> inside its range;
  operations that can leave the range are written with the rule the source applies: wrap,
  saturate, or fail.
\<close>

type_synonym u8 = "8 word"
type_synonym u16 = "16 word"
type_synonym u32 = "32 word"
type_synonym u64 = "64 word"
type_synonym u128 = "128 word"

definition is_i16 :: "int \<Rightarrow> bool" where
  "is_i16 i \<longleftrightarrow> - (2 ^ 15) \<le> i \<and> i < 2 ^ 15"

definition is_i32 :: "int \<Rightarrow> bool" where
  "is_i32 i \<longleftrightarrow> - (2 ^ 31) \<le> i \<and> i < 2 ^ 31"

definition is_i64 :: "int \<Rightarrow> bool" where
  "is_i64 i \<longleftrightarrow> - (2 ^ 63) \<le> i \<and> i < 2 ^ 63"

definition wrap_i64 :: "int \<Rightarrow> int" where
  "wrap_i64 i = (i + 2 ^ 63) mod 2 ^ 64 - 2 ^ 63"

definition saturating_sub_i32 :: "int \<Rightarrow> int \<Rightarrow> int" where
  "saturating_sub_i32 a b = max (- (2 ^ 31)) (min (2 ^ 31 - 1) (a - b))"

definition try_i32 :: "int \<Rightarrow> int option" where
  "try_i32 i = (if is_i32 i then Some i else None)"

definition check_i64 :: "int \<Rightarrow> int option" where
  "check_i64 i = (if is_i64 i then Some i else None)"

text \<open>\<open>u8::try_from\<close>, \<open>u16::try_from\<close> and \<open>u32::try_from\<close> on a wider signed integer.\<close>

definition try_unsigned :: "int \<Rightarrow> 'a::len word option" where
  "try_unsigned i = (if 0 \<le> i \<and> i < 2 ^ LENGTH('a) then Some (word_of_int i) else None)"

lemma try_unsigned_Some_iff: "try_unsigned i = Some (w :: 'a::len word) \<longleftrightarrow> i = uint w"
proof -
  have "uint (word_of_int i :: 'a word) = i" if "0 \<le> i" "i < 2 ^ LENGTH('a)"
    using that by (simp add: uint_word_of_int)
  moreover have "0 \<le> uint w" "uint w < 2 ^ LENGTH('a)" by simp_all
  ultimately show ?thesis
    unfolding try_unsigned_def using word_of_int_uint [of w] by (auto simp del: word_of_int_uint)
qed

text \<open>Signed division truncates towards zero.\<close>

definition rust_quotient :: "int \<Rightarrow> int \<Rightarrow> int" where
  "rust_quotient n d =
     (let magnitude = \<bar>n\<bar> div \<bar>d\<bar> in if n < 0 \<longleftrightarrow> d < 0 then magnitude else - magnitude)"

lemma wrap_i64_id: "is_i64 i \<Longrightarrow> wrap_i64 i = i"
  by (simp add: is_i64_def wrap_i64_def)

lemma rust_quotient_nonneg: "0 \<le> a \<Longrightarrow> 0 < b \<Longrightarrow> rust_quotient a b = a div b"
  by (simp add: rust_quotient_def)

definition checked_mul_u32 :: "u32 \<Rightarrow> u32 \<Rightarrow> u32 option" where
  "checked_mul_u32 a b = (if unat a * unat b < 2 ^ 32 then Some (a * b) else None)"

lemma checked_mul_u32_Some_iff:
  "checked_mul_u32 a b = Some c \<longleftrightarrow> unat a * unat b < 2 ^ 32 \<and> unat c = unat a * unat b"
proof -
  have "unat (a * b) = unat a * unat b" if "unat a * unat b < 2 ^ 32"
    using that by (simp add: unat_word_ariths)
  then show ?thesis
    by (auto simp: checked_mul_u32_def word_unat_eq_iff)
qed

section \<open>Instants\<close>

text \<open>
  \<open>DateTime<Utc>\<close> is the number of nanoseconds since the Unix epoch.  The chrono crate is
  not part of the repository: the two ends of its range and its month arithmetic are the
  record below, an argument of every definition that calls them.
\<close>

type_synonym datetime = int

record chrono =
  min_utc :: datetime
  max_utc :: datetime
  add_months :: "datetime \<Rightarrow> nat \<Rightarrow> datetime option"

abbreviation (input) nanos_per_second :: int where
  "nanos_per_second \<equiv> 1000000000"

definition duration_seconds :: "int \<Rightarrow> int" where
  "duration_seconds s = s * nanos_per_second"

definition duration_days :: "int \<Rightarrow> int" where
  "duration_days d = duration_seconds (d * 86400)"

definition checked_add_signed :: "chrono \<Rightarrow> datetime \<Rightarrow> int \<Rightarrow> datetime option" where
  "checked_add_signed ch t d =
     (if min_utc ch \<le> t + d \<and> t + d \<le> max_utc ch then Some (t + d) else None)"

text \<open>\<open>DateTime::timestamp\<close>: whole seconds, rounded down.\<close>

definition timestamp :: "datetime \<Rightarrow> int" where
  "timestamp t = t div nanos_per_second"

lemma checked_add_signed_Some_iff:
  "checked_add_signed ch t d = Some u \<longleftrightarrow> u = t + d \<and> min_utc ch \<le> u \<and> u \<le> max_utc ch"
  by (auto simp: checked_add_signed_def)

section \<open>Decoding UTF-8\<close>

definition is_scalar :: "nat \<Rightarrow> bool" where
  "is_scalar c \<longleftrightarrow> c < 0xD800 \<or> 0xE000 \<le> c \<and> c < 0x110000"

definition is_continuation :: "byte \<Rightarrow> bool" where
  "is_continuation b \<longleftrightarrow> 0x80 \<le> b \<and> b < 0xC0"

text \<open>
  The first scalar of a byte string and its width, rejecting overlong forms, surrogates and
  values past the last plane, as \<open>std::str::from_utf8\<close> does.
\<close>

fun utf8_decode_one :: "byte list \<Rightarrow> (scalar \<times> nat) option" where
  "utf8_decode_one [] = None"
| "utf8_decode_one (a # bs) =
     (if a < 0x80 then Some (a, 1)
      else if 0xC2 \<le> a \<and> a < 0xE0 then
        (case bs of b # _ \<Rightarrow>
           if is_continuation b then Some ((a - 0xC0) * 64 + (b - 0x80), 2) else None
         | _ \<Rightarrow> None)
      else if 0xE0 \<le> a \<and> a < 0xF0 then
        (case bs of b # c # _ \<Rightarrow>
           (let v = (a - 0xE0) * 4096 + (b - 0x80) * 64 + (c - 0x80)
            in if is_continuation b \<and> is_continuation c \<and> 0x800 \<le> v \<and> is_scalar v
               then Some (v, 3) else None)
         | _ \<Rightarrow> None)
      else if 0xF0 \<le> a \<and> a < 0xF5 then
        (case bs of b # c # d # _ \<Rightarrow>
           (let v = (a - 0xF0) * 262144 + (b - 0x80) * 4096 + (c - 0x80) * 64 + (d - 0x80)
            in if is_continuation b \<and> is_continuation c \<and> is_continuation d \<and>
                  0x10000 \<le> v \<and> is_scalar v
               then Some (v, 4) else None)
         | _ \<Rightarrow> None)
      else None)"

declare utf8_decode_one.simps(2) [simp del]

function from_utf8 :: "byte list \<Rightarrow> rstring option" where
  "from_utf8 bs =
     (if bs = [] then Some []
      else case utf8_decode_one bs of
        None \<Rightarrow> None
      | Some (c, n) \<Rightarrow>
          if n = 0 then None else map_option (Cons c) (from_utf8 (drop n bs)))"
  by pat_completeness auto

termination from_utf8
  by (relation "measure length") (auto simp: Nat.diff_less)

declare from_utf8.simps [simp del]

lemma utf8_decode_one_encode:
  assumes "is_scalar c"
  shows "utf8_decode_one (utf8_encode_scalar c @ bs) = Some (c, length (utf8_encode_scalar c))"
proof -
  define a where "a = c div 64"
  define b where "b = a div 64"
  have c: "c = a * 64 + c mod 64" and a: "a = b * 64 + a mod 64" and b: "b = b div 64 * 64 + b mod 64"
    by (simp_all add: a_def b_def)
  have ca: "c div 4096 = b" "c div 262144 = b div 64" "c div 64 = a"
    by (simp_all add: a_def b_def div_mult2_eq [symmetric])
  have two: "c div 64 * 64 + c mod 64 = c" by simp
  have three: "c div 4096 * 4096 + c div 64 mod 64 * 64 + c mod 64 = c"
    unfolding ca using c a by linarith
  have four: "c div 262144 * 262144 + c div 4096 mod 64 * 4096 + c div 64 mod 64 * 64 + c mod 64 = c"
    unfolding ca using c a b by linarith
  consider "c < 0x80" | "0x80 \<le> c" "c < 0x800" | "0x800 \<le> c" "c < 0x10000" | "0x10000 \<le> c"
    by linarith
  then show ?thesis
  proof cases
    case 2
    moreover from 2 have "2 \<le> c div 64" "c div 64 < 32" by auto
    ultimately show ?thesis
      by (simp add: utf8_encode_scalar.simps utf8_decode_one.simps(2) is_continuation_def two)
  next
    case 3
    moreover from 3 have "c div 4096 < 16" by auto
    ultimately show ?thesis using assms three
      by (simp add: utf8_encode_scalar.simps utf8_decode_one.simps(2) is_continuation_def Let_def)
  next
    case 4
    moreover from assms have "c div 262144 < 5" by (auto simp: is_scalar_def)
    ultimately show ?thesis using assms four
      by (simp add: utf8_encode_scalar.simps utf8_decode_one.simps(2) is_continuation_def Let_def)
  qed (simp add: utf8_encode_scalar.simps utf8_decode_one.simps(2))
qed

lemma from_utf8_utf8_bytes:
  "list_all is_scalar s \<Longrightarrow> from_utf8 (utf8_bytes s) = Some s"
proof (induction s)
  case (Cons c s)
  have "utf8_encode_scalar c \<noteq> []" by (simp add: utf8_encode_scalar.simps)
  with Cons show ?case
    by (simp add: from_utf8.simps [of "utf8_encode_scalar c @ utf8_bytes s"]
        utf8_decode_one_encode)
qed (simp add: from_utf8.simps)

section \<open>Closed vocabularies\<close>

text \<open>
  An enumeration with a fixed spelling per variant: \<open>ALL\<close>, \<open>as_str\<close> and \<open>FromStr\<close> of the
  source.  The parser accepts exactly the printed spellings.
\<close>

locale text_codec =
  fixes all :: "'a list"
    and as_str :: "'a \<Rightarrow> rstring"
    and from_str :: "rstring \<Rightarrow> ('a, 'e) result"
  assumes all_complete: "v \<in> set all"
    and parse_print: "from_str (as_str v) = Ok v"
    and print_parse: "from_str s = Ok v \<Longrightarrow> as_str v = s"
begin

lemma as_str_inject: "as_str v = as_str w \<longleftrightarrow> v = w"
  by (metis parse_print sum.inject(2))

lemma parse_iff: "from_str s = Ok v \<longleftrightarrow> s = as_str v"
  using parse_print print_parse by blast

lemma parse_total_iff: "(\<exists>v. from_str s = Ok v) \<longleftrightarrow> s \<in> as_str ` set all"
  using all_complete parse_iff by auto

lemma parse_error_iff: "(\<exists>e. from_str s = Err e) \<longleftrightarrow> s \<notin> as_str ` set all"
  using parse_total_iff by (metis old.sum.exhaust Inl_Inr_False)

end

end
