(* ===== verification/Money_Types.thy ===== *)
theory Money_Types
  imports Prelude
begin

text \<open>
  Currency codes, amounts of money and billing periods: \<open>crates/syrup-rail/src/money.rs\<close>.
  Each type has the source's validating constructor; the well-formedness predicates say what
  the constructors establish, and every other component relies on them.
\<close>

section \<open>Currency codes\<close>

datatype CurrencyCodeError = Invalid

datatype CurrencyCode = CurrencyCode "byte list"

definition CurrencyCode_new :: "rstring \<Rightarrow> (CurrencyCode, CurrencyCodeError) result" where
  "CurrencyCode_new value =
     (let bytes = utf8_bytes value in
      if length bytes \<noteq> 3 then Err CurrencyCodeError.Invalid
      else if \<not> list_all is_ascii_uppercase bytes then Err CurrencyCodeError.Invalid
      else Ok (CurrencyCode bytes))"

text \<open>\<open>None\<close> is the panic of the source's \<open>expect\<close>.\<close>

fun CurrencyCode_as_str :: "CurrencyCode \<Rightarrow> rstring option" where
  "CurrencyCode_as_str (CurrencyCode bytes) = from_utf8 bytes"

definition CurrencyCode_from_str :: "rstring \<Rightarrow> (CurrencyCode, CurrencyCodeError) result" where
  "CurrencyCode_from_str value = CurrencyCode_new value"

fun CurrencyCode_wf :: "CurrencyCode \<Rightarrow> bool" where
  "CurrencyCode_wf (CurrencyCode bytes) \<longleftrightarrow> length bytes = 3 \<and> list_all is_ascii_uppercase bytes"

text \<open>The text of a validated code, whose bytes are ASCII and so are its scalars.\<close>

fun CurrencyCode_text :: "CurrencyCode \<Rightarrow> rstring" where
  "CurrencyCode_text (CurrencyCode bytes) = bytes"

lemma ascii_uppercase_scalar: "is_ascii_uppercase b \<Longrightarrow> b < 128 \<and> is_scalar b"
  by (simp add: is_ascii_uppercase_def is_scalar_def)

lemma utf8_bytes_uppercase: "list_all is_ascii_uppercase s \<Longrightarrow> utf8_bytes s = s"
  by (induction s) (simp_all add: utf8_encode_ascii ascii_uppercase_scalar)

lemma CurrencyCode_new_Ok_iff [result_simps]:
  "CurrencyCode_new v = Ok c \<longleftrightarrow> length v = 3 \<and> list_all is_ascii_uppercase v \<and> c = CurrencyCode v"
proof -
  have "list_all is_ascii_uppercase (utf8_bytes v) \<longleftrightarrow> list_all is_ascii_uppercase v"
    by (rule utf8_all_ascii_iff) (simp add: ascii_uppercase_scalar)
  then show ?thesis
    using utf8_bytes_uppercase [of v] by (auto simp: CurrencyCode_new_def Let_def)
qed

lemma CurrencyCode_new_wf [wf_intros]: "CurrencyCode_new v = Ok c \<Longrightarrow> CurrencyCode_wf c"
  by (auto simp: result_simps)

lemma CurrencyCode_as_str_total:
  assumes "CurrencyCode_wf c"
  shows "CurrencyCode_as_str c = Some (CurrencyCode_text c)"
proof (cases c)
  case (CurrencyCode bytes)
  with assms have up: "list_all is_ascii_uppercase bytes" by simp
  then have "list_all is_scalar bytes"
    by (auto simp: list_all_iff ascii_uppercase_scalar)
  from from_utf8_utf8_bytes [OF this] up CurrencyCode show ?thesis
    by (simp add: utf8_bytes_uppercase)
qed

lemma CurrencyCode_text_no_colon: "CurrencyCode_wf c \<Longrightarrow> colon \<notin> set (CurrencyCode_text c)"
  by (cases c) (auto simp: list_all_iff is_ascii_uppercase_def colon_def)

lemma CurrencyCode_text_inject [simp]: "CurrencyCode_text c = CurrencyCode_text d \<longleftrightarrow> c = d"
  by (cases c; cases d) simp

lemma length_CurrencyCode_text: "CurrencyCode_wf c \<Longrightarrow> length (CurrencyCode_text c) = 3"
  by (cases c) simp

section \<open>Amounts\<close>

datatype MoneyError = Negative | NonPositiveCharge | NonPositiveRefund

record Money =
  money_cents :: int
  money_currency :: CurrencyCode

definition Money_new :: "int \<Rightarrow> CurrencyCode \<Rightarrow> (Money, MoneyError) result" where
  "Money_new cents currency =
     (if cents < 0 then Err Negative
      else Ok \<lparr>money_cents = cents, money_currency = currency\<rparr>)"

datatype ChargeAmount = ChargeAmount Money

definition ChargeAmount_new :: "int \<Rightarrow> CurrencyCode \<Rightarrow> (ChargeAmount, MoneyError) result" where
  "ChargeAmount_new cents currency =
     (if cents \<le> 0 then Err NonPositiveCharge
      else Ok (ChargeAmount \<lparr>money_cents = cents, money_currency = currency\<rparr>))"

primrec ChargeAmount_money :: "ChargeAmount \<Rightarrow> Money" where
  "ChargeAmount_money (ChargeAmount m) = m"

definition ChargeAmount_cents :: "ChargeAmount \<Rightarrow> int" where
  "ChargeAmount_cents a = money_cents (ChargeAmount_money a)"

definition ChargeAmount_currency :: "ChargeAmount \<Rightarrow> CurrencyCode" where
  "ChargeAmount_currency a = money_currency (ChargeAmount_money a)"

definition ChargeAmount_try_from :: "Money \<Rightarrow> (ChargeAmount, MoneyError) result" where
  "ChargeAmount_try_from value =
     (if money_cents value \<le> 0 then Err NonPositiveCharge else Ok (ChargeAmount value))"

datatype CumulativeRefundCents = CumulativeRefundCents int

definition CumulativeRefundCents_new :: "int \<Rightarrow> (CumulativeRefundCents, MoneyError) result" where
  "CumulativeRefundCents_new value =
     (if value \<le> 0 then Err NonPositiveRefund else Ok (CumulativeRefundCents value))"

primrec CumulativeRefundCents_get :: "CumulativeRefundCents \<Rightarrow> int" where
  "CumulativeRefundCents_get (CumulativeRefundCents v) = v"

definition Money_wf :: "Money \<Rightarrow> bool" where
  "Money_wf m \<longleftrightarrow> 0 \<le> money_cents m \<and> is_i32 (money_cents m) \<and> CurrencyCode_wf (money_currency m)"

definition ChargeAmount_wf :: "ChargeAmount \<Rightarrow> bool" where
  "ChargeAmount_wf a \<longleftrightarrow> Money_wf (ChargeAmount_money a) \<and> 0 < ChargeAmount_cents a"

lemma ChargeAmount_accessors [simp]:
  "ChargeAmount_cents (ChargeAmount m) = money_cents m"
  "ChargeAmount_currency (ChargeAmount m) = money_currency m"
  by (simp_all add: ChargeAmount_cents_def ChargeAmount_currency_def)

lemma ChargeAmount_eqI:
  "ChargeAmount_cents a = ChargeAmount_cents b \<Longrightarrow> ChargeAmount_currency a = ChargeAmount_currency b
   \<Longrightarrow> a = b"
  by (cases a; cases b) simp

lemma Money_new_Ok_iff [result_simps]:
  "Money_new c k = Ok m \<longleftrightarrow> 0 \<le> c \<and> m = \<lparr>money_cents = c, money_currency = k\<rparr>"
  by (auto simp: Money_new_def)

lemma ChargeAmount_new_Ok_iff [result_simps]:
  "ChargeAmount_new c k = Ok a \<longleftrightarrow>
     0 < c \<and> ChargeAmount_cents a = c \<and> ChargeAmount_currency a = k"
  by (cases a) (auto simp: ChargeAmount_new_def)

lemma ChargeAmount_try_from_Ok_iff [result_simps]:
  "ChargeAmount_try_from m = Ok a \<longleftrightarrow> 0 < money_cents m \<and> ChargeAmount_money a = m"
  by (cases a) (auto simp: ChargeAmount_try_from_def)

lemma CumulativeRefundCents_new_Ok_iff [result_simps]:
  "CumulativeRefundCents_new v = Ok r \<longleftrightarrow> 0 < v \<and> r = CumulativeRefundCents v"
  by (auto simp: CumulativeRefundCents_new_def)

lemma ChargeAmount_new_wf [wf_intros]:
  "ChargeAmount_new c k = Ok a \<Longrightarrow> is_i32 c \<Longrightarrow> CurrencyCode_wf k \<Longrightarrow> ChargeAmount_wf a"
  by (cases a) (auto simp: result_simps ChargeAmount_wf_def Money_wf_def)

section \<open>Billing periods\<close>

datatype BillingPeriodError = EndNotAfterStart

record BillingPeriod =
  period_start_at :: datetime
  period_end_at :: datetime

definition BillingPeriod_new :: "datetime \<Rightarrow> datetime \<Rightarrow> (BillingPeriod, BillingPeriodError) result" where
  "BillingPeriod_new start_at end_at =
     (if end_at \<le> start_at then Err EndNotAfterStart
      else Ok \<lparr>period_start_at = start_at, period_end_at = end_at\<rparr>)"

definition BillingPeriod_wf :: "BillingPeriod \<Rightarrow> bool" where
  "BillingPeriod_wf p \<longleftrightarrow> period_start_at p < period_end_at p"

lemma BillingPeriod_new_Ok_iff [result_simps]:
  "BillingPeriod_new s e = Ok p \<longleftrightarrow> s < e \<and> p = \<lparr>period_start_at = s, period_end_at = e\<rparr>"
  by (auto simp: BillingPeriod_new_def)

lemma BillingPeriod_new_wf [wf_intros]: "BillingPeriod_new s e = Ok p \<Longrightarrow> BillingPeriod_wf p"
  by (auto simp: result_simps BillingPeriod_wf_def)

end
