(* ===== verification/Identity.thy ===== *)
theory Identity
  imports Money_Types
begin

text \<open>
  Identifiers, keys and the closed vocabularies of attempts and subscriptions:
  \<open>crates/syrup-rail/src/identity.rs\<close>.  A \<open>Uuid\<close> is its 128-bit value; its textual forms belong
  to the uuid crate and are arguments of the definitions that print it.
\<close>

section \<open>UUID identifiers\<close>

type_synonym Uuid = u128

datatype BillingScopeId = BillingScopeId (BillingScopeId_as_uuid: Uuid)
datatype SubscriberId = SubscriberId (SubscriberId_as_uuid: Uuid)
datatype SubscriptionId = SubscriptionId (SubscriptionId_as_uuid: Uuid)
datatype PaymentMethodId = PaymentMethodId (PaymentMethodId_as_uuid: Uuid)
datatype PaymentAttemptId = PaymentAttemptId (PaymentAttemptId_as_uuid: Uuid)
datatype ProcessorChargeId = ProcessorChargeId (ProcessorChargeId_as_uuid: Uuid)
datatype HostChargeTargetId = HostChargeTargetId (HostChargeTargetId_as_uuid: Uuid)
datatype GatewayAccountId = GatewayAccountId (GatewayAccountId_as_uuid: Uuid)
datatype GatewayConfigurationId = GatewayConfigurationId (GatewayConfigurationId_as_uuid: Uuid)
datatype SubscriptionGrantId = SubscriptionGrantId (SubscriptionGrantId_as_uuid: Uuid)
datatype DiscountCodeId = DiscountCodeId (DiscountCodeId_as_uuid: Uuid)
datatype DiscountClaimId = DiscountClaimId (DiscountClaimId_as_uuid: Uuid)
datatype ActorId = ActorId (ActorId_as_uuid: Uuid)

section \<open>Idempotency keys\<close>

datatype IdempotencyKeyError = Empty | TooLong | InvalidCharacter

datatype IdempotencyKey = IdempotencyKey (IdempotencyKey_expose: rstring)

text \<open>\<open>b'.' | b'_' | b':' | b'-'\<close>\<close>

definition is_idempotency_byte :: "byte \<Rightarrow> bool" where
  "is_idempotency_byte b \<longleftrightarrow>
     is_ascii_alphanumeric b \<or> b = 46 \<or> b = 95 \<or> b = 58 \<or> b = 45"

definition IdempotencyKey_new :: "rstring \<Rightarrow> (IdempotencyKey, IdempotencyKeyError) result" where
  "IdempotencyKey_new value =
     (let value = trim value in
      if value = [] then Err IdempotencyKeyError.Empty
      else if byte_len value > 128 then Err IdempotencyKeyError.TooLong
      else if \<not> list_all is_idempotency_byte (utf8_bytes value)
      then Err IdempotencyKeyError.InvalidCharacter
      else Ok (IdempotencyKey value))"

fun IdempotencyKey_wf :: "IdempotencyKey \<Rightarrow> bool" where
  "IdempotencyKey_wf (IdempotencyKey s) \<longleftrightarrow>
     s \<noteq> [] \<and> length s \<le> 128 \<and> list_all is_idempotency_byte s"

lemma is_idempotency_byte_ascii: "is_idempotency_byte b \<Longrightarrow> b < 128"
  by (auto simp: is_idempotency_byte_def ascii_class_defs)

lemma is_idempotency_byte_visible: "is_idempotency_byte b \<Longrightarrow> \<not> is_whitespace b"
  by (rule ascii_visible_not_whitespace) (auto simp: is_idempotency_byte_def ascii_class_defs)

lemma all_idempotency_bytes_iff [simp]:
  "list_all is_idempotency_byte (utf8_bytes s) \<longleftrightarrow> list_all is_idempotency_byte s"
  by (rule utf8_all_ascii_iff) (rule is_idempotency_byte_ascii)

lemma byte_len_idempotency: "list_all is_idempotency_byte s \<Longrightarrow> byte_len s = length s"
  by (rule byte_len_ascii) (auto simp: list_all_iff is_idempotency_byte_ascii)

lemma IdempotencyKey_new_Ok_iff [result_simps]:
  "IdempotencyKey_new v = Ok k \<longleftrightarrow> k = IdempotencyKey (trim v) \<and> IdempotencyKey_wf k"
  by (cases "list_all is_idempotency_byte (trim v)")
     (auto simp: IdempotencyKey_new_def Let_def byte_len_idempotency)

lemma IdempotencyKey_new_expose:
  assumes "IdempotencyKey_wf k"
  shows "IdempotencyKey_new (IdempotencyKey_expose k) = Ok k"
proof (cases k)
  case (IdempotencyKey s)
  with assms have "trim s = s"
    by (intro trim_id_of_no_whitespace) (auto simp: list_all_iff is_idempotency_byte_visible)
  with assms IdempotencyKey show ?thesis
    by (simp add: result_simps)
qed

section \<open>Bounded slugs\<close>

definition MAX_SLUG_BYTES :: nat where
  "MAX_SLUG_BYTES = 64"

datatype SlugError = Empty | TooLong | InvalidCharacter

datatype BoundedSlug = BoundedSlug (BoundedSlug_as_str: rstring)

definition is_slug_start :: "byte \<Rightarrow> bool" where
  "is_slug_start b \<longleftrightarrow> is_ascii_lowercase b \<or> is_ascii_digit b"

text \<open>\<open>matches!(byte, b'_' | b'-')\<close>\<close>

definition is_slug_byte :: "byte \<Rightarrow> bool" where
  "is_slug_byte b \<longleftrightarrow> is_ascii_lowercase b \<or> is_ascii_digit b \<or> b = 95 \<or> b = 45"

definition BoundedSlug_parse :: "rstring \<Rightarrow> (BoundedSlug, SlugError) result" where
  "BoundedSlug_parse value =
     (if value = [] then Err SlugError.Empty
      else if byte_len value > MAX_SLUG_BYTES then Err SlugError.TooLong
      else let bytes = utf8_bytes value in
        if \<not> is_slug_start (hd bytes) then Err SlugError.InvalidCharacter
        else if \<not> list_all is_slug_byte (tl bytes) then Err SlugError.InvalidCharacter
        else Ok (BoundedSlug value))"

datatype PlanKey = PlanKey BoundedSlug
datatype GatewayProviderKey = GatewayProviderKey BoundedSlug
datatype GatewayLifecycleCursorKey = GatewayLifecycleCursorKey BoundedSlug

definition PlanKey_new :: "rstring \<Rightarrow> (PlanKey, SlugError) result" where
  "PlanKey_new value = map_sum id PlanKey (BoundedSlug_parse value)"

definition GatewayProviderKey_new :: "rstring \<Rightarrow> (GatewayProviderKey, SlugError) result" where
  "GatewayProviderKey_new value = map_sum id GatewayProviderKey (BoundedSlug_parse value)"

definition GatewayLifecycleCursorKey_new ::
    "rstring \<Rightarrow> (GatewayLifecycleCursorKey, SlugError) result" where
  "GatewayLifecycleCursorKey_new value = map_sum id GatewayLifecycleCursorKey (BoundedSlug_parse value)"

primrec PlanKey_as_str :: "PlanKey \<Rightarrow> rstring" where
  "PlanKey_as_str (PlanKey s) = BoundedSlug_as_str s"

primrec GatewayProviderKey_as_str :: "GatewayProviderKey \<Rightarrow> rstring" where
  "GatewayProviderKey_as_str (GatewayProviderKey s) = BoundedSlug_as_str s"

primrec GatewayLifecycleCursorKey_as_str :: "GatewayLifecycleCursorKey \<Rightarrow> rstring" where
  "GatewayLifecycleCursorKey_as_str (GatewayLifecycleCursorKey s) = BoundedSlug_as_str s"

lemma PlanKey_as_str_inject [simp]: "PlanKey_as_str a = PlanKey_as_str b \<longleftrightarrow> a = b"
  by (cases a; cases b) (auto intro: BoundedSlug.expand)

fun slug_text :: "rstring \<Rightarrow> bool" where
  "slug_text [] \<longleftrightarrow> False"
| "slug_text (c # s) \<longleftrightarrow> is_slug_start c \<and> list_all is_slug_byte s \<and> length s < 64"

lemma is_slug_start_byte: "is_slug_start b \<Longrightarrow> is_slug_byte b"
  by (auto simp: is_slug_start_def is_slug_byte_def)

lemma is_slug_byte_ascii: "is_slug_byte b \<Longrightarrow> b < 128"
  by (auto simp: is_slug_byte_def ascii_class_defs)

lemma BoundedSlug_parse_Ok_iff [result_simps]:
  "BoundedSlug_parse v = Ok k \<longleftrightarrow> slug_text v \<and> k = BoundedSlug v"
proof (cases v)
  case (Cons c s)
  have tl: "list_all is_slug_byte (utf8_bytes s) \<longleftrightarrow> list_all is_slug_byte s"
    by (rule utf8_all_ascii_iff) (rule is_slug_byte_ascii)
  have len: "byte_len s = length s" if "list_all is_slug_byte s"
    using that by (intro byte_len_ascii) (auto simp: list_all_iff is_slug_byte_ascii)
  show ?thesis
  proof (cases "c < 128")
    case True
    with Cons tl len show ?thesis
      by (auto simp: BoundedSlug_parse_def Let_def utf8_encode_ascii MAX_SLUG_BYTES_def)
  next
    case False
    then obtain b bs where bs: "utf8_encode_scalar c = b # bs" and "128 \<le> b"
      using utf8_encode_non_ascii [of c] by (cases "utf8_encode_scalar c") auto
    with False have "\<not> is_slug_start b" and "\<not> is_slug_start c"
      by (auto simp: is_slug_start_def ascii_class_defs)
    with Cons bs show ?thesis
      by (simp add: BoundedSlug_parse_def Let_def)
  qed
qed (simp add: BoundedSlug_parse_def)

lemma slug_text_no_colon: "slug_text s \<Longrightarrow> colon \<notin> set s"
  by (cases s) (auto simp: list_all_iff is_slug_byte_def is_slug_start_def ascii_class_defs colon_def)

section \<open>Gateway accounts and configurations\<close>

record GatewayAccountRegistration =
  registration_billing_scope_id :: BillingScopeId
  registration_gateway_account_id :: GatewayAccountId
  registration_provider_key :: GatewayProviderKey
  registration_gateway_configuration_id :: GatewayConfigurationId

record GatewayConfigurationActivation =
  activation_billing_scope_id :: BillingScopeId
  activation_gateway_account_id :: GatewayAccountId
  activation_provider_key :: GatewayProviderKey
  activation_expected_configuration_id :: GatewayConfigurationId
  activation_new_configuration_id :: GatewayConfigurationId

datatype GatewayConfigurationActivationOutcome = Activated | AccountNotFound | IdentityChanged

section \<open>Attempt and subscription vocabularies\<close>

datatype PaymentAttemptKind =
    HostCharge
  | SubscriptionInitial
  | SubscriptionRenewal
  | SubscriptionRecovery
  | SubscriptionPaymentMethodUpdate

definition PaymentAttemptKind_ALL :: "PaymentAttemptKind list" where
  "PaymentAttemptKind_ALL =
     [HostCharge, SubscriptionInitial, SubscriptionRenewal, SubscriptionRecovery,
      SubscriptionPaymentMethodUpdate]"

primrec PaymentAttemptKind_as_str :: "PaymentAttemptKind \<Rightarrow> rstring" where
  "PaymentAttemptKind_as_str HostCharge = lit ''host_charge''"
| "PaymentAttemptKind_as_str SubscriptionInitial = lit ''subscription_initial''"
| "PaymentAttemptKind_as_str SubscriptionRenewal = lit ''subscription_renewal''"
| "PaymentAttemptKind_as_str SubscriptionRecovery = lit ''subscription_recovery''"
| "PaymentAttemptKind_as_str SubscriptionPaymentMethodUpdate =
     lit ''subscription_payment_method_update''"

datatype PaymentAttemptKindParseError = PaymentAttemptKindParseError

definition PaymentAttemptKind_from_str ::
    "rstring \<Rightarrow> (PaymentAttemptKind, PaymentAttemptKindParseError) result" where
  "PaymentAttemptKind_from_str value =
     (if value = lit ''host_charge'' then Ok HostCharge
      else if value = lit ''subscription_initial'' then Ok SubscriptionInitial
      else if value = lit ''subscription_renewal'' then Ok SubscriptionRenewal
      else if value = lit ''subscription_recovery'' then Ok SubscriptionRecovery
      else if value = lit ''subscription_payment_method_update''
      then Ok SubscriptionPaymentMethodUpdate
      else Err PaymentAttemptKindParseError)"

datatype PaymentAttemptStatus =
  Pending | Approved | Declined | Unknown | ReviewRequired | Failed

definition PaymentAttemptStatus_ALL :: "PaymentAttemptStatus list" where
  "PaymentAttemptStatus_ALL = [Pending, Approved, Declined, Unknown, ReviewRequired, Failed]"

primrec PaymentAttemptStatus_as_str :: "PaymentAttemptStatus \<Rightarrow> rstring" where
  "PaymentAttemptStatus_as_str Pending = lit ''pending''"
| "PaymentAttemptStatus_as_str Approved = lit ''approved''"
| "PaymentAttemptStatus_as_str Declined = lit ''declined''"
| "PaymentAttemptStatus_as_str Unknown = lit ''unknown''"
| "PaymentAttemptStatus_as_str ReviewRequired = lit ''review_required''"
| "PaymentAttemptStatus_as_str Failed = lit ''failed''"

definition PaymentAttemptStatus_is_resolvable :: "PaymentAttemptStatus \<Rightarrow> bool" where
  "PaymentAttemptStatus_is_resolvable s \<longleftrightarrow> s \<in> {Pending, Unknown, ReviewRequired}"

definition PaymentAttemptStatus_is_terminal :: "PaymentAttemptStatus \<Rightarrow> bool" where
  "PaymentAttemptStatus_is_terminal s \<longleftrightarrow> s \<in> {Approved, Declined, Failed}"

datatype PaymentAttemptStatusParseError = PaymentAttemptStatusParseError

definition PaymentAttemptStatus_from_str ::
    "rstring \<Rightarrow> (PaymentAttemptStatus, PaymentAttemptStatusParseError) result" where
  "PaymentAttemptStatus_from_str value =
     (if value = lit ''pending'' then Ok Pending
      else if value = lit ''approved'' then Ok Approved
      else if value = lit ''declined'' then Ok Declined
      else if value = lit ''unknown'' then Ok Unknown
      else if value = lit ''review_required'' then Ok ReviewRequired
      else if value = lit ''failed'' then Ok Failed
      else Err PaymentAttemptStatusParseError)"

lemma terminal_iff_not_resolvable:
  "PaymentAttemptStatus_is_terminal s \<longleftrightarrow> \<not> PaymentAttemptStatus_is_resolvable s"
  by (cases s)
     (simp_all add: PaymentAttemptStatus_is_terminal_def PaymentAttemptStatus_is_resolvable_def)

datatype PaymentMethodStatus = Active | Disabled

datatype SubscriptionStatus = Active | PastDue | Canceled | Unpaid

definition SubscriptionStatus_ALL :: "SubscriptionStatus list" where
  "SubscriptionStatus_ALL = [SubscriptionStatus.Active, PastDue, Canceled, Unpaid]"

primrec SubscriptionStatus_as_str :: "SubscriptionStatus \<Rightarrow> rstring" where
  "SubscriptionStatus_as_str SubscriptionStatus.Active = lit ''active''"
| "SubscriptionStatus_as_str PastDue = lit ''past_due''"
| "SubscriptionStatus_as_str Canceled = lit ''canceled''"
| "SubscriptionStatus_as_str Unpaid = lit ''unpaid''"

datatype SubscriptionStatusParseError = SubscriptionStatusParseError

definition SubscriptionStatus_from_str ::
    "rstring \<Rightarrow> (SubscriptionStatus, SubscriptionStatusParseError) result" where
  "SubscriptionStatus_from_str value =
     (if value = lit ''active'' then Ok SubscriptionStatus.Active
      else if value = lit ''past_due'' then Ok PastDue
      else if value = lit ''canceled'' then Ok Canceled
      else if value = lit ''unpaid'' then Ok Unpaid
      else Err SubscriptionStatusParseError)"

datatype SubscriptionPhase = PaidTrial | Recurring

definition SubscriptionPhase_ALL :: "SubscriptionPhase list" where
  "SubscriptionPhase_ALL = [PaidTrial, Recurring]"

primrec SubscriptionPhase_as_str :: "SubscriptionPhase \<Rightarrow> rstring" where
  "SubscriptionPhase_as_str PaidTrial = lit ''paid_trial''"
| "SubscriptionPhase_as_str Recurring = lit ''recurring''"

datatype SubscriptionPhaseParseError = SubscriptionPhaseParseError

definition SubscriptionPhase_from_str ::
    "rstring \<Rightarrow> (SubscriptionPhase, SubscriptionPhaseParseError) result" where
  "SubscriptionPhase_from_str value =
     (if value = lit ''paid_trial'' then Ok PaidTrial
      else if value = lit ''recurring'' then Ok Recurring
      else Err SubscriptionPhaseParseError)"

interpretation attempt_kind: text_codec
  PaymentAttemptKind_ALL PaymentAttemptKind_as_str PaymentAttemptKind_from_str
proof unfold_locales
  fix v show "v \<in> set PaymentAttemptKind_ALL"
    by (cases v) (simp_all add: PaymentAttemptKind_ALL_def)
next
  fix v show "PaymentAttemptKind_from_str (PaymentAttemptKind_as_str v) = Ok v"
    by (cases v) (simp_all add: PaymentAttemptKind_from_str_def)
qed (auto simp: PaymentAttemptKind_from_str_def split: if_splits)

interpretation attempt_status: text_codec
  PaymentAttemptStatus_ALL PaymentAttemptStatus_as_str PaymentAttemptStatus_from_str
proof unfold_locales
  fix v show "v \<in> set PaymentAttemptStatus_ALL"
    by (cases v) (simp_all add: PaymentAttemptStatus_ALL_def)
next
  fix v show "PaymentAttemptStatus_from_str (PaymentAttemptStatus_as_str v) = Ok v"
    by (cases v) (simp_all add: PaymentAttemptStatus_from_str_def)
qed (auto simp: PaymentAttemptStatus_from_str_def split: if_splits)

interpretation subscription_status: text_codec
  SubscriptionStatus_ALL SubscriptionStatus_as_str SubscriptionStatus_from_str
proof unfold_locales
  fix v show "v \<in> set SubscriptionStatus_ALL"
    by (cases v) (simp_all add: SubscriptionStatus_ALL_def)
next
  fix v show "SubscriptionStatus_from_str (SubscriptionStatus_as_str v) = Ok v"
    by (cases v) (simp_all add: SubscriptionStatus_from_str_def)
qed (auto simp: SubscriptionStatus_from_str_def split: if_splits)

interpretation subscription_phase: text_codec
  SubscriptionPhase_ALL SubscriptionPhase_as_str SubscriptionPhase_from_str
proof unfold_locales
  fix v show "v \<in> set SubscriptionPhase_ALL"
    by (cases v) (simp_all add: SubscriptionPhase_ALL_def)
next
  fix v show "SubscriptionPhase_from_str (SubscriptionPhase_as_str v) = Ok v"
    by (cases v) (simp_all add: SubscriptionPhase_from_str_def)
qed (auto simp: SubscriptionPhase_from_str_def split: if_splits)

end
