(* ===== verification/Card_Data.thy ===== *)
theory Card_Data
  imports Prelude "HOL-Library.Sublist"
begin

text \<open>
  Detection of card numbers in text: \<open>crates/syrup-rail/src/card_data.rs\<close>.  The scanner walks
  over the UTF-8 bytes of a string, decodes one layer of percent encoding, feeds decimal
  digits to a sliding window of nineteen digits and reports the byte ranges of candidates in
  which some window of thirteen to nineteen digits passes the Luhn test.

  Here the scanner carries the rest of the string beside its byte index;
  \<open>card_scan_boundary\<close> shows that the two stay in step, which is why the source's
  \<open>expect\<close> on a UTF-8 boundary never fires.  The theorems relate the imperative window to
  a declarative one and the scan to a segment-wise specification.
\<close>

section \<open>Unicode tables\<close>

text \<open>
  The general category of a scalar comes from the icu crate and the alphabetic property from
  the tables behind \<open>char::is_alphabetic\<close>: both are parameters.
\<close>

record unicode =
  is_decimal_number :: "nat \<Rightarrow> bool"
  is_alphabetic :: "nat \<Rightarrow> bool"

text \<open>What Unicode says about the ASCII block.\<close>

definition unicode_ascii :: "unicode \<Rightarrow> bool" where
  "unicode_ascii u \<longleftrightarrow>
     (\<forall>c<128. is_decimal_number u c = is_ascii_digit c \<and> is_alphabetic u c = is_ascii_alphabetic c)"

text \<open>The tables restricted to ASCII, used to evaluate the definitions.\<close>

definition ascii_tables :: unicode where
  "ascii_tables = \<lparr>is_decimal_number = is_ascii_digit, is_alphabetic = is_ascii_alphabetic\<rparr>"

lemma unicode_ascii_tables: "unicode_ascii ascii_tables"
  by (simp add: unicode_ascii_def ascii_tables_def)

section \<open>The Luhn test\<close>

definition MIN_PAN_DIGITS :: nat where
  "MIN_PAN_DIGITS = 13"

definition MAX_PAN_DIGITS :: nat where
  "MAX_PAN_DIGITS = 19"

text \<open>One iteration of the loop over the reversed digits: the running \<open>u8\<close> sum and the
  doubling flag.\<close>

fun luhn_step :: "u8 \<Rightarrow> u8 \<times> bool \<Rightarrow> u8 \<times> bool" where
  "luhn_step digit (acc, dbl) =
     (let value = digit;
          value = (if dbl then (let value = value * 2 in if 9 < value then value - 9 else value)
                   else value)
      in (acc + value, \<not> dbl))"

definition luhn_digits_pass :: "u8 list \<Rightarrow> bool" where
  "luhn_digits_pass digits =
     (if \<not> (MIN_PAN_DIGITS \<le> length digits \<and> length digits \<le> MAX_PAN_DIGITS) then False
      else fst (fold luhn_step (rev digits) (0, False)) mod 10 = 0)"

section \<open>The digit window\<close>

record PanDigitWindow =
  pan_digits :: "u8 list"
  pan_len :: nat
  pan_has_luhn_window :: bool

definition PanDigitWindow_new :: PanDigitWindow where
  "PanDigitWindow_new =
     \<lparr>pan_digits = replicate MAX_PAN_DIGITS 0, pan_len = 0, pan_has_luhn_window = False\<rparr>"

definition PanDigitWindow_push :: "PanDigitWindow \<Rightarrow> u8 \<Rightarrow> PanDigitWindow" where
  "PanDigitWindow_push w digit =
     (let w = (if pan_len w < MAX_PAN_DIGITS
               then w\<lparr>pan_digits := (pan_digits w)[pan_len w := digit], pan_len := pan_len w + 1\<rparr>
               else w\<lparr>pan_digits :=
                        (drop 1 (pan_digits w) @ [last (pan_digits w)])[MAX_PAN_DIGITS - 1 := digit]\<rparr>)
      in if pan_has_luhn_window w then w
         else w\<lparr>pan_has_luhn_window :=
                  list_ex (\<lambda>window_len.
                    luhn_digits_pass (drop (pan_len w - window_len) (take (pan_len w) (pan_digits w))))
                  [MIN_PAN_DIGITS..<Suc (pan_len w)]\<rparr>)"

definition PanDigitWindow_reset :: "PanDigitWindow \<Rightarrow> PanDigitWindow" where
  "PanDigitWindow_reset w =
     w\<lparr>pan_digits := replicate (length (pan_digits w)) 0, pan_len := 0, pan_has_luhn_window := False\<rparr>"

section \<open>Decoding\<close>

fun decimal_run_start :: "unicode \<Rightarrow> nat \<Rightarrow> nat" where
  "decimal_run_start u 0 = 0"
| "decimal_run_start u (Suc n) = (if is_decimal_number u n then decimal_run_start u n else Suc n)"

definition decimal_digit_value :: "unicode \<Rightarrow> scalar \<Rightarrow> u8 option" where
  "decimal_digit_value u character =
     (if \<not> is_decimal_number u character then None
      else Some (of_nat ((character - decimal_run_start u character) mod 10)))"

text \<open>\<open>char::to_digit(16)\<close>\<close>

definition to_digit_16 :: "byte \<Rightarrow> nat option" where
  "to_digit_16 b =
     (if 48 \<le> b \<and> b \<le> 57 then Some (b - 48)
      else if 97 \<le> b \<and> b \<le> 102 then Some (b - 87)
      else if 65 \<le> b \<and> b \<le> 70 then Some (b - 55)
      else None)"

definition byte_get :: "byte list \<Rightarrow> nat \<Rightarrow> byte option" where
  "byte_get bs i = (if i < length bs then Some (bs ! i) else None)"

definition percent_decoded_byte :: "byte list \<Rightarrow> nat \<Rightarrow> byte option" where
  "percent_decoded_byte value index =
     (if byte_get value index \<noteq> Some 37 then None
      else Option.bind (Option.bind (byte_get value (index + 1)) to_digit_16) (\<lambda>high.
           Option.bind (Option.bind (byte_get value (index + 2)) to_digit_16) (\<lambda>low.
           Some (high * 16 + low))))"

definition utf8_width :: "byte \<Rightarrow> nat option" where
  "utf8_width first =
     (if first \<le> 0x7F then Some 1
      else if 0xC2 \<le> first \<and> first \<le> 0xDF then Some 2
      else if 0xE0 \<le> first \<and> first \<le> 0xEF then Some 3
      else if 0xF0 \<le> first \<and> first \<le> 0xF4 then Some 4
      else None)"

fun percent_decoded_bytes :: "byte list \<Rightarrow> nat \<Rightarrow> nat \<Rightarrow> byte list option" where
  "percent_decoded_bytes value index 0 = Some []"
| "percent_decoded_bytes value index (Suc n) =
     Option.bind (percent_decoded_byte value index) (\<lambda>b.
     map_option (Cons b) (percent_decoded_bytes value (index + 3) n))"

definition percent_decoded_scalar :: "byte list \<Rightarrow> nat \<Rightarrow> (scalar \<times> nat) option" where
  "percent_decoded_scalar value index =
     Option.bind (percent_decoded_byte value index) (\<lambda>first.
     Option.bind (utf8_width first) (\<lambda>width.
     Option.bind (percent_decoded_bytes value index width) (\<lambda>decoded.
     Option.bind (from_utf8 decoded) (\<lambda>characters.
       case characters of [character] \<Rightarrow> Some (character, index + width * 3) | _ \<Rightarrow> None))))"

text \<open>
  The scalar at \<open>index\<close>, the index after it and the string left there.  A decoded escape
  consists of ASCII characters, so that many bytes are that many scalars.
\<close>

definition next_card_scan_scalar :: "rstring \<Rightarrow> nat \<Rightarrow> scalar \<Rightarrow> rstring \<Rightarrow> scalar \<times> nat \<times> rstring" where
  "next_card_scan_scalar value index c rest =
     (case (if c = 37 then percent_decoded_scalar (utf8_bytes value) index else None) of
        Some (decoded, next_index) \<Rightarrow> (decoded, next_index, drop (next_index - index) (c # rest))
      | None \<Rightarrow> (c, index + length (utf8_encode_scalar c), rest))"

section \<open>The scan\<close>

definition parse_ascii_digits :: "byte list \<Rightarrow> nat" where
  "parse_ascii_digits bytes = foldl (\<lambda>value b. value * 10 + (b - 48)) 0 bytes"

definition candidate_is_compact_date_time :: "byte list \<Rightarrow> bool" where
  "candidate_is_compact_date_time bytes =
     (if length bytes \<noteq> 14 \<or> \<not> list_all is_ascii_digit bytes then False
      else let field = (\<lambda>a b. parse_ascii_digits (take (b - a) (drop a bytes)));
               year = field 0 4; month = field 4 6; day = field 6 8;
               hour = field 8 10; minute = field 10 12; second = field 12 14
           in 2000 \<le> year \<and> year \<le> 2099 \<and> 1 \<le> month \<and> month \<le> 12 \<and> 1 \<le> day \<and> day \<le> 31 \<and>
              hour \<le> 23 \<and> minute \<le> 59 \<and> second \<le> 59)"

record card_scan =
  scan_ranges :: "(nat \<times> nat) list"
  scan_digits :: PanDigitWindow
  scan_candidate_start :: "nat option"
  scan_candidate_end :: nat

definition byte_slice :: "rstring \<Rightarrow> nat \<Rightarrow> nat \<Rightarrow> byte list" where
  "byte_slice value a b = take (b - a) (drop a (utf8_bytes value))"

definition push_raw_card_range ::
    "rstring \<Rightarrow> (nat \<times> nat) list \<Rightarrow> nat option \<Rightarrow> nat \<Rightarrow> PanDigitWindow \<Rightarrow> (nat \<times> nat) list" where
  "push_raw_card_range value ranges candidate_start candidate_end digits =
     (case candidate_start of
        None \<Rightarrow> ranges
      | Some start \<Rightarrow>
          if \<not> pan_has_luhn_window digits then ranges
          else if candidate_is_compact_date_time (byte_slice value start candidate_end) then ranges
          else ranges @ [(start, candidate_end)])"

text \<open>The body of the scanning loop, for the scalar found between \<open>index\<close> and \<open>next_index\<close>.\<close>

definition card_scan_step ::
    "unicode \<Rightarrow> rstring \<Rightarrow> nat \<Rightarrow> scalar \<Rightarrow> nat \<Rightarrow> card_scan \<Rightarrow> card_scan" where
  "card_scan_step u value index character next_index st =
     (case decimal_digit_value u character of
        Some digit \<Rightarrow>
          st\<lparr>scan_candidate_start :=
               (case scan_candidate_start st of None \<Rightarrow> Some index | Some s \<Rightarrow> Some s),
             scan_candidate_end := next_index,
             scan_digits := PanDigitWindow_push (scan_digits st) digit\<rparr>
      | None \<Rightarrow>
          if is_alphabetic u character
          then st\<lparr>scan_ranges :=
                    push_raw_card_range value (scan_ranges st) (scan_candidate_start st)
                      (scan_candidate_end st) (scan_digits st),
                  scan_candidate_start := None,
                  scan_digits := PanDigitWindow_reset (scan_digits st)\<rparr>
          else st)"

lemma percent_decoded_scalar_width:
  "percent_decoded_scalar value index = Some (c, n) \<Longrightarrow>
     \<exists>w ds. 1 \<le> w \<and> n = index + w * 3 \<and> percent_decoded_bytes value index w = Some ds"
proof -
  assume "percent_decoded_scalar value index = Some (c, n)"
  then obtain b w ds cs where "utf8_width b = Some w" and "percent_decoded_bytes value index w = Some ds"
    and "(case cs of [ch] \<Rightarrow> Some (ch, index + w * 3) | _ \<Rightarrow> None) = Some (c, n)"
    unfolding percent_decoded_scalar_def bind_eq_Some_conv by blast
  moreover from this have "1 \<le> w" and "n = index + w * 3"
    by (simp_all add: utf8_width_def split: if_splits list.splits)
  ultimately show ?thesis by blast
qed

lemma next_card_scan_scalar_shrinks:
  "next_card_scan_scalar value index c rest = (ch, n, rest') \<Longrightarrow>
     length rest' \<le> length rest \<and> index < n"
proof -
  have "0 < length (utf8_encode_scalar c)" by (simp add: utf8_encode_scalar.simps)
  then show "next_card_scan_scalar value index c rest = (ch, n, rest') \<Longrightarrow> ?thesis"
    by (auto simp: next_card_scan_scalar_def drop_Cons' split: option.splits if_splits
        dest!: percent_decoded_scalar_width)
qed

function card_scan_loop ::
    "unicode \<Rightarrow> rstring \<Rightarrow> nat \<Rightarrow> rstring \<Rightarrow> card_scan \<Rightarrow> card_scan" where
  "card_scan_loop u value index [] st = st"
| "card_scan_loop u value index (c # rest) st =
     (case next_card_scan_scalar value index c rest of
        (character, next_index, rest') \<Rightarrow>
          card_scan_loop u value next_index rest'
            (card_scan_step u value index character next_index st))"
  by pat_completeness auto

termination card_scan_loop
  by (relation "measure (\<lambda>(u, v, i, rest, st). length rest)")
     (auto dest!: next_card_scan_scalar_shrinks [OF sym])

definition card_scan_init :: card_scan where
  "card_scan_init =
     \<lparr>scan_ranges = [], scan_digits = PanDigitWindow_new, scan_candidate_start = None,
      scan_candidate_end = 0\<rparr>"

definition raw_card_data_ranges :: "unicode \<Rightarrow> rstring \<Rightarrow> (nat \<times> nat) list" where
  "raw_card_data_ranges u value =
     (let st = card_scan_loop u value 0 value card_scan_init
      in push_raw_card_range value (scan_ranges st) (scan_candidate_start st)
           (scan_candidate_end st) (scan_digits st))"

definition string_contains_raw_card_data :: "unicode \<Rightarrow> rstring \<Rightarrow> bool" where
  "string_contains_raw_card_data u value \<longleftrightarrow> raw_card_data_ranges u value \<noteq> []"

section \<open>The Luhn test against its definition\<close>

fun luhn_weight :: "bool \<Rightarrow> nat \<Rightarrow> nat" where
  "luhn_weight dbl d = (if dbl then if 9 < 2 * d then 2 * d - 9 else 2 * d else d)"

text \<open>The checksum read from the last digit, every second digit doubled.\<close>

fun luhn_checksum :: "bool \<Rightarrow> nat list \<Rightarrow> nat" where
  "luhn_checksum dbl [] = 0"
| "luhn_checksum dbl (d # ds) = luhn_weight dbl d + luhn_checksum (\<not> dbl) ds"

definition luhn_valid :: "nat list \<Rightarrow> bool" where
  "luhn_valid ds \<longleftrightarrow>
     13 \<le> length ds \<and> length ds \<le> 19 \<and> luhn_checksum False (rev ds) mod 10 = 0"

definition is_digit_value :: "u8 \<Rightarrow> bool" where
  "is_digit_value d \<longleftrightarrow> unat d \<le> 9"

lemma unat_u8_mult_2: "unat (d :: u8) \<le> 9 \<Longrightarrow> unat (d * 2) = 2 * unat d"
  by (simp add: unat_word_ariths)

lemma luhn_step_weight:
  assumes "is_digit_value d" and "unat acc + 9 < 256"
  shows "\<exists>acc'. luhn_step d (acc, dbl) = (acc', \<not> dbl) \<and>
           unat acc' = unat acc + luhn_weight dbl (unat d)"
    and "luhn_weight dbl (unat d) \<le> 9"
proof -
  let ?v = "if dbl then if 9 < d * 2 then d * 2 - 9 else d * 2 else d"
  have d: "unat d \<le> 9" using assms(1) by (simp add: is_digit_value_def)
  show w: "luhn_weight dbl (unat d) \<le> 9" using d by auto
  have gt: "9 < d * 2 \<longleftrightarrow> 9 < 2 * unat d"
    by (simp add: word_less_nat_alt unat_u8_mult_2 [OF d])
  have "unat (d * 2 - 9) = 2 * unat d - 9" if "9 < 2 * unat d"
    using that by (subst unat_sub) (simp_all add: word_le_nat_alt unat_u8_mult_2 [OF d])
  then have v: "unat ?v = luhn_weight dbl (unat d)"
    using gt by (simp add: unat_u8_mult_2 [OF d])
  have "unat (acc + ?v) = unat acc + unat ?v"
    using w v assms(2) by (subst unat_add_lem [symmetric]) simp_all
  then show "\<exists>acc'. luhn_step d (acc, dbl) = (acc', \<not> dbl) \<and>
      unat acc' = unat acc + luhn_weight dbl (unat d)"
    unfolding v luhn_step.simps Let_def by blast
qed

lemma luhn_fold_checksum:
  assumes "list_all is_digit_value ds" and "unat acc + 9 * length ds < 256"
  shows "unat (fst (fold luhn_step ds (acc, dbl))) = unat acc + luhn_checksum dbl (map unat ds)"
  using assms
proof (induction ds arbitrary: acc dbl)
  case (Cons d ds)
  then have d: "is_digit_value d" and b: "unat acc + 9 < 256" by simp_all
  obtain acc' where st: "luhn_step d (acc, dbl) = (acc', \<not> dbl)"
    and acc': "unat acc' = unat acc + luhn_weight dbl (unat d)"
    using luhn_step_weight(1) [OF d b] by blast
  have "unat acc' + 9 * length ds < 256"
    using Cons.prems(2) acc' luhn_step_weight(2) [OF d b, of dbl] by simp
  with Cons.IH [of acc' "\<not> dbl"] Cons.prems(1) st acc' show ?case
    by (simp del: luhn_step.simps)
qed simp

lemma luhn_digits_pass_iff:
  assumes "list_all is_digit_value ds"
  shows "luhn_digits_pass ds \<longleftrightarrow> luhn_valid (map unat ds)"
proof (cases "13 \<le> length ds \<and> length ds \<le> 19")
  case True
  let ?s = "fst (fold luhn_step (rev ds) (0, False))"
  have "unat ?s = luhn_checksum False (rev (map unat ds))"
    using True assms by (subst luhn_fold_checksum) (simp_all add: rev_map)
  then have "?s mod 10 = 0 \<longleftrightarrow> luhn_checksum False (rev (map unat ds)) mod 10 = 0"
    by (simp add: word_unat_eq_iff unat_mod)
  with True show ?thesis
    by (simp add: luhn_digits_pass_def luhn_valid_def MIN_PAN_DIGITS_def MAX_PAN_DIGITS_def)
qed (auto simp: luhn_digits_pass_def luhn_valid_def MIN_PAN_DIGITS_def MAX_PAN_DIGITS_def)

section \<open>The window against all windows of the digits seen\<close>

definition contains_pan :: "u8 list \<Rightarrow> bool" where
  "contains_pan ds \<longleftrightarrow> (\<exists>w. sublist w ds \<and> luhn_digits_pass w)"

text \<open>The window holds the last nineteen digits and knows whether any window passed.\<close>

definition pan_window_for :: "PanDigitWindow \<Rightarrow> u8 list \<Rightarrow> bool" where
  "pan_window_for w ds \<longleftrightarrow>
     length (pan_digits w) = 19 \<and> pan_len w = min 19 (length ds) \<and>
     take (pan_len w) (pan_digits w) = drop (length ds - pan_len w) ds \<and>
     pan_has_luhn_window w = contains_pan ds"

lemma luhn_digits_pass_length: "luhn_digits_pass w \<Longrightarrow> 13 \<le> length w \<and> length w \<le> 19"
  by (simp add: luhn_digits_pass_def MIN_PAN_DIGITS_def MAX_PAN_DIGITS_def split: if_splits)

lemma contains_pan_snoc:
  "contains_pan (ds @ [d]) \<longleftrightarrow>
     contains_pan ds \<or> (\<exists>w. suffix w (ds @ [d]) \<and> luhn_digits_pass w)"
  by (auto simp: contains_pan_def sublist_snoc)

lemma contains_pan_Nil: "\<not> contains_pan []"
  by (auto simp: contains_pan_def dest: luhn_digits_pass_length)

lemma pan_window_new: "pan_window_for PanDigitWindow_new []"
  by (simp add: pan_window_for_def PanDigitWindow_new_def MAX_PAN_DIGITS_def contains_pan_Nil)

lemma pan_window_reset: "pan_window_for w ds \<Longrightarrow> pan_window_for (PanDigitWindow_reset w) []"
  by (simp add: pan_window_for_def PanDigitWindow_reset_def contains_pan_Nil)

text \<open>The windows \<open>push\<close> tries are the passing suffixes of the digits seen.\<close>

lemma tried_windows_iff:
  assumes tail: "t = drop (length es - n) es" and n: "n = min 19 (length es)"
  shows "list_ex (\<lambda>k. luhn_digits_pass (drop (n - k) t)) [MIN_PAN_DIGITS..<Suc n] \<longleftrightarrow>
         (\<exists>w. suffix w es \<and> luhn_digits_pass w)"
proof
  assume "list_ex (\<lambda>k. luhn_digits_pass (drop (n - k) t)) [MIN_PAN_DIGITS..<Suc n]"
  then obtain k where "luhn_digits_pass (drop (n - k) t)" by (auto simp: list_ex_iff)
  then show "\<exists>w. suffix w es \<and> luhn_digits_pass w"
    unfolding tail drop_drop using suffix_drop by blast
next
  assume "\<exists>w. suffix w es \<and> luhn_digits_pass w"
  then obtain w where suf: "suffix w es" and pass: "luhn_digits_pass w" by blast
  from luhn_digits_pass_length [OF pass] have len: "13 \<le> length w" "length w \<le> 19" by auto
  from suf have le: "length w \<le> length es" by (rule suffix_length_le)
  from suf have "w = drop (length es - length w) es"
    by (auto elim: suffixE)
  moreover have "length es - length w = n - length w + (length es - n)"
    using len le n by auto
  ultimately have "w = drop (n - length w) t"
    by (simp add: tail)
  with pass have "luhn_digits_pass (drop (n - length w) t)" by simp
  moreover have "length w \<in> set [MIN_PAN_DIGITS..<Suc n]"
    using len le n by (auto simp: MIN_PAN_DIGITS_def)
  ultimately show "list_ex (\<lambda>k. luhn_digits_pass (drop (n - k) t)) [MIN_PAN_DIGITS..<Suc n]"
    by (auto simp: list_ex_iff)
qed

lemma pan_window_push:
  assumes "pan_window_for w ds"
  shows "pan_window_for (PanDigitWindow_push w d) (ds @ [d])"
proof -
  let ?w = "if pan_len w < MAX_PAN_DIGITS
            then w\<lparr>pan_digits := (pan_digits w)[pan_len w := d], pan_len := pan_len w + 1\<rparr>
            else w\<lparr>pan_digits := (drop 1 (pan_digits w) @ [last (pan_digits w)])[MAX_PAN_DIGITS - 1 := d]\<rparr>"
  let ?es = "ds @ [d]"
  from assms have l19: "length (pan_digits w) = 19" and len: "pan_len w = min 19 (length ds)"
    and tk: "take (pan_len w) (pan_digits w) = drop (length ds - pan_len w) ds"
    and has: "pan_has_luhn_window w = contains_pan ds"
    unfolding pan_window_for_def by blast+
  have n: "length (pan_digits ?w) = 19" "pan_len ?w = min 19 (length ?es)"
    using l19 len by (auto simp: MAX_PAN_DIGITS_def)
  have tail: "take (pan_len ?w) (pan_digits ?w) = drop (length ?es - pan_len ?w) ?es"
  proof (cases "length ds < 19")
    case True
    with l19 len tk show ?thesis
      by (simp add: MAX_PAN_DIGITS_def take_Suc_conv_app_nth)
  next
    case False
    with l19 len tk have eq: "pan_digits w = drop (length ds - 19) ds" by simp
    have "(drop 1 (pan_digits w) @ [last (pan_digits w)])[18 := d] = drop 1 (pan_digits w) @ [d]"
      using l19 by (simp add: list_update_append)
    then have "pan_digits ?w = drop 1 (pan_digits w) @ [d]" and "pan_len ?w = 19"
      using False len by (simp_all add: MAX_PAN_DIGITS_def)
    moreover have "length ?es - 19 = Suc (length ds - 19)" using False by simp
    ultimately show ?thesis using False l19 eq by simp
  qed
  note tried = tried_windows_iff [OF tail n(2)]
  have has': "pan_has_luhn_window ?w = contains_pan ds" using has by simp
  have push: "PanDigitWindow_push w d =
      (if contains_pan ds then ?w
       else ?w\<lparr>pan_has_luhn_window := (\<exists>v. suffix v ?es \<and> luhn_digits_pass v)\<rparr>)"
    unfolding PanDigitWindow_push_def Let_def has' tried ..
  show ?thesis
  proof (cases "contains_pan ds")
    case True
    then show ?thesis
      unfolding pan_window_for_def push contains_pan_snoc using n tail has' by simp
  next
    case False
    then show ?thesis
      unfolding pan_window_for_def push contains_pan_snoc using n tail by simp
  qed
qed

lemma pan_window_pushes: "pan_window_for w ds \<Longrightarrow> pan_window_for (foldl PanDigitWindow_push w es) (ds @ es)"
proof (induction es arbitrary: w ds)
  case (Cons e es)
  from Cons.IH [OF pan_window_push [OF Cons.prems, of e]] show ?case by simp
qed simp

section \<open>The scanner stays on character boundaries\<close>

lemma utf8_bytes_drop_ascii:
  assumes "k \<le> length (utf8_bytes s)" and "\<forall>j<k. utf8_bytes s ! j < 128"
  shows "utf8_bytes (drop k s) = drop k (utf8_bytes s)"
  using assms
proof (induction k arbitrary: s)
  case (Suc k)
  show ?case
  proof (cases s)
    case (Cons c t)
    have "c < 128"
    proof (rule ccontr)
      assume "\<not> c < 128"
      then obtain b bs where "utf8_encode_scalar c = b # bs" and "128 \<le> b"
        using utf8_encode_non_ascii [of c] by (cases "utf8_encode_scalar c") auto
      moreover have "utf8_bytes s ! 0 < 128" using Suc.prems(2) by blast
      ultimately show False using Cons by simp
    qed
    then have bs: "utf8_bytes s = c # utf8_bytes t" using Cons by (simp add: utf8_encode_ascii)
    have "utf8_bytes (drop k t) = drop k (utf8_bytes t)"
    proof (rule Suc.IH)
      show "k \<le> length (utf8_bytes t)" using Suc.prems(1) bs by simp
      show "\<forall>j<k. utf8_bytes t ! j < 128"
        using Suc.prems(2) bs by (metis Suc_less_eq nth_Cons_Suc)
    qed
    then show ?thesis unfolding bs using Cons by simp
  qed simp
qed simp

lemma percent_decoded_byte_ascii:
  assumes "percent_decoded_byte bs i = Some b"
  shows "i + 2 < length bs \<and> bs ! i < 128 \<and> bs ! (i + 1) < 128 \<and> bs ! (i + 2) < 128"
proof -
  have hex: "x < 128" if "to_digit_16 x = Some d" for x d
    using that by (simp add: to_digit_16_def split: if_splits)
  from assms obtain h l where "byte_get bs i = Some 37"
    and "Option.bind (byte_get bs (i + 1)) to_digit_16 = Some h"
    and "Option.bind (byte_get bs (i + 2)) to_digit_16 = Some l"
    by (auto simp: percent_decoded_byte_def bind_eq_Some_conv split: if_splits)
  then show ?thesis
    by (auto simp: byte_get_def bind_eq_Some_conv dest: hex split: if_splits)
qed

lemma percent_decoded_bytes_ascii:
  assumes "percent_decoded_bytes bs i w = Some ds"
  shows "\<forall>j < w * 3. i + j < length bs \<and> bs ! (i + j) < 128"
  using assms
proof (induction w arbitrary: i ds)
  case (Suc w)
  then obtain b ds' where b: "percent_decoded_byte bs i = Some b"
    and ds': "percent_decoded_bytes bs (i + 3) w = Some ds'"
    by (auto simp: bind_eq_Some_conv)
  show ?case
  proof (intro allI impI)
    fix j assume j: "j < Suc w * 3"
    show "i + j < length bs \<and> bs ! (i + j) < 128"
    proof (cases "j < 3")
      case True
      then have "j = 0 \<or> j = 1 \<or> j = 2" by auto
      then show ?thesis using percent_decoded_byte_ascii [OF b] by auto
    next
      case False
      with j have "j - 3 < w * 3" by simp
      with Suc.IH [OF ds'] have "i + 3 + (j - 3) < length bs \<and> bs ! (i + 3 + (j - 3)) < 128"
        by blast
      with False show ?thesis by simp
    qed
  qed
qed simp

text \<open>The rest the scanner carries is always the string at its byte index.\<close>

definition on_boundary :: "rstring \<Rightarrow> nat \<Rightarrow> rstring \<Rightarrow> bool" where
  "on_boundary text index rest \<longleftrightarrow>
     index \<le> byte_len text \<and> utf8_bytes rest = drop index (utf8_bytes text)"

lemma next_scalar_on_boundary:
  assumes at: "on_boundary text index (c # rest)"
    and nx: "next_card_scan_scalar text index c rest = (ch, n, rest')"
  shows "on_boundary text n rest'"
proof -
  let ?bs = "utf8_bytes text"
  from at have le: "index \<le> length ?bs" and eq: "utf8_bytes (c # rest) = drop index ?bs"
    unfolding on_boundary_def byte_len_def by blast+
  consider (pct) "percent_decoded_scalar ?bs index = Some (ch, n)"
      "rest' = drop (n - index) (c # rest)"
    | (plain) "n = index + length (utf8_encode_scalar c)" "rest' = rest"
    using nx by (auto simp: next_card_scan_scalar_def split: option.splits if_splits)
  then show ?thesis
  proof cases
    case pct
    from percent_decoded_scalar_width [OF pct(1)] obtain w ds
      where n: "n = index + w * 3" and "1 \<le> w" and ds: "percent_decoded_bytes ?bs index w = Some ds"
      by blast
    note asc = percent_decoded_bytes_ascii [OF ds]
    have "w * 3 - 1 < w * 3" using \<open>1 \<le> w\<close> by simp
    with asc have "index + (w * 3 - 1) < length ?bs" by blast
    then have fit: "w * 3 \<le> length ?bs - index" using \<open>1 \<le> w\<close> by linarith
    have "utf8_bytes (drop (w * 3) (c # rest)) = drop (w * 3) (utf8_bytes (c # rest))"
    proof (rule utf8_bytes_drop_ascii)
      show "w * 3 \<le> length (utf8_bytes (c # rest))" unfolding eq using fit by simp
      show "\<forall>j<w * 3. utf8_bytes (c # rest) ! j < 128" unfolding eq using asc le by auto
    qed
    then have "utf8_bytes rest' = drop n ?bs"
      unfolding pct(2) n eq by (simp add: add.commute)
    then show ?thesis unfolding on_boundary_def byte_len_def n using fit le by simp
  next
    case plain
    have "drop (length (utf8_encode_scalar c)) (utf8_bytes (c # rest)) = utf8_bytes rest" by simp
    then have "utf8_bytes rest = drop n ?bs" unfolding plain eq by (simp add: add.commute)
    moreover have "length (utf8_encode_scalar c) \<le> length ?bs - index"
      using arg_cong [OF eq, of length] by simp
    ultimately show ?thesis unfolding on_boundary_def byte_len_def using plain le by simp
  qed
qed

section \<open>The scan as a fold over decoded scalars\<close>

type_synonym card_token = "scalar \<times> nat \<times> nat"

function card_tokens :: "rstring \<Rightarrow> nat \<Rightarrow> rstring \<Rightarrow> card_token list" where
  "card_tokens v index [] = []"
| "card_tokens v index (c # rest) =
     (case next_card_scan_scalar v index c rest of
        (character, next_index, rest') \<Rightarrow>
          (character, index, next_index) # card_tokens v next_index rest')"
  by pat_completeness auto

termination card_tokens
  by (relation "measure (\<lambda>(v, i, rest). length rest)")
     (auto dest!: next_card_scan_scalar_shrinks [OF sym])

lemma card_scan_loop_fold:
  "card_scan_loop u v i rest st =
     fold (\<lambda>(c, i, n). card_scan_step u v i c n) (card_tokens v i rest) st"
  by (induction u v i rest st rule: card_scan_loop.induct) (simp_all split: prod.split)

text \<open>Consecutive, non-empty spans between two positions.\<close>

fun spans_within :: "nat \<Rightarrow> nat \<Rightarrow> (nat \<times> nat) list \<Rightarrow> bool" where
  "spans_within lo hi [] \<longleftrightarrow> lo \<le> hi"
| "spans_within lo hi ((a, b) # rs) \<longleftrightarrow> lo \<le> a \<and> a < b \<and> spans_within b hi rs"

lemma spans_within_mono: "spans_within l hi rs \<Longrightarrow> lo \<le> l \<Longrightarrow> spans_within lo hi rs"
  by (cases rs) auto

lemma spans_within_remove: "spans_within lo hi (xs @ y # ys) \<Longrightarrow> spans_within lo hi (xs @ ys)"
  by (induction xs arbitrary: lo) (cases y; auto intro: spans_within_mono)+

lemma spans_within_le: "spans_within lo hi rs \<Longrightarrow> lo \<le> hi"
  by (induction rs arbitrary: lo) fastforce+

lemma spans_within_hull:
  "spans_within lo hi (xs @ ys) \<Longrightarrow> xs \<noteq> [] \<Longrightarrow>
     lo \<le> fst (hd xs) \<and> fst (hd xs) < snd (last xs) \<and> spans_within (snd (last xs)) hi ys"
proof (induction xs arbitrary: lo)
  case (Cons x xs)
  show ?case
  proof (cases "xs = []")
    case False
    with Cons have "snd x \<le> fst (hd xs) \<and> fst (hd xs) < snd (last xs) \<and>
        spans_within (snd (last xs)) hi ys"
      by (cases x) auto
    with Cons.prems False show ?thesis by (cases x) auto
  qed (use Cons.prems in \<open>cases x; auto\<close>)
qed simp

lemma card_tokens_spans:
  "on_boundary v index rest \<Longrightarrow> spans_within index (byte_len v) (map snd (card_tokens v index rest))"
proof (induction v index rest rule: card_tokens.induct)
  case (2 v index c rest)
  obtain ch n rest' where nx: "next_card_scan_scalar v index c rest = (ch, n, rest')"
    by (metis prod.exhaust)
  with 2 next_scalar_on_boundary [OF 2(2) nx] next_card_scan_scalar_shrinks [OF nx]
  show ?case by simp
qed (simp add: on_boundary_def)

section \<open>The scan segment by segment\<close>

text \<open>
  A segment is the digits between two letters, with the bytes each was read from; scalars
  that are neither digits nor letters separate nothing.
\<close>

type_synonym card_segment = "(u8 \<times> nat \<times> nat) list"

fun card_segments :: "unicode \<Rightarrow> card_segment \<Rightarrow> card_token list \<Rightarrow> card_segment list" where
  "card_segments u seg [] = [seg]"
| "card_segments u seg ((c, span) # ts) =
     (case decimal_digit_value u c of
        Some d \<Rightarrow> card_segments u (seg @ [(d, span)]) ts
      | None \<Rightarrow> if is_alphabetic u c then seg # card_segments u [] ts
                 else card_segments u seg ts)"

definition segment_hull :: "card_segment \<Rightarrow> nat \<times> nat" where
  "segment_hull seg = (fst (snd (hd seg)), snd (snd (last seg)))"

definition segment_is_card :: "rstring \<Rightarrow> card_segment \<Rightarrow> bool" where
  "segment_is_card v seg \<longleftrightarrow>
     contains_pan (map fst seg) \<and>
     \<not> candidate_is_compact_date_time (byte_slice v (fst (segment_hull seg)) (snd (segment_hull seg)))"

definition card_segments_of :: "unicode \<Rightarrow> rstring \<Rightarrow> card_segment list" where
  "card_segments_of u v = card_segments u [] (card_tokens v 0 v)"

definition scan_at_segment :: "card_scan \<Rightarrow> card_segment \<Rightarrow> bool" where
  "scan_at_segment st seg \<longleftrightarrow>
     pan_window_for (scan_digits st) (map fst seg) \<and>
     scan_candidate_start st = (if seg = [] then None else Some (fst (segment_hull seg))) \<and>
     (seg \<noteq> [] \<longrightarrow> scan_candidate_end st = snd (segment_hull seg))"

lemma push_raw_card_range_segment:
  assumes "scan_at_segment st seg"
  shows "push_raw_card_range v rs (scan_candidate_start st) (scan_candidate_end st) (scan_digits st) =
         rs @ map segment_hull (filter (segment_is_card v) [seg])"
  using assms
  by (cases "seg = []")
     (auto simp: push_raw_card_range_def scan_at_segment_def pan_window_for_def segment_is_card_def
       contains_pan_Nil)

lemma card_scan_step_digit:
  assumes at: "scan_at_segment st seg" and d: "decimal_digit_value u c = Some d"
  shows "scan_at_segment (card_scan_step u v i c n st) (seg @ [(d, i, n)])"
    and "scan_ranges (card_scan_step u v i c n st) = scan_ranges st"
proof -
  from at have "pan_window_for (scan_digits st) (map fst seg)" by (simp add: scan_at_segment_def)
  from pan_window_push [OF this, of d] at d
  show "scan_at_segment (card_scan_step u v i c n st) (seg @ [(d, i, n)])"
    by (cases "seg = []") (simp_all add: scan_at_segment_def card_scan_step_def segment_hull_def)
qed (simp add: card_scan_step_def d)

lemma card_scan_step_letter:
  assumes at: "scan_at_segment st seg" and d: "decimal_digit_value u c = None"
    and a: "is_alphabetic u c"
  shows "scan_at_segment (card_scan_step u v i c n st) []"
    and "scan_ranges (card_scan_step u v i c n st) =
         scan_ranges st @ map segment_hull (filter (segment_is_card v) [seg])"
proof -
  from at have "pan_window_for (scan_digits st) (map fst seg)" by (simp add: scan_at_segment_def)
  from pan_window_reset [OF this] d a show "scan_at_segment (card_scan_step u v i c n st) []"
    by (simp add: scan_at_segment_def card_scan_step_def)
  show "scan_ranges (card_scan_step u v i c n st) =
      scan_ranges st @ map segment_hull (filter (segment_is_card v) [seg])"
    using push_raw_card_range_segment [OF at] d a by (simp add: card_scan_step_def)
qed

lemma card_scan_fold_segments:
  assumes "scan_at_segment st seg"
  shows "(let st' = fold (\<lambda>(c, i, n). card_scan_step u v i c n) ts st
          in push_raw_card_range v (scan_ranges st') (scan_candidate_start st')
               (scan_candidate_end st') (scan_digits st')) =
         scan_ranges st @ map segment_hull (filter (segment_is_card v) (card_segments u seg ts))"
  using assms
proof (induction u seg ts arbitrary: st rule: card_segments.induct)
  case (1 u seg)
  then show ?case using push_raw_card_range_segment by (simp add: Let_def)
next
  case (2 u seg c span ts)
  obtain i n where span: "span = (i, n)" by (cases span)
  consider (dig) d where "decimal_digit_value u c = Some d"
    | (letter) "decimal_digit_value u c = None" "is_alphabetic u c"
    | (sep) "decimal_digit_value u c = None" "\<not> is_alphabetic u c"
    by (cases "decimal_digit_value u c") auto
  then show ?case
  proof cases
    case dig
    with 2(3) [OF dig card_scan_step_digit(1) [OF 2(4) dig, of v i n, folded span]]
      card_scan_step_digit(2) [OF 2(4) dig] span
    show ?thesis by simp
  next
    case letter
    with 2(1) [OF letter card_scan_step_letter(1) [OF 2(4) letter, of v i n]]
      card_scan_step_letter(2) [OF 2(4) letter, of v i n] span
    show ?thesis by simp
  next
    case sep
    then have "card_scan_step u v i c n st = st" by (simp add: card_scan_step_def)
    with 2(2) [OF sep 2(4)] sep span show ?thesis by simp
  qed
qed

lemma raw_card_data_ranges_segments:
  "raw_card_data_ranges u v =
     map segment_hull (filter (segment_is_card v) (card_segments_of u v))"
proof -
  have "scan_at_segment card_scan_init []"
    by (simp add: scan_at_segment_def card_scan_init_def pan_window_new)
  from card_scan_fold_segments [OF this] show ?thesis
    by (simp add: raw_card_data_ranges_def card_scan_loop_fold card_segments_of_def card_scan_init_def)
qed

lemma segment_hull_spans:
  "seg \<noteq> [] \<Longrightarrow> segment_hull seg = (fst (hd (map snd seg)), snd (last (map snd seg)))"
  by (simp add: segment_hull_def hd_map last_map)

lemma segment_is_card_nonempty: "segment_is_card v seg \<Longrightarrow> seg \<noteq> []"
  by (auto simp: segment_is_card_def contains_pan_Nil)

lemma filter_segments_spans:
  assumes "spans_within lo hi (map snd seg @ map snd ts)"
  shows "spans_within lo hi (map segment_hull (filter (segment_is_card v) (card_segments u seg ts)))"
  using assms
proof (induction u seg ts arbitrary: lo rule: card_segments.induct)
  case (1 u seg)
  then show ?case
    using spans_within_hull [of lo hi "map snd seg" "[]"] spans_within_le [of lo hi "map snd seg"]
    by (auto simp: segment_hull_spans dest: segment_is_card_nonempty)
next
  case (2 u seg c span ts)
  consider (dig) d where "decimal_digit_value u c = Some d"
    | (letter) "decimal_digit_value u c = None" "is_alphabetic u c"
    | (sep) "decimal_digit_value u c = None" "\<not> is_alphabetic u c"
    by (cases "decimal_digit_value u c") auto
  then show ?case
  proof cases
    case dig
    with 2(3) [OF dig, of lo] 2(4) show ?thesis by simp
  next
    case letter
    from 2(4) have rest: "spans_within lo hi (map snd seg @ map snd ts)"
      using spans_within_remove by simp
    show ?thesis
    proof (cases "seg = []")
      case True
      with 2(1) [OF letter, of lo] rest letter show ?thesis
        using segment_is_card_nonempty by fastforce
    next
      case False
      with spans_within_hull [OF rest] have h: "lo \<le> fst (segment_hull seg)"
        "fst (segment_hull seg) < snd (segment_hull seg)"
        "spans_within (snd (segment_hull seg)) hi (map snd ts)"
        by (simp_all add: segment_hull_spans)
      with 2(1) [OF letter, of "snd (segment_hull seg)"] letter show ?thesis
        by (cases "segment_hull seg") (auto intro: spans_within_mono)
    qed
  next
    case sep
    with 2(2) [OF sep, of lo] 2(4) show ?thesis
      using spans_within_remove by simp
  qed
qed

section \<open>Properties\<close>

lemma decimal_digit_value_digit: "decimal_digit_value u c = Some d \<Longrightarrow> is_digit_value d"
proof -
  have "unat (of_nat (k mod 10) :: u8) \<le> 9" for k :: nat
    by (simp add: unat_of_nat)
  then show "decimal_digit_value u c = Some d \<Longrightarrow> is_digit_value d"
    by (auto simp: decimal_digit_value_def is_digit_value_def split: if_splits)
qed

lemma card_segments_digits:
  "seg' \<in> set (card_segments u seg ts) \<Longrightarrow> list_all is_digit_value (map fst seg) \<Longrightarrow>
     list_all is_digit_value (map fst seg')"
  by (induction u seg ts rule: card_segments.induct)
     (auto split: option.splits if_splits dest: decimal_digit_value_digit)

lemma contains_pan_iff:
  assumes "list_all is_digit_value ds"
  shows "contains_pan ds \<longleftrightarrow> (\<exists>w. sublist w ds \<and> luhn_valid (map unat w))"
proof -
  have "list_all is_digit_value w" if "sublist w ds" for w
    using assms that by (auto simp: list_all_iff dest: set_mono_sublist)
  then show ?thesis
    unfolding contains_pan_def using luhn_digits_pass_iff by blast
qed

text \<open>C31.  The sliding nineteen-digit window is exact: after any sequence of decimal digits has
  been pushed, it reports a card number exactly when some contiguous run of thirteen to
  nineteen of all the digits pushed passes the Luhn test over the naturals.  Neither the
  eviction of old digits nor the \<open>u8\<close> arithmetic of the test loses or invents one.\<close>

theorem pan_window_exact:
  assumes "list_all is_digit_value ds"
  shows "pan_has_luhn_window (foldl PanDigitWindow_push PanDigitWindow_new ds) \<longleftrightarrow>
         (\<exists>w. sublist w ds \<and> luhn_valid (map unat w))"
  using pan_window_pushes [OF pan_window_new, of ds] contains_pan_iff [OF assms]
  by (simp add: pan_window_for_def)

theorem pan_window_exact_witness:
  "pan_has_luhn_window (foldl PanDigitWindow_push PanDigitWindow_new
     [7, 4, 1, 1, 1, 1, 1, 1, 1, 1, 1, 1, 1, 1, 1, 1, 1, 2])"
proof -
  let ?ds = "[7, 4, 1, 1, 1, 1, 1, 1, 1, 1, 1, 1, 1, 1, 1, 1, 1, 2] :: u8 list"
  let ?w = "[4, 1, 1, 1, 1, 1, 1, 1, 1, 1, 1, 1, 1, 1, 1, 1] :: u8 list"
  have "list_all is_digit_value ?ds" by (simp add: is_digit_value_def)
  moreover have "sublist ?w ?ds"
    unfolding sublist_def by (intro exI [of _ "[7]"] exI [of _ "[2]"]) simp
  moreover have "luhn_valid (map unat ?w)"
    by (simp add: luhn_valid_def)
  ultimately show ?thesis using pan_window_exact [of ?ds] by blast
qed

text \<open>C32.  A string is reported as containing raw card data exactly when, among the digits
  between two letters of its percent-decoded scalars, some run of thirteen to nineteen passes
  the Luhn test and the bytes those digits span are not a compact date and time.\<close>

theorem string_contains_raw_card_data_iff:
  "string_contains_raw_card_data u v \<longleftrightarrow>
     (\<exists>seg \<in> set (card_segments_of u v).
        (\<exists>w. sublist w (map fst seg) \<and> luhn_valid (map unat w)) \<and>
        \<not> candidate_is_compact_date_time
            (byte_slice v (fst (segment_hull seg)) (snd (segment_hull seg))))"
proof -
  have "segment_is_card v seg \<longleftrightarrow>
      (\<exists>w. sublist w (map fst seg) \<and> luhn_valid (map unat w)) \<and>
      \<not> candidate_is_compact_date_time
          (byte_slice v (fst (segment_hull seg)) (snd (segment_hull seg)))"
    if "seg \<in> set (card_segments_of u v)" for seg
    using contains_pan_iff card_segments_digits [of seg u "[]"] that
    by (simp add: segment_is_card_def card_segments_of_def)
  then show ?thesis
    unfolding string_contains_raw_card_data_def raw_card_data_ranges_segments
    by (auto simp: filter_empty_conv)
qed

text \<open>C33.  The ranges returned for a string are non-empty, ordered, pairwise disjoint and inside
  the string's bytes, so that cutting them out one after the other is always possible.\<close>

theorem raw_card_data_ranges_spans:
  "spans_within 0 (byte_len v) (raw_card_data_ranges u v)"
proof -
  have "on_boundary v 0 v" by (simp add: on_boundary_def)
  from filter_segments_spans [of _ _ "[]", simplified, OF card_tokens_spans [OF this]]
  show ?thesis by (simp add: raw_card_data_ranges_segments card_segments_of_def)
qed

end
