(* ===== verification/Gateway_Value.thy ===== *)
theory Gateway_Value
  imports Identity Card_Data
begin

text \<open>
  Tokens, references and diagnostics that cross the gateway boundary:
  \<open>crates/syrup-rail/src/gateway_value.rs\<close>.  The constructors admit bounded text without raw
  card data; the theorems give the exact sets they accept, that canonical transaction
  identifiers are compared by an equivalence, and that a truncated diagnostic keeps its
  byte bound.
\<close>

definition MAX_GATEWAY_TEXT_BYTES :: nat where
  "MAX_GATEWAY_TEXT_BYTES = 512"

definition MAX_BILLING_CONTACT_FIELD_BYTES :: nat where
  "MAX_BILLING_CONTACT_FIELD_BYTES = 255"

section \<open>Payment tokens\<close>

datatype PaymentTokenError = Empty | TooLong | RawCardData

datatype PaymentToken = PaymentToken (PaymentToken_expose: rstring)

definition PaymentToken_new :: "unicode \<Rightarrow> rstring \<Rightarrow> (PaymentToken, PaymentTokenError) result" where
  "PaymentToken_new u value =
     (if trim value = [] then Err PaymentTokenError.Empty
      else if byte_len value > MAX_GATEWAY_TEXT_BYTES then Err PaymentTokenError.TooLong
      else if string_contains_raw_card_data u value then Err PaymentTokenError.RawCardData
      else Ok (PaymentToken value))"

section \<open>Gateway references\<close>

datatype GatewayReferenceValueError =
    Empty
  | TooLong
  | RawCardData
  | UnsupportedCorrelationCharacter
  | GeneratedOrderAttemptMismatch

datatype GatewayReferenceValue = GatewayReferenceValue (GatewayReferenceValue_expose: rstring)

definition new_with_trim ::
    "unicode \<Rightarrow> rstring \<Rightarrow> (rstring \<Rightarrow> rstring) \<Rightarrow> (GatewayReferenceValue, GatewayReferenceValueError) result" where
  "new_with_trim u value trim_fn =
     (let value = trim_fn value in
      if value = [] then Err GatewayReferenceValueError.Empty
      else if byte_len value > MAX_GATEWAY_TEXT_BYTES then Err GatewayReferenceValueError.TooLong
      else if string_contains_raw_card_data u value then Err GatewayReferenceValueError.RawCardData
      else Ok (GatewayReferenceValue value))"

definition GatewayReferenceValue_new ::
    "unicode \<Rightarrow> rstring \<Rightarrow> (GatewayReferenceValue, GatewayReferenceValueError) result" where
  "GatewayReferenceValue_new u value = new_with_trim u value trim"

definition is_gateway_transaction_id_edge_whitespace :: "scalar \<Rightarrow> bool" where
  "is_gateway_transaction_id_edge_whitespace c \<longleftrightarrow>
     0x0009 \<le> c \<and> c \<le> 0x000D \<or> c = 0x0020 \<or> c = 0x0085 \<or> c = 0x00A0 \<or> c = 0x1680 \<or>
     0x2000 \<le> c \<and> c \<le> 0x200A \<or> c = 0x2028 \<or> c = 0x2029 \<or> c = 0x202F \<or> c = 0x205F \<or> c = 0x3000"

definition trim_gateway_transaction_id :: "rstring \<Rightarrow> rstring" where
  "trim_gateway_transaction_id value = trim_matches is_gateway_transaction_id_edge_whitespace value"

definition GatewayReferenceValue_new_transaction ::
    "unicode \<Rightarrow> rstring \<Rightarrow> (GatewayReferenceValue, GatewayReferenceValueError) result" where
  "GatewayReferenceValue_new_transaction u value = new_with_trim u value trim_gateway_transaction_id"

text \<open>\<open>byte.is_ascii_alphanumeric() || matches!(byte, b'_' | b'-' | b'.')\<close>\<close>

definition is_correlation_byte :: "byte \<Rightarrow> bool" where
  "is_correlation_byte b \<longleftrightarrow> is_ascii_alphanumeric b \<or> b = 95 \<or> b = 45 \<or> b = 46"

definition GatewayReferenceValue_new_correlation ::
    "unicode \<Rightarrow> rstring \<Rightarrow> (GatewayReferenceValue, GatewayReferenceValueError) result" where
  "GatewayReferenceValue_new_correlation u value =
     (let value = trim value in
      and_then (GatewayReferenceValue_new u value) (\<lambda>parsed.
        if \<not> list_all is_correlation_byte (utf8_bytes value)
        then Err UnsupportedCorrelationCharacter
        else Ok parsed))"

text \<open>\<open>str::strip_suffix\<close>\<close>

definition strip_suffix :: "rstring \<Rightarrow> rstring \<Rightarrow> rstring option" where
  "strip_suffix value suf =
     (if suffix suf value then Some (take (length value - length suf) value) else None)"

text \<open>\<open>uuid_simple\<close> is \<open>Uuid::simple().to_string()\<close> of the uuid crate.\<close>

definition GatewayReferenceValue_new_generated_order ::
    "unicode \<Rightarrow> (Uuid \<Rightarrow> rstring) \<Rightarrow> rstring \<Rightarrow> PaymentAttemptId \<Rightarrow>
     (GatewayReferenceValue, GatewayReferenceValueError) result" where
  "GatewayReferenceValue_new_generated_order u uuid_simple value attempt_id =
     (let value = trim value in
      if value = [] then Err GatewayReferenceValueError.Empty
      else if byte_len value > MAX_GATEWAY_TEXT_BYTES then Err GatewayReferenceValueError.TooLong
      else if \<not> list_all is_correlation_byte (utf8_bytes value)
      then Err UnsupportedCorrelationCharacter
      else case strip_suffix value (uuid_simple (PaymentAttemptId_as_uuid attempt_id)) of
        None \<Rightarrow> Err GeneratedOrderAttemptMismatch
      | Some pre \<Rightarrow>
          if pre = [] \<or> last pre \<notin> {95, 45, 46} then Err GeneratedOrderAttemptMismatch
          else if string_contains_raw_card_data u pre
          then Err GatewayReferenceValueError.RawCardData
          else Ok (GatewayReferenceValue value))"

datatype GatewayTransactionId = GatewayTransactionId GatewayReferenceValue
datatype GatewayPaymentMethodReference = GatewayPaymentMethodReference GatewayReferenceValue
datatype GatewayOrderId = GatewayOrderId GatewayReferenceValue

definition GatewayTransactionId_new ::
    "unicode \<Rightarrow> rstring \<Rightarrow> (GatewayTransactionId, GatewayReferenceValueError) result" where
  "GatewayTransactionId_new u value =
     map_sum id GatewayTransactionId (GatewayReferenceValue_new_transaction u value)"

definition GatewayTransactionId_from_correlation ::
    "unicode \<Rightarrow> rstring \<Rightarrow> (GatewayTransactionId, GatewayReferenceValueError) result" where
  "GatewayTransactionId_from_correlation u value =
     map_sum id GatewayTransactionId (GatewayReferenceValue_new_correlation u value)"

definition GatewayPaymentMethodReference_new ::
    "unicode \<Rightarrow> rstring \<Rightarrow> (GatewayPaymentMethodReference, GatewayReferenceValueError) result" where
  "GatewayPaymentMethodReference_new u value =
     map_sum id GatewayPaymentMethodReference (GatewayReferenceValue_new u value)"

definition GatewayPaymentMethodReference_from_correlation ::
    "unicode \<Rightarrow> rstring \<Rightarrow> (GatewayPaymentMethodReference, GatewayReferenceValueError) result" where
  "GatewayPaymentMethodReference_from_correlation u value =
     map_sum id GatewayPaymentMethodReference (GatewayReferenceValue_new_correlation u value)"

definition GatewayOrderId_from_generated_attempt ::
    "unicode \<Rightarrow> (Uuid \<Rightarrow> rstring) \<Rightarrow> rstring \<Rightarrow> PaymentAttemptId \<Rightarrow>
     (GatewayOrderId, GatewayReferenceValueError) result" where
  "GatewayOrderId_from_generated_attempt u uuid_simple value attempt_id =
     map_sum id GatewayOrderId
       (GatewayReferenceValue_new_generated_order u uuid_simple value attempt_id)"

definition GatewayOrderId_from_correlation ::
    "unicode \<Rightarrow> rstring \<Rightarrow> (GatewayOrderId, GatewayReferenceValueError) result" where
  "GatewayOrderId_from_correlation u value =
     map_sum id GatewayOrderId (GatewayReferenceValue_new_correlation u value)"

primrec GatewayTransactionId_expose :: "GatewayTransactionId \<Rightarrow> rstring" where
  "GatewayTransactionId_expose (GatewayTransactionId r) = GatewayReferenceValue_expose r"

primrec GatewayPaymentMethodReference_expose :: "GatewayPaymentMethodReference \<Rightarrow> rstring" where
  "GatewayPaymentMethodReference_expose (GatewayPaymentMethodReference r) =
     GatewayReferenceValue_expose r"

primrec GatewayOrderId_expose :: "GatewayOrderId \<Rightarrow> rstring" where
  "GatewayOrderId_expose (GatewayOrderId r) = GatewayReferenceValue_expose r"

section \<open>Canonical transaction identifiers\<close>

definition canonical_gateway_transaction_id :: "rstring option \<Rightarrow> rstring option" where
  "canonical_gateway_transaction_id value =
     (case map_option trim_gateway_transaction_id value of
        None \<Rightarrow> None
      | Some v \<Rightarrow> if v \<noteq> [] then Some v else None)"

definition canonical_gateway_transaction_ids_equal :: "rstring \<Rightarrow> rstring \<Rightarrow> bool" where
  "canonical_gateway_transaction_ids_equal left right =
     (case canonical_gateway_transaction_id (Some left) of
        None \<Rightarrow> False
      | Some l \<Rightarrow>
          (case canonical_gateway_transaction_id (Some right) of None \<Rightarrow> False | Some r \<Rightarrow> l = r))"

lemma edge_whitespace_is_whitespace: "is_gateway_transaction_id_edge_whitespace = is_whitespace"
  by (auto simp: fun_eq_iff is_gateway_transaction_id_edge_whitespace_def is_whitespace_def)

lemma trim_gateway_transaction_id_trim: "trim_gateway_transaction_id = trim"
  by (simp add: fun_eq_iff trim_gateway_transaction_id_def trim_def edge_whitespace_is_whitespace)

lemma canonical_ids_equal_iff:
  "canonical_gateway_transaction_ids_equal l r \<longleftrightarrow> trim l = trim r \<and> trim l \<noteq> []"
  by (auto simp: canonical_gateway_transaction_ids_equal_def canonical_gateway_transaction_id_def
      trim_gateway_transaction_id_trim)

section \<open>What the reference constructors admit\<close>

definition admitted_reference :: "unicode \<Rightarrow> rstring \<Rightarrow> bool" where
  "admitted_reference u v \<longleftrightarrow>
     v \<noteq> [] \<and> trim v = v \<and> byte_len v \<le> 512 \<and> \<not> string_contains_raw_card_data u v"

lemma is_correlation_byte_ascii: "is_correlation_byte b \<Longrightarrow> b < 128"
  by (auto simp: is_correlation_byte_def ascii_class_defs)

lemma all_correlation_bytes_iff [simp]:
  "list_all is_correlation_byte (utf8_bytes s) \<longleftrightarrow> list_all is_correlation_byte s"
  by (rule utf8_all_ascii_iff) (rule is_correlation_byte_ascii)

lemma is_correlation_byte_visible: "is_correlation_byte b \<Longrightarrow> \<not> is_whitespace b"
  by (rule ascii_visible_not_whitespace) (auto simp: is_correlation_byte_def ascii_class_defs)

lemma trim_correlation: "list_all is_correlation_byte s \<Longrightarrow> trim s = s"
  by (rule trim_id_of_no_whitespace) (auto simp: list_all_iff is_correlation_byte_visible)

lemma new_with_trim_Ok_iff [result_simps]:
  "new_with_trim u v trim = Ok r \<longleftrightarrow>
     r = GatewayReferenceValue (trim v) \<and> admitted_reference u (trim v)"
  by (auto simp: new_with_trim_def Let_def admitted_reference_def MAX_GATEWAY_TEXT_BYTES_def)

lemma GatewayReferenceValue_new_Ok_iff [result_simps]:
  "GatewayReferenceValue_new u v = Ok r \<longleftrightarrow>
     r = GatewayReferenceValue (trim v) \<and> admitted_reference u (trim v)"
  by (simp add: GatewayReferenceValue_new_def result_simps)

lemma GatewayReferenceValue_new_transaction_Ok_iff [result_simps]:
  "GatewayReferenceValue_new_transaction u v = Ok r \<longleftrightarrow>
     r = GatewayReferenceValue (trim v) \<and> admitted_reference u (trim v)"
  by (simp add: GatewayReferenceValue_new_transaction_def trim_gateway_transaction_id_trim result_simps)

lemma GatewayReferenceValue_new_correlation_Ok_iff [result_simps]:
  "GatewayReferenceValue_new_correlation u v = Ok r \<longleftrightarrow>
     r = GatewayReferenceValue (trim v) \<and> admitted_reference u (trim v) \<and>
     list_all is_correlation_byte (trim v)"
  by (auto simp: GatewayReferenceValue_new_correlation_def Let_def and_then_Inr_iff result_simps)

lemma map_sum_Inr_iff [simp]: "map_sum f g x = Inr y \<longleftrightarrow> (\<exists>a. x = Inr a \<and> y = g a)"
  by (cases x) auto

lemma GatewayTransactionId_new_Ok_iff [result_simps]:
  "GatewayTransactionId_new u v = Ok t \<longleftrightarrow>
     t = GatewayTransactionId (GatewayReferenceValue (trim v)) \<and> admitted_reference u (trim v)"
  by (auto simp: GatewayTransactionId_new_def result_simps)

lemma GatewayReferenceValue_new_generated_order_Ok_iff [result_simps]:
  "GatewayReferenceValue_new_generated_order u simple v a = Ok r \<longleftrightarrow>
     r = GatewayReferenceValue (trim v) \<and> byte_len (trim v) \<le> 512 \<and>
     list_all is_correlation_byte (trim v) \<and>
     (\<exists>p. trim v = p @ simple (PaymentAttemptId_as_uuid a) \<and> p \<noteq> [] \<and>
        last p \<in> {95, 45, 46} \<and> \<not> string_contains_raw_card_data u p)"
proof -
  let ?x = "simple (PaymentAttemptId_as_uuid a)"
  have strip: "strip_suffix s ?x = (if \<exists>p. s = p @ ?x then Some (take (length s - length ?x) s) else None)" for s
    by (auto simp: strip_suffix_def suffix_def)
  show ?thesis
  proof (cases "\<exists>p. trim v = p @ ?x")
    case True
    then obtain p where p: "trim v = p @ ?x" by blast
    then show ?thesis
      unfolding GatewayReferenceValue_new_generated_order_def strip
      by (auto simp: Let_def MAX_GATEWAY_TEXT_BYTES_def)
  next
    case False
    then show ?thesis
      unfolding GatewayReferenceValue_new_generated_order_def strip by (auto simp: Let_def)
  qed
qed

section \<open>Diagnostics\<close>

text \<open>Slices of a string at byte offsets that lie on character boundaries.\<close>

fun drop_bytes :: "nat \<Rightarrow> rstring \<Rightarrow> rstring" where
  "drop_bytes n [] = []"
| "drop_bytes n (c # s) = (if n = 0 then c # s else drop_bytes (n - length (utf8_encode_scalar c)) s)"

fun take_bytes :: "nat \<Rightarrow> rstring \<Rightarrow> rstring" where
  "take_bytes n [] = []"
| "take_bytes n (c # s) = (if n = 0 then [] else c # take_bytes (n - length (utf8_encode_scalar c)) s)"

fun redact_ranges :: "rstring \<Rightarrow> nat \<Rightarrow> (nat \<times> nat) list \<Rightarrow> rstring" where
  "redact_ranges message cursor [] = drop_bytes cursor message"
| "redact_ranges message cursor ((start, stop) # ranges) =
     take_bytes (start - cursor) (drop_bytes cursor message) @ lit ''[redacted]'' @
     redact_ranges message stop ranges"

definition redact_raw_card_data :: "unicode \<Rightarrow> rstring \<Rightarrow> rstring" where
  "redact_raw_card_data u message =
     (let ranges = raw_card_data_ranges u message in
      if ranges = [] then message else redact_ranges message 0 ranges)"

fun take_prefix_bytes :: "nat \<Rightarrow> rstring \<Rightarrow> rstring \<Rightarrow> rstring" where
  "take_prefix_bytes max_prefix_len truncated [] = truncated"
| "take_prefix_bytes max_prefix_len truncated (character # rest) =
     (if byte_len truncated + length (utf8_encode_scalar character) > max_prefix_len then truncated
      else take_prefix_bytes max_prefix_len (truncated @ [character]) rest)"

definition REDACTION_MARKER :: rstring where
  "REDACTION_MARKER = lit ''[redacted]''"

fun trim_marker_prefix :: "rstring \<Rightarrow> nat \<Rightarrow> rstring" where
  "trim_marker_prefix value 0 = value"
| "trim_marker_prefix value (Suc n) =
     (if suffix (take (Suc n) REDACTION_MARKER) value then take (length value - Suc n) value
      else trim_marker_prefix value n)"

definition trim_partial_redaction_marker_suffix :: "rstring \<Rightarrow> rstring" where
  "trim_partial_redaction_marker_suffix value =
     trim_marker_prefix value (length REDACTION_MARKER - 1)"

definition truncate_gateway_detail_to_length :: "rstring \<Rightarrow> nat \<Rightarrow> rstring" where
  "truncate_gateway_detail_to_length message max_length =
     (if max_length = 0 then []
      else if byte_len message \<le> max_length then message
      else if max_length \<le> 3 then replicate max_length 46
      else let max_prefix_len = max_length - 3;
               truncated = take_prefix_bytes max_prefix_len [] message
           in trim_partial_redaction_marker_suffix truncated @ lit ''...'')"

lemma take_prefix_bytes_bound:
  "byte_len acc \<le> m \<Longrightarrow> byte_len (take_prefix_bytes m acc s) \<le> m"
  by (induction m acc s rule: take_prefix_bytes.induct) auto

lemma byte_len_take: "byte_len (take n s) \<le> byte_len s"
  by (metis append_take_drop_id byte_len_simps(3) le_add1)

lemma trim_marker_prefix_bound: "byte_len (trim_marker_prefix v n) \<le> byte_len v"
  by (induction v n rule: trim_marker_prefix.induct) (auto simp: byte_len_take)

text \<open>A diagnostic cut to a byte limit never exceeds it, whatever multi-byte characters and
  redaction markers stand at the cut.\<close>

lemma truncate_gateway_detail_bound:
  "byte_len (truncate_gateway_detail_to_length message max_length) \<le> max_length"
proof -
  have dots: "byte_len (lit ''...'') = 3"
    by (simp add: lit_eval utf8_encode_ascii)
  have rep: "byte_len (replicate n 46) = n" for n
    by (induction n) (simp_all add: utf8_encode_ascii)
  have "byte_len (trim_partial_redaction_marker_suffix (take_prefix_bytes (max_length - 3) [] message))
      \<le> max_length - 3"
    unfolding trim_partial_redaction_marker_suffix_def
    by (rule le_trans [OF trim_marker_prefix_bound take_prefix_bytes_bound]) simp
  then show ?thesis
    by (auto simp: truncate_gateway_detail_to_length_def Let_def dots rep)
qed

text \<open>The marker is cut once, longest prefix first: an opening bracket before a cut marker stays.\<close>

lemma truncate_leaves_bracket:
  "truncate_gateway_detail_to_length (lit ''[[redacted] tail'') 8 = lit ''[...''"
  by (simp add: truncate_gateway_detail_to_length_def trim_partial_redaction_marker_suffix_def
      REDACTION_MARKER_def lit_eval utf8_encode_ascii numeral_eq_Suc suffix_def)

section \<open>Properties of references\<close>

text \<open>Two provider transaction identifiers admitted by the constructor are equal values
  exactly when their texts are canonically equal, and admission is idempotent: the exposed
  text of an admitted identifier is admitted again as the same value.\<close>

lemma transaction_id_canonical:
  assumes "GatewayTransactionId_new u l = Ok a" and "GatewayTransactionId_new u r = Ok b"
  shows "(a = b \<longleftrightarrow> canonical_gateway_transaction_ids_equal l r) \<and>
         GatewayTransactionId_new u (GatewayTransactionId_expose a) = Ok a"
  using assms by (auto simp: result_simps canonical_ids_equal_iff admitted_reference_def)

lemma no_digits_no_card:
  assumes "unicode_ascii u" and "list_all (\<lambda>c. c < 128 \<and> \<not> is_ascii_digit c \<and> c \<noteq> 37) s"
  shows "\<not> string_contains_raw_card_data u s"
proof -
  have toks: "card_segments u [] (card_tokens v i t) = replicate n [] @ [[]]"
    if "list_all (\<lambda>c. c < 128 \<and> \<not> is_ascii_digit c \<and> c \<noteq> 37) t" and
      "n = length (filter (is_alphabetic u) t)" for v i t n
    using that
  proof (induction t arbitrary: i n)
    case (Cons c t)
    then have nx: "next_card_scan_scalar v i c t = (c, i + length (utf8_encode_scalar c), t)"
      by (simp add: next_card_scan_scalar_def)
    have nd: "decimal_digit_value u c = None"
      using Cons.prems assms(1) by (simp add: decimal_digit_value_def unicode_ascii_def)
    show ?case
      using Cons.IH [OF _ refl] Cons.prems nx nd by (cases "is_alphabetic u c") auto
  qed simp
  have "\<forall>seg \<in> set (card_segments_of u s). seg = []"
    unfolding card_segments_of_def toks [OF assms(2) refl] by auto
  then show ?thesis
    unfolding string_contains_raw_card_data_def raw_card_data_ranges_segments
    using segment_is_card_nonempty by (auto simp: filter_empty_conv)
qed

lemma transaction_id_canonical_witness:
  "canonical_gateway_transaction_ids_equal (lit '' Txn '') (lit ''Txn'')"
proof -
  let ?t = "GatewayTransactionId (GatewayReferenceValue (lit ''Txn''))"
  have card: "\<not> string_contains_raw_card_data ascii_tables (lit ''Txn'')"
    by (rule no_digits_no_card [OF unicode_ascii_tables]) (simp add: lit_eval is_ascii_digit_def)
  have tr: "trim (lit '' Txn '') = lit ''Txn''" "trim (lit ''Txn'') = lit ''Txn''"
    by (simp_all add: lit_eval trim_def trim_matches_def is_whitespace_def)
  have ok: "admitted_reference ascii_tables (lit ''Txn'')"
    using card tr by (simp add: admitted_reference_def lit_eval utf8_encode_ascii)
  have "GatewayTransactionId_new ascii_tables (lit '' Txn '') = Ok ?t"
    and "GatewayTransactionId_new ascii_tables (lit ''Txn'') = Ok ?t"
    using ok tr by (simp_all add: result_simps)
  from transaction_id_canonical [OF this] show ?thesis by blast
qed

text \<open>An order identifier generated for an attempt determines that attempt: the same text
  is never accepted for two attempts, given that the simple form of a UUID has a fixed length
  and determines the UUID.  The part before the attempt's identity carries no card number.\<close>

lemma generated_order_identifies_attempt:
  assumes simple: "inj simple" "\<And>x. length (simple x) = 32"
    and a: "GatewayOrderId_from_generated_attempt u simple v a = Ok order_a"
    and b: "GatewayOrderId_from_generated_attempt u simple w b = Ok order_b"
    and same: "GatewayOrderId_expose order_a = GatewayOrderId_expose order_b"
  shows "a = b \<and> order_a = order_b \<and>
    (\<exists>p. GatewayOrderId_expose order_a = p @ simple (PaymentAttemptId_as_uuid a) \<and>
       \<not> string_contains_raw_card_data u p)"
proof -
  from a obtain p where oa: "order_a = GatewayOrderId (GatewayReferenceValue (trim v))"
    and p: "trim v = p @ simple (PaymentAttemptId_as_uuid a)" "\<not> string_contains_raw_card_data u p"
    by (auto simp: GatewayOrderId_from_generated_attempt_def result_simps)
  from b obtain q where ob: "order_b = GatewayOrderId (GatewayReferenceValue (trim w))"
    and q: "trim w = q @ simple (PaymentAttemptId_as_uuid b)"
    by (auto simp: GatewayOrderId_from_generated_attempt_def result_simps)
  from same oa ob have eq: "trim v = trim w" by simp
  with p q have "simple (PaymentAttemptId_as_uuid a) = simple (PaymentAttemptId_as_uuid b)"
    using simple(2) by simp
  with simple(1) have "a = b" by (auto dest!: injD intro: PaymentAttemptId.expand)
  moreover have "GatewayOrderId_expose order_a = p @ simple (PaymentAttemptId_as_uuid a)"
    using oa p(1) by simp
  ultimately show ?thesis using eq oa ob p(2) by blast
qed

text \<open>A simple form: thirty-two lower-case hexadecimal digits.\<close>

definition hex_digit :: "nat \<Rightarrow> scalar" where
  "hex_digit d = (if d < 10 then 48 + d else 87 + d)"

fun hex_digits :: "nat \<Rightarrow> nat \<Rightarrow> rstring" where
  "hex_digits 0 n = []"
| "hex_digits (Suc k) n = hex_digits k (n div 16) @ [hex_digit (n mod 16)]"

definition uuid_simple_hex :: "Uuid \<Rightarrow> rstring" where
  "uuid_simple_hex x = hex_digits 32 (unat x)"

lemma hex_digit_inject: "hex_digit m = hex_digit n \<longleftrightarrow> m = n"
  by (auto simp: hex_digit_def)

lemma length_hex_digits [simp]: "length (hex_digits k n) = k"
  by (induction k arbitrary: n) auto

lemma hex_digits_inject:
  "m < 16 ^ k \<Longrightarrow> n < 16 ^ k \<Longrightarrow> hex_digits k m = hex_digits k n \<longleftrightarrow> m = n"
proof (induction k arbitrary: m n)
  case (Suc k)
  then have "m div 16 < 16 ^ k" "n div 16 < 16 ^ k"
    by (simp_all add: less_mult_imp_div_less mult.commute)
  with Suc.IH have "hex_digits k (m div 16) = hex_digits k (n div 16) \<longleftrightarrow> m div 16 = n div 16"
    by blast
  then show ?case
    by (auto simp: hex_digit_inject) (metis div_mult_mod_eq)
qed simp

lemma inj_uuid_simple_hex: "inj uuid_simple_hex"
proof (rule injI)
  fix x y assume "uuid_simple_hex x = uuid_simple_hex y"
  moreover have "unat z < 16 ^ 32" for z :: Uuid
    using unsigned_less [of z, where 'a = nat] by simp
  ultimately show "x = y"
    by (simp add: uuid_simple_hex_def hex_digits_inject word_unat_eq_iff)
qed

lemma hex_digits_correlation: "list_all is_correlation_byte (hex_digits k n)"
proof -
  have "is_correlation_byte (hex_digit (n mod 16))" for n
  proof -
    have "n mod 16 < 16" by simp
    then show ?thesis
      by (auto simp: hex_digit_def is_correlation_byte_def ascii_class_defs)
  qed
  then show ?thesis by (induction k arbitrary: n) auto
qed

lemma generated_order_identifies_attempt_witness:
  "\<exists>order_a. GatewayOrderId_from_generated_attempt ascii_tables uuid_simple_hex
      (lit ''ck_'' @ uuid_simple_hex 7) (PaymentAttemptId 7) = Ok order_a \<and>
    (\<exists>p. GatewayOrderId_expose order_a = p @ uuid_simple_hex 7)"
proof -
  let ?v = "lit ''ck_'' @ uuid_simple_hex 7"
  let ?o = "GatewayOrderId (GatewayReferenceValue ?v)"
  have corr: "list_all is_correlation_byte ?v"
    by (simp add: lit_eval uuid_simple_hex_def hex_digits_correlation is_correlation_byte_def
        ascii_class_defs)
  have len: "byte_len ?v \<le> 512"
    using byte_len_ascii [of ?v] corr is_correlation_byte_ascii
    by (auto simp: list_all_iff uuid_simple_hex_def)
  have card: "\<not> string_contains_raw_card_data ascii_tables (lit ''ck_'')"
    by (rule no_digits_no_card [OF unicode_ascii_tables]) (simp add: lit_eval is_ascii_digit_def)
  have "GatewayReferenceValue_new_generated_order ascii_tables uuid_simple_hex ?v (PaymentAttemptId 7)
      = Ok (GatewayReferenceValue ?v)"
    unfolding GatewayReferenceValue_new_generated_order_Ok_iff trim_correlation [OF corr]
    using len corr card by (intro conjI exI [of _ "lit ''ck_''"]) (simp_all add: lit_eval)
  then have ok: "GatewayOrderId_from_generated_attempt ascii_tables uuid_simple_hex ?v (PaymentAttemptId 7)
      = Ok ?o"
    by (simp add: GatewayOrderId_from_generated_attempt_def)
  have "length (uuid_simple_hex x) = 32" for x by (simp add: uuid_simple_hex_def)
  from generated_order_identifies_attempt [OF inj_uuid_simple_hex this ok ok refl] ok
  show ?thesis by auto
qed

end
