(* ===== verification/Terms.thy ===== *)
theory Terms
  imports Identity
begin

text \<open>
  Subscription terms and the period policy: \<open>crates/syrup-rail/src/terms.rs\<close> and
  \<open>policy.rs\<close>.  Counts and delays are words, as in the source; the theorems show when the
  unit conversions are exact, that a schedule never exceeds sixteen steps, and how periods
  chain.
\<close>

definition MAX_DUNNING_RETRY_STEPS :: nat where
  "MAX_DUNNING_RETRY_STEPS = 16"

datatype SubscriptionTermsError =
    ZeroPeriodCount
  | ZeroDunningDelay
  | NonWholeSecondDunningDelay
  | DunningDelaySecondsOutOfRange
  | TooManyDunningRetrySteps
  | CurrencyMismatch

datatype SubscriptionTermsParseError = SubscriptionTermsParseError

section \<open>Period rules\<close>

text \<open>\<open>NonZeroU16::new\<close> and \<open>NonZeroU32::new\<close>\<close>

definition nonzero :: "'a::zero \<Rightarrow> 'a option" where
  "nonzero n = (if n = 0 then None else Some n)"

lemma nonzero_Some_iff [simp]: "nonzero n = Some m \<longleftrightarrow> m = n \<and> n \<noteq> 0"
  by (auto simp: nonzero_def)

datatype SubscriptionPeriodRule = FixedDays u16 | CalendarMonths u16

definition fixed_days :: "u16 \<Rightarrow> (SubscriptionPeriodRule, SubscriptionTermsError) result" where
  "fixed_days count = ok_or (map_option FixedDays (nonzero count)) ZeroPeriodCount"

definition calendar_months :: "u16 \<Rightarrow> (SubscriptionPeriodRule, SubscriptionTermsError) result" where
  "calendar_months count = ok_or (map_option CalendarMonths (nonzero count)) ZeroPeriodCount"

definition from_kind_and_count ::
    "rstring \<Rightarrow> u16 \<Rightarrow> (SubscriptionPeriodRule, SubscriptionTermsParseError) result" where
  "from_kind_and_count kind count =
     and_then (ok_or (nonzero count) SubscriptionTermsParseError) (\<lambda>count.
       if kind = lit ''fixed_days'' then Ok (FixedDays count)
       else if kind = lit ''calendar_months'' then Ok (CalendarMonths count)
       else Err SubscriptionTermsParseError)"

primrec SubscriptionPeriodRule_as_str :: "SubscriptionPeriodRule \<Rightarrow> rstring" where
  "SubscriptionPeriodRule_as_str (FixedDays _) = lit ''fixed_days''"
| "SubscriptionPeriodRule_as_str (CalendarMonths _) = lit ''calendar_months''"

primrec SubscriptionPeriodRule_count :: "SubscriptionPeriodRule \<Rightarrow> u16" where
  "SubscriptionPeriodRule_count (FixedDays c) = c"
| "SubscriptionPeriodRule_count (CalendarMonths c) = c"

fun is_one_calendar_month :: "SubscriptionPeriodRule \<Rightarrow> bool" where
  "is_one_calendar_month (CalendarMonths count) = (count = 1)"
| "is_one_calendar_month (FixedDays _) = False"

definition period_rule_wf :: "SubscriptionPeriodRule \<Rightarrow> bool" where
  "period_rule_wf r \<longleftrightarrow> SubscriptionPeriodRule_count r \<noteq> 0"

section \<open>Terms\<close>

record RecurringSubscriptionTerms =
  recurring_charge :: ChargeAmount
  recurring_period :: SubscriptionPeriodRule

record PaidTrialTerms =
  trial_charge :: ChargeAmount
  trial_period :: SubscriptionPeriodRule

datatype SubscriptionStart = RecurringImmediately | PaidTrial PaidTrialTerms

primrec SubscriptionStart_as_str :: "SubscriptionStart \<Rightarrow> rstring" where
  "SubscriptionStart_as_str RecurringImmediately = lit ''recurring_immediately''"
| "SubscriptionStart_as_str (SubscriptionStart.PaidTrial _) = lit ''paid_trial''"

primrec SubscriptionStart_paid_trial :: "SubscriptionStart \<Rightarrow> PaidTrialTerms option" where
  "SubscriptionStart_paid_trial RecurringImmediately = None"
| "SubscriptionStart_paid_trial (SubscriptionStart.PaidTrial terms) = Some terms"

section \<open>Dunning\<close>

record DunningRetryDelay =
  delay_seconds :: u32

definition SECONDS_PER_HOUR :: u32 where
  "SECONDS_PER_HOUR = 60 * 60"

definition SECONDS_PER_DAY :: u32 where
  "SECONDS_PER_DAY = 24 * SECONDS_PER_HOUR"

definition DunningRetryDelay_new :: "u32 \<Rightarrow> (DunningRetryDelay, SubscriptionTermsError) result" where
  "DunningRetryDelay_new seconds =
     ok_or (map_option (\<lambda>s. \<lparr>delay_seconds = s\<rparr>) (nonzero seconds)) ZeroDunningDelay"

text \<open>\<open>std::time::Duration\<close>: whole seconds below \<open>2 ^ 64\<close> and nanoseconds below a second.\<close>

record std_duration =
  duration_secs :: u64
  duration_subsec_nanos :: u32

definition from_duration :: "std_duration \<Rightarrow> (DunningRetryDelay, SubscriptionTermsError) result" where
  "from_duration d =
     (if duration_secs d = 0 \<and> duration_subsec_nanos d = 0 then Err ZeroDunningDelay
      else if duration_subsec_nanos d \<noteq> 0 then Err NonWholeSecondDunningDelay
      else if unat (duration_secs d) \<ge> 2 ^ 32 then Err DunningDelaySecondsOutOfRange
      else DunningRetryDelay_new (of_nat (unat (duration_secs d))))"

definition from_whole_units :: "u32 \<Rightarrow> u32 \<Rightarrow> (DunningRetryDelay, SubscriptionTermsError) result" where
  "from_whole_units units seconds_per_unit =
     and_then (ok_or (checked_mul_u32 units seconds_per_unit) DunningDelaySecondsOutOfRange)
       DunningRetryDelay_new"

definition DunningRetryDelay_hours :: "u32 \<Rightarrow> (DunningRetryDelay, SubscriptionTermsError) result" where
  "DunningRetryDelay_hours hours = from_whole_units hours SECONDS_PER_HOUR"

definition DunningRetryDelay_days :: "u32 \<Rightarrow> (DunningRetryDelay, SubscriptionTermsError) result" where
  "DunningRetryDelay_days days = from_whole_units days SECONDS_PER_DAY"

definition DunningRetryDelay_duration :: "DunningRetryDelay \<Rightarrow> std_duration" where
  "DunningRetryDelay_duration d =
     \<lparr>duration_secs = of_nat (unat (delay_seconds d)), duration_subsec_nanos = 0\<rparr>"

datatype DunningSchedule = DunningSchedule (retry_delays: "DunningRetryDelay list")

definition DunningSchedule_new :: "DunningRetryDelay list \<Rightarrow> (DunningSchedule, SubscriptionTermsError) result" where
  "DunningSchedule_new delays =
     (if length delays > MAX_DUNNING_RETRY_STEPS then Err TooManyDunningRetrySteps
      else Ok (DunningSchedule delays))"

definition DunningSchedule_from_delays ::
    "DunningRetryDelay list \<Rightarrow> (DunningSchedule, SubscriptionTermsError) result" where
  "DunningSchedule_from_delays delays = DunningSchedule_new (take (MAX_DUNNING_RETRY_STEPS + 1) delays)"

text \<open>\<open>collect::<Result<Vec<_>, _>>\<close> stops at the first error.\<close>

fun collect_results :: "('a, 'e) result list \<Rightarrow> ('a list, 'e) result" where
  "collect_results [] = Ok []"
| "collect_results (r # rs) = and_then r (\<lambda>a. map_sum id (Cons a) (collect_results rs))"

definition DunningSchedule_from_seconds :: "u32 list \<Rightarrow> (DunningSchedule, SubscriptionTermsError) result" where
  "DunningSchedule_from_seconds seconds =
     and_then (collect_results (map DunningRetryDelay_new (take (MAX_DUNNING_RETRY_STEPS + 1) seconds)))
       DunningSchedule_new"

definition DunningSchedule_is_empty :: "DunningSchedule \<Rightarrow> bool" where
  "DunningSchedule_is_empty s \<longleftrightarrow> retry_delays s = []"

datatype DunningExhaustion = RemainPastDue | MarkUnpaid

definition DunningExhaustion_ALL :: "DunningExhaustion list" where
  "DunningExhaustion_ALL = [RemainPastDue, MarkUnpaid]"

primrec DunningExhaustion_as_str :: "DunningExhaustion \<Rightarrow> rstring" where
  "DunningExhaustion_as_str RemainPastDue = lit ''remain_past_due''"
| "DunningExhaustion_as_str MarkUnpaid = lit ''mark_unpaid''"

definition DunningExhaustion_from_str ::
    "rstring \<Rightarrow> (DunningExhaustion, SubscriptionTermsParseError) result" where
  "DunningExhaustion_from_str value =
     (if value = lit ''remain_past_due'' then Ok RemainPastDue
      else if value = lit ''mark_unpaid'' then Ok MarkUnpaid
      else Err SubscriptionTermsParseError)"

datatype PastDueAccessPolicy = SuspendImmediately | ContinueUntilDunningExhausted

definition PastDueAccessPolicy_ALL :: "PastDueAccessPolicy list" where
  "PastDueAccessPolicy_ALL = [SuspendImmediately, ContinueUntilDunningExhausted]"

primrec PastDueAccessPolicy_as_str :: "PastDueAccessPolicy \<Rightarrow> rstring" where
  "PastDueAccessPolicy_as_str SuspendImmediately = lit ''suspend_immediately''"
| "PastDueAccessPolicy_as_str ContinueUntilDunningExhausted = lit ''continue_until_dunning_exhausted''"

definition PastDueAccessPolicy_from_str ::
    "rstring \<Rightarrow> (PastDueAccessPolicy, SubscriptionTermsParseError) result" where
  "PastDueAccessPolicy_from_str value =
     (if value = lit ''suspend_immediately'' then Ok SuspendImmediately
      else if value = lit ''continue_until_dunning_exhausted'' then Ok ContinueUntilDunningExhausted
      else Err SubscriptionTermsParseError)"

interpretation dunning_exhaustion: text_codec
  DunningExhaustion_ALL DunningExhaustion_as_str DunningExhaustion_from_str
proof unfold_locales
  fix v show "v \<in> set DunningExhaustion_ALL" by (cases v) (simp_all add: DunningExhaustion_ALL_def)
next
  fix v show "DunningExhaustion_from_str (DunningExhaustion_as_str v) = Ok v"
    by (cases v) (simp_all add: DunningExhaustion_from_str_def)
qed (auto simp: DunningExhaustion_from_str_def split: if_splits)

interpretation past_due_access: text_codec
  PastDueAccessPolicy_ALL PastDueAccessPolicy_as_str PastDueAccessPolicy_from_str
proof unfold_locales
  fix v show "v \<in> set PastDueAccessPolicy_ALL" by (cases v) (simp_all add: PastDueAccessPolicy_ALL_def)
next
  fix v show "PastDueAccessPolicy_from_str (PastDueAccessPolicy_as_str v) = Ok v"
    by (cases v) (simp_all add: PastDueAccessPolicy_from_str_def)
qed (auto simp: PastDueAccessPolicy_from_str_def split: if_splits)

record RenewalFailurePolicy =
  policy_schedule :: DunningSchedule
  policy_exhaustion :: DunningExhaustion
  policy_past_due_access :: PastDueAccessPolicy

section \<open>Offers\<close>

record SubscriptionOffer =
  offer_plan_key :: PlanKey
  offer_recurring :: RecurringSubscriptionTerms
  offer_start :: SubscriptionStart
  offer_renewal_failure :: RenewalFailurePolicy

definition SubscriptionOffer_new ::
    "PlanKey \<Rightarrow> RecurringSubscriptionTerms \<Rightarrow> SubscriptionStart \<Rightarrow> RenewalFailurePolicy \<Rightarrow>
     (SubscriptionOffer, SubscriptionTermsError) result" where
  "SubscriptionOffer_new plan_key recurring start renewal_failure =
     (if (case start of
            SubscriptionStart.PaidTrial trial \<Rightarrow>
              ChargeAmount_currency (trial_charge trial) \<noteq> ChargeAmount_currency (recurring_charge recurring)
          | RecurringImmediately \<Rightarrow> False)
      then Err CurrencyMismatch
      else Ok \<lparr>offer_plan_key = plan_key, offer_recurring = recurring, offer_start = start,
               offer_renewal_failure = renewal_failure\<rparr>)"

definition SubscriptionOffer_currency :: "SubscriptionOffer \<Rightarrow> CurrencyCode" where
  "SubscriptionOffer_currency o1 = ChargeAmount_currency (recurring_charge (offer_recurring o1))"

definition has_same_terms_except_recurring_amount :: "SubscriptionOffer \<Rightarrow> SubscriptionOffer \<Rightarrow> bool" where
  "has_same_terms_except_recurring_amount self other \<longleftrightarrow>
     offer_plan_key self = offer_plan_key other \<and>
     SubscriptionOffer_currency self = SubscriptionOffer_currency other \<and>
     recurring_period (offer_recurring self) = recurring_period (offer_recurring other) \<and>
     offer_start self = offer_start other \<and>
     offer_renewal_failure self = offer_renewal_failure other"

definition SubscriptionOffer_wf :: "SubscriptionOffer \<Rightarrow> bool" where
  "SubscriptionOffer_wf o1 \<longleftrightarrow>
     pred_option (\<lambda>t. ChargeAmount_currency (trial_charge t) = SubscriptionOffer_currency o1)
       (SubscriptionStart_paid_trial (offer_start o1))"

lemma SubscriptionOffer_new_Ok_iff [result_simps]:
  "SubscriptionOffer_new k r s f = Ok o1 \<longleftrightarrow>
     o1 = \<lparr>offer_plan_key = k, offer_recurring = r, offer_start = s, offer_renewal_failure = f\<rparr> \<and>
     SubscriptionOffer_wf o1"
  by (cases s) (auto simp: SubscriptionOffer_new_def SubscriptionOffer_wf_def SubscriptionOffer_currency_def)

section \<open>Gateway state words\<close>

definition normalized_gateway_state_value :: "rstring \<Rightarrow> rstring" where
  "normalized_gateway_state_value value =
     filter (\<lambda>c. \<not> is_ascii_whitespace c \<and> c \<noteq> 95 \<and> c \<noteq> 45) (to_ascii_lowercase (trim value))"

definition gateway_state_is_approved :: "rstring \<Rightarrow> bool" where
  "gateway_state_is_approved value \<longleftrightarrow>
     normalized_gateway_state_value value \<in>
       {lit ''approved'', lit ''complete'', lit ''completed'', lit ''captured'', lit ''success'',
        lit ''successful'', lit ''pendingsettlement''}"

definition gateway_response_is_approved :: "rstring option \<Rightarrow> bool" where
  "gateway_response_is_approved value =
     (case map_option normalized_gateway_state_value value of
        None \<Rightarrow> False
      | Some normalized \<Rightarrow>
          normalized \<in> {lit ''1'', lit ''100''} \<or> gateway_state_is_approved normalized)"

section \<open>Billing periods\<close>

datatype BillingPeriodPolicyError = Overflow | InvalidPeriod BillingPeriodError

definition next_billing_period ::
    "chrono \<Rightarrow> datetime \<Rightarrow> SubscriptionPeriodRule \<Rightarrow> (BillingPeriod, BillingPeriodPolicyError) result" where
  "next_billing_period ch start_at rule =
     and_then
       (case rule of
          FixedDays days \<Rightarrow>
            ok_or (checked_add_signed ch start_at (duration_days (int (unat days)))) Overflow
        | CalendarMonths months \<Rightarrow> ok_or (add_months ch start_at (unat months)) Overflow)
       (\<lambda>next_end. map_err InvalidPeriod (BillingPeriod_new start_at next_end))"

lemma next_billing_period_Ok_iff [result_simps]:
  "next_billing_period ch s r = Ok p \<longleftrightarrow>
     period_start_at p = s \<and> BillingPeriod_wf p \<and>
     (case r of
        FixedDays d \<Rightarrow> period_end_at p = s + duration_days (int (unat d)) \<and>
          min_utc ch \<le> period_end_at p \<and> period_end_at p \<le> max_utc ch
      | CalendarMonths m \<Rightarrow> add_months ch s (unat m) = Some (period_end_at p))"
  by (cases p; cases r)
     (auto simp: next_billing_period_def and_then_Inr_iff result_simps BillingPeriod_wf_def
       checked_add_signed_Some_iff)

section \<open>Delays and schedules\<close>

lemma DunningRetryDelay_new_Ok_iff [result_simps]:
  "DunningRetryDelay_new n = Ok d \<longleftrightarrow> n \<noteq> 0 \<and> delay_seconds d = n"
  by (cases d) (auto simp: DunningRetryDelay_new_def)

lemma from_whole_units_Ok_iff [result_simps]:
  "from_whole_units n k = Ok d \<longleftrightarrow>
     unat n * unat k < 2 ^ 32 \<and> unat (delay_seconds d) = unat n * unat k \<and> n \<noteq> 0 \<and> k \<noteq> 0"
  by (auto simp: from_whole_units_def and_then_Inr_iff checked_mul_u32_Some_iff result_simps
      unat_eq_0 [symmetric])

lemma unat_seconds_per [simp]: "unat SECONDS_PER_HOUR = 3600" "unat SECONDS_PER_DAY = 86400"
  by (simp_all add: SECONDS_PER_HOUR_def SECONDS_PER_DAY_def)

lemma seconds_per_nonzero [simp]: "SECONDS_PER_HOUR \<noteq> 0" "SECONDS_PER_DAY \<noteq> 0"
  by (simp_all add: unat_eq_0 [symmetric])

text \<open>Retry delays given in hours or days are exact or refused: a delay is built only for a
  positive count whose seconds fit in 32 bits, and then it is that many seconds, never a
  wrapped value; and a delay read back through \<open>Duration\<close> is unchanged.\<close>

lemma dunning_delay_units_exact:
  "(DunningRetryDelay_hours n = Ok d \<longleftrightarrow>
      0 < unat n \<and> unat n * 3600 < 2 ^ 32 \<and> unat (delay_seconds d) = unat n * 3600) \<and>
   (DunningRetryDelay_days n = Ok d \<longleftrightarrow>
      0 < unat n \<and> unat n * 86400 < 2 ^ 32 \<and> unat (delay_seconds d) = unat n * 86400) \<and>
   (from_duration (DunningRetryDelay_duration d) = Ok d \<longleftrightarrow> delay_seconds d \<noteq> 0)"
proof -
  have pos: "n \<noteq> 0 \<longleftrightarrow> 0 < unat n" by (simp add: unat_gt_0)
  define t :: u64 where "t = of_nat (unat (delay_seconds d))"
  have lt: "unat (delay_seconds d) < 2 ^ 32"
    using unsigned_less [of "delay_seconds d", where 'a = nat] by simp
  have sec: "unat t = unat (delay_seconds d)"
    using lt by (simp add: t_def unsigned_ucast_eq take_bit_nat_eq_self_iff)
  then have zero: "t = 0 \<longleftrightarrow> delay_seconds d = 0"
    by (metis unat_eq_0)
  have "from_duration (DunningRetryDelay_duration d) = Ok d \<longleftrightarrow> delay_seconds d \<noteq> 0"
    unfolding from_duration_def DunningRetryDelay_duration_def t_def [symmetric]
    using lt by (simp add: zero sec result_simps)
  then show ?thesis
    by (auto simp: DunningRetryDelay_hours_def DunningRetryDelay_days_def result_simps pos)
qed

lemma collect_delays:
  "collect_results (map DunningRetryDelay_new xs) =
     (if 0 \<in> set xs then Err ZeroDunningDelay else Ok (map (\<lambda>s. \<lparr>delay_seconds = s\<rparr>) xs))"
  by (induction xs) (auto simp: DunningRetryDelay_new_def nonzero_def)

text \<open>A schedule read from persisted seconds holds all of them in order when there are at most
  sixteen and none is zero; otherwise it is refused, with the zero reported first among the
  seventeen values that are looked at.  Values after the seventeenth never matter.\<close>

lemma dunning_schedule_from_seconds:
  "DunningSchedule_from_seconds xs =
     (if 0 \<in> set (take 17 xs) then Err ZeroDunningDelay
      else if 16 < length xs then Err TooManyDunningRetrySteps
      else Ok (DunningSchedule (map (\<lambda>s. \<lparr>delay_seconds = s\<rparr>) xs)))"
  by (simp add: DunningSchedule_from_seconds_def MAX_DUNNING_RETRY_STEPS_def collect_delays
      DunningSchedule_new_def)

text \<open>The stored form of a period rule reads back: every rule the constructors can build is
  recovered from its kind and count, and nothing else is accepted.\<close>

lemma period_rule_roundtrip:
  "from_kind_and_count k n = Ok r \<longleftrightarrow>
     period_rule_wf r \<and> k = SubscriptionPeriodRule_as_str r \<and> n = SubscriptionPeriodRule_count r"
  by (cases r) (auto simp: from_kind_and_count_def and_then_Inr_iff period_rule_wf_def)

section \<open>Chained periods\<close>

text \<open>The boundary after \<open>n\<close> periods, each starting where the one before ended.\<close>

fun nth_boundary :: "chrono \<Rightarrow> datetime \<Rightarrow> SubscriptionPeriodRule \<Rightarrow> nat \<Rightarrow> (datetime, BillingPeriodPolicyError) result" where
  "nth_boundary ch s r 0 = Ok s"
| "nth_boundary ch s r (Suc n) =
     and_then (nth_boundary ch s r n) (\<lambda>t. map_sum id period_end_at (next_billing_period ch t r))"

text \<open>Successive fixed-day periods are contiguous and do not drift: after \<open>n\<close> of them the
  boundary is exactly \<open>n\<close> times the day count later, as long as that instant is in chrono's
  range; past the range the computation reports an overflow instead of wrapping.\<close>

lemma fixed_day_periods_do_not_drift:
  assumes "min_utc ch \<le> s" and "s \<le> max_utc ch" and "0 < unat d"
  shows "nth_boundary ch s (FixedDays d) n =
    (if s + duration_days (int n * int (unat d)) \<le> max_utc ch
     then Ok (s + duration_days (int n * int (unat d))) else Err Overflow)"
proof (induction n)
  case 0
  then show ?case using assms by (simp add: duration_days_def duration_seconds_def)
next
  case (Suc n)
  let ?b = "\<lambda>k. s + duration_days (int k * int (unat d))"
  have step: "?b n + duration_days (int (unat d)) = ?b (Suc n)"
    by (simp add: duration_days_def duration_seconds_def algebra_simps)
  have d: "0 < duration_days (int (unat d))"
  proof -
    have "0 < int (unat d)" using assms(3) by (simp only: of_nat_0_less_iff)
    then show ?thesis unfolding duration_days_def duration_seconds_def by linarith
  qed
  have lo: "min_utc ch \<le> ?b (Suc n)"
  proof -
    have "0 \<le> int (Suc n) * int (unat d)" by simp
    then show ?thesis
      using assms(1) unfolding duration_days_def duration_seconds_def by linarith
  qed
  have next_period: "next_billing_period ch (?b n) (FixedDays d) =
      (if ?b (Suc n) \<le> max_utc ch then Ok \<lparr>period_start_at = ?b n, period_end_at = ?b (Suc n)\<rparr>
       else Err Overflow)"
    using lo d step by (simp add: next_billing_period_def checked_add_signed_def BillingPeriod_new_def)
  show ?case
    using Suc.IH next_period d step by (auto simp: split: if_splits)
qed

lemma fixed_day_periods_do_not_drift_witness:
  "nth_boundary \<lparr>min_utc = 0, max_utc = duration_days 100, add_months = \<lambda>_ _. None\<rparr> 0 (FixedDays 30) 3 =
     Ok (duration_days 90) \<and>
   nth_boundary \<lparr>min_utc = 0, max_utc = duration_days 100, add_months = \<lambda>_ _. None\<rparr> 0 (FixedDays 30) 4 =
     Err Overflow"
  using fixed_day_periods_do_not_drift [of "\<lparr>min_utc = 0, max_utc = duration_days 100, add_months = \<lambda>_ _. None\<rparr>"
      0 30 3]
    fixed_day_periods_do_not_drift [of "\<lparr>min_utc = 0, max_utc = duration_days 100, add_months = \<lambda>_ _. None\<rparr>"
      0 30 4]
  by (simp add: duration_days_def duration_seconds_def)

section \<open>Gateway state words\<close>

lemma normalized_chars:
  "c \<in> set (normalized_gateway_state_value v) \<Longrightarrow> ascii_lower c = c \<and> \<not> is_ascii_whitespace c \<and> c \<noteq> 95 \<and> c \<noteq> 45"
  by (auto simp: normalized_gateway_state_value_def to_ascii_lowercase_def)

text \<open>A gateway response code counts as approved exactly when its normal form (trimmed, lower
  case, without ASCII white space, underscores and hyphens) is one of nine words, whenever that
  normal form has no further white space at its edges: normalising a second time inside the
  state check changes nothing there.\<close>

lemma gateway_response_approved_iff:
  assumes "trim (normalized_gateway_state_value v) = normalized_gateway_state_value v"
  shows "gateway_response_is_approved (Some v) \<longleftrightarrow>
    normalized_gateway_state_value v \<in>
      {lit ''1'', lit ''100'', lit ''approved'', lit ''complete'', lit ''completed'', lit ''captured'',
       lit ''success'', lit ''successful'', lit ''pendingsettlement''}"
proof -
  let ?n = "normalized_gateway_state_value v"
  have "map ascii_lower ?n = ?n" by (rule map_idI) (simp add: normalized_chars)
  moreover have "filter (\<lambda>c. \<not> is_ascii_whitespace c \<and> c \<noteq> 95 \<and> c \<noteq> 45) ?n = ?n"
    by (rule filter_True) (simp add: normalized_chars)
  ultimately have "normalized_gateway_state_value ?n = ?n"
    unfolding normalized_gateway_state_value_def [of ?n] assms to_ascii_lowercase_def by simp
  then show ?thesis
    by (simp add: gateway_response_is_approved_def gateway_state_is_approved_def)
qed

lemma gateway_response_approved_iff_witness:
  "gateway_response_is_approved (Some (lit '' Pending_Settlement ''))"
proof -
  let ?v = "lit '' Pending_Settlement ''"
  have n: "normalized_gateway_state_value ?v = lit ''pendingsettlement''"
    by (simp add: normalized_gateway_state_value_def lit_eval trim_def trim_matches_def
        is_whitespace_def to_ascii_lowercase_def ascii_lower_def ascii_class_defs)
  moreover have "trim (lit ''pendingsettlement'') = lit ''pendingsettlement''"
    by (simp add: lit_eval trim_def trim_matches_def is_whitespace_def)
  ultimately show ?thesis using gateway_response_approved_iff [of ?v] by simp
qed

end
