(* ===== verification/Gateway_Outcome.thy ===== *)
theory Gateway_Outcome
  imports Gateway_Value Terms
begin

text \<open>
  What a gateway answers: \<open>crates/syrup-rail/src/gateway.rs\<close> and \<open>gateway/metadata.rs\<close>.  Account
  modes, query and report requests, the eleven payment diagnostics, processor evidence and
  payment outcomes.  The theorems concern the certainty of an outcome: diagnostics only ever
  take certainty away, and what they quarantine stays quarantined.
\<close>

section \<open>Account modes and requests\<close>

datatype GatewayAccountMode = Live | Test

definition GatewayAccountMode_all :: "GatewayAccountMode list" where
  "GatewayAccountMode_all = [Live, Test]"

primrec GatewayAccountMode_as_str :: "GatewayAccountMode \<Rightarrow> rstring" where
  "GatewayAccountMode_as_str Live = lit ''live''"
| "GatewayAccountMode_as_str Test = lit ''test''"

datatype GatewayAccountModeParseError = GatewayAccountModeParseError

definition GatewayAccountMode_from_str ::
    "rstring \<Rightarrow> (GatewayAccountMode, GatewayAccountModeParseError) result" where
  "GatewayAccountMode_from_str value =
     (if value = lit ''live'' then Ok Live
      else if value = lit ''test'' then Ok Test
      else Err GatewayAccountModeParseError)"

interpretation account_mode: text_codec
  GatewayAccountMode_all GatewayAccountMode_as_str GatewayAccountMode_from_str
proof unfold_locales
  fix v show "v \<in> set GatewayAccountMode_all" by (cases v) (simp_all add: GatewayAccountMode_all_def)
next
  fix v show "GatewayAccountMode_from_str (GatewayAccountMode_as_str v) = Ok v"
    by (cases v) (simp_all add: GatewayAccountMode_from_str_def)
qed (auto simp: GatewayAccountMode_from_str_def split: if_splits)

datatype GatewayRequestError = MissingQuerySelector | InvalidReportWindow | InvalidPageSize

record GatewayQueryRequest =
  query_transaction_id :: "GatewayTransactionId option"
  query_order_id :: "GatewayOrderId option"

definition GatewayQueryRequest_new ::
    "GatewayTransactionId option \<Rightarrow> GatewayOrderId option \<Rightarrow> (GatewayQueryRequest, GatewayRequestError) result" where
  "GatewayQueryRequest_new transaction_id order_id =
     (if transaction_id = None \<and> order_id = None then Err MissingQuerySelector
      else Ok \<lparr>query_transaction_id = transaction_id, query_order_id = order_id\<rparr>)"

record GatewayTransactionReportRequest =
  report_start_at :: datetime
  report_end_at :: datetime
  report_page_size :: u32
  report_page_index :: u32

definition GatewayTransactionReportRequest_new ::
    "datetime \<Rightarrow> datetime \<Rightarrow> u32 \<Rightarrow> u32 \<Rightarrow> (GatewayTransactionReportRequest, GatewayRequestError) result" where
  "GatewayTransactionReportRequest_new start_at end_at page_size page_index =
     (if end_at \<le> start_at then Err InvalidReportWindow
      else and_then (ok_or (nonzero page_size) InvalidPageSize) (\<lambda>page_size.
        Ok \<lparr>report_start_at = start_at, report_end_at = end_at,
            report_page_size = page_size, report_page_index = page_index\<rparr>))"

section \<open>Payment diagnostics\<close>

datatype GatewayPaymentStatus = Approved | Declined | Unknown | Failed

datatype GatewayPaymentDiagnostic =
    MissingTransactionIdentifier
  | MissingPaymentMethodReference
  | InvalidOrConflictingTransactionIdentifier
  | InvalidOrConflictingPaymentMethodReference
  | InvalidOrConflictingDecisionField
  | IndeterminatePaymentOutcome
  | ProcessorReportedDuplicate
  | ConflictingDecisionEvidence
  | UnrecognizedDecisionEvidence
  | MissingDecisionEvidence
  | UnmappedProviderDiagnostic

definition GatewayPaymentDiagnostic_ALL :: "GatewayPaymentDiagnostic list" where
  "GatewayPaymentDiagnostic_ALL =
     [MissingTransactionIdentifier, MissingPaymentMethodReference,
      InvalidOrConflictingTransactionIdentifier, InvalidOrConflictingPaymentMethodReference,
      InvalidOrConflictingDecisionField, IndeterminatePaymentOutcome, ProcessorReportedDuplicate,
      ConflictingDecisionEvidence, UnrecognizedDecisionEvidence, MissingDecisionEvidence,
      UnmappedProviderDiagnostic]"

text \<open>The declaration order, \<open>diagnostic as usize\<close>.\<close>

primrec diagnostic_index :: "GatewayPaymentDiagnostic \<Rightarrow> nat" where
  "diagnostic_index MissingTransactionIdentifier = 0"
| "diagnostic_index MissingPaymentMethodReference = 1"
| "diagnostic_index InvalidOrConflictingTransactionIdentifier = 2"
| "diagnostic_index InvalidOrConflictingPaymentMethodReference = 3"
| "diagnostic_index InvalidOrConflictingDecisionField = 4"
| "diagnostic_index IndeterminatePaymentOutcome = 5"
| "diagnostic_index ProcessorReportedDuplicate = 6"
| "diagnostic_index ConflictingDecisionEvidence = 7"
| "diagnostic_index UnrecognizedDecisionEvidence = 8"
| "diagnostic_index MissingDecisionEvidence = 9"
| "diagnostic_index UnmappedProviderDiagnostic = 10"

fun requires_unknown_status :: "GatewayPaymentDiagnostic \<Rightarrow> bool" where
  "requires_unknown_status MissingTransactionIdentifier = False"
| "requires_unknown_status MissingPaymentMethodReference = False"
| "requires_unknown_status InvalidOrConflictingTransactionIdentifier = False"
| "requires_unknown_status InvalidOrConflictingPaymentMethodReference = False"
| "requires_unknown_status _ = True"

definition prevents_approval :: "GatewayPaymentDiagnostic \<Rightarrow> bool" where
  "prevents_approval d \<longleftrightarrow>
     requires_unknown_status d \<or>
     d \<in> {InvalidOrConflictingTransactionIdentifier, InvalidOrConflictingPaymentMethodReference}"

definition normalize_gateway_payment_diagnostics ::
    "GatewayPaymentDiagnostic list \<Rightarrow> GatewayPaymentDiagnostic list" where
  "normalize_gateway_payment_diagnostics diagnostics =
     remdups_adj (sort_key diagnostic_index diagnostics)"

section \<open>Card presentation\<close>

datatype CardLastFour = CardLastFour (CardLastFour_expose: rstring)

definition CardLastFour_from_provider :: "rstring \<Rightarrow> CardLastFour option" where
  "CardLastFour_from_provider value =
     (let value = trim value in
      if byte_len value = 4 \<and> list_all is_ascii_digit (utf8_bytes value)
      then Some (CardLastFour value) else None)"

datatype PaymentCardBrand =
    Visa | Mastercard | AmericanExpress | Discover | Jcb | DinersClub | UnionPay | Maestro | Other

definition PAYMENT_CARD_BRAND_ALIASES :: "(rstring \<times> PaymentCardBrand) list" where
  "PAYMENT_CARD_BRAND_ALIASES =
     [(lit ''visa'', Visa),
      (lit ''mastercard'', Mastercard),
      (lit ''master card'', Mastercard),
      (lit ''american express'', AmericanExpress),
      (lit ''amex'', AmericanExpress),
      (lit ''discover'', Discover),
      (lit ''jcb'', Jcb),
      (lit ''diners'', DinersClub),
      (lit ''diners club'', DinersClub),
      (lit ''dinersclub'', DinersClub),
      (lit ''unionpay'', UnionPay),
      (lit ''union pay'', UnionPay),
      (lit ''maestro'', Maestro)]"

fun find_alias :: "rstring \<Rightarrow> (rstring \<times> PaymentCardBrand) list \<Rightarrow> PaymentCardBrand option" where
  "find_alias value [] = None"
| "find_alias value ((alias, brand) # rest) =
     (if eq_ignore_ascii_case value alias then Some brand else find_alias value rest)"

definition PaymentCardBrand_from_provider :: "rstring \<Rightarrow> PaymentCardBrand option" where
  "PaymentCardBrand_from_provider value =
     (let value = trim value in
      if value = [] then None
      else Some (case find_alias value PAYMENT_CARD_BRAND_ALIASES of Some b \<Rightarrow> b | None \<Rightarrow> Other))"

primrec PaymentCardBrand_as_str :: "PaymentCardBrand \<Rightarrow> rstring" where
  "PaymentCardBrand_as_str Visa = lit ''visa''"
| "PaymentCardBrand_as_str Mastercard = lit ''mastercard''"
| "PaymentCardBrand_as_str AmericanExpress = lit ''american_express''"
| "PaymentCardBrand_as_str Discover = lit ''discover''"
| "PaymentCardBrand_as_str Jcb = lit ''jcb''"
| "PaymentCardBrand_as_str DinersClub = lit ''diners_club''"
| "PaymentCardBrand_as_str UnionPay = lit ''union_pay''"
| "PaymentCardBrand_as_str Maestro = lit ''maestro''"
| "PaymentCardBrand_as_str Other = lit ''other''"

section \<open>Evidence\<close>

text \<open>A diagnostic is sanitised text; its constructor's regular expressions are not modelled.\<close>

datatype GatewayDiagnostic = GatewayDiagnostic (GatewayDiagnostic_expose: rstring)

record GatewayPaymentDescriptor =
  descriptor_payment_type :: "GatewayDiagnostic option"
  descriptor_card_brand :: "GatewayDiagnostic option"
  descriptor_card_last_four :: "CardLastFour option"
  descriptor_card_exp_month :: "int option"
  descriptor_card_exp_year :: "int option"

definition option_filter :: "('a \<Rightarrow> bool) \<Rightarrow> 'a option \<Rightarrow> 'a option" where
  "option_filter p x = (case x of Some a \<Rightarrow> if p a then Some a else None | None \<Rightarrow> None)"

definition GatewayPaymentDescriptor_from_provider_parts ::
    "GatewayDiagnostic option \<Rightarrow> GatewayDiagnostic option \<Rightarrow> rstring option \<Rightarrow> int option \<Rightarrow> int option \<Rightarrow>
     GatewayPaymentDescriptor" where
  "GatewayPaymentDescriptor_from_provider_parts payment_type card_brand card_last_four card_exp_month card_exp_year =
     \<lparr>descriptor_payment_type = payment_type,
      descriptor_card_brand = card_brand,
      descriptor_card_last_four = Option.bind card_last_four CardLastFour_from_provider,
      descriptor_card_exp_month = option_filter (\<lambda>m. 1 \<le> m \<and> m \<le> 12) card_exp_month,
      descriptor_card_exp_year = option_filter (\<lambda>y. 2000 \<le> y \<and> y \<le> 2100) card_exp_year\<rparr>"

definition canonical_card_brand :: "GatewayPaymentDescriptor \<Rightarrow> PaymentCardBrand option" where
  "canonical_card_brand d =
     Option.bind (descriptor_card_brand d) (\<lambda>b. PaymentCardBrand_from_provider (GatewayDiagnostic_expose b))"

record ProcessorEvidence =
  evidence_transaction_id :: "GatewayTransactionId option"
  evidence_payment_method_reference :: "GatewayPaymentMethodReference option"
  evidence_response :: "GatewayDiagnostic option"
  evidence_response_code :: "GatewayDiagnostic option"
  evidence_response_text :: "GatewayDiagnostic option"
  evidence_condition :: "GatewayDiagnostic option"
  evidence_descriptor :: GatewayPaymentDescriptor

definition ProcessorEvidence_default :: ProcessorEvidence where
  "ProcessorEvidence_default =
     \<lparr>evidence_transaction_id = None, evidence_payment_method_reference = None,
      evidence_response = None, evidence_response_code = None, evidence_response_text = None,
      evidence_condition = None,
      evidence_descriptor = GatewayPaymentDescriptor_from_provider_parts None None None None None\<rparr>"

definition has_gateway_reference :: "ProcessorEvidence \<Rightarrow> bool" where
  "has_gateway_reference e \<longleftrightarrow>
     evidence_transaction_id e \<noteq> None \<or> evidence_payment_method_reference e \<noteq> None"

definition indicates_approved_payment :: "ProcessorEvidence \<Rightarrow> bool" where
  "indicates_approved_payment e \<longleftrightarrow>
     evidence_transaction_id e \<noteq> None \<and>
     (gateway_response_is_approved (map_option GatewayDiagnostic_expose (evidence_response e)) \<or>
      gateway_response_is_approved (map_option GatewayDiagnostic_expose (evidence_response_code e)) \<or>
      (case evidence_condition e of
         Some c \<Rightarrow> gateway_state_is_approved (GatewayDiagnostic_expose c)
       | None \<Rightarrow> False))"

datatype ApprovedProcessorEvidence = ApprovedProcessorEvidence (approved_inner: ProcessorEvidence)

section \<open>Outcomes\<close>

record GatewayPaymentOutcome =
  outcome_status :: GatewayPaymentStatus
  outcome_evidence :: ProcessorEvidence
  outcome_diagnostics :: "GatewayPaymentDiagnostic list"

definition GatewayPaymentOutcome_new :: "GatewayPaymentStatus \<Rightarrow> ProcessorEvidence \<Rightarrow> GatewayPaymentOutcome" where
  "GatewayPaymentOutcome_new status evidence =
     \<lparr>outcome_status = status, outcome_evidence = evidence, outcome_diagnostics = []\<rparr>"

definition with_diagnostics :: "GatewayPaymentOutcome \<Rightarrow> GatewayPaymentDiagnostic list \<Rightarrow> GatewayPaymentOutcome" where
  "with_diagnostics self diagnostics =
     (let self = self\<lparr>outcome_diagnostics := normalize_gateway_payment_diagnostics diagnostics\<rparr>;
          ds = outcome_diagnostics self;
          self = (if list_ex (\<lambda>d. d \<in> {MissingTransactionIdentifier,
                                         InvalidOrConflictingTransactionIdentifier}) ds
                  then self\<lparr>outcome_evidence := (outcome_evidence self)\<lparr>evidence_transaction_id := None\<rparr>\<rparr>
                  else self);
          self = (if list_ex (\<lambda>d. d \<in> {MissingPaymentMethodReference,
                                         InvalidOrConflictingPaymentMethodReference}) ds
                  then self\<lparr>outcome_evidence :=
                         (outcome_evidence self)\<lparr>evidence_payment_method_reference := None\<rparr>\<rparr>
                  else self)
      in if list_ex (\<lambda>d. requires_unknown_status d \<or>
                      outcome_status self = GatewayPaymentStatus.Approved \<and> prevents_approval d) ds
         then self\<lparr>outcome_status := GatewayPaymentStatus.Unknown\<rparr>
         else self)"

definition has_diagnostic :: "GatewayPaymentOutcome \<Rightarrow> GatewayPaymentDiagnostic \<Rightarrow> bool" where
  "has_diagnostic self d \<longleftrightarrow> d \<in> set (outcome_diagnostics self)"

definition approved_evidence :: "GatewayPaymentOutcome \<Rightarrow> ApprovedProcessorEvidence option" where
  "approved_evidence self =
     (if outcome_status self = GatewayPaymentStatus.Approved
      then Some (ApprovedProcessorEvidence (outcome_evidence self)) else None)"

record GatewayPaymentMethodMetadata =
  metadata_status :: GatewayPaymentStatus
  metadata_transaction_id :: "GatewayTransactionId option"
  metadata_payment_method_reference :: "GatewayPaymentMethodReference option"
  metadata_descriptor :: GatewayPaymentDescriptor
  metadata_diagnostics :: "GatewayPaymentDiagnostic list"

definition GatewayPaymentMethodMetadata_from_query_outcome ::
    "GatewayPaymentOutcome \<Rightarrow> GatewayPaymentMethodMetadata" where
  "GatewayPaymentMethodMetadata_from_query_outcome outcome =
     \<lparr>metadata_status = outcome_status outcome,
      metadata_transaction_id = evidence_transaction_id (outcome_evidence outcome),
      metadata_payment_method_reference = evidence_payment_method_reference (outcome_evidence outcome),
      metadata_descriptor = evidence_descriptor (outcome_evidence outcome),
      metadata_diagnostics = outcome_diagnostics outcome\<rparr>"

section \<open>The canonical form of diagnostics\<close>

lemma inj_diagnostic_index: "inj diagnostic_index"
proof (rule injI)
  fix x y assume "diagnostic_index x = diagnostic_index y"
  then show "x = y" by (cases x; cases y) simp_all
qed

lemma set_GatewayPaymentDiagnostic_ALL [simp]: "d \<in> set GatewayPaymentDiagnostic_ALL"
  by (cases d) (simp_all add: GatewayPaymentDiagnostic_ALL_def)

lemma set_normalize [simp]: "set (normalize_gateway_payment_diagnostics ds) = set ds"
  by (simp add: normalize_gateway_payment_diagnostics_def)

lemma strict_sorted_remdups_adj: "sorted (xs :: nat list) \<Longrightarrow> sorted_wrt (<) (remdups_adj xs)"
proof (induction xs rule: remdups_adj.induct)
  case (3 x y xs)
  then show ?case by (cases "x = y") (auto simp: order.strict_iff_order)
qed simp_all

lemma strict_sorted_normalize:
  "sorted_wrt (<) (map diagnostic_index (normalize_gateway_payment_diagnostics ds))"
  unfolding normalize_gateway_payment_diagnostics_def
    remdups_adj_map_injective [OF inj_diagnostic_index, symmetric]
  by (rule strict_sorted_remdups_adj) simp

lemma strict_sorted_filter_ALL:
  "sorted_wrt (<) (map diagnostic_index (filter p GatewayPaymentDiagnostic_ALL))"
proof -
  have "sorted_wrt (\<lambda>x y. diagnostic_index x < diagnostic_index y) GatewayPaymentDiagnostic_ALL"
    by (simp add: GatewayPaymentDiagnostic_ALL_def)
  then show ?thesis by (simp add: sorted_wrt_map sorted_wrt_filter)
qed

text \<open>Diagnostics have set semantics: sorting and deduplication give, whatever the order and
  multiplicity of the input, the members of the set in declaration order.\<close>

lemma normalize_diagnostics_canonical:
  "normalize_gateway_payment_diagnostics ds = filter (\<lambda>d. d \<in> set ds) GatewayPaymentDiagnostic_ALL"
proof -
  let ?n = "normalize_gateway_payment_diagnostics ds"
  let ?f = "filter (\<lambda>d. d \<in> set ds) GatewayPaymentDiagnostic_ALL"
  have "set (map diagnostic_index ?n) = set (map diagnostic_index ?f)" by auto
  then have "map diagnostic_index ?n = map diagnostic_index ?f"
    using strict_sorted_normalize [of ds] strict_sorted_filter_ALL [of "\<lambda>d. d \<in> set ds"]
    unfolding strict_sorted_iff by (intro sorted_distinct_set_unique) simp_all
  then show ?thesis using inj_diagnostic_index by (simp add: inj_map_eq_map)
qed

section \<open>Certainty only decreases\<close>

lemma with_diagnostics_status:
  "outcome_status (with_diagnostics x ds) =
     (if (\<exists>d \<in> set ds. requires_unknown_status d \<or>
          outcome_status x = GatewayPaymentStatus.Approved \<and> prevents_approval d)
      then GatewayPaymentStatus.Unknown else outcome_status x)"
  by (auto simp: with_diagnostics_def Let_def list_ex_iff)

lemma with_diagnostics_transaction_id:
  "evidence_transaction_id (outcome_evidence (with_diagnostics x ds)) =
     (if MissingTransactionIdentifier \<in> set ds \<or> InvalidOrConflictingTransactionIdentifier \<in> set ds
      then None else evidence_transaction_id (outcome_evidence x))"
  by (auto simp: with_diagnostics_def Let_def list_ex_iff)

lemma with_diagnostics_reference:
  "evidence_payment_method_reference (outcome_evidence (with_diagnostics x ds)) =
     (if MissingPaymentMethodReference \<in> set ds \<or> InvalidOrConflictingPaymentMethodReference \<in> set ds
      then None else evidence_payment_method_reference (outcome_evidence x))"
  by (auto simp: with_diagnostics_def Let_def list_ex_iff)

lemma with_diagnostics_diagnostics [simp]:
  "outcome_diagnostics (with_diagnostics x ds) = normalize_gateway_payment_diagnostics ds"
  by (simp add: with_diagnostics_def Let_def)

lemma foldl_downgrade:
  assumes "\<And>z a. f (g z a) \<in> {f z, u}"
  shows "f (foldl g z es) \<in> {f z, u}"
proof (induction es arbitrary: z)
  case (Cons a es)
  from Cons.IH [of "g z a"] assms [of z a] show ?case by auto
qed simp

text \<open>C30.  A certainty downgrade is monotonic: however often the diagnostics of an outcome are
  replaced, its status is either the original one or unknown, unknown is never left again, and
  an identity that was withdrawn never comes back.  An outcome that stays approved carries no
  diagnostic that prevents approval.\<close>

theorem diagnostics_only_downgrade:
  "let y = foldl with_diagnostics x dss in
     outcome_status y \<in> {outcome_status x, GatewayPaymentStatus.Unknown} \<and>
     evidence_transaction_id (outcome_evidence y) \<in> {evidence_transaction_id (outcome_evidence x), None} \<and>
     evidence_payment_method_reference (outcome_evidence y) \<in>
       {evidence_payment_method_reference (outcome_evidence x), None} \<and>
     outcome_status (foldl with_diagnostics (with_diagnostics y ds) dss') \<in>
       {outcome_status (with_diagnostics y ds), GatewayPaymentStatus.Unknown} \<and>
     (outcome_status (with_diagnostics y ds) = GatewayPaymentStatus.Approved \<longrightarrow>
        (\<forall>d \<in> set ds. \<not> prevents_approval d))"
proof -
  have status: "outcome_status (foldl with_diagnostics z es) \<in> {outcome_status z, GatewayPaymentStatus.Unknown}"
    for z es by (rule foldl_downgrade) (simp add: with_diagnostics_status)
  have txn: "evidence_transaction_id (outcome_evidence (foldl with_diagnostics z es)) \<in>
      {evidence_transaction_id (outcome_evidence z), None}" for z es
    by (rule foldl_downgrade) (simp add: with_diagnostics_transaction_id)
  have ref: "evidence_payment_method_reference (outcome_evidence (foldl with_diagnostics z es)) \<in>
      {evidence_payment_method_reference (outcome_evidence z), None}" for z es
    by (rule foldl_downgrade) (simp add: with_diagnostics_reference)
  have "\<forall>d \<in> set ds. \<not> prevents_approval d"
    if "outcome_status (with_diagnostics z ds) = GatewayPaymentStatus.Approved" for z
    using that by (auto simp: with_diagnostics_status split: if_splits)
  then show ?thesis using status txn ref unfolding Let_def by blast
qed

theorem diagnostics_only_downgrade_witness:
  "outcome_status (with_diagnostics
     (GatewayPaymentOutcome_new GatewayPaymentStatus.Declined ProcessorEvidence_default)
     [ProcessorReportedDuplicate]) \<in> {GatewayPaymentStatus.Declined, GatewayPaymentStatus.Unknown}"
  using diagnostics_only_downgrade
    [of "GatewayPaymentOutcome_new GatewayPaymentStatus.Declined ProcessorEvidence_default"
      "[[ProcessorReportedDuplicate]]" "[]" "[]"]
  by (simp add: Let_def GatewayPaymentOutcome_new_def)

text \<open>Evidence counts as an approved payment only with a transaction identity, so an outcome
  whose transaction identity the diagnostics withdrew is never taken for an approval, and the
  refined evidence of an outcome exists exactly when the outcome is approved.\<close>

lemma withdrawn_identity_is_no_approval:
  assumes "MissingTransactionIdentifier \<in> set ds \<or> InvalidOrConflictingTransactionIdentifier \<in> set ds"
  shows "\<not> indicates_approved_payment (outcome_evidence (with_diagnostics x ds)) \<and>
    (approved_evidence (with_diagnostics x ds) \<noteq> None \<longleftrightarrow>
       outcome_status x = GatewayPaymentStatus.Approved \<and> (\<forall>d \<in> set ds. \<not> prevents_approval d))"
  using assms
  by (auto simp: indicates_approved_payment_def with_diagnostics_transaction_id approved_evidence_def
      with_diagnostics_status prevents_approval_def)

lemma withdrawn_identity_is_no_approval_witness:
  "approved_evidence (with_diagnostics
     (GatewayPaymentOutcome_new GatewayPaymentStatus.Approved ProcessorEvidence_default)
     [MissingTransactionIdentifier]) \<noteq> None"
  using withdrawn_identity_is_no_approval [of "[MissingTransactionIdentifier]"
      "GatewayPaymentOutcome_new GatewayPaymentStatus.Approved ProcessorEvidence_default"]
  by (simp add: GatewayPaymentOutcome_new_def prevents_approval_def)

end
