(* ===== verification/Gateway_Lifecycle.thy ===== *)
theory Gateway_Lifecycle
  imports Gateway_Outcome
begin

text \<open>
  The life of an approved charge at the processor: \<open>crates/syrup-rail/src/gateway/lifecycle.rs\<close>,
  the query policy of \<open>gateway.rs\<close>, and the transition policy of
  \<open>crates/syrup-rail-postgres/src/lifecycle_reconciliation/transitions.rs\<close>.  Reports may arrive in
  any order; the theorems show that applying them never reopens a reversed charge, never
  lowers the refunded amount and never lets it exceed the captured amount.
\<close>

section \<open>States and evidence\<close>

datatype PaymentReversalKind = Refunded | Voided | Chargeback

datatype GatewayLifecycleState =
    Unknown
  | PendingSettlement
  | Settled "CumulativeRefundCents option"
  | Voided
  | Refunded CumulativeRefundCents
  | Chargeback "CumulativeRefundCents option"

fun full_reversal_kind :: "GatewayLifecycleState \<Rightarrow> PaymentReversalKind option" where
  "full_reversal_kind GatewayLifecycleState.Voided = Some PaymentReversalKind.Voided"
| "full_reversal_kind (GatewayLifecycleState.Refunded _) = Some PaymentReversalKind.Refunded"
| "full_reversal_kind (GatewayLifecycleState.Chargeback _) = Some PaymentReversalKind.Chargeback"
| "full_reversal_kind GatewayLifecycleState.Unknown = None"
| "full_reversal_kind PendingSettlement = None"
| "full_reversal_kind (Settled _) = None"

datatype GatewayLifecycleEvidenceError = MissingLocator

record GatewayLifecycleEvidence =
  lifecycle_transaction_id :: "GatewayTransactionId option"
  lifecycle_order_id :: "GatewayOrderId option"
  lifecycle_state :: GatewayLifecycleState
  lifecycle_condition :: "GatewayDiagnostic option"
  lifecycle_action :: "GatewayDiagnostic option"
  lifecycle_effective_at :: "datetime option"

definition GatewayLifecycleEvidence_new ::
    "GatewayTransactionId option \<Rightarrow> GatewayOrderId option \<Rightarrow> GatewayLifecycleState \<Rightarrow>
     GatewayDiagnostic option \<Rightarrow> GatewayDiagnostic option \<Rightarrow> datetime option \<Rightarrow>
     (GatewayLifecycleEvidence, GatewayLifecycleEvidenceError) result" where
  "GatewayLifecycleEvidence_new transaction_id order_id state condition action effective_at =
     (if transaction_id = None \<and> order_id = None then Err GatewayLifecycleEvidenceError.MissingLocator
      else Ok \<lparr>lifecycle_transaction_id = transaction_id, lifecycle_order_id = order_id,
               lifecycle_state = state, lifecycle_condition = condition,
               lifecycle_action = action, lifecycle_effective_at = effective_at\<rparr>)"

datatype GatewayLifecycleQuarantineReason =
  AmbiguousReversalSuccess | InvalidRefundEconomics | MalformedReportStructure

primrec GatewayLifecycleQuarantineReason_as_str :: "GatewayLifecycleQuarantineReason \<Rightarrow> rstring" where
  "GatewayLifecycleQuarantineReason_as_str AmbiguousReversalSuccess = lit ''ambiguous_reversal_success''"
| "GatewayLifecycleQuarantineReason_as_str InvalidRefundEconomics = lit ''invalid_refund_economics''"
| "GatewayLifecycleQuarantineReason_as_str MalformedReportStructure = lit ''malformed_report_structure''"

datatype GatewayLifecycleQuarantineResolutionReasonError = Empty | TooLong | ContainsRawCardData

datatype GatewayLifecycleQuarantineResolutionReason =
  GatewayLifecycleQuarantineResolutionReason rstring

definition GatewayLifecycleQuarantineResolutionReason_new ::
    "unicode \<Rightarrow> rstring \<Rightarrow>
     (GatewayLifecycleQuarantineResolutionReason, GatewayLifecycleQuarantineResolutionReasonError) result" where
  "GatewayLifecycleQuarantineResolutionReason_new u value =
     (let value = trim value in
      if value = [] then Err GatewayLifecycleQuarantineResolutionReasonError.Empty
      else if length value > 500 then Err GatewayLifecycleQuarantineResolutionReasonError.TooLong
      else if string_contains_raw_card_data u value then Err ContainsRawCardData
      else Ok (GatewayLifecycleQuarantineResolutionReason value))"

datatype GatewayLifecycleQuarantineError = MissingLocator

record GatewayLifecycleQuarantine =
  quarantine_transaction_id :: "GatewayTransactionId option"
  quarantine_order_id :: "GatewayOrderId option"
  quarantine_reason :: GatewayLifecycleQuarantineReason

definition GatewayLifecycleQuarantine_new ::
    "GatewayTransactionId option \<Rightarrow> GatewayOrderId option \<Rightarrow> GatewayLifecycleQuarantineReason \<Rightarrow>
     (GatewayLifecycleQuarantine, GatewayLifecycleQuarantineError) result" where
  "GatewayLifecycleQuarantine_new transaction_id order_id reason =
     (if transaction_id = None \<and> order_id = None \<and> reason \<noteq> MalformedReportStructure
      then Err GatewayLifecycleQuarantineError.MissingLocator
      else Ok \<lparr>quarantine_transaction_id = transaction_id, quarantine_order_id = order_id,
               quarantine_reason = reason\<rparr>)"

datatype GatewayTransactionReport =
    Ignore
  | Evidence GatewayLifecycleEvidence
  | Quarantine GatewayLifecycleQuarantine

section \<open>The query policy\<close>

datatype GatewayLifecycleQueryPolicyError = NonPositiveOverlap | NonPositiveLimit | Overflow

record GatewayLifecycleQueryPolicy =
  policy_cursor_key :: GatewayLifecycleCursorKey
  policy_overlap :: int
  policy_page_size :: u32
  policy_ordinary_page_limit :: u32
  policy_max_window_splits :: u32
  policy_narrow_window_drain_page_limit :: u32

definition GatewayLifecycleQueryPolicy_new ::
    "GatewayLifecycleCursorKey \<Rightarrow> int \<Rightarrow> u32 \<Rightarrow> u32 \<Rightarrow> u32 \<Rightarrow> u32 \<Rightarrow>
     (GatewayLifecycleQueryPolicy, GatewayLifecycleQueryPolicyError) result" where
  "GatewayLifecycleQueryPolicy_new cursor_key overlap page_size ordinary_page_limit max_window_splits
      narrow_window_drain_page_limit =
     (if overlap \<le> 0 then Err NonPositiveOverlap
      else and_then (ok_or (nonzero page_size) NonPositiveLimit) (\<lambda>page_size.
           and_then (ok_or (nonzero ordinary_page_limit) NonPositiveLimit) (\<lambda>ordinary_page_limit.
           and_then (ok_or (nonzero max_window_splits) NonPositiveLimit) (\<lambda>max_window_splits.
           and_then (ok_or (nonzero narrow_window_drain_page_limit) NonPositiveLimit)
             (\<lambda>narrow_window_drain_page_limit.
           and_then
             (ok_or
               (Option.bind (Option.bind (checked_mul_u32 page_size ordinary_page_limit)
                               (\<lambda>v. checked_mul_u32 v max_window_splits))
                  (\<lambda>_. checked_mul_u32 page_size narrow_window_drain_page_limit))
               GatewayLifecycleQueryPolicyError.Overflow)
             (\<lambda>_. Ok \<lparr>policy_cursor_key = cursor_key, policy_overlap = overlap,
                      policy_page_size = page_size, policy_ordinary_page_limit = ordinary_page_limit,
                      policy_max_window_splits = max_window_splits,
                      policy_narrow_window_drain_page_limit = narrow_window_drain_page_limit\<rparr>))))))"

section \<open>Transitions\<close>

datatype LifecycleTransition =
    Apply int
  | AlreadySuperseded
  | InvalidRefundEconomics
  | ConflictingLifecycleEvidence

datatype EvidenceTransition = Advance | Refresh | Superseded

definition INVALID_STORED_STATE :: rstring where
  "INVALID_STORED_STATE = lit ''canonical gateway lifecycle state is invalid''"

datatype 'h GatewayLifecycleReconciliationError =
    Sql
  | AccountNotFound
  | InvalidState rstring
  | HostChargeTarget 'h

primrec lifecycle_refunded_amount :: "GatewayLifecycleState \<Rightarrow> int option" where
  "lifecycle_refunded_amount (Settled refunded) = map_option CumulativeRefundCents_get refunded"
| "lifecycle_refunded_amount (GatewayLifecycleState.Chargeback refunded) =
     map_option CumulativeRefundCents_get refunded"
| "lifecycle_refunded_amount (GatewayLifecycleState.Refunded refunded) =
     Some (CumulativeRefundCents_get refunded)"
| "lifecycle_refunded_amount GatewayLifecycleState.Unknown = None"
| "lifecycle_refunded_amount PendingSettlement = None"
| "lifecycle_refunded_amount GatewayLifecycleState.Voided = None"

definition is_none_or :: "'a option \<Rightarrow> ('a \<Rightarrow> bool) \<Rightarrow> bool" where
  "is_none_or x p \<longleftrightarrow> (case x of None \<Rightarrow> True | Some a \<Rightarrow> p a)"

primrec incoming_amount_is_valid :: "GatewayLifecycleState \<Rightarrow> int \<Rightarrow> bool" where
  "incoming_amount_is_valid GatewayLifecycleState.Unknown captured = True"
| "incoming_amount_is_valid PendingSettlement captured = True"
| "incoming_amount_is_valid GatewayLifecycleState.Voided captured = True"
| "incoming_amount_is_valid (Settled refunded) captured \<longleftrightarrow>
     captured > 0 \<and> is_none_or refunded (\<lambda>a. CumulativeRefundCents_get a < captured)"
| "incoming_amount_is_valid (GatewayLifecycleState.Refunded refunded) captured \<longleftrightarrow>
     captured > 0 \<and> CumulativeRefundCents_get refunded = captured"
| "incoming_amount_is_valid (GatewayLifecycleState.Chargeback refunded) captured \<longleftrightarrow>
     captured > 0 \<and> is_none_or refunded (\<lambda>a. CumulativeRefundCents_get a \<le> captured)"

primrec stored_amount_is_valid :: "GatewayLifecycleState \<Rightarrow> int \<Rightarrow> int \<Rightarrow> bool" where
  "stored_amount_is_valid GatewayLifecycleState.Unknown refunded captured \<longleftrightarrow> refunded = 0"
| "stored_amount_is_valid PendingSettlement refunded captured \<longleftrightarrow> refunded = 0"
| "stored_amount_is_valid GatewayLifecycleState.Voided refunded captured \<longleftrightarrow> refunded = 0"
| "stored_amount_is_valid (Settled _) refunded captured \<longleftrightarrow>
     captured > 0 \<and> refunded \<ge> 0 \<and> refunded < captured"
| "stored_amount_is_valid (GatewayLifecycleState.Refunded _) refunded captured \<longleftrightarrow>
     captured > 0 \<and> refunded = captured"
| "stored_amount_is_valid (GatewayLifecycleState.Chargeback _) refunded captured \<longleftrightarrow>
     captured > 0 \<and> refunded \<ge> 0 \<and> refunded \<le> captured"

fun evidence_transition :: "GatewayLifecycleState \<Rightarrow> GatewayLifecycleState \<Rightarrow> EvidenceTransition" where
  "evidence_transition GatewayLifecycleState.Unknown GatewayLifecycleState.Unknown = Refresh"
| "evidence_transition GatewayLifecycleState.Unknown _ = Advance"
| "evidence_transition PendingSettlement GatewayLifecycleState.Unknown = Superseded"
| "evidence_transition PendingSettlement PendingSettlement = Refresh"
| "evidence_transition PendingSettlement _ = Advance"
| "evidence_transition (Settled _) GatewayLifecycleState.Unknown = Superseded"
| "evidence_transition (Settled _) PendingSettlement = Superseded"
| "evidence_transition (Settled _) (Settled _) = Refresh"
| "evidence_transition (Settled _) _ = Advance"
| "evidence_transition GatewayLifecycleState.Voided GatewayLifecycleState.Voided = Refresh"
| "evidence_transition GatewayLifecycleState.Voided (GatewayLifecycleState.Refunded _) = Advance"
| "evidence_transition GatewayLifecycleState.Voided (GatewayLifecycleState.Chargeback _) = Advance"
| "evidence_transition GatewayLifecycleState.Voided _ = Superseded"
| "evidence_transition (GatewayLifecycleState.Refunded _) (GatewayLifecycleState.Refunded _) = Refresh"
| "evidence_transition (GatewayLifecycleState.Refunded _) (GatewayLifecycleState.Chargeback _) = Advance"
| "evidence_transition (GatewayLifecycleState.Refunded _) _ = Superseded"
| "evidence_transition (GatewayLifecycleState.Chargeback _) (GatewayLifecycleState.Chargeback _) = Refresh"
| "evidence_transition (GatewayLifecycleState.Chargeback _) _ = Superseded"

definition lifecycle_transition ::
    "GatewayLifecycleState \<Rightarrow> int \<Rightarrow> datetime option \<Rightarrow> GatewayLifecycleState \<Rightarrow> datetime option \<Rightarrow> int \<Rightarrow>
     (LifecycleTransition, 'h GatewayLifecycleReconciliationError) result" where
  "lifecycle_transition current_state current_refunded_amount_cents current_lifecycle_at
      incoming_state incoming_lifecycle_at captured_amount_cents =
     (if \<not> stored_amount_is_valid current_state current_refunded_amount_cents captured_amount_cents
      then Err (InvalidState INVALID_STORED_STATE)
      else
        let incoming_refunded_amount_cents = lifecycle_refunded_amount incoming_state in
        if \<not> incoming_amount_is_valid incoming_state captured_amount_cents
        then Ok LifecycleTransition.InvalidRefundEconomics
        else
          let should_advance =
                (case evidence_transition current_state incoming_state of
                   Advance \<Rightarrow> True
                 | EvidenceTransition.Superseded \<Rightarrow> False
                 | Refresh \<Rightarrow>
                     current_lifecycle_at = None \<or>
                     (case (incoming_lifecycle_at, current_lifecycle_at) of
                        (Some incoming, Some current) \<Rightarrow> incoming > current
                      | _ \<Rightarrow> False) \<or>
                     (case incoming_refunded_amount_cents of
                        Some incoming \<Rightarrow> incoming > current_refunded_amount_cents
                      | None \<Rightarrow> False))
          in if \<not> should_advance then Ok AlreadySuperseded
             else
               let next_refunded_amount_cents =
                     max current_refunded_amount_cents
                       (case incoming_refunded_amount_cents of
                          Some a \<Rightarrow> a | None \<Rightarrow> current_refunded_amount_cents)
               in if \<not> stored_amount_is_valid incoming_state next_refunded_amount_cents captured_amount_cents
                  then Ok ConflictingLifecycleEvidence
                  else Ok (Apply next_refunded_amount_cents))"

section \<open>Precedence\<close>

text \<open>The rank behind the explicit table of transitions.\<close>

fun lifecycle_rank :: "GatewayLifecycleState \<Rightarrow> nat" where
  "lifecycle_rank GatewayLifecycleState.Unknown = 0"
| "lifecycle_rank PendingSettlement = 1"
| "lifecycle_rank (Settled _) = 2"
| "lifecycle_rank GatewayLifecycleState.Voided = 3"
| "lifecycle_rank (GatewayLifecycleState.Refunded _) = 4"
| "lifecycle_rank (GatewayLifecycleState.Chargeback _) = 5"

lemma evidence_transition_rank:
  "evidence_transition s t =
     (if lifecycle_rank s < lifecycle_rank t then Advance
      else if lifecycle_rank s = lifecycle_rank t then Refresh
      else EvidenceTransition.Superseded)"
  by (cases s; cases t) simp_all

lemma lifecycle_transition_ApplyD:
  assumes "lifecycle_transition s r at t at' cap = Ok (Apply r')"
  shows "stored_amount_is_valid s r cap" and "stored_amount_is_valid t r' cap" and "r \<le> r'"
    and "lifecycle_rank s \<le> lifecycle_rank t"
proof -
  from assms show "stored_amount_is_valid s r cap" and "stored_amount_is_valid t r' cap" and "r \<le> r'"
    by (auto simp: lifecycle_transition_def Let_def split: if_splits)
  show "lifecycle_rank s \<le> lifecycle_rank t"
  proof (rule ccontr)
    assume "\<not> lifecycle_rank s \<le> lifecycle_rank t"
    then have "evidence_transition s t = EvidenceTransition.Superseded"
      by (simp add: evidence_transition_rank)
    with assms show False by (auto simp: lifecycle_transition_def Let_def split: if_splits)
  qed
qed

lemma stored_amount_bounds:
  "stored_amount_is_valid s r cap \<Longrightarrow> 0 \<le> r \<and> (r = 0 \<or> r \<le> cap)"
  by (cases s) auto

lemma reversal_rank: "full_reversal_kind s \<noteq> None \<longleftrightarrow> 3 \<le> lifecycle_rank s"
  by (cases s) auto

end
