(* ===== verification/Lifecycle_Ledger.thy ===== *)
theory Lifecycle_Ledger
  imports Gateway_Lifecycle "HOL-Library.Product_Lexorder" "HOL-Library.Option_ord"
begin

text \<open>
  Applying lifecycle reports to the ledger of approved attempts:
  \<open>crates/syrup-rail-postgres/src/lifecycle_reconciliation.rs\<close>, with the host-target vocabulary of
  \<open>crates/syrup-rail/src/host_charge.rs\<close> and the account locator of \<open>reconciliation.rs\<close>.

  The database is an explicit state: the attempt rows, the staged updates, the quarantines and
  the host's own state.  A transaction is a function on that state whose failure leaves it as
  it was.  The host's target store is an argument.  SQL statement failures and lock timeouts
  are not modelled: they roll the transaction back.
\<close>

section \<open>Host targets\<close>

datatype HostChargeTargetTransitionKind =
    Paid
  | ReleasedBeforeSubmission
  | PaymentFailed
  | ReleasedAfterExternalReversal PaymentReversalKind
  | Reversed PaymentReversalKind

record HostChargeTargetTransition =
  target_billing_scope_id :: BillingScopeId
  target_subscriber_id :: SubscriberId
  target_attempt_id :: PaymentAttemptId
  target_target_id :: HostChargeTargetId
  target_kind :: HostChargeTargetTransitionKind
  target_effective_at :: datetime

datatype HostChargeTargetNoChange = Missing | InapplicableState | ReleaseUnsafe

datatype HostChargeTargetTransitionOutcome =
  Applied | ExactReplay | StaleTarget | Unchanged HostChargeTargetNoChange

definition HostChargeTargetTransitionOutcome_is_applied :: "HostChargeTargetTransitionOutcome \<Rightarrow> bool" where
  "HostChargeTargetTransitionOutcome_is_applied o1 \<longleftrightarrow> o1 \<in> {Applied, ExactReplay}"

text \<open>\<open>HostChargeTargetStore::apply_transition\<close>, run inside the ledger's transaction.\<close>

type_synonym ('h, 'e) target_store =
  "HostChargeTargetTransition \<Rightarrow> 'h \<Rightarrow> (HostChargeTargetTransitionOutcome \<times> 'h, 'e) result"

record GatewayLifecycleAccount =
  account_billing_scope_id :: BillingScopeId
  account_gateway_account_id :: GatewayAccountId
  account_provider_key :: GatewayProviderKey

section \<open>Stored evidence\<close>

record StoredEvidence =
  stored_transaction_id :: "rstring option"
  stored_order_id :: "rstring option"
  stored_state :: GatewayLifecycleState
  stored_condition :: "rstring option"
  stored_action :: "rstring option"
  stored_effective_at :: "datetime option"

definition postgres_timestamp_precision :: "datetime \<Rightarrow> datetime" where
  "postgres_timestamp_precision value = value - value mod nanos_per_second mod 1000"

definition StoredEvidence_from :: "GatewayLifecycleEvidence \<Rightarrow> StoredEvidence" where
  "StoredEvidence_from evidence =
     \<lparr>stored_transaction_id = map_option GatewayTransactionId_expose (lifecycle_transaction_id evidence),
      stored_order_id = map_option GatewayOrderId_expose (lifecycle_order_id evidence),
      stored_state = lifecycle_state evidence,
      stored_condition = map_option GatewayDiagnostic_expose (lifecycle_condition evidence),
      stored_action = map_option GatewayDiagnostic_expose (lifecycle_action evidence),
      stored_effective_at = map_option postgres_timestamp_precision (lifecycle_effective_at evidence)\<rparr>"

primrec lifecycle_status :: "GatewayLifecycleState \<Rightarrow> rstring" where
  "lifecycle_status GatewayLifecycleState.Unknown = lit ''unknown''"
| "lifecycle_status PendingSettlement = lit ''pending_settlement''"
| "lifecycle_status (Settled _) = lit ''settled''"
| "lifecycle_status GatewayLifecycleState.Voided = lit ''voided''"
| "lifecycle_status (GatewayLifecycleState.Refunded _) = lit ''refunded''"
| "lifecycle_status (GatewayLifecycleState.Chargeback _) = lit ''chargeback''"

abbreviation stored_refund ::
    "int \<Rightarrow> (CumulativeRefundCents, 'e GatewayLifecycleReconciliationError) result" where
  "stored_refund amount \<equiv>
     map_err (\<lambda>_. InvalidState INVALID_STORED_STATE) (CumulativeRefundCents_new amount)"

definition lifecycle_state_from_parts ::
    "rstring \<Rightarrow> int option \<Rightarrow> (GatewayLifecycleState, 'e GatewayLifecycleReconciliationError) result" where
  "lifecycle_state_from_parts status refunded =
     (let none = (refunded = None \<or> refunded = Some 0);
          pos = (case refunded of Some v \<Rightarrow> v > 0 | None \<Rightarrow> False);
          amount = (case refunded of Some v \<Rightarrow> v | None \<Rightarrow> 0)
      in if status = lit ''unknown'' \<and> none then Ok GatewayLifecycleState.Unknown
         else if status = lit ''pending_settlement'' \<and> none then Ok PendingSettlement
         else if status = lit ''voided'' \<and> none then Ok GatewayLifecycleState.Voided
         else if status = lit ''settled'' \<and> none then Ok (Settled None)
         else if status = lit ''settled'' \<and> pos
         then and_then (stored_refund amount) (\<lambda>r. Ok (Settled (Some r)))
         else if status = lit ''refunded'' \<and> pos
         then and_then (stored_refund amount) (\<lambda>r. Ok (GatewayLifecycleState.Refunded r))
         else if status = lit ''chargeback'' \<and> none then Ok (GatewayLifecycleState.Chargeback None)
         else if status = lit ''chargeback'' \<and> pos
         then and_then (stored_refund amount) (\<lambda>r. Ok (GatewayLifecycleState.Chargeback (Some r)))
         else Err (InvalidState INVALID_STORED_STATE))"

definition latest_time :: "datetime option \<Rightarrow> datetime option \<Rightarrow> datetime option" where
  "latest_time left right =
     (case (left, right) of
        (Some l, Some r) \<Rightarrow> Some (max l r)
      | (Some v, None) \<Rightarrow> Some v
      | (None, Some v) \<Rightarrow> Some v
      | (None, None) \<Rightarrow> None)"

section \<open>The ledger\<close>

record lifecycle_row =
  row_id :: Uuid
  row_billing_scope_id :: BillingScopeId
  row_gateway_account_id :: GatewayAccountId
  row_subscriber_id :: SubscriberId
  row_attempt_kind :: rstring
  row_host_charge_target_id :: "HostChargeTargetId option"
  row_amount_cents :: int
  row_status :: PaymentAttemptStatus
  row_gateway_transaction_id :: "rstring option"
  row_gateway_order_id :: "rstring option"
  row_gateway_condition :: "rstring option"
  row_lifecycle_status :: rstring
  row_lifecycle_action :: "rstring option"
  row_lifecycle_at :: "datetime option"
  row_refunded_amount_cents :: int
  row_lifecycle_reconciled_at :: "datetime option"
  row_resolved_at :: "datetime option"
  row_updated_at :: datetime

record pending_row =
  pending_id :: Uuid
  pending_billing_scope_id :: BillingScopeId
  pending_gateway_account_id :: GatewayAccountId
  pending_transaction_id :: "rstring option"
  pending_order_id :: "rstring option"
  pending_condition :: "rstring option"
  pending_lifecycle_status :: rstring
  pending_lifecycle_action :: "rstring option"
  pending_lifecycle_at :: "datetime option"
  pending_refunded_amount_cents :: "int option"
  pending_expires_at :: datetime
  pending_first_seen_at :: datetime
  pending_updated_at :: datetime
  pending_last_checked_at :: "datetime option"
  pending_check_count :: int

record quarantine_row =
  quarantined_billing_scope_id :: BillingScopeId
  quarantined_gateway_account_id :: GatewayAccountId
  quarantined_transaction_id :: "rstring option"
  quarantined_order_id :: "rstring option"
  quarantined_reason_code :: rstring
  quarantined_last_seen_at :: datetime
  quarantined_occurrence_count :: int
  quarantined_resolved_at :: "datetime option"
  quarantined_last_operator_alerted_at :: "datetime option"

record cursor_row =
  cursor_billing_scope_id :: BillingScopeId
  cursor_gateway_account_id :: GatewayAccountId
  cursor_provider_key :: GatewayProviderKey
  cursor_cursor_key :: GatewayLifecycleCursorKey
  cursor_last_successful_end_at :: datetime

record 'h lifecycle_db =
  db_accounts :: "GatewayLifecycleAccount list"
  db_attempts :: "lifecycle_row list"
  db_pending :: "pending_row list"
  db_quarantines :: "quarantine_row list"
  db_cursors :: "cursor_row list"
  db_host :: 'h

text \<open>What the statements read from their surroundings: the transaction's \<open>now()\<close>, a fresh
  identifier for a staged row, and the rows other transactions hold, which \<open>SKIP LOCKED\<close> passes
  over.\<close>

record lifecycle_env =
  env_now :: datetime
  env_candidate_id :: Uuid
  env_locked :: "Uuid list"

definition ensure_account ::
    "GatewayLifecycleAccount \<Rightarrow> 'h lifecycle_db \<Rightarrow> (unit, 'e GatewayLifecycleReconciliationError) result" where
  "ensure_account account db =
     (if account \<in> set (db_accounts db) then Ok () else Err AccountNotFound)"

section \<open>Candidates\<close>

record AttemptCandidate =
  candidate_id :: Uuid
  candidate_billing_scope_id :: BillingScopeId
  candidate_subscriber_id :: SubscriberId
  candidate_kind :: PaymentAttemptKind
  candidate_host_charge_target_id :: "HostChargeTargetId option"
  candidate_amount_cents :: int
  candidate_current_state :: GatewayLifecycleState
  candidate_current_lifecycle_at :: "datetime option"
  candidate_current_refunded_amount_cents :: int
  candidate_matched_transaction_id :: bool
  candidate_matched_order_id :: bool

definition matched_transaction_id :: "rstring option \<Rightarrow> lifecycle_row \<Rightarrow> bool" where
  "matched_transaction_id transaction_id row \<longleftrightarrow>
     transaction_id \<noteq> None \<and>
     canonical_gateway_transaction_id (row_gateway_transaction_id row) = transaction_id"

definition matched_order_id :: "rstring option \<Rightarrow> rstring option \<Rightarrow> lifecycle_row \<Rightarrow> bool" where
  "matched_order_id transaction_id order_id row \<longleftrightarrow>
     order_id \<noteq> None \<and>
     (transaction_id = None \<or> canonical_gateway_transaction_id (row_gateway_transaction_id row) = None) \<and>
     row_gateway_order_id row = order_id"

text \<open>The approved attempts of the account that a locator names, by creation time and identifier:
  the rows are kept in that order.\<close>

definition matching_attempts ::
    "GatewayLifecycleAccount \<Rightarrow> rstring option \<Rightarrow> rstring option \<Rightarrow> 'h lifecycle_db \<Rightarrow> lifecycle_row list" where
  "matching_attempts account transaction_id order_id db =
     filter (\<lambda>row. row_billing_scope_id row = account_billing_scope_id account \<and>
                    row_gateway_account_id row = account_gateway_account_id account \<and>
                    row_status row = PaymentAttemptStatus.Approved \<and>
                    (matched_transaction_id transaction_id row \<or> matched_order_id transaction_id order_id row))
       (db_attempts db)"

definition candidate_from_row ::
    "StoredEvidence \<Rightarrow> lifecycle_row \<Rightarrow> (AttemptCandidate, 'e GatewayLifecycleReconciliationError) result" where
  "candidate_from_row evidence row =
     and_then (lifecycle_state_from_parts (row_lifecycle_status row) (Some (row_refunded_amount_cents row)))
       (\<lambda>current_state.
     and_then (map_err (\<lambda>_. InvalidState INVALID_STORED_STATE)
                 (PaymentAttemptKind_from_str (row_attempt_kind row)))
       (\<lambda>kind.
       Ok \<lparr>candidate_id = row_id row,
           candidate_billing_scope_id = row_billing_scope_id row,
           candidate_subscriber_id = row_subscriber_id row,
           candidate_kind = kind,
           candidate_host_charge_target_id = row_host_charge_target_id row,
           candidate_amount_cents = row_amount_cents row,
           candidate_current_state = current_state,
           candidate_current_lifecycle_at = row_lifecycle_at row,
           candidate_current_refunded_amount_cents = row_refunded_amount_cents row,
           candidate_matched_transaction_id = matched_transaction_id (stored_transaction_id evidence) row,
           candidate_matched_order_id =
             matched_order_id (stored_transaction_id evidence) (stored_order_id evidence) row\<rparr>))"

definition attempt_candidates ::
    "GatewayLifecycleAccount \<Rightarrow> StoredEvidence \<Rightarrow> 'h lifecycle_db \<Rightarrow>
     (AttemptCandidate list, 'e GatewayLifecycleReconciliationError) result" where
  "attempt_candidates account evidence db =
     collect_results (map (candidate_from_row evidence)
       (matching_attempts account (stored_transaction_id evidence) (stored_order_id evidence) db))"

definition select_candidate :: "AttemptCandidate list \<Rightarrow> AttemptCandidate option" where
  "select_candidate candidates =
     (case List.find candidate_matched_transaction_id candidates of
        Some c \<Rightarrow> Some c
      | None \<Rightarrow>
          (case candidates of
             [c] \<Rightarrow> if candidate_matched_order_id c then Some c else None
           | _ \<Rightarrow> None))"

section \<open>Statements\<close>

definition PENDING_RETENTION_SECONDS :: int where
  "PENDING_RETENTION_SECONDS = 7 * 24 * 60 * 60"

definition coalesce :: "'a option \<Rightarrow> 'a \<Rightarrow> 'a" where
  "coalesce x d = (case x of Some a \<Rightarrow> a | None \<Rightarrow> d)"

definition pending_conflicts :: "GatewayLifecycleAccount \<Rightarrow> StoredEvidence \<Rightarrow> pending_row \<Rightarrow> bool" where
  "pending_conflicts account evidence row \<longleftrightarrow>
     pending_gateway_account_id row = account_gateway_account_id account \<and>
     coalesce (pending_transaction_id row) [] = coalesce (stored_transaction_id evidence) [] \<and>
     coalesce (pending_order_id row) [] = coalesce (stored_order_id evidence) [] \<and>
     coalesce (pending_condition row) [] = coalesce (stored_condition evidence) [] \<and>
     pending_lifecycle_status row = lifecycle_status (stored_state evidence) \<and>
     coalesce (pending_lifecycle_action row) [] = coalesce (stored_action evidence) [] \<and>
     pending_lifecycle_at row = stored_effective_at evidence \<and>
     coalesce (pending_refunded_amount_cents row) (- 1) =
       coalesce (lifecycle_refunded_amount (stored_state evidence)) (- 1)"

definition stage_evidence ::
    "lifecycle_env \<Rightarrow> GatewayLifecycleAccount \<Rightarrow> StoredEvidence \<Rightarrow> 'h lifecycle_db \<Rightarrow> bool \<times> 'h lifecycle_db" where
  "stage_evidence env account evidence db =
     (if list_ex (pending_conflicts account evidence) (db_pending db)
      then (False, db\<lparr>db_pending :=
              map (\<lambda>row. if pending_conflicts account evidence row
                          then row\<lparr>pending_updated_at := env_now env\<rparr> else row) (db_pending db)\<rparr>)
      else (True, db\<lparr>db_pending := db_pending db @
              [\<lparr>pending_id = env_candidate_id env,
                pending_billing_scope_id = account_billing_scope_id account,
                pending_gateway_account_id = account_gateway_account_id account,
                pending_transaction_id = stored_transaction_id evidence,
                pending_order_id = stored_order_id evidence,
                pending_condition = stored_condition evidence,
                pending_lifecycle_status = lifecycle_status (stored_state evidence),
                pending_lifecycle_action = stored_action evidence,
                pending_lifecycle_at = stored_effective_at evidence,
                pending_refunded_amount_cents = lifecycle_refunded_amount (stored_state evidence),
                pending_expires_at = env_now env + duration_seconds PENDING_RETENTION_SECONDS,
                pending_first_seen_at = env_now env,
                pending_updated_at = env_now env,
                pending_last_checked_at = None,
                pending_check_count = 0\<rparr>]\<rparr>))"

definition quarantine_conflicts ::
    "GatewayLifecycleAccount \<Rightarrow> rstring option \<Rightarrow> rstring option \<Rightarrow> GatewayLifecycleQuarantineReason \<Rightarrow>
     quarantine_row \<Rightarrow> bool" where
  "quarantine_conflicts account transaction_id order_id reason row \<longleftrightarrow>
     quarantined_gateway_account_id row = account_gateway_account_id account \<and>
     coalesce (quarantined_transaction_id row) [] = coalesce transaction_id [] \<and>
     coalesce (quarantined_order_id row) [] = coalesce order_id [] \<and>
     quarantined_reason_code row = GatewayLifecycleQuarantineReason_as_str reason"

definition record_quarantine_parts ::
    "lifecycle_env \<Rightarrow> GatewayLifecycleAccount \<Rightarrow> rstring option \<Rightarrow> rstring option \<Rightarrow>
     GatewayLifecycleQuarantineReason \<Rightarrow> 'h lifecycle_db \<Rightarrow> 'h lifecycle_db" where
  "record_quarantine_parts env account transaction_id order_id reason db =
     db\<lparr>db_quarantines :=
       (if list_ex (quarantine_conflicts account transaction_id order_id reason) (db_quarantines db)
        then map (\<lambda>row. if quarantine_conflicts account transaction_id order_id reason row
               then row\<lparr>quarantined_last_seen_at := env_now env,
                        quarantined_occurrence_count := quarantined_occurrence_count row + 1,
                        quarantined_resolved_at := None,
                        quarantined_last_operator_alerted_at :=
                          (if quarantined_resolved_at row = None
                           then quarantined_last_operator_alerted_at row else None)\<rparr>
               else row) (db_quarantines db)
        else db_quarantines db @
          [\<lparr>quarantined_billing_scope_id = account_billing_scope_id account,
            quarantined_gateway_account_id = account_gateway_account_id account,
            quarantined_transaction_id = transaction_id,
            quarantined_order_id = order_id,
            quarantined_reason_code = GatewayLifecycleQuarantineReason_as_str reason,
            quarantined_last_seen_at = env_now env,
            quarantined_occurrence_count = 1,
            quarantined_resolved_at = None,
            quarantined_last_operator_alerted_at = None\<rparr>])\<rparr>"

definition resolve_matching_quarantines ::
    "lifecycle_env \<Rightarrow> GatewayLifecycleAccount \<Rightarrow> StoredEvidence \<Rightarrow> 'h lifecycle_db \<Rightarrow> 'h lifecycle_db" where
  "resolve_matching_quarantines env account evidence db =
     db\<lparr>db_quarantines :=
       map (\<lambda>row.
         if quarantined_billing_scope_id row = account_billing_scope_id account \<and>
            quarantined_gateway_account_id row = account_gateway_account_id account \<and>
            quarantined_resolved_at row = None \<and>
            (stored_transaction_id evidence \<noteq> None \<and>
               canonical_gateway_transaction_id (quarantined_transaction_id row) = stored_transaction_id evidence \<or>
             quarantined_transaction_id row = None \<and> quarantined_order_id row \<noteq> None \<and>
               quarantined_order_id row = stored_order_id evidence)
         then row\<lparr>quarantined_resolved_at := Some (env_now env)\<rparr> else row) (db_quarantines db)\<rparr>"

definition delete_pending :: "GatewayLifecycleAccount \<Rightarrow> Uuid \<Rightarrow> 'h lifecycle_db \<Rightarrow> 'h lifecycle_db" where
  "delete_pending account staged_id db =
     db\<lparr>db_pending := filter (\<lambda>row. \<not> (pending_id row = staged_id \<and>
          pending_billing_scope_id row = account_billing_scope_id account \<and>
          pending_gateway_account_id row = account_gateway_account_id account)) (db_pending db)\<rparr>"

text \<open>The row update of an applied transition; SQL's \<open>GREATEST\<close> ignores nulls.\<close>

definition apply_lifecycle_to_row ::
    "lifecycle_env \<Rightarrow> StoredEvidence \<Rightarrow> int \<Rightarrow> lifecycle_row \<Rightarrow> lifecycle_row" where
  "apply_lifecycle_to_row env evidence refunded row =
     row\<lparr>row_gateway_condition :=
           (case stored_condition evidence of Some c \<Rightarrow> Some c | None \<Rightarrow> row_gateway_condition row),
         row_lifecycle_status := lifecycle_status (stored_state evidence),
         row_lifecycle_action := stored_action evidence,
         row_lifecycle_at := latest_time (row_lifecycle_at row) (stored_effective_at evidence),
         row_refunded_amount_cents := refunded,
         row_lifecycle_reconciled_at := Some (env_now env),
         row_updated_at := env_now env\<rparr>"

definition update_target :: "GatewayLifecycleAccount \<Rightarrow> AttemptCandidate \<Rightarrow> lifecycle_row \<Rightarrow> bool" where
  "update_target account candidate row \<longleftrightarrow>
     row_id row = candidate_id candidate \<and>
     row_billing_scope_id row = account_billing_scope_id account \<and>
     row_gateway_account_id row = account_gateway_account_id account"

section \<open>Applying evidence\<close>

datatype GatewayLifecycleApplyOutcome =
    Applied
  | AlreadySuperseded
  | InvalidRefundEconomics
  | ConflictingLifecycleEvidence
  | HostTargetTransitionSkipped
  | StagedAmbiguous
  | StagedNoMatch

record EvidenceApplication =
  application_outcome :: GatewayLifecycleApplyOutcome
  application_newly_staged :: bool

text \<open>The \<open>Apply\<close> branch: the row update and, for a full reversal of a host charge, the host's
  transition inside the same transaction.\<close>

definition apply_transition_branch ::
    "('h, 'e) target_store \<Rightarrow> lifecycle_env \<Rightarrow> GatewayLifecycleAccount \<Rightarrow> StoredEvidence \<Rightarrow>
     AttemptCandidate \<Rightarrow> int \<Rightarrow> 'h lifecycle_db \<Rightarrow>
     (GatewayLifecycleApplyOutcome \<times> 'h lifecycle_db, 'e GatewayLifecycleReconciliationError) result" where
  "apply_transition_branch apply_transition env account evidence candidate refunded db =
     (let hits = filter (update_target account candidate) (db_attempts db);
          db' = db\<lparr>db_attempts :=
            map (\<lambda>row. if update_target account candidate row
                        then apply_lifecycle_to_row env evidence refunded row else row) (db_attempts db)\<rparr>
      in if length hits \<noteq> 1 then Err (InvalidState INVALID_STORED_STATE)
         else case full_reversal_kind (stored_state evidence) of
           Some kind \<Rightarrow>
             if candidate_kind candidate = HostCharge
             then and_then (ok_or (candidate_host_charge_target_id candidate) (InvalidState INVALID_STORED_STATE))
               (\<lambda>target_id.
                 let reversed_at = coalesce (latest_time (candidate_current_lifecycle_at candidate)
                                              (stored_effective_at evidence)) (env_now env)
                 in and_then (map_err HostChargeTarget
                      (apply_transition
                        \<lparr>target_billing_scope_id = candidate_billing_scope_id candidate,
                         target_subscriber_id = candidate_subscriber_id candidate,
                         target_attempt_id = PaymentAttemptId (candidate_id candidate),
                         target_target_id = target_id,
                         target_kind = Reversed kind,
                         target_effective_at = reversed_at\<rparr> (db_host db')))
                    (\<lambda>(target_outcome, host).
                      Ok (if HostChargeTargetTransitionOutcome_is_applied target_outcome
                          then GatewayLifecycleApplyOutcome.Applied
                          else HostTargetTransitionSkipped, db'\<lparr>db_host := host\<rparr>)))
             else Ok (GatewayLifecycleApplyOutcome.Applied, db')
         | None \<Rightarrow> Ok (GatewayLifecycleApplyOutcome.Applied, db'))"

definition lifecycle_branch ::
    "('h, 'e) target_store \<Rightarrow> lifecycle_env \<Rightarrow> GatewayLifecycleAccount \<Rightarrow> StoredEvidence \<Rightarrow>
     AttemptCandidate \<Rightarrow> 'h lifecycle_db \<Rightarrow>
     (GatewayLifecycleApplyOutcome \<times> 'h lifecycle_db, 'e GatewayLifecycleReconciliationError) result" where
  "lifecycle_branch apply_transition env account evidence candidate db =
     and_then (lifecycle_transition (candidate_current_state candidate)
        (candidate_current_refunded_amount_cents candidate)
        (candidate_current_lifecycle_at candidate) (stored_state evidence)
        (stored_effective_at evidence) (candidate_amount_cents candidate))
      (\<lambda>transition. case transition of
         Apply refunded \<Rightarrow>
           apply_transition_branch apply_transition env account evidence candidate refunded db
       | LifecycleTransition.AlreadySuperseded \<Rightarrow> Ok (AlreadySuperseded, db)
       | LifecycleTransition.InvalidRefundEconomics \<Rightarrow> Ok (InvalidRefundEconomics, db)
       | LifecycleTransition.ConflictingLifecycleEvidence \<Rightarrow> Ok (ConflictingLifecycleEvidence, db))"

text \<open>Evidence seen for the first time is staged; an already staged row stays as it is.\<close>

definition stage_unless_pending ::
    "lifecycle_env \<Rightarrow> GatewayLifecycleAccount \<Rightarrow> StoredEvidence \<Rightarrow> Uuid option \<Rightarrow> 'h lifecycle_db \<Rightarrow>
     bool \<times> 'h lifecycle_db" where
  "stage_unless_pending env account evidence pending db =
     (if pending = None then stage_evidence env account evidence db else (False, db))"

definition finish_application ::
    "lifecycle_env \<Rightarrow> GatewayLifecycleAccount \<Rightarrow> StoredEvidence \<Rightarrow> Uuid option \<Rightarrow>
     GatewayLifecycleApplyOutcome \<Rightarrow> 'h lifecycle_db \<Rightarrow> 'h lifecycle_db" where
  "finish_application env account evidence pending outcome db =
     (let db = (if outcome \<in> {GatewayLifecycleApplyOutcome.Applied, AlreadySuperseded}
                then resolve_matching_quarantines env account evidence db
                else record_quarantine_parts env account (stored_transaction_id evidence)
                       (stored_order_id evidence)
                       GatewayLifecycleQuarantineReason.InvalidRefundEconomics db)
      in case pending of Some staged_id \<Rightarrow> delete_pending account staged_id db | None \<Rightarrow> db)"

definition apply_or_stage_evidence ::
    "('h, 'e) target_store \<Rightarrow> lifecycle_env \<Rightarrow> GatewayLifecycleAccount \<Rightarrow> StoredEvidence \<Rightarrow>
     Uuid option \<Rightarrow> 'h lifecycle_db \<Rightarrow>
     (EvidenceApplication, 'e GatewayLifecycleReconciliationError) result \<times> 'h lifecycle_db" where
  "apply_or_stage_evidence apply_transition env account evidence pending db =
     (case and_then (ensure_account account db) (\<lambda>_. attempt_candidates account evidence db) of
        Inl e \<Rightarrow> (Err e, db)
      | Inr candidates \<Rightarrow>
        (case select_candidate candidates of
           None \<Rightarrow>
             (let (newly_staged, db') = stage_unless_pending env account evidence pending db
              in (Ok \<lparr>application_outcome = (if candidates = [] then StagedNoMatch else StagedAmbiguous),
                      application_newly_staged = newly_staged\<rparr>, db'))
         | Some candidate \<Rightarrow>
             (case lifecycle_branch apply_transition env account evidence candidate db of
                Inl e \<Rightarrow> (Err e, db)
              | Inr (outcome, db') \<Rightarrow>
                  if outcome = HostTargetTransitionSkipped
                  then (let (newly_staged, db'') = stage_unless_pending env account evidence pending db
                        in (Ok \<lparr>application_outcome = outcome,
                                application_newly_staged = newly_staged\<rparr>, db''))
                  else (Ok \<lparr>application_outcome = outcome, application_newly_staged = False\<rparr>,
                        finish_application env account evidence pending outcome db'))))"

section \<open>Reports\<close>

definition record_quarantine ::
    "lifecycle_env \<Rightarrow> GatewayLifecycleAccount \<Rightarrow> GatewayLifecycleQuarantine \<Rightarrow> 'h lifecycle_db \<Rightarrow>
     (unit, 'e GatewayLifecycleReconciliationError) result \<times> 'h lifecycle_db" where
  "record_quarantine env account quarantine db =
     (case ensure_account account db of
        Inl e \<Rightarrow> (Err e, db)
      | Inr _ \<Rightarrow>
          (Ok (), record_quarantine_parts env account
                    (map_option GatewayTransactionId_expose (quarantine_transaction_id quarantine))
                    (map_option GatewayOrderId_expose (quarantine_order_id quarantine))
                    (quarantine_reason quarantine) db))"

definition stage_gateway_lifecycle_evidence ::
    "lifecycle_env \<Rightarrow> GatewayLifecycleAccount \<Rightarrow> GatewayLifecycleEvidence \<Rightarrow> 'h lifecycle_db \<Rightarrow>
     (unit, 'e GatewayLifecycleReconciliationError) result \<times> 'h lifecycle_db" where
  "stage_gateway_lifecycle_evidence env account evidence db =
     (case ensure_account account db of
        Inl e \<Rightarrow> (Err e, db)
      | Inr _ \<Rightarrow> (Ok (), snd (stage_evidence env account (StoredEvidence_from evidence) db)))"

record GatewayLifecycleReconciliationSummary =
  summary_applied :: nat
  summary_staged :: nat
  summary_quarantined :: nat
  summary_cleaned :: nat
  summary_skipped :: nat

definition record_application ::
    "EvidenceApplication \<Rightarrow> GatewayLifecycleReconciliationSummary \<Rightarrow> GatewayLifecycleReconciliationSummary" where
  "record_application application summary =
     summary\<lparr>summary_applied := summary_applied summary +
               (if application_outcome application = GatewayLifecycleApplyOutcome.Applied then 1 else 0),
             summary_staged := summary_staged summary + of_bool (application_newly_staged application),
             summary_skipped := summary_skipped summary +
               (if application_outcome application = HostTargetTransitionSkipped then 1 else 0)\<rparr>"

text \<open>Each report runs in its own transaction and comes with the surroundings of that transaction.\<close>

fun reconcile_gateway_transaction_reports ::
    "('h, 'e) target_store \<Rightarrow> GatewayLifecycleAccount \<Rightarrow>
     (lifecycle_env \<times> GatewayTransactionReport) list \<Rightarrow> GatewayLifecycleReconciliationSummary \<Rightarrow> 'h lifecycle_db \<Rightarrow>
     (GatewayLifecycleReconciliationSummary, 'e GatewayLifecycleReconciliationError) result \<times> 'h lifecycle_db" where
  "reconcile_gateway_transaction_reports host account [] summary db = (Ok summary, db)"
| "reconcile_gateway_transaction_reports host account ((env, report) # reports) summary db =
     (case report of
        Ignore \<Rightarrow> reconcile_gateway_transaction_reports host account reports summary db
      | Quarantine quarantine \<Rightarrow>
          (case record_quarantine env account quarantine db of
             (Inl e, db') \<Rightarrow> (Err e, db')
           | (Inr _, db') \<Rightarrow>
               reconcile_gateway_transaction_reports host account reports
                 (summary\<lparr>summary_quarantined := summary_quarantined summary + 1\<rparr>) db')
      | Evidence evidence \<Rightarrow>
          (case apply_or_stage_evidence host env account (StoredEvidence_from evidence) None db of
             (Inl e, db') \<Rightarrow> (Err e, db')
           | (Inr application, db') \<Rightarrow>
               reconcile_gateway_transaction_reports host account reports
                 (record_application application summary) db'))"

section \<open>The staged-evidence worker\<close>

definition PENDING_MAX_CHECKS :: int where
  "PENDING_MAX_CHECKS = 24"

definition PENDING_CLEANUP_BATCH_SIZE :: nat where
  "PENDING_CLEANUP_BATCH_SIZE = 500"

definition STAGED_APPLICATION_BATCH_SIZE :: nat where
  "STAGED_APPLICATION_BATCH_SIZE = 100"

definition pending_of_account :: "GatewayLifecycleAccount \<Rightarrow> pending_row \<Rightarrow> bool" where
  "pending_of_account account row \<longleftrightarrow>
     pending_billing_scope_id row = account_billing_scope_id account \<and>
     pending_gateway_account_id row = account_gateway_account_id account"

definition pending_unlocked :: "lifecycle_env \<Rightarrow> pending_row \<Rightarrow> bool" where
  "pending_unlocked env row \<longleftrightarrow> pending_id row \<notin> set (env_locked env)"

definition stale_pending :: "lifecycle_env \<Rightarrow> GatewayLifecycleAccount \<Rightarrow> 'h lifecycle_db \<Rightarrow> pending_row list" where
  "stale_pending env account db =
     take PENDING_CLEANUP_BATCH_SIZE
       (sort_key (\<lambda>row. (pending_expires_at row, pending_first_seen_at row, pending_id row))
         (filter (\<lambda>row. pending_of_account account row \<and> pending_expires_at row \<le> env_now env \<and>
                         pending_unlocked env row) (db_pending db)))"

definition cleanup_pending ::
    "lifecycle_env \<Rightarrow> GatewayLifecycleAccount \<Rightarrow> 'h lifecycle_db \<Rightarrow>
     (nat, 'e GatewayLifecycleReconciliationError) result \<times> 'h lifecycle_db" where
  "cleanup_pending env account db =
     (case ensure_account account db of
        Inl e \<Rightarrow> (Err e, db)
      | Inr _ \<Rightarrow>
          (let stale = pending_id ` set (stale_pending env account db);
               kept = filter (\<lambda>row. pending_id row \<notin> stale) (db_pending db)
           in (Ok (length (db_pending db) - length kept), db\<lparr>db_pending := kept\<rparr>)))"

text \<open>A staged row has an attempt to go to.\<close>

definition pending_actionable :: "GatewayLifecycleAccount \<Rightarrow> 'h lifecycle_db \<Rightarrow> pending_row \<Rightarrow> bool" where
  "pending_actionable account db row \<longleftrightarrow>
     (let matches = matching_attempts account (pending_transaction_id row) (pending_order_id row) db
      in list_ex (matched_transaction_id (pending_transaction_id row)) matches \<or> length matches = 1)"

definition unactionable_pending :: "lifecycle_env \<Rightarrow> GatewayLifecycleAccount \<Rightarrow> 'h lifecycle_db \<Rightarrow> pending_row list" where
  "unactionable_pending env account db =
     take PENDING_CLEANUP_BATCH_SIZE
       (sort_key (\<lambda>row. (pending_last_checked_at row, pending_first_seen_at row, pending_id row))
         (filter (\<lambda>row. pending_of_account account row \<and> env_now env < pending_expires_at row \<and>
                         pending_check_count row < PENDING_MAX_CHECKS \<and>
                         \<not> pending_actionable account db row \<and> pending_unlocked env row) (db_pending db)))"

definition record_unactionable_checks ::
    "lifecycle_env \<Rightarrow> GatewayLifecycleAccount \<Rightarrow> 'h lifecycle_db \<Rightarrow>
     (unit, 'e GatewayLifecycleReconciliationError) result \<times> 'h lifecycle_db" where
  "record_unactionable_checks env account db =
     (case ensure_account account db of
        Inl e \<Rightarrow> (Err e, db)
      | Inr _ \<Rightarrow>
          (let unactionable = pending_id ` set (unactionable_pending env account db)
           in (Ok (), db\<lparr>db_pending :=
                 map (\<lambda>row. if pending_id row \<in> unactionable
                             then row\<lparr>pending_last_checked_at := Some (env_now env),
                                      pending_check_count := pending_check_count row + 1\<rparr>
                             else row) (db_pending db)\<rparr>)))"

definition pending_evidence ::
    "pending_row \<Rightarrow> (Uuid \<times> StoredEvidence, 'e GatewayLifecycleReconciliationError) result" where
  "pending_evidence row =
     and_then (lifecycle_state_from_parts (pending_lifecycle_status row) (pending_refunded_amount_cents row))
       (\<lambda>state.
         Ok (pending_id row,
             \<lparr>stored_transaction_id = pending_transaction_id row,
              stored_order_id = pending_order_id row,
              stored_state = state,
              stored_condition = pending_condition row,
              stored_action = pending_lifecycle_action row,
              stored_effective_at = pending_lifecycle_at row\<rparr>))"

definition actionable_pending ::
    "lifecycle_env \<Rightarrow> GatewayLifecycleAccount \<Rightarrow> 'h lifecycle_db \<Rightarrow>
     ((Uuid \<times> StoredEvidence) list, 'e GatewayLifecycleReconciliationError) result" where
  "actionable_pending env account db =
     and_then (ensure_account account db) (\<lambda>_.
       collect_results (map pending_evidence
         (take STAGED_APPLICATION_BATCH_SIZE
           (sort_key (\<lambda>row. (pending_first_seen_at row, pending_id row))
             (filter (\<lambda>row. pending_of_account account row \<and> env_now env < pending_expires_at row \<and>
                             pending_actionable account db row \<and> pending_unlocked env row)
               (db_pending db))))))"

text \<open>Each staged row is applied in its own transaction; \<open>env_of\<close> gives the surroundings of the
  transaction for the row with a given identifier.\<close>

fun apply_pending ::
    "('h, 'e) target_store \<Rightarrow> (Uuid \<Rightarrow> lifecycle_env) \<Rightarrow> GatewayLifecycleAccount \<Rightarrow>
     (Uuid \<times> StoredEvidence) list \<Rightarrow> GatewayLifecycleReconciliationSummary \<Rightarrow> 'h lifecycle_db \<Rightarrow>
     (GatewayLifecycleReconciliationSummary, 'e GatewayLifecycleReconciliationError) result \<times> 'h lifecycle_db" where
  "apply_pending host env_of account [] summary db = (Ok summary, db)"
| "apply_pending host env_of account ((staged_id, evidence) # rest) summary db =
     (case apply_or_stage_evidence host (env_of staged_id) account evidence (Some staged_id) db of
        (Inl e, db') \<Rightarrow> (Err e, db')
      | (Inr application, db') \<Rightarrow>
          apply_pending host env_of account rest (record_application application summary) db')"

definition apply_staged_gateway_lifecycle_evidence ::
    "('h, 'e) target_store \<Rightarrow> lifecycle_env \<Rightarrow> lifecycle_env \<Rightarrow> lifecycle_env \<Rightarrow> lifecycle_env \<Rightarrow>
     (Uuid \<Rightarrow> lifecycle_env) \<Rightarrow> GatewayLifecycleAccount \<Rightarrow> 'h lifecycle_db \<Rightarrow>
     (GatewayLifecycleReconciliationSummary, 'e GatewayLifecycleReconciliationError) result \<times> 'h lifecycle_db" where
  "apply_staged_gateway_lifecycle_evidence host env1 env2 env3 env4 env_of account db =
     (case cleanup_pending env1 account db of
        (Inl e, db1) \<Rightarrow> (Err e, db1)
      | (Inr cleaned1, db1) \<Rightarrow>
        (case record_unactionable_checks env2 account db1 of
           (Inl e, db2) \<Rightarrow> (Err e, db2)
         | (Inr _, db2) \<Rightarrow>
           (case cleanup_pending env3 account db2 of
              (Inl e, db3) \<Rightarrow> (Err e, db3)
            | (Inr cleaned2, db3) \<Rightarrow>
              (case actionable_pending env4 account db3 of
                 Inl e \<Rightarrow> (Err e, db3)
               | Inr pending \<Rightarrow>
                   apply_pending host env_of account pending
                     \<lparr>summary_applied = 0, summary_staged = 0, summary_quarantined = 0,
                      summary_cleaned = cleaned1 + cleaned2, summary_skipped = 0\<rparr> db3))))"

section \<open>The report cursor\<close>

definition cursor_of ::
    "GatewayLifecycleAccount \<Rightarrow> GatewayLifecycleCursorKey \<Rightarrow> cursor_row \<Rightarrow> bool" where
  "cursor_of account cursor_key row \<longleftrightarrow>
     cursor_gateway_account_id row = account_gateway_account_id account \<and>
     cursor_provider_key row = account_provider_key account \<and>
     cursor_cursor_key row = cursor_key"

definition first_approved_at :: "GatewayLifecycleAccount \<Rightarrow> 'h lifecycle_db \<Rightarrow> datetime option" where
  "first_approved_at account db =
     (case map (\<lambda>row. coalesce (row_resolved_at row) (row_updated_at row))
         (filter (\<lambda>row. row_billing_scope_id row = account_billing_scope_id account \<and>
                         row_gateway_account_id row = account_gateway_account_id account \<and>
                         row_status row = PaymentAttemptStatus.Approved \<and>
                         (canonical_gateway_transaction_id (row_gateway_transaction_id row) \<noteq> None \<or>
                          row_gateway_order_id row \<noteq> None)) (db_attempts db)) of
        [] \<Rightarrow> None
      | t # ts \<Rightarrow> Some (fold min ts t))"

definition gateway_lifecycle_reconciliation_start ::
    "GatewayLifecycleAccount \<Rightarrow> GatewayLifecycleCursorKey \<Rightarrow> 'h lifecycle_db \<Rightarrow>
     (datetime option, 'e GatewayLifecycleReconciliationError) result" where
  "gateway_lifecycle_reconciliation_start account cursor_key db =
     and_then (ensure_account account db) (\<lambda>_.
       Ok (case List.find (\<lambda>row. cursor_of account cursor_key row \<and>
                  cursor_billing_scope_id row = account_billing_scope_id account) (db_cursors db) of
             Some row \<Rightarrow> Some (cursor_last_successful_end_at row)
           | None \<Rightarrow> first_approved_at account db))"

definition save_gateway_lifecycle_reconciliation_cursor ::
    "GatewayLifecycleAccount \<Rightarrow> GatewayLifecycleCursorKey \<Rightarrow> datetime \<Rightarrow> 'h lifecycle_db \<Rightarrow>
     (unit, 'e GatewayLifecycleReconciliationError) result \<times> 'h lifecycle_db" where
  "save_gateway_lifecycle_reconciliation_cursor account cursor_key last_successful_end_at db =
     (case ensure_account account db of
        Inl e \<Rightarrow> (Err e, db)
      | Inr _ \<Rightarrow>
          (Ok (), db\<lparr>db_cursors :=
             (if list_ex (cursor_of account cursor_key) (db_cursors db)
              then map (\<lambda>row. if cursor_of account cursor_key row
                     then row\<lparr>cursor_last_successful_end_at :=
                            max (cursor_last_successful_end_at row) last_successful_end_at\<rparr>
                     else row) (db_cursors db)
              else db_cursors db @
                [\<lparr>cursor_billing_scope_id = account_billing_scope_id account,
                  cursor_gateway_account_id = account_gateway_account_id account,
                  cursor_provider_key = account_provider_key account,
                  cursor_cursor_key = cursor_key,
                  cursor_last_successful_end_at = last_successful_end_at\<rparr>])\<rparr>))"

section \<open>Histories\<close>

text \<open>The transactions that reports, the staged-evidence worker and the cursor run, in any
  interleaving.\<close>

inductive lifecycle_step :: "('h, 'e) target_store \<Rightarrow> 'h lifecycle_db \<Rightarrow> 'h lifecycle_db \<Rightarrow> bool"
  for host :: "('h, 'e) target_store" where
  evidence_step:
    "apply_or_stage_evidence host env account evidence pending db = (result, db') \<Longrightarrow> lifecycle_step host db db'"
| quarantine_step:
    "record_quarantine env account quarantine db =
       (result :: (unit, 'e GatewayLifecycleReconciliationError) result, db') \<Longrightarrow> lifecycle_step host db db'"
| stage_step:
    "stage_gateway_lifecycle_evidence env account evidence db =
       (result :: (unit, 'e GatewayLifecycleReconciliationError) result, db') \<Longrightarrow> lifecycle_step host db db'"
| cleanup_step:
    "cleanup_pending env account db =
       (cleaned :: (nat, 'e GatewayLifecycleReconciliationError) result, db') \<Longrightarrow> lifecycle_step host db db'"
| check_step:
    "record_unactionable_checks env account db =
       (result :: (unit, 'e GatewayLifecycleReconciliationError) result, db') \<Longrightarrow> lifecycle_step host db db'"
| cursor_step:
    "save_gateway_lifecycle_reconciliation_cursor account cursor_key at db =
       (result :: (unit, 'e GatewayLifecycleReconciliationError) result, db') \<Longrightarrow> lifecycle_step host db db'"

inductive lifecycle_steps :: "('h, 'e) target_store \<Rightarrow> 'h lifecycle_db \<Rightarrow> 'h lifecycle_db \<Rightarrow> bool"
  for host :: "('h, 'e) target_store" where
  no_step: "lifecycle_steps host db db"
| more_steps: "lifecycle_step host db db' \<Longrightarrow> lifecycle_steps host db' db'' \<Longrightarrow> lifecycle_steps host db db''"

lemma reconcile_is_steps:
  "reconcile_gateway_transaction_reports host account reports summary db = (result, db') \<Longrightarrow>
     lifecycle_steps host db db'"
  by (induction host account reports summary db rule: reconcile_gateway_transaction_reports.induct)
     (auto split: GatewayTransactionReport.splits prod.splits sum.splits
       intro: no_step more_steps quarantine_step evidence_step)

lemma lifecycle_steps_trans:
  "lifecycle_steps host db db' \<Longrightarrow> lifecycle_steps host db' db'' \<Longrightarrow> lifecycle_steps host db db''"
  by (induction rule: lifecycle_steps.induct) (auto intro: more_steps)

lemma apply_pending_is_steps:
  "apply_pending host env_of account pending summary db = (result, db') \<Longrightarrow> lifecycle_steps host db db'"
  by (induction host env_of account pending summary db rule: apply_pending.induct)
     (auto split: prod.splits sum.splits intro: no_step more_steps evidence_step)

lemma worker_is_steps:
  fixes host :: "('h, 'e) target_store"
  assumes "apply_staged_gateway_lifecycle_evidence host e1 e2 e3 e4 env_of account db = (result, db')"
  shows "lifecycle_steps host db db'"
  using assms
  by (auto simp: apply_staged_gateway_lifecycle_evidence_def split: prod.splits sum.splits
      dest!: cleanup_step [where host = host] check_step [where host = host] apply_pending_is_steps)
     (blast intro: no_step more_steps)+

section \<open>Rows stay valid and only move forward\<close>

definition decoded_state :: "rstring \<Rightarrow> int \<Rightarrow> GatewayLifecycleState option" where
  "decoded_state status refunded =
     (case (lifecycle_state_from_parts status (Some refunded)
              :: (GatewayLifecycleState, unit GatewayLifecycleReconciliationError) result) of
        Inl _ \<Rightarrow> None | Inr s \<Rightarrow> Some s)"

definition row_state :: "lifecycle_row \<Rightarrow> GatewayLifecycleState option" where
  "row_state row = decoded_state (row_lifecycle_status row) (row_refunded_amount_cents row)"

definition row_valid :: "lifecycle_row \<Rightarrow> bool" where
  "row_valid row \<longleftrightarrow>
     (case row_state row of
        None \<Rightarrow> False
      | Some s \<Rightarrow> stored_amount_is_valid s (row_refunded_amount_cents row) (row_amount_cents row))"

definition row_rank :: "lifecycle_row \<Rightarrow> nat" where
  "row_rank row = (case row_state row of None \<Rightarrow> 0 | Some s \<Rightarrow> lifecycle_rank s)"

definition row_advances :: "lifecycle_row \<Rightarrow> lifecycle_row \<Rightarrow> bool" where
  "row_advances r r' \<longleftrightarrow>
     row_id r' = row_id r \<and> row_amount_cents r' = row_amount_cents r \<and>
     row_refunded_amount_cents r \<le> row_refunded_amount_cents r' \<and> row_rank r \<le> row_rank r'"

lemma row_advances_refl [simp]: "row_advances r r"
  by (simp add: row_advances_def)

lemma row_advances_trans: "row_advances r r' \<Longrightarrow> row_advances r' r'' \<Longrightarrow> row_advances r r''"
  by (auto simp: row_advances_def)

lemma lifecycle_state_from_parts_decoded:
  "lifecycle_state_from_parts status (Some r) = Ok s \<longleftrightarrow> decoded_state status r = Some s"
  by (auto simp: decoded_state_def lifecycle_state_from_parts_def Let_def CumulativeRefundCents_new_def)

text \<open>What the row update writes is read back as a state of the same kind.\<close>

lemma decoded_written:
  assumes "stored_amount_is_valid s r cap"
  shows "\<exists>s'. decoded_state (lifecycle_status s) r = Some s' \<and> lifecycle_rank s' = lifecycle_rank s \<and>
           stored_amount_is_valid s' r cap"
  using assms
  by (cases s; cases "r = 0")
     (auto simp: decoded_state_def lifecycle_state_from_parts_def Let_def CumulativeRefundCents_new_def)

lemma candidate_from_row_Ok:
  "candidate_from_row evidence row = Ok c \<Longrightarrow>
     candidate_id c = row_id row \<and> candidate_amount_cents c = row_amount_cents row \<and>
     candidate_current_refunded_amount_cents c = row_refunded_amount_cents row \<and>
     candidate_current_lifecycle_at c = row_lifecycle_at row \<and>
     row_state row = Some (candidate_current_state c)"
  by (auto simp: candidate_from_row_def and_then_Inr_iff row_state_def lifecycle_state_from_parts_decoded)

lemma apply_lifecycle_to_row_advances:
  assumes c: "candidate_from_row evidence row = Ok c"
    and t: "lifecycle_transition (candidate_current_state c) (candidate_current_refunded_amount_cents c)
      (candidate_current_lifecycle_at c) (stored_state evidence) (stored_effective_at evidence)
      (candidate_amount_cents c) = Ok (Apply r')"
  shows "row_valid (apply_lifecycle_to_row env evidence r' row) \<and>
         row_advances row (apply_lifecycle_to_row env evidence r' row)"
proof -
  note c = candidate_from_row_Ok [OF c]
  note t = lifecycle_transition_ApplyD [OF t]
  from decoded_written [OF t(2)] obtain s' where
    s': "decoded_state (lifecycle_status (stored_state evidence)) r' = Some s'"
      "lifecycle_rank s' = lifecycle_rank (stored_state evidence)"
      "stored_amount_is_valid s' r' (candidate_amount_cents c)" by blast
  have "row_state (apply_lifecycle_to_row env evidence r' row) = Some s'"
    using s'(1) by (simp add: row_state_def apply_lifecycle_to_row_def)
  moreover have "row_amount_cents (apply_lifecycle_to_row env evidence r' row) = row_amount_cents row"
    "row_refunded_amount_cents (apply_lifecycle_to_row env evidence r' row) = r'"
    "row_id (apply_lifecycle_to_row env evidence r' row) = row_id row"
    by (simp_all add: apply_lifecycle_to_row_def)
  ultimately show ?thesis
    using c t(3,4) s'(2,3) by (simp add: row_valid_def row_advances_def row_rank_def)
qed

text \<open>
  The attempt that evidence is about, without the queries of the code: an approved attempt of the account with the transaction of the
  evidence, or with its order while one of the two has no transaction.  An attempt is chosen when it carries the transaction, or
  when it is the only one the evidence names.
\<close>

definition carries_transaction :: "StoredEvidence \<Rightarrow> lifecycle_row \<Rightarrow> bool" where
  "carries_transaction evidence row \<longleftrightarrow>
     (\<exists>t. stored_transaction_id evidence = Some t \<and> canonical_gateway_transaction_id (row_gateway_transaction_id row) = Some t)"

definition named_by :: "GatewayLifecycleAccount \<Rightarrow> StoredEvidence \<Rightarrow> lifecycle_row \<Rightarrow> bool" where
  "named_by account evidence row \<longleftrightarrow>
     row_billing_scope_id row = account_billing_scope_id account \<and>
     row_gateway_account_id row = account_gateway_account_id account \<and> row_status row = PaymentAttemptStatus.Approved \<and>
     (carries_transaction evidence row \<or>
      (stored_transaction_id evidence = None \<or> canonical_gateway_transaction_id (row_gateway_transaction_id row) = None) \<and>
      stored_order_id evidence \<noteq> None \<and> row_gateway_order_id row = stored_order_id evidence)"

definition chosen :: "GatewayLifecycleAccount \<Rightarrow> StoredEvidence \<Rightarrow> 'h lifecycle_db \<Rightarrow> lifecycle_row \<Rightarrow> bool" where
  "chosen account evidence db row \<longleftrightarrow> row \<in> set (db_attempts db) \<and> named_by account evidence row \<and>
     (carries_transaction evidence row \<or> (\<forall>r \<in> set (db_attempts db). named_by account evidence r \<longrightarrow> r = row))"

lemma matched_transaction_iff: "matched_transaction_id (stored_transaction_id evidence) row \<longleftrightarrow> carries_transaction evidence row"
  by (auto simp: matched_transaction_id_def carries_transaction_def)

lemma matching_attempts_named:
  "matching_attempts account (stored_transaction_id evidence) (stored_order_id evidence) db =
     filter (named_by account evidence) (db_attempts db)"
  unfolding matching_attempts_def
  by (rule filter_cong) (auto simp: matched_transaction_iff matched_order_id_def named_by_def)

lemma collect_candidates:
  "collect_results (map (candidate_from_row evidence) rows) =
     (Ok cs :: (_, 'e GatewayLifecycleReconciliationError) result) \<Longrightarrow>
   list_all2 (\<lambda>row c. candidate_from_row evidence row =
     (Ok c :: (_, 'e GatewayLifecycleReconciliationError) result)) rows cs"
  by (induction rows arbitrary: cs) (auto simp: and_then_Inr_iff)

lemma candidate_from_row_matched:
  "candidate_from_row evidence row = Ok c \<Longrightarrow>
     candidate_matched_transaction_id c = matched_transaction_id (stored_transaction_id evidence) row \<and>
     candidate_matched_order_id c =
       matched_order_id (stored_transaction_id evidence) (stored_order_id evidence) row"
  by (auto simp: candidate_from_row_def and_then_Inr_iff)

lemma list_all2_partners:
  "list_all2 R xs ys \<Longrightarrow> y \<in> set ys \<Longrightarrow> \<exists>x \<in> set xs. R x y"
  "list_all2 R xs ys \<Longrightarrow> x \<in> set xs \<Longrightarrow> \<exists>y \<in> set ys. R x y"
  by (induction rule: list_all2_induct) auto

lemma selected_is_chosen:
  assumes candidates: "attempt_candidates account evidence db = (Ok cs :: (_, 'e GatewayLifecycleReconciliationError) result)"
    and selected: "select_candidate cs = Some c"
  obtains row where "row \<in> set (db_attempts db)" and "update_target account c row"
    and "candidate_from_row evidence row = (Ok c :: (_, 'e GatewayLifecycleReconciliationError) result)"
    and "chosen account evidence db row"
proof -
  let ?rows = "filter (named_by account evidence) (db_attempts db)"
  have all: "list_all2 (\<lambda>row c. candidate_from_row evidence row =
      (Ok c :: (_, 'e GatewayLifecycleReconciliationError) result)) ?rows cs"
    using collect_candidates [OF candidates [unfolded attempt_candidates_def]] by (simp only: matching_attempts_named)
  from selected consider (transaction) "c \<in> set cs" "candidate_matched_transaction_id c" | (order) "cs = [c]"
    by (auto simp: select_candidate_def find_Some_iff split: option.splits list.splits if_splits)
  then obtain row where row: "row \<in> set ?rows"
      "candidate_from_row evidence row = (Ok c :: (_, 'e GatewayLifecycleReconciliationError) result)"
    and only: "carries_transaction evidence row \<or> ?rows = [row]"
  proof cases
    case transaction
    with list_all2_partners(1) [OF all] obtain row where row: "row \<in> set ?rows"
        "candidate_from_row evidence row = (Ok c :: (_, 'e GatewayLifecycleReconciliationError) result)"
      by blast
    with transaction(2) candidate_from_row_matched [OF row(2)] have "carries_transaction evidence row"
      by (simp add: matched_transaction_iff)
    with row that show thesis by blast
  next
    case order
    with all obtain row where "?rows = [row]"
        "candidate_from_row evidence row = (Ok c :: (_, 'e GatewayLifecycleReconciliationError) result)"
      by (auto simp: list_all2_Cons2)
    moreover from this(1) have "row \<in> set ?rows" by simp
    ultimately show thesis using that by blast
  qed
  have "r = row" if "?rows = [row]" "r \<in> set (db_attempts db)" "named_by account evidence r" for r
  proof -
    have "r \<in> set ?rows" using that(2,3) by simp
    with that(1) show ?thesis by simp
  qed
  with row(1) only have "chosen account evidence db row" unfolding chosen_def by auto
  moreover have "update_target account c row"
    using row(1) candidate_from_row_Ok [OF row(2)] by (simp add: update_target_def named_by_def)
  ultimately show thesis using row by (intro that) auto
qed

text \<open>Evidence that names no attempt, or several of which none carries its transaction.\<close>

lemma unselected:
  assumes candidates: "attempt_candidates account evidence db = (Ok cs :: (_, 'e GatewayLifecycleReconciliationError) result)"
    and selected: "select_candidate cs = None"
  shows "length (filter (named_by account evidence) (db_attempts db)) = length cs \<and> length cs \<noteq> 1 \<and>
    \<not> list_ex (\<lambda>row. named_by account evidence row \<and> carries_transaction evidence row) (db_attempts db)"
proof -
  let ?rows = "filter (named_by account evidence) (db_attempts db)"
  have all: "list_all2 (\<lambda>row c. candidate_from_row evidence row =
      (Ok c :: (_, 'e GatewayLifecycleReconciliationError) result)) ?rows cs"
    using collect_candidates [OF candidates [unfolded attempt_candidates_def]] by (simp only: matching_attempts_named)
  have none: "\<not> candidate_matched_transaction_id c" if "c \<in> set cs" for c
    using selected that by (auto simp: select_candidate_def find_None_iff split: option.splits list.splits if_splits)
  have carried: "\<not> carries_transaction evidence row" if "row \<in> set ?rows" for row
  proof -
    from list_all2_partners(2) [OF all that] obtain c where c: "c \<in> set cs"
        "candidate_from_row evidence row = (Ok c :: (_, 'e GatewayLifecycleReconciliationError) result)" by blast
    from none [OF c(1)] candidate_from_row_matched [OF c(2)] show ?thesis by (simp add: matched_transaction_iff)
  qed
  have "length cs \<noteq> 1"
  proof
    assume "length cs = 1"
    then obtain c where c: "cs = [c]" by (auto simp: length_Suc_conv)
    with all obtain row where row: "?rows = [row]"
        "candidate_from_row evidence row = (Ok c :: (_, 'e GatewayLifecycleReconciliationError) result)"
      by (auto simp: list_all2_Cons2)
    then have "row \<in> set ?rows" by simp
    with carried have "matched_order_id (stored_transaction_id evidence) (stored_order_id evidence) row"
      by (auto simp: named_by_def matched_order_id_def)
    with candidate_from_row_matched [OF row(2)] c selected show False
      by (auto simp: select_candidate_def split: option.splits if_splits)
  qed
  with carried list_all2_lengthD [OF all] show ?thesis by (auto simp: list_ex_iff)
qed

definition ledger_advances :: "'h lifecycle_db \<Rightarrow> 'h lifecycle_db \<Rightarrow> bool" where
  "ledger_advances db db' \<longleftrightarrow>
     list_all2 (\<lambda>r r'. row_advances r r' \<and> (row_valid r \<longrightarrow> row_valid r')) (db_attempts db) (db_attempts db')"

lemma ledger_advances_same: "db_attempts db' = db_attempts db \<Longrightarrow> ledger_advances db db'"
  by (simp add: ledger_advances_def list.rel_refl)

lemma ledger_advances_trans:
  "ledger_advances db db' \<Longrightarrow> ledger_advances db' db'' \<Longrightarrow> ledger_advances db db''"
  unfolding ledger_advances_def by (erule (1) list_all2_trans [rotated]) (blast intro: row_advances_trans)

lemma attempts_untouched [simp]:
  "db_attempts (record_quarantine_parts env account t o1 reason db) = db_attempts db"
  "db_attempts (resolve_matching_quarantines env account evidence db) = db_attempts db"
  "db_attempts (delete_pending account i db) = db_attempts db"
  "db_attempts (snd (stage_evidence env account evidence db)) = db_attempts db"
  by (simp_all add: record_quarantine_parts_def resolve_matching_quarantines_def delete_pending_def
      stage_evidence_def)

lemma single_hit:
  assumes "length (filter p xs) = 1" and "x \<in> set xs" and "p x" and "y \<in> set xs" and "p y"
  shows "y = x"
proof -
  from assms(1) obtain z where "filter p xs = [z]" by (auto simp: length_Suc_conv)
  then have "z' = z" if "z' \<in> set xs" "p z'" for z'
    using that by (metis (mono_tags, lifting) empty_iff filter_is_subset insert_iff list.set(1,2)
        mem_Collect_eq set_filter)
  with assms show ?thesis by blast
qed

lemma apply_transition_branch_advances:
  assumes branch: "apply_transition_branch host env account evidence c refunded db = Ok (outcome, db')"
    and row: "row \<in> set (db_attempts db)" "update_target account c row"
    and adv: "row_valid (apply_lifecycle_to_row env evidence refunded row) \<and>
              row_advances row (apply_lifecycle_to_row env evidence refunded row)"
  shows "ledger_advances db db'"
proof -
  let ?f = "\<lambda>r. if update_target account c r then apply_lifecycle_to_row env evidence refunded r else r"
  from branch have one: "length (filter (update_target account c) (db_attempts db)) = 1"
    and db': "db_attempts db' = map ?f (db_attempts db)"
    by (auto simp: apply_transition_branch_def Let_def and_then_Inr_iff split: if_splits option.splits)
  have "r = row" if "r \<in> set (db_attempts db)" "update_target account c r" for r
    using single_hit [OF one row that] .
  then show ?thesis
    unfolding ledger_advances_def db' list_all2_map2 list_all2_same using adv by auto
qed

lemma attempts_untouched' [simp]:
  "db_attempts (snd (stage_unless_pending env account evidence pending db)) = db_attempts db"
  "db_attempts (finish_application env account evidence pending outcome db) = db_attempts db"
  by (simp_all add: stage_unless_pending_def finish_application_def Let_def split: option.split)

text \<open>How an application can end.\<close>

lemma apply_or_stage_cases:
  fixes host :: "('h, 'e) target_store"
  assumes "apply_or_stage_evidence host env account evidence pending db = (result, db')"
  obtains
    (failed) e where "result = Err e" and "db' = db"
  | (staged) n outcome where "outcome \<in> {StagedNoMatch, StagedAmbiguous, HostTargetTransitionSkipped}"
      and "result = Ok \<lparr>application_outcome = outcome, application_newly_staged = n\<rparr>"
      and "stage_unless_pending env account evidence pending db = (n, db')"
      and "(outcome = StagedNoMatch \<longrightarrow> \<not> list_ex (named_by account evidence) (db_attempts db)) \<and>
        (outcome = StagedAmbiguous \<longrightarrow> length (filter (named_by account evidence) (db_attempts db)) > 1 \<and>
           \<not> list_ex (\<lambda>row. named_by account evidence row \<and> carries_transaction evidence row) (db_attempts db))"
  | (finished) c row outcome db1 where "row \<in> set (db_attempts db)" and "update_target account c row"
      and "candidate_from_row evidence row = (Ok c :: (_, 'e GatewayLifecycleReconciliationError) result)"
      and "lifecycle_branch host env account evidence c db = Ok (outcome, db1)"
      and "outcome \<noteq> HostTargetTransitionSkipped"
      and "result = Ok \<lparr>application_outcome = outcome, application_newly_staged = False\<rparr>"
      and "db' = finish_application env account evidence pending outcome db1"
      and "chosen account evidence db row"
proof (cases "and_then (ensure_account account db) (\<lambda>_. attempt_candidates account evidence db)
    :: (_, 'e GatewayLifecycleReconciliationError) result")
  case (Inl e)
  with assms show thesis by (intro failed [of e]) (simp_all add: apply_or_stage_evidence_def)
next
  case (Inr cs)
  obtain n db2 where st: "stage_unless_pending env account evidence pending db = (n, db2)"
    by (metis prod.exhaust)
  from Inr have candidates: "attempt_candidates account evidence db =
      (Ok cs :: (_, 'e GatewayLifecycleReconciliationError) result)"
    by (auto simp: and_then_Inr_iff)
  show thesis
  proof (cases "select_candidate cs")
    case None
    note un = unselected [OF candidates None]
    have nothing: "\<not> list_ex (named_by account evidence) (db_attempts db)" if "cs = []"
      using un that by (auto simp: filter_empty_conv list_ex_iff)
    have several: "length (filter (named_by account evidence) (db_attempts db)) > 1" if "cs \<noteq> []"
      using un that by (cases cs) auto
    show thesis
      using assms Inr st None un nothing several
      by (intro staged [of "if cs = [] then StagedNoMatch else StagedAmbiguous" n])
         (auto simp: apply_or_stage_evidence_def list_ex_iff filter_empty_conv)
  next
    case (Some c)
    from selected_is_chosen [OF candidates Some] obtain row
      where row: "row \<in> set (db_attempts db)" "update_target account c row"
        and cr: "candidate_from_row evidence row = (Ok c :: (_, 'e GatewayLifecycleReconciliationError) result)"
        and chosen: "chosen account evidence db row" .
    show thesis
    proof (cases "lifecycle_branch host env account evidence c db")
      case (Inl e)
      with assms Inr Some show thesis by (intro failed [of e]) (simp_all add: apply_or_stage_evidence_def)
    next
      case r: (Inr x)
      obtain outcome db1 where x: "x = (outcome, db1)" by (cases x)
      show thesis
      proof (cases "outcome = HostTargetTransitionSkipped")
        case True
        with assms Inr Some r x st show thesis
          by (intro staged [of outcome n]) (simp_all add: apply_or_stage_evidence_def)
      next
        case False
        with assms Inr Some r x chosen show thesis
          by (intro finished [OF row cr, of outcome db1]) (simp_all add: apply_or_stage_evidence_def)
      qed
    qed
  qed
qed

lemma lifecycle_branch_cases:
  fixes host :: "('h, 'e) target_store"
  assumes "lifecycle_branch host env account evidence c db = Ok (outcome, db1)"
  obtains (applied) r where
      "lifecycle_transition (candidate_current_state c) (candidate_current_refunded_amount_cents c)
        (candidate_current_lifecycle_at c) (stored_state evidence) (stored_effective_at evidence)
        (candidate_amount_cents c) = (Ok (Apply r) :: (_, 'e GatewayLifecycleReconciliationError) result)"
      and "apply_transition_branch host env account evidence c r db = Ok (outcome, db1)"
  | (kept) t where "db1 = db"
      and "outcome \<in> {AlreadySuperseded, InvalidRefundEconomics, ConflictingLifecycleEvidence}"
      and "lifecycle_transition (candidate_current_state c) (candidate_current_refunded_amount_cents c)
        (candidate_current_lifecycle_at c) (stored_state evidence) (stored_effective_at evidence)
        (candidate_amount_cents c) = (Ok t :: (_, 'e GatewayLifecycleReconciliationError) result)"
      and "outcome = AlreadySuperseded \<longleftrightarrow> t = LifecycleTransition.AlreadySuperseded"
      and "outcome = InvalidRefundEconomics \<longleftrightarrow> t = LifecycleTransition.InvalidRefundEconomics"
proof -
  from assms obtain t where
    t: "lifecycle_transition (candidate_current_state c) (candidate_current_refunded_amount_cents c)
        (candidate_current_lifecycle_at c) (stored_state evidence) (stored_effective_at evidence)
        (candidate_amount_cents c) = (Ok t :: (_, 'e GatewayLifecycleReconciliationError) result)"
    by (auto simp: lifecycle_branch_def and_then_Inr_iff)
  show thesis
  proof (cases t)
    case (Apply r)
    with assms t show thesis by (intro applied [of r]) (simp_all add: lifecycle_branch_def)
  qed (use assms t in \<open>auto simp: lifecycle_branch_def intro!: kept [OF _ _ t]\<close>)
qed

lemma apply_or_stage_advances:
  fixes host :: "('h, 'e) target_store"
  assumes "apply_or_stage_evidence host env account evidence pending db = (result, db')"
  shows "ledger_advances db db'"
  using assms
proof (cases rule: apply_or_stage_cases)
  case (staged n outcome)
  then have "db_attempts db' = db_attempts db"
    using attempts_untouched'(1) [of env account evidence pending db] by simp
  then show ?thesis by (rule ledger_advances_same)
next
  case (finished c row outcome db1)
  have "ledger_advances db db1"
    using finished(4)
  proof (cases rule: lifecycle_branch_cases)
    case (applied r)
    from apply_transition_branch_advances [OF applied(2) finished(1,2)]
      apply_lifecycle_to_row_advances [OF finished(3) applied(1)] show ?thesis .
  qed (simp add: ledger_advances_same)
  with finished(7) show ?thesis by (simp add: ledger_advances_def)
qed (simp add: ledger_advances_same)

lemma lifecycle_step_advances: "lifecycle_step host db db' \<Longrightarrow> ledger_advances db db'"
proof (induction rule: lifecycle_step.induct)
  case (evidence_step env account evidence pending db result db')
  then show ?case by (rule apply_or_stage_advances)
qed (auto simp: record_quarantine_def stage_gateway_lifecycle_evidence_def cleanup_pending_def
    record_unactionable_checks_def save_gateway_lifecycle_reconciliation_cursor_def Let_def
    intro: ledger_advances_same split: sum.splits)

lemma lifecycle_steps_advance: "lifecycle_steps host db db' \<Longrightarrow> ledger_advances db db'"
  by (induction rule: lifecycle_steps.induct)
     (blast intro: ledger_advances_same ledger_advances_trans lifecycle_step_advances)+

lemma row_valid_bounds:
  "row_valid r \<Longrightarrow> 0 \<le> row_refunded_amount_cents r \<and>
     (row_refunded_amount_cents r = 0 \<or> row_refunded_amount_cents r \<le> row_amount_cents r)"
  by (auto simp: row_valid_def dest!: stored_amount_bounds split: option.splits)

lemma list_all2_valid:
  "list_all2 (\<lambda>r r'. R r r' \<and> (P r \<longrightarrow> P r')) xs ys \<Longrightarrow> list_all P xs \<Longrightarrow> list_all P ys"
  by (induction rule: list_all2_induct) auto

section \<open>Properties\<close>

text \<open>C21.  Whatever lifecycle reports arrive, in whatever order and interleaving with the staging of
  evidence and quarantines, the ledger stays valid: every stored charge keeps its captured
  amount, its refunded amount never falls and never exceeds what was captured, and its
  lifecycle never moves to a state of lower precedence, so a reversed charge is never reopened.\<close>

theorem lifecycle_never_reopens:
  assumes "lifecycle_steps host db db'" and "list_all row_valid (db_attempts db)"
  shows "list_all row_valid (db_attempts db') \<and>
    list_all2 row_advances (db_attempts db) (db_attempts db') \<and>
    list_all (\<lambda>r. 0 \<le> row_refunded_amount_cents r \<and>
      (row_refunded_amount_cents r = 0 \<or> row_refunded_amount_cents r \<le> row_amount_cents r)) (db_attempts db')"
proof -
  note adv = lifecycle_steps_advance [OF assms(1), unfolded ledger_advances_def]
  from list_all2_valid [OF adv assms(2)] have v: "list_all row_valid (db_attempts db')" .
  moreover from adv have "list_all2 row_advances (db_attempts db) (db_attempts db')"
    by (rule list_all2_mono) simp
  ultimately show ?thesis using row_valid_bounds by (auto simp: list_all_iff)
qed

text \<open>A settled charge of 20.00 and a refund report for it.\<close>

definition sample_account :: GatewayLifecycleAccount where
  "sample_account =
     \<lparr>account_billing_scope_id = BillingScopeId 1, account_gateway_account_id = GatewayAccountId 2,
      account_provider_key = GatewayProviderKey (BoundedSlug (lit ''nmi''))\<rparr>"

definition sample_row :: lifecycle_row where
  "sample_row =
     \<lparr>row_id = 7, row_billing_scope_id = BillingScopeId 1, row_gateway_account_id = GatewayAccountId 2,
      row_subscriber_id = SubscriberId 3, row_attempt_kind = lit ''subscription_renewal'',
      row_host_charge_target_id = None, row_amount_cents = 2000, row_status = PaymentAttemptStatus.Approved,
      row_gateway_transaction_id = Some (lit ''txn''), row_gateway_order_id = None,
      row_gateway_condition = None, row_lifecycle_status = lit ''settled'', row_lifecycle_action = None,
      row_lifecycle_at = Some 5, row_refunded_amount_cents = 300,
      row_lifecycle_reconciled_at = None, row_resolved_at = Some 5, row_updated_at = 5\<rparr>"

definition sample_db :: "unit lifecycle_db" where
  "sample_db = \<lparr>db_accounts = [sample_account], db_attempts = [sample_row], db_pending = [],
     db_quarantines = [], db_cursors = [], db_host = ()\<rparr>"

definition sample_refund :: StoredEvidence where
  "sample_refund =
     \<lparr>stored_transaction_id = Some (lit ''txn''), stored_order_id = None,
      stored_state = GatewayLifecycleState.Refunded (CumulativeRefundCents 2000),
      stored_condition = None, stored_action = None, stored_effective_at = Some 4\<rparr>"

definition sample_host :: "(unit, unit) target_store" where
  "sample_host t h = Ok (HostChargeTargetTransitionOutcome.Applied, h)"

definition sample_env :: lifecycle_env where
  "sample_env = \<lparr>env_now = 9, env_candidate_id = 11, env_locked = []\<rparr>"

lemma sample_row_valid: "row_valid sample_row"
  by (simp add: row_valid_def row_state_def decoded_state_def lifecycle_state_from_parts_def
      sample_row_def CumulativeRefundCents_new_def)

lemma sample_txn: "canonical_gateway_transaction_id (Some (lit ''txn'')) = Some (lit ''txn'')"
  by (simp add: canonical_gateway_transaction_id_def trim_gateway_transaction_id_trim trim_def
      trim_matches_def is_whitespace_def lit_eval)

lemma sample_applied:
  "apply_or_stage_evidence sample_host sample_env sample_account sample_refund None sample_db =
     (Ok \<lparr>application_outcome = GatewayLifecycleApplyOutcome.Applied, application_newly_staged = False\<rparr>,
      sample_db\<lparr>db_attempts := [apply_lifecycle_to_row sample_env sample_refund 2000 sample_row]\<rparr>)"
  by (simp add: apply_or_stage_evidence_def ensure_account_def sample_db_def attempt_candidates_def
        matching_attempts_def matched_transaction_id_def sample_row_def sample_account_def sample_refund_def sample_txn
        candidate_from_row_def lifecycle_state_from_parts_def CumulativeRefundCents_new_def
        PaymentAttemptKind_from_str_def select_candidate_def lifecycle_branch_def lifecycle_transition_def
        apply_transition_branch_def update_target_def finish_application_def
        resolve_matching_quarantines_def Let_def)

theorem lifecycle_never_reopens_witness:
  "list_all row_valid [apply_lifecycle_to_row sample_env sample_refund 2000 sample_row] \<and>
   row_advances sample_row (apply_lifecycle_to_row sample_env sample_refund 2000 sample_row)"
proof -
  let ?db' = "sample_db\<lparr>db_attempts := [apply_lifecycle_to_row sample_env sample_refund 2000 sample_row]\<rparr>"
  have "lifecycle_steps sample_host sample_db ?db'"
    by (rule more_steps [OF evidence_step [OF sample_applied] no_step])
  moreover have "list_all row_valid (db_attempts sample_db)"
    by (simp add: sample_db_def sample_row_valid)
  ultimately show ?thesis
    using lifecycle_never_reopens [of sample_host sample_db ?db'] by (simp add: sample_db_def)
qed

lemma conflicts_ignore_bookkeeping [simp]:
  "pending_conflicts account evidence (row\<lparr>pending_updated_at := at\<rparr>) = pending_conflicts account evidence row"
  "quarantine_conflicts account t o1 reason (q\<lparr>quarantined_last_seen_at := a, quarantined_occurrence_count := n,
     quarantined_resolved_at := b, quarantined_last_operator_alerted_at := c\<rparr>) =
   quarantine_conflicts account t o1 reason q"
  by (simp_all add: pending_conflicts_def quarantine_conflicts_def)

lemma list_ex_map_if:
  "list_ex P xs \<Longrightarrow> (\<And>x. P x \<Longrightarrow> Q (f x)) \<Longrightarrow> list_ex Q (map (\<lambda>x. if P x then f x else x) xs)"
  by (induction xs) auto

lemma stage_evidence_pending:
  "stage_evidence env account evidence db = (n, db') \<Longrightarrow>
     list_ex (pending_conflicts account evidence) (db_pending db') \<and> db_host db' = db_host db \<and>
     db_attempts db' = db_attempts db"
  by (auto simp: stage_evidence_def intro!: list_ex_map_if split: if_splits)
     (simp add: pending_conflicts_def)

lemma record_quarantine_parts_open:
  "list_ex (\<lambda>q. quarantine_conflicts account t o1 reason q \<and> quarantined_resolved_at q = None)
     (db_quarantines (record_quarantine_parts env account t o1 reason db))"
  by (cases "list_ex (quarantine_conflicts account t o1 reason) (db_quarantines db)")
     (simp_all add: record_quarantine_parts_def list_ex_map_if,
      simp add: quarantine_conflicts_def)

text \<open>An unresolved quarantine that names the evidence's transaction and order.\<close>

definition open_quarantine :: "GatewayLifecycleAccount \<Rightarrow> StoredEvidence \<Rightarrow> 'h lifecycle_db \<Rightarrow> bool" where
  "open_quarantine account evidence db =
     list_ex (\<lambda>q. quarantine_conflicts account (stored_transaction_id evidence) (stored_order_id evidence)
         GatewayLifecycleQuarantineReason.InvalidRefundEconomics q \<and> quarantined_resolved_at q = None)
       (db_quarantines db)"

lemma apply_transition_branch_row:
  assumes "apply_transition_branch host env account evidence c r db = Ok (outcome, db')"
    and "row \<in> set (db_attempts db)" and "update_target account c row"
  shows "apply_lifecycle_to_row env evidence r row \<in> set (db_attempts db') \<and>
    outcome \<in> {GatewayLifecycleApplyOutcome.Applied, HostTargetTransitionSkipped}"
  using assms
  by (auto simp: apply_transition_branch_def Let_def and_then_Inr_iff image_iff split: if_splits option.splits
      intro!: bexI [of _ row])

text \<open>
  The attempt already holds what the evidence says: a state of higher precedence, or the same state, as late and with as much refunded.
\<close>

definition covers :: "lifecycle_row \<Rightarrow> StoredEvidence \<Rightarrow> bool" where
  "covers row evidence \<longleftrightarrow>
     lifecycle_rank (stored_state evidence) < row_rank row \<or>
     lifecycle_rank (stored_state evidence) = row_rank row \<and>
     (\<exists>at. row_lifecycle_at row = Some at \<and> (\<forall>t. stored_effective_at evidence = Some t \<longrightarrow> t \<le> at)) \<and>
     (\<forall>r. lifecycle_refunded_amount (stored_state evidence) = Some r \<longrightarrow> r \<le> row_refunded_amount_cents row)"

text \<open>What the evidence reports is on the row: its state, action, condition and time, and the larger of the two refunds.\<close>

definition reports :: "StoredEvidence \<Rightarrow> lifecycle_row \<Rightarrow> lifecycle_row \<Rightarrow> bool" where
  "reports evidence row row' \<longleftrightarrow>
     row_id row' = row_id row \<and> row_amount_cents row' = row_amount_cents row \<and>
     row_lifecycle_status row' = lifecycle_status (stored_state evidence) \<and>
     row_lifecycle_action row' = stored_action evidence \<and>
     (stored_condition evidence \<noteq> None \<longrightarrow> row_gateway_condition row' = stored_condition evidence) \<and>
     (\<forall>t. stored_effective_at evidence = Some t \<longrightarrow> (\<exists>at. row_lifecycle_at row' = Some at \<and> t \<le> at)) \<and>
     row_refunded_amount_cents row' =
       (case lifecycle_refunded_amount (stored_state evidence) of
          Some r \<Rightarrow> max (row_refunded_amount_cents row) r | None \<Rightarrow> row_refunded_amount_cents row)"

lemma superseded_covers:
  assumes c: "candidate_from_row evidence row = Ok c"
    and t: "lifecycle_transition (candidate_current_state c) (candidate_current_refunded_amount_cents c)
      (candidate_current_lifecycle_at c) (stored_state evidence) (stored_effective_at evidence)
      (candidate_amount_cents c) = Ok LifecycleTransition.AlreadySuperseded"
  shows "covers row evidence"
proof -
  note c = candidate_from_row_Ok [OF c]
  have "lifecycle_rank (stored_state evidence) \<le> row_rank row"
    using t c by (auto simp: lifecycle_transition_def Let_def row_rank_def evidence_transition_rank split: if_splits)
  moreover have "(\<exists>at. row_lifecycle_at row = Some at \<and> (\<forall>t. stored_effective_at evidence = Some t \<longrightarrow> t \<le> at)) \<and>
      (\<forall>r. lifecycle_refunded_amount (stored_state evidence) = Some r \<longrightarrow> r \<le> row_refunded_amount_cents row)"
    if "lifecycle_rank (stored_state evidence) = row_rank row"
    using t c that
    by (auto simp: lifecycle_transition_def Let_def row_rank_def evidence_transition_rank split: if_splits option.splits)
  ultimately show ?thesis by (auto simp: covers_def)
qed

lemma applied_reports:
  assumes c: "candidate_from_row evidence row = Ok c"
    and t: "lifecycle_transition (candidate_current_state c) (candidate_current_refunded_amount_cents c)
      (candidate_current_lifecycle_at c) (stored_state evidence) (stored_effective_at evidence)
      (candidate_amount_cents c) = Ok (Apply r)"
  shows "reports evidence row (apply_lifecycle_to_row env evidence r row)"
proof -
  have "r = (case lifecycle_refunded_amount (stored_state evidence) of
      Some x \<Rightarrow> max (row_refunded_amount_cents row) x | None \<Rightarrow> row_refunded_amount_cents row)"
    using t candidate_from_row_Ok [OF c]
    by (auto simp: lifecycle_transition_def Let_def split: if_splits option.splits)
  then show ?thesis
    by (auto simp: reports_def apply_lifecycle_to_row_def latest_time_def split: option.splits)
qed

lemma apply_transition_branch_rest:
  assumes "apply_transition_branch host env account evidence c r db = Ok (outcome, db')"
    and "r' \<in> set (db_attempts db)" and "row_id r' \<noteq> candidate_id c"
  shows "r' \<in> set (db_attempts db')"
proof -
  have "db_attempts db' = map (\<lambda>row. if update_target account c row then apply_lifecycle_to_row env evidence r row else row) (db_attempts db)"
    using assms(1) by (auto simp: apply_transition_branch_def Let_def and_then_Inr_iff split: if_splits option.splits)
  moreover have "\<not> update_target account c r'" using assms(3) by (simp add: update_target_def)
  ultimately show ?thesis using assms(2) by auto
qed

text \<open>C28.  Lifecycle evidence is never lost, and never lands on another attempt.  A call that fails changes nothing.  Applied evidence
  is on the attempt it names (an approved one of the account that carries its transaction, or the only one that its
  transaction or order names), which afterwards has the reported state, action, condition, time and at least the reported
  refund, while every other attempt is as before.  Superseded evidence names an attempt that already holds
  a state of higher precedence, or the same state as late and with as much refunded.  Evidence of an impossible refund
  or in conflict with its attempt leaves an open quarantine; evidence that names no attempt, several, or one whose full reversal the host
  refuses changes neither attempts nor host and stays staged.\<close>

theorem lifecycle_evidence_not_lost:
  fixes host :: "('h, 'e) target_store"
  assumes "apply_or_stage_evidence host env account evidence pending db = (result, db')"
  shows "case result of
      Inl e \<Rightarrow> db' = db
    | Inr app \<Rightarrow>
        (case application_outcome app of
           GatewayLifecycleApplyOutcome.Applied \<Rightarrow>
             (\<exists>row. chosen account evidence db row \<and> list_ex (reports evidence row) (db_attempts db') \<and>
                (\<forall>r \<in> set (db_attempts db). row_id r \<noteq> row_id row \<longrightarrow> r \<in> set (db_attempts db')))
         | AlreadySuperseded \<Rightarrow> db_attempts db' = db_attempts db \<and>
             (\<exists>row. chosen account evidence db row \<and> covers row evidence)
         | InvalidRefundEconomics \<Rightarrow> db_attempts db' = db_attempts db \<and> open_quarantine account evidence db' \<and>
             (\<exists>row. chosen account evidence db row \<and> \<not> incoming_amount_is_valid (stored_state evidence) (row_amount_cents row))
         | ConflictingLifecycleEvidence \<Rightarrow> db_attempts db' = db_attempts db \<and>
             open_quarantine account evidence db' \<and> (\<exists>row. chosen account evidence db row)
         | outcome \<Rightarrow> db_attempts db' = db_attempts db \<and> db_host db' = db_host db \<and>
             (outcome = StagedNoMatch \<longrightarrow> \<not> list_ex (named_by account evidence) (db_attempts db)) \<and>
             (outcome = StagedAmbiguous \<longrightarrow> length (filter (named_by account evidence) (db_attempts db)) > 1 \<and>
                \<not> list_ex (\<lambda>row. named_by account evidence row \<and> carries_transaction evidence row) (db_attempts db)) \<and>
             (if pending = None then list_ex (pending_conflicts account evidence) (db_pending db')
              else db_pending db' = db_pending db))"
  using assms
proof (cases rule: apply_or_stage_cases)
  case (staged n outcome)
  then show ?thesis
    using stage_evidence_pending [of env account evidence db n db']
    by (auto simp: stage_unless_pending_def split: if_splits)
next
  case (finished c row outcome db1)
  have open_q: "open_quarantine account evidence (finish_application env account evidence pending o1 db1)"
    if "o1 \<in> {InvalidRefundEconomics, ConflictingLifecycleEvidence}" for o1
  proof -
    have "db_quarantines (delete_pending account i d) = db_quarantines d" for i and d :: "'h lifecycle_db"
      by (simp add: delete_pending_def)
    then show ?thesis
      using that record_quarantine_parts_open [of account "stored_transaction_id evidence"
          "stored_order_id evidence" GatewayLifecycleQuarantineReason.InvalidRefundEconomics env db1]
      by (auto simp: open_quarantine_def finish_application_def Let_def list_ex_iff split: option.split)
  qed
  have id: "candidate_id c = row_id row" "candidate_amount_cents c = row_amount_cents row"
    using candidate_from_row_Ok [OF finished(3)] by simp_all
  from finished(4) show ?thesis
  proof (cases rule: lifecycle_branch_cases)
    case (applied r)
    have "list_ex (reports evidence row) (db_attempts db')"
      using apply_transition_branch_row [OF applied(2) finished(1,2)] applied_reports [OF finished(3) applied(1), of env]
      by (auto simp: list_ex_iff finished(7))
    moreover have "\<forall>r' \<in> set (db_attempts db). row_id r' \<noteq> row_id row \<longrightarrow> r' \<in> set (db_attempts db')"
      using apply_transition_branch_rest [OF applied(2)] by (simp add: id finished(7))
    moreover have "outcome = GatewayLifecycleApplyOutcome.Applied"
      using apply_transition_branch_row [OF applied(2) finished(1,2)] finished(5) by simp
    ultimately show ?thesis using finished(6,8) by auto
  next
    case (kept t)
    have "covers row evidence" if "outcome = AlreadySuperseded"
      using superseded_covers [OF finished(3)] kept(3,4) that by simp
    moreover have "\<not> incoming_amount_is_valid (stored_state evidence) (row_amount_cents row)" if "outcome = InvalidRefundEconomics"
      using kept(3,5) that by (auto simp: lifecycle_transition_def Let_def id split: if_splits)
    moreover have "db_attempts db' = db_attempts db" by (simp add: finished(7) kept(1))
    ultimately show ?thesis using finished(6-8) kept(2) open_q by (elim insertE; auto)
  qed
qed simp

theorem lifecycle_evidence_not_lost_witness:
  "\<exists>row. chosen sample_account sample_refund sample_db row \<and>
     list_ex (reports sample_refund row) [apply_lifecycle_to_row sample_env sample_refund 2000 sample_row]"
  using lifecycle_evidence_not_lost [OF sample_applied] by auto

section \<open>The worker and the cursor\<close>

lemma list_all2_list_ex:
  "list_all2 R xs ys \<Longrightarrow> (\<And>x y. R x y \<Longrightarrow> P x = Q y) \<Longrightarrow> list_ex P xs = list_ex Q ys"
  by (induction rule: list_all2_induct) auto

lemma select_candidate_iff:
  "select_candidate cs \<noteq> None \<longleftrightarrow>
     list_ex candidate_matched_transaction_id cs \<or> (\<exists>c. cs = [c] \<and> candidate_matched_order_id c)"
proof (cases "List.find candidate_matched_transaction_id cs")
  case None
  then have "\<not> list_ex candidate_matched_transaction_id cs"
    by (simp add: find_None_iff list_ex_iff)
  with None show ?thesis by (auto simp: select_candidate_def split: list.splits)
next
  case (Some c)
  then have "list_ex candidate_matched_transaction_id cs"
    by (auto simp: find_Some_iff list_ex_iff)
  with Some show ?thesis by (simp add: select_candidate_def)
qed

text \<open>The worker's query and the application agree: a staged row is picked up exactly when
  the application that follows selects an attempt for its evidence, so the worker neither
  passes over evidence that could be applied nor picks up evidence it would leave staged.\<close>

lemma staged_actionable_iff_selected:
  assumes "pending_evidence row = (Ok (i, evidence) :: (_, 'e GatewayLifecycleReconciliationError) result)"
    and "attempt_candidates account evidence db =
      (Ok cs :: (_, 'e GatewayLifecycleReconciliationError) result)"
  shows "pending_actionable account db row \<longleftrightarrow> select_candidate cs \<noteq> None"
proof -
  let ?rows = "matching_attempts account (stored_transaction_id evidence) (stored_order_id evidence) db"
  from assms(1) have loc: "stored_transaction_id evidence = pending_transaction_id row"
    "stored_order_id evidence = pending_order_id row"
    by (auto simp: pending_evidence_def and_then_Inr_iff)
  from collect_candidates [OF assms(2) [unfolded attempt_candidates_def]]
  have all: "list_all2 (\<lambda>row c. candidate_from_row evidence row =
      (Ok c :: (_, 'e GatewayLifecycleReconciliationError) result)) ?rows cs" .
  have txn: "list_ex (matched_transaction_id (stored_transaction_id evidence)) ?rows =
      list_ex candidate_matched_transaction_id cs"
    using all by (rule list_all2_list_ex) (simp add: candidate_from_row_matched)
  have one: "matched_order_id (stored_transaction_id evidence) (stored_order_id evidence) r"
    if "r \<in> set ?rows" and "\<not> matched_transaction_id (stored_transaction_id evidence) r" for r
    using that by (auto simp: matching_attempts_def)
  have "length ?rows = 1 \<and> \<not> list_ex candidate_matched_transaction_id cs \<longleftrightarrow>
      (\<exists>c. cs = [c] \<and> candidate_matched_order_id c) \<and> \<not> list_ex candidate_matched_transaction_id cs"
    using all txn one
    by (auto simp: length_Suc_conv list_all2_Cons1 list_all2_Cons2 dest!: candidate_from_row_matched)
  then show ?thesis
    unfolding pending_actionable_def select_candidate_iff Let_def loc [symmetric] txn by blast
qed

definition sample_pending :: pending_row where
  "sample_pending =
     \<lparr>pending_id = 21, pending_billing_scope_id = BillingScopeId 1,
      pending_gateway_account_id = GatewayAccountId 2, pending_transaction_id = Some (lit ''txn''),
      pending_order_id = None, pending_condition = None, pending_lifecycle_status = lit ''refunded'',
      pending_lifecycle_action = None, pending_lifecycle_at = Some 4,
      pending_refunded_amount_cents = Some 2000, pending_expires_at = 6, pending_first_seen_at = 4,
      pending_updated_at = 4, pending_last_checked_at = None, pending_check_count = 0\<rparr>"

lemma staged_actionable_iff_selected_witness:
  "pending_actionable sample_account sample_db sample_pending"
proof -
  have "pending_evidence sample_pending =
      (Ok (21, sample_refund) :: (_, unit GatewayLifecycleReconciliationError) result)"
    by (simp add: pending_evidence_def sample_pending_def sample_refund_def lifecycle_state_from_parts_def
        CumulativeRefundCents_new_def)
  moreover obtain c where "attempt_candidates sample_account sample_refund sample_db =
      (Ok [c] :: (_, unit GatewayLifecycleReconciliationError) result)" "candidate_matched_transaction_id c"
    by (simp add: attempt_candidates_def matching_attempts_def matched_transaction_id_def sample_db_def
        sample_row_def sample_account_def sample_refund_def sample_txn candidate_from_row_def
        lifecycle_state_from_parts_def CumulativeRefundCents_new_def PaymentAttemptKind_from_str_def)
  ultimately show ?thesis
    using staged_actionable_iff_selected by (fastforce simp: select_candidate_def)
qed

text \<open>Cleaning keeps live evidence: a staged row goes only once its seven days are over and
  only for the account that is cleaned, at most five hundred rows go at a time, and the count
  that is reported is the number of rows that went.\<close>

lemma cleanup_keeps_live_evidence:
  assumes "distinct (map pending_id (db_pending db))"
    and "cleanup_pending env account db = (Ok n :: (_, 'e GatewayLifecycleReconciliationError) result, db')"
  shows "(\<forall>row \<in> set (db_pending db). row \<in> set (db_pending db') \<or>
      pending_of_account account row \<and> pending_expires_at row \<le> env_now env) \<and>
    n \<le> 500 \<and> n + length (db_pending db') = length (db_pending db)"
proof -
  let ?ids = "pending_id ` set (stale_pending env account db)"
  let ?p = "\<lambda>row. pending_id row \<notin> ?ids"
  from assms(2) have db': "db_pending db' = filter ?p (db_pending db)"
    and n: "n = length (db_pending db) - length (filter ?p (db_pending db))"
    by (auto simp: cleanup_pending_def Let_def split: sum.splits)
  have sub: "set (stale_pending env account db) \<subseteq> {row \<in> set (db_pending db).
      pending_of_account account row \<and> pending_expires_at row \<le> env_now env}"
    by (auto simp: stale_pending_def dest: in_set_takeD)
  have live: "row \<in> set (db_pending db') \<or> pending_of_account account row \<and> pending_expires_at row \<le> env_now env"
    if "row \<in> set (db_pending db)" for row
  proof (cases "?p row")
    case False
    then obtain r where "r \<in> set (stale_pending env account db)" "pending_id r = pending_id row" by auto
    moreover from this sub assms(1) that have "r = row"
      by (auto simp: distinct_map dest: inj_onD)
    ultimately show ?thesis using sub by auto
  qed (use that db' in simp)
  have split: "length (filter ?p (db_pending db)) + length (filter (\<lambda>row. \<not> ?p row) (db_pending db)) =
      length (db_pending db)"
    by (rule sum_length_filter_compl)
  have "length (filter (\<lambda>row. \<not> ?p row) (db_pending db)) =
      card (pending_id ` set (filter (\<lambda>row. \<not> ?p row) (db_pending db)))"
    using distinct_card [OF distinct_map_filter [OF assms(1), of "\<lambda>row. \<not> ?p row"]] by simp
  also have "\<dots> \<le> card ?ids" by (rule card_mono) auto
  also have "\<dots> \<le> length (stale_pending env account db)"
    using card_length [of "map pending_id (stale_pending env account db)"] by simp
  also have "\<dots> \<le> 500"
    by (simp add: stale_pending_def PENDING_CLEANUP_BATCH_SIZE_def)
  finally have "n \<le> 500" using split n by simp
  then show ?thesis using live db' n split by auto
qed

lemma cleanup_keeps_live_evidence_witness:
  "\<exists>n db'. cleanup_pending sample_env sample_account (sample_db\<lparr>db_pending := [sample_pending]\<rparr>) =
      (Ok n :: (nat, unit GatewayLifecycleReconciliationError) result, db') \<and>
     n + length (db_pending db') = 1"
proof -
  let ?db = "sample_db\<lparr>db_pending := [sample_pending]\<rparr>"
  obtain n db' where c: "cleanup_pending sample_env sample_account ?db =
      (Ok n :: (nat, unit GatewayLifecycleReconciliationError) result, db')"
    by (simp add: cleanup_pending_def ensure_account_def sample_db_def Let_def)
  from cleanup_keeps_live_evidence [OF _ this] c show ?thesis by simp
qed

definition cursor_value ::
    "GatewayLifecycleAccount \<Rightarrow> GatewayLifecycleCursorKey \<Rightarrow> 'h lifecycle_db \<Rightarrow> datetime option" where
  "cursor_value account key db =
     map_option cursor_last_successful_end_at (List.find (cursor_of account key) (db_cursors db))"

text \<open>The account is registered and owns its cursors, as the foreign keys of the table demand.\<close>

definition cursors_owned :: "GatewayLifecycleAccount \<Rightarrow> GatewayLifecycleCursorKey \<Rightarrow> 'h lifecycle_db \<Rightarrow> bool" where
  "cursors_owned account key db \<longleftrightarrow>
     account \<in> set (db_accounts db) \<and>
     list_all (\<lambda>row. cursor_of account key row \<longrightarrow>
       cursor_billing_scope_id row = account_billing_scope_id account) (db_cursors db)"

lemma find_append_one:
  "List.find P (xs @ [x]) = (case List.find P xs of None \<Rightarrow> if P x then Some x else None | Some y \<Rightarrow> Some y)"
  by (induction xs) auto

lemma find_update:
  "(\<And>x. P (f x) = P x) \<Longrightarrow> List.find P (map (\<lambda>x. if P x then f x else x) xs) = map_option f (List.find P xs)"
  by (induction xs) auto

lemma list_ex_find: "list_ex P xs \<longleftrightarrow> List.find P xs \<noteq> None"
  by (induction xs) auto

lemma save_cursor:
  assumes "cursors_owned account key db"
    and "save_gateway_lifecycle_reconciliation_cursor account key t db =
      (r :: (unit, 'e GatewayLifecycleReconciliationError) result, db')"
  shows "cursors_owned account key db' \<and>
    cursor_value account key db' = Some (case cursor_value account key db of None \<Rightarrow> t | Some v \<Rightarrow> max v t)"
proof -
  have upd: "cursor_of account key (row\<lparr>cursor_last_successful_end_at := v\<rparr>) = cursor_of account key row"
    for row v by (simp add: cursor_of_def)
  have new: "cursor_of account key \<lparr>cursor_billing_scope_id = account_billing_scope_id account,
      cursor_gateway_account_id = account_gateway_account_id account,
      cursor_provider_key = account_provider_key account, cursor_cursor_key = key,
      cursor_last_successful_end_at = t\<rparr>"
    by (simp add: cursor_of_def)
  show ?thesis
    using assms
    by (auto simp: save_gateway_lifecycle_reconciliation_cursor_def ensure_account_def cursors_owned_def
        cursor_value_def list_ex_find find_append_one find_update upd new list_all_iff split: option.splits)
qed

lemma reconciliation_start_cursor:
  assumes "cursors_owned account key db" and "cursor_value account key db = Some v"
  shows "gateway_lifecycle_reconciliation_start account key db = Ok (Some v)"
proof -
  have "List.find (\<lambda>row. cursor_of account key row \<and> cursor_billing_scope_id row = account_billing_scope_id account)
      (db_cursors db) = List.find (cursor_of account key) (db_cursors db)"
    using assms(1) by (intro find_cong) (auto simp: cursors_owned_def list_all_iff)
  then show ?thesis
    using assms by (auto simp: gateway_lifecycle_reconciliation_start_def ensure_account_def cursors_owned_def
        cursor_value_def)
qed

text \<open>The state after a save.\<close>

definition cursor_saved ::
    "GatewayLifecycleAccount \<Rightarrow> GatewayLifecycleCursorKey \<Rightarrow> 'h lifecycle_db \<Rightarrow> datetime \<Rightarrow> 'h lifecycle_db" where
  "cursor_saved account key db at =
     snd (save_gateway_lifecycle_reconciliation_cursor account key at db
       :: (unit, unit GatewayLifecycleReconciliationError) result \<times> 'h lifecycle_db)"

text \<open>The report cursor never moves back: after any number of saves, in any order, the next
  reconciliation starts at the latest end ever saved, whatever stood there before.\<close>

lemma cursor_never_moves_back:
  assumes "cursors_owned account key db" and "ts \<noteq> []"
  shows "gateway_lifecycle_reconciliation_start account key (foldl (cursor_saved account key) db ts) =
    (Ok (Some (Max (set ts \<union> set_option (cursor_value account key db)))) ::
       (_, 'e GatewayLifecycleReconciliationError) result)"
proof -
  have "cursors_owned account key (foldl (cursor_saved account key) db ts) \<and>
      (ts \<noteq> [] \<longrightarrow> cursor_value account key (foldl (cursor_saved account key) db ts) =
        Some (Max (set ts \<union> set_option (cursor_value account key db))))"
    using assms(1)
  proof (induction ts arbitrary: db)
    case (Cons t ts)
    obtain r d where d: "save_gateway_lifecycle_reconciliation_cursor account key t db =
        (r :: (unit, unit GatewayLifecycleReconciliationError) result, d)" by fastforce
    then have "cursor_saved account key db t = d" by (simp add: cursor_saved_def)
    moreover note save_cursor [OF Cons.prems d] Cons.IH [of d]
    moreover have "set_option (Some (case cursor_value account key db of None \<Rightarrow> t | Some v \<Rightarrow> max v t)) =
        {Max ({t} \<union> set_option (cursor_value account key db))}"
      by (auto simp: max.commute split: option.splits)
    moreover have "Max (set ts \<union> {Max ({t} \<union> B)}) = Max (set (t # ts) \<union> B)"
      if "finite B" for B
      using that by (cases "ts = []"; cases "B = {}") (simp_all add: Max_Un ac_simps)
    ultimately show ?case by (cases "ts = []") auto
  qed simp
  then show ?thesis using assms(2) by (intro reconciliation_start_cursor) simp_all
qed

lemma cursor_never_moves_back_witness:
  "gateway_lifecycle_reconciliation_start sample_account (GatewayLifecycleCursorKey (BoundedSlug (lit ''nmi'')))
     (foldl (cursor_saved sample_account (GatewayLifecycleCursorKey (BoundedSlug (lit ''nmi'')))) sample_db [3, 9, 4]) =
   (Ok (Some 9) :: (_, unit GatewayLifecycleReconciliationError) result)"
  using cursor_never_moves_back [of sample_account "GatewayLifecycleCursorKey (BoundedSlug (lit ''nmi''))"
      sample_db "[3, 9, 4]"]
  by (simp add: cursors_owned_def cursor_value_def sample_db_def)

end
