(* ===== verification/Discount.thy ===== *)
theory Discount
  imports Terms Gateway_Value
begin

text \<open>
  Discounts: \<open>crates/syrup-rail/src/subscription/discount.rs\<close> and \<open>discount.rs\<close>.  Codes, kinds and
  durations with their bounds, the charge a discount leaves, and the records of codes and
  claims with the state checks of their constructors.
\<close>

section \<open>Kinds and durations\<close>

datatype SubscriptionDiscountError =
    InvalidCode
  | InvalidAmountOff
  | InvalidPercentOff
  | InvalidDurationMonths
  | LimitedDiscountCadence
  | InvalidChargeSnapshot
  | InvalidState

datatype PositiveDiscountCents = PositiveDiscountCents (PositiveDiscountCents_get: int)

definition PositiveDiscountCents_new :: "int \<Rightarrow> (PositiveDiscountCents, SubscriptionDiscountError) result" where
  "PositiveDiscountCents_new value =
     (if value \<le> 0 then Err InvalidAmountOff else Ok (PositiveDiscountCents value))"

datatype PercentOffBasisPoints = PercentOffBasisPoints (PercentOffBasisPoints_get: u16)

definition PercentOffBasisPoints_new :: "u16 \<Rightarrow> (PercentOffBasisPoints, SubscriptionDiscountError) result" where
  "PercentOffBasisPoints_new value =
     (if \<not> (1 \<le> value \<and> value \<le> 9999) then Err InvalidPercentOff
      else Ok (PercentOffBasisPoints value))"

datatype LimitedDiscountMonths = LimitedDiscountMonths (LimitedDiscountMonths_get: u8)

definition LimitedDiscountMonths_new :: "u8 \<Rightarrow> (LimitedDiscountMonths, SubscriptionDiscountError) result" where
  "LimitedDiscountMonths_new value =
     (if \<not> (1 \<le> value \<and> value \<le> 36) then Err InvalidDurationMonths
      else Ok (LimitedDiscountMonths value))"

datatype SubscriptionDiscountKind =
    AmountOffCents PositiveDiscountCents
  | PercentOffBps PercentOffBasisPoints

primrec SubscriptionDiscountKind_as_str :: "SubscriptionDiscountKind \<Rightarrow> rstring" where
  "SubscriptionDiscountKind_as_str (AmountOffCents _) = lit ''amount_off''"
| "SubscriptionDiscountKind_as_str (PercentOffBps _) = lit ''percent_off''"

datatype SubscriptionDiscountDuration = Indefinite | LimitedMonths LimitedDiscountMonths

primrec SubscriptionDiscountDuration_as_str :: "SubscriptionDiscountDuration \<Rightarrow> rstring" where
  "SubscriptionDiscountDuration_as_str Indefinite = lit ''indefinite''"
| "SubscriptionDiscountDuration_as_str (LimitedMonths _) = lit ''limited_months''"

section \<open>Codes\<close>

datatype SubscriptionDiscountCode = SubscriptionDiscountCode (SubscriptionDiscountCode_as_str: rstring)

text \<open>\<open>matches!(byte, b'_' | b'-')\<close>\<close>

definition is_discount_code_byte :: "byte \<Rightarrow> bool" where
  "is_discount_code_byte b \<longleftrightarrow> is_ascii_alphanumeric b \<or> b = 95 \<or> b = 45"

definition SubscriptionDiscountCode_new ::
    "rstring \<Rightarrow> (SubscriptionDiscountCode, SubscriptionDiscountError) result" where
  "SubscriptionDiscountCode_new value =
     (let normalized = to_ascii_uppercase (trim value) in
      if \<not> (5 \<le> byte_len normalized \<and> byte_len normalized \<le> 64) \<or>
         \<not> list_all is_discount_code_byte (utf8_bytes normalized)
      then Err InvalidCode
      else Ok (SubscriptionDiscountCode normalized))"

section \<open>Snapshots\<close>

record SubscriptionDiscountSnapshot =
  snapshot_code :: SubscriptionDiscountCode
  snapshot_label :: "rstring option"
  snapshot_kind :: SubscriptionDiscountKind
  snapshot_duration :: SubscriptionDiscountDuration
  snapshot_base_charge :: ChargeAmount
  snapshot_discounted_charge :: ChargeAmount

definition SubscriptionDiscountSnapshot_new ::
    "SubscriptionDiscountCode \<Rightarrow> rstring option \<Rightarrow> SubscriptionDiscountKind \<Rightarrow>
     SubscriptionDiscountDuration \<Rightarrow> ChargeAmount \<Rightarrow> ChargeAmount \<Rightarrow>
     (SubscriptionDiscountSnapshot, SubscriptionDiscountError) result" where
  "SubscriptionDiscountSnapshot_new code label kind duration base_charge discounted_charge =
     (if ChargeAmount_currency base_charge \<noteq> ChargeAmount_currency discounted_charge \<or>
         ChargeAmount_cents discounted_charge > ChargeAmount_cents base_charge
      then Err InvalidChargeSnapshot
      else Ok \<lparr>snapshot_code = code, snapshot_label = label, snapshot_kind = kind,
               snapshot_duration = duration, snapshot_base_charge = base_charge,
               snapshot_discounted_charge = discounted_charge\<rparr>)"

definition snapshot_currency :: "SubscriptionDiscountSnapshot \<Rightarrow> CurrencyCode" where
  "snapshot_currency s = ChargeAmount_currency (snapshot_base_charge s)"

definition has_same_charge_terms :: "SubscriptionDiscountSnapshot \<Rightarrow> SubscriptionDiscountSnapshot \<Rightarrow> bool" where
  "has_same_charge_terms self other \<longleftrightarrow>
     snapshot_code self = snapshot_code other \<and>
     snapshot_kind self = snapshot_kind other \<and>
     snapshot_duration self = snapshot_duration other \<and>
     snapshot_base_charge self = snapshot_base_charge other \<and>
     snapshot_discounted_charge self = snapshot_discounted_charge other"

record SavedSubscriptionDiscount =
  saved_claim_id :: DiscountClaimId
  saved_snapshot :: SubscriptionDiscountSnapshot

record AppliedSubscriptionDiscount =
  applied_claim_id :: "DiscountClaimId option"
  applied_snapshot :: SubscriptionDiscountSnapshot
  applied_periods_remaining :: "u8 option"

definition AppliedSubscriptionDiscount_new ::
    "DiscountClaimId option \<Rightarrow> SubscriptionDiscountSnapshot \<Rightarrow> u8 option \<Rightarrow>
     (AppliedSubscriptionDiscount, SubscriptionDiscountError) result" where
  "AppliedSubscriptionDiscount_new claim_id snapshot periods_remaining =
     (if (case (snapshot_duration snapshot, periods_remaining) of
            (Indefinite, None) \<Rightarrow> True
          | (LimitedMonths limit, Some remaining) \<Rightarrow> remaining \<le> LimitedDiscountMonths_get limit
          | _ \<Rightarrow> False)
      then Ok \<lparr>applied_claim_id = claim_id, applied_snapshot = snapshot,
               applied_periods_remaining = periods_remaining\<rparr>
      else Err InvalidDurationMonths)"

section \<open>The discounted charge\<close>

definition discounted_charge ::
    "ChargeAmount \<Rightarrow> CurrencyCode \<Rightarrow> SubscriptionDiscountKind \<Rightarrow> (ChargeAmount, SubscriptionDiscountError) result" where
  "discounted_charge base_charge currency kind =
     (if currency \<noteq> ChargeAmount_currency base_charge then Err InvalidChargeSnapshot
      else and_then
        (case kind of
           AmountOffCents amount \<Rightarrow>
             Ok (saturating_sub_i32 (ChargeAmount_cents base_charge) (PositiveDiscountCents_get amount))
         | PercentOffBps percent \<Rightarrow>
             (let amount = rust_quotient
                    (wrap_i64 (ChargeAmount_cents base_charge * uint (PercentOffBasisPoints_get percent)))
                    10000
              in map_sum id (saturating_sub_i32 (ChargeAmount_cents base_charge))
                   (ok_or (try_i32 amount) InvalidChargeSnapshot)))
        (\<lambda>discounted_cents. map_err (\<lambda>_. InvalidChargeSnapshot) (ChargeAmount_new discounted_cents currency)))"

definition normalize_label :: "rstring option \<Rightarrow> (rstring option, SubscriptionDiscountError) result" where
  "normalize_label label =
     Ok (case label of
           None \<Rightarrow> None
         | Some value \<Rightarrow>
             let trimmed = trim value in if trimmed \<noteq> [] then Some (take 120 trimmed) else None)"

section \<open>Codes and claims\<close>

datatype SubscriptionDiscountCodeStatus = Active | Disabled

primrec SubscriptionDiscountCodeStatus_as_str :: "SubscriptionDiscountCodeStatus \<Rightarrow> rstring" where
  "SubscriptionDiscountCodeStatus_as_str SubscriptionDiscountCodeStatus.Active = lit ''active''"
| "SubscriptionDiscountCodeStatus_as_str SubscriptionDiscountCodeStatus.Disabled = lit ''disabled''"

datatype SubscriptionDiscountClaimStatus = Saved | Applied | Superseded | Expired

primrec SubscriptionDiscountClaimStatus_as_str :: "SubscriptionDiscountClaimStatus \<Rightarrow> rstring" where
  "SubscriptionDiscountClaimStatus_as_str Saved = lit ''saved''"
| "SubscriptionDiscountClaimStatus_as_str Applied = lit ''applied''"
| "SubscriptionDiscountClaimStatus_as_str Superseded = lit ''superseded''"
| "SubscriptionDiscountClaimStatus_as_str Expired = lit ''expired''"

record SubscriptionDiscountCodeRecord =
  code_id :: DiscountCodeId
  code_billing_scope_id :: BillingScopeId
  code_plan_key :: PlanKey
  code_code :: SubscriptionDiscountCode
  code_display_code :: rstring
  code_label :: "rstring option"
  code_status :: SubscriptionDiscountCodeStatus
  code_kind :: SubscriptionDiscountKind
  code_currency :: CurrencyCode
  code_duration :: SubscriptionDiscountDuration
  code_created_at :: datetime
  code_updated_at :: datetime

text \<open>The source's constructor takes the fields one by one; here they come as the record built.\<close>

definition SubscriptionDiscountCodeRecord_new ::
    "SubscriptionDiscountCodeRecord \<Rightarrow> (SubscriptionDiscountCodeRecord, SubscriptionDiscountError) result" where
  "SubscriptionDiscountCodeRecord_new r =
     (if trim (code_display_code r) = [] \<or> code_updated_at r < code_created_at r \<or>
         (case code_label r of
            Some value \<Rightarrow> trim value \<noteq> value \<or> value = [] \<or> length value > 120
          | None \<Rightarrow> False)
      then Err InvalidState
      else Ok r)"

record SubscriptionDiscountCodeQuote =
  quote_code :: SubscriptionDiscountCodeRecord
  quote_base_charge :: ChargeAmount
  quote_discounted_charge :: ChargeAmount

definition SubscriptionDiscountCodeQuote_new ::
    "SubscriptionDiscountCodeRecord \<Rightarrow> SubscriptionOffer \<Rightarrow>
     (SubscriptionDiscountCodeQuote, SubscriptionDiscountError) result" where
  "SubscriptionDiscountCodeQuote_new code offer =
     (if code_plan_key code \<noteq> offer_plan_key offer then Err InvalidState
      else if (case code_duration code of LimitedMonths _ \<Rightarrow> True | Indefinite \<Rightarrow> False) \<and>
              \<not> is_one_calendar_month (recurring_period (offer_recurring offer))
      then Err LimitedDiscountCadence
      else let base_charge = recurring_charge (offer_recurring offer) in
        map_sum id (\<lambda>discounted. \<lparr>quote_code = code, quote_base_charge = base_charge,
                                  quote_discounted_charge = discounted\<rparr>)
          (discounted_charge base_charge (code_currency code) (code_kind code)))"

record SubscriptionDiscountCodeCreation =
  creation_id :: DiscountCodeId
  creation_billing_scope_id :: BillingScopeId
  creation_plan_key :: PlanKey
  creation_code :: SubscriptionDiscountCode
  creation_label :: "rstring option"
  creation_kind :: SubscriptionDiscountKind
  creation_currency :: CurrencyCode
  creation_duration :: SubscriptionDiscountDuration

definition SubscriptionDiscountCodeCreation_new ::
    "SubscriptionDiscountCodeCreation \<Rightarrow> (SubscriptionDiscountCodeCreation, SubscriptionDiscountError) result" where
  "SubscriptionDiscountCodeCreation_new r =
     and_then (normalize_label (creation_label r)) (\<lambda>label. Ok (r\<lparr>creation_label := label\<rparr>))"

record SubscriptionDiscountCodeUpdate =
  update_id :: DiscountCodeId
  update_billing_scope_id :: BillingScopeId
  update_plan_key :: PlanKey
  update_label :: "rstring option"
  update_status :: SubscriptionDiscountCodeStatus
  update_kind :: SubscriptionDiscountKind
  update_currency :: CurrencyCode
  update_duration :: SubscriptionDiscountDuration

definition SubscriptionDiscountCodeUpdate_new ::
    "SubscriptionDiscountCodeUpdate \<Rightarrow> (SubscriptionDiscountCodeUpdate, SubscriptionDiscountError) result" where
  "SubscriptionDiscountCodeUpdate_new r =
     and_then (normalize_label (update_label r)) (\<lambda>label. Ok (r\<lparr>update_label := label\<rparr>))"

record SubscriptionDiscountClaim =
  claim_id :: DiscountClaimId
  claim_billing_scope_id :: BillingScopeId
  claim_subscriber_id :: SubscriberId
  claim_plan_key :: PlanKey
  claim_code :: SubscriptionDiscountCode

record ClearSubscriptionDiscount =
  clear_billing_scope_id :: BillingScopeId
  clear_subscriber_id :: SubscriberId
  clear_plan_key :: PlanKey

record SubscriptionDiscountClaimRecord =
  claimed_id :: DiscountClaimId
  claimed_billing_scope_id :: BillingScopeId
  claimed_subscriber_id :: SubscriberId
  claimed_plan_key :: PlanKey
  claimed_discount_code_id :: DiscountCodeId
  claimed_snapshot :: SubscriptionDiscountSnapshot
  claimed_status :: SubscriptionDiscountClaimStatus
  claimed_claimed_at :: datetime
  claimed_applied_at :: "datetime option"
  claimed_applied_subscription_id :: "SubscriptionId option"
  claimed_applied_payment_attempt_id :: "PaymentAttemptId option"
  claimed_superseded_at :: "datetime option"

definition claim_valid_state :: "SubscriptionDiscountClaimRecord \<Rightarrow> bool" where
  "claim_valid_state r =
     (case claimed_status r of
        Applied \<Rightarrow>
          claimed_applied_at r \<noteq> None \<and> claimed_applied_subscription_id r \<noteq> None \<and>
          claimed_applied_payment_attempt_id r \<noteq> None \<and> claimed_superseded_at r = None
      | Superseded \<Rightarrow>
          claimed_applied_at r = None \<and> claimed_applied_subscription_id r = None \<and>
          claimed_applied_payment_attempt_id r = None \<and> claimed_superseded_at r \<noteq> None
      | _ \<Rightarrow>
          claimed_applied_at r = None \<and> claimed_applied_subscription_id r = None \<and>
          claimed_applied_payment_attempt_id r = None \<and> claimed_superseded_at r = None)"

definition SubscriptionDiscountClaimRecord_new ::
    "SubscriptionDiscountClaimRecord \<Rightarrow> (SubscriptionDiscountClaimRecord, SubscriptionDiscountError) result" where
  "SubscriptionDiscountClaimRecord_new r =
     (if \<not> claim_valid_state r then Err InvalidState else Ok r)"

datatype SubscriptionDiscountClaimOutcome =
    Saved SubscriptionDiscountClaimRecord
  | Existing SubscriptionDiscountClaimRecord
  | BlockedBySubscription
  | BlockedByInitialAttempt
  | NotFound

datatype SubscriptionDiscountClearOutcome =
    Cleared SubscriptionDiscountClaimRecord
  | NotFound
  | BlockedByInitialAttempt

section \<open>Properties\<close>

definition discount_kind_wf :: "SubscriptionDiscountKind \<Rightarrow> bool" where
  "discount_kind_wf k =
     (case k of
        AmountOffCents a \<Rightarrow> 0 < PositiveDiscountCents_get a \<and> is_i32 (PositiveDiscountCents_get a)
      | PercentOffBps p \<Rightarrow> 1 \<le> PercentOffBasisPoints_get p \<and> PercentOffBasisPoints_get p \<le> 9999)"

text \<open>The exact amount taken off, over the integers.\<close>

definition exact_discount :: "int \<Rightarrow> SubscriptionDiscountKind \<Rightarrow> int" where
  "exact_discount cents k =
     (case k of
        AmountOffCents a \<Rightarrow> PositiveDiscountCents_get a
      | PercentOffBps p \<Rightarrow> cents * uint (PercentOffBasisPoints_get p) div 10000)"

lemma uint_le_9999: "p \<le> (9999 :: u16) \<Longrightarrow> uint p \<le> 9999"
  by (simp add: word_le_def)

lemma saturating_sub_in_range:
  "0 \<le> a \<Longrightarrow> is_i32 a \<Longrightarrow> 0 \<le> b \<Longrightarrow> is_i32 b \<Longrightarrow> saturating_sub_i32 a b = a - b"
  by (auto simp: saturating_sub_i32_def is_i32_def)

lemma percent_product_bounds:
  assumes "0 < c" and "is_i32 c" and "0 \<le> p" and "p \<le> 9999"
  shows "is_i64 (c * p)" and "0 \<le> c * p" and "c * p div 10000 < c"
proof -
  show nonneg: "0 \<le> c * p" using assms by simp
  have "c * p \<le> c * 9999" using assms by (intro mult_left_mono) simp_all
  moreover have "c < 2 ^ 31" using assms by (simp add: is_i32_def)
  ultimately show "is_i64 (c * p)" using nonneg by (simp add: is_i64_def)
  have "c * p < c * 10000" using assms by (intro mult_strict_left_mono) simp_all
  then show "c * p div 10000 < c" by (simp add: int_div_less_self div_less_iff_less_mult)
qed

lemma discounted_charge_same_currency:
  assumes "ChargeAmount_wf base_amt" and "discount_kind_wf k" and "currency = ChargeAmount_currency base_amt"
  shows "discounted_charge base_amt currency k =
    (if exact_discount (ChargeAmount_cents base_amt) k < ChargeAmount_cents base_amt
     then Ok (ChargeAmount \<lparr>money_cents = ChargeAmount_cents base_amt - exact_discount (ChargeAmount_cents base_amt) k,
                            money_currency = currency\<rparr>)
     else Err InvalidChargeSnapshot)"
proof -
  let ?c = "ChargeAmount_cents base_amt"
  have c: "0 < ?c" "is_i32 ?c"
    using assms(1) by (simp_all add: ChargeAmount_wf_def Money_wf_def ChargeAmount_cents_def)
  show ?thesis
  proof (cases k)
    case (AmountOffCents a)
    then have "saturating_sub_i32 ?c (PositiveDiscountCents_get a) = ?c - PositiveDiscountCents_get a"
      using assms(2) c by (intro saturating_sub_in_range) (simp_all add: discount_kind_wf_def)
    then show ?thesis
      using assms(3) AmountOffCents
      by (simp add: discounted_charge_def exact_discount_def ChargeAmount_new_def)
  next
    case (PercentOffBps p)
    let ?p = "uint (PercentOffBasisPoints_get p)"
    have "?p \<le> 9999" using assms(2) PercentOffBps
      by (intro uint_le_9999) (simp add: discount_kind_wf_def)
    with c have b: "is_i64 (?c * ?p)" "0 \<le> ?c * ?p" "?c * ?p div 10000 < ?c"
      by (simp_all add: percent_product_bounds)
    have q: "0 \<le> ?c * ?p div 10000" using b(2) by (simp add: pos_imp_zdiv_nonneg_iff)
    have i32: "is_i32 (?c * ?p div 10000)" using q b(3) c unfolding is_i32_def by linarith
    have amt: "rust_quotient (wrap_i64 (?c * ?p)) 10000 = ?c * ?p div 10000"
      unfolding wrap_i64_id [OF b(1)] using b(2) by (intro rust_quotient_nonneg) simp_all
    have sub: "saturating_sub_i32 ?c (?c * ?p div 10000) = ?c - ?c * ?p div 10000"
      using c q i32 by (intro saturating_sub_in_range) simp_all
    have "exact_discount ?c k = ?c * ?p div 10000" using PercentOffBps by (simp only: exact_discount_def SubscriptionDiscountKind.case)
    moreover have "discounted_charge base_amt currency k =
        map_err (\<lambda>_. InvalidChargeSnapshot) (ChargeAmount_new (?c - ?c * ?p div 10000) currency)"
      using assms(3) i32 unfolding discounted_charge_def PercentOffBps SubscriptionDiscountKind.case Let_def amt try_i32_def
      by (simp add: sub)
    ultimately show ?thesis using b(3) by (simp add: ChargeAmount_new_def)
  qed
qed

text \<open>C29.  The charge a discount leaves, computed with saturating and 64-bit arithmetic, is the
  exact integer difference; it is refused exactly when nothing chargeable would remain or the
  currencies differ.  A charge that is returned stays positive and never exceeds the base
  charge.\<close>

theorem discounted_charge_exact:
  assumes "ChargeAmount_wf base_amt" and "discount_kind_wf k"
  shows "discounted_charge base_amt currency k =
    (if currency = ChargeAmount_currency base_amt \<and>
        exact_discount (ChargeAmount_cents base_amt) k < ChargeAmount_cents base_amt
     then Ok (ChargeAmount \<lparr>money_cents = ChargeAmount_cents base_amt - exact_discount (ChargeAmount_cents base_amt) k,
                            money_currency = currency\<rparr>)
     else Err InvalidChargeSnapshot) \<and>
    (\<forall>d. discounted_charge base_amt currency k = Ok d \<longrightarrow>
       0 < ChargeAmount_cents d \<and> ChargeAmount_cents d \<le> ChargeAmount_cents base_amt)"
proof -
  let ?c = "ChargeAmount_cents base_amt"
  have "0 < ?c" using assms(1) by (simp add: ChargeAmount_wf_def ChargeAmount_cents_def)
  then have nonneg: "0 \<le> exact_discount ?c k"
    using assms(2) by (cases k) (simp_all add: exact_discount_def discount_kind_wf_def pos_imp_zdiv_nonneg_iff)
  show ?thesis
  proof (cases "currency = ChargeAmount_currency base_amt")
    case True
    then show ?thesis using nonneg by (auto simp: discounted_charge_same_currency [OF assms])
  qed (simp add: discounted_charge_def)
qed

theorem discounted_charge_exact_witness:
  "discounted_charge (ChargeAmount \<lparr>money_cents = 1999, money_currency = CurrencyCode [85, 83, 68]\<rparr>)
     (CurrencyCode [85, 83, 68]) (PercentOffBps (PercentOffBasisPoints 2500)) =
   Ok (ChargeAmount \<lparr>money_cents = 1500, money_currency = CurrencyCode [85, 83, 68]\<rparr>)"
  using discounted_charge_exact [of "ChargeAmount \<lparr>money_cents = 1999, money_currency = CurrencyCode [85, 83, 68]\<rparr>"
      "PercentOffBps (PercentOffBasisPoints 2500)" "CurrencyCode [85, 83, 68]"]
  by (simp add: ChargeAmount_wf_def Money_wf_def is_i32_def is_ascii_uppercase_def discount_kind_wf_def
      exact_discount_def word_le_nat_alt)

lemma is_discount_code_byte_ascii: "is_discount_code_byte b \<Longrightarrow> b < 128"
  by (auto simp: is_discount_code_byte_def ascii_class_defs)

lemma discount_code_bytes [simp]:
  "list_all is_discount_code_byte (utf8_bytes s) \<longleftrightarrow> list_all is_discount_code_byte s"
  by (rule utf8_all_ascii_iff) (rule is_discount_code_byte_ascii)

lemma SubscriptionDiscountCode_new_Ok_iff [result_simps]:
  "SubscriptionDiscountCode_new v = Ok c \<longleftrightarrow>
     c = SubscriptionDiscountCode (to_ascii_uppercase (trim v)) \<and>
     5 \<le> length (trim v) \<and> length (trim v) \<le> 64 \<and>
     list_all is_discount_code_byte (to_ascii_uppercase (trim v))"
proof (cases "list_all is_discount_code_byte (to_ascii_uppercase (trim v))")
  case True
  then have "byte_len (to_ascii_uppercase (trim v)) = length (trim v)"
    by (subst byte_len_ascii) (auto simp: list_all_iff is_discount_code_byte_ascii to_ascii_uppercase_def)
  with True show ?thesis by (auto simp: SubscriptionDiscountCode_new_def Let_def)
qed (auto simp: SubscriptionDiscountCode_new_def Let_def)

lemma to_ascii_uppercase_idem [simp]: "to_ascii_uppercase (to_ascii_uppercase s) = to_ascii_uppercase s"
  by (simp add: to_ascii_uppercase_def)

lemma discount_code_trimmed: "list_all is_discount_code_byte s \<Longrightarrow> trim s = s"
  by (rule trim_id_of_no_whitespace)
     (auto simp: list_all_iff is_discount_code_byte_def ascii_class_defs is_whitespace_def)

text \<open>Discount codes are compared by their normal form: two texts give the same code exactly
  when they agree after trimming and upper-casing, and the text a code exposes is accepted
  again as the same code, so a stored code reads back.\<close>

lemma discount_code_normal_form:
  assumes "SubscriptionDiscountCode_new v = Ok c"
  shows "SubscriptionDiscountCode_new (SubscriptionDiscountCode_as_str c) = Ok c \<and>
    (SubscriptionDiscountCode_new w = Ok c \<longleftrightarrow> eq_ignore_ascii_case (trim v) (trim w))"
proof -
  have up: "map ascii_upper s = map ascii_upper t \<longleftrightarrow> map ascii_lower s = map ascii_lower t"
    for s t :: rstring
  proof -
    have "ascii_upper x = ascii_upper y \<longleftrightarrow> ascii_lower x = ascii_lower y" for x y
      by (auto simp: ascii_upper_def ascii_lower_def ascii_class_defs)
    then show ?thesis by (auto simp: list_eq_iff_nth_eq)
  qed
  from assms have "trim (to_ascii_uppercase (trim v)) = to_ascii_uppercase (trim v)"
    and len: "length (to_ascii_uppercase s) = length s" for s
    by (auto simp: result_simps discount_code_trimmed to_ascii_uppercase_def)
  moreover have "length (trim w) = length (trim v)" if "to_ascii_uppercase (trim w) = to_ascii_uppercase (trim v)"
    using arg_cong [OF that, of length] by (simp add: len)
  moreover have "eq_ignore_ascii_case (trim v) (trim w) \<longleftrightarrow>
      to_ascii_uppercase (trim w) = to_ascii_uppercase (trim v)"
    unfolding eq_ignore_ascii_case_def to_ascii_lowercase_def to_ascii_uppercase_def up by (rule eq_commute)
  ultimately show ?thesis
    using assms by (auto simp: result_simps len)
qed

lemma discount_code_normal_form_witness:
  "SubscriptionDiscountCode_new (lit '' SAVE-20 '') = Ok (SubscriptionDiscountCode (lit ''SAVE-20''))"
proof -
  have t: "trim (lit ''save-20'') = lit ''save-20''" "trim (lit '' SAVE-20 '') = lit ''SAVE-20''"
    by (simp_all add: lit_eval trim_def trim_matches_def is_whitespace_def)
  have u: "to_ascii_uppercase (lit ''save-20'') = lit ''SAVE-20''"
    by (simp add: lit_eval to_ascii_uppercase_def ascii_upper_def ascii_class_defs)
  have "SubscriptionDiscountCode_new (lit ''save-20'') = Ok (SubscriptionDiscountCode (lit ''SAVE-20''))"
    by (simp add: result_simps t u) (simp add: lit_eval is_discount_code_byte_def ascii_class_defs)
  from discount_code_normal_form [OF this, of "lit '' SAVE-20 ''"] show ?thesis
    by (simp add: t) (simp add: eq_ignore_ascii_case_def to_ascii_lowercase_def ascii_lower_def
        lit_eval ascii_class_defs)
qed

lemma quote_charges:
  "SubscriptionDiscountCodeQuote_new code offer = Ok q \<Longrightarrow>
     code_plan_key code = offer_plan_key offer \<and> quote_code q = code \<and>
     quote_base_charge q = recurring_charge (offer_recurring offer) \<and>
     discounted_charge (quote_base_charge q) (code_currency code) (code_kind code) =
       Ok (quote_discounted_charge q)"
  by (auto simp: SubscriptionDiscountCodeQuote_new_def Let_def split: if_splits)

lemma discounted_charge_currency:
  "discounted_charge b k d = Ok c \<Longrightarrow> ChargeAmount_currency c = k \<and> k = ChargeAmount_currency b"
  by (auto simp: discounted_charge_def and_then_Inr_iff result_simps split: if_splits)

lemma discounted_charge_le:
  assumes "ChargeAmount_wf b" and "discount_kind_wf k" and "discounted_charge b cur k = Ok d"
  shows "ChargeAmount_cents d \<le> ChargeAmount_cents b"
proof (cases k)
  case (AmountOffCents a)
  with assms show ?thesis
    by (auto simp: discounted_charge_def and_then_Inr_iff result_simps saturating_sub_i32_def
        discount_kind_wf_def ChargeAmount_wf_def Money_wf_def is_i32_def ChargeAmount_cents_def
        split: if_splits)
next
  case (PercentOffBps p)
  let ?c = "ChargeAmount_cents b" and ?p = "uint (PercentOffBasisPoints_get p)"
  have c: "0 < ?c" "is_i32 ?c"
    using assms(1) by (simp_all add: ChargeAmount_wf_def Money_wf_def ChargeAmount_cents_def)
  have "?p \<le> 9999" using assms(2) PercentOffBps
    by (intro uint_le_9999) (simp add: discount_kind_wf_def)
  then have pb: "is_i64 (?c * ?p)" "0 \<le> ?c * ?p"
    using c by (simp_all add: percent_product_bounds)
  then have "0 \<le> rust_quotient (wrap_i64 (?c * ?p)) 10000"
    by (simp add: wrap_i64_id rust_quotient_nonneg pos_imp_zdiv_nonneg_iff)
  with assms(3) PercentOffBps c show ?thesis
    by (auto simp: discounted_charge_def and_then_Inr_iff result_simps Let_def try_i32_def
        saturating_sub_i32_def is_i32_def split: if_splits)
qed

text \<open>A quote can always be saved: from the charges of any quote of a code against an offer,
  the snapshot constructor builds a snapshot, whose base is the offer's recurring charge.  The
  cadence rule holds of it: a discount limited to months is only quoted for an offer billed
  every single calendar month.\<close>

lemma quote_has_snapshot:
  assumes "SubscriptionDiscountCodeQuote_new code offer = Ok q"
    and "ChargeAmount_wf (recurring_charge (offer_recurring offer))" and "discount_kind_wf (code_kind code)"
  shows "\<exists>snap. SubscriptionDiscountSnapshot_new (code_code code) (code_label code) (code_kind code)
      (code_duration code) (quote_base_charge q) (quote_discounted_charge q) = Ok snap \<and>
    snapshot_base_charge snap = recurring_charge (offer_recurring offer) \<and>
    (code_duration code = Indefinite \<or> is_one_calendar_month (recurring_period (offer_recurring offer)))"
proof -
  note q = quote_charges [OF assms(1)]
  then have d: "discounted_charge (recurring_charge (offer_recurring offer)) (code_currency code) (code_kind code)
      = Ok (quote_discounted_charge q)" by auto
  have "code_duration code = Indefinite \<or> is_one_calendar_month (recurring_period (offer_recurring offer))"
    using assms(1) by (cases "code_duration code")
      (auto simp: SubscriptionDiscountCodeQuote_new_def split: if_splits)
  then show ?thesis
    using q discounted_charge_currency [OF d] discounted_charge_le [OF assms(2,3) d]
    by (simp add: SubscriptionDiscountSnapshot_new_def)
qed

lemma quote_has_snapshot_witness:
  "\<exists>snap. SubscriptionDiscountSnapshot_new (SubscriptionDiscountCode (lit ''SAVE-20'')) None
     (AmountOffCents (PositiveDiscountCents 500)) Indefinite
     (ChargeAmount \<lparr>money_cents = 1999, money_currency = CurrencyCode [85, 83, 68]\<rparr>)
     (ChargeAmount \<lparr>money_cents = 1499, money_currency = CurrencyCode [85, 83, 68]\<rparr>) = Ok snap"
proof -
  let ?usd = "CurrencyCode [85, 83, 68]"
  let ?code = "\<lparr>code_id = DiscountCodeId 1, code_billing_scope_id = BillingScopeId 2,
      code_plan_key = PlanKey (BoundedSlug (lit ''base'')), code_code = SubscriptionDiscountCode (lit ''SAVE-20''),
      code_display_code = lit ''SAVE-20'', code_label = None, code_status = SubscriptionDiscountCodeStatus.Active,
      code_kind = AmountOffCents (PositiveDiscountCents 500), code_currency = ?usd,
      code_duration = Indefinite, code_created_at = 0, code_updated_at = 0\<rparr>"
  let ?offer = "\<lparr>offer_plan_key = PlanKey (BoundedSlug (lit ''base'')),
      offer_recurring = \<lparr>recurring_charge = ChargeAmount \<lparr>money_cents = 1999, money_currency = ?usd\<rparr>,
        recurring_period = CalendarMonths 1\<rparr>,
      offer_start = RecurringImmediately,
      offer_renewal_failure = \<lparr>policy_schedule = DunningSchedule [], policy_exhaustion = MarkUnpaid,
        policy_past_due_access = SuspendImmediately\<rparr>\<rparr>"
  let ?q = "\<lparr>quote_code = ?code,
      quote_base_charge = ChargeAmount \<lparr>money_cents = 1999, money_currency = ?usd\<rparr>,
      quote_discounted_charge = ChargeAmount \<lparr>money_cents = 1499, money_currency = ?usd\<rparr>\<rparr>"
  have "SubscriptionDiscountCodeQuote_new ?code ?offer = Ok ?q"
    by (simp add: SubscriptionDiscountCodeQuote_new_def discounted_charge_def saturating_sub_i32_def
        ChargeAmount_new_def)
  from quote_has_snapshot [OF this] show ?thesis
    by (auto simp: ChargeAmount_wf_def Money_wf_def is_i32_def is_ascii_uppercase_def discount_kind_wf_def)
qed

section \<open>Labels\<close>

text \<open>A label short enough to be kept whole is one the code record accepts.\<close>

lemma normalize_label_short:
  assumes "normalize_label l = Ok (Some v)" and "\<And>s. l = Some s \<Longrightarrow> length (trim s) \<le> 120"
  shows "trim v = v \<and> v \<noteq> [] \<and> length v \<le> 120"
  using assms by (cases l) (auto simp: normalize_label_def Let_def split: if_splits)

text \<open>
  A label cut at 120 characters can end in a space; the record built from the stored code then
  fails with \<open>InvalidState\<close>.
\<close>

lemma cut_label_rejected:
  assumes "label = replicate 119 120 @ [32, 121]" and "normalize_label (Some label) = Ok (code_label r)"
  shows "SubscriptionDiscountCodeRecord_new r = Err InvalidState"
proof -
  let ?cut = "replicate 119 120 @ [32] :: rstring"
  have "trim label = label"
    unfolding trim_def assms(1)
    by (rule trim_matches_idle) (simp_all add: is_whitespace_def hd_append)
  then have n: "normalize_label (Some label) = Ok (Some ?cut)"
    by (simp add: normalize_label_def assms(1))
  have "trim ?cut \<noteq> ?cut"
  proof
    assume "trim ?cut = ?cut"
    with trim_matches_edges(2) [of is_whitespace ?cut] have "\<not> is_whitespace (last ?cut)"
      by (simp only: trim_def) simp
    then show False by (simp add: is_whitespace_def)
  qed
  moreover from assms(2) n have "code_label r = Some ?cut" by simp
  ultimately show ?thesis by (simp add: SubscriptionDiscountCodeRecord_new_def)
qed

end
