(* ===== verification/Enrollment_Terms.thy ===== *)
theory Enrollment_Terms
  imports Discount
begin

text \<open>
  The terms a subscriber accepts: the first part of \<open>crates/syrup-rail/src/enrollment.rs\<close>.  Accepted
  terms project to the first charge, the first period and the charge after it; the offer that is
  stored with an attempt gives the same projection when the attempt is replayed.
\<close>

record SubscriptionEnrollmentDiscountSnapshot =
  enrolled_claim_id :: DiscountClaimId
  enrolled_code_id :: DiscountCodeId
  enrolled_snapshot :: SubscriptionDiscountSnapshot

datatype SubscriptionEnrollmentTermsError = CurrencyMismatch | LimitedDiscountCadence

record SubscriptionEnrollmentExpectedTerms =
  expected_offer :: SubscriptionOffer
  expected_discount_snapshot :: "SubscriptionDiscountSnapshot option"

record SubscriptionActivationProjection =
  activation_phase :: SubscriptionPhase
  activation_initial_charge :: ChargeAmount
  activation_initial_period_rule :: SubscriptionPeriodRule
  activation_recurring_charge_after_initial :: ChargeAmount
  activation_discount_periods_applied :: u8

definition from_expected_terms :: "SubscriptionEnrollmentExpectedTerms \<Rightarrow> SubscriptionActivationProjection" where
  "from_expected_terms expected =
     (let offer = expected_offer expected;
          discount_snapshot = expected_discount_snapshot expected;
          start = offer_start offer;
          (phase, initial_charge, initial_period_rule) =
            (case start of
               RecurringImmediately \<Rightarrow>
                 (SubscriptionPhase.Recurring,
                  (case discount_snapshot of
                     Some snapshot \<Rightarrow> snapshot_discounted_charge snapshot
                   | None \<Rightarrow> recurring_charge (offer_recurring offer)),
                  recurring_period (offer_recurring offer))
             | SubscriptionStart.PaidTrial trial \<Rightarrow>
                 (SubscriptionPhase.PaidTrial, trial_charge trial, trial_period trial));
          discount_periods_applied =
            (case (start, discount_snapshot) of
               (RecurringImmediately, Some _) \<Rightarrow> 1
             | _ \<Rightarrow> 0);
          recurring_charge_after_initial =
            (case discount_snapshot of
               None \<Rightarrow> recurring_charge (offer_recurring offer)
             | Some snapshot \<Rightarrow>
                 (case snapshot_duration snapshot of
                    Indefinite \<Rightarrow> snapshot_discounted_charge snapshot
                  | LimitedMonths months \<Rightarrow>
                      if LimitedDiscountMonths_get months \<le> discount_periods_applied
                      then snapshot_base_charge snapshot
                      else snapshot_discounted_charge snapshot))
      in \<lparr>activation_phase = phase, activation_initial_charge = initial_charge,
          activation_initial_period_rule = initial_period_rule,
          activation_recurring_charge_after_initial = recurring_charge_after_initial,
          activation_discount_periods_applied = discount_periods_applied\<rparr>)"

definition full_price :: "SubscriptionOffer \<Rightarrow> SubscriptionEnrollmentExpectedTerms" where
  "full_price offer = \<lparr>expected_offer = offer, expected_discount_snapshot = None\<rparr>"

definition discounted ::
    "SubscriptionOffer \<Rightarrow> SubscriptionDiscountSnapshot \<Rightarrow>
     (SubscriptionEnrollmentExpectedTerms, SubscriptionEnrollmentTermsError) result" where
  "discounted offer snapshot =
     (if SubscriptionOffer_currency offer \<noteq> snapshot_currency snapshot
      then Err SubscriptionEnrollmentTermsError.CurrencyMismatch
      else if (case snapshot_duration snapshot of LimitedMonths _ \<Rightarrow> True | Indefinite \<Rightarrow> False) \<and>
              \<not> is_one_calendar_month (recurring_period (offer_recurring offer))
      then Err SubscriptionEnrollmentTermsError.LimitedDiscountCadence
      else Ok \<lparr>expected_offer = offer, expected_discount_snapshot = Some snapshot\<rparr>)"

definition expected_plan_key :: "SubscriptionEnrollmentExpectedTerms \<Rightarrow> PlanKey" where
  "expected_plan_key self = offer_plan_key (expected_offer self)"

definition activation_projection :: "SubscriptionEnrollmentExpectedTerms \<Rightarrow> SubscriptionActivationProjection" where
  "activation_projection self = from_expected_terms self"

definition expected_initial_charge :: "SubscriptionEnrollmentExpectedTerms \<Rightarrow> ChargeAmount" where
  "expected_initial_charge self = activation_initial_charge (activation_projection self)"

text \<open>The offer stored with an attempt; \<open>None\<close> is the panic of \<open>expect\<close>.\<close>

definition durable_offer :: "SubscriptionEnrollmentExpectedTerms \<Rightarrow> SubscriptionOffer option" where
  "durable_offer self =
     (let offer = expected_offer self;
          recurring_charge =
            (case expected_discount_snapshot self of
               None \<Rightarrow> recurring_charge (offer_recurring offer)
             | Some snapshot \<Rightarrow> snapshot_base_charge snapshot)
      in case SubscriptionOffer_new (offer_plan_key offer)
                \<lparr>recurring_charge = recurring_charge,
                 recurring_period = recurring_period (offer_recurring offer)\<rparr>
                (offer_start offer) (offer_renewal_failure offer) of
           Inl _ \<Rightarrow> None
         | Inr offer \<Rightarrow> Some offer)"

definition matches_locked_terms ::
    "SubscriptionEnrollmentExpectedTerms \<Rightarrow> SubscriptionOffer \<Rightarrow> SubscriptionDiscountSnapshot option \<Rightarrow> bool" where
  "matches_locked_terms self current_offer saved_discount =
     (case (expected_discount_snapshot self, saved_discount) of
        (None, None) \<Rightarrow> expected_offer self = current_offer
      | (Some expected_snapshot, Some locked_snapshot) \<Rightarrow>
          has_same_terms_except_recurring_amount (expected_offer self) current_offer \<and>
          SubscriptionOffer_currency current_offer = snapshot_currency expected_snapshot \<and>
          has_same_charge_terms expected_snapshot locked_snapshot
      | _ \<Rightarrow> False)"

section \<open>Accepted terms\<close>

text \<open>The terms the constructors build.\<close>

definition expected_terms_wf :: "SubscriptionEnrollmentExpectedTerms \<Rightarrow> bool" where
  "expected_terms_wf t \<longleftrightarrow>
     SubscriptionOffer_wf (expected_offer t) \<and>
     (case expected_discount_snapshot t of
        None \<Rightarrow> t = full_price (expected_offer t)
      | Some snapshot \<Rightarrow> discounted (expected_offer t) snapshot = Ok t)"

lemma expected_terms_wf_full_price: "SubscriptionOffer_wf o1 \<Longrightarrow> expected_terms_wf (full_price o1)"
  by (simp add: expected_terms_wf_def full_price_def)

lemma discounted_Ok_iff [result_simps]:
  "discounted offer snapshot = Ok t \<longleftrightarrow>
     t = \<lparr>expected_offer = offer, expected_discount_snapshot = Some snapshot\<rparr> \<and>
     SubscriptionOffer_currency offer = snapshot_currency snapshot \<and>
     (snapshot_duration snapshot = Indefinite \<or> is_one_calendar_month (recurring_period (offer_recurring offer)))"
  by (cases "snapshot_duration snapshot") (auto simp: discounted_def)

lemma expected_terms_wf_discounted:
  "SubscriptionOffer_wf o1 \<Longrightarrow> discounted o1 snapshot = Ok t \<Longrightarrow> expected_terms_wf t"
  by (auto simp: expected_terms_wf_def result_simps)

lemma durable_offer_Some:
  assumes "expected_terms_wf t"
  shows "durable_offer t = Some ((expected_offer t)\<lparr>offer_recurring :=
    (offer_recurring (expected_offer t))\<lparr>recurring_charge :=
       (case expected_discount_snapshot t of
          None \<Rightarrow> recurring_charge (offer_recurring (expected_offer t))
        | Some snapshot \<Rightarrow> snapshot_base_charge snapshot)\<rparr>\<rparr>)"
proof -
  obtain k r st f where o1: "expected_offer t =
      \<lparr>offer_plan_key = k, offer_recurring = r, offer_start = st, offer_renewal_failure = f\<rparr>"
    by (cases "expected_offer t")
  show ?thesis
    using assms o1
    by (cases r; cases st; cases "expected_discount_snapshot t")
       (auto simp: durable_offer_def Let_def SubscriptionOffer_new_def expected_terms_wf_def
         SubscriptionOffer_wf_def SubscriptionOffer_currency_def discounted_Ok_iff snapshot_currency_def)
qed

text \<open>Replay charges what was accepted.  For accepted terms the stored offer always exists (the
  \<open>expect\<close> never fires), accepted terms can be rebuilt from it and the saved discount, and the
  rebuilt terms project to the same phase, first charge, first period, following charge and
  discount periods as the terms the subscriber accepted.\<close>

lemma durable_offer_replays_projection:
  assumes "expected_terms_wf t"
  shows "\<exists>stored t'. durable_offer t = Some stored \<and> SubscriptionOffer_wf stored \<and>
    (case expected_discount_snapshot t of
       None \<Rightarrow> t' = full_price stored
     | Some snapshot \<Rightarrow> discounted stored snapshot = Ok t') \<and>
    expected_plan_key t' = expected_plan_key t \<and>
    activation_projection t' = activation_projection t"
proof -
  obtain stored where s: "durable_offer t = Some stored"
    and rest: "offer_plan_key stored = offer_plan_key (expected_offer t)"
      "offer_start stored = offer_start (expected_offer t)"
      "recurring_period (offer_recurring stored) = recurring_period (offer_recurring (expected_offer t))"
      "recurring_charge (offer_recurring stored) =
        (case expected_discount_snapshot t of
           None \<Rightarrow> recurring_charge (offer_recurring (expected_offer t))
         | Some snapshot \<Rightarrow> snapshot_base_charge snapshot)"
    using durable_offer_Some [OF assms] by simp
  let ?t' = "\<lparr>expected_offer = stored, expected_discount_snapshot = expected_discount_snapshot t\<rparr>"
  have cur: "SubscriptionOffer_currency stored = SubscriptionOffer_currency (expected_offer t)"
    using assms rest(4)
    by (auto simp: expected_terms_wf_def SubscriptionOffer_currency_def discounted_Ok_iff snapshot_currency_def
        split: option.splits)
  have "SubscriptionOffer_wf stored"
    using assms rest(2) cur by (simp add: expected_terms_wf_def SubscriptionOffer_wf_def)
  moreover have "case expected_discount_snapshot t of
      None \<Rightarrow> ?t' = full_price stored | Some snapshot \<Rightarrow> discounted stored snapshot = Ok ?t'"
    using assms rest(3) cur
    by (auto simp: expected_terms_wf_def full_price_def discounted_Ok_iff split: option.splits)
  moreover have "expected_plan_key ?t' = expected_plan_key t"
    using rest(1) by (simp add: expected_plan_key_def)
  moreover have "activation_projection ?t' = activation_projection t"
    using rest
    by (auto simp: activation_projection_def from_expected_terms_def Let_def
        split: SubscriptionStart.splits option.splits SubscriptionDiscountDuration.splits)
  ultimately show ?thesis using s by blast
qed

definition sample_charge :: "int \<Rightarrow> ChargeAmount" where
  "sample_charge cents = ChargeAmount \<lparr>money_cents = cents, money_currency = CurrencyCode [85, 83, 68]\<rparr>"

definition sample_offer :: SubscriptionOffer where
  "sample_offer =
     \<lparr>offer_plan_key = PlanKey (BoundedSlug (lit ''base'')),
      offer_recurring = \<lparr>recurring_charge = sample_charge 2000, recurring_period = CalendarMonths 1\<rparr>,
      offer_start = RecurringImmediately,
      offer_renewal_failure =
        \<lparr>policy_schedule = DunningSchedule [\<lparr>delay_seconds = 86400\<rparr>, \<lparr>delay_seconds = 259200\<rparr>],
         policy_exhaustion = MarkUnpaid, policy_past_due_access = ContinueUntilDunningExhausted\<rparr>\<rparr>"

definition sample_snapshot :: SubscriptionDiscountSnapshot where
  "sample_snapshot =
     \<lparr>snapshot_code = SubscriptionDiscountCode (lit ''SAVE-20''), snapshot_label = None,
      snapshot_kind = AmountOffCents (PositiveDiscountCents 500),
      snapshot_duration = LimitedMonths (LimitedDiscountMonths 1),
      snapshot_base_charge = sample_charge 1900, snapshot_discounted_charge = sample_charge 1400\<rparr>"

lemma durable_offer_replays_projection_witness:
  "\<exists>stored t'. durable_offer \<lparr>expected_offer = sample_offer, expected_discount_snapshot = Some sample_snapshot\<rparr> =
       Some stored \<and>
     activation_initial_charge (activation_projection t') = sample_charge 1400 \<and>
     activation_recurring_charge_after_initial (activation_projection t') = sample_charge 1900"
proof -
  let ?t = "\<lparr>expected_offer = sample_offer, expected_discount_snapshot = Some sample_snapshot\<rparr>"
  have "expected_terms_wf ?t"
    by (simp add: expected_terms_wf_def sample_offer_def sample_snapshot_def SubscriptionOffer_wf_def
        discounted_Ok_iff SubscriptionOffer_currency_def snapshot_currency_def sample_charge_def)
  then obtain stored t' where "durable_offer ?t = Some stored" "activation_projection t' = activation_projection ?t"
    using durable_offer_replays_projection by blast
  moreover have "activation_initial_charge (activation_projection ?t) = sample_charge 1400"
    "activation_recurring_charge_after_initial (activation_projection ?t) = sample_charge 1900"
    by (simp_all add: activation_projection_def from_expected_terms_def sample_offer_def sample_snapshot_def Let_def)
  ultimately show ?thesis by metis
qed

end
