(* ===== verification/Resolution.thy ===== *)
theory Resolution
  imports Identity
begin

text \<open>
  The durable reasons of payment resolutions: \<open>crates/syrup-rail/src/resolution.rs\<close>.  The three
  retry lists drive the pacing of renewals.
\<close>

datatype PaymentResolutionCode =
    SubscriptionInitialCurrentSubscriptionConflict
  | SubscriptionInitialCurrentGrantConflict
  | SubscriptionInitialExternallyRefunded
  | SubscriptionInitialExternallyVoided
  | ProcessorChargeExternallyRefunded
  | ProcessorChargeExternallyVoided
  | SubscriptionInitialPreparedAttemptExpired
  | SubscriptionRenewalRetryStateChangedBeforeCharge
  | GatewayLiveReadinessFailedBeforeSubmission
  | GatewayTestReadinessFailedBeforeSubmission
  | GatewayMalformedBeforeSubmission
  | GatewayRequestRejectedBeforeSubmission
  | GatewayConfigurationBeforeSubmission
  | GatewayUnavailableBeforeSubmission
  | GatewayProviderRateLimitedBeforeSubmission
  | GatewayAccountRateLimitedBeforeSubmission
  | GatewayAccountMutationCooldownBeforeSubmission
  | HostChargeApprovedStaleState
  | SubscriptionApprovedRenewalStaleState
  | SubscriptionApprovedRecoveryStaleState
  | SubscriptionApprovedRecoveryInactiveReplacementMethod
  | SubscriptionApprovedPaymentMethodUpdateSubscriptionIneligible
  | SubscriptionApprovedPaymentMethodUpdateStaleState
  | SubscriptionApprovedPaymentMethodUpdateInactiveReplacementMethod
  | SubscriptionPeriodExpiredBeforeCharge
  | SubscriptionApprovedPeriodExpired

definition PaymentResolutionCode_ALL :: "PaymentResolutionCode list" where
  "PaymentResolutionCode_ALL =
     [SubscriptionInitialCurrentSubscriptionConflict,
      SubscriptionInitialCurrentGrantConflict,
      SubscriptionInitialExternallyRefunded,
      SubscriptionInitialExternallyVoided,
      ProcessorChargeExternallyRefunded,
      ProcessorChargeExternallyVoided,
      SubscriptionInitialPreparedAttemptExpired,
      SubscriptionRenewalRetryStateChangedBeforeCharge,
      GatewayLiveReadinessFailedBeforeSubmission,
      GatewayTestReadinessFailedBeforeSubmission,
      GatewayMalformedBeforeSubmission,
      GatewayRequestRejectedBeforeSubmission,
      GatewayConfigurationBeforeSubmission,
      GatewayUnavailableBeforeSubmission,
      GatewayProviderRateLimitedBeforeSubmission,
      GatewayAccountRateLimitedBeforeSubmission,
      GatewayAccountMutationCooldownBeforeSubmission,
      HostChargeApprovedStaleState,
      SubscriptionApprovedRenewalStaleState,
      SubscriptionApprovedRecoveryStaleState,
      SubscriptionApprovedRecoveryInactiveReplacementMethod,
      SubscriptionApprovedPaymentMethodUpdateSubscriptionIneligible,
      SubscriptionApprovedPaymentMethodUpdateStaleState,
      SubscriptionApprovedPaymentMethodUpdateInactiveReplacementMethod,
      SubscriptionPeriodExpiredBeforeCharge,
      SubscriptionApprovedPeriodExpired]"

definition RENEWAL_INFRASTRUCTURE_RETRY_CODES :: "PaymentResolutionCode list" where
  "RENEWAL_INFRASTRUCTURE_RETRY_CODES =
     [GatewayLiveReadinessFailedBeforeSubmission,
      GatewayTestReadinessFailedBeforeSubmission,
      GatewayMalformedBeforeSubmission,
      GatewayRequestRejectedBeforeSubmission,
      GatewayConfigurationBeforeSubmission,
      GatewayUnavailableBeforeSubmission,
      GatewayProviderRateLimitedBeforeSubmission,
      GatewayAccountRateLimitedBeforeSubmission,
      GatewayAccountMutationCooldownBeforeSubmission]"

definition RENEWAL_INFRASTRUCTURE_PACING_CODES :: "PaymentResolutionCode list" where
  "RENEWAL_INFRASTRUCTURE_PACING_CODES =
     [GatewayLiveReadinessFailedBeforeSubmission,
      GatewayTestReadinessFailedBeforeSubmission,
      GatewayMalformedBeforeSubmission,
      GatewayRequestRejectedBeforeSubmission,
      GatewayConfigurationBeforeSubmission,
      GatewayUnavailableBeforeSubmission]"

definition RENEWAL_RATE_LIMIT_PACING_CODES :: "PaymentResolutionCode list" where
  "RENEWAL_RATE_LIMIT_PACING_CODES =
     [GatewayProviderRateLimitedBeforeSubmission,
      GatewayAccountRateLimitedBeforeSubmission]"

primrec PaymentResolutionCode_as_str :: "PaymentResolutionCode \<Rightarrow> rstring" where
  "PaymentResolutionCode_as_str SubscriptionInitialCurrentSubscriptionConflict =
     lit ''subscription_initial_current_subscription_conflict''"
| "PaymentResolutionCode_as_str SubscriptionInitialCurrentGrantConflict =
     lit ''subscription_initial_current_grant_conflict''"
| "PaymentResolutionCode_as_str SubscriptionInitialExternallyRefunded =
     lit ''subscription_initial_externally_refunded''"
| "PaymentResolutionCode_as_str SubscriptionInitialExternallyVoided =
     lit ''subscription_initial_externally_voided''"
| "PaymentResolutionCode_as_str ProcessorChargeExternallyRefunded =
     lit ''processor_charge_externally_refunded''"
| "PaymentResolutionCode_as_str ProcessorChargeExternallyVoided =
     lit ''processor_charge_externally_voided''"
| "PaymentResolutionCode_as_str SubscriptionInitialPreparedAttemptExpired =
     lit ''subscription_initial_prepared_attempt_expired''"
| "PaymentResolutionCode_as_str SubscriptionRenewalRetryStateChangedBeforeCharge =
     lit ''subscription_renewal_retry_state_changed_before_charge''"
| "PaymentResolutionCode_as_str GatewayLiveReadinessFailedBeforeSubmission =
     lit ''gateway_live_readiness_failed_before_submission''"
| "PaymentResolutionCode_as_str GatewayTestReadinessFailedBeforeSubmission =
     lit ''gateway_test_readiness_failed_before_submission''"
| "PaymentResolutionCode_as_str GatewayMalformedBeforeSubmission =
     lit ''gateway_malformed_before_submission''"
| "PaymentResolutionCode_as_str GatewayRequestRejectedBeforeSubmission =
     lit ''gateway_request_rejected_before_submission''"
| "PaymentResolutionCode_as_str GatewayConfigurationBeforeSubmission =
     lit ''gateway_configuration_before_submission''"
| "PaymentResolutionCode_as_str GatewayUnavailableBeforeSubmission =
     lit ''gateway_unavailable_before_submission''"
| "PaymentResolutionCode_as_str GatewayProviderRateLimitedBeforeSubmission =
     lit ''gateway_provider_rate_limited_before_submission''"
| "PaymentResolutionCode_as_str GatewayAccountRateLimitedBeforeSubmission =
     lit ''gateway_account_rate_limited_before_submission''"
| "PaymentResolutionCode_as_str GatewayAccountMutationCooldownBeforeSubmission =
     lit ''gateway_account_mutation_cooldown_before_submission''"
| "PaymentResolutionCode_as_str HostChargeApprovedStaleState =
     lit ''host_charge_approved_stale_state''"
| "PaymentResolutionCode_as_str SubscriptionApprovedRenewalStaleState =
     lit ''subscription_approved_renewal_stale_state''"
| "PaymentResolutionCode_as_str SubscriptionApprovedRecoveryStaleState =
     lit ''subscription_approved_recovery_stale_state''"
| "PaymentResolutionCode_as_str SubscriptionApprovedRecoveryInactiveReplacementMethod =
     lit ''subscription_approved_recovery_inactive_replacement_method''"
| "PaymentResolutionCode_as_str SubscriptionApprovedPaymentMethodUpdateSubscriptionIneligible =
     lit ''subscription_approved_payment_method_update_subscription_ineligible''"
| "PaymentResolutionCode_as_str SubscriptionApprovedPaymentMethodUpdateStaleState =
     lit ''subscription_approved_payment_method_update_stale_state''"
| "PaymentResolutionCode_as_str SubscriptionApprovedPaymentMethodUpdateInactiveReplacementMethod =
     lit ''subscription_approved_payment_method_update_inactive_replacement_method''"
| "PaymentResolutionCode_as_str SubscriptionPeriodExpiredBeforeCharge =
     lit ''subscription_period_expired_before_charge''"
| "PaymentResolutionCode_as_str SubscriptionApprovedPeriodExpired =
     lit ''subscription_approved_period_expired''"

datatype PaymentResolutionCodeParseError = PaymentResolutionCodeParseError

definition PaymentResolutionCode_try_from ::
    "rstring \<Rightarrow> (PaymentResolutionCode, PaymentResolutionCodeParseError) result" where
  "PaymentResolutionCode_try_from value =
     (if value = lit ''subscription_initial_current_subscription_conflict''
      then Ok SubscriptionInitialCurrentSubscriptionConflict
      else if value = lit ''subscription_initial_current_grant_conflict''
      then Ok SubscriptionInitialCurrentGrantConflict
      else if value = lit ''subscription_initial_externally_refunded''
      then Ok SubscriptionInitialExternallyRefunded
      else if value = lit ''subscription_initial_externally_voided''
      then Ok SubscriptionInitialExternallyVoided
      else if value = lit ''processor_charge_externally_refunded''
      then Ok ProcessorChargeExternallyRefunded
      else if value = lit ''processor_charge_externally_voided''
      then Ok ProcessorChargeExternallyVoided
      else if value = lit ''subscription_initial_prepared_attempt_expired''
      then Ok SubscriptionInitialPreparedAttemptExpired
      else if value = lit ''subscription_renewal_retry_state_changed_before_charge''
      then Ok SubscriptionRenewalRetryStateChangedBeforeCharge
      else if value = lit ''gateway_live_readiness_failed_before_submission''
      then Ok GatewayLiveReadinessFailedBeforeSubmission
      else if value = lit ''gateway_test_readiness_failed_before_submission''
      then Ok GatewayTestReadinessFailedBeforeSubmission
      else if value = lit ''gateway_malformed_before_submission''
      then Ok GatewayMalformedBeforeSubmission
      else if value = lit ''gateway_request_rejected_before_submission''
      then Ok GatewayRequestRejectedBeforeSubmission
      else if value = lit ''gateway_configuration_before_submission''
      then Ok GatewayConfigurationBeforeSubmission
      else if value = lit ''gateway_unavailable_before_submission''
      then Ok GatewayUnavailableBeforeSubmission
      else if value = lit ''gateway_provider_rate_limited_before_submission''
      then Ok GatewayProviderRateLimitedBeforeSubmission
      else if value = lit ''gateway_account_rate_limited_before_submission''
      then Ok GatewayAccountRateLimitedBeforeSubmission
      else if value = lit ''gateway_account_mutation_cooldown_before_submission''
      then Ok GatewayAccountMutationCooldownBeforeSubmission
      else if value = lit ''host_charge_approved_stale_state''
      then Ok HostChargeApprovedStaleState
      else if value = lit ''subscription_approved_renewal_stale_state''
      then Ok SubscriptionApprovedRenewalStaleState
      else if value = lit ''subscription_approved_recovery_stale_state''
      then Ok SubscriptionApprovedRecoveryStaleState
      else if value = lit ''subscription_approved_recovery_inactive_replacement_method''
      then Ok SubscriptionApprovedRecoveryInactiveReplacementMethod
      else if value = lit ''subscription_approved_payment_method_update_subscription_ineligible''
      then Ok SubscriptionApprovedPaymentMethodUpdateSubscriptionIneligible
      else if value = lit ''subscription_approved_payment_method_update_stale_state''
      then Ok SubscriptionApprovedPaymentMethodUpdateStaleState
      else if value = lit ''subscription_approved_payment_method_update_inactive_replacement_method''
      then Ok SubscriptionApprovedPaymentMethodUpdateInactiveReplacementMethod
      else if value = lit ''subscription_period_expired_before_charge''
      then Ok SubscriptionPeriodExpiredBeforeCharge
      else if value = lit ''subscription_approved_period_expired''
      then Ok SubscriptionApprovedPeriodExpired
      else Err PaymentResolutionCodeParseError)"

interpretation resolution_code: text_codec
  PaymentResolutionCode_ALL PaymentResolutionCode_as_str PaymentResolutionCode_try_from
proof unfold_locales
  fix v show "v \<in> set PaymentResolutionCode_ALL"
    by (cases v) (simp_all add: PaymentResolutionCode_ALL_def)
next
  fix v show "PaymentResolutionCode_try_from (PaymentResolutionCode_as_str v) = Ok v"
    by (cases v) (simp_all add: PaymentResolutionCode_try_from_def)
next
  fix s v assume "PaymentResolutionCode_try_from s = Ok v"
  then show "PaymentResolutionCode_as_str v = s"
    unfolding PaymentResolutionCode_try_from_def
    by (simp split: if_split_asm)
qed

lemma distinct_PaymentResolutionCode_ALL: "distinct PaymentResolutionCode_ALL"
  by (simp add: PaymentResolutionCode_ALL_def)

text \<open>C34.  The closed vocabularies of the database survive a round trip: attempt kinds and
  statuses, subscription statuses and phases, and all twenty-six resolution codes are parsed
  from exactly the spelling they are written with, and every other text is refused.\<close>

theorem stored_vocabularies_round_trip:
  "(PaymentAttemptKind_from_str s = Ok kind \<longleftrightarrow> s = PaymentAttemptKind_as_str kind) \<and>
   (PaymentAttemptStatus_from_str s = Ok status \<longleftrightarrow> s = PaymentAttemptStatus_as_str status) \<and>
   (SubscriptionStatus_from_str s = Ok sub \<longleftrightarrow> s = SubscriptionStatus_as_str sub) \<and>
   (SubscriptionPhase_from_str s = Ok phase \<longleftrightarrow> s = SubscriptionPhase_as_str phase) \<and>
   (PaymentResolutionCode_try_from s = Ok code \<longleftrightarrow> s = PaymentResolutionCode_as_str code)"
  by (simp add: attempt_kind.parse_iff attempt_status.parse_iff subscription_status.parse_iff
      subscription_phase.parse_iff resolution_code.parse_iff)

lemma pacing_codes_are_retry_codes:
  "set RENEWAL_INFRASTRUCTURE_PACING_CODES \<union> set RENEWAL_RATE_LIMIT_PACING_CODES \<subseteq>
     set RENEWAL_INFRASTRUCTURE_RETRY_CODES"
  "set RENEWAL_INFRASTRUCTURE_PACING_CODES \<inter> set RENEWAL_RATE_LIMIT_PACING_CODES = {}"
  by (simp_all add: RENEWAL_INFRASTRUCTURE_PACING_CODES_def RENEWAL_RATE_LIMIT_PACING_CODES_def
      RENEWAL_INFRASTRUCTURE_RETRY_CODES_def)

end
