(* ===== verification/Billing_Contact.thy ===== *)
theory Billing_Contact
  imports Gateway_Value
begin

text \<open>
  Billing addresses, contacts and statement descriptors:
  \<open>crates/syrup-rail/src/gateway_value/contact.rs\<close> and \<open>descriptor.rs\<close>.  The builders normalise
  their text (trimmed, empty means absent, bounded); \<open>text_field\<close> is the contract the three
  normalisers share.
\<close>

section \<open>Addresses and contacts\<close>

datatype BillingContactError = Empty | FieldTooLong

datatype BillingAddressError = MissingLine1 | InvalidCountry | FieldTooLong | ControlCharacter

record BillingAddress =
  address_line1 :: rstring
  address_line2 :: "rstring option"
  address_city :: "rstring option"
  address_region :: "rstring option"
  address_postal_code :: "rstring option"
  address_country :: rstring

definition normalize_contact_field ::
    "rstring option \<Rightarrow> (rstring option, BillingContactError) result" where
  "normalize_contact_field value =
     (case value of
        None \<Rightarrow> Ok None
      | Some value \<Rightarrow>
          let value = trim value in
          if value = [] then Ok None
          else if byte_len value > MAX_BILLING_CONTACT_FIELD_BYTES
          then Err BillingContactError.FieldTooLong
          else Ok (Some value))"

definition normalize_address_field ::
    "rstring option \<Rightarrow> (rstring option, BillingAddressError) result" where
  "normalize_address_field value =
     (case value of
        None \<Rightarrow> Ok None
      | Some value \<Rightarrow>
          let value = trim value in
          if value = [] then Ok None
          else if byte_len value > MAX_BILLING_CONTACT_FIELD_BYTES
          then Err BillingAddressError.FieldTooLong
          else if list_ex is_control value then Err ControlCharacter
          else Ok (Some value))"

definition BillingAddress_new :: "rstring \<Rightarrow> rstring \<Rightarrow> (BillingAddress, BillingAddressError) result" where
  "BillingAddress_new line1 country =
     and_then (normalize_address_field (Some line1)) (\<lambda>line1.
     and_then (ok_or line1 MissingLine1) (\<lambda>line1.
       let country = trim country in
       if byte_len country \<noteq> 2 \<or> \<not> list_all is_ascii_alphabetic (utf8_bytes country)
       then Err InvalidCountry
       else Ok \<lparr>address_line1 = line1, address_line2 = None, address_city = None,
                address_region = None, address_postal_code = None,
                address_country = to_ascii_uppercase country\<rparr>))"

definition with_line2 :: "BillingAddress \<Rightarrow> rstring option \<Rightarrow> (BillingAddress, BillingAddressError) result" where
  "with_line2 a line2 =
     map_sum id (\<lambda>v. a\<lparr>address_line2 := v\<rparr>) (normalize_address_field line2)"

definition with_city :: "BillingAddress \<Rightarrow> rstring option \<Rightarrow> (BillingAddress, BillingAddressError) result" where
  "with_city a city = map_sum id (\<lambda>v. a\<lparr>address_city := v\<rparr>) (normalize_address_field city)"

definition with_region :: "BillingAddress \<Rightarrow> rstring option \<Rightarrow> (BillingAddress, BillingAddressError) result" where
  "with_region a region = map_sum id (\<lambda>v. a\<lparr>address_region := v\<rparr>) (normalize_address_field region)"

definition with_postal_code ::
    "BillingAddress \<Rightarrow> rstring option \<Rightarrow> (BillingAddress, BillingAddressError) result" where
  "with_postal_code a postal_code =
     map_sum id (\<lambda>v. a\<lparr>address_postal_code := v\<rparr>) (normalize_address_field postal_code)"

record BillingContact =
  contact_first_name :: "rstring option"
  contact_last_name :: "rstring option"
  contact_email :: "rstring option"
  contact_address :: "BillingAddress option"

definition BillingContact_new ::
    "rstring option \<Rightarrow> rstring option \<Rightarrow> rstring option \<Rightarrow> (BillingContact, BillingContactError) result" where
  "BillingContact_new first_name last_name email =
     and_then (normalize_contact_field first_name) (\<lambda>first_name.
     and_then (normalize_contact_field last_name) (\<lambda>last_name.
     and_then (normalize_contact_field email) (\<lambda>email.
       if first_name = None \<and> last_name = None \<and> email = None then Err BillingContactError.Empty
       else Ok \<lparr>contact_first_name = first_name, contact_last_name = last_name,
                contact_email = email, contact_address = None\<rparr>)))"

definition BillingContact_from_address :: "BillingAddress \<Rightarrow> BillingContact" where
  "BillingContact_from_address address =
     \<lparr>contact_first_name = None, contact_last_name = None, contact_email = None,
      contact_address = Some address\<rparr>"

definition with_address :: "BillingContact \<Rightarrow> BillingAddress \<Rightarrow> BillingContact" where
  "with_address c address = c\<lparr>contact_address := Some address\<rparr>"

section \<open>Statement descriptors\<close>

definition MAX_STATEMENT_DESCRIPTOR_NAME_BYTES :: nat where
  "MAX_STATEMENT_DESCRIPTOR_NAME_BYTES = 25"

definition MAX_STATEMENT_DESCRIPTOR_PHONE_BYTES :: nat where
  "MAX_STATEMENT_DESCRIPTOR_PHONE_BYTES = 20"

definition MAX_STATEMENT_DESCRIPTOR_URL_BYTES :: nat where
  "MAX_STATEMENT_DESCRIPTOR_URL_BYTES = 40"

datatype StatementDescriptorError =
    MissingName
  | NameTooLong
  | PhoneTooLong
  | UrlTooLong
  | UnsupportedCharacter
  | InvalidPhone
  | InvalidUrl

record StatementDescriptor =
  descriptor_name :: rstring
  descriptor_phone :: "rstring option"
  descriptor_url :: "rstring option"

definition is_printable_ascii :: "byte \<Rightarrow> bool" where
  "is_printable_ascii b \<longleftrightarrow> 32 \<le> b \<and> b \<le> 126"

definition normalize_field ::
    "rstring option \<Rightarrow> nat \<Rightarrow> StatementDescriptorError \<Rightarrow>
     (rstring option, StatementDescriptorError) result" where
  "normalize_field value max_bytes too_long =
     (case value of
        None \<Rightarrow> Ok None
      | Some value \<Rightarrow>
          let value = trim value in
          if value = [] then Ok None
          else if byte_len value > max_bytes then Err too_long
          else if \<not> list_all is_printable_ascii (utf8_bytes value) then Err UnsupportedCharacter
          else Ok (Some value))"

definition StatementDescriptor_new :: "rstring \<Rightarrow> (StatementDescriptor, StatementDescriptorError) result" where
  "StatementDescriptor_new name =
     and_then (normalize_field (Some name) MAX_STATEMENT_DESCRIPTOR_NAME_BYTES NameTooLong) (\<lambda>name.
     and_then (ok_or name MissingName) (\<lambda>name.
       Ok \<lparr>descriptor_name = name, descriptor_phone = None, descriptor_url = None\<rparr>))"

text \<open>\<open>b' ' | b'+' | b'-' | b'(' | b')' | b'.'\<close>\<close>

definition is_phone_byte :: "byte \<Rightarrow> bool" where
  "is_phone_byte b \<longleftrightarrow> is_ascii_digit b \<or> b \<in> {32, 43, 45, 40, 41, 46}"

definition with_phone ::
    "StatementDescriptor \<Rightarrow> rstring option \<Rightarrow> (StatementDescriptor, StatementDescriptorError) result" where
  "with_phone d phone =
     and_then (normalize_field phone MAX_STATEMENT_DESCRIPTOR_PHONE_BYTES PhoneTooLong) (\<lambda>phone.
       if (case phone of Some p \<Rightarrow> \<not> list_all is_phone_byte (utf8_bytes p) | None \<Rightarrow> False)
       then Err InvalidPhone
       else Ok (d\<lparr>descriptor_phone := phone\<rparr>))"

definition with_url ::
    "StatementDescriptor \<Rightarrow> rstring option \<Rightarrow> (StatementDescriptor, StatementDescriptorError) result" where
  "with_url d url =
     and_then (normalize_field url MAX_STATEMENT_DESCRIPTOR_URL_BYTES UrlTooLong) (\<lambda>url.
       if (case url of Some p \<Rightarrow> list_ex is_ascii_whitespace (utf8_bytes p) | None \<Rightarrow> False)
       then Err InvalidUrl
       else Ok (d\<lparr>descriptor_url := url\<rparr>))"

section \<open>The contract of the normalisers\<close>

text \<open>
  A normaliser of optional text keeps what it has normalised, returns only trimmed, non-empty
  text within its bound, and maps blank text to absence.
\<close>

locale text_field =
  fixes norm :: "rstring option \<Rightarrow> (rstring option, 'e) result"
    and bound :: nat
    and char_ok :: "scalar \<Rightarrow> bool"
  assumes absent: "norm None = Ok None"
    and blank: "trim s = [] \<Longrightarrow> norm (Some s) = Ok None"
    and present_iff: "trim s \<noteq> [] \<Longrightarrow> norm (Some s) = Ok r \<longleftrightarrow>
          r = Some (trim s) \<and> byte_len (trim s) \<le> bound \<and> list_all char_ok (trim s)"
begin

definition field_ok :: "rstring option \<Rightarrow> bool" where
  "field_ok f \<longleftrightarrow> (case f of None \<Rightarrow> True
     | Some s \<Rightarrow> s \<noteq> [] \<and> trim s = s \<and> byte_len s \<le> bound \<and> list_all char_ok s)"

lemma norm_field_ok: "norm f = Ok r \<Longrightarrow> field_ok r"
proof (cases f)
  case (Some s)
  assume "norm f = Ok r"
  with Some show "field_ok r"
    using blank [of s] present_iff [of s r] by (cases "trim s = []") (auto simp: field_ok_def)
qed (auto simp: absent field_ok_def)

lemma norm_fixed: "field_ok f \<Longrightarrow> norm f = Ok f"
  using present_iff by (cases f) (auto simp: field_ok_def absent)

lemma norm_idem: "norm f = Ok r \<Longrightarrow> norm r = Ok r"
  using norm_field_ok norm_fixed by blast

lemma norm_range: "(\<exists>f. norm f = Ok r) \<longleftrightarrow> field_ok r"
  using norm_field_ok norm_fixed by blast

end

lemma is_printable_ascii_all [simp]:
  "list_all is_printable_ascii (utf8_bytes s) \<longleftrightarrow> list_all is_printable_ascii s"
  by (rule utf8_all_ascii_iff) (simp add: is_printable_ascii_def)

lemma is_phone_byte_all [simp]:
  "list_all is_phone_byte (utf8_bytes s) \<longleftrightarrow> list_all is_phone_byte s"
  by (rule utf8_all_ascii_iff) (auto simp: is_phone_byte_def is_ascii_digit_def)

lemma list_ex_not: "list_ex p s \<longleftrightarrow> \<not> list_all (\<lambda>c. \<not> p c) s"
  by (auto simp: list_ex_iff list_all_iff)

interpretation contact_field: text_field normalize_contact_field 255 "\<lambda>_. True"
  by unfold_locales
     (auto simp: normalize_contact_field_def Let_def MAX_BILLING_CONTACT_FIELD_BYTES_def list_all_iff)

interpretation address_field: text_field normalize_address_field 255 "\<lambda>c. \<not> is_control c"
  by unfold_locales
     (auto simp: normalize_address_field_def Let_def MAX_BILLING_CONTACT_FIELD_BYTES_def list_ex_not)

interpretation descriptor_field: text_field "\<lambda>f. normalize_field f bound e" bound is_printable_ascii for bound e
  by unfold_locales (auto simp: normalize_field_def Let_def)

section \<open>Invariants\<close>

definition BillingAddress_wf :: "BillingAddress \<Rightarrow> bool" where
  "BillingAddress_wf a \<longleftrightarrow>
     address_field.field_ok (Some (address_line1 a)) \<and> address_field.field_ok (address_line2 a) \<and>
     address_field.field_ok (address_city a) \<and> address_field.field_ok (address_region a) \<and>
     address_field.field_ok (address_postal_code a) \<and>
     length (address_country a) = 2 \<and> list_all is_ascii_uppercase (address_country a)"

definition StatementDescriptor_wf :: "StatementDescriptor \<Rightarrow> bool" where
  "StatementDescriptor_wf d \<longleftrightarrow>
     normalize_field (Some (descriptor_name d)) 25 NameTooLong = Ok (Some (descriptor_name d)) \<and>
     normalize_field (descriptor_phone d) 20 PhoneTooLong = Ok (descriptor_phone d) \<and>
     pred_option (list_all is_phone_byte) (descriptor_phone d) \<and>
     normalize_field (descriptor_url d) 40 UrlTooLong = Ok (descriptor_url d) \<and>
     pred_option (\<lambda>s. \<not> list_ex is_ascii_whitespace (utf8_bytes s)) (descriptor_url d)"

lemma uppercase_country:
  assumes "byte_len c = 2" and "list_all is_ascii_alphabetic (utf8_bytes c)"
  shows "length (to_ascii_uppercase c) = 2 \<and> list_all is_ascii_uppercase (to_ascii_uppercase c)"
proof -
  have ascii: "x < 128" if "is_ascii_alphabetic x" for x using that by (auto simp: ascii_class_defs)
  with assms(2) have al: "list_all is_ascii_alphabetic c"
    using utf8_all_ascii_iff by blast
  then have "byte_len c = length c" by (intro byte_len_ascii) (auto simp: list_all_iff ascii)
  moreover have "is_ascii_uppercase (ascii_upper x)" if "is_ascii_alphabetic x" for x
    using that by (auto simp: ascii_upper_def ascii_class_defs)
  ultimately show ?thesis
    using al assms(1) by (simp add: to_ascii_uppercase_def list_all_iff)
qed

lemma BillingAddress_new_wf [wf_intros]:
  assumes "BillingAddress_new l c = Ok a"
  shows "BillingAddress_wf a"
proof -
  from assms obtain l' where n: "normalize_address_field (Some l) = Ok (Some l')"
    and c: "byte_len (trim c) = 2" "list_all is_ascii_alphabetic (utf8_bytes (trim c))"
    and a: "a = \<lparr>address_line1 = l', address_line2 = None, address_city = None,
        address_region = None, address_postal_code = None,
        address_country = to_ascii_uppercase (trim c)\<rparr>"
    by (auto simp: BillingAddress_new_def and_then_Inr_iff Let_def split: if_splits)
  from address_field.norm_field_ok [OF n] uppercase_country [OF c] show ?thesis
    by (simp add: a BillingAddress_wf_def address_field.field_ok_def [of None])
qed

lemma BillingAddress_builders_wf [wf_intros]:
  assumes "BillingAddress_wf a"
  shows "with_line2 a f = Ok b \<Longrightarrow> BillingAddress_wf b"
    and "with_city a f = Ok b \<Longrightarrow> BillingAddress_wf b"
    and "with_region a f = Ok b \<Longrightarrow> BillingAddress_wf b"
    and "with_postal_code a f = Ok b \<Longrightarrow> BillingAddress_wf b"
  using assms
  by (auto simp: with_line2_def with_city_def with_region_def with_postal_code_def BillingAddress_wf_def
      dest!: address_field.norm_field_ok)

definition BillingContact_wf :: "BillingContact \<Rightarrow> bool" where
  "BillingContact_wf c \<longleftrightarrow>
     contact_field.field_ok (contact_first_name c) \<and> contact_field.field_ok (contact_last_name c) \<and>
     contact_field.field_ok (contact_email c) \<and> pred_option BillingAddress_wf (contact_address c) \<and>
     (contact_first_name c \<noteq> None \<or> contact_last_name c \<noteq> None \<or> contact_email c \<noteq> None \<or>
      contact_address c \<noteq> None)"

lemma BillingContact_wf_intros [wf_intros]:
  "BillingContact_new f l e = Ok c \<Longrightarrow> BillingContact_wf c"
  "BillingAddress_wf a \<Longrightarrow> BillingContact_wf (BillingContact_from_address a)"
  "BillingContact_wf c \<Longrightarrow> BillingAddress_wf a \<Longrightarrow> BillingContact_wf (with_address c a)"
  by (auto simp: BillingContact_new_def BillingContact_from_address_def with_address_def
      BillingContact_wf_def and_then_Inr_iff contact_field.field_ok_def [of None]
      split: if_splits dest: contact_field.norm_field_ok)

text \<open>Normalisation is stable and the builders keep it: a contact made by the constructor has
  no blank, untrimmed or oversized field and at least one field, and building it again from its
  own parts gives the same contact, so a stored contact reads back unchanged.\<close>

lemma BillingContact_new_stable:
  assumes "BillingContact_new f l e = Ok c"
  shows "BillingContact_wf c \<and>
         BillingContact_new (contact_first_name c) (contact_last_name c) (contact_email c) = Ok c"
proof -
  from assms obtain f' l' e' where
    n: "normalize_contact_field f = Ok f'" "normalize_contact_field l = Ok l'"
      "normalize_contact_field e = Ok e'" and some: "\<not> (f' = None \<and> l' = None \<and> e' = None)"
    and c: "c = \<lparr>contact_first_name = f', contact_last_name = l', contact_email = e',
              contact_address = None\<rparr>"
    unfolding BillingContact_new_def and_then_Inr_iff by (metis Inl_Inr_False sum.inject(2))
  have "BillingContact_new f' l' e' = Ok c"
    using n [THEN contact_field.norm_idem] some c by (simp add: BillingContact_new_def)
  then show ?thesis using BillingContact_wf_intros(1) [OF assms] c by simp
qed

lemma BillingContact_new_stable_witness:
  "\<exists>c. BillingContact_new (Some (lit '' Ada '')) None None = Ok c \<and>
     BillingContact_new (contact_first_name c) (contact_last_name c) (contact_email c) = Ok c"
proof -
  let ?c = "\<lparr>contact_first_name = Some (lit ''Ada''), contact_last_name = None,
             contact_email = None, contact_address = None\<rparr> :: BillingContact"
  have "BillingContact_new (Some (lit '' Ada '')) None None = Ok ?c"
    by (simp add: BillingContact_new_def normalize_contact_field_def trim_def trim_matches_def
        is_whitespace_def utf8_encode_ascii lit_eval MAX_BILLING_CONTACT_FIELD_BYTES_def)
  with BillingContact_new_stable [OF this] show ?thesis by blast
qed

lemma StatementDescriptor_new_wf [wf_intros]:
  "StatementDescriptor_new n = Ok d \<Longrightarrow> StatementDescriptor_wf d"
  by (auto simp: StatementDescriptor_new_def StatementDescriptor_wf_def and_then_Inr_iff
      MAX_STATEMENT_DESCRIPTOR_NAME_BYTES_def descriptor_field.absent
      dest: descriptor_field.norm_idem)

lemma with_phone_Ok_iff [result_simps]:
  "with_phone d p = Ok d' \<longleftrightarrow>
     (\<exists>q. normalize_field p 20 PhoneTooLong = Ok q \<and> pred_option (list_all is_phone_byte) q \<and>
        d' = d\<lparr>descriptor_phone := q\<rparr>)"
  unfolding with_phone_def and_then_Inr_iff MAX_STATEMENT_DESCRIPTOR_PHONE_BYTES_def
  by (rule arg_cong [where f = Ex], rule ext) (auto split: option.splits)

lemma with_url_Ok_iff [result_simps]:
  "with_url d p = Ok d' \<longleftrightarrow>
     (\<exists>q. normalize_field p 40 UrlTooLong = Ok q \<and>
        pred_option (\<lambda>s. \<not> list_ex is_ascii_whitespace (utf8_bytes s)) q \<and>
        d' = d\<lparr>descriptor_url := q\<rparr>)"
  unfolding with_url_def and_then_Inr_iff MAX_STATEMENT_DESCRIPTOR_URL_BYTES_def
  by (rule arg_cong [where f = Ex], rule ext) (auto split: option.splits)

lemma with_phone_wf [wf_intros]:
  assumes "with_phone d p = Ok d'" and "StatementDescriptor_wf d"
  shows "StatementDescriptor_wf d'"
proof -
  from assms(1) obtain q where "normalize_field p 20 PhoneTooLong = Ok q"
    and "pred_option (list_all is_phone_byte) q" and "d' = d\<lparr>descriptor_phone := q\<rparr>"
    unfolding with_phone_Ok_iff by blast
  with assms(2) descriptor_field.norm_idem [of p 20 PhoneTooLong q] show ?thesis
    by (simp add: StatementDescriptor_wf_def)
qed

lemma with_url_wf [wf_intros]:
  assumes "with_url d p = Ok d'" and "StatementDescriptor_wf d"
  shows "StatementDescriptor_wf d'"
proof -
  from assms(1) obtain q where "normalize_field p 40 UrlTooLong = Ok q"
    and "pred_option (\<lambda>s. \<not> list_ex is_ascii_whitespace (utf8_bytes s)) q"
    and "d' = d\<lparr>descriptor_url := q\<rparr>"
    unfolding with_url_Ok_iff by blast
  with assms(2) descriptor_field.norm_idem [of p 40 UrlTooLong q] show ?thesis
    by (simp add: StatementDescriptor_wf_def)
qed

end
