(* ===== verification/Text_Fields.thy ===== *)
theory Text_Fields
  imports Prelude
begin

text \<open>
  Texts made of fields with a separator between them, as the program's format strings build them,
  and when the fields can be read back.
\<close>

fun sep_fields :: "scalar \<Rightarrow> rstring list \<Rightarrow> rstring" where
  "sep_fields x [] = []"
| "sep_fields x [f] = f"
| "sep_fields x (f # g # fs) = f @ x # sep_fields x (g # fs)"

abbreviation colon_fields :: "rstring list \<Rightarrow> rstring" where
  "colon_fields \<equiv> sep_fields colon"

definition comma :: scalar where
  "comma = 44"

lemma sep_fields_Cons: "fs \<noteq> [] \<Longrightarrow> sep_fields x (f # fs) = f @ x # sep_fields x fs"
  by (cases fs) simp_all

lemma sep_fields_free_iff:
  "x \<notin> set (sep_fields x fs) \<longleftrightarrow> length fs \<le> 1 \<and> list_all (\<lambda>f. x \<notin> set f) fs"
  by (induction x fs rule: sep_fields.induct) auto

lemma sep_fields_inject:
  assumes "list_all (\<lambda>f. x \<notin> set f) fs" and "list_all (\<lambda>f. x \<notin> set f) gs" and "fs \<noteq> []" and "gs \<noteq> []"
  shows "sep_fields x fs = sep_fields x gs \<longleftrightarrow> fs = gs"
  using assms
proof (induction x fs arbitrary: gs rule: sep_fields.induct)
  case (2 x f)
  then show ?case
  proof (cases "tl gs = []")
    case True
    with 2 show ?thesis by (cases gs) auto
  next
    case False
    with 2 have "x \<in> set (sep_fields x gs)"
      by (cases gs) (simp_all add: sep_fields_Cons)
    with 2 False show ?thesis by (cases gs) auto
  qed
next
  case (3 x f g fs)
  show ?case
  proof (cases "tl gs = []")
    case True
    with 3 obtain h where "gs = [h]" by (cases gs) auto
    with 3 show ?thesis by auto
  next
    case False
    with 3 obtain h hs where gs: "gs = h # hs" and hs: "hs \<noteq> []" by (cases gs) auto
    from 3 gs have "x \<notin> set f" "x \<notin> set h" by simp_all
    from first_field_inject [OF this, of "sep_fields x (g # fs)" "sep_fields x hs"] 3 gs hs
    show ?thesis by (simp add: sep_fields_Cons)
  qed
qed simp

text \<open>A list of non-empty fields may itself be empty.\<close>

lemma sep_fields_inject_nonempty:
  assumes "list_all (\<lambda>f. x \<notin> set f \<and> f \<noteq> []) fs" and "list_all (\<lambda>f. x \<notin> set f \<and> f \<noteq> []) gs"
  shows "sep_fields x fs = sep_fields x gs \<longleftrightarrow> fs = gs"
proof -
  have ne: "sep_fields x hs \<noteq> []" if "hs \<noteq> []" "list_all (\<lambda>f. x \<notin> set f \<and> f \<noteq> []) hs" for hs
    using that by (cases hs; cases "tl hs = []") (auto simp: sep_fields_Cons)
  show ?thesis
  proof (cases "fs = [] \<or> gs = []")
    case True
    with assms ne show ?thesis by (metis sep_fields.simps(1))
  next
    case False
    with assms show ?thesis by (intro sep_fields_inject) (auto simp: list_all_iff)
  qed
qed

lemma sep_fields_append:
  "fs \<noteq> [] \<Longrightarrow> gs \<noteq> [] \<Longrightarrow> sep_fields x (fs @ gs) = sep_fields x fs @ x # sep_fields x gs"
  by (induction x fs rule: sep_fields.induct) (simp_all add: sep_fields_Cons)

lemma sep_fields_nested:
  "gs \<noteq> [] \<Longrightarrow> sep_fields x (sep_fields x gs # hs) = sep_fields x (gs @ hs)"
  by (cases "hs = []") (simp_all add: sep_fields_Cons sep_fields_append)

lemma sep_fields_nested_last:
  "gs \<noteq> [] \<Longrightarrow> sep_fields x (fs @ [sep_fields x gs]) = sep_fields x (fs @ gs)"
  by (cases "fs = []") (simp_all add: sep_fields_append)

lemma set_sep_fields: "set (sep_fields x fs) \<subseteq> insert x (\<Union> (set ` set fs))"
  by (induction x fs rule: sep_fields.induct) auto

text \<open>A text ends with a separator and some fields exactly when its own last fields are those.\<close>

lemma suffix_fields_iff:
  assumes "list_all (\<lambda>f. x \<notin> set f) fs" and "list_all (\<lambda>f. x \<notin> set f) gs" and "fs \<noteq> []" and "gs \<noteq> []"
  shows "(\<exists>p. sep_fields x fs = p @ x # sep_fields x gs) \<longleftrightarrow> (\<exists>hs. hs \<noteq> [] \<and> fs = hs @ gs)"
proof
  assume "\<exists>hs. hs \<noteq> [] \<and> fs = hs @ gs"
  then show "\<exists>p. sep_fields x fs = p @ x # sep_fields x gs"
    using assms(4) by (auto simp: sep_fields_append)
next
  assume "\<exists>p. sep_fields x fs = p @ x # sep_fields x gs"
  then obtain p where "sep_fields x fs = p @ x # sep_fields x gs" ..
  then show "\<exists>hs. hs \<noteq> [] \<and> fs = hs @ gs"
    using assms
  proof (induction x fs arbitrary: p rule: sep_fields.induct)
    case (3 x f g fs)
    show ?case
    proof (cases "x \<in> set p")
      case True
      then obtain p1 p2 where p: "p = p1 @ x # p2" "x \<notin> set p1" by (meson split_list_first)
      with 3 have "f @ x # sep_fields x (g # fs) = p1 @ x # (p2 @ x # sep_fields x gs)" by simp
      moreover from 3 have "x \<notin> set f" by simp
      ultimately have "sep_fields x (g # fs) = p2 @ x # sep_fields x gs"
        using first_field_inject [OF _ p(2)] by blast
      with 3 obtain hs where "g # fs = hs @ gs" by auto
      then show ?thesis by (intro exI [of _ "f # hs"]) simp
    next
      case False
      moreover from 3 have "x \<notin> set f" by simp
      ultimately have "sep_fields x (g # fs) = sep_fields x gs"
        using 3(2) first_field_inject [of x f p] by simp
      with 3 have "g # fs = gs" by (subst sep_fields_inject [symmetric]) simp_all
      then show ?thesis by (intro exI [of _ "[f]"]) simp
    qed
  qed auto
qed


lemma fields_front_inject:
  assumes "length as = length bs" and "list_all (\<lambda>f. x \<notin> set f) as" and "list_all (\<lambda>f. x \<notin> set f) bs"
    and "fs \<noteq> []" and "gs \<noteq> []"
  shows "sep_fields x (as @ fs) = sep_fields x (bs @ gs) \<longleftrightarrow> as = bs \<and> sep_fields x fs = sep_fields x gs"
  using assms
proof (induction as bs rule: list_induct2)
  case (Cons a as b bs)
  then show ?case
    using first_field_inject [of x a b "sep_fields x (as @ fs)" "sep_fields x (bs @ gs)"]
    by (simp add: sep_fields_Cons)
qed simp

lemma fields_back_inject:
  assumes "length as = length bs" and "list_all (\<lambda>f. x \<notin> set f) as" and "list_all (\<lambda>f. x \<notin> set f) bs"
    and "fs \<noteq> []" and "gs \<noteq> []"
  shows "sep_fields x (fs @ as) = sep_fields x (gs @ bs) \<longleftrightarrow> as = bs \<and> sep_fields x fs = sep_fields x gs"
  using assms
proof (induction as arbitrary: bs rule: rev_induct)
  case (snoc a as)
  then obtain bs' b where bs: "bs = bs' @ [b]" by (cases bs rule: rev_cases) auto
  have "sep_fields x ((fs @ as) @ [a]) = sep_fields x ((gs @ bs') @ [b]) \<longleftrightarrow>
      a = b \<and> sep_fields x (fs @ as) = sep_fields x (gs @ bs')"
    using snoc.prems bs by (subst (1 2) sep_fields_append) (simp_all add: last_field_inject)
  with snoc bs show ?case by auto
qed simp

end
