(* ===== verification/Attempt.thy ===== *)
theory Attempt
  imports Enrollment_Terms Gateway_Lifecycle Resolution Billing_Contact Text_Fields
begin

text \<open>
  Payment attempts: \<open>crates/syrup-rail/src/attempt.rs\<close> with \<open>attempt/snapshots.rs\<close> and
  \<open>attempt/fingerprint.rs\<close>.  An attempt joins an identity, an immutable request and a state; its
  constructor refuses combinations that cannot have happened.  The fingerprint of a request is
  the durable key by which a retried request is recognised.
\<close>

section \<open>Snapshots\<close>

record PaymentAttemptTimestamps =
  stamp_submitted_at :: "datetime option"
  stamp_resolved_at :: "datetime option"
  stamp_review_required_at :: "datetime option"
  stamp_created_at :: datetime
  stamp_updated_at :: datetime

definition submitted_or_created_at :: "PaymentAttemptTimestamps \<Rightarrow> datetime" where
  "submitted_or_created_at self =
     (case stamp_submitted_at self of Some at \<Rightarrow> at | None \<Rightarrow> stamp_created_at self)"

definition normalize_optional :: "rstring option \<Rightarrow> rstring option" where
  "normalize_optional value =
     (case value of
        None \<Rightarrow> None
      | Some value \<Rightarrow> let value = trim value in if value \<noteq> [] then Some value else None)"

record BillingContactSnapshot =
  contact_snapshot_first_name :: "rstring option"
  contact_snapshot_last_name :: "rstring option"
  contact_snapshot_name :: "rstring option"
  contact_snapshot_email :: "rstring option"
  contact_snapshot_address :: "BillingAddress option"

definition BillingContactSnapshot_from_parts ::
    "rstring option \<Rightarrow> rstring option \<Rightarrow> rstring option \<Rightarrow> BillingContactSnapshot" where
  "BillingContactSnapshot_from_parts first_name last_name email =
     (let first_name = normalize_optional first_name;
          last_name = normalize_optional last_name;
          name = sep_fields 32 (List.map_filter id [first_name, last_name])
      in \<lparr>contact_snapshot_first_name = first_name,
          contact_snapshot_last_name = last_name,
          contact_snapshot_name = (if name \<noteq> [] then Some name else None),
          contact_snapshot_email = normalize_optional email,
          contact_snapshot_address = None\<rparr>)"

definition BillingContactSnapshot_new :: "rstring option \<Rightarrow> rstring option \<Rightarrow> BillingContactSnapshot" where
  "BillingContactSnapshot_new name email = BillingContactSnapshot_from_parts name None email"

definition contact_snapshot_with_address ::
    "BillingContactSnapshot \<Rightarrow> BillingAddress \<Rightarrow> BillingContactSnapshot" where
  "contact_snapshot_with_address self address = self\<lparr>contact_snapshot_address := Some address\<rparr>"

definition BillingContactSnapshot_from_billing_contact :: "BillingContact \<Rightarrow> BillingContactSnapshot" where
  "BillingContactSnapshot_from_billing_contact contact =
     (let snapshot = BillingContactSnapshot_from_parts (contact_first_name contact)
                       (contact_last_name contact) (contact_email contact)
      in case contact_address contact of
           Some address \<Rightarrow> contact_snapshot_with_address snapshot address
         | None \<Rightarrow> snapshot)"

definition BillingContactSnapshot_is_empty :: "BillingContactSnapshot \<Rightarrow> bool" where
  "BillingContactSnapshot_is_empty self \<longleftrightarrow>
     contact_snapshot_first_name self = None \<and> contact_snapshot_last_name self = None \<and>
     contact_snapshot_email self = None \<and> contact_snapshot_address self = None"

datatype PaymentAttemptSnapshotError = TerminalSubscription | InvalidEnrollmentTermsVersion

record PaymentMethodUpdateSnapshot =
  method_update_subscription_id :: SubscriptionId
  method_update_payment_method_id :: PaymentMethodId
  method_update_expected_initial_transaction_id :: GatewayTransactionId

record SubscriptionPaymentStateSnapshot =
  payment_state_subscription_id :: SubscriptionId
  payment_state_payment_method_id :: PaymentMethodId
  payment_state_initial_transaction_id :: GatewayTransactionId
  payment_state_status :: SubscriptionStatus

definition SubscriptionPaymentStateSnapshot_new ::
    "SubscriptionId \<Rightarrow> PaymentMethodId \<Rightarrow> GatewayTransactionId \<Rightarrow> SubscriptionStatus \<Rightarrow>
     (SubscriptionPaymentStateSnapshot, PaymentAttemptSnapshotError) result" where
  "SubscriptionPaymentStateSnapshot_new subscription_id payment_method_id initial_transaction_id status =
     (if status \<in> {Canceled, Unpaid} then Err TerminalSubscription
      else Ok \<lparr>payment_state_subscription_id = subscription_id,
               payment_state_payment_method_id = payment_method_id,
               payment_state_initial_transaction_id = initial_transaction_id,
               payment_state_status = status\<rparr>)"

section \<open>Targets\<close>

record SubscriptionInitialApplication =
  application_subscription_id :: "SubscriptionId option"
  application_payment_method_id :: PaymentMethodId

datatype SubscriptionEnrollmentTermsVersion = V1 | V2

primrec SubscriptionEnrollmentTermsVersion_get :: "SubscriptionEnrollmentTermsVersion \<Rightarrow> u16" where
  "SubscriptionEnrollmentTermsVersion_get V1 = 1"
| "SubscriptionEnrollmentTermsVersion_get V2 = 2"

definition SubscriptionEnrollmentTermsVersion_try_from ::
    "u16 \<Rightarrow> (SubscriptionEnrollmentTermsVersion, PaymentAttemptSnapshotError) result" where
  "SubscriptionEnrollmentTermsVersion_try_from value =
     (if value = 1 then Ok V1 else if value = 2 then Ok V2 else Err InvalidEnrollmentTermsVersion)"

datatype PaymentAttemptTarget =
    HostCharge HostChargeTargetId
  | SubscriptionInitial SubscriptionEnrollmentTermsVersion SubscriptionOffer
      "SubscriptionEnrollmentDiscountSnapshot option" "SubscriptionInitialApplication option"
  | SubscriptionRenewal PlanKey PaymentMethodId BillingPeriod SubscriptionPaymentStateSnapshot
  | SubscriptionRecovery PlanKey PaymentMethodId BillingPeriod SubscriptionPaymentStateSnapshot
  | SubscriptionPaymentMethodUpdate PlanKey PaymentMethodId PaymentMethodUpdateSnapshot

primrec target_attempt_kind :: "PaymentAttemptTarget \<Rightarrow> PaymentAttemptKind" where
  "target_attempt_kind (HostCharge _) = PaymentAttemptKind.HostCharge"
| "target_attempt_kind (SubscriptionInitial _ _ _ _) = PaymentAttemptKind.SubscriptionInitial"
| "target_attempt_kind (SubscriptionRenewal _ _ _ _) = PaymentAttemptKind.SubscriptionRenewal"
| "target_attempt_kind (SubscriptionRecovery _ _ _ _) = PaymentAttemptKind.SubscriptionRecovery"
| "target_attempt_kind (SubscriptionPaymentMethodUpdate _ _ _) =
     PaymentAttemptKind.SubscriptionPaymentMethodUpdate"

primrec target_plan_key :: "PaymentAttemptTarget \<Rightarrow> PlanKey option" where
  "target_plan_key (HostCharge _) = None"
| "target_plan_key (SubscriptionInitial _ offer _ _) = Some (offer_plan_key offer)"
| "target_plan_key (SubscriptionRenewal plan_key _ _ _) = Some plan_key"
| "target_plan_key (SubscriptionRecovery plan_key _ _ _) = Some plan_key"
| "target_plan_key (SubscriptionPaymentMethodUpdate plan_key _ _) = Some plan_key"

primrec target_subscription_id :: "PaymentAttemptTarget \<Rightarrow> SubscriptionId option" where
  "target_subscription_id (HostCharge _) = None"
| "target_subscription_id (SubscriptionInitial _ _ _ application) =
     (case application of Some a \<Rightarrow> application_subscription_id a | None \<Rightarrow> None)"
| "target_subscription_id (SubscriptionRenewal _ _ _ expected) = Some (payment_state_subscription_id expected)"
| "target_subscription_id (SubscriptionRecovery _ _ _ expected) = Some (payment_state_subscription_id expected)"
| "target_subscription_id (SubscriptionPaymentMethodUpdate _ _ expected) =
     Some (method_update_subscription_id expected)"

primrec target_payment_method_id :: "PaymentAttemptTarget \<Rightarrow> PaymentMethodId option" where
  "target_payment_method_id (HostCharge _) = None"
| "target_payment_method_id (SubscriptionInitial _ _ _ application) =
     map_option application_payment_method_id application"
| "target_payment_method_id (SubscriptionRenewal _ m _ _) = Some m"
| "target_payment_method_id (SubscriptionRecovery _ m _ _) = Some m"
| "target_payment_method_id (SubscriptionPaymentMethodUpdate _ m _) = Some m"

fun target_host_charge_target_id :: "PaymentAttemptTarget \<Rightarrow> HostChargeTargetId option" where
  "target_host_charge_target_id (HostCharge target_id) = Some target_id"
| "target_host_charge_target_id _ = None"

fun target_period :: "PaymentAttemptTarget \<Rightarrow> BillingPeriod option" where
  "target_period (SubscriptionRenewal _ _ period _) = Some period"
| "target_period (SubscriptionRecovery _ _ period _) = Some period"
| "target_period _ = None"

fun target_enrollment_discount ::
    "PaymentAttemptTarget \<Rightarrow> SubscriptionEnrollmentDiscountSnapshot option" where
  "target_enrollment_discount (SubscriptionInitial _ _ discount _) = discount"
| "target_enrollment_discount _ = None"

fun target_enrollment_terms_version ::
    "PaymentAttemptTarget \<Rightarrow> SubscriptionEnrollmentTermsVersion option" where
  "target_enrollment_terms_version (SubscriptionInitial terms_version _ _ _) = Some terms_version"
| "target_enrollment_terms_version _ = None"

fun target_enrollment_offer :: "PaymentAttemptTarget \<Rightarrow> SubscriptionOffer option" where
  "target_enrollment_offer (SubscriptionInitial _ offer _ _) = Some offer"
| "target_enrollment_offer _ = None"

fun target_initial_application :: "PaymentAttemptTarget \<Rightarrow> SubscriptionInitialApplication option" where
  "target_initial_application (SubscriptionInitial _ _ _ application) = application"
| "target_initial_application _ = None"

fun target_payment_method_update_snapshot :: "PaymentAttemptTarget \<Rightarrow> PaymentMethodUpdateSnapshot option" where
  "target_payment_method_update_snapshot (SubscriptionPaymentMethodUpdate _ _ expected_state) = Some expected_state"
| "target_payment_method_update_snapshot _ = None"

fun target_subscription_payment_state_snapshot ::
    "PaymentAttemptTarget \<Rightarrow> SubscriptionPaymentStateSnapshot option" where
  "target_subscription_payment_state_snapshot (SubscriptionRenewal _ _ _ expected_state) = Some expected_state"
| "target_subscription_payment_state_snapshot (SubscriptionRecovery _ _ _ expected_state) = Some expected_state"
| "target_subscription_payment_state_snapshot _ = None"

section \<open>Fingerprints\<close>

datatype PaymentAttemptFingerprintError = Empty

datatype PaymentAttemptFingerprint = PaymentAttemptFingerprint (PaymentAttemptFingerprint_expose: rstring)

definition PaymentAttemptFingerprint_new ::
    "rstring \<Rightarrow> (PaymentAttemptFingerprint, PaymentAttemptFingerprintError) result" where
  "PaymentAttemptFingerprint_new value =
     (if trim value = [] then Err PaymentAttemptFingerprintError.Empty
      else Ok (PaymentAttemptFingerprint value))"

text \<open>The displayed forms of identifiers and instants belong to the \<open>uuid\<close> and \<open>chrono\<close> crates.\<close>

record displays =
  uuid_display :: "Uuid \<Rightarrow> rstring"
  datetime_display :: "datetime \<Rightarrow> rstring"

definition for_host_charge :: "displays \<Rightarrow> HostChargeTargetId \<Rightarrow> Money \<Rightarrow> PaymentAttemptFingerprint" where
  "for_host_charge d target_id amount =
     PaymentAttemptFingerprint (colon_fields
       [lit ''host_charge'', uuid_display d (HostChargeTargetId_as_uuid target_id),
        show_int (money_cents amount), CurrencyCode_text (money_currency amount)])"

definition discount_amount_off :: "SubscriptionDiscountKind \<Rightarrow> rstring" where
  "discount_amount_off kind =
     (case kind of
        AmountOffCents v \<Rightarrow> show_int (PositiveDiscountCents_get v)
      | PercentOffBps _ \<Rightarrow> lit ''none'')"

definition discount_percent_off :: "SubscriptionDiscountKind \<Rightarrow> rstring" where
  "discount_percent_off kind =
     (case kind of
        AmountOffCents _ \<Rightarrow> lit ''none''
      | PercentOffBps v \<Rightarrow> show_nat (unat (PercentOffBasisPoints_get v)))"

definition discount_duration_months :: "SubscriptionDiscountDuration \<Rightarrow> rstring" where
  "discount_duration_months duration =
     (case duration of
        Indefinite \<Rightarrow> lit ''none''
      | LimitedMonths v \<Rightarrow> show_nat (unat (LimitedDiscountMonths_get v)))"

definition subscription_initial_expected_fingerprint ::
    "Money \<Rightarrow> SubscriptionDiscountSnapshot option \<Rightarrow> rstring" where
  "subscription_initial_expected_fingerprint amount discount =
     (case discount of
        Some snapshot \<Rightarrow> colon_fields
          [lit ''discounted'', SubscriptionDiscountCode_as_str (snapshot_code snapshot),
           SubscriptionDiscountKind_as_str (snapshot_kind snapshot),
           discount_amount_off (snapshot_kind snapshot),
           discount_percent_off (snapshot_kind snapshot),
           SubscriptionDiscountDuration_as_str (snapshot_duration snapshot),
           discount_duration_months (snapshot_duration snapshot),
           CurrencyCode_text (snapshot_currency snapshot),
           show_int (ChargeAmount_cents (snapshot_base_charge snapshot)),
           show_int (ChargeAmount_cents (snapshot_discounted_charge snapshot))]
      | None \<Rightarrow> colon_fields
          [lit ''full_price'', show_int (money_cents amount), CurrencyCode_text (money_currency amount)])"

text \<open>The eleven fields that both versions write for a discount.\<close>

definition discount_fields :: "displays \<Rightarrow> SubscriptionEnrollmentDiscountSnapshot \<Rightarrow> rstring list" where
  "discount_fields d discount =
     (let snapshot = enrolled_snapshot discount in
      [uuid_display d (DiscountClaimId_as_uuid (enrolled_claim_id discount)),
       uuid_display d (DiscountCodeId_as_uuid (enrolled_code_id discount)),
       SubscriptionDiscountCode_as_str (snapshot_code snapshot),
       SubscriptionDiscountKind_as_str (snapshot_kind snapshot),
       discount_amount_off (snapshot_kind snapshot),
       discount_percent_off (snapshot_kind snapshot),
       CurrencyCode_text (snapshot_currency snapshot),
       show_int (ChargeAmount_cents (snapshot_base_charge snapshot)),
       show_int (ChargeAmount_cents (snapshot_discounted_charge snapshot)),
       SubscriptionDiscountDuration_as_str (snapshot_duration snapshot),
       discount_duration_months (snapshot_duration snapshot)])"

definition for_subscription_initial_v1 ::
    "displays \<Rightarrow> PlanKey \<Rightarrow> Money \<Rightarrow> SubscriptionEnrollmentDiscountSnapshot option \<Rightarrow>
     PaymentAttemptFingerprint" where
  "for_subscription_initial_v1 d plan_key amount discount =
     (let authoritative =
            (case discount of
               Some discount \<Rightarrow> colon_fields
                 ([lit ''subscription_initial'', PlanKey_as_str plan_key, show_int (money_cents amount),
                   CurrencyCode_text (money_currency amount), lit ''discount''] @ discount_fields d discount)
             | None \<Rightarrow> colon_fields
                 [lit ''subscription_initial'', PlanKey_as_str plan_key, show_int (money_cents amount),
                  CurrencyCode_text (money_currency amount), lit ''discount'', lit ''none'']);
          expected = subscription_initial_expected_fingerprint amount (map_option enrolled_snapshot discount)
      in PaymentAttemptFingerprint (colon_fields [authoritative, lit ''expected'', expected]))"

definition matches_subscription_initial_expected_terms_v1 ::
    "PaymentAttemptFingerprint \<Rightarrow> PlanKey \<Rightarrow> SubscriptionEnrollmentExpectedTerms \<Rightarrow> bool" where
  "matches_subscription_initial_expected_terms_v1 self plan_key expected =
     (if expected_plan_key expected \<noteq> plan_key then False
      else suffix (lit '':expected:'' @ subscription_initial_expected_fingerprint
                     (ChargeAmount_money (expected_initial_charge expected))
                     (expected_discount_snapshot expected))
             (PaymentAttemptFingerprint_expose self))"

definition for_subscription_initial_v2 ::
    "displays \<Rightarrow> SubscriptionOffer \<Rightarrow> Money \<Rightarrow> SubscriptionEnrollmentDiscountSnapshot option \<Rightarrow>
     PaymentAttemptFingerprint" where
  "for_subscription_initial_v2 d offer amount discount =
     (let start =
            (case offer_start offer of
               RecurringImmediately \<Rightarrow> [lit ''recurring_immediately'', lit ''trial'', lit ''none'']
             | SubscriptionStart.PaidTrial trial \<Rightarrow>
                 [lit ''paid_trial'', lit ''trial'', show_int (ChargeAmount_cents (trial_charge trial)),
                  CurrencyCode_text (ChargeAmount_currency (trial_charge trial)),
                  SubscriptionPeriodRule_as_str (trial_period trial),
                  show_nat (unat (SubscriptionPeriodRule_count (trial_period trial)))]);
          recurring = offer_recurring offer;
          policy = offer_renewal_failure offer;
          retry_delays = sep_fields comma
            (map (\<lambda>delay. show_nat (unat (delay_seconds delay))) (retry_delays (policy_schedule policy)));
          discount =
            (case discount of Some discount \<Rightarrow> discount_fields d discount | None \<Rightarrow> [lit ''none''])
      in PaymentAttemptFingerprint (colon_fields
           ([lit ''subscription_initial'', lit ''v2'', PlanKey_as_str (offer_plan_key offer), lit ''start''] @ start @
            [lit ''recurring'', show_int (ChargeAmount_cents (recurring_charge recurring)),
             CurrencyCode_text (ChargeAmount_currency (recurring_charge recurring)),
             SubscriptionPeriodRule_as_str (recurring_period recurring),
             show_nat (unat (SubscriptionPeriodRule_count (recurring_period recurring))),
             lit ''dunning'', lit ''['' @ retry_delays @ lit '']'',
             DunningExhaustion_as_str (policy_exhaustion policy),
             PastDueAccessPolicy_as_str (policy_past_due_access policy),
             lit ''initial'', show_int (money_cents amount), CurrencyCode_text (money_currency amount),
             lit ''discount''] @ discount)))"

definition for_subscription_recovery ::
    "displays \<Rightarrow> PlanKey \<Rightarrow> SubscriptionId \<Rightarrow> PaymentMethodId \<Rightarrow> datetime \<Rightarrow> Money \<Rightarrow>
     PaymentAttemptFingerprint" where
  "for_subscription_recovery d plan_key subscription_id payment_method_id start_at amount =
     PaymentAttemptFingerprint (colon_fields
       [lit ''subscription_recovery'', PlanKey_as_str plan_key,
        uuid_display d (SubscriptionId_as_uuid subscription_id),
        uuid_display d (PaymentMethodId_as_uuid payment_method_id),
        datetime_display d start_at,
        show_int (money_cents amount), CurrencyCode_text (money_currency amount)])"

definition for_subscription_renewal ::
    "displays \<Rightarrow> PlanKey \<Rightarrow> SubscriptionId \<Rightarrow> PaymentMethodId \<Rightarrow> datetime \<Rightarrow> Money \<Rightarrow>
     PaymentAttemptFingerprint" where
  "for_subscription_renewal d plan_key subscription_id payment_method_id start_at amount =
     PaymentAttemptFingerprint (colon_fields
       [lit ''subscription_renewal'', PlanKey_as_str plan_key,
        uuid_display d (SubscriptionId_as_uuid subscription_id),
        uuid_display d (PaymentMethodId_as_uuid payment_method_id),
        datetime_display d start_at,
        show_int (money_cents amount), CurrencyCode_text (money_currency amount)])"

definition for_subscription_payment_method_update ::
    "displays \<Rightarrow> PlanKey \<Rightarrow> SubscriptionId \<Rightarrow> PaymentMethodId \<Rightarrow> GatewayTransactionId \<Rightarrow>
     PaymentAttemptFingerprint" where
  "for_subscription_payment_method_update d plan_key subscription_id payment_method_id initial_id =
     PaymentAttemptFingerprint (colon_fields
       [lit ''subscription_payment_method_update'', PlanKey_as_str plan_key,
        uuid_display d (SubscriptionId_as_uuid subscription_id),
        uuid_display d (PaymentMethodId_as_uuid payment_method_id),
        GatewayTransactionId_expose initial_id])"

definition matches_subscription_initial_v2 ::
    "displays \<Rightarrow> PaymentAttemptFingerprint \<Rightarrow> SubscriptionOffer \<Rightarrow> Money \<Rightarrow>
     SubscriptionEnrollmentDiscountSnapshot option \<Rightarrow> bool" where
  "matches_subscription_initial_v2 d self offer amount discount =
     (self = for_subscription_initial_v2 d offer amount discount)"

definition matches_subscription_recovery ::
    "displays \<Rightarrow> PaymentAttemptFingerprint \<Rightarrow> PlanKey \<Rightarrow> SubscriptionId \<Rightarrow> PaymentMethodId \<Rightarrow> datetime \<Rightarrow>
     Money \<Rightarrow> bool" where
  "matches_subscription_recovery d self plan_key subscription_id payment_method_id start_at amount =
     (self = for_subscription_recovery d plan_key subscription_id payment_method_id start_at amount)"

definition matches_subscription_renewal ::
    "displays \<Rightarrow> PaymentAttemptFingerprint \<Rightarrow> PlanKey \<Rightarrow> SubscriptionId \<Rightarrow> PaymentMethodId \<Rightarrow> datetime \<Rightarrow>
     Money \<Rightarrow> bool" where
  "matches_subscription_renewal d self plan_key subscription_id payment_method_id start_at amount =
     (self = for_subscription_renewal d plan_key subscription_id payment_method_id start_at amount)"

definition matches_subscription_payment_method_update ::
    "displays \<Rightarrow> PaymentAttemptFingerprint \<Rightarrow> PlanKey \<Rightarrow> PaymentMethodUpdateSnapshot \<Rightarrow> bool" where
  "matches_subscription_payment_method_update d self plan_key expected =
     (self = for_subscription_payment_method_update d plan_key (method_update_subscription_id expected)
               (method_update_payment_method_id expected) (method_update_expected_initial_transaction_id expected))"

section \<open>Attempts\<close>

record PaymentAttemptIdentity =
  identity_attempt_id :: PaymentAttemptId
  identity_billing_scope_id :: BillingScopeId
  identity_subscriber_id :: SubscriberId
  identity_gateway_account_id :: GatewayAccountId
  identity_gateway_configuration_id :: GatewayConfigurationId
  identity_required_gateway_account_mode :: GatewayAccountMode

record PaymentAttemptRequest =
  request_target :: PaymentAttemptTarget
  request_idempotency_key :: IdempotencyKey
  request_fingerprint :: PaymentAttemptFingerprint
  request_amount :: Money
  request_gateway_order_id :: GatewayOrderId
  request_billing_contact :: BillingContactSnapshot

record PaymentAttemptLifecycle =
  attempt_lifecycle_state :: GatewayLifecycleState
  attempt_lifecycle_action :: "GatewayDiagnostic option"
  attempt_lifecycle_effective_at :: "datetime option"
  attempt_lifecycle_reconciled_at :: "datetime option"

definition PaymentAttemptLifecycle_default :: PaymentAttemptLifecycle where
  "PaymentAttemptLifecycle_default =
     \<lparr>attempt_lifecycle_state = GatewayLifecycleState.Unknown, attempt_lifecycle_action = None,
      attempt_lifecycle_effective_at = None, attempt_lifecycle_reconciled_at = None\<rparr>"

record PaymentAttemptState =
  state_status :: PaymentAttemptStatus
  state_resolution_code :: "PaymentResolutionCode option"
  state_processor_evidence :: ProcessorEvidence
  state_lifecycle :: PaymentAttemptLifecycle
  state_timestamps :: PaymentAttemptTimestamps

datatype PaymentAttemptError =
    ZeroAmountRequiresPaymentMethodUpdate
  | PaymentMethodUpdateRequiresZeroAmount
  | InitialApplicationBeforeResolution
  | ApprovedInitialMissingApplication
  | TerminalAttemptMissingResolvedAt
  | ReviewAttemptMissingReviewRequiredAt
  | UpdatedBeforeCreated
  | InvalidLifecycleAmount

record PaymentAttempt =
  attempt_identity :: PaymentAttemptIdentity
  attempt_request :: PaymentAttemptRequest
  attempt_state :: PaymentAttemptState

primrec lifecycle_amount_is_valid :: "GatewayLifecycleState \<Rightarrow> int \<Rightarrow> bool" where
  "lifecycle_amount_is_valid GatewayLifecycleState.Unknown amount_cents = True"
| "lifecycle_amount_is_valid PendingSettlement amount_cents = True"
| "lifecycle_amount_is_valid GatewayLifecycleState.Voided amount_cents = True"
| "lifecycle_amount_is_valid (Settled refunded) amount_cents =
     is_none_or refunded (\<lambda>r. CumulativeRefundCents_get r < amount_cents)"
| "lifecycle_amount_is_valid (GatewayLifecycleState.Refunded refunded) amount_cents \<longleftrightarrow>
     amount_cents > 0 \<and> CumulativeRefundCents_get refunded = amount_cents"
| "lifecycle_amount_is_valid (GatewayLifecycleState.Chargeback refunded) amount_cents =
     is_none_or refunded (\<lambda>r. CumulativeRefundCents_get r \<le> amount_cents)"

definition PaymentAttempt_new ::
    "PaymentAttemptIdentity \<Rightarrow> PaymentAttemptRequest \<Rightarrow> PaymentAttemptState \<Rightarrow>
     (PaymentAttempt, PaymentAttemptError) result" where
  "PaymentAttempt_new identity request state =
     (let is_update = (target_attempt_kind (request_target request) =
            PaymentAttemptKind.SubscriptionPaymentMethodUpdate);
          cents = money_cents (request_amount request);
          status = state_status state;
          timestamps = state_timestamps state
      in if \<not> is_update \<and> cents = 0 then Err ZeroAmountRequiresPaymentMethodUpdate
         else if is_update \<and> cents \<noteq> 0 then Err PaymentMethodUpdateRequiresZeroAmount
         else if (case request_target request of
                    SubscriptionInitial _ _ _ application \<Rightarrow>
                      status \<in> {PaymentAttemptStatus.Pending, PaymentAttemptStatus.Unknown} \<and> application \<noteq> None
                  | _ \<Rightarrow> False)
         then Err InitialApplicationBeforeResolution
         else if (case request_target request of
                    SubscriptionInitial _ _ _ application \<Rightarrow>
                      status = PaymentAttemptStatus.Approved \<and> application = None
                  | _ \<Rightarrow> False)
         then Err ApprovedInitialMissingApplication
         else if PaymentAttemptStatus_is_terminal status \<and> stamp_resolved_at timestamps = None
         then Err TerminalAttemptMissingResolvedAt
         else if status = ReviewRequired \<and> stamp_review_required_at timestamps = None
         then Err ReviewAttemptMissingReviewRequiredAt
         else if stamp_updated_at timestamps < stamp_created_at timestamps then Err UpdatedBeforeCreated
         else if \<not> lifecycle_amount_is_valid (attempt_lifecycle_state (state_lifecycle state)) cents
         then Err InvalidLifecycleAmount
         else Ok \<lparr>attempt_identity = identity, attempt_request = request, attempt_state = state\<rparr>)"

definition PaymentAttempt_kind :: "PaymentAttempt \<Rightarrow> PaymentAttemptKind" where
  "PaymentAttempt_kind self = target_attempt_kind (request_target (attempt_request self))"

definition PaymentAttempt_status :: "PaymentAttempt \<Rightarrow> PaymentAttemptStatus" where
  "PaymentAttempt_status self = state_status (attempt_state self)"

end
