(* ===== verification/Attempt_Fingerprint.thy ===== *)
theory Attempt_Fingerprint
  imports Attempt
begin

text \<open>
  What a fingerprint identifies.  The fields of every fingerprint can be read back, so two requests
  have the same fingerprint exactly when their terms are the same, and requests of different
  kinds never share one.
\<close>

text \<open>What is relied on of the displayed forms: they determine the value, and an identifier's has
  no colon.\<close>

definition displays_ok :: "displays \<Rightarrow> bool" where
  "displays_ok d \<longleftrightarrow>
     inj (uuid_display d) \<and> inj (datetime_display d) \<and> (\<forall>u. colon \<notin> set (uuid_display d u))"

definition Money_text_wf :: "Money \<Rightarrow> bool" where
  "Money_text_wf m \<longleftrightarrow> CurrencyCode_wf (money_currency m)"

definition PlanKey_text_wf :: "PlanKey \<Rightarrow> bool" where
  "PlanKey_text_wf k \<longleftrightarrow> slug_text (PlanKey_as_str k)"

text \<open>Fields without a colon.\<close>

named_theorems colon_free

lemma lit_no_colon [colon_free]: "CHR '':'' \<notin> set s \<Longrightarrow> colon \<notin> set (lit s)"
proof -
  have "inj (of_char :: char \<Rightarrow> nat)" by (rule injI) simp
  from inj_image_mem_iff [OF this, of "CHR '':''" "set s"]
  show "CHR '':'' \<notin> set s \<Longrightarrow> colon \<notin> set (lit s)"
    by (simp add: lit_def colon_def)
qed

lemma field_no_colon [colon_free]:
  "displays_ok d \<Longrightarrow> colon \<notin> set (uuid_display d u)"
  "PlanKey_text_wf k \<Longrightarrow> colon \<notin> set (PlanKey_as_str k)"
  "CurrencyCode_wf c \<Longrightarrow> colon \<notin> set (CurrencyCode_text c)"
  "colon \<notin> set (show_int i)"
  "colon \<notin> set (show_nat n)"
  by (simp_all add: displays_ok_def PlanKey_text_wf_def slug_text_no_colon CurrencyCode_text_no_colon
      show_int_no_colon show_nat_no_colon)

lemma uuid_display_inject [simp]: "displays_ok d \<Longrightarrow> uuid_display d u = uuid_display d v \<longleftrightarrow> u = v"
  by (auto simp: displays_ok_def dest: injD)

lemma datetime_display_inject [simp]:
  "displays_ok d \<Longrightarrow> datetime_display d s = datetime_display d t \<longleftrightarrow> s = t"
  by (auto simp: displays_ok_def dest: injD)

lemma as_uuid_inject [simp]:
  "SubscriptionId_as_uuid a = SubscriptionId_as_uuid b \<longleftrightarrow> a = b"
  "PaymentMethodId_as_uuid m = PaymentMethodId_as_uuid n \<longleftrightarrow> m = n"
  "DiscountClaimId_as_uuid p = DiscountClaimId_as_uuid q \<longleftrightarrow> p = q"
  "DiscountCodeId_as_uuid r = DiscountCodeId_as_uuid s \<longleftrightarrow> r = s"
  by (auto intro: SubscriptionId.expand PaymentMethodId.expand DiscountClaimId.expand DiscountCodeId.expand)

lemma Money_eq_iff: "money_cents m = money_cents n \<and> money_currency m = money_currency n \<longleftrightarrow> m = (n :: Money)"
  by (cases m; cases n) auto

section \<open>Renewals and recoveries\<close>

text \<open>A renewal fingerprint identifies the charge: two renewals have the same fingerprint
  exactly when plan, subscription, payment method, period start, amount and currency agree, even
  though a displayed instant may itself hold colons; and no renewal shares its fingerprint with
  a recovery, so an automatic charge is never taken for a subscriber's own payment.\<close>

lemma renewal_fingerprint_identifies:
  assumes "displays_ok d" and "PlanKey_text_wf k" and "PlanKey_text_wf k'"
    and "Money_text_wf a" and "Money_text_wf a'"
  shows "(for_subscription_renewal d k s m t a = for_subscription_renewal d k' s' m' t' a' \<longleftrightarrow>
      k = k' \<and> s = s' \<and> m = m' \<and> t = t' \<and> a = a') \<and>
    for_subscription_renewal d k s m t a \<noteq> for_subscription_recovery d k' s' m' t' a'"
proof -
  let ?front = "\<lambda>tag k s m. [tag, PlanKey_as_str k, uuid_display d (SubscriptionId_as_uuid s),
    uuid_display d (PaymentMethodId_as_uuid m)]"
  let ?rear = "\<lambda>a :: Money. [show_int (money_cents a), CurrencyCode_text (money_currency a)]"
  have split: "colon_fields (?front (lit x) k s m @ [u] @ ?rear a) = colon_fields (?front (lit y) k' s' m' @ [v] @ ?rear a')
      \<longleftrightarrow> ?front (lit x) k s m = ?front (lit y) k' s' m' \<and> u = v \<and> ?rear a = ?rear a'"
    if "CHR '':'' \<notin> set x" "CHR '':'' \<notin> set y" for x y u v
  proof -
    have "colon_fields (?front (lit x) k s m @ ([u] @ ?rear a)) = colon_fields (?front (lit y) k' s' m' @ ([v] @ ?rear a'))
        \<longleftrightarrow> ?front (lit x) k s m = ?front (lit y) k' s' m' \<and> colon_fields ([u] @ ?rear a) = colon_fields ([v] @ ?rear a')"
      using assms that by (intro fields_front_inject) (simp_all add: colon_free)
    also have "colon_fields ([u] @ ?rear a) = colon_fields ([v] @ ?rear a') \<longleftrightarrow>
        ?rear a = ?rear a' \<and> colon_fields [u] = colon_fields [v]"
      using assms by (intro fields_back_inject) (simp_all add: colon_free Money_text_wf_def)
    finally show ?thesis by auto
  qed
  show ?thesis
    using split [of "''subscription_renewal''" "''subscription_renewal''" "datetime_display d t" "datetime_display d t'"]
      split [of "''subscription_renewal''" "''subscription_recovery''" "datetime_display d t" "datetime_display d t'"]
      assms(1) Money_eq_iff [of a a']
    by (auto simp: for_subscription_renewal_def for_subscription_recovery_def)
qed

section \<open>Enrollment\<close>

definition ChargeAmount_text_wf :: "ChargeAmount \<Rightarrow> bool" where
  "ChargeAmount_text_wf c \<longleftrightarrow> CurrencyCode_wf (ChargeAmount_currency c)"

definition offer_text_wf :: "SubscriptionOffer \<Rightarrow> bool" where
  "offer_text_wf o1 \<longleftrightarrow>
     PlanKey_text_wf (offer_plan_key o1) \<and> ChargeAmount_text_wf (recurring_charge (offer_recurring o1)) \<and>
     (case offer_start o1 of RecurringImmediately \<Rightarrow> True
      | SubscriptionStart.PaidTrial t \<Rightarrow> ChargeAmount_text_wf (trial_charge t))"

definition snapshot_text_wf :: "SubscriptionDiscountSnapshot \<Rightarrow> bool" where
  "snapshot_text_wf s \<longleftrightarrow>
     ChargeAmount_text_wf (snapshot_base_charge s) \<and>
     ChargeAmount_currency (snapshot_discounted_charge s) = ChargeAmount_currency (snapshot_base_charge s) \<and>
     list_all is_discount_code_byte (SubscriptionDiscountCode_as_str (snapshot_code s))"

lemma ChargeAmount_eq_iff:
  "ChargeAmount_cents a = ChargeAmount_cents b \<and> ChargeAmount_currency a = ChargeAmount_currency b \<longleftrightarrow> a = b"
  by (cases a; cases b) (auto simp: ChargeAmount_cents_def ChargeAmount_currency_def Money_eq_iff [symmetric])

lemma period_rule_eq_iff:
  "SubscriptionPeriodRule_as_str r = SubscriptionPeriodRule_as_str r' \<and>
   SubscriptionPeriodRule_count r = SubscriptionPeriodRule_count r' \<longleftrightarrow> r = r'"
  by (cases r; cases r') auto

lemma lit_not_digits: "s \<noteq> [] \<Longrightarrow> \<not> is_ascii_digit (of_char (hd s)) \<Longrightarrow> of_char (hd s) \<noteq> (45 :: nat) \<Longrightarrow>
  lit s \<noteq> show_nat n \<and> lit s \<noteq> show_int i"
proof -
  assume s: "s \<noteq> []" and h: "\<not> is_ascii_digit (of_char (hd s))" "of_char (hd s) \<noteq> (45 :: nat)"
  have nat: "lit s \<noteq> show_nat m" for m
    using show_nat_digits [of m] s h by (cases s) (auto simp: lit_eval list_all_iff, metis list.set_intros(1))
  moreover have "lit s \<noteq> 45 # r" for r using s h(2) by (cases s) (auto simp: lit_eval)
  ultimately show ?thesis by (auto simp: show_int_def split: if_splits)
qed

lemma none_not_number [simp]:
  "lit ''none'' \<noteq> show_nat n" "lit ''none'' \<noteq> show_int i" "show_nat n \<noteq> lit ''none''" "show_int i \<noteq> lit ''none''"
  using lit_not_digits [of "''none''" n i] by (simp_all add: is_ascii_digit_def) metis+

lemma discount_kind_fields_iff:
  "SubscriptionDiscountKind_as_str k = SubscriptionDiscountKind_as_str k' \<and>
   discount_amount_off k = discount_amount_off k' \<and> discount_percent_off k = discount_percent_off k' \<longleftrightarrow> k = k'"
  by (cases k; cases k')
     (auto simp: discount_amount_off_def discount_percent_off_def word_unat_eq_iff
       intro: PositiveDiscountCents.expand PercentOffBasisPoints.expand)

lemma discount_duration_fields_iff:
  "SubscriptionDiscountDuration_as_str t = SubscriptionDiscountDuration_as_str t' \<and>
   discount_duration_months t = discount_duration_months t' \<longleftrightarrow> t = t'"
  by (cases t; cases t')
     (auto simp: discount_duration_months_def word_unat_eq_iff intro: LimitedDiscountMonths.expand)

lemma code_as_str_inject [simp]:
  "SubscriptionDiscountCode_as_str c = SubscriptionDiscountCode_as_str c' \<longleftrightarrow> c = c'"
  by (auto intro: SubscriptionDiscountCode.expand)

lemma kind_no_colon [colon_free]:
  "colon \<notin> set (SubscriptionDiscountKind_as_str k)"
  "colon \<notin> set (discount_amount_off k)" "colon \<notin> set (discount_percent_off k)"
  by (cases k; simp add: colon_free discount_amount_off_def discount_percent_off_def)+

lemma duration_no_colon [colon_free]:
  "colon \<notin> set (SubscriptionDiscountDuration_as_str t)" "colon \<notin> set (discount_duration_months t)"
  by (cases t; simp add: colon_free discount_duration_months_def)+

lemma period_rule_no_colon [colon_free]: "colon \<notin> set (SubscriptionPeriodRule_as_str r)"
  by (cases r) (simp_all add: colon_free)

lemma exhaustion_no_colon [colon_free]: "colon \<notin> set (DunningExhaustion_as_str e)"
  by (cases e) (simp_all add: colon_free)

lemma access_no_colon [colon_free]: "colon \<notin> set (PastDueAccessPolicy_as_str a)"
  by (cases a) (simp_all add: colon_free)

lemma snapshot_no_colon [colon_free]:
  "snapshot_text_wf s \<Longrightarrow> colon \<notin> set (SubscriptionDiscountCode_as_str (snapshot_code s))"
  "snapshot_text_wf s \<Longrightarrow> colon \<notin> set (CurrencyCode_text (snapshot_currency s))"
  by (auto simp: snapshot_text_wf_def list_all_iff is_discount_code_byte_def ascii_class_defs colon_def
      ChargeAmount_text_wf_def snapshot_currency_def CurrencyCode_text_no_colon [unfolded colon_def])

text \<open>The fields of a discount give its identifiers and its charge terms.\<close>

definition same_enrolled_discount ::
    "SubscriptionEnrollmentDiscountSnapshot \<Rightarrow> SubscriptionEnrollmentDiscountSnapshot \<Rightarrow> bool" where
  "same_enrolled_discount x y \<longleftrightarrow>
     enrolled_claim_id x = enrolled_claim_id y \<and> enrolled_code_id x = enrolled_code_id y \<and>
     has_same_charge_terms (enrolled_snapshot x) (enrolled_snapshot y)"

lemma charge_terms_iff:
  assumes "snapshot_text_wf s" and "snapshot_text_wf s'"
  shows "has_same_charge_terms s s' \<longleftrightarrow>
    snapshot_code s = snapshot_code s' \<and>
    (SubscriptionDiscountKind_as_str (snapshot_kind s) = SubscriptionDiscountKind_as_str (snapshot_kind s') \<and>
     discount_amount_off (snapshot_kind s) = discount_amount_off (snapshot_kind s') \<and>
     discount_percent_off (snapshot_kind s) = discount_percent_off (snapshot_kind s')) \<and>
    (SubscriptionDiscountDuration_as_str (snapshot_duration s) =
       SubscriptionDiscountDuration_as_str (snapshot_duration s') \<and>
     discount_duration_months (snapshot_duration s) = discount_duration_months (snapshot_duration s')) \<and>
    snapshot_currency s = snapshot_currency s' \<and>
    ChargeAmount_cents (snapshot_base_charge s) = ChargeAmount_cents (snapshot_base_charge s') \<and>
    ChargeAmount_cents (snapshot_discounted_charge s) = ChargeAmount_cents (snapshot_discounted_charge s')"
  using assms
  unfolding has_same_charge_terms_def discount_kind_fields_iff discount_duration_fields_iff snapshot_currency_def
    ChargeAmount_eq_iff [symmetric] snapshot_text_wf_def
  by auto

lemma discount_fields_eq_iff:
  assumes "displays_ok d" and "snapshot_text_wf (enrolled_snapshot x)" and "snapshot_text_wf (enrolled_snapshot y)"
  shows "discount_fields d x = discount_fields d y \<longleftrightarrow> same_enrolled_discount x y"
  unfolding same_enrolled_discount_def charge_terms_iff [OF assms(2,3)]
  using assms(1) by (auto simp: discount_fields_def Let_def)

lemma discount_fields_free:
  "displays_ok d \<Longrightarrow> snapshot_text_wf (enrolled_snapshot x) \<Longrightarrow> list_all (\<lambda>f. colon \<notin> set f) (discount_fields d x)"
  by (simp add: discount_fields_def Let_def colon_free)

lemma delays_field_inject:
  fixes xs ys :: "DunningRetryDelay list"
  shows "sep_fields comma (map (\<lambda>x. show_nat (unat (delay_seconds x))) xs) =
   sep_fields comma (map (\<lambda>x. show_nat (unat (delay_seconds x))) ys) \<longleftrightarrow> xs = ys"
proof -
  have "comma \<notin> set (show_nat n)" for n
    using show_nat_digits [of n] by (auto simp: list_all_iff is_ascii_digit_def comma_def)
  then have "sep_fields comma (map (\<lambda>x. show_nat (unat (delay_seconds x))) xs) =
      sep_fields comma (map (\<lambda>x. show_nat (unat (delay_seconds x))) ys) \<longleftrightarrow>
    map (\<lambda>x. show_nat (unat (delay_seconds x))) xs = map (\<lambda>x. show_nat (unat (delay_seconds x))) ys"
    by (intro sep_fields_inject_nonempty) (simp_all add: list_all_iff)
  also have "inj (\<lambda>x :: DunningRetryDelay. show_nat (unat (delay_seconds x)))"
    by (rule injI) (simp add: word_unat_eq_iff [symmetric])
  from inj_map_eq_map [OF this] have "map (\<lambda>x. show_nat (unat (delay_seconds x))) xs =
      map (\<lambda>x. show_nat (unat (delay_seconds x))) ys \<longleftrightarrow> xs = ys" .
  finally show ?thesis .
qed

lemma delays_field_free: "colon \<notin> set (lit ''['' @ sep_fields comma (map (\<lambda>x. show_nat (unat (delay_seconds x))) xs) @ lit '']'')"
proof -
  have "colon \<noteq> comma" by (simp add: colon_def comma_def)
  then have "colon \<notin> set (sep_fields comma (map (\<lambda>x. show_nat (unat (delay_seconds x))) xs))"
    using set_sep_fields [of comma "map (\<lambda>x. show_nat (unat (delay_seconds x))) xs"] show_nat_no_colon by fastforce
  then show ?thesis by (simp add: colon_free)
qed

text \<open>The fields between the tags of a version-2 fingerprint.\<close>

definition start_fields :: "SubscriptionStart \<Rightarrow> rstring list" where
  "start_fields start =
     (case start of
        RecurringImmediately \<Rightarrow> [lit ''recurring_immediately'', lit ''trial'', lit ''none'']
      | SubscriptionStart.PaidTrial trial \<Rightarrow>
          [lit ''paid_trial'', lit ''trial'', show_int (ChargeAmount_cents (trial_charge trial)),
           CurrencyCode_text (ChargeAmount_currency (trial_charge trial)),
           SubscriptionPeriodRule_as_str (trial_period trial),
           show_nat (unat (SubscriptionPeriodRule_count (trial_period trial)))])"

definition offer_tail_fields :: "SubscriptionOffer \<Rightarrow> Money \<Rightarrow> rstring list" where
  "offer_tail_fields offer amount =
     [lit ''recurring'', show_int (ChargeAmount_cents (recurring_charge (offer_recurring offer))),
      CurrencyCode_text (ChargeAmount_currency (recurring_charge (offer_recurring offer))),
      SubscriptionPeriodRule_as_str (recurring_period (offer_recurring offer)),
      show_nat (unat (SubscriptionPeriodRule_count (recurring_period (offer_recurring offer)))),
      lit ''dunning'',
      lit ''['' @ sep_fields comma (map (\<lambda>x. show_nat (unat (delay_seconds x)))
        (retry_delays (policy_schedule (offer_renewal_failure offer)))) @ lit '']'',
      DunningExhaustion_as_str (policy_exhaustion (offer_renewal_failure offer)),
      PastDueAccessPolicy_as_str (policy_past_due_access (offer_renewal_failure offer)),
      lit ''initial'', show_int (money_cents amount), CurrencyCode_text (money_currency amount),
      lit ''discount'']"

definition discount_or_none :: "displays \<Rightarrow> SubscriptionEnrollmentDiscountSnapshot option \<Rightarrow> rstring list" where
  "discount_or_none d x = (case x of Some y \<Rightarrow> discount_fields d y | None \<Rightarrow> [lit ''none''])"

lemma v2_fields:
  "for_subscription_initial_v2 d offer amount x = PaymentAttemptFingerprint (colon_fields
     ([lit ''subscription_initial'', lit ''v2'', PlanKey_as_str (offer_plan_key offer), lit ''start''] @
      start_fields (offer_start offer) @ offer_tail_fields offer amount @ discount_or_none d x))"
  by (simp add: for_subscription_initial_v2_def start_fields_def offer_tail_fields_def discount_or_none_def Let_def)

lemma start_fields_split:
  "start_fields s @ offer_tail_fields o1 a @ xs = start_fields s' @ offer_tail_fields o1' a' @ ys \<longleftrightarrow>
     s = s' \<and> offer_tail_fields o1 a = offer_tail_fields o1' a' \<and> xs = ys"
proof -
  have "trial_charge t = trial_charge t' \<and> trial_period t = trial_period t' \<longleftrightarrow> t = t'" for t t' :: PaidTrialTerms
    by (cases t; cases t') auto
  moreover have "length (offer_tail_fields o1 a) = length (offer_tail_fields o1' a')"
    by (simp add: offer_tail_fields_def)
  ultimately show ?thesis
    by (cases s; cases s')
       (auto simp: start_fields_def word_unat_eq_iff [symmetric] ChargeAmount_eq_iff [symmetric]
         period_rule_eq_iff [symmetric])
qed

lemma offer_tail_fields_eq_iff:
  "offer_tail_fields o1 a = offer_tail_fields o1' a' \<longleftrightarrow>
     offer_recurring o1 = offer_recurring o1' \<and> offer_renewal_failure o1 = offer_renewal_failure o1' \<and> a = a'"
proof -
  have "recurring_charge t = recurring_charge t' \<and> recurring_period t = recurring_period t' \<longleftrightarrow> t = t'"
    for t t' :: RecurringSubscriptionTerms by (cases t; cases t') auto
  moreover have "retry_delays (policy_schedule p) = retry_delays (policy_schedule p') \<and>
      policy_exhaustion p = policy_exhaustion p' \<and> policy_past_due_access p = policy_past_due_access p' \<longleftrightarrow> p = p'"
    for p p' :: RenewalFailurePolicy by (cases p; cases p') (auto intro: DunningSchedule.expand)
  ultimately show ?thesis
    unfolding ChargeAmount_eq_iff [symmetric] period_rule_eq_iff [symmetric] Money_eq_iff [symmetric]
    by (auto simp: offer_tail_fields_def delays_field_inject word_unat_eq_iff [symmetric]
        dunning_exhaustion.as_str_inject past_due_access.as_str_inject)
qed

lemma v2_fields_free:
  assumes "displays_ok d" and "offer_text_wf o1" and "Money_text_wf a"
    and "pred_option (\<lambda>x. snapshot_text_wf (enrolled_snapshot x)) x"
  shows "list_all (\<lambda>f. colon \<notin> set f)
    ([lit ''subscription_initial'', lit ''v2'', PlanKey_as_str (offer_plan_key o1), lit ''start''] @
     start_fields (offer_start o1) @ offer_tail_fields o1 a @ discount_or_none d x)"
proof -
  have "list_all (\<lambda>f. colon \<notin> set f) (start_fields (offer_start o1))"
    using assms(2)
    by (cases "offer_start o1") (auto simp: start_fields_def colon_free offer_text_wf_def ChargeAmount_text_wf_def)
  moreover have "list_all (\<lambda>f. colon \<notin> set f) (offer_tail_fields o1 a)"
    using assms(2,3) delays_field_free
    by (simp add: offer_tail_fields_def colon_free offer_text_wf_def ChargeAmount_text_wf_def Money_text_wf_def)
  moreover have "list_all (\<lambda>f. colon \<notin> set f) (discount_or_none d x)"
    using assms(1,4) by (cases x) (simp_all add: discount_or_none_def colon_free discount_fields_free)
  ultimately show ?thesis using assms(2) by (simp add: colon_free offer_text_wf_def)
qed

lemma discount_or_none_eq_iff:
  assumes "displays_ok d" and "pred_option (\<lambda>x. snapshot_text_wf (enrolled_snapshot x)) x"
    and "pred_option (\<lambda>x. snapshot_text_wf (enrolled_snapshot x)) y"
  shows "discount_or_none d x = discount_or_none d y \<longleftrightarrow> rel_option same_enrolled_discount x y"
proof -
  have "discount_fields d z \<noteq> [lit ''none'']" "[lit ''none''] \<noteq> discount_fields d z" for z
    by (simp_all add: discount_fields_def Let_def)
  then show ?thesis
    using assms by (cases x; cases y) (simp_all add: discount_or_none_def discount_fields_eq_iff)
qed

text \<open>C35.  A version-2 enrollment fingerprint identifies everything the subscriber accepted: two
  requests have the same fingerprint exactly when their offers are equal (plan, start and trial,
  price, cadence, every dunning delay, exhaustion and access policy), the first charge is equal
  and the discounts agree in claim, code and charge terms.  Only the label of a discount is left
  out.\<close>

theorem enrollment_fingerprint_identifies:
  assumes "displays_ok d" and "offer_text_wf o1" and "offer_text_wf o2"
    and "Money_text_wf a" and "Money_text_wf b"
    and "pred_option (\<lambda>x. snapshot_text_wf (enrolled_snapshot x)) x"
    and "pred_option (\<lambda>x. snapshot_text_wf (enrolled_snapshot x)) y"
  shows "for_subscription_initial_v2 d o1 a x = for_subscription_initial_v2 d o2 b y \<longleftrightarrow>
    o1 = o2 \<and> a = b \<and> rel_option same_enrolled_discount x y"
proof -
  have offer: "offer_plan_key o1 = offer_plan_key o2 \<and> offer_start o1 = offer_start o2 \<and>
      offer_recurring o1 = offer_recurring o2 \<and> offer_renewal_failure o1 = offer_renewal_failure o2 \<longleftrightarrow> o1 = o2"
    by (cases o1; cases o2) auto
  have "for_subscription_initial_v2 d o1 a x = for_subscription_initial_v2 d o2 b y \<longleftrightarrow>
      offer_plan_key o1 = offer_plan_key o2 \<and>
      start_fields (offer_start o1) @ offer_tail_fields o1 a @ discount_or_none d x =
        start_fields (offer_start o2) @ offer_tail_fields o2 b @ discount_or_none d y"
    unfolding v2_fields PaymentAttemptFingerprint.inject
    by (subst sep_fields_inject [OF v2_fields_free [OF assms(1,2,4,6)] v2_fields_free [OF assms(1,3,5,7)]]) simp_all
  then show ?thesis
    unfolding start_fields_split offer_tail_fields_eq_iff discount_or_none_eq_iff [OF assms(1,6,7)]
    using offer by blast
qed

section \<open>The terms a version-1 fingerprint expects\<close>

definition expected_fields :: "Money \<Rightarrow> SubscriptionDiscountSnapshot option \<Rightarrow> rstring list" where
  "expected_fields amount discount =
     (case discount of
        Some s \<Rightarrow>
          [lit ''discounted'', SubscriptionDiscountCode_as_str (snapshot_code s),
           SubscriptionDiscountKind_as_str (snapshot_kind s), discount_amount_off (snapshot_kind s),
           discount_percent_off (snapshot_kind s), SubscriptionDiscountDuration_as_str (snapshot_duration s),
           discount_duration_months (snapshot_duration s), CurrencyCode_text (snapshot_currency s),
           show_int (ChargeAmount_cents (snapshot_base_charge s)),
           show_int (ChargeAmount_cents (snapshot_discounted_charge s))]
      | None \<Rightarrow> [lit ''full_price'', show_int (money_cents amount), CurrencyCode_text (money_currency amount)])"

lemma expected_fingerprint_fields:
  "subscription_initial_expected_fingerprint amount discount = colon_fields (expected_fields amount discount)"
  by (simp add: subscription_initial_expected_fingerprint_def expected_fields_def split: option.split)

lemma expected_fields_nonempty [simp]: "expected_fields amount discount \<noteq> []"
  by (simp add: expected_fields_def split: option.split)

lemma v1_fields:
  "for_subscription_initial_v1 d k a x = PaymentAttemptFingerprint (colon_fields
     (([lit ''subscription_initial'', PlanKey_as_str k, show_int (money_cents a),
        CurrencyCode_text (money_currency a), lit ''discount''] @ discount_or_none d x) @
      lit ''expected'' # expected_fields a (map_option enrolled_snapshot x)))"
proof -
  let ?auth = "[lit ''subscription_initial'', PlanKey_as_str k, show_int (money_cents a),
    CurrencyCode_text (money_currency a), lit ''discount''] @ discount_or_none d x"
  let ?e = "expected_fields a (map_option enrolled_snapshot x)"
  have nested: "colon_fields [colon_fields ?auth, lit ''expected'', colon_fields ?e] =
      colon_fields (?auth @ lit ''expected'' # ?e)"
    using sep_fields_nested [of ?auth colon "[lit ''expected'', colon_fields ?e]"]
      sep_fields_nested_last [of ?e colon "?auth @ [lit ''expected'']"] by simp
  have "(case x of
      None \<Rightarrow> colon_fields [lit ''subscription_initial'', PlanKey_as_str k, show_int (money_cents a),
        CurrencyCode_text (money_currency a), lit ''discount'', lit ''none'']
    | Some y \<Rightarrow> colon_fields ([lit ''subscription_initial'', PlanKey_as_str k, show_int (money_cents a),
        CurrencyCode_text (money_currency a), lit ''discount''] @ discount_fields d y)) = colon_fields ?auth"
    by (simp add: discount_or_none_def split: option.split)
  then show ?thesis
    unfolding for_subscription_initial_v1_def Let_def expected_fingerprint_fields nested [symmetric] by (rule arg_cong)
qed

lemma expected_fields_free:
  "Money_text_wf a \<Longrightarrow> pred_option snapshot_text_wf x \<Longrightarrow> list_all (\<lambda>f. colon \<notin> set f) (expected_fields a x)"
  by (cases x) (simp_all add: expected_fields_def colon_free Money_text_wf_def)

text \<open>Which of the last fields match: only fields of the same shape with the same terms.\<close>

lemma expected_tail_iff:
  assumes "pred_option snapshot_text_wf x" and "pred_option snapshot_text_wf y"
    and "length auth = (if x = None then 6 else 16)"
  shows "(\<exists>hs. hs \<noteq> [] \<and> auth @ lit ''expected'' # expected_fields a x = hs @ lit ''expected'' # expected_fields b y) \<longleftrightarrow>
    (x = None \<and> y = None \<and> a = b) \<or> rel_option has_same_charge_terms x y \<and> x \<noteq> None"
    (is "?l \<longleftrightarrow> ?r")
proof -
  let ?F = "\<lambda>a x. lit ''expected'' # expected_fields a x"
  have last: "(\<exists>hs. hs \<noteq> [] \<and> auth @ u = hs @ v) \<longleftrightarrow> u = v" if "length u = length v" for u v :: "rstring list"
    using that assms(3) by (auto split: if_splits)
  have len: "length (?F a x) = (if x = None then 4 else 11)" for a x
    by (simp add: expected_fields_def split: option.split)
  show ?thesis
  proof (cases x)
    case None
    show ?thesis
    proof (cases y)
      case None
      with \<open>x = None\<close> have "length (?F a x) = length (?F b y)" using len by simp
      then show ?thesis
        using None \<open>x = None\<close> Money_eq_iff [of a b] assms(3) by (simp add: last) (auto simp: expected_fields_def)
    next
      case (Some s)
      have "\<not> ?l"
      proof
        assume ?l
        then obtain hs where "hs \<noteq> []" "auth @ ?F a x = hs @ ?F b y" by blast
        then have "length auth + length (?F a x) = length hs + length (?F b y)" by (metis length_append)
        then show False
          using assms(3) len [of a x] len [of b y] Some None \<open>hs \<noteq> []\<close> by (cases hs) simp_all
      qed
      with Some None show ?thesis by simp
    qed
  next
    case (Some s)
    show ?thesis
    proof (cases y)
      case None
      have "\<not> ?l"
      proof
        assume ?l
        then obtain hs where "auth @ ?F a x = hs @ ?F b y" by blast
        then have "rev (auth @ ?F a x) = rev (hs @ ?F b y)" by (rule arg_cong)
        then have "CurrencyCode_text (snapshot_currency s) = lit ''full_price''"
          using Some None by (simp add: expected_fields_def)
        then have "length (CurrencyCode_text (snapshot_currency s)) = 10" by simp
        moreover have "length (CurrencyCode_text (snapshot_currency s)) = 3"
          using assms(1) Some
          by (simp add: length_CurrencyCode_text snapshot_text_wf_def ChargeAmount_text_wf_def snapshot_currency_def)
        ultimately show False by simp
      qed
      with Some None show ?thesis by simp
    next
      case (Some s')
      with \<open>x = Some s\<close> have "length (?F a x) = length (?F b y)" using len by simp
      moreover have "?F a x = ?F b y \<longleftrightarrow> has_same_charge_terms s s'"
        using \<open>x = Some s\<close> Some assms(1,2) charge_terms_iff [of s s'] by (auto simp: expected_fields_def)
      moreover have "auth \<noteq> []" using assms(3) by (auto split: if_splits)
      ultimately show ?thesis using \<open>x = Some s\<close> Some by (simp add: last)
    qed
  qed
qed

lemma snapshot_option_wf:
  "pred_option (\<lambda>x. snapshot_text_wf (enrolled_snapshot x)) x \<longleftrightarrow> pred_option snapshot_text_wf (map_option enrolled_snapshot x)"
  by (cases x) simp_all

text \<open>The suffix test of version-1 fingerprints is exact: for a fingerprint the program wrote, it
  accepts expected terms exactly when the plan is the one asked for and either neither side has a
  discount and the first charges agree, or both have one with the same charge terms.  No part of
  another field can be taken for the expected terms.\<close>

lemma v1_expected_terms_exact:
  assumes "displays_ok d" and "PlanKey_text_wf k" and "Money_text_wf a"
    and "pred_option (\<lambda>x. snapshot_text_wf (enrolled_snapshot x)) x"
    and "Money_text_wf (ChargeAmount_money (expected_initial_charge e))"
    and "pred_option snapshot_text_wf (expected_discount_snapshot e)"
  shows "matches_subscription_initial_expected_terms_v1 (for_subscription_initial_v1 d k a x) plan e \<longleftrightarrow>
    expected_plan_key e = plan \<and>
    (x = None \<and> expected_discount_snapshot e = None \<and> a = ChargeAmount_money (expected_initial_charge e) \<or>
     x \<noteq> None \<and> rel_option has_same_charge_terms (map_option enrolled_snapshot x) (expected_discount_snapshot e))"
proof -
  let ?a = "ChargeAmount_money (expected_initial_charge e)" and ?s = "expected_discount_snapshot e"
  let ?auth = "[lit ''subscription_initial'', PlanKey_as_str k, show_int (money_cents a),
    CurrencyCode_text (money_currency a), lit ''discount''] @ discount_or_none d x"
  let ?x = "map_option enrolled_snapshot x"
  have free: "list_all (\<lambda>f. colon \<notin> set f) (?auth @ lit ''expected'' # expected_fields a ?x)"
  proof -
    have "list_all (\<lambda>f. colon \<notin> set f) (discount_or_none d x)"
      using assms(1,4) by (cases x) (simp_all add: discount_or_none_def colon_free discount_fields_free)
    then show ?thesis
      using assms(2,3) expected_fields_free [OF assms(3) assms(4) [unfolded snapshot_option_wf]]
      by (simp add: colon_free Money_text_wf_def)
  qed
  have free': "list_all (\<lambda>f. colon \<notin> set f) (lit ''expected'' # expected_fields ?a ?s)"
    using expected_fields_free [OF assms(5,6)] by (simp add: colon_free)
  have "lit '':expected:'' @ subscription_initial_expected_fingerprint ?a ?s =
      colon # colon_fields (lit ''expected'' # expected_fields ?a ?s)"
    by (simp add: expected_fingerprint_fields sep_fields_Cons lit_eval colon_def)
  then have "suffix (lit '':expected:'' @ subscription_initial_expected_fingerprint ?a ?s)
        (PaymentAttemptFingerprint_expose (for_subscription_initial_v1 d k a x)) \<longleftrightarrow>
      (\<exists>p. colon_fields (?auth @ lit ''expected'' # expected_fields a ?x) =
         p @ colon # colon_fields (lit ''expected'' # expected_fields ?a ?s))"
    by (simp add: v1_fields suffix_def)
  also have "\<dots> \<longleftrightarrow> (\<exists>hs. hs \<noteq> [] \<and> ?auth @ lit ''expected'' # expected_fields a ?x =
      hs @ lit ''expected'' # expected_fields ?a ?s)"
    by (rule suffix_fields_iff [OF free free']) simp_all
  also have "\<dots> \<longleftrightarrow> (?x = None \<and> ?s = None \<and> a = ?a) \<or> rel_option has_same_charge_terms ?x ?s \<and> ?x \<noteq> None"
    using assms(4,6) by (intro expected_tail_iff)
      (auto simp: snapshot_option_wf discount_or_none_def discount_fields_def Let_def split: option.split)
  finally show ?thesis
    by (auto simp: matches_subscription_initial_expected_terms_v1_def)
qed

section \<open>Concrete displays\<close>

text \<open>The hyphenated form of an identifier, and the instant in nanoseconds.\<close>

definition uuid_hyphenated :: "Uuid \<Rightarrow> rstring" where
  "uuid_hyphenated x =
     (let h = uuid_simple_hex x in sep_fields 45
        [take 8 h, take 4 (drop 8 h), take 4 (drop 12 h), take 4 (drop 16 h), drop 20 h])"

definition sample_displays :: displays where
  "sample_displays = \<lparr>uuid_display = uuid_hyphenated, datetime_display = show_int\<rparr>"

lemma hex_digits_bytes: "c \<in> set (hex_digits k n) \<Longrightarrow> is_ascii_digit c \<or> is_ascii_lowercase c"
proof (induction k arbitrary: n)
  case (Suc k)
  have "n mod 16 < 16" by simp
  then have "is_ascii_digit (hex_digit (n mod 16)) \<or> is_ascii_lowercase (hex_digit (n mod 16))"
    by (auto simp: hex_digit_def ascii_class_defs)
  then show ?case using Suc by auto
qed simp

lemma uuid_hyphenated_inj: "inj uuid_hyphenated"
proof (rule injI)
  fix x y
  let ?parts = "\<lambda>h. [take 8 h, take 4 (drop 8 h), take 4 (drop 12 h), take 4 (drop 16 h), drop 20 h] :: rstring list"
  assume eq: "uuid_hyphenated x = uuid_hyphenated y"
  have free: "list_all (\<lambda>f. (45 :: scalar) \<notin> set f) (?parts (uuid_simple_hex u))" for u
  proof -
    have "(45 :: scalar) \<notin> set (uuid_simple_hex u)"
      using hex_digits_bytes by (fastforce simp: uuid_simple_hex_def ascii_class_defs)
    then show ?thesis by (auto dest: in_set_takeD in_set_dropD)
  qed
  from eq have "?parts (uuid_simple_hex x) = ?parts (uuid_simple_hex y)"
    using sep_fields_inject [OF free free, of x y] by (simp add: uuid_hyphenated_def Let_def)
  moreover have "h = concat (?parts h)" for h :: rstring
  proof -
    have "take 4 (drop 16 h) @ drop 20 h = drop 16 h" "take 4 (drop 12 h) @ drop 16 h = drop 12 h"
      "take 4 (drop 8 h) @ drop 12 h = drop 8 h"
      using append_take_drop_id [of 4 "drop 16 h"] append_take_drop_id [of 4 "drop 12 h"]
        append_take_drop_id [of 4 "drop 8 h"] by simp_all
    then show ?thesis by simp
  qed
  ultimately have "uuid_simple_hex x = uuid_simple_hex y" by metis
  then show "x = y" using inj_uuid_simple_hex by (rule injD [rotated])
qed

lemma sample_displays_ok: "displays_ok sample_displays"
proof -
  have "colon \<notin> set (uuid_hyphenated u)" for u
    using set_sep_fields [of 45 "[take 8 (uuid_simple_hex u), take 4 (drop 8 (uuid_simple_hex u)),
        take 4 (drop 12 (uuid_simple_hex u)), take 4 (drop 16 (uuid_simple_hex u)), drop 20 (uuid_simple_hex u)]"]
      hex_digits_bytes [of colon 32 "unat u"]
    by (auto simp: uuid_hyphenated_def Let_def uuid_simple_hex_def colon_def ascii_class_defs
        dest!: subsetD dest: in_set_takeD in_set_dropD)
  moreover have "inj show_int" by (rule injI) simp
  ultimately show ?thesis
    using uuid_hyphenated_inj by (simp add: displays_ok_def sample_displays_def)
qed

lemma sample_text_wf:
  "PlanKey_text_wf (offer_plan_key sample_offer)" "offer_text_wf sample_offer"
  "Money_text_wf (ChargeAmount_money (sample_charge cents))"
  by (simp_all add: PlanKey_text_wf_def sample_offer_def lit_eval is_slug_start_def is_slug_byte_def
      ascii_class_defs offer_text_wf_def ChargeAmount_text_wf_def sample_charge_def Money_text_wf_def)

lemma renewal_fingerprint_identifies_witness:
  "for_subscription_renewal sample_displays (offer_plan_key sample_offer) (SubscriptionId 1) (PaymentMethodId 2) 5
     (ChargeAmount_money (sample_charge 2000)) \<noteq>
   for_subscription_renewal sample_displays (offer_plan_key sample_offer) (SubscriptionId 1) (PaymentMethodId 2) 6
     (ChargeAmount_money (sample_charge 2000))"
  using renewal_fingerprint_identifies [OF sample_displays_ok sample_text_wf(1) sample_text_wf(1)
      sample_text_wf(3) [of 2000] sample_text_wf(3) [of 2000]] by simp

theorem enrollment_fingerprint_identifies_witness:
  "for_subscription_initial_v2 sample_displays sample_offer (ChargeAmount_money (sample_charge 2000)) None \<noteq>
   for_subscription_initial_v2 sample_displays sample_offer (ChargeAmount_money (sample_charge 2001)) None"
  using enrollment_fingerprint_identifies [OF sample_displays_ok sample_text_wf(2) sample_text_wf(2)
      sample_text_wf(3) [of 2000] sample_text_wf(3) [of 2001], of None None]
  by (simp add: sample_charge_def)

lemma v1_expected_terms_exact_witness:
  "matches_subscription_initial_expected_terms_v1
     (for_subscription_initial_v1 sample_displays (offer_plan_key sample_offer)
        (ChargeAmount_money (sample_charge 2000)) None)
     (offer_plan_key sample_offer) (full_price sample_offer)"
proof -
  have c: "expected_initial_charge (full_price sample_offer) = sample_charge 2000"
    by (simp add: expected_initial_charge_def activation_projection_def from_expected_terms_def full_price_def
        sample_offer_def)
  show ?thesis
    using v1_expected_terms_exact [OF sample_displays_ok sample_text_wf(1) sample_text_wf(3) [of 2000],
        of None "full_price sample_offer" "offer_plan_key sample_offer"] c sample_text_wf(3) [of 2000]
    by (simp add: full_price_def expected_plan_key_def)
qed

end
