(* ===== verification/Subscription.thy ===== *)
theory Subscription
  imports Discount Gateway_Outcome
begin

text \<open>
  Subscriptions, grants and product access: \<open>crates/syrup-rail/src/subscription.rs\<close>,
  \<open>subscription/access.rs\<close>, \<open>subscription/grant.rs\<close>, and the decoding of stored rows of
  \<open>crates/syrup-rail-postgres/src/subscription_persistence.rs\<close>.  The main result is that the
  decoder inverts the columns of a subscription exactly.
\<close>

section \<open>Subscriptions\<close>

record Subscription =
  sub_id :: SubscriptionId
  sub_plan_key :: PlanKey
  sub_status :: SubscriptionStatus
  sub_phase :: SubscriptionPhase
  sub_required_gateway_account_mode :: GatewayAccountMode
  sub_payment_method_id :: PaymentMethodId
  sub_recurring_charge :: ChargeAmount
  sub_recurring_period :: SubscriptionPeriodRule
  sub_renewal_failure :: RenewalFailurePolicy
  sub_current_period :: BillingPeriod
  sub_next_renewal_at :: datetime
  sub_next_payment_attempt_at :: "datetime option"

record CancelSubscription =
  cancel_billing_scope_id :: BillingScopeId
  cancel_subscriber_id :: SubscriberId
  cancel_plan_key :: PlanKey

section \<open>Grants\<close>

datatype SubscriptionGrantKind = Testing | Promotion

definition SubscriptionGrantKind_all :: "SubscriptionGrantKind list" where
  "SubscriptionGrantKind_all = [Testing, Promotion]"

primrec SubscriptionGrantKind_as_str :: "SubscriptionGrantKind \<Rightarrow> rstring" where
  "SubscriptionGrantKind_as_str Testing = lit ''testing''"
| "SubscriptionGrantKind_as_str Promotion = lit ''promotion''"

datatype SubscriptionGrantKindParseError = SubscriptionGrantKindParseError

definition SubscriptionGrantKind_from_str ::
    "rstring \<Rightarrow> (SubscriptionGrantKind, SubscriptionGrantKindParseError) result" where
  "SubscriptionGrantKind_from_str value =
     (if value = lit ''testing'' then Ok Testing
      else if value = lit ''promotion'' then Ok Promotion
      else Err SubscriptionGrantKindParseError)"

interpretation grant_kind: text_codec
  SubscriptionGrantKind_all SubscriptionGrantKind_as_str SubscriptionGrantKind_from_str
proof unfold_locales
  fix v show "v \<in> set SubscriptionGrantKind_all" by (cases v) (simp_all add: SubscriptionGrantKind_all_def)
next
  fix v show "SubscriptionGrantKind_from_str (SubscriptionGrantKind_as_str v) = Ok v"
    by (cases v) (simp_all add: SubscriptionGrantKind_from_str_def)
qed (auto simp: SubscriptionGrantKind_from_str_def split: if_splits)

datatype SubscriptionGrantError = InvalidPeriod

record SubscriptionGrant =
  grant_id :: SubscriptionGrantId
  grant_plan_key :: PlanKey
  grant_kind :: SubscriptionGrantKind
  grant_starts_at :: datetime
  grant_ends_at :: datetime
  granted_by_actor_id :: ActorId

definition SubscriptionGrant_new ::
    "SubscriptionGrantId \<Rightarrow> PlanKey \<Rightarrow> SubscriptionGrantKind \<Rightarrow> datetime \<Rightarrow> datetime \<Rightarrow> ActorId \<Rightarrow>
     (SubscriptionGrant, SubscriptionGrantError) result" where
  "SubscriptionGrant_new i plan_key kind starts_at ends_at actor_id =
     (if ends_at \<le> starts_at then Err SubscriptionGrantError.InvalidPeriod
      else Ok \<lparr>grant_id = i, grant_plan_key = plan_key, grant_kind = kind, grant_starts_at = starts_at,
               grant_ends_at = ends_at, granted_by_actor_id = actor_id\<rparr>)"

datatype SubscriptionGrantReasonError = Empty | TooLong | ContainsRawCardData

datatype SubscriptionGrantReason = SubscriptionGrantReason (SubscriptionGrantReason_as_str: rstring)

definition SubscriptionGrantReason_new ::
    "unicode \<Rightarrow> rstring \<Rightarrow> (SubscriptionGrantReason, SubscriptionGrantReasonError) result" where
  "SubscriptionGrantReason_new u value =
     (let value = trim value in
      if length value = 0 then Err SubscriptionGrantReasonError.Empty
      else if length value > 500 then Err SubscriptionGrantReasonError.TooLong
      else if string_contains_raw_card_data u value then Err SubscriptionGrantReasonError.ContainsRawCardData
      else Ok (SubscriptionGrantReason value))"

datatype SubscriptionGrantRecordError = InvalidRevocation | RevocationBeforeStart | UpdateBeforeCreation

record SubscriptionGrantRecord =
  grant_record_billing_scope_id :: BillingScopeId
  grant_record_subscriber_id :: SubscriberId
  grant_record_grant :: SubscriptionGrant
  grant_record_reason :: SubscriptionGrantReason
  grant_record_revoked_at :: "datetime option"
  grant_record_revoked_by_actor_id :: "ActorId option"
  grant_record_revocation_reason :: "SubscriptionGrantReason option"
  grant_record_created_at :: datetime
  grant_record_updated_at :: datetime

text \<open>The constructor takes the nine fields as the record they are stored in.\<close>

definition SubscriptionGrantRecord_new ::
    "SubscriptionGrantRecord \<Rightarrow> (SubscriptionGrantRecord, SubscriptionGrantRecordError) result" where
  "SubscriptionGrantRecord_new r =
     (if \<not> (case (grant_record_revoked_at r, grant_record_revoked_by_actor_id r,
                   grant_record_revocation_reason r) of
              (None, None, None) \<Rightarrow> True
            | (Some _, Some _, Some _) \<Rightarrow> True
            | _ \<Rightarrow> False)
      then Err InvalidRevocation
      else if (case grant_record_revoked_at r of
                 Some revoked_at \<Rightarrow> revoked_at < grant_starts_at (grant_record_grant r)
               | None \<Rightarrow> False)
      then Err RevocationBeforeStart
      else if grant_record_updated_at r < grant_record_created_at r then Err UpdateBeforeCreation
      else Ok r)"

record SubscriptionGrantCreation =
  grant_creation_id :: SubscriptionGrantId
  grant_creation_billing_scope_id :: BillingScopeId
  grant_creation_subscriber_id :: SubscriberId
  grant_creation_plan_key :: PlanKey
  grant_creation_kind :: SubscriptionGrantKind
  grant_creation_reason :: SubscriptionGrantReason
  grant_creation_ends_at :: datetime
  grant_creation_actor_id :: ActorId

record SubscriptionGrantRevocation =
  grant_revocation_id :: SubscriptionGrantId
  grant_revocation_billing_scope_id :: BillingScopeId
  grant_revocation_subscriber_id :: SubscriberId
  grant_revocation_plan_key :: PlanKey
  grant_revocation_actor_id :: ActorId
  grant_revocation_reason :: SubscriptionGrantReason

section \<open>Access\<close>

datatype MissingSubscriptionAction = StartSubscription | ConfirmInitialPayment

datatype PastDueAction = RecoverPayment | ConfirmRecoveryPayment

datatype PastDueAccess = AllowedDuringDunning | Suspended

definition classify_past_due_access :: "PastDueAccessPolicy \<Rightarrow> datetime option \<Rightarrow> PastDueAccess" where
  "classify_past_due_access policy next_payment_attempt_at =
     (case (policy, next_payment_attempt_at) of
        (ContinueUntilDunningExhausted, Some _) \<Rightarrow> AllowedDuringDunning
      | _ \<Rightarrow> Suspended)"

datatype Entitlement =
    Missing MissingSubscriptionAction "SavedSubscriptionDiscount option"
  | PaidActive Subscription "AppliedSubscriptionDiscount option"
  | PaidThroughCancellation Subscription "AppliedSubscriptionDiscount option"
  | PastDue Subscription PastDueAccess PastDueAction "AppliedSubscriptionDiscount option"
  | Granted SubscriptionGrant

fun permits_product_access :: "Entitlement \<Rightarrow> bool" where
  "permits_product_access (PaidActive _ _) = True"
| "permits_product_access (PaidThroughCancellation _ _) = True"
| "permits_product_access (Granted _) = True"
| "permits_product_access (PastDue _ AllowedDuringDunning _ _) = True"
| "permits_product_access (Missing _ _) = False"
| "permits_product_access (PastDue _ Suspended _ _) = False"

record EntitlementSelector =
  selector_billing_scope_id :: BillingScopeId
  selector_subscriber_id :: SubscriberId
  selector_plan_key :: PlanKey
  selector_required_gateway_account_mode :: "GatewayAccountMode option"

definition EntitlementSelector_new :: "BillingScopeId \<Rightarrow> SubscriberId \<Rightarrow> PlanKey \<Rightarrow> EntitlementSelector" where
  "EntitlementSelector_new billing_scope_id subscriber_id plan_key =
     \<lparr>selector_billing_scope_id = billing_scope_id, selector_subscriber_id = subscriber_id,
      selector_plan_key = plan_key, selector_required_gateway_account_mode = Some Live\<rparr>"

definition require_gateway_account_mode :: "GatewayAccountMode \<Rightarrow> EntitlementSelector \<Rightarrow> EntitlementSelector" where
  "require_gateway_account_mode mode self = self\<lparr>selector_required_gateway_account_mode := Some mode\<rparr>"

definition allow_all_gateway_account_modes :: "EntitlementSelector \<Rightarrow> EntitlementSelector" where
  "allow_all_gateway_account_modes self = self\<lparr>selector_required_gateway_account_mode := None\<rparr>"

datatype EntitlementQuery = EntitlementQuery (query_selector: EntitlementSelector)

datatype EntitlementGuard = EntitlementGuard (guard_selector: EntitlementSelector)

datatype BillingDeletionBlocker = ActiveSubscription | UnresolvedPayment

record BillingDeletionBlockers =
  blockers_active_subscription :: bool
  blockers_unresolved_payment :: bool

definition BillingDeletionBlockers_new :: "BillingDeletionBlocker list \<Rightarrow> BillingDeletionBlockers" where
  "BillingDeletionBlockers_new blockers =
     foldl (\<lambda>result blocker. case blocker of
              ActiveSubscription \<Rightarrow> result\<lparr>blockers_active_subscription := True\<rparr>
            | UnresolvedPayment \<Rightarrow> result\<lparr>blockers_unresolved_payment := True\<rparr>)
       \<lparr>blockers_active_subscription = False, blockers_unresolved_payment = False\<rparr> blockers"

definition BillingDeletionBlockers_is_empty :: "BillingDeletionBlockers \<Rightarrow> bool" where
  "BillingDeletionBlockers_is_empty self \<longleftrightarrow>
     \<not> blockers_active_subscription self \<and> \<not> blockers_unresolved_payment self"

record ScrubbedBillingRows =
  scrubbed_payment_attempts :: u64
  scrubbed_payment_methods :: u64

definition ScrubbedBillingRows_is_empty :: "ScrubbedBillingRows \<Rightarrow> bool" where
  "ScrubbedBillingRows_is_empty self \<longleftrightarrow>
     scrubbed_payment_attempts self = 0 \<and> scrubbed_payment_methods self = 0"

lemma BillingDeletionBlockers_new_set:
  "BillingDeletionBlockers_new bs =
     \<lparr>blockers_active_subscription = (ActiveSubscription \<in> set bs),
      blockers_unresolved_payment = (UnresolvedPayment \<in> set bs)\<rparr>"
  unfolding BillingDeletionBlockers_new_def
  by (induction bs rule: rev_induct) (auto split: BillingDeletionBlocker.splits)

section \<open>Stored rows\<close>

text \<open>
  The projection that \<open>FullSubscriptionRow::read\<close> takes of a row of \<open>billing_subscriptions\<close>.
  The columns of type \<open>text\<close> are strings, \<open>integer\<close> and \<open>bigint\<close> columns are integers.
\<close>

record FullSubscriptionRow =
  row_id :: Uuid
  row_plan_key :: rstring
  row_status :: rstring
  row_required_gateway_account_mode :: rstring
  row_payment_method_id :: Uuid
  row_amount_cents :: int
  row_currency :: rstring
  row_current_period_start_at :: datetime
  row_current_period_end_at :: datetime
  row_next_renewal_at :: datetime
  row_phase :: rstring
  row_recurring_period_kind :: rstring
  row_recurring_period_count :: int
  row_dunning_retry_delays_seconds :: "int list"
  row_dunning_exhaustion :: rstring
  row_past_due_access :: rstring
  row_next_payment_attempt_at :: "datetime option"

text \<open>The error of the row reader itself belongs to the driver; the decoder has one error.\<close>

datatype SubscriptionPersistenceCodecError = InvalidState

definition subscription_period_rule_from_scalars ::
    "rstring \<Rightarrow> int \<Rightarrow> (SubscriptionPeriodRule, SubscriptionPersistenceCodecError) result" where
  "subscription_period_rule_from_scalars kind count =
     and_then (ok_or (try_unsigned count) InvalidState)
       (\<lambda>count. map_err (\<lambda>_. InvalidState) (from_kind_and_count kind count))"

definition renewal_failure_policy_from_scalars ::
    "int list \<Rightarrow> rstring \<Rightarrow> rstring \<Rightarrow> (RenewalFailurePolicy, SubscriptionPersistenceCodecError) result" where
  "renewal_failure_policy_from_scalars retry_delays_seconds exhaustion past_due_access =
     and_then (collect_results (map (\<lambda>seconds.
         and_then (ok_or (try_unsigned seconds) InvalidState)
           (\<lambda>seconds. map_err (\<lambda>_. InvalidState) (DunningRetryDelay_new seconds))) retry_delays_seconds))
     (\<lambda>delays. and_then (map_err (\<lambda>_. InvalidState) (DunningSchedule_new delays))
     (\<lambda>schedule. and_then (map_err (\<lambda>_. InvalidState) (DunningExhaustion_from_str exhaustion))
     (\<lambda>exhaustion. and_then (map_err (\<lambda>_. InvalidState) (PastDueAccessPolicy_from_str past_due_access))
     (\<lambda>past_due_access. Ok \<lparr>policy_schedule = schedule, policy_exhaustion = exhaustion,
        policy_past_due_access = past_due_access\<rparr>))))"

definition into_subscription ::
    "FullSubscriptionRow \<Rightarrow> (Subscription, SubscriptionPersistenceCodecError) result" where
  "into_subscription row =
     and_then (subscription_period_rule_from_scalars (row_recurring_period_kind row) (row_recurring_period_count row))
     (\<lambda>recurring_period. and_then (renewal_failure_policy_from_scalars (row_dunning_retry_delays_seconds row)
        (row_dunning_exhaustion row) (row_past_due_access row))
     (\<lambda>renewal_failure. and_then (map_err (\<lambda>_. InvalidState) (PlanKey_new (row_plan_key row)))
     (\<lambda>plan_key. and_then (map_err (\<lambda>_. InvalidState) (SubscriptionStatus_from_str (row_status row)))
     (\<lambda>status. and_then (map_err (\<lambda>_. InvalidState) (SubscriptionPhase_from_str (row_phase row)))
     (\<lambda>phase. and_then (map_err (\<lambda>_. InvalidState)
        (GatewayAccountMode_from_str (row_required_gateway_account_mode row)))
     (\<lambda>mode. and_then (map_err (\<lambda>_. InvalidState) (CurrencyCode_new (row_currency row)))
     (\<lambda>currency. and_then (map_err (\<lambda>_. InvalidState) (ChargeAmount_new (row_amount_cents row) currency))
     (\<lambda>charge. and_then (map_err (\<lambda>_. InvalidState)
        (BillingPeriod_new (row_current_period_start_at row) (row_current_period_end_at row)))
     (\<lambda>period. Ok \<lparr>sub_id = SubscriptionId (row_id row), sub_plan_key = plan_key, sub_status = status,
        sub_phase = phase, sub_required_gateway_account_mode = mode,
        sub_payment_method_id = PaymentMethodId (row_payment_method_id row),
        sub_recurring_charge = charge, sub_recurring_period = recurring_period,
        sub_renewal_failure = renewal_failure, sub_current_period = period,
        sub_next_renewal_at = row_next_renewal_at row,
        sub_next_payment_attempt_at = row_next_payment_attempt_at row\<rparr>)))))))))"

text \<open>
  A row of the table: the projection and the columns that other statements use.  \<open>read\<close> keeps
  the projection.
\<close>

record subscription_row = FullSubscriptionRow +
  row_billing_scope_id :: Uuid
  row_subscriber_id :: Uuid
  row_gateway_account_id :: Uuid
  row_initial_transaction_id :: rstring
  row_unpaid_at :: "datetime option"
  row_canceled_at :: "datetime option"
  row_created_at :: datetime
  row_updated_at :: datetime

definition subscription_from_row ::
    "subscription_row \<Rightarrow> (Subscription, SubscriptionPersistenceCodecError) result" where
  "subscription_from_row row = into_subscription (FullSubscriptionRow.truncate row)"

section \<open>Decoding is exact\<close>

text \<open>What the constructors of the fields guarantee.\<close>

definition policy_wf :: "RenewalFailurePolicy \<Rightarrow> bool" where
  "policy_wf p \<longleftrightarrow> length (retry_delays (policy_schedule p)) \<le> MAX_DUNNING_RETRY_STEPS \<and>
     list_all (\<lambda>d. delay_seconds d \<noteq> 0) (retry_delays (policy_schedule p))"

definition Subscription_wf :: "Subscription \<Rightarrow> bool" where
  "Subscription_wf s \<longleftrightarrow>
     slug_text (PlanKey_as_str (sub_plan_key s)) \<and>
     0 < ChargeAmount_cents (sub_recurring_charge s) \<and>
     CurrencyCode_wf (ChargeAmount_currency (sub_recurring_charge s)) \<and>
     period_rule_wf (sub_recurring_period s) \<and> policy_wf (sub_renewal_failure s) \<and>
     BillingPeriod_wf (sub_current_period s)"

text \<open>The columns of a subscription, by the accessors that every writer binds.\<close>

definition subscription_columns :: "Subscription \<Rightarrow> FullSubscriptionRow" where
  "subscription_columns s =
     \<lparr>row_id = SubscriptionId_as_uuid (sub_id s), row_plan_key = PlanKey_as_str (sub_plan_key s),
      row_status = SubscriptionStatus_as_str (sub_status s),
      row_required_gateway_account_mode = GatewayAccountMode_as_str (sub_required_gateway_account_mode s),
      row_payment_method_id = PaymentMethodId_as_uuid (sub_payment_method_id s),
      row_amount_cents = ChargeAmount_cents (sub_recurring_charge s),
      row_currency = CurrencyCode_text (ChargeAmount_currency (sub_recurring_charge s)),
      row_current_period_start_at = period_start_at (sub_current_period s),
      row_current_period_end_at = period_end_at (sub_current_period s),
      row_next_renewal_at = sub_next_renewal_at s,
      row_phase = SubscriptionPhase_as_str (sub_phase s),
      row_recurring_period_kind = SubscriptionPeriodRule_as_str (sub_recurring_period s),
      row_recurring_period_count = uint (SubscriptionPeriodRule_count (sub_recurring_period s)),
      row_dunning_retry_delays_seconds =
        map (\<lambda>d. uint (delay_seconds d)) (retry_delays (policy_schedule (sub_renewal_failure s))),
      row_dunning_exhaustion = DunningExhaustion_as_str (policy_exhaustion (sub_renewal_failure s)),
      row_past_due_access = PastDueAccessPolicy_as_str (policy_past_due_access (sub_renewal_failure s)),
      row_next_payment_attempt_at = sub_next_payment_attempt_at s\<rparr>"

lemma period_rule_scalars_Ok_iff [result_simps]:
  "subscription_period_rule_from_scalars k n = Ok r \<longleftrightarrow>
     period_rule_wf r \<and> k = SubscriptionPeriodRule_as_str r \<and> n = uint (SubscriptionPeriodRule_count r)"
  by (cases r) (auto simp: subscription_period_rule_from_scalars_def and_then_Inr_iff map_err_Inr_iff
      ok_or_Inr_iff try_unsigned_Some_iff from_kind_and_count_def period_rule_wf_def)

lemma delay_scalars_Ok_iff:
  "collect_results (map (\<lambda>seconds.
      and_then (ok_or (try_unsigned seconds) InvalidState)
        (\<lambda>seconds. map_err (\<lambda>_. InvalidState) (DunningRetryDelay_new seconds))) ns) = Ok ds \<longleftrightarrow>
   ns = map (\<lambda>d. uint (delay_seconds d)) ds \<and> list_all (\<lambda>d. delay_seconds d \<noteq> 0) ds"
proof (induction ns arbitrary: ds)
  case (Cons n ns)
  show ?case
    by (cases ds) (auto simp: and_then_Inr_iff map_err_Inr_iff ok_or_Inr_iff try_unsigned_Some_iff
        result_simps Cons.IH map_sum_Inr_iff)
qed auto

lemma policy_scalars_Ok_iff [result_simps]:
  "renewal_failure_policy_from_scalars ns e a = Ok p \<longleftrightarrow>
     policy_wf p \<and> ns = map (\<lambda>d. uint (delay_seconds d)) (retry_delays (policy_schedule p)) \<and>
     e = DunningExhaustion_as_str (policy_exhaustion p) \<and>
     a = PastDueAccessPolicy_as_str (policy_past_due_access p)"
proof -
  have schedule: "DunningSchedule_new ds = Ok s \<longleftrightarrow> s = DunningSchedule ds \<and> length ds \<le> MAX_DUNNING_RETRY_STEPS"
    for ds s by (auto simp: DunningSchedule_new_def)
  obtain ds where "policy_schedule p = DunningSchedule ds" by (cases "policy_schedule p")
  then show ?thesis
    by (cases p) (auto simp: renewal_failure_policy_from_scalars_def and_then_Inr_iff map_err_Inr_iff
        delay_scalars_Ok_iff schedule dunning_exhaustion.parse_iff past_due_access.parse_iff policy_wf_def)
qed

lemma PlanKey_new_Ok_iff [result_simps]:
  "PlanKey_new v = Ok k \<longleftrightarrow> slug_text v \<and> v = PlanKey_as_str k"
  by (cases k) (auto simp: PlanKey_new_def map_sum_Inr_iff result_simps intro: BoundedSlug.expand)

lemma charge_columns_Ok_iff:
  "CurrencyCode_new v = Ok c \<and> ChargeAmount_new n c = Ok a \<longleftrightarrow>
     0 < ChargeAmount_cents a \<and> CurrencyCode_wf (ChargeAmount_currency a) \<and> c = ChargeAmount_currency a \<and>
     n = ChargeAmount_cents a \<and> v = CurrencyCode_text (ChargeAmount_currency a)"
proof -
  obtain m where a: "a = ChargeAmount m" by (cases a)
  obtain bs where "money_currency m = CurrencyCode bs" by (cases "money_currency m")
  with a show ?thesis by (cases m) (auto simp: result_simps)
qed

lemma into_subscription_Ok_iff:
  "into_subscription row = Ok s \<longleftrightarrow> Subscription_wf s \<and> row = subscription_columns s"
proof -
  have "into_subscription row = Ok s \<longleftrightarrow>
    subscription_period_rule_from_scalars (row_recurring_period_kind row) (row_recurring_period_count row) =
      Ok (sub_recurring_period s) \<and>
    renewal_failure_policy_from_scalars (row_dunning_retry_delays_seconds row) (row_dunning_exhaustion row)
      (row_past_due_access row) = Ok (sub_renewal_failure s) \<and>
    PlanKey_new (row_plan_key row) = Ok (sub_plan_key s) \<and>
    SubscriptionStatus_from_str (row_status row) = Ok (sub_status s) \<and>
    SubscriptionPhase_from_str (row_phase row) = Ok (sub_phase s) \<and>
    GatewayAccountMode_from_str (row_required_gateway_account_mode row) =
      Ok (sub_required_gateway_account_mode s) \<and>
    (\<exists>c. CurrencyCode_new (row_currency row) = Ok c \<and>
       ChargeAmount_new (row_amount_cents row) c = Ok (sub_recurring_charge s)) \<and>
    BillingPeriod_new (row_current_period_start_at row) (row_current_period_end_at row) =
      Ok (sub_current_period s) \<and>
    sub_id s = SubscriptionId (row_id row) \<and> sub_payment_method_id s = PaymentMethodId (row_payment_method_id row) \<and>
    sub_next_renewal_at s = row_next_renewal_at row \<and>
    sub_next_payment_attempt_at s = row_next_payment_attempt_at row"
    by (cases s) (auto simp: into_subscription_def and_then_Inr_iff map_err_Inr_iff)
  also have "\<dots> \<longleftrightarrow> Subscription_wf s \<and> row = subscription_columns s"
    unfolding charge_columns_Ok_iff
    by (cases row) (auto simp: subscription_columns_def Subscription_wf_def result_simps
        subscription_status.parse_iff subscription_phase.parse_iff account_mode.parse_iff BillingPeriod_wf_def)
  finally show ?thesis .
qed

text \<open>C39.  Decoding a stored subscription is exact: a row decodes to a subscription precisely when the
  subscription is well formed and the row holds its columns.  So every well-formed subscription
  is read back unchanged, every other row is refused, and two rows that decode to the same
  subscription are equal.\<close>

theorem subscription_row_exact:
  "into_subscription row = Ok s \<longleftrightarrow> Subscription_wf s \<and> row = subscription_columns s"
  by (rule into_subscription_Ok_iff)

end
