(* ===== verification/Renewal.thy ===== *)
theory Renewal
  imports Attempt_Fingerprint Subscription
begin

text \<open>
  The renewal policy: \<open>crates/syrup-rail/src/renewal.rs\<close>.  What a failed automatic charge leads
  to, when an automatic retry is held back, and the key under which one renewal charge is
  reserved.
\<close>

section \<open>Failure disposition\<close>

text \<open>The instants are \<open>retry_at\<close>, \<open>exhausted_at\<close> and \<open>ended_at\<close>.\<close>

datatype RenewalFailureDisposition =
    RetryScheduled datetime
  | RemainPastDue datetime
  | MarkUnpaid datetime

datatype RenewalFailurePolicyError = ZeroFailureCount | RetryTimestampOverflow

definition renewal_failure_disposition ::
    "chrono \<Rightarrow> RenewalFailurePolicy \<Rightarrow> u16 \<Rightarrow> datetime \<Rightarrow>
     (RenewalFailureDisposition, RenewalFailurePolicyError) result" where
  "renewal_failure_disposition ch policy automatic_failure_count failed_at =
     (if automatic_failure_count = 0 then Err ZeroFailureCount
      else let schedule_index = unat (automatic_failure_count - 1);
               delays = retry_delays (policy_schedule policy)
           in if schedule_index < length delays
              then map_sum id RetryScheduled (ok_or
                (checked_add_signed ch failed_at
                   (duration_seconds (uint (delay_seconds (delays ! schedule_index)))))
                RetryTimestampOverflow)
              else case policy_exhaustion policy of
                     DunningExhaustion.RemainPastDue \<Rightarrow> Ok (RemainPastDue failed_at)
                   | DunningExhaustion.MarkUnpaid \<Rightarrow> Ok (MarkUnpaid failed_at))"

section \<open>Dispatch\<close>

definition RENEWAL_DISPATCH_LIMIT :: int where
  "RENEWAL_DISPATCH_LIMIT = 100"

record RenewalDispatch =
  dispatch_billing_scope_id :: BillingScopeId
  dispatch_subscription_id :: SubscriptionId
  dispatch_required_gateway_account_mode :: GatewayAccountMode
  dispatch_period_start_at :: datetime
  dispatch_attempt_sequence_count :: int

record RenewalDispatchPageCursor =
  page_cursor_observed_at :: datetime
  page_cursor_next_payment_attempt_at :: datetime
  page_cursor_subscription_id :: SubscriptionId
  page_cursor_required_gateway_account_mode :: "GatewayAccountMode option"

record RenewalDispatchPage =
  page_dispatches :: "RenewalDispatch list"
  page_next_cursor :: "RenewalDispatchPageCursor option"

record ChargeRenewal =
  charge_renewal_billing_scope_id :: BillingScopeId
  charge_renewal_subscription_id :: SubscriptionId
  charge_renewal_period_start_at :: datetime

section \<open>Pacing of automatic retries\<close>

definition RENEWAL_INFRASTRUCTURE_RETRY_AFTER_SECONDS :: int where
  "RENEWAL_INFRASTRUCTURE_RETRY_AFTER_SECONDS = 24 * 60 * 60"

definition RENEWAL_RATE_LIMIT_SLOW_RETRY_AFTER_SECONDS :: int where
  "RENEWAL_RATE_LIMIT_SLOW_RETRY_AFTER_SECONDS = 24 * 60 * 60"

definition MAX_RENEWAL_INFRASTRUCTURE_ATTEMPTS_PER_PERIOD_CONFIGURATION :: int where
  "MAX_RENEWAL_INFRASTRUCTURE_ATTEMPTS_PER_PERIOD_CONFIGURATION = 8"

definition RENEWAL_RATE_LIMIT_FAST_RETRY_ATTEMPTS :: int where
  "RENEWAL_RATE_LIMIT_FAST_RETRY_ATTEMPTS = 5"

definition GATEWAY_MUTATION_RATE_LIMIT_RETRY_AFTER_SECONDS :: int where
  "GATEWAY_MUTATION_RATE_LIMIT_RETRY_AFTER_SECONDS = 60"

record RenewalAttemptState =
  renewal_attempt_sequence_count :: int
  automatic_infrastructure_attempt_count :: int
  last_automatic_infrastructure_failure_at :: "datetime option"
  rate_limited_attempt_count :: int
  last_rate_limited_at :: "datetime option"
  has_blocking_attempt :: bool

definition rate_limit_retry_after_seconds :: "int \<Rightarrow> int" where
  "rate_limit_retry_after_seconds attempt_count =
     (if attempt_count \<ge> RENEWAL_RATE_LIMIT_FAST_RETRY_ATTEMPTS
      then RENEWAL_RATE_LIMIT_SLOW_RETRY_AFTER_SECONDS
      else GATEWAY_MUTATION_RATE_LIMIT_RETRY_AFTER_SECONDS)"

text \<open>
  Subtracting a duration from an instant panics outside chrono's range; \<open>None\<close> is that panic.
  Nothing is subtracted when there is no last attempt.
\<close>

definition retry_window_elapsed :: "chrono \<Rightarrow> datetime option \<Rightarrow> datetime \<Rightarrow> int \<Rightarrow> bool option" where
  "retry_window_elapsed ch last_attempt_at now retry_after_seconds =
     (case last_attempt_at of
        None \<Rightarrow> Some True
      | Some last_attempt_at \<Rightarrow>
          map_option (\<lambda>t. last_attempt_at \<le> t)
            (checked_add_signed ch now (- duration_seconds retry_after_seconds)))"

definition blocks_automatic_retry :: "chrono \<Rightarrow> RenewalAttemptState \<Rightarrow> datetime \<Rightarrow> bool option" where
  "blocks_automatic_retry ch self now =
     (if automatic_infrastructure_attempt_count self
           \<ge> MAX_RENEWAL_INFRASTRUCTURE_ATTEMPTS_PER_PERIOD_CONFIGURATION then Some True
      else if has_blocking_attempt self then Some True
      else case retry_window_elapsed ch (last_automatic_infrastructure_failure_at self) now
                  RENEWAL_INFRASTRUCTURE_RETRY_AFTER_SECONDS of
             None \<Rightarrow> None
           | Some False \<Rightarrow> Some True
           | Some True \<Rightarrow>
               map_option Not (retry_window_elapsed ch (last_rate_limited_at self) now
                 (rate_limit_retry_after_seconds (rate_limited_attempt_count self))))"

section \<open>The key of one renewal charge\<close>

definition renewal_attempt_idempotency_key ::
    "displays \<Rightarrow> SubscriptionId \<Rightarrow> datetime \<Rightarrow> int \<Rightarrow> (IdempotencyKey, IdempotencyKeyError) result" where
  "renewal_attempt_idempotency_key d subscription_id start_at attempt_sequence_count =
     IdempotencyKey_new (colon_fields
       [lit ''subscription-renewal'', uuid_display d (SubscriptionId_as_uuid subscription_id),
        show_int (timestamp start_at), show_int attempt_sequence_count])"

section \<open>What a failure leads to\<close>

lemma failure_index: "c \<noteq> 0 \<Longrightarrow> unat (c - 1 :: u16) = unat c - 1"
  by (simp add: unat_minus_one)

text \<open>The \<open>k\<close>-th failure, from one.\<close>

lemma renewal_failure_disposition_Ok_iff:
  "renewal_failure_disposition ch p c t = Ok d \<longleftrightarrow>
     c \<noteq> 0 \<and>
     (let ds = retry_delays (policy_schedule p); k = unat c - 1 in
      if k < length ds
      then (let r = t + duration_seconds (uint (delay_seconds (ds ! k))) in
            d = RetryScheduled r \<and> min_utc ch \<le> r \<and> r \<le> max_utc ch)
      else d = (case policy_exhaustion p of
                  DunningExhaustion.RemainPastDue \<Rightarrow> RemainPastDue t
                | DunningExhaustion.MarkUnpaid \<Rightarrow> MarkUnpaid t))"
  by (auto simp: renewal_failure_disposition_def Let_def failure_index map_sum_Inr_iff ok_or_Inr_iff
      checked_add_signed_Some_iff split: DunningExhaustion.split)

text \<open>The retry gate opens exactly when both windows have passed: with a clock at least a day
  above chrono's lower end it never panics, and it holds a retry back exactly when eight
  infrastructure attempts were used, an attempt is in progress, the last infrastructure failure
  is less than a day old, or the last rate limit is less than a minute old (less than a day after
  five of them).  The boundary instant itself is allowed.\<close>

lemma retry_gate_exact:
  assumes "min_utc ch + duration_days 1 \<le> now" and "now \<le> max_utc ch"
  shows "blocks_automatic_retry ch s now = Some
    (8 \<le> automatic_infrastructure_attempt_count s \<or> has_blocking_attempt s \<or>
     (\<exists>t. last_automatic_infrastructure_failure_at s = Some t \<and> now - t < duration_days 1) \<or>
     (\<exists>t. last_rate_limited_at s = Some t \<and>
        now - t < (if 5 \<le> rate_limited_attempt_count s then duration_days 1 else duration_seconds 60)))"
proof -
  let ?a = "\<exists>t. last_automatic_infrastructure_failure_at s = Some t \<and> now - t < duration_days 1"
  let ?n = "rate_limit_retry_after_seconds (rate_limited_attempt_count s)"
  let ?b = "\<exists>t. last_rate_limited_at s = Some t \<and> now - t < duration_seconds ?n"
  have elapsed: "retry_window_elapsed ch l now n = Some (\<not> (\<exists>t. l = Some t \<and> now - t < duration_seconds n))"
    if "n \<in> {60, 86400}" for l n
    using that assms
    by (auto simp: retry_window_elapsed_def checked_add_signed_def duration_days_def duration_seconds_def
        split: option.split)
  have one: "retry_window_elapsed ch (last_automatic_infrastructure_failure_at s) now
      RENEWAL_INFRASTRUCTURE_RETRY_AFTER_SECONDS = Some (\<not> ?a)"
    using elapsed [of 86400] by (simp add: RENEWAL_INFRASTRUCTURE_RETRY_AFTER_SECONDS_def duration_days_def)
  have two: "retry_window_elapsed ch (last_rate_limited_at s) now ?n = Some (\<not> ?b)"
    by (rule elapsed) (simp add: rate_limit_retry_after_seconds_def
        RENEWAL_RATE_LIMIT_SLOW_RETRY_AFTER_SECONDS_def GATEWAY_MUTATION_RATE_LIMIT_RETRY_AFTER_SECONDS_def)
  have n: "duration_seconds ?n = (if 5 \<le> rate_limited_attempt_count s then duration_days 1 else duration_seconds 60)"
    by (simp add: rate_limit_retry_after_seconds_def RENEWAL_RATE_LIMIT_FAST_RETRY_ATTEMPTS_def duration_days_def
        RENEWAL_RATE_LIMIT_SLOW_RETRY_AFTER_SECONDS_def GATEWAY_MUTATION_RATE_LIMIT_RETRY_AFTER_SECONDS_def)
  have "blocks_automatic_retry ch s now =
      Some (8 \<le> automatic_infrastructure_attempt_count s \<or> has_blocking_attempt s \<or> ?a \<or> ?b)"
    unfolding blocks_automatic_retry_def one two MAX_RENEWAL_INFRASTRUCTURE_ATTEMPTS_PER_PERIOD_CONFIGURATION_def
    by (cases ?a) auto
  then show ?thesis unfolding n .
qed

lemma retry_gate_exact_witness:
  "blocks_automatic_retry \<lparr>min_utc = 0, max_utc = duration_days 10, add_months = \<lambda>_ _. None\<rparr>
     \<lparr>renewal_attempt_sequence_count = 1, automatic_infrastructure_attempt_count = 1,
      last_automatic_infrastructure_failure_at = Some (duration_days 1), rate_limited_attempt_count = 0,
      last_rate_limited_at = None, has_blocking_attempt = False\<rparr> (duration_days 2) = Some False"
  using retry_gate_exact [of "\<lparr>min_utc = 0, max_utc = duration_days 10, add_months = \<lambda>_ _. None\<rparr>" "duration_days 2"]
  by (simp add: duration_days_def duration_seconds_def)

section \<open>Renewal keys\<close>

text \<open>What the key relies on of the displayed identifier, besides that it identifies.\<close>

definition uuid_display_is_key_text :: "displays \<Rightarrow> bool" where
  "uuid_display_is_key_text d \<longleftrightarrow>
     (\<forall>u. length (uuid_display d u) = 36 \<and> list_all is_idempotency_byte (uuid_display d u))"

lemma length_show_nat: "n < 10 ^ k \<Longrightarrow> 0 < k \<Longrightarrow> length (show_nat n) \<le> k"
proof (induction k arbitrary: n)
  case (Suc k)
  show ?case
  proof (cases "n < 10")
    case False
    with Suc.prems have "n div 10 < 10 ^ k" by (simp add: less_mult_imp_div_less mult.commute)
    moreover from this False have "0 < k" by (cases k) auto
    ultimately have "length (show_nat (n div 10)) \<le> k" by (rule Suc.IH)
    with False show ?thesis by (subst show_nat.simps) simp
  qed (subst show_nat.simps, simp)
qed simp

lemma length_show_i64:
  assumes "is_i64 i"
  shows "length (show_int i) \<le> 20"
proof -
  have "length (show_nat (nat \<bar>i\<bar>)) \<le> 19"
    using assms by (intro length_show_nat) (auto simp: is_i64_def)
  then show ?thesis by (auto simp: show_int_def)
qed

lemma show_int_idempotency_bytes: "list_all is_idempotency_byte (show_int i)"
proof -
  have "list_all is_idempotency_byte (show_nat n)" for n
    using show_nat_digits [of n] by (auto simp: list_all_iff is_idempotency_byte_def ascii_class_defs)
  then show ?thesis by (auto simp: show_int_def is_idempotency_byte_def)
qed

lemma set_key_fields:
  assumes "\<And>f. f \<in> set fs \<Longrightarrow> list_all is_idempotency_byte f"
  shows "list_all is_idempotency_byte (colon_fields fs)"
  using assms
  by (induction colon fs rule: sep_fields.induct) (auto simp: is_idempotency_byte_def colon_def)

definition renewal_key_fields :: "displays \<Rightarrow> SubscriptionId \<Rightarrow> datetime \<Rightarrow> int \<Rightarrow> rstring list" where
  "renewal_key_fields d s t n = [lit ''subscription-renewal'', uuid_display d (SubscriptionId_as_uuid s),
    show_int (timestamp t), show_int n]"

lemma renewal_key_trimmed:
  assumes "uuid_display_is_key_text d"
  shows "list_all is_idempotency_byte (colon_fields (renewal_key_fields d s t n)) \<and>
    trim (colon_fields (renewal_key_fields d s t n)) = colon_fields (renewal_key_fields d s t n)"
proof -
  have lit: "list_all is_idempotency_byte (lit ''subscription-renewal'')"
    by (simp add: lit_eval is_idempotency_byte_def ascii_class_defs)
  then have bytes: "list_all is_idempotency_byte (colon_fields (renewal_key_fields d s t n))"
    using assms unfolding renewal_key_fields_def
    by (intro set_key_fields) (auto simp: show_int_idempotency_bytes uuid_display_is_key_text_def)
  then have "trim (colon_fields (renewal_key_fields d s t n)) = colon_fields (renewal_key_fields d s t n)"
    by (intro trim_id_of_no_whitespace) (auto simp: list_all_iff is_idempotency_byte_visible)
  with bytes show ?thesis by blast
qed

lemma renewal_key_accepted:
  assumes "uuid_display_is_key_text d" "is_i64 (timestamp t)" "is_i64 n"
  shows "renewal_attempt_idempotency_key d s t n = Ok (IdempotencyKey (colon_fields (renewal_key_fields d s t n)))"
proof -
  have "length (colon_fields (renewal_key_fields d s t n)) \<le> 128"
    using length_show_i64 [OF assms(2)] length_show_i64 [OF assms(3)] assms(1)
    by (simp add: renewal_key_fields_def uuid_display_is_key_text_def length_lit)
  moreover have "colon_fields (renewal_key_fields d s t n) \<noteq> []" by (simp add: renewal_key_fields_def)
  ultimately show ?thesis
    using renewal_key_trimmed [OF assms(1)]
    by (simp add: renewal_attempt_idempotency_key_def renewal_key_fields_def result_simps)
qed

text \<open>C40.  Every renewal charge has a key and keys are not shared: for a subscription, a period and
  a sequence number in 64-bit range the key is accepted, and another subscription, another
  second of the period start or another sequence number gives another key.\<close>

theorem renewal_key_identifies:
  assumes "displays_ok d" and "uuid_display_is_key_text d" and "is_i64 (timestamp t)" and "is_i64 n"
  shows "\<exists>k. renewal_attempt_idempotency_key d s t n = Ok k \<and>
    (\<forall>s' t' n'. renewal_attempt_idempotency_key d s' t' n' = Ok k \<longleftrightarrow>
       s' = s \<and> timestamp t' = timestamp t \<and> n' = n)"
proof -
  define key_text where "key_text s t n = colon_fields (renewal_key_fields d s t n)" for s t n
  have ok: "renewal_attempt_idempotency_key d s t n = Ok (IdempotencyKey (key_text s t n))"
    unfolding key_text_def by (rule renewal_key_accepted [OF assms(2-4)])
  have inj: "key_text s' t' n' = key_text s t n \<longleftrightarrow> s' = s \<and> timestamp t' = timestamp t \<and> n' = n" for s' t' n'
  proof -
    have "list_all (\<lambda>f. colon \<notin> set f) (renewal_key_fields d s t n)" for s t n
      using assms(1) by (auto simp: renewal_key_fields_def colon_free)
    then have "key_text s' t' n' = key_text s t n \<longleftrightarrow> renewal_key_fields d s' t' n' = renewal_key_fields d s t n"
      unfolding key_text_def by (intro sep_fields_inject) (simp_all add: renewal_key_fields_def)
    also have "\<dots> \<longleftrightarrow> s' = s \<and> timestamp t' = timestamp t \<and> n' = n"
      using assms(1) by (simp add: renewal_key_fields_def uuid_display_inject as_uuid_inject)
    finally show ?thesis .
  qed
  have "renewal_attempt_idempotency_key d s' t' n' = Ok (IdempotencyKey (key_text s t n)) \<longleftrightarrow> key_text s' t' n' = key_text s t n"
    for s' t' n'
    using ok renewal_key_trimmed [OF assms(2)]
    by (auto simp: renewal_attempt_idempotency_key_def result_simps key_text_def renewal_key_fields_def)
  with ok inj show ?thesis by blast
qed

lemma sample_display_is_key_text: "uuid_display_is_key_text sample_displays"
proof -
  have "is_idempotency_byte c" if "c \<in> set (uuid_simple_hex u)" for c u
    using that hex_digits_bytes
    by (fastforce simp: uuid_simple_hex_def is_idempotency_byte_def ascii_class_defs)
  then show ?thesis
    by (auto simp: uuid_display_is_key_text_def sample_displays_def uuid_hyphenated_def Let_def list_all_iff
        uuid_simple_hex_def length_hex_digits is_idempotency_byte_def dest: in_set_takeD in_set_dropD)
qed

theorem renewal_key_identifies_witness:
  "\<exists>k. renewal_attempt_idempotency_key sample_displays (SubscriptionId 7) 5000000000 1 = Ok k \<and>
     renewal_attempt_idempotency_key sample_displays (SubscriptionId 7) 5000000000 2 \<noteq> Ok k"
  using renewal_key_identifies [OF sample_displays_ok sample_display_is_key_text, of 5000000000 1 "SubscriptionId 7"]
  by (force simp: timestamp_def is_i64_def)

end
