(* ===== verification/Events.thy ===== *)
theory Events
  imports Gateway_Outcome
begin

text \<open>
  The events a host receives at a billing boundary: \<open>crates/syrup-rail/src/event.rs\<close>.  The
  components that change a subscription return these values; \<open>semantic_key\<close> is the identity
  under which a host stores each of them once.
\<close>

record BillingEventSubject =
  subject_billing_scope_id :: BillingScopeId
  subject_subscriber_id :: SubscriberId

record PaymentCardDisplay =
  card_display_brand :: PaymentCardBrand
  card_display_last_four :: CardLastFour

datatype BillingEventKey =
    SubscriptionStarted SubscriptionId
  | SubscriptionRenewed PaymentAttemptId
  | SubscriptionPaymentFailed PaymentAttemptId
  | SubscriptionEnded SubscriptionId
  | SubscriptionPeriodExpired SubscriptionId
  | SubscriptionCanceled SubscriptionId
  | PaymentMethodChanged PaymentAttemptId
  | HostChargePaid HostChargeTargetId

text \<open>The instants are \<open>retry_at\<close>, \<open>exhausted_at\<close> and \<open>ended_at\<close>.\<close>

datatype SubscriptionPaymentFailureDisposition =
    RetryScheduled datetime
  | DunningExhausted datetime
  | SubscriptionEnded datetime

datatype SubscriptionPaymentFailureAccess =
    ContinuesDuringDunning
  | Ended datetime

definition failure_access_permits :: "SubscriptionPaymentFailureAccess \<Rightarrow> bool" where
  "failure_access_permits self \<longleftrightarrow> self = ContinuesDuringDunning"

primrec failure_access_ended_at :: "SubscriptionPaymentFailureAccess \<Rightarrow> datetime option" where
  "failure_access_ended_at ContinuesDuringDunning = None"
| "failure_access_ended_at (Ended access_ended_at) = Some access_ended_at"

datatype SubscriptionEndReason = NonPayment

text \<open>
  The fields of each event in the order of the source: the attempt, the subscription and the
  plan first, then the fields of the event.
\<close>

datatype BillingEvent =
    SubscriptionStarted PaymentAttemptId SubscriptionId PlanKey ChargeAmount BillingPeriod SubscriptionPhase
  | SubscriptionRenewed PaymentAttemptId SubscriptionId PlanKey ChargeAmount BillingPeriod
  | SubscriptionPaymentFailed PaymentAttemptId SubscriptionId PlanKey
      SubscriptionPaymentFailureDisposition SubscriptionPaymentFailureAccess
  | SubscriptionEnded PaymentAttemptId SubscriptionId PlanKey SubscriptionEndReason datetime datetime
  | SubscriptionPeriodExpired SubscriptionId PlanKey BillingPeriod datetime datetime
  | SubscriptionCanceled SubscriptionId PlanKey datetime
  | PaymentMethodChanged PaymentAttemptId SubscriptionId PlanKey "PaymentCardDisplay option"
  | HostChargePaid PaymentAttemptId HostChargeTargetId ChargeAmount

primrec semantic_key :: "BillingEvent \<Rightarrow> BillingEventKey" where
  "semantic_key (SubscriptionStarted _ subscription_id _ _ _ _) =
     BillingEventKey.SubscriptionStarted subscription_id"
| "semantic_key (SubscriptionRenewed attempt_id _ _ _ _) = BillingEventKey.SubscriptionRenewed attempt_id"
| "semantic_key (SubscriptionPaymentFailed attempt_id _ _ _ _) =
     BillingEventKey.SubscriptionPaymentFailed attempt_id"
| "semantic_key (BillingEvent.SubscriptionEnded _ subscription_id _ _ _ _) =
     BillingEventKey.SubscriptionEnded subscription_id"
| "semantic_key (SubscriptionPeriodExpired subscription_id _ _ _ _) =
     BillingEventKey.SubscriptionPeriodExpired subscription_id"
| "semantic_key (SubscriptionCanceled subscription_id _ _) = BillingEventKey.SubscriptionCanceled subscription_id"
| "semantic_key (PaymentMethodChanged attempt_id _ _ _) = BillingEventKey.PaymentMethodChanged attempt_id"
| "semantic_key (HostChargePaid _ target_id _) = BillingEventKey.HostChargePaid target_id"

end
