(* ===== verification/Billing_Store.thy ===== *)
theory Billing_Store
  imports Renewal Events
begin

text \<open>
  The database the transactions of \<open>crates/syrup-rail-postgres\<close> work on, and the shared
  statements of \<open>attempts/shared.rs\<close>.  A table is a list of rows.  Attempts are kept as the values
  \<open>attempts/persistence.rs\<close> decodes them to, so a query on a column is a query on the field it
  holds; the other tables are kept column by column, because their decoding is part of the
  operations.  A transaction reads one clock and finishes alone: the program serialises the
  operations of a subscriber and plan by an advisory lock.
\<close>

section \<open>Tables\<close>

record grant_row =
  grow_id :: Uuid
  grow_billing_scope_id :: Uuid
  grow_subscriber_id :: Uuid
  grow_plan_key :: rstring
  grow_grant_kind :: rstring
  grow_reason :: rstring
  grow_starts_at :: datetime
  grow_ends_at :: datetime
  grow_granted_by_actor_id :: Uuid
  grow_revoked_at :: "datetime option"
  grow_revoked_by_actor_id :: "Uuid option"
  grow_revocation_reason :: "rstring option"
  grow_created_at :: datetime
  grow_updated_at :: datetime

record charge_row =
  crow_attempt_id :: Uuid
  crow_attempt_kind :: rstring
  crow_progression_state :: rstring

text \<open>The columns that claims and applied discounts share.\<close>

record discount_columns =
  disc_code :: rstring
  disc_label :: "rstring option"
  disc_kind :: rstring
  disc_amount_off_cents :: "int option"
  disc_percent_off_bps :: "int option"
  disc_currency :: rstring
  disc_duration :: rstring
  disc_duration_months :: "int option"
  disc_base_amount_cents :: int
  disc_discounted_amount_cents :: int

record claim_row = discount_columns +
  clrow_id :: Uuid
  clrow_billing_scope_id :: Uuid
  clrow_subscriber_id :: Uuid
  clrow_plan_key :: rstring
  clrow_status :: rstring
  clrow_claimed_at :: datetime

record discount_row = discount_columns +
  drow_subscription_id :: Uuid
  drow_billing_scope_id :: Uuid
  drow_subscriber_id :: Uuid
  drow_plan_key :: rstring
  drow_claim_id :: "Uuid option"
  drow_status :: rstring
  drow_periods_total :: "int option"
  drow_periods_applied :: int

record billing_db =
  db_attempts :: "PaymentAttempt list"
  db_subscriptions :: "subscription_row list"
  db_grants :: "grant_row list"
  db_charges :: "charge_row list"
  db_claims :: "claim_row list"
  db_discounts :: "discount_row list"

text \<open>\<open>now()\<close>, \<open>clock_timestamp()\<close> and the attempts another transaction holds locked.\<close>

record billing_txn =
  txn_now :: datetime
  txn_clock :: datetime
  txn_locked :: "Uuid list"

section \<open>Columns of an attempt\<close>

abbreviation attempt_resolved_at :: "PaymentAttempt \<Rightarrow> datetime option" where
  "attempt_resolved_at a \<equiv> stamp_resolved_at (state_timestamps (attempt_state a))"

abbreviation attempt_submitted_at :: "PaymentAttempt \<Rightarrow> datetime option" where
  "attempt_submitted_at a \<equiv> stamp_submitted_at (state_timestamps (attempt_state a))"

abbreviation attempt_created_at :: "PaymentAttempt \<Rightarrow> datetime" where
  "attempt_created_at a \<equiv> stamp_created_at (state_timestamps (attempt_state a))"

abbreviation attempt_uuid :: "PaymentAttempt \<Rightarrow> Uuid" where
  "attempt_uuid a \<equiv> PaymentAttemptId_as_uuid (identity_attempt_id (attempt_identity a))"

abbreviation attempt_subscription_id :: "PaymentAttempt \<Rightarrow> SubscriptionId option" where
  "attempt_subscription_id a \<equiv> target_subscription_id (request_target (attempt_request a))"

text \<open>\<open>billing_period_start_at\<close>\<close>

definition attempt_period_start_at :: "PaymentAttempt \<Rightarrow> datetime option" where
  "attempt_period_start_at a =
     map_option BillingPeriod.period_start_at (target_period (request_target (attempt_request a)))"

definition attempt_of_period :: "SubscriptionId \<Rightarrow> datetime \<Rightarrow> PaymentAttempt \<Rightarrow> bool" where
  "attempt_of_period subscription_id start_at a \<longleftrightarrow>
     attempt_subscription_id a = Some subscription_id \<and> attempt_period_start_at a = Some start_at"

text \<open>\<open>attempt_kind IN ('subscription_renewal', 'subscription_recovery')\<close>\<close>

definition is_subscription_charge :: "PaymentAttempt \<Rightarrow> bool" where
  "is_subscription_charge a \<longleftrightarrow>
     PaymentAttempt_kind a \<in> {PaymentAttemptKind.SubscriptionRenewal, PaymentAttemptKind.SubscriptionRecovery}"

text \<open>The owner columns of an attempt, for one scope, subscriber and plan.\<close>

definition attempt_of_owner :: "BillingScopeId \<Rightarrow> SubscriberId \<Rightarrow> PlanKey \<Rightarrow> PaymentAttempt \<Rightarrow> bool" where
  "attempt_of_owner billing_scope_id subscriber_id plan_key a \<longleftrightarrow>
     identity_billing_scope_id (attempt_identity a) = billing_scope_id \<and>
     identity_subscriber_id (attempt_identity a) = subscriber_id \<and>
     target_plan_key (request_target (attempt_request a)) = Some plan_key"

definition row_of_owner :: "BillingScopeId \<Rightarrow> SubscriberId \<Rightarrow> PlanKey \<Rightarrow> subscription_row \<Rightarrow> bool" where
  "row_of_owner billing_scope_id subscriber_id plan_key row \<longleftrightarrow>
     row_billing_scope_id row = BillingScopeId_as_uuid billing_scope_id \<and>
     row_subscriber_id row = SubscriberId_as_uuid subscriber_id \<and>
     row_plan_key row = PlanKey_as_str plan_key"

definition grant_of_owner :: "BillingScopeId \<Rightarrow> SubscriberId \<Rightarrow> PlanKey \<Rightarrow> grant_row \<Rightarrow> bool" where
  "grant_of_owner billing_scope_id subscriber_id plan_key row \<longleftrightarrow>
     grow_billing_scope_id row = BillingScopeId_as_uuid billing_scope_id \<and>
     grow_subscriber_id row = SubscriberId_as_uuid subscriber_id \<and>
     grow_plan_key row = PlanKey_as_str plan_key"

section \<open>Replay and local expiry\<close>

datatype AttemptReplayDisposition = ResumePrepared | RepairUnsubmittedReview | ReturnCanonical

definition may_reach_provider :: "AttemptReplayDisposition \<Rightarrow> bool" where
  "may_reach_provider self \<longleftrightarrow> self = ResumePrepared"

fun attempt_replay_disposition_for ::
    "PaymentAttemptStatus \<Rightarrow> datetime option \<Rightarrow> AttemptReplayDisposition" where
  "attempt_replay_disposition_for PaymentAttemptStatus.Pending None = ResumePrepared"
| "attempt_replay_disposition_for PaymentAttemptStatus.ReviewRequired None = RepairUnsubmittedReview"
| "attempt_replay_disposition_for _ _ = ReturnCanonical"

definition attempt_replay_disposition :: "PaymentAttempt \<Rightarrow> AttemptReplayDisposition" where
  "attempt_replay_disposition attempt =
     attempt_replay_disposition_for (PaymentAttempt_status attempt) (attempt_submitted_at attempt)"

definition prepared_replay_required_mode_changed :: "PaymentAttempt \<Rightarrow> GatewayAccountMode \<Rightarrow> bool" where
  "prepared_replay_required_mode_changed attempt requested_mode \<longleftrightarrow>
     may_reach_provider (attempt_replay_disposition attempt) \<and>
     identity_required_gateway_account_mode (attempt_identity attempt) \<noteq> requested_mode"

definition is_locally_expirable :: "PaymentAttemptStatus \<Rightarrow> datetime option \<Rightarrow> bool" where
  "is_locally_expirable status submitted_at \<longleftrightarrow>
     attempt_replay_disposition_for status submitted_at \<in> {ResumePrepared, RepairUnsubmittedReview}"

definition expirable_status_values :: "rstring list" where
  "expirable_status_values =
     map PaymentAttemptStatus_as_str (filter (\<lambda>status. is_locally_expirable status None) PaymentAttemptStatus_ALL)"

definition STANDARD_LOCAL_ATTEMPT_STALE_AFTER_SECONDS :: int where
  "STANDARD_LOCAL_ATTEMPT_STALE_AFTER_SECONDS = 30 * 60"

definition PAYMENT_METHOD_UPDATE_LOCAL_ATTEMPT_STALE_AFTER_SECONDS :: int where
  "PAYMENT_METHOD_UPDATE_LOCAL_ATTEMPT_STALE_AFTER_SECONDS = 3 * 60"

definition stale_after_seconds :: "PaymentAttemptKind \<Rightarrow> int" where
  "stale_after_seconds kind =
     (if kind = PaymentAttemptKind.SubscriptionPaymentMethodUpdate
      then PAYMENT_METHOD_UPDATE_LOCAL_ATTEMPT_STALE_AFTER_SECONDS
      else STANDARD_LOCAL_ATTEMPT_STALE_AFTER_SECONDS)"

text \<open>
  \<open>status = ANY(expirable) AND submitted_at IS NULL AND created_at <= at - stale_after\<close>
\<close>

definition is_stale_local :: "datetime \<Rightarrow> PaymentAttemptKind \<Rightarrow> PaymentAttempt \<Rightarrow> bool" where
  "is_stale_local at kind a \<longleftrightarrow>
     PaymentAttemptStatus_as_str (PaymentAttempt_status a) \<in> set expirable_status_values \<and>
     attempt_submitted_at a = None \<and>
     attempt_created_at a \<le> at - duration_seconds (stale_after_seconds kind)"

text \<open>Closing an attempt as failed: the columns each statement sets.\<close>

definition close_attempt ::
    "PaymentResolutionCode option \<Rightarrow> GatewayDiagnostic option \<Rightarrow> GatewayDiagnostic option \<Rightarrow> datetime \<Rightarrow> datetime \<Rightarrow>
     PaymentAttempt \<Rightarrow> PaymentAttempt" where
  "close_attempt resolution_code response_text condition resolved_at updated_at a =
     a\<lparr>attempt_state := (attempt_state a)\<lparr>state_status := PaymentAttemptStatus.Failed,
         state_resolution_code := resolution_code,
         state_processor_evidence := (state_processor_evidence (attempt_state a))
           \<lparr>evidence_response_text := response_text, evidence_condition := condition\<rparr>,
         state_timestamps := (state_timestamps (attempt_state a))
           \<lparr>stamp_resolved_at := Some resolved_at, stamp_updated_at := updated_at\<rparr>\<rparr>\<rparr>"

definition coalesced :: "'a option \<Rightarrow> 'a \<Rightarrow> 'a" where
  "coalesced x y = (case x of Some v \<Rightarrow> v | None \<Rightarrow> y)"

abbreviation attempt_response_text :: "PaymentAttempt \<Rightarrow> GatewayDiagnostic option" where
  "attempt_response_text a \<equiv> evidence_response_text (state_processor_evidence (attempt_state a))"

abbreviation attempt_condition :: "PaymentAttempt \<Rightarrow> GatewayDiagnostic option" where
  "attempt_condition a \<equiv> evidence_condition (state_processor_evidence (attempt_state a))"

abbreviation failed_condition :: "PaymentAttempt \<Rightarrow> GatewayDiagnostic option" where
  "failed_condition a \<equiv> Some (coalesced (attempt_condition a) (GatewayDiagnostic (lit ''failed'')))"

definition STALE_UNSUBMITTED_RENEWAL_TEXT :: rstring where
  "STALE_UNSUBMITTED_RENEWAL_TEXT = lit ''Subscription renewal was abandoned before gateway submission.''"

definition STALE_UNSUBMITTED_RECOVERY_TEXT :: rstring where
  "STALE_UNSUBMITTED_RECOVERY_TEXT = lit ''Subscription recovery was abandoned before gateway submission.''"

definition INITIAL_PREPARED_EXPIRED_TEXT :: rstring where
  "INITIAL_PREPARED_EXPIRED_TEXT = lit ''Prepared checkout expired before processor submission.''"

definition update_attempts :: "(PaymentAttempt \<Rightarrow> bool) \<Rightarrow> (PaymentAttempt \<Rightarrow> PaymentAttempt) \<Rightarrow> billing_db \<Rightarrow> billing_db" where
  "update_attempts hit f db = db\<lparr>db_attempts := map (\<lambda>a. if hit a then f a else a) (db_attempts db)\<rparr>"

definition fail_stale_unsubmitted_subscription_charges ::
    "billing_txn \<Rightarrow> SubscriptionId \<Rightarrow> billing_db \<Rightarrow> nat \<times> billing_db" where
  "fail_stale_unsubmitted_subscription_charges txn subscription_id db =
     (let hit = (\<lambda>a. is_subscription_charge a \<and> attempt_subscription_id a = Some subscription_id \<and>
            is_stale_local (txn_clock txn) PaymentAttemptKind.SubscriptionRenewal a \<and>
            attempt_uuid a \<notin> set (txn_locked txn))
      in (length (filter hit (db_attempts db)),
          update_attempts hit (\<lambda>a. close_attempt (state_resolution_code (attempt_state a))
            (Some (GatewayDiagnostic (if PaymentAttempt_kind a = PaymentAttemptKind.SubscriptionRenewal
               then STALE_UNSUBMITTED_RENEWAL_TEXT else STALE_UNSUBMITTED_RECOVERY_TEXT)))
            (failed_condition a) (coalesced (attempt_resolved_at a) (txn_clock txn)) (txn_clock txn) a) db))"

definition PAYMENT_METHOD_UPDATE_ABANDONED_TEXT :: rstring where
  "PAYMENT_METHOD_UPDATE_ABANDONED_TEXT = lit ''Payment method update was abandoned before gateway submission.''"

definition fail_stale_unsubmitted_payment_method_updates ::
    "billing_txn \<Rightarrow> SubscriptionId \<Rightarrow> billing_db \<Rightarrow> billing_db" where
  "fail_stale_unsubmitted_payment_method_updates txn subscription_id db =
     update_attempts (\<lambda>a. PaymentAttempt_kind a = PaymentAttemptKind.SubscriptionPaymentMethodUpdate \<and>
         attempt_subscription_id a = Some subscription_id \<and>
         is_stale_local (txn_clock txn) PaymentAttemptKind.SubscriptionPaymentMethodUpdate a)
       (\<lambda>a. close_attempt (state_resolution_code (attempt_state a))
          (Some (coalesced (attempt_response_text a) (GatewayDiagnostic PAYMENT_METHOD_UPDATE_ABANDONED_TEXT)))
          (failed_condition a) (coalesced (attempt_resolved_at a) (txn_clock txn)) (txn_clock txn) a) db"

definition expire_stale_initial_attempts ::
    "billing_txn \<Rightarrow> BillingScopeId \<Rightarrow> SubscriberId \<Rightarrow> PlanKey \<Rightarrow> billing_db \<Rightarrow> nat \<times> billing_db" where
  "expire_stale_initial_attempts txn billing_scope_id subscriber_id plan_key db =
     (let hit = (\<lambda>a. attempt_of_owner billing_scope_id subscriber_id plan_key a \<and>
            PaymentAttempt_kind a = PaymentAttemptKind.SubscriptionInitial \<and>
            is_stale_local (txn_clock txn) PaymentAttemptKind.SubscriptionInitial a)
      in (length (filter hit (db_attempts db)),
          update_attempts hit (\<lambda>a. close_attempt
            (Some (coalesced (state_resolution_code (attempt_state a)) SubscriptionInitialPreparedAttemptExpired))
            (Some (coalesced (attempt_response_text a) (GatewayDiagnostic INITIAL_PREPARED_EXPIRED_TEXT)))
            (failed_condition a) (txn_clock txn) (txn_clock txn) a) db))"

section \<open>Blocking attempts\<close>

definition blocking_subscription_charge_attempt_exists_except ::
    "SubscriptionId \<Rightarrow> PaymentAttemptId \<Rightarrow> billing_db \<Rightarrow> bool" where
  "blocking_subscription_charge_attempt_exists_except subscription_id excluded_attempt_id db =
     list_ex (\<lambda>a. list_ex (\<lambda>row.
         attempt_subscription_id a = Some subscription_id \<and>
         row_id row = SubscriptionId_as_uuid subscription_id \<and>
         identity_attempt_id (attempt_identity a) \<noteq> excluded_attempt_id \<and>
         is_subscription_charge a \<and>
         (PaymentAttempt_status a \<in> {PaymentAttemptStatus.Pending, PaymentAttemptStatus.Unknown,
            PaymentAttemptStatus.ReviewRequired} \<or>
          PaymentAttempt_status a = PaymentAttemptStatus.Approved \<and>
            attempt_period_start_at a = Some (row_next_renewal_at row)))
       (db_subscriptions db)) (db_attempts db)"

definition blocking_subscription_charge_attempt_exists :: "SubscriptionId \<Rightarrow> billing_db \<Rightarrow> bool" where
  "blocking_subscription_charge_attempt_exists subscription_id db =
     blocking_subscription_charge_attempt_exists_except subscription_id (PaymentAttemptId 0) db"

definition blocking_payment_method_update_exists :: "SubscriptionId \<Rightarrow> billing_db \<Rightarrow> bool" where
  "blocking_payment_method_update_exists subscription_id db =
     list_ex (\<lambda>a. attempt_subscription_id a = Some subscription_id \<and>
         PaymentAttempt_kind a = PaymentAttemptKind.SubscriptionPaymentMethodUpdate \<and>
         PaymentAttempt_status a \<in> {PaymentAttemptStatus.Pending, PaymentAttemptStatus.Unknown,
           PaymentAttemptStatus.ReviewRequired}) (db_attempts db)"

section \<open>Finding attempts\<close>

text \<open>\<open>find_payment_attempt_by_id_on_connection\<close>\<close>

definition find_payment_attempt_by_id :: "billing_db \<Rightarrow> BillingScopeId \<Rightarrow> PaymentAttemptId \<Rightarrow> PaymentAttempt option" where
  "find_payment_attempt_by_id db billing_scope_id attempt_id =
     find (\<lambda>a. identity_billing_scope_id (attempt_identity a) = billing_scope_id \<and>
               identity_attempt_id (attempt_identity a) = attempt_id) (db_attempts db)"

definition payment_attempt_by_idempotency ::
    "billing_db \<Rightarrow> BillingScopeId \<Rightarrow> SubscriberId \<Rightarrow> IdempotencyKey \<Rightarrow> PaymentAttempt option" where
  "payment_attempt_by_idempotency db billing_scope_id subscriber_id idempotency_key =
     find (\<lambda>a. identity_billing_scope_id (attempt_identity a) = billing_scope_id \<and>
               identity_subscriber_id (attempt_identity a) = subscriber_id \<and>
               request_idempotency_key (attempt_request a) = idempotency_key) (db_attempts db)"

datatype ExistingAttemptPreflight =
    Continue
  | IdempotencyConflict
  | ReplayCanonical PaymentAttempt
  | RequiresLockedContext

definition preflight_existing_attempt ::
    "billing_db \<Rightarrow> BillingScopeId \<Rightarrow> SubscriberId \<Rightarrow> IdempotencyKey \<Rightarrow> (PaymentAttempt \<Rightarrow> bool) \<Rightarrow>
     ExistingAttemptPreflight" where
  "preflight_existing_attempt db billing_scope_id subscriber_id idempotency_key matches_command =
     (case payment_attempt_by_idempotency db billing_scope_id subscriber_id idempotency_key of
        None \<Rightarrow> Continue
      | Some existing \<Rightarrow>
          if \<not> matches_command existing then IdempotencyConflict
          else case attempt_replay_disposition existing of
                 ReturnCanonical \<Rightarrow> ReplayCanonical existing
               | _ \<Rightarrow> RequiresLockedContext)"

section \<open>Updating subscriptions\<close>

text \<open>
  \<open>UPDATE billing_subscriptions SET f WHERE hit RETURNING *\<close>: the first returned row and the
  table after the update.
\<close>

definition update_subscriptions ::
    "(subscription_row \<Rightarrow> bool) \<Rightarrow> (subscription_row \<Rightarrow> subscription_row) \<Rightarrow> billing_db \<Rightarrow>
     subscription_row option \<times> billing_db" where
  "update_subscriptions hit f db =
     (map_option f (find hit (db_subscriptions db)),
      db\<lparr>db_subscriptions := map (\<lambda>row. if hit row then f row else row) (db_subscriptions db)\<rparr>)"

definition INVALID_SUBSCRIPTION_STATE :: rstring where
  "INVALID_SUBSCRIPTION_STATE = lit ''canonical subscription state is invalid''"

text \<open>The row of one subscription of one owner.\<close>

definition exact_row ::
    "BillingScopeId \<Rightarrow> SubscriberId \<Rightarrow> PlanKey \<Rightarrow> Uuid \<Rightarrow> subscription_row \<Rightarrow> bool" where
  "exact_row billing_scope_id subscriber_id plan_key subscription_id row \<longleftrightarrow>
     row_id row = subscription_id \<and> row_of_owner billing_scope_id subscriber_id plan_key row"

section \<open>Lemmas\<close>

lemma expirable_status_values: "expirable_status_values = [lit ''pending'', lit ''review_required'']"
  by (simp add: expirable_status_values_def PaymentAttemptStatus_ALL_def is_locally_expirable_def)

lemma is_locally_expirable_iff:
  "is_locally_expirable s t \<longleftrightarrow> t = None \<and> s \<in> {PaymentAttemptStatus.Pending, PaymentAttemptStatus.ReviewRequired}"
  by (cases s; cases t) (simp_all add: is_locally_expirable_def)

lemma is_stale_local_iff:
  "is_stale_local at kind a \<longleftrightarrow>
     is_locally_expirable (PaymentAttempt_status a) (attempt_submitted_at a) \<and>
     attempt_created_at a \<le> at - duration_seconds (stale_after_seconds kind)"
  by (cases "PaymentAttempt_status a")
     (auto simp: is_stale_local_def expirable_status_values is_locally_expirable_iff)

lemma close_attempt_simps [simp]:
  "attempt_identity (close_attempt c t x r u a) = attempt_identity a"
  "attempt_request (close_attempt c t x r u a) = attempt_request a"
  "PaymentAttempt_status (close_attempt c t x r u a) = PaymentAttemptStatus.Failed"
  "PaymentAttempt_kind (close_attempt c t x r u a) = PaymentAttempt_kind a"
  "attempt_submitted_at (close_attempt c t x r u a) = attempt_submitted_at a"
  "attempt_created_at (close_attempt c t x r u a) = attempt_created_at a"
  "state_resolution_code (attempt_state (close_attempt c t x r u a)) = c"
  "attempt_resolved_at (close_attempt c t x r u a) = Some r"
  by (simp_all add: close_attempt_def PaymentAttempt_status_def PaymentAttempt_kind_def)

lemma update_attempts_simps [simp]:
  "db_subscriptions (update_attempts hit f db) = db_subscriptions db"
  "db_grants (update_attempts hit f db) = db_grants db"
  "db_charges (update_attempts hit f db) = db_charges db"
  "db_claims (update_attempts hit f db) = db_claims db"
  "db_discounts (update_attempts hit f db) = db_discounts db"
  "db_attempts (update_attempts hit f db) = map (\<lambda>a. if hit a then f a else a) (db_attempts db)"
  by (simp_all add: update_attempts_def)

section \<open>A concrete database\<close>

definition sample_renewal :: PaymentAttempt where
  "sample_renewal =
     \<lparr>attempt_identity = \<lparr>identity_attempt_id = PaymentAttemptId 9, identity_billing_scope_id = BillingScopeId 1,
        identity_subscriber_id = SubscriberId 2, identity_gateway_account_id = GatewayAccountId 3,
        identity_gateway_configuration_id = GatewayConfigurationId 4,
        identity_required_gateway_account_mode = Live\<rparr>,
      attempt_request = \<lparr>request_target = PaymentAttemptTarget.SubscriptionRenewal (offer_plan_key sample_offer)
          (PaymentMethodId 6) \<lparr>period_start_at = 100, period_end_at = 200\<rparr>
          \<lparr>payment_state_subscription_id = SubscriptionId 5, payment_state_payment_method_id = PaymentMethodId 6,
           payment_state_initial_transaction_id = GatewayTransactionId (GatewayReferenceValue (lit ''1'')),
           payment_state_status = SubscriptionStatus.Active\<rparr>,
        request_idempotency_key = IdempotencyKey (lit ''k''),
        request_fingerprint = PaymentAttemptFingerprint (lit ''f''),
        request_amount = ChargeAmount_money (sample_charge 2000),
        request_gateway_order_id = GatewayOrderId (GatewayReferenceValue (lit ''o'')),
        request_billing_contact = BillingContactSnapshot_new None None\<rparr>,
      attempt_state = \<lparr>state_status = PaymentAttemptStatus.Declined, state_resolution_code = None,
        state_processor_evidence = ProcessorEvidence_default, state_lifecycle = PaymentAttemptLifecycle_default,
        state_timestamps = \<lparr>stamp_submitted_at = Some 110, stamp_resolved_at = Some 120,
          stamp_review_required_at = None, stamp_created_at = 105, stamp_updated_at = 120\<rparr>\<rparr>\<rparr>"

definition sample_subscription_row :: subscription_row where
  "sample_subscription_row =
     \<lparr>row_id = 5, row_plan_key = lit ''base'', row_status = lit ''active'',
      row_required_gateway_account_mode = lit ''live'', row_payment_method_id = 6, row_amount_cents = 2000,
      row_currency = lit ''USD'', row_current_period_start_at = 0, row_current_period_end_at = 100,
      row_next_renewal_at = 100, row_phase = lit ''recurring'',
      row_recurring_period_kind = lit ''calendar_months'', row_recurring_period_count = 1,
      row_dunning_retry_delays_seconds = [86400, 259200], row_dunning_exhaustion = lit ''mark_unpaid'',
      row_past_due_access = lit ''continue_until_dunning_exhausted'',
      row_next_payment_attempt_at = Some 100, row_billing_scope_id = 1, row_subscriber_id = 2,
      row_gateway_account_id = 3, row_initial_transaction_id = lit ''1'',
      row_unpaid_at = None, row_canceled_at = None, row_created_at = 0, row_updated_at = 0\<rparr>"

definition sample_dunning_db :: billing_db where
  "sample_dunning_db = \<lparr>db_attempts = [sample_renewal], db_subscriptions = [sample_subscription_row],
     db_grants = [], db_charges = [], db_claims = [], db_discounts = []\<rparr>"

lemma sample_policy:
  "renewal_failure_policy_from_scalars [86400, 259200] (lit ''mark_unpaid'')
     (lit ''continue_until_dunning_exhausted'') = Ok (offer_renewal_failure sample_offer)"
  by (simp add: policy_scalars_Ok_iff sample_offer_def policy_wf_def MAX_DUNNING_RETRY_STEPS_def)

definition sample_subscription :: Subscription where
  "sample_subscription =
     \<lparr>sub_id = SubscriptionId 5, sub_plan_key = offer_plan_key sample_offer, sub_status = SubscriptionStatus.Active,
      sub_phase = SubscriptionPhase.Recurring, sub_required_gateway_account_mode = Live,
      sub_payment_method_id = PaymentMethodId 6, sub_recurring_charge = sample_charge 2000,
      sub_recurring_period = CalendarMonths 1, sub_renewal_failure = offer_renewal_failure sample_offer,
      sub_current_period = \<lparr>period_start_at = 0, period_end_at = 100\<rparr>, sub_next_renewal_at = 100,
      sub_next_payment_attempt_at = Some 100\<rparr>"

lemma sample_row_decodes: "subscription_from_row sample_subscription_row = Ok sample_subscription"
proof -
  have "slug_text (lit ''base'')" and "lit ''USD'' = [85, 83, 68]"
    by (simp_all add: lit_def ascii_class_defs is_slug_start_def is_slug_byte_def)
  then show ?thesis
    by (simp add: subscription_from_row_def into_subscription_Ok_iff Subscription_wf_def sample_subscription_def
        sample_offer_def sample_charge_def subscription_columns_def FullSubscriptionRow.truncate_def
        sample_subscription_row_def policy_wf_def period_rule_wf_def BillingPeriod_wf_def
        MAX_DUNNING_RETRY_STEPS_def ascii_class_defs)
qed

end
