(* ===== verification/Entitlement_Access.thy ===== *)
theory Entitlement_Access
  imports Billing_Store
begin

text \<open>
  Entitlement: \<open>crates/syrup-rail-postgres/src/entitlement.rs\<close>.  The read query and the guard of
  protected writes classify the same rows by separate code.  The theorem shows that they agree:
  a write is admitted exactly when the entitlement a host reads permits access.
\<close>

definition INVALID_ENTITLEMENT_STATE :: rstring where
  "INVALID_ENTITLEMENT_STATE = lit ''canonical subscription state cannot be represented as one entitlement''"

section \<open>The guard\<close>

type_synonym GuardSubscriptionState = "rstring \<times> datetime \<times> rstring \<times> datetime option"
type_synonym GuardGrantTimeState = "datetime \<times> datetime \<times> datetime option"

datatype GuardAccess = Missing | Paid | PaidThroughCancellation | PastDue | Granted | Invalid

datatype EntitlementGuardError = Required | PastDue | InvalidState rstring

definition classify_guard_access ::
    "GuardSubscriptionState list \<Rightarrow> GuardGrantTimeState list \<Rightarrow> datetime \<Rightarrow> GuardAccess" where
  "classify_guard_access subscriptions grants access_at =
     (let current_paid = filter (\<lambda>(status, current_period_end_at, _, _).
            status \<in> {lit ''active'', lit ''past_due''} \<or>
            status = lit ''canceled'' \<and> current_period_end_at > access_at) subscriptions;
          active_grant_count = length (filter (\<lambda>(starts_at, ends_at, revoked_at).
            starts_at \<le> access_at \<and> ends_at > access_at \<and> revoked_at = None) grants)
      in if length current_paid > 1 \<or> active_grant_count > 1 \<or> current_paid \<noteq> [] \<and> active_grant_count > 0
         then GuardAccess.Invalid
         else if active_grant_count = 1 then GuardAccess.Granted
         else case current_paid of
           [] \<Rightarrow> GuardAccess.Missing
         | (status, _, past_due_access, next_payment_attempt_at) # _ \<Rightarrow>
             if status = lit ''active'' then Paid
             else if status = lit ''canceled'' then GuardAccess.PaidThroughCancellation
             else if status = lit ''past_due'' then
               (case PastDueAccessPolicy_from_str past_due_access of
                  Inr policy \<Rightarrow>
                    if classify_past_due_access policy next_payment_attempt_at = AllowedDuringDunning then Paid
                    else GuardAccess.PastDue
                | Inl _ \<Rightarrow> GuardAccess.Invalid)
             else GuardAccess.Invalid)"

definition selects_subscription :: "EntitlementSelector \<Rightarrow> subscription_row \<Rightarrow> bool" where
  "selects_subscription s row \<longleftrightarrow>
     row_of_owner (selector_billing_scope_id s) (selector_subscriber_id s) (selector_plan_key s) row \<and>
     (case selector_required_gateway_account_mode s of
        None \<Rightarrow> True
      | Some mode \<Rightarrow> row_required_gateway_account_mode row = GatewayAccountMode_as_str mode)"

definition selects_grant :: "EntitlementSelector \<Rightarrow> grant_row \<Rightarrow> bool" where
  "selects_grant s =
     grant_of_owner (selector_billing_scope_id s) (selector_subscriber_id s) (selector_plan_key s)"

definition lock_and_classify_entitlement :: "billing_txn \<Rightarrow> EntitlementGuard \<Rightarrow> billing_db \<Rightarrow> GuardAccess" where
  "lock_and_classify_entitlement txn guard db =
     (let subscriptions = map (\<lambda>row. (row_status row, row_current_period_end_at row, row_past_due_access row,
              row_next_payment_attempt_at row))
            (sort_key row_id (filter (selects_subscription (guard_selector guard)) (db_subscriptions db)));
          grants = map (\<lambda>row. (grow_starts_at row, grow_ends_at row, grow_revoked_at row))
            (sort_key grow_id (filter (selects_grant (guard_selector guard)) (db_grants db)))
      in classify_guard_access subscriptions grants (txn_clock txn))"

text \<open>\<open>Ok\<close> is the admitted transaction; a denial rolls the transaction back.\<close>

definition require_entitlement_for_update ::
    "billing_txn \<Rightarrow> EntitlementGuard \<Rightarrow> billing_db \<Rightarrow> (unit, EntitlementGuardError) result" where
  "require_entitlement_for_update txn guard db =
     (case lock_and_classify_entitlement txn guard db of
        GuardAccess.Paid \<Rightarrow> Ok ()
      | GuardAccess.PaidThroughCancellation \<Rightarrow> Ok ()
      | GuardAccess.Granted \<Rightarrow> Ok ()
      | GuardAccess.PastDue \<Rightarrow> Err EntitlementGuardError.PastDue
      | GuardAccess.Missing \<Rightarrow> Err Required
      | GuardAccess.Invalid \<Rightarrow> Err (EntitlementGuardError.InvalidState INVALID_ENTITLEMENT_STATE))"

section \<open>Decoding discounts\<close>

datatype EntitlementQueryError = InvalidState rstring

abbreviation invalid_entitlement :: EntitlementQueryError where
  "invalid_entitlement \<equiv> EntitlementQueryError.InvalidState INVALID_ENTITLEMENT_STATE"

definition discount_duration ::
    "rstring \<Rightarrow> int option \<Rightarrow> (SubscriptionDiscountDuration, EntitlementQueryError) result" where
  "discount_duration duration duration_months =
     (if duration = lit ''indefinite'' \<and> duration_months = None then Ok Indefinite
      else case duration_months of
        Some months \<Rightarrow>
          if duration = lit ''limited_months'' then
            and_then (ok_or (try_unsigned months) invalid_entitlement)
              (\<lambda>months. map_sum (\<lambda>_. invalid_entitlement) LimitedMonths (LimitedDiscountMonths_new months))
          else Err invalid_entitlement
      | None \<Rightarrow> Err invalid_entitlement)"

definition discount_snapshot_from_values ::
    "'a discount_columns_scheme \<Rightarrow> rstring \<Rightarrow> SubscriptionDiscountDuration \<Rightarrow>
     (SubscriptionDiscountSnapshot, EntitlementQueryError) result" where
  "discount_snapshot_from_values row code duration =
     and_then
       (if disc_kind row = lit ''amount_off'' then
          and_then (ok_or (disc_amount_off_cents row) invalid_entitlement)
            (\<lambda>cents. map_sum (\<lambda>_. invalid_entitlement) AmountOffCents (PositiveDiscountCents_new cents))
        else if disc_kind row = lit ''percent_off'' then
          and_then (ok_or (disc_percent_off_bps row) invalid_entitlement)
            (\<lambda>bps. and_then (ok_or (try_unsigned bps) invalid_entitlement)
               (\<lambda>bps. map_sum (\<lambda>_. invalid_entitlement) PercentOffBps (PercentOffBasisPoints_new bps)))
        else Err invalid_entitlement)
     (\<lambda>kind. and_then (map_err (\<lambda>_. invalid_entitlement) (CurrencyCode_new (disc_currency row)))
     (\<lambda>currency. and_then (map_err (\<lambda>_. invalid_entitlement) (SubscriptionDiscountCode_new code))
     (\<lambda>code. and_then (map_err (\<lambda>_. invalid_entitlement) (ChargeAmount_new (disc_base_amount_cents row) currency))
     (\<lambda>base. and_then (map_err (\<lambda>_. invalid_entitlement)
        (ChargeAmount_new (disc_discounted_amount_cents row) currency))
     (\<lambda>discounted. map_err (\<lambda>_. invalid_entitlement)
        (SubscriptionDiscountSnapshot_new code (disc_label row) kind duration base discounted))))))"

definition discount_snapshot ::
    "'a discount_columns_scheme \<Rightarrow> (SubscriptionDiscountSnapshot, EntitlementQueryError) result" where
  "discount_snapshot row =
     and_then (discount_duration (disc_duration row) (disc_duration_months row))
       (discount_snapshot_from_values row (disc_code row))"

definition saved_discount_from_row ::
    "claim_row option \<Rightarrow> (SavedSubscriptionDiscount option, EntitlementQueryError) result" where
  "saved_discount_from_row saved =
     (case saved of
        None \<Rightarrow> Ok None
      | Some row \<Rightarrow> map_sum id (\<lambda>snapshot. Some \<lparr>saved_claim_id = DiscountClaimId (clrow_id row),
            saved_snapshot = snapshot\<rparr>) (discount_snapshot row))"

text \<open>The subtraction of two \<open>integer\<close> columns wraps in a release build.\<close>

definition wrap_i32 :: "int \<Rightarrow> int" where
  "wrap_i32 i = (i + 2 ^ 31) mod 2 ^ 32 - 2 ^ 31"

definition applied_discount_from_row ::
    "discount_row option \<Rightarrow> (AppliedSubscriptionDiscount option, EntitlementQueryError) result" where
  "applied_discount_from_row applied =
     (case applied of
        None \<Rightarrow> Ok None
      | Some row \<Rightarrow>
          and_then (discount_duration (disc_duration row) (disc_duration_months row))
          (\<lambda>duration. and_then
             (case duration of
                Indefinite \<Rightarrow> Ok None
              | LimitedMonths _ \<Rightarrow>
                  and_then (ok_or (drow_periods_total row) invalid_entitlement)
                    (\<lambda>total_periods. map_sum id Some
                       (ok_or (try_unsigned (wrap_i32 (total_periods - drow_periods_applied row))) invalid_entitlement)))
          (\<lambda>periods_remaining. and_then (discount_snapshot_from_values row (disc_code row) duration)
          (\<lambda>snapshot. map_sum (\<lambda>_. invalid_entitlement) Some
             (AppliedSubscriptionDiscount_new (map_option DiscountClaimId (drow_claim_id row)) snapshot
                periods_remaining)))))"

section \<open>The query\<close>

definition paid_candidate :: "EntitlementSelector \<Rightarrow> datetime \<Rightarrow> subscription_row \<Rightarrow> bool" where
  "paid_candidate s observed_at row \<longleftrightarrow>
     selects_subscription s row \<and>
     (row_status row \<in> {lit ''active'', lit ''past_due''} \<or>
      row_status row = lit ''canceled'' \<and> row_current_period_end_at row > observed_at)"

definition active_grant :: "EntitlementSelector \<Rightarrow> datetime \<Rightarrow> grant_row \<Rightarrow> bool" where
  "active_grant s observed_at row \<longleftrightarrow>
     selects_grant s row \<and> grow_starts_at row \<le> observed_at \<and> grow_ends_at row > observed_at \<and>
     grow_revoked_at row = None"

definition subscription_rank :: "subscription_row \<Rightarrow> nat" where
  "subscription_rank row =
     (if row_status row = lit ''active'' then 0 else if row_status row = lit ''past_due'' then 1 else 2)"

text \<open>\<open>ORDER BY rank, updated_at DESC, id DESC\<close>, least significant key first.\<close>

definition by_rank :: "subscription_row list \<Rightarrow> subscription_row list" where
  "by_rank rows =
     sort_key subscription_rank (sort_key (\<lambda>r. - row_updated_at r) (sort_key (\<lambda>r. - uint (row_id r)) rows))"

definition first_row :: "'a list \<Rightarrow> 'a option" where
  "first_row xs = (case xs of [] \<Rightarrow> None | x # _ \<Rightarrow> Some x)"

definition blocking_initial_attempt :: "EntitlementSelector \<Rightarrow> billing_txn \<Rightarrow> billing_db \<Rightarrow> bool" where
  "blocking_initial_attempt s txn db =
     list_ex (\<lambda>a.
       attempt_of_owner (selector_billing_scope_id s) (selector_subscriber_id s) (selector_plan_key s) a \<and>
       PaymentAttempt_kind a = PaymentAttemptKind.SubscriptionInitial \<and>
       (PaymentAttempt_status a \<in> {PaymentAttemptStatus.Pending, PaymentAttemptStatus.Unknown} \<or>
        PaymentAttempt_status a = PaymentAttemptStatus.ReviewRequired \<and>
        state_resolution_code (attempt_state a) \<noteq> Some SubscriptionInitialCurrentSubscriptionConflict) \<and>
       \<not> is_stale_local (txn_clock txn) PaymentAttemptKind.SubscriptionInitial a \<and>
       \<not> list_ex (\<lambda>row.
           row_of_owner (selector_billing_scope_id s) (selector_subscriber_id s) (selector_plan_key s) row \<and>
           row_created_at row \<ge> attempt_created_at a) (db_subscriptions db)) (db_attempts db)"

definition pending_recovery_confirmation :: "subscription_row option \<Rightarrow> billing_txn \<Rightarrow> billing_db \<Rightarrow> bool" where
  "pending_recovery_confirmation paid txn db =
     (case paid of
        None \<Rightarrow> False
      | Some row \<Rightarrow>
          list_ex (\<lambda>a. attempt_subscription_id a = Some (SubscriptionId (row_id row)) \<and>
            is_subscription_charge a \<and>
            PaymentAttempt_status a \<in> {PaymentAttemptStatus.Pending, PaymentAttemptStatus.Unknown,
              PaymentAttemptStatus.ReviewRequired} \<and>
            \<not> is_stale_local (txn_clock txn) PaymentAttemptKind.SubscriptionRenewal a) (db_attempts db))"

record entitlement_row =
  ent_paid_count :: nat
  ent_grant_count :: nat
  ent_paid :: "subscription_row option"
  ent_grant :: "grant_row option"
  ent_blocking_initial_attempt :: bool
  ent_pending_recovery_confirmation :: bool
  ent_saved :: "claim_row option"
  ent_applied :: "discount_row option"

definition entitlement_row_of :: "billing_txn \<Rightarrow> EntitlementSelector \<Rightarrow> billing_db \<Rightarrow> entitlement_row" where
  "entitlement_row_of txn s db =
     (let observed_at = txn_clock txn;
          paid_candidates = filter (paid_candidate s observed_at) (db_subscriptions db);
          active_grants = filter (active_grant s observed_at) (db_grants db);
          paid = first_row (by_rank paid_candidates)
      in \<lparr>ent_paid_count = length paid_candidates, ent_grant_count = length active_grants,
          ent_paid = paid,
          ent_grant = first_row (sort_key (\<lambda>g. - grow_ends_at g) (sort_key (\<lambda>g. - grow_created_at g)
            (sort_key (\<lambda>g. - uint (grow_id g)) active_grants))),
          ent_blocking_initial_attempt = blocking_initial_attempt s txn db,
          ent_pending_recovery_confirmation = pending_recovery_confirmation paid txn db,
          ent_saved = first_row (sort_key (\<lambda>c. - clrow_claimed_at c) (sort_key (\<lambda>c. - uint (clrow_id c))
            (filter (\<lambda>c. clrow_billing_scope_id c = BillingScopeId_as_uuid (selector_billing_scope_id s) \<and>
               clrow_subscriber_id c = SubscriberId_as_uuid (selector_subscriber_id s) \<and>
               clrow_plan_key c = PlanKey_as_str (selector_plan_key s) \<and> clrow_status c = lit ''saved'')
             (db_claims db)))),
          ent_applied = (case paid of None \<Rightarrow> None | Some row \<Rightarrow>
            find (\<lambda>d. drow_subscription_id d = row_id row \<and>
               drow_billing_scope_id d = BillingScopeId_as_uuid (selector_billing_scope_id s) \<and>
               drow_subscriber_id d = SubscriberId_as_uuid (selector_subscriber_id s) \<and>
               drow_plan_key d = PlanKey_as_str (selector_plan_key s) \<and> drow_status d = lit ''active'')
              (db_discounts db))\<rparr>)"

definition ent_grant_from_row :: "grant_row option \<Rightarrow> (SubscriptionGrant, EntitlementQueryError) result" where
  "ent_grant_from_row grant =
     (case grant of
        None \<Rightarrow> Err invalid_entitlement
      | Some row \<Rightarrow>
          and_then (map_err (\<lambda>_. invalid_entitlement) (PlanKey_new (grow_plan_key row)))
          (\<lambda>plan_key. and_then (map_err (\<lambda>_. invalid_entitlement)
             (SubscriptionGrantKind_from_str (grow_grant_kind row)))
          (\<lambda>kind. map_err (\<lambda>_. invalid_entitlement)
             (SubscriptionGrant_new (SubscriptionGrantId (grow_id row)) plan_key kind (grow_starts_at row)
                (grow_ends_at row) (ActorId (grow_granted_by_actor_id row))))))"

text \<open>
  The query decodes the columns of \<open>paid\<close> with the checks of \<open>into_subscription\<close> in another
  order; every failed check is the same error, so the order cannot be observed.
\<close>

definition entitlement_from_row :: "entitlement_row \<Rightarrow> (Entitlement, EntitlementQueryError) result" where
  "entitlement_from_row row =
     (if ent_paid_count row > 1 \<or> ent_grant_count row > 1 \<or> ent_paid_count row > 0 \<and> ent_grant_count row > 0
      then Err invalid_entitlement
      else if ent_grant_count row = 1
      then map_sum id Entitlement.Granted (ent_grant_from_row (ent_grant row))
      else case ent_paid row of
        None \<Rightarrow>
          map_sum id (Entitlement.Missing (if ent_blocking_initial_attempt row then ConfirmInitialPayment
            else StartSubscription)) (saved_discount_from_row (ent_saved row))
      | Some paid \<Rightarrow>
          and_then (map_err (\<lambda>_. invalid_entitlement) (subscription_from_row paid))
          (\<lambda>subscription. and_then (applied_discount_from_row (ent_applied row))
          (\<lambda>applied_discount. case sub_status subscription of
             SubscriptionStatus.Active \<Rightarrow> Ok (PaidActive subscription applied_discount)
           | SubscriptionStatus.PastDue \<Rightarrow> Ok (Entitlement.PastDue subscription
               (classify_past_due_access (policy_past_due_access (sub_renewal_failure subscription))
                  (sub_next_payment_attempt_at subscription))
               (if ent_pending_recovery_confirmation row then ConfirmRecoveryPayment else RecoverPayment)
               applied_discount)
           | SubscriptionStatus.Canceled \<Rightarrow> Ok (Entitlement.PaidThroughCancellation subscription applied_discount)
           | SubscriptionStatus.Unpaid \<Rightarrow> Err invalid_entitlement)))"

definition entitlement ::
    "billing_txn \<Rightarrow> EntitlementQuery \<Rightarrow> billing_db \<Rightarrow> (Entitlement, EntitlementQueryError) result" where
  "entitlement txn query db = entitlement_from_row (entitlement_row_of txn (query_selector query) db)"

section \<open>The guard and the query agree\<close>

lemma first_row_short:
  assumes "length xs \<le> 1"
  shows "first_row (by_rank xs) = first_row xs"
  using assms by (cases xs) (auto simp: by_rank_def)

lemma guard_counts:
  "filter (\<lambda>(status, current_period_end_at, _, _).
      status \<in> {lit ''active'', lit ''past_due''} \<or> status = lit ''canceled'' \<and> current_period_end_at > t)
    (map (\<lambda>row. (row_status row, row_current_period_end_at row, row_past_due_access row,
              row_next_payment_attempt_at row)) (sort_key row_id (filter (selects_subscription s) rows))) =
   map (\<lambda>row. (row_status row, row_current_period_end_at row, row_past_due_access row,
              row_next_payment_attempt_at row)) (sort_key row_id (filter (paid_candidate s t) rows))"
  "length (filter (\<lambda>(starts_at, ends_at, revoked_at). starts_at \<le> t \<and> ends_at > t \<and> revoked_at = None)
     (map (\<lambda>row. (grow_starts_at row, grow_ends_at row, grow_revoked_at row))
        (sort_key grow_id (filter (selects_grant s) grants)))) =
   length (filter (active_grant s t) grants)"
proof -
  have p: "(\<lambda>row. selects_subscription s row \<and> (row_status row \<in> {lit ''active'', lit ''past_due''} \<or>
      row_status row = lit ''canceled'' \<and> row_current_period_end_at row > t)) = paid_candidate s t"
    by (simp add: fun_eq_iff paid_candidate_def)
  have g: "(\<lambda>row. selects_grant s row \<and> grow_starts_at row \<le> t \<and> t < grow_ends_at row \<and>
      grow_revoked_at row = None) = active_grant s t"
    by (simp add: fun_eq_iff active_grant_def)
  show "filter (\<lambda>(status, current_period_end_at, _, _).
      status \<in> {lit ''active'', lit ''past_due''} \<or> status = lit ''canceled'' \<and> current_period_end_at > t)
    (map (\<lambda>row. (row_status row, row_current_period_end_at row, row_past_due_access row,
              row_next_payment_attempt_at row)) (sort_key row_id (filter (selects_subscription s) rows))) =
   map (\<lambda>row. (row_status row, row_current_period_end_at row, row_past_due_access row,
              row_next_payment_attempt_at row)) (sort_key row_id (filter (paid_candidate s t) rows))"
    by (simp add: filter_map filter_sort comp_def p [symmetric] conj_commute)
  show "length (filter (\<lambda>(starts_at, ends_at, revoked_at). starts_at \<le> t \<and> ends_at > t \<and> revoked_at = None)
     (map (\<lambda>row. (grow_starts_at row, grow_ends_at row, grow_revoked_at row))
        (sort_key grow_id (filter (selects_grant s) grants)))) =
   length (filter (active_grant s t) grants)"
    by (simp add: filter_map filter_sort comp_def g [symmetric] conj_commute)
qed

lemma lock_and_classify_candidates:
  assumes "length (filter (paid_candidate s (txn_clock txn)) (db_subscriptions db)) \<le> 1"
  shows "lock_and_classify_entitlement txn (EntitlementGuard s) db =
    (let paid = filter (paid_candidate s (txn_clock txn)) (db_subscriptions db);
         n = length (filter (active_grant s (txn_clock txn)) (db_grants db))
     in if n > 1 \<or> paid \<noteq> [] \<and> n > 0 then GuardAccess.Invalid
        else if n = 1 then GuardAccess.Granted
        else case paid of
          [] \<Rightarrow> GuardAccess.Missing
        | row # _ \<Rightarrow>
            if row_status row = lit ''active'' then Paid
            else if row_status row = lit ''canceled'' then GuardAccess.PaidThroughCancellation
            else if row_status row = lit ''past_due'' then
              (case PastDueAccessPolicy_from_str (row_past_due_access row) of
                 Inr policy \<Rightarrow>
                   if classify_past_due_access policy (row_next_payment_attempt_at row) = AllowedDuringDunning
                   then Paid else GuardAccess.PastDue
               | Inl _ \<Rightarrow> GuardAccess.Invalid)
            else GuardAccess.Invalid)"
proof -
  define paid where "paid = filter (paid_candidate s (txn_clock txn)) (db_subscriptions db)"
  define n where "n = length (filter (active_grant s (txn_clock txn)) (db_grants db))"
  have sorted: "sort_key row_id paid = paid" and short: "length paid \<le> 1"
    using assms by (cases paid; simp add: paid_def)+
  show ?thesis
    unfolding lock_and_classify_entitlement_def classify_guard_access_def Let_def EntitlementGuard.sel
      guard_counts paid_def [symmetric] n_def [symmetric] sorted
    using short by (cases paid) simp_all
qed

lemma subscription_from_row_columns:
  assumes "subscription_from_row row = Ok subscription"
  shows "row_status row = SubscriptionStatus_as_str (sub_status subscription)"
    and "row_past_due_access row = PastDueAccessPolicy_as_str (policy_past_due_access (sub_renewal_failure subscription))"
    and "row_next_payment_attempt_at row = sub_next_payment_attempt_at subscription"
proof -
  have columns: "FullSubscriptionRow.truncate row = subscription_columns subscription"
    using assms by (auto simp: subscription_from_row_def into_subscription_Ok_iff)
  show "row_status row = SubscriptionStatus_as_str (sub_status subscription)"
    and "row_past_due_access row = PastDueAccessPolicy_as_str (policy_past_due_access (sub_renewal_failure subscription))"
    and "row_next_payment_attempt_at row = sub_next_payment_attempt_at subscription"
    using arg_cong [OF columns, of row_status] arg_cong [OF columns, of row_past_due_access]
      arg_cong [OF columns, of row_next_payment_attempt_at]
    by (simp_all add: subscription_columns_def FullSubscriptionRow.truncate_def)
qed

text \<open>C38.  The guard of protected writes and the entitlement a host reads agree: on any database and
  clock, whenever the query returns an entitlement, the guard admits the write exactly when that
  entitlement permits product access; otherwise it reports a past-due subscription or a missing
  one as the entitlement does.  So an inconsistent state is never admitted by one and refused by
  the other.\<close>

theorem guard_agrees_with_query:
  assumes "entitlement txn (EntitlementQuery s) db = Ok e"
  shows "require_entitlement_for_update txn (EntitlementGuard s) db =
    (if permits_product_access e then Ok ()
     else case e of
            Entitlement.PastDue _ _ _ _ \<Rightarrow> Err EntitlementGuardError.PastDue
          | _ \<Rightarrow> Err Required)"
proof -
  let ?paid = "filter (paid_candidate s (txn_clock txn)) (db_subscriptions db)"
  let ?n = "length (filter (active_grant s (txn_clock txn)) (db_grants db))"
  have one: "length ?paid \<le> 1" and n: "?n \<le> 1" and exclusive: "?paid = [] \<or> ?n = 0"
    using assms by (auto simp: entitlement_def entitlement_from_row_def entitlement_row_of_def Let_def split: if_splits)
  note row = assms [unfolded entitlement_def entitlement_from_row_def entitlement_row_of_def Let_def,
      unfolded EntitlementQuery.sel entitlement_row.simps first_row_short [OF one]]
  note guard = lock_and_classify_candidates [OF one, unfolded Let_def]
  show ?thesis
  proof (cases "?n = 1")
    case True
    with exclusive have "?paid = []" by auto
    with True row show ?thesis
      by (auto simp: require_entitlement_for_update_def guard map_sum_Inr_iff)
  next
    case False
    with n have n0: "?n = 0" by linarith
    show ?thesis
    proof (cases ?paid)
      case Nil
      with n0 row show ?thesis
        by (auto simp: require_entitlement_for_update_def guard first_row_def map_sum_Inr_iff)
    next
      case (Cons r rs)
      with n0 one row obtain sub applied act where sub: "subscription_from_row r = Ok sub"
        and e: "(case sub_status sub of
             SubscriptionStatus.Active \<Rightarrow> Ok (PaidActive sub applied)
           | SubscriptionStatus.PastDue \<Rightarrow> Ok (Entitlement.PastDue sub
               (classify_past_due_access (policy_past_due_access (sub_renewal_failure sub))
                  (sub_next_payment_attempt_at sub))
               act applied)
           | SubscriptionStatus.Canceled \<Rightarrow> Ok (Entitlement.PaidThroughCancellation sub applied)
           | SubscriptionStatus.Unpaid \<Rightarrow> Err invalid_entitlement) = (Ok e :: (Entitlement, EntitlementQueryError) result)"
        by (auto simp: first_row_def and_then_Inr_iff map_err_Inr_iff)
      note columns = subscription_from_row_columns [OF sub]
      from e columns n0 Cons show ?thesis
        by (cases "sub_status sub"; cases "classify_past_due_access (policy_past_due_access (sub_renewal_failure sub))
              (sub_next_payment_attempt_at sub)")
           (auto simp: require_entitlement_for_update_def guard past_due_access.parse_print)
    qed
  qed
qed

theorem guard_agrees_with_query_witness:
  "let txn = \<lparr>txn_now = 50, txn_clock = 50, txn_locked = []\<rparr>;
       s = EntitlementSelector_new (BillingScopeId 1) (SubscriberId 2) (offer_plan_key sample_offer)
   in entitlement txn (EntitlementQuery s) sample_dunning_db = Ok (PaidActive sample_subscription None) \<and>
      require_entitlement_for_update txn (EntitlementGuard s) sample_dunning_db = Ok ()"
proof -
  define txn where "txn = \<lparr>txn_now = 50, txn_clock = 50, txn_locked = []\<rparr>"
  define s where "s = EntitlementSelector_new (BillingScopeId 1) (SubscriberId 2) (offer_plan_key sample_offer)"
  have candidate: "paid_candidate s (txn_clock txn) sample_subscription_row"
    by (simp add: paid_candidate_def selects_subscription_def row_of_owner_def s_def EntitlementSelector_new_def
        sample_subscription_row_def sample_offer_def)
  have tables: "db_subscriptions sample_dunning_db = [sample_subscription_row]" "db_grants sample_dunning_db = []"
    "db_discounts sample_dunning_db = []"
    by (simp_all add: sample_dunning_db_def)
  have status: "sub_status sample_subscription = SubscriptionStatus.Active"
    by (simp add: sample_subscription_def)
  have "entitlement txn (EntitlementQuery s) sample_dunning_db = Ok (PaidActive sample_subscription None)"
    by (simp add: entitlement_def entitlement_from_row_def entitlement_row_of_def Let_def tables candidate
        by_rank_def first_row_def sample_row_decodes applied_discount_from_row_def status)
  then show ?thesis
    using guard_agrees_with_query by (simp add: s_def txn_def)
qed

end
