(* ===== verification/Store_History.thy ===== *)
theory Store_History
  imports Entitlement_Access
begin

text \<open>
  What every operation on the database of \<open>Billing_Store\<close> keeps, as the contract \<open>billing_operation\<close>
  that each operation is shown to satisfy: subscriptions keep their terms and leave a terminal
  status never, attempts that reached the provider are not rewritten, grants are only added or
  revoked, and no owner comes to hold two sources of access at once.
\<close>

section \<open>Histories of rows\<close>

definition is_current_status :: "rstring \<Rightarrow> bool" where
  "is_current_status status \<longleftrightarrow> status \<in> {lit ''active'', lit ''past_due''}"

text \<open>A row without the columns that the operations on existing subscriptions write.\<close>

definition fixed_columns :: "subscription_row \<Rightarrow> subscription_row" where
  "fixed_columns row =
     row\<lparr>row_status := [], row_next_payment_attempt_at := None, row_past_due_access := [], row_unpaid_at := None,
         row_canceled_at := None, row_updated_at := 0\<rparr>"

definition policy_readable :: "subscription_row \<Rightarrow> bool" where
  "policy_readable row \<longleftrightarrow> (\<exists>policy. PastDueAccessPolicy_from_str (row_past_due_access row) = Ok policy)"

definition row_history :: "subscription_row \<Rightarrow> subscription_row \<Rightarrow> bool" where
  "row_history row row' \<longleftrightarrow>
     fixed_columns row' = fixed_columns row \<and>
     (\<not> is_current_status (row_status row) \<longrightarrow> row' = row) \<and>
     (policy_readable row \<longrightarrow> policy_readable row')"

definition attempt_history :: "PaymentAttempt \<Rightarrow> PaymentAttempt \<Rightarrow> bool" where
  "attempt_history a a' \<longleftrightarrow>
     attempt_identity a' = attempt_identity a \<and> attempt_request a' = attempt_request a \<and>
     attempt_submitted_at a' = attempt_submitted_at a \<and>
     (\<not> is_locally_expirable (PaymentAttempt_status a) (attempt_submitted_at a) \<longrightarrow> a' = a)"

definition unrevoked_columns :: "grant_row \<Rightarrow> grant_row" where
  "unrevoked_columns row =
     row\<lparr>grow_revoked_at := None, grow_revoked_by_actor_id := None, grow_revocation_reason := None,
         grow_updated_at := 0\<rparr>"

definition grant_history :: "grant_row \<Rightarrow> grant_row \<Rightarrow> bool" where
  "grant_history row row' \<longleftrightarrow>
     unrevoked_columns row' = unrevoked_columns row \<and> (grow_revoked_at row \<noteq> None \<longrightarrow> row' = row)"

definition db_history :: "billing_db \<Rightarrow> billing_db \<Rightarrow> bool" where
  "db_history db db' \<longleftrightarrow>
     list_all2 row_history (db_subscriptions db) (db_subscriptions db') \<and>
     list_all2 attempt_history (db_attempts db) (db_attempts db') \<and>
     (\<exists>old new. db_grants db' = old @ new \<and> list_all2 grant_history (db_grants db) old) \<and>
     db_charges db' = db_charges db \<and> db_claims db' = db_claims db \<and> db_discounts db' = db_discounts db"

section \<open>Consistency\<close>

text \<open>
  Primary keys are distinct, grants have started, stored policies can be read, and no selector
  finds two sources of access.
\<close>

definition paid_count :: "EntitlementSelector \<Rightarrow> datetime \<Rightarrow> billing_db \<Rightarrow> nat" where
  "paid_count s t db = length (filter (paid_candidate s t) (db_subscriptions db))"

definition grant_count :: "EntitlementSelector \<Rightarrow> datetime \<Rightarrow> billing_db \<Rightarrow> nat" where
  "grant_count s t db = length (filter (active_grant s t) (db_grants db))"

definition exclusive :: "datetime \<Rightarrow> billing_db \<Rightarrow> bool" where
  "exclusive t db \<longleftrightarrow> (\<forall>s. paid_count s t db + grant_count s t db \<le> 1)"

definition consistent :: "datetime \<Rightarrow> billing_db \<Rightarrow> bool" where
  "consistent t db \<longleftrightarrow>
     distinct (map row_id (db_subscriptions db)) \<and> distinct (map grow_id (db_grants db)) \<and>
     list_all (\<lambda>g. grow_starts_at g \<le> t) (db_grants db) \<and>
     list_all policy_readable (db_subscriptions db) \<and> exclusive t db"

section \<open>Lemmas\<close>

lemma row_history_refl [simp]: "row_history r r"
  by (simp add: row_history_def)

lemma row_history_trans: "row_history r r' \<Longrightarrow> row_history r' r'' \<Longrightarrow> row_history r r''"
  by (auto simp: row_history_def)

lemma attempt_history_refl [simp]: "attempt_history a a"
  by (simp add: attempt_history_def)

lemma attempt_history_trans: "attempt_history a a' \<Longrightarrow> attempt_history a' a'' \<Longrightarrow> attempt_history a a''"
  by (auto simp: attempt_history_def)

lemma grant_history_refl [simp]: "grant_history g g"
  by (simp add: grant_history_def)

lemma grant_history_trans: "grant_history g g' \<Longrightarrow> grant_history g' g'' \<Longrightarrow> grant_history g g''"
  by (auto simp: grant_history_def)

lemma list_all2_reflI: "(\<And>x. P x x) \<Longrightarrow> list_all2 P xs xs"
  by (simp add: list_all2_refl)

lemma list_all2_mapI: "(\<And>x. x \<in> set xs \<Longrightarrow> P x (f x)) \<Longrightarrow> list_all2 P xs (map f xs)"
  by (induction xs) auto

lemma db_history_refl [simp]: "db_history db db"
  unfolding db_history_def
  by (intro conjI list_all2_reflI exI [of _ "db_grants db"] exI [of _ "[]"]) simp_all

lemma db_history_trans:
  assumes "db_history db db'" and "db_history db' db''"
  shows "db_history db db''"
proof -
  from assms obtain old new old' new' where g: "db_grants db' = old @ new" "list_all2 grant_history (db_grants db) old"
    "db_grants db'' = old' @ new'" "list_all2 grant_history (old @ new) old'"
    by (auto simp: db_history_def)
  from g(4) obtain ys zs where "old' = ys @ zs" "list_all2 grant_history old ys"
    by (auto simp: list_all2_append1)
  with g have "db_grants db'' = ys @ (zs @ new')" "list_all2 grant_history (db_grants db) ys"
    by (auto elim: list_all2_trans [rotated] intro: grant_history_trans)
  moreover have "list_all2 row_history (db_subscriptions db) (db_subscriptions db'')"
    "list_all2 attempt_history (db_attempts db) (db_attempts db'')"
    using assms unfolding db_history_def
    by (auto elim: list_all2_trans [rotated] intro: row_history_trans attempt_history_trans)
  ultimately show ?thesis using assms unfolding db_history_def by metis
qed

lemma row_history_fixed:
  assumes "row_history r r'"
  shows "row_id r' = row_id r" and "row_plan_key r' = row_plan_key r"
    and "row_billing_scope_id r' = row_billing_scope_id r" and "row_subscriber_id r' = row_subscriber_id r"
    and "row_required_gateway_account_mode r' = row_required_gateway_account_mode r"
    and "row_current_period_end_at r' = row_current_period_end_at r"
    and "row_next_renewal_at r' = row_next_renewal_at r" and "row_amount_cents r' = row_amount_cents r"
proof -
  have *: "fixed_columns r' = fixed_columns r" using assms by (simp add: row_history_def)
  show "row_id r' = row_id r" "row_plan_key r' = row_plan_key r"
    "row_billing_scope_id r' = row_billing_scope_id r" "row_subscriber_id r' = row_subscriber_id r"
    "row_required_gateway_account_mode r' = row_required_gateway_account_mode r"
    "row_current_period_end_at r' = row_current_period_end_at r"
    "row_next_renewal_at r' = row_next_renewal_at r" "row_amount_cents r' = row_amount_cents r"
    using * by (cases r; cases r'; simp add: fixed_columns_def)+
qed

lemma paid_candidate_earlier:
  assumes "row_history r r'" and "t \<le> t'" and "paid_candidate s t' r'"
  shows "paid_candidate s t r"
proof (cases "is_current_status (row_status r)")
  case True
  have "selects_subscription s r' = selects_subscription s r"
    by (simp add: selects_subscription_def row_of_owner_def row_history_fixed [OF assms(1)]
        cong: option.case_cong)
  with True assms(3) show ?thesis by (simp add: paid_candidate_def is_current_status_def)
next
  case False
  with assms show ?thesis by (auto simp: row_history_def paid_candidate_def)
qed

lemma active_grant_earlier:
  assumes "grant_history g g'" and "t \<le> t'" and "grow_starts_at g \<le> t" and "active_grant s t' g'"
  shows "active_grant s t g"
proof -
  have "unrevoked_columns g' = unrevoked_columns g" "grow_revoked_at g = None"
    using assms by (auto simp: grant_history_def active_grant_def)
  with assms show ?thesis
    by (cases g; cases g'; auto simp: unrevoked_columns_def active_grant_def selects_grant_def grant_of_owner_def)
qed

lemma filter_list_all2_le:
  assumes "list_all2 R xs ys" and "\<And>x y. x \<in> set xs \<Longrightarrow> R x y \<Longrightarrow> Q y \<Longrightarrow> P x"
  shows "length (filter Q ys) \<le> length (filter P xs)"
  using assms by (induction xs ys rule: list_all2_induct) (auto simp: le_SucI)

lemma paid_count_later:
  assumes "list_all2 row_history (db_subscriptions db) (db_subscriptions db')" and "t \<le> t'"
  shows "paid_count s t' db' \<le> paid_count s t db"
  unfolding paid_count_def using assms(1)
  by (rule filter_list_all2_le) (use assms(2) paid_candidate_earlier in blast)

lemma grant_count_later:
  assumes "list_all2 grant_history (db_grants db) (db_grants db')" and "t \<le> t'"
    and "list_all (\<lambda>g. grow_starts_at g \<le> t) (db_grants db)"
  shows "grant_count s t' db' \<le> grant_count s t db"
  unfolding grant_count_def using assms(1)
  by (rule filter_list_all2_le) (use assms(2,3) active_grant_earlier in \<open>auto simp: list_all_iff\<close>)

lemma row_ids_kept: "list_all2 row_history rows rows' \<Longrightarrow> map row_id rows' = map row_id rows"
  by (induction rows rows' rule: list_all2_induct) (auto simp: row_history_fixed)

lemma policies_kept: "list_all2 row_history rows rows' \<Longrightarrow> list_all policy_readable rows \<Longrightarrow> list_all policy_readable rows'"
  by (induction rows rows' rule: list_all2_induct) (auto simp: row_history_def)

lemma grants_fixed:
  assumes "list_all2 grant_history gs gs'"
  shows "map grow_id gs' = map grow_id gs" and "map grow_starts_at gs' = map grow_starts_at gs"
proof -
  have kept: "grow_id g' = grow_id g \<and> grow_starts_at g' = grow_starts_at g" if "grant_history g g'" for g g'
    using that by (cases g; cases g') (simp add: grant_history_def unrevoked_columns_def)
  from assms show "map grow_id gs' = map grow_id gs"
    by (induction gs gs' rule: list_all2_induct) (simp_all add: kept)
  from assms show "map grow_starts_at gs' = map grow_starts_at gs"
    by (induction gs gs' rule: list_all2_induct) (simp_all add: kept)
qed

lemma grants_started:
  "list_all (\<lambda>g. grow_starts_at g \<le> t) gs \<longleftrightarrow> list_all (\<lambda>u. u \<le> t) (map grow_starts_at gs)"
  by (induction gs) auto

text \<open>Time passes and rows change within their histories; no grant is added.\<close>

lemma consistent_later:
  assumes "consistent t db" and "t \<le> t'"
    and rows: "list_all2 row_history (db_subscriptions db) (db_subscriptions db')"
    and grants: "list_all2 grant_history (db_grants db) (db_grants db')"
  shows "consistent t' db'"
proof -
  have started: "list_all (\<lambda>g. grow_starts_at g \<le> t) (db_grants db)" and "exclusive t db"
    using assms(1) by (simp_all add: consistent_def)
  have "exclusive t' db'"
    unfolding exclusive_def
  proof
    fix s
    have "paid_count s t db + grant_count s t db \<le> 1"
      using \<open>exclusive t db\<close> by (simp add: exclusive_def)
    with paid_count_later [OF rows assms(2), of s] grant_count_later [OF grants assms(2) started, of s]
    show "paid_count s t' db' + grant_count s t' db' \<le> 1" by linarith
  qed
  moreover from started have "list_all (\<lambda>g. grow_starts_at g \<le> t') (db_grants db')"
    unfolding grants_started grants_fixed(2) [OF grants]
    using assms(2) by (auto simp: list_all_iff)
  ultimately show ?thesis
    using assms(1) by (simp add: consistent_def row_ids_kept [OF rows] grants_fixed(1) [OF grants]
        policies_kept [OF rows])
qed

section \<open>The contract of an operation\<close>

text \<open>\<open>run txn db db'\<close>: a call in \<open>txn\<close> commits and leaves \<open>db'\<close>.\<close>

locale billing_operation =
  fixes run :: "billing_txn \<Rightarrow> billing_db \<Rightarrow> billing_db \<Rightarrow> bool"
  assumes run_history: "consistent (txn_clock txn) db \<Longrightarrow> run txn db db' \<Longrightarrow> db_history db db'"
    and run_consistent: "consistent (txn_clock txn) db \<Longrightarrow> run txn db db' \<Longrightarrow> consistent (txn_clock txn) db'"
begin

lemma run_after:
  assumes "consistent t db" and "t \<le> txn_clock txn" and "run txn db db'"
  shows "db_history db db'" and "consistent (txn_clock txn) db'"
proof -
  have "consistent (txn_clock txn) db"
    using assms(1,2) by (rule consistent_later) (auto intro!: list_all2_reflI)
  then show "db_history db db'" "consistent (txn_clock txn) db'"
    using assms(3) run_history run_consistent by blast+
qed

end

text \<open>An operation on subscriptions and their attempts leaves the other tables alone.\<close>

locale subscription_operation =
  fixes run :: "billing_txn \<Rightarrow> billing_db \<Rightarrow> billing_db \<Rightarrow> bool"
  assumes run_rows: "run txn db db' \<Longrightarrow> list_all2 row_history (db_subscriptions db) (db_subscriptions db')"
    and run_attempts: "run txn db db' \<Longrightarrow> list_all2 attempt_history (db_attempts db) (db_attempts db')"
    and run_frame: "run txn db db' \<Longrightarrow> db_grants db' = db_grants db \<and> db_charges db' = db_charges db \<and>
      db_claims db' = db_claims db \<and> db_discounts db' = db_discounts db"
begin

lemma run_tables:
  assumes "run txn db db'"
  shows "db_grants db' = db_grants db" and "db_charges db' = db_charges db" and "db_claims db' = db_claims db"
    and "db_discounts db' = db_discounts db"
  using run_frame [OF assms] by simp_all

end

sublocale subscription_operation \<subseteq> billing_operation run
proof unfold_locales
  fix txn db db'
  assume c: "consistent (txn_clock txn) db" and r: "run txn db db'"
  note t = run_tables [OF r]
  show "db_history db db'"
    unfolding db_history_def t
    by (intro conjI run_rows [OF r] run_attempts [OF r] exI [of _ "db_grants db"] exI [of _ "[]"] list_all2_reflI)
       simp_all
  show "consistent (txn_clock txn) db'"
    using c order_refl run_rows [OF r] by (rule consistent_later) (simp add: t list_all2_reflI)
qed

section \<open>Shared statements\<close>

lemma update_attempts_history:
  assumes "\<And>a. hit a \<Longrightarrow> is_locally_expirable (PaymentAttempt_status a) (attempt_submitted_at a)"
    and "\<And>a. attempt_identity (f a) = attempt_identity a \<and> attempt_request (f a) = attempt_request a \<and>
      attempt_submitted_at (f a) = attempt_submitted_at a"
  shows "list_all2 attempt_history (db_attempts db) (db_attempts (update_attempts hit f db))"
  using assms by (auto simp: attempt_history_def intro!: list_all2_mapI)

lemma update_subscriptions_simps [simp]:
  "db_attempts (snd (update_subscriptions hit f db)) = db_attempts db"
  "db_grants (snd (update_subscriptions hit f db)) = db_grants db"
  "db_charges (snd (update_subscriptions hit f db)) = db_charges db"
  "db_claims (snd (update_subscriptions hit f db)) = db_claims db"
  "db_discounts (snd (update_subscriptions hit f db)) = db_discounts db"
  "db_subscriptions (snd (update_subscriptions hit f db)) =
     map (\<lambda>row. if hit row then f row else row) (db_subscriptions db)"
  by (simp_all add: update_subscriptions_def)

lemma update_subscriptions_history:
  assumes "\<And>row. hit row \<Longrightarrow> is_current_status (row_status row)"
    and "\<And>row. fixed_columns (f row) = fixed_columns row"
    and "\<And>row. policy_readable row \<Longrightarrow> policy_readable (f row)"
  shows "list_all2 row_history (db_subscriptions db) (db_subscriptions (snd (update_subscriptions hit f db)))"
  using assms by (auto simp: row_history_def intro!: list_all2_mapI)

lemma stale_charges_history:
  "list_all2 attempt_history (db_attempts db)
     (db_attempts (snd (fail_stale_unsubmitted_subscription_charges txn i db)))"
  by (auto simp: fail_stale_unsubmitted_subscription_charges_def Let_def is_stale_local_iff
      intro!: update_attempts_history [simplified])

lemma stale_charges_frame [simp]:
  "db_subscriptions (snd (fail_stale_unsubmitted_subscription_charges txn i db)) = db_subscriptions db"
  "db_grants (snd (fail_stale_unsubmitted_subscription_charges txn i db)) = db_grants db"
  "db_charges (snd (fail_stale_unsubmitted_subscription_charges txn i db)) = db_charges db"
  "db_claims (snd (fail_stale_unsubmitted_subscription_charges txn i db)) = db_claims db"
  "db_discounts (snd (fail_stale_unsubmitted_subscription_charges txn i db)) = db_discounts db"
  by (simp_all add: fail_stale_unsubmitted_subscription_charges_def Let_def)

text \<open>Decoding after an update of the columns the operations write.\<close>

lemma subscription_from_row_status:
  assumes "subscription_from_row row = Ok s"
  shows "subscription_from_row (row\<lparr>row_status := SubscriptionStatus_as_str st, row_next_payment_attempt_at := n,
      row_unpaid_at := u, row_canceled_at := c, row_updated_at := t\<rparr>) =
    Ok (s\<lparr>sub_status := st, sub_next_payment_attempt_at := n\<rparr>)"
proof -
  have "Subscription_wf s" and "FullSubscriptionRow.truncate row = subscription_columns s"
    using assms by (simp_all add: subscription_from_row_def into_subscription_Ok_iff)
  then show ?thesis
    by (cases row) (simp add: subscription_from_row_def into_subscription_Ok_iff Subscription_wf_def
        subscription_columns_def FullSubscriptionRow.truncate_def)
qed

lemma subscription_from_row_access:
  assumes "subscription_from_row row = Ok s"
  shows "subscription_from_row (row\<lparr>row_past_due_access := PastDueAccessPolicy_as_str p, row_updated_at := t\<rparr>) =
    Ok (s\<lparr>sub_renewal_failure := (sub_renewal_failure s)\<lparr>policy_past_due_access := p\<rparr>\<rparr>)"
proof -
  have "Subscription_wf s" and "FullSubscriptionRow.truncate row = subscription_columns s"
    using assms by (simp_all add: subscription_from_row_def into_subscription_Ok_iff)
  then show ?thesis
    by (cases row) (simp add: subscription_from_row_def into_subscription_Ok_iff Subscription_wf_def
        subscription_columns_def FullSubscriptionRow.truncate_def policy_wf_def)
qed

text \<open>Rows are found by their key.\<close>

lemma find_key_unique:
  assumes "distinct (map k xs)" and "find P xs = Some x" and "find Q xs = Some y" and "k x = k y"
  shows "x = y"
  using assms by (metis distinct_map find_Some_iff inj_onD nth_mem)

lemma find_map_keep:
  assumes "\<And>x. P (f x) = P x"
  shows "find P (map f xs) = map_option f (find P xs)"
  using assms by (induction xs) auto

section \<open>A consistent database\<close>

lemma sample_consistent: "50 \<le> t \<Longrightarrow> consistent t sample_dunning_db"
  using sample_row_decodes
  by (auto simp: consistent_def exclusive_def paid_count_def grant_count_def sample_dunning_db_def policy_readable_def
      subscription_from_row_columns(2) past_due_access.parse_print)

end
