(* ===== verification/Dunning.thy ===== *)
theory Dunning
  imports Store_History
begin

text \<open>
  Applying a failed automatic renewal: \<open>crates/syrup-rail-postgres/src/renewal_failure.rs\<close>.  The
  database is the explicit one of \<open>Billing_Store\<close>.  A statement that fails rolls the
  transaction back and is not modelled.  The theorems show that a failure is applied once, that
  it follows the accepted schedule, and that the events agree with the stored state.
\<close>

section \<open>Failure histories\<close>

datatype RenewalFailureStoreError = InvalidState rstring

definition INVALID_RENEWAL_FAILURE_STATE :: rstring where
  "INVALID_RENEWAL_FAILURE_STATE =
     lit ''automatic renewal failure state cannot be projected deterministically''"

definition invalid_state :: RenewalFailureStoreError where
  "invalid_state = RenewalFailureStoreError.InvalidState INVALID_RENEWAL_FAILURE_STATE"

record ResolvedAutomaticRenewalFailure =
  failure_attempt_id :: PaymentAttemptId
  failure_resolved_at :: datetime

datatype AutomaticRenewalFailureHistory =
    Empty
  | First ResolvedAutomaticRenewalFailure
  | Repeated u16 ResolvedAutomaticRenewalFailure ResolvedAutomaticRenewalFailure ResolvedAutomaticRenewalFailure

primrec history_count :: "AutomaticRenewalFailureHistory \<Rightarrow> u16" where
  "history_count AutomaticRenewalFailureHistory.Empty = 0"
| "history_count (First _) = 1"
| "history_count (Repeated count _ _ _) = count"

primrec first_resolved_at :: "AutomaticRenewalFailureHistory \<Rightarrow> datetime option" where
  "first_resolved_at AutomaticRenewalFailureHistory.Empty = None"
| "first_resolved_at (First failure) = Some (failure_resolved_at failure)"
| "first_resolved_at (Repeated _ first _ _) = Some (failure_resolved_at first)"

primrec latest_resolved_at :: "AutomaticRenewalFailureHistory \<Rightarrow> datetime option" where
  "latest_resolved_at AutomaticRenewalFailureHistory.Empty = None"
| "latest_resolved_at (First failure) = Some (failure_resolved_at failure)"
| "latest_resolved_at (Repeated _ _ _ latest) = Some (failure_resolved_at latest)"

record PastDueCausalHistory =
  history_automatic :: AutomaticRenewalFailureHistory
  legacy_recovery_access_ended_at :: "datetime option"

definition has_legacy_recovery :: "PastDueCausalHistory \<Rightarrow> bool" where
  "has_legacy_recovery self \<longleftrightarrow> legacy_recovery_access_ended_at self \<noteq> None"

definition causal_access_ended_at :: "PastDueCausalHistory \<Rightarrow> PastDueAccessPolicy \<Rightarrow> datetime option" where
  "causal_access_ended_at self policy =
     (case policy of
        SuspendImmediately \<Rightarrow>
          (case (first_resolved_at (history_automatic self), legacy_recovery_access_ended_at self) of
             (Some automatic, Some legacy) \<Rightarrow> Some (min automatic legacy)
           | (Some automatic, None) \<Rightarrow> Some automatic
           | (None, legacy) \<Rightarrow> legacy)
      | ContinueUntilDunningExhausted \<Rightarrow> latest_resolved_at (history_automatic self))"

definition automatic_renewal_failure_history_from_resolved ::
    "ResolvedAutomaticRenewalFailure list \<Rightarrow> (AutomaticRenewalFailureHistory, RenewalFailureStoreError) result" where
  "automatic_renewal_failure_history_from_resolved resolved =
     and_then (ok_or (try_unsigned (int (length resolved))) invalid_state)
       (\<lambda>count. case resolved of
          [] \<Rightarrow> Ok AutomaticRenewalFailureHistory.Empty
        | first # _ \<Rightarrow>
            (let latest = last resolved; earlier = butlast resolved in
             if earlier = [] then Ok (First first)
             else Ok (Repeated count first (last earlier) latest)))"

section \<open>The histories of a period\<close>

text \<open>\<open>ORDER BY resolved_at ASC, id ASC\<close>, with the rows that have no instant last.\<close>

definition in_resolution_order :: "PaymentAttempt list \<Rightarrow> PaymentAttempt list" where
  "in_resolution_order rows =
     (let by_id = sort_key attempt_uuid rows in
      sort_key (\<lambda>a. the (attempt_resolved_at a)) (filter (\<lambda>a. attempt_resolved_at a \<noteq> None) by_id) @
      filter (\<lambda>a. attempt_resolved_at a = None) by_id)"

definition is_automatic_failure :: "PaymentAttempt \<Rightarrow> bool" where
  "is_automatic_failure a \<longleftrightarrow>
     PaymentAttempt_kind a = PaymentAttemptKind.SubscriptionRenewal \<and>
     attempt_submitted_at a \<noteq> None \<and>
     PaymentAttempt_status a \<in> {PaymentAttemptStatus.Declined, PaymentAttemptStatus.Failed} \<and>
     state_resolution_code (attempt_state a) = None"

definition automatic_renewal_failure_history ::
    "billing_db \<Rightarrow> SubscriptionId \<Rightarrow> datetime \<Rightarrow> (AutomaticRenewalFailureHistory, RenewalFailureStoreError) result" where
  "automatic_renewal_failure_history db subscription_id start_at =
     (let rows = in_resolution_order
            (filter (\<lambda>a. attempt_of_period subscription_id start_at a \<and> is_automatic_failure a) (db_attempts db))
      in and_then (collect_results (map (\<lambda>a.
             map_sum id (\<lambda>t. \<lparr>failure_attempt_id = identity_attempt_id (attempt_identity a),
                               failure_resolved_at = t\<rparr>)
               (ok_or (attempt_resolved_at a) invalid_state)) rows))
           automatic_renewal_failure_history_from_resolved)"

definition is_legacy_recovery_failure :: "PaymentAttempt \<Rightarrow> bool" where
  "is_legacy_recovery_failure a \<longleftrightarrow>
     PaymentAttempt_kind a = PaymentAttemptKind.SubscriptionRecovery \<and>
     map_option payment_state_status
       (target_subscription_payment_state_snapshot (request_target (attempt_request a))) =
       Some SubscriptionStatus.Active \<and>
     attempt_submitted_at a \<noteq> None \<and>
     stamp_review_required_at (state_timestamps (attempt_state a)) \<noteq> None \<and>
     PaymentAttempt_status a = PaymentAttemptStatus.Failed \<and>
     state_resolution_code (attempt_state a) = None"

text \<open>\<open>ORDER BY resolved_at ASC NULLS FIRST LIMIT 1\<close>: a row without an instant comes first.\<close>

definition legacy_recovery_failure_access_ended_at ::
    "billing_db \<Rightarrow> SubscriptionId \<Rightarrow> datetime \<Rightarrow> (datetime option, RenewalFailureStoreError) result" where
  "legacy_recovery_failure_access_ended_at db subscription_id start_at =
     (let rows = filter (\<lambda>a. attempt_of_period subscription_id start_at a \<and> is_legacy_recovery_failure a)
            (db_attempts db);
          instants = map attempt_resolved_at rows
      in if instants = [] then Ok None
         else if None \<in> set instants then Err invalid_state
         else Ok (Some (Min (the ` set instants))))"

definition past_due_causal_history ::
    "billing_db \<Rightarrow> SubscriptionId \<Rightarrow> datetime \<Rightarrow> (PastDueCausalHistory, RenewalFailureStoreError) result" where
  "past_due_causal_history db subscription_id start_at =
     and_then (automatic_renewal_failure_history db subscription_id start_at)
     (\<lambda>automatic. and_then (legacy_recovery_failure_access_ended_at db subscription_id start_at)
     (\<lambda>legacy. Ok \<lparr>history_automatic = automatic, legacy_recovery_access_ended_at = legacy\<rparr>))"

section \<open>Deciding\<close>

record ValidatedRenewalFailureAttempt =
  validated_identity :: PaymentAttemptIdentity
  validated_subscription_id :: SubscriptionId
  validated_plan_key :: PlanKey
  validated_period_start_at :: datetime
  validated_submitted_at :: datetime
  validated_resolved_at :: datetime

definition validate_resolved_renewal_attempt ::
    "PaymentAttempt \<Rightarrow> (ValidatedRenewalFailureAttempt, RenewalFailureStoreError) result" where
  "validate_resolved_renewal_attempt attempt =
     (case request_target (attempt_request attempt) of
        PaymentAttemptTarget.SubscriptionRenewal plan_key _ period expected_state \<Rightarrow>
          if PaymentAttempt_kind attempt \<noteq> PaymentAttemptKind.SubscriptionRenewal \<or>
             PaymentAttempt_status attempt \<notin> {PaymentAttemptStatus.Declined, PaymentAttemptStatus.Failed} \<or>
             state_resolution_code (attempt_state attempt) \<noteq> None
          then Err invalid_state
          else and_then (ok_or (attempt_submitted_at attempt) invalid_state)
            (\<lambda>submitted_at. and_then (ok_or (attempt_resolved_at attempt) invalid_state)
            (\<lambda>resolved_at. Ok \<lparr>validated_identity = attempt_identity attempt,
                validated_subscription_id = payment_state_subscription_id expected_state,
                validated_plan_key = plan_key,
                validated_period_start_at = BillingPeriod.period_start_at period,
                validated_submitted_at = submitted_at, validated_resolved_at = resolved_at\<rparr>))
      | _ \<Rightarrow> Err invalid_state)"

record FailureProjection =
  projected_status :: SubscriptionStatus
  projected_next_payment_attempt_at :: "datetime option"
  projected_unpaid_at :: "datetime option"

primrec projection :: "RenewalFailureDisposition \<Rightarrow> FailureProjection" where
  "projection (RenewalFailureDisposition.RetryScheduled retry_at) =
     \<lparr>projected_status = SubscriptionStatus.PastDue, projected_next_payment_attempt_at = Some retry_at,
      projected_unpaid_at = None\<rparr>"
| "projection (RenewalFailureDisposition.RemainPastDue exhausted_at) =
     \<lparr>projected_status = SubscriptionStatus.PastDue, projected_next_payment_attempt_at = None,
      projected_unpaid_at = None\<rparr>"
| "projection (RenewalFailureDisposition.MarkUnpaid ended_at) =
     \<lparr>projected_status = SubscriptionStatus.Unpaid, projected_next_payment_attempt_at = None,
      projected_unpaid_at = Some ended_at\<rparr>"

record LockedRenewalFailureState =
  locked_current :: FailureProjection
  locked_next_renewal_at :: datetime
  locked_policy :: RenewalFailurePolicy

definition LockedRenewalFailureState_from_row ::
    "subscription_row \<Rightarrow> (LockedRenewalFailureState, RenewalFailureStoreError) result" where
  "LockedRenewalFailureState_from_row row =
     and_then (map_err (\<lambda>_. invalid_state) (SubscriptionStatus_from_str (row_status row)))
     (\<lambda>status. and_then (map_err (\<lambda>_. invalid_state)
        (renewal_failure_policy_from_scalars (row_dunning_retry_delays_seconds row)
           (row_dunning_exhaustion row) (row_past_due_access row)))
     (\<lambda>policy. Ok \<lparr>locked_current = \<lparr>projected_status = status,
          projected_next_payment_attempt_at = row_next_payment_attempt_at row,
          projected_unpaid_at = row_unpaid_at row\<rparr>,
        locked_next_renewal_at = row_next_renewal_at row, locked_policy = policy\<rparr>))"

definition subscription_of_attempt :: "ValidatedRenewalFailureAttempt \<Rightarrow> subscription_row \<Rightarrow> bool" where
  "subscription_of_attempt attempt row \<longleftrightarrow>
     row_id row = SubscriptionId_as_uuid (validated_subscription_id attempt) \<and>
     row_billing_scope_id row = BillingScopeId_as_uuid (identity_billing_scope_id (validated_identity attempt)) \<and>
     row_subscriber_id row = SubscriberId_as_uuid (identity_subscriber_id (validated_identity attempt)) \<and>
     row_plan_key row = PlanKey_as_str (validated_plan_key attempt)"

definition load_locked_renewal_failure_state ::
    "billing_db \<Rightarrow> ValidatedRenewalFailureAttempt \<Rightarrow> (LockedRenewalFailureState, RenewalFailureStoreError) result" where
  "load_locked_renewal_failure_state db attempt =
     and_then (ok_or (find (subscription_of_attempt attempt) (db_subscriptions db)) invalid_state)
       LockedRenewalFailureState_from_row"

record RenewalFailureTransition =
  transition_before :: FailureProjection
  transition_after :: FailureProjection
  transition_disposition :: RenewalFailureDisposition
  transition_events :: "BillingEvent list"

datatype RenewalFailureDecision = Noop | Apply RenewalFailureTransition

record RenewalFailureEventProjection =
  event_disposition :: SubscriptionPaymentFailureDisposition
  event_access :: SubscriptionPaymentFailureAccess

definition failure_event_projection ::
    "RenewalFailurePolicy \<Rightarrow> PastDueCausalHistory \<Rightarrow> RenewalFailureDisposition \<Rightarrow>
     (RenewalFailureEventProjection, RenewalFailureStoreError) result" where
  "failure_event_projection policy causal_history disposition =
     (let disposition_event =
            (case disposition of
               RenewalFailureDisposition.RetryScheduled retry_at \<Rightarrow> SubscriptionPaymentFailureDisposition.RetryScheduled retry_at
             | RenewalFailureDisposition.RemainPastDue exhausted_at \<Rightarrow> DunningExhausted exhausted_at
             | RenewalFailureDisposition.MarkUnpaid ended_at \<Rightarrow> SubscriptionPaymentFailureDisposition.SubscriptionEnded ended_at)
      in and_then
           (case (policy_past_due_access policy, disposition) of
              (ContinueUntilDunningExhausted, RenewalFailureDisposition.RetryScheduled _) \<Rightarrow> Ok ContinuesDuringDunning
            | _ \<Rightarrow> map_sum id Ended
                (ok_or (causal_access_ended_at causal_history (policy_past_due_access policy)) invalid_state))
           (\<lambda>access. Ok \<lparr>event_disposition = disposition_event, event_access = access\<rparr>))"

definition failure_events ::
    "ValidatedRenewalFailureAttempt \<Rightarrow> RenewalFailurePolicy \<Rightarrow> PastDueCausalHistory \<Rightarrow>
     RenewalFailureDisposition \<Rightarrow> (BillingEvent list, RenewalFailureStoreError) result" where
  "failure_events attempt policy causal_history disposition =
     and_then (failure_event_projection policy causal_history disposition)
     (\<lambda>projection.
        let failed = BillingEvent.SubscriptionPaymentFailed
              (identity_attempt_id (validated_identity attempt)) (validated_subscription_id attempt)
              (validated_plan_key attempt) (event_disposition projection) (event_access projection)
        in case disposition of
             RenewalFailureDisposition.MarkUnpaid ended_at \<Rightarrow>
               and_then (ok_or (failure_access_ended_at (event_access projection)) invalid_state)
                 (\<lambda>access_ends_at. Ok [failed, BillingEvent.SubscriptionEnded
                    (identity_attempt_id (validated_identity attempt)) (validated_subscription_id attempt)
                    (validated_plan_key attempt) NonPayment ended_at access_ends_at])
           | _ \<Rightarrow> Ok [failed])"

definition decide_renewal_failure ::
    "chrono \<Rightarrow> ValidatedRenewalFailureAttempt \<Rightarrow> LockedRenewalFailureState \<Rightarrow> PastDueCausalHistory \<Rightarrow>
     (RenewalFailureDecision, RenewalFailureStoreError) result" where
  "decide_renewal_failure ch attempt subscription causal_history =
     (if locked_next_renewal_at subscription \<noteq> validated_period_start_at attempt then Err invalid_state
      else
        let history = history_automatic causal_history;
            current = locked_current subscription;
            policy = locked_policy subscription
        in and_then (case history of
                AutomaticRenewalFailureHistory.Empty \<Rightarrow> Err invalid_state
              | First failure \<Rightarrow> Ok failure
              | Repeated _ _ _ latest \<Rightarrow> Ok latest)
           (\<lambda>latest_failure.
              if failure_attempt_id latest_failure \<noteq> identity_attempt_id (validated_identity attempt)
              then Ok Noop
              else if failure_resolved_at latest_failure \<noteq> validated_resolved_at attempt
              then Err invalid_state
              else and_then (map_err (\<lambda>_. invalid_state)
                     (renewal_failure_disposition ch policy (history_count history)
                        (failure_resolved_at latest_failure)))
              (\<lambda>disposition. and_then
                 (case history of
                    Repeated count _ previous _ \<Rightarrow>
                      and_then (map_err (\<lambda>_. invalid_state)
                        (renewal_failure_disposition ch policy (count - 1) (failure_resolved_at previous)))
                      (\<lambda>previous. case previous of
                         RenewalFailureDisposition.RetryScheduled _ \<Rightarrow> Ok ()
                       | _ \<Rightarrow> Err invalid_state)
                  | _ \<Rightarrow> Ok ())
              (\<lambda>_.
                 let after = projection disposition;
                     due = (case projected_next_payment_attempt_at current of
                              Some due_at \<Rightarrow> due_at \<le> validated_submitted_at attempt
                            | None \<Rightarrow> False);
                     before_is_valid = (case history of
                         AutomaticRenewalFailureHistory.Empty \<Rightarrow> False
                       | First _ \<Rightarrow>
                           (projected_status current = SubscriptionStatus.Active \<or>
                            projected_status current = SubscriptionStatus.PastDue \<and>
                              has_legacy_recovery causal_history) \<and>
                           projected_next_payment_attempt_at current =
                             Some (locked_next_renewal_at subscription) \<and>
                           due \<and> projected_unpaid_at current = None
                       | Repeated _ _ _ _ \<Rightarrow>
                           projected_status current = SubscriptionStatus.PastDue \<and> due \<and>
                           projected_unpaid_at current = None)
                 in if current = after then Ok Noop
                    else if \<not> before_is_valid then Err invalid_state
                    else map_sum id (\<lambda>events. Apply
                           \<lparr>transition_before = current, transition_after = after,
                            transition_disposition = disposition, transition_events = events\<rparr>)
                         (failure_events attempt policy causal_history disposition)))))"

section \<open>Applying\<close>

definition row_is_before :: "SubscriptionId \<Rightarrow> RenewalFailureTransition \<Rightarrow> subscription_row \<Rightarrow> bool" where
  "row_is_before subscription_id transition row \<longleftrightarrow>
     row_id row = SubscriptionId_as_uuid subscription_id \<and>
     row_status row = SubscriptionStatus_as_str (projected_status (transition_before transition)) \<and>
     row_next_payment_attempt_at row = projected_next_payment_attempt_at (transition_before transition) \<and>
     row_unpaid_at row = projected_unpaid_at (transition_before transition)"

definition write_projection :: "datetime \<Rightarrow> FailureProjection \<Rightarrow> subscription_row \<Rightarrow> subscription_row" where
  "write_projection clock after row =
     row\<lparr>row_status := SubscriptionStatus_as_str (projected_status after),
         row_next_payment_attempt_at := projected_next_payment_attempt_at after,
         row_unpaid_at := projected_unpaid_at after, row_updated_at := clock\<rparr>"

definition persist_renewal_failure_transition ::
    "datetime \<Rightarrow> SubscriptionId \<Rightarrow> RenewalFailureTransition \<Rightarrow> billing_db \<Rightarrow>
     (billing_db, RenewalFailureStoreError) result" where
  "persist_renewal_failure_transition clock subscription_id transition db =
     (let hit = row_is_before subscription_id transition in
      if length (filter hit (db_subscriptions db)) \<noteq> 1 then Err invalid_state
      else Ok (db\<lparr>db_subscriptions := map (\<lambda>row. if hit row
                    then write_projection clock (transition_after transition) row else row)
                  (db_subscriptions db)\<rparr>))"

datatype RenewalFailureApplication =
    Applied RenewalFailureDisposition "BillingEvent list"
  | Noop

definition apply_resolved_automatic_renewal_failure ::
    "chrono \<Rightarrow> datetime \<Rightarrow> PaymentAttempt \<Rightarrow> billing_db \<Rightarrow>
     (RenewalFailureApplication \<times> billing_db, RenewalFailureStoreError) result" where
  "apply_resolved_automatic_renewal_failure ch clock attempt db =
     and_then (validate_resolved_renewal_attempt attempt)
     (\<lambda>validated. and_then (ok_or (find_payment_attempt_by_id db
         (identity_billing_scope_id (validated_identity validated))
         (identity_attempt_id (validated_identity validated))) invalid_state)
     (\<lambda>durable. if durable \<noteq> attempt then Err invalid_state
        else and_then (load_locked_renewal_failure_state db validated)
     (\<lambda>locked. and_then (past_due_causal_history db (validated_subscription_id validated)
         (locked_next_renewal_at locked))
     (\<lambda>history. and_then (decide_renewal_failure ch validated locked history)
     (\<lambda>decision. case decision of
          RenewalFailureDecision.Noop \<Rightarrow> Ok (Noop, db)
        | Apply transition \<Rightarrow>
            and_then (persist_renewal_failure_transition clock (validated_subscription_id validated) transition db)
              (\<lambda>db'. Ok (Applied (transition_disposition transition) (transition_events transition), db')))))))"

section \<open>What an applied failure went through\<close>

lemma decision_applies:
  "(case x of RenewalFailureDecision.Noop \<Rightarrow> Ok (RenewalFailureApplication.Noop, db) | Apply tr \<Rightarrow> f tr) =
     Ok (Applied d ev, db') \<longleftrightarrow> (\<exists>tr. x = Apply tr \<and> f tr = Ok (Applied d ev, db'))"
  by (cases x) simp_all

lemma applied_cases:
  assumes "apply_resolved_automatic_renewal_failure ch clock a db = Ok (Applied d ev, db')"
  obtains v row l h tr where
    "validate_resolved_renewal_attempt a = Ok v"
    "find_payment_attempt_by_id db (identity_billing_scope_id (validated_identity v))
       (identity_attempt_id (validated_identity v)) = Some a"
    "find (subscription_of_attempt v) (db_subscriptions db) = Some row"
    "LockedRenewalFailureState_from_row row = Ok l"
    "past_due_causal_history db (validated_subscription_id v) (locked_next_renewal_at l) = Ok h"
    "decide_renewal_failure ch v l h = Ok (Apply tr)"
    "persist_renewal_failure_transition clock (validated_subscription_id v) tr db = Ok db'"
    "d = transition_disposition tr" "ev = transition_events tr"
  using assms
  by (auto simp: apply_resolved_automatic_renewal_failure_def load_locked_renewal_failure_state_def
      and_then_Inr_iff ok_or_Inr_iff decision_applies split: if_splits)

lemma retry_scheduled_check:
  "(case d of RenewalFailureDisposition.RetryScheduled _ \<Rightarrow> Ok () | _ \<Rightarrow> Err e) = Ok u \<longleftrightarrow>
     (\<exists>t. d = RenewalFailureDisposition.RetryScheduled t)"
  by (cases d) simp_all

text \<open>The checks of a decision that do not look at the current state of the subscription.\<close>

definition due_failure ::
    "chrono \<Rightarrow> ValidatedRenewalFailureAttempt \<Rightarrow> datetime \<Rightarrow> RenewalFailurePolicy \<Rightarrow> PastDueCausalHistory \<Rightarrow>
     RenewalFailureDisposition \<Rightarrow> bool" where
  "due_failure ch v start_at policy h d \<longleftrightarrow>
     start_at = validated_period_start_at v \<and>
     (\<exists>latest. (history_automatic h = First latest \<or>
        (\<exists>c first previous t. history_automatic h = Repeated c first previous latest \<and>
           renewal_failure_disposition ch policy (c - 1) (failure_resolved_at previous) =
             Ok (RenewalFailureDisposition.RetryScheduled t))) \<and>
      failure_attempt_id latest = identity_attempt_id (validated_identity v) \<and>
      failure_resolved_at latest = validated_resolved_at v) \<and>
     renewal_failure_disposition ch policy (history_count (history_automatic h)) (validated_resolved_at v) = Ok d"

lemma due_failure_decides:
  assumes "due_failure ch v (locked_next_renewal_at l) (locked_policy l) h d" and "locked_current l = projection d"
  shows "decide_renewal_failure ch v l h = Ok RenewalFailureDecision.Noop"
  using assms by (auto simp: due_failure_def decide_renewal_failure_def Let_def)

lemma decide_ApplyD:
  assumes "decide_renewal_failure ch v l h = Ok (Apply tr)"
  shows "due_failure ch v (locked_next_renewal_at l) (locked_policy l) h (transition_disposition tr)"
    and "transition_before tr = locked_current l"
    and "transition_after tr = projection (transition_disposition tr)"
    and "failure_events v (locked_policy l) h (transition_disposition tr) = Ok (transition_events tr)"
  using assms
  by (auto simp: decide_renewal_failure_def due_failure_def Let_def and_then_Inr_iff map_err_Inr_iff map_sum_Inr_iff
      retry_scheduled_check split: if_splits AutomaticRenewalFailureHistory.splits)

lemma subscription_of_attempt_write [simp]:
  "subscription_of_attempt v (write_projection clock p row) = subscription_of_attempt v row"
  by (simp add: subscription_of_attempt_def write_projection_def)

lemma from_row_write:
  assumes "LockedRenewalFailureState_from_row row = Ok l"
  shows "LockedRenewalFailureState_from_row (write_projection clock p row) = Ok (l\<lparr>locked_current := p\<rparr>)"
  using assms
  by (auto simp: LockedRenewalFailureState_from_row_def write_projection_def and_then_Inr_iff map_err_Inr_iff
      subscription_status.parse_print)

lemma from_row_current:
  assumes "LockedRenewalFailureState_from_row row = Ok l"
  shows "row_status row = SubscriptionStatus_as_str (projected_status (locked_current l))"
    and "row_next_payment_attempt_at row = projected_next_payment_attempt_at (locked_current l)"
    and "row_unpaid_at row = projected_unpaid_at (locked_current l)"
    and "renewal_failure_policy_from_scalars (row_dunning_retry_delays_seconds row) (row_dunning_exhaustion row)
           (row_past_due_access row) = Ok (locked_policy l)"
    and "row_next_renewal_at row = locked_next_renewal_at l"
  using assms
  by (auto simp: LockedRenewalFailureState_from_row_def and_then_Inr_iff map_err_Inr_iff
      subscription_status.parse_iff)

text \<open>The row an applied failure finds afterwards.\<close>

lemma persisted_row:
  assumes "find (subscription_of_attempt v) (db_subscriptions db) = Some row"
    and "LockedRenewalFailureState_from_row row = Ok l" and "transition_before tr = locked_current l"
    and "persist_renewal_failure_transition clock (validated_subscription_id v) tr db = Ok db'"
  shows "find (subscription_of_attempt v) (db_subscriptions db') =
      Some (write_projection clock (transition_after tr) row)"
    and "db_attempts db' = db_attempts db"
proof -
  let ?hit = "row_is_before (validated_subscription_id v) tr"
  let ?f = "\<lambda>row. if ?hit row then write_projection clock (transition_after tr) row else row"
  have db': "db' = db\<lparr>db_subscriptions := map ?f (db_subscriptions db)\<rparr>"
    using assms(4) by (auto simp: persist_renewal_failure_transition_def Let_def split: if_splits)
  then show "db_attempts db' = db_attempts db" by simp
  have "subscription_of_attempt v row" using assms(1) by (auto simp: find_Some_iff)
  then have "?hit row"
    using from_row_current [OF assms(2)] assms(3) by (simp add: row_is_before_def subscription_of_attempt_def)
  then show "find (subscription_of_attempt v) (db_subscriptions db') =
      Some (write_projection clock (transition_after tr) row)"
    using assms(1) by (simp add: db' find_map_keep)
qed

lemma histories_same_attempts:
  "db_attempts db' = db_attempts db \<Longrightarrow> past_due_causal_history db' s t = past_due_causal_history db s t"
  "db_attempts db' = db_attempts db \<Longrightarrow> find_payment_attempt_by_id db' b i = find_payment_attempt_by_id db b i"
  by (simp_all add: past_due_causal_history_def automatic_renewal_failure_history_def
      legacy_recovery_failure_access_ended_at_def find_payment_attempt_by_id_def)

text \<open>C36.  A renewal failure is applied once: after it was applied, applying the same resolved attempt
  again, at any later clock, changes nothing and emits no event.\<close>

theorem renewal_failure_applied_once:
  assumes "apply_resolved_automatic_renewal_failure ch clock a db = Ok (Applied d ev, db')"
  shows "apply_resolved_automatic_renewal_failure ch clock' a db' = Ok (RenewalFailureApplication.Noop, db')"
proof -
  from assms obtain v row l h tr where v: "validate_resolved_renewal_attempt a = Ok v"
    and durable: "find_payment_attempt_by_id db (identity_billing_scope_id (validated_identity v))
       (identity_attempt_id (validated_identity v)) = Some a"
    and row: "find (subscription_of_attempt v) (db_subscriptions db) = Some row"
    and l: "LockedRenewalFailureState_from_row row = Ok l"
    and h: "past_due_causal_history db (validated_subscription_id v) (locked_next_renewal_at l) = Ok h"
    and decide: "decide_renewal_failure ch v l h = Ok (Apply tr)"
    and persist: "persist_renewal_failure_transition clock (validated_subscription_id v) tr db = Ok db'"
    by (rule applied_cases)
  note tr = decide_ApplyD [OF decide]
  note after = persisted_row [OF row l tr(2) persist]
  let ?l = "l\<lparr>locked_current := projection (transition_disposition tr)\<rparr>"
  have "decide_renewal_failure ch v ?l h = Ok RenewalFailureDecision.Noop"
    using tr(1) by (intro due_failure_decides) simp_all
  moreover have "load_locked_renewal_failure_state db' v = Ok ?l"
    using after(1) from_row_write [OF l] by (simp add: load_locked_renewal_failure_state_def tr(3))
  ultimately show ?thesis
    using v durable h
    by (simp add: apply_resolved_automatic_renewal_failure_def histories_same_attempts [OF after(2)])
qed

section \<open>Counting failures\<close>

text \<open>The automatic failures of the period that an attempt charged.\<close>

definition period_failures :: "billing_db \<Rightarrow> ValidatedRenewalFailureAttempt \<Rightarrow> PaymentAttempt list" where
  "period_failures db v =
     filter (\<lambda>a. attempt_of_period (validated_subscription_id v) (validated_period_start_at v) a \<and>
                 is_automatic_failure a) (db_attempts db)"

lemma length_in_resolution_order [simp]: "length (in_resolution_order xs) = length xs"
proof -
  have "length (filter (\<lambda>a. attempt_resolved_at a \<noteq> None) ys) + length (filter (\<lambda>a. attempt_resolved_at a = None) ys) =
      length ys" for ys :: "PaymentAttempt list"
    using sum_length_filter_compl [of "\<lambda>a. attempt_resolved_at a \<noteq> None" ys] by simp
  then show ?thesis by (simp add: in_resolution_order_def Let_def)
qed

lemma length_collect_results: "collect_results rs = Ok xs \<Longrightarrow> length xs = length rs"
  by (induction rs arbitrary: xs) (auto simp: and_then_Inr_iff map_sum_Inr_iff)

lemma history_from_resolved_count:
  assumes "automatic_renewal_failure_history_from_resolved fs = Ok hist"
  shows "unat (history_count hist) = length fs"
proof -
  from assms obtain c :: u16 where c: "int (length fs) = uint c"
    and hist: "(case fs of [] \<Rightarrow> Ok AutomaticRenewalFailureHistory.Empty
      | first # _ \<Rightarrow> (let latest = last fs; earlier = butlast fs in
          if earlier = [] then Ok (First first) else Ok (Repeated c first (last earlier) latest))) =
      (Ok hist :: (AutomaticRenewalFailureHistory, RenewalFailureStoreError) result)"
    by (auto simp: automatic_renewal_failure_history_from_resolved_def and_then_Inr_iff ok_or_Inr_iff
        try_unsigned_Some_iff)
  from c have "unat c = length fs" by (metis nat_int unat_eq_nat_uint)
  with hist show ?thesis
    by (auto simp: Let_def split: list.splits if_splits)
qed

lemma causal_history_count:
  assumes "past_due_causal_history db (validated_subscription_id v) (validated_period_start_at v) = Ok h"
  shows "unat (history_count (history_automatic h)) = length (period_failures db v)"
  using assms
  by (auto simp: past_due_causal_history_def automatic_renewal_failure_history_def Let_def and_then_Inr_iff
      period_failures_def dest!: length_collect_results history_from_resolved_count)

text \<open>C37.  Dunning follows the accepted schedule and ends: an applied failure is the \<open>k\<close>-th automatic
  failure of its period, where \<open>k\<close> is at most one more than the number of retry delays, so at
  most seventeen failures of a period are ever applied.  While delays remain, the next charge is
  scheduled exactly the \<open>k\<close>-th delay after the failure; the failure after the last delay exhausts
  dunning the way the policy says.\<close>

theorem renewal_failure_follows_schedule:
  assumes "apply_resolved_automatic_renewal_failure ch clock a db = Ok (Applied d ev, db')"
  shows "\<exists>v row policy. validate_resolved_renewal_attempt a = Ok v \<and>
    find (subscription_of_attempt v) (db_subscriptions db) = Some row \<and>
    renewal_failure_policy_from_scalars (row_dunning_retry_delays_seconds row) (row_dunning_exhaustion row)
      (row_past_due_access row) = Ok policy \<and>
    (let k = length (period_failures db v); delays = retry_delays (policy_schedule policy);
         t = validated_resolved_at v
     in 1 \<le> k \<and> k \<le> length delays + 1 \<and> length delays \<le> 16 \<and>
        d = (if k \<le> length delays
             then RenewalFailureDisposition.RetryScheduled
               (t + duration_seconds (uint (delay_seconds (delays ! (k - 1)))))
             else case policy_exhaustion policy of
                    DunningExhaustion.RemainPastDue \<Rightarrow> RenewalFailureDisposition.RemainPastDue t
                  | DunningExhaustion.MarkUnpaid \<Rightarrow> RenewalFailureDisposition.MarkUnpaid t))"
proof -
  from assms obtain v row l h tr where v: "validate_resolved_renewal_attempt a = Ok v"
    and row: "find (subscription_of_attempt v) (db_subscriptions db) = Some row"
    and l: "LockedRenewalFailureState_from_row row = Ok l"
    and h: "past_due_causal_history db (validated_subscription_id v) (locked_next_renewal_at l) = Ok h"
    and decide: "decide_renewal_failure ch v l h = Ok (Apply tr)" and d: "d = transition_disposition tr"
    by (rule applied_cases)
  note policy = from_row_current(4) [OF l]
  have due: "due_failure ch v (locked_next_renewal_at l) (locked_policy l) h d"
    using decide_ApplyD(1) [OF decide] d by simp
  let ?n = "history_count (history_automatic h)" and ?k = "length (period_failures db v)"
  let ?delays = "retry_delays (policy_schedule (locked_policy l))"
  have k: "unat ?n = ?k"
    using h due by (intro causal_history_count) (simp add: due_failure_def)
  have disposition: "renewal_failure_disposition ch (locked_policy l) ?n (validated_resolved_at v) = Ok d"
    using due by (simp add: due_failure_def)
  then have pos: "1 \<le> ?k"
    unfolding k [symmetric] by (auto simp: renewal_failure_disposition_Ok_iff unat_gt_0 Suc_le_eq)
  have bound: "?k \<le> length ?delays + 1"
  proof (cases "history_automatic h")
    case (Repeated c first previous latest)
    with due obtain t p where "renewal_failure_disposition ch (locked_policy l) (c - 1) p =
        Ok (RenewalFailureDisposition.RetryScheduled t)" by (auto simp: due_failure_def)
    then have "unat (c - 1) - 1 < length ?delays" and "c - 1 \<noteq> 0"
      by (auto simp: renewal_failure_disposition_Ok_iff Let_def split: if_splits DunningExhaustion.splits)
    then show ?thesis
      using k failure_index [of c] pos Repeated by (cases "c = 0") auto
  qed (use k due in \<open>auto simp: due_failure_def\<close>)
  have "length ?delays \<le> 16"
    using policy by (simp add: result_simps policy_wf_def MAX_DUNNING_RETRY_STEPS_def)
  with pos bound disposition k v row policy show ?thesis
    by (intro exI [of _ v] exI [of _ row] exI [of _ "locked_policy l"])
       (auto simp: renewal_failure_disposition_Ok_iff Let_def split: if_splits)
qed

section \<open>Events and the stored state\<close>

lemma failure_events_Ok_iff:
  "failure_events v policy h d = Ok ev \<longleftrightarrow>
     (\<exists>p. failure_event_projection policy h d = Ok p \<and>
        (let i = identity_attempt_id (validated_identity v); s = validated_subscription_id v;
             k = validated_plan_key v
         in ev = BillingEvent.SubscriptionPaymentFailed i s k (event_disposition p) (event_access p) #
              (case projected_unpaid_at (projection d) of
                 None \<Rightarrow> []
               | Some t \<Rightarrow> [BillingEvent.SubscriptionEnded i s k NonPayment t
                    (the (failure_access_ended_at (event_access p)))])) \<and>
        (\<forall>t. d = RenewalFailureDisposition.MarkUnpaid t \<longrightarrow> failure_access_ended_at (event_access p) \<noteq> None))"
  by (cases d) (auto simp: failure_events_def and_then_Inr_iff ok_or_Inr_iff Let_def)

lemma failure_event_access:
  assumes "failure_event_projection policy h d = Ok p"
  shows "failure_access_permits (event_access p) \<longleftrightarrow>
    classify_past_due_access (policy_past_due_access policy) (projected_next_payment_attempt_at (projection d)) =
      AllowedDuringDunning"
  using assms
  by (cases d; cases "policy_past_due_access policy")
     (auto simp: failure_event_projection_def failure_access_permits_def classify_past_due_access_def Let_def
       and_then_Inr_iff map_sum_Inr_iff)

lemma projection_status:
  "SubscriptionStatus_as_str (projected_status (projection d)) = lit ''past_due'' \<longleftrightarrow>
     projected_unpaid_at (projection d) = None"
  "projected_unpaid_at (projection d) = None \<or> projected_next_payment_attempt_at (projection d) = None"
  by (cases d; simp)+

text \<open>The events of an applied failure agree with the row it leaves: the failure event says that
  access continues exactly when the stored policy and schedule, read the way entitlement reads
  them, keep access open; a further event that the subscription ended is sent exactly when the
  row became unpaid, with the stored instant; and no two events share their idempotency key.\<close>

lemma renewal_failure_events_match_state:
  assumes "apply_resolved_automatic_renewal_failure ch clock a db = Ok (Applied d ev, db')"
  shows "\<exists>v row policy disposition access. validate_resolved_renewal_attempt a = Ok v \<and>
    find (subscription_of_attempt v) (db_subscriptions db') = Some row \<and>
    renewal_failure_policy_from_scalars (row_dunning_retry_delays_seconds row) (row_dunning_exhaustion row)
      (row_past_due_access row) = Ok policy \<and>
    (let i = identity_attempt_id (validated_identity v); s = validated_subscription_id v; k = validated_plan_key v
     in ev = BillingEvent.SubscriptionPaymentFailed i s k disposition access #
          (case row_unpaid_at row of
             None \<Rightarrow> []
           | Some t \<Rightarrow> [BillingEvent.SubscriptionEnded i s k NonPayment t (the (failure_access_ended_at access))])) \<and>
    (failure_access_permits access \<longleftrightarrow>
       row_status row = lit ''past_due'' \<and>
       classify_past_due_access (policy_past_due_access policy) (row_next_payment_attempt_at row) =
         AllowedDuringDunning) \<and>
    (row_unpaid_at row = None \<longleftrightarrow> row_status row = lit ''past_due'') \<and>
    distinct (map semantic_key ev)"
proof -
  from assms obtain v row l h tr where v: "validate_resolved_renewal_attempt a = Ok v"
    and row: "find (subscription_of_attempt v) (db_subscriptions db) = Some row"
    and l: "LockedRenewalFailureState_from_row row = Ok l"
    and decide: "decide_renewal_failure ch v l h = Ok (Apply tr)"
    and persist: "persist_renewal_failure_transition clock (validated_subscription_id v) tr db = Ok db'"
    and d: "d = transition_disposition tr" and ev: "ev = transition_events tr"
    by (rule applied_cases)
  note tr = decide_ApplyD [OF decide]
  let ?row = "write_projection clock (projection d) row"
  have stored: "find (subscription_of_attempt v) (db_subscriptions db') = Some ?row"
    using persisted_row(1) [OF row l tr(2) persist] tr(3) d by simp
  have after: "row_status ?row = SubscriptionStatus_as_str (projected_status (projection d))"
    "row_next_payment_attempt_at ?row = projected_next_payment_attempt_at (projection d)"
    "row_unpaid_at ?row = projected_unpaid_at (projection d)"
    "renewal_failure_policy_from_scalars (row_dunning_retry_delays_seconds ?row) (row_dunning_exhaustion ?row)
      (row_past_due_access ?row) = Ok (locked_policy l)"
    using from_row_current(4) [OF l] by (simp_all add: write_projection_def)
  from tr(4) obtain p where p: "failure_event_projection (locked_policy l) h d = Ok p"
    and events: "ev = BillingEvent.SubscriptionPaymentFailed (identity_attempt_id (validated_identity v))
        (validated_subscription_id v) (validated_plan_key v) (event_disposition p) (event_access p) #
      (case projected_unpaid_at (projection d) of
         None \<Rightarrow> []
       | Some t \<Rightarrow> [BillingEvent.SubscriptionEnded (identity_attempt_id (validated_identity v))
           (validated_subscription_id v) (validated_plan_key v) NonPayment t
           (the (failure_access_ended_at (event_access p)))])"
    unfolding failure_events_Ok_iff d [symmetric] ev [symmetric] Let_def by blast
  have "distinct (map semantic_key ev)" by (auto simp: events split: option.split)
  moreover have "failure_access_permits (event_access p) \<longleftrightarrow> row_status ?row = lit ''past_due'' \<and>
      classify_past_due_access (policy_past_due_access (locked_policy l)) (row_next_payment_attempt_at ?row) =
        AllowedDuringDunning"
    using failure_event_access [OF p] projection_status [of d]
    by (auto simp: after classify_past_due_access_def split: PastDueAccessPolicy.splits)
  moreover have "row_unpaid_at ?row = None \<longleftrightarrow> row_status ?row = lit ''past_due''"
    using projection_status(1) [of d] by (simp add: after)
  ultimately show ?thesis
    using v stored after(4) events after(3) unfolding Let_def by metis
qed

section \<open>The contract of operations\<close>

lemma decide_before_current:
  assumes "decide_renewal_failure ch v l h = Ok (Apply tr)"
  shows "projected_status (transition_before tr) \<in> {SubscriptionStatus.Active, SubscriptionStatus.PastDue}"
  using assms
  by (auto simp: decide_renewal_failure_def Let_def and_then_Inr_iff map_err_Inr_iff map_sum_Inr_iff
      split: if_splits AutomaticRenewalFailureHistory.splits)

lemma persist_rows:
  assumes "persist_renewal_failure_transition clock i tr db = Ok db'"
    and "projected_status (transition_before tr) \<in> {SubscriptionStatus.Active, SubscriptionStatus.PastDue}"
  shows "list_all2 row_history (db_subscriptions db) (db_subscriptions db')"
    and "db_attempts db' = db_attempts db \<and> db_grants db' = db_grants db \<and> db_charges db' = db_charges db \<and>
      db_claims db' = db_claims db \<and> db_discounts db' = db_discounts db"
  using assms
  by (auto simp: persist_renewal_failure_transition_def Let_def row_history_def row_is_before_def is_current_status_def
      fixed_columns_def policy_readable_def write_projection_def split: if_splits intro!: list_all2_mapI)

lemma decision_noop:
  "(case x of RenewalFailureDecision.Noop \<Rightarrow> Ok (RenewalFailureApplication.Noop, db)
    | Apply tr \<Rightarrow> and_then (g tr) (\<lambda>db'. Ok (Applied (h tr) (k tr), db'))) =
     Ok (RenewalFailureApplication.Noop, db') \<longleftrightarrow> x = RenewalFailureDecision.Noop \<and> db' = db"
  by (cases x) (auto simp: and_then_Inr_iff)

lemma failure_result_cases:
  assumes "apply_resolved_automatic_renewal_failure ch clock a db = Ok (out, db')"
  obtains "db' = db"
  | i tr where "projected_status (transition_before tr) \<in> {SubscriptionStatus.Active, SubscriptionStatus.PastDue}"
      "persist_renewal_failure_transition clock i tr db = Ok db'"
proof (cases out)
  case Noop
  with assms show ?thesis
    by (auto simp: apply_resolved_automatic_renewal_failure_def and_then_Inr_iff [of _ _ "(_, _)"] decision_noop
        split: if_splits intro: that(1))
next
  case (Applied d ev)
  from assms [unfolded Applied] show ?thesis
    by (rule applied_cases) (use that(2) decide_before_current in blast)
qed

interpretation failure: subscription_operation
  "\<lambda>txn db db'. \<exists>ch a out. apply_resolved_automatic_renewal_failure ch (txn_clock txn) a db = Ok (out, db')"
proof unfold_locales
  fix txn :: billing_txn and db db'
  assume "\<exists>ch a out. apply_resolved_automatic_renewal_failure ch (txn_clock txn) a db = Ok (out, db')"
  then obtain ch a out where run: "apply_resolved_automatic_renewal_failure ch (txn_clock txn) a db = Ok (out, db')"
    by blast
  have "list_all2 row_history (db_subscriptions db) (db_subscriptions db') \<and>
      db_attempts db' = db_attempts db \<and> db_grants db' = db_grants db \<and> db_charges db' = db_charges db \<and>
      db_claims db' = db_claims db \<and> db_discounts db' = db_discounts db"
    using run by (rule failure_result_cases) (simp add: list_all2_reflI, metis persist_rows)
  then show "list_all2 row_history (db_subscriptions db) (db_subscriptions db')"
    and "list_all2 attempt_history (db_attempts db) (db_attempts db')"
    and "db_grants db' = db_grants db \<and> db_charges db' = db_charges db \<and> db_claims db' = db_claims db \<and>
      db_discounts db' = db_discounts db"
    by (simp_all add: list_all2_reflI)
qed

section \<open>A concrete failure\<close>

definition sample_chrono :: chrono where
  "sample_chrono = \<lparr>min_utc = 0, max_utc = 100000000000000000000, add_months = \<lambda>_ _. None\<rparr>"

lemma sample_failure_applied:
  "\<exists>ev db'. apply_resolved_automatic_renewal_failure sample_chrono 130 sample_renewal sample_dunning_db =
     Ok (Applied (RenewalFailureDisposition.RetryScheduled (120 + duration_seconds 86400)) ev, db')"
proof -
  define v where "v = \<lparr>validated_identity = attempt_identity sample_renewal,
    validated_subscription_id = SubscriptionId 5, validated_plan_key = offer_plan_key sample_offer,
    validated_period_start_at = 100, validated_submitted_at = 110, validated_resolved_at = 120\<rparr>"
  have v: "validate_resolved_renewal_attempt sample_renewal = Ok v"
    by (simp add: validate_resolved_renewal_attempt_def sample_renewal_def PaymentAttempt_kind_def
        PaymentAttempt_status_def v_def)
  have v_fields: "validated_identity v = attempt_identity sample_renewal"
    "validated_subscription_id v = SubscriptionId 5" "validated_plan_key v = offer_plan_key sample_offer"
    "validated_period_start_at v = 100" "validated_submitted_at v = 110" "validated_resolved_at v = 120"
    by (simp_all add: v_def)
  have durable: "find_payment_attempt_by_id sample_dunning_db (identity_billing_scope_id (validated_identity v))
      (identity_attempt_id (validated_identity v)) = Some sample_renewal"
    by (simp add: find_payment_attempt_by_id_def sample_dunning_db_def v_fields)
  let ?l = "\<lparr>locked_current = \<lparr>projected_status = SubscriptionStatus.Active,
      projected_next_payment_attempt_at = Some 100, projected_unpaid_at = None\<rparr>, locked_next_renewal_at = 100,
      locked_policy = offer_renewal_failure sample_offer\<rparr>"
  have "SubscriptionStatus_from_str (lit ''active'') = Ok SubscriptionStatus.Active"
    using subscription_status.parse_print [of SubscriptionStatus.Active] by simp
  then have locked: "load_locked_renewal_failure_state sample_dunning_db v = Ok ?l"
    by (simp add: load_locked_renewal_failure_state_def sample_dunning_db_def subscription_of_attempt_def
        sample_subscription_row_def v_fields sample_renewal_def LockedRenewalFailureState_from_row_def sample_policy
        sample_offer_def)
  let ?h = "\<lparr>history_automatic = First \<lparr>failure_attempt_id = PaymentAttemptId 9, failure_resolved_at = 120\<rparr>,
      legacy_recovery_access_ended_at = None\<rparr>"
  have hist: "past_due_causal_history sample_dunning_db (validated_subscription_id v) 100 = Ok ?h"
    by (simp add: past_due_causal_history_def automatic_renewal_failure_history_def sample_dunning_db_def
        attempt_of_period_def attempt_period_start_at_def is_automatic_failure_def sample_renewal_def v_fields PaymentAttempt_kind_def
        PaymentAttempt_status_def in_resolution_order_def automatic_renewal_failure_history_from_resolved_def
        try_unsigned_def legacy_recovery_failure_access_ended_at_def is_legacy_recovery_failure_def Let_def)
  have disposition: "renewal_failure_disposition sample_chrono (offer_renewal_failure sample_offer) 1 120 =
      Ok (RenewalFailureDisposition.RetryScheduled (120 + duration_seconds 86400))"
    by (simp add: renewal_failure_disposition_def sample_offer_def checked_add_signed_def sample_chrono_def
        duration_seconds_def)
  have access: "policy_past_due_access (offer_renewal_failure sample_offer) = ContinueUntilDunningExhausted"
    by (simp add: sample_offer_def)
  have decide: "\<exists>ev. decide_renewal_failure sample_chrono v ?l ?h = Ok (Apply
      \<lparr>transition_before = locked_current ?l,
       transition_after = projection (RenewalFailureDisposition.RetryScheduled (120 + duration_seconds 86400)),
       transition_disposition = RenewalFailureDisposition.RetryScheduled (120 + duration_seconds 86400),
       transition_events = ev\<rparr>)"
    by (simp add: decide_renewal_failure_def v_fields disposition sample_renewal_def failure_events_def
        failure_event_projection_def access Let_def)
  have persist: "\<exists>db'. persist_renewal_failure_transition 130 (validated_subscription_id v) tr sample_dunning_db = Ok db'"
    if "transition_before tr = locked_current ?l" for tr
    using that by (simp add: persist_renewal_failure_transition_def row_is_before_def sample_dunning_db_def
        sample_subscription_row_def v_fields)
  from decide obtain tr where "decide_renewal_failure sample_chrono v ?l ?h = Ok (Apply tr)"
    and "transition_before tr = locked_current ?l"
    and "transition_disposition tr = RenewalFailureDisposition.RetryScheduled (120 + duration_seconds 86400)"
    by fastforce
  with persist [of tr] show ?thesis
    by (auto simp: apply_resolved_automatic_renewal_failure_def v durable locked hist)
qed

theorem renewal_failure_applied_once_witness:
  "\<exists>ev db'. apply_resolved_automatic_renewal_failure sample_chrono 130 sample_renewal sample_dunning_db =
       Ok (Applied (RenewalFailureDisposition.RetryScheduled (120 + duration_seconds 86400)) ev, db') \<and>
     apply_resolved_automatic_renewal_failure sample_chrono 140 sample_renewal db' =
       Ok (RenewalFailureApplication.Noop, db')"
  using sample_failure_applied renewal_failure_applied_once by blast

theorem renewal_failure_follows_schedule_witness:
  "\<exists>v. validate_resolved_renewal_attempt sample_renewal = Ok v \<and> 1 \<le> length (period_failures sample_dunning_db v)"
  using sample_failure_applied renewal_failure_follows_schedule unfolding Let_def by metis

lemma renewal_failure_events_match_state_witness:
  "\<exists>ev db'. apply_resolved_automatic_renewal_failure sample_chrono 130 sample_renewal sample_dunning_db =
       Ok (Applied (RenewalFailureDisposition.RetryScheduled (120 + duration_seconds 86400)) ev, db') \<and>
     distinct (map semantic_key ev) \<and> ev \<noteq> []"
proof -
  from sample_failure_applied obtain ev db' where
    "apply_resolved_automatic_renewal_failure sample_chrono 130 sample_renewal sample_dunning_db =
       Ok (Applied (RenewalFailureDisposition.RetryScheduled (120 + duration_seconds 86400)) ev, db')" by blast
  with renewal_failure_events_match_state [OF this] show ?thesis unfolding Let_def by blast
qed

end
