(* ===== verification/Cancellation.thy ===== *)
theory Cancellation
  imports Dunning
begin

text \<open>
  Cancelling a subscription: \<open>crates/syrup-rail-postgres/src/cancellation.rs\<close>.  The selection of the
  current subscription reads the database again after it holds the row lock, so it takes the
  states of the database at its reads; a transaction that holds the advisory lock of its owner
  sees one state.  The theorems show that a cancellation is applied once, that it is refused while
  a payment is in flight, and that access then ends at the instant the event tells the host.
\<close>

datatype CancelSubscriptionOutcome =
    Canceled Subscription BillingEvent
  | AlreadyCanceled Subscription
  | BlockedByRenewal
  | BlockedByPaymentMethodUpdate
  | NotFound

datatype SubscriptionCancellationError = InvalidState rstring

abbreviation invalid_cancellation :: SubscriptionCancellationError where
  "invalid_cancellation \<equiv> SubscriptionCancellationError.InvalidState INVALID_SUBSCRIPTION_STATE"

definition CURRENT_SUBSCRIPTION_LOCK_MAX_ATTEMPTS :: nat where
  "CURRENT_SUBSCRIPTION_LOCK_MAX_ATTEMPTS = 2"

definition UNSTABLE_CURRENT_SUBSCRIPTION :: rstring where
  "UNSTABLE_CURRENT_SUBSCRIPTION =
     lit ''current subscription ranking did not stabilize while acquiring the row lock''"

section \<open>Selecting the current subscription\<close>

definition command_row :: "CancelSubscription \<Rightarrow> subscription_row \<Rightarrow> bool" where
  "command_row command = row_of_owner (cancel_billing_scope_id command) (cancel_subscriber_id command)
     (cancel_plan_key command)"

text \<open>The rows of the view \<open>billing_current_subscriptions\<close>.\<close>

definition in_current_view :: "datetime \<Rightarrow> subscription_row \<Rightarrow> bool" where
  "in_current_view now row \<longleftrightarrow>
     row_status row \<in> {lit ''active'', lit ''past_due''} \<or>
     row_status row = lit ''canceled'' \<and> row_current_period_end_at row > now"

definition current_subscription_id :: "billing_txn \<Rightarrow> CancelSubscription \<Rightarrow> billing_db \<Rightarrow> Uuid option" where
  "current_subscription_id txn command db =
     map_option row_id (first_row (by_rank
       (filter (\<lambda>row. command_row command row \<and> in_current_view (txn_now txn) row) (db_subscriptions db))))"

definition selected_subscription_id :: "billing_txn \<Rightarrow> CancelSubscription \<Rightarrow> billing_db \<Rightarrow> Uuid option" where
  "selected_subscription_id txn command db =
     (case current_subscription_id txn command db of
        Some current \<Rightarrow> Some current
      | None \<Rightarrow> map_option row_id (first_row (sort_key (\<lambda>r. - row_created_at r)
          (sort_key (\<lambda>r. - uint (row_id r)) (filter (command_row command) (db_subscriptions db))))))"

definition require_stabilization_retry :: "nat \<Rightarrow> (unit, SubscriptionCancellationError) result" where
  "require_stabilization_retry attempt =
     (if attempt + 1 < CURRENT_SUBSCRIPTION_LOCK_MAX_ATTEMPTS then Ok ()
      else Err (SubscriptionCancellationError.InvalidState UNSTABLE_CURRENT_SUBSCRIPTION))"

definition cancel_row :: "CancelSubscription \<Rightarrow> Uuid \<Rightarrow> subscription_row \<Rightarrow> bool" where
  "cancel_row command = exact_row (cancel_billing_scope_id command) (cancel_subscriber_id command)
     (cancel_plan_key command)"

text \<open>\<open>views i\<close> is the database at the \<open>i\<close>-th read; an attempt reads three times.\<close>

fun current_subscription_from ::
    "billing_txn \<Rightarrow> (nat \<Rightarrow> billing_db) \<Rightarrow> CancelSubscription \<Rightarrow> nat list \<Rightarrow>
     (Subscription option, SubscriptionCancellationError) result" where
  "current_subscription_from txn views command [] =
     Err (SubscriptionCancellationError.InvalidState UNSTABLE_CURRENT_SUBSCRIPTION)"
| "current_subscription_from txn views command (attempt # attempts) =
     (case selected_subscription_id txn command (views (3 * attempt)) of
        None \<Rightarrow> Ok None
      | Some candidate_id \<Rightarrow>
          (case find (cancel_row command candidate_id) (db_subscriptions (views (3 * attempt + 1))) of
             None \<Rightarrow> and_then (require_stabilization_retry attempt)
               (\<lambda>_. current_subscription_from txn views command attempts)
           | Some row \<Rightarrow>
               (case selected_subscription_id txn command (views (3 * attempt + 2)) of
                  Some current_id \<Rightarrow>
                    if current_id = candidate_id
                    then map_sum (\<lambda>_. invalid_cancellation) Some (subscription_from_row row)
                    else and_then (require_stabilization_retry attempt)
                      (\<lambda>_. current_subscription_from txn views command attempts)
                | None \<Rightarrow> Ok None)))"

definition current_subscription ::
    "billing_txn \<Rightarrow> (nat \<Rightarrow> billing_db) \<Rightarrow> CancelSubscription \<Rightarrow>
     (Subscription option, SubscriptionCancellationError) result" where
  "current_subscription txn views command =
     current_subscription_from txn views command [0..<CURRENT_SUBSCRIPTION_LOCK_MAX_ATTEMPTS]"

section \<open>Cancelling\<close>

definition has_blocking_renewal :: "Subscription \<Rightarrow> billing_db \<Rightarrow> bool" where
  "has_blocking_renewal subscription db =
     list_ex (\<lambda>a. attempt_of_period (sub_id subscription) (sub_next_renewal_at subscription) a \<and>
       is_subscription_charge a \<and>
       PaymentAttempt_status a \<in> {PaymentAttemptStatus.Pending, PaymentAttemptStatus.Unknown,
         PaymentAttemptStatus.ReviewRequired, PaymentAttemptStatus.Approved}) (db_attempts db)"

definition UNSUBMITTED_PAYMENT_METHOD_UPDATE_FAILED_RESPONSE_TEXT :: rstring where
  "UNSUBMITTED_PAYMENT_METHOD_UPDATE_FAILED_RESPONSE_TEXT =
     lit ''Payment method update was abandoned before gateway submission.''"

definition expire_stale_payment_method_updates :: "billing_txn \<Rightarrow> SubscriptionId \<Rightarrow> billing_db \<Rightarrow> billing_db" where
  "expire_stale_payment_method_updates txn subscription_id db =
     update_attempts (\<lambda>a. attempt_subscription_id a = Some subscription_id \<and>
         PaymentAttempt_kind a = PaymentAttemptKind.SubscriptionPaymentMethodUpdate \<and>
         is_stale_local (txn_now txn) PaymentAttemptKind.SubscriptionPaymentMethodUpdate a \<and>
         attempt_uuid a \<notin> set (txn_locked txn))
       (\<lambda>a. close_attempt (state_resolution_code (attempt_state a))
          (Some (coalesced (attempt_response_text a)
             (GatewayDiagnostic UNSUBMITTED_PAYMENT_METHOD_UPDATE_FAILED_RESPONSE_TEXT)))
          (failed_condition a) (txn_now txn) (txn_now txn) a) db"

definition cancel_target :: "CancelSubscription \<Rightarrow> SubscriptionId \<Rightarrow> SubscriptionStatus \<Rightarrow> subscription_row \<Rightarrow> bool" where
  "cancel_target command subscription_id expected_status row \<longleftrightarrow>
     cancel_row command (SubscriptionId_as_uuid subscription_id) row \<and>
     row_status row = SubscriptionStatus_as_str expected_status"

definition mark_canceled :: "datetime \<Rightarrow> subscription_row \<Rightarrow> subscription_row" where
  "mark_canceled now row =
     row\<lparr>row_status := lit ''canceled'', row_canceled_at := Some now, row_next_payment_attempt_at := None,
         row_updated_at := now\<rparr>"

definition cancel_current_subscription ::
    "billing_txn \<Rightarrow> CancelSubscription \<Rightarrow> SubscriptionId \<Rightarrow> SubscriptionStatus \<Rightarrow> billing_db \<Rightarrow>
     ((Subscription \<times> datetime) option \<times> billing_db, SubscriptionCancellationError) result" where
  "cancel_current_subscription txn command subscription_id expected_status db =
     (case update_subscriptions (cancel_target command subscription_id expected_status)
             (mark_canceled (txn_now txn)) db of
        (None, db') \<Rightarrow> Ok (None, db')
      | (Some row, db') \<Rightarrow>
          and_then (map_err (\<lambda>_. invalid_cancellation) (subscription_from_row row))
          (\<lambda>subscription. and_then (ok_or (row_canceled_at row) invalid_cancellation)
          (\<lambda>canceled_at. Ok (Some (subscription, canceled_at), db'))))"

text \<open>The instant access ends, or \<open>None\<close> for the instant of the cancellation.\<close>

definition access_ends_at_before_cancel ::
    "Subscription \<Rightarrow> billing_db \<Rightarrow> (datetime option, SubscriptionCancellationError) result" where
  "access_ends_at_before_cancel subscription db =
     (case sub_status subscription of
        SubscriptionStatus.Active \<Rightarrow> Ok (Some (period_end_at (sub_current_period subscription)))
      | SubscriptionStatus.PastDue \<Rightarrow>
          if policy_past_due_access (sub_renewal_failure subscription) = ContinueUntilDunningExhausted \<and>
             sub_next_payment_attempt_at subscription \<noteq> None
          then Ok None
          else and_then (map_err (\<lambda>_. invalid_cancellation)
              (past_due_causal_history db (sub_id subscription) (sub_next_renewal_at subscription)))
            (\<lambda>history. map_sum id Some (ok_or
               (causal_access_ended_at history (policy_past_due_access (sub_renewal_failure subscription)))
               invalid_cancellation))
      | _ \<Rightarrow> Err invalid_cancellation)"

text \<open>The arm of an active or past-due subscription.\<close>

definition cancel_live_subscription ::
    "billing_txn \<Rightarrow> CancelSubscription \<Rightarrow> Subscription \<Rightarrow> billing_db \<Rightarrow>
     (CancelSubscriptionOutcome \<times> billing_db, SubscriptionCancellationError) result" where
  "cancel_live_subscription txn command subscription db =
     (let db = snd (fail_stale_unsubmitted_subscription_charges txn (sub_id subscription) db) in
      if has_blocking_renewal subscription db then Ok (BlockedByRenewal, db)
      else
        let db = expire_stale_payment_method_updates txn (sub_id subscription) db in
        if blocking_payment_method_update_exists (sub_id subscription) db
        then Ok (BlockedByPaymentMethodUpdate, db)
        else and_then (access_ends_at_before_cancel subscription db)
        (\<lambda>access_ends_at. and_then
           (cancel_current_subscription txn command (sub_id subscription) (sub_status subscription) db)
        (\<lambda>(updated, db). and_then (ok_or updated invalid_cancellation)
        (\<lambda>(subscription, canceled_at). Ok (Canceled subscription
            (BillingEvent.SubscriptionCanceled (sub_id subscription) (sub_plan_key subscription)
               (coalesced access_ends_at canceled_at)), db)))))"

definition cancel_subscription_on_connection ::
    "billing_txn \<Rightarrow> (nat \<Rightarrow> billing_db) \<Rightarrow> CancelSubscription \<Rightarrow> billing_db \<Rightarrow>
     (CancelSubscriptionOutcome \<times> billing_db, SubscriptionCancellationError) result" where
  "cancel_subscription_on_connection txn views command db =
     and_then (current_subscription txn views command)
     (\<lambda>selected. case selected of
        None \<Rightarrow> Ok (NotFound, db)
      | Some subscription \<Rightarrow>
          (case sub_status subscription of
             SubscriptionStatus.Canceled \<Rightarrow> Ok (AlreadyCanceled subscription, db)
           | SubscriptionStatus.Unpaid \<Rightarrow> Ok (NotFound, db)
           | _ \<Rightarrow> cancel_live_subscription txn command subscription db))"

section \<open>The contract of operations\<close>

lemma expire_updates_history:
  "list_all2 attempt_history (db_attempts db) (db_attempts (expire_stale_payment_method_updates txn i db))"
  by (auto simp: expire_stale_payment_method_updates_def is_stale_local_iff intro!: update_attempts_history [simplified])

lemma expire_updates_frame [simp]:
  "db_subscriptions (expire_stale_payment_method_updates txn i db) = db_subscriptions db"
  "db_grants (expire_stale_payment_method_updates txn i db) = db_grants db"
  "db_charges (expire_stale_payment_method_updates txn i db) = db_charges db"
  "db_claims (expire_stale_payment_method_updates txn i db) = db_claims db"
  "db_discounts (expire_stale_payment_method_updates txn i db) = db_discounts db"
  by (simp_all add: expire_stale_payment_method_updates_def)

lemma mark_canceled_kept [simp]:
  "fixed_columns (mark_canceled t row) = fixed_columns row"
  "policy_readable (mark_canceled t row) = policy_readable row"
  "row_canceled_at (mark_canceled t row) = Some t"
  by (simp_all add: mark_canceled_def fixed_columns_def policy_readable_def)

abbreviation swept :: "billing_txn \<Rightarrow> Subscription \<Rightarrow> billing_db \<Rightarrow> billing_db" where
  "swept txn s db \<equiv> expire_stale_payment_method_updates txn (sub_id s)
     (snd (fail_stale_unsubmitted_subscription_charges txn (sub_id s) db))"

lemma cancel_live_cases:
  assumes "cancel_live_subscription txn command s db = Ok (out, db')"
  obtains
    "db' = snd (fail_stale_unsubmitted_subscription_charges txn (sub_id s) db)" "out = BlockedByRenewal"
  | "db' = swept txn s db" "out = BlockedByPaymentMethodUpdate"
  | access row sub where
      "\<not> has_blocking_renewal s (snd (fail_stale_unsubmitted_subscription_charges txn (sub_id s) db))"
      "\<not> blocking_payment_method_update_exists (sub_id s) (swept txn s db)"
      "access_ends_at_before_cancel s (swept txn s db) = Ok access"
      "find (cancel_target command (sub_id s) (sub_status s)) (db_subscriptions db) = Some row"
      "subscription_from_row (mark_canceled (txn_now txn) row) = Ok sub"
      "out = Canceled sub (BillingEvent.SubscriptionCanceled (sub_id sub) (sub_plan_key sub)
         (coalesced access (txn_now txn)))"
      "db' = snd (update_subscriptions (cancel_target command (sub_id s) (sub_status s))
         (mark_canceled (txn_now txn)) (swept txn s db))"
proof -
  define db1 where "db1 = snd (fail_stale_unsubmitted_subscription_charges txn (sub_id s) db)"
  define db2 where "db2 = expire_stale_payment_method_updates txn (sub_id s) db1"
  have rows: "db_subscriptions db2 = db_subscriptions db" by (simp add: db2_def db1_def)
  note run = assms [unfolded cancel_live_subscription_def Let_def, folded db1_def, folded db2_def]
  note cases = that [folded db1_def, folded db2_def]
  show thesis
  proof (cases "has_blocking_renewal s db1 \<or> blocking_payment_method_update_exists (sub_id s) db2")
    case True
    with run cases(1,2) show thesis by (auto split: if_splits)
  next
    case False
    then have unblocked: "\<not> has_blocking_renewal s db1" "\<not> blocking_payment_method_update_exists (sub_id s) db2"
      by simp_all
    with run obtain access where access: "access_ends_at_before_cancel s db2 = Ok access"
      by (auto simp: and_then_Inr_iff)
    let ?target = "cancel_target command (sub_id s) (sub_status s)"
    define db3 where "db3 = snd (update_subscriptions ?target (mark_canceled (txn_now txn)) db2)"
    have updated: "update_subscriptions ?target (mark_canceled (txn_now txn)) db2 =
        (map_option (mark_canceled (txn_now txn)) (find ?target (db_subscriptions db)), db3)"
      by (simp add: update_subscriptions_def rows db3_def)
    note run2 = run [unfolded if_not_P [OF unblocked(1)] if_not_P [OF unblocked(2)] access and_then_simps
        cancel_current_subscription_def, unfolded updated]
    from run2 obtain row where row: "find ?target (db_subscriptions db) = Some row"
      by (cases "find ?target (db_subscriptions db)") auto
    from run2 [unfolded row] obtain sub where sub: "subscription_from_row (mark_canceled (txn_now txn) row) = Ok sub"
      by (auto simp: and_then_Inr_iff map_err_Inr_iff)
    from run2 row sub show thesis
      by (intro cases(3) [OF unblocked access row sub]) (simp_all add: map_err_def db3_def)
  qed
qed

lemma cancel_cases:
  assumes "cancel_subscription_on_connection txn views command db = Ok (out, db')"
  obtains "db' = db" "\<forall>s ev. out \<noteq> Canceled s ev"
  | s where "current_subscription txn views command = Ok (Some s)"
      "sub_status s = SubscriptionStatus.Active \<or> sub_status s = SubscriptionStatus.PastDue"
      "cancel_live_subscription txn command s db = Ok (out, db')"
proof -
  from assms obtain selected where selected: "current_subscription txn views command = Ok selected"
    by (auto simp: cancel_subscription_on_connection_def and_then_Inr_iff)
  show thesis
  proof (cases selected)
    case None
    with assms selected show thesis by (intro that(1)) (auto simp: cancel_subscription_on_connection_def)
  next
    case (Some s)
    with assms selected that show thesis
      by (cases "sub_status s") (auto simp: cancel_subscription_on_connection_def)
  qed
qed

interpretation cancel: subscription_operation
  "\<lambda>txn db db'. \<exists>views command out. cancel_subscription_on_connection txn views command db = Ok (out, db')"
proof unfold_locales
  fix txn db db'
  assume "\<exists>views command out. cancel_subscription_on_connection txn views command db = Ok (out, db')"
  then obtain views command out where
    run: "cancel_subscription_on_connection txn views command db = Ok (out, db')" by blast
  have attempts: "list_all2 attempt_history (db_attempts db) (db_attempts (swept txn s db))" for s
    using attempt_history_trans stale_charges_history expire_updates_history by (rule list_all2_trans)
  have "list_all2 row_history (db_subscriptions db) (db_subscriptions db') \<and>
    list_all2 attempt_history (db_attempts db) (db_attempts db') \<and>
    db_grants db' = db_grants db \<and> db_charges db' = db_charges db \<and> db_claims db' = db_claims db \<and>
      db_discounts db' = db_discounts db"
    using run
  proof (rule cancel_cases)
    assume "db' = db"
    then show ?thesis by (simp add: list_all2_reflI)
  next
    fix s
    assume st: "sub_status s = SubscriptionStatus.Active \<or> sub_status s = SubscriptionStatus.PastDue"
      and live: "cancel_live_subscription txn command s db = Ok (out, db')"
    have rows: "list_all2 row_history (db_subscriptions db0) (db_subscriptions (snd
        (update_subscriptions (cancel_target command (sub_id s) (sub_status s)) (mark_canceled u) db0)))" for u db0
      using st by (intro update_subscriptions_history) (auto simp: cancel_target_def is_current_status_def)
    from live show ?thesis
      by (rule cancel_live_cases)
         (use attempts [of s] rows [of "swept txn s db" "txn_now txn"] stale_charges_history in \<open>simp_all add: list_all2_reflI\<close>)
  qed
  then show "list_all2 row_history (db_subscriptions db) (db_subscriptions db')"
    and "list_all2 attempt_history (db_attempts db) (db_attempts db')"
    and "db_grants db' = db_grants db \<and> db_charges db' = db_charges db \<and> db_claims db' = db_claims db \<and>
      db_discounts db' = db_discounts db"
    by simp_all
qed

section \<open>The selected subscription\<close>

lemma mark_canceled_decodes:
  assumes "subscription_from_row row = Ok s"
  shows "subscription_from_row (mark_canceled t row) =
    Ok (s\<lparr>sub_status := SubscriptionStatus.Canceled, sub_next_payment_attempt_at := None\<rparr>)"
  using subscription_from_row_status [OF assms, where st = SubscriptionStatus.Canceled and n = None and
      u = "row_unpaid_at row" and c = "Some t" and t = t]
  by (cases row) (simp add: mark_canceled_def)

text \<open>On one state of the database the first attempt of the selection succeeds.\<close>

lemma current_subscription_stable:
  assumes "current_subscription txn (\<lambda>_. db) command = Ok (Some s)"
  obtains row where "find (cancel_row command (row_id row)) (db_subscriptions db) = Some row"
    "subscription_from_row row = Ok s"
proof -
  from assms obtain i row where i: "find (cancel_row command i) (db_subscriptions db) = Some row"
    "subscription_from_row row = Ok s"
    by (auto simp: current_subscription_def CURRENT_SUBSCRIPTION_LOCK_MAX_ATTEMPTS_def upt_conv_Cons map_sum_Inr_iff
        and_then_Inr_iff require_stabilization_retry_def split: option.splits)
  from i(1) have "row_id row = i" by (auto simp: find_Some_iff cancel_row_def exact_row_def)
  with i that show thesis by blast
qed

lemma selected_row:
  assumes "current_subscription txn (\<lambda>_. db) command = Ok (Some s)" and "distinct (map row_id (db_subscriptions db))"
  obtains row where "row \<in> set (db_subscriptions db)" "subscription_from_row row = Ok s"
    "find (cancel_target command (sub_id s) (sub_status s)) (db_subscriptions db) = Some row"
proof -
  obtain row where row: "find (cancel_row command (row_id row)) (db_subscriptions db) = Some row"
    and s: "subscription_from_row row = Ok s"
    by (rule current_subscription_stable [OF assms(1)])
  have columns: "FullSubscriptionRow.truncate row = subscription_columns s"
    using s by (simp add: subscription_from_row_def into_subscription_Ok_iff)
  have "row_id row = SubscriptionId_as_uuid (sub_id s)"
    using arg_cong [OF columns, of row_id] by (simp add: subscription_columns_def FullSubscriptionRow.truncate_def)
  with row s have hit: "cancel_target command (sub_id s) (sub_status s) row" and here: "row \<in> set (db_subscriptions db)"
    by (auto simp: cancel_target_def find_Some_iff subscription_from_row_columns(1))
  then obtain row' where row': "find (cancel_target command (sub_id s) (sub_status s)) (db_subscriptions db) = Some row'"
    by (metis find_None_iff not_Some_eq)
  have "row' = row"
    using find_key_unique [OF assms(2) row' row] row' hit
    by (auto simp: find_Some_iff cancel_target_def cancel_row_def exact_row_def)
  with row' s here that show thesis by blast
qed

section \<open>Only live payments block\<close>

text \<open>
  A charge of the coming period, or a payment-method update, that may still reach the provider or
  has an unresolved or approved result: everything but the attempts the cancellation expires.
\<close>

definition live_charge :: "billing_txn \<Rightarrow> Subscription \<Rightarrow> PaymentAttempt \<Rightarrow> bool" where
  "live_charge txn s a \<longleftrightarrow>
     attempt_of_period (sub_id s) (sub_next_renewal_at s) a \<and> is_subscription_charge a \<and>
     PaymentAttempt_status a \<notin> {PaymentAttemptStatus.Declined, PaymentAttemptStatus.Failed} \<and>
     \<not> (is_stale_local (txn_clock txn) PaymentAttemptKind.SubscriptionRenewal a \<and> attempt_uuid a \<notin> set (txn_locked txn))"

definition live_update :: "billing_txn \<Rightarrow> Subscription \<Rightarrow> PaymentAttempt \<Rightarrow> bool" where
  "live_update txn s a \<longleftrightarrow>
     attempt_subscription_id a = Some (sub_id s) \<and>
     PaymentAttempt_kind a = PaymentAttemptKind.SubscriptionPaymentMethodUpdate \<and>
     PaymentAttempt_status a \<notin> {PaymentAttemptStatus.Declined, PaymentAttemptStatus.Failed,
       PaymentAttemptStatus.Approved} \<and>
     \<not> (is_stale_local (txn_now txn) PaymentAttemptKind.SubscriptionPaymentMethodUpdate a \<and>
        attempt_uuid a \<notin> set (txn_locked txn))"

lemma attempt_of_period_closed [simp]:
  "attempt_of_period i t (close_attempt c x y r u a) = attempt_of_period i t a"
  "is_subscription_charge (close_attempt c x y r u a) = is_subscription_charge a"
  by (simp_all add: attempt_of_period_def attempt_period_start_at_def is_subscription_charge_def)

lemma blocking_renewal_iff:
  "has_blocking_renewal s (snd (fail_stale_unsubmitted_subscription_charges txn (sub_id s) db)) \<longleftrightarrow>
     list_ex (live_charge txn s) (db_attempts db)"
proof -
  have status: "x \<in> {PaymentAttemptStatus.Pending, PaymentAttemptStatus.Unknown,
         PaymentAttemptStatus.ReviewRequired, PaymentAttemptStatus.Approved} \<longleftrightarrow>
      x \<notin> {PaymentAttemptStatus.Declined, PaymentAttemptStatus.Failed}" for x
    by (cases x) simp_all
  show ?thesis
    unfolding has_blocking_renewal_def status fail_stale_unsubmitted_subscription_charges_def Let_def snd_conv
      update_attempts_simps list_ex_iff live_charge_def
    by (auto simp: attempt_of_period_def)
qed

lemma blocking_update_iff:
  "blocking_payment_method_update_exists (sub_id s) (swept txn s db) \<longleftrightarrow> list_ex (live_update txn s) (db_attempts db)"
proof -
  have status: "x \<in> {PaymentAttemptStatus.Pending, PaymentAttemptStatus.Unknown,
         PaymentAttemptStatus.ReviewRequired} \<longleftrightarrow>
      x \<notin> {PaymentAttemptStatus.Declined, PaymentAttemptStatus.Failed, PaymentAttemptStatus.Approved}" for x
    by (cases x) simp_all
  show ?thesis
    unfolding blocking_payment_method_update_exists_def status fail_stale_unsubmitted_subscription_charges_def Let_def
      snd_conv expire_stale_payment_method_updates_def update_attempts_simps list_ex_iff live_update_def
    by (auto simp: is_subscription_charge_def)
qed

lemma cancel_active_outcome:
  assumes "distinct (map row_id (db_subscriptions db))"
    and "current_subscription txn (\<lambda>_. db) command = Ok (Some s)" and "sub_status s = SubscriptionStatus.Active"
  shows "\<exists>db'. cancel_subscription_on_connection txn (\<lambda>_. db) command db =
    Ok (if list_ex (live_charge txn s) (db_attempts db) then BlockedByRenewal
        else if list_ex (live_update txn s) (db_attempts db) then BlockedByPaymentMethodUpdate
        else Canceled (s\<lparr>sub_status := SubscriptionStatus.Canceled, sub_next_payment_attempt_at := None\<rparr>)
          (BillingEvent.SubscriptionCanceled (sub_id s) (sub_plan_key s) (period_end_at (sub_current_period s))), db')"
proof -
  obtain row where row: "subscription_from_row row = Ok s"
    "find (cancel_target command (sub_id s) (sub_status s)) (db_subscriptions db) = Some row"
    using selected_row [OF assms(2,1)] by metis
  have "access_ends_at_before_cancel s db0 = Ok (Some (period_end_at (sub_current_period s)))" for db0
    using assms(3) by (simp add: access_ends_at_before_cancel_def)
  with row assms(2,3) show ?thesis
    by (simp add: cancel_subscription_on_connection_def cancel_live_subscription_def Let_def blocking_renewal_iff
        blocking_update_iff cancel_current_subscription_def update_subscriptions_def mark_canceled_decodes map_err_def
        coalesced_def)
qed

text \<open>C24.  Only live payments block a cancellation.  For the active subscription the owner sees, the
  outcome is decided by the stored attempts alone: it is refused while a charge of the coming period is
  live, then while a payment-method update is live, and in every other case the subscription is
  canceled, with an event that announces access to the end of the paid period.  An attempt that was
  never submitted stops being live when its window (thirty or three minutes) has passed, so an
  abandoned payment cannot keep a subscriber from cancelling.\<close>

theorem only_live_payments_block_cancellation:
  assumes "distinct (map row_id (db_subscriptions db))"
    and "current_subscription txn (\<lambda>_. db) command = Ok (Some s)" and "sub_status s = SubscriptionStatus.Active"
  shows "\<exists>db'. cancel_subscription_on_connection txn (\<lambda>_. db) command db =
    Ok (if list_ex (live_charge txn s) (db_attempts db) then BlockedByRenewal
        else if list_ex (live_update txn s) (db_attempts db) then BlockedByPaymentMethodUpdate
        else Canceled (s\<lparr>sub_status := SubscriptionStatus.Canceled, sub_next_payment_attempt_at := None\<rparr>)
          (BillingEvent.SubscriptionCanceled (sub_id s) (sub_plan_key s) (period_end_at (sub_current_period s))), db')"
  using assms by (rule cancel_active_outcome)

section \<open>Access after a cancellation\<close>

definition cancel_selector :: "CancelSubscription \<Rightarrow> EntitlementSelector" where
  "cancel_selector command =
     \<lparr>selector_billing_scope_id = cancel_billing_scope_id command,
      selector_subscriber_id = cancel_subscriber_id command, selector_plan_key = cancel_plan_key command,
      selector_required_gateway_account_mode = None\<rparr>"

lemma cancel_row_selects: "cancel_row command i row \<Longrightarrow> selects_subscription (cancel_selector command) row"
  by (simp add: cancel_row_def exact_row_def selects_subscription_def cancel_selector_def)

lemma mark_canceled_candidate:
  "paid_candidate s t (mark_canceled u row) \<longleftrightarrow> selects_subscription s row \<and> t < row_current_period_end_at row"
  by (simp add: paid_candidate_def selects_subscription_def row_of_owner_def mark_canceled_def cong: option.case_cong)

lemma sole_candidate:
  assumes "length (filter P xs) = 1" and "x \<in> set xs" "P x" and "y \<in> set xs" "P y"
  shows "x = y"
proof -
  from assms(1) obtain z where "filter P xs = [z]" by (auto simp: length_Suc_conv)
  moreover have "x \<in> set (filter P xs)" "y \<in> set (filter P xs)" using assms(2-) by simp_all
  ultimately show ?thesis by simp
qed

lemma canceled_live_effect:
  assumes "distinct (map row_id (db_subscriptions db))"
    and "current_subscription txn (\<lambda>_. db) command = Ok (Some s)"
    and "cancel_subscription_on_connection txn (\<lambda>_. db) command db = Ok (Canceled sub ev, db')"
  obtains row access where "row \<in> set (db_subscriptions db)" "subscription_from_row row = Ok s"
    "sub_status s = SubscriptionStatus.Active \<or> sub_status s = SubscriptionStatus.PastDue"
    "cancel_target command (sub_id s) (sub_status s) row" "access_ends_at_before_cancel s db' = Ok access"
    "ev = BillingEvent.SubscriptionCanceled (sub_id s) (sub_plan_key s) (coalesced access (txn_now txn))"
    "db_subscriptions db' = map (\<lambda>r. if cancel_target command (sub_id s) (sub_status s) r
       then mark_canceled (txn_now txn) r else r) (db_subscriptions db)"
proof -
  obtain row where row: "row \<in> set (db_subscriptions db)" "subscription_from_row row = Ok s"
      "find (cancel_target command (sub_id s) (sub_status s)) (db_subscriptions db) = Some row"
    by (rule selected_row [OF assms(2,1)])
  have hit: "cancel_target command (sub_id s) (sub_status s) row" using row(3) by (auto simp: find_Some_iff)
  have status: "sub_status s = SubscriptionStatus.Active \<or> sub_status s = SubscriptionStatus.PastDue"
    and live: "cancel_live_subscription txn command s db = Ok (Canceled sub ev, db')"
    using assms(2,3) by (cases "sub_status s"; simp add: cancel_subscription_on_connection_def)+
  from live obtain access where access: "access_ends_at_before_cancel s (swept txn s db) = Ok access"
      "ev = BillingEvent.SubscriptionCanceled (sub_id s) (sub_plan_key s) (coalesced access (txn_now txn))"
      "db' = snd (update_subscriptions (cancel_target command (sub_id s) (sub_status s)) (mark_canceled (txn_now txn)) (swept txn s db))"
    by (rule cancel_live_cases) (use row in \<open>auto simp: mark_canceled_decodes\<close>)
  have "db_attempts db' = db_attempts (swept txn s db)" by (simp add: access(3) update_subscriptions_def)
  then have "access_ends_at_before_cancel s db' = access_ends_at_before_cancel s (swept txn s db)"
    unfolding access_ends_at_before_cancel_def by (simp only: histories_same_attempts(1) [where db' = db'])
  with access(1) have "access_ends_at_before_cancel s db' = Ok access" by simp
  moreover have "db_subscriptions db' = map (\<lambda>r. if cancel_target command (sub_id s) (sub_status s) r
      then mark_canceled (txn_now txn) r else r) (db_subscriptions db)"
    by (simp add: access(3) update_subscriptions_def)
  ultimately show thesis using that row(1,2) status hit access(2) by blast
qed

text \<open>What the guard says of the only source of access while it is past due.\<close>

lemma past_due_guard:
  assumes paid: "filter (paid_candidate sel (txn_clock txn)) (db_subscriptions db) = [row]"
    and grants: "filter (active_grant sel (txn_clock txn)) (db_grants db) = []"
    and row: "subscription_from_row row = Ok s" "sub_status s = SubscriptionStatus.PastDue"
  shows "require_entitlement_for_update txn (EntitlementGuard sel) db =
    (if policy_past_due_access (sub_renewal_failure s) = ContinueUntilDunningExhausted \<and> sub_next_payment_attempt_at s \<noteq> None
     then Ok () else Err EntitlementGuardError.PastDue)"
proof -
  have one: "length (filter (paid_candidate sel (txn_clock txn)) (db_subscriptions db)) \<le> 1" by (simp add: paid)
  note columns = subscription_from_row_columns [OF row(1)]
  have "lock_and_classify_entitlement txn (EntitlementGuard sel) db =
      (if classify_past_due_access (policy_past_due_access (sub_renewal_failure s)) (sub_next_payment_attempt_at s) = AllowedDuringDunning
       then Paid else GuardAccess.PastDue)"
    using row(2) by (simp add: lock_and_classify_candidates [OF one] paid grants columns past_due_access.parse_print)
  then show ?thesis
    by (cases "policy_past_due_access (sub_renewal_failure s)"; cases "sub_next_payment_attempt_at s")
       (simp_all add: require_entitlement_for_update_def classify_past_due_access_def)
qed

lemma sole_filter:
  assumes "length (filter P xs) = 1" and "x \<in> set xs" and "P x"
  shows "filter P xs = [x]"
proof -
  from assms(1) obtain z where z: "filter P xs = [z]" by (auto simp: length_Suc_conv)
  have "x \<in> set (filter P xs)" using assms(2,3) by simp
  with z show ?thesis by simp
qed

text \<open>The only paid candidate, once canceled, is a candidate to the end of its period.\<close>

lemma canceled_candidates:
  fixes db db' :: billing_db
  assumes "paid_count s t db = 1" and "row \<in> set (db_subscriptions db)" and "paid_candidate s t row" and "t \<le> t'"
    and "hit row" and "\<And>r. hit r \<Longrightarrow> is_current_status (row_status r)"
    and rows: "db_subscriptions db' = map (\<lambda>r. if hit r then mark_canceled u r else r) (db_subscriptions db)"
  shows "filter (paid_candidate s t') (db_subscriptions db') =
    (if t' < row_current_period_end_at row then [mark_canceled u row] else [])"
proof -
  have hist: "list_all2 row_history (db_subscriptions db) (db_subscriptions db')"
    unfolding rows by (rule list_all2_mapI) (auto simp: row_history_def assms(6))
  have one: "length (filter (paid_candidate s t') (db_subscriptions db')) \<le> 1"
    using paid_count_later [OF hist assms(4), of s] assms(1) by (simp add: paid_count_def)
  have sel: "selects_subscription s row" using assms(3) by (simp add: paid_candidate_def)
  show ?thesis
  proof (cases "t' < row_current_period_end_at row")
    case True
    have "mark_canceled u row \<in> set (filter (paid_candidate s t') (db_subscriptions db'))"
      using assms(2,5) sel True by (auto simp: rows mark_canceled_candidate)
    with one True show ?thesis
      by (cases "filter (paid_candidate s t') (db_subscriptions db')") auto
  next
    case False
    have "\<not> paid_candidate s t' r'" if "r' \<in> set (db_subscriptions db')" for r'
    proof
      assume c: "paid_candidate s t' r'"
      from that obtain r where r: "r \<in> set (db_subscriptions db)" "r' = (if hit r then mark_canceled u r else r)"
        by (auto simp: rows)
      have "row_history r r'" using r(2) assms(6) by (auto simp: row_history_def)
      from paid_candidate_earlier [OF this assms(4) c] r(1) have "r = row"
        using sole_candidate [OF assms(1) [unfolded paid_count_def]] assms(2,3) by blast
      with r assms(5) c False show False by (simp add: mark_canceled_candidate)
    qed
    with False show ?thesis by (simp add: filter_empty_conv)
  qed
qed


section \<open>A concrete cancellation\<close>

definition sample_cancel :: CancelSubscription where
  "sample_cancel = \<lparr>cancel_billing_scope_id = BillingScopeId 1, cancel_subscriber_id = SubscriberId 2,
     cancel_plan_key = offer_plan_key sample_offer\<rparr>"

lemma sample_selected:
  "current_subscription \<lparr>txn_now = 50, txn_clock = 50, txn_locked = []\<rparr> (\<lambda>_. sample_dunning_db) sample_cancel =
     Ok (Some sample_subscription)"
proof -
  have tables: "db_subscriptions sample_dunning_db = [sample_subscription_row]"
    by (simp add: sample_dunning_db_def)
  have row: "command_row sample_cancel sample_subscription_row" "row_id sample_subscription_row = 5"
    "cancel_row sample_cancel 5 sample_subscription_row" "row_status sample_subscription_row = lit ''active''"
    by (simp_all add: command_row_def cancel_row_def exact_row_def row_of_owner_def sample_cancel_def
        sample_subscription_row_def sample_offer_def)
  show ?thesis
    by (simp add: current_subscription_def CURRENT_SUBSCRIPTION_LOCK_MAX_ATTEMPTS_def upt_conv_Cons
        selected_subscription_id_def current_subscription_id_def tables row in_current_view_def by_rank_def first_row_def
        sample_row_decodes)
qed

lemma sample_not_live:
  "\<not> live_charge txn s sample_renewal" "\<not> live_update txn s sample_renewal"
  by (simp_all add: live_charge_def live_update_def sample_renewal_def PaymentAttempt_status_def PaymentAttempt_kind_def)

theorem only_live_payments_block_cancellation_witness:
  "\<exists>sub ev db'. cancel_subscription_on_connection \<lparr>txn_now = 50, txn_clock = 50, txn_locked = []\<rparr>
     (\<lambda>_. sample_dunning_db) sample_cancel sample_dunning_db = Ok (Canceled sub ev, db') \<and>
   ev = BillingEvent.SubscriptionCanceled (SubscriptionId 5) (offer_plan_key sample_offer) 100"
proof -
  have "distinct (map row_id (db_subscriptions sample_dunning_db))" "db_attempts sample_dunning_db = [sample_renewal]"
    by (simp_all add: sample_dunning_db_def)
  moreover have "sub_status sample_subscription = SubscriptionStatus.Active" "sub_id sample_subscription = SubscriptionId 5"
    "sub_plan_key sample_subscription = offer_plan_key sample_offer"
    "period_end_at (sub_current_period sample_subscription) = 100"
    by (simp_all add: sample_subscription_def)
  ultimately show ?thesis
    using only_live_payments_block_cancellation [OF _ sample_selected] sample_not_live by auto
qed


end
