(* ===== verification/Period_Expiry.thy ===== *)
theory Period_Expiry
  imports Dunning
begin

text \<open>
  Expired billing periods: \<open>crates/syrup-rail/src/period_expiry.rs\<close> and
  \<open>crates/syrup-rail-postgres/src/period_expiry.rs\<close>.  The operations retire an obsolete due period
  and change the past-due access policy of a subscription.
\<close>

section \<open>Policy, commands and outcomes\<close>

datatype SubscriptionPeriodExpiryPolicy = Disabled | RejectExpiredPeriods

definition rejects_expired_periods :: "SubscriptionPeriodExpiryPolicy \<Rightarrow> bool" where
  "rejects_expired_periods self \<longleftrightarrow> self = RejectExpiredPeriods"

definition period_has_expired :: "datetime \<Rightarrow> datetime \<Rightarrow> bool" where
  "period_has_expired end_at now \<longleftrightarrow> end_at \<le> now"

record RetireExpiredSubscriptionPeriod =
  retire_billing_scope_id :: BillingScopeId
  retire_subscriber_id :: SubscriberId
  retire_plan_key :: PlanKey
  retire_subscription_id :: SubscriptionId
  retire_period_start_at :: datetime

datatype SubscriptionPeriodRetirementOutcome =
    Retired Subscription BillingEvent "PaymentAttemptId list"
  | AlreadyUnpaid Subscription
  | NotFound
  | Canceled Subscription
  | PeriodChanged Subscription
  | NotExpired BillingPeriod
  | UnresolvedPayment

record ChangeSubscriptionPastDueAccess =
  change_billing_scope_id :: BillingScopeId
  change_subscriber_id :: SubscriberId
  change_plan_key :: PlanKey
  change_subscription_id :: SubscriptionId
  change_past_due_access :: PastDueAccessPolicy

datatype SubscriptionPastDueAccessChangeOutcome =
    Changed PastDueAccessPolicy Subscription
  | Unchanged Subscription
  | Terminal Subscription
  | NotFound

datatype SubscriptionPeriodExpiryError = InvalidState rstring

abbreviation invalid_period_state :: SubscriptionPeriodExpiryError where
  "invalid_period_state \<equiv> SubscriptionPeriodExpiryError.InvalidState INVALID_SUBSCRIPTION_STATE"

section \<open>Retiring a period\<close>

definition RETIRED_PERIOD_UNSUBMITTED_TEXT :: rstring where
  "RETIRED_PERIOD_UNSUBMITTED_TEXT =
     lit ''Subscription payment was canceled before submission because its billing period ended.''"

definition period_has_expired_at_database_time :: "billing_txn \<Rightarrow> datetime \<Rightarrow> bool" where
  "period_has_expired_at_database_time txn end_at \<longleftrightarrow> end_at \<le> txn_clock txn"

definition lock_exact_subscription ::
    "BillingScopeId \<Rightarrow> SubscriberId \<Rightarrow> PlanKey \<Rightarrow> SubscriptionId \<Rightarrow> billing_db \<Rightarrow> subscription_row option" where
  "lock_exact_subscription billing_scope_id subscriber_id plan_key subscription_id db =
     find (exact_row billing_scope_id subscriber_id plan_key (SubscriptionId_as_uuid subscription_id))
       (db_subscriptions db)"

definition unresolved_payment_exists :: "SubscriptionId \<Rightarrow> datetime \<Rightarrow> billing_db \<Rightarrow> bool" where
  "unresolved_payment_exists subscription_id start_at db \<longleftrightarrow>
     list_ex (\<lambda>a. attempt_subscription_id a = Some subscription_id \<and> is_subscription_charge a \<and>
         (PaymentAttempt_status a \<in> {PaymentAttemptStatus.Unknown, PaymentAttemptStatus.ReviewRequired} \<or>
          PaymentAttempt_status a = PaymentAttemptStatus.Pending \<and> attempt_submitted_at a \<noteq> None \<or>
          PaymentAttempt_status a = PaymentAttemptStatus.Approved \<and>
            attempt_period_start_at a = Some start_at)) (db_attempts db) \<or>
     list_ex (\<lambda>charge. list_ex (\<lambda>a. attempt_uuid a = crow_attempt_id charge \<and>
           attempt_subscription_id a = Some subscription_id) (db_attempts db) \<and>
         crow_attempt_kind charge \<in> {lit ''subscription_initial'', lit ''subscription_renewal'',
           lit ''subscription_recovery''} \<and>
         crow_progression_state charge \<in> {lit ''pending'', lit ''reconciliation_required'',
           lit ''external_reversal_required''}) (db_charges db)"

definition unsubmitted_period_attempt :: "SubscriptionId \<Rightarrow> datetime \<Rightarrow> PaymentAttempt \<Rightarrow> bool" where
  "unsubmitted_period_attempt subscription_id start_at a \<longleftrightarrow>
     attempt_of_period subscription_id start_at a \<and> is_subscription_charge a \<and>
     PaymentAttempt_status a = PaymentAttemptStatus.Pending \<and> attempt_submitted_at a = None"

definition reject_unsubmitted_period_attempts ::
    "billing_txn \<Rightarrow> SubscriptionId \<Rightarrow> datetime \<Rightarrow> billing_db \<Rightarrow> PaymentAttemptId list \<times> billing_db" where
  "reject_unsubmitted_period_attempts txn subscription_id start_at db =
     (let hit = unsubmitted_period_attempt subscription_id start_at in
      (map (\<lambda>a. identity_attempt_id (attempt_identity a)) (sort_key attempt_uuid (filter hit (db_attempts db))),
       update_attempts hit (\<lambda>a. close_attempt (Some SubscriptionPeriodExpiredBeforeCharge)
           (Some (GatewayDiagnostic RETIRED_PERIOD_UNSUBMITTED_TEXT)) (attempt_condition a)
           (coalesced (attempt_resolved_at a) (txn_clock txn)) (txn_clock txn) a) db))"

definition retire_access_ended_at ::
    "Subscription \<Rightarrow> datetime \<Rightarrow> billing_db \<Rightarrow> (datetime option, SubscriptionPeriodExpiryError) result" where
  "retire_access_ended_at subscription start_at db =
     (let policy = policy_past_due_access (sub_renewal_failure subscription) in
      and_then
        (case sub_status subscription of
           SubscriptionStatus.Active \<Rightarrow> Ok True
         | SubscriptionStatus.PastDue \<Rightarrow>
             Ok (policy = ContinueUntilDunningExhausted \<and> sub_next_payment_attempt_at subscription \<noteq> None)
         | _ \<Rightarrow> Err invalid_period_state)
        (\<lambda>access_open. if access_open then Ok None
           else and_then (map_err (\<lambda>_. invalid_period_state)
               (past_due_causal_history db (sub_id subscription) start_at))
             (\<lambda>history. map_sum id Some (ok_or (causal_access_ended_at history policy) invalid_period_state))))"

definition mark_unpaid :: "datetime \<Rightarrow> subscription_row \<Rightarrow> subscription_row" where
  "mark_unpaid clock row =
     row\<lparr>row_status := lit ''unpaid'', row_unpaid_at := Some clock, row_next_payment_attempt_at := None,
         row_updated_at := clock\<rparr>"

definition retire_target ::
    "RetireExpiredSubscriptionPeriod \<Rightarrow> SubscriptionStatus \<Rightarrow> subscription_row \<Rightarrow> bool" where
  "retire_target command prior_status row \<longleftrightarrow>
     exact_row (retire_billing_scope_id command) (retire_subscriber_id command) (retire_plan_key command)
       (SubscriptionId_as_uuid (retire_subscription_id command)) row \<and>
     row_status row = SubscriptionStatus_as_str prior_status \<and>
     row_next_renewal_at row = retire_period_start_at command \<and>
     row_unpaid_at row = None \<and> row_canceled_at row = None"

text \<open>From the expiry of stale charges to the end, for an expired period.\<close>

definition retire_due_period ::
    "billing_txn \<Rightarrow> RetireExpiredSubscriptionPeriod \<Rightarrow> Subscription \<Rightarrow> BillingPeriod \<Rightarrow> billing_db \<Rightarrow>
     (SubscriptionPeriodRetirementOutcome \<times> billing_db, SubscriptionPeriodExpiryError) result" where
  "retire_due_period txn command subscription period db =
     (let start_at = retire_period_start_at command; prior_status = sub_status subscription;
          db = snd (fail_stale_unsubmitted_subscription_charges txn (sub_id subscription) db) in
      if unresolved_payment_exists (retire_subscription_id command) start_at db
      then Ok (UnresolvedPayment, db)
      else and_then (retire_access_ended_at subscription start_at db)
      (\<lambda>access_ended_at.
         let (rejected, db) = reject_unsubmitted_period_attempts txn (retire_subscription_id command) start_at db;
             (updated, db) = update_subscriptions (retire_target command prior_status)
               (mark_unpaid (txn_clock txn)) db
         in and_then (ok_or updated invalid_period_state)
         (\<lambda>row. and_then (map_err (\<lambda>_. invalid_period_state) (subscription_from_row row))
         (\<lambda>subscription. and_then (ok_or (row_unpaid_at row) invalid_period_state)
         (\<lambda>ended_at. Ok (Retired subscription
             (BillingEvent.SubscriptionPeriodExpired (sub_id subscription) (sub_plan_key subscription)
                period ended_at (coalesced access_ended_at ended_at)) rejected, db))))))"

definition retire_expired_subscription_period_on_connection ::
    "chrono \<Rightarrow> billing_txn \<Rightarrow> RetireExpiredSubscriptionPeriod \<Rightarrow> billing_db \<Rightarrow>
     (SubscriptionPeriodRetirementOutcome \<times> billing_db, SubscriptionPeriodExpiryError) result" where
  "retire_expired_subscription_period_on_connection ch txn command db =
     (case lock_exact_subscription (retire_billing_scope_id command) (retire_subscriber_id command)
             (retire_plan_key command) (retire_subscription_id command) db of
        None \<Rightarrow> Ok (SubscriptionPeriodRetirementOutcome.NotFound, db)
      | Some row \<Rightarrow>
          and_then (map_err (\<lambda>_. invalid_period_state) (subscription_from_row row))
          (\<lambda>subscription.
             let start_at = retire_period_start_at command in
             if sub_status subscription = SubscriptionStatus.Canceled then
               Ok (SubscriptionPeriodRetirementOutcome.Canceled subscription, db)
             else if sub_status subscription = SubscriptionStatus.Unpaid then
               Ok (if sub_next_renewal_at subscription = start_at then AlreadyUnpaid subscription
                   else PeriodChanged subscription, db)
             else if sub_next_renewal_at subscription \<noteq> start_at then Ok (PeriodChanged subscription, db)
             else and_then (map_err (\<lambda>_. invalid_period_state)
                 (next_billing_period ch start_at (sub_recurring_period subscription)))
             (\<lambda>period. if \<not> period_has_expired_at_database_time txn (period_end_at period)
                then Ok (NotExpired period, db)
                else retire_due_period txn command subscription period db)))"

section \<open>Changing the past-due access policy\<close>

definition change_target ::
    "ChangeSubscriptionPastDueAccess \<Rightarrow> PastDueAccessPolicy \<Rightarrow> subscription_row \<Rightarrow> bool" where
  "change_target command previous row \<longleftrightarrow>
     exact_row (change_billing_scope_id command) (change_subscriber_id command) (change_plan_key command)
       (SubscriptionId_as_uuid (change_subscription_id command)) row \<and>
     row_past_due_access row = PastDueAccessPolicy_as_str previous \<and>
     row_status row \<in> {lit ''active'', lit ''past_due''}"

definition change_subscription_past_due_access ::
    "billing_txn \<Rightarrow> ChangeSubscriptionPastDueAccess \<Rightarrow> billing_db \<Rightarrow>
     (SubscriptionPastDueAccessChangeOutcome \<times> billing_db, SubscriptionPeriodExpiryError) result" where
  "change_subscription_past_due_access txn command db =
     (case lock_exact_subscription (change_billing_scope_id command) (change_subscriber_id command)
             (change_plan_key command) (change_subscription_id command) db of
        None \<Rightarrow> Ok (SubscriptionPastDueAccessChangeOutcome.NotFound, db)
      | Some row \<Rightarrow>
          and_then (map_err (\<lambda>_. invalid_period_state) (subscription_from_row row))
          (\<lambda>subscription.
             if sub_status subscription \<in> {SubscriptionStatus.Canceled, SubscriptionStatus.Unpaid}
             then Ok (Terminal subscription, db)
             else
               let previous = policy_past_due_access (sub_renewal_failure subscription) in
               if previous = change_past_due_access command then Ok (Unchanged subscription, db)
               else
                 let (updated, db) = update_subscriptions
                       (change_target command previous)
                       (\<lambda>row. row\<lparr>row_past_due_access :=
                            PastDueAccessPolicy_as_str (change_past_due_access command),
                          row_updated_at := txn_clock txn\<rparr>) db
                 in and_then (ok_or updated invalid_period_state)
                 (\<lambda>row. and_then (map_err (\<lambda>_. invalid_period_state) (subscription_from_row row))
                 (\<lambda>subscription. Ok (Changed previous subscription, db)))))"

section \<open>The contract of operations\<close>

lemma reject_attempts_history:
  "list_all2 attempt_history (db_attempts db) (db_attempts (snd (reject_unsubmitted_period_attempts txn i t db)))"
  by (auto simp: reject_unsubmitted_period_attempts_def Let_def unsubmitted_period_attempt_def
      is_locally_expirable_iff intro!: update_attempts_history [simplified])

lemma reject_attempts_frame [simp]:
  "db_subscriptions (snd (reject_unsubmitted_period_attempts txn i t db)) = db_subscriptions db"
  "db_grants (snd (reject_unsubmitted_period_attempts txn i t db)) = db_grants db"
  "db_charges (snd (reject_unsubmitted_period_attempts txn i t db)) = db_charges db"
  "db_claims (snd (reject_unsubmitted_period_attempts txn i t db)) = db_claims db"
  "db_discounts (snd (reject_unsubmitted_period_attempts txn i t db)) = db_discounts db"
  by (simp_all add: reject_unsubmitted_period_attempts_def Let_def)

lemma retire_due_cases:
  assumes "retire_due_period txn command s period db = Ok (out, db')"
  obtains
    "db' = snd (fail_stale_unsubmitted_subscription_charges txn (sub_id s) db)" "out = UnresolvedPayment"
  | access db1 row sub where
      "db1 = snd (fail_stale_unsubmitted_subscription_charges txn (sub_id s) db)"
      "\<not> unresolved_payment_exists (retire_subscription_id command) (retire_period_start_at command) db1"
      "retire_access_ended_at s (retire_period_start_at command) db1 = Ok access"
      "find (retire_target command (sub_status s)) (db_subscriptions db) = Some row"
      "subscription_from_row (mark_unpaid (txn_clock txn) row) = Ok sub"
      "out = Retired sub
         (BillingEvent.SubscriptionPeriodExpired (sub_id sub) (sub_plan_key sub) period (txn_clock txn)
            (coalesced access (txn_clock txn)))
         (fst (reject_unsubmitted_period_attempts txn (retire_subscription_id command)
            (retire_period_start_at command) db1))"
      "db' = snd (update_subscriptions (retire_target command (sub_status s)) (mark_unpaid (txn_clock txn))
         (snd (reject_unsubmitted_period_attempts txn (retire_subscription_id command)
            (retire_period_start_at command) db1)))"
proof -
  define db1 where "db1 = snd (fail_stale_unsubmitted_subscription_charges txn (sub_id s) db)"
  define db2 where "db2 = snd (reject_unsubmitted_period_attempts txn (retire_subscription_id command)
    (retire_period_start_at command) db1)"
  have rows: "db_subscriptions db2 = db_subscriptions db" by (simp add: db2_def db1_def)
  note run = assms [unfolded retire_due_period_def Let_def, folded db1_def]
  show thesis
  proof (cases "unresolved_payment_exists (retire_subscription_id command) (retire_period_start_at command) db1")
    case True
    with run that(1) show thesis by (simp add: db1_def)
  next
    case False
    from False run obtain access where
      access: "retire_access_ended_at s (retire_period_start_at command) db1 = Ok access"
      by (auto simp: and_then_Inr_iff)
    let ?updated = "map_option (mark_unpaid (txn_clock txn))
      (find (retire_target command (sub_status s)) (db_subscriptions db))"
    have updated: "fst (update_subscriptions (retire_target command (sub_status s)) (mark_unpaid (txn_clock txn)) db2) =
        ?updated"
      by (simp add: update_subscriptions_def rows)
    note run2 = run [unfolded if_not_P [OF False] access and_then_simps case_prod_beta, folded db2_def,
        unfolded updated]
    from run2 obtain row where row: "find (retire_target command (sub_status s)) (db_subscriptions db) = Some row"
      by (auto simp: and_then_Inr_iff ok_or_Inr_iff)
    from run2 [unfolded row option.map ok_or_simps and_then_simps] obtain sub where
      sub: "subscription_from_row (mark_unpaid (txn_clock txn) row) = Ok sub"
      by (auto simp: and_then_Inr_iff map_err_Inr_iff)
    have unpaid: "row_unpaid_at (mark_unpaid (txn_clock txn) row) = Some (txn_clock txn)"
      by (simp add: mark_unpaid_def)
    from run2 row sub unpaid show thesis
      by (intro that(2) [OF db1_def False access row sub]) (simp_all add: db2_def)
  qed
qed

text \<open>A retirement changes nothing, or goes through the checks and the statements above.\<close>

lemma retire_cases:
  assumes "retire_expired_subscription_period_on_connection ch txn command db = Ok (out, db')"
  obtains
    "db' = db" "\<forall>s ev ids. out \<noteq> Retired s ev ids"
  | row s period where
      "lock_exact_subscription (retire_billing_scope_id command) (retire_subscriber_id command)
         (retire_plan_key command) (retire_subscription_id command) db = Some row"
      "subscription_from_row row = Ok s"
      "sub_status s = SubscriptionStatus.Active \<or> sub_status s = SubscriptionStatus.PastDue"
      "sub_next_renewal_at s = retire_period_start_at command"
      "next_billing_period ch (retire_period_start_at command) (sub_recurring_period s) = Ok period"
      "period_end_at period \<le> txn_clock txn"
      "retire_due_period txn command s period db = Ok (out, db')"
proof -
  let ?lock = "lock_exact_subscription (retire_billing_scope_id command) (retire_subscriber_id command)
         (retire_plan_key command) (retire_subscription_id command) db"
  show thesis
  proof (cases ?lock)
    case None
    with assms show thesis
      by (intro that(1)) (auto simp: retire_expired_subscription_period_on_connection_def)
  next
    case (Some row)
    with assms obtain s where s: "subscription_from_row row = Ok s"
      by (auto simp: retire_expired_subscription_period_on_connection_def and_then_Inr_iff map_err_Inr_iff)
    with Some that(2) assms show thesis
      by (cases "sub_status s")
         (auto simp: retire_expired_subscription_period_on_connection_def Let_def and_then_Inr_iff map_err_Inr_iff
           period_has_expired_at_database_time_def split: if_splits intro: that(1))
  qed
qed

lemma retire_target_current:
  assumes "retire_target command st row" and "st = SubscriptionStatus.Active \<or> st = SubscriptionStatus.PastDue"
  shows "is_current_status (row_status row)"
  using assms by (auto simp: retire_target_def is_current_status_def)

lemma mark_unpaid_kept [simp]:
  "fixed_columns (mark_unpaid t row) = fixed_columns row"
  "policy_readable (mark_unpaid t row) = policy_readable row"
  by (simp_all add: mark_unpaid_def fixed_columns_def policy_readable_def)

interpretation retire: subscription_operation
  "\<lambda>txn db db'. \<exists>ch command out. retire_expired_subscription_period_on_connection ch txn command db = Ok (out, db')"
proof unfold_locales
  fix txn db db'
  assume "\<exists>ch command out. retire_expired_subscription_period_on_connection ch txn command db = Ok (out, db')"
  then obtain ch command out where
    run: "retire_expired_subscription_period_on_connection ch txn command db = Ok (out, db')" by blast
  have "list_all2 row_history (db_subscriptions db) (db_subscriptions db') \<and>
    list_all2 attempt_history (db_attempts db) (db_attempts db') \<and>
    db_grants db' = db_grants db \<and> db_charges db' = db_charges db \<and> db_claims db' = db_claims db \<and>
      db_discounts db' = db_discounts db"
    using run
  proof (rule retire_cases)
    assume "db' = db"
    then show ?thesis by (simp add: list_all2_reflI)
  next
    fix row s period
    assume st: "sub_status s = SubscriptionStatus.Active \<or> sub_status s = SubscriptionStatus.PastDue"
      and due: "retire_due_period txn command s period db = Ok (out, db')"
    have rows: "list_all2 row_history (db_subscriptions db0)
        (db_subscriptions (snd (update_subscriptions (retire_target command (sub_status s)) (mark_unpaid u) db0)))"
      for u db0 using st by (intro update_subscriptions_history) (simp_all add: retire_target_current)
    have attempts: "list_all2 attempt_history (db_attempts db) (db_attempts (snd
        (reject_unsubmitted_period_attempts txn i t (snd (fail_stale_unsubmitted_subscription_charges txn j db)))))"
      for i j t using attempt_history_trans stale_charges_history reject_attempts_history by (rule list_all2_trans)
    from due show ?thesis
    proof (rule retire_due_cases)
      assume "db' = snd (fail_stale_unsubmitted_subscription_charges txn (sub_id s) db)"
      then show ?thesis by (simp add: list_all2_reflI stale_charges_history)
    next
      fix db1
      assume "db1 = snd (fail_stale_unsubmitted_subscription_charges txn (sub_id s) db)"
        and "db' = snd (update_subscriptions (retire_target command (sub_status s)) (mark_unpaid (txn_clock txn))
         (snd (reject_unsubmitted_period_attempts txn (retire_subscription_id command)
            (retire_period_start_at command) db1)))"
      with rows [of "snd (reject_unsubmitted_period_attempts txn (retire_subscription_id command)
          (retire_period_start_at command) db1)" "txn_clock txn"] attempts show ?thesis by simp
    qed
  qed
  then show "list_all2 row_history (db_subscriptions db) (db_subscriptions db')"
    and "list_all2 attempt_history (db_attempts db) (db_attempts db')"
    and "db_grants db' = db_grants db \<and> db_charges db' = db_charges db \<and> db_claims db' = db_claims db \<and>
      db_discounts db' = db_discounts db"
    by simp_all
qed

lemma change_cases:
  assumes "change_subscription_past_due_access txn command db = Ok (out, db')"
  obtains "db' = db" "\<forall>p s. out \<noteq> Changed p s"
  | previous where "db' = snd (update_subscriptions (change_target command previous)
      (\<lambda>row. row\<lparr>row_past_due_access := PastDueAccessPolicy_as_str (change_past_due_access command),
        row_updated_at := txn_clock txn\<rparr>) db)"
proof (cases "lock_exact_subscription (change_billing_scope_id command) (change_subscriber_id command)
    (change_plan_key command) (change_subscription_id command) db")
  case None
  with assms show ?thesis by (intro that(1)) (auto simp: change_subscription_past_due_access_def)
next
  case (Some row)
  with assms show ?thesis
    by (auto simp: change_subscription_past_due_access_def and_then_Inr_iff map_err_Inr_iff Let_def case_prod_beta
        split: if_splits intro: that)
qed

interpretation change: subscription_operation
  "\<lambda>txn db db'. \<exists>command out. change_subscription_past_due_access txn command db = Ok (out, db')"
proof unfold_locales
  fix txn db db'
  assume "\<exists>command out. change_subscription_past_due_access txn command db = Ok (out, db')"
  then obtain command out where run: "change_subscription_past_due_access txn command db = Ok (out, db')" by blast
  have "list_all2 row_history (db_subscriptions db) (db_subscriptions db') \<and> db_attempts db' = db_attempts db \<and>
    db_grants db' = db_grants db \<and> db_charges db' = db_charges db \<and> db_claims db' = db_claims db \<and>
      db_discounts db' = db_discounts db"
    using run
  proof (rule change_cases)
    assume "db' = db"
    then show ?thesis by (simp add: list_all2_reflI)
  next
    fix previous
    assume db': "db' = snd (update_subscriptions (change_target command previous)
      (\<lambda>row. row\<lparr>row_past_due_access := PastDueAccessPolicy_as_str (change_past_due_access command),
        row_updated_at := txn_clock txn\<rparr>) db)"
    have "list_all2 row_history (db_subscriptions db) (db_subscriptions db')"
      unfolding db' by (rule update_subscriptions_history)
        (auto simp: change_target_def is_current_status_def fixed_columns_def policy_readable_def
          past_due_access.parse_print)
    then show ?thesis unfolding db' by simp
  qed
  then show "list_all2 row_history (db_subscriptions db) (db_subscriptions db')"
    and "list_all2 attempt_history (db_attempts db) (db_attempts db')"
    and "db_grants db' = db_grants db \<and> db_charges db' = db_charges db \<and> db_claims db' = db_claims db \<and>
      db_discounts db' = db_discounts db"
    by (simp_all add: list_all2_reflI)
qed

section \<open>Retirement is safe and final\<close>

lemma exact_row_unpaid [simp]: "exact_row a b c i (mark_unpaid t row) = exact_row a b c i row"
  by (simp add: exact_row_def row_of_owner_def mark_unpaid_def)

lemma mark_unpaid_decodes:
  assumes "subscription_from_row row = Ok s"
  shows "subscription_from_row (mark_unpaid t row) =
    Ok (s\<lparr>sub_status := SubscriptionStatus.Unpaid, sub_next_payment_attempt_at := None\<rparr>)"
  using subscription_from_row_status [OF assms, where st = SubscriptionStatus.Unpaid and n = None and
      u = "Some t" and c = "row_canceled_at row" and t = t]
  by (cases row) (simp add: mark_unpaid_def)

text \<open>The locked row is the updated one, because keys are distinct.\<close>

lemma retire_target_is_locked:
  assumes "distinct (map row_id (db_subscriptions db))"
    and lock: "lock_exact_subscription (retire_billing_scope_id command) (retire_subscriber_id command)
      (retire_plan_key command) (retire_subscription_id command) db = Some row"
    and target: "find (retire_target command st) (db_subscriptions db) = Some row'"
  shows "row' = row"
proof (rule sym, rule find_key_unique [OF assms(1) lock [unfolded lock_exact_subscription_def] target])
  show "row_id row = row_id row'"
    using lock target by (auto simp: lock_exact_subscription_def retire_target_def exact_row_def find_Some_iff)
qed

lemma no_open_charge_left:
  assumes "\<not> unresolved_payment_exists i t db" and "a \<in> set (db_attempts (snd (reject_unsubmitted_period_attempts txn i t db)))"
    and "attempt_of_period i t a" and "is_subscription_charge a"
  shows "PaymentAttempt_status a \<in> {PaymentAttemptStatus.Declined, PaymentAttemptStatus.Failed}"
proof -
  from assms(2) obtain b where b: "b \<in> set (db_attempts db)"
    and a: "a = (if unsubmitted_period_attempt i t b then close_attempt (Some SubscriptionPeriodExpiredBeforeCharge)
           (Some (GatewayDiagnostic RETIRED_PERIOD_UNSUBMITTED_TEXT)) (attempt_condition b)
           (coalesced (attempt_resolved_at b) (txn_clock txn)) (txn_clock txn) b else b)"
    by (auto simp: reject_unsubmitted_period_attempts_def Let_def)
  show ?thesis
  proof (cases "unsubmitted_period_attempt i t b")
    case True
    then show ?thesis by (simp add: a)
  next
    case False
    with a have "a = b" by simp
    with assms(1,3,4) b False show ?thesis
      by (cases "PaymentAttempt_status b")
         (auto simp: unresolved_payment_exists_def unsubmitted_period_attempt_def attempt_of_period_def list_ex_iff)
  qed
qed

text \<open>
  The guard of a retirement, read on the tables before the stale attempts are swept.  An attempt is settled when it cannot collect any more,
  or was never submitted, and did not pay the period; a charge is settled when no one waits for it.
\<close>

definition settled_attempt :: "SubscriptionId \<Rightarrow> datetime \<Rightarrow> PaymentAttempt \<Rightarrow> bool" where
  "settled_attempt i start_at a \<longleftrightarrow> (attempt_subscription_id a = Some i \<and> is_subscription_charge a \<longrightarrow>
     (case PaymentAttempt_status a of
        PaymentAttemptStatus.Unknown \<Rightarrow> False
      | PaymentAttemptStatus.ReviewRequired \<Rightarrow> attempt_submitted_at a = None
      | PaymentAttemptStatus.Pending \<Rightarrow> attempt_submitted_at a = None
      | PaymentAttemptStatus.Approved \<Rightarrow> attempt_period_start_at a \<noteq> Some start_at
      | _ \<Rightarrow> True))"

definition settled_charge :: "SubscriptionId \<Rightarrow> PaymentAttempt list \<Rightarrow> charge_row \<Rightarrow> bool" where
  "settled_charge i attempts charge \<longleftrightarrow>
     (\<forall>a\<in>set attempts. attempt_uuid a = crow_attempt_id charge \<and> attempt_subscription_id a = Some i \<longrightarrow>
        crow_attempt_kind charge \<in> {lit ''subscription_initial'', lit ''subscription_renewal'', lit ''subscription_recovery''} \<longrightarrow>
        crow_progression_state charge \<notin> {lit ''pending'', lit ''reconciliation_required'', lit ''external_reversal_required''})"

lemma stale_charges_sweep:
  "\<exists>f. db_attempts (snd (fail_stale_unsubmitted_subscription_charges txn j db)) = map f (db_attempts db) \<and>
     (\<forall>a. (f a = a \<or> PaymentAttempt_status a \<in> {PaymentAttemptStatus.Pending, PaymentAttemptStatus.ReviewRequired} \<and>
            attempt_submitted_at a = None) \<and>
        attempt_uuid (f a) = attempt_uuid a \<and> attempt_subscription_id (f a) = attempt_subscription_id a)"
proof -
  let ?f = "\<lambda>a. if is_subscription_charge a \<and> attempt_subscription_id a = Some j \<and>
       is_stale_local (txn_clock txn) PaymentAttemptKind.SubscriptionRenewal a \<and> attempt_uuid a \<notin> set (txn_locked txn)
     then close_attempt (state_resolution_code (attempt_state a))
       (Some (GatewayDiagnostic (if PaymentAttempt_kind a = PaymentAttemptKind.SubscriptionRenewal
          then STALE_UNSUBMITTED_RENEWAL_TEXT else STALE_UNSUBMITTED_RECOVERY_TEXT)))
       (failed_condition a) (coalesced (attempt_resolved_at a) (txn_clock txn)) (txn_clock txn) a else a"
  have "db_attempts (snd (fail_stale_unsubmitted_subscription_charges txn j db)) = map ?f (db_attempts db)"
    by (simp add: fail_stale_unsubmitted_subscription_charges_def Let_def)
  moreover have "(?f a = a \<or> PaymentAttempt_status a \<in> {PaymentAttemptStatus.Pending, PaymentAttemptStatus.ReviewRequired} \<and>
      attempt_submitted_at a = None) \<and> attempt_uuid (?f a) = attempt_uuid a \<and>
      attempt_subscription_id (?f a) = attempt_subscription_id a" for a
    by (auto simp: is_stale_local_iff is_locally_expirable_iff)
  ultimately show ?thesis by blast
qed

lemma resolved_before_sweep:
  assumes "\<not> unresolved_payment_exists i t (snd (fail_stale_unsubmitted_subscription_charges txn j db))"
  shows "list_all (settled_attempt i t) (db_attempts db)" and "list_all (settled_charge i (db_attempts db)) (db_charges db)"
proof -
  let ?db1 = "snd (fail_stale_unsubmitted_subscription_charges txn j db)"
  have charges: "db_charges ?db1 = db_charges db" by simp
  obtain f where rows: "db_attempts ?db1 = map f (db_attempts db)"
    and f: "\<And>a. f a = a \<or> PaymentAttempt_status a \<in> {PaymentAttemptStatus.Pending, PaymentAttemptStatus.ReviewRequired} \<and>
      attempt_submitted_at a = None"
    and same: "\<And>a. attempt_uuid (f a) = attempt_uuid a \<and> attempt_subscription_id (f a) = attempt_subscription_id a"
    using stale_charges_sweep [of txn j db] by blast
  have "settled_attempt i t a" if "a \<in> set (db_attempts db)" for a
  proof (cases "f a = a")
    case True
    with that rows have "a \<in> set (db_attempts ?db1)" by (metis imageI set_map)
    with assms show ?thesis
      by (cases "PaymentAttempt_status a") (auto simp: unresolved_payment_exists_def settled_attempt_def list_ex_iff)
  next
    case False
    with f [of a] show ?thesis by (auto simp: settled_attempt_def)
  qed
  then show "list_all (settled_attempt i t) (db_attempts db)" by (simp add: list_all_iff)
  show "list_all (settled_charge i (db_attempts db)) (db_charges db)"
    using assms same by (auto simp: unresolved_payment_exists_def settled_charge_def list_ex_iff list_all_iff rows charges)
qed

lemma no_doubt_left:
  assumes "\<not> unresolved_payment_exists i t db" and "a \<in> set (db_attempts (snd (reject_unsubmitted_period_attempts txn i t db)))"
    and "attempt_subscription_id a = Some i" and "is_subscription_charge a"
  shows "PaymentAttempt_status a \<notin> {PaymentAttemptStatus.Unknown, PaymentAttemptStatus.ReviewRequired}"
  using assms
  by (auto simp: reject_unsubmitted_period_attempts_def Let_def unresolved_payment_exists_def list_ex_iff split: if_splits)

text \<open>C26.  Retiring a due period is safe and final.  A subscription is retired only when it was active or
  past due at exactly that period, the period has ended at the database clock, no submitted payment of the
  subscription is pending or under review, none is unknown, none was approved for the period, and no processor charge of
  its payments is pending, waits for reconciliation or for a reversal.  Afterwards no payment of it is unknown or under review, the stored row is the same row marked unpaid at the
  clock, every renewal or recovery charge of the period is declined or failed, so none of them can still
  collect, and the event carries the period and that instant.  Running the command again, at any
  later time, reports the same unpaid subscription and changes nothing.\<close>

theorem period_retired_safely:
  assumes "distinct (map row_id (db_subscriptions db))"
    and "retire_expired_subscription_period_on_connection ch txn command db = Ok (Retired sub ev ids, db')"
  shows "\<exists>row s period access_ends_at.
    find (exact_row (retire_billing_scope_id command) (retire_subscriber_id command) (retire_plan_key command)
      (SubscriptionId_as_uuid (retire_subscription_id command))) (db_subscriptions db) = Some row \<and>
    subscription_from_row row = Ok s \<and>
    sub_status s \<in> {SubscriptionStatus.Active, SubscriptionStatus.PastDue} \<and>
    next_billing_period ch (retire_period_start_at command) (sub_recurring_period s) = Ok period \<and>
    sub_next_renewal_at s = retire_period_start_at command \<and> period_end_at period \<le> txn_clock txn \<and>
    sub = s\<lparr>sub_status := SubscriptionStatus.Unpaid, sub_next_payment_attempt_at := None\<rparr> \<and>
    find (exact_row (retire_billing_scope_id command) (retire_subscriber_id command) (retire_plan_key command)
      (SubscriptionId_as_uuid (retire_subscription_id command))) (db_subscriptions db') =
      Some (mark_unpaid (txn_clock txn) row) \<and>
    ev = BillingEvent.SubscriptionPeriodExpired (sub_id s) (sub_plan_key s) period (txn_clock txn) access_ends_at \<and>
    list_all (settled_attempt (retire_subscription_id command) (retire_period_start_at command)) (db_attempts db) \<and>
    list_all (settled_charge (retire_subscription_id command) (db_attempts db)) (db_charges db) \<and>
    (\<forall>a\<in>set (db_attempts db'). attempt_subscription_id a = Some (retire_subscription_id command) \<and> is_subscription_charge a \<longrightarrow>
       PaymentAttempt_status a \<notin> {PaymentAttemptStatus.Unknown, PaymentAttemptStatus.ReviewRequired}) \<and>
    (\<forall>a\<in>set (db_attempts db'). attempt_of_period (retire_subscription_id command) (retire_period_start_at command) a \<and>
       is_subscription_charge a \<longrightarrow>
       PaymentAttempt_status a \<in> {PaymentAttemptStatus.Declined, PaymentAttemptStatus.Failed}) \<and>
    (\<forall>ch2 txn2. retire_expired_subscription_period_on_connection ch2 txn2 command db' =
       Ok (AlreadyUnpaid sub, db'))"
  using assms(2)
proof (rule retire_cases)
  fix row s period
  assume lock: "lock_exact_subscription (retire_billing_scope_id command) (retire_subscriber_id command)
         (retire_plan_key command) (retire_subscription_id command) db = Some row"
    and s: "subscription_from_row row = Ok s"
    and status: "sub_status s = SubscriptionStatus.Active \<or> sub_status s = SubscriptionStatus.PastDue"
    and start: "sub_next_renewal_at s = retire_period_start_at command"
    and period: "next_billing_period ch (retire_period_start_at command) (sub_recurring_period s) = Ok period"
      "period_end_at period \<le> txn_clock txn"
    and due: "retire_due_period txn command s period db = Ok (Retired sub ev ids, db')"
  from due show ?thesis
  proof (rule retire_due_cases)
    fix access db1 row' sub'
    assume db1: "db1 = snd (fail_stale_unsubmitted_subscription_charges txn (sub_id s) db)"
      and resolved: "\<not> unresolved_payment_exists (retire_subscription_id command) (retire_period_start_at command) db1"
      and target: "find (retire_target command (sub_status s)) (db_subscriptions db) = Some row'"
      and sub': "subscription_from_row (mark_unpaid (txn_clock txn) row') = Ok sub'"
      and out: "Retired sub ev ids = Retired sub'
         (BillingEvent.SubscriptionPeriodExpired (sub_id sub') (sub_plan_key sub') period (txn_clock txn)
            (coalesced access (txn_clock txn)))
         (fst (reject_unsubmitted_period_attempts txn (retire_subscription_id command)
            (retire_period_start_at command) db1))"
      and db': "db' = snd (update_subscriptions (retire_target command (sub_status s)) (mark_unpaid (txn_clock txn))
         (snd (reject_unsubmitted_period_attempts txn (retire_subscription_id command)
            (retire_period_start_at command) db1)))"
    let ?exact = "exact_row (retire_billing_scope_id command) (retire_subscriber_id command) (retire_plan_key command)
      (SubscriptionId_as_uuid (retire_subscription_id command))"
    have row': "row' = row" using retire_target_is_locked [OF assms(1) lock target] .
    have sub: "sub = s\<lparr>sub_status := SubscriptionStatus.Unpaid, sub_next_payment_attempt_at := None\<rparr>"
      using sub' out mark_unpaid_decodes [OF s] by (simp add: row')
    have hit: "retire_target command (sub_status s) row" using target by (auto simp: row' find_Some_iff)
    have found: "find ?exact (db_subscriptions db) = Some row" using lock by (simp add: lock_exact_subscription_def)
    have stored: "find ?exact (db_subscriptions db') = Some (mark_unpaid (txn_clock txn) row)"
      unfolding db' using found hit by (simp add: find_map_keep db1)
    have final: "retire_expired_subscription_period_on_connection ch2 txn2 command db' = Ok (AlreadyUnpaid sub, db')"
      for ch2 txn2
      using start by (simp add: retire_expired_subscription_period_on_connection_def lock_exact_subscription_def stored
          mark_unpaid_decodes [OF s] sub map_err_def)
    have closed: "PaymentAttempt_status a \<in> {PaymentAttemptStatus.Declined, PaymentAttemptStatus.Failed}"
      if "a \<in> set (db_attempts db')" "attempt_of_period (retire_subscription_id command) (retire_period_start_at command) a"
        "is_subscription_charge a" for a
      using that no_open_charge_left [OF resolved] by (simp add: db')
    have known: "PaymentAttempt_status a \<notin> {PaymentAttemptStatus.Unknown, PaymentAttemptStatus.ReviewRequired}"
      if "a \<in> set (db_attempts db')" "attempt_subscription_id a = Some (retire_subscription_id command)" "is_subscription_charge a" for a
      using that no_doubt_left [OF resolved] by (simp add: db')
    note settled = resolved_before_sweep [OF resolved [unfolded db1]]
    show ?thesis
      by (rule exI [of _ row], rule exI [of _ s], rule exI [of _ period],
          rule exI [of _ "coalesced access (txn_clock txn)"])
         (use found s status start period stored sub out closed known settled final in auto)
  qed simp
qed simp

section \<open>A concrete retirement\<close>

definition sample_calendar :: chrono where
  "sample_calendar = \<lparr>min_utc = 0, max_utc = 100000000000000000000, add_months = \<lambda>t _. Some (t + 100)\<rparr>"

definition sample_retirement :: RetireExpiredSubscriptionPeriod where
  "sample_retirement =
     \<lparr>retire_billing_scope_id = BillingScopeId 1, retire_subscriber_id = SubscriberId 2,
      retire_plan_key = offer_plan_key sample_offer, retire_subscription_id = SubscriptionId 5,
      retire_period_start_at = 100\<rparr>"

lemma sample_exact_row:
  "exact_row (BillingScopeId 1) (SubscriberId 2) (offer_plan_key sample_offer) 5 sample_subscription_row"
  by (simp add: exact_row_def row_of_owner_def sample_subscription_row_def sample_offer_def)

lemma sample_retires:
  "\<exists>sub ev ids db'. retire_expired_subscription_period_on_connection sample_calendar
     \<lparr>txn_now = 300, txn_clock = 300, txn_locked = []\<rparr> sample_retirement sample_dunning_db = Ok (Retired sub ev ids, db')"
proof -
  let ?txn = "\<lparr>txn_now = 300, txn_clock = 300, txn_locked = []\<rparr> :: billing_txn"
  let ?period = "\<lparr>period_start_at = 100, period_end_at = 200\<rparr>"
  have declined: "PaymentAttempt_status sample_renewal = PaymentAttemptStatus.Declined"
    by (simp add: sample_renewal_def PaymentAttempt_status_def)
  have fields: "sub_status sample_subscription = SubscriptionStatus.Active" "sub_next_renewal_at sample_subscription = 100"
    "sub_recurring_period sample_subscription = CalendarMonths 1" "sub_id sample_subscription = SubscriptionId 5"
    by (simp_all add: sample_subscription_def)
  have tables: "db_attempts sample_dunning_db = [sample_renewal]" "db_charges sample_dunning_db = []"
    "db_subscriptions sample_dunning_db = [sample_subscription_row]"
    by (simp_all add: sample_dunning_db_def)
  have stale: "snd (fail_stale_unsubmitted_subscription_charges ?txn (SubscriptionId 5) sample_dunning_db) = sample_dunning_db"
    by (simp add: fail_stale_unsubmitted_subscription_charges_def update_attempts_def is_stale_local_iff
        is_locally_expirable_iff declined tables Let_def)
  have period: "next_billing_period sample_calendar 100 (CalendarMonths 1) = Ok ?period"
    by (simp add: next_billing_period_Ok_iff sample_calendar_def BillingPeriod_wf_def)
  have hit: "retire_target sample_retirement SubscriptionStatus.Active sample_subscription_row"
    using sample_exact_row by (simp add: retire_target_def sample_retirement_def sample_subscription_row_def)
  have reject: "reject_unsubmitted_period_attempts ?txn i t sample_dunning_db = ([], sample_dunning_db)" for i t
    by (simp add: reject_unsubmitted_period_attempts_def unsubmitted_period_attempt_def update_attempts_def declined
        tables Let_def)
  have resolved: "\<not> unresolved_payment_exists i t sample_dunning_db" for i t
    by (simp add: unresolved_payment_exists_def tables declined)
  have "\<exists>out db'. retire_due_period ?txn sample_retirement sample_subscription ?period sample_dunning_db = Ok (out, db') \<and>
      (\<exists>sub ev ids. out = Retired sub ev ids)"
    using hit mark_unpaid_decodes [OF sample_row_decodes]
    by (simp add: retire_due_period_def Let_def fields stale resolved reject retire_access_ended_at_def
        update_subscriptions_def tables map_err_def mark_unpaid_def)
  then show ?thesis
    using sample_exact_row
    by (auto simp: retire_expired_subscription_period_on_connection_def lock_exact_subscription_def sample_retirement_def
        tables sample_row_decodes map_err_def fields period period_has_expired_at_database_time_def)
qed

theorem period_retired_safely_witness:
  "\<exists>sub ev ids db'. retire_expired_subscription_period_on_connection sample_calendar
     \<lparr>txn_now = 300, txn_clock = 300, txn_locked = []\<rparr> sample_retirement sample_dunning_db = Ok (Retired sub ev ids, db') \<and>
   retire_expired_subscription_period_on_connection sample_calendar
     \<lparr>txn_now = 400, txn_clock = 400, txn_locked = []\<rparr> sample_retirement db' = Ok (AlreadyUnpaid sub, db')"
proof -
  have "distinct (map row_id (db_subscriptions sample_dunning_db))" by (simp add: sample_dunning_db_def)
  with sample_retires period_retired_safely show ?thesis by blast
qed

end
