(* ===== verification/Grants.thy ===== *)
theory Grants
  imports Store_History
begin

text \<open>
  Promotional grants: \<open>crates/syrup-rail-postgres/src/grants.rs\<close>.  A grant is created only for an owner
  without paid access, without another active grant and without an initial payment in flight, and
  it is revoked at most once.
\<close>

definition INVALID_GRANT_STATE :: rstring where
  "INVALID_GRANT_STATE = lit ''canonical subscription grant state is invalid''"

text \<open>\<open>Sql\<close> is the refused insertion of a key that exists; other failures of the database roll back too.\<close>

datatype SubscriptionGrantMutationError = Sql | InvalidState rstring

abbreviation invalid_grant :: SubscriptionGrantMutationError where
  "invalid_grant \<equiv> SubscriptionGrantMutationError.InvalidState INVALID_GRANT_STATE"

datatype SubscriptionGrantCreationOutcome =
    Created SubscriptionGrantRecord
  | EndsAtNotFuture
  | CurrentPaidSubscription
  | ActiveGrant
  | BlockingInitialAttempt
  | PendingApprovedProcessorEvidence

datatype SubscriptionGrantRevocationOutcome =
    Revoked SubscriptionGrantRecord
  | AlreadyRevoked SubscriptionGrantRecord
  | NotFound
  | Expired

section \<open>Decoding\<close>

definition grant_reason :: "unicode \<Rightarrow> rstring \<Rightarrow> (SubscriptionGrantReason, SubscriptionGrantMutationError) result" where
  "grant_reason u value = map_err (\<lambda>_. invalid_grant) (SubscriptionGrantReason_new u value)"

definition grant_from_row ::
    "unicode \<Rightarrow> grant_row \<Rightarrow> (SubscriptionGrantRecord, SubscriptionGrantMutationError) result" where
  "grant_from_row u row =
     and_then (map_err (\<lambda>_. invalid_grant) (PlanKey_new (grow_plan_key row)))
     (\<lambda>plan_key. and_then (map_err (\<lambda>_. invalid_grant) (SubscriptionGrantKind_from_str (grow_grant_kind row)))
     (\<lambda>kind. and_then (map_err (\<lambda>_. invalid_grant)
        (SubscriptionGrant_new (SubscriptionGrantId (grow_id row)) plan_key kind (grow_starts_at row)
           (grow_ends_at row) (ActorId (grow_granted_by_actor_id row))))
     (\<lambda>grant. and_then (grant_reason u (grow_reason row))
     (\<lambda>reason. and_then
        (case grow_revocation_reason row of
           None \<Rightarrow> Ok None
         | Some value \<Rightarrow> map_sum id Some (grant_reason u value))
     (\<lambda>revocation_reason. map_err (\<lambda>_. invalid_grant) (SubscriptionGrantRecord_new
        \<lparr>grant_record_billing_scope_id = BillingScopeId (grow_billing_scope_id row),
         grant_record_subscriber_id = SubscriberId (grow_subscriber_id row),
         grant_record_grant = grant, grant_record_reason = reason,
         grant_record_revoked_at = grow_revoked_at row,
         grant_record_revoked_by_actor_id = map_option ActorId (grow_revoked_by_actor_id row),
         grant_record_revocation_reason = revocation_reason,
         grant_record_created_at = grow_created_at row, grant_record_updated_at = grow_updated_at row\<rparr>))))))"

definition grant_by_id ::
    "unicode \<Rightarrow> Uuid \<Rightarrow> billing_db \<Rightarrow> (SubscriptionGrantRecord option, SubscriptionGrantMutationError) result" where
  "grant_by_id u i db =
     (case find (\<lambda>row. grow_id row = i) (db_grants db) of
        None \<Rightarrow> Ok None
      | Some row \<Rightarrow> map_sum id Some (grant_from_row u row))"

section \<open>Creating a grant\<close>

definition creation_row :: "SubscriptionGrantCreation \<Rightarrow> subscription_row \<Rightarrow> bool" where
  "creation_row creation = row_of_owner (grant_creation_billing_scope_id creation)
     (grant_creation_subscriber_id creation) (grant_creation_plan_key creation)"

definition creation_grant :: "SubscriptionGrantCreation \<Rightarrow> grant_row \<Rightarrow> bool" where
  "creation_grant creation = grant_of_owner (grant_creation_billing_scope_id creation)
     (grant_creation_subscriber_id creation) (grant_creation_plan_key creation)"

definition blocking_initial_attempt_exists :: "SubscriptionGrantCreation \<Rightarrow> billing_db \<Rightarrow> bool" where
  "blocking_initial_attempt_exists creation db =
     list_ex (\<lambda>a.
       attempt_of_owner (grant_creation_billing_scope_id creation) (grant_creation_subscriber_id creation)
         (grant_creation_plan_key creation) a \<and>
       PaymentAttempt_kind a = PaymentAttemptKind.SubscriptionInitial \<and>
       (PaymentAttempt_status a \<in> {PaymentAttemptStatus.Pending, PaymentAttemptStatus.Unknown} \<or>
        PaymentAttempt_status a = PaymentAttemptStatus.ReviewRequired \<and>
        state_resolution_code (attempt_state a) \<noteq> Some SubscriptionInitialCurrentSubscriptionConflict) \<and>
       \<not> list_ex (\<lambda>row. creation_row creation row \<and> row_created_at row \<ge> attempt_created_at a)
           (db_subscriptions db)) (db_attempts db)"

definition pending_processor_evidence_exists :: "SubscriptionGrantCreation \<Rightarrow> billing_db \<Rightarrow> bool" where
  "pending_processor_evidence_exists creation db =
     list_ex (\<lambda>evidence. list_ex (\<lambda>a. attempt_uuid a = crow_attempt_id evidence \<and>
           attempt_of_owner (grant_creation_billing_scope_id creation) (grant_creation_subscriber_id creation)
             (grant_creation_plan_key creation) a \<and>
           PaymentAttempt_kind a = PaymentAttemptKind.SubscriptionInitial) (db_attempts db) \<and>
         crow_progression_state evidence \<in> {lit ''pending'', lit ''reconciliation_required'',
           lit ''external_reversal_required''}) (db_charges db)"

definition new_grant_row :: "SubscriptionGrantCreation \<Rightarrow> datetime \<Rightarrow> grant_row" where
  "new_grant_row creation mutation_now =
     \<lparr>grow_id = SubscriptionGrantId_as_uuid (grant_creation_id creation),
      grow_billing_scope_id = BillingScopeId_as_uuid (grant_creation_billing_scope_id creation),
      grow_subscriber_id = SubscriberId_as_uuid (grant_creation_subscriber_id creation),
      grow_plan_key = PlanKey_as_str (grant_creation_plan_key creation),
      grow_grant_kind = SubscriptionGrantKind_as_str (grant_creation_kind creation),
      grow_reason = SubscriptionGrantReason_as_str (grant_creation_reason creation),
      grow_starts_at = mutation_now, grow_ends_at = grant_creation_ends_at creation,
      grow_granted_by_actor_id = ActorId_as_uuid (grant_creation_actor_id creation),
      grow_revoked_at = None, grow_revoked_by_actor_id = None, grow_revocation_reason = None,
      grow_created_at = mutation_now, grow_updated_at = mutation_now\<rparr>"

definition create_subscription_grant ::
    "unicode \<Rightarrow> billing_txn \<Rightarrow> SubscriptionGrantCreation \<Rightarrow> billing_db \<Rightarrow>
     (SubscriptionGrantCreationOutcome \<times> billing_db, SubscriptionGrantMutationError) result" where
  "create_subscription_grant u txn creation db =
     (let subscriptions = map (\<lambda>row. (row_status row, row_current_period_end_at row))
            (sort_key row_id (filter (creation_row creation) (db_subscriptions db)));
          existing_grants = map (\<lambda>row. (grow_starts_at row, grow_ends_at row, grow_revoked_at row))
            (sort_key grow_id (filter (creation_grant creation) (db_grants db)));
          mutation_now = txn_clock txn
      in if grant_creation_ends_at creation \<le> mutation_now then Ok (EndsAtNotFuture, db)
         else if list_ex (\<lambda>(status, period_end).
             SubscriptionStatus_from_str status \<in> {Ok SubscriptionStatus.Active, Ok SubscriptionStatus.PastDue} \<or>
             status = SubscriptionStatus_as_str SubscriptionStatus.Canceled \<and> period_end > mutation_now) subscriptions
         then Ok (CurrentPaidSubscription, db)
         else if list_ex (\<lambda>(starts_at, ends_at, revoked_at).
             starts_at \<le> mutation_now \<and> ends_at > mutation_now \<and> revoked_at = None) existing_grants
         then Ok (ActiveGrant, db)
         else if blocking_initial_attempt_exists creation db then Ok (BlockingInitialAttempt, db)
         else if pending_processor_evidence_exists creation db then Ok (PendingApprovedProcessorEvidence, db)
         else if list_ex (\<lambda>row. grow_id row = SubscriptionGrantId_as_uuid (grant_creation_id creation)) (db_grants db)
         then Err Sql
         else
           let db = db\<lparr>db_grants := db_grants db @ [new_grant_row creation mutation_now]\<rparr> in
           and_then (grant_by_id u (SubscriptionGrantId_as_uuid (grant_creation_id creation)) db)
           (\<lambda>found. and_then (ok_or found invalid_grant) (\<lambda>record. Ok (Created record, db))))"

section \<open>Revoking a grant\<close>

definition revocation_grant :: "SubscriptionGrantRevocation \<Rightarrow> grant_row \<Rightarrow> bool" where
  "revocation_grant revocation row \<longleftrightarrow>
     grow_id row = SubscriptionGrantId_as_uuid (grant_revocation_id revocation) \<and>
     grant_of_owner (grant_revocation_billing_scope_id revocation) (grant_revocation_subscriber_id revocation)
       (grant_revocation_plan_key revocation) row"

definition write_revocation :: "SubscriptionGrantRevocation \<Rightarrow> datetime \<Rightarrow> grant_row \<Rightarrow> grant_row" where
  "write_revocation revocation mutation_now row =
     row\<lparr>grow_revoked_at := Some mutation_now,
         grow_revoked_by_actor_id := Some (ActorId_as_uuid (grant_revocation_actor_id revocation)),
         grow_revocation_reason := Some (SubscriptionGrantReason_as_str (grant_revocation_reason revocation)),
         grow_updated_at := mutation_now\<rparr>"

definition revoke_subscription_grant ::
    "unicode \<Rightarrow> billing_txn \<Rightarrow> SubscriptionGrantRevocation \<Rightarrow> billing_db \<Rightarrow>
     (SubscriptionGrantRevocationOutcome \<times> billing_db, SubscriptionGrantMutationError) result" where
  "revoke_subscription_grant u txn revocation db =
     (case find (revocation_grant revocation) (db_grants db) of
        None \<Rightarrow> Ok (NotFound, db)
      | Some row \<Rightarrow>
          and_then (grant_from_row u row)
          (\<lambda>record.
             let mutation_now = txn_clock txn in
             if grant_record_revoked_at record \<noteq> None then Ok (AlreadyRevoked record, db)
             else if grant_ends_at (grant_record_grant record) \<le> mutation_now then Ok (Expired, db)
             else
               let db = db\<lparr>db_grants := map (\<lambda>row.
                      if grow_id row = SubscriptionGrantId_as_uuid (grant_revocation_id revocation)
                      then write_revocation revocation mutation_now row else row) (db_grants db)\<rparr> in
               and_then (grant_by_id u (SubscriptionGrantId_as_uuid (grant_revocation_id revocation)) db)
               (\<lambda>found. and_then (ok_or found invalid_grant) (\<lambda>record. Ok (Revoked record, db)))))"

section \<open>The contract of operations\<close>

definition creation_selector :: "SubscriptionGrantCreation \<Rightarrow> EntitlementSelector" where
  "creation_selector creation =
     \<lparr>selector_billing_scope_id = grant_creation_billing_scope_id creation,
      selector_subscriber_id = grant_creation_subscriber_id creation,
      selector_plan_key = grant_creation_plan_key creation, selector_required_gateway_account_mode = None\<rparr>"

text \<open>The admission checks are those of the entitlement of the owner in any account mode.\<close>

lemma creation_paid_check:
  "list_ex (\<lambda>(status, period_end).
      SubscriptionStatus_from_str status \<in> {Ok SubscriptionStatus.Active, Ok SubscriptionStatus.PastDue} \<or>
      status = SubscriptionStatus_as_str SubscriptionStatus.Canceled \<and> period_end > t)
     (map (\<lambda>row. (row_status row, row_current_period_end_at row)) (sort_key row_id (filter (creation_row creation) rows))) \<longleftrightarrow>
   filter (paid_candidate (creation_selector creation) t) rows \<noteq> []"
  by (auto simp: list_ex_iff filter_empty_conv paid_candidate_def selects_subscription_def creation_selector_def
      creation_row_def subscription_status.parse_iff)

lemma creation_grant_check:
  "list_ex (\<lambda>(starts_at, ends_at, revoked_at). starts_at \<le> t \<and> ends_at > t \<and> revoked_at = None)
     (map (\<lambda>row. (grow_starts_at row, grow_ends_at row, grow_revoked_at row))
        (sort_key grow_id (filter (creation_grant creation) grants))) \<longleftrightarrow>
   filter (active_grant (creation_selector creation) t) grants \<noteq> []"
  by (auto simp: list_ex_iff filter_empty_conv active_grant_def selects_grant_def creation_selector_def creation_grant_def)

lemma create_cases:
  assumes "create_subscription_grant u txn creation db = Ok (out, db')"
  obtains "db' = db" "\<forall>r. out \<noteq> Created r"
  | r where "out = Created r"
      "txn_clock txn < grant_creation_ends_at creation"
      "filter (paid_candidate (creation_selector creation) (txn_clock txn)) (db_subscriptions db) = []"
      "filter (active_grant (creation_selector creation) (txn_clock txn)) (db_grants db) = []"
      "SubscriptionGrantId_as_uuid (grant_creation_id creation) \<notin> grow_id ` set (db_grants db)"
      "db' = db\<lparr>db_grants := db_grants db @ [new_grant_row creation (txn_clock txn)]\<rparr>"
proof -
  note run = assms [unfolded create_subscription_grant_def Let_def creation_paid_check creation_grant_check]
  let ?refused = "grant_creation_ends_at creation \<le> txn_clock txn \<or>
    filter (paid_candidate (creation_selector creation) (txn_clock txn)) (db_subscriptions db) \<noteq> [] \<or>
    filter (active_grant (creation_selector creation) (txn_clock txn)) (db_grants db) \<noteq> [] \<or>
    blocking_initial_attempt_exists creation db \<or> pending_processor_evidence_exists creation db"
  show thesis
  proof (cases ?refused)
    case True
    with run show thesis by (intro that(1)) (simp_all split: if_splits)
  next
    case False
    with run have fresh: "\<not> list_ex (\<lambda>row. grow_id row = SubscriptionGrantId_as_uuid (grant_creation_id creation)) (db_grants db)"
      by (simp split: if_splits)
    with False run obtain r where "out = Created r"
      and "db' = db\<lparr>db_grants := db_grants db @ [new_grant_row creation (txn_clock txn)]\<rparr>"
      by (auto simp: and_then_Inr_iff)
    with False fresh show thesis
      by (intro that(2)) (auto simp: list_ex_iff)
  qed
qed

lemma selector_owner:
  assumes "selects_grant s (new_grant_row creation t)"
  shows "selects_subscription s row \<Longrightarrow> selects_subscription (creation_selector creation) row"
    and "selects_grant s g = selects_grant (creation_selector creation) g"
  using assms
  by (auto simp: selects_grant_def selects_subscription_def grant_of_owner_def row_of_owner_def creation_selector_def
      new_grant_row_def)

lemma new_grant_alone:
  assumes "filter (paid_candidate (creation_selector creation) t) (db_subscriptions db) = []"
    and "filter (active_grant (creation_selector creation) t) (db_grants db) = []"
    and "selects_grant s (new_grant_row creation t)"
  shows "paid_count s t db = 0" and "grant_count s t db = 0"
  using assms selector_owner [OF assms(3)]
  by (auto simp: paid_count_def grant_count_def filter_empty_conv paid_candidate_def active_grant_def)

interpretation create: billing_operation
  "\<lambda>txn db db'. \<exists>u creation out. create_subscription_grant u txn creation db = Ok (out, db')"
proof unfold_locales
  fix txn :: billing_txn and db db'
  assume c: "consistent (txn_clock txn) db"
    and "\<exists>u creation out. create_subscription_grant u txn creation db = Ok (out, db')"
  then obtain u creation out where run: "create_subscription_grant u txn creation db = Ok (out, db')" by blast
  have "db_history db db' \<and> consistent (txn_clock txn) db'"
    using run
  proof (rule create_cases)
    assume "db' = db"
    with c show ?thesis by simp
  next
    let ?t = "txn_clock txn"
    let ?new = "new_grant_row creation ?t"
    assume none: "filter (paid_candidate (creation_selector creation) ?t) (db_subscriptions db) = []"
        "filter (active_grant (creation_selector creation) ?t) (db_grants db) = []"
      and fresh: "SubscriptionGrantId_as_uuid (grant_creation_id creation) \<notin> grow_id ` set (db_grants db)"
      and db': "db' = db\<lparr>db_grants := db_grants db @ [?new]\<rparr>"
    have "db_history db db'"
      unfolding db_history_def db'
      by (intro conjI exI [of _ "db_grants db"] exI [of _ "[?new]"]) (simp_all add: list_all2_reflI)
    moreover have "exclusive ?t db'"
      unfolding exclusive_def
    proof
      fix s
      have old: "paid_count s ?t db + grant_count s ?t db \<le> 1" using c by (simp add: consistent_def exclusive_def)
      have new: "paid_count s ?t db' = paid_count s ?t db"
        "grant_count s ?t db' = grant_count s ?t db + (if active_grant s ?t ?new then 1 else 0)"
        by (simp_all add: db' paid_count_def grant_count_def)
      show "paid_count s ?t db' + grant_count s ?t db' \<le> 1"
        using old new new_grant_alone [OF none, of s] by (auto simp: active_grant_def)
    qed
    moreover have "grow_starts_at ?new = ?t" "grow_id ?new = SubscriptionGrantId_as_uuid (grant_creation_id creation)"
      by (simp_all add: new_grant_row_def)
    ultimately show ?thesis
      using c fresh by (auto simp: consistent_def db')
  qed
  then show "db_history db db'" and "consistent (txn_clock txn) db'" by simp_all
qed

lemma grant_from_row_Ok:
  assumes "grant_from_row u row = Ok r"
  shows "grant_record_revoked_at r = grow_revoked_at row" and "grant_ends_at (grant_record_grant r) = grow_ends_at row"
  using assms
  by (auto simp: grant_from_row_def and_then_Inr_iff map_err_Inr_iff SubscriptionGrantRecord_new_def
      SubscriptionGrant_new_def split: if_splits)

lemma revoke_cases:
  assumes "revoke_subscription_grant u txn revocation db = Ok (out, db')"
  obtains "db' = db" "\<forall>r. out \<noteq> Revoked r"
  | r row where "out = Revoked r"
      "find (revocation_grant revocation) (db_grants db) = Some row" "grow_revoked_at row = None"
      "txn_clock txn < grow_ends_at row"
      "db' = db\<lparr>db_grants := map (\<lambda>row. if grow_id row = SubscriptionGrantId_as_uuid (grant_revocation_id revocation)
         then write_revocation revocation (txn_clock txn) row else row) (db_grants db)\<rparr>"
proof (cases "find (revocation_grant revocation) (db_grants db)")
  case None
  with assms show ?thesis by (intro that(1)) (auto simp: revoke_subscription_grant_def)
next
  case (Some row)
  with assms obtain r where r: "grant_from_row u row = Ok r"
    by (auto simp: revoke_subscription_grant_def and_then_Inr_iff)
  note columns = grant_from_row_Ok [OF r]
  from assms Some r that show ?thesis
    by (auto simp: revoke_subscription_grant_def and_then_Inr_iff Let_def columns split: if_splits)
qed

interpretation revoke: billing_operation
  "\<lambda>txn db db'. \<exists>u revocation out. revoke_subscription_grant u txn revocation db = Ok (out, db')"
proof unfold_locales
  fix txn :: billing_txn and db db'
  assume c: "consistent (txn_clock txn) db"
    and "\<exists>u revocation out. revoke_subscription_grant u txn revocation db = Ok (out, db')"
  then obtain u revocation out where run: "revoke_subscription_grant u txn revocation db = Ok (out, db')" by blast
  have "list_all2 grant_history (db_grants db) (db_grants db') \<and> db_subscriptions db' = db_subscriptions db \<and>
      db_attempts db' = db_attempts db \<and> db_charges db' = db_charges db \<and> db_claims db' = db_claims db \<and>
      db_discounts db' = db_discounts db"
    using run
  proof (rule revoke_cases)
    assume "db' = db"
    then show ?thesis by (simp add: list_all2_reflI)
  next
    fix row
    assume row: "find (revocation_grant revocation) (db_grants db) = Some row" "grow_revoked_at row = None"
      and db': "db' = db\<lparr>db_grants := map (\<lambda>row. if grow_id row = SubscriptionGrantId_as_uuid (grant_revocation_id revocation)
         then write_revocation revocation (txn_clock txn) row else row) (db_grants db)\<rparr>"
    from row have here: "row \<in> set (db_grants db)" "grow_id row = SubscriptionGrantId_as_uuid (grant_revocation_id revocation)"
      by (auto simp: find_Some_iff revocation_grant_def)
    have "g = row" if "g \<in> set (db_grants db)" "grow_id g = SubscriptionGrantId_as_uuid (grant_revocation_id revocation)" for g
      using that here c unfolding consistent_def distinct_map by (metis inj_onD)
    with row(2) show ?thesis
      unfolding db' by (auto simp: grant_history_def unrevoked_columns_def write_revocation_def intro!: list_all2_mapI)
  qed
  then have grants: "list_all2 grant_history (db_grants db) (db_grants db')"
    and frame: "db_subscriptions db' = db_subscriptions db" "db_attempts db' = db_attempts db"
      "db_charges db' = db_charges db" "db_claims db' = db_claims db" "db_discounts db' = db_discounts db"
    by simp_all
  show "db_history db db'"
    unfolding db_history_def frame
    by (intro conjI exI [of _ "db_grants db'"] exI [of _ "[]"] grants) (simp_all add: list_all2_reflI)
  show "consistent (txn_clock txn) db'"
    using c order_refl _ grants by (rule consistent_later) (simp add: frame list_all2_reflI)
qed

section \<open>What a grant gives\<close>

text \<open>C27.  A grant gives exactly its window of access.  When a grant is created for an owner of a
  consistent database, the guard of that owner, in every account mode, admits writes from that
  moment to the end of the grant and then asks for a subscription again, as long as nothing else
  happens to the owner.  A grant is created only for an end in the future.\<close>

theorem granted_access_window:
  assumes "consistent (txn_clock txn) db"
    and "create_subscription_grant u txn creation db = Ok (Created r, db')"
    and "txn_clock txn \<le> txn_clock later"
  shows "txn_clock txn < grant_creation_ends_at creation \<and>
    require_entitlement_for_update later
      (EntitlementGuard ((creation_selector creation)\<lparr>selector_required_gateway_account_mode := mode\<rparr>)) db' =
    (if txn_clock later < grant_creation_ends_at creation then Ok () else Err Required)"
  using assms(2)
proof (rule create_cases)
  let ?s = "(creation_selector creation)\<lparr>selector_required_gateway_account_mode := mode\<rparr>"
  let ?t = "txn_clock later"
  let ?new = "new_grant_row creation (txn_clock txn)"
  assume ends: "txn_clock txn < grant_creation_ends_at creation"
    and none: "filter (paid_candidate (creation_selector creation) (txn_clock txn)) (db_subscriptions db) = []"
      "filter (active_grant (creation_selector creation) (txn_clock txn)) (db_grants db) = []"
    and db': "db' = db\<lparr>db_grants := db_grants db @ [?new]\<rparr>"
  have sel: "selects_grant ?s ?new"
    by (simp add: selects_grant_def grant_of_owner_def creation_selector_def new_grant_row_def)
  have started: "list_all (\<lambda>g. grow_starts_at g \<le> txn_clock txn) (db_grants db)"
    using assms(1) by (simp add: consistent_def)
  have paid: "filter (paid_candidate ?s ?t) (db_subscriptions db') = []"
    using paid_count_later [where db = db and db' = db, OF list_all2_reflI assms(3), of ?s] new_grant_alone(1) [OF none sel]
    by (simp add: paid_count_def db')
  have old: "filter (active_grant ?s ?t) (db_grants db) = []"
    using grant_count_later [where db = db and db' = db, OF list_all2_reflI assms(3) started, of ?s] new_grant_alone(2) [OF none sel]
    by (simp add: grant_count_def)
  have active: "active_grant ?s ?t ?new \<longleftrightarrow> ?t < grant_creation_ends_at creation"
    using sel assms(3) by (simp add: active_grant_def new_grant_row_def)
  have one: "length (filter (paid_candidate ?s ?t) (db_subscriptions db')) \<le> 1" by (simp add: paid)
  have grants: "filter (active_grant ?s ?t) (db_grants db') =
      (if ?t < grant_creation_ends_at creation then [?new] else [])"
    by (simp add: db' old active)
  show ?thesis
    using ends by (simp add: require_entitlement_for_update_def lock_and_classify_candidates [OF one] paid grants)
qed simp

definition sample_creation :: SubscriptionGrantCreation where
  "sample_creation =
     \<lparr>grant_creation_id = SubscriptionGrantId 11, grant_creation_billing_scope_id = BillingScopeId 1,
      grant_creation_subscriber_id = SubscriberId 3, grant_creation_plan_key = offer_plan_key sample_offer,
      grant_creation_kind = Promotion, grant_creation_reason = SubscriptionGrantReason (lit ''Txn''),
      grant_creation_ends_at = 500, grant_creation_actor_id = ActorId 12\<rparr>"

lemma sample_grant_created:
  "\<exists>r db'. create_subscription_grant ascii_tables \<lparr>txn_now = 100, txn_clock = 100, txn_locked = []\<rparr> sample_creation
     sample_dunning_db = Ok (Created r, db')"
proof -
  have tr: "trim (lit ''Txn'') = lit ''Txn''"
    by (simp add: lit_eval trim_def trim_matches_def is_whitespace_def)
  have "\<not> string_contains_raw_card_data ascii_tables (lit ''Txn'')"
    by (rule no_digits_no_card [OF unicode_ascii_tables]) (simp add: lit_eval is_ascii_digit_def)
  with tr have reason: "SubscriptionGrantReason_new ascii_tables (lit ''Txn'') = Ok (SubscriptionGrantReason (lit ''Txn''))"
    by (simp add: SubscriptionGrantReason_new_def)
  have plan: "PlanKey_new (lit ''base'') = Ok (offer_plan_key sample_offer)"
    by (simp add: PlanKey_new_Ok_iff sample_offer_def lit_eval is_slug_start_def is_slug_byte_def ascii_class_defs)
  have kind: "SubscriptionGrantKind_from_str (lit ''promotion'') = Ok Promotion"
    using grant_kind.parse_print [of Promotion] by simp
  have other: "\<not> creation_row sample_creation sample_subscription_row"
    by (simp add: creation_row_def row_of_owner_def sample_creation_def sample_subscription_row_def)
  have attempt: "PaymentAttempt_kind sample_renewal \<noteq> PaymentAttemptKind.SubscriptionInitial"
    by (simp add: sample_renewal_def PaymentAttempt_kind_def)
  have tables: "db_subscriptions sample_dunning_db = [sample_subscription_row]" "db_grants sample_dunning_db = []"
    "db_attempts sample_dunning_db = [sample_renewal]" "db_charges sample_dunning_db = []"
    by (simp_all add: sample_dunning_db_def)
  have row: "\<exists>r. grant_from_row ascii_tables (new_grant_row sample_creation 100) = Ok r"
    by (simp add: grant_from_row_def new_grant_row_def sample_creation_def sample_offer_def plan [unfolded sample_offer_def]
        kind reason grant_reason_def map_err_def SubscriptionGrant_new_def SubscriptionGrantRecord_new_def)
  have i: "grow_id (new_grant_row sample_creation 100) = 11" "SubscriptionGrantId_as_uuid (grant_creation_id sample_creation) = 11"
    "grant_creation_ends_at sample_creation = 500"
    by (simp_all add: new_grant_row_def sample_creation_def)
  show ?thesis
    using row
    by (auto simp: create_subscription_grant_def tables other attempt i Let_def blocking_initial_attempt_exists_def
        pending_processor_evidence_exists_def grant_by_id_def)
qed

theorem granted_access_window_witness:
  "\<exists>r db'. create_subscription_grant ascii_tables \<lparr>txn_now = 100, txn_clock = 100, txn_locked = []\<rparr> sample_creation
     sample_dunning_db = Ok (Created r, db') \<and>
   require_entitlement_for_update \<lparr>txn_now = 499, txn_clock = 499, txn_locked = []\<rparr>
     (EntitlementGuard ((creation_selector sample_creation)\<lparr>selector_required_gateway_account_mode := Some Live\<rparr>)) db' = Ok () \<and>
   require_entitlement_for_update \<lparr>txn_now = 500, txn_clock = 500, txn_locked = []\<rparr>
     (EntitlementGuard ((creation_selector sample_creation)\<lparr>selector_required_gateway_account_mode := Some Live\<rparr>)) db' = Err Required"
proof -
  let ?txn = "\<lparr>txn_now = 100, txn_clock = 100, txn_locked = []\<rparr> :: billing_txn"
  obtain r db' where made: "create_subscription_grant ascii_tables ?txn sample_creation sample_dunning_db = Ok (Created r, db')"
    using sample_grant_created by blast
  have ends: "grant_creation_ends_at sample_creation = 500" by (simp add: sample_creation_def)
  have c: "consistent (txn_clock ?txn) sample_dunning_db" by (simp add: sample_consistent)
  from granted_access_window [OF c made, of "\<lparr>txn_now = 499, txn_clock = 499, txn_locked = []\<rparr>" "Some Live"]
    granted_access_window [OF c made, of "\<lparr>txn_now = 500, txn_clock = 500, txn_locked = []\<rparr>" "Some Live"] made
  show ?thesis by (auto simp: ends)
qed

end
