(* ===== verification/Subscription_Lifecycle.thy ===== *)
theory Subscription_Lifecycle
  imports Cancellation Period_Expiry Grants
begin

text \<open>
  The life of existing subscriptions and grants: any sequence of applied renewal failures,
  cancellations, retirements, changes of the past-due policy, grants and revocations, with time
  passing in between.  A call that fails rolls back and is no step.  The theorems hold for every
  such sequence by induction over it, from the contracts of the single operations.
\<close>

inductive billing_step :: "datetime \<times> billing_db \<Rightarrow> datetime \<times> billing_db \<Rightarrow> bool" where
  passing: "t \<le> t' \<Longrightarrow> billing_step (t, db) (t', db)"
| failing: "t \<le> clock \<Longrightarrow> apply_resolved_automatic_renewal_failure ch clock attempt db = Ok (out, db') \<Longrightarrow>
    billing_step (t, db) (clock, db')"
| canceling: "t \<le> txn_clock txn \<Longrightarrow> cancel_subscription_on_connection txn views cancellation db = Ok (out, db') \<Longrightarrow>
    billing_step (t, db) (txn_clock txn, db')"
| retiring: "t \<le> txn_clock txn \<Longrightarrow> retire_expired_subscription_period_on_connection ch txn retirement db = Ok (out, db') \<Longrightarrow>
    billing_step (t, db) (txn_clock txn, db')"
| changing: "t \<le> txn_clock txn \<Longrightarrow> change_subscription_past_due_access txn change db = Ok (out, db') \<Longrightarrow>
    billing_step (t, db) (txn_clock txn, db')"
| granting: "t \<le> txn_clock txn \<Longrightarrow> create_subscription_grant u txn creation db = Ok (out, db') \<Longrightarrow>
    billing_step (t, db) (txn_clock txn, db')"
| revoking: "t \<le> txn_clock txn \<Longrightarrow> revoke_subscription_grant u txn revocation db = Ok (out, db') \<Longrightarrow>
    billing_step (t, db) (txn_clock txn, db')"

lemma billing_step_kept:
  assumes "billing_step (t, db) (t', db')" and "consistent t db"
  shows "t \<le> t' \<and> consistent t' db' \<and> db_history db db'"
  using assms(1)
proof cases
  case passing
  moreover have "consistent t' db"
    using assms(2) \<open>t \<le> t'\<close> by (rule consistent_later) (auto intro!: list_all2_reflI)
  ultimately show ?thesis by simp
next
  case (failing ch attempt out)
  then show ?thesis
    using failure.run_after [OF assms(2), of "\<lparr>txn_now = t', txn_clock = t', txn_locked = []\<rparr>" db'] by auto
next
  case (canceling txn views cancellation out)
  then show ?thesis using cancel.run_after [OF assms(2), of txn db'] by blast
next
  case (retiring txn ch retirement out)
  then show ?thesis using retire.run_after [OF assms(2), of txn db'] by blast
next
  case (changing txn change out)
  then show ?thesis using change.run_after [OF assms(2), of txn db'] by blast
next
  case (granting txn u creation out)
  then show ?thesis using create.run_after [OF assms(2), of txn db'] by blast
next
  case (revoking txn u revocation out)
  then show ?thesis using revoke.run_after [OF assms(2), of txn db'] by blast
qed

lemma billing_steps_kept:
  assumes "billing_step\<^sup>*\<^sup>* (t, db) (t', db')" and "consistent t db"
  shows "t \<le> t' \<and> consistent t' db' \<and> db_history db db'"
  using assms(1)
proof (induction "(t', db')" arbitrary: t' db' rule: rtranclp_induct)
  case base
  with assms(2) show ?case by simp
next
  case (step c)
  obtain t1 db1 where c: "c = (t1, db1)" by (cases c)
  with step have "t \<le> t1 \<and> consistent t1 db1 \<and> db_history db db1" by simp
  with billing_step_kept [of t1 db1 t' db'] step(2) db_history_trans show ?case
    unfolding c by (meson order_trans)
qed

lemma consistent_guard:
  assumes "consistent t db" and "t \<le> txn_clock txn"
  shows "require_entitlement_for_update txn (EntitlementGuard s) db \<noteq> Err (EntitlementGuardError.InvalidState m)"
proof -
  have c: "consistent (txn_clock txn) db"
    using assms by (rule consistent_later) (auto intro!: list_all2_reflI)
  then have sum: "length (filter (paid_candidate s (txn_clock txn)) (db_subscriptions db)) +
      length (filter (active_grant s (txn_clock txn)) (db_grants db)) \<le> 1"
    by (simp add: consistent_def exclusive_def paid_count_def grant_count_def)
  then have one: "length (filter (paid_candidate s (txn_clock txn)) (db_subscriptions db)) \<le> 1" by linarith
  show ?thesis
  proof (cases "filter (paid_candidate s (txn_clock txn)) (db_subscriptions db)")
    case Nil
    with sum show ?thesis
      by (auto simp: require_entitlement_for_update_def lock_and_classify_candidates [OF one] Let_def)
  next
    case (Cons row rows)
    then have "row \<in> set (filter (paid_candidate s (txn_clock txn)) (db_subscriptions db))" by simp
    then have row: "row \<in> set (db_subscriptions db)" "paid_candidate s (txn_clock txn) row" by simp_all
    then obtain policy where "PastDueAccessPolicy_from_str (row_past_due_access row) = Ok policy"
      using c by (auto simp: consistent_def list_all_iff policy_readable_def)
    with Cons sum row(2) show ?thesis
      by (auto simp: require_entitlement_for_update_def lock_and_classify_candidates [OF one] Let_def paid_candidate_def)
  qed
qed

text \<open>C22.  A subscription that has ended stays ended and nobody rewrites what was collected.  Over any
  sequence of failures, cancellations, retirements, policy changes, grants and revocations from a
  consistent database: every subscription keeps its identity, owner, amount, dates and terms; a canceled
  or unpaid subscription keeps its whole row; an attempt that reached the provider or was resolved is
  untouched, and any other keeps its identity and request; a grant keeps its window, a revoked grant
  its whole row, and no subscription, attempt or grant is lost.\<close>

theorem ended_subscriptions_stay_ended:
  assumes "consistent t db" and "billing_step\<^sup>*\<^sup>* (t, db) (t', db')"
  shows "list_all2 (\<lambda>row row'. fixed_columns row' = fixed_columns row \<and>
           (row_status row \<notin> {lit ''active'', lit ''past_due''} \<longrightarrow> row' = row))
           (db_subscriptions db) (db_subscriptions db') \<and>
    list_all2 (\<lambda>a a'. attempt_identity a' = attempt_identity a \<and> attempt_request a' = attempt_request a \<and>
        (attempt_submitted_at a \<noteq> None \<or>
         PaymentAttempt_status a \<notin> {PaymentAttemptStatus.Pending, PaymentAttemptStatus.ReviewRequired} \<longrightarrow> a' = a))
      (db_attempts db) (db_attempts db') \<and>
    (\<exists>old new. db_grants db' = old @ new \<and>
       list_all2 (\<lambda>g g'. unrevoked_columns g' = unrevoked_columns g \<and> (grow_revoked_at g \<noteq> None \<longrightarrow> g' = g))
         (db_grants db) old)"
proof -
  have "db_history db db'" using billing_steps_kept [OF assms(2,1)] by blast
  then obtain old new where rows: "list_all2 row_history (db_subscriptions db) (db_subscriptions db')"
    and attempts: "list_all2 attempt_history (db_attempts db) (db_attempts db')"
    and grants: "db_grants db' = old @ new" "list_all2 grant_history (db_grants db) old"
    by (auto simp: db_history_def)
  show ?thesis
    by (intro conjI exI [of _ old] exI [of _ new] grants(1) list_all2_mono [OF rows] list_all2_mono [OF attempts]
          list_all2_mono [OF grants(2)])
       (auto simp: row_history_def attempt_history_def grant_history_def is_current_status_def is_locally_expirable_iff)
qed

section \<open>A concrete history\<close>

lemma sample_history: "\<exists>db'. billing_step\<^sup>*\<^sup>* (50, sample_dunning_db) (130, db')"
proof -
  obtain ev db' where "apply_resolved_automatic_renewal_failure sample_chrono 130 sample_renewal sample_dunning_db =
     Ok (Applied (RenewalFailureDisposition.RetryScheduled (120 + duration_seconds 86400)) ev, db')"
    using sample_failure_applied by blast
  then have "billing_step (50, sample_dunning_db) (130, db')"
    by (intro billing_step.failing) simp_all
  then show ?thesis by auto
qed

theorem ended_subscriptions_stay_ended_witness:
  "\<exists>db'. billing_step\<^sup>*\<^sup>* (50, sample_dunning_db) (130, db') \<and>
     map row_id (db_subscriptions db') = [5]"
proof -
  obtain db' where steps: "billing_step\<^sup>*\<^sup>* (50, sample_dunning_db) (130, db')" using sample_history by blast
  have "consistent 50 sample_dunning_db" by (simp add: sample_consistent)
  from ended_subscriptions_stay_ended [OF this steps] obtain row' where
    rows: "db_subscriptions db' = [row']" and fixed: "fixed_columns row' = fixed_columns sample_subscription_row"
    by (auto simp: sample_dunning_db_def list_all2_Cons1)
  have kept: "row_id (fixed_columns row) = row_id row" for row by (simp add: fixed_columns_def)
  have "row_id row' = row_id sample_subscription_row"
    using arg_cong [OF fixed, of row_id] unfolding kept .
  also have "\<dots> = 5" by (simp add: sample_subscription_row_def)
  finally have "map row_id (db_subscriptions db') = [5]" by (simp add: rows)
  then show ?thesis by (intro exI [of _ db'] conjI steps)
qed

end
