(* ===== verification/Outcome_Policy.thy ===== *)
theory Outcome_Policy
  imports Billing_Store
begin

text \<open>
  What a failed or unresolved provider call means for its attempt: the error types of
  \<open>crates/syrup-rail/src/gateway/port.rs\<close>, the policy of a mutation that was not submitted
  (\<open>enrollment_application/outcome_support.rs\<close>), and the pure part of \<open>enrollment_application.rs\<close> that
  decides how an outcome resolves an attempt and how new evidence joins the evidence it has.
\<close>

section \<open>Errors of the gateway\<close>

datatype GatewayError =
    RequestRejected GatewayDiagnostic
  | Malformed GatewayDiagnostic
  | Configuration GatewayDiagnostic
  | Unavailable GatewayDiagnostic
  | RateLimited GatewayDiagnostic

primrec GatewayError_detail :: "GatewayError \<Rightarrow> GatewayDiagnostic" where
  "GatewayError_detail (GatewayError.RequestRejected detail) = detail"
| "GatewayError_detail (GatewayError.Malformed detail) = detail"
| "GatewayError_detail (GatewayError.Configuration detail) = detail"
| "GatewayError_detail (Unavailable detail) = detail"
| "GatewayError_detail (GatewayError.RateLimited detail) = detail"

text \<open>\<open>AccountModeMismatch\<close> has the required mode, the observed mode and the detail.\<close>

datatype GatewayNotSubmittedError =
    RequestRejected GatewayDiagnostic
  | Malformed GatewayDiagnostic
  | Configuration GatewayDiagnostic
  | NotTransmitted GatewayDiagnostic
  | RateLimited GatewayDiagnostic
  | AccountModeMismatch GatewayAccountMode GatewayAccountMode GatewayDiagnostic
  | AccountModeVerification GatewayError

primrec GatewayNotSubmittedError_detail :: "GatewayNotSubmittedError \<Rightarrow> GatewayDiagnostic" where
  "GatewayNotSubmittedError_detail (GatewayNotSubmittedError.RequestRejected detail) = detail"
| "GatewayNotSubmittedError_detail (GatewayNotSubmittedError.Malformed detail) = detail"
| "GatewayNotSubmittedError_detail (GatewayNotSubmittedError.Configuration detail) = detail"
| "GatewayNotSubmittedError_detail (NotTransmitted detail) = detail"
| "GatewayNotSubmittedError_detail (GatewayNotSubmittedError.RateLimited detail) = detail"
| "GatewayNotSubmittedError_detail (AccountModeMismatch _ _ detail) = detail"
| "GatewayNotSubmittedError_detail (AccountModeVerification e) = GatewayError_detail e"

datatype GatewayMutationError =
    NotSubmitted GatewayNotSubmittedError
  | RateLimitedIndeterminate GatewayDiagnostic
  | Indeterminate GatewayDiagnostic

datatype MutationCertainty = NotSubmitted | Indeterminate

primrec GatewayMutationError_detail :: "GatewayMutationError \<Rightarrow> GatewayDiagnostic" where
  "GatewayMutationError_detail (GatewayMutationError.NotSubmitted e) = GatewayNotSubmittedError_detail e"
| "GatewayMutationError_detail (RateLimitedIndeterminate detail) = detail"
| "GatewayMutationError_detail (GatewayMutationError.Indeterminate detail) = detail"

primrec certainty :: "GatewayMutationError \<Rightarrow> MutationCertainty" where
  "certainty (GatewayMutationError.NotSubmitted _) = MutationCertainty.NotSubmitted"
| "certainty (RateLimitedIndeterminate _) = MutationCertainty.Indeterminate"
| "certainty (GatewayMutationError.Indeterminate _) = MutationCertainty.Indeterminate"

definition mutation_error_evidence :: "GatewayDiagnostic \<Rightarrow> ProcessorEvidence" where
  "mutation_error_evidence detail =
     \<lparr>evidence_transaction_id = None, evidence_payment_method_reference = None, evidence_response = None,
      evidence_response_code = None, evidence_response_text = Some detail, evidence_condition = None,
      evidence_descriptor = GatewayPaymentDescriptor_from_provider_parts None None None None None\<rparr>"

section \<open>Mutations that were not submitted\<close>

datatype RateLimitCooldown = Account | Provider

datatype GatewayNotSubmittedRetrySafety = Terminal | RestorePreparedWhenSupported

record GatewayNotSubmittedPolicy =
  policy_resolution_code :: PaymentResolutionCode
  policy_retry_safety :: GatewayNotSubmittedRetrySafety
  policy_cooldown :: "RateLimitCooldown option"

definition terminal_policy :: "PaymentResolutionCode \<Rightarrow> GatewayNotSubmittedPolicy" where
  "terminal_policy resolution_code =
     \<lparr>policy_resolution_code = resolution_code, policy_retry_safety = GatewayNotSubmittedRetrySafety.Terminal,
      policy_cooldown = None\<rparr>"

definition throttled_policy :: "PaymentResolutionCode \<Rightarrow> RateLimitCooldown \<Rightarrow> GatewayNotSubmittedPolicy" where
  "throttled_policy resolution_code cooldown =
     \<lparr>policy_resolution_code = resolution_code, policy_retry_safety = GatewayNotSubmittedRetrySafety.Terminal,
      policy_cooldown = Some cooldown\<rparr>"

definition retryable_policy :: "PaymentResolutionCode \<Rightarrow> GatewayNotSubmittedPolicy" where
  "retryable_policy resolution_code =
     \<lparr>policy_resolution_code = resolution_code, policy_retry_safety = RestorePreparedWhenSupported,
      policy_cooldown = None\<rparr>"

primrec for_account_mode_mismatch :: "GatewayAccountMode \<Rightarrow> GatewayNotSubmittedPolicy" where
  "for_account_mode_mismatch Live = terminal_policy GatewayLiveReadinessFailedBeforeSubmission"
| "for_account_mode_mismatch Test = terminal_policy GatewayTestReadinessFailedBeforeSubmission"

primrec for_readiness_error :: "GatewayError \<Rightarrow> GatewayNotSubmittedPolicy" where
  "for_readiness_error (GatewayError.RequestRejected _) = terminal_policy GatewayRequestRejectedBeforeSubmission"
| "for_readiness_error (GatewayError.Malformed _) = terminal_policy GatewayMalformedBeforeSubmission"
| "for_readiness_error (GatewayError.Configuration _) = terminal_policy GatewayConfigurationBeforeSubmission"
| "for_readiness_error (Unavailable _) = retryable_policy GatewayUnavailableBeforeSubmission"
| "for_readiness_error (GatewayError.RateLimited _) =
     throttled_policy GatewayProviderRateLimitedBeforeSubmission Provider"

primrec GatewayNotSubmittedPolicy_for_error :: "GatewayNotSubmittedError \<Rightarrow> GatewayNotSubmittedPolicy" where
  "GatewayNotSubmittedPolicy_for_error (GatewayNotSubmittedError.RequestRejected _) =
     terminal_policy GatewayRequestRejectedBeforeSubmission"
| "GatewayNotSubmittedPolicy_for_error (GatewayNotSubmittedError.Malformed _) =
     terminal_policy GatewayMalformedBeforeSubmission"
| "GatewayNotSubmittedPolicy_for_error (GatewayNotSubmittedError.Configuration _) =
     terminal_policy GatewayConfigurationBeforeSubmission"
| "GatewayNotSubmittedPolicy_for_error (NotTransmitted _) = retryable_policy GatewayUnavailableBeforeSubmission"
| "GatewayNotSubmittedPolicy_for_error (GatewayNotSubmittedError.RateLimited _) =
     throttled_policy GatewayAccountRateLimitedBeforeSubmission Account"
| "GatewayNotSubmittedPolicy_for_error (AccountModeMismatch required _ _) = for_account_mode_mismatch required"
| "GatewayNotSubmittedPolicy_for_error (AccountModeVerification e) = for_readiness_error e"

definition restores_prepared_attempt_when_supported :: "GatewayNotSubmittedPolicy \<Rightarrow> bool" where
  "restores_prepared_attempt_when_supported self \<longleftrightarrow> policy_retry_safety self = RestorePreparedWhenSupported"

section \<open>Resolving an outcome\<close>

text \<open>\<open>attempts/transitions.rs\<close>\<close>

datatype AttemptResolutionStatus = Declined | Failed | Unknown | ReviewRequired

primrec resolution_payment_status :: "AttemptResolutionStatus \<Rightarrow> PaymentAttemptStatus" where
  "resolution_payment_status AttemptResolutionStatus.Declined = PaymentAttemptStatus.Declined"
| "resolution_payment_status AttemptResolutionStatus.Failed = PaymentAttemptStatus.Failed"
| "resolution_payment_status AttemptResolutionStatus.Unknown = PaymentAttemptStatus.Unknown"
| "resolution_payment_status AttemptResolutionStatus.ReviewRequired = PaymentAttemptStatus.ReviewRequired"

datatype OutcomeResolutionBoundary = Prepared | AdmittedNotSubmitted | Submitted

datatype ReservationOperation = Initial | Recovery | Renewal | PaymentMethodReplacement

primrec ReservationOperation_expected_kind :: "ReservationOperation \<Rightarrow> PaymentAttemptKind" where
  "ReservationOperation_expected_kind Initial = PaymentAttemptKind.SubscriptionInitial"
| "ReservationOperation_expected_kind Recovery = PaymentAttemptKind.SubscriptionRecovery"
| "ReservationOperation_expected_kind Renewal = PaymentAttemptKind.SubscriptionRenewal"
| "ReservationOperation_expected_kind PaymentMethodReplacement =
     PaymentAttemptKind.SubscriptionPaymentMethodUpdate"

definition preserves_review_required_for_unknown :: "ReservationOperation \<Rightarrow> bool" where
  "preserves_review_required_for_unknown self \<longleftrightarrow> self = PaymentMethodReplacement"

datatype OutcomeResolutionKind = NonApproved | Unknown

record OutcomeResolutionCommand =
  command_kind :: OutcomeResolutionKind
  command_status :: AttemptResolutionStatus
  command_code :: "PaymentResolutionCode option"
  command_cooldown :: "RateLimitCooldown option"
  command_boundary :: OutcomeResolutionBoundary

definition OutcomeResolutionCommand_non_approved ::
    "AttemptResolutionStatus \<Rightarrow> PaymentResolutionCode option \<Rightarrow> RateLimitCooldown option \<Rightarrow>
     OutcomeResolutionBoundary \<Rightarrow> OutcomeResolutionCommand" where
  "OutcomeResolutionCommand_non_approved status code cooldown boundary =
     \<lparr>command_kind = NonApproved, command_status = status, command_code = code,
      command_cooldown = cooldown, command_boundary = boundary\<rparr>"

definition OutcomeResolutionCommand_unknown :: "RateLimitCooldown option \<Rightarrow> OutcomeResolutionCommand" where
  "OutcomeResolutionCommand_unknown cooldown =
     \<lparr>command_kind = OutcomeResolutionKind.Unknown, command_status = AttemptResolutionStatus.Unknown,
      command_code = None, command_cooldown = cooldown, command_boundary = Submitted\<rparr>"

definition may_resolve :: "OutcomeResolutionCommand \<Rightarrow> PaymentAttemptStatus \<Rightarrow> datetime option \<Rightarrow> bool" where
  "may_resolve self status submitted_at \<longleftrightarrow>
     PaymentAttemptStatus_is_resolvable status \<and>
     (case command_boundary self of
        Prepared \<Rightarrow> submitted_at = None
      | AdmittedNotSubmitted \<Rightarrow> submitted_at \<noteq> None
      | Submitted \<Rightarrow> True)"

definition resolved_status ::
    "OutcomeResolutionCommand \<Rightarrow> ReservationOperation \<Rightarrow> PaymentAttemptStatus \<Rightarrow> AttemptResolutionStatus" where
  "resolved_status self operation current =
     (if command_kind self = OutcomeResolutionKind.Unknown \<and>
         preserves_review_required_for_unknown operation \<and> current = PaymentAttemptStatus.ReviewRequired
      then AttemptResolutionStatus.ReviewRequired else command_status self)"

definition clears_submitted_at :: "OutcomeResolutionCommand \<Rightarrow> bool" where
  "clears_submitted_at self \<longleftrightarrow> command_boundary self = AdmittedNotSubmitted"

definition records_pending_evidence :: "OutcomeResolutionCommand \<Rightarrow> AttemptResolutionStatus \<Rightarrow> bool" where
  "records_pending_evidence self status \<longleftrightarrow>
     command_kind self = OutcomeResolutionKind.Unknown \<and> status \<noteq> AttemptResolutionStatus.ReviewRequired"

definition marks_renewal_past_due :: "OutcomeResolutionCommand \<Rightarrow> AttemptResolutionStatus \<Rightarrow> bool" where
  "marks_renewal_past_due self status \<longleftrightarrow>
     command_boundary self = Submitted \<and>
     status \<in> {AttemptResolutionStatus.Declined, AttemptResolutionStatus.Failed}"

datatype PreparedAttemptReplay = Supported | Unsupported

primrec prepared_attempt_replay :: "ReservationOperation \<Rightarrow> PreparedAttemptReplay" where
  "prepared_attempt_replay Initial = Supported"
| "prepared_attempt_replay Recovery = Supported"
| "prepared_attempt_replay PaymentMethodReplacement = Supported"
| "prepared_attempt_replay Renewal = Unsupported"

definition should_surface_prepared_not_submitted ::
    "PaymentAttempt \<Rightarrow> GatewayNotSubmittedPolicy \<Rightarrow> PreparedAttemptReplay \<Rightarrow> bool" where
  "should_surface_prepared_not_submitted attempt policy replay \<longleftrightarrow>
     replay = Supported \<and> restores_prepared_attempt_when_supported policy \<and>
     PaymentAttempt_status attempt = PaymentAttemptStatus.Pending \<and>
     stamp_submitted_at (state_timestamps (attempt_state attempt)) = None"

section \<open>Joining evidence\<close>

fun identifiers_conflict :: "'a option \<Rightarrow> 'a option \<Rightarrow> bool" where
  "identifiers_conflict (Some persisted) (Some observed) \<longleftrightarrow> persisted \<noteq> observed"
| "identifiers_conflict _ _ = False"

definition conflict_diagnostics :: "bool \<Rightarrow> bool \<Rightarrow> GatewayPaymentDiagnostic list" where
  "conflict_diagnostics transaction method =
     (if transaction then [InvalidOrConflictingTransactionIdentifier] else []) @
     (if method then [InvalidOrConflictingPaymentMethodReference] else [])"

record ReconciledNonApprovedEvidence =
  reconciled_evidence :: ProcessorEvidence
  transaction_id_conflict :: bool
  payment_method_reference_conflict :: bool
  discarded_transaction_id :: bool
  discarded_payment_method_reference :: bool

definition has_identity_conflict :: "ReconciledNonApprovedEvidence \<Rightarrow> bool" where
  "has_identity_conflict self \<longleftrightarrow> transaction_id_conflict self \<or> payment_method_reference_conflict self"

definition identity_conflict_diagnostics :: "ReconciledNonApprovedEvidence \<Rightarrow> GatewayPaymentDiagnostic list" where
  "identity_conflict_diagnostics self =
     conflict_diagnostics (transaction_id_conflict self \<or> discarded_transaction_id self)
       (payment_method_reference_conflict self \<or> discarded_payment_method_reference self)"

definition processor_identity_conflict_diagnostics ::
    "PaymentAttempt \<Rightarrow> ProcessorEvidence \<Rightarrow> GatewayPaymentDiagnostic list" where
  "processor_identity_conflict_diagnostics attempt observed =
     (let persisted = state_processor_evidence (attempt_state attempt) in
      conflict_diagnostics
        (identifiers_conflict (evidence_transaction_id persisted) (evidence_transaction_id observed))
        (identifiers_conflict (evidence_payment_method_reference persisted)
           (evidence_payment_method_reference observed)))"

definition same_processor_transaction :: "PaymentAttempt \<Rightarrow> ProcessorEvidence \<Rightarrow> bool" where
  "same_processor_transaction attempt observed \<longleftrightarrow>
     (let persisted = evidence_transaction_id (state_processor_evidence (attempt_state attempt)) in
      persisted \<noteq> None \<and> persisted = evidence_transaction_id observed)"

text \<open>The identity of the durable evidence when no identifier conflicts.\<close>

definition reconciled_identity ::
    "ProcessorEvidence \<Rightarrow> ProcessorEvidence \<Rightarrow>
     GatewayTransactionId option \<times> GatewayPaymentMethodReference option" where
  "reconciled_identity persisted observed =
     (let kept = (evidence_transaction_id persisted, evidence_payment_method_reference persisted)
      in case (evidence_transaction_id observed, evidence_payment_method_reference observed) of
           (None, None) \<Rightarrow> kept
         | (Some t, Some m) \<Rightarrow> (Some t, Some m)
         | (Some t, None) \<Rightarrow>
             if evidence_transaction_id persisted = Some t
             then (Some t, evidence_payment_method_reference persisted)
             else if \<not> has_gateway_reference persisted then (Some t, None) else kept
         | (None, Some m) \<Rightarrow>
             if evidence_payment_method_reference persisted = Some m
             then (evidence_transaction_id persisted, Some m)
             else if \<not> has_gateway_reference persisted then (None, Some m) else kept)"

definition reconcile_non_approved_evidence ::
    "PaymentAttempt \<Rightarrow> ProcessorEvidence \<Rightarrow> ReconciledNonApprovedEvidence" where
  "reconcile_non_approved_evidence attempt observed =
     (let persisted = state_processor_evidence (attempt_state attempt);
          transaction_conflict =
            identifiers_conflict (evidence_transaction_id persisted) (evidence_transaction_id observed);
          method_conflict = identifiers_conflict (evidence_payment_method_reference persisted)
            (evidence_payment_method_reference observed)
      in if \<not> PaymentAttemptStatus_is_resolvable (PaymentAttempt_status attempt)
         then \<lparr>reconciled_evidence = observed, transaction_id_conflict = transaction_conflict,
               payment_method_reference_conflict = method_conflict, discarded_transaction_id = False,
               discarded_payment_method_reference = False\<rparr>
         else if transaction_conflict \<or> method_conflict
         then \<lparr>reconciled_evidence = persisted, transaction_id_conflict = transaction_conflict,
               payment_method_reference_conflict = method_conflict, discarded_transaction_id = False,
               discarded_payment_method_reference = False\<rparr>
         else let (transaction_id, payment_method_reference) = reconciled_identity persisted observed
              in \<lparr>reconciled_evidence = observed\<lparr>evidence_transaction_id := transaction_id,
                    evidence_payment_method_reference := payment_method_reference\<rparr>,
                  transaction_id_conflict = False, payment_method_reference_conflict = False,
                  discarded_transaction_id =
                    evidence_transaction_id observed \<noteq> None \<and>
                    evidence_payment_method_reference observed = None \<and>
                    evidence_transaction_id persisted = None \<and>
                    evidence_payment_method_reference persisted \<noteq> None,
                  discarded_payment_method_reference =
                    evidence_transaction_id observed = None \<and>
                    evidence_payment_method_reference observed \<noteq> None \<and>
                    evidence_transaction_id persisted \<noteq> None \<and>
                    evidence_payment_method_reference persisted = None\<rparr>)"

section \<open>Policies and renewal pacing\<close>

text \<open>
  Every code a policy gives is one that lets an automatic renewal retry; a policy has a cooldown
  exactly when the pacing of renewals counts its code as a rate limit, and undoes the admission
  exactly for an outage.
\<close>

lemma not_submitted_policy_codes:
  "let policy = GatewayNotSubmittedPolicy_for_error e in
     policy_resolution_code policy \<in> set RENEWAL_INFRASTRUCTURE_RETRY_CODES \<and>
     (policy_cooldown policy \<noteq> None \<longleftrightarrow> policy_resolution_code policy \<in> set RENEWAL_RATE_LIMIT_PACING_CODES) \<and>
     (restores_prepared_attempt_when_supported policy \<longleftrightarrow>
        policy_resolution_code policy = GatewayUnavailableBeforeSubmission)"
proof -
  have mode: "for_account_mode_mismatch m = terminal_policy GatewayLiveReadinessFailedBeforeSubmission \<or>
      for_account_mode_mismatch m = terminal_policy GatewayTestReadinessFailedBeforeSubmission" for m
    by (cases m) simp_all
  have ready: "policy_resolution_code (for_readiness_error r) \<in> set RENEWAL_INFRASTRUCTURE_RETRY_CODES \<and>
     (policy_cooldown (for_readiness_error r) \<noteq> None \<longleftrightarrow>
        policy_resolution_code (for_readiness_error r) \<in> set RENEWAL_RATE_LIMIT_PACING_CODES) \<and>
     (restores_prepared_attempt_when_supported (for_readiness_error r) \<longleftrightarrow>
        policy_resolution_code (for_readiness_error r) = GatewayUnavailableBeforeSubmission)" for r
    by (cases r) (simp_all add: terminal_policy_def throttled_policy_def retryable_policy_def
      restores_prepared_attempt_when_supported_def RENEWAL_INFRASTRUCTURE_RETRY_CODES_def
      RENEWAL_RATE_LIMIT_PACING_CODES_def)
  show ?thesis
  proof (cases e)
    case (AccountModeMismatch required observed detail)
    then show ?thesis using mode [of required]
      by (auto simp: Let_def terminal_policy_def restores_prepared_attempt_when_supported_def
          RENEWAL_INFRASTRUCTURE_RETRY_CODES_def RENEWAL_RATE_LIMIT_PACING_CODES_def)
  qed (use ready in \<open>auto simp: Let_def terminal_policy_def throttled_policy_def retryable_policy_def
      restores_prepared_attempt_when_supported_def RENEWAL_INFRASTRUCTURE_RETRY_CODES_def
      RENEWAL_RATE_LIMIT_PACING_CODES_def\<close>)
qed

section \<open>Evidence is never spliced\<close>

abbreviation processor_identity ::
    "ProcessorEvidence \<Rightarrow> GatewayTransactionId option \<times> GatewayPaymentMethodReference option" where
  "processor_identity e \<equiv> (evidence_transaction_id e, evidence_payment_method_reference e)"

text \<open>C14.  Evidence of an outcome that was not approved joins the evidence of an unresolved attempt without
  mixing observations: the pair of processor identifiers kept is the stored pair or the observed pair as
  a whole, no stored identifier is lost or replaced, a conflict keeps the stored evidence entirely and
  otherwise every other field is the observed one, and the caller gets a diagnostic exactly when an
  observed identifier was not kept.\<close>

theorem reconciled_evidence_never_splices:
  assumes open_attempt: "PaymentAttemptStatus_is_resolvable (PaymentAttempt_status attempt)"
  shows "let p = state_processor_evidence (attempt_state attempt);
             r = reconcile_non_approved_evidence attempt observed; k = reconciled_evidence r
         in processor_identity k \<in> {processor_identity p, processor_identity observed} \<and>
            (evidence_transaction_id p \<noteq> None \<longrightarrow> evidence_transaction_id k = evidence_transaction_id p) \<and>
            (evidence_payment_method_reference p \<noteq> None \<longrightarrow>
               evidence_payment_method_reference k = evidence_payment_method_reference p) \<and>
            (if has_identity_conflict r then k = p
             else k = observed\<lparr>evidence_transaction_id := evidence_transaction_id k,
                    evidence_payment_method_reference := evidence_payment_method_reference k\<rparr>) \<and>
            (identity_conflict_diagnostics r \<noteq> [] \<longleftrightarrow>
               evidence_transaction_id observed \<notin> {None, evidence_transaction_id k} \<or>
               evidence_payment_method_reference observed \<notin> {None, evidence_payment_method_reference k})"
proof -
  define p where "p = state_processor_evidence (attempt_state attempt)"
  define c where "c \<longleftrightarrow> identifiers_conflict (evidence_transaction_id p) (evidence_transaction_id observed) \<or>
    identifiers_conflict (evidence_payment_method_reference p) (evidence_payment_method_reference observed)"
  note unfold = reconcile_non_approved_evidence_def Let_def has_identity_conflict_def
    identity_conflict_diagnostics_def conflict_diagnostics_def p_def [symmetric] open_attempt
  show ?thesis
  proof (cases c)
    case True
    then show ?thesis
      by (cases "evidence_transaction_id p"; cases "evidence_transaction_id observed";
          cases "evidence_payment_method_reference p"; cases "evidence_payment_method_reference observed")
         (auto simp: unfold c_def)
  next
    case False
    then have "\<not> identifiers_conflict (evidence_transaction_id p) (evidence_transaction_id observed)"
      "\<not> identifiers_conflict (evidence_payment_method_reference p) (evidence_payment_method_reference observed)"
      by (simp_all add: c_def)
    then show ?thesis
      by (cases "evidence_transaction_id p"; cases "evidence_transaction_id observed";
          cases "evidence_payment_method_reference p"; cases "evidence_payment_method_reference observed")
         (simp_all add: unfold reconciled_identity_def has_gateway_reference_def)
  qed
qed

definition sample_open_renewal :: PaymentAttempt where
  "sample_open_renewal = sample_renewal\<lparr>attempt_state := (attempt_state sample_renewal)
     \<lparr>state_status := PaymentAttemptStatus.Unknown,
      state_processor_evidence := ProcessorEvidence_default
        \<lparr>evidence_transaction_id := Some (GatewayTransactionId (GatewayReferenceValue (lit ''t'')))\<rparr>,
      state_timestamps := (state_timestamps (attempt_state sample_renewal))\<lparr>stamp_resolved_at := None\<rparr>\<rparr>\<rparr>"

theorem reconciled_evidence_never_splices_witness:
  "let observed = ProcessorEvidence_default\<lparr>evidence_payment_method_reference :=
         Some (GatewayPaymentMethodReference (GatewayReferenceValue (lit ''m'')))\<rparr>;
       r = reconcile_non_approved_evidence sample_open_renewal observed
   in processor_identity (reconciled_evidence r) =
        processor_identity (state_processor_evidence (attempt_state sample_open_renewal)) \<and>
      identity_conflict_diagnostics r \<noteq> []"
  using reconciled_evidence_never_splices [of sample_open_renewal "ProcessorEvidence_default
      \<lparr>evidence_payment_method_reference :=
         Some (GatewayPaymentMethodReference (GatewayReferenceValue (lit ''m'')))\<rparr>"]
  by (simp add: Let_def sample_open_renewal_def PaymentAttempt_status_def ProcessorEvidence_default_def
      PaymentAttemptStatus_is_resolvable_def reconcile_non_approved_evidence_def reconciled_identity_def
      has_gateway_reference_def identity_conflict_diagnostics_def conflict_diagnostics_def)

end
