(* ===== verification/Processor_Charges.thy ===== *)
theory Processor_Charges
  imports Billing_Store
begin

text \<open>
  The charges a processor reported: \<open>ProcessorCharge\<close> of \<open>crates/syrup-rail/src/operator_review.rs\<close>,
  its decoding in \<open>processor_charge_persistence.rs\<close> and the operations of \<open>processor_charges.rs\<close> and
  \<open>processor_charges/storage.rs\<close>.  The table is kept decoded, with the columns that the decoded value
  does not carry (creation and update times apart), and the constraints, indexes and triggers of \<open>schema/v6/install.sql\<close> that decide
  whether a statement succeeds.  What other transactions commit between two statements of an
  operation is an argument of it.
\<close>

section \<open>Vocabulary\<close>

datatype ProcessorChargeRole = Primary | Additional

primrec ProcessorChargeRole_as_str :: "ProcessorChargeRole \<Rightarrow> rstring" where
  "ProcessorChargeRole_as_str Primary = lit ''primary''"
| "ProcessorChargeRole_as_str Additional = lit ''additional''"

datatype ProcessorChargeProgression =
    Pending
  | ReconciliationRequired
  | ExternalReversalRequired
  | Applied
  | ExternallyReversed

primrec ProcessorChargeProgression_as_str :: "ProcessorChargeProgression \<Rightarrow> rstring" where
  "ProcessorChargeProgression_as_str ProcessorChargeProgression.Pending = lit ''pending''"
| "ProcessorChargeProgression_as_str ReconciliationRequired = lit ''reconciliation_required''"
| "ProcessorChargeProgression_as_str ExternalReversalRequired = lit ''external_reversal_required''"
| "ProcessorChargeProgression_as_str Applied = lit ''applied''"
| "ProcessorChargeProgression_as_str ExternallyReversed = lit ''externally_reversed''"

datatype ProcessorChargeStateCode =
    PaymentResolution PaymentResolutionCode
  | ExternalReversalRequiredCode
  | AdditionalApprovedChargeIdentified
  | TransactionIdentityRequired
  | ApprovedChargeWaitingForApplication
  | ZeroAmountAdditionalApprovedCharge

primrec ProcessorChargeStateCode_as_str :: "ProcessorChargeStateCode \<Rightarrow> rstring" where
  "ProcessorChargeStateCode_as_str (PaymentResolution code) = PaymentResolutionCode_as_str code"
| "ProcessorChargeStateCode_as_str ExternalReversalRequiredCode = lit ''processor_charge_external_reversal_required''"
| "ProcessorChargeStateCode_as_str AdditionalApprovedChargeIdentified = lit ''additional_approved_charge_identified''"
| "ProcessorChargeStateCode_as_str TransactionIdentityRequired = lit ''processor_charge_transaction_identity_required''"
| "ProcessorChargeStateCode_as_str ApprovedChargeWaitingForApplication = lit ''approved_charge_waiting_for_application''"
| "ProcessorChargeStateCode_as_str ZeroAmountAdditionalApprovedCharge = lit ''zero_amount_additional_approved_charge''"

record ProcessorCharge =
  charge_id :: ProcessorChargeId
  charge_attempt_id :: PaymentAttemptId
  charge_billing_scope_id :: BillingScopeId
  charge_gateway_account_id :: GatewayAccountId
  charge_gateway_order_id :: GatewayOrderId
  charge_attempt_kind :: PaymentAttemptKind
  charge_amount :: Money
  charge_role :: ProcessorChargeRole
  charge_progression :: ProcessorChargeProgression
  charge_state_code :: "ProcessorChargeStateCode option"
  charge_evidence :: ProcessorEvidence
  charge_observed_at :: datetime

datatype ExternalReversalKind = Refund | Void

datatype ExternalReversalReason = ExternalReversalReason (ExternalReversalReason_expose: rstring)

datatype ExternalReversalReasonError =
    ExternalReversalReasonEmpty
  | ExternalReversalReasonTooLong
  | ExternalReversalReasonContainsRawCardData

definition ExternalReversalReason_new ::
    "unicode \<Rightarrow> rstring \<Rightarrow> (ExternalReversalReason, ExternalReversalReasonError) result" where
  "ExternalReversalReason_new u value =
     (let value = trim value
      in if value = [] then Err ExternalReversalReasonEmpty
         else if length value > 500 then Err ExternalReversalReasonTooLong
         else if string_contains_raw_card_data u value then Err ExternalReversalReasonContainsRawCardData
         else Ok (ExternalReversalReason value))"

record ExternalReversalAttestation =
  attestation_processor_charge_id :: ProcessorChargeId
  attestation_attempt_id :: PaymentAttemptId
  attestation_actor_id :: ActorId
  attestation_kind :: ExternalReversalKind
  attestation_reason :: ExternalReversalReason
  attestation_prior_resolution_code :: rstring
  attestation_final_resolution_code :: PaymentResolutionCode
  attestation_gateway_account_id :: GatewayAccountId
  attestation_gateway_configuration_id :: GatewayConfigurationId
  attestation_gateway_order_id :: GatewayOrderId
  attestation_amount :: ChargeAmount
  attestation_gateway_transaction_id :: GatewayTransactionId
  attestation_processor_evidence :: ProcessorEvidence
  attestation_attested_at :: datetime

section \<open>Decoding\<close>

text \<open>The errors of \<open>operator_review.rs\<close> that decoding gives.\<close>

datatype OperatorReviewError = OperatorReviewInvalidState rstring

definition INVALID_OPERATOR_STATE :: rstring where
  "INVALID_OPERATOR_STATE = lit ''canonical operator review state is invalid''"

definition parse_role :: "rstring \<Rightarrow> (ProcessorChargeRole, OperatorReviewError) result" where
  "parse_role value =
     (if value = lit ''primary'' then Ok Primary
      else if value = lit ''additional'' then Ok Additional
      else Err (OperatorReviewInvalidState INVALID_OPERATOR_STATE))"

definition parse_progression :: "rstring \<Rightarrow> (ProcessorChargeProgression, OperatorReviewError) result" where
  "parse_progression value =
     (if value = lit ''pending'' then Ok ProcessorChargeProgression.Pending
      else if value = lit ''reconciliation_required'' then Ok ReconciliationRequired
      else if value = lit ''external_reversal_required'' then Ok ExternalReversalRequired
      else if value = lit ''applied'' then Ok Applied
      else if value = lit ''externally_reversed'' then Ok ExternallyReversed
      else Err (OperatorReviewInvalidState INVALID_OPERATOR_STATE))"

definition parse_charge_state_code :: "rstring \<Rightarrow> (ProcessorChargeStateCode, OperatorReviewError) result" where
  "parse_charge_state_code value =
     (if value = lit ''processor_charge_external_reversal_required'' then Ok ExternalReversalRequiredCode
      else if value = lit ''additional_approved_charge_identified'' then Ok AdditionalApprovedChargeIdentified
      else if value = lit ''processor_charge_transaction_identity_required'' then Ok TransactionIdentityRequired
      else if value = lit ''approved_charge_waiting_for_application'' then Ok ApprovedChargeWaitingForApplication
      else if value = lit ''zero_amount_additional_approved_charge'' then Ok ZeroAmountAdditionalApprovedCharge
      else map_err (\<lambda>_. OperatorReviewInvalidState INVALID_OPERATOR_STATE)
             (map_sum id PaymentResolution (PaymentResolutionCode_try_from value)))"

section \<open>Attestations\<close>

definition expected_prior_resolution_code :: "PaymentAttempt \<Rightarrow> 'a ProcessorCharge_scheme \<Rightarrow> rstring" where
  "expected_prior_resolution_code attempt charge =
     (if charge_role charge = Primary \<and>
         charge_attempt_kind charge = PaymentAttemptKind.SubscriptionInitial \<and>
         (state_resolution_code (attempt_state attempt) = Some SubscriptionInitialCurrentGrantConflict \<or>
          charge_state_code charge = Some (PaymentResolution SubscriptionInitialCurrentGrantConflict))
      then PaymentResolutionCode_as_str SubscriptionInitialCurrentGrantConflict
      else if charge_role charge = Primary \<and>
         charge_attempt_kind charge \<in> {PaymentAttemptKind.SubscriptionInitial,
           PaymentAttemptKind.SubscriptionRenewal, PaymentAttemptKind.SubscriptionRecovery} \<and>
         (state_resolution_code (attempt_state attempt) = Some SubscriptionApprovedPeriodExpired \<or>
          charge_state_code charge = Some (PaymentResolution SubscriptionApprovedPeriodExpired))
      then PaymentResolutionCode_as_str SubscriptionApprovedPeriodExpired
      else lit ''processor_charge_external_reversal_required'')"

fun expected_final_resolution_code ::
    "PaymentAttemptKind \<Rightarrow> ExternalReversalKind \<Rightarrow> PaymentResolutionCode" where
  "expected_final_resolution_code PaymentAttemptKind.SubscriptionInitial Refund = SubscriptionInitialExternallyRefunded"
| "expected_final_resolution_code PaymentAttemptKind.SubscriptionInitial Void = SubscriptionInitialExternallyVoided"
| "expected_final_resolution_code _ Refund = ProcessorChargeExternallyRefunded"
| "expected_final_resolution_code _ Void = ProcessorChargeExternallyVoided"

text \<open>The comparison panics when the charge has no transaction identity: \<open>None\<close>.\<close>

definition attestation_matches_source ::
    "ExternalReversalAttestation \<Rightarrow> PaymentAttempt \<Rightarrow> 'a ProcessorCharge_scheme \<Rightarrow> bool option" where
  "attestation_matches_source attestation attempt charge =
     (if \<not> (attestation_processor_charge_id attestation = charge_id charge \<and>
         attestation_attempt_id attestation = identity_attempt_id (attempt_identity attempt) \<and>
         attestation_gateway_account_id attestation = identity_gateway_account_id (attempt_identity attempt) \<and>
         attestation_gateway_configuration_id attestation =
           identity_gateway_configuration_id (attempt_identity attempt) \<and>
         attestation_gateway_order_id attestation = request_gateway_order_id (attempt_request attempt) \<and>
         ChargeAmount_money (attestation_amount attestation) = charge_amount charge)
      then Some False
      else case evidence_transaction_id (charge_evidence charge) of
        None \<Rightarrow> None
      | Some transaction_id \<Rightarrow> Some (
          attestation_gateway_transaction_id attestation = transaction_id \<and>
          attestation_processor_evidence attestation = charge_evidence charge \<and>
          attestation_prior_resolution_code attestation = expected_prior_resolution_code attempt charge \<and>
          attestation_final_resolution_code attestation =
            expected_final_resolution_code (PaymentAttempt_kind attempt) (attestation_kind attestation)))"

section \<open>The table\<close>

record stored_charge = ProcessorCharge +
  charge_plan_key :: "PlanKey option"
  charge_host_charge_target_id :: "HostChargeTargetId option"
  charge_reconciliation_required_at :: "datetime option"
  charge_external_reversal_required_at :: "datetime option"
  charge_applied_at :: "datetime option"
  charge_externally_reversed_at :: "datetime option"

record charge_store =
  cs_attempts :: "PaymentAttempt list"
  cs_charges :: "stored_charge list"
  cs_attestations :: "ExternalReversalAttestation list"

abbreviation charge_transaction_id :: "'a ProcessorCharge_scheme \<Rightarrow> GatewayTransactionId option" where
  "charge_transaction_id c \<equiv> evidence_transaction_id (charge_evidence c)"

text \<open>A failure of a statement carries the code of the database when it has one.\<close>

datatype PaymentAttemptStoreError = AttemptSql "rstring option" | AttemptInvalidState rstring

datatype ProcessorChargeStoreError =
    Sql "rstring option"
  | Attempt PaymentAttemptStoreError
  | InvalidState rstring

definition INVALID_CHARGE_STATE :: rstring where
  "INVALID_CHARGE_STATE = lit ''canonical processor charge state is invalid''"

definition unique_violation :: ProcessorChargeStoreError where
  "unique_violation = Sql (Some (lit ''23505''))"

definition check_violation :: ProcessorChargeStoreError where
  "check_violation = Sql (Some (lit ''23514''))"

definition raised_exception :: ProcessorChargeStoreError where
  "raised_exception = Sql (Some (lit ''P0001''))"

definition no_data_found :: ProcessorChargeStoreError where
  "no_data_found = Sql (Some (lit ''P0002''))"

text \<open>
  The check constraints on the dimensions, the timestamps, the transaction identity and the
  eligibility for reversal.  The other checks hold by the types of the columns.
\<close>

definition dimension_shape_check :: "stored_charge \<Rightarrow> bool" where
  "dimension_shape_check c \<longleftrightarrow>
     (if charge_attempt_kind c = PaymentAttemptKind.HostCharge
      then charge_plan_key c = None \<and> charge_host_charge_target_id c \<noteq> None \<and> money_cents (charge_amount c) > 0
      else charge_plan_key c \<noteq> None \<and> charge_host_charge_target_id c = None \<and>
        (if charge_attempt_kind c = PaymentAttemptKind.SubscriptionPaymentMethodUpdate
         then money_cents (charge_amount c) = 0 else money_cents (charge_amount c) > 0))"

definition state_timestamps_check :: "stored_charge \<Rightarrow> bool" where
  "state_timestamps_check c \<longleftrightarrow>
     (case charge_progression c of
        ProcessorChargeProgression.Pending \<Rightarrow> charge_reconciliation_required_at c = None \<and>
          charge_external_reversal_required_at c = None \<and> charge_applied_at c = None \<and>
          charge_externally_reversed_at c = None
      | ReconciliationRequired \<Rightarrow> charge_reconciliation_required_at c \<noteq> None \<and>
          charge_external_reversal_required_at c = None \<and> charge_applied_at c = None \<and>
          charge_externally_reversed_at c = None
      | ExternalReversalRequired \<Rightarrow> charge_external_reversal_required_at c \<noteq> None \<and>
          charge_applied_at c = None \<and> charge_externally_reversed_at c = None
      | Applied \<Rightarrow> charge_applied_at c \<noteq> None \<and> charge_externally_reversed_at c = None
      | ExternallyReversed \<Rightarrow> charge_externally_reversed_at c \<noteq> None)"

definition transaction_identity_check :: "stored_charge \<Rightarrow> bool" where
  "transaction_identity_check c \<longleftrightarrow>
     charge_transaction_id c \<noteq> None \<or>
     charge_progression c \<in> {ProcessorChargeProgression.Pending, ReconciliationRequired}"

definition reversal_eligibility_check :: "stored_charge \<Rightarrow> bool" where
  "reversal_eligibility_check c \<longleftrightarrow>
     charge_progression c \<notin> {ExternalReversalRequired, ExternallyReversed} \<or>
     charge_transaction_id c \<noteq> None \<and> money_cents (charge_amount c) > 0 \<and>
     charge_attempt_kind c \<noteq> PaymentAttemptKind.SubscriptionPaymentMethodUpdate"

definition charge_checks :: "stored_charge \<Rightarrow> bool" where
  "charge_checks c \<longleftrightarrow> dimension_shape_check c \<and> state_timestamps_check c \<and>
     transaction_identity_check c \<and> reversal_eligibility_check c"

text \<open>The unique indexes: two rows with the same key.\<close>

definition attempt_transaction_idx :: "stored_charge \<Rightarrow> stored_charge \<Rightarrow> bool" where
  "attempt_transaction_idx c d \<longleftrightarrow> charge_attempt_id c = charge_attempt_id d \<and>
     charge_transaction_id c = charge_transaction_id d \<and> charge_transaction_id c \<noteq> None"

definition attempt_transactionless_idx :: "stored_charge \<Rightarrow> stored_charge \<Rightarrow> bool" where
  "attempt_transactionless_idx c d \<longleftrightarrow> charge_attempt_id c = charge_attempt_id d \<and>
     charge_transaction_id c = None \<and> charge_transaction_id d = None"

definition gateway_transaction_idx :: "stored_charge \<Rightarrow> stored_charge \<Rightarrow> bool" where
  "gateway_transaction_idx c d \<longleftrightarrow> charge_gateway_account_id c = charge_gateway_account_id d \<and>
     charge_transaction_id c = charge_transaction_id d \<and> charge_transaction_id c \<noteq> None"

definition primary_attempt_idx :: "stored_charge \<Rightarrow> stored_charge \<Rightarrow> bool" where
  "primary_attempt_idx c d \<longleftrightarrow> charge_attempt_id c = charge_attempt_id d \<and>
     charge_role c = Primary \<and> charge_role d = Primary"

definition unique_clash :: "stored_charge \<Rightarrow> stored_charge \<Rightarrow> bool" where
  "unique_clash c d \<longleftrightarrow> charge_id c = charge_id d \<or> attempt_transaction_idx c d \<or>
     attempt_transactionless_idx c d \<or> gateway_transaction_idx c d \<or> primary_attempt_idx c d"

text \<open>The trigger that copies the dimensions of the owning attempt.\<close>

definition charge_attempt :: "charge_store \<Rightarrow> PaymentAttemptId \<Rightarrow> PaymentAttempt option" where
  "charge_attempt s i = find (\<lambda>a. identity_attempt_id (attempt_identity a) = i) (cs_attempts s)"

definition set_processor_charge_attempt_dimensions ::
    "PaymentAttempt \<Rightarrow> stored_charge \<Rightarrow> stored_charge option" where
  "set_processor_charge_attempt_dimensions a c =
     (if charge_billing_scope_id c \<noteq> identity_billing_scope_id (attempt_identity a) \<or>
         charge_gateway_account_id c \<noteq> identity_gateway_account_id (attempt_identity a) \<or>
         charge_gateway_order_id c \<noteq> request_gateway_order_id (attempt_request a)
      then None
      else Some (c\<lparr>charge_attempt_kind := PaymentAttempt_kind a,
        charge_amount := request_amount (attempt_request a),
        charge_plan_key := target_plan_key (request_target (attempt_request a)),
        charge_host_charge_target_id := target_host_charge_target_id (request_target (attempt_request a))\<rparr>))"

text \<open>
  \<open>INSERT ... ON CONFLICT arbiter DO NOTHING RETURNING id\<close>: the trigger, the checks, the arbiter
  and the remaining unique indexes, in this order.
\<close>

definition insert_charge ::
    "(stored_charge \<Rightarrow> stored_charge \<Rightarrow> bool) \<Rightarrow> stored_charge \<Rightarrow> charge_store \<Rightarrow>
     (ProcessorChargeId option \<times> charge_store, ProcessorChargeStoreError) result" where
  "insert_charge arbiter c s =
     and_then (ok_or (charge_attempt s (charge_attempt_id c)) no_data_found)
     (\<lambda>a. and_then (ok_or (set_processor_charge_attempt_dimensions a c) raised_exception)
     (\<lambda>c. if \<not> charge_checks c then Err check_violation
          else if list_ex (arbiter c) (cs_charges s) then Ok (None, s)
          else if list_ex (unique_clash c) (cs_charges s) then Err unique_violation
          else Ok (Some (charge_id c), s\<lparr>cs_charges := cs_charges s @ [c]\<rparr>)))"

text \<open>\<open>UPDATE ... WHERE id = i AND hit\<close>\<close>

definition update_charge ::
    "ProcessorChargeId \<Rightarrow> (stored_charge \<Rightarrow> bool) \<Rightarrow> (stored_charge \<Rightarrow> stored_charge) \<Rightarrow> charge_store \<Rightarrow>
     (stored_charge option \<times> charge_store, ProcessorChargeStoreError) result" where
  "update_charge i hit f s =
     (case find (\<lambda>c. charge_id c = i \<and> hit c) (cs_charges s) of
        None \<Rightarrow> Ok (None, s)
      | Some c \<Rightarrow>
          if \<not> charge_checks (f c) then Err check_violation
          else if list_ex (\<lambda>d. charge_id d \<noteq> i \<and> unique_clash (f c) d) (cs_charges s) then Err unique_violation
          else Ok (Some (f c), s\<lparr>cs_charges := map (\<lambda>d. if charge_id d = i then f d else d) (cs_charges s)\<rparr>))"

section \<open>Progressions\<close>

definition is_external_reversal_terminal_attempt :: "PaymentAttempt \<Rightarrow> bool" where
  "is_external_reversal_terminal_attempt attempt \<longleftrightarrow>
     PaymentAttempt_status attempt = PaymentAttemptStatus.Failed \<and>
     state_resolution_code (attempt_state attempt) \<in>
       {Some SubscriptionInitialExternallyRefunded, Some SubscriptionInitialExternallyVoided,
        Some ProcessorChargeExternallyRefunded, Some ProcessorChargeExternallyVoided}"

definition compensating_progression :: "PaymentAttempt \<Rightarrow> ProcessorEvidence \<Rightarrow> ProcessorChargeProgression" where
  "compensating_progression attempt evidence =
     (let status = PaymentAttempt_status attempt
      in if status = PaymentAttemptStatus.Approved then Applied
         else if money_cents (request_amount (attempt_request attempt)) > 0 \<and>
           evidence_transaction_id evidence \<noteq> None \<and>
           (status \<in> {PaymentAttemptStatus.Declined, PaymentAttemptStatus.Failed} \<or>
            state_resolution_code (attempt_state attempt) = Some SubscriptionInitialCurrentGrantConflict \<or>
            is_external_reversal_terminal_attempt attempt)
         then ExternalReversalRequired
         else if status \<in> {PaymentAttemptStatus.Declined, PaymentAttemptStatus.Failed,
             PaymentAttemptStatus.ReviewRequired}
         then ReconciliationRequired
         else ProcessorChargeProgression.Pending)"

definition initial_charge_progression ::
    "ProcessorChargeRole \<Rightarrow> int \<Rightarrow> GatewayTransactionId option \<Rightarrow> ProcessorChargeProgression \<Rightarrow>
     ProcessorChargeProgression" where
  "initial_charge_progression role amount_cents transaction_id requested =
     (if transaction_id = None then ReconciliationRequired
      else case role of
             Primary \<Rightarrow> requested
           | Additional \<Rightarrow> if amount_cents > 0 then ExternalReversalRequired else ReconciliationRequired)"

fun initial_charge_state_code ::
    "ProcessorChargeRole \<Rightarrow> ProcessorChargeProgression \<Rightarrow> GatewayTransactionId option \<Rightarrow>
     ProcessorChargeStateCode option" where
  "initial_charge_state_code Additional ExternalReversalRequired (Some _) = Some AdditionalApprovedChargeIdentified"
| "initial_charge_state_code _ ReconciliationRequired None = Some TransactionIdentityRequired"
| "initial_charge_state_code Primary ReconciliationRequired (Some _) = Some ApprovedChargeWaitingForApplication"
| "initial_charge_state_code Additional ReconciliationRequired (Some _) = Some ZeroAmountAdditionalApprovedCharge"
| "initial_charge_state_code _ _ _ = None"

section \<open>Reading charges\<close>

text \<open>The columns of the evidence apart from the transaction identity.\<close>

definition evidence_matches :: "ProcessorEvidence \<Rightarrow> ProcessorEvidence \<Rightarrow> bool" where
  "evidence_matches e f \<longleftrightarrow>
     evidence_payment_method_reference e = evidence_payment_method_reference f \<and>
     evidence_response e = evidence_response f \<and>
     evidence_response_code e = evidence_response_code f \<and>
     evidence_response_text e = evidence_response_text f \<and>
     evidence_condition e = evidence_condition f \<and>
     descriptor_payment_type (evidence_descriptor e) = descriptor_payment_type (evidence_descriptor f) \<and>
     descriptor_card_brand (evidence_descriptor e) = descriptor_card_brand (evidence_descriptor f) \<and>
     descriptor_card_last_four (evidence_descriptor e) = descriptor_card_last_four (evidence_descriptor f) \<and>
     descriptor_card_exp_month (evidence_descriptor e) = descriptor_card_exp_month (evidence_descriptor f) \<and>
     descriptor_card_exp_year (evidence_descriptor e) = descriptor_card_exp_year (evidence_descriptor f)"

definition matching_charge ::
    "PaymentAttemptId \<Rightarrow> GatewayTransactionId option \<Rightarrow> charge_store \<Rightarrow> stored_charge option" where
  "matching_charge attempt_id transaction_id s =
     find (\<lambda>c. charge_attempt_id c = attempt_id \<and> charge_transaction_id c = transaction_id) (cs_charges s)"

definition owned_by_other_attempt ::
    "PaymentAttemptIdentity \<Rightarrow> GatewayTransactionId \<Rightarrow> charge_store \<Rightarrow> bool" where
  "owned_by_other_attempt identity transaction_id s =
     list_ex (\<lambda>c. charge_gateway_account_id c = identity_gateway_account_id identity \<and>
         charge_transaction_id c = Some transaction_id \<and>
         charge_attempt_id c \<noteq> identity_attempt_id identity) (cs_charges s)"

definition has_existing_charge :: "PaymentAttemptId \<Rightarrow> charge_store \<Rightarrow> bool" where
  "has_existing_charge attempt_id s = list_ex (\<lambda>c. charge_attempt_id c = attempt_id) (cs_charges s)"

definition charge_by_id ::
    "ProcessorChargeId \<Rightarrow> charge_store \<Rightarrow> (ProcessorCharge, ProcessorChargeStoreError) result" where
  "charge_by_id i s =
     map_sum id ProcessorCharge.truncate (ok_or (find (\<lambda>c. charge_id c = i) (cs_charges s)) (Sql None))"

section \<open>Transitions\<close>

datatype ChargeStateCodeUpdate =
    Replace "ProcessorChargeStateCode option"
  | PreserveExisting "ProcessorChargeStateCode option"

fun updated_state_code ::
    "ChargeStateCodeUpdate \<Rightarrow> ProcessorChargeStateCode option \<Rightarrow> ProcessorChargeStateCode option" where
  "updated_state_code (Replace code) _ = code"
| "updated_state_code (PreserveExisting code) None = code"
| "updated_state_code (PreserveExisting _) (Some existing) = Some existing"

definition set_progression ::
    "datetime \<Rightarrow> ProcessorChargeProgression \<Rightarrow> stored_charge \<Rightarrow> stored_charge" where
  "set_progression clock progression c =
     c\<lparr>charge_progression := progression,
       charge_reconciliation_required_at := (if progression = ReconciliationRequired
         then Some (coalesced (charge_reconciliation_required_at c) clock) else None),
       charge_external_reversal_required_at := (if progression = ExternalReversalRequired
         then Some (coalesced (charge_external_reversal_required_at c) clock) else None),
       charge_applied_at := (if progression = Applied
         then Some (coalesced (charge_applied_at c) clock) else None)\<rparr>"

definition transition_eligible :: "ProcessorChargeProgression \<Rightarrow> stored_charge \<Rightarrow> bool" where
  "transition_eligible progression c \<longleftrightarrow>
     (progression \<notin> {ExternalReversalRequired, ExternallyReversed} \<or>
      charge_transaction_id c \<noteq> None \<and> money_cents (charge_amount c) > 0 \<and>
      charge_attempt_kind c \<noteq> PaymentAttemptKind.SubscriptionPaymentMethodUpdate) \<and>
     (progression \<noteq> Applied \<or> charge_role c = Primary \<and> charge_transaction_id c \<noteq> None)"

definition transition_processor_charge ::
    "datetime \<Rightarrow> ProcessorChargeId \<Rightarrow> ProcessorChargeProgression list \<Rightarrow> ProcessorChargeProgression \<Rightarrow>
     ChargeStateCodeUpdate \<Rightarrow> charge_store \<Rightarrow>
     (ProcessorCharge \<times> charge_store, ProcessorChargeStoreError) result" where
  "transition_processor_charge clock i expected_progressions progression state_code_update s =
     (if expected_progressions = []
      then Err (InvalidState (lit ''processor charge transition requires an expected state''))
      else and_then (update_charge i
          (\<lambda>c. charge_progression c \<in> set expected_progressions \<and> transition_eligible progression c)
          (\<lambda>c. (set_progression clock progression c)
             \<lparr>charge_state_code := updated_state_code state_code_update (charge_state_code c),
              charge_externally_reversed_at := (if progression = ExternallyReversed
                then Some (coalesced (charge_externally_reversed_at c) clock) else None)\<rparr>) s)
        (\<lambda>(row, s). map_sum id (\<lambda>c. (ProcessorCharge.truncate c, s)) (ok_or row (InvalidState
           (lit ''processor charge transition did not match its expected state or eligibility'')))))"

definition transition_processor_charge_in_transaction ::
    "datetime \<Rightarrow> ProcessorChargeId \<Rightarrow> ProcessorChargeProgression list \<Rightarrow> ProcessorChargeProgression \<Rightarrow>
     ProcessorChargeStateCode option \<Rightarrow> charge_store \<Rightarrow>
     (ProcessorCharge \<times> charge_store, ProcessorChargeStoreError) result" where
  "transition_processor_charge_in_transaction clock i expected_progressions progression state_code =
     transition_processor_charge clock i expected_progressions progression (Replace state_code)"

definition transition_charge ::
    "datetime \<Rightarrow> ProcessorChargeId \<Rightarrow> ProcessorChargeProgression \<Rightarrow> PaymentResolutionCode option \<Rightarrow>
     charge_store \<Rightarrow> (charge_store, ProcessorChargeStoreError) result" where
  "transition_charge clock i progression resolution_code s =
     map_sum id snd (transition_processor_charge clock i
       [ProcessorChargeProgression.Pending, ReconciliationRequired, ExternalReversalRequired, Applied]
       progression (PreserveExisting (map_option PaymentResolution resolution_code)) s)"

text \<open>
  The reconciliation of charges that wait: \<open>transition_pending_charge\<close> moves a pending charge to the state the classification gave
  it.  An error of the protocol has no code of the database.
\<close>

definition invalid_reconciliation_state :: ProcessorChargeStoreError where
  "invalid_reconciliation_state = Sql None"

definition transition_pending_charge ::
    "datetime \<Rightarrow> ProcessorChargeId \<Rightarrow> ProcessorChargeProgression \<Rightarrow> ProcessorChargeStateCode option \<Rightarrow>
     charge_store \<Rightarrow> (charge_store, ProcessorChargeStoreError) result" where
  "transition_pending_charge clock i progression state_code s =
     and_then (update_charge i
         (\<lambda>c. charge_progression c = ProcessorChargeProgression.Pending \<and> transition_eligible progression c)
         (\<lambda>c. (set_progression clock progression c)
            \<lparr>charge_state_code := state_code,
             charge_externally_reversed_at := (if progression = ExternallyReversed
               then Some (coalesced (charge_externally_reversed_at c) clock) else None)\<rparr>) s)
       (\<lambda>(row, s). if row = None then Err invalid_reconciliation_state else Ok s)"

text \<open>
  The statement of \<open>attest_external_reversal\<close> on the charge.  The times of the states before it stay; \<open>prior\<close> is the prior code of the attestation.
\<close>

definition accept_external_reversal ::
    "datetime \<Rightarrow> ProcessorChargeId \<Rightarrow> ProcessorChargeStateCode \<Rightarrow> charge_store \<Rightarrow>
     (charge_store, ProcessorChargeStoreError) result" where
  "accept_external_reversal clock i prior s =
     and_then (update_charge i
         (\<lambda>c. charge_progression c = ExternalReversalRequired)
         (\<lambda>c. c\<lparr>charge_progression := ExternallyReversed, charge_state_code := Some prior,
            charge_externally_reversed_at := Some (coalesced (charge_externally_reversed_at c) clock)\<rparr>) s)
       (\<lambda>(row, s). if row = None
          then Err (InvalidState (lit ''eligible processor charge did not accept external reversal'')) else Ok s)"

record ChargeRecord =
  record_id :: ProcessorChargeId
  record_role :: ProcessorChargeRole
  record_exact_replay :: bool

datatype ObservedCharge = Owned ChargeRecord | OwnedByOtherAttempt

definition promote_conflicting_charge_to_external_reversal ::
    "datetime \<Rightarrow> ObservedCharge \<Rightarrow> charge_store \<Rightarrow> (charge_store, ProcessorChargeStoreError) result" where
  "promote_conflicting_charge_to_external_reversal clock observation s =
     (case observation of
        OwnedByOtherAttempt \<Rightarrow> Ok s
      | Owned charge \<Rightarrow>
          and_then (charge_by_id (record_id charge) s) (\<lambda>c.
            case charge_progression c of
              ProcessorChargeProgression.Pending \<Rightarrow>
                transition_charge clock (record_id charge) ExternalReversalRequired None s
            | ReconciliationRequired \<Rightarrow>
                transition_charge clock (record_id charge) ExternalReversalRequired None s
            | ExternalReversalRequired \<Rightarrow> Ok s
            | ExternallyReversed \<Rightarrow> Ok s
            | Applied \<Rightarrow> Err (InvalidState
                (lit ''an applied processor charge cannot become a conflicting external reversal''))))"

section \<open>Observing a charge\<close>

definition identify_transactionless ::
    "datetime \<Rightarrow> PaymentAttempt \<Rightarrow> ProcessorEvidence \<Rightarrow> GatewayTransactionId \<Rightarrow> ProcessorChargeProgression \<Rightarrow>
     charge_store \<Rightarrow> ((ChargeRecord \<times> charge_store) option, ProcessorChargeStoreError) result" where
  "identify_transactionless clock attempt evidence transaction_id requested_progression s =
     (case matching_charge (identity_attempt_id (attempt_identity attempt)) None s of
        None \<Rightarrow> Ok None
      | Some row \<Rightarrow>
          if \<not> evidence_matches (charge_evidence row) evidence then Ok None
          else and_then (update_charge (charge_id row) (\<lambda>_. True)
                 (\<lambda>c. c\<lparr>charge_evidence := (charge_evidence c)\<lparr>evidence_transaction_id := Some transaction_id\<rparr>\<rparr>) s)
            (\<lambda>(_, s). let progression = initial_charge_progression (charge_role row)
                 (money_cents (request_amount (attempt_request attempt))) (Some transaction_id) requested_progression
               in and_then (update_charge (charge_id row) (\<lambda>_. True)
                    (\<lambda>c. (set_progression clock progression c)\<lparr>charge_state_code := None\<rparr>) s)
                  (\<lambda>(_, s). Ok (Some (\<lparr>record_id = charge_id row, record_role = charge_role row,
                     record_exact_replay = False\<rparr>, s)))))"

definition observed_charge ::
    "datetime \<Rightarrow> ProcessorChargeId \<Rightarrow> PaymentAttempt \<Rightarrow> ProcessorEvidence \<Rightarrow> ProcessorChargeRole \<Rightarrow>
     ProcessorChargeProgression \<Rightarrow> stored_charge" where
  "observed_charge clock fresh attempt evidence role progression =
     \<lparr>charge_id = fresh, charge_attempt_id = identity_attempt_id (attempt_identity attempt),
      charge_billing_scope_id = identity_billing_scope_id (attempt_identity attempt),
      charge_gateway_account_id = identity_gateway_account_id (attempt_identity attempt),
      charge_gateway_order_id = request_gateway_order_id (attempt_request attempt),
      charge_attempt_kind = PaymentAttempt_kind attempt, charge_amount = request_amount (attempt_request attempt),
      charge_role = role, charge_progression = progression, charge_state_code = None,
      charge_evidence = evidence, charge_observed_at = clock,
      charge_plan_key = target_plan_key (request_target (attempt_request attempt)),
      charge_host_charge_target_id = target_host_charge_target_id (request_target (attempt_request attempt)),
      charge_reconciliation_required_at = (if progression = ReconciliationRequired then Some clock else None),
      charge_external_reversal_required_at = (if progression = ExternalReversalRequired then Some clock else None),
      charge_applied_at = (if progression = Applied then Some clock else None),
      charge_externally_reversed_at = None\<rparr>"

text \<open>The statements after the insertion: the row of a replay, or the owner another transaction committed.\<close>

definition observe_replay ::
    "PaymentAttempt \<Rightarrow> ProcessorEvidence \<Rightarrow> charge_store \<Rightarrow>
     (ObservedCharge \<times> charge_store, ProcessorChargeStoreError) result" where
  "observe_replay attempt evidence s =
     (case matching_charge (identity_attempt_id (attempt_identity attempt)) (evidence_transaction_id evidence) s of
        Some row \<Rightarrow>
          if \<not> evidence_matches (charge_evidence row) evidence
          then Err (InvalidState (lit ''processor charge replay evidence changed''))
          else Ok (Owned \<lparr>record_id = charge_id row, record_role = charge_role row, record_exact_replay = True\<rparr>, s)
      | None \<Rightarrow>
          (case evidence_transaction_id evidence of
             Some transaction_id \<Rightarrow>
               if owned_by_other_attempt (attempt_identity attempt) transaction_id s
               then Ok (OwnedByOtherAttempt, s) else Err (InvalidState INVALID_CHARGE_STATE)
           | None \<Rightarrow> Err (InvalidState INVALID_CHARGE_STATE)))"

text \<open>The insertion of an observed charge; \<open>existing\<close> was read before it.\<close>

definition observe_insert ::
    "datetime \<Rightarrow> ProcessorChargeId \<Rightarrow> PaymentAttempt \<Rightarrow> ProcessorEvidence \<Rightarrow> ProcessorChargeProgression \<Rightarrow>
     bool \<Rightarrow> charge_store \<Rightarrow> (ObservedCharge \<times> charge_store, ProcessorChargeStoreError) result" where
  "observe_insert clock fresh attempt evidence initial_progression existing s =
     (let role = (if existing then Additional else Primary);
          progression = initial_charge_progression role (money_cents (request_amount (attempt_request attempt)))
            (evidence_transaction_id evidence) initial_progression;
          arbiter = (if evidence_transaction_id evidence \<noteq> None then gateway_transaction_idx
            else attempt_transactionless_idx)
      in and_then (insert_charge arbiter (observed_charge clock fresh attempt evidence role progression) s)
         (\<lambda>(inserted, s). case inserted of
            Some i \<Rightarrow> Ok (Owned \<lparr>record_id = i, record_role = role, record_exact_replay = False\<rparr>, s)
          | None \<Rightarrow> observe_replay attempt evidence s))"

definition observe_processor_charge ::
    "(charge_store \<Rightarrow> charge_store) \<Rightarrow> datetime \<Rightarrow> ProcessorChargeId \<Rightarrow> PaymentAttempt \<Rightarrow> ProcessorEvidence \<Rightarrow>
     ProcessorChargeProgression \<Rightarrow> charge_store \<Rightarrow> (ObservedCharge \<times> charge_store, ProcessorChargeStoreError) result" where
  "observe_processor_charge others clock fresh attempt evidence initial_progression s =
     (let existing = has_existing_charge (identity_attempt_id (attempt_identity attempt)) s
      in case evidence_transaction_id evidence of
           None \<Rightarrow> observe_insert clock fresh attempt evidence initial_progression existing (others s)
         | Some transaction_id \<Rightarrow>
             if owned_by_other_attempt (attempt_identity attempt) transaction_id s then Ok (OwnedByOtherAttempt, s)
             else and_then (identify_transactionless clock attempt evidence transaction_id initial_progression s)
               (\<lambda>identified. case identified of
                  Some (charge, s) \<Rightarrow> Ok (Owned charge, s)
                | None \<Rightarrow> observe_insert clock fresh attempt evidence initial_progression existing (others s)))"

datatype ProcessorChargeObservationOutcome =
    Observed ProcessorCharge
  | ExactReplay ProcessorCharge
  | ObservationOwnedByOtherAttempt

text \<open>The state code that a new observation gives its charge.\<close>

definition code_new_charge ::
    "datetime \<Rightarrow> ProcessorEvidence \<Rightarrow> ProcessorCharge \<Rightarrow> charge_store \<Rightarrow>
     (ProcessorCharge \<times> charge_store, ProcessorChargeStoreError) result" where
  "code_new_charge clock evidence persisted s =
     (let state_code = initial_charge_state_code (charge_role persisted) (charge_progression persisted)
            (evidence_transaction_id evidence)
      in if charge_state_code persisted \<noteq> state_code
         then transition_processor_charge clock (charge_id persisted) [charge_progression persisted]
                (charge_progression persisted) (Replace state_code) s
         else Ok (persisted, s))"

definition observe_processor_charge_in_transaction ::
    "(charge_store \<Rightarrow> charge_store) \<Rightarrow> datetime \<Rightarrow> ProcessorChargeId \<Rightarrow> PaymentAttemptId \<Rightarrow> GatewayOrderId \<Rightarrow>
     ProcessorEvidence \<Rightarrow> ProcessorChargeProgression \<Rightarrow> charge_store \<Rightarrow>
     (ProcessorChargeObservationOutcome \<times> charge_store, ProcessorChargeStoreError) result" where
  "observe_processor_charge_in_transaction others clock fresh attempt_id gateway_order_id evidence
     initial_progression s =
     and_then (ok_or (charge_attempt s attempt_id) (InvalidState (lit ''processor charge attempt was not found'')))
     (\<lambda>attempt.
       if request_gateway_order_id (attempt_request attempt) \<noteq> gateway_order_id
       then Err (InvalidState (lit ''processor charge order does not match its attempt''))
       else and_then (observe_processor_charge others clock fresh attempt evidence initial_progression s)
         (\<lambda>(observed, s). case observed of
            OwnedByOtherAttempt \<Rightarrow> Ok (ObservationOwnedByOtherAttempt, s)
          | Owned charge \<Rightarrow>
              and_then (charge_by_id (record_id charge) s)
              (\<lambda>persisted. if record_exact_replay charge then Ok (ExactReplay persisted, s)
                 else map_sum id (\<lambda>(persisted, s). (Observed persisted, s))
                        (code_new_charge clock evidence persisted s))))"

section \<open>Compensating charges\<close>

datatype CompensatingProcessorChargeOutcome =
    CompensationObserved
  | CompensationExactReplay
  | CompensationOwnedByOtherAttempt

definition compensating_not_found :: ProcessorChargeStoreError where
  "compensating_not_found = InvalidState (lit ''compensating processor charge attempt was not found'')"

definition find_attempt_of_scope ::
    "PaymentAttempt list \<Rightarrow> BillingScopeId \<Rightarrow> PaymentAttemptId \<Rightarrow> PaymentAttempt option" where
  "find_attempt_of_scope attempts billing_scope_id attempt_id =
     find (\<lambda>a. identity_billing_scope_id (attempt_identity a) = billing_scope_id \<and>
               identity_attempt_id (attempt_identity a) = attempt_id) attempts"

text \<open>
  The attempt of \<open>store_once\<close>: \<open>preloaded\<close> is what the first read found, the second read follows the lock.
\<close>

definition load_compensated_attempt ::
    "PaymentAttempt option \<Rightarrow> PaymentAttemptId \<Rightarrow> GatewayOrderId \<Rightarrow> charge_store \<Rightarrow>
     (PaymentAttempt, ProcessorChargeStoreError) result" where
  "load_compensated_attempt preloaded attempt_id gateway_order_id s =
     and_then (ok_or preloaded compensating_not_found) (\<lambda>preloaded_attempt.
       if PaymentAttempt_kind preloaded_attempt = PaymentAttemptKind.SubscriptionInitial \<and>
          target_plan_key (request_target (attempt_request preloaded_attempt)) = None
       then Err (InvalidState INVALID_CHARGE_STATE)
       else and_then (ok_or (find_attempt_of_scope (cs_attempts s)
           (identity_billing_scope_id (attempt_identity preloaded_attempt)) attempt_id) compensating_not_found)
         (\<lambda>reloaded.
            if PaymentAttempt_kind preloaded_attempt \<noteq> PaymentAttemptKind.SubscriptionPaymentMethodUpdate \<and>
               reloaded \<noteq> preloaded_attempt
            then Err (InvalidState
              (lit ''compensating processor charge attempt changed while its aggregate was locked''))
            else if request_gateway_order_id (attempt_request reloaded) \<noteq> gateway_order_id
            then Err (InvalidState (lit ''compensating processor charge order does not match its attempt''))
            else Ok reloaded))"

definition attestation_by_charge ::
    "ProcessorChargeId \<Rightarrow> charge_store \<Rightarrow> ExternalReversalAttestation option" where
  "attestation_by_charge i s = find (\<lambda>x. attestation_processor_charge_id x = i) (cs_attestations s)"

text \<open>An attested charge must be observed exactly as it was attested; \<open>None\<close> is the panic of the comparison.\<close>

definition attested_differently ::
    "ChargeRecord \<Rightarrow> PaymentAttempt \<Rightarrow> ProcessorCharge \<Rightarrow> charge_store \<Rightarrow> bool option" where
  "attested_differently charge attempt persisted s =
     (case attestation_by_charge (record_id charge) s of
        None \<Rightarrow> Some False
      | Some attestation \<Rightarrow>
          if \<not> record_exact_replay charge then Some True
          else map_option Not (attestation_matches_source attestation attempt persisted))"

definition store_once ::
    "(charge_store \<Rightarrow> charge_store) \<Rightarrow> PaymentAttempt option \<Rightarrow> datetime \<Rightarrow> ProcessorChargeId \<Rightarrow>
     PaymentAttemptId \<Rightarrow> GatewayOrderId \<Rightarrow> ProcessorEvidence \<Rightarrow> charge_store \<Rightarrow>
     (CompensatingProcessorChargeOutcome \<times> charge_store, ProcessorChargeStoreError) result option" where
  "store_once others preloaded clock fresh attempt_id gateway_order_id evidence s =
     (case and_then (load_compensated_attempt preloaded attempt_id gateway_order_id s) (\<lambda>attempt.
        and_then (observe_processor_charge others clock fresh attempt evidence
            (compensating_progression attempt evidence) s) (\<lambda>(observation, s).
          case observation of
            OwnedByOtherAttempt \<Rightarrow> Ok (attempt, None, s)
          | Owned charge \<Rightarrow>
              and_then (charge_by_id (record_id charge) s) (\<lambda>persisted.
                map_sum id (\<lambda>(persisted, s). (attempt, Some (charge, persisted), s))
                  (if record_exact_replay charge then Ok (persisted, s)
                   else code_new_charge clock evidence persisted s)))) of
        Inl e \<Rightarrow> Some (Err e)
      | Inr (_, None, s) \<Rightarrow> Some (Ok (CompensationOwnedByOtherAttempt, s))
      | Inr (attempt, Some (charge, persisted), s) \<Rightarrow>
          map_option (\<lambda>differs.
            if differs then Err (InvalidState (lit ''attested processor charge was reobserved with different evidence''))
            else Ok (if record_exact_replay charge then CompensationExactReplay else CompensationObserved, s))
          (attested_differently charge attempt persisted s))"

section \<open>Retries\<close>

definition STORE_MAX_ATTEMPTS :: nat where
  "STORE_MAX_ATTEMPTS = 3"

definition is_transient_code :: "rstring option \<Rightarrow> bool" where
  "is_transient_code code \<longleftrightarrow>
     code \<in> {Some (lit ''40001''), Some (lit ''40P01''), Some (lit ''55P03''), Some (lit ''57014'')}"

primrec is_transient :: "ProcessorChargeStoreError \<Rightarrow> bool" where
  "is_transient (Sql code) = is_transient_code code"
| "is_transient (Attempt e) = (case e of AttemptSql code \<Rightarrow> is_transient_code code | AttemptInvalidState _ \<Rightarrow> False)"
| "is_transient (InvalidState _) = False"

text \<open>
  The loop of \<open>store_compensating_processor_charge\<close> over the results of its tries: the try with number
  \<open>n\<close> returns \<open>once n\<close>, \<open>None\<close> when it panics, and \<open>previous\<close> is \<open>last_transient_error\<close>.
\<close>

fun store_tries ::
    "(nat \<Rightarrow> ('a, ProcessorChargeStoreError) result option) \<Rightarrow> nat list \<Rightarrow> ProcessorChargeStoreError option \<Rightarrow>
     ('a, ProcessorChargeStoreError) result option" where
  "store_tries once [] previous =
     Some (Err (coalesced previous (InvalidState (lit ''compensating processor charge retry loop exhausted''))))"
| "store_tries once (n # ns) previous =
     (case once n of
        None \<Rightarrow> None
      | Some (Inr outcome) \<Rightarrow> Some (Ok outcome)
      | Some (Inl e) \<Rightarrow>
          if is_transient e \<and> n < STORE_MAX_ATTEMPTS then store_tries once ns (Some e) else Some (Err e))"

text \<open>
  One try: \<open>failure\<close> is the failure of the database that rolls the try back, if there is one.
\<close>

definition store_try ::
    "(nat \<Rightarrow> ProcessorChargeStoreError option) \<Rightarrow> (charge_store \<Rightarrow> charge_store) \<Rightarrow> (nat \<Rightarrow> PaymentAttempt option) \<Rightarrow>
     (nat \<Rightarrow> datetime) \<Rightarrow> (nat \<Rightarrow> ProcessorChargeId) \<Rightarrow> PaymentAttemptId \<Rightarrow> GatewayOrderId \<Rightarrow> ProcessorEvidence \<Rightarrow>
     (nat \<Rightarrow> charge_store) \<Rightarrow> nat \<Rightarrow>
     (CompensatingProcessorChargeOutcome \<times> charge_store, ProcessorChargeStoreError) result option" where
  "store_try failure others preloaded clock fresh attempt_id gateway_order_id evidence stores n =
     (case failure n of
        Some e \<Rightarrow> Some (Err e)
      | None \<Rightarrow> store_once others (preloaded n) (clock n) (fresh n) attempt_id gateway_order_id evidence (stores n))"

definition store_compensating_processor_charge ::
    "(nat \<Rightarrow> ProcessorChargeStoreError option) \<Rightarrow> (charge_store \<Rightarrow> charge_store) \<Rightarrow> (nat \<Rightarrow> PaymentAttempt option) \<Rightarrow>
     (nat \<Rightarrow> datetime) \<Rightarrow> (nat \<Rightarrow> ProcessorChargeId) \<Rightarrow> PaymentAttemptId \<Rightarrow> GatewayOrderId \<Rightarrow> ProcessorEvidence \<Rightarrow>
     (nat \<Rightarrow> charge_store) \<Rightarrow>
     (CompensatingProcessorChargeOutcome \<times> charge_store, ProcessorChargeStoreError) result option" where
  "store_compensating_processor_charge failure others preloaded clock fresh attempt_id gateway_order_id evidence stores =
     store_tries (store_try failure others preloaded clock fresh attempt_id gateway_order_id evidence stores)
       [1..<STORE_MAX_ATTEMPTS + 1] None"

section \<open>Evidence without the lock of the attempt\<close>

datatype LockFreeApprovalPolicy = Reconcile | ReverseExpiredPeriod

datatype LockFreeApprovedEvidenceOutcome =
    LockFreePersisted
  | LockFreeExactReplay
  | LockFreeOwnedByOtherAttempt
  | LockFreeNotDurable

record LockFreeApprovedEvidenceTerms =
  lock_free_identity :: PaymentAttemptIdentity
  lock_free_attempt_kind :: PaymentAttemptKind
  lock_free_plan_key :: PlanKey
  lock_free_gateway_order_id :: GatewayOrderId
  lock_free_amount :: Money
  lock_free_host_charge_target_id :: "HostChargeTargetId option"

definition lock_free_reversal ::
    "LockFreeApprovedEvidenceTerms \<Rightarrow> ProcessorEvidence \<Rightarrow> LockFreeApprovalPolicy \<Rightarrow> ProcessorChargeRole \<Rightarrow> bool" where
  "lock_free_reversal terms evidence approval_policy role \<longleftrightarrow>
     approval_policy = ReverseExpiredPeriod \<and> role = Primary \<and> money_cents (lock_free_amount terms) > 0 \<and>
     evidence_transaction_id evidence \<noteq> None"

definition lock_free_charge ::
    "datetime \<Rightarrow> ProcessorChargeId \<Rightarrow> LockFreeApprovedEvidenceTerms \<Rightarrow> ProcessorEvidence \<Rightarrow>
     LockFreeApprovalPolicy \<Rightarrow> ProcessorChargeRole \<Rightarrow> stored_charge" where
  "lock_free_charge clock fresh terms evidence approval_policy role =
     (let reversal = lock_free_reversal terms evidence approval_policy role
      in \<lparr>charge_id = fresh, charge_attempt_id = identity_attempt_id (lock_free_identity terms),
          charge_billing_scope_id = identity_billing_scope_id (lock_free_identity terms),
          charge_gateway_account_id = identity_gateway_account_id (lock_free_identity terms),
          charge_gateway_order_id = lock_free_gateway_order_id terms,
          charge_attempt_kind = lock_free_attempt_kind terms, charge_amount = lock_free_amount terms,
          charge_role = role,
          charge_progression = (if reversal then ExternalReversalRequired else ProcessorChargeProgression.Pending),
          charge_state_code = (if reversal then Some (PaymentResolution SubscriptionApprovedPeriodExpired) else None),
          charge_evidence = evidence, charge_observed_at = clock,
          charge_plan_key = Some (lock_free_plan_key terms),
          charge_host_charge_target_id = lock_free_host_charge_target_id terms,
          charge_reconciliation_required_at = None,
          charge_external_reversal_required_at = (if reversal then Some clock else None),
          charge_applied_at = None, charge_externally_reversed_at = None\<rparr>)"

text \<open>
  One iteration of the loop: the role is read, other transactions may commit, and the row is
  inserted unless some unique index has its key.
\<close>

definition lock_free_try ::
    "(nat \<Rightarrow> charge_store \<Rightarrow> charge_store) \<Rightarrow> nat \<Rightarrow> datetime \<Rightarrow> ProcessorChargeId \<Rightarrow> LockFreeApprovedEvidenceTerms \<Rightarrow>
     ProcessorEvidence \<Rightarrow> LockFreeApprovalPolicy \<Rightarrow> charge_store \<Rightarrow>
     (ProcessorChargeId option \<times> charge_store, ProcessorChargeStoreError) result" where
  "lock_free_try others n clock fresh terms evidence approval_policy s =
     (let s = others (2 * n) s;
          role = (if has_existing_charge (identity_attempt_id (lock_free_identity terms)) s
            then Additional else Primary)
      in insert_charge unique_clash (lock_free_charge clock fresh terms evidence approval_policy role)
           (others (2 * n + 1) s))"

text \<open>
  The two reads after the loop.  Each statement sees what others committed before it; the second runs for an identified transaction only.
\<close>

definition lock_free_replay ::
    "(nat \<Rightarrow> charge_store \<Rightarrow> charge_store) \<Rightarrow> LockFreeApprovedEvidenceTerms \<Rightarrow> ProcessorEvidence \<Rightarrow> charge_store \<Rightarrow>
     LockFreeApprovedEvidenceOutcome \<times> charge_store" where
  "lock_free_replay others terms evidence s =
     (let s = others 4 s in
      if (case matching_charge (identity_attempt_id (lock_free_identity terms)) (evidence_transaction_id evidence) s of
            Some row \<Rightarrow> evidence_matches (charge_evidence row) evidence | None \<Rightarrow> False)
      then (LockFreeExactReplay, s)
      else case evidence_transaction_id evidence of
             Some transaction_id \<Rightarrow>
               (let s = others 5 s in
                (if owned_by_other_attempt (lock_free_identity terms) transaction_id s
                 then LockFreeOwnedByOtherAttempt else LockFreeNotDurable, s))
           | None \<Rightarrow> (LockFreeNotDurable, s))"

definition persist_approved_evidence_without_attempt_lock_with_policy ::
    "(nat \<Rightarrow> charge_store \<Rightarrow> charge_store) \<Rightarrow> datetime \<Rightarrow> (nat \<Rightarrow> ProcessorChargeId) \<Rightarrow>
     LockFreeApprovedEvidenceTerms \<Rightarrow> ProcessorEvidence \<Rightarrow> LockFreeApprovalPolicy \<Rightarrow> charge_store \<Rightarrow>
     (LockFreeApprovedEvidenceOutcome \<times> charge_store, ProcessorChargeStoreError) result" where
  "persist_approved_evidence_without_attempt_lock_with_policy others clock fresh terms evidence approval_policy s =
     and_then (lock_free_try others 0 clock (fresh 0) terms evidence approval_policy s) (\<lambda>(inserted, s).
       if inserted \<noteq> None then Ok (LockFreePersisted, s)
       else and_then (lock_free_try others 1 clock (fresh 1) terms evidence approval_policy s) (\<lambda>(inserted, s).
         if inserted \<noteq> None then Ok (LockFreePersisted, s)
         else Ok (lock_free_replay others terms evidence s)))"

end
