(* ===== verification/Attempt_Transitions.thy ===== *)
theory Attempt_Transitions
  imports Outcome_Policy Processor_Charges
begin

text \<open>
  The durable transitions of a payment attempt: \<open>attempts/transitions.rs\<close> and the statements of
  \<open>enrollment_application.rs\<close> on the submission time.  A statement on the table of attempts succeeds
  when the row it writes meets the check constraints and unique indexes of \<open>schema/v6/install.sql\<close>
  that depend on the columns it sets; the others hold by the types of the columns, and foreign keys refer to
  rows of the same transaction.  Texts are kept as they are written: the redaction that decoding a
  diagnostic applies again is not modelled.
\<close>

section \<open>Constraints of the table\<close>

definition attempt_violates_check :: PaymentAttemptStoreError where
  "attempt_violates_check = AttemptSql (Some (lit ''23514''))"

definition attempt_violates_unique :: PaymentAttemptStoreError where
  "attempt_violates_unique = AttemptSql (Some (lit ''23505''))"

definition INVALID_ATTEMPT_STATE :: rstring where
  "INVALID_ATTEMPT_STATE = lit ''canonical payment attempt state is invalid''"

definition attempt_invalid_state :: PaymentAttemptStoreError where
  "attempt_invalid_state = AttemptInvalidState INVALID_ATTEMPT_STATE"

text \<open>The relations of an initial attempt; those of the other kinds hold by their targets.\<close>

definition relationship_shape_check :: "PaymentAttempt \<Rightarrow> bool" where
  "relationship_shape_check a \<longleftrightarrow>
     (case request_target (attempt_request a) of
        SubscriptionInitial _ _ _ (Some _) \<Rightarrow>
          PaymentAttempt_status a \<in> {PaymentAttemptStatus.Approved, PaymentAttemptStatus.Declined,
            PaymentAttemptStatus.Failed, PaymentAttemptStatus.ReviewRequired}
      | SubscriptionInitial _ _ _ None \<Rightarrow> PaymentAttempt_status a \<noteq> PaymentAttemptStatus.Approved
      | _ \<Rightarrow> True)"

definition within_column :: "GatewayDiagnostic option \<Rightarrow> bool" where
  "within_column column = is_none_or column (\<lambda>d. byte_len (GatewayDiagnostic_expose d) \<le> 512)"

definition gateway_text_check :: "PaymentAttempt \<Rightarrow> bool" where
  "gateway_text_check a \<longleftrightarrow>
     (let e = state_processor_evidence (attempt_state a) in
      within_column (evidence_response e) \<and> within_column (evidence_response_code e) \<and>
      within_column (evidence_response_text e) \<and> within_column (evidence_condition e) \<and>
      within_column (descriptor_payment_type (evidence_descriptor e)) \<and>
      within_column (descriptor_card_brand (evidence_descriptor e)))"

definition resolved_state_check :: "PaymentAttempt \<Rightarrow> bool" where
  "resolved_state_check a \<longleftrightarrow>
     PaymentAttemptStatus_is_terminal (PaymentAttempt_status a) \<longrightarrow> attempt_resolved_at a \<noteq> None"

definition review_required_at_check :: "PaymentAttempt \<Rightarrow> bool" where
  "review_required_at_check a \<longleftrightarrow>
     PaymentAttempt_status a \<noteq> PaymentAttemptStatus.ReviewRequired \<or>
     stamp_review_required_at (state_timestamps (attempt_state a)) \<noteq> None"

definition timestamp_order_check :: "PaymentAttempt \<Rightarrow> bool" where
  "timestamp_order_check a \<longleftrightarrow>
     stamp_created_at (state_timestamps (attempt_state a)) \<le> stamp_updated_at (state_timestamps (attempt_state a))"

definition attempt_checks :: "PaymentAttempt \<Rightarrow> bool" where
  "attempt_checks a \<longleftrightarrow> relationship_shape_check a \<and> gateway_text_check a \<and> resolved_state_check a \<and>
     review_required_at_check a \<and> timestamp_order_check a"

text \<open>The unique indexes that depend on the evidence or the status.\<close>

abbreviation attempt_transaction_id :: "PaymentAttempt \<Rightarrow> GatewayTransactionId option" where
  "attempt_transaction_id a \<equiv> evidence_transaction_id (state_processor_evidence (attempt_state a))"

definition same_gateway_transaction :: "PaymentAttempt \<Rightarrow> PaymentAttempt \<Rightarrow> bool" where
  "same_gateway_transaction a b \<longleftrightarrow>
     identity_gateway_account_id (attempt_identity a) = identity_gateway_account_id (attempt_identity b) \<and>
     attempt_transaction_id a = attempt_transaction_id b \<and> attempt_transaction_id a \<noteq> None"

definition initial_inflight :: "PaymentAttempt \<Rightarrow> bool" where
  "initial_inflight a \<longleftrightarrow>
     PaymentAttempt_kind a = PaymentAttemptKind.SubscriptionInitial \<and>
     (PaymentAttempt_status a \<in> {PaymentAttemptStatus.Pending, PaymentAttemptStatus.Unknown} \<or>
      PaymentAttempt_status a = PaymentAttemptStatus.ReviewRequired \<and>
      state_resolution_code (attempt_state a) \<noteq> Some SubscriptionInitialCurrentSubscriptionConflict)"

definition same_initial_inflight :: "PaymentAttempt \<Rightarrow> PaymentAttempt \<Rightarrow> bool" where
  "same_initial_inflight a b \<longleftrightarrow> initial_inflight a \<and> initial_inflight b \<and>
     identity_billing_scope_id (attempt_identity a) = identity_billing_scope_id (attempt_identity b) \<and>
     identity_subscriber_id (attempt_identity a) = identity_subscriber_id (attempt_identity b) \<and>
     target_plan_key (request_target (attempt_request a)) = target_plan_key (request_target (attempt_request b))"

text \<open>\<open>status IN ('pending', 'unknown', 'review_required', 'approved')\<close>\<close>

definition holds_its_target :: "PaymentAttempt \<Rightarrow> bool" where
  "holds_its_target a \<longleftrightarrow>
     PaymentAttemptStatus_is_resolvable (PaymentAttempt_status a) \<or>
     PaymentAttempt_status a = PaymentAttemptStatus.Approved"

definition same_host_charge :: "PaymentAttempt \<Rightarrow> PaymentAttempt \<Rightarrow> bool" where
  "same_host_charge a b \<longleftrightarrow> holds_its_target a \<and> holds_its_target b \<and>
     PaymentAttempt_kind a = PaymentAttemptKind.HostCharge \<and> PaymentAttempt_kind b = PaymentAttemptKind.HostCharge \<and>
     identity_billing_scope_id (attempt_identity a) = identity_billing_scope_id (attempt_identity b) \<and>
     identity_subscriber_id (attempt_identity a) = identity_subscriber_id (attempt_identity b) \<and>
     target_host_charge_target_id (request_target (attempt_request a)) =
       target_host_charge_target_id (request_target (attempt_request b))"

definition same_billing_inflight :: "PaymentAttempt \<Rightarrow> PaymentAttempt \<Rightarrow> bool" where
  "same_billing_inflight a b \<longleftrightarrow>
     is_subscription_charge a \<and> is_subscription_charge b \<and>
     PaymentAttemptStatus_is_resolvable (PaymentAttempt_status a) \<and>
     PaymentAttemptStatus_is_resolvable (PaymentAttempt_status b) \<and>
     attempt_subscription_id a = attempt_subscription_id b"

definition same_billing_period :: "PaymentAttempt \<Rightarrow> PaymentAttempt \<Rightarrow> bool" where
  "same_billing_period a b \<longleftrightarrow>
     is_subscription_charge a \<and> is_subscription_charge b \<and> holds_its_target a \<and> holds_its_target b \<and>
     attempt_subscription_id a = attempt_subscription_id b \<and> attempt_period_start_at a = attempt_period_start_at b"

definition same_method_update :: "PaymentAttempt \<Rightarrow> PaymentAttempt \<Rightarrow> bool" where
  "same_method_update a b \<longleftrightarrow>
     PaymentAttempt_kind a = PaymentAttemptKind.SubscriptionPaymentMethodUpdate \<and>
     PaymentAttempt_kind b = PaymentAttemptKind.SubscriptionPaymentMethodUpdate \<and>
     PaymentAttemptStatus_is_resolvable (PaymentAttempt_status a) \<and>
     PaymentAttemptStatus_is_resolvable (PaymentAttempt_status b) \<and>
     attempt_subscription_id a = attempt_subscription_id b"

definition attempt_clash :: "PaymentAttempt \<Rightarrow> PaymentAttempt \<Rightarrow> bool" where
  "attempt_clash a b \<longleftrightarrow> same_gateway_transaction a b \<or> same_initial_inflight a b \<or> same_host_charge a b \<or>
     same_billing_inflight a b \<or> same_billing_period a b \<or> same_method_update a b"

text \<open>
  \<open>UPDATE billing_payment_attempts SET f WHERE id = i AND hit\<close>: whether a row was affected.  \<open>f\<close> gives
  \<open>None\<close> when the columns it sets cannot stand in a row.
\<close>

definition update_attempt ::
    "PaymentAttemptId \<Rightarrow> (PaymentAttempt \<Rightarrow> bool) \<Rightarrow> (PaymentAttempt \<Rightarrow> PaymentAttempt option) \<Rightarrow> billing_db \<Rightarrow>
     (bool \<times> billing_db, PaymentAttemptStoreError) result" where
  "update_attempt i hit f db =
     (case find (\<lambda>a. identity_attempt_id (attempt_identity a) = i \<and> hit a) (db_attempts db) of
        None \<Rightarrow> Ok (False, db)
      | Some a \<Rightarrow>
          (case f a of
             None \<Rightarrow> Err attempt_violates_check
           | Some a' \<Rightarrow>
               if \<not> attempt_checks a' then Err attempt_violates_check
               else if list_ex (\<lambda>b. identity_attempt_id (attempt_identity b) \<noteq> i \<and> attempt_clash a' b)
                         (db_attempts db)
               then Err attempt_violates_unique
               else Ok (True, update_attempts (\<lambda>b. identity_attempt_id (attempt_identity b) = i) (\<lambda>_. a') db)))"

section \<open>Transitions\<close>

datatype AttemptApproval = HostCharge | Subscription SubscriptionId PaymentMethodId

datatype AttemptTransition =
    Approved AttemptApproval
  | Resolved AttemptResolutionStatus "PaymentResolutionCode option"
  | LateApprovalReview "PaymentResolutionCode option" rstring

text \<open>\<open>COALESCE($3, subscription_id)\<close> and \<open>COALESCE($4, payment_method_id)\<close> in the target they belong to.\<close>

fun link_target ::
    "SubscriptionId option \<Rightarrow> PaymentMethodId option \<Rightarrow> PaymentAttemptTarget \<Rightarrow> PaymentAttemptTarget option" where
  "link_target s m (PaymentAttemptTarget.HostCharge t) =
     (if s = None \<and> m = None then Some (PaymentAttemptTarget.HostCharge t) else None)"
| "link_target s m (SubscriptionInitial v offer_terms discount (Some a)) =
     Some (SubscriptionInitial v offer_terms discount (Some
       \<lparr>application_subscription_id = (if s = None then application_subscription_id a else s),
        application_payment_method_id = coalesced m (application_payment_method_id a)\<rparr>))"
| "link_target s m (SubscriptionInitial v offer_terms discount None) =
     (case (s, m) of
        (None, None) \<Rightarrow> Some (SubscriptionInitial v offer_terms discount None)
      | (s, Some m) \<Rightarrow> Some (SubscriptionInitial v offer_terms discount (Some
          \<lparr>application_subscription_id = s, application_payment_method_id = m\<rparr>))
      | (Some s, None) \<Rightarrow> None)"
| "link_target s m (SubscriptionRenewal plan_key method period expected) =
     Some (SubscriptionRenewal plan_key (coalesced m method) period
       (expected\<lparr>payment_state_subscription_id := coalesced s (payment_state_subscription_id expected)\<rparr>))"
| "link_target s m (SubscriptionRecovery plan_key method period expected) =
     Some (SubscriptionRecovery plan_key (coalesced m method) period
       (expected\<lparr>payment_state_subscription_id := coalesced s (payment_state_subscription_id expected)\<rparr>))"
| "link_target s m (SubscriptionPaymentMethodUpdate plan_key method expected) =
     Some (SubscriptionPaymentMethodUpdate plan_key (coalesced m method)
       (expected\<lparr>method_update_subscription_id := coalesced s (method_update_subscription_id expected)\<rparr>))"

definition late_review_text :: "rstring \<Rightarrow> GatewayDiagnostic option \<Rightarrow> GatewayDiagnostic" where
  "late_review_text message response_text =
     (case response_text of
        None \<Rightarrow> GatewayDiagnostic message
      | Some t \<Rightarrow> GatewayDiagnostic (take 512 (message @ lit '' '' @ GatewayDiagnostic_expose t)))"

definition late_review_row ::
    "datetime \<Rightarrow> ProcessorEvidence \<Rightarrow> PaymentResolutionCode option \<Rightarrow> rstring \<Rightarrow> PaymentAttempt \<Rightarrow> PaymentAttempt" where
  "late_review_row clock evidence code message a =
     a\<lparr>attempt_state := (attempt_state a)\<lparr>state_status := PaymentAttemptStatus.ReviewRequired,
         state_resolution_code := code,
         state_processor_evidence := evidence
           \<lparr>evidence_response_text := Some (late_review_text message (evidence_response_text evidence))\<rparr>,
         state_timestamps := (state_timestamps (attempt_state a))
           \<lparr>stamp_review_required_at :=
              Some (coalesced (stamp_review_required_at (state_timestamps (attempt_state a))) clock),
            stamp_updated_at := clock\<rparr>\<rparr>\<rparr>"

definition transition_row ::
    "datetime \<Rightarrow> ProcessorEvidence \<Rightarrow> PaymentAttemptStatus \<Rightarrow> PaymentResolutionCode option \<Rightarrow>
     SubscriptionId option \<Rightarrow> PaymentMethodId option \<Rightarrow> PaymentAttempt \<Rightarrow> PaymentAttempt option" where
  "transition_row clock evidence status code subscription_id method_id a =
     map_option (\<lambda>target.
       a\<lparr>attempt_request := (attempt_request a)\<lparr>request_target := target\<rparr>,
         attempt_state := (attempt_state a)\<lparr>state_status := status,
         state_resolution_code := code, state_processor_evidence := evidence,
         state_timestamps := (state_timestamps (attempt_state a))
           \<lparr>stamp_resolved_at := (if PaymentAttemptStatus_is_terminal status then Some clock
              else attempt_resolved_at a),
            stamp_review_required_at := (if status = PaymentAttemptStatus.ReviewRequired
              then Some (coalesced (stamp_review_required_at (state_timestamps (attempt_state a))) clock)
              else stamp_review_required_at (state_timestamps (attempt_state a))),
            stamp_updated_at := clock\<rparr>\<rparr>\<rparr>)
     (link_target subscription_id method_id (request_target (attempt_request a)))"

text \<open>The rows that the statement of a transition selects and what it writes.\<close>

fun transition_from :: "AttemptTransition \<Rightarrow> PaymentAttempt \<Rightarrow> bool" where
  "transition_from (LateApprovalReview _ _) a \<longleftrightarrow> PaymentAttempt_status a \<noteq> PaymentAttemptStatus.Approved"
| "transition_from _ a \<longleftrightarrow> PaymentAttemptStatus_is_resolvable (PaymentAttempt_status a)"

fun transition_to ::
    "datetime \<Rightarrow> ProcessorEvidence \<Rightarrow> AttemptTransition \<Rightarrow> PaymentAttempt \<Rightarrow> PaymentAttempt option" where
  "transition_to clock evidence (AttemptTransition.Approved AttemptApproval.HostCharge) a =
     transition_row clock evidence PaymentAttemptStatus.Approved None None None a"
| "transition_to clock evidence (AttemptTransition.Approved (AttemptApproval.Subscription s m)) a =
     transition_row clock evidence PaymentAttemptStatus.Approved None (Some s) (Some m) a"
| "transition_to clock evidence (Resolved status code) a =
     transition_row clock evidence (resolution_payment_status status) code None None a"
| "transition_to clock evidence (LateApprovalReview code message) a =
     Some (late_review_row clock evidence code message a)"

definition require_one_row ::
    "(bool \<times> billing_db, PaymentAttemptStoreError) result \<Rightarrow> (billing_db, PaymentAttemptStoreError) result" where
  "require_one_row r = and_then r (\<lambda>(affected, db). if affected then Ok db else Err attempt_invalid_state)"

definition persist_attempt_transition ::
    "datetime \<Rightarrow> PaymentAttempt \<Rightarrow> ProcessorEvidence \<Rightarrow> AttemptTransition \<Rightarrow> billing_db \<Rightarrow>
     (billing_db, PaymentAttemptStoreError) result" where
  "persist_attempt_transition clock attempt evidence transition db =
     require_one_row (update_attempt (identity_attempt_id (attempt_identity attempt))
       (transition_from transition) (transition_to clock evidence transition) db)"

section \<open>Submission\<close>

definition set_submitted_at :: "datetime option \<Rightarrow> datetime \<Rightarrow> PaymentAttempt \<Rightarrow> PaymentAttempt" where
  "set_submitted_at submitted_at clock a =
     a\<lparr>attempt_state := (attempt_state a)\<lparr>state_timestamps := (state_timestamps (attempt_state a))
         \<lparr>stamp_submitted_at := submitted_at, stamp_updated_at := clock\<rparr>\<rparr>\<rparr>"

definition reload_attempt :: "PaymentAttempt \<Rightarrow> billing_db \<Rightarrow> (PaymentAttempt \<times> billing_db, PaymentAttemptStoreError) result" where
  "reload_attempt attempt db =
     map_sum id (\<lambda>a. (a, db)) (ok_or (find_payment_attempt_by_id db
       (identity_billing_scope_id (attempt_identity attempt)) (identity_attempt_id (attempt_identity attempt)))
       attempt_invalid_state)"

definition admit_prepared_attempt ::
    "datetime \<Rightarrow> PaymentAttempt \<Rightarrow> billing_db \<Rightarrow> (PaymentAttempt \<times> billing_db, PaymentAttemptStoreError) result" where
  "admit_prepared_attempt clock attempt db =
     and_then (require_one_row (update_attempt (identity_attempt_id (attempt_identity attempt))
         (\<lambda>a. PaymentAttempt_status a = PaymentAttemptStatus.Pending \<and> attempt_submitted_at a = None)
         (Some \<circ> set_submitted_at (Some clock) clock) db))
       (reload_attempt attempt)"

definition reject_prepared_attempt ::
    "datetime \<Rightarrow> PaymentAttempt \<Rightarrow> PaymentResolutionCode \<Rightarrow> rstring \<Rightarrow> billing_db \<Rightarrow>
     (PaymentAttempt \<times> billing_db, PaymentAttemptStoreError) result" where
  "reject_prepared_attempt clock attempt code message db =
     and_then (update_attempt (identity_attempt_id (attempt_identity attempt))
         (\<lambda>a. PaymentAttempt_status a = PaymentAttemptStatus.Pending \<and> attempt_submitted_at a = None)
         (\<lambda>a. Some (close_attempt (Some code) (Some (GatewayDiagnostic message)) (attempt_condition a)
            (coalesced (attempt_resolved_at a) clock) clock a)) db)
       (\<lambda>(_, db). reload_attempt attempt db)"

section \<open>The invariant of the table\<close>

abbreviation attempt_key :: "PaymentAttempt \<Rightarrow> PaymentAttemptId" where
  "attempt_key a \<equiv> identity_attempt_id (attempt_identity a)"

definition attempts_ok :: "billing_db \<Rightarrow> bool" where
  "attempts_ok db \<longleftrightarrow>
     distinct (map attempt_key (db_attempts db)) \<and> (\<forall>a \<in> set (db_attempts db). attempt_checks a) \<and>
     (\<forall>a \<in> set (db_attempts db). \<forall>b \<in> set (db_attempts db). attempt_key a \<noteq> attempt_key b \<longrightarrow> \<not> attempt_clash a b)"

text \<open>
  How an attempt may change: it keeps what was requested, an approved attempt changes no more, and one that
  was declined or failed leaves that status only with a mark that it was reviewed.
\<close>

definition same_request :: "PaymentAttempt \<Rightarrow> PaymentAttempt \<Rightarrow> bool" where
  "same_request a b \<longleftrightarrow>
     attempt_identity b = attempt_identity a \<and>
     (attempt_request b)\<lparr>request_target := request_target (attempt_request a)\<rparr> = attempt_request a \<and>
     PaymentAttempt_kind b = PaymentAttempt_kind a \<and>
     target_plan_key (request_target (attempt_request b)) = target_plan_key (request_target (attempt_request a)) \<and>
     target_period (request_target (attempt_request b)) = target_period (request_target (attempt_request a)) \<and>
     target_host_charge_target_id (request_target (attempt_request b)) =
       target_host_charge_target_id (request_target (attempt_request a)) \<and>
     attempt_created_at b = attempt_created_at a"

abbreviation attempt_reviewed_at :: "PaymentAttempt \<Rightarrow> datetime option" where
  "attempt_reviewed_at a \<equiv> stamp_review_required_at (state_timestamps (attempt_state a))"

definition attempt_evolves :: "PaymentAttempt \<Rightarrow> PaymentAttempt \<Rightarrow> bool" where
  "attempt_evolves a b \<longleftrightarrow>
     same_request a b \<and>
     (PaymentAttempt_status a = PaymentAttemptStatus.Approved \<longrightarrow> b = a) \<and>
     (attempt_reviewed_at a \<noteq> None \<longrightarrow> attempt_reviewed_at b = attempt_reviewed_at a) \<and>
     (PaymentAttemptStatus_is_terminal (PaymentAttempt_status a) \<and> PaymentAttempt_status b \<noteq> PaymentAttempt_status a \<longrightarrow>
        attempt_reviewed_at b \<noteq> None)"

definition attempts_evolve :: "billing_db \<Rightarrow> billing_db \<Rightarrow> bool" where
  "attempts_evolve db db' \<longleftrightarrow> list_all2 attempt_evolves (db_attempts db) (db_attempts db')"

lemma same_request_refl [simp]: "same_request a a"
  by (simp add: same_request_def)

lemma same_request_trans: "same_request a b \<Longrightarrow> same_request b c \<Longrightarrow> same_request a c"
  by (cases "attempt_request a"; cases "attempt_request b"; cases "attempt_request c") (simp add: same_request_def)

lemma attempt_evolves_refl [simp]: "attempt_evolves a a"
  by (simp add: attempt_evolves_def)

lemma attempt_evolves_trans: "attempt_evolves a b \<Longrightarrow> attempt_evolves b c \<Longrightarrow> attempt_evolves a c"
  unfolding attempt_evolves_def using same_request_trans by metis

lemma attempts_evolve_refl [simp]: "attempts_evolve db db"
  by (simp add: attempts_evolve_def list_all2_refl)

lemma attempts_evolve_trans: "attempts_evolve a b \<Longrightarrow> attempts_evolve b c \<Longrightarrow> attempts_evolve a c"
  unfolding attempts_evolve_def by (rule list_all2_trans [of attempt_evolves attempt_evolves attempt_evolves])
    (use attempt_evolves_trans in blast)+

lemma clash_syms:
  "same_gateway_transaction a b \<longleftrightarrow> same_gateway_transaction b a"
  "same_initial_inflight a b \<longleftrightarrow> same_initial_inflight b a"
  "same_host_charge a b \<longleftrightarrow> same_host_charge b a"
  "same_billing_inflight a b \<longleftrightarrow> same_billing_inflight b a"
  "same_billing_period a b \<longleftrightarrow> same_billing_period b a"
  "same_method_update a b \<longleftrightarrow> same_method_update b a"
  unfolding same_gateway_transaction_def same_initial_inflight_def same_host_charge_def
      same_billing_inflight_def same_billing_period_def same_method_update_def by metis+

lemma attempt_clash_sym: "attempt_clash a b \<longleftrightarrow> attempt_clash b a"
  unfolding attempt_clash_def using clash_syms by blast

lemma update_attempt_cases:
  assumes "update_attempt i hit f db = Ok (affected, db')"
  obtains (missed) "\<not> affected" "db' = db" "\<forall>a \<in> set (db_attempts db). attempt_key a = i \<longrightarrow> \<not> hit a"
  | (hit) a a' where "affected" "a \<in> set (db_attempts db)" "attempt_key a = i" "hit a" "f a = Some a'" "attempt_checks a'"
      "\<forall>b \<in> set (db_attempts db). attempt_key b \<noteq> i \<longrightarrow> \<not> attempt_clash a' b"
      "db' = update_attempts (\<lambda>b. attempt_key b = i) (\<lambda>_. a') db"
proof (cases "find (\<lambda>a. attempt_key a = i \<and> hit a) (db_attempts db)")
  case None
  then have "\<forall>a \<in> set (db_attempts db). attempt_key a = i \<longrightarrow> \<not> hit a" by (auto simp: find_None_iff)
  moreover have "\<not> affected" "db' = db" using assms None by (simp_all add: update_attempt_def)
  ultimately show ?thesis using missed by blast
next
  case (Some a)
  then have a: "a \<in> set (db_attempts db)" "attempt_key a = i" "hit a"
    by (auto simp: find_Some_iff)
  from assms Some obtain a' where a': "f a = Some a'" "attempt_checks a'"
    "\<not> list_ex (\<lambda>b. attempt_key b \<noteq> i \<and> attempt_clash a' b) (db_attempts db)" "affected"
    "db' = update_attempts (\<lambda>b. attempt_key b = i) (\<lambda>_. a') db"
    by (simp add: update_attempt_def split: option.splits if_splits)
  from a'(3) have "\<forall>b \<in> set (db_attempts db). attempt_key b \<noteq> i \<longrightarrow> \<not> attempt_clash a' b"
    by (auto simp: list_ex_iff)
  with a a' show ?thesis using hit by blast
qed

lemma attempts_ok_key_eq:
  "attempts_ok db \<Longrightarrow> a \<in> set (db_attempts db) \<Longrightarrow> b \<in> set (db_attempts db) \<Longrightarrow> attempt_key a = attempt_key b \<Longrightarrow> a = b"
  unfolding attempts_ok_def by (meson eq_key_imp_eq_value distinct_map inj_onD)

lemma attempts_ok_period_once:
  assumes ok: "attempts_ok db" and "a \<in> set (db_attempts db)" "b \<in> set (db_attempts db)" "same_billing_period a b"
  shows "a = b"
proof -
  have "attempt_clash a b" using assms(4) by (simp add: attempt_clash_def)
  then have "attempt_key a = attempt_key b" using assms(1-3) by (auto simp: attempts_ok_def)
  with attempts_ok_key_eq [OF ok] assms(2,3) show ?thesis by blast
qed

lemma update_attempt_keeps:
  assumes ok: "attempts_ok db" and run: "update_attempt i hit f db = Ok (affected, db')"
    and step: "\<And>a a'. a \<in> set (db_attempts db) \<Longrightarrow> attempt_key a = i \<Longrightarrow> hit a \<Longrightarrow> f a = Some a' \<Longrightarrow> attempt_evolves a a'"
  shows "attempts_ok db' \<and> attempts_evolve db db'"
  using run
proof (cases rule: update_attempt_cases)
  case missed
  then show ?thesis using ok by simp
next
  case (hit a a')
  have evolves: "attempt_evolves a a'" using step hit by blast
  then have key: "attempt_key a' = i" using hit by (simp add: attempt_evolves_def same_request_def)
  let ?g = "\<lambda>b. if attempt_key b = i then a' else b"
  have rows: "db_attempts db' = map ?g (db_attempts db)" using hit by simp
  have keys: "map attempt_key (db_attempts db') = map attempt_key (db_attempts db)"
    using key by (simp add: rows)
  have origin: "b = a' \<or> b \<in> set (db_attempts db) \<and> attempt_key b \<noteq> i" if "b \<in> set (db_attempts db')" for b
    using that by (auto simp: rows split: if_splits)
  have clash: "\<not> attempt_clash b c" if "b \<in> set (db_attempts db')" "c \<in> set (db_attempts db')"
    "attempt_key b \<noteq> attempt_key c" for b c
    using origin [OF that(1)] origin [OF that(2)] that(3) hit(7) ok key attempt_clash_sym
    unfolding attempts_ok_def by metis
  have "attempts_ok db'"
    unfolding attempts_ok_def using ok keys clash origin hit(6) unfolding attempts_ok_def by metis
  moreover have "attempt_evolves b (?g b)" if "b \<in> set (db_attempts db)" for b
    using evolves attempts_ok_key_eq [OF ok that hit(2)] hit(3) by auto
  then have "attempts_evolve db db'"
    unfolding attempts_evolve_def rows by (simp add: list_all2_map2 list.rel_refl_strong list_all2_same)
  ultimately show ?thesis ..
qed

lemma link_target_same:
  assumes "link_target s m t = Some t'"
  shows "target_attempt_kind t' = target_attempt_kind t \<and> target_plan_key t' = target_plan_key t \<and>
    target_period t' = target_period t \<and> target_host_charge_target_id t' = target_host_charge_target_id t"
  using assms by (cases "(s, m, t)" rule: link_target.cases) (auto split: if_splits option.splits)

lemma late_review_evolves:
  assumes "PaymentAttempt_status a \<noteq> PaymentAttemptStatus.Approved"
  shows "attempt_evolves a (late_review_row clock e code message a)"
  using assms by (auto simp: attempt_evolves_def same_request_def late_review_row_def PaymentAttempt_kind_def
      PaymentAttempt_status_def coalesced_def)

lemma transition_row_evolves:
  assumes "transition_row clock e status code s m a = Some a'"
    and "PaymentAttemptStatus_is_resolvable (PaymentAttempt_status a)"
  shows "attempt_evolves a a'"
proof -
  from assms(1) obtain t where t: "link_target s m (request_target (attempt_request a)) = Some t"
    by (auto simp: transition_row_def)
  have "\<not> PaymentAttemptStatus_is_terminal (PaymentAttempt_status a)"
    using assms(2) by (auto simp: PaymentAttemptStatus_is_terminal_def PaymentAttemptStatus_is_resolvable_def)
  then show ?thesis
    using assms(1) link_target_same [OF t]
    by (auto simp: transition_row_def t attempt_evolves_def same_request_def PaymentAttempt_kind_def
        PaymentAttempt_status_def coalesced_def PaymentAttemptStatus_is_terminal_def)
qed

lemma set_submitted_evolves:
  "PaymentAttempt_status a \<noteq> PaymentAttemptStatus.Approved \<Longrightarrow> attempt_evolves a (set_submitted_at t clock a)"
  by (auto simp: attempt_evolves_def same_request_def set_submitted_at_def PaymentAttempt_kind_def
      PaymentAttempt_status_def)

lemma close_attempt_evolves:
  "PaymentAttempt_status a = PaymentAttemptStatus.Pending \<Longrightarrow> attempt_evolves a (close_attempt c t x r u a)"
  by (auto simp: attempt_evolves_def same_request_def close_attempt_def PaymentAttempt_kind_def
      PaymentAttempt_status_def PaymentAttemptStatus_is_terminal_def)

section \<open>The contract of an operation on attempts\<close>

locale attempt_operation =
  fixes run :: "billing_db \<Rightarrow> billing_db option"
  assumes keeps: "attempts_ok db \<Longrightarrow> run db = Some db' \<Longrightarrow> attempts_ok db' \<and> attempts_evolve db db'"
begin

text \<open>What a client of any such operation may rely on.\<close>

lemma approved_stays:
  assumes "attempts_ok db" and "run db = Some db'" and "a \<in> set (db_attempts db)"
    and "PaymentAttempt_status a = PaymentAttemptStatus.Approved"
  shows "a \<in> set (db_attempts db')"
proof -
  have "list_all2 attempt_evolves (db_attempts db) (db_attempts db')"
    using keeps assms(1,2) by (simp add: attempts_evolve_def)
  with assms(3) obtain b where "b \<in> set (db_attempts db')" "attempt_evolves a b"
    by (metis in_set_conv_nth list_all2_conv_all_nth)
  with assms(4) show ?thesis by (simp add: attempt_evolves_def)
qed

lemma period_charged_once:
  assumes "attempts_ok db" and "run db = Some db'" and "a \<in> set (db_attempts db')" and "b \<in> set (db_attempts db')"
    and "same_billing_period a b"
  shows "a = b"
  using attempts_ok_period_once keeps assms by blast

end

lemma require_one_row_Ok: "require_one_row r = Ok db \<longleftrightarrow> r = Ok (True, db)"
  by (auto simp: require_one_row_def and_then_Inr_iff split: if_splits)

lemma transition_evolves:
  assumes "transition_from t a" and "transition_to clock e t a = Some a'"
  shows "attempt_evolves a a'"
  using assms late_review_evolves transition_row_evolves
  by (cases "(clock, e, t, a)" rule: transition_to.cases) auto

lemma persist_keeps:
  assumes ok: "attempts_ok db" and run: "persist_attempt_transition clock attempt e t db = Ok db'"
  shows "attempts_ok db' \<and> attempts_evolve db db'"
proof -
  have "update_attempt (attempt_key attempt) (transition_from t) (transition_to clock e t) db = Ok (True, db')"
    using run by (simp add: persist_attempt_transition_def require_one_row_Ok)
  then show ?thesis by (rule update_attempt_keeps [OF ok]) (use transition_evolves in blast)
qed

lemma reload_attempt_Ok:
  "reload_attempt attempt db = Ok (a, db') \<Longrightarrow> db' = db \<and> a \<in> set (db_attempts db) \<and> attempt_key a = attempt_key attempt"
  by (auto simp: reload_attempt_def find_payment_attempt_by_id_def ok_or_Inr_iff find_Some_iff)

lemma admit_keeps:
  assumes ok: "attempts_ok db" and run: "admit_prepared_attempt clock attempt db = Ok (a, db')"
  shows "attempts_ok db' \<and> attempts_evolve db db'"
proof -
  have "update_attempt (attempt_key attempt)
      (\<lambda>a. PaymentAttempt_status a = PaymentAttemptStatus.Pending \<and> attempt_submitted_at a = None)
      (Some \<circ> set_submitted_at (Some clock) clock) db = Ok (True, db')"
    using run reload_attempt_Ok
    by (auto simp: admit_prepared_attempt_def and_then_Inr_iff require_one_row_Ok)
  then show ?thesis by (rule update_attempt_keeps [OF ok]) (auto intro: set_submitted_evolves)
qed

lemma reject_keeps:
  assumes ok: "attempts_ok db" and run: "reject_prepared_attempt clock attempt code message db = Ok (a, db')"
  shows "attempts_ok db' \<and> attempts_evolve db db'"
proof -
  obtain affected where "update_attempt (attempt_key attempt)
      (\<lambda>a. PaymentAttempt_status a = PaymentAttemptStatus.Pending \<and> attempt_submitted_at a = None)
      (\<lambda>a. Some (close_attempt (Some code) (Some (GatewayDiagnostic message)) (attempt_condition a)
        (coalesced (attempt_resolved_at a) clock) clock a)) db = Ok (affected, db')"
    using run by (auto simp: reject_prepared_attempt_def and_then_Inr_iff dest!: reload_attempt_Ok)
  then show ?thesis by (rule update_attempt_keeps [OF ok]) (auto intro: close_attempt_evolves)
qed

definition ran :: "('a \<times> billing_db, 'e) result \<Rightarrow> billing_db option" where
  "ran r = (case r of Inl _ \<Rightarrow> None | Inr (_, db) \<Rightarrow> Some db)"

lemma ran_Some [simp]: "ran r = Some db \<longleftrightarrow> (\<exists>x. r = Ok (x, db))"
  by (auto simp: ran_def split: sum.splits)

interpretation transition: attempt_operation
  "\<lambda>db. ran (map_sum id (Pair ()) (persist_attempt_transition clock attempt e t db))" for clock attempt e t
  by unfold_locales (use persist_keeps in auto)

interpretation admission: attempt_operation "\<lambda>db. ran (admit_prepared_attempt clock attempt db)" for clock attempt
  by unfold_locales (use admit_keeps in auto)

interpretation rejection: attempt_operation "\<lambda>db. ran (reject_prepared_attempt clock attempt code message db)"
  for clock attempt code message
  by unfold_locales (use reject_keeps in auto)

section \<open>Histories\<close>

inductive attempt_step :: "billing_db \<Rightarrow> billing_db \<Rightarrow> bool" where
  transition: "persist_attempt_transition clock attempt e t db = Ok db' \<Longrightarrow> attempt_step db db'"
| admission: "admit_prepared_attempt clock attempt db = Ok (a, db') \<Longrightarrow> attempt_step db db'"
| rejection: "reject_prepared_attempt clock attempt code message db = Ok (a, db') \<Longrightarrow> attempt_step db db'"

lemma attempt_steps_keep:
  assumes "attempt_step\<^sup>*\<^sup>* db db'" and "attempts_ok db"
  shows "attempts_ok db' \<and> attempts_evolve db db'"
  using assms(1)
proof (induction rule: rtranclp_induct)
  case base
  with assms(2) show ?case by simp
next
  case (step db1 db2)
  then have "attempts_ok db1" "attempts_evolve db db1" by simp_all
  moreover have "attempts_ok db2 \<and> attempts_evolve db1 db2"
    using step(2) \<open>attempts_ok db1\<close> by cases (use persist_keeps admit_keeps reject_keeps in blast)+
  ultimately show ?case using attempts_evolve_trans by blast
qed

text \<open>C13.  Over any sequence of transitions, admissions and rejections of attempts: the table keeps its
  constraints, so that one billing period of a subscription never has two open or approved charges;
  an approved attempt never changes again; every attempt keeps its identity, amount, order, plan and
  period; and an attempt that was declined or failed leaves that status only marked for review.\<close>

theorem attempts_never_reopen_silently:
  assumes ok: "attempts_ok db" and steps: "attempt_step\<^sup>*\<^sup>* db db'"
  shows "attempts_ok db' \<and> length (db_attempts db') = length (db_attempts db) \<and>
    (\<forall>a \<in> set (db_attempts db'). \<forall>b \<in> set (db_attempts db'). same_billing_period a b \<longrightarrow> a = b) \<and>
    (\<forall>n < length (db_attempts db). let a = db_attempts db ! n; b = db_attempts db' ! n in
       same_request a b \<and>
       (PaymentAttempt_status a = PaymentAttemptStatus.Approved \<longrightarrow> b = a) \<and>
       (PaymentAttemptStatus_is_terminal (PaymentAttempt_status a) \<and> PaymentAttempt_status b \<noteq> PaymentAttempt_status a \<longrightarrow>
          attempt_reviewed_at b \<noteq> None))"
proof -
  have kept: "attempts_ok db'" "attempts_evolve db db'" using attempt_steps_keep [OF steps ok] by simp_all
  moreover note attempts_ok_period_once [OF kept(1)]
  moreover have "attempt_evolves (db_attempts db ! n) (db_attempts db' ! n)" if "n < length (db_attempts db)" for n
    using kept(2) that by (simp add: attempts_evolve_def list_all2_conv_all_nth)
  ultimately show ?thesis
    unfolding Let_def attempt_evolves_def attempts_evolve_def by (auto simp: list_all2_lengthD [symmetric])
qed

definition sample_open_db :: billing_db where
  "sample_open_db = sample_dunning_db\<lparr>db_attempts := [sample_open_renewal]\<rparr>"

definition sample_approval :: AttemptTransition where
  "sample_approval = AttemptTransition.Approved (AttemptApproval.Subscription (SubscriptionId 5) (PaymentMethodId 6))"

definition sample_approved_renewal :: PaymentAttempt where
  "sample_approved_renewal = sample_open_renewal\<lparr>attempt_state := (attempt_state sample_open_renewal)
     \<lparr>state_status := PaymentAttemptStatus.Approved,
      state_timestamps := (state_timestamps (attempt_state sample_open_renewal))
        \<lparr>stamp_resolved_at := Some 130, stamp_updated_at := 130\<rparr>\<rparr>\<rparr>"

lemma sample_open_db_ok: "attempts_ok sample_open_db"
  by (simp add: attempts_ok_def sample_open_db_def attempt_checks_def relationship_shape_check_def gateway_text_check_def
      resolved_state_check_def review_required_at_check_def timestamp_order_check_def within_column_def
      sample_open_renewal_def sample_renewal_def PaymentAttempt_status_def ProcessorEvidence_default_def
      GatewayPaymentDescriptor_from_provider_parts_def PaymentAttemptStatus_is_terminal_def is_none_or_def)

lemma sample_approval_step:
  "persist_attempt_transition 130 sample_open_renewal (state_processor_evidence (attempt_state sample_open_renewal))
     sample_approval sample_open_db = Ok (sample_open_db\<lparr>db_attempts := [sample_approved_renewal]\<rparr>)"
  by (simp add: persist_attempt_transition_def require_one_row_def update_attempt_def update_attempts_def sample_open_db_def
      sample_approval_def sample_approved_renewal_def transition_row_def coalesced_def
      attempt_checks_def relationship_shape_check_def gateway_text_check_def
      resolved_state_check_def review_required_at_check_def timestamp_order_check_def within_column_def
      sample_open_renewal_def sample_renewal_def PaymentAttempt_status_def ProcessorEvidence_default_def
      GatewayPaymentDescriptor_from_provider_parts_def PaymentAttemptStatus_is_terminal_def
      PaymentAttemptStatus_is_resolvable_def is_none_or_def)

theorem attempts_never_reopen_silently_witness:
  "attempts_ok sample_open_db \<and>
   attempt_step\<^sup>*\<^sup>* sample_open_db (sample_open_db\<lparr>db_attempts := [sample_approved_renewal]\<rparr>) \<and>
   attempts_ok (sample_open_db\<lparr>db_attempts := [sample_approved_renewal]\<rparr>)"
proof -
  have steps: "attempt_step\<^sup>*\<^sup>* sample_open_db (sample_open_db\<lparr>db_attempts := [sample_approved_renewal]\<rparr>)"
    using sample_approval_step by (blast intro: attempt_step.transition)
  with attempts_never_reopen_silently [OF sample_open_db_ok steps] sample_open_db_ok show ?thesis by blast
qed

section \<open>A text that does not fit\<close>

text \<open>
  The statement of a late review cuts its text after 512 characters, the column holds 512 octets: when
  the stored text is not ASCII, the attempt of a late approval cannot be marked for review.
\<close>

lemma late_review_text_overflows:
  assumes "byte_len (message @ lit '' '' @ t) > 512" and "length (message @ lit '' '' @ t) \<le> 512"
  shows "\<not> attempt_checks (late_review_row clock (e\<lparr>evidence_response_text := Some (GatewayDiagnostic t)\<rparr>) code message a)"
  using assms by (simp add: attempt_checks_def gateway_text_check_def late_review_row_def late_review_text_def
      within_column_def is_none_or_def Let_def)

lemma late_review_refused:
  assumes "a \<in> set (db_attempts db)" "attempt_key a = attempt_key attempt"
    and "PaymentAttempt_status a \<noteq> PaymentAttemptStatus.Approved"
    and "byte_len (message @ lit '' '' @ t) > 512" and "length (message @ lit '' '' @ t) \<le> 512"
  shows "persist_attempt_transition clock attempt (e\<lparr>evidence_response_text := Some (GatewayDiagnostic t)\<rparr>)
    (LateApprovalReview code message) db = Err attempt_violates_check"
proof -
  obtain b where "find (\<lambda>a. attempt_key a = attempt_key attempt \<and> PaymentAttempt_status a \<noteq> PaymentAttemptStatus.Approved)
      (db_attempts db) = Some b"
    using assms(1-3) by (cases "find (\<lambda>a. attempt_key a = attempt_key attempt \<and>
      PaymentAttempt_status a \<noteq> PaymentAttemptStatus.Approved) (db_attempts db)") (auto simp: find_None_iff)
  with late_review_text_overflows [OF assms(4,5)] show ?thesis
    by (simp add: persist_attempt_transition_def require_one_row_def update_attempt_def)
qed

lemma late_review_refused_example:
  "persist_attempt_transition 130 sample_open_renewal
     (ProcessorEvidence_default\<lparr>evidence_response_text := Some (GatewayDiagnostic (replicate 250 233))\<rparr>)
     (LateApprovalReview None (lit ''Late approval.'')) sample_open_db = Err attempt_violates_check"
  by (rule late_review_refused [of sample_open_renewal])
     (simp_all add: sample_open_db_def sample_open_renewal_def PaymentAttempt_status_def byte_len_def utf8_bytes_def
        lit_def map_replicate_const sum_list_replicate length_concat utf8_encode_scalar.simps)

end
