(* ===== verification/Reservations.thy ===== *)
theory Reservations
  imports Billing_Store
begin

text \<open>
  The authority to apply one exact payment: the reservations of \<open>renewal.rs\<close>, \<open>recovery.rs\<close>,
  \<open>payment_method_update.rs\<close> and \<open>enrollment.rs\<close> of \<open>crates/syrup-rail/src\<close>, built from terms read
  under the lock of a subscription or rebuilt from a stored attempt.  The factory of order references is an
  object of the host: a function of the resolved gateway.
\<close>

section \<open>Gateways and commands\<close>

text \<open>\<open>resolver.rs\<close>, without the connection to the provider and its query policy.\<close>

record ResolvedGateway =
  resolved_billing_scope_id :: BillingScopeId
  resolved_gateway_account_id :: GatewayAccountId
  resolved_gateway_configuration_id :: GatewayConfigurationId
  resolved_provider_key :: GatewayProviderKey
  resolved_for_attempt :: "PaymentAttemptKind \<Rightarrow> PaymentAttemptId \<Rightarrow> GatewayOrderId"

record SubscriptionPaymentContext =
  context_attempt_id :: PaymentAttemptId
  context_billing_scope_id :: BillingScopeId
  context_subscriber_id :: SubscriberId
  context_gateway_configuration_id :: GatewayConfigurationId
  context_idempotency_key :: IdempotencyKey
  context_payment_token :: PaymentToken
  context_billing_contact :: BillingContact

record RecoverSubscriptionPayment =
  recover_context :: SubscriptionPaymentContext
  recover_plan_key :: PlanKey

record ReplaceSubscriptionPaymentMethod =
  replace_context :: SubscriptionPaymentContext
  replace_plan_key :: PlanKey

record EnrollSubscription =
  enroll_context :: SubscriptionPaymentContext
  enroll_expected_terms :: SubscriptionEnrollmentExpectedTerms

definition gateway_of_context :: "ResolvedGateway \<Rightarrow> SubscriptionPaymentContext \<Rightarrow> bool" where
  "gateway_of_context gateway ctxt \<longleftrightarrow>
     resolved_billing_scope_id gateway = context_billing_scope_id ctxt \<and>
     resolved_gateway_configuration_id gateway = context_gateway_configuration_id ctxt"

section \<open>Renewals\<close>

datatype SubscriptionRenewalReservationBuildError =
    GatewayIdentityMismatch
  | AttemptKindMismatch
  | InvalidPaymentState
  | InvalidCharge
  | InvalidIdempotencyKey

record SubscriptionRenewalLockedTerms =
  renewal_terms_gateway_account_id :: GatewayAccountId
  renewal_terms_expected_state :: SubscriptionPaymentStateSnapshot
  renewal_terms_period :: BillingPeriod
  renewal_terms_charge :: ChargeAmount
  renewal_terms_attempt_sequence_count :: int
  renewal_terms_billing_address :: "BillingAddress option"

definition SubscriptionRenewalLockedTerms_new ::
    "GatewayAccountId \<Rightarrow> SubscriptionPaymentStateSnapshot \<Rightarrow> BillingPeriod \<Rightarrow> ChargeAmount \<Rightarrow> int \<Rightarrow>
     SubscriptionRenewalLockedTerms" where
  "SubscriptionRenewalLockedTerms_new account expected period charge count =
     \<lparr>renewal_terms_gateway_account_id = account, renewal_terms_expected_state = expected,
      renewal_terms_period = period, renewal_terms_charge = charge,
      renewal_terms_attempt_sequence_count = count, renewal_terms_billing_address = None\<rparr>"

definition renewal_terms_with_billing_address ::
    "SubscriptionRenewalLockedTerms \<Rightarrow> BillingAddress \<Rightarrow> SubscriptionRenewalLockedTerms" where
  "renewal_terms_with_billing_address self address = self\<lparr>renewal_terms_billing_address := Some address\<rparr>"

text \<open>The three reservations of later payments have the same fields.\<close>

record later_reservation =
  reserved_identity :: PaymentAttemptIdentity
  reserved_provider_key :: GatewayProviderKey
  reserved_request :: PaymentAttemptRequest

type_synonym SubscriptionRenewalReservation = later_reservation
type_synonym SubscriptionRecoveryReservation = later_reservation
type_synonym SubscriptionPaymentMethodReplacement = later_reservation

definition renewal_from_locked_subscription_terms ::
    "displays \<Rightarrow> ChargeRenewal \<Rightarrow> ResolvedGateway \<Rightarrow> PaymentAttemptId \<Rightarrow> SubscriberId \<Rightarrow> PlanKey \<Rightarrow>
     SubscriptionRenewalLockedTerms \<Rightarrow> GatewayAccountMode \<Rightarrow>
     (SubscriptionRenewalReservation, SubscriptionRenewalReservationBuildError) result" where
  "renewal_from_locked_subscription_terms d command gateway attempt_id subscriber_id plan_key terms required_mode =
     (let expected = renewal_terms_expected_state terms; period = renewal_terms_period terms;
          charge = renewal_terms_charge terms in
      if resolved_billing_scope_id gateway \<noteq> charge_renewal_billing_scope_id command \<or>
         renewal_terms_gateway_account_id terms \<noteq> resolved_gateway_account_id gateway
      then Err SubscriptionRenewalReservationBuildError.GatewayIdentityMismatch
      else if payment_state_subscription_id expected \<noteq> charge_renewal_subscription_id command
      then Err SubscriptionRenewalReservationBuildError.InvalidPaymentState
      else and_then (map_err (\<lambda>_. InvalidIdempotencyKey) (renewal_attempt_idempotency_key d
          (charge_renewal_subscription_id command) (charge_renewal_period_start_at command)
          (renewal_terms_attempt_sequence_count terms)))
      (\<lambda>key. Ok
        \<lparr>reserved_identity = \<lparr>identity_attempt_id = attempt_id,
           identity_billing_scope_id = charge_renewal_billing_scope_id command,
           identity_subscriber_id = subscriber_id,
           identity_gateway_account_id = renewal_terms_gateway_account_id terms,
           identity_gateway_configuration_id = resolved_gateway_configuration_id gateway,
           identity_required_gateway_account_mode = required_mode\<rparr>,
         reserved_provider_key = resolved_provider_key gateway,
         reserved_request = \<lparr>request_target = SubscriptionRenewal plan_key
             (payment_state_payment_method_id expected) period expected,
           request_idempotency_key = key,
           request_fingerprint = for_subscription_renewal d plan_key (charge_renewal_subscription_id command)
             (payment_state_payment_method_id expected) (period_start_at period) (ChargeAmount_money charge),
           request_amount = ChargeAmount_money charge,
           request_gateway_order_id = resolved_for_attempt gateway PaymentAttemptKind.SubscriptionRenewal attempt_id,
           request_billing_contact = (case renewal_terms_billing_address terms of
               Some address \<Rightarrow> contact_snapshot_with_address (BillingContactSnapshot_new None None) address
             | None \<Rightarrow> BillingContactSnapshot_new None None)\<rparr>\<rparr>))"

definition renewal_from_locked_subscription ::
    "displays \<Rightarrow> ChargeRenewal \<Rightarrow> ResolvedGateway \<Rightarrow> PaymentAttemptId \<Rightarrow> SubscriberId \<Rightarrow> PlanKey \<Rightarrow> PaymentMethodId \<Rightarrow>
     GatewayTransactionId \<Rightarrow> SubscriptionStatus \<Rightarrow> BillingPeriod \<Rightarrow> ChargeAmount \<Rightarrow> int \<Rightarrow> GatewayAccountMode \<Rightarrow>
     (SubscriptionRenewalReservation, SubscriptionRenewalReservationBuildError) result" where
  "renewal_from_locked_subscription d command gateway attempt_id subscriber_id plan_key method_id initial_id status
     period charge count required_mode =
     (if resolved_billing_scope_id gateway \<noteq> charge_renewal_billing_scope_id command
      then Err SubscriptionRenewalReservationBuildError.GatewayIdentityMismatch
      else and_then (map_err (\<lambda>_. SubscriptionRenewalReservationBuildError.InvalidPaymentState)
          (SubscriptionPaymentStateSnapshot_new (charge_renewal_subscription_id command) method_id initial_id status))
        (\<lambda>expected. renewal_from_locked_subscription_terms d command gateway attempt_id subscriber_id plan_key
           (SubscriptionRenewalLockedTerms_new (resolved_gateway_account_id gateway) expected period charge count)
           required_mode))"

definition renewal_from_attempt ::
    "displays \<Rightarrow> PaymentAttempt \<Rightarrow> GatewayProviderKey \<Rightarrow>
     (SubscriptionRenewalReservation, SubscriptionRenewalReservationBuildError) result" where
  "renewal_from_attempt d attempt provider_key =
     (let request = attempt_request attempt in
      case request_target request of
        SubscriptionRenewal plan_key method_id period expected \<Rightarrow>
          and_then (map_err (\<lambda>_. SubscriptionRenewalReservationBuildError.InvalidCharge)
              (ChargeAmount_try_from (request_amount request)))
          (\<lambda>_. if \<not> matches_subscription_renewal d (request_fingerprint request) plan_key
                (payment_state_subscription_id expected) method_id (period_start_at period) (request_amount request)
             then Err SubscriptionRenewalReservationBuildError.AttemptKindMismatch
             else Ok \<lparr>reserved_identity = attempt_identity attempt, reserved_provider_key = provider_key,
                      reserved_request = request\<rparr>)
      | _ \<Rightarrow> Err SubscriptionRenewalReservationBuildError.AttemptKindMismatch)"

section \<open>Recoveries\<close>

datatype SubscriptionRecoveryReservationBuildError =
    GatewayIdentityMismatch
  | AttemptKindMismatch
  | InvalidPaymentState
  | InvalidCharge

record SubscriptionRecoveryLockedTerms =
  recovery_terms_gateway_account_id :: GatewayAccountId
  recovery_terms_expected_state :: SubscriptionPaymentStateSnapshot
  recovery_terms_period :: BillingPeriod
  recovery_terms_charge :: ChargeAmount

definition recovery_from_locked_subscription_terms ::
    "displays \<Rightarrow> RecoverSubscriptionPayment \<Rightarrow> ResolvedGateway \<Rightarrow> PaymentAttemptId \<Rightarrow>
     SubscriptionRecoveryLockedTerms \<Rightarrow> GatewayAccountMode \<Rightarrow>
     (SubscriptionRecoveryReservation, SubscriptionRecoveryReservationBuildError) result" where
  "recovery_from_locked_subscription_terms d command gateway attempt_id terms required_mode =
     (let ctxt = recover_context command; expected = recovery_terms_expected_state terms;
          period = recovery_terms_period terms; charge = recovery_terms_charge terms in
      if \<not> gateway_of_context gateway ctxt \<or>
         recovery_terms_gateway_account_id terms \<noteq> resolved_gateway_account_id gateway
      then Err SubscriptionRecoveryReservationBuildError.GatewayIdentityMismatch
      else Ok
        \<lparr>reserved_identity = \<lparr>identity_attempt_id = attempt_id,
           identity_billing_scope_id = context_billing_scope_id ctxt,
           identity_subscriber_id = context_subscriber_id ctxt,
           identity_gateway_account_id = recovery_terms_gateway_account_id terms,
           identity_gateway_configuration_id = resolved_gateway_configuration_id gateway,
           identity_required_gateway_account_mode = required_mode\<rparr>,
         reserved_provider_key = resolved_provider_key gateway,
         reserved_request = \<lparr>request_target = SubscriptionRecovery (recover_plan_key command)
             (payment_state_payment_method_id expected) period expected,
           request_idempotency_key = context_idempotency_key ctxt,
           request_fingerprint = for_subscription_recovery d (recover_plan_key command)
             (payment_state_subscription_id expected) (payment_state_payment_method_id expected)
             (period_start_at period) (ChargeAmount_money charge),
           request_amount = ChargeAmount_money charge,
           request_gateway_order_id = resolved_for_attempt gateway PaymentAttemptKind.SubscriptionRecovery attempt_id,
           request_billing_contact =
             BillingContactSnapshot_from_billing_contact (context_billing_contact ctxt)\<rparr>\<rparr>)"

definition recovery_from_locked_subscription ::
    "displays \<Rightarrow> RecoverSubscriptionPayment \<Rightarrow> ResolvedGateway \<Rightarrow> PaymentAttemptId \<Rightarrow> SubscriptionId \<Rightarrow>
     PaymentMethodId \<Rightarrow> GatewayTransactionId \<Rightarrow> SubscriptionStatus \<Rightarrow> BillingPeriod \<Rightarrow> ChargeAmount \<Rightarrow>
     GatewayAccountMode \<Rightarrow> (SubscriptionRecoveryReservation, SubscriptionRecoveryReservationBuildError) result" where
  "recovery_from_locked_subscription d command gateway attempt_id subscription_id method_id initial_id status period
     charge required_mode =
     (if \<not> gateway_of_context gateway (recover_context command)
      then Err SubscriptionRecoveryReservationBuildError.GatewayIdentityMismatch
      else and_then (map_err (\<lambda>_. SubscriptionRecoveryReservationBuildError.InvalidPaymentState)
          (SubscriptionPaymentStateSnapshot_new subscription_id method_id initial_id status))
        (\<lambda>expected. recovery_from_locked_subscription_terms d command gateway attempt_id
           \<lparr>recovery_terms_gateway_account_id = resolved_gateway_account_id gateway,
            recovery_terms_expected_state = expected, recovery_terms_period = period,
            recovery_terms_charge = charge\<rparr> required_mode))"

definition recovery_from_attempt ::
    "displays \<Rightarrow> PaymentAttempt \<Rightarrow> GatewayProviderKey \<Rightarrow>
     (SubscriptionRecoveryReservation, SubscriptionRecoveryReservationBuildError) result" where
  "recovery_from_attempt d attempt provider_key =
     (let request = attempt_request attempt in
      case request_target request of
        SubscriptionRecovery plan_key _ period expected \<Rightarrow>
          and_then (map_err (\<lambda>_. SubscriptionRecoveryReservationBuildError.InvalidCharge)
              (ChargeAmount_try_from (request_amount request)))
          (\<lambda>_. if \<not> matches_subscription_recovery d (request_fingerprint request) plan_key
                (payment_state_subscription_id expected) (payment_state_payment_method_id expected)
                (period_start_at period) (request_amount request)
             then Err SubscriptionRecoveryReservationBuildError.AttemptKindMismatch
             else Ok \<lparr>reserved_identity = attempt_identity attempt, reserved_provider_key = provider_key,
                      reserved_request = request\<rparr>)
      | _ \<Rightarrow> Err SubscriptionRecoveryReservationBuildError.AttemptKindMismatch)"

text \<open>A reservation of a recovery has a recovery as its target; \<open>None\<close> is the panic of \<open>unreachable!\<close>.\<close>

definition recovery_matches_submission ::
    "displays \<Rightarrow> SubscriptionRecoveryReservation \<Rightarrow> RecoverSubscriptionPayment \<Rightarrow> ResolvedGateway \<Rightarrow> bool option" where
  "recovery_matches_submission d self command gateway =
     (case ChargeAmount_try_from (request_amount (reserved_request self)) of
        Inl _ \<Rightarrow> Some False
      | Inr charge \<Rightarrow>
          (case (target_subscription_payment_state_snapshot (request_target (reserved_request self)),
                 target_period (request_target (reserved_request self))) of
             (Some expected, Some period) \<Rightarrow> Some (
               recovery_from_locked_subscription_terms d command gateway
                 (identity_attempt_id (reserved_identity self))
                 \<lparr>recovery_terms_gateway_account_id = identity_gateway_account_id (reserved_identity self),
                  recovery_terms_expected_state = expected, recovery_terms_period = period,
                  recovery_terms_charge = charge\<rparr>
                 (identity_required_gateway_account_mode (reserved_identity self)) = Ok self)
           | _ \<Rightarrow> None))"

section \<open>Replacements of a payment method\<close>

datatype SubscriptionPaymentMethodReplacementBuildError =
    GatewayIdentityMismatch
  | AttemptKindMismatch

record SubscriptionPaymentMethodReplacementLockedTerms =
  replacement_terms_gateway_account_id :: GatewayAccountId
  replacement_terms_expected_state :: PaymentMethodUpdateSnapshot
  replacement_terms_currency :: CurrencyCode

definition replacement_for_attempt ::
    "displays \<Rightarrow> ReplaceSubscriptionPaymentMethod \<Rightarrow> ResolvedGateway \<Rightarrow> PaymentAttemptId \<Rightarrow>
     SubscriptionPaymentMethodReplacementLockedTerms \<Rightarrow> GatewayAccountMode \<Rightarrow>
     (SubscriptionPaymentMethodReplacement, SubscriptionPaymentMethodReplacementBuildError) result" where
  "replacement_for_attempt d command gateway attempt_id terms required_mode =
     (let ctxt = replace_context command; expected = replacement_terms_expected_state terms in
      if \<not> gateway_of_context gateway ctxt \<or>
         replacement_terms_gateway_account_id terms \<noteq> resolved_gateway_account_id gateway
      then Err SubscriptionPaymentMethodReplacementBuildError.GatewayIdentityMismatch
      else Ok
        \<lparr>reserved_identity = \<lparr>identity_attempt_id = attempt_id,
           identity_billing_scope_id = context_billing_scope_id ctxt,
           identity_subscriber_id = context_subscriber_id ctxt,
           identity_gateway_account_id = replacement_terms_gateway_account_id terms,
           identity_gateway_configuration_id = resolved_gateway_configuration_id gateway,
           identity_required_gateway_account_mode = required_mode\<rparr>,
         reserved_provider_key = resolved_provider_key gateway,
         reserved_request = \<lparr>request_target = SubscriptionPaymentMethodUpdate (replace_plan_key command)
             (method_update_payment_method_id expected) expected,
           request_idempotency_key = context_idempotency_key ctxt,
           request_fingerprint = for_subscription_payment_method_update d (replace_plan_key command)
             (method_update_subscription_id expected) (method_update_payment_method_id expected)
             (method_update_expected_initial_transaction_id expected),
           request_amount = \<lparr>money_cents = 0, money_currency = replacement_terms_currency terms\<rparr>,
           request_gateway_order_id =
             resolved_for_attempt gateway PaymentAttemptKind.SubscriptionPaymentMethodUpdate attempt_id,
           request_billing_contact =
             BillingContactSnapshot_from_billing_contact (context_billing_contact ctxt)\<rparr>\<rparr>)"

definition replacement_from_locked_subscription_terms ::
    "displays \<Rightarrow> ReplaceSubscriptionPaymentMethod \<Rightarrow> ResolvedGateway \<Rightarrow>
     SubscriptionPaymentMethodReplacementLockedTerms \<Rightarrow> GatewayAccountMode \<Rightarrow>
     (SubscriptionPaymentMethodReplacement, SubscriptionPaymentMethodReplacementBuildError) result" where
  "replacement_from_locked_subscription_terms d command gateway terms required_mode =
     replacement_for_attempt d command gateway (context_attempt_id (replace_context command)) terms required_mode"

definition replacement_from_locked_subscription ::
    "displays \<Rightarrow> ReplaceSubscriptionPaymentMethod \<Rightarrow> ResolvedGateway \<Rightarrow> SubscriptionId \<Rightarrow> PaymentMethodId \<Rightarrow>
     GatewayTransactionId \<Rightarrow> CurrencyCode \<Rightarrow> GatewayAccountMode \<Rightarrow>
     (SubscriptionPaymentMethodReplacement, SubscriptionPaymentMethodReplacementBuildError) result" where
  "replacement_from_locked_subscription d command gateway subscription_id method_id initial_id currency required_mode =
     (if \<not> gateway_of_context gateway (replace_context command)
      then Err SubscriptionPaymentMethodReplacementBuildError.GatewayIdentityMismatch
      else replacement_from_locked_subscription_terms d command gateway
        \<lparr>replacement_terms_gateway_account_id = resolved_gateway_account_id gateway,
         replacement_terms_expected_state = \<lparr>method_update_subscription_id = subscription_id,
           method_update_payment_method_id = method_id,
           method_update_expected_initial_transaction_id = initial_id\<rparr>,
         replacement_terms_currency = currency\<rparr> required_mode)"

definition replacement_from_attempt ::
    "displays \<Rightarrow> PaymentAttempt \<Rightarrow> GatewayProviderKey \<Rightarrow>
     (SubscriptionPaymentMethodReplacement, SubscriptionPaymentMethodReplacementBuildError) result" where
  "replacement_from_attempt d attempt provider_key =
     (let request = attempt_request attempt in
      case request_target request of
        SubscriptionPaymentMethodUpdate plan_key _ expected \<Rightarrow>
          if money_cents (request_amount request) \<noteq> 0 \<or>
             \<not> matches_subscription_payment_method_update d (request_fingerprint request) plan_key expected
          then Err SubscriptionPaymentMethodReplacementBuildError.AttemptKindMismatch
          else Ok \<lparr>reserved_identity = attempt_identity attempt, reserved_provider_key = provider_key,
                   reserved_request = request\<rparr>
      | _ \<Rightarrow> Err SubscriptionPaymentMethodReplacementBuildError.AttemptKindMismatch)"

definition replacement_matches_submission ::
    "displays \<Rightarrow> SubscriptionPaymentMethodReplacement \<Rightarrow> ReplaceSubscriptionPaymentMethod \<Rightarrow> ResolvedGateway \<Rightarrow>
     bool option" where
  "replacement_matches_submission d self command gateway =
     map_option (\<lambda>expected.
       replacement_for_attempt d command gateway (identity_attempt_id (reserved_identity self))
         \<lparr>replacement_terms_gateway_account_id = identity_gateway_account_id (reserved_identity self),
          replacement_terms_expected_state = expected,
          replacement_terms_currency = money_currency (request_amount (reserved_request self))\<rparr>
         (identity_required_gateway_account_mode (reserved_identity self)) = Ok self)
     (target_payment_method_update_snapshot (request_target (reserved_request self)))"

section \<open>Enrollments\<close>

datatype SubscriptionEnrollmentReservationBuildError =
    GatewayIdentityMismatch
  | AttemptKindMismatch
  | InvalidCharge
  | InvalidTerms

record SubscriptionEnrollmentReservation =
  enrollment_identity :: PaymentAttemptIdentity
  enrollment_provider_key :: GatewayProviderKey
  enrollment_idempotency_key :: IdempotencyKey
  enrollment_gateway_order_id :: GatewayOrderId
  enrollment_billing_contact :: BillingContactSnapshot
  enrollment_expected_terms :: SubscriptionEnrollmentExpectedTerms

definition enrollment_from_command_for_attempt ::
    "EnrollSubscription \<Rightarrow> ResolvedGateway \<Rightarrow> PaymentAttemptId \<Rightarrow> GatewayAccountMode \<Rightarrow>
     (SubscriptionEnrollmentReservation, SubscriptionEnrollmentReservationBuildError) result" where
  "enrollment_from_command_for_attempt command gateway attempt_id required_mode =
     (let ctxt = enroll_context command in
      if \<not> gateway_of_context gateway ctxt
      then Err SubscriptionEnrollmentReservationBuildError.GatewayIdentityMismatch
      else Ok
        \<lparr>enrollment_identity = \<lparr>identity_attempt_id = attempt_id,
           identity_billing_scope_id = context_billing_scope_id ctxt,
           identity_subscriber_id = context_subscriber_id ctxt,
           identity_gateway_account_id = resolved_gateway_account_id gateway,
           identity_gateway_configuration_id = resolved_gateway_configuration_id gateway,
           identity_required_gateway_account_mode = required_mode\<rparr>,
         enrollment_provider_key = resolved_provider_key gateway,
         enrollment_idempotency_key = context_idempotency_key ctxt,
         enrollment_gateway_order_id =
           resolved_for_attempt gateway PaymentAttemptKind.SubscriptionInitial attempt_id,
         enrollment_billing_contact = BillingContactSnapshot_from_billing_contact (context_billing_contact ctxt),
         enrollment_expected_terms = enroll_expected_terms command\<rparr>)"

definition enrollment_from_command ::
    "EnrollSubscription \<Rightarrow> ResolvedGateway \<Rightarrow> GatewayAccountMode \<Rightarrow>
     (SubscriptionEnrollmentReservation, SubscriptionEnrollmentReservationBuildError) result" where
  "enrollment_from_command command gateway required_mode =
     enrollment_from_command_for_attempt command gateway (context_attempt_id (enroll_context command)) required_mode"

definition enrollment_from_attempt ::
    "PaymentAttempt \<Rightarrow> GatewayProviderKey \<Rightarrow>
     (SubscriptionEnrollmentReservation, SubscriptionEnrollmentReservationBuildError) result" where
  "enrollment_from_attempt attempt provider_key =
     (let request = attempt_request attempt in
      case request_target request of
        SubscriptionInitial _ offer_terms discount _ \<Rightarrow>
          map_sum id (\<lambda>expected_terms.
            \<lparr>enrollment_identity = attempt_identity attempt, enrollment_provider_key = provider_key,
             enrollment_idempotency_key = request_idempotency_key request,
             enrollment_gateway_order_id = request_gateway_order_id request,
             enrollment_billing_contact = request_billing_contact request,
             enrollment_expected_terms = expected_terms\<rparr>)
          (case discount of
             Some discount \<Rightarrow> map_err (\<lambda>_. InvalidTerms) (discounted offer_terms (enrolled_snapshot discount))
           | None \<Rightarrow> Ok (full_price offer_terms))
      | _ \<Rightarrow> Err SubscriptionEnrollmentReservationBuildError.AttemptKindMismatch)"

section \<open>Reservations survive storage\<close>

text \<open>The attempt that a reservation is stored as, whatever became of it.\<close>

definition stored_as :: "later_reservation \<Rightarrow> PaymentAttempt \<Rightarrow> bool" where
  "stored_as r attempt \<longleftrightarrow> attempt_identity attempt = reserved_identity r \<and> attempt_request attempt = reserved_request r"

text \<open>C15.  A reservation built from locked terms is rebuilt exactly from the attempt it was stored as, and
  the command and gateway that built it match it again: nothing that authorises the charge depends
  on memory.\<close>

theorem reservations_reconstruct:
  assumes charge: "ChargeAmount_wf (renewal_terms_charge renewal_terms)" "ChargeAmount_wf (recovery_terms_charge recovery_terms)"
    and renewal: "renewal_from_locked_subscription_terms d charge_renewal gateway attempt_id subscriber_id plan_key
      renewal_terms required_mode = Ok r1"
    and recovery: "recovery_from_locked_subscription_terms d recover gateway attempt_id recovery_terms required_mode = Ok r2"
    and replacement: "replacement_for_attempt d replace gateway attempt_id replacement_terms required_mode = Ok r3"
    and stored: "stored_as r1 a1" "stored_as r2 a2" "stored_as r3 a3"
  shows "renewal_from_attempt d a1 (resolved_provider_key gateway) = Ok r1 \<and>
    recovery_from_attempt d a2 (resolved_provider_key gateway) = Ok r2 \<and>
    replacement_from_attempt d a3 (resolved_provider_key gateway) = Ok r3 \<and>
    recovery_matches_submission d r2 recover gateway = Some True \<and>
    replacement_matches_submission d r3 replace gateway = Some True"
proof (intro conjI)
  note defs = stored_as_def Let_def ChargeAmount_try_from_def ChargeAmount_wf_def ChargeAmount_cents_def
  show "renewal_from_attempt d a1 (resolved_provider_key gateway) = Ok r1"
    using renewal stored(1) charge(1)
    by (auto simp: renewal_from_locked_subscription_terms_def renewal_from_attempt_def defs and_then_Inr_iff
        matches_subscription_renewal_def split: if_splits)
  show "recovery_from_attempt d a2 (resolved_provider_key gateway) = Ok r2"
    using recovery stored(2) charge(2)
    by (auto simp: recovery_from_locked_subscription_terms_def recovery_from_attempt_def defs
        matches_subscription_recovery_def split: if_splits)
  show "replacement_from_attempt d a3 (resolved_provider_key gateway) = Ok r3"
    using replacement stored(3)
    by (auto simp: replacement_for_attempt_def replacement_from_attempt_def defs
        matches_subscription_payment_method_update_def split: if_splits)
  show "recovery_matches_submission d r2 recover gateway = Some True"
    using recovery charge(2)
    by (auto simp: recovery_from_locked_subscription_terms_def recovery_matches_submission_def defs split: if_splits)
  show "replacement_matches_submission d r3 replace gateway = Some True"
    using replacement
    by (auto simp: replacement_for_attempt_def replacement_matches_submission_def defs split: if_splits)
qed

definition sample_gateway :: ResolvedGateway where
  "sample_gateway = \<lparr>resolved_billing_scope_id = BillingScopeId 1, resolved_gateway_account_id = GatewayAccountId 3,
     resolved_gateway_configuration_id = GatewayConfigurationId 4,
     resolved_provider_key = GatewayProviderKey (BoundedSlug (lit ''nmi'')),
     resolved_for_attempt = (\<lambda>_ _. GatewayOrderId (GatewayReferenceValue (lit ''o'')))\<rparr>"

definition sample_context :: SubscriptionPaymentContext where
  "sample_context = \<lparr>context_attempt_id = PaymentAttemptId 9, context_billing_scope_id = BillingScopeId 1,
     context_subscriber_id = SubscriberId 2, context_gateway_configuration_id = GatewayConfigurationId 4,
     context_idempotency_key = IdempotencyKey (lit ''k''), context_payment_token = PaymentToken (lit ''token''),
     context_billing_contact = \<lparr>contact_first_name = None, contact_last_name = None, contact_email = None,
       contact_address = None\<rparr>\<rparr>"

definition sample_payment_state :: SubscriptionPaymentStateSnapshot where
  "sample_payment_state = \<lparr>payment_state_subscription_id = SubscriptionId 5,
     payment_state_payment_method_id = PaymentMethodId 6,
     payment_state_initial_transaction_id = GatewayTransactionId (GatewayReferenceValue (lit ''1'')),
     payment_state_status = SubscriptionStatus.Active\<rparr>"

definition sample_renewal_terms :: SubscriptionRenewalLockedTerms where
  "sample_renewal_terms = SubscriptionRenewalLockedTerms_new (GatewayAccountId 3) sample_payment_state
     \<lparr>period_start_at = 100, period_end_at = 200\<rparr> (sample_charge 2000) 0"

definition sample_recovery_terms :: SubscriptionRecoveryLockedTerms where
  "sample_recovery_terms = \<lparr>recovery_terms_gateway_account_id = GatewayAccountId 3,
     recovery_terms_expected_state = sample_payment_state,
     recovery_terms_period = \<lparr>period_start_at = 100, period_end_at = 200\<rparr>,
     recovery_terms_charge = sample_charge 2000\<rparr>"

definition sample_replacement_terms :: SubscriptionPaymentMethodReplacementLockedTerms where
  "sample_replacement_terms = \<lparr>replacement_terms_gateway_account_id = GatewayAccountId 3,
     replacement_terms_expected_state = \<lparr>method_update_subscription_id = SubscriptionId 5,
       method_update_payment_method_id = PaymentMethodId 6,
       method_update_expected_initial_transaction_id = GatewayTransactionId (GatewayReferenceValue (lit ''1''))\<rparr>,
     replacement_terms_currency = CurrencyCode (lit ''USD'')\<rparr>"

definition stored_sample :: "later_reservation \<Rightarrow> PaymentAttempt" where
  "stored_sample r = sample_renewal\<lparr>attempt_identity := reserved_identity r, attempt_request := reserved_request r\<rparr>"

lemma sample_renewal_reserved:
  "\<exists>r. renewal_from_locked_subscription_terms sample_displays \<lparr>charge_renewal_billing_scope_id = BillingScopeId 1,
       charge_renewal_subscription_id = SubscriptionId 5, charge_renewal_period_start_at = 100\<rparr> sample_gateway
     (PaymentAttemptId 9) (SubscriberId 2) (offer_plan_key sample_offer) sample_renewal_terms Live = Ok r"
  using renewal_key_accepted [OF sample_display_is_key_text, of 100 0 "SubscriptionId 5"]
  by (simp add: renewal_from_locked_subscription_terms_def sample_gateway_def sample_renewal_terms_def
      SubscriptionRenewalLockedTerms_new_def sample_payment_state_def timestamp_def is_i64_def Let_def)

theorem reservations_reconstruct_witness:
  "\<exists>r1 r2 r3.
     renewal_from_attempt sample_displays (stored_sample r1) (resolved_provider_key sample_gateway) = Ok r1 \<and>
     recovery_from_attempt sample_displays (stored_sample r2) (resolved_provider_key sample_gateway) = Ok r2 \<and>
     replacement_from_attempt sample_displays (stored_sample r3) (resolved_provider_key sample_gateway) = Ok r3"
proof -
  let ?recover = "\<lparr>recover_context = sample_context, recover_plan_key = offer_plan_key sample_offer\<rparr>"
  let ?replace = "\<lparr>replace_context = sample_context, replace_plan_key = offer_plan_key sample_offer\<rparr>"
  obtain r1 where r1: "renewal_from_locked_subscription_terms sample_displays
      \<lparr>charge_renewal_billing_scope_id = BillingScopeId 1,
       charge_renewal_subscription_id = SubscriptionId 5, charge_renewal_period_start_at = 100\<rparr> sample_gateway
     (PaymentAttemptId 9) (SubscriberId 2) (offer_plan_key sample_offer) sample_renewal_terms Live = Ok r1"
    using sample_renewal_reserved by blast
  obtain r2 where r2: "recovery_from_locked_subscription_terms sample_displays ?recover sample_gateway (PaymentAttemptId 9)
      sample_recovery_terms Live = Ok r2"
    by (simp add: recovery_from_locked_subscription_terms_def gateway_of_context_def sample_gateway_def sample_context_def
        sample_recovery_terms_def Let_def)
  obtain r3 where r3: "replacement_for_attempt sample_displays ?replace sample_gateway (PaymentAttemptId 9)
      sample_replacement_terms Live = Ok r3"
    by (simp add: replacement_for_attempt_def gateway_of_context_def sample_gateway_def sample_context_def
        sample_replacement_terms_def Let_def)
  have "ChargeAmount_wf (sample_charge 2000)"
    by (simp add: ChargeAmount_wf_def ChargeAmount_cents_def sample_charge_def Money_wf_def
        is_i32_def is_ascii_uppercase_def)
  then have "ChargeAmount_wf (renewal_terms_charge sample_renewal_terms)"
      "ChargeAmount_wf (recovery_terms_charge sample_recovery_terms)"
    by (simp_all add: sample_renewal_terms_def SubscriptionRenewalLockedTerms_new_def sample_recovery_terms_def)
  with r1 r2 r3 have "renewal_from_attempt sample_displays (stored_sample r1) (resolved_provider_key sample_gateway) = Ok r1 \<and>
     recovery_from_attempt sample_displays (stored_sample r2) (resolved_provider_key sample_gateway) = Ok r2 \<and>
     replacement_from_attempt sample_displays (stored_sample r3) (resolved_provider_key sample_gateway) = Ok r3"
    using reservations_reconstruct [of sample_renewal_terms sample_recovery_terms _ _ _ _ _ _ _ r1 _ r2 _ _ r3 "stored_sample r1" "stored_sample r2" "stored_sample r3"]
    by (simp add: stored_as_def stored_sample_def)
  then show ?thesis by blast
qed

end
