(* ===== verification/Charge_History.thy ===== *)
theory Charge_History
  imports Processor_Charges
begin

text \<open>
  The life of processor charges: an abstract machine for one charge, the invariant of the stored
  charges, and the refinement of the machine by every operation of \<open>processor_charges.rs\<close>, alone and in
  any interleaving with what other transactions commit.
\<close>

section \<open>The abstract machine\<close>

text \<open>
  A charge is known by its transaction identity and its progression.  \<open>chargeable\<close> says that money
  was taken, so that it can be returned.
\<close>

type_synonym charge_state = "GatewayTransactionId option \<times> ProcessorChargeProgression"

definition admissible :: "ProcessorChargeRole \<Rightarrow> bool \<Rightarrow> charge_state \<Rightarrow> bool" where
  "admissible role chargeable = (\<lambda>(transaction_id, progression).
     (transaction_id = None \<longrightarrow> progression \<in> {ProcessorChargeProgression.Pending, ReconciliationRequired}) \<and>
     (progression \<in> {ExternalReversalRequired, ExternallyReversed} \<longrightarrow> chargeable) \<and>
     (progression = Applied \<longrightarrow> role = Primary))"

inductive charge_life :: "ProcessorChargeRole \<Rightarrow> bool \<Rightarrow> charge_state \<Rightarrow> charge_state \<Rightarrow> bool"
  for role chargeable where
  identified: "charge_life role chargeable (None, p) (Some t, p)"
| progressed: "p \<noteq> ExternallyReversed \<Longrightarrow> admissible role chargeable (t, q) \<Longrightarrow>
    charge_life role chargeable (t, p) (t, q)"

inductive_simps charge_life_iff: "charge_life role chargeable (t, p) x"

abbreviation charge_lives :: "ProcessorChargeRole \<Rightarrow> bool \<Rightarrow> charge_state \<Rightarrow> charge_state \<Rightarrow> bool" where
  "charge_lives role chargeable \<equiv> (charge_life role chargeable)\<^sup>*\<^sup>*"

text \<open>What the machine promises: reversal is final and an identity is never replaced.\<close>

lemma charge_lives_final:
  assumes "charge_lives role chargeable x y"
  shows "(fst x \<noteq> None \<longrightarrow> fst y = fst x) \<and> (snd x = ExternallyReversed \<longrightarrow> snd y = ExternallyReversed)"
  using assms by induction (auto elim!: charge_life.cases)

lemma charge_lives_admissible:
  assumes "charge_lives role chargeable x y" and "admissible role chargeable x"
  shows "admissible role chargeable y"
  using assms
proof induction
  case (step y z)
  from step(2) show ?case using step.IH [OF step.prems] by cases (simp_all add: admissible_def)
qed

section \<open>Stored charges\<close>

definition chargeable :: "'a ProcessorCharge_scheme \<Rightarrow> bool" where
  "chargeable c \<longleftrightarrow> money_cents (charge_amount c) > 0 \<and>
     charge_attempt_kind c \<noteq> PaymentAttemptKind.SubscriptionPaymentMethodUpdate"

definition charge_state_of :: "'a ProcessorCharge_scheme \<Rightarrow> charge_state" where
  "charge_state_of c = (charge_transaction_id c, charge_progression c)"

definition charge_dimensions where
  "charge_dimensions c = (charge_billing_scope_id c, charge_gateway_account_id c, charge_gateway_order_id c,
     charge_attempt_kind c, charge_amount c, charge_plan_key c, charge_host_charge_target_id c)"

definition attempt_dimensions where
  "attempt_dimensions a = (identity_billing_scope_id (attempt_identity a),
     identity_gateway_account_id (attempt_identity a), request_gateway_order_id (attempt_request a),
     PaymentAttempt_kind a, request_amount (attempt_request a),
     target_plan_key (request_target (attempt_request a)),
     target_host_charge_target_id (request_target (attempt_request a)))"

definition same_charge :: "stored_charge \<Rightarrow> stored_charge \<Rightarrow> bool" where
  "same_charge c d \<longleftrightarrow> charge_id d = charge_id c \<and> charge_attempt_id d = charge_attempt_id c \<and>
     charge_dimensions d = charge_dimensions c \<and> charge_role d = charge_role c \<and>
     charge_observed_at d = charge_observed_at c \<and> evidence_matches (charge_evidence c) (charge_evidence d)"

text \<open>Every stored charge, its owner and its unique keys.\<close>

definition charge_row_ok :: "stored_charge \<Rightarrow> bool" where
  "charge_row_ok c \<longleftrightarrow> charge_checks c \<and> (charge_progression c = Applied \<longrightarrow> charge_role c = Primary)"

definition charge_owned :: "charge_store \<Rightarrow> stored_charge \<Rightarrow> bool" where
  "charge_owned s c \<longleftrightarrow> map_option attempt_dimensions (charge_attempt s (charge_attempt_id c)) = Some (charge_dimensions c)"

definition charges_ok :: "charge_store \<Rightarrow> bool" where
  "charges_ok s \<longleftrightarrow> distinct (map charge_id (cs_charges s)) \<and>
     (\<forall>c\<in>set (cs_charges s). charge_row_ok c \<and> charge_owned s c \<and>
        (\<forall>d\<in>set (cs_charges s). charge_id c \<noteq> charge_id d \<longrightarrow> \<not> unique_clash c d))"

text \<open>How a stored charge evolves, and where a new one comes from.\<close>

definition charge_evolves :: "stored_charge \<Rightarrow> stored_charge \<Rightarrow> bool" where
  "charge_evolves c d \<longleftrightarrow> same_charge c d \<and>
     charge_lives (charge_role c) (chargeable c) (charge_state_of c) (charge_state_of d)"

definition charge_born :: "stored_charge \<Rightarrow> bool" where
  "charge_born c \<longleftrightarrow> (\<exists>t q. q \<noteq> ExternallyReversed \<and> admissible (charge_role c) (chargeable c) (t, q) \<and>
     charge_lives (charge_role c) (chargeable c) (t, q) (charge_state_of c))"

definition charges_evolve :: "charge_store \<Rightarrow> charge_store \<Rightarrow> bool" where
  "charges_evolve s s' \<longleftrightarrow> (\<exists>old new. cs_charges s' = old @ new \<and>
     list_all2 charge_evolves (cs_charges s) old \<and> list_all charge_born new)"

lemma evidence_matches_equivalence:
  "evidence_matches e e"
  "evidence_matches e f \<Longrightarrow> evidence_matches f g \<Longrightarrow> evidence_matches e g"
  by (simp_all add: evidence_matches_def)

lemma charge_evolves_refl [simp]: "charge_evolves c c"
  by (simp add: charge_evolves_def same_charge_def evidence_matches_equivalence)

lemma chargeable_same: "same_charge c d \<Longrightarrow> chargeable d = chargeable c \<and> charge_role d = charge_role c"
  by (simp add: same_charge_def chargeable_def charge_dimensions_def)

lemma same_charge_trans: "same_charge c d \<Longrightarrow> same_charge d e \<Longrightarrow> same_charge c e"
  unfolding same_charge_def by (blast intro: evidence_matches_equivalence(2) trans)

lemma charge_evolves_trans:
  assumes "charge_evolves c d" and "charge_evolves d e"
  shows "charge_evolves c e"
proof -
  have "same_charge c d" "same_charge d e" using assms by (simp_all add: charge_evolves_def)
  then have "same_charge c e" "chargeable d = chargeable c" "charge_role d = charge_role c"
    using same_charge_trans chargeable_same by blast+
  with assms show ?thesis
    unfolding charge_evolves_def by (auto intro: rtranclp_trans)
qed

lemma charge_born_evolves:
  assumes "charge_born c" and "charge_evolves c d"
  shows "charge_born d"
proof -
  obtain t q where "q \<noteq> ExternallyReversed" "admissible (charge_role c) (chargeable c) (t, q)"
      "charge_lives (charge_role c) (chargeable c) (t, q) (charge_state_of c)"
    using assms(1) unfolding charge_born_def by blast
  moreover have "charge_lives (charge_role c) (chargeable c) (charge_state_of c) (charge_state_of d)"
      "chargeable d = chargeable c" "charge_role d = charge_role c"
    using assms(2) chargeable_same unfolding charge_evolves_def by blast+
  ultimately show ?thesis
    unfolding charge_born_def by (intro exI [of _ t] exI [of _ q]) (simp add: rtranclp_trans)
qed

lemma charges_evolve_refl [simp]: "cs_charges s' = cs_charges s \<Longrightarrow> charges_evolve s s'"
  unfolding charges_evolve_def by (intro exI [of _ "cs_charges s"] exI [of _ "[]"]) (simp add: list_all2_refl)

lemma charges_evolve_trans:
  assumes "charges_evolve r s" and "charges_evolve s t"
  shows "charges_evolve r t"
proof -
  obtain old new where s: "cs_charges s = old @ new" "list_all2 charge_evolves (cs_charges r) old"
      "list_all charge_born new"
    using assms(1) by (auto simp: charges_evolve_def)
  obtain old' new' where t: "cs_charges t = old' @ new'" "list_all2 charge_evolves (cs_charges s) old'"
      "list_all charge_born new'"
    using assms(2) by (auto simp: charges_evolve_def)
  obtain a b where ab: "old' = a @ b" "list_all2 charge_evolves old a" "list_all2 charge_evolves new b"
    using t(2) unfolding s(1) by (auto simp: list_all2_append1)
  have "list_all charge_born b"
    using ab(3) s(3) by (auto simp: list_all2_conv_all_nth list_all_length intro: charge_born_evolves)
  with t(3) have "list_all charge_born (b @ new')" by simp
  moreover have "list_all2 charge_evolves (cs_charges r) a"
    using s(2) ab(2) by (rule list_all2_trans [rotated]) (rule charge_evolves_trans)
  moreover have "cs_charges t = a @ (b @ new')" using t(1) ab(1) by simp
  ultimately show ?thesis unfolding charges_evolve_def by blast
qed

section \<open>The contract of an operation\<close>

locale charge_operation =
  fixes run :: "charge_store \<Rightarrow> charge_store \<Rightarrow> bool"
  assumes run_keeps: "charges_ok s \<Longrightarrow> run s s' \<Longrightarrow> charges_ok s' \<and> charges_evolve s s'"
begin

lemma runs_keep:
  assumes "run\<^sup>*\<^sup>* s s'" and "charges_ok s"
  shows "charges_ok s' \<and> charges_evolve s s'"
  using assms(1)
proof induction
  case base
  with assms(2) show ?case by simp
next
  case (step x y)
  with run_keeps [of x y] charges_evolve_trans show ?case by blast
qed

end

section \<open>Single statements\<close>

lemma unique_clash_sym: "unique_clash c d \<longleftrightarrow> unique_clash d c"
proof -
  have "unique_clash d c" if "unique_clash c d" for c d
    using that
    unfolding unique_clash_def attempt_transaction_idx_def attempt_transactionless_idx_def
      gateway_transaction_idx_def primary_attempt_idx_def
    by metis
  then show ?thesis by blast
qed

lemma update_charge_cases:
  assumes "update_charge i hit f s = Ok (out, s')"
  obtains "out = None" "s' = s"
  | c where "out = Some (f c)" "c \<in> set (cs_charges s)" "charge_id c = i" "hit c" "charge_checks (f c)"
      "\<And>d. d \<in> set (cs_charges s) \<Longrightarrow> charge_id d \<noteq> i \<Longrightarrow> \<not> unique_clash (f c) d"
      "s' = s\<lparr>cs_charges := map (\<lambda>d. if charge_id d = i then f d else d) (cs_charges s)\<rparr>"
proof (cases "find (\<lambda>c. charge_id c = i \<and> hit c) (cs_charges s)")
  case None
  with assms that(1) show thesis by (simp add: update_charge_def)
next
  case (Some c)
  then have "c \<in> set (cs_charges s)" "charge_id c = i" "hit c"
    by (auto simp: find_Some_iff)
  moreover have "charge_checks (f c)" "\<And>d. d \<in> set (cs_charges s) \<Longrightarrow> charge_id d \<noteq> i \<Longrightarrow> \<not> unique_clash (f c) d"
      "out = Some (f c)" "s' = s\<lparr>cs_charges := map (\<lambda>d. if charge_id d = i then f d else d) (cs_charges s)\<rparr>"
    using assms Some by (auto simp: update_charge_def list_ex_iff split: if_splits)
  ultimately show thesis by (intro that(2))
qed

lemma charges_ok_id_eq:
  "charges_ok s \<Longrightarrow> c \<in> set (cs_charges s) \<Longrightarrow> d \<in> set (cs_charges s) \<Longrightarrow> charge_id c = charge_id d \<Longrightarrow> c = d"
  by (auto simp: charges_ok_def distinct_map dest: inj_onD)

lemma charge_attempt_charges [simp]: "charge_attempt (s\<lparr>cs_charges := x\<rparr>) i = charge_attempt s i"
  by (simp add: charge_attempt_def)

lemma update_charge_keeps:
  assumes ok: "charges_ok s" and update: "update_charge i hit f s = Ok (out, s')"
    and f: "\<And>c. c \<in> set (cs_charges s) \<Longrightarrow> charge_id c = i \<Longrightarrow> hit c \<Longrightarrow> charge_checks (f c) \<Longrightarrow>
      charge_evolves c (f c) \<and> (charge_progression (f c) = Applied \<longrightarrow> charge_role c = Primary)"
  shows "charges_ok s' \<and> charges_evolve s s'"
  using update
proof (cases rule: update_charge_cases)
  case 1
  with ok show ?thesis by simp
next
  case (2 c)
  let ?g = "\<lambda>d. if charge_id d = i then f d else d"
  have evolves: "charge_evolves c (f c)" and applied: "charge_progression (f c) = Applied \<longrightarrow> charge_role c = Primary"
    using f [OF 2(2-5)] by blast+
  have g: "?g d = (if d = c then f c else d)" if "d \<in> set (cs_charges s)" for d
  proof (cases "charge_id d = i")
    case True
    then have "d = c" using charges_ok_id_eq [OF ok that 2(2)] 2(3) by simp
    then show ?thesis using True by simp
  next
    case False
    with 2(3) show ?thesis by force
  qed
  have same: "same_charge c (f c)" using evolves by (simp add: charge_evolves_def)
  then have ids: "charge_id (f c) = charge_id c" "charge_role (f c) = charge_role c"
    and owned: "charge_owned s (f c) = charge_owned s c"
    by (auto simp: same_charge_def charge_owned_def)
  have s': "cs_charges s' = map (\<lambda>d. if d = c then f c else d) (cs_charges s)"
    using g by (simp add: 2(7))
  have rows: "x = f c \<or> x \<in> set (cs_charges s) \<and> charge_id x \<noteq> charge_id c" if x: "x \<in> set (cs_charges s')" for x
  proof -
    obtain d where d: "d \<in> set (cs_charges s)" "x = (if d = c then f c else d)"
      using x unfolding s' set_map by (elim imageE)
    show ?thesis
    proof (cases "d = c")
      case True
      with d(2) show ?thesis by simp
    next
      case False
      with charges_ok_id_eq [OF ok d(1) 2(2)] d show ?thesis by force
    qed
  qed
  have "map charge_id (cs_charges s') = map charge_id (cs_charges s)"
    using ids(1) by (simp add: s')
  then have "distinct (map charge_id (cs_charges s'))"
    using ok by (simp add: charges_ok_def)
  moreover have "charge_row_ok x \<and> charge_owned s' x" if "x \<in> set (cs_charges s')" for x
  proof -
    have "charge_owned s' x = charge_owned s x" by (simp add: charge_owned_def 2(7))
    moreover have "charge_row_ok (f c)" using 2(5) applied ids by (simp add: charge_row_ok_def)
    ultimately show ?thesis using rows [OF that] ok 2(2) owned unfolding charges_ok_def by blast
  qed
  moreover have "\<not> unique_clash x y" if "x \<in> set (cs_charges s')" "y \<in> set (cs_charges s')"
      "charge_id x \<noteq> charge_id y" for x y
  proof -
    have new: "\<not> unique_clash (f c) d" if "d \<in> set (cs_charges s)" "charge_id d \<noteq> charge_id c" for d
      using 2(3,6) that by simp
    have old: "\<not> unique_clash d e" if "d \<in> set (cs_charges s)" "e \<in> set (cs_charges s)" "charge_id d \<noteq> charge_id e" for d e
      using ok that unfolding charges_ok_def by blast
    show ?thesis
      using rows [OF that(1)] rows [OF that(2)] that(3) new old unique_clash_sym [of x y] ids(1) by metis
  qed
  ultimately have "charges_ok s'" unfolding charges_ok_def by blast
  moreover have "list_all2 charge_evolves (cs_charges s) (cs_charges s')"
    using evolves by (auto simp: s' list_all2_map2 intro!: list_all2_refl list.rel_refl_strong)
  then have "charges_evolve s s'"
    unfolding charges_evolve_def by (metis append_Nil2 list.pred_inject(1))
  ultimately show ?thesis by simp
qed


lemma set_processor_charge_attempt_dimensions_Some:
  "set_processor_charge_attempt_dimensions a c = Some d \<longleftrightarrow>
     d = c\<lparr>charge_attempt_kind := PaymentAttempt_kind a, charge_amount := request_amount (attempt_request a),
        charge_plan_key := target_plan_key (request_target (attempt_request a)),
        charge_host_charge_target_id := target_host_charge_target_id (request_target (attempt_request a))\<rparr> \<and>
     charge_dimensions d = attempt_dimensions a"
  by (auto simp: set_processor_charge_attempt_dimensions_def charge_dimensions_def attempt_dimensions_def)

lemma insert_charge_cases:
  assumes "insert_charge arbiter c s = Ok (out, s')"
  obtains a d where "charge_attempt s (charge_attempt_id c) = Some a"
    "set_processor_charge_attempt_dimensions a c = Some d" "charge_checks d"
    "list_ex (arbiter d) (cs_charges s)" "out = None" "s' = s"
  | a d where "charge_attempt s (charge_attempt_id c) = Some a"
    "set_processor_charge_attempt_dimensions a c = Some d" "charge_checks d"
    "\<not> list_ex (arbiter d) (cs_charges s)"
    "\<not> list_ex (unique_clash d) (cs_charges s)" "out = Some (charge_id d)" "s' = s\<lparr>cs_charges := cs_charges s @ [d]\<rparr>"
proof -
  obtain a d where d: "charge_attempt s (charge_attempt_id c) = Some a"
      "set_processor_charge_attempt_dimensions a c = Some d"
    and rest: "(if \<not> charge_checks d then Err check_violation
          else if list_ex (arbiter d) (cs_charges s) then Ok (None, s)
          else if list_ex (unique_clash d) (cs_charges s) then Err unique_violation
          else Ok (Some (charge_id d), s\<lparr>cs_charges := cs_charges s @ [d]\<rparr>)) = Ok (out, s')"
    using assms unfolding insert_charge_def and_then_Inr_iff ok_or_Inr_iff by blast
  show thesis
  proof (cases "list_ex (arbiter d) (cs_charges s)")
    case True
    with rest show thesis by (intro that(1) [OF d]) (simp_all split: if_splits)
  next
    case False
    with rest show thesis by (intro that(2) [OF d]) (simp_all split: if_splits)
  qed
qed

lemma admissible_row:
  assumes "charge_checks c" and "charge_progression c = Applied \<longrightarrow> charge_role c = Primary"
  shows "admissible (charge_role c) (chargeable c) (charge_state_of c)"
  using assms
  by (auto simp: admissible_def charge_state_of_def chargeable_def charge_checks_def transaction_identity_check_def
      reversal_eligibility_check_def)

lemma insert_charge_keeps:
  assumes ok: "charges_ok s" and insert: "insert_charge arbiter c s = Ok (out, s')"
    and c: "charge_externally_reversed_at c = None" "charge_progression c = Applied \<longrightarrow> charge_role c = Primary"
  shows "charges_ok s' \<and> charges_evolve s s'"
  using insert
proof (cases rule: insert_charge_cases)
  case 1
  with ok show ?thesis by simp
next
  case (2 a d)
  have d: "charge_attempt_id d = charge_attempt_id c" "charge_role d = charge_role c"
      "charge_progression d = charge_progression c" "charge_dimensions d = attempt_dimensions a"
      "charge_externally_reversed_at d = charge_externally_reversed_at c"
    using 2(2) unfolding set_processor_charge_attempt_dimensions_Some by auto
  then have reversed: "charge_progression d \<noteq> ExternallyReversed"
    using 2(3) c(1) by (auto simp: charge_checks_def state_timestamps_check_def)
  have admissible: "admissible (charge_role d) (chargeable d) (charge_state_of d)"
    using admissible_row [OF 2(3)] c d by simp
  have "charge_born d"
    unfolding charge_born_def using admissible reversed
    by (intro exI [of _ "charge_transaction_id d"] exI [of _ "charge_progression d"]) (simp add: charge_state_of_def)
  then have "charges_evolve s s'"
    unfolding charges_evolve_def 2(7)
    by (intro exI [of _ "cs_charges s"] exI [of _ "[d]"]) (simp add: list_all2_refl)
  moreover have "charges_ok s'"
  proof -
    have fresh: "\<not> unique_clash d e" "\<not> unique_clash e d" "charge_id e \<noteq> charge_id d" if "e \<in> set (cs_charges s)" for e
      using 2(5) that unique_clash_sym [of d e] by (auto simp: list_ex_iff unique_clash_def)
    have "charge_row_ok d" "charge_owned s' d"
      using 2(1,3) c d by (simp_all add: charge_row_ok_def charge_owned_def 2(7))
    moreover have "charge_owned s' e = charge_owned s e" for e
      by (simp add: charge_owned_def 2(7))
    ultimately show ?thesis
      using ok fresh unfolding charges_ok_def by (auto simp: 2(7)) blast
  qed
  ultimately show ?thesis by simp
qed


section \<open>Every operation refines the machine\<close>

lemma progress_evolves:
  assumes "same_charge c d" and "charge_transaction_id d = charge_transaction_id c"
    and "charge_progression c = ExternallyReversed \<longrightarrow> charge_progression d = ExternallyReversed" and "charge_checks d"
    and "charge_progression d = Applied \<longrightarrow> charge_role c = Primary"
  shows "charge_evolves c d"
proof (cases "charge_progression c = ExternallyReversed")
  case True
  with assms(2,3) have "charge_state_of d = charge_state_of c" by (simp add: charge_state_of_def)
  with assms(1) show ?thesis by (simp add: charge_evolves_def)
next
  case False
  have "charge_role d = charge_role c" "chargeable d = chargeable c"
    using chargeable_same [OF assms(1)] by simp_all
  with admissible_row [OF assms(4)] assms(2,5)
  have "admissible (charge_role c) (chargeable c) (charge_transaction_id c, charge_progression d)"
    by (simp add: charge_state_of_def)
  then have "charge_life (charge_role c) (chargeable c) (charge_state_of c) (charge_state_of d)"
    using assms(2) False by (simp add: charge_state_of_def charge_life.progressed)
  with assms(1) show ?thesis by (simp add: charge_evolves_def)
qed

lemma set_progression_simps [simp]:
  "charge_id (set_progression t q c) = charge_id c"
  "charge_attempt_id (set_progression t q c) = charge_attempt_id c"
  "charge_role (set_progression t q c) = charge_role c"
  "charge_observed_at (set_progression t q c) = charge_observed_at c"
  "charge_evidence (set_progression t q c) = charge_evidence c"
  "charge_dimensions (set_progression t q c) = charge_dimensions c"
  "charge_progression (set_progression t q c) = q"
  by (simp_all add: set_progression_def charge_dimensions_def)

lemma charge_dimensions_update [simp]:
  "charge_dimensions (c\<lparr>charge_state_code := x\<rparr>) = charge_dimensions c"
  "charge_dimensions (c\<lparr>charge_externally_reversed_at := y\<rparr>) = charge_dimensions c"
  "charge_dimensions (c\<lparr>charge_evidence := e\<rparr>) = charge_dimensions c"
  by (simp_all add: charge_dimensions_def)

lemma transition_keeps:
  assumes ok: "charges_ok s" and expected: "ExternallyReversed \<in> set expected \<longrightarrow> q = ExternallyReversed"
    and run: "transition_processor_charge clock i expected q upd s = Ok (c, s')"
  shows "charges_ok s' \<and> charges_evolve s s'"
proof -
  obtain row where update: "update_charge i (\<lambda>c. charge_progression c \<in> set expected \<and> transition_eligible q c)
      (\<lambda>c. (set_progression clock q c)\<lparr>charge_state_code := updated_state_code upd (charge_state_code c),
          charge_externally_reversed_at := (if q = ExternallyReversed
            then Some (coalesced (charge_externally_reversed_at c) clock) else None)\<rparr>) s = Ok (row, s')"
    using run by (auto simp: transition_processor_charge_def and_then_Inr_iff split: if_splits)
  show ?thesis
    using ok update
  proof (rule update_charge_keeps)
    fix c
    assume c: "charge_progression c \<in> set expected \<and> transition_eligible q c"
      and checks: "charge_checks ((set_progression clock q c)\<lparr>charge_state_code := updated_state_code upd (charge_state_code c),
          charge_externally_reversed_at := (if q = ExternallyReversed
            then Some (coalesced (charge_externally_reversed_at c) clock) else None)\<rparr>)" (is "charge_checks ?d")
    have "charge_progression ?d = Applied \<longrightarrow> charge_role c = Primary"
      using c by (simp add: transition_eligible_def)
    moreover from this have "charge_evolves c ?d"
      using c expected checks
      by (intro progress_evolves) (auto simp: same_charge_def evidence_matches_equivalence)
    ultimately show "charge_evolves c ?d \<and> (charge_progression ?d = Applied \<longrightarrow> charge_role c = Primary)"
      by simp
  qed
qed

lemma transition_charge_keeps:
  "charges_ok s \<Longrightarrow> transition_charge clock i q code s = Ok s' \<Longrightarrow> charges_ok s' \<and> charges_evolve s s'"
  by (auto simp: transition_charge_def split: sum.splits dest!: transition_keeps [rotated 2])

lemma transition_pending_keeps:
  assumes "charges_ok s" and "transition_pending_charge clock i q code s = Ok s'"
  shows "charges_ok s' \<and> charges_evolve s s'"
proof -
  have "\<exists>c. transition_processor_charge clock i [ProcessorChargeProgression.Pending] q (Replace code) s = Ok (c, s')"
    using assms(2)
    by (fastforce simp: transition_pending_charge_def transition_processor_charge_def and_then_Inr_iff split: if_splits)
  with assms(1) show ?thesis by (auto dest: transition_keeps [rotated 2])
qed

lemma accept_reversal_keeps:
  assumes ok: "charges_ok s" and "accept_external_reversal clock i prior s = Ok s'"
  shows "charges_ok s' \<and> charges_evolve s s'"
proof -
  let ?f = "\<lambda>c. c\<lparr>charge_progression := ExternallyReversed, charge_state_code := Some prior,
    charge_externally_reversed_at := Some (coalesced (charge_externally_reversed_at c) clock)\<rparr>"
  obtain row where "update_charge i (\<lambda>c. charge_progression c = ExternalReversalRequired) ?f s = Ok (row, s')"
    using assms(2) by (auto simp: accept_external_reversal_def and_then_Inr_iff split: if_splits)
  with ok show ?thesis
  proof (rule update_charge_keeps)
    fix c
    assume "charge_progression c = ExternalReversalRequired" "charge_checks (?f c)"
    then show "charge_evolves c (?f c) \<and> (charge_progression (?f c) = Applied \<longrightarrow> charge_role c = Primary)"
      by (auto intro!: progress_evolves simp: same_charge_def evidence_matches_equivalence charge_dimensions_def)
  qed
qed

lemma promote_keeps:
  assumes "charges_ok s" and "promote_conflicting_charge_to_external_reversal clock observation s = Ok s'"
  shows "charges_ok s' \<and> charges_evolve s s'"
  using assms
  by (auto simp: promote_conflicting_charge_to_external_reversal_def and_then_Inr_iff transition_charge_keeps
      split: ObservedCharge.splits ProcessorChargeProgression.splits)
     (meson ProcessorChargeProgression.exhaust)+

lemma matching_charge_SomeD:
  "matching_charge i t s = Some c \<Longrightarrow> c \<in> set (cs_charges s) \<and> charge_attempt_id c = i \<and> charge_transaction_id c = t"
  by (auto simp: matching_charge_def find_Some_iff)

lemma identify_cases:
  assumes "identify_transactionless clock a e t q s = Ok (Some (r, s'))"
  obtains row s1 out1 out2 where
    "matching_charge (identity_attempt_id (attempt_identity a)) None s = Some row"
    "evidence_matches (charge_evidence row) e"
    "update_charge (charge_id row) (\<lambda>_. True)
       (\<lambda>c. c\<lparr>charge_evidence := (charge_evidence c)\<lparr>evidence_transaction_id := Some t\<rparr>\<rparr>) s = Ok (out1, s1)"
    "update_charge (charge_id row) (\<lambda>_. True)
       (\<lambda>c. (set_progression clock (initial_charge_progression (charge_role row)
          (money_cents (request_amount (attempt_request a))) (Some t) q) c)\<lparr>charge_state_code := None\<rparr>) s1 = Ok (out2, s')"
    "r = \<lparr>record_id = charge_id row, record_role = charge_role row, record_exact_replay = False\<rparr>"
  using assms
  by (auto simp: identify_transactionless_def and_then_Inr_iff Let_def split: option.splits if_splits)

lemma transactionless_progression:
  "charges_ok s \<Longrightarrow> c \<in> set (cs_charges s) \<Longrightarrow> charge_transaction_id c = None \<Longrightarrow>
   charge_progression c \<noteq> ExternallyReversed \<and> charge_progression c \<noteq> Applied"
  by (auto simp: charges_ok_def charge_row_ok_def charge_checks_def transaction_identity_check_def)

lemma initial_charge_progression_Applied:
  "initial_charge_progression r m t q = Applied \<Longrightarrow> r = Primary"
  by (auto simp: initial_charge_progression_def split: if_splits ProcessorChargeRole.splits)

text \<open>The row that receives its identity, after the first of the two updates.\<close>

definition identified_row :: "GatewayTransactionId \<Rightarrow> stored_charge \<Rightarrow> stored_charge" where
  "identified_row t c = c\<lparr>charge_evidence := (charge_evidence c)\<lparr>evidence_transaction_id := Some t\<rparr>\<rparr>"

lemma identified_row_evolves:
  assumes "charge_transaction_id c = None"
  shows "charge_evolves c (identified_row t c)"
proof -
  have "charge_life (charge_role c) (chargeable c) (charge_state_of c) (charge_state_of (identified_row t c))"
    using assms by (simp add: charge_state_of_def identified_row_def charge_life.identified)
  moreover have "same_charge c (identified_row t c)"
    by (simp add: same_charge_def identified_row_def evidence_matches_def)
  ultimately show ?thesis by (simp add: charge_evolves_def)
qed

lemma identify_keeps:
  assumes ok: "charges_ok s" and run: "identify_transactionless clock a e t q s = Ok (Some (r, s'))"
  shows "charges_ok s' \<and> charges_evolve s s'"
  using run
proof (cases rule: identify_cases)
  case (1 row s1 out1 out2)
  have row: "row \<in> set (cs_charges s)" "charge_transaction_id row = None"
    using matching_charge_SomeD [OF 1(1)] by simp_all
  have only: "c = row" if "c \<in> set (cs_charges s)" "charge_id c = charge_id row" for c
    using charges_ok_id_eq [OF ok that(1) row(1) that(2)] .
  note first = 1(3) [folded identified_row_def]
  have s1: "charges_ok s1 \<and> charges_evolve s s1"
    using ok first
  proof (rule update_charge_keeps)
    fix c assume "c \<in> set (cs_charges s)" "charge_id c = charge_id row"
    then have "c = row" by (rule only)
    with row transactionless_progression [OF ok row]
    show "charge_evolves c (identified_row t c) \<and>
        (charge_progression (identified_row t c) = Applied \<longrightarrow> charge_role c = Primary)"
      by (simp add: identified_row_evolves) (simp add: identified_row_def)
  qed
  have s1_row: "c = identified_row t row" if c: "c \<in> set (cs_charges s1)" "charge_id c = charge_id row" for c
    using first
  proof (cases rule: update_charge_cases)
    case 1
    then have "find (\<lambda>c. charge_id c = charge_id row \<and> True) (cs_charges s) = None"
      using first by (auto simp: update_charge_def split: option.splits if_splits)
    with row(1) show ?thesis by (auto simp: find_None_iff)
  next
    case (2 d)
    from c(1) obtain x where x: "x \<in> set (cs_charges s)" "c = (if charge_id x = charge_id row then identified_row t x else x)"
      unfolding 2(7) by auto
    with c(2) have "charge_id x = charge_id row" by (auto simp: identified_row_def split: if_splits)
    with only [OF x(1)] x(2) show ?thesis by simp
  qed
  have "charges_ok s' \<and> charges_evolve s1 s'"
    using conjunct1 [OF s1] 1(4)
  proof (rule update_charge_keeps)
    let ?q = "initial_charge_progression (charge_role row) (money_cents (request_amount (attempt_request a))) (Some t) q"
    fix c assume "c \<in> set (cs_charges s1)" "charge_id c = charge_id row"
      and checks: "charge_checks ((set_progression clock ?q c)\<lparr>charge_state_code := None\<rparr>)" (is "charge_checks ?d")
    then have c: "c = identified_row t row" using s1_row by blast
    have "charge_progression c \<noteq> ExternallyReversed" and role: "charge_role c = charge_role row"
      using transactionless_progression [OF ok row] by (simp_all add: c identified_row_def)
    moreover have applied: "charge_progression ?d = Applied \<longrightarrow> charge_role c = Primary"
      using initial_charge_progression_Applied role by simp
    ultimately have "charge_evolves c ?d"
      using checks by (intro progress_evolves) (auto simp: same_charge_def evidence_matches_equivalence)
    with applied show "charge_evolves c ?d \<and> (charge_progression ?d = Applied \<longrightarrow> charge_role c = Primary)" by simp
  qed
  with s1 charges_evolve_trans show ?thesis by blast
qed


lemma observe_replay_keeps: "observe_replay a e s = Ok (out, s') \<Longrightarrow> s' = s"
  by (auto simp: observe_replay_def split: option.splits if_splits)

lemma observe_insert_keeps:
  assumes ok: "charges_ok s" and run: "observe_insert clock fresh a e q existing s = Ok (out, s')"
  shows "charges_ok s' \<and> charges_evolve s s'"
proof -
  let ?role = "if existing then Additional else Primary"
  let ?q = "initial_charge_progression ?role (money_cents (request_amount (attempt_request a))) (evidence_transaction_id e) q"
  obtain arbiter inserted s1 where insert: "insert_charge arbiter (observed_charge clock fresh a e ?role ?q) s = Ok (inserted, s1)"
    and rest: "s' = s1"
    using run unfolding observe_insert_def Let_def and_then_Inr_iff
    by (force split: option.splits dest: observe_replay_keeps)
  have "charges_ok s1 \<and> charges_evolve s s1"
    using ok insert by (rule insert_charge_keeps) (auto simp: observed_charge_def dest: initial_charge_progression_Applied)
  with rest show ?thesis by simp
qed

lemma observe_cases:
  assumes "observe_processor_charge others clock fresh a e q s = Ok (out, s')"
  obtains (other) "out = OwnedByOtherAttempt" "s' = s"
  | (identified) r t where "evidence_transaction_id e = Some t"
      "identify_transactionless clock a e t q s = Ok (Some (r, s'))" "out = Owned r"
  | (inserted) existing where "\<And>t. evidence_transaction_id e = Some t \<Longrightarrow> identify_transactionless clock a e t q s = Ok None"
      "observe_insert clock fresh a e q existing (others s) = Ok (out, s')"
proof (cases "evidence_transaction_id e")
  case None
  with assms show thesis by (intro inserted) (simp_all add: observe_processor_charge_def)
next
  case (Some t)
  show thesis
  proof (cases "owned_by_other_attempt (attempt_identity a) t s")
    case True
    with assms Some show thesis by (intro other) (simp_all add: observe_processor_charge_def)
  next
    case False
    then obtain found where found: "identify_transactionless clock a e t q s = Ok found"
      using assms Some unfolding observe_processor_charge_def Let_def by (auto simp: and_then_def split: sum.splits)
    show thesis
    proof (cases found)
      case None
      with assms Some False found show thesis by (intro inserted) (simp_all add: observe_processor_charge_def)
    next
      case (Some p)
      with assms \<open>evidence_transaction_id e = Some t\<close> False found show thesis
        by (intro identified [of t "fst p"]) (simp_all add: observe_processor_charge_def split: prod.splits)
    qed
  qed
qed

lemma observe_keeps:
  assumes ok: "charges_ok s" and others: "charges_ok (others s) \<and> charges_evolve s (others s)"
    and run: "observe_processor_charge others clock fresh a e q s = Ok (out, s')"
  shows "charges_ok s' \<and> charges_evolve s s'"
  using run
proof (cases rule: observe_cases)
  case other
  with ok show ?thesis by simp
next
  case identified
  with ok show ?thesis using identify_keeps by blast
next
  case inserted
  then show ?thesis using observe_insert_keeps others charges_evolve_trans by blast
qed

lemma code_new_charge_keeps:
  assumes "charges_ok s" and "code_new_charge clock e c s = Ok (out, s')"
  shows "charges_ok s' \<and> charges_evolve s s'"
proof -
  have "s' = s \<or> (\<exists>code out. transition_processor_charge clock (charge_id c) [charge_progression c]
      (charge_progression c) (Replace code) s = Ok (out, s'))"
    using assms(2) by (auto simp: code_new_charge_def Let_def split: if_splits)
  with assms(1) show ?thesis by (auto dest: transition_keeps [rotated 2])
qed

lemma observe_in_transaction_keeps:
  assumes ok: "charges_ok s" and others: "charges_ok (others s) \<and> charges_evolve s (others s)"
    and run: "observe_processor_charge_in_transaction others clock fresh i order e q s = Ok (out, s')"
  shows "charges_ok s' \<and> charges_evolve s s'"
proof -
  obtain a observed s1 where observe: "observe_processor_charge others clock fresh a e q s = Ok (observed, s1)"
    and rest: "s' = s1 \<or> (\<exists>c out. code_new_charge clock e c s1 = Ok (out, s'))"
    using run unfolding observe_processor_charge_in_transaction_def
    by (auto simp: and_then_Inr_iff map_sum_Inr_iff split: if_splits ObservedCharge.splits)
       (metis ObservedCharge.exhaust)+
  have "charges_ok s1 \<and> charges_evolve s s1" using ok others observe by (rule observe_keeps)
  with rest show ?thesis using code_new_charge_keeps charges_evolve_trans by blast
qed

lemma store_once_keeps:
  assumes ok: "charges_ok s" and others: "charges_ok (others s) \<and> charges_evolve s (others s)"
    and run: "store_once others preloaded clock fresh i order e s = Some (Ok (out, s'))"
  shows "charges_ok s' \<and> charges_evolve s s'"
proof -
  obtain a observed s1 where observe: "observe_processor_charge others clock fresh a e (compensating_progression a e) s = Ok (observed, s1)"
    and rest: "s' = s1 \<or> (\<exists>c out. code_new_charge clock e c s1 = Ok (out, s'))"
    using run unfolding store_once_def
    by (auto simp: and_then_Inr_iff map_sum_Inr_iff
        split: if_splits ObservedCharge.splits sum.splits option.splits)
       (metis ObservedCharge.exhaust)+
  have "charges_ok s1 \<and> charges_evolve s s1" using ok others observe by (rule observe_keeps)
  with rest show ?thesis using code_new_charge_keeps charges_evolve_trans by blast
qed


text \<open>What other transactions commit in between keeps the invariant and lets charges evolve.\<close>

definition charges_rely :: "(charge_store \<Rightarrow> charge_store) \<Rightarrow> bool" where
  "charges_rely others \<longleftrightarrow> (\<forall>s. charges_ok s \<longrightarrow> charges_ok (others s) \<and> charges_evolve s (others s))"

lemma lock_free_try_keeps:
  assumes ok: "charges_ok s" and others: "\<forall>n. charges_rely (others n)"
    and run: "lock_free_try others n clock fresh terms e policy s = Ok (out, s')"
  shows "charges_ok s' \<and> charges_evolve s s'"
proof -
  let ?s0 = "others (2 * n) s"
  let ?s1 = "others (2 * n + 1) ?s0"
  have s0: "charges_ok ?s0 \<and> charges_evolve s ?s0" using others ok unfolding charges_rely_def by blast
  then have s1: "charges_ok ?s1 \<and> charges_evolve ?s0 ?s1" using others unfolding charges_rely_def by blast
  obtain role where insert: "insert_charge unique_clash (lock_free_charge clock fresh terms e policy role) ?s1 = Ok (out, s')"
    using run unfolding lock_free_try_def Let_def by blast
  have "charges_ok s' \<and> charges_evolve ?s1 s'"
    using conjunct1 [OF s1] insert by (rule insert_charge_keeps) (simp_all add: lock_free_charge_def Let_def)
  with s0 s1 charges_evolve_trans show ?thesis by blast
qed

lemma lock_free_cases:
  assumes "persist_approved_evidence_without_attempt_lock_with_policy others clock fresh terms e policy s = Ok (out, s')"
  obtains (first) i where "lock_free_try others 0 clock (fresh 0) terms e policy s = Ok (Some i, s')" "out = LockFreePersisted"
  | (second) s1 i where "lock_free_try others 0 clock (fresh 0) terms e policy s = Ok (None, s1)"
      "lock_free_try others 1 clock (fresh 1) terms e policy s1 = Ok (Some i, s')" "out = LockFreePersisted"
  | (neither) s1 s2 where "lock_free_try others 0 clock (fresh 0) terms e policy s = Ok (None, s1)"
      "lock_free_try others 1 clock (fresh 1) terms e policy s1 = Ok (None, s2)"
      "lock_free_replay others terms e s2 = (out, s')"
proof -
  obtain inserted s1 where one: "lock_free_try others 0 clock (fresh 0) terms e policy s = Ok (inserted, s1)"
    and rest: "(if inserted \<noteq> None then Ok (LockFreePersisted, s1)
       else and_then (lock_free_try others 1 clock (fresh 1) terms e policy s1) (\<lambda>(inserted, s).
         if inserted \<noteq> None then Ok (LockFreePersisted, s)
         else Ok (lock_free_replay others terms e s))) = Ok (out, s')"
    using assms unfolding persist_approved_evidence_without_attempt_lock_with_policy_def and_then_Inr_iff
    by (auto simp del: not_None_eq)
  show thesis
  proof (cases inserted)
    case (Some i)
    with one rest show thesis by (intro first) auto
  next
    case None
    then obtain inserted' s2 where two: "lock_free_try others 1 clock (fresh 1) terms e policy s1 = Ok (inserted', s2)"
      and rest': "(out, s') = (if inserted' \<noteq> None then (LockFreePersisted, s2)
         else lock_free_replay others terms e s2)"
      using rest by (auto simp: and_then_Inr_iff Let_def split: if_splits)
    show thesis
    proof (cases inserted')
      case (Some i)
      with one two rest' None show thesis by (intro second) auto
    next
      case None': None
      with one two rest' None show thesis by (intro neither) auto
    qed
  qed
qed

lemma lock_free_replay_states:
  assumes "lock_free_replay others terms e s = (out, s')"
  shows "s' = others 4 s \<or> s' = others 5 (others 4 s)"
  using assms by (auto simp: lock_free_replay_def Let_def split: option.splits if_splits)

lemma lock_free_replay_keeps:
  assumes ok: "charges_ok s" and others: "\<forall>n. charges_rely (others n)"
    and run: "lock_free_replay others terms e s = (out, s')"
  shows "charges_ok s' \<and> charges_evolve s s'"
proof -
  let ?s1 = "others 4 s"
  have s1: "charges_ok ?s1 \<and> charges_evolve s ?s1" using others ok unfolding charges_rely_def by blast
  then have "charges_ok (others 5 ?s1) \<and> charges_evolve ?s1 (others 5 ?s1)" using others unfolding charges_rely_def by blast
  with s1 lock_free_replay_states [OF run] charges_evolve_trans show ?thesis by metis
qed

lemma lock_free_keeps:
  assumes ok: "charges_ok s" and others: "\<forall>n. charges_rely (others n)"
    and run: "persist_approved_evidence_without_attempt_lock_with_policy others clock fresh terms e policy s = Ok (out, s')"
  shows "charges_ok s' \<and> charges_evolve s s'"
  using run
proof (cases rule: lock_free_cases)
  case first
  then show ?thesis using lock_free_try_keeps [OF ok others] by blast
next
  case (second s1 i)
  then have s1: "charges_ok s1 \<and> charges_evolve s s1" using lock_free_try_keeps [OF ok others] by blast
  with lock_free_try_keeps [OF conjunct1 [OF s1] others second(2)] charges_evolve_trans show ?thesis by blast
next
  case (neither s1 s2)
  then have s1: "charges_ok s1 \<and> charges_evolve s s1" using lock_free_try_keeps [OF ok others] by blast
  have s2: "charges_ok s2 \<and> charges_evolve s1 s2"
    using conjunct1 [OF s1] others neither(2) by (rule lock_free_try_keeps)
  then have "charges_ok s' \<and> charges_evolve s2 s'" using lock_free_replay_keeps [OF _ others neither(3)] by blast
  with s1 s2 show ?thesis using charges_evolve_trans by blast
qed

section \<open>Any interleaving\<close>

text \<open>
  One step: an operation that commits, in whatever others commit meanwhile, or a change of the
  attempts that keeps their dimensions, or of the attestations.  These are all the statements that write the table; the
  exported transition names the states it expects, and its callers name external reversal only to keep it.
\<close>

inductive charge_step :: "charge_store \<Rightarrow> charge_store \<Rightarrow> bool" where
  observing: "charge_step\<^sup>*\<^sup>* s (others s) \<Longrightarrow>
    observe_processor_charge_in_transaction others clock fresh i order e q s = Ok (out, s') \<Longrightarrow> charge_step s s'"
| compensating: "charge_step\<^sup>*\<^sup>* s (others s) \<Longrightarrow>
    store_once others preloaded clock fresh i order e s = Some (Ok (result, s')) \<Longrightarrow> charge_step s s'"
| applying: "charge_step\<^sup>*\<^sup>* s (others s) \<Longrightarrow>
    observe_processor_charge others clock fresh a e q s = Ok (observed, s') \<Longrightarrow> charge_step s s'"
| retaining: "(\<And>n s. charge_step\<^sup>*\<^sup>* s (interfering n s)) \<Longrightarrow>
    persist_approved_evidence_without_attempt_lock_with_policy interfering clock ids terms e policy s = Ok (kept, s') \<Longrightarrow>
    charge_step s s'"
| transitioning: "(ExternallyReversed \<in> set expected \<longrightarrow> q = ExternallyReversed) \<Longrightarrow>
    transition_processor_charge_in_transaction clock i' expected q code s = Ok (c, s') \<Longrightarrow> charge_step s s'"
| resolving: "transition_charge clock i' q resolution s = Ok s' \<Longrightarrow> charge_step s s'"
| classifying: "transition_pending_charge clock i' q code s = Ok s' \<Longrightarrow> charge_step s s'"
| reversing: "accept_external_reversal clock i' prior s = Ok s' \<Longrightarrow> charge_step s s'"
| promoting: "promote_conflicting_charge_to_external_reversal clock observed s = Ok s' \<Longrightarrow> charge_step s s'"
| attempting: "list_all2 (\<lambda>a b. identity_attempt_id (attempt_identity b) = identity_attempt_id (attempt_identity a) \<and>
      attempt_dimensions b = attempt_dimensions a) (cs_attempts s) kept_attempts \<Longrightarrow>
    charge_step s (s\<lparr>cs_attempts := kept_attempts @ new_attempts\<rparr>)"
| attesting: "charge_step s (s\<lparr>cs_attestations := attestations\<rparr>)"

lemma find_list_all2:
  assumes "list_all2 (\<lambda>a b. f b = f a \<and> g b = g a) xs ys" and "map_option g (find (\<lambda>a. f a = i) xs) = Some d"
  shows "map_option g (find (\<lambda>a. f a = i) (ys @ zs)) = Some d"
  using assms by (induction rule: list_all2_induct) (auto split: if_splits)

lemma attempting_keeps:
  assumes ok: "charges_ok s"
    and attempts: "list_all2 (\<lambda>a b. identity_attempt_id (attempt_identity b) = identity_attempt_id (attempt_identity a) \<and>
      attempt_dimensions b = attempt_dimensions a) (cs_attempts s) kept"
  shows "charges_ok (s\<lparr>cs_attempts := kept @ new\<rparr>)"
proof -
  have "charge_owned (s\<lparr>cs_attempts := kept @ new\<rparr>) c" if "charge_owned s c" for c
    using find_list_all2 [OF attempts] that by (simp add: charge_owned_def charge_attempt_def)
  with ok show ?thesis by (simp add: charges_ok_def)
qed

interpretation kept: charge_operation "\<lambda>s s'. charge_step s s' \<and> (charges_ok s \<longrightarrow> charges_ok s' \<and> charges_evolve s s')"
  by unfold_locales blast

lemma charge_step_keeps:
  assumes "charge_step s s'" and "charges_ok s"
  shows "charges_ok s' \<and> charges_evolve s s'"
  using assms
proof (induction rule: charge_step.induct)
  case observing
  then show ?case using observe_in_transaction_keeps kept.runs_keep by blast
next
  case compensating
  then show ?case using store_once_keeps kept.runs_keep by blast
next
  case applying
  then show ?case using observe_keeps kept.runs_keep by blast
next
  case (retaining interfering clock ids terms e policy s kept s')
  have "charges_rely (interfering n)" for n
    unfolding charges_rely_def using kept.runs_keep retaining(1) by blast
  with retaining.prems retaining(2) show ?case using lock_free_keeps by blast
next
  case (transitioning expected q clock i' code s c s')
  then show ?case
    using transition_keeps [of s expected q] by (simp add: transition_processor_charge_in_transaction_def)
next
  case resolving
  then show ?case using transition_charge_keeps by blast
next
  case classifying
  then show ?case using transition_pending_keeps by blast
next
  case reversing
  then show ?case using accept_reversal_keeps by blast
next
  case promoting
  then show ?case using promote_keeps by blast
next
  case attempting
  then show ?case using attempting_keeps by simp
next
  case attesting
  then show ?case by (simp add: charges_ok_def charge_owned_def charge_attempt_def)
qed

interpretation step: charge_operation charge_step
  by unfold_locales (rule charge_step_keeps)


section \<open>Replays\<close>

text \<open>The row an observation answers for, and that no other row can take its identity any more.\<close>

definition observed_row :: "PaymentAttempt \<Rightarrow> ProcessorEvidence \<Rightarrow> ChargeRecord \<Rightarrow> charge_store \<Rightarrow> stored_charge \<Rightarrow> bool" where
  "observed_row a e r s row \<longleftrightarrow> row \<in> set (cs_charges s) \<and> charge_id row = record_id r \<and> charge_role row = record_role r \<and>
     charge_attempt_id row = identity_attempt_id (attempt_identity a) \<and>
     charge_transaction_id row = evidence_transaction_id e \<and> evidence_matches (charge_evidence row) e"

definition unidentifiable :: "PaymentAttempt \<Rightarrow> ProcessorEvidence \<Rightarrow> charge_store \<Rightarrow> bool" where
  "unidentifiable a e s \<longleftrightarrow> (case matching_charge (identity_attempt_id (attempt_identity a)) None s of
     None \<Rightarrow> True | Some row \<Rightarrow> \<not> evidence_matches (charge_evidence row) e)"

lemma identify_None_iff: "identify_transactionless clock a e t q s = Ok None \<longleftrightarrow> unidentifiable a e s"
  by (auto simp: identify_transactionless_def unidentifiable_def and_then_def Let_def split: option.splits sum.splits)

lemma charges_ok_transactionless:
  assumes "charges_ok s" and "c \<in> set (cs_charges s)" and "d \<in> set (cs_charges s)"
    and "charge_attempt_id c = charge_attempt_id d" and "charge_transaction_id c = charge_transaction_id d"
  shows "c = d"
proof -
  have "unique_clash c d"
    using assms(4,5) by (auto simp: unique_clash_def attempt_transaction_idx_def attempt_transactionless_idx_def)
  then have "charge_id c = charge_id d" using assms(1-3) unfolding charges_ok_def by blast
  then show ?thesis by (rule charges_ok_id_eq [OF assms(1-3)])
qed

lemma update_charge_all:
  assumes "update_charge i (\<lambda>_. True) f s = Ok (out, s')" and "c \<in> set (cs_charges s)" and "charge_id c = i"
  shows "cs_charges s' = map (\<lambda>d. if charge_id d = i then f d else d) (cs_charges s)"
proof -
  have "find (\<lambda>c. charge_id c = i \<and> True) (cs_charges s) \<noteq> None"
    using assms(2,3) unfolding find_None_iff by blast
  with assms(1) show ?thesis by (auto simp: update_charge_def split: if_splits)
qed

lemma identify_leaves_row:
  assumes ok: "charges_ok s" and run: "identify_transactionless clock a e t q s = Ok (Some (r, s'))"
    and t: "evidence_transaction_id e = Some t"
  shows "\<exists>row. observed_row a e r s' row" and "unidentifiable a e s'"
proof -
  obtain row s1 out1 out2 where
    row: "matching_charge (identity_attempt_id (attempt_identity a)) None s = Some row"
      "evidence_matches (charge_evidence row) e"
    and one: "update_charge (charge_id row) (\<lambda>_. True) (identified_row t) s = Ok (out1, s1)"
    and two: "update_charge (charge_id row) (\<lambda>_. True)
       (\<lambda>c. (set_progression clock (initial_charge_progression (charge_role row)
          (money_cents (request_amount (attempt_request a))) (Some t) q) c)\<lparr>charge_state_code := None\<rparr>) s1 = Ok (out2, s')"
    and r: "r = \<lparr>record_id = charge_id row, record_role = charge_role row, record_exact_replay = False\<rparr>"
    using run by (elim identify_cases) (simp add: identified_row_def [abs_def])
  have mem: "row \<in> set (cs_charges s)" "charge_attempt_id row = identity_attempt_id (attempt_identity a)"
      "charge_transaction_id row = None"
    using matching_charge_SomeD [OF row(1)] by simp_all
  let ?f = "\<lambda>c. (set_progression clock (initial_charge_progression (charge_role row)
      (money_cents (request_amount (attempt_request a))) (Some t) q) c)\<lparr>charge_state_code := None\<rparr>"
  have s1: "cs_charges s1 = map (\<lambda>d. if charge_id d = charge_id row then identified_row t d else d) (cs_charges s)"
    using update_charge_all [OF one mem(1)] by simp
  have "identified_row t row \<in> set (cs_charges s1)"
    using imageI [OF mem(1), of "\<lambda>d. if charge_id d = charge_id row then identified_row t d else d"]
    by (simp add: s1)
  then have s': "cs_charges s' = map (\<lambda>d. if charge_id d = charge_id row then ?f d else d) (cs_charges s1)"
    by (rule update_charge_all [OF two]) (simp add: identified_row_def)
  let ?g = "\<lambda>d. if charge_id d = charge_id row then ?f (identified_row t d) else d"
  have charges: "cs_charges s' = map ?g (cs_charges s)"
    by (simp add: s' s1 identified_row_def)
  have "?g row \<in> set (cs_charges s')"
    unfolding charges set_map using mem(1) by (rule imageI)
  then have "?f (identified_row t row) \<in> set (cs_charges s')" by simp
  then show "\<exists>row. observed_row a e r s' row"
    using mem(2) row(2) t
    by (intro exI [of _ "?f (identified_row t row)"])
       (auto simp: observed_row_def r identified_row_def evidence_matches_def set_progression_def)
  have "x \<notin> set (cs_charges s')" if x: "charge_attempt_id x = identity_attempt_id (attempt_identity a)"
      "charge_transaction_id x = None" for x
  proof
    assume "x \<in> set (cs_charges s')"
    then obtain d where d: "d \<in> set (cs_charges s)" "x = ?g d" unfolding charges set_map by (elim imageE)
    have "charge_transaction_id (?f (identified_row t d)) \<noteq> None" by (simp add: identified_row_def)
    with d(2) x(2) have other: "charge_id d \<noteq> charge_id row" and "x = d" by (metis, metis)
    then have "d = row" using charges_ok_transactionless [OF ok d(1) mem(1)] x mem by simp
    with other show False by simp
  qed
  then have "matching_charge (identity_attempt_id (attempt_identity a)) None s' = None"
    unfolding matching_charge_def find_None_iff by blast
  then show "unidentifiable a e s'" by (simp add: unidentifiable_def)
qed

lemma find_snoc: "find P (xs @ [x]) = (case find P xs of None \<Rightarrow> if P x then Some x else None | Some y \<Rightarrow> Some y)"
  by (induction xs) auto

lemma observe_insert_leaves_row:
  assumes observe: "observe_insert clock fresh a e q existing s = Ok (Owned r, s')"
  shows "\<exists>row. observed_row a e r s' row \<and> (s' = s \<or> cs_charges s' = cs_charges s @ [row])"
proof -
  let ?role = "if existing then Additional else Primary"
  let ?c = "observed_charge clock fresh a e ?role (initial_charge_progression ?role
    (money_cents (request_amount (attempt_request a))) (evidence_transaction_id e) q)"
  obtain arbiter out s1 where insert: "insert_charge arbiter ?c s = Ok (out, s1)"
    and rest: "(case out of Some i \<Rightarrow> Ok (Owned \<lparr>record_id = i, record_role = ?role, record_exact_replay = False\<rparr>, s1)
        | None \<Rightarrow> observe_replay a e s1) = Ok (Owned r, s')"
    using observe unfolding observe_insert_def Let_def and_then_Inr_iff by auto
  from insert show ?thesis
  proof (cases rule: insert_charge_cases)
    case (1 b d)
    with rest have "observe_replay a e s = Ok (Owned r, s')" by simp
    then obtain row where "matching_charge (identity_attempt_id (attempt_identity a)) (evidence_transaction_id e) s = Some row"
        "evidence_matches (charge_evidence row) e" "s' = s"
        "r = \<lparr>record_id = charge_id row, record_role = charge_role row, record_exact_replay = True\<rparr>"
      by (auto simp: observe_replay_def split: option.splits if_splits)
    with matching_charge_SomeD show ?thesis by (intro exI [of _ row]) (fastforce simp: observed_row_def)
  next
    case (2 b d)
    have "observed_row a e r s' d"
      using rest 2(2,6,7) unfolding set_processor_charge_attempt_dimensions_Some
      by (auto simp: observed_row_def observed_charge_def evidence_matches_equivalence)
    with rest 2(6,7) show ?thesis by (intro exI [of _ d]) auto
  qed
qed

lemma observe_owned_row:
  assumes ok: "charges_ok s" and run: "observe_processor_charge others clock fresh a e q s = Ok (Owned r, s')"
  shows "\<exists>row. observed_row a e r s' row"
  using run
proof (cases rule: observe_cases)
  case identified
  with ok show ?thesis using identify_leaves_row(1) by blast
next
  case inserted
  then show ?thesis using observe_insert_leaves_row by blast
qed simp

lemma observe_other_owner:
  assumes "observe_processor_charge others clock fresh a e q s = Ok (OwnedByOtherAttempt, s')"
  shows "\<exists>t. evidence_transaction_id e = Some t \<and> owned_by_other_attempt (attempt_identity a) t s'"
  using assms
  by (auto simp: observe_processor_charge_def observe_insert_def observe_replay_def and_then_Inr_iff Let_def
      split: option.splits if_splits prod.splits)

lemma observe_leaves_row:
  assumes ok: "charges_ok s" and run: "observe_processor_charge id clock fresh a e q s = Ok (Owned r, s')"
  shows "(\<exists>row. observed_row a e r s' row) \<and> (evidence_transaction_id e \<noteq> None \<longrightarrow> unidentifiable a e s')"
proof (cases "evidence_transaction_id e")
  case None
  then have "observe_insert clock fresh a e q (has_existing_charge (identity_attempt_id (attempt_identity a)) s) s = Ok (Owned r, s')"
    using run by (simp add: observe_processor_charge_def)
  from observe_insert_leaves_row [OF this] have "\<exists>row. observed_row a e r s' row" by blast
  with None show ?thesis by (simp only: simp_thms)
next
  case (Some t)
  from run show ?thesis
  proof (cases rule: observe_cases)
    case (identified r' t')
    with Some have t: "identify_transactionless clock a e t q s = Ok (Some (r, s'))" by simp
    from identify_leaves_row [OF ok t Some] show ?thesis by blast
  next
    case inserted': (inserted existing)
    from observe_insert_leaves_row [of clock fresh a e q existing s r s'] inserted'(2) obtain row where row: "observed_row a e r s' row"
        "s' = s \<or> cs_charges s' = cs_charges s @ [row]"
      by auto
    have "charge_transaction_id row \<noteq> None" using row(1) Some by (simp add: observed_row_def)
    with row(2) have "matching_charge i None s' = matching_charge i None s" for i
      by (auto simp: matching_charge_def find_snoc split: option.splits)
    then have "unidentifiable a e s'"
      using inserted'(1) [OF Some] by (simp add: identify_None_iff unidentifiable_def)
    with row(1) show ?thesis by blast
  qed simp
qed

lemma update_charge_attempts: "update_charge i hit f s = Ok (out, s') \<Longrightarrow> cs_attempts s' = cs_attempts s"
  by (erule update_charge_cases) simp_all

lemma observe_insert_attempts:
  "observe_insert clock fresh a e q existing s = Ok (out, s') \<Longrightarrow> cs_attempts s' = cs_attempts s"
  by (auto simp: observe_insert_def Let_def and_then_Inr_iff elim!: insert_charge_cases dest!: observe_replay_keeps)

lemma observe_attempts:
  assumes "observe_processor_charge others clock fresh a e q s = Ok (out, s')" and "cs_attempts (others s) = cs_attempts s"
  shows "cs_attempts s' = cs_attempts s"
  using assms(1)
proof (cases rule: observe_cases)
  case identified
  then show ?thesis by (elim identify_cases) (simp add: update_charge_attempts)
qed (use assms(2) in \<open>simp_all add: observe_insert_attempts\<close>)

lemma observed_row_dimensions:
  assumes "charges_ok s" and "charge_attempt s (identity_attempt_id (attempt_identity a)) = Some a"
    and "observed_row a e r s row"
  shows "charge_dimensions row = attempt_dimensions a" and "dimension_shape_check row"
    and "charge_gateway_account_id row = identity_gateway_account_id (attempt_identity a)"
proof -
  have "row \<in> set (cs_charges s)" "charge_attempt_id row = identity_attempt_id (attempt_identity a)"
    using assms(3) by (simp_all add: observed_row_def)
  with assms(1,2) have "charge_owned s row" "charge_row_ok row" by (auto simp: charges_ok_def)
  with assms(2) \<open>charge_attempt_id row = _\<close>
  show "charge_dimensions row = attempt_dimensions a" "dimension_shape_check row"
    by (simp_all add: charge_owned_def charge_row_ok_def charge_checks_def)
  then show "charge_gateway_account_id row = identity_gateway_account_id (attempt_identity a)"
    by (simp add: charge_dimensions_def attempt_dimensions_def)
qed

lemma observed_row_owner:
  assumes "charges_ok s" and "charge_attempt s (identity_attempt_id (attempt_identity a)) = Some a"
    and "observed_row a e r s row" and "evidence_transaction_id e = Some t"
  shows "\<not> owned_by_other_attempt (attempt_identity a) t s"
proof
  assume "owned_by_other_attempt (attempt_identity a) t s"
  then obtain c where c: "c \<in> set (cs_charges s)" "charge_gateway_account_id c = identity_gateway_account_id (attempt_identity a)"
      "charge_transaction_id c = Some t" "charge_attempt_id c \<noteq> identity_attempt_id (attempt_identity a)"
    by (auto simp: owned_by_other_attempt_def list_ex_iff)
  have "unique_clash c row"
    using c assms(3,4) observed_row_dimensions(3) [OF assms(1-3)]
    by (simp add: unique_clash_def gateway_transaction_idx_def observed_row_def)
  then have "charge_id c = charge_id row"
    using assms(1,3) c(1) unfolding charges_ok_def observed_row_def by blast
  with charges_ok_id_eq [OF assms(1) c(1)] assms(3) c(4) show False by (auto simp: observed_row_def)
qed

lemma observe_insert_replays:
  assumes ok: "charges_ok s" and a: "charge_attempt s (identity_attempt_id (attempt_identity a)) = Some a"
    and row: "observed_row a e r s row"
  shows "observe_insert clock fresh a e q True s = Ok (Owned (r\<lparr>record_exact_replay := True\<rparr>), s)"
proof -
  let ?q = "initial_charge_progression Additional (money_cents (request_amount (attempt_request a))) (evidence_transaction_id e) q"
  let ?c = "observed_charge clock fresh a e Additional ?q"
  let ?arbiter = "if evidence_transaction_id e \<noteq> None then gateway_transaction_idx else attempt_transactionless_idx"
  have dims: "set_processor_charge_attempt_dimensions a ?c = Some ?c" "charge_dimensions ?c = charge_dimensions row"
    using observed_row_dimensions(1) [OF ok a row]
    by (simp_all add: set_processor_charge_attempt_dimensions_def observed_charge_def charge_dimensions_def attempt_dimensions_def)
  have "charge_checks ?c"
    using observed_row_dimensions(2) [OF ok a row] dims(2)
    by (auto simp: charge_checks_def dimension_shape_check_def charge_dimensions_def state_timestamps_check_def
        transaction_identity_check_def reversal_eligibility_check_def observed_charge_def initial_charge_progression_def
        split: if_splits)
  moreover have "?arbiter ?c row"
    using row observed_row_dimensions(3) [OF ok a row]
    by (auto simp: observed_row_def gateway_transaction_idx_def attempt_transactionless_idx_def observed_charge_def)
  then have "list_ex (?arbiter ?c) (cs_charges s)" using row unfolding list_ex_iff observed_row_def by blast
  ultimately have insert: "insert_charge ?arbiter ?c s = Ok (None, s)"
    using a dims(1) by (simp add: insert_charge_def observed_charge_def)
  obtain found where found: "matching_charge (identity_attempt_id (attempt_identity a)) (evidence_transaction_id e) s = Some found"
    using row by (cases "matching_charge (identity_attempt_id (attempt_identity a)) (evidence_transaction_id e) s")
      (auto simp: matching_charge_def find_None_iff observed_row_def)
  then have "found = row"
    using charges_ok_transactionless [OF ok, of found row] row matching_charge_SomeD [OF found]
    by (simp add: observed_row_def)
  with found row have "observe_replay a e s = Ok (Owned (r\<lparr>record_exact_replay := True\<rparr>), s)"
    by (auto simp: observe_replay_def observed_row_def)
  with insert show ?thesis by (simp add: observe_insert_def Let_def)
qed

lemma observed_row_replays:
  assumes ok: "charges_ok s" and a: "charge_attempt s (identity_attempt_id (attempt_identity a)) = Some a"
    and row: "observed_row a e r s row" and un: "evidence_transaction_id e \<noteq> None \<longrightarrow> unidentifiable a e s"
  shows "observe_processor_charge id clock fresh a e q s = Ok (Owned (r\<lparr>record_exact_replay := True\<rparr>), s)"
proof -
  have replay: "observe_insert clock fresh a e q True s = Ok (Owned (r\<lparr>record_exact_replay := True\<rparr>), s)"
    using ok a row by (rule observe_insert_replays)
  have existing: "has_existing_charge (identity_attempt_id (attempt_identity a)) s"
    using row by (auto simp: has_existing_charge_def list_ex_iff observed_row_def)
  show ?thesis
  proof (cases "evidence_transaction_id e")
    case None
    with replay existing show ?thesis by (simp add: observe_processor_charge_def)
  next
    case (Some t)
    with un have "identify_transactionless clock a e t q s = Ok None" by (simp add: identify_None_iff)
    with replay existing Some observed_row_owner [OF ok a row Some] show ?thesis
      by (simp add: observe_processor_charge_def)
  qed
qed

section \<open>The lock-free write\<close>

definition lock_free_match :: "LockFreeApprovedEvidenceTerms \<Rightarrow> ProcessorEvidence \<Rightarrow> stored_charge \<Rightarrow> bool" where
  "lock_free_match terms e c \<longleftrightarrow> charge_attempt_id c = identity_attempt_id (lock_free_identity terms) \<and>
     charge_transaction_id c = evidence_transaction_id e \<and> evidence_matches (charge_evidence c) e"

lemma lock_free_try_row:
  assumes "lock_free_try others n clock fresh terms e policy s = Ok (Some i, s')"
  shows "\<exists>c\<in>set (cs_charges s'). charge_attempt_id c = identity_attempt_id (lock_free_identity terms) \<and> charge_evidence c = e \<and>
    (charge_progression c, charge_state_code c) =
      (if policy = ReverseExpiredPeriod \<and> charge_role c = Primary \<and> money_cents (lock_free_amount terms) > 0 \<and>
          evidence_transaction_id e \<noteq> None
       then (ExternalReversalRequired, Some (PaymentResolution SubscriptionApprovedPeriodExpired))
       else (ProcessorChargeProgression.Pending, None))"
proof -
  obtain role s1 where "insert_charge unique_clash (lock_free_charge clock fresh terms e policy role) s1 = Ok (Some i, s')"
    using assms unfolding lock_free_try_def Let_def by blast
  then show ?thesis
  proof (cases rule: insert_charge_cases)
    case (2 a d)
    then show ?thesis
      unfolding set_processor_charge_attempt_dimensions_Some
      by (intro bexI [of _ d]) (auto simp: lock_free_charge_def lock_free_reversal_def Let_def)
  qed simp
qed

lemma lock_free_found:
  assumes ok: "charges_ok s"
  shows "(\<exists>c\<in>set (cs_charges s). lock_free_match terms e c) \<longleftrightarrow>
    (case matching_charge (identity_attempt_id (lock_free_identity terms)) (evidence_transaction_id e) s of
       Some row \<Rightarrow> evidence_matches (charge_evidence row) e | None \<Rightarrow> False)"
    (is "_ \<longleftrightarrow> (case ?found of Some row \<Rightarrow> _ row | None \<Rightarrow> _)")
proof (cases ?found)
  case None
  then have "\<not> (\<exists>c\<in>set (cs_charges s). lock_free_match terms e c)"
    unfolding matching_charge_def find_None_iff lock_free_match_def by blast
  with None show ?thesis by simp
next
  case (Some row)
  then have row: "row \<in> set (cs_charges s)" "charge_attempt_id row = identity_attempt_id (lock_free_identity terms)"
      "charge_transaction_id row = evidence_transaction_id e"
    using matching_charge_SomeD by blast+
  then have "c = row" if "c \<in> set (cs_charges s)" "lock_free_match terms e c" for c
    using charges_ok_transactionless [OF ok that(1) row(1)] that(2) by (simp add: lock_free_match_def)
  with row(1) have "(\<exists>c\<in>set (cs_charges s). lock_free_match terms e c) \<longleftrightarrow> lock_free_match terms e row" by blast
  also have "\<dots> \<longleftrightarrow> evidence_matches (charge_evidence row) e"
    unfolding lock_free_match_def using row(2,3) by blast
  finally show ?thesis using Some by (simp only: option.simps)
qed

text \<open>The owner of a transaction that is not the attempt of the write.\<close>

definition lock_free_other_owner :: "LockFreeApprovedEvidenceTerms \<Rightarrow> ProcessorEvidence \<Rightarrow> stored_charge \<Rightarrow> bool" where
  "lock_free_other_owner terms e c \<longleftrightarrow> charge_gateway_account_id c = identity_gateway_account_id (lock_free_identity terms) \<and>
     charge_transaction_id c = evidence_transaction_id e \<and> charge_transaction_id c \<noteq> None \<and>
     charge_attempt_id c \<noteq> identity_attempt_id (lock_free_identity terms)"

lemma lock_free_owned:
  "evidence_transaction_id e = Some t \<Longrightarrow>
     owned_by_other_attempt (lock_free_identity terms) t s \<longleftrightarrow> (\<exists>c\<in>set (cs_charges s). lock_free_other_owner terms e c)"
  by (auto simp: owned_by_other_attempt_def list_ex_iff lock_free_other_owner_def)

lemma lock_free_replay_truthful:
  assumes ok: "charges_ok s" and others: "\<forall>n. charges_rely (others n)"
    and run: "lock_free_replay others terms e s = (out, s')"
  shows "case out of
      LockFreePersisted \<Rightarrow> False
    | LockFreeExactReplay \<Rightarrow> \<exists>c\<in>set (cs_charges s'). lock_free_match terms e c
    | LockFreeOwnedByOtherAttempt \<Rightarrow> \<exists>c\<in>set (cs_charges s'). lock_free_other_owner terms e c
    | LockFreeNotDurable \<Rightarrow> \<exists>s1. charges_evolve s s1 \<and> charges_evolve s1 s' \<and>
        \<not> (\<exists>c\<in>set (cs_charges s1). lock_free_match terms e c) \<and>
        (if evidence_transaction_id e = None then s' = s1
         else \<not> (\<exists>c\<in>set (cs_charges s'). lock_free_other_owner terms e c))"
proof -
  let ?s1 = "others 4 s"
  have s1: "charges_ok ?s1" "charges_evolve s ?s1" using others ok unfolding charges_rely_def by blast+
  then have s2: "charges_evolve ?s1 (others 5 ?s1)" using others unfolding charges_rely_def by blast
  note found = lock_free_found [OF s1(1), of terms e]
  show ?thesis
  proof (cases "\<exists>c\<in>set (cs_charges ?s1). lock_free_match terms e c")
    case True
    with run found have "out = LockFreeExactReplay" "s' = ?s1" by (simp_all add: lock_free_replay_def)
    with True show ?thesis by simp
  next
    case unmatched: False
    show ?thesis
    proof (cases "evidence_transaction_id e")
      case None
      with run found unmatched have "out = LockFreeNotDurable" "s' = ?s1" by (simp_all add: lock_free_replay_def)
      with unmatched s1(2) None show ?thesis by auto
    next
      case (Some t)
      with run found unmatched have s': "s' = others 5 ?s1"
        and out: "out = (if owned_by_other_attempt (lock_free_identity terms) t s' then LockFreeOwnedByOtherAttempt
          else LockFreeNotDurable)"
        by (auto simp: lock_free_replay_def Let_def)
      have owned: "owned_by_other_attempt (lock_free_identity terms) t s' \<longleftrightarrow>
          (\<exists>c\<in>set (cs_charges s'). lock_free_other_owner terms e c)"
        using Some by (rule lock_free_owned)
      show ?thesis
      proof (cases "owned_by_other_attempt (lock_free_identity terms) t s'")
        case True
        with out owned show ?thesis by simp
      next
        case False
        with out have "out = LockFreeNotDurable" by simp
        with False owned unmatched s1(2) s2 s' Some show ?thesis by auto
      qed
    qed
  qed
qed

section \<open>A replay the database refuses\<close>

text \<open>
  When an attempt has an identified charge and a second report of the same evidence arrived
  without its transaction identity, the next replay of the identified report finds the
  unidentified row first, gives it the identity that the other row has, and is refused by the
  unique index instead of being answered as the replay it is.
\<close>

lemma replay_refused_after_unidentified_report:
  assumes ok: "charges_ok s" and t: "evidence_transaction_id e = Some t"
    and identified: "c \<in> set (cs_charges s)" "charge_attempt_id c = identity_attempt_id (attempt_identity a)"
      "charge_transaction_id c = Some t" "\<not> owned_by_other_attempt (attempt_identity a) t s"
    and bare: "matching_charge (identity_attempt_id (attempt_identity a)) None s = Some d"
      "evidence_matches (charge_evidence d) e"
  shows "observe_processor_charge others clock fresh a e q s = Err unique_violation"
proof -
  have d: "d \<in> set (cs_charges s)" "charge_attempt_id d = identity_attempt_id (attempt_identity a)" "charge_transaction_id d = None"
    using matching_charge_SomeD [OF bare(1)] by simp_all
  have checks: "charge_checks (identified_row t d)"
    using ok d unfolding charges_ok_def charge_row_ok_def
    by (auto simp: charge_checks_def identified_row_def dimension_shape_check_def state_timestamps_check_def
        transaction_identity_check_def reversal_eligibility_check_def)
  have "find (\<lambda>x. charge_id x = charge_id d \<and> True) (cs_charges s) = Some d"
  proof (cases "find (\<lambda>x. charge_id x = charge_id d \<and> True) (cs_charges s)")
    case None
    with d(1) show ?thesis unfolding find_None_iff by blast
  next
    case (Some x)
    then have "x \<in> set (cs_charges s)" "charge_id x = charge_id d" by (auto simp: find_Some_iff)
    with charges_ok_id_eq [OF ok _ d(1)] Some show ?thesis by blast
  qed
  moreover have "list_ex (\<lambda>x. charge_id x \<noteq> charge_id d \<and> unique_clash (identified_row t d) x) (cs_charges s)"
  proof -
    have "charge_id c \<noteq> charge_id d" using charges_ok_id_eq [OF ok identified(1) d(1)] identified(3) d(3) by auto
    moreover have "unique_clash (identified_row t d) c"
      using d(2) identified(2,3) by (simp add: unique_clash_def attempt_transaction_idx_def identified_row_def)
    ultimately show ?thesis using identified(1) unfolding list_ex_iff by blast
  qed
  ultimately have "update_charge (charge_id d) (\<lambda>_. True) (identified_row t) s = Err unique_violation"
    using checks by (simp add: update_charge_def)
  with t identified(4) bare show ?thesis
    by (simp add: observe_processor_charge_def identify_transactionless_def identified_row_def [abs_def])
qed

section \<open>A transition that leaves external reversal\<close>

text \<open>
  The exported transition moves whatever state its caller expects, external reversal as well: a charge that was reversed goes back to review.
  No caller in the repository asks for it, and the table has no constraint against it.
\<close>

lemma transition_can_leave_reversal:
  assumes ok: "charges_ok s" and c: "c \<in> set (cs_charges s)" "charge_progression c = ExternallyReversed"
  shows "\<exists>d s'. transition_processor_charge_in_transaction clock (charge_id c) [ExternallyReversed] ReconciliationRequired code s =
    Ok (d, s') \<and> charge_progression d = ReconciliationRequired \<and> \<not> charges_evolve s s'"
proof -
  let ?f = "\<lambda>c. (set_progression clock ReconciliationRequired c)\<lparr>charge_state_code := code, charge_externally_reversed_at := None\<rparr>"
  let ?hit = "\<lambda>c. charge_progression c = ExternallyReversed \<and> transition_eligible ReconciliationRequired c"
  have found: "find (\<lambda>d. charge_id d = charge_id c \<and> ?hit d) (cs_charges s) = Some c"
  proof (cases "find (\<lambda>d. charge_id d = charge_id c \<and> ?hit d) (cs_charges s)")
    case None
    with c show ?thesis by (auto simp: find_None_iff transition_eligible_def)
  next
    case (Some d)
    then have "d \<in> set (cs_charges s)" "charge_id d = charge_id c" by (auto simp: find_Some_iff)
    with charges_ok_id_eq [OF ok _ c(1)] Some show ?thesis by blast
  qed
  have row: "charge_checks c" "charge_transaction_id c \<noteq> None" "\<forall>d \<in> set (cs_charges s). charge_id d \<noteq> charge_id c \<longrightarrow> \<not> unique_clash c d"
    using ok c unfolding charges_ok_def charge_row_ok_def
    by (auto simp: charge_checks_def transaction_identity_check_def)
  have "charge_checks (?f c)"
    using row(1,2) by (simp add: charge_checks_def dimension_shape_check_def state_timestamps_check_def transaction_identity_check_def
        reversal_eligibility_check_def set_progression_def)
  moreover have "unique_clash (?f c) d \<longleftrightarrow> unique_clash c d" for d
    by (simp add: unique_clash_def attempt_transaction_idx_def attempt_transactionless_idx_def gateway_transaction_idx_def
        primary_attempt_idx_def set_progression_def)
  then have "\<not> list_ex (\<lambda>d. charge_id d \<noteq> charge_id c \<and> unique_clash (?f c) d) (cs_charges s)"
    using row(3) by (auto simp: list_ex_iff)
  ultimately obtain s' where s': "update_charge (charge_id c) ?hit ?f s = Ok (Some (?f c), s')"
      "cs_charges s' = map (\<lambda>d. if charge_id d = charge_id c then ?f d else d) (cs_charges s)"
    using found by (auto simp: update_charge_def)
  have "\<not> charges_evolve s s'"
  proof
    assume "charges_evolve s s'"
    then obtain old new where split: "cs_charges s' = old @ new" "list_all2 charge_evolves (cs_charges s) old"
      by (auto simp: charges_evolve_def)
    have "length (cs_charges s') = length (cs_charges s)" by (simp add: s'(2))
    then have "new = []" using list_all2_lengthD [OF split(2)] by (simp add: split(1))
    with split have "list_all2 charge_evolves (cs_charges s) (cs_charges s')" by simp
    then have "charge_evolves c (?f c)" using c(1) by (auto simp: s'(2) list_all2_map2 list_all2_same)
    with charge_lives_final c(2) show False
      by (fastforce simp: charge_evolves_def charge_state_of_def set_progression_def)
  qed
  with s'(1) show ?thesis
    by (simp add: transition_processor_charge_in_transaction_def transition_processor_charge_def set_progression_def
        ProcessorCharge.truncate_def)
qed

section \<open>Storing a compensating charge\<close>

text \<open>The charge that an answer of \<open>store_once\<close> stands for.\<close>

definition compensated_row ::
    "PaymentAttemptId \<Rightarrow> ProcessorEvidence \<Rightarrow> CompensatingProcessorChargeOutcome \<Rightarrow> stored_charge \<Rightarrow> bool" where
  "compensated_row i e out c \<longleftrightarrow> charge_transaction_id c = evidence_transaction_id e \<and>
     (if out = CompensationOwnedByOtherAttempt
      then charge_transaction_id c \<noteq> None \<and> charge_attempt_id c \<noteq> i
      else charge_attempt_id c = i \<and> evidence_matches (charge_evidence c) e)"

lemma update_charge_rows:
  assumes "update_charge i hit f s = Ok (out, s')" and "c \<in> set (cs_charges s)"
    and "\<And>d. charge_evidence (f d) = charge_evidence d \<and> charge_attempt_id (f d) = charge_attempt_id d"
  shows "\<exists>d \<in> set (cs_charges s'). charge_evidence d = charge_evidence c \<and> charge_attempt_id d = charge_attempt_id c"
proof -
  from assms(1) consider "s' = s" | "cs_charges s' = map (\<lambda>d. if charge_id d = i then f d else d) (cs_charges s)"
    by (auto simp: update_charge_def split: option.splits if_splits)
  then show ?thesis
  proof cases
    case 2
    then have "(if charge_id c = i then f c else c) \<in> set (cs_charges s')" using assms(2) by auto
    then show ?thesis using assms(3) by (intro bexI) auto
  qed (use assms(2) in auto)
qed

lemma code_new_charge_rows:
  assumes "code_new_charge clock e p s = Ok (out, s')" and "c \<in> set (cs_charges s)"
  shows "\<exists>d \<in> set (cs_charges s'). charge_evidence d = charge_evidence c \<and> charge_attempt_id d = charge_attempt_id c"
proof (cases "s' = s")
  case False
  with assms(1) obtain row where "update_charge (charge_id p)
      (\<lambda>c. charge_progression c \<in> set [charge_progression p] \<and> transition_eligible (charge_progression p) c)
      (\<lambda>c. (set_progression clock (charge_progression p) c)
         \<lparr>charge_state_code := updated_state_code (Replace (initial_charge_state_code (charge_role p) (charge_progression p)
            (evidence_transaction_id e))) (charge_state_code c),
          charge_externally_reversed_at := (if charge_progression p = ExternallyReversed
            then Some (coalesced (charge_externally_reversed_at c) clock) else None)\<rparr>) s = Ok (row, s')"
    unfolding code_new_charge_def Let_def transition_processor_charge_def
    by (auto simp: and_then_Inr_iff split: if_splits)
  from this assms(2) show ?thesis by (rule update_charge_rows) (simp add: set_progression_def)
qed (use assms(2) in auto)

lemma store_once_row:
  assumes ok: "charges_ok s" and others: "charges_ok (others s) \<and> charges_evolve s (others s)"
    and run: "store_once others preloaded clock fresh i order e s = Some (Ok (out, s'))"
  shows "list_ex (compensated_row i e out) (cs_charges s')"
proof -
  obtain a where load: "load_compensated_attempt preloaded i order s = Ok a"
    using run by (cases "load_compensated_attempt preloaded i order s") (simp_all add: store_once_def)
  then obtain observed s1 where observe: "observe_processor_charge others clock fresh a e (compensating_progression a e) s = Ok (observed, s1)"
    using run by (cases "observe_processor_charge others clock fresh a e (compensating_progression a e) s")
      (auto simp: store_once_def)
  have i: "identity_attempt_id (attempt_identity a) = i"
    using load by (auto simp: load_compensated_attempt_def find_attempt_of_scope_def and_then_Inr_iff ok_or_Inr_iff find_Some_iff
        split: if_splits)
  show ?thesis
  proof (cases observed)
    case OwnedByOtherAttempt
    with observe_other_owner observe obtain t where "evidence_transaction_id e = Some t"
        "owned_by_other_attempt (attempt_identity a) t s1" by blast
    moreover have "out = CompensationOwnedByOtherAttempt" "s' = s1"
      using run load observe OwnedByOtherAttempt by (simp_all add: store_once_def)
    ultimately show ?thesis
      using i by (auto simp: compensated_row_def owned_by_other_attempt_def list_ex_iff)
  next
    case (Owned charge)
    with observe_owned_row [OF ok] observe obtain row where "observed_row a e charge s1 row" by blast
    then have row: "row \<in> set (cs_charges s1)" "charge_attempt_id row = i" "charge_transaction_id row = evidence_transaction_id e"
        "evidence_matches (charge_evidence row) e"
      using i by (simp_all add: observed_row_def)
    have rest: "out \<noteq> CompensationOwnedByOtherAttempt" "s' = s1 \<or> (\<exists>p x. code_new_charge clock e p s1 = Ok (x, s'))"
      using run load observe Owned
      by (auto simp: store_once_def and_then_def split: sum.splits if_splits)
    have "\<exists>d \<in> set (cs_charges s'). charge_evidence d = charge_evidence row \<and> charge_attempt_id d = charge_attempt_id row"
      using rest(2) row(1) code_new_charge_rows by blast
    then obtain d where "d \<in> set (cs_charges s')" "compensated_row i e out d"
      using row rest(1) by (auto simp: compensated_row_def)
    then show ?thesis unfolding list_ex_iff by blast
  qed
qed

text \<open>
  The failures that pass: a serialization failure, a deadlock, a lock that was not available and a canceled statement.
  \<open>answered_at\<close> says that only such failures came before the try with number \<open>n\<close>.
\<close>

definition momentary :: "ProcessorChargeStoreError \<Rightarrow> bool" where
  "momentary x \<longleftrightarrow> (\<exists>code \<in> {lit ''40001'', lit ''40P01'', lit ''55P03'', lit ''57014''}.
     x = Sql (Some code) \<or> x = Attempt (AttemptSql (Some code)))"

definition answered_at :: "(nat \<Rightarrow> ('a, ProcessorChargeStoreError) result option) \<Rightarrow> nat \<Rightarrow> bool" where
  "answered_at once n \<longleftrightarrow> n \<in> {1, 2, 3} \<and> (\<forall>m \<in> {1..<n}. \<exists>x. once m = Some (Err x) \<and> momentary x)"

lemma is_transient_iff: "is_transient x \<longleftrightarrow> momentary x"
  unfolding momentary_def by (cases x) (auto simp: is_transient_code_def split: PaymentAttemptStoreError.splits)

lemma store_tries_answer:
  "\<exists>n. answered_at once n \<and> once n = store_tries once [1..<STORE_MAX_ATTEMPTS + 1] None \<and>
     (\<forall>x. once n = Some (Err x) \<longrightarrow> momentary x \<longrightarrow> n = 3)"
proof -
  have tries: "[1..<STORE_MAX_ATTEMPTS + 1] = [1, 2, 3]" by (simp add: STORE_MAX_ATTEMPTS_def upt_rec)
  have before: "{1..<2} = {1::nat}" "{1..<3} = {1, 2::nat}" by auto
  let ?again = "\<lambda>n. \<exists>x. once n = Some (Err x) \<and> momentary x"
  consider (one) "\<not> ?again 1" | (two) "?again 1" "\<not> ?again 2" | (three) "?again 1" "?again 2" by blast
  then show ?thesis
  proof cases
    case one
    then have "once 1 = store_tries once [1, 2, 3] None"
      by (auto simp: STORE_MAX_ATTEMPTS_def is_transient_iff split: option.splits sum.splits)
    moreover have "answered_at once 1" by (simp add: answered_at_def)
    ultimately show ?thesis using one unfolding tries by blast
  next
    case two
    then have "once 2 = store_tries once [1, 2, 3] None"
      by (auto simp: STORE_MAX_ATTEMPTS_def is_transient_iff split: option.splits sum.splits)
    moreover have "answered_at once 2" using two(1) unfolding answered_at_def before by simp
    ultimately show ?thesis using two(2) unfolding tries by blast
  next
    case three
    then have "once 3 = store_tries once [1, 2, 3] None"
      by (auto simp: STORE_MAX_ATTEMPTS_def is_transient_iff split: option.splits sum.splits)
    moreover have "answered_at once 3" using three unfolding answered_at_def before by simp
    ultimately show ?thesis unfolding tries by blast
  qed
qed

section \<open>A concrete history\<close>

definition sample_charge_evidence :: ProcessorEvidence where
  "sample_charge_evidence = ProcessorEvidence_default
     \<lparr>evidence_transaction_id := Some (GatewayTransactionId (GatewayReferenceValue (lit ''9'')))\<rparr>"

definition sample_charge_store :: charge_store where
  "sample_charge_store = \<lparr>cs_attempts = [sample_renewal], cs_charges = [], cs_attestations = []\<rparr>"

definition sample_applied_charge :: stored_charge where
  "sample_applied_charge = observed_charge 300 (ProcessorChargeId 1) sample_renewal sample_charge_evidence Primary Applied"

definition sample_applied_store :: charge_store where
  "sample_applied_store = \<lparr>cs_attempts = [sample_renewal], cs_charges = [sample_applied_charge], cs_attestations = []\<rparr>"

lemma sample_charge_store_ok: "charges_ok sample_charge_store"
  by (simp add: charges_ok_def sample_charge_store_def)

lemma sample_observed:
  "observe_processor_charge id 300 (ProcessorChargeId 1) sample_renewal sample_charge_evidence Applied sample_charge_store =
     Ok (Owned \<lparr>record_id = ProcessorChargeId 1, record_role = Primary, record_exact_replay = False\<rparr>, sample_applied_store)"
  by (simp add: observe_processor_charge_def sample_charge_store_def has_existing_charge_def
      owned_by_other_attempt_def identify_transactionless_def matching_charge_def observe_insert_def
      sample_charge_evidence_def insert_charge_def charge_attempt_def sample_renewal_def sample_charge_def observed_charge_def
      set_processor_charge_attempt_dimensions_def PaymentAttempt_kind_def initial_charge_progression_def charge_checks_def
      dimension_shape_check_def state_timestamps_check_def transaction_identity_check_def reversal_eligibility_check_def
      sample_applied_store_def sample_applied_charge_def)

lemma sample_charge_steps: "charge_step\<^sup>*\<^sup>* sample_charge_store sample_applied_store"
  using charge_step.applying [of sample_charge_store id] sample_observed by (simp add: r_into_rtranclp)

section \<open>What the history guarantees\<close>

text \<open>C17.  The charges of a processor follow the abstract machine of a charge.  Over any interleaving, from consistent charges, of
  the statements of the repository that write them (observations, compensations, lock-free writes, promotions, the
  classification of pending charges, attested reversals and the exported transition, whose callers name external
  reversal among the expected states only to keep it; see \<open>transition_can_leave_reversal\<close>),
  no stored charge is lost, each keeps its identity, attempt, amount, role and evidence and moves only
  by steps of the machine (it gains a transaction identity once, progresses only where money and
  identity admit it, and never leaves external reversal), and each new charge starts in an admissible
  state that is not reversed.\<close>

theorem charges_refine_machine:
  assumes "charges_ok s" and "charge_step\<^sup>*\<^sup>* s s'"
  shows "\<exists>old new. cs_charges s' = old @ new \<and>
    list_all2 (\<lambda>c d. same_charge c d \<and>
      charge_lives (charge_role c) (chargeable c) (charge_state_of c) (charge_state_of d)) (cs_charges s) old \<and>
    list_all (\<lambda>c. \<exists>t q. q \<noteq> ExternallyReversed \<and> admissible (charge_role c) (chargeable c) (t, q) \<and>
      charge_lives (charge_role c) (chargeable c) (t, q) (charge_state_of c)) new"
  using step.runs_keep [OF assms(2,1)]
  by (simp add: charges_evolve_def charge_evolves_def [abs_def] charge_born_def [abs_def])

theorem charges_refine_machine_witness:
  "\<exists>old new. cs_charges sample_applied_store = old @ new \<and>
    list_all2 (\<lambda>c d. same_charge c d \<and>
      charge_lives (charge_role c) (chargeable c) (charge_state_of c) (charge_state_of d)) (cs_charges sample_charge_store) old \<and>
    list_all (\<lambda>c. \<exists>t q. q \<noteq> ExternallyReversed \<and> admissible (charge_role c) (chargeable c) (t, q) \<and>
      charge_lives (charge_role c) (chargeable c) (t, q) (charge_state_of c)) new"
  using sample_charge_store_ok sample_charge_steps by (rule charges_refine_machine)

text \<open>C16.  No attempt is charged twice on the books.  Whatever is observed, retried, promoted or
  transitioned, in any interleaving from an empty table: an attempt has at most one applied charge,
  a transaction of a gateway account belongs to one charge and so to one attempt, an applied charge
  has a transaction identity, and a charge awaiting or past reversal took money under one.\<close>

theorem applied_at_most_once:
  assumes "charge_step\<^sup>*\<^sup>* \<lparr>cs_attempts = [], cs_charges = [], cs_attestations = []\<rparr> s"
    and "c \<in> set (cs_charges s)" and "d \<in> set (cs_charges s)"
  shows "(charge_progression c = Applied \<and> charge_progression d = Applied \<and>
      charge_attempt_id c = charge_attempt_id d \<longrightarrow> c = d) \<and>
    (charge_gateway_account_id c = charge_gateway_account_id d \<and>
      charge_transaction_id c = charge_transaction_id d \<and> charge_transaction_id c \<noteq> None \<longrightarrow> c = d) \<and>
    (charge_progression c = Applied \<longrightarrow> charge_transaction_id c \<noteq> None) \<and>
    (charge_progression c \<in> {ExternalReversalRequired, ExternallyReversed} \<longrightarrow>
      charge_transaction_id c \<noteq> None \<and> money_cents (charge_amount c) > 0)"
proof -
  have "charges_ok \<lparr>cs_attempts = [], cs_charges = [], cs_attestations = []\<rparr>"
    by (simp add: charges_ok_def)
  with step.runs_keep [OF assms(1)] have ok: "charges_ok s" by blast
  have clash: "c = d" if "unique_clash c d"
    using ok assms(2,3) that charges_ok_id_eq [OF ok assms(2,3)] unfolding charges_ok_def by blast
  have row: "charge_row_ok x" if "x \<in> set (cs_charges s)" for x
    using ok that by (simp add: charges_ok_def)
  have "c = d" if "charge_progression c = Applied" "charge_progression d = Applied" "charge_attempt_id c = charge_attempt_id d"
    using row [OF assms(2)] row [OF assms(3)] that
    by (intro clash) (simp add: charge_row_ok_def unique_clash_def primary_attempt_idx_def)
  moreover have "c = d" if "charge_gateway_account_id c = charge_gateway_account_id d"
      "charge_transaction_id c = charge_transaction_id d" "charge_transaction_id c \<noteq> None"
    using that by (intro clash) (simp add: unique_clash_def gateway_transaction_idx_def)
  moreover have "charge_progression c = Applied \<longrightarrow> charge_transaction_id c \<noteq> None"
    and "charge_progression c \<in> {ExternalReversalRequired, ExternallyReversed} \<longrightarrow>
      charge_transaction_id c \<noteq> None \<and> money_cents (charge_amount c) > 0"
    using row [OF assms(2)]
    by (auto simp: charge_row_ok_def charge_checks_def transaction_identity_check_def reversal_eligibility_check_def)
  ultimately show ?thesis by blast
qed

theorem applied_at_most_once_witness:
  "charge_progression sample_applied_charge = Applied \<and> charge_transaction_id sample_applied_charge \<noteq> None"
proof -
  have "charge_step \<lparr>cs_attempts = [], cs_charges = [], cs_attestations = []\<rparr> sample_charge_store"
    using charge_step.attempting [of "\<lparr>cs_attempts = [], cs_charges = [], cs_attestations = []\<rparr>" "[]" "[sample_renewal]"]
    by (simp add: sample_charge_store_def)
  then have "charge_step\<^sup>*\<^sup>* \<lparr>cs_attempts = [], cs_charges = [], cs_attestations = []\<rparr> sample_applied_store"
    using sample_charge_steps by (rule converse_rtranclp_into_rtranclp)
  then have "charge_progression sample_applied_charge = Applied \<longrightarrow> charge_transaction_id sample_applied_charge \<noteq> None"
    using applied_at_most_once [of sample_applied_store sample_applied_charge sample_applied_charge]
    by (simp add: sample_applied_store_def)
  moreover have "charge_progression sample_applied_charge = Applied"
    by (simp add: sample_applied_charge_def observed_charge_def)
  ultimately show ?thesis by simp
qed

text \<open>C18.  Observing a charge again changes nothing.  Once an observation of an attempt's evidence is
  answered with an owned charge, repeating it at any later time and with any requested progression
  answers with the same charge as an exact replay and leaves every table as it is.\<close>

theorem observed_charge_replays:
  assumes "charges_ok s" and "charge_attempt s (identity_attempt_id (attempt_identity a)) = Some a"
    and "observe_processor_charge id clock fresh a e q s = Ok (Owned r, s')"
  shows "observe_processor_charge id clock' fresh' a e q' s' = Ok (Owned (r\<lparr>record_exact_replay := True\<rparr>), s')"
proof -
  have ok: "charges_ok s'" using observe_keeps [OF assms(1) _ assms(3)] assms(1) by simp
  have a: "charge_attempt s' (identity_attempt_id (attempt_identity a)) = Some a"
    using observe_attempts [OF assms(3)] assms(2) by (simp add: charge_attempt_def)
  from observe_leaves_row [OF assms(1,3)] obtain row where row: "observed_row a e r s' row"
    and un: "evidence_transaction_id e \<noteq> None \<longrightarrow> unidentifiable a e s'" by blast
  from ok a row un show ?thesis by (rule observed_row_replays)
qed

theorem observed_charge_replays_witness:
  "observe_processor_charge id 900 (ProcessorChargeId 7) sample_renewal sample_charge_evidence ExternalReversalRequired
     sample_applied_store =
   Ok (Owned \<lparr>record_id = ProcessorChargeId 1, record_role = Primary, record_exact_replay = True\<rparr>, sample_applied_store)"
proof -
  have "charge_attempt sample_charge_store (identity_attempt_id (attempt_identity sample_renewal)) = Some sample_renewal"
    by (simp add: charge_attempt_def sample_charge_store_def)
  from observed_charge_replays [OF sample_charge_store_ok this sample_observed, of 900 "ProcessorChargeId 7" ExternalReversalRequired]
  show ?thesis by simp
qed

text \<open>C19.  The write that takes no lock tells the truth, whatever other transactions commit before each of its
  statements, the two last reads included, as long as they keep the invariant of the charges and lose none
  (\<open>charges_rely\<close>).  Persisted evidence is in the table as it was given, awaiting reversal with the expiry
  code exactly when an expired-period policy meets an identified primary charge that took money;
  an exact replay names a charge of the attempt with the same evidence; an owner named elsewhere
  exists; and where the write reports that nothing is durable, no charge of the attempt had the
  evidence when it was looked for, and no other attempt of the account owns an identified transaction at the end.\<close>

theorem lock_free_write_truthful:
  assumes "charges_ok s" and "\<forall>n. charges_rely (others n)"
    and "persist_approved_evidence_without_attempt_lock_with_policy others clock fresh terms e policy s = Ok (out, s')"
  shows "case out of
      LockFreePersisted \<Rightarrow> \<exists>c\<in>set (cs_charges s').
        charge_attempt_id c = identity_attempt_id (lock_free_identity terms) \<and> charge_evidence c = e \<and>
        (charge_progression c, charge_state_code c) =
          (if policy = ReverseExpiredPeriod \<and> charge_role c = Primary \<and> money_cents (lock_free_amount terms) > 0 \<and>
              evidence_transaction_id e \<noteq> None
           then (ExternalReversalRequired, Some (PaymentResolution SubscriptionApprovedPeriodExpired))
           else (ProcessorChargeProgression.Pending, None))
    | LockFreeExactReplay \<Rightarrow> \<exists>c\<in>set (cs_charges s'). lock_free_match terms e c
    | LockFreeOwnedByOtherAttempt \<Rightarrow> \<exists>c\<in>set (cs_charges s'). lock_free_other_owner terms e c
    | LockFreeNotDurable \<Rightarrow> \<exists>s1. charges_evolve s s1 \<and> charges_evolve s1 s' \<and>
        \<not> (\<exists>c\<in>set (cs_charges s1). lock_free_match terms e c) \<and>
        (if evidence_transaction_id e = None then s' = s1
         else \<not> (\<exists>c\<in>set (cs_charges s'). lock_free_other_owner terms e c))"
  using assms(3)
proof (cases rule: lock_free_cases)
  case first
  then show ?thesis using lock_free_try_row by simp
next
  case second
  then show ?thesis using lock_free_try_row by simp
next
  case (neither s1 s2)
  then have s1: "charges_ok s1 \<and> charges_evolve s s1" using lock_free_try_keeps [OF assms(1,2)] by blast
  have s2: "charges_ok s2 \<and> charges_evolve s1 s2"
    using conjunct1 [OF s1] assms(2) neither(2) by (rule lock_free_try_keeps)
  have "charges_evolve s r" if "charges_evolve s2 r" for r using s1 s2 that charges_evolve_trans by blast
  note since = this and truth = lock_free_replay_truthful [OF conjunct1 [OF s2] assms(2) neither(3)]
  show ?thesis
  proof (cases "out = LockFreeNotDurable")
    case True
    with truth since show ?thesis by (simp only: LockFreeApprovedEvidenceOutcome.case) blast
  qed (use truth in \<open>cases out; simp\<close>)
qed

definition sample_lock_free_terms :: LockFreeApprovedEvidenceTerms where
  "sample_lock_free_terms =
     \<lparr>lock_free_identity = attempt_identity sample_renewal, lock_free_attempt_kind = PaymentAttemptKind.SubscriptionRenewal,
      lock_free_plan_key = offer_plan_key sample_offer,
      lock_free_gateway_order_id = request_gateway_order_id (attempt_request sample_renewal),
      lock_free_amount = request_amount (attempt_request sample_renewal), lock_free_host_charge_target_id = None\<rparr>"

theorem lock_free_write_truthful_witness:
  "\<exists>s'. persist_approved_evidence_without_attempt_lock_with_policy (\<lambda>_. id) 300 (\<lambda>_. ProcessorChargeId 1)
      sample_lock_free_terms sample_charge_evidence ReverseExpiredPeriod sample_charge_store = Ok (LockFreePersisted, s') \<and>
    (\<exists>c\<in>set (cs_charges s'). charge_attempt_id c = PaymentAttemptId 9 \<and> charge_evidence c = sample_charge_evidence)"
proof -
  have rely: "\<forall>n. charges_rely ((\<lambda>_. id) n)" by (simp add: charges_rely_def)
  obtain s' where s': "persist_approved_evidence_without_attempt_lock_with_policy (\<lambda>_. id) 300 (\<lambda>_. ProcessorChargeId 1)
      sample_lock_free_terms sample_charge_evidence ReverseExpiredPeriod sample_charge_store = Ok (LockFreePersisted, s')"
    by (simp add: persist_approved_evidence_without_attempt_lock_with_policy_def lock_free_try_def has_existing_charge_def
        sample_charge_store_def insert_charge_def charge_attempt_def lock_free_charge_def lock_free_reversal_def
        sample_lock_free_terms_def set_processor_charge_attempt_dimensions_def sample_renewal_def PaymentAttempt_kind_def
        sample_charge_def sample_charge_evidence_def charge_checks_def dimension_shape_check_def state_timestamps_check_def
        transaction_identity_check_def reversal_eligibility_check_def)
  from lock_free_write_truthful [OF sample_charge_store_ok rely s']
  have "\<exists>c\<in>set (cs_charges s'). charge_attempt_id c = PaymentAttemptId 9 \<and> charge_evidence c = sample_charge_evidence"
    by (auto simp: sample_lock_free_terms_def sample_renewal_def)
  with s' show ?thesis by blast
qed

lemma sample_reversal_observed:
  "compensating_progression sample_renewal sample_charge_evidence = ExternalReversalRequired"
  "observe_processor_charge id 300 (ProcessorChargeId 1) sample_renewal sample_charge_evidence ExternalReversalRequired
     sample_charge_store =
   Ok (Owned \<lparr>record_id = ProcessorChargeId 1, record_role = Primary, record_exact_replay = False\<rparr>,
     sample_charge_store\<lparr>cs_charges := [observed_charge 300 (ProcessorChargeId 1) sample_renewal sample_charge_evidence Primary
       ExternalReversalRequired]\<rparr>)"
  by (simp_all add: compensating_progression_def Let_def observe_processor_charge_def sample_charge_store_def has_existing_charge_def
      owned_by_other_attempt_def identify_transactionless_def matching_charge_def observe_insert_def PaymentAttempt_status_def
      sample_charge_evidence_def insert_charge_def charge_attempt_def sample_renewal_def sample_charge_def observed_charge_def
      set_processor_charge_attempt_dimensions_def PaymentAttempt_kind_def initial_charge_progression_def charge_checks_def
      dimension_shape_check_def state_timestamps_check_def transaction_identity_check_def reversal_eligibility_check_def)

lemma sample_compensated:
  "\<exists>s'. store_compensating_processor_charge (\<lambda>n. if n = 1 then Some (Sql (Some (lit ''40P01''))) else None) id
      (\<lambda>_. Some sample_renewal) (\<lambda>_. 300) (\<lambda>_. ProcessorChargeId 1) (PaymentAttemptId 9)
      (request_gateway_order_id (attempt_request sample_renewal)) sample_charge_evidence (\<lambda>_. sample_charge_store) =
      Some (Ok (CompensationObserved, s'))"
proof -
  have tries: "[1..<STORE_MAX_ATTEMPTS + 1] = [1, 2, 3]" by (simp add: STORE_MAX_ATTEMPTS_def upt_rec)
  let ?order = "request_gateway_order_id (attempt_request sample_renewal)"
  have load: "load_compensated_attempt (Some sample_renewal) (PaymentAttemptId 9) ?order sample_charge_store = Ok sample_renewal"
    by (simp add: load_compensated_attempt_def find_attempt_of_scope_def sample_charge_store_def sample_renewal_def PaymentAttempt_kind_def)
  have "\<exists>s'. store_once id (Some sample_renewal) 300 (ProcessorChargeId 1) (PaymentAttemptId 9) ?order sample_charge_evidence
      sample_charge_store = Some (Ok (CompensationObserved, s'))"
    unfolding store_once_def load and_then_simps sample_reversal_observed prod.case ObservedCharge.case ChargeRecord.simps
    by (simp add: charge_by_id_def code_new_charge_def attested_differently_def
        attestation_by_charge_def sample_charge_store_def transition_processor_charge_def update_charge_def transition_eligible_def
        observed_charge_def sample_charge_evidence_def sample_renewal_def sample_charge_def set_progression_def charge_checks_def
        dimension_shape_check_def state_timestamps_check_def transaction_identity_check_def reversal_eligibility_check_def
        PaymentAttempt_kind_def ProcessorCharge.truncate_def)
  then show ?thesis
    unfolding store_compensating_processor_charge_def tries
    by (auto simp: STORE_MAX_ATTEMPTS_def store_try_def is_transient_code_def)
qed

text \<open>C20.  Storing a compensating charge, over any failures of the database and whatever others commit that keeps the invariant of
  the charges.  A try is repeated, up to three in all, exactly when it failed with one of the SQL states 40001, 40P01, 55P03
  and 57014.  An answer then comes from a try after such failures only: the table stays consistent and loses nothing, and it holds the
  evidence as a charge of the attempt (a new one or an exact replay), or another attempt has the transaction.
  An error is that of the first try that failed otherwise, or of the third.\<close>

theorem compensation_stored_or_reported:
  assumes ok: "\<forall>n. charges_ok (stores n)" and rely: "charges_rely others"
  shows "let once = store_try failure others preloaded clock fresh i order e stores
    in case store_compensating_processor_charge failure others preloaded clock fresh i order e stores of
      None \<Rightarrow> \<exists>n. answered_at once n \<and> once n = None
    | Some (Inl x) \<Rightarrow> \<exists>n. answered_at once n \<and> once n = Some (Err x) \<and> (momentary x \<longrightarrow> n = 3)
    | Some (Inr (out, s')) \<Rightarrow> \<exists>n. answered_at once n \<and> failure n = None \<and>
        charges_ok s' \<and> charges_evolve (stores n) s' \<and>
        list_ex (\<lambda>c. charge_transaction_id c = evidence_transaction_id e \<and>
          (if out = CompensationOwnedByOtherAttempt
           then charge_transaction_id c \<noteq> None \<and> charge_attempt_id c \<noteq> i
           else charge_attempt_id c = i \<and> evidence_matches (charge_evidence c) e)) (cs_charges s')"
proof -
  let ?once = "store_try failure others preloaded clock fresh i order e stores"
  let ?answer = "store_compensating_processor_charge failure others preloaded clock fresh i order e stores"
  obtain n where n: "answered_at ?once n" "?once n = ?answer" "\<forall>x. ?once n = Some (Err x) \<longrightarrow> momentary x \<longrightarrow> n = 3"
    unfolding store_compensating_processor_charge_def using store_tries_answer by blast
  consider (panic) "?answer = None" | (failed) x where "?answer = Some (Inl x)" | (stored) out s' where "?answer = Some (Inr (out, s'))"
    by (cases ?answer) (auto, metis obj_sumE surj_pair)
  then show ?thesis
  proof cases
    case panic
    with n(1,2) show ?thesis by (auto simp: Let_def)
  next
    case failed
    with n show ?thesis by (auto simp: Let_def)
  next
    case (stored out s')
    with n(2) have once: "failure n = None"
        "store_once others (preloaded n) (clock n) (fresh n) i order e (stores n) = Some (Ok (out, s'))"
      by (auto simp: store_try_def split: option.splits)
    have "charges_ok (stores n)" "charges_ok (others (stores n)) \<and> charges_evolve (stores n) (others (stores n))"
      using ok rely unfolding charges_rely_def by blast+
    note kept = store_once_keeps [OF this once(2)] and row = store_once_row [OF this once(2)]
    from n(1) once(1) kept row have "\<exists>n. answered_at ?once n \<and> failure n = None \<and> charges_ok s' \<and> charges_evolve (stores n) s' \<and>
        list_ex (compensated_row i e out) (cs_charges s')" by blast
    then show ?thesis unfolding Let_def stored option.case sum.case prod.case compensated_row_def [abs_def] .
  qed
qed

theorem compensation_stored_or_reported_witness:
  "\<exists>s'. store_compensating_processor_charge (\<lambda>n. if n = 1 then Some (Sql (Some (lit ''40P01''))) else None) id
      (\<lambda>_. Some sample_renewal) (\<lambda>_. 300) (\<lambda>_. ProcessorChargeId 1) (PaymentAttemptId 9)
      (request_gateway_order_id (attempt_request sample_renewal)) sample_charge_evidence (\<lambda>_. sample_charge_store) =
      Some (Ok (CompensationObserved, s')) \<and>
    charges_ok s' \<and> list_ex (\<lambda>c. charge_attempt_id c = PaymentAttemptId 9 \<and> evidence_matches (charge_evidence c) sample_charge_evidence)
      (cs_charges s')"
proof -
  let ?failure = "\<lambda>n. if n = 1 then Some (Sql (Some (lit ''40P01''))) else None"
  let ?order = "request_gateway_order_id (attempt_request sample_renewal)"
  obtain s' where s': "store_compensating_processor_charge ?failure id
      (\<lambda>_. Some sample_renewal) (\<lambda>_. 300) (\<lambda>_. ProcessorChargeId 1) (PaymentAttemptId 9) ?order sample_charge_evidence
      (\<lambda>_. sample_charge_store) = Some (Ok (CompensationObserved, s'))"
    using sample_compensated by blast
  have "charges_rely id" by (simp add: charges_rely_def)
  with compensation_stored_or_reported [of "\<lambda>_. sample_charge_store" id ?failure "\<lambda>_. Some sample_renewal" "\<lambda>_. 300"
      "\<lambda>_. ProcessorChargeId 1" "PaymentAttemptId 9" ?order sample_charge_evidence] sample_charge_store_ok s' show ?thesis
    by (auto simp: Let_def list_ex_iff)
qed

end
