(* ===== verification/Payment_Application.thy ===== *)
theory Payment_Application
  imports Attempt_Transitions Reservations Charge_History Period_Expiry
begin

text \<open>
  What every application of a provider outcome shares: \<open>enrollment_application.rs\<close>, the cooldowns of
  \<open>enrollment_application/outcome_support.rs\<close> and the results of \<open>enrollment.rs\<close>.  The database joins the
  tables of \<open>Billing_Store\<close> with the processor charges, the payment methods, the gateway accounts and
  the rate limits of providers.  An operation takes its transaction (the clock, the identifiers it
  may create, and what other transactions commit to the charges while it waits) and returns its result with
  the database after it; an error rolls back.
\<close>

section \<open>The database of payments\<close>

record payment_method_row =
  pmrow_id :: Uuid
  pmrow_billing_scope_id :: Uuid
  pmrow_subscriber_id :: Uuid
  pmrow_gateway_account_id :: Uuid
  pmrow_reference :: rstring
  pmrow_status :: rstring
  pmrow_descriptor :: GatewayPaymentDescriptor
  pmrow_billing_name :: "rstring option"
  pmrow_billing_email :: "rstring option"
  pmrow_billing_address :: "BillingAddress option"

record gateway_account_row =
  garow_id :: Uuid
  garow_billing_scope_id :: Uuid
  garow_gateway_configuration_id :: Uuid
  garow_provider_key :: rstring
  garow_mutation_rate_limited_until :: "datetime option"

text \<open>\<open>None\<close> is the default \<open>-infinity\<close>.\<close>

record provider_limit_row =
  plrow_provider_key :: rstring
  plrow_rate_limited_until :: "datetime option"

record payment_db =
  pay_billing :: billing_db
  pay_charges :: "stored_charge list"
  pay_attestations :: "ExternalReversalAttestation list"
  pay_methods :: "payment_method_row list"
  pay_accounts :: "gateway_account_row list"
  pay_provider_limits :: "provider_limit_row list"

record payment_env =
  env_txn :: billing_txn
  env_fresh_charge :: ProcessorChargeId
  env_fresh_method :: PaymentMethodId
  env_fresh_subscription :: SubscriptionId
  env_others :: "charge_store \<Rightarrow> charge_store"

abbreviation env_clock :: "payment_env \<Rightarrow> datetime" where
  "env_clock env \<equiv> txn_clock (env_txn env)"

text \<open>
  \<open>Billing_Store\<close> keeps three columns of a charge.
\<close>

definition charge_row_of :: "stored_charge \<Rightarrow> charge_row" where
  "charge_row_of c =
     \<lparr>crow_attempt_id = PaymentAttemptId_as_uuid (charge_attempt_id c),
      crow_attempt_kind = PaymentAttemptKind_as_str (charge_attempt_kind c),
      crow_progression_state = ProcessorChargeProgression_as_str (charge_progression c)\<rparr>"

definition charge_view :: "payment_db \<Rightarrow> charge_store" where
  "charge_view p = \<lparr>cs_attempts = db_attempts (pay_billing p), cs_charges = pay_charges p,
     cs_attestations = pay_attestations p\<rparr>"

definition with_charges :: "charge_store \<Rightarrow> payment_db \<Rightarrow> payment_db" where
  "with_charges s p = p\<lparr>pay_charges := cs_charges s,
     pay_billing := (pay_billing p)\<lparr>db_charges := map charge_row_of (cs_charges s)\<rparr>\<rparr>"

definition with_billing :: "billing_db \<Rightarrow> payment_db \<Rightarrow> payment_db" where
  "with_billing db p = p\<lparr>pay_billing := db\<rparr>"

section \<open>Errors\<close>

datatype SubscriptionEnrollmentApplicationError =
    Sql "rstring option"
  | Attempt PaymentAttemptStoreError
  | Transaction
  | Event
  | ApprovedEvidenceNotDurable
  | SubmissionIdentityMismatch
  | InvalidState rstring

definition INVALID_APPLICATION_STATE :: rstring where
  "INVALID_APPLICATION_STATE = lit ''canonical initial-enrollment application state is invalid''"

definition invalid_application :: SubscriptionEnrollmentApplicationError where
  "invalid_application = SubscriptionEnrollmentApplicationError.InvalidState INVALID_APPLICATION_STATE"

primrec from_charge_error :: "ProcessorChargeStoreError \<Rightarrow> SubscriptionEnrollmentApplicationError" where
  "from_charge_error (ProcessorChargeStoreError.Sql code) = SubscriptionEnrollmentApplicationError.Sql code"
| "from_charge_error (ProcessorChargeStoreError.Attempt e) = SubscriptionEnrollmentApplicationError.Attempt e"
| "from_charge_error (ProcessorChargeStoreError.InvalidState m) = SubscriptionEnrollmentApplicationError.InvalidState m"

primrec from_renewal_failure_error :: "RenewalFailureStoreError \<Rightarrow> SubscriptionEnrollmentApplicationError" where
  "from_renewal_failure_error (RenewalFailureStoreError.InvalidState m) =
     SubscriptionEnrollmentApplicationError.InvalidState m"

primrec map_attempt_transition_error ::
    "PaymentAttemptStoreError \<Rightarrow> SubscriptionEnrollmentApplicationError" where
  "map_attempt_transition_error (AttemptSql code) = SubscriptionEnrollmentApplicationError.Sql code"
| "map_attempt_transition_error (AttemptInvalidState _) = invalid_application"

definition is_retryable_evidence_error :: "SubscriptionEnrollmentApplicationError \<Rightarrow> bool" where
  "is_retryable_evidence_error e \<longleftrightarrow>
     (case e of
        SubscriptionEnrollmentApplicationError.Sql code \<Rightarrow> is_transient_code code
      | SubscriptionEnrollmentApplicationError.Attempt (AttemptSql code) \<Rightarrow> is_transient_code code
      | _ \<Rightarrow> False)"

text \<open>Statements on the charges, on the attempts and on the other tables of \<open>Billing_Store\<close>.\<close>

definition on_charges ::
    "(charge_store \<Rightarrow> ('a \<times> charge_store, ProcessorChargeStoreError) result) \<Rightarrow> payment_db \<Rightarrow>
     ('a \<times> payment_db, SubscriptionEnrollmentApplicationError) result" where
  "on_charges op p = map_err from_charge_error (map_sum id (\<lambda>(x, s). (x, with_charges s p)) (op (charge_view p)))"

definition on_attempts ::
    "(billing_db \<Rightarrow> (billing_db, PaymentAttemptStoreError) result) \<Rightarrow> payment_db \<Rightarrow>
     (payment_db, SubscriptionEnrollmentApplicationError) result" where
  "on_attempts op p =
     map_err map_attempt_transition_error (map_sum id (\<lambda>db. with_billing db p) (op (pay_billing p)))"

definition observe ::
    "payment_env \<Rightarrow> PaymentAttempt \<Rightarrow> ProcessorEvidence \<Rightarrow> ProcessorChargeProgression \<Rightarrow> payment_db \<Rightarrow>
     (ObservedCharge \<times> payment_db, SubscriptionEnrollmentApplicationError) result" where
  "observe env attempt evidence progression =
     on_charges (observe_processor_charge (env_others env) (env_clock env) (env_fresh_charge env) attempt evidence
       progression)"

definition move_charge ::
    "payment_env \<Rightarrow> ProcessorChargeId \<Rightarrow> ProcessorChargeProgression \<Rightarrow> PaymentResolutionCode option \<Rightarrow> payment_db \<Rightarrow>
     (payment_db, SubscriptionEnrollmentApplicationError) result" where
  "move_charge env i progression code p =
     map_sum id snd (on_charges (\<lambda>s. map_sum id (Pair ()) (transition_charge (env_clock env) i progression code s)) p)"

definition find_attempt :: "payment_db \<Rightarrow> PaymentAttemptIdentity \<Rightarrow> (PaymentAttempt, SubscriptionEnrollmentApplicationError) result" where
  "find_attempt p identity =
     ok_or (find_payment_attempt_by_id (pay_billing p) (identity_billing_scope_id identity)
       (identity_attempt_id identity)) invalid_application"

section \<open>Results\<close>

datatype SubscriptionEnrollmentPaymentResultState =
    Applied Subscription
  | NotApplied
  | ConfirmationPending ApprovedProcessorEvidence

record SubscriptionEnrollmentPaymentResult =
  result_attempt :: PaymentAttempt
  result_state :: SubscriptionEnrollmentPaymentResultState
  result_diagnostics :: "GatewayPaymentDiagnostic list"

datatype SubscriptionEnrollmentPaymentResultBuildError =
    AttemptNotSubscription
  | AppliedAttemptNotApproved
  | AppliedSubscriptionIdMismatch
  | AppliedSubscriptionPlanMismatch
  | NotAppliedAttemptApproved
  | ConfirmationPendingAttemptApproved

definition require_subscription_attempt ::
    "PaymentAttempt \<Rightarrow> (unit, SubscriptionEnrollmentPaymentResultBuildError) result" where
  "require_subscription_attempt attempt =
     (if PaymentAttempt_kind attempt = PaymentAttemptKind.HostCharge then Err AttemptNotSubscription else Ok ())"

definition payment_result_applied ::
    "PaymentAttempt \<Rightarrow> Subscription \<Rightarrow>
     (SubscriptionEnrollmentPaymentResult, SubscriptionEnrollmentPaymentResultBuildError) result" where
  "payment_result_applied attempt subscription =
     and_then (require_subscription_attempt attempt) (\<lambda>_.
       if PaymentAttempt_status attempt \<noteq> PaymentAttemptStatus.Approved then Err AppliedAttemptNotApproved
       else if target_subscription_id (request_target (attempt_request attempt)) \<noteq> Some (sub_id subscription)
       then Err AppliedSubscriptionIdMismatch
       else if target_plan_key (request_target (attempt_request attempt)) \<noteq> Some (sub_plan_key subscription)
       then Err AppliedSubscriptionPlanMismatch
       else Ok \<lparr>result_attempt = attempt,
                result_state = SubscriptionEnrollmentPaymentResultState.Applied subscription,
                result_diagnostics = []\<rparr>)"

definition payment_result_not_applied ::
    "PaymentAttempt \<Rightarrow> (SubscriptionEnrollmentPaymentResult, SubscriptionEnrollmentPaymentResultBuildError) result" where
  "payment_result_not_applied attempt =
     and_then (require_subscription_attempt attempt) (\<lambda>_.
       if PaymentAttempt_status attempt = PaymentAttemptStatus.Approved then Err NotAppliedAttemptApproved
       else Ok \<lparr>result_attempt = attempt, result_state = NotApplied, result_diagnostics = []\<rparr>)"

definition payment_result_confirmation_pending ::
    "PaymentAttempt \<Rightarrow> ApprovedProcessorEvidence \<Rightarrow>
     (SubscriptionEnrollmentPaymentResult, SubscriptionEnrollmentPaymentResultBuildError) result" where
  "payment_result_confirmation_pending attempt evidence =
     and_then (require_subscription_attempt attempt) (\<lambda>_.
       if PaymentAttempt_status attempt = PaymentAttemptStatus.Approved then Err ConfirmationPendingAttemptApproved
       else Ok \<lparr>result_attempt = attempt, result_state = ConfirmationPending evidence, result_diagnostics = []\<rparr>)"

definition with_observation_diagnostics ::
    "GatewayPaymentDiagnostic list \<Rightarrow> SubscriptionEnrollmentPaymentResult \<Rightarrow> SubscriptionEnrollmentPaymentResult" where
  "with_observation_diagnostics diagnostics self =
     self\<lparr>result_diagnostics := normalize_gateway_payment_diagnostics diagnostics\<rparr>"

definition append_subscription_observation_diagnostics ::
    "SubscriptionEnrollmentPaymentResult \<Rightarrow> GatewayPaymentDiagnostic list \<Rightarrow> SubscriptionEnrollmentPaymentResult" where
  "append_subscription_observation_diagnostics result diagnostics =
     with_observation_diagnostics (result_diagnostics result @ diagnostics) result"

primrec result_subscription :: "SubscriptionEnrollmentPaymentResultState \<Rightarrow> Subscription option" where
  "result_subscription (SubscriptionEnrollmentPaymentResultState.Applied subscription) = Some subscription"
| "result_subscription NotApplied = None"
| "result_subscription (ConfirmationPending _) = None"

definition payment_result_status :: "SubscriptionEnrollmentPaymentResult \<Rightarrow> PaymentAttemptStatus" where
  "payment_result_status self =
     (case result_state self of
        ConfirmationPending _ \<Rightarrow> PaymentAttemptStatus.Unknown
      | _ \<Rightarrow> PaymentAttempt_status (result_attempt self))"

definition payment_result_evidence :: "SubscriptionEnrollmentPaymentResult \<Rightarrow> ProcessorEvidence" where
  "payment_result_evidence self =
     (case result_state self of
        ConfirmationPending evidence \<Rightarrow> approved_inner evidence
      | _ \<Rightarrow> state_processor_evidence (attempt_state (result_attempt self)))"

text \<open>A result the constructors refuse is an invalid state of the application.\<close>

abbreviation built ::
    "('a, SubscriptionEnrollmentPaymentResultBuildError) result \<Rightarrow> ('a, SubscriptionEnrollmentApplicationError) result" where
  "built \<equiv> map_err (\<lambda>_. invalid_application)"

definition load_subscription ::
    "payment_db \<Rightarrow> BillingScopeId \<Rightarrow> SubscriptionId \<Rightarrow> (Subscription option, SubscriptionEnrollmentApplicationError) result" where
  "load_subscription p billing_scope_id subscription_id =
     (case find (\<lambda>row. row_billing_scope_id row = BillingScopeId_as_uuid billing_scope_id \<and>
         row_id row = SubscriptionId_as_uuid subscription_id) (db_subscriptions (pay_billing p)) of
        None \<Rightarrow> Ok None
      | Some row \<Rightarrow> map_err (\<lambda>_. invalid_application) (map_sum id Some (subscription_from_row row)))"

definition load_applied_subscription ::
    "payment_db \<Rightarrow> PaymentAttempt \<Rightarrow> (Subscription option, SubscriptionEnrollmentApplicationError) result" where
  "load_applied_subscription p attempt =
     (case attempt_subscription_id attempt of
        None \<Rightarrow> Ok None
      | Some subscription_id \<Rightarrow>
          load_subscription p (identity_billing_scope_id (attempt_identity attempt)) subscription_id)"

definition applied_result ::
    "payment_db \<Rightarrow> PaymentAttempt \<Rightarrow> (SubscriptionEnrollmentPaymentResult, SubscriptionEnrollmentApplicationError) result" where
  "applied_result p attempt =
     and_then (load_applied_subscription p attempt) (\<lambda>loaded.
     and_then (ok_or loaded invalid_application) (\<lambda>subscription.
       built (payment_result_applied attempt subscription)))"

definition payment_result_for_attempt ::
    "payment_db \<Rightarrow> PaymentAttempt \<Rightarrow> (SubscriptionEnrollmentPaymentResult, SubscriptionEnrollmentApplicationError) result" where
  "payment_result_for_attempt p attempt =
     (if PaymentAttempt_status attempt = PaymentAttemptStatus.Approved then applied_result p attempt
      else built (payment_result_not_applied attempt))"

section \<open>Reservations of an outcome\<close>

datatype OutcomeReservation =
    Initial SubscriptionEnrollmentReservation
  | Recovery SubscriptionRecoveryReservation
  | Renewal SubscriptionRenewalReservation
  | PaymentMethodReplacement SubscriptionPaymentMethodReplacement

primrec OutcomeReservation_operation :: "OutcomeReservation \<Rightarrow> ReservationOperation" where
  "OutcomeReservation_operation (OutcomeReservation.Initial _) = ReservationOperation.Initial"
| "OutcomeReservation_operation (OutcomeReservation.Recovery _) = ReservationOperation.Recovery"
| "OutcomeReservation_operation (OutcomeReservation.Renewal _) = ReservationOperation.Renewal"
| "OutcomeReservation_operation (OutcomeReservation.PaymentMethodReplacement _) =
     ReservationOperation.PaymentMethodReplacement"

primrec OutcomeReservation_identity :: "OutcomeReservation \<Rightarrow> PaymentAttemptIdentity" where
  "OutcomeReservation_identity (OutcomeReservation.Initial r) = enrollment_identity r"
| "OutcomeReservation_identity (OutcomeReservation.Recovery r) = reserved_identity r"
| "OutcomeReservation_identity (OutcomeReservation.Renewal r) = reserved_identity r"
| "OutcomeReservation_identity (OutcomeReservation.PaymentMethodReplacement r) = reserved_identity r"

primrec OutcomeReservation_provider_key :: "OutcomeReservation \<Rightarrow> GatewayProviderKey" where
  "OutcomeReservation_provider_key (OutcomeReservation.Initial r) = enrollment_provider_key r"
| "OutcomeReservation_provider_key (OutcomeReservation.Recovery r) = reserved_provider_key r"
| "OutcomeReservation_provider_key (OutcomeReservation.Renewal r) = reserved_provider_key r"
| "OutcomeReservation_provider_key (OutcomeReservation.PaymentMethodReplacement r) = reserved_provider_key r"

definition OutcomeReservation_expected_kind :: "OutcomeReservation \<Rightarrow> PaymentAttemptKind" where
  "OutcomeReservation_expected_kind self = ReservationOperation_expected_kind (OutcomeReservation_operation self)"

text \<open>\<open>ReservationAttemptExpectation::matches\<close>\<close>

definition matches_exactly :: "PaymentAttemptKind \<Rightarrow> later_reservation \<Rightarrow> PaymentAttempt \<Rightarrow> bool" where
  "matches_exactly kind r attempt \<longleftrightarrow>
     attempt_identity attempt = reserved_identity r \<and> PaymentAttempt_kind attempt = kind \<and>
     attempt_request attempt = reserved_request r"

primrec matches_attempt :: "OutcomeReservation \<Rightarrow> PaymentAttempt \<Rightarrow> bool" where
  "matches_attempt (OutcomeReservation.Initial r) attempt \<longleftrightarrow>
     attempt_identity attempt = enrollment_identity r \<and>
     PaymentAttempt_kind attempt = PaymentAttemptKind.SubscriptionInitial \<and>
     target_plan_key (request_target (attempt_request attempt)) =
       Some (expected_plan_key (enrollment_expected_terms r)) \<and>
     request_gateway_order_id (attempt_request attempt) = enrollment_gateway_order_id r"
| "matches_attempt (OutcomeReservation.Recovery r) attempt =
     matches_exactly PaymentAttemptKind.SubscriptionRecovery r attempt"
| "matches_attempt (OutcomeReservation.Renewal r) attempt =
     matches_exactly PaymentAttemptKind.SubscriptionRenewal r attempt"
| "matches_attempt (OutcomeReservation.PaymentMethodReplacement r) attempt =
     matches_exactly PaymentAttemptKind.SubscriptionPaymentMethodUpdate r attempt"

definition lock_expected_reservation_attempt ::
    "payment_db \<Rightarrow> OutcomeReservation \<Rightarrow> (PaymentAttempt, SubscriptionEnrollmentApplicationError) result" where
  "lock_expected_reservation_attempt p reservation =
     and_then (find_attempt p (OutcomeReservation_identity reservation)) (\<lambda>attempt.
       if \<not> matches_attempt reservation attempt then Err invalid_application else Ok attempt)"

definition payment_result_for_reservation_attempt ::
    "payment_db \<Rightarrow> OutcomeReservation \<Rightarrow>
     (SubscriptionEnrollmentPaymentResult, SubscriptionEnrollmentApplicationError) result" where
  "payment_result_for_reservation_attempt p reservation =
     and_then (find_attempt p (OutcomeReservation_identity reservation)) (payment_result_for_attempt p)"

text \<open>
  The accessors \<open>plan_key\<close>, \<open>period\<close> and \<open>expected_state\<close> of a renewal or recovery panic when its target has another
  kind; \<open>reserved_terms\<close> is \<open>None\<close> then.  The operations below take what the accessors return.
\<close>

type_synonym payment_terms = "PlanKey \<times> BillingPeriod \<times> SubscriptionPaymentStateSnapshot"

definition reserved_terms :: "later_reservation \<Rightarrow> payment_terms option" where
  "reserved_terms r =
     (case (target_plan_key (request_target (reserved_request r)), target_period (request_target (reserved_request r)),
            target_subscription_payment_state_snapshot (request_target (reserved_request r))) of
        (Some plan_key, Some period, Some expected) \<Rightarrow> Some (plan_key, period, expected)
      | _ \<Rightarrow> None)"

definition reserved_row ::
    "PaymentAttemptIdentity \<Rightarrow> PlanKey \<Rightarrow> SubscriptionId \<Rightarrow> subscription_row \<Rightarrow> bool" where
  "reserved_row identity plan_key subscription_id row \<longleftrightarrow>
     row_id row = SubscriptionId_as_uuid subscription_id \<and>
     row_billing_scope_id row = BillingScopeId_as_uuid (identity_billing_scope_id identity) \<and>
     row_subscriber_id row = SubscriberId_as_uuid (identity_subscriber_id identity) \<and>
     row_gateway_account_id row = GatewayAccountId_as_uuid (identity_gateway_account_id identity) \<and>
     row_plan_key row = PlanKey_as_str plan_key"

definition payment_state_holds ::
    "PaymentAttemptIdentity \<Rightarrow> BillingPeriod \<Rightarrow> SubscriptionPaymentStateSnapshot \<Rightarrow> subscription_row \<Rightarrow> bool" where
  "payment_state_holds identity period expected row \<longleftrightarrow>
     row_status row = SubscriptionStatus_as_str (payment_state_status expected) \<and>
     row_status row \<in> {lit ''active'', lit ''past_due''} \<and>
     row_payment_method_id row = PaymentMethodId_as_uuid (payment_state_payment_method_id expected) \<and>
     canonical_gateway_transaction_ids_equal (row_initial_transaction_id row)
       (GatewayTransactionId_expose (payment_state_initial_transaction_id expected)) \<and>
     row_required_gateway_account_mode row =
       GatewayAccountMode_as_str (identity_required_gateway_account_mode identity) \<and>
     row_next_renewal_at row = period_start_at period"

definition recovery_subscription_matches ::
    "payment_db \<Rightarrow> SubscriptionRecoveryReservation \<Rightarrow> payment_terms \<Rightarrow> bool" where
  "recovery_subscription_matches p r terms =
     (case terms of (plan_key, period, expected) \<Rightarrow>
       case find (reserved_row (reserved_identity r) plan_key (payment_state_subscription_id expected))
              (db_subscriptions (pay_billing p)) of
         None \<Rightarrow> False
       | Some row \<Rightarrow> payment_state_holds (reserved_identity r) period expected row)"

definition renewal_subscription_matches ::
    "payment_db \<Rightarrow> SubscriptionRenewalReservation \<Rightarrow> payment_terms \<Rightarrow> bool" where
  "renewal_subscription_matches p r terms =
     (case terms of (plan_key, period, expected) \<Rightarrow>
       case find (reserved_row (reserved_identity r) plan_key (payment_state_subscription_id expected))
              (db_subscriptions (pay_billing p)) of
         None \<Rightarrow> False
       | Some row \<Rightarrow> payment_state_holds (reserved_identity r) period expected row \<and>
           row_amount_cents row = money_cents (request_amount (reserved_request r)) \<and>
           row_currency row = CurrencyCode_text (money_currency (request_amount (reserved_request r))))"

section \<open>Discounts\<close>

definition discount_of :: "SubscriptionId \<Rightarrow> PlanKey \<Rightarrow> discount_row \<Rightarrow> bool" where
  "discount_of subscription_id plan_key row \<longleftrightarrow>
     drow_subscription_id row = SubscriptionId_as_uuid subscription_id \<and> drow_plan_key row = PlanKey_as_str plan_key"

definition update_discounts ::
    "(discount_row \<Rightarrow> bool) \<Rightarrow> (discount_row \<Rightarrow> discount_row) \<Rightarrow> billing_db \<Rightarrow> billing_db" where
  "update_discounts hit f db = db\<lparr>db_discounts := map (\<lambda>row. if hit row then f row else row) (db_discounts db)\<rparr>"

definition advance_subscription_discount_after_successful_charge ::
    "datetime \<Rightarrow> SubscriptionId \<Rightarrow> PlanKey \<Rightarrow> billing_db \<Rightarrow> (billing_db, SubscriptionEnrollmentApplicationError) result" where
  "advance_subscription_discount_after_successful_charge clock subscription_id plan_key db =
     (case find (discount_of subscription_id plan_key) (db_discounts db) of
        None \<Rightarrow> Ok db
      | Some row \<Rightarrow>
          if drow_status row = lit ''completed'' then Ok db
          else if disc_duration row = lit ''indefinite'' then
            (if drow_periods_applied row = 0
             then Ok (update_discounts (\<lambda>row. discount_of subscription_id plan_key row \<and>
                 drow_status row = lit ''active'' \<and> drow_periods_applied row = 0)
               (\<lambda>row. row\<lparr>drow_periods_applied := 1\<rparr>) db)
             else if drow_periods_applied row = 1 then Ok db
             else Err invalid_application)
          else if disc_duration row \<noteq> lit ''limited_months'' then Err invalid_application
          else and_then (ok_or (drow_periods_total row) (SubscriptionEnrollmentApplicationError.Sql None))
            (\<lambda>total. if drow_periods_applied row \<ge> total then Err invalid_application
               else let next = drow_periods_applied row + 1; completed = (next = total);
                        db = update_discounts (discount_of subscription_id plan_key)
                          (\<lambda>row. row\<lparr>drow_periods_applied := next,
                             drow_status := (if completed then lit ''completed'' else lit ''active'')\<rparr>) db
                    in Ok (if completed
                       then snd (update_subscriptions (\<lambda>s. row_id s = SubscriptionId_as_uuid subscription_id)
                         (\<lambda>s. s\<lparr>row_amount_cents := disc_base_amount_cents row, row_updated_at := clock\<rparr>) db)
                       else db)))"

section \<open>Payment methods\<close>

definition upserted_method ::
    "PaymentAttempt \<Rightarrow> ProcessorEvidence \<Rightarrow> GatewayPaymentMethodReference \<Rightarrow> payment_method_row \<Rightarrow> bool" where
  "upserted_method attempt evidence reference row \<longleftrightarrow>
     pmrow_gateway_account_id row = GatewayAccountId_as_uuid (identity_gateway_account_id (attempt_identity attempt)) \<and>
     pmrow_subscriber_id row = SubscriberId_as_uuid (identity_subscriber_id (attempt_identity attempt)) \<and>
     pmrow_reference row = GatewayPaymentMethodReference_expose reference"

definition upsert_payment_method ::
    "payment_env \<Rightarrow> PaymentAttempt \<Rightarrow> ProcessorEvidence \<Rightarrow> payment_db \<Rightarrow>
     (PaymentMethodId \<times> payment_db, SubscriptionEnrollmentApplicationError) result" where
  "upsert_payment_method env attempt evidence p =
     and_then (ok_or (evidence_payment_method_reference evidence) invalid_application) (\<lambda>reference.
       let contact = request_billing_contact (attempt_request attempt);
           hit = upserted_method attempt evidence reference
       in case find hit (pay_methods p) of
            Some row \<Rightarrow> Ok (PaymentMethodId (pmrow_id row), p\<lparr>pay_methods := map (\<lambda>row. if hit row
              then row\<lparr>pmrow_status := lit ''active'', pmrow_descriptor := evidence_descriptor evidence,
                pmrow_billing_name := contact_snapshot_name contact,
                pmrow_billing_email := contact_snapshot_email contact,
                pmrow_billing_address := (case contact_snapshot_address contact of
                    None \<Rightarrow> pmrow_billing_address row | Some address \<Rightarrow> Some address)\<rparr>
              else row) (pay_methods p)\<rparr>)
          | None \<Rightarrow> Ok (env_fresh_method env, p\<lparr>pay_methods := pay_methods p @
              [\<lparr>pmrow_id = PaymentMethodId_as_uuid (env_fresh_method env),
                pmrow_billing_scope_id = BillingScopeId_as_uuid (identity_billing_scope_id (attempt_identity attempt)),
                pmrow_subscriber_id = SubscriberId_as_uuid (identity_subscriber_id (attempt_identity attempt)),
                pmrow_gateway_account_id =
                  GatewayAccountId_as_uuid (identity_gateway_account_id (attempt_identity attempt)),
                pmrow_reference = GatewayPaymentMethodReference_expose reference, pmrow_status = lit ''active'',
                pmrow_descriptor = evidence_descriptor evidence,
                pmrow_billing_name = contact_snapshot_name contact,
                pmrow_billing_email = contact_snapshot_email contact,
                pmrow_billing_address = contact_snapshot_address contact\<rparr>]\<rparr>))"

definition disable_payment_method_if_unreferenced :: "PaymentMethodId \<Rightarrow> payment_db \<Rightarrow> payment_db" where
  "disable_payment_method_if_unreferenced method_id p =
     p\<lparr>pay_methods := map (\<lambda>row. if pmrow_id row = PaymentMethodId_as_uuid method_id \<and>
         pmrow_status row = lit ''active'' \<and>
         \<not> list_ex (\<lambda>s. row_payment_method_id s = pmrow_id row \<and> row_status s \<in> {lit ''active'', lit ''past_due''})
             (db_subscriptions (pay_billing p))
       then row\<lparr>pmrow_status := lit ''disabled''\<rparr> else row) (pay_methods p)\<rparr>"

section \<open>Parking an approval\<close>

definition PERIOD_EXPIRED_APPROVAL_TEXT :: rstring where
  "PERIOD_EXPIRED_APPROVAL_TEXT =
     lit ''Approved subscription payment arrived after its billing period ended; external reversal is required.''"

definition mark_attempt_approved ::
    "payment_env \<Rightarrow> PaymentAttempt \<Rightarrow> ProcessorEvidence \<Rightarrow> SubscriptionId \<Rightarrow> PaymentMethodId \<Rightarrow> payment_db \<Rightarrow>
     (payment_db, SubscriptionEnrollmentApplicationError) result" where
  "mark_attempt_approved env attempt evidence subscription_id method_id =
     on_attempts (persist_attempt_transition (env_clock env) attempt evidence
       (AttemptTransition.Approved (AttemptApproval.Subscription subscription_id method_id)))"

definition park_locked_attempt ::
    "payment_env \<Rightarrow> PaymentAttempt \<Rightarrow> ProcessorEvidence \<Rightarrow> PaymentResolutionCode option \<Rightarrow> rstring \<Rightarrow> payment_db \<Rightarrow>
     (PaymentAttempt \<times> payment_db, SubscriptionEnrollmentApplicationError) result" where
  "park_locked_attempt env attempt evidence code message p =
     (let durable = state_processor_evidence (attempt_state attempt);
          kept = (if PaymentAttempt_status attempt = PaymentAttemptStatus.Pending \<and> \<not> has_gateway_reference durable
            then evidence else durable)
      in and_then (on_attempts (persist_attempt_transition (env_clock env) attempt kept
           (LateApprovalReview code message)) p)
         (\<lambda>p. map_sum id (\<lambda>a. (a, p)) (find_attempt p (attempt_identity attempt))))"

definition is_parked_expired_period_approval :: "PaymentAttempt \<Rightarrow> bool" where
  "is_parked_expired_period_approval attempt \<longleftrightarrow>
     PaymentAttempt_status attempt = PaymentAttemptStatus.ReviewRequired \<and>
     state_resolution_code (attempt_state attempt) = Some SubscriptionApprovedPeriodExpired"

definition observe_parked_expired_period_approval ::
    "payment_env \<Rightarrow> PaymentAttempt \<Rightarrow> ProcessorEvidence \<Rightarrow> payment_db \<Rightarrow>
     (SubscriptionEnrollmentPaymentResult \<times> BillingEvent option \<times> payment_db, SubscriptionEnrollmentApplicationError) result" where
  "observe_parked_expired_period_approval env attempt evidence p =
     and_then (observe env attempt evidence ExternalReversalRequired p) (\<lambda>(_, p).
       map_sum id (\<lambda>r. (r, None, p)) (built (payment_result_not_applied attempt)))"

text \<open>A charge of an expired period requires external reversal and says why.\<close>

definition expire_charge ::
    "payment_env \<Rightarrow> ProcessorChargeId \<Rightarrow> payment_db \<Rightarrow> (payment_db, SubscriptionEnrollmentApplicationError) result" where
  "expire_charge env i p =
     map_sum id snd (on_charges (transition_processor_charge_in_transaction (env_clock env) i
       [ProcessorChargeProgression.Pending, ReconciliationRequired, ExternalReversalRequired]
       ExternalReversalRequired (Some (PaymentResolution SubscriptionApprovedPeriodExpired))) p)"

definition park_expired_period_approval ::
    "payment_env \<Rightarrow> PaymentAttempt \<Rightarrow> ProcessorChargeId \<Rightarrow> ProcessorEvidence \<Rightarrow> payment_db \<Rightarrow>
     (SubscriptionEnrollmentPaymentResult \<times> BillingEvent option \<times> payment_db, SubscriptionEnrollmentApplicationError) result" where
  "park_expired_period_approval env attempt i evidence p =
     and_then (expire_charge env i p) (\<lambda>p.
     and_then (park_locked_attempt env attempt evidence (Some SubscriptionApprovedPeriodExpired)
         PERIOD_EXPIRED_APPROVAL_TEXT p) (\<lambda>(parked, p).
       map_sum id (\<lambda>r. (r, None, p)) (built (payment_result_not_applied parked))))"

definition charge_is_externally_reversed ::
    "ProcessorChargeId \<Rightarrow> payment_db \<Rightarrow> (bool, SubscriptionEnrollmentApplicationError) result" where
  "charge_is_externally_reversed i p =
     map_sum id (\<lambda>c. charge_progression c = ExternallyReversed)
       (ok_or (find (\<lambda>c. charge_id c = i) (pay_charges p)) (SubscriptionEnrollmentApplicationError.Sql None))"

definition park_observed_approval_if_period_expired ::
    "payment_env \<Rightarrow> PaymentAttempt \<Rightarrow> ObservedCharge \<Rightarrow> ProcessorEvidence \<Rightarrow> datetime option \<Rightarrow> payment_db \<Rightarrow>
     (PaymentAttempt option \<times> payment_db, SubscriptionEnrollmentApplicationError) result" where
  "park_observed_approval_if_period_expired env attempt observation evidence expired_period_end p =
     (case expired_period_end of
        None \<Rightarrow> Ok (None, p)
      | Some end_at \<Rightarrow>
          if PaymentAttempt_status attempt = PaymentAttemptStatus.Approved \<or>
             is_parked_expired_period_approval attempt \<or> evidence_transaction_id evidence = None
          then Ok (None, p)
          else (case observation of
             OwnedByOtherAttempt \<Rightarrow> Ok (None, p)
           | Owned charge \<Rightarrow>
               if record_role charge \<noteq> Primary \<or> \<not> period_has_expired_at_database_time (env_txn env) end_at
               then Ok (None, p)
               else if PaymentAttemptStatus_is_terminal (PaymentAttempt_status attempt) then
                 and_then (charge_is_externally_reversed (record_id charge) p) (\<lambda>reversed.
                   if reversed then Ok (None, p)
                   else map_sum id (\<lambda>p. (None, p)) (expire_charge env (record_id charge) p))
               else map_sum id (\<lambda>(payment, _, p). (Some (result_attempt payment), p))
                 (park_expired_period_approval env attempt (record_id charge) evidence p)))"

definition park_compensated_approved_attempt ::
    "payment_env \<Rightarrow> PaymentAttempt \<Rightarrow> ProcessorEvidence \<Rightarrow> rstring \<Rightarrow> datetime option \<Rightarrow> payment_db \<Rightarrow>
     (PaymentAttempt \<times> payment_db, SubscriptionEnrollmentApplicationError) result" where
  "park_compensated_approved_attempt env attempt evidence message expired_period_end p =
     (if is_parked_expired_period_approval attempt
      then and_then (observe env attempt evidence ExternalReversalRequired p) (\<lambda>(_, p). Ok (attempt, p))
      else and_then (observe env attempt evidence ProcessorChargeProgression.Pending p) (\<lambda>(observation, p).
        and_then (park_observed_approval_if_period_expired env attempt observation evidence expired_period_end p)
        (\<lambda>(parked, p). case parked of
             Some parked \<Rightarrow> Ok (parked, p)
           | None \<Rightarrow> park_locked_attempt env attempt evidence None message p)))"

definition stop_conflicting_subscription_approval ::
    "payment_env \<Rightarrow> PaymentAttempt \<Rightarrow> ProcessorEvidence \<Rightarrow> payment_db \<Rightarrow>
     (SubscriptionEnrollmentPaymentResult option \<times> GatewayPaymentDiagnostic list \<times> payment_db,
      SubscriptionEnrollmentApplicationError) result" where
  "stop_conflicting_subscription_approval env attempt observed p =
     (let diagnostics = processor_identity_conflict_diagnostics attempt observed;
          status = PaymentAttempt_status attempt;
          stopped = (\<lambda>p. map_sum id (\<lambda>payment. (Some (with_observation_diagnostics diagnostics payment), [], p))
            (payment_result_for_attempt p attempt))
      in if diagnostics = [] then Ok (None, diagnostics, p)
         else if \<not> PaymentAttemptStatus_is_resolvable status \<and> status \<noteq> PaymentAttemptStatus.Approved
         then Ok (None, diagnostics, p)
         else if status = PaymentAttemptStatus.Approved \<and> same_processor_transaction attempt observed
         then stopped p
         else let progression = (if PaymentAttemptStatus_is_resolvable status \<or>
                    money_cents (request_amount (attempt_request attempt)) = 0
                  then ReconciliationRequired else ExternalReversalRequired)
              in and_then (observe env attempt observed progression p) (\<lambda>(observation, p).
                 if progression = ExternalReversalRequired \<and> evidence_transaction_id observed \<noteq> None
                 then and_then (on_charges (\<lambda>s. map_sum id (Pair ())
                        (promote_conflicting_charge_to_external_reversal (env_clock env) observation s)) p)
                      (\<lambda>(_, p). stopped p)
                 else stopped p))"

section \<open>Submission times\<close>

definition clear_resolved_attempt_submission ::
    "payment_env \<Rightarrow> PaymentAttempt \<Rightarrow> payment_db \<Rightarrow> (payment_db, SubscriptionEnrollmentApplicationError) result" where
  "clear_resolved_attempt_submission env attempt =
     on_attempts (\<lambda>db. require_one_row (update_attempt (attempt_key attempt) (\<lambda>_. True)
       (Some \<circ> set_submitted_at None (env_clock env)) db))"

definition restore_prepared_attempt_submission ::
    "payment_env \<Rightarrow> PaymentAttempt \<Rightarrow> payment_db \<Rightarrow> (payment_db, SubscriptionEnrollmentApplicationError) result" where
  "restore_prepared_attempt_submission env attempt =
     on_attempts (\<lambda>db. require_one_row (update_attempt (attempt_key attempt)
       (\<lambda>a. PaymentAttempt_status a = PaymentAttemptStatus.Pending \<and> attempt_submitted_at a \<noteq> None)
       (Some \<circ> set_submitted_at None (env_clock env)) db))"

section \<open>Outcomes that were not approved\<close>

record OutcomeApplication =
  oa_payment :: SubscriptionEnrollmentPaymentResult
  oa_applied :: bool
  oa_prepared_attempt_replay :: PreparedAttemptReplay

definition should_surface_not_submitted :: "OutcomeApplication \<Rightarrow> GatewayNotSubmittedPolicy \<Rightarrow> bool" where
  "should_surface_not_submitted self policy \<longleftrightarrow>
     oa_applied self \<or>
     should_surface_prepared_not_submitted (result_attempt (oa_payment self)) policy (oa_prepared_attempt_replay self)"

definition resolve_locked_outcome ::
    "payment_env \<Rightarrow> OutcomeReservation \<Rightarrow> PaymentAttempt \<Rightarrow> ProcessorEvidence \<Rightarrow> OutcomeResolutionCommand \<Rightarrow> payment_db \<Rightarrow>
     (OutcomeApplication \<times> payment_db, SubscriptionEnrollmentApplicationError) result" where
  "resolve_locked_outcome env reservation attempt evidence resolution p =
     (let reconciled = reconcile_non_approved_evidence attempt evidence;
          resolution = (if has_identity_conflict reconciled then OutcomeResolutionCommand_unknown None else resolution);
          evidence = reconciled_evidence reconciled;
          applied = (\<not> is_parked_expired_period_approval attempt \<and>
            may_resolve resolution (PaymentAttempt_status attempt) (attempt_submitted_at attempt));
          status = resolved_status resolution (OutcomeReservation_operation reservation) (PaymentAttempt_status attempt)
      in and_then
           (if \<not> applied then Ok p
            else and_then (on_attempts (persist_attempt_transition (env_clock env) attempt evidence
                (Resolved status (command_code resolution))) p) (\<lambda>p.
              and_then (if clears_submitted_at resolution then clear_resolved_attempt_submission env attempt p else Ok p)
              (\<lambda>p. if records_pending_evidence resolution status \<and> indicates_approved_payment evidence
                 then map_sum id snd (observe env attempt evidence ProcessorChargeProgression.Pending p)
                 else Ok p)))
         (\<lambda>p. map_sum id (\<lambda>payment. (\<lparr>oa_payment = append_subscription_observation_diagnostics payment
               (identity_conflict_diagnostics reconciled), oa_applied = applied,
             oa_prepared_attempt_replay = prepared_attempt_replay (OutcomeReservation_operation reservation)\<rparr>, p))
           (payment_result_for_reservation_attempt p reservation)))"

definition restore_admitted_attempt_for_retry ::
    "payment_env \<Rightarrow> OutcomeReservation \<Rightarrow> payment_db \<Rightarrow>
     (OutcomeApplication \<times> payment_db, SubscriptionEnrollmentApplicationError) result" where
  "restore_admitted_attempt_for_retry env reservation p =
     and_then (lock_expected_reservation_attempt p reservation) (\<lambda>attempt.
       let restored = (PaymentAttempt_status attempt = PaymentAttemptStatus.Pending \<and> attempt_submitted_at attempt \<noteq> None)
       in and_then (if restored then restore_prepared_attempt_submission env attempt p else Ok p) (\<lambda>p.
          map_sum id (\<lambda>payment. (\<lparr>oa_payment = payment, oa_applied = restored,
              oa_prepared_attempt_replay = prepared_attempt_replay (OutcomeReservation_operation reservation)\<rparr>, p))
            (payment_result_for_reservation_attempt p reservation)))"

section \<open>Cooldowns\<close>

datatype RateLimitCooldownPersistence = Applied | IdentityChanged | MissingProviderCooldown

datatype RateLimitCooldownCommitDisposition = Applied | IdentityNotDurable | IdentityChanged | MissingProviderCooldown

text \<open>\<open>GREATEST(COALESCE(until, '-infinity'), at)\<close>\<close>

definition cooled_until :: "datetime option \<Rightarrow> datetime \<Rightarrow> datetime" where
  "cooled_until until at = (case until of None \<Rightarrow> at | Some u \<Rightarrow> max u at)"

abbreviation cooldown_end :: "datetime \<Rightarrow> datetime" where
  "cooldown_end clock \<equiv> clock + duration_seconds GATEWAY_MUTATION_RATE_LIMIT_RETRY_AFTER_SECONDS"

definition rate_limit_cooldown_identity_is_durable :: "PaymentAttemptIdentity \<Rightarrow> payment_db \<Rightarrow> bool" where
  "rate_limit_cooldown_identity_is_durable identity p =
     list_ex (\<lambda>a. attempt_identity a = identity) (db_attempts (pay_billing p))"

definition account_of_identity :: "PaymentAttemptIdentity \<Rightarrow> gateway_account_row \<Rightarrow> bool" where
  "account_of_identity identity row \<longleftrightarrow>
     garow_id row = GatewayAccountId_as_uuid (identity_gateway_account_id identity) \<and>
     garow_billing_scope_id row = BillingScopeId_as_uuid (identity_billing_scope_id identity)"

definition persist_bound_provider_rate_limit_cooldown ::
    "datetime \<Rightarrow> PaymentAttemptIdentity \<Rightarrow> GatewayProviderKey \<Rightarrow> payment_db \<Rightarrow>
     RateLimitCooldownPersistence \<times> payment_db" where
  "persist_bound_provider_rate_limit_cooldown clock identity provider_key p =
     (let key = GatewayProviderKey_as_str provider_key in
      if map_option garow_provider_key (find (account_of_identity identity) (pay_accounts p)) \<noteq> Some key
      then (RateLimitCooldownPersistence.IdentityChanged, p)
      else if \<not> list_ex (\<lambda>row. plrow_provider_key row = key) (pay_provider_limits p)
      then (RateLimitCooldownPersistence.MissingProviderCooldown, p)
      else (RateLimitCooldownPersistence.Applied, p\<lparr>pay_provider_limits := map (\<lambda>row.
        if plrow_provider_key row = key
        then row\<lparr>plrow_rate_limited_until := Some (cooled_until (plrow_rate_limited_until row) (cooldown_end clock))\<rparr>
        else row) (pay_provider_limits p)\<rparr>))"

definition persist_rate_limit_cooldown ::
    "datetime \<Rightarrow> PaymentAttemptIdentity \<Rightarrow> GatewayProviderKey \<Rightarrow> RateLimitCooldown \<Rightarrow> payment_db \<Rightarrow>
     RateLimitCooldownPersistence \<times> payment_db" where
  "persist_rate_limit_cooldown clock identity provider_key cooldown p =
     (if cooldown = Provider then persist_bound_provider_rate_limit_cooldown clock identity provider_key p
      else let hit = (\<lambda>row. account_of_identity identity row \<and>
                 garow_gateway_configuration_id row =
                   GatewayConfigurationId_as_uuid (identity_gateway_configuration_id identity))
           in if \<not> list_ex hit (pay_accounts p) then (RateLimitCooldownPersistence.IdentityChanged, p)
              else (RateLimitCooldownPersistence.Applied, p\<lparr>pay_accounts := map (\<lambda>row. if hit row
                then row\<lparr>garow_mutation_rate_limited_until :=
                  Some (cooled_until (garow_mutation_rate_limited_until row) (cooldown_end clock))\<rparr>
                else row) (pay_accounts p)\<rparr>))"

definition commit_rate_limit_cooldown_for_identity ::
    "datetime \<Rightarrow> PaymentAttemptIdentity \<Rightarrow> GatewayProviderKey \<Rightarrow> RateLimitCooldown \<Rightarrow> payment_db \<Rightarrow>
     RateLimitCooldownCommitDisposition \<times> payment_db" where
  "commit_rate_limit_cooldown_for_identity clock identity provider_key cooldown p =
     (if \<not> rate_limit_cooldown_identity_is_durable identity p then (IdentityNotDurable, p)
      else case persist_rate_limit_cooldown clock identity provider_key cooldown p of
             (RateLimitCooldownPersistence.Applied, p') \<Rightarrow> (RateLimitCooldownCommitDisposition.Applied, p')
           | (RateLimitCooldownPersistence.IdentityChanged, _) \<Rightarrow>
               (RateLimitCooldownCommitDisposition.IdentityChanged, p)
           | (RateLimitCooldownPersistence.MissingProviderCooldown, _) \<Rightarrow>
               (RateLimitCooldownCommitDisposition.MissingProviderCooldown, p))"

text \<open>The warnings of the dispositions that are not applied are not modelled.\<close>

definition commit_rate_limit_cooldown ::
    "datetime \<Rightarrow> OutcomeReservation \<Rightarrow> RateLimitCooldown \<Rightarrow> payment_db \<Rightarrow>
     (payment_db, SubscriptionEnrollmentApplicationError) result" where
  "commit_rate_limit_cooldown clock reservation cooldown p =
     (case commit_rate_limit_cooldown_for_identity clock (OutcomeReservation_identity reservation)
             (OutcomeReservation_provider_key reservation) cooldown p of
        (RateLimitCooldownCommitDisposition.MissingProviderCooldown, _) \<Rightarrow> Err invalid_application
      | (_, p') \<Rightarrow> Ok p')"

text \<open>
  The cooldown commits in a transaction of its own, before the outcome is resolved: an error of the second
  transaction keeps it.  \<open>between\<close> is what others commit in between.
\<close>

definition after_cooldown ::
    "datetime \<Rightarrow> (payment_db \<Rightarrow> payment_db) \<Rightarrow> OutcomeReservation \<Rightarrow> RateLimitCooldown option \<Rightarrow>
     (payment_db \<Rightarrow> ('a \<times> payment_db, SubscriptionEnrollmentApplicationError) result) \<Rightarrow> payment_db \<Rightarrow>
     ('a, SubscriptionEnrollmentApplicationError) result \<times> payment_db" where
  "after_cooldown clock between reservation cooldown op p =
     (case (case cooldown of None \<Rightarrow> Ok p | Some c \<Rightarrow> commit_rate_limit_cooldown clock reservation c p) of
        Inl e \<Rightarrow> (Err e, p)
      | Inr p \<Rightarrow> let p = between p in
          (case op p of Inl e \<Rightarrow> (Err e, p) | Inr (x, p') \<Rightarrow> (Ok x, p')))"

definition resolve_pool_outcome ::
    "datetime \<Rightarrow> (payment_db \<Rightarrow> payment_db) \<Rightarrow> payment_env \<Rightarrow> OutcomeReservation \<Rightarrow> ProcessorEvidence \<Rightarrow>
     OutcomeResolutionCommand \<Rightarrow> payment_db \<Rightarrow>
     (OutcomeApplication, SubscriptionEnrollmentApplicationError) result \<times> payment_db" where
  "resolve_pool_outcome clock between env reservation evidence resolution =
     after_cooldown clock between reservation (command_cooldown resolution) (\<lambda>p.
       and_then (lock_expected_reservation_attempt p reservation) (\<lambda>attempt.
         resolve_locked_outcome env reservation attempt evidence resolution p))"

definition apply_resumable_not_submitted_policy ::
    "datetime \<Rightarrow> (payment_db \<Rightarrow> payment_db) \<Rightarrow> payment_env \<Rightarrow> OutcomeReservation \<Rightarrow> ProcessorEvidence \<Rightarrow>
     GatewayNotSubmittedPolicy \<Rightarrow> payment_db \<Rightarrow>
     (OutcomeApplication, SubscriptionEnrollmentApplicationError) result \<times> payment_db" where
  "apply_resumable_not_submitted_policy clock between env reservation evidence policy p =
     (if restores_prepared_attempt_when_supported policy \<and>
         prepared_attempt_replay (OutcomeReservation_operation reservation) = Supported
      then (case restore_admitted_attempt_for_retry env reservation p of
              Inl e \<Rightarrow> (Err e, p) | Inr (a, p') \<Rightarrow> (Ok a, p'))
      else resolve_pool_outcome clock between env reservation evidence
        (OutcomeResolutionCommand_non_approved AttemptResolutionStatus.Failed (Some (policy_resolution_code policy))
          (policy_cooldown policy) AdmittedNotSubmitted) p)"

definition persist_approved_evidence_without_attempt_lock ::
    "(nat \<Rightarrow> charge_store \<Rightarrow> charge_store) \<Rightarrow> datetime \<Rightarrow> (nat \<Rightarrow> ProcessorChargeId) \<Rightarrow> LockFreeApprovedEvidenceTerms \<Rightarrow>
     ProcessorEvidence \<Rightarrow> LockFreeApprovalPolicy \<Rightarrow> payment_db \<Rightarrow>
     (payment_db, SubscriptionEnrollmentApplicationError) result" where
  "persist_approved_evidence_without_attempt_lock others clock fresh terms evidence policy p =
     and_then (on_charges (persist_approved_evidence_without_attempt_lock_with_policy others clock fresh terms evidence
         policy) p)
       (\<lambda>(outcome, p). if outcome = LockFreeNotDurable then Err ApprovedEvidenceNotDurable else Ok p)"

section \<open>Transactions and retries\<close>

text \<open>
  The transactions of one call, by number: what others commit before each, the failure of the database
  that rolls it back, if there is one, the error the call sees when a commit took effect and its answer was lost, and
  its clock and identifiers.
\<close>

record payment_run =
  run_env :: "nat \<Rightarrow> payment_env"
  run_between :: "nat \<Rightarrow> payment_db \<Rightarrow> payment_db"
  run_failure :: "nat \<Rightarrow> SubscriptionEnrollmentApplicationError option"
  run_lost_answer :: "nat \<Rightarrow> SubscriptionEnrollmentApplicationError option"

definition transact ::
    "payment_run \<Rightarrow> nat \<Rightarrow> (payment_env \<Rightarrow> payment_db \<Rightarrow> ('a \<times> payment_db, SubscriptionEnrollmentApplicationError) result) \<Rightarrow>
     payment_db \<Rightarrow> ('a, SubscriptionEnrollmentApplicationError) result \<times> payment_db" where
  "transact run n op p =
     (let p = run_between run n p in
      case run_failure run n of
        Some e \<Rightarrow> (Err e, p)
      | None \<Rightarrow> (case op (run_env run n) p of
            Inl e \<Rightarrow> (Err e, p)
          | Inr (x, p') \<Rightarrow> (case run_lost_answer run n of None \<Rightarrow> (Ok x, p') | Some e \<Rightarrow> (Err e, p'))))"

text \<open>A loop over transactions: \<open>None\<close> when every try failed with an error that is tried again.\<close>

fun retry ::
    "payment_run \<Rightarrow> (payment_env \<Rightarrow> payment_db \<Rightarrow> ('a \<times> payment_db, SubscriptionEnrollmentApplicationError) result) \<Rightarrow>
     (SubscriptionEnrollmentApplicationError \<Rightarrow> bool) \<Rightarrow> nat list \<Rightarrow> payment_db \<Rightarrow>
     ('a, SubscriptionEnrollmentApplicationError) result option \<times> payment_db" where
  "retry run op again [] p = (None, p)"
| "retry run op again (n # ns) p =
     (case transact run n op p of
        (Inr x, p) \<Rightarrow> (Some (Ok x), p)
      | (Inl e, p) \<Rightarrow> if again e then retry run op again ns p else (Some (Err e), p))"

end
