(* ===== verification/Approvals.thy ===== *)
theory Approvals
  imports Payment_Application
begin

text \<open>
  What the applications of approved outcomes share.  Enrollments, renewals, recoveries and replacements of the
  payment method run through the same text in \<open>enrollment_application/initial/approval.rs\<close>, \<open>renewal/approval.rs\<close>, \<open>recovery.rs\<close> and
  \<open>payment_method_replacement/approval.rs\<close>: an attempt is locked and its evidence compared, an approval that was
  applied is replayed, a late one is observed, and an open attempt gets its primary charge; an
  application that fails three times is parked, and where that fails too the evidence is kept.  The
  definitions take what differs as arguments.  The host's transaction (\<open>transactions.rs\<close>) is a parameter: the state
  of the subject, whether it stores an event and whether it commits.
\<close>

section \<open>The host\<close>

datatype BillingTransactionSubjectState = LiveRecipient | RetainedSubject

record billing_host =
  host_subject_state :: BillingTransactionSubjectState
  host_expiry_policy :: SubscriptionPeriodExpiryPolicy
  host_begins :: bool
  host_appends :: "BillingEvent \<Rightarrow> bool"
  host_commits :: bool

text \<open>
  \<open>finalize_approved_application\<close> and the end of every transaction of the host: the events it stores.  A commit that is not
  \<open>host_commits\<close> took no effect; one whose answer is lost after it took effect is \<open>run_lost_answer\<close> of the run.
\<close>

definition finalize_application ::
    "billing_host \<Rightarrow> ('a \<times> BillingEvent list \<times> payment_db, SubscriptionEnrollmentApplicationError) result \<Rightarrow>
     (('a \<times> BillingEvent list) \<times> payment_db, SubscriptionEnrollmentApplicationError) result" where
  "finalize_application host application =
     and_then application (\<lambda>(result, events, p).
       if \<not> list_all (host_appends host) events then Err Event
       else if \<not> host_commits host then Err Transaction
       else Ok ((result, events), p))"

type_synonym approval_result =
  "(SubscriptionEnrollmentPaymentResult \<times> BillingEvent option \<times> payment_db, SubscriptionEnrollmentApplicationError) result"

text \<open>A transaction of the host around an application that may return an event.\<close>

definition in_host_transaction ::
    "billing_host \<Rightarrow> approval_result \<Rightarrow>
     ((SubscriptionEnrollmentPaymentResult \<times> BillingEvent list) \<times> payment_db, SubscriptionEnrollmentApplicationError) result" where
  "in_host_transaction host application =
     (if \<not> host_begins host then Err Transaction
      else finalize_application host
        (map_sum id (\<lambda>(result, event, p). (result, case event of Some e \<Rightarrow> [e] | None \<Rightarrow> [], p)) application))"

section \<open>Steps of an application\<close>

text \<open>The unique indexes of \<open>billing_subscriptions\<close>: its key, the current subscription of an owner to a plan and the initial
  transaction of an account.\<close>

definition subscription_clash :: "subscription_row \<Rightarrow> subscription_row \<Rightarrow> bool" where
  "subscription_clash new row \<longleftrightarrow>
     row_id row = row_id new \<or>
     row_status row \<in> {lit ''active'', lit ''past_due''} \<and> row_status new \<in> {lit ''active'', lit ''past_due''} \<and>
       row_billing_scope_id row = row_billing_scope_id new \<and> row_subscriber_id row = row_subscriber_id new \<and>
       row_plan_key row = row_plan_key new \<or>
     row_gateway_account_id row = row_gateway_account_id new \<and>
       row_initial_transaction_id row = row_initial_transaction_id new"

text \<open>
  \<open>UPDATE billing_subscriptions\<close>: an updated row that meets another one in a unique index fails the statement, and another number of rows
  than one is an error.
\<close>

definition update_one_subscription ::
    "(subscription_row \<Rightarrow> bool) \<Rightarrow> (subscription_row \<Rightarrow> subscription_row) \<Rightarrow> payment_db \<Rightarrow>
     (payment_db, SubscriptionEnrollmentApplicationError) result" where
  "update_one_subscription hit f p =
     (let rows = db_subscriptions (pay_billing p) in
      if list_ex (\<lambda>row. hit row \<and> list_ex (\<lambda>other. row_id other \<noteq> row_id row \<and> subscription_clash (f row) other) rows) rows
      then Err (SubscriptionEnrollmentApplicationError.Sql (Some (lit ''23505'')))
      else if length (filter hit rows) \<noteq> 1 then Err invalid_application
      else Ok (with_billing (snd (update_subscriptions hit f (pay_billing p))) p))"

definition advance_discount ::
    "payment_env \<Rightarrow> SubscriptionId \<Rightarrow> PlanKey \<Rightarrow> payment_db \<Rightarrow> (payment_db, SubscriptionEnrollmentApplicationError) result" where
  "advance_discount env subscription_id plan_key p =
     map_sum id (\<lambda>db. with_billing db p)
       (advance_subscription_discount_after_successful_charge (env_clock env) subscription_id plan_key (pay_billing p))"

definition OWNED_BY_ANOTHER_ATTEMPT_TEXT :: rstring where
  "OWNED_BY_ANOTHER_ATTEMPT_TEXT =
     lit ''The approved gateway transaction is already owned by another payment attempt.''"

definition ADDITIONAL_CHARGE_TEXT :: rstring where
  "ADDITIONAL_CHARGE_TEXT = lit ''An additional approved charge requires manual reversal review.''"

definition expired_period_end :: "SubscriptionPeriodExpiryPolicy \<Rightarrow> BillingPeriod \<Rightarrow> datetime option" where
  "expired_period_end policy period = (if rejects_expired_periods policy then Some (period_end_at period) else None)"

definition not_applied_without_event :: "PaymentAttempt \<times> payment_db \<Rightarrow> approval_result" where
  "not_applied_without_event = (\<lambda>(parked, p). map_sum id (\<lambda>r. (r, None, p)) (built (payment_result_not_applied parked)))"

text \<open>An approval whose subscription no longer is as it was reserved.\<close>

definition park_stale_approval ::
    "payment_env \<Rightarrow> PaymentAttempt \<Rightarrow> ProcessorEvidence \<Rightarrow> ProcessorChargeId \<Rightarrow> ProcessorChargeProgression \<Rightarrow>
     PaymentResolutionCode \<Rightarrow> rstring \<Rightarrow> payment_db \<Rightarrow> approval_result" where
  "park_stale_approval env attempt evidence i progression code message p =
     and_then (move_charge env i progression (Some code) p) (\<lambda>p.
     and_then (park_locked_attempt env attempt evidence (Some code) message p) not_applied_without_event)"

text \<open>
  The charge of an open attempt: a transaction of another attempt and an additional charge are parked, the primary
  charge goes on.
\<close>

definition with_primary_charge ::
    "payment_env \<Rightarrow> PaymentAttempt \<Rightarrow> ProcessorEvidence \<Rightarrow> ProcessorChargeProgression \<Rightarrow> rstring \<Rightarrow>
     (ProcessorChargeId \<Rightarrow> payment_db \<Rightarrow> approval_result) \<Rightarrow> payment_db \<Rightarrow> approval_result" where
  "with_primary_charge env attempt evidence additional_progression additional_text primary p =
     and_then (observe env attempt evidence ProcessorChargeProgression.Pending p) (\<lambda>(observation, p).
       case observation of
         OwnedByOtherAttempt \<Rightarrow>
           and_then (park_locked_attempt env attempt evidence None OWNED_BY_ANOTHER_ATTEMPT_TEXT p)
             not_applied_without_event
       | Owned charge \<Rightarrow>
           if record_role charge = Additional then
             and_then (move_charge env (record_id charge) additional_progression None p) (\<lambda>p.
             and_then (park_locked_attempt env attempt evidence None additional_text p) not_applied_without_event)
           else primary (record_id charge) p)"

text \<open>An attempt that was declined or failed before the approval of its charge arrived.\<close>

definition observe_approval_of_terminal_attempt ::
    "payment_env \<Rightarrow> PaymentAttempt \<Rightarrow> ApprovedProcessorEvidence \<Rightarrow> datetime option \<Rightarrow> GatewayPaymentDiagnostic list \<Rightarrow>
     payment_db \<Rightarrow> approval_result" where
  "observe_approval_of_terminal_attempt env attempt approved expired_end diagnostics p =
     (let evidence = approved_inner approved in
      and_then (observe env attempt evidence ExternalReversalRequired p) (\<lambda>(observation, p).
      and_then (case observation of
          Owned charge \<Rightarrow> charge_is_externally_reversed (record_id charge) p | OwnedByOtherAttempt \<Rightarrow> Ok False)
      (\<lambda>reversed.
        if reversed
        then map_sum id (\<lambda>payment. (with_observation_diagnostics diagnostics payment, None, p))
               (payment_result_for_attempt p attempt)
        else and_then (case observation of
               Owned charge \<Rightarrow> move_charge env (record_id charge) ExternalReversalRequired None p
             | OwnedByOtherAttempt \<Rightarrow> Ok p)
        (\<lambda>p. and_then (park_observed_approval_if_period_expired env attempt observation evidence expired_end p)
        (\<lambda>(_, p). map_sum id (\<lambda>payment. (with_observation_diagnostics diagnostics payment, None, p))
           (built (payment_result_confirmation_pending attempt approved)))))))"

text \<open>
  From the comparison of identities to the branch of the attempt's status.  \<open>replayed\<close> is the state of a charge
  that repeats an applied approval; a payment without a billing period has no parked expired approvals.
\<close>

definition settle_approval ::
    "payment_env \<Rightarrow> BillingTransactionSubjectState \<Rightarrow> PaymentAttempt \<Rightarrow> ProcessorEvidence \<Rightarrow> bool \<Rightarrow>
     ProcessorChargeProgression \<Rightarrow> rstring \<Rightarrow> (GatewayPaymentDiagnostic list \<Rightarrow> payment_db \<Rightarrow> approval_result) \<Rightarrow>
     (payment_db \<Rightarrow> approval_result) \<Rightarrow> payment_db \<Rightarrow> approval_result" where
  "settle_approval env subject_state attempt evidence has_period replayed retained_text terminal open_attempt p =
     and_then (stop_conflicting_subscription_approval env attempt evidence p) (\<lambda>(conflicting, diagnostics, p).
      case conflicting of
        Some payment \<Rightarrow> Ok (payment, None, p)
      | None \<Rightarrow>
          if PaymentAttempt_status attempt = PaymentAttemptStatus.Approved then
            and_then (load_applied_subscription p attempt) (\<lambda>loaded.
            and_then (ok_or loaded invalid_application) (\<lambda>subscription.
            and_then (observe env attempt evidence replayed p) (\<lambda>(_, p).
              map_sum id (\<lambda>result. (result, None, p)) (built (payment_result_applied attempt subscription)))))
          else if has_period \<and> is_parked_expired_period_approval attempt
          then observe_parked_expired_period_approval env attempt evidence p
          else if subject_state \<noteq> LiveRecipient
          then Err (SubscriptionEnrollmentApplicationError.InvalidState retained_text)
          else if PaymentAttemptStatus_is_terminal (PaymentAttempt_status attempt) then terminal diagnostics p
          else open_attempt p)"

text \<open>From the transition of the charge to the result, for an attempt that was marked approved.\<close>

definition finish_payment ::
    "payment_env \<Rightarrow> PaymentAttemptIdentity \<Rightarrow> SubscriptionId \<Rightarrow> ProcessorChargeId \<Rightarrow>
     (PaymentAttempt \<Rightarrow> (BillingEvent, SubscriptionEnrollmentApplicationError) result) \<Rightarrow> payment_db \<Rightarrow> approval_result" where
  "finish_payment env identity subscription_id charge event p =
     and_then (move_charge env charge ProcessorChargeProgression.Applied None p) (\<lambda>p.
     and_then (find_attempt p identity) (\<lambda>attempt.
     and_then (load_subscription p (identity_billing_scope_id identity) subscription_id) (\<lambda>loaded.
     and_then (ok_or loaded invalid_application) (\<lambda>subscription.
     and_then (event attempt) (\<lambda>ev.
       map_sum id (\<lambda>result. (result, Some ev, p)) (built (payment_result_applied attempt subscription)))))))"

text \<open>The event of a renewal and of a recovery.\<close>

definition renewed_event ::
    "PaymentAttemptIdentity \<Rightarrow> payment_terms \<Rightarrow> PaymentAttempt \<Rightarrow>
     (BillingEvent, SubscriptionEnrollmentApplicationError) result" where
  "renewed_event identity terms attempt =
     (case terms of (plan_key, period, expected) \<Rightarrow>
       map_sum (\<lambda>_. invalid_application)
         (\<lambda>paid. BillingEvent.SubscriptionRenewed (identity_attempt_id identity) (payment_state_subscription_id expected)
            plan_key paid period)
         (ChargeAmount_try_from (request_amount (attempt_request attempt))))"

section \<open>Approvals that could not be applied\<close>

definition try_park_approved_outcome ::
    "OutcomeReservation \<Rightarrow> ProcessorEvidence \<Rightarrow> datetime option \<Rightarrow> rstring \<Rightarrow> payment_env \<Rightarrow> payment_db \<Rightarrow>
     (SubscriptionEnrollmentPaymentResult \<times> payment_db, SubscriptionEnrollmentApplicationError) result" where
  "try_park_approved_outcome reservation evidence expired_end message env p =
     and_then (lock_expected_reservation_attempt p reservation) (\<lambda>attempt.
     and_then
        (if PaymentAttempt_status attempt = PaymentAttemptStatus.Approved
         then map_sum id (\<lambda>(_, p). (attempt, p)) (observe env attempt evidence ProcessorChargeProgression.Applied p)
         else if PaymentAttemptStatus_is_terminal (PaymentAttempt_status attempt) then
           (let progression = (if evidence_transaction_id evidence \<noteq> None \<and>
                  money_cents (request_amount (attempt_request attempt)) > 0
                then ExternalReversalRequired else ReconciliationRequired)
            in and_then (observe env attempt evidence progression p) (\<lambda>(observation, p).
                 map_sum id (\<lambda>(_, p). (attempt, p))
                   (park_observed_approval_if_period_expired env attempt observation evidence expired_end p)))
         else park_compensated_approved_attempt env attempt evidence message expired_end p)
      (\<lambda>(attempt, p). map_sum id (\<lambda>result. (result, p)) (payment_result_for_attempt p attempt)))"

definition observe_approved_evidence ::
    "OutcomeReservation \<Rightarrow> ProcessorEvidence \<Rightarrow> datetime option \<Rightarrow> payment_env \<Rightarrow> payment_db \<Rightarrow>
     (unit \<times> payment_db, SubscriptionEnrollmentApplicationError) result" where
  "observe_approved_evidence reservation evidence expired_end env p =
     and_then (lock_expected_reservation_attempt p reservation) (\<lambda>attempt.
     and_then (observe env attempt evidence ProcessorChargeProgression.Pending p) (\<lambda>(observation, p).
       map_sum id (\<lambda>(_, p). ((), p)) (park_observed_approval_if_period_expired env attempt observation evidence
         expired_end p)))"

definition read_pending_confirmation ::
    "bool \<Rightarrow> PaymentAttemptIdentity \<Rightarrow> ApprovedProcessorEvidence \<Rightarrow> payment_env \<Rightarrow> payment_db \<Rightarrow>
     (SubscriptionEnrollmentPaymentResult \<times> payment_db, SubscriptionEnrollmentApplicationError) result" where
  "read_pending_confirmation has_period identity approved env p =
     and_then (find_attempt p identity) (\<lambda>attempt.
       map_sum id (\<lambda>result. (result, p))
         (if PaymentAttempt_status attempt = PaymentAttemptStatus.Approved \<or>
             has_period \<and> is_parked_expired_period_approval attempt
          then payment_result_for_attempt p attempt
          else built (payment_result_confirmation_pending attempt approved)))"

definition APPROVED_APPLICATION_ATTEMPTS :: nat where
  "APPROVED_APPLICATION_ATTEMPTS = 3"

definition APPROVED_EVIDENCE_WRITE_ATTEMPTS :: nat where
  "APPROVED_EVIDENCE_WRITE_ATTEMPTS = 3"

text \<open>
  The transactions of a call are numbered: the tries to apply, the parking, the tries to keep the
  evidence, the last read, and the statements of the write that takes no lock.
\<close>

definition parking_transaction :: nat where
  "parking_transaction = APPROVED_APPLICATION_ATTEMPTS"

definition evidence_transactions :: "nat list" where
  "evidence_transactions = [parking_transaction + 1 ..< parking_transaction + 1 + APPROVED_EVIDENCE_WRITE_ATTEMPTS]"

definition reading_transaction :: nat where
  "reading_transaction = parking_transaction + 1 + APPROVED_EVIDENCE_WRITE_ATTEMPTS"

definition lock_free_statement :: nat where
  "lock_free_statement = reading_transaction + 1"

text \<open>The write of recoveries and replacements that takes no lock, when every locked write failed for a moment.\<close>

definition write_without_lock ::
    "payment_run \<Rightarrow> LockFreeApprovedEvidenceTerms \<Rightarrow> ProcessorEvidence \<Rightarrow> datetime option \<Rightarrow> payment_db \<Rightarrow>
     (unit, SubscriptionEnrollmentApplicationError) result \<times> payment_db" where
  "write_without_lock run terms evidence expired_end =
     transact run lock_free_statement (\<lambda>env p. map_sum id (Pair ())
       (persist_approved_evidence_without_attempt_lock (\<lambda>n. env_others (run_env run (lock_free_statement + n)))
         (env_clock env) (\<lambda>n. env_fresh_charge (run_env run (lock_free_statement + n))) terms evidence
         (case expired_end of
            Some end_at \<Rightarrow> if period_has_expired_at_database_time (env_txn env) end_at then ReverseExpiredPeriod else Reconcile
          | None \<Rightarrow> Reconcile) p))"

text \<open>\<open>last_resort\<close> is what follows when every try to keep the evidence failed for a moment.\<close>

definition observe_approved_evidence_with_retry ::
    "payment_run \<Rightarrow> (payment_env \<Rightarrow> payment_db \<Rightarrow> (unit \<times> payment_db, SubscriptionEnrollmentApplicationError) result) \<Rightarrow>
     (payment_db \<Rightarrow> (unit, SubscriptionEnrollmentApplicationError) result \<times> payment_db) \<Rightarrow> payment_db \<Rightarrow>
     (unit, SubscriptionEnrollmentApplicationError) result \<times> payment_db" where
  "observe_approved_evidence_with_retry run observing last_resort p =
     (case retry run observing is_retryable_evidence_error evidence_transactions p of
        (Some result, p) \<Rightarrow> (result, p)
      | (None, p) \<Rightarrow> last_resort p)"

definition park_approved_outcome ::
    "payment_run \<Rightarrow>
     (payment_env \<Rightarrow> payment_db \<Rightarrow> (SubscriptionEnrollmentPaymentResult \<times> payment_db, SubscriptionEnrollmentApplicationError) result) \<Rightarrow>
     (payment_db \<Rightarrow> (unit, SubscriptionEnrollmentApplicationError) result \<times> payment_db) \<Rightarrow>
     (payment_env \<Rightarrow> payment_db \<Rightarrow> (SubscriptionEnrollmentPaymentResult \<times> payment_db, SubscriptionEnrollmentApplicationError) result) \<Rightarrow>
     payment_db \<Rightarrow> (SubscriptionEnrollmentPaymentResult, SubscriptionEnrollmentApplicationError) result \<times> payment_db" where
  "park_approved_outcome run parking keeping reading p =
     (case transact run parking_transaction parking p of
        (Inr result, p) \<Rightarrow> (Ok result, p)
      | (Inl _, p) \<Rightarrow>
          (case keeping p of
             (Inl e, p) \<Rightarrow> (Err e, p)
           | (Inr _, p) \<Rightarrow> transact run reading_transaction reading p))"

text \<open>
  The loop over an approved outcome; an outcome that lacks an identity is parked at once.  A host that
  fails in one try only is a failure of that transaction.
\<close>

definition apply_approved_outcome ::
    "payment_run \<Rightarrow> bool \<Rightarrow>
     (payment_env \<Rightarrow> payment_db \<Rightarrow>
       ((SubscriptionEnrollmentPaymentResult \<times> BillingEvent list) \<times> payment_db, SubscriptionEnrollmentApplicationError) result) \<Rightarrow>
     (rstring \<Rightarrow> payment_db \<Rightarrow> (SubscriptionEnrollmentPaymentResult, SubscriptionEnrollmentApplicationError) result \<times> payment_db) \<Rightarrow>
     rstring \<Rightarrow> rstring \<Rightarrow> payment_db \<Rightarrow>
     (SubscriptionEnrollmentPaymentResult \<times> BillingEvent list, SubscriptionEnrollmentApplicationError) result \<times> payment_db" where
  "apply_approved_outcome run identified applying parking incomplete_text failure_text p =
     (let without_events = map_prod (map_sum id (\<lambda>result. (result, []))) id in
      if \<not> identified then without_events (parking incomplete_text p)
      else case retry run applying (\<lambda>_. True) [0..<APPROVED_APPLICATION_ATTEMPTS] p of
             (Some result, p) \<Rightarrow> (result, p)
           | (None, p) \<Rightarrow> without_events (parking failure_text p))"

section \<open>Outcomes that were not approved\<close>

definition resolve_reserved_outcome ::
    "payment_run \<Rightarrow> OutcomeReservation \<Rightarrow> ProcessorEvidence \<Rightarrow> OutcomeResolutionCommand \<Rightarrow> payment_db \<Rightarrow>
     (SubscriptionEnrollmentPaymentResult, SubscriptionEnrollmentApplicationError) result \<times> payment_db" where
  "resolve_reserved_outcome run reservation evidence resolution p =
     map_prod (map_sum id oa_payment) id
       (resolve_pool_outcome (env_clock (run_env run 0)) (run_between run 0) (run_env run 0) reservation evidence resolution p)"

text \<open>The decision of enrollments, recoveries and replacements; \<open>approve\<close> handles approved outcomes.\<close>

definition decide_outcome ::
    "payment_run \<Rightarrow> OutcomeReservation \<Rightarrow> GatewayPaymentOutcome \<Rightarrow>
     (ApprovedProcessorEvidence \<Rightarrow> payment_db \<Rightarrow>
       (SubscriptionEnrollmentPaymentResult \<times> BillingEvent list, SubscriptionEnrollmentApplicationError) result \<times> payment_db) \<Rightarrow>
     payment_db \<Rightarrow>
     (SubscriptionEnrollmentPaymentResult \<times> BillingEvent list, SubscriptionEnrollmentApplicationError) result \<times> payment_db" where
  "decide_outcome run reservation outcome approve p =
     (let resolve = (\<lambda>resolution. map_prod (map_sum id (\<lambda>result. (result, []))) id
            (resolve_reserved_outcome run reservation (outcome_evidence outcome) resolution p));
          settled = (\<lambda>status. OutcomeResolutionCommand_non_approved status None None Submitted)
      in case outcome_status outcome of
           GatewayPaymentStatus.Approved \<Rightarrow>
             (case approved_evidence outcome of
                None \<Rightarrow> (Err invalid_application, p)
              | Some approved \<Rightarrow> approve approved p)
         | GatewayPaymentStatus.Declined \<Rightarrow> resolve (settled AttemptResolutionStatus.Declined)
         | GatewayPaymentStatus.Failed \<Rightarrow> resolve (settled AttemptResolutionStatus.Failed)
         | GatewayPaymentStatus.Unknown \<Rightarrow> resolve (OutcomeResolutionCommand_unknown None))"

definition with_outcome_diagnostics ::
    "GatewayPaymentOutcome \<Rightarrow>
     (SubscriptionEnrollmentPaymentResult \<times> BillingEvent list, SubscriptionEnrollmentApplicationError) result \<times> payment_db \<Rightarrow>
     (SubscriptionEnrollmentPaymentResult \<times> BillingEvent list, SubscriptionEnrollmentApplicationError) result \<times> payment_db" where
  "with_outcome_diagnostics outcome =
     map_prod (map_sum id (map_prod
       (\<lambda>result. append_subscription_observation_diagnostics result (outcome_diagnostics outcome)) id)) id"

text \<open>
  The attempt and the provider key of an outcome that a later query reports; the texts say what was missing.
\<close>

definition reconciled_attempt ::
    "rstring \<Rightarrow> rstring \<Rightarrow> rstring \<Rightarrow> BillingScopeId \<Rightarrow> PaymentAttemptId \<Rightarrow> payment_db \<Rightarrow>
     (PaymentAttempt \<times> GatewayProviderKey, SubscriptionEnrollmentApplicationError) result" where
  "reconciled_attempt no_attempt no_account bad_provider billing_scope_id attempt_id p =
     and_then (ok_or (find_payment_attempt_by_id (pay_billing p) billing_scope_id attempt_id)
       (SubscriptionEnrollmentApplicationError.InvalidState no_attempt))
     (\<lambda>attempt. and_then (ok_or (find (\<lambda>row. garow_billing_scope_id row = BillingScopeId_as_uuid billing_scope_id \<and>
           garow_id row = GatewayAccountId_as_uuid (identity_gateway_account_id (attempt_identity attempt))) (pay_accounts p))
         (SubscriptionEnrollmentApplicationError.InvalidState no_account))
     (\<lambda>account. map_sum (\<lambda>_. SubscriptionEnrollmentApplicationError.InvalidState bad_provider) (Pair attempt)
       (GatewayProviderKey_new (garow_provider_key account))))"

end
