(* ===== verification/Enrollment_Application.thy ===== *)
theory Enrollment_Application
  imports Approvals
begin

text \<open>
  Applying the outcome of the first charge of an enrollment: \<open>enrollment_application/initial.rs\<close> and
  \<open>initial/approval.rs\<close>.  An approval stores the payment method, creates the subscription with the period, the charge
  and the phase of the accepted terms, applies the discount and its claim, and reports that the subscription
  started.  The accepted terms are those of the locked attempt; a current subscription or an active grant of
  the subscriber stops it.
\<close>

section \<open>The accepted terms\<close>

definition CURRENT_SUBSCRIPTION_CONFLICT_TEXT :: rstring where
  "CURRENT_SUBSCRIPTION_CONFLICT_TEXT = lit ''Approved subscription enrollment conflicts with a current subscription.''"

definition CURRENT_GRANT_CONFLICT_TEXT :: rstring where
  "CURRENT_GRANT_CONFLICT_TEXT = lit ''Approved subscription enrollment conflicts with an active subscription grant.''"

definition INCOMPLETE_APPROVAL_TEXT :: rstring where
  "INCOMPLETE_APPROVAL_TEXT = lit ''Approved subscription enrollment is missing required processor identity.''"

definition APPROVED_STORAGE_FAILURE_TEXT :: rstring where
  "APPROVED_STORAGE_FAILURE_TEXT =
     lit ''Approved subscription enrollment could not be applied; manual review is required.''"

definition TERMINAL_APPROVAL_RACE_TEXT :: rstring where
  "TERMINAL_APPROVAL_RACE_TEXT =
     lit ''Approved processor evidence arrived after the enrollment attempt became terminal.''"

text \<open>The activation of the terms of the attempt, and the period it buys from the time of submission.\<close>

definition initial_activation ::
    "chrono \<Rightarrow> SubscriptionEnrollmentReservation \<Rightarrow> PaymentAttempt \<Rightarrow>
     (SubscriptionActivationProjection \<times> BillingPeriod, SubscriptionEnrollmentApplicationError) result" where
  "initial_activation ch r attempt =
     and_then (map_err (\<lambda>_. invalid_application) (enrollment_from_attempt attempt (enrollment_provider_key r))) (\<lambda>durable.
       let activation = activation_projection (enrollment_expected_terms durable)
       in map_sum (\<lambda>_. invalid_application) (Pair activation)
            (next_billing_period ch (submitted_or_created_at (state_timestamps (attempt_state attempt)))
              (activation_initial_period_rule activation)))"

definition initial_period_end ::
    "chrono \<Rightarrow> SubscriptionEnrollmentReservation \<Rightarrow> PaymentAttempt \<Rightarrow> (datetime, SubscriptionEnrollmentApplicationError) result" where
  "initial_period_end ch r attempt = map_sum id (\<lambda>(_, period). period_end_at period) (initial_activation ch r attempt)"

definition initial_expired_end ::
    "chrono \<Rightarrow> SubscriptionEnrollmentReservation \<Rightarrow> SubscriptionPeriodExpiryPolicy \<Rightarrow> PaymentAttempt \<Rightarrow>
     (datetime option, SubscriptionEnrollmentApplicationError) result" where
  "initial_expired_end ch r policy attempt =
     (if rejects_expired_periods policy then map_sum id Some (initial_period_end ch r attempt) else Ok None)"

section \<open>Statements\<close>

definition owned_by ::
    "PaymentAttemptIdentity \<Rightarrow> PlanKey \<Rightarrow> Uuid \<Rightarrow> Uuid \<Rightarrow> rstring \<Rightarrow> bool" where
  "owned_by identity plan_key scope subscriber plan \<longleftrightarrow>
     scope = BillingScopeId_as_uuid (identity_billing_scope_id identity) \<and>
     subscriber = SubscriberId_as_uuid (identity_subscriber_id identity) \<and> plan = PlanKey_as_str plan_key"

abbreviation enrollment_plan_key :: "SubscriptionEnrollmentReservation \<Rightarrow> PlanKey" where
  "enrollment_plan_key r \<equiv> expected_plan_key (enrollment_expected_terms r)"

definition current_subscription_exists :: "payment_env \<Rightarrow> SubscriptionEnrollmentReservation \<Rightarrow> payment_db \<Rightarrow> bool" where
  "current_subscription_exists env r p =
     list_ex (\<lambda>row. owned_by (enrollment_identity r) (enrollment_plan_key r) (row_billing_scope_id row)
         (row_subscriber_id row) (row_plan_key row) \<and>
       (row_status row \<in> {lit ''active'', lit ''past_due''} \<or>
        row_status row = lit ''canceled'' \<and> row_current_period_end_at row > env_clock env))
     (db_subscriptions (pay_billing p))"

definition active_grant_exists :: "payment_env \<Rightarrow> SubscriptionEnrollmentReservation \<Rightarrow> payment_db \<Rightarrow> bool" where
  "active_grant_exists env r p =
     list_ex (\<lambda>row. owned_by (enrollment_identity r) (enrollment_plan_key r) (grow_billing_scope_id row)
         (grow_subscriber_id row) (grow_plan_key row) \<and>
       grow_revoked_at row = None \<and> grow_starts_at row \<le> env_clock env \<and> grow_ends_at row > env_clock env)
     (db_grants (pay_billing p))"

text \<open>The columns of the trial are written and never read.\<close>

definition started_row ::
    "payment_env \<Rightarrow> PaymentAttempt \<Rightarrow> SubscriptionOffer \<Rightarrow> PaymentMethodId \<Rightarrow> SubscriptionActivationProjection \<Rightarrow>
     BillingPeriod \<Rightarrow> GatewayTransactionId \<Rightarrow> subscription_row" where
  "started_row env attempt offer method_id activation period transaction_id =
     (let identity = attempt_identity attempt in
      \<lparr>row_id = SubscriptionId_as_uuid (env_fresh_subscription env), row_plan_key = PlanKey_as_str (offer_plan_key offer),
       row_status = lit ''active'',
       row_required_gateway_account_mode = GatewayAccountMode_as_str (identity_required_gateway_account_mode identity),
       row_payment_method_id = PaymentMethodId_as_uuid method_id,
       row_amount_cents = ChargeAmount_cents (activation_recurring_charge_after_initial activation),
       row_currency = CurrencyCode_text (money_currency (request_amount (attempt_request attempt))),
       row_current_period_start_at = period_start_at period, row_current_period_end_at = period_end_at period,
       row_next_renewal_at = period_end_at period, row_phase = SubscriptionPhase_as_str (activation_phase activation),
       row_recurring_period_kind = SubscriptionPeriodRule_as_str (recurring_period (offer_recurring offer)),
       row_recurring_period_count = uint (SubscriptionPeriodRule_count (recurring_period (offer_recurring offer))),
       row_dunning_retry_delays_seconds =
         map (\<lambda>d. uint (delay_seconds d)) (retry_delays (policy_schedule (offer_renewal_failure offer))),
       row_dunning_exhaustion = DunningExhaustion_as_str (policy_exhaustion (offer_renewal_failure offer)),
       row_past_due_access = PastDueAccessPolicy_as_str (policy_past_due_access (offer_renewal_failure offer)),
       row_next_payment_attempt_at = Some (period_end_at period),
       row_billing_scope_id = BillingScopeId_as_uuid (identity_billing_scope_id identity),
       row_subscriber_id = SubscriberId_as_uuid (identity_subscriber_id identity),
       row_gateway_account_id = GatewayAccountId_as_uuid (identity_gateway_account_id identity),
       row_initial_transaction_id = GatewayTransactionId_expose transaction_id, row_unpaid_at = None,
       row_canceled_at = None, row_created_at = txn_now (env_txn env), row_updated_at = txn_now (env_txn env)\<rparr>)"

definition insert_subscription ::
    "subscription_row \<Rightarrow> payment_db \<Rightarrow> (payment_db, SubscriptionEnrollmentApplicationError) result" where
  "insert_subscription row p =
     (let db = pay_billing p in
      if list_ex (subscription_clash row) (db_subscriptions db)
      then Err (SubscriptionEnrollmentApplicationError.Sql (Some (lit ''23505'')))
      else Ok (with_billing (db\<lparr>db_subscriptions := db_subscriptions db @ [row]\<rparr>) p))"

text \<open>The code and the times of a discount are written and never read.\<close>

definition started_discount ::
    "PaymentAttempt \<Rightarrow> SubscriptionId \<Rightarrow> PlanKey \<Rightarrow> SubscriptionEnrollmentDiscountSnapshot \<Rightarrow> u8 \<Rightarrow> discount_row" where
  "started_discount attempt subscription_id plan_key discount discount_periods_applied =
     (let snapshot = enrolled_snapshot discount; periods_applied = int (unat discount_periods_applied);
          months = (case snapshot_duration snapshot of
              Indefinite \<Rightarrow> None | LimitedMonths months \<Rightarrow> Some (int (unat (LimitedDiscountMonths_get months))))
      in \<lparr>disc_code = SubscriptionDiscountCode_as_str (snapshot_code snapshot), disc_label = snapshot_label snapshot,
          disc_kind = SubscriptionDiscountKind_as_str (snapshot_kind snapshot),
          disc_amount_off_cents = (case snapshot_kind snapshot of
              AmountOffCents v \<Rightarrow> Some (PositiveDiscountCents_get v) | PercentOffBps _ \<Rightarrow> None),
          disc_percent_off_bps = (case snapshot_kind snapshot of
              AmountOffCents _ \<Rightarrow> None | PercentOffBps v \<Rightarrow> Some (int (unat (PercentOffBasisPoints_get v)))),
          disc_currency = CurrencyCode_text (snapshot_currency snapshot),
          disc_duration = SubscriptionDiscountDuration_as_str (snapshot_duration snapshot),
          disc_duration_months = months,
          disc_base_amount_cents = ChargeAmount_cents (snapshot_base_charge snapshot),
          disc_discounted_amount_cents = ChargeAmount_cents (snapshot_discounted_charge snapshot),
          drow_subscription_id = SubscriptionId_as_uuid subscription_id,
          drow_billing_scope_id = BillingScopeId_as_uuid (identity_billing_scope_id (attempt_identity attempt)),
          drow_subscriber_id = SubscriberId_as_uuid (identity_subscriber_id (attempt_identity attempt)),
          drow_plan_key = PlanKey_as_str plan_key, drow_claim_id = Some (DiscountClaimId_as_uuid (enrolled_claim_id discount)),
          drow_status = (if months = Some periods_applied then lit ''completed'' else lit ''active''),
          drow_periods_total = months, drow_periods_applied = periods_applied\<rparr>)"

text \<open>
  A saved or expired claim becomes applied; a check of the table already says that such a claim has no subscription
  and no attempt.
\<close>

definition apply_initial_discount ::
    "PaymentAttempt \<Rightarrow> SubscriptionId \<Rightarrow> u8 \<Rightarrow> payment_db \<Rightarrow> (payment_db, SubscriptionEnrollmentApplicationError) result" where
  "apply_initial_discount attempt subscription_id discount_periods_applied p =
     (case request_target (attempt_request attempt) of
        SubscriptionInitial _ offer (Some discount) _ \<Rightarrow>
          (let db = pay_billing p;
               row = started_discount attempt subscription_id (offer_plan_key offer) discount discount_periods_applied;
               claimed = (\<lambda>claim. clrow_id claim = DiscountClaimId_as_uuid (enrolled_claim_id discount) \<and>
                 owned_by (attempt_identity attempt) (offer_plan_key offer) (clrow_billing_scope_id claim)
                   (clrow_subscriber_id claim) (clrow_plan_key claim) \<and>
                 clrow_status claim \<in> {lit ''saved'', lit ''expired''})
           in if list_ex (\<lambda>d. drow_subscription_id d = drow_subscription_id row) (db_discounts db)
              then Err (SubscriptionEnrollmentApplicationError.Sql (Some (lit ''23505'')))
              else if length (filter claimed (db_claims db)) \<noteq> 1 then Err invalid_application
              else Ok (with_billing (db\<lparr>db_discounts := db_discounts db @ [row],
                db_claims := map (\<lambda>claim. if claimed claim then claim\<lparr>clrow_status := lit ''applied''\<rparr> else claim)
                  (db_claims db)\<rparr>) p))
      | _ \<Rightarrow> Ok p)"

section \<open>Approved enrollments\<close>

text \<open>The event of a started subscription.\<close>

definition started_event ::
    "PaymentAttemptIdentity \<Rightarrow> SubscriptionId \<Rightarrow> PlanKey \<Rightarrow> BillingPeriod \<Rightarrow> SubscriptionPhase \<Rightarrow> PaymentAttempt \<Rightarrow>
     (BillingEvent, SubscriptionEnrollmentApplicationError) result" where
  "started_event identity subscription_id plan_key period phase attempt =
     map_sum (\<lambda>_. invalid_application)
       (\<lambda>paid. BillingEvent.SubscriptionStarted (identity_attempt_id identity) subscription_id plan_key paid period phase)
       (ChargeAmount_new (money_cents (request_amount (attempt_request attempt)))
         (money_currency (request_amount (attempt_request attempt))))"

text \<open>From the payment method to the discount; the offer is the one of an attempt that was found valid.\<close>

definition start_subscription ::
    "payment_env \<Rightarrow> PaymentAttempt \<Rightarrow> ProcessorEvidence \<Rightarrow> SubscriptionActivationProjection \<Rightarrow> BillingPeriod \<Rightarrow> payment_db \<Rightarrow>
     (PaymentMethodId \<times> payment_db, SubscriptionEnrollmentApplicationError) result" where
  "start_subscription env attempt evidence activation period p =
     and_then (ok_or (evidence_transaction_id evidence) invalid_application) (\<lambda>transaction_id.
     and_then (upsert_payment_method env attempt evidence p) (\<lambda>(method_id, p).
     and_then (ok_or (target_enrollment_offer (request_target (attempt_request attempt))) invalid_application) (\<lambda>offer.
     and_then (insert_subscription (started_row env attempt offer method_id activation period transaction_id) p) (\<lambda>p.
     map_sum id (Pair method_id) (apply_initial_discount attempt (env_fresh_subscription env)
       (activation_discount_periods_applied activation) p)))))"

definition apply_enrollment_to_open_attempt ::
    "chrono \<Rightarrow> payment_env \<Rightarrow> SubscriptionEnrollmentReservation \<Rightarrow> PaymentAttempt \<Rightarrow> ProcessorEvidence \<Rightarrow>
     SubscriptionPeriodExpiryPolicy \<Rightarrow> payment_db \<Rightarrow> approval_result" where
  "apply_enrollment_to_open_attempt ch env r attempt evidence policy =
     with_primary_charge env attempt evidence ExternalReversalRequired ADDITIONAL_CHARGE_TEXT (\<lambda>charge p.
       and_then (initial_activation ch r attempt) (\<lambda>(activation, period).
         if rejects_expired_periods policy \<and> evidence_transaction_id evidence \<noteq> None \<and>
            period_has_expired_at_database_time (env_txn env) (period_end_at period)
         then park_expired_period_approval env attempt charge evidence p
         else if current_subscription_exists env r p
         then park_stale_approval env attempt evidence charge ExternalReversalRequired
           SubscriptionInitialCurrentSubscriptionConflict CURRENT_SUBSCRIPTION_CONFLICT_TEXT p
         else if active_grant_exists env r p
         then park_stale_approval env attempt evidence charge ExternalReversalRequired
           SubscriptionInitialCurrentGrantConflict CURRENT_GRANT_CONFLICT_TEXT p
         else and_then (start_subscription env attempt evidence activation period p) (\<lambda>(method_id, p).
              and_then (mark_attempt_approved env attempt evidence (env_fresh_subscription env) method_id p)
                (finish_payment env (enrollment_identity r) (env_fresh_subscription env) charge
                  (started_event (enrollment_identity r) (env_fresh_subscription env) (enrollment_plan_key r) period
                    (activation_phase activation))))))"

text \<open>An approval of an attempt that was resolved otherwise before it arrived.\<close>

definition observe_enrollment_of_terminal_attempt ::
    "chrono \<Rightarrow> payment_env \<Rightarrow> SubscriptionEnrollmentReservation \<Rightarrow> PaymentAttempt \<Rightarrow> ProcessorEvidence \<Rightarrow>
     SubscriptionPeriodExpiryPolicy \<Rightarrow> GatewayPaymentDiagnostic list \<Rightarrow> payment_db \<Rightarrow> approval_result" where
  "observe_enrollment_of_terminal_attempt ch env r attempt evidence policy diagnostics p =
     and_then (observe env attempt evidence ExternalReversalRequired p) (\<lambda>(observation, p).
     and_then (case observation of
         Owned charge \<Rightarrow> charge_is_externally_reversed (record_id charge) p | OwnedByOtherAttempt \<Rightarrow> Ok False) (\<lambda>reversed.
       if reversed
       then map_sum id (\<lambda>payment. (with_observation_diagnostics diagnostics payment, None, p))
              (payment_result_for_attempt p attempt)
       else and_then (case observation of
           Owned charge \<Rightarrow>
             if rejects_expired_periods policy \<and> evidence_transaction_id evidence \<noteq> None \<and> record_role charge = Primary
             then map_sum id (\<lambda>end_at. if period_has_expired_at_database_time (env_txn env) end_at
                    then Some (record_id charge) else None) (initial_period_end ch r attempt)
             else Ok None
         | OwnedByOtherAttempt \<Rightarrow> Ok None) (\<lambda>expired.
       case expired of
         Some charge \<Rightarrow>
           map_sum id (\<lambda>(payment, event, p). (with_observation_diagnostics diagnostics payment, event, p))
             (park_expired_period_approval env attempt charge evidence p)
       | None \<Rightarrow>
           and_then (park_locked_attempt env attempt evidence None TERMINAL_APPROVAL_RACE_TEXT p) (\<lambda>(parked, p).
           and_then (case observation of
               Owned charge \<Rightarrow> move_charge env (record_id charge) ExternalReversalRequired None p
             | OwnedByOtherAttempt \<Rightarrow> Ok p) (\<lambda>p.
             map_sum id (\<lambda>payment. (with_observation_diagnostics diagnostics payment, None, p))
               (built (payment_result_not_applied parked)))))))"

definition apply_enrollment_approved_on_connection ::
    "chrono \<Rightarrow> payment_env \<Rightarrow> BillingTransactionSubjectState \<Rightarrow> SubscriptionEnrollmentReservation \<Rightarrow> ProcessorEvidence \<Rightarrow>
     SubscriptionPeriodExpiryPolicy \<Rightarrow> payment_db \<Rightarrow> approval_result" where
  "apply_enrollment_approved_on_connection ch env subject_state r evidence policy p =
     and_then (lock_expected_reservation_attempt p (OutcomeReservation.Initial r)) (\<lambda>attempt.
       settle_approval env subject_state attempt evidence True ProcessorChargeProgression.Applied
         (lit ''a new subscription enrollment event requires a live recipient'')
         (observe_enrollment_of_terminal_attempt ch env r attempt evidence policy)
         (apply_enrollment_to_open_attempt ch env r attempt evidence policy) p)"

definition apply_enrollment_approved_outcome ::
    "chrono \<Rightarrow> billing_host \<Rightarrow> SubscriptionEnrollmentReservation \<Rightarrow> ProcessorEvidence \<Rightarrow> payment_env \<Rightarrow> payment_db \<Rightarrow>
     ((SubscriptionEnrollmentPaymentResult \<times> BillingEvent list) \<times> payment_db, SubscriptionEnrollmentApplicationError) result" where
  "apply_enrollment_approved_outcome ch host r evidence env p =
     in_host_transaction host
       (apply_enrollment_approved_on_connection ch env (host_subject_state host) r evidence (host_expiry_policy host) p)"

section \<open>Approved enrollments that could not be applied\<close>

text \<open>The charge of a late approval whose period ended, if it has to be reversed for that.\<close>

definition late_charge ::
    "chrono \<Rightarrow> payment_env \<Rightarrow> SubscriptionEnrollmentReservation \<Rightarrow> SubscriptionPeriodExpiryPolicy \<Rightarrow> PaymentAttempt \<Rightarrow>
     ProcessorChargeProgression \<Rightarrow> ObservedCharge \<Rightarrow> payment_db \<Rightarrow>
     (ProcessorChargeId option, SubscriptionEnrollmentApplicationError) result" where
  "late_charge ch env r policy attempt progression observation p =
     (case observation of
        Owned charge \<Rightarrow>
          if progression = ExternalReversalRequired \<and> rejects_expired_periods policy \<and> record_role charge = Primary
          then and_then (charge_is_externally_reversed (record_id charge) p) (\<lambda>reversed.
            if reversed then Ok None
            else map_sum id (\<lambda>end_at. if period_has_expired_at_database_time (env_txn env) end_at
                   then Some (record_id charge) else None) (initial_period_end ch r attempt))
          else Ok None
      | OwnedByOtherAttempt \<Rightarrow> Ok None)"

definition try_park_enrollment_approved_outcome ::
    "chrono \<Rightarrow> SubscriptionEnrollmentReservation \<Rightarrow> ProcessorEvidence \<Rightarrow> SubscriptionPeriodExpiryPolicy \<Rightarrow> rstring \<Rightarrow> payment_env \<Rightarrow>
     payment_db \<Rightarrow> (SubscriptionEnrollmentPaymentResult \<times> payment_db, SubscriptionEnrollmentApplicationError) result" where
  "try_park_enrollment_approved_outcome ch r evidence policy message env p =
     and_then (lock_expected_reservation_attempt p (OutcomeReservation.Initial r)) (\<lambda>attempt.
     and_then
        (if PaymentAttempt_status attempt = PaymentAttemptStatus.Approved
         then map_sum id (\<lambda>(_, p). (attempt, p)) (observe env attempt evidence ProcessorChargeProgression.Applied p)
         else if PaymentAttemptStatus_is_terminal (PaymentAttempt_status attempt) then
           (let progression = (if evidence_transaction_id evidence \<noteq> None \<and>
                  money_cents (request_amount (attempt_request attempt)) > 0
                then ExternalReversalRequired else ReconciliationRequired)
            in and_then (observe env attempt evidence progression p) (\<lambda>(observation, p).
               and_then (late_charge ch env r policy attempt progression observation p) (\<lambda>expired.
               case expired of
                 Some charge \<Rightarrow> map_sum id (\<lambda>(payment, _, p). (result_attempt payment, p))
                   (park_expired_period_approval env attempt charge evidence p)
               | None \<Rightarrow> Ok (attempt, p))))
         else and_then (initial_expired_end ch r policy attempt) (\<lambda>expired_end.
           park_compensated_approved_attempt env attempt evidence message expired_end p))
      (\<lambda>(attempt, p). map_sum id (\<lambda>result. (result, p)) (payment_result_for_attempt p attempt)))"

definition observe_enrollment_approved_evidence ::
    "chrono \<Rightarrow> SubscriptionEnrollmentReservation \<Rightarrow> ProcessorEvidence \<Rightarrow> SubscriptionPeriodExpiryPolicy \<Rightarrow> payment_env \<Rightarrow>
     payment_db \<Rightarrow> (unit \<times> payment_db, SubscriptionEnrollmentApplicationError) result" where
  "observe_enrollment_approved_evidence ch r evidence policy env p =
     and_then (lock_expected_reservation_attempt p (OutcomeReservation.Initial r)) (\<lambda>attempt.
     and_then (observe env attempt evidence ProcessorChargeProgression.Pending p) (\<lambda>(observation, p).
     and_then (initial_expired_end ch r policy attempt) (\<lambda>expired_end.
       map_sum id (\<lambda>(_, p). ((), p)) (park_observed_approval_if_period_expired env attempt observation evidence
         expired_end p))))"

definition lock_free_terms_initial :: "SubscriptionEnrollmentReservation \<Rightarrow> LockFreeApprovedEvidenceTerms" where
  "lock_free_terms_initial r =
     \<lparr>lock_free_identity = enrollment_identity r, lock_free_attempt_kind = PaymentAttemptKind.SubscriptionInitial,
      lock_free_plan_key = enrollment_plan_key r, lock_free_gateway_order_id = enrollment_gateway_order_id r,
      lock_free_amount = ChargeAmount_money (expected_initial_charge (enrollment_expected_terms r)),
      lock_free_host_charge_target_id = None\<rparr>"

text \<open>The attempt is read without a lock, for the end of the period only.\<close>

definition write_enrollment_without_lock ::
    "chrono \<Rightarrow> payment_run \<Rightarrow> SubscriptionEnrollmentReservation \<Rightarrow> ProcessorEvidence \<Rightarrow> SubscriptionPeriodExpiryPolicy \<Rightarrow>
     payment_db \<Rightarrow> (unit, SubscriptionEnrollmentApplicationError) result \<times> payment_db" where
  "write_enrollment_without_lock ch run r evidence policy =
     transact run lock_free_statement (\<lambda>env p.
       and_then (if rejects_expired_periods policy
         then (case find_payment_attempt_by_id (pay_billing p) (identity_billing_scope_id (enrollment_identity r))
             (identity_attempt_id (enrollment_identity r)) of
           Some attempt \<Rightarrow> map_sum id (period_has_expired_at_database_time (env_txn env)) (initial_period_end ch r attempt)
         | None \<Rightarrow> Ok False)
         else Ok False) (\<lambda>expired.
       map_sum id (Pair ())
         (persist_approved_evidence_without_attempt_lock (\<lambda>n. env_others (run_env run (lock_free_statement + n)))
           (env_clock env) (\<lambda>n. env_fresh_charge (run_env run (lock_free_statement + n))) (lock_free_terms_initial r) evidence
           (if expired then ReverseExpiredPeriod else Reconcile) p)))"

definition park_enrollment_approved_outcome ::
    "chrono \<Rightarrow> payment_run \<Rightarrow> SubscriptionEnrollmentReservation \<Rightarrow> ApprovedProcessorEvidence \<Rightarrow>
     SubscriptionPeriodExpiryPolicy \<Rightarrow> rstring \<Rightarrow> payment_db \<Rightarrow>
     (SubscriptionEnrollmentPaymentResult, SubscriptionEnrollmentApplicationError) result \<times> payment_db" where
  "park_enrollment_approved_outcome ch run r approved policy message =
     park_approved_outcome run (try_park_enrollment_approved_outcome ch r (approved_inner approved) policy message)
       (observe_approved_evidence_with_retry run
         (observe_enrollment_approved_evidence ch r (approved_inner approved) policy)
         (write_enrollment_without_lock ch run r (approved_inner approved) policy))
       (read_pending_confirmation True (enrollment_identity r) approved)"

definition apply_approved_enrollment ::
    "chrono \<Rightarrow> payment_run \<Rightarrow> billing_host \<Rightarrow> SubscriptionEnrollmentReservation \<Rightarrow> ApprovedProcessorEvidence \<Rightarrow> payment_db \<Rightarrow>
     (SubscriptionEnrollmentPaymentResult \<times> BillingEvent list, SubscriptionEnrollmentApplicationError) result \<times> payment_db" where
  "apply_approved_enrollment ch run host r approved =
     apply_approved_outcome run
       (evidence_transaction_id (approved_inner approved) \<noteq> None \<and>
        evidence_payment_method_reference (approved_inner approved) \<noteq> None)
       (apply_enrollment_approved_outcome ch host r (approved_inner approved))
       (park_enrollment_approved_outcome ch run r approved (host_expiry_policy host))
       INCOMPLETE_APPROVAL_TEXT APPROVED_STORAGE_FAILURE_TEXT"

section \<open>Outcomes of an enrollment\<close>

definition apply_subscription_enrollment_gateway_outcome ::
    "chrono \<Rightarrow> payment_run \<Rightarrow> billing_host \<Rightarrow> SubscriptionEnrollmentReservation \<Rightarrow> GatewayPaymentOutcome \<Rightarrow> payment_db \<Rightarrow>
     (SubscriptionEnrollmentPaymentResult \<times> BillingEvent list, SubscriptionEnrollmentApplicationError) result \<times> payment_db" where
  "apply_subscription_enrollment_gateway_outcome ch run host r outcome p =
     with_outcome_diagnostics outcome
       (decide_outcome run (OutcomeReservation.Initial r) outcome (apply_approved_enrollment ch run host r) p)"

definition reconciled_enrollment_reservation ::
    "BillingScopeId \<Rightarrow> PaymentAttemptId \<Rightarrow> payment_db \<Rightarrow>
     (SubscriptionEnrollmentReservation, SubscriptionEnrollmentApplicationError) result" where
  "reconciled_enrollment_reservation billing_scope_id attempt_id p =
     and_then (reconciled_attempt (lit ''subscription enrollment attempt was not found'')
         (lit ''subscription enrollment gateway account was not found'')
         (lit ''subscription enrollment gateway provider key is invalid'') billing_scope_id attempt_id p)
     (\<lambda>(attempt, provider_key). map_err (\<lambda>_. SubscriptionEnrollmentApplicationError.InvalidState
           (lit ''reconciled attempt is not a valid subscription enrollment'')) (enrollment_from_attempt attempt provider_key))"

definition apply_reconciled_subscription_enrollment_gateway_outcome ::
    "chrono \<Rightarrow> payment_run \<Rightarrow> billing_host \<Rightarrow> BillingScopeId \<Rightarrow> PaymentAttemptId \<Rightarrow> GatewayPaymentOutcome \<Rightarrow> payment_db \<Rightarrow>
     (SubscriptionEnrollmentPaymentResult \<times> BillingEvent list, SubscriptionEnrollmentApplicationError) result \<times> payment_db" where
  "apply_reconciled_subscription_enrollment_gateway_outcome ch run host billing_scope_id attempt_id outcome p =
     (case reconciled_enrollment_reservation billing_scope_id attempt_id p of
        Inl e \<Rightarrow> (Err e, p)
      | Inr r \<Rightarrow> apply_subscription_enrollment_gateway_outcome ch run host r outcome p)"

end
