(* ===== verification/Recovery_Application.thy ===== *)
theory Recovery_Application
  imports Approvals
begin

text \<open>
  Applying the outcome of a recovery, the payment of an overdue period with a new card:
  \<open>enrollment_application/recovery.rs\<close> and \<open>recovery/evidence.rs\<close>.  An approval stores the payment method, moves the
  subscription to the paid period and to the method and transaction of the recovery, and disables the old
  method when nothing refers to it any more.
\<close>

section \<open>Approved recoveries\<close>

definition RECOVERY_STALE_STATE_TEXT :: rstring where
  "RECOVERY_STALE_STATE_TEXT =
     lit ''Approved subscription recovery could not update billing state because the subscription changed.''"

definition RECOVERY_INCOMPLETE_APPROVAL_TEXT :: rstring where
  "RECOVERY_INCOMPLETE_APPROVAL_TEXT =
     lit ''Approved subscription recovery is missing required processor identity.''"

definition RECOVERY_APPROVED_STORAGE_FAILURE_TEXT :: rstring where
  "RECOVERY_APPROVED_STORAGE_FAILURE_TEXT =
     lit ''Approved subscription recovery could not be applied; manual review is required.''"

text \<open>\<open>UPDATE billing_subscriptions ... WHERE\<close> of an applied recovery.\<close>

definition recovered_row :: "SubscriptionRecoveryReservation \<Rightarrow> payment_terms \<Rightarrow> subscription_row \<Rightarrow> bool" where
  "recovered_row r terms row \<longleftrightarrow>
     (case terms of (plan_key, period, expected) \<Rightarrow>
       reserved_row (reserved_identity r) plan_key (payment_state_subscription_id expected) row \<and>
       row_status row = SubscriptionStatus_as_str (payment_state_status expected) \<and>
       row_status row \<in> {lit ''active'', lit ''past_due''} \<and>
       row_payment_method_id row = PaymentMethodId_as_uuid (payment_state_payment_method_id expected) \<and>
       row_initial_transaction_id row = GatewayTransactionId_expose (payment_state_initial_transaction_id expected) \<and>
       row_next_renewal_at row = period_start_at period)"

definition recover_row ::
    "datetime \<Rightarrow> BillingPeriod \<Rightarrow> PaymentMethodId \<Rightarrow> GatewayTransactionId \<Rightarrow> subscription_row \<Rightarrow> subscription_row" where
  "recover_row clock period method_id transaction_id row =
     row\<lparr>row_status := lit ''active'', row_phase := lit ''recurring'',
         row_payment_method_id := PaymentMethodId_as_uuid method_id,
         row_current_period_start_at := period_start_at period, row_current_period_end_at := period_end_at period,
         row_next_renewal_at := period_end_at period, row_next_payment_attempt_at := Some (period_end_at period),
         row_initial_transaction_id := GatewayTransactionId_expose transaction_id, row_updated_at := clock\<rparr>"

definition advance_recovered_subscription ::
    "payment_env \<Rightarrow> SubscriptionRecoveryReservation \<Rightarrow> payment_terms \<Rightarrow> PaymentAttempt \<Rightarrow> ProcessorEvidence \<Rightarrow> payment_db \<Rightarrow>
     (PaymentMethodId \<times> payment_db, SubscriptionEnrollmentApplicationError) result" where
  "advance_recovered_subscription env r terms attempt evidence p =
     (case terms of (plan_key, period, expected) \<Rightarrow>
       and_then (ok_or (evidence_transaction_id evidence) invalid_application) (\<lambda>transaction_id.
       and_then (upsert_payment_method env attempt evidence p) (\<lambda>(method_id, p).
       and_then (update_one_subscription (recovered_row r terms)
           (recover_row (env_clock env) period method_id transaction_id) p) (\<lambda>p.
       map_sum id (\<lambda>p. (method_id, disable_payment_method_if_unreferenced (payment_state_payment_method_id expected) p))
         (advance_discount env (payment_state_subscription_id expected) plan_key p)))))"

text \<open>From the observation of the charge, for an attempt that is still open.\<close>

definition apply_recovery_to_open_attempt ::
    "payment_env \<Rightarrow> SubscriptionRecoveryReservation \<Rightarrow> payment_terms \<Rightarrow> PaymentAttempt \<Rightarrow> ProcessorEvidence \<Rightarrow>
     SubscriptionPeriodExpiryPolicy \<Rightarrow> payment_db \<Rightarrow> approval_result" where
  "apply_recovery_to_open_attempt env r terms attempt evidence policy =
     with_primary_charge env attempt evidence ExternalReversalRequired ADDITIONAL_CHARGE_TEXT (\<lambda>charge p.
       if \<not> recovery_subscription_matches p r terms
       then park_stale_approval env attempt evidence charge ExternalReversalRequired SubscriptionApprovedRecoveryStaleState
         RECOVERY_STALE_STATE_TEXT p
       else if rejects_expired_periods policy \<and>
         period_has_expired_at_database_time (env_txn env) (period_end_at (fst (snd terms)))
       then park_expired_period_approval env attempt charge evidence p
       else and_then (advance_recovered_subscription env r terms attempt evidence p) (\<lambda>(method_id, p).
            and_then (mark_attempt_approved env attempt evidence (payment_state_subscription_id (snd (snd terms))) method_id p)
              (finish_payment env (reserved_identity r) (payment_state_subscription_id (snd (snd terms))) charge
                (renewed_event (reserved_identity r) terms))))"

definition apply_recovery_approved_on_connection ::
    "payment_env \<Rightarrow> BillingTransactionSubjectState \<Rightarrow> SubscriptionRecoveryReservation \<Rightarrow> payment_terms \<Rightarrow>
     ApprovedProcessorEvidence \<Rightarrow> SubscriptionPeriodExpiryPolicy \<Rightarrow> payment_db \<Rightarrow> approval_result" where
  "apply_recovery_approved_on_connection env subject_state r terms approved policy p =
     and_then (lock_expected_reservation_attempt p (OutcomeReservation.Recovery r)) (\<lambda>attempt.
       settle_approval env subject_state attempt (approved_inner approved) True ProcessorChargeProgression.Applied
         (lit ''a subscription recovery event requires a live recipient'')
         (observe_approval_of_terminal_attempt env attempt approved (expired_period_end policy (fst (snd terms))))
         (apply_recovery_to_open_attempt env r terms attempt (approved_inner approved) policy) p)"

definition apply_recovery_approved_outcome ::
    "billing_host \<Rightarrow> SubscriptionRecoveryReservation \<Rightarrow> payment_terms \<Rightarrow> ApprovedProcessorEvidence \<Rightarrow> payment_env \<Rightarrow>
     payment_db \<Rightarrow>
     ((SubscriptionEnrollmentPaymentResult \<times> BillingEvent list) \<times> payment_db, SubscriptionEnrollmentApplicationError) result" where
  "apply_recovery_approved_outcome host r terms approved env p =
     in_host_transaction host
       (apply_recovery_approved_on_connection env (host_subject_state host) r terms approved (host_expiry_policy host) p)"

section \<open>Approved recoveries that could not be applied\<close>

definition try_park_recovery_approved_outcome ::
    "SubscriptionRecoveryReservation \<Rightarrow> payment_terms \<Rightarrow> ProcessorEvidence \<Rightarrow> SubscriptionPeriodExpiryPolicy \<Rightarrow> rstring \<Rightarrow>
     payment_env \<Rightarrow> payment_db \<Rightarrow>
     (SubscriptionEnrollmentPaymentResult \<times> payment_db, SubscriptionEnrollmentApplicationError) result" where
  "try_park_recovery_approved_outcome r terms evidence policy =
     try_park_approved_outcome (OutcomeReservation.Recovery r) evidence (expired_period_end policy (fst (snd terms)))"

definition lock_free_terms_recovery :: "SubscriptionRecoveryReservation \<Rightarrow> PlanKey \<Rightarrow> LockFreeApprovedEvidenceTerms" where
  "lock_free_terms_recovery r plan_key =
     \<lparr>lock_free_identity = reserved_identity r, lock_free_attempt_kind = PaymentAttemptKind.SubscriptionRecovery,
      lock_free_plan_key = plan_key, lock_free_gateway_order_id = request_gateway_order_id (reserved_request r),
      lock_free_amount = request_amount (reserved_request r), lock_free_host_charge_target_id = None\<rparr>"

definition observe_recovery_approved_evidence_with_retry ::
    "payment_run \<Rightarrow> SubscriptionRecoveryReservation \<Rightarrow> payment_terms \<Rightarrow> ProcessorEvidence \<Rightarrow>
     SubscriptionPeriodExpiryPolicy \<Rightarrow> payment_db \<Rightarrow>
     (unit, SubscriptionEnrollmentApplicationError) result \<times> payment_db" where
  "observe_recovery_approved_evidence_with_retry run r terms evidence policy =
     observe_approved_evidence_with_retry run
       (observe_approved_evidence (OutcomeReservation.Recovery r) evidence (expired_period_end policy (fst (snd terms))))
       (write_without_lock run (lock_free_terms_recovery r (fst terms)) evidence
         (expired_period_end policy (fst (snd terms))))"

definition park_recovery_approved_outcome ::
    "payment_run \<Rightarrow> SubscriptionRecoveryReservation \<Rightarrow> payment_terms \<Rightarrow> ApprovedProcessorEvidence \<Rightarrow>
     SubscriptionPeriodExpiryPolicy \<Rightarrow> rstring \<Rightarrow> payment_db \<Rightarrow>
     (SubscriptionEnrollmentPaymentResult, SubscriptionEnrollmentApplicationError) result \<times> payment_db" where
  "park_recovery_approved_outcome run r terms approved policy message =
     park_approved_outcome run (try_park_recovery_approved_outcome r terms (approved_inner approved) policy message)
       (observe_recovery_approved_evidence_with_retry run r terms (approved_inner approved) policy)
       (read_pending_confirmation True (reserved_identity r) approved)"

definition apply_approved_recovery ::
    "payment_run \<Rightarrow> billing_host \<Rightarrow> SubscriptionRecoveryReservation \<Rightarrow> payment_terms \<Rightarrow>
     ApprovedProcessorEvidence \<Rightarrow> payment_db \<Rightarrow>
     (SubscriptionEnrollmentPaymentResult \<times> BillingEvent list, SubscriptionEnrollmentApplicationError) result \<times> payment_db" where
  "apply_approved_recovery run host r terms approved =
     apply_approved_outcome run
       (evidence_transaction_id (approved_inner approved) \<noteq> None \<and>
        evidence_payment_method_reference (approved_inner approved) \<noteq> None)
       (apply_recovery_approved_outcome host r terms approved)
       (park_recovery_approved_outcome run r terms approved (host_expiry_policy host))
       RECOVERY_INCOMPLETE_APPROVAL_TEXT RECOVERY_APPROVED_STORAGE_FAILURE_TEXT"

section \<open>Outcomes of a recovery\<close>

text \<open>\<open>None\<close> is the panic of the accessors of a reservation of another kind.\<close>

definition apply_subscription_recovery_gateway_outcome ::
    "payment_run \<Rightarrow> billing_host \<Rightarrow> SubscriptionRecoveryReservation \<Rightarrow> GatewayPaymentOutcome \<Rightarrow> payment_db \<Rightarrow>
     ((SubscriptionEnrollmentPaymentResult \<times> BillingEvent list, SubscriptionEnrollmentApplicationError) result \<times> payment_db) option" where
  "apply_subscription_recovery_gateway_outcome run host r outcome p =
     map_option (\<lambda>terms. with_outcome_diagnostics outcome
       (decide_outcome run (OutcomeReservation.Recovery r) outcome (apply_approved_recovery run host r terms) p))
     (reserved_terms r)"

definition reconciled_recovery_reservation ::
    "displays \<Rightarrow> BillingScopeId \<Rightarrow> PaymentAttemptId \<Rightarrow> payment_db \<Rightarrow>
     (SubscriptionRecoveryReservation, SubscriptionEnrollmentApplicationError) result" where
  "reconciled_recovery_reservation d billing_scope_id attempt_id p =
     and_then (reconciled_attempt (lit ''subscription recovery attempt was not found'')
         (lit ''subscription recovery gateway account was not found'')
         (lit ''subscription recovery gateway provider key is invalid'') billing_scope_id attempt_id p)
     (\<lambda>(attempt, provider_key). map_err (\<lambda>_. SubscriptionEnrollmentApplicationError.InvalidState
           (lit ''reconciled attempt is not a valid subscription recovery'')) (recovery_from_attempt d attempt provider_key))"

definition apply_reconciled_subscription_recovery_gateway_outcome ::
    "displays \<Rightarrow> payment_run \<Rightarrow> billing_host \<Rightarrow> BillingScopeId \<Rightarrow> PaymentAttemptId \<Rightarrow> GatewayPaymentOutcome \<Rightarrow>
     payment_db \<Rightarrow>
     ((SubscriptionEnrollmentPaymentResult \<times> BillingEvent list, SubscriptionEnrollmentApplicationError) result \<times> payment_db) option" where
  "apply_reconciled_subscription_recovery_gateway_outcome d run host billing_scope_id attempt_id outcome p =
     (case reconciled_recovery_reservation d billing_scope_id attempt_id p of
        Inl e \<Rightarrow> Some (Err e, p)
      | Inr r \<Rightarrow> apply_subscription_recovery_gateway_outcome run host r outcome p)"

end
