(* ===== verification/Renewal_Application.thy ===== *)
theory Renewal_Application
  imports Approvals
begin

text \<open>
  Applying the outcome of an automatic renewal: \<open>enrollment_application/renewal.rs\<close> and
  \<open>renewal/approval.rs\<close>.  An approval advances the subscription in the transaction that records the
  charge, or is parked; a decline or failure leads to dunning; and approved evidence survives the failure of
  the database.
\<close>

section \<open>Approved renewals\<close>

definition RENEWAL_STALE_STATE_TEXT :: rstring where
  "RENEWAL_STALE_STATE_TEXT =
     lit ''Approved subscription renewal could not update billing state because the subscription changed.''"

definition RENEWAL_INCOMPLETE_APPROVAL_TEXT :: rstring where
  "RENEWAL_INCOMPLETE_APPROVAL_TEXT =
     lit ''Approved subscription renewal is missing required processor identity.''"

definition RENEWAL_APPROVED_STORAGE_FAILURE_TEXT :: rstring where
  "RENEWAL_APPROVED_STORAGE_FAILURE_TEXT =
     lit ''Approved subscription renewal could not be applied; manual review is required.''"

text \<open>\<open>UPDATE billing_subscriptions ... WHERE\<close> of an applied renewal.\<close>

definition renewed_row :: "SubscriptionRenewalReservation \<Rightarrow> payment_terms \<Rightarrow> subscription_row \<Rightarrow> bool" where
  "renewed_row r terms row \<longleftrightarrow>
     (case terms of (plan_key, period, expected) \<Rightarrow>
       reserved_row (reserved_identity r) plan_key (payment_state_subscription_id expected) row \<and>
       row_status row = SubscriptionStatus_as_str (payment_state_status expected) \<and>
       row_status row \<in> {lit ''active'', lit ''past_due''} \<and>
       row_payment_method_id row = PaymentMethodId_as_uuid (payment_state_payment_method_id expected) \<and>
       row_initial_transaction_id row = GatewayTransactionId_expose (payment_state_initial_transaction_id expected) \<and>
       row_amount_cents row = money_cents (request_amount (reserved_request r)) \<and>
       row_currency row = CurrencyCode_text (money_currency (request_amount (reserved_request r))) \<and>
       row_next_renewal_at row = period_start_at period)"

definition advance_row :: "datetime \<Rightarrow> BillingPeriod \<Rightarrow> subscription_row \<Rightarrow> subscription_row" where
  "advance_row clock period row =
     row\<lparr>row_status := lit ''active'', row_phase := lit ''recurring'',
         row_current_period_start_at := period_start_at period, row_current_period_end_at := period_end_at period,
         row_next_renewal_at := period_end_at period, row_next_payment_attempt_at := Some (period_end_at period),
         row_updated_at := clock\<rparr>"

definition advance_renewed_subscription ::
    "payment_env \<Rightarrow> SubscriptionRenewalReservation \<Rightarrow> payment_terms \<Rightarrow> payment_db \<Rightarrow>
     (payment_db, SubscriptionEnrollmentApplicationError) result" where
  "advance_renewed_subscription env r terms p =
     (case terms of (plan_key, period, expected) \<Rightarrow>
       and_then (update_one_subscription (renewed_row r terms) (advance_row (env_clock env) period) p)
         (advance_discount env (payment_state_subscription_id expected) plan_key))"

text \<open>From the mark on the attempt to the event, for a subscription that was advanced.\<close>

definition complete_renewal ::
    "payment_env \<Rightarrow> SubscriptionRenewalReservation \<Rightarrow> payment_terms \<Rightarrow> PaymentAttempt \<Rightarrow> ProcessorEvidence \<Rightarrow>
     ProcessorChargeId \<Rightarrow> payment_db \<Rightarrow> approval_result" where
  "complete_renewal env r terms attempt evidence charge p =
     (case terms of (plan_key, period, expected) \<Rightarrow>
       and_then (mark_attempt_approved env attempt evidence (payment_state_subscription_id expected)
           (payment_state_payment_method_id expected) p)
         (finish_payment env (reserved_identity r) (payment_state_subscription_id expected) charge
           (renewed_event (reserved_identity r) terms)))"

text \<open>From the observation of the charge, for an attempt that is still open.\<close>

definition apply_renewal_to_open_attempt ::
    "payment_env \<Rightarrow> SubscriptionRenewalReservation \<Rightarrow> payment_terms \<Rightarrow> PaymentAttempt \<Rightarrow> ProcessorEvidence \<Rightarrow>
     SubscriptionPeriodExpiryPolicy \<Rightarrow> payment_db \<Rightarrow> approval_result" where
  "apply_renewal_to_open_attempt env r terms attempt evidence policy =
     with_primary_charge env attempt evidence ExternalReversalRequired ADDITIONAL_CHARGE_TEXT (\<lambda>charge p.
       if \<not> renewal_subscription_matches p r terms
       then park_stale_approval env attempt evidence charge ExternalReversalRequired SubscriptionApprovedRenewalStaleState
         RENEWAL_STALE_STATE_TEXT p
       else if rejects_expired_periods policy \<and>
         period_has_expired_at_database_time (env_txn env) (period_end_at (fst (snd terms)))
       then park_expired_period_approval env attempt charge evidence p
       else and_then (advance_renewed_subscription env r terms p) (complete_renewal env r terms attempt evidence charge))"

definition apply_renewal_approved_on_connection ::
    "payment_env \<Rightarrow> BillingTransactionSubjectState \<Rightarrow> SubscriptionRenewalReservation \<Rightarrow> payment_terms \<Rightarrow>
     ApprovedProcessorEvidence \<Rightarrow> SubscriptionPeriodExpiryPolicy \<Rightarrow> payment_db \<Rightarrow> approval_result" where
  "apply_renewal_approved_on_connection env subject_state r terms approved policy p =
     and_then (lock_expected_reservation_attempt p (OutcomeReservation.Renewal r)) (\<lambda>attempt.
       settle_approval env subject_state attempt (approved_inner approved) True ProcessorChargeProgression.Applied
         (lit ''a subscription renewal event requires a live recipient'')
         (observe_approval_of_terminal_attempt env attempt approved (expired_period_end policy (fst (snd terms))))
         (apply_renewal_to_open_attempt env r terms attempt (approved_inner approved) policy) p)"

definition apply_renewal_approved_outcome ::
    "billing_host \<Rightarrow> SubscriptionRenewalReservation \<Rightarrow> payment_terms \<Rightarrow> ApprovedProcessorEvidence \<Rightarrow> payment_env \<Rightarrow>
     payment_db \<Rightarrow>
     ((SubscriptionEnrollmentPaymentResult \<times> BillingEvent list) \<times> payment_db, SubscriptionEnrollmentApplicationError) result" where
  "apply_renewal_approved_outcome host r terms approved env p =
     in_host_transaction host
       (apply_renewal_approved_on_connection env (host_subject_state host) r terms approved (host_expiry_policy host) p)"

section \<open>Renewals that were not approved\<close>

definition resolve_renewal_on_connection ::
    "chrono \<Rightarrow> payment_env \<Rightarrow> SubscriptionRenewalReservation \<Rightarrow> ProcessorEvidence \<Rightarrow> OutcomeResolutionCommand \<Rightarrow> payment_db \<Rightarrow>
     (OutcomeApplication \<times> BillingEvent list \<times> payment_db, SubscriptionEnrollmentApplicationError) result" where
  "resolve_renewal_on_connection ch env r evidence resolution p =
     (let reservation = OutcomeReservation.Renewal r in
      and_then (lock_expected_reservation_attempt p reservation) (\<lambda>attempt.
      let reconciled = reconcile_non_approved_evidence attempt evidence;
          resolution = (if has_identity_conflict reconciled then OutcomeResolutionCommand_unknown None else resolution);
          applied = (\<not> is_parked_expired_period_approval attempt \<and>
            may_resolve resolution (PaymentAttempt_status attempt) (attempt_submitted_at attempt));
          status = resolved_status resolution ReservationOperation.Renewal (PaymentAttempt_status attempt)
      in and_then
           (if \<not> applied then Ok ([], p)
            else and_then (on_attempts (persist_attempt_transition (env_clock env) attempt
                (reconciled_evidence reconciled) (Resolved status (command_code resolution))) p) (\<lambda>p.
              if clears_submitted_at resolution
              then map_sum id (Pair []) (clear_resolved_attempt_submission env attempt p)
              else if marks_renewal_past_due resolution status \<and> command_code resolution = None then
                and_then (find_attempt p (reserved_identity r)) (\<lambda>resolved.
                and_then (map_err from_renewal_failure_error
                    (apply_resolved_automatic_renewal_failure ch (env_clock env) resolved (pay_billing p)))
                (\<lambda>(application, db). Ok (case application of
                     RenewalFailureApplication.Applied _ events \<Rightarrow> events | RenewalFailureApplication.Noop \<Rightarrow> [],
                   with_billing db p)))
              else Ok ([], p)))
         (\<lambda>(events, p). map_sum id (\<lambda>payment. (\<lparr>oa_payment = append_subscription_observation_diagnostics payment
               (identity_conflict_diagnostics reconciled), oa_applied = applied,
             oa_prepared_attempt_replay = Unsupported\<rparr>, events, p))
           (payment_result_for_reservation_attempt p reservation))))"

definition resolve_renewal_non_approved_outcome ::
    "chrono \<Rightarrow> billing_host \<Rightarrow> datetime \<Rightarrow> (payment_db \<Rightarrow> payment_db) \<Rightarrow> payment_env \<Rightarrow> SubscriptionRenewalReservation \<Rightarrow>
     ProcessorEvidence \<Rightarrow> OutcomeResolutionCommand \<Rightarrow> payment_db \<Rightarrow>
     (OutcomeApplication \<times> BillingEvent list, SubscriptionEnrollmentApplicationError) result \<times> payment_db" where
  "resolve_renewal_non_approved_outcome ch host clock between env r evidence resolution =
     after_cooldown clock between (OutcomeReservation.Renewal r) (command_cooldown resolution) (\<lambda>p.
       if \<not> host_begins host then Err Transaction
       else finalize_application host (resolve_renewal_on_connection ch env r evidence resolution p))"

definition resolve_renewal_unknown_outcome ::
    "datetime \<Rightarrow> (payment_db \<Rightarrow> payment_db) \<Rightarrow> payment_env \<Rightarrow> SubscriptionRenewalReservation \<Rightarrow> ProcessorEvidence \<Rightarrow>
     RateLimitCooldown option \<Rightarrow> payment_db \<Rightarrow>
     (SubscriptionEnrollmentPaymentResult, SubscriptionEnrollmentApplicationError) result \<times> payment_db" where
  "resolve_renewal_unknown_outcome clock between env r evidence cooldown p =
     map_prod (map_sum id oa_payment) id (resolve_pool_outcome clock between env (OutcomeReservation.Renewal r) evidence
       (OutcomeResolutionCommand_unknown cooldown) p)"

section \<open>Approved renewals that could not be applied\<close>

definition try_park_renewal_approved_outcome ::
    "SubscriptionRenewalReservation \<Rightarrow> payment_terms \<Rightarrow> ProcessorEvidence \<Rightarrow> SubscriptionPeriodExpiryPolicy \<Rightarrow> rstring \<Rightarrow>
     payment_env \<Rightarrow> payment_db \<Rightarrow>
     (SubscriptionEnrollmentPaymentResult \<times> payment_db, SubscriptionEnrollmentApplicationError) result" where
  "try_park_renewal_approved_outcome r terms evidence policy =
     try_park_approved_outcome (OutcomeReservation.Renewal r) evidence (expired_period_end policy (fst (snd terms)))"

text \<open>A renewal has no write without a lock: after the last try its evidence is not durable.\<close>

definition observe_renewal_approved_evidence_with_retry ::
    "payment_run \<Rightarrow> SubscriptionRenewalReservation \<Rightarrow> payment_terms \<Rightarrow> ProcessorEvidence \<Rightarrow>
     SubscriptionPeriodExpiryPolicy \<Rightarrow> payment_db \<Rightarrow>
     (unit, SubscriptionEnrollmentApplicationError) result \<times> payment_db" where
  "observe_renewal_approved_evidence_with_retry run r terms evidence policy =
     observe_approved_evidence_with_retry run
       (observe_approved_evidence (OutcomeReservation.Renewal r) evidence (expired_period_end policy (fst (snd terms))))
       (Pair (Err ApprovedEvidenceNotDurable))"

definition park_renewal_approved_outcome ::
    "payment_run \<Rightarrow> SubscriptionRenewalReservation \<Rightarrow> payment_terms \<Rightarrow> ApprovedProcessorEvidence \<Rightarrow>
     SubscriptionPeriodExpiryPolicy \<Rightarrow> rstring \<Rightarrow> payment_db \<Rightarrow>
     (SubscriptionEnrollmentPaymentResult, SubscriptionEnrollmentApplicationError) result \<times> payment_db" where
  "park_renewal_approved_outcome run r terms approved policy message =
     park_approved_outcome run (try_park_renewal_approved_outcome r terms (approved_inner approved) policy message)
       (observe_renewal_approved_evidence_with_retry run r terms (approved_inner approved) policy)
       (read_pending_confirmation True (reserved_identity r) approved)"

definition apply_approved_renewal ::
    "payment_run \<Rightarrow> billing_host \<Rightarrow> SubscriptionRenewalReservation \<Rightarrow> payment_terms \<Rightarrow>
     ApprovedProcessorEvidence \<Rightarrow> payment_db \<Rightarrow>
     (SubscriptionEnrollmentPaymentResult \<times> BillingEvent list, SubscriptionEnrollmentApplicationError) result \<times> payment_db" where
  "apply_approved_renewal run host r terms approved =
     apply_approved_outcome run (evidence_transaction_id (approved_inner approved) \<noteq> None)
       (apply_renewal_approved_outcome host r terms approved)
       (park_renewal_approved_outcome run r terms approved (host_expiry_policy host))
       RENEWAL_INCOMPLETE_APPROVAL_TEXT RENEWAL_APPROVED_STORAGE_FAILURE_TEXT"

text \<open>The decision on an outcome; \<open>None\<close> is the panic of the accessors of a reservation of another kind.\<close>

definition apply_subscription_renewal_gateway_decision ::
    "chrono \<Rightarrow> payment_run \<Rightarrow> billing_host \<Rightarrow> SubscriptionRenewalReservation \<Rightarrow> GatewayPaymentOutcome \<Rightarrow> payment_db \<Rightarrow>
     ((SubscriptionEnrollmentPaymentResult \<times> BillingEvent list, SubscriptionEnrollmentApplicationError) result \<times> payment_db) option" where
  "apply_subscription_renewal_gateway_decision ch run host r outcome p =
     map_option (\<lambda>terms.
       let resolve = (\<lambda>status. map_prod (map_sum id (map_prod oa_payment id)) id
             (resolve_renewal_non_approved_outcome ch host (env_clock (run_env run 0)) (run_between run 0) (run_env run 0) r
               (outcome_evidence outcome) (OutcomeResolutionCommand_non_approved status None None Submitted) p))
       in case outcome_status outcome of
            GatewayPaymentStatus.Approved \<Rightarrow>
              (case approved_evidence outcome of
                 None \<Rightarrow> (Err invalid_application, p)
               | Some approved \<Rightarrow> apply_approved_renewal run host r terms approved p)
          | GatewayPaymentStatus.Declined \<Rightarrow> resolve AttemptResolutionStatus.Declined
          | GatewayPaymentStatus.Failed \<Rightarrow> resolve AttemptResolutionStatus.Failed
          | GatewayPaymentStatus.Unknown \<Rightarrow>
              map_prod (map_sum id (\<lambda>result. (result, []))) id
                (resolve_renewal_unknown_outcome (env_clock (run_env run 0)) (run_between run 0) (run_env run 0) r
                  (outcome_evidence outcome) None p))
     (reserved_terms r)"

definition apply_subscription_renewal_gateway_outcome ::
    "chrono \<Rightarrow> payment_run \<Rightarrow> billing_host \<Rightarrow> SubscriptionRenewalReservation \<Rightarrow> GatewayPaymentOutcome \<Rightarrow> payment_db \<Rightarrow>
     ((SubscriptionEnrollmentPaymentResult \<times> BillingEvent list, SubscriptionEnrollmentApplicationError) result \<times> payment_db) option" where
  "apply_subscription_renewal_gateway_outcome ch run host r outcome p =
     map_option (with_outcome_diagnostics outcome) (apply_subscription_renewal_gateway_decision ch run host r outcome p)"

text \<open>The reservation of a renewal whose outcome a later query reports.\<close>

definition reconciled_renewal_reservation ::
    "displays \<Rightarrow> BillingScopeId \<Rightarrow> PaymentAttemptId \<Rightarrow> payment_db \<Rightarrow>
     (SubscriptionRenewalReservation, SubscriptionEnrollmentApplicationError) result" where
  "reconciled_renewal_reservation d billing_scope_id attempt_id p =
     and_then (reconciled_attempt (lit ''subscription renewal attempt was not found'')
         (lit ''subscription renewal gateway account was not found'')
         (lit ''subscription renewal gateway provider key is invalid'') billing_scope_id attempt_id p)
     (\<lambda>(attempt, provider_key). map_err (\<lambda>_. SubscriptionEnrollmentApplicationError.InvalidState
           (lit ''reconciled attempt is not a valid subscription renewal'')) (renewal_from_attempt d attempt provider_key))"

definition apply_reconciled_subscription_renewal_gateway_outcome ::
    "displays \<Rightarrow> chrono \<Rightarrow> payment_run \<Rightarrow> billing_host \<Rightarrow> BillingScopeId \<Rightarrow> PaymentAttemptId \<Rightarrow> GatewayPaymentOutcome \<Rightarrow>
     payment_db \<Rightarrow>
     ((SubscriptionEnrollmentPaymentResult \<times> BillingEvent list, SubscriptionEnrollmentApplicationError) result \<times> payment_db) option" where
  "apply_reconciled_subscription_renewal_gateway_outcome d ch run host billing_scope_id attempt_id outcome p =
     (case reconciled_renewal_reservation d billing_scope_id attempt_id p of
        Inl e \<Rightarrow> Some (Err e, p)
      | Inr r \<Rightarrow> apply_subscription_renewal_gateway_outcome ch run host r outcome p)"

end
