(* ===== verification/Payment_History.thy ===== *)
theory Payment_History
  imports Approvals
begin

text \<open>
  What the statements of payments keep.  The invariant joins those of the attempts and
  of the charges; every statement keeps it and lets attempts, charges and subscriptions only evolve, whatever other
  transactions commit.
\<close>

section \<open>The invariant and the evolution of the database\<close>

text \<open>A subscription keeps its owner, its plan and a readable policy, and its whole row once it has ended.\<close>

definition subscription_evolves :: "subscription_row \<Rightarrow> subscription_row \<Rightarrow> bool" where
  "subscription_evolves row row' \<longleftrightarrow>
     row_id row' = row_id row \<and> row_plan_key row' = row_plan_key row \<and>
     row_billing_scope_id row' = row_billing_scope_id row \<and> row_subscriber_id row' = row_subscriber_id row \<and>
     row_required_gateway_account_mode row' = row_required_gateway_account_mode row \<and>
     (\<not> is_current_status (row_status row) \<longrightarrow> row' = row) \<and> (policy_readable row \<longrightarrow> policy_readable row')"

text \<open>Rows evolve and new ones are added after them.\<close>

definition rows_evolve :: "subscription_row list \<Rightarrow> subscription_row list \<Rightarrow> bool" where
  "rows_evolve rows rows' \<longleftrightarrow> (\<exists>old new. rows' = old @ new \<and> list_all2 subscription_evolves rows old)"

text \<open>Attempts evolve and new ones, which others reserve meanwhile, are added after them.\<close>

definition attempts_grow :: "billing_db \<Rightarrow> billing_db \<Rightarrow> bool" where
  "attempts_grow db db' \<longleftrightarrow>
     (\<exists>old new. db_attempts db' = old @ new \<and> list_all2 attempt_evolves (db_attempts db) old)"

definition payment_ok :: "payment_db \<Rightarrow> bool" where
  "payment_ok p \<longleftrightarrow> attempts_ok (pay_billing p) \<and> charges_ok (charge_view p) \<and>
     db_charges (pay_billing p) = map charge_row_of (pay_charges p) \<and>
     distinct (map row_id (db_subscriptions (pay_billing p)))"

definition payment_evolves :: "payment_db \<Rightarrow> payment_db \<Rightarrow> bool" where
  "payment_evolves p p' \<longleftrightarrow> attempts_grow (pay_billing p) (pay_billing p') \<and>
     charges_evolve (charge_view p) (charge_view p') \<and>
     rows_evolve (db_subscriptions (pay_billing p)) (db_subscriptions (pay_billing p'))"

definition payment_keeps :: "payment_db \<Rightarrow> payment_db \<Rightarrow> bool" where
  "payment_keeps p p' \<longleftrightarrow> (payment_ok p \<longrightarrow> payment_ok p' \<and> payment_evolves p p')"

abbreviation same_subscriptions :: "payment_db \<Rightarrow> payment_db \<Rightarrow> bool" where
  "same_subscriptions p p' \<equiv> db_subscriptions (pay_billing p') = db_subscriptions (pay_billing p)"

abbreviation same_grants :: "payment_db \<Rightarrow> payment_db \<Rightarrow> bool" where
  "same_grants p p' \<equiv> db_grants (pay_billing p') = db_grants (pay_billing p)"

abbreviation distinct_subscriptions :: "payment_db \<Rightarrow> bool" where
  "distinct_subscriptions p \<equiv> distinct (map row_id (db_subscriptions (pay_billing p)))"

text \<open>What others commit to the charges while a statement waits.\<close>

definition payment_rely :: "(charge_store \<Rightarrow> charge_store) \<Rightarrow> bool" where
  "payment_rely others \<longleftrightarrow> charges_rely others \<and> (\<forall>s. cs_attempts (others s) = cs_attempts s)"

lemma subscription_evolves_refl [simp]: "subscription_evolves row row"
  by (simp add: subscription_evolves_def)

lemma subscription_evolves_trans:
  "subscription_evolves a b \<Longrightarrow> subscription_evolves b c \<Longrightarrow> subscription_evolves a c"
  unfolding subscription_evolves_def by metis

lemma row_history_evolves: "row_history row row' \<Longrightarrow> subscription_evolves row row'"
  using row_history_fixed [of row row'] by (simp add: subscription_evolves_def row_history_def)

lemma rows_evolveI: "list_all2 subscription_evolves rows rows' \<Longrightarrow> rows_evolve rows rows'"
  unfolding rows_evolve_def by (metis append_Nil2)

lemma rows_evolve_refl [simp]: "rows_evolve rows rows" "rows_evolve rows (rows @ new)"
  unfolding rows_evolve_def by (metis append_Nil2 list_all2_reflI subscription_evolves_refl)+

lemma rows_evolve_trans:
  assumes "rows_evolve r s" and "rows_evolve s t"
  shows "rows_evolve r t"
proof -
  obtain old new where s: "s = old @ new" "list_all2 subscription_evolves r old"
    using assms(1) by (auto simp: rows_evolve_def)
  obtain a b c where t: "t = (a @ b) @ c" "list_all2 subscription_evolves old a"
    using assms(2) unfolding s(1) by (auto simp: rows_evolve_def list_all2_append1)
  have "list_all2 subscription_evolves r a"
    using list_all2_trans [OF subscription_evolves_trans s(2) t(2)] .
  with t(1) show ?thesis by (auto simp: rows_evolve_def)
qed

lemma attempts_growI: "attempts_evolve db db' \<Longrightarrow> attempts_grow db db'"
  unfolding attempts_grow_def attempts_evolve_def by (metis append_Nil2)

lemma attempts_grow_refl [simp]: "attempts_grow db db"
  by (simp add: attempts_growI)

lemma attempts_grow_same: "db_attempts db' = db_attempts db \<Longrightarrow> attempts_grow db db'"
  by (simp add: attempts_growI attempts_evolve_def list_all2_refl)

lemma attempts_grow_trans:
  assumes "attempts_grow a b" and "attempts_grow b c"
  shows "attempts_grow a c"
proof -
  obtain old new where b: "db_attempts b = old @ new" "list_all2 attempt_evolves (db_attempts a) old"
    using assms(1) by (auto simp: attempts_grow_def)
  obtain x y z where c: "db_attempts c = (x @ y) @ z" "list_all2 attempt_evolves old x"
    using assms(2) b(1) by (auto simp: attempts_grow_def list_all2_append1)
  have "list_all2 attempt_evolves (db_attempts a) x"
    using list_all2_trans [OF attempt_evolves_trans b(2) c(2)] .
  with c(1) show ?thesis by (auto simp: attempts_grow_def)
qed

lemma attempts_growE:
  assumes "attempts_grow db db'" and "a \<in> set (db_attempts db)"
  obtains b where "b \<in> set (db_attempts db')" "attempt_evolves a b"
proof -
  obtain old new where split: "db_attempts db' = old @ new" "list_all2 attempt_evolves (db_attempts db) old"
    using assms(1) by (auto simp: attempts_grow_def)
  then obtain b where "b \<in> set old" "attempt_evolves a b"
    using assms(2) by (metis in_set_conv_nth list_all2_conv_all_nth)
  with split(1) that show ?thesis by auto
qed

lemma payment_ok_distinct: "payment_ok p \<Longrightarrow> distinct_subscriptions p"
  by (simp add: payment_ok_def)

lemma payment_keeps_refl [simp]: "payment_keeps p p"
  by (simp add: payment_keeps_def payment_evolves_def)

lemma payment_keeps_trans [trans]:
  assumes "payment_keeps p q" and "payment_keeps q r"
  shows "payment_keeps p r"
proof -
  have "payment_evolves p r" if "payment_evolves p q" "payment_evolves q r"
    using that attempts_grow_trans charges_evolve_trans rows_evolve_trans unfolding payment_evolves_def by blast
  with assms show ?thesis unfolding payment_keeps_def by blast
qed

lemma charge_view_simps [simp]:
  "cs_attempts (charge_view p) = db_attempts (pay_billing p)"
  "cs_charges (charge_view p) = pay_charges p"
  "cs_attestations (charge_view p) = pay_attestations p"
  by (simp_all add: charge_view_def)

lemma with_charges_simps [simp]:
  "pay_charges (with_charges s p) = cs_charges s"
  "pay_attestations (with_charges s p) = pay_attestations p"
  "db_attempts (pay_billing (with_charges s p)) = db_attempts (pay_billing p)"
  "db_subscriptions (pay_billing (with_charges s p)) = db_subscriptions (pay_billing p)"
  "db_discounts (pay_billing (with_charges s p)) = db_discounts (pay_billing p)"
  "db_grants (pay_billing (with_charges s p)) = db_grants (pay_billing p)"
  "db_charges (pay_billing (with_charges s p)) = map charge_row_of (cs_charges s)"
  by (simp_all add: with_charges_def)

lemma with_billing_simps [simp]:
  "pay_charges (with_billing db p) = pay_charges p"
  "pay_attestations (with_billing db p) = pay_attestations p"
  "pay_billing (with_billing db p) = db"
  by (simp_all add: with_billing_def)

text \<open>Both invariants read the rows only.\<close>

lemma charges_ok_cong:
  "cs_attempts s = cs_attempts t \<Longrightarrow> cs_charges s = cs_charges t \<Longrightarrow> charges_ok s \<longleftrightarrow> charges_ok t"
  by (simp add: charges_ok_def charge_owned_def charge_attempt_def)

lemma attempts_ok_cong: "db_attempts db = db_attempts db' \<Longrightarrow> attempts_ok db \<longleftrightarrow> attempts_ok db'"
  by (simp add: attempts_ok_def)

section \<open>Statements\<close>

lemma charges_statement_keeps:
  assumes kept: "charges_ok (charge_view p) \<Longrightarrow> charges_ok s \<and> charges_evolve (charge_view p) s"
    and attempts: "cs_attempts s = db_attempts (pay_billing p)"
  shows "payment_keeps p (with_charges s p)"
proof -
  have "payment_ok (with_charges s p) \<and> payment_evolves p (with_charges s p)" if ok: "payment_ok p"
  proof -
    have s: "charges_ok s" "charges_evolve (charge_view p) s" using kept ok by (auto simp: payment_ok_def)
    have "charges_ok (charge_view (with_charges s p))"
      using s(1) attempts charges_ok_cong [of "charge_view (with_charges s p)" s] by simp
    moreover have "charges_evolve (charge_view p) (charge_view (with_charges s p))"
      using s(2) by (simp add: charges_evolve_def)
    moreover have "attempts_ok (pay_billing (with_charges s p))"
      using ok attempts_ok_cong [of "pay_billing (with_charges s p)" "pay_billing p"] by (simp add: payment_ok_def)
    ultimately show ?thesis
      using ok by (simp add: payment_ok_def payment_evolves_def attempts_grow_same)
  qed
  then show ?thesis unfolding payment_keeps_def by blast
qed

lemma same_request_dimensions:
  assumes "same_request a b"
  shows "attempt_dimensions b = attempt_dimensions a"
proof -
  have "request_gateway_order_id (attempt_request b) = request_gateway_order_id (attempt_request a)"
      "request_amount (attempt_request b) = request_amount (attempt_request a)"
    using assms unfolding same_request_def
    by (cases "attempt_request a"; cases "attempt_request b"; simp)+
  with assms show ?thesis by (simp add: same_request_def attempt_dimensions_def)
qed

lemma attempts_statement_keeps:
  assumes kept: "attempts_ok (pay_billing p) \<Longrightarrow> attempts_ok db \<and> attempts_evolve (pay_billing p) db"
    and rest: "db_charges db = db_charges (pay_billing p)" "db_subscriptions db = db_subscriptions (pay_billing p)"
  shows "payment_keeps p (with_billing db p)"
proof -
  have "payment_ok (with_billing db p) \<and> payment_evolves p (with_billing db p)" if ok: "payment_ok p"
  proof -
    have db: "attempts_ok db" "attempts_evolve (pay_billing p) db" using kept ok by (auto simp: payment_ok_def)
    then have "list_all2 (\<lambda>a b. identity_attempt_id (attempt_identity b) = identity_attempt_id (attempt_identity a) \<and>
        attempt_dimensions b = attempt_dimensions a) (cs_attempts (charge_view p)) (db_attempts db)"
      unfolding attempts_evolve_def
      by (auto elim!: list_all2_mono simp: attempt_evolves_def same_request_dimensions same_request_def)
    moreover have "charges_ok (charge_view p)" using ok by (simp add: payment_ok_def)
    ultimately have "charges_ok ((charge_view p)\<lparr>cs_attempts := db_attempts db @ []\<rparr>)"
      by (intro attempting_keeps)
    then have "charges_ok (charge_view (with_billing db p))"
      using charges_ok_cong [of "charge_view (with_billing db p)" "(charge_view p)\<lparr>cs_attempts := db_attempts db @ []\<rparr>"]
      by simp
    with ok db rest show ?thesis
      by (simp add: payment_ok_def payment_evolves_def attempts_growI)
  qed
  then show ?thesis unfolding payment_keeps_def by blast
qed

text \<open>
  A reservation that another caller commits: a new attempt, where it meets the checks and the unique indexes of its table.  It is among the
  commits that \<open>payment_keeps\<close> allows.
\<close>

definition reserve_attempt :: "PaymentAttempt \<Rightarrow> payment_db \<Rightarrow> payment_db" where
  "reserve_attempt a p =
     (let db = pay_billing p; rows = db_attempts db in
      if attempt_checks a \<and> \<not> list_ex (\<lambda>b. attempt_key b = attempt_key a \<or> attempt_clash a b) rows
      then with_billing (db\<lparr>db_attempts := rows @ [a]\<rparr>) p else p)"

lemma reserve_attempt_keeps: "payment_keeps p (reserve_attempt a p)"
proof (cases "reserve_attempt a p = p")
  case False
  let ?rows = "db_attempts (pay_billing p)" and ?q = "reserve_attempt a p"
  have new: "attempt_checks a" "\<forall>b \<in> set ?rows. attempt_key b \<noteq> attempt_key a \<and> \<not> attempt_clash a b"
    and q: "?q = with_billing ((pay_billing p)\<lparr>db_attempts := ?rows @ [a]\<rparr>) p"
    using False by (auto simp: reserve_attempt_def Let_def list_ex_iff split: if_splits)
  have "attempts_ok (pay_billing ?q)" if "attempts_ok (pay_billing p)"
    using that new attempt_clash_sym unfolding attempts_ok_def q by fastforce
  moreover have "charges_ok (charge_view ?q)" if "charges_ok (charge_view p)"
    using attempting_keeps [OF that, of "?rows" "[a]"] charges_ok_cong [of "charge_view ?q" "(charge_view p)\<lparr>cs_attempts := ?rows @ [a]\<rparr>"]
    by (simp add: q list_all2_refl)
  moreover have "attempts_grow (pay_billing p) (pay_billing ?q)"
    unfolding attempts_grow_def q
    by (rule exI [of _ "?rows"], rule exI [of _ "[a]"]) (simp add: list_all2_refl)
  moreover have "charges_evolve (charge_view p) (charge_view ?q)"
    by (simp add: q)
  ultimately show ?thesis
    by (simp add: payment_keeps_def payment_ok_def payment_evolves_def) (simp add: q)
qed simp

text \<open>A frame keeps the invariant and writes no subscription and no grant.\<close>

definition payment_frame :: "payment_db \<Rightarrow> payment_db \<Rightarrow> bool" where
  "payment_frame p p' \<longleftrightarrow> payment_keeps p p' \<and> same_subscriptions p p' \<and> same_grants p p'"

lemma payment_frame_refl [simp]: "payment_frame p p"
  by (simp add: payment_frame_def)

lemma payment_frame_trans [trans]: "payment_frame p q \<Longrightarrow> payment_frame q r \<Longrightarrow> payment_frame p r"
  unfolding payment_frame_def using payment_keeps_trans by metis

lemma payment_frame_keeps: "payment_frame p p' \<Longrightarrow> payment_keeps p p'"
  by (simp add: payment_frame_def)

lemma on_charges_Ok:
  "on_charges op p = Ok (x, p') \<longleftrightarrow> (\<exists>s. op (charge_view p) = Ok (x, s) \<and> p' = with_charges s p)"
  by (auto simp: on_charges_def map_sum_Inr_iff)

lemma on_attempts_Ok: "on_attempts op p = Ok p' \<longleftrightarrow> (\<exists>db. op (pay_billing p) = Ok db \<and> p' = with_billing db p)"
  by (auto simp: on_attempts_def map_sum_Inr_iff)

lemma transition_attempts:
  "transition_processor_charge clock i expected q upd s = Ok (c, s') \<Longrightarrow> cs_attempts s' = cs_attempts s"
  by (auto simp: transition_processor_charge_def and_then_Inr_iff map_sum_Inr_iff split: if_splits
      dest!: update_charge_attempts)

lemma transition_charge_attempts: "transition_charge clock i q code s = Ok s' \<Longrightarrow> cs_attempts s' = cs_attempts s"
  by (auto simp: transition_charge_def map_sum_Inr_iff dest!: transition_attempts)

lemma promote_attempts:
  "promote_conflicting_charge_to_external_reversal clock observation s = Ok s' \<Longrightarrow> cs_attempts s' = cs_attempts s"
  by (auto simp: promote_conflicting_charge_to_external_reversal_def and_then_Inr_iff
      split: ObservedCharge.splits ProcessorChargeProgression.splits dest!: transition_charge_attempts)
     (meson ProcessorChargeProgression.exhaust)

text \<open>A statement on charges is a frame that leaves the attempts as well.\<close>

definition charges_frame :: "payment_db \<Rightarrow> payment_db \<Rightarrow> bool" where
  "charges_frame p p' \<longleftrightarrow> payment_frame p p' \<and> db_attempts (pay_billing p') = db_attempts (pay_billing p)"

lemma charges_frame_refl [simp]: "charges_frame p p"
  by (simp add: charges_frame_def)

lemma charges_frame_frame: "charges_frame p p' \<Longrightarrow> payment_frame p p'"
  by (simp add: charges_frame_def)

lemma charges_frameI:
  assumes "charges_ok (charge_view p) \<Longrightarrow> charges_ok s \<and> charges_evolve (charge_view p) s"
    and "cs_attempts s = db_attempts (pay_billing p)"
  shows "charges_frame p (with_charges s p)"
  using charges_statement_keeps [OF assms] by (simp add: charges_frame_def payment_frame_def)

lemma observe_frame:
  assumes rely: "payment_rely (env_others env)" and run: "observe env a e q p = Ok (out, p')"
  shows "charges_frame p p'"
proof -
  obtain s where s: "observe_processor_charge (env_others env) (env_clock env) (env_fresh_charge env) a e q
      (charge_view p) = Ok (out, s)" "p' = with_charges s p"
    using run by (auto simp: observe_def on_charges_Ok)
  have "charges_ok s \<and> charges_evolve (charge_view p) s" if "charges_ok (charge_view p)"
    using that rely s(1) by (intro observe_keeps [OF that _ s(1)]) (simp add: payment_rely_def charges_rely_def)
  moreover have "cs_attempts s = db_attempts (pay_billing p)"
    using observe_attempts [OF s(1)] rely by (simp add: payment_rely_def)
  ultimately show ?thesis unfolding s(2) by (rule charges_frameI)
qed

lemma move_charge_Ok:
  "move_charge env i q code p = Ok p' \<longleftrightarrow>
     (\<exists>s. transition_charge (env_clock env) i q code (charge_view p) = Ok s \<and> p' = with_charges s p)"
  by (auto simp: move_charge_def map_sum_Inr_iff on_charges_Ok)

lemma move_charge_frame: "move_charge env i q code p = Ok p' \<Longrightarrow> charges_frame p p'"
  unfolding move_charge_Ok
  by (auto intro!: charges_frameI dest: transition_charge_keeps transition_charge_attempts)

lemma expire_charge_frame: "expire_charge env i p = Ok p' \<Longrightarrow> charges_frame p p'"
  unfolding expire_charge_def map_sum_Inr_iff transition_processor_charge_in_transaction_def
  by (auto simp: on_charges_Ok intro!: charges_frameI dest: transition_keeps [rotated 2] transition_attempts)

lemma promote_frame:
  "on_charges (\<lambda>s. map_sum id (Pair ()) (promote_conflicting_charge_to_external_reversal clock observation s)) p = Ok (x, p') \<Longrightarrow>
   charges_frame p p'"
  by (auto simp: on_charges_Ok map_sum_Inr_iff intro!: charges_frameI dest: promote_keeps promote_attempts)

lemma update_attempt_rest:
  assumes "update_attempt i hit f db = Ok (b, db')"
  shows "db_charges db' = db_charges db \<and> db_subscriptions db' = db_subscriptions db \<and> db_discounts db' = db_discounts db \<and>
    db_grants db' = db_grants db"
  using assms by (cases rule: update_attempt_cases) simp_all

lemma attempts_frame:
  assumes run: "update_attempt i hit f (pay_billing p) = Ok (b, db)"
    and step: "\<And>a a'. a \<in> set (db_attempts (pay_billing p)) \<Longrightarrow> attempt_key a = i \<Longrightarrow> hit a \<Longrightarrow> f a = Some a' \<Longrightarrow>
      attempt_evolves a a'"
  shows "payment_frame p (with_billing db p)"
proof -
  have "attempts_ok db \<and> attempts_evolve (pay_billing p) db" if "attempts_ok (pay_billing p)"
    by (rule update_attempt_keeps [OF that run]) (rule step)
  then have "payment_keeps p (with_billing db p)"
    by (rule attempts_statement_keeps) (use update_attempt_rest [OF run] in simp_all)
  then show ?thesis using update_attempt_rest [OF run] by (simp add: payment_frame_def)
qed

lemma transition_frame:
  assumes "on_attempts (persist_attempt_transition clock a e t) p = Ok p'"
  shows "payment_frame p p'"
proof -
  obtain db where db: "update_attempt (attempt_key a) (transition_from t) (transition_to clock e t) (pay_billing p) = Ok (True, db)"
      "p' = with_billing db p"
    using assms by (auto simp: on_attempts_Ok persist_attempt_transition_def require_one_row_Ok)
  show ?thesis unfolding db(2) by (rule attempts_frame [OF db(1)]) (use transition_evolves in blast)
qed

lemma restore_frame: "restore_prepared_attempt_submission env a p = Ok p' \<Longrightarrow> payment_frame p p'"
  unfolding restore_prepared_attempt_submission_def on_attempts_Ok require_one_row_Ok
  by (auto intro!: attempts_frame set_submitted_evolves)

lemma clear_frame:
  assumes "clear_resolved_attempt_submission env a p = Ok p'"
    and "\<forall>b \<in> set (db_attempts (pay_billing p)). attempt_key b = attempt_key a \<longrightarrow>
      PaymentAttempt_status b \<noteq> PaymentAttemptStatus.Approved"
  shows "payment_frame p p'"
  using assms unfolding clear_resolved_attempt_submission_def on_attempts_Ok require_one_row_Ok
  by (auto intro!: attempts_frame set_submitted_evolves)

text \<open>The row that a transition writes.\<close>

lemma persist_row:
  assumes "persist_attempt_transition clock attempt e t db = Ok db'"
  obtains a a' where "a \<in> set (db_attempts db)" "attempt_key a = attempt_key attempt" "transition_from t a"
    "transition_to clock e t a = Some a'"
    "db_attempts db' = map (\<lambda>b. if attempt_key b = attempt_key attempt then a' else b) (db_attempts db)"
proof -
  have "update_attempt (attempt_key attempt) (transition_from t) (transition_to clock e t) db = Ok (True, db')"
    using assms by (simp add: persist_attempt_transition_def require_one_row_Ok)
  then show ?thesis by (cases rule: update_attempt_cases) (simp, use that in auto)
qed

lemma resolved_not_approved:
  assumes "on_attempts (persist_attempt_transition clock attempt e (Resolved status code)) p = Ok p'"
    and "b \<in> set (db_attempts (pay_billing p'))" and "attempt_key b = attempt_key attempt"
  shows "PaymentAttempt_status b \<noteq> PaymentAttemptStatus.Approved"
proof -
  obtain db where "persist_attempt_transition clock attempt e (Resolved status code) (pay_billing p) = Ok db"
      "p' = with_billing db p"
    using assms(1) by (auto simp: on_attempts_Ok)
  then obtain a a' where "transition_to clock e (Resolved status code) a = Some a'"
      "db_attempts db = map (\<lambda>b. if attempt_key b = attempt_key attempt then a' else b) (db_attempts (pay_billing p))"
      "p' = with_billing db p"
    by (elim persist_row) simp
  with assms(2,3) have "b = a'" "PaymentAttempt_status a' = resolution_payment_status status"
    by (auto simp: transition_row_def PaymentAttempt_status_def split: if_splits)
  then show ?thesis by (cases status) simp_all
qed

section \<open>Approved evidence is recorded\<close>

text \<open>
  A charge holds the transaction, whoever owns it, or the unidentified evidence of the attempt; or the attempt is
  approved with that transaction.
\<close>

definition charge_records :: "PaymentAttemptIdentity \<Rightarrow> ProcessorEvidence \<Rightarrow> stored_charge \<Rightarrow> bool" where
  "charge_records identity e c \<longleftrightarrow>
     (case evidence_transaction_id e of
        Some t \<Rightarrow> charge_transaction_id c = Some t \<and>
          (charge_attempt_id c = identity_attempt_id identity \<or>
           charge_gateway_account_id c = identity_gateway_account_id identity)
      | None \<Rightarrow> charge_attempt_id c = identity_attempt_id identity \<and> evidence_matches (charge_evidence c) e)"

definition attempt_records :: "PaymentAttemptIdentity \<Rightarrow> ProcessorEvidence \<Rightarrow> PaymentAttempt \<Rightarrow> bool" where
  "attempt_records identity e a \<longleftrightarrow>
     attempt_identity a = identity \<and> PaymentAttempt_status a = PaymentAttemptStatus.Approved \<and>
     evidence_transaction_id e \<noteq> None \<and> attempt_transaction_id a = evidence_transaction_id e"

definition evidence_recorded :: "PaymentAttemptIdentity \<Rightarrow> ProcessorEvidence \<Rightarrow> payment_db \<Rightarrow> bool" where
  "evidence_recorded identity e p \<longleftrightarrow> list_ex (charge_records identity e) (pay_charges p) \<or>
     list_ex (attempt_records identity e) (db_attempts (pay_billing p))"

lemma charge_records_evolves:
  assumes "charge_evolves c d" and "charge_records identity e c"
  shows "charge_records identity e d"
proof -
  have same: "same_charge c d" and final: "charge_transaction_id c \<noteq> None \<longrightarrow> charge_transaction_id d = charge_transaction_id c"
    using assms(1) charge_lives_final [of "charge_role c" "chargeable c" "charge_state_of c" "charge_state_of d"]
    by (auto simp: charge_evolves_def charge_state_of_def)
  have "evidence_matches (charge_evidence d) e" if "evidence_matches (charge_evidence c) e"
    using same that by (simp add: same_charge_def evidence_matches_def)
  with same final assms(2) show ?thesis
    by (auto simp: charge_records_def same_charge_def charge_dimensions_def split: option.splits)
qed

lemma evidence_recorded_kept:
  assumes "payment_ok p" and "payment_keeps p p'" and "evidence_recorded identity e p"
  shows "evidence_recorded identity e p'"
proof -
  have evolve: "charges_evolve (charge_view p) (charge_view p')" "attempts_grow (pay_billing p) (pay_billing p')"
    using assms(1,2) by (simp_all add: payment_keeps_def payment_evolves_def)
  from assms(3) consider (charge) c where "c \<in> set (pay_charges p)" "charge_records identity e c"
    | (attempt) a where "a \<in> set (db_attempts (pay_billing p))" "attempt_records identity e a"
    by (auto simp: evidence_recorded_def list_ex_iff)
  then show ?thesis
  proof cases
    case charge
    obtain old new where "pay_charges p' = old @ new" "list_all2 charge_evolves (pay_charges p) old"
      using evolve(1) by (auto simp: charges_evolve_def)
    with charge(1) obtain d where "d \<in> set (pay_charges p')" "charge_evolves c d"
      by (metis Un_iff in_set_conv_nth list_all2_conv_all_nth set_append)
    with charge(2) charge_records_evolves show ?thesis unfolding evidence_recorded_def list_ex_iff by blast
  next
    case attempt
    with evolve(2) obtain b where "b \<in> set (db_attempts (pay_billing p'))" "attempt_evolves a b"
      by (elim attempts_growE)
    moreover from this attempt(2) have "b = a" by (simp add: attempt_evolves_def attempt_records_def)
    ultimately show ?thesis using attempt(2) by (auto simp: evidence_recorded_def list_ex_iff)
  qed
qed

text \<open>A frame that leaves the evidence recorded, and its composition.\<close>

definition recording :: "PaymentAttemptIdentity \<Rightarrow> ProcessorEvidence \<Rightarrow> payment_db \<Rightarrow> payment_db \<Rightarrow> bool" where
  "recording identity e p p' \<longleftrightarrow> payment_frame p p' \<and> (payment_ok p \<longrightarrow> evidence_recorded identity e p')"

lemma recording_frame: "recording identity e p p' \<Longrightarrow> payment_frame p p'"
  by (simp add: recording_def)

lemma recording_then: "recording identity e p q \<Longrightarrow> payment_frame q r \<Longrightarrow> recording identity e p r"
  unfolding recording_def
  by (metis evidence_recorded_kept payment_frame_def payment_frame_trans payment_keeps_def)

lemma then_recording: "payment_frame p q \<Longrightarrow> recording identity e q r \<Longrightarrow> recording identity e p r"
  unfolding recording_def by (metis payment_frame_def payment_frame_trans payment_keeps_def)

lemma observe_records:
  assumes ok: "charges_ok s" and run: "observe_processor_charge others clock fresh a e q s = Ok (out, s')"
  shows "list_ex (charge_records (attempt_identity a) e) (cs_charges s')"
proof (cases out)
  case (Owned r)
  with observe_owned_row [OF ok] run obtain row where "observed_row a e r s' row" by blast
  then show ?thesis
    by (auto simp: observed_row_def charge_records_def list_ex_iff split: option.splits)
next
  case OwnedByOtherAttempt
  with observe_other_owner run obtain t where "evidence_transaction_id e = Some t"
      "owned_by_other_attempt (attempt_identity a) t s'" by blast
  then show ?thesis by (auto simp: owned_by_other_attempt_def charge_records_def list_ex_iff)
qed

lemma observe_recording:
  assumes rely: "payment_rely (env_others env)" and run: "observe env a e q p = Ok (out, p')"
  shows "recording (attempt_identity a) e p p'"
proof -
  obtain s where s: "observe_processor_charge (env_others env) (env_clock env) (env_fresh_charge env) a e q
      (charge_view p) = Ok (out, s)" "p' = with_charges s p"
    using run by (auto simp: observe_def on_charges_Ok)
  have "evidence_recorded (attempt_identity a) e p'" if "payment_ok p"
    using observe_records [OF _ s(1)] that s(2) by (auto simp: payment_ok_def evidence_recorded_def)
  then show ?thesis using observe_frame [OF rely run] by (simp add: recording_def charges_frame_def)
qed

section \<open>Parking\<close>

lemma find_attempt_Ok:
  "find_attempt p identity = Ok a \<Longrightarrow> a \<in> set (db_attempts (pay_billing p)) \<and>
     attempt_key a = identity_attempt_id identity \<and>
     identity_billing_scope_id (attempt_identity a) = identity_billing_scope_id identity"
  by (auto simp: find_attempt_def find_payment_attempt_by_id_def find_Some_iff)

lemma matches_attempt_identity:
  "matches_attempt reservation a \<Longrightarrow> attempt_identity a = OutcomeReservation_identity reservation"
  by (cases reservation) (simp_all add: matches_exactly_def)

lemma lock_reservation_Ok:
  assumes "lock_expected_reservation_attempt p reservation = Ok a"
  shows "a \<in> set (db_attempts (pay_billing p))" and "attempt_identity a = OutcomeReservation_identity reservation"
    and "matches_attempt reservation a"
proof -
  have "matches_attempt reservation a" "find_attempt p (OutcomeReservation_identity reservation) = Ok a"
    using assms by (auto simp: lock_expected_reservation_attempt_def and_then_Inr_iff split: if_splits)
  then show "a \<in> set (db_attempts (pay_billing p))" "attempt_identity a = OutcomeReservation_identity reservation"
      "matches_attempt reservation a"
    by (auto dest: find_attempt_Ok matches_attempt_identity)
qed

lemma park_locked_frame: "park_locked_attempt env a e code message p = Ok (b, p') \<Longrightarrow> payment_frame p p'"
  by (auto simp: park_locked_attempt_def Let_def and_then_Inr_iff intro: transition_frame)

lemma park_expired_frame:
  "park_expired_period_approval env a i e p = Ok (result, event, p') \<Longrightarrow> payment_frame p p' \<and> event = None"
  unfolding park_expired_period_approval_def
  by (auto simp: and_then_Inr_iff dest!: expire_charge_frame charges_frame_frame park_locked_frame
      intro: payment_frame_trans)

lemma park_observed_frame:
  "park_observed_approval_if_period_expired env a observation e expired_end p = Ok (parked, p') \<Longrightarrow> payment_frame p p'"
  unfolding park_observed_approval_if_period_expired_def
  by (auto simp: and_then_Inr_iff split: option.splits if_splits ObservedCharge.splits
      dest!: expire_charge_frame charges_frame_frame park_expired_frame)

lemma park_compensated_recording:
  assumes rely: "payment_rely (env_others env)"
    and run: "park_compensated_approved_attempt env a e message expired_end p = Ok (b, p')"
  shows "recording (attempt_identity a) e p p'"
proof (cases "is_parked_expired_period_approval a")
  case True
  with run show ?thesis
    by (auto simp: park_compensated_approved_attempt_def and_then_Inr_iff intro: observe_recording [OF rely])
next
  case False
  then obtain observation p1 parked p2 where
    observe: "observe env a e ProcessorChargeProgression.Pending p = Ok (observation, p1)"
    and park: "park_observed_approval_if_period_expired env a observation e expired_end p1 = Ok (parked, p2)"
    and rest: "p' = p2 \<or> park_locked_attempt env a e None message p2 = Ok (b, p')"
    using run by (auto simp: park_compensated_approved_attempt_def and_then_Inr_iff split: option.splits)
  have "payment_frame p1 p'"
    using park_observed_frame [OF park] rest park_locked_frame payment_frame_trans by blast
  with observe_recording [OF rely observe] show ?thesis by (rule recording_then)
qed

lemma observe_parked_recording:
  assumes "payment_rely (env_others env)" and "observe_parked_expired_period_approval env a e p = Ok (result, event, p')"
  shows "recording (attempt_identity a) e p p' \<and> event = None"
  using assms(2) observe_recording [OF assms(1)]
  by (auto simp: observe_parked_expired_period_approval_def and_then_Inr_iff)

text \<open>A conflict is either absent, or recorded.\<close>

lemma stop_conflicting_cases:
  assumes rely: "payment_rely (env_others env)" and a: "a \<in> set (db_attempts (pay_billing p))"
    and run: "stop_conflicting_subscription_approval env a e p = Ok (stopped, diagnostics, p')"
  shows "if stopped = None then p' = p \<and> diagnostics = processor_identity_conflict_diagnostics a e
    else recording (attempt_identity a) e p p'"
proof -
  have same: "recording (attempt_identity a) e p p"
    if "PaymentAttempt_status a = PaymentAttemptStatus.Approved" "same_processor_transaction a e"
  proof -
    have "attempt_records (attempt_identity a) e a"
      using that unfolding attempt_records_def same_processor_transaction_def Let_def by metis
    with a show ?thesis unfolding recording_def evidence_recorded_def list_ex_iff by simp blast
  qed
  have observed: "recording (attempt_identity a) e p p2"
    if "observe env a e q p = Ok (observation, p1)" "p2 = p1 \<or> on_charges (\<lambda>s. map_sum id (Pair ())
        (promote_conflicting_charge_to_external_reversal (env_clock env) observation s)) p1 = Ok (x, p2)"
    for q observation p1 p2 x
    using observe_recording [OF rely that(1)] that(2) recording_then promote_frame charges_frame_frame by blast
  from run show ?thesis
    unfolding stop_conflicting_subscription_approval_def Let_def
    by (auto simp: and_then_Inr_iff split: if_splits dest: observed intro: same)
qed

section \<open>Advancing a subscription\<close>

lemma discount_advance_rows:
  assumes "advance_subscription_discount_after_successful_charge clock i plan_key db = Ok db'"
  shows "db_attempts db' = db_attempts db \<and> db_charges db' = db_charges db \<and> db_grants db' = db_grants db \<and>
    (db_subscriptions db' = db_subscriptions db \<or> (\<exists>amount. db_subscriptions db' =
       map (\<lambda>row. if row_id row = SubscriptionId_as_uuid i then row\<lparr>row_amount_cents := amount, row_updated_at := clock\<rparr>
         else row) (db_subscriptions db)))"
  using assms unfolding advance_subscription_discount_after_successful_charge_def Let_def
  by (auto simp: and_then_Inr_iff update_discounts_def update_subscriptions_def split: option.splits if_splits)

text \<open>One row of the subscriptions changes; attempts, charges and grants stay.\<close>

definition one_subscription_changes ::
    "(subscription_row \<Rightarrow> bool) \<Rightarrow> (subscription_row \<Rightarrow> subscription_row \<Rightarrow> bool) \<Rightarrow> payment_db \<Rightarrow> payment_db \<Rightarrow> bool" where
  "one_subscription_changes hit change p p' \<longleftrightarrow>
     (\<exists>row row'. row \<in> set (db_subscriptions (pay_billing p)) \<and> hit row \<and> change row row' \<and>
        db_subscriptions (pay_billing p') =
          map (\<lambda>s. if row_id s = row_id row then row' else s) (db_subscriptions (pay_billing p)))"

definition same_payments :: "payment_db \<Rightarrow> payment_db \<Rightarrow> bool" where
  "same_payments p p' \<longleftrightarrow> db_attempts (pay_billing p') = db_attempts (pay_billing p) \<and>
     db_charges (pay_billing p') = db_charges (pay_billing p) \<and> pay_charges p' = pay_charges p \<and> same_grants p p'"

lemma same_payments_refl [simp]: "same_payments p p"
  by (simp add: same_payments_def)

lemma same_payments_trans: "same_payments p q \<Longrightarrow> same_payments q r \<Longrightarrow> same_payments p r"
  by (simp add: same_payments_def)

lemma one_change_evolves:
  assumes distinct: "distinct_subscriptions p" and change: "one_subscription_changes hit change p p'"
    and evolves: "\<And>row row'. hit row \<Longrightarrow> change row row' \<Longrightarrow> subscription_evolves row row'"
  shows "list_all2 subscription_evolves (db_subscriptions (pay_billing p)) (db_subscriptions (pay_billing p'))"
proof -
  obtain row row' where row: "row \<in> set (db_subscriptions (pay_billing p))" "subscription_evolves row row'"
      "db_subscriptions (pay_billing p') =
        map (\<lambda>s. if row_id s = row_id row then row' else s) (db_subscriptions (pay_billing p))"
    using change evolves unfolding one_subscription_changes_def by blast
  have "s = row" if "s \<in> set (db_subscriptions (pay_billing p))" "row_id s = row_id row" for s
    using distinct row(1) that by (auto simp: distinct_map dest: inj_onD)
  then show ?thesis unfolding row(3) using row(2) by (intro list_all2_mapI) auto
qed

lemma evolved_ids: "list_all2 subscription_evolves rows rows' \<Longrightarrow> map row_id rows' = map row_id rows"
  by (induction rows rows' rule: list_all2_induct) (auto simp: subscription_evolves_def)

lemma subscription_change_keeps:
  assumes change: "one_subscription_changes hit change p p'" and same: "same_payments p p'"
    and evolves: "\<And>row row'. hit row \<Longrightarrow> change row row' \<Longrightarrow> subscription_evolves row row'"
  shows "payment_keeps p p'"
proof -
  have "payment_ok p' \<and> payment_evolves p p'" if ok: "payment_ok p"
  proof -
    have rows: "list_all2 subscription_evolves (db_subscriptions (pay_billing p)) (db_subscriptions (pay_billing p'))"
      using one_change_evolves [OF payment_ok_distinct [OF ok] change] evolves by blast
    note ids = evolved_ids [OF rows]
    have "charges_ok (charge_view p')" "charges_evolve (charge_view p) (charge_view p')"
      using ok same charges_ok_cong [of "charge_view p'" "charge_view p"]
      by (simp_all add: payment_ok_def same_payments_def)
    then show ?thesis
      using ok rows_evolveI [OF rows] ids same attempts_ok_cong [of "pay_billing p'" "pay_billing p"]
      by (simp add: payment_ok_def payment_evolves_def attempts_grow_same same_payments_def)
  qed
  then show ?thesis unfolding payment_keeps_def by blast
qed

lemma update_one_rows:
  assumes distinct: "distinct (map row_id (db_subscriptions (pay_billing p)))"
    and run: "update_one_subscription hit f p = Ok p'"
  shows "one_subscription_changes hit (\<lambda>row row'. row' = f row) p p' \<and> same_payments p p'"
proof -
  have one: "length (filter hit (db_subscriptions (pay_billing p))) = 1"
    and p': "p' = with_billing (snd (update_subscriptions hit f (pay_billing p))) p"
    using run by (auto simp: update_one_subscription_def Let_def split: if_splits)
  then obtain row where row: "filter hit (db_subscriptions (pay_billing p)) = [row]"
    by (auto simp: length_Suc_conv)
  then have member: "row \<in> set (db_subscriptions (pay_billing p))" "hit row"
    using set_filter [of hit "db_subscriptions (pay_billing p)"] by auto
  have "hit s \<longleftrightarrow> row_id s = row_id row" if s: "s \<in> set (db_subscriptions (pay_billing p))" for s
  proof
    assume "hit s"
    with s have "s \<in> set (filter hit (db_subscriptions (pay_billing p)))" by simp
    then show "row_id s = row_id row" by (simp add: row)
  next
    assume "row_id s = row_id row"
    with s member(1) distinct have "s = row" by (auto simp: distinct_map dest: inj_onD)
    with member(2) show "hit s" by simp
  qed
  moreover have "s = row" if "s \<in> set (db_subscriptions (pay_billing p))" "row_id s = row_id row" for s
    using distinct member(1) that by (auto simp: distinct_map dest: inj_onD)
  ultimately have "db_subscriptions (pay_billing p') =
      map (\<lambda>s. if row_id s = row_id row then f row else s) (db_subscriptions (pay_billing p))"
    unfolding p' by (auto simp: update_subscriptions_def)
  with member have "one_subscription_changes hit (\<lambda>row row'. row' = f row) p p'"
    unfolding one_subscription_changes_def by blast
  moreover have "same_payments p p'"
    unfolding p' by (simp add: same_payments_def update_subscriptions_def)
  ultimately show ?thesis ..
qed

lemma advance_discount_Ok:
  "advance_discount env i plan_key p = Ok p' \<longleftrightarrow>
     (\<exists>db. advance_subscription_discount_after_successful_charge (env_clock env) i plan_key (pay_billing p) = Ok db \<and>
        p' = with_billing db p)"
  by (auto simp: advance_discount_def map_sum_Inr_iff)

text \<open>The subscription that was paid; a discount that ends gives it another amount.\<close>

lemma advance_rows:
  assumes distinct: "distinct (map row_id (db_subscriptions (pay_billing p)))"
    and update: "update_one_subscription hit f p = Ok p1"
    and discount: "advance_discount env i plan_key p1 = Ok p'"
    and hit: "\<And>row. hit row \<Longrightarrow> row_id row = SubscriptionId_as_uuid i"
    and f: "\<And>row. row_id (f row) = row_id row" "\<And>row. row_updated_at (f row) = env_clock env"
  shows "one_subscription_changes hit (\<lambda>row row'. \<exists>amount. row' = (f row)\<lparr>row_amount_cents := amount\<rparr>) p p' \<and>
    same_payments p p'"
proof -
  obtain row where row: "row \<in> set (db_subscriptions (pay_billing p))" "hit row" "db_subscriptions (pay_billing p1) =
      map (\<lambda>s. if row_id s = row_id row then f row else s) (db_subscriptions (pay_billing p))"
    and same: "same_payments p p1"
    using update_one_rows [OF distinct update] unfolding one_subscription_changes_def by blast
  obtain db where db: "advance_subscription_discount_after_successful_charge (env_clock env) i plan_key (pay_billing p1) = Ok db"
      "p' = with_billing db p1"
    using discount by (auto simp: advance_discount_Ok)
  have amount: "(f row)\<lparr>row_amount_cents := row_amount_cents (f row)\<rparr> = f row"
      "(f row)\<lparr>row_amount_cents := a, row_updated_at := env_clock env\<rparr> = (f row)\<lparr>row_amount_cents := a\<rparr>" for a
    using f(2) [of row] by (cases "f row"; simp)+
  from discount_advance_rows [OF db(1)] consider "db_subscriptions db = db_subscriptions (pay_billing p1)"
    | amount where "db_subscriptions db = map (\<lambda>s. if row_id s = row_id row
        then s\<lparr>row_amount_cents := amount, row_updated_at := env_clock env\<rparr> else s) (db_subscriptions (pay_billing p1))"
    using hit [OF row(2)] by auto
  then have "\<exists>amount. db_subscriptions db = map (\<lambda>s. if row_id s = row_id row then (f row)\<lparr>row_amount_cents := amount\<rparr>
      else s) (db_subscriptions (pay_billing p))"
  proof cases
    case 1
    then show ?thesis unfolding row(3) by (intro exI [of _ "row_amount_cents (f row)"]) (simp add: amount(1))
  next
    case (2 amount)
    then show ?thesis unfolding row(3)
      by (intro exI [of _ amount]) (auto simp: f(1) amount(2))
  qed
  then have "one_subscription_changes hit (\<lambda>row row'. \<exists>amount. row' = (f row)\<lparr>row_amount_cents := amount\<rparr>) p p'"
    using row(1,2) unfolding one_subscription_changes_def db(2) with_billing_simps by blast
  moreover have "same_payments p p'"
    using same discount_advance_rows [OF db(1)] unfolding db(2) same_payments_def by simp
  ultimately show ?thesis ..
qed

lemma tables_frame:
  assumes "pay_billing p' = pay_billing p" and "pay_charges p' = pay_charges p"
  shows "payment_frame p p'"
proof -
  have "charges_ok (charge_view p') = charges_ok (charge_view p)" by (rule charges_ok_cong) (simp_all add: assms)
  then show ?thesis
    by (simp add: payment_frame_def payment_keeps_def payment_ok_def payment_evolves_def assms)
qed

lemma upsert_tables:
  "upsert_payment_method env a e p = Ok (method_id, p') \<Longrightarrow> pay_billing p' = pay_billing p \<and> pay_charges p' = pay_charges p"
  by (auto simp: upsert_payment_method_def Let_def and_then_Inr_iff split: option.splits)

lemma disable_tables [simp]:
  "pay_billing (disable_payment_method_if_unreferenced method_id p) = pay_billing p"
  "pay_charges (disable_payment_method_if_unreferenced method_id p) = pay_charges p"
  by (simp_all add: disable_payment_method_if_unreferenced_def)

end
