(* ===== verification/Approval_History.thy ===== *)
theory Approval_History
  imports Payment_History
begin

text \<open>
  What the shared steps of an approval promise: a step that returns no event writes no subscription and records
  the evidence, a payment that was finished has its attempt approved and its charge applied and can be replayed, and
  the loop over an approved outcome loses no evidence.  The locales state what an application has to provide for
  that; renewals, recoveries and replacements interpret them.
\<close>

section \<open>Approvals without an event\<close>

lemma terminal_approval_recording:
  assumes rely: "payment_rely (env_others env)"
    and run: "observe_approval_of_terminal_attempt env a approved expired_end diagnostics p = Ok (result, event, p')"
  shows "recording (attempt_identity a) (approved_inner approved) p p' \<and> event = None"
proof -
  let ?e = "approved_inner approved"
  have observed: "recording (attempt_identity a) ?e p p3"
    if "observe env a ?e ExternalReversalRequired p = Ok (observation, p1)" "payment_frame p1 p3" for observation p1 p3
    using observe_recording [OF rely that(1)] that(2) by (rule recording_then)
  have moved: "payment_frame p1 p3" if "move_charge env i ExternalReversalRequired None p1 = Ok p2"
      "park_observed_approval_if_period_expired env a observation ?e expired_end p2 = Ok (parked, p3)"
    for i p1 p2 observation parked p3
    using that move_charge_frame charges_frame_frame park_observed_frame payment_frame_trans by blast
  from run show ?thesis
    unfolding observe_approval_of_terminal_attempt_def Let_def
    by (auto simp: and_then_Inr_iff split: if_splits ObservedCharge.splits
        intro: observed moved park_observed_frame payment_frame_refl)
qed

lemma not_applied_Ok: "not_applied_without_event (b, p) = Ok (result, event, p') \<Longrightarrow> p' = p \<and> event = None"
  by (auto simp: not_applied_without_event_def)

lemma parked_frame:
  assumes "park_locked_attempt env a e code message p = Ok (b, p1)" "not_applied_without_event (b, p1) = Ok (result, event, p')"
  shows "payment_frame p p' \<and> event = None"
  using park_locked_frame [OF assms(1)] not_applied_Ok [OF assms(2)] by simp

lemma park_stale_frame:
  assumes "park_stale_approval env a e i q code message p = Ok (result, event, p')"
  shows "payment_frame p p' \<and> event = None"
proof -
  obtain p1 b p2 where move: "move_charge env i q (Some code) p = Ok p1"
    and park: "park_locked_attempt env a e (Some code) message p1 = Ok (b, p2)"
      "not_applied_without_event (b, p2) = Ok (result, event, p')"
    using assms by (auto simp: park_stale_approval_def and_then_Inr_iff)
  show ?thesis
    using parked_frame [OF park] payment_frame_trans [OF charges_frame_frame [OF move_charge_frame [OF move]]] by simp
qed

lemma primary_charge_cases:
  assumes rely: "payment_rely (env_others env)"
    and run: "with_primary_charge env a e q message primary p = Ok (result, event, p')"
  obtains (parked) "event = None" "recording (attempt_identity a) e p p'"
  | (primary) charge p1 where "observe env a e ProcessorChargeProgression.Pending p = Ok (Owned charge, p1)"
      "record_role charge = Primary" "primary (record_id charge) p1 = Ok (result, event, p')"
proof -
  obtain observation p1 where observe: "observe env a e ProcessorChargeProgression.Pending p = Ok (observation, p1)"
    using run by (auto simp: with_primary_charge_def and_then_Inr_iff)
  note recorded = recording_then [OF observe_recording [OF rely observe]]
  have locked: thesis if "park_locked_attempt env a e code m p2 = Ok (b, p3)" "payment_frame p1 p2"
      "not_applied_without_event (b, p3) = Ok (result, event, p')" for code m p2 b p3
    using that parked recorded parked_frame payment_frame_trans by blast
  have moved: thesis if "move_charge env i q None p1 = Ok p2" "park_locked_attempt env a e None message p2 = Ok (b, p3)"
      "not_applied_without_event (b, p3) = Ok (result, event, p')" for i p2 b p3
    using locked [OF that(2) _ that(3)] move_charge_frame [OF that(1)] charges_frame_frame by blast
  show thesis
  proof (cases observation)
    case OwnedByOtherAttempt
    with run observe show thesis
      by (auto simp: with_primary_charge_def and_then_Inr_iff intro: locked)
  next
    case (Owned charge)
    note body = run [unfolded with_primary_charge_def, simplified observe Owned, simplified]
    show thesis
    proof (cases "record_role charge = Additional")
      case True
      with body show thesis by (auto simp: and_then_Inr_iff intro: moved)
    next
      case False
      with body observe Owned show thesis by (intro primary) (auto intro: ProcessorChargeRole.exhaust)
    qed
  qed
qed

lemma not_terminal_resolvable:
  "\<not> PaymentAttemptStatus_is_terminal status \<longleftrightarrow> PaymentAttemptStatus_is_resolvable status"
  by (cases status) (simp_all add: PaymentAttemptStatus_is_terminal_def PaymentAttemptStatus_is_resolvable_def)

lemma resolvable_not_approved:
  "PaymentAttemptStatus_is_resolvable (PaymentAttempt_status a) \<Longrightarrow> PaymentAttempt_status a \<noteq> PaymentAttemptStatus.Approved"
  by (auto simp: PaymentAttemptStatus_is_resolvable_def)

lemma settle_cases:
  assumes rely: "payment_rely (env_others env)" and a: "a \<in> set (db_attempts (pay_billing p))"
    and terminal: "\<forall>diagnostics. terminal diagnostics p = Ok (result, event, p') \<longrightarrow>
      recording (attempt_identity a) e p p' \<and> event = None"
    and run: "settle_approval env subject a e has_period q message terminal open_attempt p = Ok (result, event, p')"
  obtains (recorded) "event = None" "recording (attempt_identity a) e p p'"
  | (opened) "PaymentAttemptStatus_is_resolvable (PaymentAttempt_status a)" "open_attempt p = Ok (result, event, p')"
proof -
  obtain stopped diagnostics p0 where
    stop: "stop_conflicting_subscription_approval env a e p = Ok (stopped, diagnostics, p0)"
    using run by (auto simp: settle_approval_def and_then_Inr_iff)
  note stopping = stop_conflicting_cases [OF rely a stop]
  note body = run [unfolded settle_approval_def, simplified stop and_then_simps prod.case]
  show thesis
  proof (cases stopped)
    case (Some payment)
    with body stopping show thesis by (auto intro: recorded)
  next
    case None
    with stopping have p0: "p0 = p" by simp
    note body = body [unfolded None p0, simplified]
    consider "PaymentAttempt_status a = PaymentAttemptStatus.Approved"
      | "PaymentAttempt_status a \<noteq> PaymentAttemptStatus.Approved" "has_period \<and> is_parked_expired_period_approval a"
      | "PaymentAttempt_status a \<noteq> PaymentAttemptStatus.Approved" "\<not> (has_period \<and> is_parked_expired_period_approval a)"
        "PaymentAttemptStatus_is_terminal (PaymentAttempt_status a)"
      | "PaymentAttemptStatus_is_resolvable (PaymentAttempt_status a)" "\<not> (has_period \<and> is_parked_expired_period_approval a)"
      using not_terminal_resolvable by blast
    then show thesis
    proof cases
      case 1
      with body show thesis by (auto elim!: and_then_OkE intro!: recorded dest: observe_recording [OF rely])
    next
      case 2
      with body show thesis by (auto intro!: recorded dest: observe_parked_recording [OF rely])
    next
      case 3
      with body show thesis by (auto split: if_splits intro!: recorded dest: terminal [rule_format])
    next
      case 4
      with body show thesis
        by (auto simp: not_terminal_resolvable [symmetric] resolvable_not_approved split: if_splits intro!: opened)
    qed
  qed
qed

section \<open>Payments that were finished\<close>

lemma finish_payment_cases:
  assumes "finish_payment env identity i charge event p = Ok (result, out, p')"
  obtains b subscription ev where "move_charge env charge ProcessorChargeProgression.Applied None p = Ok p'"
    "find_attempt p' identity = Ok b"
    "load_subscription p' (identity_billing_scope_id identity) i = Ok (Some subscription)"
    "event b = Ok ev" "out = Some ev" "payment_result_applied b subscription = Ok result"
  using assms unfolding finish_payment_def by (auto elim!: and_then_OkE)

lemma finish_payment_frame:
  "finish_payment env identity i charge event p = Ok (result, out, p') \<Longrightarrow> charges_frame p p'"
  by (erule finish_payment_cases) (rule move_charge_frame)

lemma renewed_event_Ok:
  "renewed_event identity (plan_key, period, expected) a = Ok ev \<Longrightarrow>
     \<exists>paid. ChargeAmount_money paid = request_amount (attempt_request a) \<and>
       ev = BillingEvent.SubscriptionRenewed (identity_attempt_id identity) (payment_state_subscription_id expected) plan_key paid period"
  by (auto simp: renewed_event_def map_sum_Inr_iff ChargeAmount_try_from_def split: if_splits)

lemma mark_frame: "mark_attempt_approved env a e i m p = Ok p' \<Longrightarrow> payment_frame p p'"
  unfolding mark_attempt_approved_def by (rule transition_frame)

lemma mark_charges: "mark_attempt_approved env a e i m p = Ok p' \<Longrightarrow> pay_charges p' = pay_charges p"
  by (auto simp: mark_attempt_approved_def on_attempts_Ok)

lemma transition_charge_row:
  assumes ok: "charges_ok s" and run: "transition_charge clock i q code s = Ok s'"
    and row: "c \<in> set (cs_charges s)" "charge_id c = i"
  obtains d where "d \<in> set (cs_charges s')" "charge_id d = i" "charge_progression d = q"
    "charge_attempt_id d = charge_attempt_id c" "charge_role d = charge_role c" "charge_evidence d = charge_evidence c"
    "transition_eligible q c"
proof -
  let ?f = "\<lambda>c. (set_progression clock q c)
    \<lparr>charge_state_code := updated_state_code (PreserveExisting (map_option PaymentResolution code)) (charge_state_code c),
     charge_externally_reversed_at := (if q = ExternallyReversed
       then Some (coalesced (charge_externally_reversed_at c) clock) else None)\<rparr>"
  let ?hit = "\<lambda>c. charge_progression c \<in> set [ProcessorChargeProgression.Pending, ReconciliationRequired,
      ExternalReversalRequired, ProcessorChargeProgression.Applied] \<and> transition_eligible q c"
  obtain out where "update_charge i ?hit ?f s = Ok (Some out, s')"
    using run by (auto simp: transition_charge_def transition_processor_charge_def and_then_Inr_iff)
  then show thesis
  proof (cases rule: update_charge_cases)
    case (2 c')
    have c: "c' = c" using charges_ok_id_eq [OF ok 2(2) row(1)] 2(3) row(2) by simp
    have "?f c \<in> set (cs_charges s')"
      using row imageI [OF row(1), of "\<lambda>d. if charge_id d = i then ?f d else d"] unfolding 2(7) by simp
    then show thesis using that [of "?f c"] row(2) 2(4) c by simp
  qed simp
qed

text \<open>
  The applied charge and the approved attempt of a payment whose charge was observed in \<open>p\<close> and whose attempt is
  marked in \<open>p2\<close>; in between and before the transition of the charge only other tables change.
\<close>

definition applied_charge :: "PaymentAttemptIdentity \<Rightarrow> ProcessorEvidence \<Rightarrow> stored_charge \<Rightarrow> bool" where
  "applied_charge identity e c \<longleftrightarrow> charge_attempt_id c = identity_attempt_id identity \<and>
     charge_transaction_id c = evidence_transaction_id e \<and> evidence_matches (charge_evidence c) e \<and>
     charge_progression c = ProcessorChargeProgression.Applied \<and> charge_role c = Primary \<and>
     evidence_transaction_id e \<noteq> None"

definition approved_attempt :: "PaymentAttemptIdentity \<Rightarrow> ProcessorEvidence \<Rightarrow> PaymentAttempt \<Rightarrow> bool" where
  "approved_attempt identity e a \<longleftrightarrow> attempt_identity a = identity \<and>
     PaymentAttempt_status a = PaymentAttemptStatus.Approved \<and> state_processor_evidence (attempt_state a) = e"

definition open_attempt_of :: "PaymentAttemptIdentity \<Rightarrow> PaymentAttempt \<Rightarrow> bool" where
  "open_attempt_of identity a \<longleftrightarrow> attempt_identity a = identity \<and>
     PaymentAttemptStatus_is_resolvable (PaymentAttempt_status a)"

lemma finished_charge:
  assumes ok: "payment_ok p" "payment_ok q"
    and observe: "observe env a e ProcessorChargeProgression.Pending p = Ok (Owned charge, p1)"
    and same: "pay_charges q = pay_charges p1"
    and finish: "finish_payment env identity i (record_id charge) event q = Ok (result, out, p')"
  shows "list_ex (applied_charge (attempt_identity a) e) (pay_charges p')"
proof -
  obtain s where s: "observe_processor_charge (env_others env) (env_clock env) (env_fresh_charge env) a e
      ProcessorChargeProgression.Pending (charge_view p) = Ok (Owned charge, s)" "p1 = with_charges s p"
    using observe by (auto simp: observe_def on_charges_Ok)
  with observe_owned_row [OF _ s(1)] ok(1) obtain row where row: "observed_row a e charge s row"
    by (auto simp: payment_ok_def)
  obtain s' where s': "transition_charge (env_clock env) (record_id charge) ProcessorChargeProgression.Applied None
      (charge_view q) = Ok s'" "p' = with_charges s' q"
    using finish by (elim finish_payment_cases) (auto simp: move_charge_Ok)
  have member: "row \<in> set (cs_charges (charge_view q))" "charge_id row = record_id charge"
    using row same s(2) by (simp_all add: observed_row_def)
  have "charges_ok (charge_view q)" using ok(2) by (simp add: payment_ok_def)
  from this s'(1) member obtain d where d: "d \<in> set (cs_charges s')" "charge_progression d = ProcessorChargeProgression.Applied"
      "charge_attempt_id d = charge_attempt_id row" "charge_role d = charge_role row" "charge_evidence d = charge_evidence row"
      "transition_eligible ProcessorChargeProgression.Applied row"
    by (rule transition_charge_row)
  then have "applied_charge (attempt_identity a) e d"
    using row by (auto simp: applied_charge_def observed_row_def transition_eligible_def)
  with d(1) s'(2) show ?thesis by (auto simp: list_ex_iff)
qed

lemma finished_attempt:
  assumes ok: "attempts_ok (pay_billing p2)"
    and a: "a \<in> set (db_attempts (pay_billing p2))" "attempt_identity a = identity"
    and mark: "mark_attempt_approved env a e i m p2 = Ok p3" and same: "pay_billing q = pay_billing p3"
    and finish: "finish_payment env identity i charge event q = Ok (result, out, p')"
  obtains b where "find_attempt p' identity = Ok b" "b \<in> set (db_attempts (pay_billing p'))"
    "transition_row (env_clock env) e PaymentAttemptStatus.Approved None (Some i) (Some m) a = Some b"
    "approved_attempt identity e b"
proof -
  from finish obtain b where move: "move_charge env charge ProcessorChargeProgression.Applied None q = Ok p'"
    and find: "find_attempt p' identity = Ok b"
    by (rule finish_payment_cases)
  obtain db where db: "persist_attempt_transition (env_clock env) a e
      (AttemptTransition.Approved (AttemptApproval.Subscription i m)) (pay_billing p2) = Ok db" "p3 = with_billing db p2"
    using mark by (auto simp: mark_attempt_approved_def on_attempts_Ok)
  from db(1) obtain a0 a' where a0: "a0 \<in> set (db_attempts (pay_billing p2))" "attempt_key a0 = attempt_key a"
      "transition_row (env_clock env) e PaymentAttemptStatus.Approved None (Some i) (Some m) a0 = Some a'"
      "db_attempts db = map (\<lambda>b. if attempt_key b = attempt_key a then a' else b) (db_attempts (pay_billing p2))"
    by (rule persist_row) simp
  have "a0 = a" using attempts_ok_key_eq [OF ok a0(1) a(1) a0(2)] .
  have rows: "db_attempts (pay_billing p') = db_attempts db"
    using move_charge_frame [OF move] same db(2) by (simp add: charges_frame_def)
  have b: "b \<in> set (db_attempts (pay_billing p'))" "attempt_key b = attempt_key a"
    using find_attempt_Ok [OF find] a(2) by simp_all
  then have "b = a'" unfolding rows a0(4) by (auto split: if_splits)
  moreover have "approved_attempt identity e a'"
    using a0(3) \<open>a0 = a\<close> a(2) by (auto simp: approved_attempt_def transition_row_def PaymentAttempt_status_def)
  ultimately show thesis using that find b(1) a0(3) \<open>a0 = a\<close> by simp
qed

text \<open>
  The chain of a payment: the charge is observed in \<open>p1\<close>, the subscription moved in \<open>p2\<close>, the attempt marked in \<open>p3\<close>, and
  up to \<open>q\<close> only other tables change.
\<close>

lemma paid_states:
  assumes ok: "payment_ok p" and rely: "payment_rely (env_others env)"
    and observe: "observe env a e ProcessorChargeProgression.Pending p = Ok (out, p1)"
    and advance: "payment_keeps p1 p2" "payment_ok p1 \<longrightarrow> same_payments p1 p2"
    and mark: "mark_attempt_approved env a e i m p2 = Ok p3"
    and rest: "pay_billing q = pay_billing p3" "pay_charges q = pay_charges p3"
    and finish: "finish_payment env identity j charge event q = Ok (result, ev, p')"
  shows "payment_ok p1" "payment_ok p2" "payment_ok q" "payment_ok p'"
    "db_attempts (pay_billing p2) = db_attempts (pay_billing p)" "pay_charges q = pay_charges p1"
    "db_subscriptions (pay_billing p') = db_subscriptions (pay_billing p2)"
    "db_subscriptions (pay_billing p1) = db_subscriptions (pay_billing p)"
proof -
  have frame: "charges_frame p p1" by (rule observe_frame [OF rely observe])
  show ok1: "payment_ok p1" using frame ok by (simp add: charges_frame_def payment_frame_def payment_keeps_def)
  then show ok2: "payment_ok p2" using advance(1) by (simp add: payment_keeps_def)
  have framed: "payment_frame p2 q" "payment_frame q p'"
    using payment_frame_trans [OF mark_frame [OF mark] tables_frame [OF rest]]
      charges_frame_frame [OF finish_payment_frame [OF finish]] by simp_all
  then show ok3: "payment_ok q" using ok2 by (simp add: payment_frame_def payment_keeps_def)
  then show "payment_ok p'" using framed(2) by (simp add: payment_frame_def payment_keeps_def)
  show "db_subscriptions (pay_billing p') = db_subscriptions (pay_billing p2)"
    using framed by (simp add: payment_frame_def)
  show "db_attempts (pay_billing p2) = db_attempts (pay_billing p)" "pay_charges q = pay_charges p1"
      "db_subscriptions (pay_billing p1) = db_subscriptions (pay_billing p)"
    using advance(2) ok1 mark_charges [OF mark] frame rest(2)
    by (simp_all add: same_payments_def charges_frame_def payment_frame_def)
qed

lemma paid_keeps:
  assumes rely: "payment_rely (env_others env)"
    and observe: "observe env a e ProcessorChargeProgression.Pending p = Ok (out, p1)"
    and advance: "payment_keeps p1 p2"
    and mark: "mark_attempt_approved env a e i m p2 = Ok p3"
    and rest: "pay_billing q = pay_billing p3" "pay_charges q = pay_charges p3"
    and finish: "finish_payment env identity j charge event q = Ok (result, ev, p')"
  shows "payment_keeps p p' \<and> (payment_ok p \<longrightarrow> evidence_recorded (attempt_identity a) e p')"
proof -
  have keeps: "payment_keeps p1 p'"
    using advance mark_frame [OF mark] tables_frame [OF rest] charges_frame_frame [OF finish_payment_frame [OF finish]]
      payment_keeps_trans payment_frame_keeps by meson
  have first: "payment_keeps p p1" "payment_ok p \<longrightarrow> evidence_recorded (attempt_identity a) e p1"
    using observe_recording [OF rely observe] by (simp_all add: recording_def payment_frame_def)
  then show ?thesis
    using keeps evidence_recorded_kept payment_keeps_trans unfolding payment_keeps_def by metis
qed

lemma paid_payment:
  assumes ok: "payment_ok p" and rely: "payment_rely (env_others env)"
    and a: "a \<in> set (db_attempts (pay_billing p))" "attempt_identity a = identity"
    and observe: "observe env a e ProcessorChargeProgression.Pending p = Ok (Owned charge, p1)"
    and advance: "payment_keeps p1 p2" "payment_ok p1 \<longrightarrow> same_payments p1 p2"
    and mark: "mark_attempt_approved env a e i m p2 = Ok p3"
    and rest: "pay_billing q = pay_billing p3" "pay_charges q = pay_charges p3"
    and finish: "finish_payment env identity i (record_id charge) event q = Ok (result, ev, p')"
  obtains b where "find_attempt p' identity = Ok b" "b \<in> set (db_attempts (pay_billing p'))"
    "transition_row (env_clock env) e PaymentAttemptStatus.Approved None (Some i) (Some m) a = Some b"
    "approved_attempt identity e b" "list_ex (applied_charge identity e) (pay_charges p')"
proof -
  note states = paid_states [OF ok rely observe advance mark rest finish]
  have "attempts_ok (pay_billing p2)" using states(2) by (simp add: payment_ok_def)
  from this a(1) [folded states(5)] a(2) mark rest(1) finish show thesis
  proof (rule finished_attempt)
    fix b
    assume "find_attempt p' identity = Ok b" "b \<in> set (db_attempts (pay_billing p'))"
      "transition_row (env_clock env) e PaymentAttemptStatus.Approved None (Some i) (Some m) a = Some b"
      "approved_attempt identity e b"
    then show thesis using that finished_charge [OF ok states(3) observe states(6) finish] a(2) by simp
  qed
qed

section \<open>Replays\<close>

lemma find_map: "find P (map f xs) = map_option f (find (P \<circ> f) xs)"
  by (induction xs) auto

lemma transition_unidentifiable:
  assumes "transition_charge clock i q code s = Ok s'" and "unidentifiable a e s"
  shows "unidentifiable a e s'"
proof -
  obtain out hit f where update: "update_charge i hit f s = Ok (out, s')"
    and f: "\<And>c. charge_attempt_id (f c) = charge_attempt_id c \<and> charge_evidence (f c) = charge_evidence c"
    using assms(1) unfolding transition_charge_def transition_processor_charge_def
    by (auto simp: and_then_Inr_iff)
  from update show ?thesis
  proof (cases rule: update_charge_cases)
    case 1
    with assms(2) show ?thesis by simp
  next
    case (2 c)
    let ?g = "\<lambda>d. if charge_id d = i then f d else d"
    have "matching_charge k None s' = map_option ?g (matching_charge k None s)" for k
      unfolding 2(7) by (simp add: matching_charge_def find_map comp_def f if_distrib cong: if_cong)
    then show ?thesis using assms(2) f by (auto simp: unidentifiable_def split: option.splits)
  qed
qed

lemma unidentifiable_cong:
  "attempt_key a = attempt_key b \<Longrightarrow> cs_charges s = cs_charges t \<Longrightarrow> unidentifiable a e s \<longleftrightarrow> unidentifiable b e t"
  by (simp add: unidentifiable_def matching_charge_def)

lemma no_conflict_with_own_evidence:
  "state_processor_evidence (attempt_state a) = e \<Longrightarrow> processor_identity_conflict_diagnostics a e = []"
  by (cases "evidence_transaction_id e"; cases "evidence_payment_method_reference e")
     (simp_all add: processor_identity_conflict_diagnostics_def conflict_diagnostics_def)

lemma attempts_ok_find:
  assumes "attempts_ok db" and "a \<in> set (db_attempts db)"
  shows "find (\<lambda>b. attempt_key b = attempt_key a) (db_attempts db) = Some a"
proof -
  obtain b where b: "find (\<lambda>b. attempt_key b = attempt_key a) (db_attempts db) = Some b"
    using assms(2) by (cases "find (\<lambda>b. attempt_key b = attempt_key a) (db_attempts db)") (auto simp: find_None_iff)
  then have "b \<in> set (db_attempts db)" "attempt_key b = attempt_key a" by (auto simp: find_Some_iff)
  with assms attempts_ok_key_eq b show ?thesis by blast
qed

lemma with_charges_same:
  "payment_ok p \<Longrightarrow> with_charges (charge_view p) p = p"
  by (simp add: payment_ok_def with_charges_def)

text \<open>A charge that was applied to an approved attempt is replayed by the next observation.\<close>

lemma applied_charge_replays:
  assumes ok: "payment_ok p" and b: "b \<in> set (db_attempts (pay_billing p))" and others: "env_others env = id"
    and charge: "list_ex (applied_charge (attempt_identity b) e) (pay_charges p)"
    and un: "unidentifiable b e (charge_view p)"
  shows "\<exists>out. observe env b e q p = Ok (out, p)"
proof -
  obtain c where c: "c \<in> set (pay_charges p)" "charge_attempt_id c = attempt_key b"
      "charge_transaction_id c = evidence_transaction_id e" "evidence_matches (charge_evidence c) e"
      "evidence_transaction_id e \<noteq> None"
    using charge unfolding list_ex_iff applied_charge_def by blast
  let ?r = "\<lparr>record_id = charge_id c, record_role = charge_role c, record_exact_replay = False\<rparr>"
  have "observed_row b e ?r (charge_view p) c" using c by (simp add: observed_row_def)
  moreover have "charge_attempt (charge_view p) (attempt_key b) = Some b"
    using attempts_ok_find [OF _ b] ok by (simp add: charge_attempt_def payment_ok_def)
  moreover have "charges_ok (charge_view p)" using ok by (simp add: payment_ok_def)
  ultimately have "observe_processor_charge id (env_clock env) (env_fresh_charge env) b e q (charge_view p) =
      Ok (Owned (?r\<lparr>record_exact_replay := True\<rparr>), charge_view p)"
    using un by (intro observed_row_replays) simp_all
  with others with_charges_same [OF ok] show ?thesis by (simp add: observe_def on_charges_def)
qed

text \<open>
  A finished payment: applying the same evidence again finds the attempt approved, observes its charge and changes nothing.
\<close>

lemma finished_payment_replays:
  assumes ok: "payment_ok p" "payment_ok q" "payment_ok p'" and others: "env_others env = id" "env_others env' = id"
    and observe: "observe env a e ProcessorChargeProgression.Pending p = Ok (Owned charge, p1)"
    and same: "pay_charges q = pay_charges p1"
    and finish: "finish_payment env identity i (record_id charge) event q = Ok (result, out, p')"
    and b: "find_attempt p' identity = Ok b" "b \<in> set (db_attempts (pay_billing p'))" "approved_attempt identity e b"
    and a: "attempt_identity a = identity" and sub: "attempt_subscription_id b = Some i"
  shows "settle_approval env' subject b e has_period replayed message terminal open_attempt p' = Ok (result, None, p')"
proof -
  have charge: "list_ex (applied_charge identity e) (pay_charges p')"
    using finished_charge [OF ok(1,2) observe same finish] a by simp
  obtain s where s: "observe_processor_charge id (env_clock env) (env_fresh_charge env) a e
      ProcessorChargeProgression.Pending (charge_view p) = Ok (Owned charge, s)" "p1 = with_charges s p"
    using observe others by (auto simp: observe_def on_charges_Ok)
  have "evidence_transaction_id e \<noteq> None" using charge unfolding list_ex_iff applied_charge_def by blast
  then have "unidentifiable a e s"
    using observe_leaves_row [OF _ s(1)] ok(1) by (simp add: payment_ok_def)
  then have before: "unidentifiable a e (charge_view q)"
    using unidentifiable_cong [of a a s "charge_view q"] same s(2) by simp
  obtain s' where s': "transition_charge (env_clock env) (record_id charge) ProcessorChargeProgression.Applied None
      (charge_view q) = Ok s'" "p' = with_charges s' q"
    using finish by (elim finish_payment_cases) (auto simp: move_charge_Ok)
  have "unidentifiable b e (charge_view p')"
    using transition_unidentifiable [OF s'(1) before] unidentifiable_cong [of a b s' "charge_view p'"] a b(3) s'(2)
    by (simp add: approved_attempt_def)
  with charge b(3) obtain seen where seen: "observe env' b e replayed p' = Ok (seen, p')"
    using applied_charge_replays [OF ok(3) b(2) others(2)] by (auto simp: approved_attempt_def)
  obtain subscription where "load_subscription p' (identity_billing_scope_id identity) i = Ok (Some subscription)"
      "payment_result_applied b subscription = Ok result"
    using finish b(1) by (elim finish_payment_cases) simp
  then show ?thesis
    using seen b(3) sub no_conflict_with_own_evidence [of b e]
    by (simp add: settle_approval_def stop_conflicting_subscription_approval_def load_applied_subscription_def
        approved_attempt_def)
qed

lemma transition_links:
  assumes "transition_row clock e status code (Some i) (Some m) a = Some b"
  shows "attempt_subscription_id b = Some i" "target_payment_method_id (request_target (attempt_request b)) = Some m"
proof -
  obtain target where "link_target (Some i) (Some m) (request_target (attempt_request a)) = Some target"
      "request_target (attempt_request b) = target"
    using assms by (auto simp: transition_row_def)
  then have "target_subscription_id (request_target (attempt_request b)) = Some i \<and>
      target_payment_method_id (request_target (attempt_request b)) = Some m"
    by (auto simp: coalesced_def elim!: link_target.elims split: option.splits)
  then show "attempt_subscription_id b = Some i" "target_payment_method_id (request_target (attempt_request b)) = Some m"
    by simp_all
qed

lemma paid_replays:
  assumes ok: "payment_ok p" and others: "env_others env = id" "env_others env' = id"
    and a: "a \<in> set (db_attempts (pay_billing p))" "attempt_identity a = identity"
    and observe: "observe env a e ProcessorChargeProgression.Pending p = Ok (Owned charge, p1)"
    and advance: "payment_keeps p1 p2" "payment_ok p1 \<longrightarrow> same_payments p1 p2"
    and mark: "mark_attempt_approved env a e i m p2 = Ok p3"
    and rest: "pay_billing q = pay_billing p3" "pay_charges q = pay_charges p3"
    and finish: "finish_payment env identity i (record_id charge) event q = Ok (result, ev, p')"
    and b: "find_attempt p' identity = Ok b"
  shows "settle_approval env' subject b e has_period replayed message terminal open_attempt p' = Ok (result, None, p')"
proof -
  have rely: "payment_rely (env_others env)" by (simp add: others payment_rely_def charges_rely_def)
  note states = paid_states [OF ok rely observe advance mark rest finish]
  from ok rely a observe advance mark rest finish obtain b' where b': "find_attempt p' identity = Ok b'"
      "b' \<in> set (db_attempts (pay_billing p'))" "approved_attempt identity e b'" "attempt_subscription_id b' = Some i"
    by (rule paid_payment) (auto dest: transition_links)
  with b have "b' = b" by simp
  from finished_payment_replays [OF ok states(3,4) others observe states(6) finish b'(1-3) a(2) b'(4)] show ?thesis
    unfolding \<open>b' = b\<close> .
qed

end
