(* ===== verification/Payment_Runs.thy ===== *)
theory Payment_Runs
  imports Approval_History
begin

text \<open>
  The transactions of a call: each may fail, others commit in between, and a loop repeats them.  The locale
  \<open>payment_operation\<close> is what a transaction keeps, \<open>recording_operation\<close> what one that records approved evidence promises,
  and \<open>approved_outcome\<close> joins the ones of a payment; from its laws follows that the whole call keeps the
  invariant and loses no approval.
\<close>

section \<open>Transactions that keep the invariant, and those that record evidence\<close>

text \<open>
  The rely on others.  What they commit between the transactions of a call keeps the invariant as well, and lets attempts, charges and
  subscriptions only evolve or be added; while a statement waits they commit charges only.  Every call below and every reservation
  meets it (\<open>payment_call_keeps\<close>, \<open>reserve_attempt_keeps\<close>).
\<close>

definition run_rely :: "payment_run \<Rightarrow> bool" where
  "run_rely run \<longleftrightarrow>
     (\<forall>n. payment_rely (env_others (run_env run n)) \<and> (\<forall>p. payment_keeps p (run_between run n p)))"

locale payment_operation =
  fixes op :: "payment_env \<Rightarrow> payment_db \<Rightarrow> ('a \<times> payment_db, SubscriptionEnrollmentApplicationError) result"
  assumes op_keeps: "payment_rely (env_others env) \<Longrightarrow> op env p = Ok (x, p') \<Longrightarrow> payment_keeps p p'"
begin

lemma transact_keeps:
  assumes "run_rely run" and "transact run n op p = (out, p')"
  shows "payment_keeps p p'"
proof -
  let ?p = "run_between run n p"
  have between: "payment_keeps p ?p" using assms(1) by (simp add: run_rely_def)
  have "p' = ?p \<or> (\<exists>x. op (run_env run n) ?p = Ok (x, p'))"
    using assms(2) by (auto simp: transact_def Let_def split: option.splits sum.splits)
  then have "payment_keeps ?p p'"
    using op_keeps assms(1) unfolding run_rely_def by (metis payment_keeps_refl)
  with between show ?thesis by (rule payment_keeps_trans)
qed

lemma retry_keeps:
  assumes "run_rely run"
  shows "retry run op again ns p = (out, p') \<Longrightarrow> payment_keeps p p'"
proof (induction ns arbitrary: p)
  case (Cons n ns)
  obtain out1 p1 where first: "transact run n op p = (out1, p1)" by (cases "transact run n op p")
  have "payment_keeps p p1" using assms first by (rule transact_keeps)
  moreover have "p' = p1 \<or> payment_keeps p1 p'"
    using Cons first by (cases out1) (auto split: if_splits)
  ultimately show ?case using payment_keeps_trans by blast
qed simp

end

text \<open>What a call keeps, and that it records the evidence when it returns a result.\<close>

definition settles ::
    "PaymentAttemptIdentity \<Rightarrow> ProcessorEvidence \<Rightarrow> payment_db \<Rightarrow> (SubscriptionEnrollmentApplicationError + 'b) \<times> payment_db \<Rightarrow> bool" where
  "settles identity e p outcome \<longleftrightarrow> payment_keeps p (snd outcome) \<and>
     (payment_ok p \<longrightarrow> (\<exists>x. fst outcome = Inr x) \<longrightarrow> evidence_recorded identity e (snd outcome))"

lemma settles_after: "payment_keeps p q \<Longrightarrow> settles identity e q outcome \<Longrightarrow> settles identity e p outcome"
  unfolding settles_def using payment_keeps_trans by (auto simp: payment_keeps_def)

locale recording_operation = payment_operation op
  for op :: "payment_env \<Rightarrow> payment_db \<Rightarrow> ('a \<times> payment_db, SubscriptionEnrollmentApplicationError) result" +
  fixes identity :: PaymentAttemptIdentity and e :: ProcessorEvidence
  assumes op_records: "payment_rely (env_others env) \<Longrightarrow> payment_ok p \<Longrightarrow> op env p = Ok (x, p') \<Longrightarrow>
    evidence_recorded identity e p'"
begin

lemma transact_records:
  assumes "run_rely run" and "payment_ok p" and "transact run n op p = (Inr x, p')"
  shows "evidence_recorded identity e p'"
proof -
  let ?p = "run_between run n p"
  have "payment_ok ?p" using assms(1,2) by (simp add: run_rely_def payment_keeps_def)
  moreover have "op (run_env run n) ?p = Ok (x, p')"
    using assms(3) by (auto simp: transact_def Let_def split: option.splits sum.splits)
  ultimately show ?thesis using op_records assms(1) unfolding run_rely_def by blast
qed

lemma retry_records:
  assumes "run_rely run"
  shows "payment_ok p \<Longrightarrow> retry run op again ns p = (Some (Inr x), p') \<Longrightarrow> evidence_recorded identity e p'"
proof (induction ns arbitrary: p)
  case (Cons n ns)
  obtain out1 p1 where first: "transact run n op p = (out1, p1)" by (cases "transact run n op p")
  show ?case
  proof (cases out1)
    case (Inl e1)
    then have "payment_ok p1" using transact_keeps [OF assms first] Cons.prems(1) by (simp add: payment_keeps_def)
    with Cons Inl first show ?thesis by (auto split: if_splits)
  next
    case (Inr y)
    with Cons.prems first have "p' = p1" by simp
    with transact_records [OF assms Cons.prems(1)] first Inr show ?thesis by blast
  qed
qed simp

text \<open>A transaction, and a loop with something to fall back to.\<close>

lemma transact_settles: "run_rely run \<Longrightarrow> settles identity e p (transact run n op p)"
  using transact_keeps transact_records unfolding settles_def by (metis prod.collapse)

lemma retry_settles:
  assumes rely: "run_rely run" and rest: "\<And>q. settles identity e q (rest q)"
  shows "settles identity e p (case retry run op again ns p of (Some result, p) \<Rightarrow> (result, p) | (None, p) \<Rightarrow> rest p)"
proof -
  obtain out q where tried: "retry run op again ns p = (out, q)" by (cases "retry run op again ns p")
  have keeps: "payment_keeps p q" by (rule retry_keeps [OF rely tried])
  show ?thesis
  proof (cases out)
    case None
    with tried settles_after [OF keeps rest] show ?thesis by simp
  next
    case (Some result)
    with tried keeps retry_records [OF rely] show ?thesis by (auto simp: settles_def)
  qed
qed

end

lemma recordingD: "recording identity e p p' \<Longrightarrow> payment_keeps p p' \<and> (payment_ok p \<longrightarrow> evidence_recorded identity e p')"
  by (simp add: recording_def payment_frame_def)

lemma recorded_then_keeps:
  assumes "payment_keeps p q \<and> (payment_ok p \<longrightarrow> evidence_recorded identity e q)" and "payment_keeps q r"
  shows "payment_keeps p r \<and> (payment_ok p \<longrightarrow> evidence_recorded identity e r)"
  using assms evidence_recorded_kept payment_keeps_trans unfolding payment_keeps_def by metis

lemma try_park_recording:
  assumes rely: "payment_rely (env_others env)"
    and run: "try_park_approved_outcome reservation e expired_end message env p = Ok (result, p')"
  shows "recording (OutcomeReservation_identity reservation) e p p'"
proof -
  obtain a where a: "lock_expected_reservation_attempt p reservation = Ok a"
    using run unfolding try_park_approved_outcome_def Let_def by (elim and_then_OkE)
  note identity = lock_reservation_Ok(2) [OF a]
  note body = run [unfolded try_park_approved_outcome_def Let_def, simplified a and_then_simps]
  have once: "recording (OutcomeReservation_identity reservation) e p p1" if "observe env a e q p = Ok (observation, p1)" for q observation p1
    using observe_recording [OF rely that] identity by simp
  have compensated: "recording (OutcomeReservation_identity reservation) e p p1"
    if "park_compensated_approved_attempt env a e message expired_end p = Ok (b, p1)" for b p1
    using park_compensated_recording [OF rely that] identity by simp
  have observed: "recording (OutcomeReservation_identity reservation) e p p2"
    if "observe env a e q p = Ok (observation, p1)"
      "park_observed_approval_if_period_expired env a observation e expired_end p1 = Ok (parked, p2)"
    for q observation p1 parked p2
    using once [OF that(1)] park_observed_frame [OF that(2)] by (rule recording_then)
  consider "PaymentAttempt_status a = PaymentAttemptStatus.Approved"
    | "PaymentAttempt_status a \<noteq> PaymentAttemptStatus.Approved" "PaymentAttemptStatus_is_terminal (PaymentAttempt_status a)"
    | "\<not> PaymentAttemptStatus_is_terminal (PaymentAttempt_status a)"
      "PaymentAttempt_status a \<noteq> PaymentAttemptStatus.Approved"
    by (auto simp: PaymentAttemptStatus_is_terminal_def)
  then show ?thesis
  proof cases
    case 1
    with body show ?thesis by (auto simp: and_then_Inr_iff intro: once)
  next
    case 2
    with body show ?thesis by (auto simp: and_then_Inr_iff split: if_splits intro: observed)
  next
    case 3
    with body show ?thesis by (auto simp: and_then_Inr_iff intro: compensated)
  qed
qed

interpretation parking: recording_operation "try_park_approved_outcome reservation e expired_end message"
    "OutcomeReservation_identity reservation" e for reservation e expired_end message
  by unfold_locales (use try_park_recording recordingD in blast)+

lemma observe_evidence_recording:
  assumes rely: "payment_rely (env_others env)"
    and run: "observe_approved_evidence reservation e expired_end env p = Ok (x, p')"
  shows "recording (OutcomeReservation_identity reservation) e p p'"
proof -
  obtain a observation p1 parked where lock: "lock_expected_reservation_attempt p reservation = Ok a"
    and observe: "observe env a e ProcessorChargeProgression.Pending p = Ok (observation, p1)"
    and park: "park_observed_approval_if_period_expired env a observation e expired_end p1 = Ok (parked, p')"
    using run unfolding observe_approved_evidence_def by (auto simp: and_then_Inr_iff)
  from recording_then [OF observe_recording [OF rely observe] park_observed_frame [OF park]] show ?thesis
    by (simp add: lock_reservation_Ok(2) [OF lock])
qed

interpretation observing: recording_operation "observe_approved_evidence reservation e expired_end"
    "OutcomeReservation_identity reservation" e for reservation e expired_end
  by unfold_locales (use observe_evidence_recording recordingD in blast)+

interpretation reading: payment_operation "read_pending_confirmation has_period identity approved"
  for has_period identity approved
  by unfold_locales (auto simp: read_pending_confirmation_def and_then_Inr_iff)

section \<open>The write that takes no lock\<close>

lemma insert_charge_attempts: "insert_charge clash c s = Ok (out, s') \<Longrightarrow> cs_attempts s' = cs_attempts s"
  by (auto simp: insert_charge_def and_then_Inr_iff split: if_splits)

lemma lock_free_attempts:
  assumes others: "\<forall>n s. cs_attempts (others n s) = cs_attempts s"
    and run: "persist_approved_evidence_without_attempt_lock_with_policy others clock fresh terms e policy s = Ok (out, s')"
  shows "cs_attempts s' = cs_attempts s"
proof -
  have tried: "cs_attempts s2 = cs_attempts s1" if "lock_free_try others n clock i terms e policy s1 = Ok (x, s2)" for n i s1 x s2
    using that others unfolding lock_free_try_def Let_def by (auto dest: insert_charge_attempts)
  have replayed: "cs_attempts s2 = cs_attempts s1" if "lock_free_replay others terms e s1 = (x, s2)" for s1 x s2
    using lock_free_replay_states [OF that] others by metis
  from run show ?thesis by (cases rule: lock_free_cases) (use tried replayed others in auto)
qed

lemma lock_free_records:
  assumes ok: "charges_ok s" and rely: "\<forall>n. charges_rely (others n)"
    and run: "persist_approved_evidence_without_attempt_lock_with_policy others clock fresh terms e policy s = Ok (out, s')"
    and durable: "out \<noteq> LockFreeNotDurable"
  shows "list_ex (charge_records (lock_free_identity terms) e) (cs_charges s')"
proof -
  have mine: ?thesis if "c \<in> set (cs_charges s')" "charge_attempt_id c = identity_attempt_id (lock_free_identity terms)"
      "charge_transaction_id c = evidence_transaction_id e" "evidence_matches (charge_evidence c) e" for c
    using that by (auto simp: list_ex_iff charge_records_def split: option.splits)
  have inserted: ?thesis if "lock_free_try others n clock i terms e policy s1 = Ok (Some j, s')" for n i s1 j
    using lock_free_try_row [OF that] mine by (auto simp: evidence_matches_def)
  from run show ?thesis
  proof (cases rule: lock_free_cases)
    case (neither s1 s2)
    have "charges_ok s1" using lock_free_try_keeps [OF ok rely neither(1)] by blast
    then have "charges_ok s2" using lock_free_try_keeps [OF _ rely neither(2)] by blast
    from lock_free_replay_truthful [OF this rely neither(3)] durable show ?thesis
      by (cases out)
         (auto simp: lock_free_match_def lock_free_other_owner_def list_ex_iff charge_records_def split: option.splits)
  qed (use inserted in auto)
qed

lemma transact_cases:
  assumes "transact run n op p = (out, p')"
  obtains (failed) err where "out = Inl err" "p' = run_between run n p"
  | (committed) x where "out = Inr x \<or> (\<exists>err. out = Inl err)" "op (run_env run n) (run_between run n p) = Ok (x, p')"
  using assms by (auto simp: transact_def Let_def split: option.splits sum.splits)

lemma lock_free_write_Ok:
  "persist_approved_evidence_without_attempt_lock others clock fresh terms e policy p = Ok p' \<longleftrightarrow>
     (\<exists>seen s. persist_approved_evidence_without_attempt_lock_with_policy others clock fresh terms e policy (charge_view p) =
        Ok (seen, s) \<and> seen \<noteq> LockFreeNotDurable \<and> p' = with_charges s p)"
  unfolding persist_approved_evidence_without_attempt_lock_def
  by (auto simp: and_then_Inr_iff on_charges_Ok)

text \<open>A transaction that commits only what the write stored, under whichever policy.\<close>

lemma lock_free_transaction_records:
  assumes rely: "run_rely run" and run: "transact run lock_free_statement op p = (out, p')"
    and writes: "\<And>env q x q'. op env q = Ok (x, q') \<Longrightarrow> \<exists>clock fresh policy.
      persist_approved_evidence_without_attempt_lock (\<lambda>n. env_others (run_env run (lock_free_statement + n))) clock fresh terms e
        policy q = Ok q'"
  shows "payment_keeps p p' \<and> (payment_ok p \<longrightarrow> out = Inr x \<longrightarrow> evidence_recorded (lock_free_identity terms) e p')"
proof -
  let ?p = "run_between run lock_free_statement p"
  let ?others = "\<lambda>n. env_others (run_env run (lock_free_statement + n))"
  have between: "payment_keeps p ?p" using rely by (simp add: run_rely_def)
  have others: "\<forall>n. charges_rely (?others n)" "\<forall>n s. cs_attempts (?others n s) = cs_attempts s"
    using rely by (auto simp: run_rely_def payment_rely_def)
  from run show ?thesis
  proof (cases rule: transact_cases)
    case failed
    with between show ?thesis by simp
  next
    case (committed y)
    from writes [OF committed(2)] obtain clock fresh policy seen s where written: "persist_approved_evidence_without_attempt_lock_with_policy ?others
        clock fresh terms e policy (charge_view ?p) = Ok (seen, s)" "seen \<noteq> LockFreeNotDurable" "p' = with_charges s ?p"
      by (auto simp: lock_free_write_Ok)
    have "charges_frame ?p p'"
      unfolding written(3)
      by (rule charges_frameI) (use lock_free_keeps [OF _ others(1) written(1)] lock_free_attempts [OF others(2) written(1)] in simp_all)
    moreover have "evidence_recorded (lock_free_identity terms) e p'" if "payment_ok ?p"
      using lock_free_records [OF _ others(1) written(1,2)] that
      by (simp add: payment_ok_def evidence_recorded_def written(3))
    ultimately show ?thesis
      using between payment_keeps_trans unfolding charges_frame_def payment_frame_def payment_keeps_def by blast
  qed
qed

lemma write_without_lock_records:
  assumes rely: "run_rely run" and run: "write_without_lock run terms e expired_end p = (out, p')"
  shows "payment_keeps p p' \<and> (payment_ok p \<longrightarrow> out = Inr () \<longrightarrow> evidence_recorded (lock_free_identity terms) e p')"
  using rely run [unfolded write_without_lock_def]
  by (rule lock_free_transaction_records) (auto simp: map_sum_Inr_iff)

section \<open>The loop over an approved outcome\<close>

locale approved_outcome =
  fixes identity :: PaymentAttemptIdentity and e :: ProcessorEvidence
    and applying :: "payment_env \<Rightarrow> payment_db \<Rightarrow>
      ((SubscriptionEnrollmentPaymentResult \<times> BillingEvent list) \<times> payment_db, SubscriptionEnrollmentApplicationError) result"
    and parking :: "rstring \<Rightarrow> payment_env \<Rightarrow> payment_db \<Rightarrow>
      (SubscriptionEnrollmentPaymentResult \<times> payment_db, SubscriptionEnrollmentApplicationError) result"
    and observing :: "payment_env \<Rightarrow> payment_db \<Rightarrow> (unit \<times> payment_db, SubscriptionEnrollmentApplicationError) result"
    and last_resort :: "payment_run \<Rightarrow> payment_db \<Rightarrow> (unit, SubscriptionEnrollmentApplicationError) result \<times> payment_db"
    and reading :: "payment_env \<Rightarrow> payment_db \<Rightarrow>
      (SubscriptionEnrollmentPaymentResult \<times> payment_db, SubscriptionEnrollmentApplicationError) result"
  assumes applying: "recording_operation applying identity e"
    and parking: "\<And>message. recording_operation (parking message) identity e"
    and observing: "recording_operation observing identity e"
    and last_resort: "\<And>run p out p'. run_rely run \<Longrightarrow> last_resort run p = (out, p') \<Longrightarrow>
      payment_keeps p p' \<and> (payment_ok p \<longrightarrow> out = Inr () \<longrightarrow> evidence_recorded identity e p')"
    and reading: "payment_operation reading"
begin

lemma evidence_kept:
  assumes rely: "run_rely run"
  shows "settles identity e p (observe_approved_evidence_with_retry run observing (last_resort run) p)"
proof -
  have "settles identity e q (last_resort run q)" for q
    using last_resort [OF rely, of q] by (cases "last_resort run q") (auto simp: settles_def)
  from recording_operation.retry_settles [OF observing rely this] show ?thesis
    unfolding observe_approved_evidence_with_retry_def .
qed

lemma parked_outcome:
  assumes rely: "run_rely run"
  shows "settles identity e p (park_approved_outcome run (parking message)
    (observe_approved_evidence_with_retry run observing (last_resort run)) reading p)"
proof -
  obtain out1 p1 where first: "transact run parking_transaction (parking message) p = (out1, p1)"
    by (cases "transact run parking_transaction (parking message) p")
  have keeps1: "payment_keeps p p1"
    using parking recording_operation.axioms(1) payment_operation.transact_keeps rely first by blast
  obtain out2 p2 where second: "observe_approved_evidence_with_retry run observing (last_resort run) p1 = (out2, p2)"
    by (cases "observe_approved_evidence_with_retry run observing (last_resort run) p1")
  have kept: "settles identity e p1 (out2, p2)" using evidence_kept [OF rely, of p1] second by simp
  obtain out3 p3 where third: "transact run reading_transaction reading p2 = (out3, p3)"
    by (cases "transact run reading_transaction reading p2")
  have keeps3: "payment_keeps p2 p3" using reading payment_operation.transact_keeps rely third by blast
  show ?thesis
  proof (cases out1)
    case (Inr x)
    with first keeps1 recording_operation.transact_records [OF parking rely] show ?thesis
      by (auto simp: park_approved_outcome_def settles_def)
  next
    case (Inl err)
    have "settles identity e p1 (case out2 of Inl e \<Rightarrow> (Inl e, p2) | Inr _ \<Rightarrow> (out3, p3))"
    proof (cases out2)
      case Inl
      with kept show ?thesis by (auto simp: settles_def)
    next
      case Inr
      with kept keeps3 evidence_recorded_kept payment_keeps_trans show ?thesis
        by (auto simp: settles_def) (metis payment_keeps_def)
    qed
    with keeps1 Inl first second third show ?thesis
      by (cases out2) (auto simp: park_approved_outcome_def intro: settles_after)
  qed
qed

lemma applied_outcome:
  assumes rely: "run_rely run"
  shows "settles identity e p (apply_approved_outcome run identified applying
    (\<lambda>message. park_approved_outcome run (parking message)
      (observe_approved_evidence_with_retry run observing (last_resort run)) reading) incomplete failure p)"
proof -
  have parked: "settles identity e q (map_prod (map_sum id (\<lambda>result. (result, []))) id (park_approved_outcome run (parking message)
      (observe_approved_evidence_with_retry run observing (last_resort run)) reading q))" for message q
    using parked_outcome [OF rely, of q message] by (auto simp: settles_def map_sum_Inr_iff)
  from recording_operation.retry_settles [OF applying rely parked] show ?thesis
    by (simp add: apply_approved_outcome_def Let_def parked)
qed

end

section \<open>Outcomes that were not approved\<close>

lemma cooldown_frame: "commit_rate_limit_cooldown clock reservation cooldown p = Ok p' \<Longrightarrow> payment_frame p p'"
  unfolding commit_rate_limit_cooldown_def commit_rate_limit_cooldown_for_identity_def persist_rate_limit_cooldown_def
    persist_bound_provider_rate_limit_cooldown_def Let_def
  by (rule tables_frame) (auto split: if_splits)

lemma after_cooldown_keeps:
  assumes between: "\<forall>p. payment_keeps p (between p)"
    and op: "\<And>p x p'. op p = Ok (x, p') \<Longrightarrow> payment_keeps p p'"
    and run: "after_cooldown clock between reservation cooldown op p = (out, p')"
  shows "payment_keeps p p'"
proof -
  have second: "payment_keeps p1 p'"
    if "(case op (between p1) of Inl e \<Rightarrow> (Err e, between p1) | Inr (x, p') \<Rightarrow> (Ok x, p')) = (out, p')" for p1
  proof -
    have "p' = between p1 \<or> (\<exists>x. op (between p1) = Ok (x, p'))" using that by (auto split: sum.splits)
    then have "payment_keeps (between p1) p'" using op by (metis payment_keeps_refl)
    with between payment_keeps_trans show ?thesis by blast
  qed
  show ?thesis
  proof (cases "case cooldown of None \<Rightarrow> Ok p | Some c \<Rightarrow> commit_rate_limit_cooldown clock reservation c p")
    case (Inl e)
    with run show ?thesis by (simp add: after_cooldown_def)
  next
    case (Inr p1)
    then have "payment_keeps p p1" using cooldown_frame payment_frame_keeps by (cases cooldown) auto
    moreover have "payment_keeps p1 p'" using run Inr by (intro second) (simp add: after_cooldown_def Let_def)
    ultimately show ?thesis by (rule payment_keeps_trans)
  qed
qed

lemma resolved_then_cleared_frame:
  assumes persist: "on_attempts (persist_attempt_transition clock a e (Resolved status code)) p = Ok p1"
    and clear: "p2 = p1 \<or> clear_resolved_attempt_submission env a p1 = Ok p2"
  shows "payment_frame p p2"
proof -
  have "payment_frame p1 p2" using clear clear_frame resolved_not_approved [OF persist] by (metis payment_frame_refl)
  with transition_frame [OF persist] show ?thesis by (rule payment_frame_trans)
qed

lemma resolve_locked_frame:
  assumes rely: "payment_rely (env_others env)"
    and run: "resolve_locked_outcome env reservation a e resolution p = Ok (application, p')"
  shows "payment_frame p p'"
proof -
  have cleared: "payment_frame p p2"
    if "on_attempts (persist_attempt_transition clock a e' (Resolved status code)) p = Ok p1"
      "clear_resolved_attempt_submission env a p1 = Ok p2" for clock e' status code p1 p2
    by (rule resolved_then_cleared_frame [OF that(1) disjI2, OF that(2)])
  have observed: "payment_frame p p3" if "payment_frame p p2" "observe env a e' q p2 = Ok (out, p3)" for p2 p3 e' q out
    using that(1) charges_frame_frame [OF observe_frame [OF rely that(2)]] by (rule payment_frame_trans)
  from run show ?thesis
    unfolding resolve_locked_outcome_def Let_def
    by (elim and_then_OkE) (auto elim!: and_then_OkE split: if_splits,
        (erule observed [rotated] | erule (1) cleared | erule transition_frame)+)
qed

lemma resolve_pool_keeps:
  assumes rely: "run_rely run"
    and run: "resolve_pool_outcome clock (run_between run 0) (run_env run 0) reservation e resolution p = (out, p')"
  shows "payment_keeps p p'"
proof -
  have env: "payment_rely (env_others (run_env run 0))" "\<forall>p. payment_keeps p (run_between run 0 p)"
    using rely by (simp_all add: run_rely_def)
  from run show ?thesis
    unfolding resolve_pool_outcome_def
    by (rule after_cooldown_keeps [OF env(2), rotated])
       (auto simp: and_then_Inr_iff dest: resolve_locked_frame [OF env(1)] payment_frame_keeps)
qed

lemma diagnostics_db: "with_outcome_diagnostics outcome x = (out, p') \<Longrightarrow> \<exists>out1. x = (out1, p')"
  by (cases x) (auto simp: with_outcome_diagnostics_def)

lemma diagnostics_Inr: "with_outcome_diagnostics outcome x = (Inr y, p') \<Longrightarrow> \<exists>z. x = (Inr z, p')"
  by (cases x) (auto simp: with_outcome_diagnostics_def map_sum_Inr_iff)

text \<open>The decision keeps the invariant when its approvals do.\<close>

lemma decide_keeps:
  assumes rely: "run_rely run" and run: "decide_outcome run reservation outcome approve p = (out, p')"
    and approve: "\<And>approved. approve approved p = (out, p') \<Longrightarrow> payment_keeps p p'"
  shows "payment_keeps p p'"
proof -
  have resolved: "payment_keeps p p'"
    if "map_prod (map_sum id (\<lambda>result. (result, []))) id (resolve_reserved_outcome run reservation e resolution p) = (out, p')"
    for e resolution
    using that resolve_pool_keeps [OF rely] by (auto simp: resolve_reserved_outcome_def map_prod_def split: prod.splits)
  from run show ?thesis
    unfolding decide_outcome_def Let_def
    by (cases "outcome_status outcome") (auto split: option.splits intro: resolved approve)
qed

text \<open>The whole call: its approvals settle, so it keeps the invariant, and an approval that gets a result is recorded.\<close>

lemma decided_keeps:
  assumes rely: "run_rely run"
    and run: "with_outcome_diagnostics outcome (decide_outcome run reservation outcome approve p) = (out, p')"
    and approve: "\<And>approved. settles identity (approved_inner approved) p (approve approved p)"
  shows "payment_keeps p p'"
proof -
  obtain out1 where "decide_outcome run reservation outcome approve p = (out1, p')" using diagnostics_db [OF run] ..
  with rely show ?thesis by (rule decide_keeps) (use approve in \<open>metis settles_def snd_conv\<close>)
qed

lemma decided_records:
  assumes ok: "payment_ok p" and status: "outcome_status outcome = GatewayPaymentStatus.Approved"
    and run: "with_outcome_diagnostics outcome (decide_outcome run reservation outcome approve p) = (Inr x, p')"
    and approve: "\<And>approved. settles identity (approved_inner approved) p (approve approved p)"
  shows "evidence_recorded identity (outcome_evidence outcome) p'"
proof -
  obtain y where "approve (ApprovedProcessorEvidence (outcome_evidence outcome)) p = (Inr y, p')"
    using diagnostics_Inr [OF run] status by (auto simp: decide_outcome_def approved_evidence_def)
  with approve [of "ApprovedProcessorEvidence (outcome_evidence outcome)"] ok show ?thesis by (simp add: settles_def)
qed

section \<open>Results are well formed\<close>

definition payment_result_wf :: "SubscriptionEnrollmentPaymentResult \<Rightarrow> bool" where
  "payment_result_wf result \<longleftrightarrow>
     (let attempt = result_attempt result; target = request_target (attempt_request attempt) in
      PaymentAttempt_kind attempt \<noteq> PaymentAttemptKind.HostCharge \<and>
      (case result_state result of
         SubscriptionEnrollmentPaymentResultState.Applied subscription \<Rightarrow>
           PaymentAttempt_status attempt = PaymentAttemptStatus.Approved \<and>
           target_subscription_id target = Some (sub_id subscription) \<and>
           target_plan_key target = Some (sub_plan_key subscription)
       | _ \<Rightarrow> PaymentAttempt_status attempt \<noteq> PaymentAttemptStatus.Approved))"

lemma built_results_wf:
  "payment_result_applied a subscription = Ok result \<Longrightarrow> payment_result_wf result"
  "payment_result_not_applied a = Ok result \<Longrightarrow> payment_result_wf result"
  "payment_result_confirmation_pending a evidence = Ok result \<Longrightarrow> payment_result_wf result"
  by (auto simp: payment_result_applied_def payment_result_not_applied_def payment_result_confirmation_pending_def
      require_subscription_attempt_def payment_result_wf_def and_then_Inr_iff split: if_splits)

lemma diagnostics_wf [simp]:
  "payment_result_wf (with_observation_diagnostics diagnostics result) = payment_result_wf result"
  "payment_result_wf (append_subscription_observation_diagnostics result diagnostics) = payment_result_wf result"
  by (simp_all add: payment_result_wf_def with_observation_diagnostics_def append_subscription_observation_diagnostics_def)

lemma read_results_wf:
  "payment_result_for_attempt p a = Ok result \<Longrightarrow> payment_result_wf result"
  "payment_result_for_reservation_attempt p reservation = Ok result \<Longrightarrow> payment_result_wf result"
  by (auto simp: payment_result_for_attempt_def applied_result_def payment_result_for_reservation_attempt_def and_then_Inr_iff
      split: if_splits dest: built_results_wf)

lemmas results_wf = built_results_wf read_results_wf

lemma parked_results_wf:
  "park_expired_period_approval env a i e p = Ok (result, event, p') \<Longrightarrow> payment_result_wf result"
  "observe_parked_expired_period_approval env a e p = Ok (result, event, p') \<Longrightarrow> payment_result_wf result"
  "not_applied_without_event (b, p) = Ok (result, event, p') \<Longrightarrow> payment_result_wf result"
  "stop_conflicting_subscription_approval env a e p = Ok (Some result, diagnostics, p') \<Longrightarrow> payment_result_wf result"
  by (auto simp: park_expired_period_approval_def observe_parked_expired_period_approval_def not_applied_without_event_def
      stop_conflicting_subscription_approval_def Let_def and_then_Inr_iff split: if_splits dest: results_wf)

lemma transact_result: "transact run n op p = (Inr x, p') \<Longrightarrow> \<exists>env q. op env q = Ok (x, p')"
  unfolding transact_def Let_def by (fastforce split: option.splits sum.splits)

lemma retry_result: "retry run op again ns p = (Some (Inr x), p') \<Longrightarrow> \<exists>env q. op env q = Ok (x, p')"
proof (induction ns arbitrary: p)
  case (Cons n ns)
  then show ?case by (auto split: prod.splits sum.splits if_splits dest: transact_result)
qed simp

lemma settle_result_wf:
  assumes "settle_approval env subject a e has_period q message terminal open_attempt p = Ok (result, event, p')"
    and "\<And>diagnostics p. terminal diagnostics p = Ok (result, event, p') \<Longrightarrow> payment_result_wf result"
    and "\<And>p. open_attempt p = Ok (result, event, p') \<Longrightarrow> payment_result_wf result"
  shows "payment_result_wf result"
  using assms unfolding settle_approval_def
  by (auto simp: and_then_Inr_iff split: option.splits if_splits dest: results_wf parked_results_wf)

lemma terminal_result_wf:
  "observe_approval_of_terminal_attempt env a approved expired_end diagnostics p = Ok (result, event, p') \<Longrightarrow> payment_result_wf result"
  unfolding observe_approval_of_terminal_attempt_def Let_def
  by (auto simp: and_then_Inr_iff split: if_splits dest: results_wf)

lemma park_stale_result_wf:
  "park_stale_approval env a e i q code message p = Ok (result, event, p') \<Longrightarrow> payment_result_wf result"
  unfolding park_stale_approval_def by (auto simp: and_then_Inr_iff dest: parked_results_wf)

lemma primary_charge_result_wf:
  assumes "with_primary_charge env a e q message primary p = Ok (result, event, p')"
    and "\<And>i p. primary i p = Ok (result, event, p') \<Longrightarrow> payment_result_wf result"
  shows "payment_result_wf result"
proof -
  obtain observation p1 where "observe env a e ProcessorChargeProgression.Pending p = Ok (observation, p1)"
    using assms(1) by (auto simp: with_primary_charge_def and_then_Inr_iff)
  with assms show ?thesis
    by (cases observation)
       (auto simp: with_primary_charge_def and_then_Inr_iff split: if_splits dest: parked_results_wf)
qed

lemma finish_result_wf:
  "finish_payment env identity i charge event p = Ok (result, out, p') \<Longrightarrow> payment_result_wf result"
  by (erule finish_payment_cases) (rule results_wf)

lemma host_transaction_Ok:
  "in_host_transaction host application = Ok ((result, events), p') \<Longrightarrow>
     \<exists>event. application = Ok (result, event, p') \<and> events = (case event of Some ev \<Rightarrow> [ev] | None \<Rightarrow> [])"
  unfolding in_host_transaction_def finalize_application_def
  by (auto simp: and_then_Inr_iff map_sum_Inr_iff split: if_splits)

lemma try_park_result_wf:
  "try_park_approved_outcome reservation e expired_end message env p = Ok (result, p') \<Longrightarrow> payment_result_wf result"
  by (auto simp: try_park_approved_outcome_def Let_def and_then_Inr_iff dest: results_wf)

lemma read_pending_result_wf:
  "read_pending_confirmation has_period identity approved env p = Ok (result, p') \<Longrightarrow> payment_result_wf result"
  by (auto simp: read_pending_confirmation_def and_then_Inr_iff split: if_splits dest: results_wf)

lemma park_result_wf:
  assumes "park_approved_outcome run parking keeping reading p = (Inr result, p')"
    and "\<And>env q q'. parking env q = Ok (result, q') \<Longrightarrow> payment_result_wf result"
    and "\<And>env q q'. reading env q = Ok (result, q') \<Longrightarrow> payment_result_wf result"
  shows "payment_result_wf result"
  using assms unfolding park_approved_outcome_def
  by (auto split: prod.splits sum.splits dest!: transact_result)

lemma applied_result_wf:
  assumes "apply_approved_outcome run identified applying parking incomplete failure p = (Inr (result, events), p')"
    and "\<And>env q q'. applying env q = Ok ((result, events), q') \<Longrightarrow> payment_result_wf result"
    and "\<And>message q. parking message q = (Inr result, p') \<Longrightarrow> payment_result_wf result"
  shows "payment_result_wf result"
  using assms unfolding apply_approved_outcome_def Let_def
  by (auto simp: map_prod_def map_sum_Inr_iff split: if_splits prod.splits option.splits dest!: retry_result)

lemma resolved_result_wf:
  assumes "resolve_pool_outcome clock between env reservation e resolution p = (Inr application, p')"
  shows "payment_result_wf (oa_payment application)"
proof -
  have "payment_result_wf (oa_payment application)"
    if "resolve_locked_outcome env reservation a e resolution q = Ok (application, q')" for a q q'
    using that by (auto simp: resolve_locked_outcome_def Let_def and_then_Inr_iff dest: results_wf)
  then show ?thesis
    using assms by (auto simp: resolve_pool_outcome_def after_cooldown_def Let_def and_then_Inr_iff
        split: option.splits sum.splits)
qed

lemma decided_result_wf:
  assumes "decide_outcome run reservation outcome approve p = (Inr (result, events), p')"
    and "\<And>approved. approve approved p = (Inr (result, events), p') \<Longrightarrow> payment_result_wf result"
  shows "payment_result_wf result"
  using assms unfolding decide_outcome_def resolve_reserved_outcome_def Let_def
  by (cases "outcome_status outcome")
     (auto simp: map_prod_def map_sum_Inr_iff split: option.splits prod.splits dest: resolved_result_wf)

lemma diagnostics_result_wf:
  "with_outcome_diagnostics outcome x = (Inr (result, events), p') \<Longrightarrow>
     \<exists>result1. x = (Inr (result1, events), p') \<and> payment_result_wf result = payment_result_wf result1"
  by (cases x) (auto simp: with_outcome_diagnostics_def map_sum_Inr_iff)

section \<open>The history of the database\<close>

text \<open>What the invariant and the evolution of the database mean for its rows.\<close>

definition database_history :: "payment_db \<Rightarrow> payment_db \<Rightarrow> bool" where
  "database_history p p' \<longleftrightarrow>
    (\<forall>a \<in> set (db_attempts (pay_billing p')). \<forall>b \<in> set (db_attempts (pay_billing p')). same_billing_period a b \<longrightarrow> a = b) \<and>
    (\<forall>c \<in> set (pay_charges p'). \<forall>d \<in> set (pay_charges p'). charge_attempt_id c = charge_attempt_id d \<and>
       charge_progression c = ProcessorChargeProgression.Applied \<and>
       charge_progression d = ProcessorChargeProgression.Applied \<longrightarrow> c = d) \<and>
    (\<forall>a \<in> set (db_attempts (pay_billing p)). PaymentAttempt_status a = PaymentAttemptStatus.Approved \<longrightarrow>
       a \<in> set (db_attempts (pay_billing p'))) \<and>
    (\<forall>row \<in> set (db_subscriptions (pay_billing p)). row_status row \<notin> {lit ''active'', lit ''past_due''} \<longrightarrow>
       row \<in> set (db_subscriptions (pay_billing p'))) \<and>
    (\<forall>c \<in> set (pay_charges p). charge_progression c = ExternallyReversed \<longrightarrow>
       (\<exists>d \<in> set (pay_charges p'). charge_id d = charge_id c \<and> charge_progression d = ExternallyReversed))"

lemma list_all2_ofE:
  assumes "list_all2 P xs ys" and "x \<in> set xs"
  obtains y where "y \<in> set ys" "P x y"
  using assms by (metis in_set_conv_nth list_all2_conv_all_nth)

lemma applied_charge_unique:
  assumes charges: "charges_ok s" and "c \<in> set (cs_charges s)" "d \<in> set (cs_charges s)"
    and "charge_attempt_id c = charge_attempt_id d" "charge_progression c = ProcessorChargeProgression.Applied"
      "charge_progression d = ProcessorChargeProgression.Applied"
  shows "c = d"
proof -
  have "charge_role c = Primary" "charge_role d = Primary"
    using assms by (simp_all add: charges_ok_def charge_row_ok_def)
  then have "unique_clash c d" using assms(4) by (simp add: unique_clash_def primary_attempt_idx_def)
  with charges assms(2,3) have "charge_id c = charge_id d" by (auto simp: charges_ok_def)
  then show ?thesis using charges_ok_id_eq [OF charges, of c d] assms(2,3) by simp
qed

lemma evolves_keeps_rows:
  assumes "payment_evolves p p'"
  shows "a \<in> set (db_attempts (pay_billing p)) \<Longrightarrow> PaymentAttempt_status a = PaymentAttemptStatus.Approved \<Longrightarrow>
      a \<in> set (db_attempts (pay_billing p'))"
    and "row \<in> set (db_subscriptions (pay_billing p)) \<Longrightarrow> row_status row \<notin> {lit ''active'', lit ''past_due''} \<Longrightarrow>
      row \<in> set (db_subscriptions (pay_billing p'))"
    and "c \<in> set (pay_charges p) \<Longrightarrow> charge_progression c = ExternallyReversed \<Longrightarrow>
      \<exists>d \<in> set (pay_charges p'). charge_id d = charge_id c \<and> charge_progression d = ExternallyReversed"
proof -
  have lists: "attempts_grow (pay_billing p) (pay_billing p')"
      "rows_evolve (db_subscriptions (pay_billing p)) (db_subscriptions (pay_billing p'))"
    using assms by (simp_all add: payment_evolves_def)
  show "a \<in> set (db_attempts (pay_billing p'))"
    if "a \<in> set (db_attempts (pay_billing p))" "PaymentAttempt_status a = PaymentAttemptStatus.Approved"
    using lists(1) that by (auto elim!: attempts_growE simp: attempt_evolves_def)
  show "row \<in> set (db_subscriptions (pay_billing p'))"
    if row: "row \<in> set (db_subscriptions (pay_billing p))" "row_status row \<notin> {lit ''active'', lit ''past_due''}"
  proof -
    obtain old new where split: "db_subscriptions (pay_billing p') = old @ new"
        "list_all2 subscription_evolves (db_subscriptions (pay_billing p)) old"
      using lists(2) by (auto simp: rows_evolve_def)
    from split(2) row(1) obtain row' where "row' \<in> set old" "subscription_evolves row row'" by (rule list_all2_ofE)
    with row(2) split(1) show ?thesis unfolding subscription_evolves_def is_current_status_def by auto
  qed
  show "\<exists>d \<in> set (pay_charges p'). charge_id d = charge_id c \<and> charge_progression d = ExternallyReversed"
    if c: "c \<in> set (pay_charges p)" "charge_progression c = ExternallyReversed"
  proof -
    obtain old new where split: "pay_charges p' = old @ new" "list_all2 charge_evolves (pay_charges p) old"
      using assms by (auto simp: payment_evolves_def charges_evolve_def)
    from split(2) c(1) obtain d where d: "d \<in> set old" "charge_evolves c d" by (rule list_all2_ofE)
    with c(2) charge_lives_final have "charge_id d = charge_id c \<and> charge_progression d = ExternallyReversed"
      by (fastforce simp: charge_evolves_def same_charge_def charge_state_of_def)
    with d(1) split(1) show ?thesis by auto
  qed
qed

lemma keeps_database_history: "payment_ok p \<Longrightarrow> payment_keeps p p' \<Longrightarrow> payment_ok p' \<and> database_history p p'"
proof -
  assume "payment_ok p" "payment_keeps p p'"
  then have ok: "payment_ok p'" and evolves: "payment_evolves p p'" by (simp_all add: payment_keeps_def)
  have "charges_ok (charge_view p')" "attempts_ok (pay_billing p')" using ok by (simp_all add: payment_ok_def)
  then show ?thesis
    using ok evolves_keeps_rows [OF evolves] applied_charge_unique [of "charge_view p'"] attempts_ok_period_once
    unfolding database_history_def charge_view_simps by blast
qed

end
