(* ===== verification/Renewal_Guarantees.thy ===== *)
theory Renewal_Guarantees
  imports Renewal_Application Payment_Runs
begin

text \<open>
  What a renewal promises: the event and the database agree, a renewal that was applied is replayed without effect,
  approved evidence survives every failure that is not reported, and the invariant of the database holds over the
  whole call.
\<close>

section \<open>Advancing the subscription\<close>

lemma lock_renewal_Ok:
  assumes "lock_expected_reservation_attempt p (OutcomeReservation.Renewal r) = Ok a"
  shows "a \<in> set (db_attempts (pay_billing p))" and "attempt_identity a = reserved_identity r"
    and "attempt_request a = reserved_request r" and "PaymentAttempt_kind a = PaymentAttemptKind.SubscriptionRenewal"
  using lock_reservation_Ok [OF assms] by (simp_all add: matches_exactly_def)

definition renewed_to :: "datetime \<Rightarrow> BillingPeriod \<Rightarrow> subscription_row \<Rightarrow> subscription_row \<Rightarrow> bool" where
  "renewed_to clock period row row' \<longleftrightarrow> (\<exists>amount. row' = (advance_row clock period row)\<lparr>row_amount_cents := amount\<rparr>)"

lemma advance_renewed_rows:
  assumes "distinct_subscriptions p" and "advance_renewed_subscription env r (plan_key, period, expected) p = Ok p'"
  shows "one_subscription_changes (renewed_row r (plan_key, period, expected)) (renewed_to (env_clock env) period) p p' \<and>
    same_payments p p'"
proof -
  obtain p1 where update: "update_one_subscription (renewed_row r (plan_key, period, expected))
      (advance_row (env_clock env) period) p = Ok p1"
    and discount: "advance_discount env (payment_state_subscription_id expected) plan_key p1 = Ok p'"
    using assms(2) by (auto simp: advance_renewed_subscription_def and_then_Inr_iff)
  from advance_rows [OF assms(1) update discount] show ?thesis
    unfolding renewed_to_def by (simp add: renewed_row_def reserved_row_def advance_row_def)
qed

lemma renewed_row_current: "renewed_row r terms row \<Longrightarrow> is_current_status (row_status row)"
  unfolding renewed_row_def is_current_status_def by (auto split: prod.splits)

lemma renewed_to_evolves:
  "is_current_status (row_status row) \<Longrightarrow> renewed_to clock period row row' \<Longrightarrow> subscription_evolves row row'"
  by (auto simp: renewed_to_def subscription_evolves_def advance_row_def policy_readable_def)

lemma advance_renewed_keeps:
  assumes "advance_renewed_subscription env r (plan_key, period, expected) p = Ok p'"
  shows "payment_keeps p p'"
  using advance_renewed_rows [OF _ assms]
    subscription_change_keeps [of "renewed_row r (plan_key, period, expected)" "renewed_to (env_clock env) period" p p']
    renewed_row_current renewed_to_evolves payment_ok_distinct
  unfolding payment_keeps_def by blast

lemma advance_renewed_same:
  "advance_renewed_subscription env r (plan_key, period, expected) p = Ok p' \<Longrightarrow> payment_ok p \<longrightarrow> same_payments p p'"
  using advance_renewed_rows payment_ok_distinct by blast

lemmas renewed_chain = advance_renewed_keeps advance_renewed_same

section \<open>Approved renewals\<close>

text \<open>The chain of a renewal that was applied: observed in \<open>p1\<close>, advanced in \<open>p2\<close>, marked in \<open>p3\<close>.\<close>

lemma renewal_approved_cases:
  assumes rely: "payment_rely (env_others env)"
    and run: "apply_renewal_approved_on_connection env subject r (plan_key, period, expected) approved policy p =
      Ok (result, event, p')"
  obtains (recorded) "event = None" "recording (reserved_identity r) (approved_inner approved) p p'"
  | (renewed) a charge p1 p2 p3 where "lock_expected_reservation_attempt p (OutcomeReservation.Renewal r) = Ok a"
      "PaymentAttemptStatus_is_resolvable (PaymentAttempt_status a)"
      "observe env a (approved_inner approved) ProcessorChargeProgression.Pending p = Ok (Owned charge, p1)"
      "advance_renewed_subscription env r (plan_key, period, expected) p1 = Ok p2"
      "mark_attempt_approved env a (approved_inner approved) (payment_state_subscription_id expected)
         (payment_state_payment_method_id expected) p2 = Ok p3"
      "finish_payment env (reserved_identity r) (payment_state_subscription_id expected) (record_id charge)
         (renewed_event (reserved_identity r) (plan_key, period, expected)) p3 = Ok (result, event, p')"
proof -
  let ?e = "approved_inner approved" and ?terms = "(plan_key, period, expected)"
  obtain a where a: "lock_expected_reservation_attempt p (OutcomeReservation.Renewal r) = Ok a"
    and settle: "settle_approval env subject a ?e True ProcessorChargeProgression.Applied
      (lit ''a subscription renewal event requires a live recipient'')
      (observe_approval_of_terminal_attempt env a approved (expired_period_end policy period))
      (apply_renewal_to_open_attempt env r ?terms a ?e policy) p = Ok (result, event, p')"
    using run by (auto simp: apply_renewal_approved_on_connection_def and_then_Inr_iff)
  note identity = lock_renewal_Ok(2) [OF a]
  have "\<forall>diagnostics. observe_approval_of_terminal_attempt env a approved (expired_period_end policy period) diagnostics p =
      Ok (result, event, p') \<longrightarrow> recording (attempt_identity a) ?e p p' \<and> event = None"
    using terminal_approval_recording [OF rely] by blast
  from rely lock_renewal_Ok(1) [OF a] this settle show thesis
  proof (cases rule: settle_cases)
    case recorded
    with identity that(1) show thesis by simp
  next
    case opened
    from rely opened(2) [unfolded apply_renewal_to_open_attempt_def] show thesis
    proof (cases rule: primary_charge_cases)
      case parked
      with identity that(1) show thesis by simp
    next
      case (primary charge p1)
      have first: "recording (reserved_identity r) ?e p p1"
        using observe_recording [OF rely primary(1)] identity by simp
      have frame: thesis if "payment_frame p1 p' \<and> event = None"
        using that recording_then [OF first] recorded by blast
      from primary(3) consider "payment_frame p1 p' \<and> event = None"
        | p2 p3 where "advance_renewed_subscription env r ?terms p1 = Ok p2"
          "mark_attempt_approved env a ?e (payment_state_subscription_id expected) (payment_state_payment_method_id expected) p2 = Ok p3"
          "finish_payment env (reserved_identity r) (payment_state_subscription_id expected) (record_id charge)
             (renewed_event (reserved_identity r) ?terms) p3 = Ok (result, event, p')"
        by (auto simp: and_then_Inr_iff complete_renewal_def split: if_splits dest: park_stale_frame park_expired_frame)
      then show thesis using frame renewed a opened(1) primary(1) by cases blast+
    qed
  qed
qed

text \<open>C1.  A renewal returns its event exactly when it advances the subscription.  With the event, the attempt
  was open and is now approved with the evidence of the provider, its primary charge is applied with that
  transaction, and one subscription, the one that was still in the reserved payment state, moved to the
  reserved period; without the event no subscription was written.\<close>

theorem renewal_event_matches_database:
  assumes ok: "payment_ok p" and rely: "payment_rely (env_others env)"
    and run: "apply_renewal_approved_on_connection env subject r (plan_key, period, expected) approved policy p =
      Ok (result, event, p')"
  shows "case event of
      None \<Rightarrow> db_subscriptions (pay_billing p') = db_subscriptions (pay_billing p)
    | Some ev \<Rightarrow>
        (\<exists>paid. ChargeAmount_money paid = request_amount (reserved_request r) \<and>
           ev = BillingEvent.SubscriptionRenewed (identity_attempt_id (reserved_identity r))
             (payment_state_subscription_id expected) plan_key paid period) \<and>
        list_ex (open_attempt_of (reserved_identity r)) (db_attempts (pay_billing p)) \<and>
        list_ex (approved_attempt (reserved_identity r) (approved_inner approved)) (db_attempts (pay_billing p')) \<and>
        list_ex (applied_charge (reserved_identity r) (approved_inner approved)) (pay_charges p') \<and>
        one_subscription_changes (renewed_row r (plan_key, period, expected)) (renewed_to (env_clock env) period) p p'"
  using rely run
proof (cases rule: renewal_approved_cases)
  case recorded
  then show ?thesis by (simp add: recording_def payment_frame_def)
next
  case (renewed a charge p1 p2 p3)
  let ?e = "approved_inner approved"
  note a = lock_renewal_Ok [OF renewed(1)] and chain = renewed_chain [OF renewed(4)]
  note states = paid_states [OF ok rely renewed(3) chain renewed(5) refl refl renewed(6)]
  from ok rely a(1,2) renewed(3) chain renewed(5) refl refl renewed(6) obtain b where
    b: "find_attempt p' (reserved_identity r) = Ok b" "b \<in> set (db_attempts (pay_billing p'))"
      "approved_attempt (reserved_identity r) ?e b" "transition_row (env_clock env) ?e PaymentAttemptStatus.Approved None
        (Some (payment_state_subscription_id expected)) (Some (payment_state_payment_method_id expected)) a = Some b"
    and charge: "list_ex (applied_charge (reserved_identity r) ?e) (pay_charges p')"
    by (rule paid_payment) blast
  have amount: "request_amount (attempt_request b) = request_amount (reserved_request r)"
    using b(4) a(3) by (auto simp: transition_row_def)
  obtain ev where ev: "event = Some ev" "renewed_event (reserved_identity r) (plan_key, period, expected) b = Ok ev"
    using renewed(6) b(1) by (elim finish_payment_cases) simp
  have change: "one_subscription_changes (renewed_row r (plan_key, period, expected)) (renewed_to (env_clock env) period) p p'"
    using advance_renewed_rows [OF payment_ok_distinct [OF states(1)] renewed(4)] states(7,8) by (simp add: one_subscription_changes_def)
  have "list_ex (open_attempt_of (reserved_identity r)) (db_attempts (pay_billing p))"
    using a(1,2) renewed(2) unfolding list_ex_iff open_attempt_of_def by blast
  moreover have "list_ex (approved_attempt (reserved_identity r) ?e) (db_attempts (pay_billing p'))"
    using b(2,3) unfolding list_ex_iff by blast
  ultimately show ?thesis
    unfolding ev(1) option.case using charge change renewed_event_Ok [OF ev(2)] amount by auto
qed

section \<open>Replays\<close>

text \<open>C9.  A renewal that was applied can be applied again: the same evidence, at any later time and under any
  policy and subject state, returns the same payment without an event and changes nothing.\<close>

theorem applied_renewal_replays:
  assumes ok: "payment_ok p" and others: "env_others env = id" "env_others env' = id"
    and target: "request_target (reserved_request r) =
      PaymentAttemptTarget.SubscriptionRenewal plan_key (payment_state_payment_method_id expected) period expected"
    and run: "apply_renewal_approved_on_connection env subject r (plan_key, period, expected) approved policy p =
      Ok (result, Some event, p')"
  shows "apply_renewal_approved_on_connection env' subject' r (plan_key, period, expected) approved policy' p' =
    Ok (result, None, p')"
proof -
  let ?e = "approved_inner approved"
  have rely: "payment_rely (env_others env)" by (simp add: others payment_rely_def charges_rely_def)
  from rely run obtain a charge p1 p2 p3 where
    lock: "lock_expected_reservation_attempt p (OutcomeReservation.Renewal r) = Ok a"
    and observe: "observe env a ?e ProcessorChargeProgression.Pending p = Ok (Owned charge, p1)"
    and advance: "advance_renewed_subscription env r (plan_key, period, expected) p1 = Ok p2"
    and mark: "mark_attempt_approved env a ?e (payment_state_subscription_id expected)
       (payment_state_payment_method_id expected) p2 = Ok p3"
    and finish: "finish_payment env (reserved_identity r) (payment_state_subscription_id expected) (record_id charge)
       (renewed_event (reserved_identity r) (plan_key, period, expected)) p3 = Ok (result, Some event, p')"
    by (cases rule: renewal_approved_cases) simp_all
  note a = lock_renewal_Ok [OF lock] and chain = renewed_chain [OF advance]
  from ok rely a(1,2) observe chain mark refl refl finish obtain b where
    b: "find_attempt p' (reserved_identity r) = Ok b" "approved_attempt (reserved_identity r) ?e b"
      "transition_row (env_clock env) ?e PaymentAttemptStatus.Approved None (Some (payment_state_subscription_id expected))
        (Some (payment_state_payment_method_id expected)) a = Some b"
    by (rule paid_payment) blast
  have request: "attempt_request b = reserved_request r"
    using b(3) a(3) target by (auto simp: transition_row_def coalesced_def)
  have kind: "PaymentAttempt_kind b = PaymentAttemptKind.SubscriptionRenewal"
    using request a(3,4) by (simp add: PaymentAttempt_kind_def)
  have lock': "lock_expected_reservation_attempt p' (OutcomeReservation.Renewal r) = Ok b"
    using b(1,2) request kind by (simp add: lock_expected_reservation_attempt_def matches_exactly_def approved_attempt_def)
  show ?thesis
    unfolding apply_renewal_approved_on_connection_def lock' and_then_simps
    by (rule paid_replays [OF ok others a(1,2) observe chain mark refl refl finish b(1)])
qed

section \<open>Renewals that were not approved\<close>

lemma failure_keeps:
  assumes "apply_resolved_automatic_renewal_failure ch clock a (pay_billing p) = Ok (out, db)"
  shows "payment_keeps p (with_billing db p)"
  using assms
proof (rule failure_result_cases)
  assume "db = pay_billing p"
  then show ?thesis by (simp add: with_billing_def)
next
  fix i tr
  assume "projected_status (transition_before tr) \<in> {SubscriptionStatus.Active, SubscriptionStatus.PastDue}"
    and "persist_renewal_failure_transition clock i tr (pay_billing p) = Ok db"
  note rows = persist_rows [OF this(2,1)]
  have evolve: "list_all2 subscription_evolves (db_subscriptions (pay_billing p)) (db_subscriptions db)"
    using rows(1) by (rule list_all2_mono) (rule row_history_evolves)
  then have ids: "map row_id (db_subscriptions db) = map row_id (db_subscriptions (pay_billing p))"
    by (auto simp: subscription_evolves_def list_all2_conv_all_nth intro: nth_equalityI)
  have "charges_ok (charge_view (with_billing db p)) = charges_ok (charge_view p)"
    by (rule charges_ok_cong) (simp_all add: rows(2))
  moreover have "attempts_ok db = attempts_ok (pay_billing p)" by (rule attempts_ok_cong) (simp add: rows(2))
  ultimately show ?thesis
    using rows_evolveI [OF evolve] ids rows(2)
    by (simp add: payment_keeps_def payment_ok_def payment_evolves_def attempts_grow_same list_all2_refl)
qed

lemma resolve_renewal_keeps:
  assumes run: "resolve_renewal_on_connection ch env r e resolution p = Ok (application, events, p')"
  shows "payment_keeps p p'"
proof -
  have cleared: "payment_keeps p p2"
    if "on_attempts (persist_attempt_transition clock a e' (Resolved status code)) p = Ok p1"
      "clear_resolved_attempt_submission env a p1 = Ok p2" for clock a e' status code p1 p2
    using resolved_then_cleared_frame [OF that(1) disjI2, OF that(2)] by (rule payment_frame_keeps)
  have failed: "payment_keeps p (with_billing db p1)"
    if "on_attempts (persist_attempt_transition clock a e' (Resolved status code)) p = Ok p1"
      "apply_resolved_automatic_renewal_failure ch clock' b (pay_billing p1) = Ok (out, db)"
    for clock a e' status code p1 clock' b out db
    using transition_frame [OF that(1)] failure_keeps [OF that(2)] payment_frame_keeps payment_keeps_trans by blast
  from run show ?thesis
    unfolding resolve_renewal_on_connection_def Let_def
    by (elim and_then_OkE) (auto elim!: and_then_OkE split: if_splits,
        (erule (1) cleared | erule (1) failed | erule payment_frame_keeps [OF transition_frame])+)
qed

section \<open>Every transaction records or keeps\<close>

lemma renewal_approved_records:
  assumes rely: "payment_rely (env_others env)"
    and run: "apply_renewal_approved_on_connection env subject r terms approved policy p = Ok (result, event, p')"
  shows "payment_keeps p p' \<and> (payment_ok p \<longrightarrow> evidence_recorded (reserved_identity r) (approved_inner approved) p')"
proof -
  obtain plan_key period expected where terms: "terms = (plan_key, period, expected)" by (cases terms)
  from rely run [unfolded terms] show ?thesis
  proof (cases rule: renewal_approved_cases)
    case recorded
    then show ?thesis by (simp add: recordingD)
  next
    case (renewed a charge p1 p2 p3)
    from paid_keeps [OF rely renewed(3) advance_renewed_keeps [OF renewed(4)] renewed(5) refl refl renewed(6)] show ?thesis
      by (simp add: lock_renewal_Ok(2) [OF renewed(1)])
  qed
qed

lemma applied_renewal_records:
  assumes "payment_rely (env_others env)" and "apply_renewal_approved_outcome host r terms approved env p = Ok (x, p')"
  shows "payment_keeps p p' \<and> (payment_ok p \<longrightarrow> evidence_recorded (reserved_identity r) (approved_inner approved) p')"
proof -
  obtain result events where x: "x = (result, events)" by (cases x)
  from host_transaction_Ok [OF assms(2) [unfolded apply_renewal_approved_outcome_def x]]
  show ?thesis using renewal_approved_records [OF assms(1)] by blast
qed

interpretation applying: recording_operation "apply_renewal_approved_outcome host r terms approved"
    "reserved_identity r" "approved_inner approved" for host r terms approved
  by unfold_locales (use applied_renewal_records in blast)+

interpretation renewing: approved_outcome "reserved_identity r" "approved_inner approved"
    "apply_renewal_approved_outcome host r terms approved"
    "try_park_renewal_approved_outcome r terms (approved_inner approved) policy"
    "observe_approved_evidence (OutcomeReservation.Renewal r) (approved_inner approved) (expired_period_end policy (fst (snd terms)))"
    "\<lambda>run. Pair (Err ApprovedEvidenceNotDurable)"
    "read_pending_confirmation True (reserved_identity r) approved"
  for host r terms approved policy
proof (rule approved_outcome.intro)
  show "recording_operation (try_park_renewal_approved_outcome r terms (approved_inner approved) policy message)
      (reserved_identity r) (approved_inner approved)" for message
    using parking.recording_operation_axioms [of "OutcomeReservation.Renewal r"]
    by (simp add: try_park_renewal_approved_outcome_def)
  show "recording_operation (observe_approved_evidence (OutcomeReservation.Renewal r) (approved_inner approved)
      (expired_period_end policy (fst (snd terms)))) (reserved_identity r) (approved_inner approved)"
    using observing.recording_operation_axioms [of "OutcomeReservation.Renewal r"] by simp
qed (use applying.recording_operation_axioms reading.payment_operation_axioms in auto)

lemma approved_renewal_settles:
  "run_rely run \<Longrightarrow> settles (reserved_identity r) (approved_inner approved) p (apply_approved_renewal run host r terms approved p)"
  using renewing.applied_outcome [of run r approved p _ host terms]
  by (simp add: apply_approved_renewal_def park_renewal_approved_outcome_def [abs_def]
      observe_renewal_approved_evidence_with_retry_def [abs_def])

section \<open>The whole call\<close>

lemma renewal_declined_keeps:
  assumes rely: "run_rely run"
    and run: "resolve_renewal_non_approved_outcome ch host clock (run_between run 0) env r e resolution p = (out, p')"
  shows "payment_keeps p p'"
proof -
  have between: "\<forall>p. payment_keeps p (run_between run 0 p)" using rely by (simp add: run_rely_def)
  from run show ?thesis
    unfolding resolve_renewal_non_approved_outcome_def
    by (rule after_cooldown_keeps [OF between, rotated])
       (auto simp: finalize_application_def and_then_Inr_iff split: if_splits dest: resolve_renewal_keeps)
qed

lemma renewal_outcome_keeps:
  assumes rely: "run_rely run"
    and run: "apply_subscription_renewal_gateway_outcome ch run host r outcome p = Some (out, p')"
  shows "payment_keeps p p'"
proof -
  obtain terms out1 where decision: "apply_subscription_renewal_gateway_decision ch run host r outcome p = Some (out1, p')"
    and terms: "reserved_terms r = Some terms"
    using run by (auto simp: apply_subscription_renewal_gateway_outcome_def apply_subscription_renewal_gateway_decision_def
        with_outcome_diagnostics_def)
  note declined = renewal_declined_keeps [OF rely] and unknown = resolve_pool_keeps [OF rely]
  have approved: "payment_keeps p p'" if "apply_approved_renewal run host r terms approved p = (out2, p')" for approved out2
    using approved_renewal_settles [OF rely, of r approved p host terms] that by (simp add: settles_def)
  from decision terms show ?thesis
    unfolding apply_subscription_renewal_gateway_decision_def resolve_renewal_unknown_outcome_def Let_def
    by (cases "outcome_status outcome")
       (auto simp: map_prod_def split: option.splits prod.splits intro: declined unknown approved)
qed

section \<open>A concrete renewal\<close>

definition sample_renewal_reservation :: SubscriptionRenewalReservation where
  "sample_renewal_reservation = \<lparr>reserved_identity = attempt_identity sample_open_renewal,
     reserved_provider_key = resolved_provider_key sample_gateway, reserved_request = attempt_request sample_open_renewal\<rparr>"

definition sample_period :: BillingPeriod where
  "sample_period = \<lparr>period_start_at = 100, period_end_at = 200\<rparr>"

definition sample_terms :: payment_terms where
  "sample_terms = (offer_plan_key sample_offer, sample_period, sample_payment_state)"

definition sample_approved_evidence :: ApprovedProcessorEvidence where
  "sample_approved_evidence = ApprovedProcessorEvidence (state_processor_evidence (attempt_state sample_open_renewal))"

definition sample_payment_db :: payment_db where
  "sample_payment_db = \<lparr>pay_billing = sample_open_db, pay_charges = [], pay_attestations = [], pay_methods = [],
     pay_accounts = [], pay_provider_limits = []\<rparr>"

definition sample_env :: payment_env where
  "sample_env = \<lparr>env_txn = \<lparr>txn_now = 130, txn_clock = 130, txn_locked = []\<rparr>,
     env_fresh_charge = ProcessorChargeId 1, env_fresh_method = PaymentMethodId 2,
     env_fresh_subscription = SubscriptionId 7, env_others = id\<rparr>"

definition sample_pending_charge :: stored_charge where
  "sample_pending_charge = observed_charge 130 (ProcessorChargeId 1) sample_open_renewal
     (approved_inner sample_approved_evidence) Primary ProcessorChargeProgression.Pending"

definition sample_renewed_row :: subscription_row where
  "sample_renewed_row = advance_row 130 sample_period sample_subscription_row"

lemmas sample_open_simps =
  sample_open_renewal_def sample_renewal_def PaymentAttempt_status_def PaymentAttempt_kind_def

lemma sample_payment_db_ok: "payment_ok sample_payment_db"
  using sample_open_db_ok
  by (simp add: payment_ok_def sample_payment_db_def charges_ok_def charge_view_def sample_open_db_def sample_dunning_db_def)

lemma sample_lock:
  "lock_expected_reservation_attempt sample_payment_db (OutcomeReservation.Renewal sample_renewal_reservation) =
     Ok sample_open_renewal"
  by (simp add: lock_expected_reservation_attempt_def find_attempt_def find_payment_attempt_by_id_def sample_payment_db_def
      sample_open_db_def matches_exactly_def sample_renewal_reservation_def) (simp add: sample_open_simps)

lemma sample_observe:
  "observe sample_env sample_open_renewal (approved_inner sample_approved_evidence) ProcessorChargeProgression.Pending
     sample_payment_db =
   Ok (Owned \<lparr>record_id = ProcessorChargeId 1, record_role = Primary, record_exact_replay = False\<rparr>,
     with_charges \<lparr>cs_attempts = [sample_open_renewal], cs_charges = [sample_pending_charge], cs_attestations = []\<rparr>
       sample_payment_db)"
proof -
  have "charge_checks sample_pending_charge"
    by (simp add: charge_checks_def dimension_shape_check_def state_timestamps_check_def transaction_identity_check_def
        reversal_eligibility_check_def sample_pending_charge_def observed_charge_def sample_approved_evidence_def
        sample_open_simps sample_charge_def)
  moreover have "set_processor_charge_attempt_dimensions sample_open_renewal sample_pending_charge = Some sample_pending_charge"
    by (simp add: set_processor_charge_attempt_dimensions_def sample_pending_charge_def observed_charge_def)
  moreover have "evidence_transaction_id (approved_inner sample_approved_evidence) \<noteq> None"
    by (simp add: sample_approved_evidence_def sample_open_simps)
  moreover have "charge_attempt_id sample_pending_charge = attempt_key sample_open_renewal"
      "charge_id sample_pending_charge = ProcessorChargeId 1"
    by (simp_all add: sample_pending_charge_def observed_charge_def)
  ultimately show ?thesis
    by (auto simp: observe_def on_charges_def sample_env_def charge_view_def sample_payment_db_def sample_open_db_def
        observe_processor_charge_def owned_by_other_attempt_def identify_transactionless_def matching_charge_def
        has_existing_charge_def observe_insert_def initial_charge_progression_def insert_charge_def charge_attempt_def
        Let_def sample_pending_charge_def [symmetric])
qed

definition sample_observed_db :: payment_db where
  "sample_observed_db = with_charges \<lparr>cs_attempts = [sample_open_renewal], cs_charges = [sample_pending_charge],
     cs_attestations = []\<rparr> sample_payment_db"

definition sample_advanced_db :: payment_db where
  "sample_advanced_db = with_billing ((pay_billing sample_observed_db)\<lparr>db_subscriptions := [sample_renewed_row]\<rparr>)
     sample_observed_db"

definition sample_marked_db :: payment_db where
  "sample_marked_db = with_billing ((pay_billing sample_advanced_db)\<lparr>db_attempts := [sample_approved_renewal]\<rparr>)
     sample_advanced_db"

definition sample_applied_primary :: stored_charge where
  "sample_applied_primary =
     (set_progression 130 ProcessorChargeProgression.Applied sample_pending_charge)
       \<lparr>charge_state_code := None, charge_externally_reversed_at := None\<rparr>"

definition sample_renewed_db :: payment_db where
  "sample_renewed_db = with_charges \<lparr>cs_attempts = [sample_approved_renewal], cs_charges = [sample_applied_primary],
     cs_attestations = []\<rparr> sample_marked_db"

definition sample_renewed_subscription :: Subscription where
  "sample_renewed_subscription = sample_subscription\<lparr>sub_current_period := sample_period, sub_next_renewal_at := 200,
     sub_next_payment_attempt_at := Some 200\<rparr>"

lemmas sample_row_simps = sample_subscription_row_def sample_renewal_reservation_def sample_payment_state_def
  sample_terms_def sample_period_def sample_offer_def sample_charge_def lit_eval

lemma sample_db_simps [simp]:
  "pay_billing sample_payment_db = sample_open_db" "pay_charges sample_payment_db = []"
  "pay_attestations sample_payment_db = []"
  "db_attempts sample_open_db = [sample_open_renewal]" "db_subscriptions sample_open_db = [sample_subscription_row]"
  "db_discounts sample_open_db = []"
  "pay_billing sample_observed_db = sample_open_db\<lparr>db_charges := [charge_row_of sample_pending_charge]\<rparr>"
  "pay_charges sample_observed_db = [sample_pending_charge]"
  "env_clock sample_env = 130" "env_others sample_env = id"
  by (simp_all add: sample_payment_db_def sample_open_db_def sample_dunning_db_def sample_observed_db_def sample_env_def
      with_charges_def)

lemma sample_renewed_row_selected: "renewed_row sample_renewal_reservation sample_terms sample_subscription_row"
  by (simp add: renewed_row_def reserved_row_def sample_row_simps sample_open_simps)

lemma sample_matches: "renewal_subscription_matches sample_observed_db sample_renewal_reservation sample_terms"
  by (simp add: renewal_subscription_matches_def reserved_row_def payment_state_holds_def sample_row_simps sample_open_simps
      canonical_gateway_transaction_ids_equal_def canonical_gateway_transaction_id_def
      trim_gateway_transaction_id_trim trim_id_of_no_whitespace is_whitespace_def)

lemma sample_advance:
  "advance_renewed_subscription sample_env sample_renewal_reservation sample_terms sample_observed_db = Ok sample_advanced_db"
  using sample_renewed_row_selected
  by (simp add: advance_renewed_subscription_def advance_subscription_discount_after_successful_charge_def
      update_one_subscription_def Let_def advance_discount_def update_subscriptions_def sample_advanced_db_def sample_renewed_row_def
      sample_terms_def with_billing_def)

lemma sample_mark:
  "mark_attempt_approved sample_env sample_open_renewal (approved_inner sample_approved_evidence) (SubscriptionId 5)
     (PaymentMethodId 6) sample_advanced_db = Ok sample_marked_db"
proof -
  have row: "transition_row 130 (state_processor_evidence (attempt_state sample_open_renewal)) PaymentAttemptStatus.Approved None
      (Some (SubscriptionId 5)) (Some (PaymentMethodId 6)) sample_open_renewal = Some sample_approved_renewal"
    by (simp add: transition_row_def sample_approved_renewal_def coalesced_def sample_open_simps
        PaymentAttemptStatus_is_terminal_def)
  have "attempt_checks sample_approved_renewal"
    using sample_approval_step row
    by (auto simp: persist_attempt_transition_def require_one_row_Ok sample_approval_def elim!: update_attempt_cases)
  moreover have "PaymentAttemptStatus_is_resolvable (PaymentAttempt_status sample_open_renewal)"
    by (simp add: sample_open_simps PaymentAttemptStatus_is_resolvable_def)
  ultimately show ?thesis
    using row
    by (simp add: mark_attempt_approved_def on_attempts_def persist_attempt_transition_def require_one_row_def
        update_attempt_def update_attempts_def sample_advanced_db_def sample_marked_db_def sample_approved_evidence_def)
qed

lemma sample_move:
  "move_charge sample_env (ProcessorChargeId 1) ProcessorChargeProgression.Applied None sample_marked_db = Ok sample_renewed_db"
proof -
  have charge: "charge_id sample_pending_charge = ProcessorChargeId 1"
      "charge_progression sample_pending_charge = ProcessorChargeProgression.Pending" "charge_state_code sample_pending_charge = None"
    by (simp_all add: sample_pending_charge_def observed_charge_def)
  have eligible: "transition_eligible ProcessorChargeProgression.Applied sample_pending_charge"
    by (simp add: transition_eligible_def sample_pending_charge_def observed_charge_def sample_approved_evidence_def
        sample_open_simps)
  have "charge_checks sample_applied_primary"
    by (simp add: charge_checks_def dimension_shape_check_def state_timestamps_check_def transaction_identity_check_def
        reversal_eligibility_check_def sample_applied_primary_def set_progression_def sample_pending_charge_def
        observed_charge_def sample_approved_evidence_def sample_open_simps sample_charge_def)
  with charge eligible show ?thesis
    by (simp add: move_charge_def on_charges_def transition_charge_def transition_processor_charge_def update_charge_def
        sample_marked_db_def sample_advanced_db_def sample_renewed_db_def charge_view_def sample_applied_primary_def
        with_charges_def)
qed

lemma sample_renewed_row_decodes: "subscription_from_row sample_renewed_row = Ok sample_renewed_subscription"
proof -
  have "slug_text (lit ''base'')" and "lit ''USD'' = [85, 83, 68]"
    by (simp_all add: lit_def ascii_class_defs is_slug_start_def is_slug_byte_def)
  then show ?thesis
    by (simp add: subscription_from_row_def into_subscription_Ok_iff Subscription_wf_def sample_subscription_def
        sample_offer_def sample_charge_def subscription_columns_def FullSubscriptionRow.truncate_def
        sample_subscription_row_def policy_wf_def period_rule_wf_def BillingPeriod_wf_def
        MAX_DUNNING_RETRY_STEPS_def ascii_class_defs sample_renewed_row_def advance_row_def sample_period_def
        sample_renewed_subscription_def)
qed

lemma sample_renewal_applied:
  "\<exists>result event. apply_renewal_approved_on_connection sample_env LiveRecipient sample_renewal_reservation sample_terms
     sample_approved_evidence SubscriptionPeriodExpiryPolicy.Disabled sample_payment_db =
   Ok (result, Some event, sample_renewed_db)"
proof -
  let ?e = "approved_inner sample_approved_evidence"
  have conflict: "stop_conflicting_subscription_approval sample_env sample_open_renewal ?e sample_payment_db =
      Ok (None, [], sample_payment_db)"
    by (simp add: stop_conflicting_subscription_approval_def no_conflict_with_own_evidence sample_approved_evidence_def)
  have status: "PaymentAttempt_status sample_open_renewal \<noteq> PaymentAttemptStatus.Approved"
      "\<not> is_parked_expired_period_approval sample_open_renewal"
      "\<not> PaymentAttemptStatus_is_terminal (PaymentAttempt_status sample_open_renewal)"
    by (simp_all add: is_parked_expired_period_approval_def sample_open_simps PaymentAttemptStatus_is_terminal_def)
  have find: "find_attempt sample_renewed_db (reserved_identity sample_renewal_reservation) = Ok sample_approved_renewal"
    by (simp add: find_attempt_def find_payment_attempt_by_id_def sample_renewed_db_def sample_marked_db_def
        sample_approved_renewal_def sample_renewal_reservation_def)
  have load: "load_subscription sample_renewed_db (identity_billing_scope_id (reserved_identity sample_renewal_reservation))
      (SubscriptionId 5) = Ok (Some sample_renewed_subscription)"
    using sample_renewed_row_decodes
    by (simp add: load_subscription_def sample_renewed_db_def sample_marked_db_def sample_advanced_db_def with_charges_def
        sample_renewal_reservation_def)
       (simp add: sample_renewed_row_def advance_row_def sample_subscription_row_def sample_open_simps)
  have paid: "ChargeAmount_try_from (request_amount (attempt_request sample_approved_renewal)) = Ok (sample_charge 2000)"
    by (simp add: sample_approved_renewal_def sample_open_simps ChargeAmount_try_from_def sample_charge_def)
  have "\<exists>result. payment_result_applied sample_approved_renewal sample_renewed_subscription = Ok result"
    by (simp add: payment_result_applied_def require_subscription_attempt_def sample_approved_renewal_def
        sample_open_simps sample_renewed_subscription_def sample_subscription_def)
  then obtain result where result: "payment_result_applied sample_approved_renewal sample_renewed_subscription = Ok result" ..
  have "\<exists>event. complete_renewal sample_env sample_renewal_reservation sample_terms sample_open_renewal ?e (ProcessorChargeId 1)
      sample_advanced_db = Ok (result, Some event, sample_renewed_db)"
    using sample_mark sample_move find load paid result by (simp add: complete_renewal_def
        finish_payment_def renewed_event_def sample_terms_def sample_payment_state_def)
  then show ?thesis
    using sample_lock conflict status sample_observe sample_matches sample_advance
    by (auto simp: apply_renewal_approved_on_connection_def settle_approval_def apply_renewal_to_open_attempt_def
        with_primary_charge_def rejects_expired_periods_def sample_observed_db_def [symmetric] sample_terms_def)
qed

theorem renewal_event_matches_database_witness:
  "list_ex (\<lambda>c. charge_progression c = ProcessorChargeProgression.Applied) (pay_charges sample_renewed_db) \<and>
   list_ex (\<lambda>row. row_current_period_start_at row = 100 \<and> row_current_period_end_at row = 200)
     (db_subscriptions (pay_billing sample_renewed_db))"
proof -
  obtain result event where run: "apply_renewal_approved_on_connection sample_env LiveRecipient sample_renewal_reservation
      (offer_plan_key sample_offer, sample_period, sample_payment_state) sample_approved_evidence
      SubscriptionPeriodExpiryPolicy.Disabled sample_payment_db = Ok (result, Some event, sample_renewed_db)"
    using sample_renewal_applied unfolding sample_terms_def by blast
  have "payment_rely (env_others sample_env)" by (simp add: payment_rely_def charges_rely_def)
  from renewal_event_matches_database [OF sample_payment_db_ok this run]
  obtain row row' where charge: "list_ex (\<lambda>c. charge_progression c = ProcessorChargeProgression.Applied) (pay_charges sample_renewed_db)"
    and rows: "row \<in> set [sample_subscription_row]" "renewed_to 130 sample_period row row'"
      "db_subscriptions (pay_billing sample_renewed_db) = map (\<lambda>s. if row_id s = row_id row then row' else s) [sample_subscription_row]"
    by (auto simp: list_ex_iff applied_charge_def one_subscription_changes_def)
  then have "db_subscriptions (pay_billing sample_renewed_db) = [row']" by simp
  with charge rows(2) show ?thesis by (auto simp: renewed_to_def advance_row_def sample_period_def)
qed

theorem applied_renewal_replays_witness:
  "\<exists>result. apply_renewal_approved_on_connection (sample_env\<lparr>env_txn := \<lparr>txn_now = 500, txn_clock = 500, txn_locked = []\<rparr>\<rparr>)
     RetainedSubject sample_renewal_reservation sample_terms sample_approved_evidence
     SubscriptionPeriodExpiryPolicy.RejectExpiredPeriods sample_renewed_db = Ok (result, None, sample_renewed_db)"
proof -
  obtain result event where run: "apply_renewal_approved_on_connection sample_env LiveRecipient sample_renewal_reservation
      (offer_plan_key sample_offer, sample_period, sample_payment_state) sample_approved_evidence
      SubscriptionPeriodExpiryPolicy.Disabled sample_payment_db = Ok (result, Some event, sample_renewed_db)"
    using sample_renewal_applied unfolding sample_terms_def by blast
  have "request_target (reserved_request sample_renewal_reservation) = PaymentAttemptTarget.SubscriptionRenewal
      (offer_plan_key sample_offer) (payment_state_payment_method_id sample_payment_state) sample_period sample_payment_state"
    by (simp add: sample_renewal_reservation_def sample_open_simps sample_period_def sample_payment_state_def)
  from applied_renewal_replays [OF sample_payment_db_ok _ _ this run,
      of "sample_env\<lparr>env_txn := \<lparr>txn_now = 500, txn_clock = 500, txn_locked = []\<rparr>\<rparr>" RetainedSubject
        SubscriptionPeriodExpiryPolicy.RejectExpiredPeriods]
  show ?thesis by (auto simp: sample_terms_def)
qed


lemma renewal_outcome_records:
  assumes "run_rely run" and "payment_ok p" and "outcome_status outcome = GatewayPaymentStatus.Approved"
    and "apply_subscription_renewal_gateway_outcome ch run host r outcome p = Some (Ok x, p')"
  shows "evidence_recorded (reserved_identity r) (outcome_evidence outcome) p'"
proof -
  let ?approved = "ApprovedProcessorEvidence (outcome_evidence outcome)"
  obtain terms y where "apply_approved_renewal run host r terms ?approved p = (Ok y, p')"
    using assms(3,4)
    by (auto simp: apply_subscription_renewal_gateway_outcome_def apply_subscription_renewal_gateway_decision_def
        with_outcome_diagnostics_def map_prod_def approved_evidence_def split: prod.splits)
  with approved_renewal_settles [OF assms(1), of r ?approved p host terms] assms(2) show ?thesis by (simp add: settles_def)
qed

definition sample_host :: billing_host where
  "sample_host = \<lparr>host_subject_state = LiveRecipient, host_expiry_policy = SubscriptionPeriodExpiryPolicy.Disabled,
     host_begins = True, host_appends = (\<lambda>_. True), host_commits = True\<rparr>"

text \<open>The first transaction fails, the next applies the renewal.\<close>

definition sample_run :: payment_run where
  "sample_run = \<lparr>run_env = (\<lambda>_. sample_env), run_between = (\<lambda>_. id),
     run_failure = (\<lambda>n. if n = 0 then Some Transaction else None), run_lost_answer = (\<lambda>_. None)\<rparr>"

definition sample_outcome :: GatewayPaymentOutcome where
  "sample_outcome = GatewayPaymentOutcome_new GatewayPaymentStatus.Approved (approved_inner sample_approved_evidence)"

lemma sample_run_rely: "run_rely sample_run"
  by (simp add: run_rely_def sample_run_def payment_rely_def charges_rely_def)

lemma sample_terms_reserved: "reserved_terms sample_renewal_reservation = Some sample_terms"
  by (simp add: reserved_terms_def sample_renewal_reservation_def sample_terms_def sample_open_simps sample_period_def
      sample_payment_state_def)

lemma sample_renewal_run:
  "\<exists>x. apply_subscription_renewal_gateway_outcome ch sample_run sample_host sample_renewal_reservation sample_outcome
     sample_payment_db = Some (Ok x, sample_renewed_db)"
proof -
  obtain result event where run: "apply_renewal_approved_on_connection sample_env LiveRecipient sample_renewal_reservation
      sample_terms sample_approved_evidence SubscriptionPeriodExpiryPolicy.Disabled sample_payment_db =
      Ok (result, Some event, sample_renewed_db)"
    using sample_renewal_applied by blast
  have transaction: "evidence_transaction_id (approved_inner sample_approved_evidence) \<noteq> None"
    by (simp add: sample_approved_evidence_def sample_open_simps)
  have "apply_renewal_approved_outcome sample_host sample_renewal_reservation sample_terms sample_approved_evidence sample_env
      sample_payment_db = Ok ((result, [event]), sample_renewed_db)"
    using run by (simp add: apply_renewal_approved_outcome_def in_host_transaction_def finalize_application_def sample_host_def)
  moreover have "[0..<APPROVED_APPLICATION_ATTEMPTS] = [0, 1, 2]"
    by (simp add: APPROVED_APPLICATION_ATTEMPTS_def upt_rec)
  ultimately have "apply_approved_renewal sample_run sample_host sample_renewal_reservation sample_terms sample_approved_evidence
      sample_payment_db = (Ok (result, [event]), sample_renewed_db)"
    using transaction
    by (auto simp: apply_approved_renewal_def apply_approved_outcome_def Let_def transact_def sample_run_def)
  then show ?thesis
    using sample_terms_reserved
    by (simp add: apply_subscription_renewal_gateway_outcome_def apply_subscription_renewal_gateway_decision_def
        with_outcome_diagnostics_def sample_outcome_def GatewayPaymentOutcome_new_def approved_evidence_def)
qed

section \<open>Results are well formed\<close>

lemma renewal_approved_result_wf:
  assumes "apply_renewal_approved_on_connection env subject r terms approved policy p = Ok (result, event, p')"
  shows "payment_result_wf result"
proof -
  have completed: "payment_result_wf result"
    if "complete_renewal env r terms a e i p = Ok (result, event, p')" for a e i p
    using that by (cases terms) (auto simp: complete_renewal_def and_then_Inr_iff dest: finish_result_wf)
  have opened: "payment_result_wf result"
    if "apply_renewal_to_open_attempt env r terms a e policy p = Ok (result, event, p')" for a e p
    using that unfolding apply_renewal_to_open_attempt_def
    by (rule primary_charge_result_wf)
       (auto simp: and_then_Inr_iff split: if_splits dest: park_stale_result_wf parked_results_wf completed)
  from assms show ?thesis
    unfolding apply_renewal_approved_on_connection_def
    by (auto simp: and_then_Inr_iff elim!: settle_result_wf dest: terminal_result_wf opened)
qed

lemma approved_renewal_result_wf:
  assumes "apply_approved_renewal run host r terms approved p = (Inr (result, events), p')"
  shows "payment_result_wf result"
  using assms unfolding apply_approved_renewal_def
proof (rule applied_result_wf)
  show "payment_result_wf result" if "apply_renewal_approved_outcome host r terms approved env q = Ok ((result, events), q')" for env q q'
    using host_transaction_Ok [OF that [unfolded apply_renewal_approved_outcome_def]] renewal_approved_result_wf by blast
  show "payment_result_wf result"
    if "park_renewal_approved_outcome run r terms approved (host_expiry_policy host) message q = (Inr result, p')" for message q
    using that unfolding park_renewal_approved_outcome_def try_park_renewal_approved_outcome_def
    by (rule park_result_wf) (rule try_park_result_wf read_pending_result_wf, assumption)+
qed

lemma renewal_outcome_result_wf:
  assumes "apply_subscription_renewal_gateway_outcome ch run host r outcome p = Some (Ok (result, events), p')"
  shows "payment_result_wf result"
proof -
  obtain terms result1 where decision: "apply_subscription_renewal_gateway_decision ch run host r outcome p = Some (Ok (result1, events), p')"
    and terms: "reserved_terms r = Some terms" and wf: "payment_result_wf result = payment_result_wf result1"
    using assms by (auto simp: apply_subscription_renewal_gateway_outcome_def apply_subscription_renewal_gateway_decision_def
        dest: diagnostics_result_wf)
  have resolved: "payment_result_wf (oa_payment application)"
    if "resolve_renewal_on_connection ch env r e resolution q = Ok (application, events', q')" for env e resolution q application events' q'
    using that by (auto simp: resolve_renewal_on_connection_def Let_def and_then_Inr_iff dest: results_wf)
  have declined: "payment_result_wf (oa_payment application)"
    if "resolve_renewal_non_approved_outcome ch host clock between env r e resolution p = (Inr (application, events'), p')"
    for clock between env e resolution application events'
    using that by (auto simp: resolve_renewal_non_approved_outcome_def after_cooldown_def finalize_application_def Let_def
        and_then_Inr_iff split: option.splits sum.splits if_splits dest: resolved)
  from decision terms have "payment_result_wf result1"
    unfolding apply_subscription_renewal_gateway_decision_def resolve_renewal_unknown_outcome_def Let_def
    by (cases "outcome_status outcome")
       (auto simp: map_prod_def split: option.splits prod.splits
        dest: declined resolved_result_wf approved_renewal_result_wf)
  with wf show ?thesis by simp
qed

end
