(* ===== verification/Method_History.thy ===== *)
theory Method_History
  imports Approval_History
begin

text \<open>
  Stored payment methods: what an approval stores is active, a method that a current subscription refers to is not
  disabled, and the other statements of an approval leave the methods alone.  Recoveries and replacements use it.
\<close>

definition active_method :: "PaymentMethodId \<Rightarrow> GatewayPaymentMethodReference \<Rightarrow> payment_method_row \<Rightarrow> bool" where
  "active_method method_id reference m \<longleftrightarrow> pmrow_id m = PaymentMethodId_as_uuid method_id \<and>
     pmrow_status m = lit ''active'' \<and> pmrow_reference m = GatewayPaymentMethodReference_expose reference"

lemma upsert_active:
  assumes "upsert_payment_method env a e p = Ok (method_id, p')"
  obtains reference where "evidence_payment_method_reference e = Some reference"
    "list_ex (active_method method_id reference) (pay_methods p')"
proof -
  obtain reference where reference: "evidence_payment_method_reference e = Some reference"
    using assms by (auto simp: upsert_payment_method_def and_then_Inr_iff)
  have "list_ex (active_method method_id reference) (pay_methods p')"
  proof (cases "find (upserted_method a e reference) (pay_methods p)")
    case None
    with assms reference show ?thesis
      by (auto simp: upsert_payment_method_def Let_def active_method_def)
  next
    case (Some row)
    then have "row \<in> set (pay_methods p)" "upserted_method a e reference row" by (auto simp: find_Some_iff)
    moreover from Some assms reference obtain f where "method_id = PaymentMethodId (pmrow_id row)"
        "pay_methods p' = map f (pay_methods p)" "upserted_method a e reference row \<longrightarrow> active_method method_id reference (f row)"
      by (fastforce simp: upsert_payment_method_def Let_def active_method_def upserted_method_def)
    ultimately show ?thesis unfolding list_ex_iff by auto
  qed
  with reference that show thesis by blast
qed

text \<open>A method that a current subscription refers to is not disabled.\<close>

lemma disable_keeps_referenced:
  assumes "list_ex (active_method method_id reference) (pay_methods p)"
    and "row \<in> set (db_subscriptions (pay_billing p))" "row_payment_method_id row = PaymentMethodId_as_uuid method_id"
      "row_status row \<in> {lit ''active'', lit ''past_due''}"
  shows "list_ex (active_method method_id reference) (pay_methods (disable_payment_method_if_unreferenced old p))"
proof -
  obtain m where m: "m \<in> set (pay_methods p)" "active_method method_id reference m"
    using assms(1) unfolding list_ex_iff by blast
  moreover have "list_ex (\<lambda>s. row_payment_method_id s = pmrow_id m \<and> row_status s \<in> {lit ''active'', lit ''past_due''})
      (db_subscriptions (pay_billing p))"
    using assms(2-4) m(2) unfolding list_ex_iff active_method_def by auto
  ultimately show ?thesis
    unfolding list_ex_iff disable_payment_method_if_unreferenced_def
    by (auto simp: list_ex_iff intro!: image_eqI [of _ _ m] bexI [of _ m])
qed

lemma methods_unchanged:
  "update_one_subscription hit f p = Ok p' \<Longrightarrow> pay_methods p' = pay_methods p"
  "advance_discount env i plan_key p = Ok p' \<Longrightarrow> pay_methods p' = pay_methods p"
  by (auto simp: update_one_subscription_def Let_def advance_discount_Ok with_billing_def split: if_splits)

lemma paid_methods:
  assumes mark: "mark_attempt_approved env a e i m p = Ok q"
    and finish: "finish_payment env identity j charge event q = Ok (result, ev, p')"
  shows "pay_methods p' = pay_methods p"
  using finish mark
  by (elim finish_payment_cases)
     (auto simp: mark_attempt_approved_def on_attempts_Ok move_charge_Ok with_billing_def with_charges_def)

end
