(* ===== verification/Recovery_Guarantees.thy ===== *)
theory Recovery_Guarantees
  imports Recovery_Application Renewal_Guarantees Method_History
begin

text \<open>
  What a recovery promises.  As for renewals the event and the database agree, evidence survives and results are well
  formed; a recovery also leaves the subscription with an active payment method.  An applied recovery is
  replayed from the stored attempt, not from the reservation it was submitted with.
\<close>

section \<open>Moving the subscription\<close>

lemma lock_recovery_Ok:
  assumes "lock_expected_reservation_attempt p (OutcomeReservation.Recovery r) = Ok a"
  shows "a \<in> set (db_attempts (pay_billing p))" and "attempt_identity a = reserved_identity r"
    and "attempt_request a = reserved_request r" and "PaymentAttempt_kind a = PaymentAttemptKind.SubscriptionRecovery"
  using lock_reservation_Ok [OF assms] by (simp_all add: matches_exactly_def)

definition recovered_to ::
    "datetime \<Rightarrow> BillingPeriod \<Rightarrow> PaymentMethodId \<Rightarrow> GatewayTransactionId \<Rightarrow> subscription_row \<Rightarrow> subscription_row \<Rightarrow> bool" where
  "recovered_to clock period method_id transaction_id row row' \<longleftrightarrow>
     (\<exists>amount. row' = (recover_row clock period method_id transaction_id row)\<lparr>row_amount_cents := amount\<rparr>)"

lemma recovered_row_current: "recovered_row r terms row \<Longrightarrow> is_current_status (row_status row)"
  unfolding recovered_row_def is_current_status_def by (auto split: prod.splits)

lemma recovered_to_evolves:
  "is_current_status (row_status row) \<Longrightarrow> recovered_to clock period m t row row' \<Longrightarrow> subscription_evolves row row'"
  by (auto simp: recovered_to_def subscription_evolves_def recover_row_def policy_readable_def)

lemma advance_recovered_rows:
  assumes ok: "distinct_subscriptions p"
    and run: "advance_recovered_subscription env r (plan_key, period, expected) a e p = Ok (method_id, p')"
  obtains transaction_id reference where "evidence_transaction_id e = Some transaction_id"
    "evidence_payment_method_reference e = Some reference"
    "one_subscription_changes (recovered_row r (plan_key, period, expected))
       (recovered_to (env_clock env) period method_id transaction_id) p p'"
    "same_payments p p'" "list_ex (active_method method_id reference) (pay_methods p')"
proof -
  let ?terms = "(plan_key, period, expected)" and ?old = "payment_state_payment_method_id expected"
  obtain transaction_id p1 p2 p3 where t: "evidence_transaction_id e = Some transaction_id"
    and upsert: "upsert_payment_method env a e p = Ok (method_id, p1)"
    and update: "update_one_subscription (recovered_row r ?terms) (recover_row (env_clock env) period method_id transaction_id) p1 = Ok p2"
    and discount: "advance_discount env (payment_state_subscription_id expected) plan_key p2 = Ok p3"
    and p': "p' = disable_payment_method_if_unreferenced ?old p3"
    using run by (auto simp: advance_recovered_subscription_def and_then_Inr_iff map_sum_Inr_iff)
  have same1: "pay_billing p1 = pay_billing p" "pay_charges p1 = pay_charges p" using upsert_tables [OF upsert] by simp_all
  have "distinct (map row_id (db_subscriptions (pay_billing p1)))" using ok same1 by simp
  from advance_rows [OF this update discount]
  have rows: "one_subscription_changes (recovered_row r ?terms) (recovered_to (env_clock env) period method_id transaction_id) p1 p3"
    and same3: "same_payments p1 p3"
    unfolding recovered_to_def by (simp_all add: recovered_row_def reserved_row_def recover_row_def)
  from upsert obtain reference where reference: "evidence_payment_method_reference e = Some reference"
      "list_ex (active_method method_id reference) (pay_methods p1)"
    by (rule upsert_active)
  obtain row row' where row': "row \<in> set (db_subscriptions (pay_billing p1))"
      "recovered_to (env_clock env) period method_id transaction_id row row'"
      "db_subscriptions (pay_billing p3) = map (\<lambda>s. if row_id s = row_id row then row' else s) (db_subscriptions (pay_billing p1))"
    using rows unfolding one_subscription_changes_def by blast
  then have "row' \<in> set (db_subscriptions (pay_billing p3))" by force
  moreover have "row_payment_method_id row' = PaymentMethodId_as_uuid method_id" "row_status row' = lit ''active''"
    using row'(2) by (auto simp: recovered_to_def recover_row_def)
  ultimately have "list_ex (active_method method_id reference) (pay_methods p')"
    unfolding p' using reference(2) methods_unchanged(1) [OF update] methods_unchanged(2) [OF discount]
    by (intro disable_keeps_referenced [of method_id reference p3 row']) simp_all
  moreover have "one_subscription_changes (recovered_row r ?terms) (recovered_to (env_clock env) period method_id transaction_id) p p'"
      "same_payments p p'"
    using rows same3 same1 by (simp_all add: one_subscription_changes_def same_payments_def p')
  ultimately show thesis using that t reference(1) by blast
qed

lemma advance_recovered_keeps:
  assumes "advance_recovered_subscription env r (plan_key, period, expected) a e p = Ok (method_id, p')"
  shows "payment_keeps p p'"
proof -
  have "payment_keeps p p'" if "payment_ok p"
    using advance_recovered_rows [OF payment_ok_distinct [OF that] assms] subscription_change_keeps recovered_row_current recovered_to_evolves
    by metis
  then show ?thesis unfolding payment_keeps_def by blast
qed

lemma advance_recovered_same:
  "advance_recovered_subscription env r (plan_key, period, expected) a e p = Ok (method_id, p') \<Longrightarrow>
     payment_ok p \<longrightarrow> same_payments p p'"
  by (meson advance_recovered_rows payment_ok_distinct)

lemmas recovered_chain = advance_recovered_keeps advance_recovered_same

section \<open>Approved recoveries\<close>

lemma recovery_approved_cases:
  assumes rely: "payment_rely (env_others env)"
    and run: "apply_recovery_approved_on_connection env subject r (plan_key, period, expected) approved policy p =
      Ok (result, event, p')"
  obtains (recorded) "event = None" "recording (reserved_identity r) (approved_inner approved) p p'"
  | (recovered) a charge p1 method_id p2 p3 where
      "lock_expected_reservation_attempt p (OutcomeReservation.Recovery r) = Ok a"
      "PaymentAttemptStatus_is_resolvable (PaymentAttempt_status a)"
      "observe env a (approved_inner approved) ProcessorChargeProgression.Pending p = Ok (Owned charge, p1)"
      "advance_recovered_subscription env r (plan_key, period, expected) a (approved_inner approved) p1 = Ok (method_id, p2)"
      "mark_attempt_approved env a (approved_inner approved) (payment_state_subscription_id expected) method_id p2 = Ok p3"
      "finish_payment env (reserved_identity r) (payment_state_subscription_id expected) (record_id charge)
         (renewed_event (reserved_identity r) (plan_key, period, expected)) p3 = Ok (result, event, p')"
proof -
  let ?e = "approved_inner approved" and ?terms = "(plan_key, period, expected)"
  obtain a where a: "lock_expected_reservation_attempt p (OutcomeReservation.Recovery r) = Ok a"
    and settle: "settle_approval env subject a ?e True ProcessorChargeProgression.Applied
      (lit ''a subscription recovery event requires a live recipient'')
      (observe_approval_of_terminal_attempt env a approved (expired_period_end policy period))
      (apply_recovery_to_open_attempt env r ?terms a ?e policy) p = Ok (result, event, p')"
    using run by (auto simp: apply_recovery_approved_on_connection_def and_then_Inr_iff)
  note identity = lock_recovery_Ok(2) [OF a]
  have "\<forall>diagnostics. observe_approval_of_terminal_attempt env a approved (expired_period_end policy period) diagnostics p =
      Ok (result, event, p') \<longrightarrow> recording (attempt_identity a) ?e p p' \<and> event = None"
    using terminal_approval_recording [OF rely] by blast
  from rely lock_recovery_Ok(1) [OF a] this settle show thesis
  proof (cases rule: settle_cases)
    case recorded
    with identity that(1) show thesis by simp
  next
    case opened
    from rely opened(2) [unfolded apply_recovery_to_open_attempt_def] show thesis
    proof (cases rule: primary_charge_cases)
      case parked
      with identity that(1) show thesis by simp
    next
      case (primary charge p1)
      have first: "recording (reserved_identity r) ?e p p1"
        using observe_recording [OF rely primary(1)] identity by simp
      have frame: thesis if "payment_frame p1 p' \<and> event = None"
        using that recording_then [OF first] recorded by blast
      from primary(3) consider "payment_frame p1 p' \<and> event = None"
        | method_id p2 p3 where "advance_recovered_subscription env r ?terms a ?e p1 = Ok (method_id, p2)"
          "mark_attempt_approved env a ?e (payment_state_subscription_id expected) method_id p2 = Ok p3"
          "finish_payment env (reserved_identity r) (payment_state_subscription_id expected) (record_id charge)
             (renewed_event (reserved_identity r) ?terms) p3 = Ok (result, event, p')"
        by (auto simp: and_then_Inr_iff split: if_splits dest: park_stale_frame park_expired_frame)
      then show thesis using frame recovered a opened(1) primary(1) by cases blast+
    qed
  qed
qed

text \<open>C5.  A recovery returns its event exactly when it moves the subscription.  With the event, the attempt was open and
  is now approved with the evidence of the provider, its primary charge is applied with that transaction, and
  one subscription, still in the reserved payment state, moved to the reserved period, to the transaction of
  the recovery and to a payment method that is active with the reference of the provider, even where the method it had
  before was disabled; without the event no subscription was written.\<close>

theorem recovery_event_matches_database:
  assumes ok: "payment_ok p" and rely: "payment_rely (env_others env)"
    and run: "apply_recovery_approved_on_connection env subject r (plan_key, period, expected) approved policy p =
      Ok (result, event, p')"
  shows "case event of
      None \<Rightarrow> db_subscriptions (pay_billing p') = db_subscriptions (pay_billing p)
    | Some ev \<Rightarrow>
        (\<exists>paid. ChargeAmount_money paid = request_amount (reserved_request r) \<and>
           ev = BillingEvent.SubscriptionRenewed (identity_attempt_id (reserved_identity r))
             (payment_state_subscription_id expected) plan_key paid period) \<and>
        list_ex (open_attempt_of (reserved_identity r)) (db_attempts (pay_billing p)) \<and>
        list_ex (approved_attempt (reserved_identity r) (approved_inner approved)) (db_attempts (pay_billing p')) \<and>
        list_ex (applied_charge (reserved_identity r) (approved_inner approved)) (pay_charges p') \<and>
        (\<exists>method_id transaction_id reference. evidence_transaction_id (approved_inner approved) = Some transaction_id \<and>
           evidence_payment_method_reference (approved_inner approved) = Some reference \<and>
           list_ex (active_method method_id reference) (pay_methods p') \<and>
           one_subscription_changes (recovered_row r (plan_key, period, expected))
             (recovered_to (env_clock env) period method_id transaction_id) p p')"
  using rely run
proof (cases rule: recovery_approved_cases)
  case recorded
  then show ?thesis by (simp add: recording_def payment_frame_def)
next
  case (recovered a charge p1 method_id p2 p3)
  let ?e = "approved_inner approved"
  note a = lock_recovery_Ok [OF recovered(1)] and chain = recovered_chain [OF recovered(4)]
  note states = paid_states [OF ok rely recovered(3) chain recovered(5) refl refl recovered(6)]
  from ok rely a(1,2) recovered(3) chain recovered(5) refl refl recovered(6) obtain b where
    b: "find_attempt p' (reserved_identity r) = Ok b" "b \<in> set (db_attempts (pay_billing p'))"
      "approved_attempt (reserved_identity r) ?e b" "transition_row (env_clock env) ?e PaymentAttemptStatus.Approved None
        (Some (payment_state_subscription_id expected)) (Some method_id) a = Some b"
    and charge: "list_ex (applied_charge (reserved_identity r) ?e) (pay_charges p')"
    by (rule paid_payment) blast
  have amount: "request_amount (attempt_request b) = request_amount (reserved_request r)"
    using b(4) a(3) by (auto simp: transition_row_def)
  obtain ev where ev: "event = Some ev" "renewed_event (reserved_identity r) (plan_key, period, expected) b = Ok ev"
    using recovered(6) b(1) by (elim finish_payment_cases) simp
  have methods: "pay_methods p' = pay_methods p2" by (rule paid_methods [OF recovered(5) recovered(6)])
  from payment_ok_distinct [OF states(1)] recovered(4) obtain transaction_id reference where moved: "evidence_transaction_id ?e = Some transaction_id"
      "evidence_payment_method_reference ?e = Some reference"
      "one_subscription_changes (recovered_row r (plan_key, period, expected))
         (recovered_to (env_clock env) period method_id transaction_id) p1 p2"
      "list_ex (active_method method_id reference) (pay_methods p2)"
    by (rule advance_recovered_rows) blast
  have change: "one_subscription_changes (recovered_row r (plan_key, period, expected))
      (recovered_to (env_clock env) period method_id transaction_id) p p'"
    using moved(3) states(7,8) by (simp add: one_subscription_changes_def)
  have "list_ex (open_attempt_of (reserved_identity r)) (db_attempts (pay_billing p))"
    using a(1,2) recovered(2) unfolding list_ex_iff open_attempt_of_def by blast
  moreover have "list_ex (approved_attempt (reserved_identity r) ?e) (db_attempts (pay_billing p'))"
    using b(2,3) unfolding list_ex_iff by blast
  ultimately show ?thesis
    unfolding ev(1) option.case using charge change moved(1,2,4) methods renewed_event_Ok [OF ev(2)] amount by auto
qed

section \<open>Replays\<close>

text \<open>C10.  An applied recovery is replayed without effect by a reservation rebuilt from its stored attempt.  The
  reservation it was submitted with no longer matches once the approval stored another payment method with the
  attempt: applying the approval with it is refused.\<close>

theorem applied_recovery_replays_from_attempt:
  assumes ok: "payment_ok p" and others: "env_others env = id" "env_others env' = id"
    and target: "request_target (reserved_request r) =
      PaymentAttemptTarget.SubscriptionRecovery plan_key (payment_state_payment_method_id expected) period expected"
    and run: "apply_recovery_approved_on_connection env subject r (plan_key, period, expected) approved policy p =
      Ok (result, Some event, p')"
  shows "\<exists>b method_id. find_attempt p' (reserved_identity r) = Ok b \<and>
    request_target (attempt_request b) = PaymentAttemptTarget.SubscriptionRecovery plan_key method_id period expected \<and>
    apply_recovery_approved_on_connection env' subject' (r\<lparr>reserved_request := attempt_request b\<rparr>)
      (plan_key, period, expected) approved policy' p' = Ok (result, None, p') \<and>
    (method_id \<noteq> payment_state_payment_method_id expected \<longrightarrow>
      apply_recovery_approved_on_connection env' subject' r (plan_key, period, expected) approved policy' p' =
        Err invalid_application)"
proof -
  let ?e = "approved_inner approved"
  have rely: "payment_rely (env_others env)" by (simp add: others payment_rely_def charges_rely_def)
  from rely run obtain a charge p1 method_id p2 p3 where
    lock: "lock_expected_reservation_attempt p (OutcomeReservation.Recovery r) = Ok a"
    and observe: "observe env a ?e ProcessorChargeProgression.Pending p = Ok (Owned charge, p1)"
    and advance: "advance_recovered_subscription env r (plan_key, period, expected) a ?e p1 = Ok (method_id, p2)"
    and mark: "mark_attempt_approved env a ?e (payment_state_subscription_id expected) method_id p2 = Ok p3"
    and finish: "finish_payment env (reserved_identity r) (payment_state_subscription_id expected) (record_id charge)
       (renewed_event (reserved_identity r) (plan_key, period, expected)) p3 = Ok (result, Some event, p')"
    by (cases rule: recovery_approved_cases) simp_all
  note a = lock_recovery_Ok [OF lock] and chain = recovered_chain [OF advance]
  from ok rely a(1,2) observe chain mark refl refl finish obtain b where
    b: "find_attempt p' (reserved_identity r) = Ok b" "approved_attempt (reserved_identity r) ?e b"
      "transition_row (env_clock env) ?e PaymentAttemptStatus.Approved None (Some (payment_state_subscription_id expected))
        (Some method_id) a = Some b"
    by (rule paid_payment) blast
  have request: "attempt_request b = (reserved_request r)
      \<lparr>request_target := PaymentAttemptTarget.SubscriptionRecovery plan_key method_id period expected\<rparr>"
    using b(3) a(3) target by (auto simp: transition_row_def coalesced_def)
  have kind: "PaymentAttempt_kind b = PaymentAttemptKind.SubscriptionRecovery"
    using request by (simp add: PaymentAttempt_kind_def)
  let ?r = "r\<lparr>reserved_request := attempt_request b\<rparr>"
  have "lock_expected_reservation_attempt p' (OutcomeReservation.Recovery ?r) = Ok b"
    using b(1,2) kind by (simp add: lock_expected_reservation_attempt_def matches_exactly_def approved_attempt_def)
  then have "apply_recovery_approved_on_connection env' subject' ?r (plan_key, period, expected) approved policy' p' = Ok (result, None, p')"
    unfolding apply_recovery_approved_on_connection_def
    by (simp add: paid_replays [OF ok others a(1,2) observe chain mark refl refl finish b(1)])
  moreover have "apply_recovery_approved_on_connection env' subject' r (plan_key, period, expected) approved policy' p' =
      Err invalid_application" if "method_id \<noteq> payment_state_payment_method_id expected"
  proof -
    have "attempt_request b \<noteq> reserved_request r"
      using request target that by (cases "reserved_request r") auto
    then show ?thesis
      using b(1) by (simp add: apply_recovery_approved_on_connection_def lock_expected_reservation_attempt_def matches_exactly_def)
  qed
  ultimately show ?thesis using b(1) request by auto
qed

section \<open>The whole call\<close>

lemma recovery_approved_records:
  assumes rely: "payment_rely (env_others env)"
    and run: "apply_recovery_approved_on_connection env subject r terms approved policy p = Ok (result, event, p')"
  shows "payment_keeps p p' \<and> (payment_ok p \<longrightarrow> evidence_recorded (reserved_identity r) (approved_inner approved) p')"
proof -
  obtain plan_key period expected where terms: "terms = (plan_key, period, expected)" by (cases terms)
  from rely run [unfolded terms] show ?thesis
  proof (cases rule: recovery_approved_cases)
    case recorded
    then show ?thesis by (simp add: recordingD)
  next
    case (recovered a charge p1 method_id p2 p3)
    from paid_keeps [OF rely recovered(3) advance_recovered_keeps [OF recovered(4)] recovered(5) refl refl recovered(6)]
    show ?thesis by (simp add: lock_recovery_Ok(2) [OF recovered(1)])
  qed
qed

lemma applied_recovery_records:
  assumes "payment_rely (env_others env)" and "apply_recovery_approved_outcome host r terms approved env p = Ok (x, p')"
  shows "payment_keeps p p' \<and> (payment_ok p \<longrightarrow> evidence_recorded (reserved_identity r) (approved_inner approved) p')"
proof -
  obtain result events where x: "x = (result, events)" by (cases x)
  from host_transaction_Ok [OF assms(2) [unfolded apply_recovery_approved_outcome_def x]]
  show ?thesis using recovery_approved_records [OF assms(1)] by blast
qed

interpretation recovering: recording_operation "apply_recovery_approved_outcome host r terms approved"
    "reserved_identity r" "approved_inner approved" for host r terms approved
  by unfold_locales (use applied_recovery_records in blast)+

interpretation recovery: approved_outcome "reserved_identity r" "approved_inner approved"
    "apply_recovery_approved_outcome host r terms approved"
    "try_park_recovery_approved_outcome r terms (approved_inner approved) policy"
    "observe_approved_evidence (OutcomeReservation.Recovery r) (approved_inner approved) (expired_period_end policy (fst (snd terms)))"
    "\<lambda>run. write_without_lock run (lock_free_terms_recovery r (fst terms)) (approved_inner approved)
       (expired_period_end policy (fst (snd terms)))"
    "read_pending_confirmation True (reserved_identity r) approved"
  for host r terms approved policy
proof (rule approved_outcome.intro)
  show "recording_operation (try_park_recovery_approved_outcome r terms (approved_inner approved) policy message)
      (reserved_identity r) (approved_inner approved)" for message
    using parking.recording_operation_axioms [of "OutcomeReservation.Recovery r"]
    by (simp add: try_park_recovery_approved_outcome_def)
  show "recording_operation (observe_approved_evidence (OutcomeReservation.Recovery r) (approved_inner approved)
      (expired_period_end policy (fst (snd terms)))) (reserved_identity r) (approved_inner approved)"
    using observing.recording_operation_axioms [of "OutcomeReservation.Recovery r"] by simp
  show "payment_keeps p p' \<and> (payment_ok p \<longrightarrow> out = Inr () \<longrightarrow> evidence_recorded (reserved_identity r) (approved_inner approved) p')"
    if "run_rely run" "write_without_lock run (lock_free_terms_recovery r (fst terms)) (approved_inner approved)
      (expired_period_end policy (fst (snd terms))) p = (out, p')" for run p out p'
    using write_without_lock_records [OF that] by (simp add: lock_free_terms_recovery_def)
qed (rule recovering.recording_operation_axioms reading.payment_operation_axioms)+

lemma approved_recovery_settles:
  "run_rely run \<Longrightarrow> settles (reserved_identity r) (approved_inner approved) p (apply_approved_recovery run host r terms approved p)"
  using recovery.applied_outcome [of run r approved p _ host terms]
  by (simp add: apply_approved_recovery_def park_recovery_approved_outcome_def [abs_def]
      observe_recovery_approved_evidence_with_retry_def [abs_def])

lemma recovery_outcome_keeps:
  assumes "run_rely run" and "apply_subscription_recovery_gateway_outcome run host r outcome p = Some (out, p')"
  shows "payment_keeps p p'"
proof -
  obtain terms where "with_outcome_diagnostics outcome (decide_outcome run (OutcomeReservation.Recovery r) outcome
      (apply_approved_recovery run host r terms) p) = (out, p')"
    using assms by (auto simp: apply_subscription_recovery_gateway_outcome_def)
  then show ?thesis by (rule decided_keeps [OF assms(1)]) (rule approved_recovery_settles [OF assms(1)])
qed

lemma recovery_outcome_records:
  assumes "run_rely run" and "payment_ok p" and "outcome_status outcome = GatewayPaymentStatus.Approved"
    and "apply_subscription_recovery_gateway_outcome run host r outcome p = Some (Inr x, p')"
  shows "evidence_recorded (reserved_identity r) (outcome_evidence outcome) p'"
proof -
  obtain terms where "with_outcome_diagnostics outcome (decide_outcome run (OutcomeReservation.Recovery r) outcome
      (apply_approved_recovery run host r terms) p) = (Inr x, p')"
    using assms by (auto simp: apply_subscription_recovery_gateway_outcome_def)
  then show ?thesis by (rule decided_records [OF assms(2,3)]) (rule approved_recovery_settles [OF assms(1)])
qed

lemma recovery_approved_result_wf:
  assumes "apply_recovery_approved_on_connection env subject r terms approved policy p = Ok (result, event, p')"
  shows "payment_result_wf result"
proof -
  have opened: "payment_result_wf result"
    if "apply_recovery_to_open_attempt env r terms a e policy p = Ok (result, event, p')" for a e p
    using that unfolding apply_recovery_to_open_attempt_def
    by (rule primary_charge_result_wf)
       (auto simp: and_then_Inr_iff split: if_splits dest: park_stale_result_wf parked_results_wf finish_result_wf)
  from assms show ?thesis
    unfolding apply_recovery_approved_on_connection_def
    by (auto simp: and_then_Inr_iff elim!: settle_result_wf dest: terminal_result_wf opened)
qed

lemma recovery_outcome_result_wf:
  assumes "apply_subscription_recovery_gateway_outcome run host r outcome p = Some (Inr (result, events), p')"
  shows "payment_result_wf result"
proof -
  obtain terms result1 where decide: "decide_outcome run (OutcomeReservation.Recovery r) outcome
      (apply_approved_recovery run host r terms) p = (Inr (result1, events), p')"
    and wf: "payment_result_wf result = payment_result_wf result1"
    using assms by (auto simp: apply_subscription_recovery_gateway_outcome_def dest: diagnostics_result_wf)
  have "payment_result_wf result1" if "apply_approved_recovery run host r terms approved p = (Inr (result1, events), p')" for approved
    using that unfolding apply_approved_recovery_def
  proof (rule applied_result_wf)
    show "payment_result_wf result1"
      if "apply_recovery_approved_outcome host r terms approved env q = Ok ((result1, events), q')" for env q q'
      using host_transaction_Ok [OF that [unfolded apply_recovery_approved_outcome_def]] recovery_approved_result_wf by blast
    show "payment_result_wf result1"
      if "park_recovery_approved_outcome run r terms approved (host_expiry_policy host) message q = (Inr result1, p')" for message q
      using that unfolding park_recovery_approved_outcome_def try_park_recovery_approved_outcome_def
      by (rule park_result_wf) (rule try_park_result_wf read_pending_result_wf, assumption)+
  qed
  with decided_result_wf [OF decide] wf show ?thesis by simp
qed

section \<open>A concrete recovery\<close>

definition sample_open_recovery :: PaymentAttempt where
  "sample_open_recovery = sample_open_renewal
     \<lparr>attempt_request := (attempt_request sample_open_renewal)\<lparr>request_target :=
        PaymentAttemptTarget.SubscriptionRecovery (offer_plan_key sample_offer) (PaymentMethodId 6) sample_period sample_payment_state\<rparr>\<rparr>"

definition sample_new_card :: ApprovedProcessorEvidence where
  "sample_new_card = ApprovedProcessorEvidence ((state_processor_evidence (attempt_state sample_open_renewal))
     \<lparr>evidence_payment_method_reference := Some (GatewayPaymentMethodReference (GatewayReferenceValue (lit ''m'')))\<rparr>)"

definition sample_recovery_reservation :: SubscriptionRecoveryReservation where
  "sample_recovery_reservation = \<lparr>reserved_identity = attempt_identity sample_open_recovery,
     reserved_provider_key = resolved_provider_key sample_gateway, reserved_request = attempt_request sample_open_recovery\<rparr>"

definition sample_recovery_db :: payment_db where
  "sample_recovery_db = sample_payment_db\<lparr>pay_billing := sample_open_db\<lparr>db_attempts := [sample_open_recovery]\<rparr>\<rparr>"

lemma sample_recovery_ok: "payment_ok sample_recovery_db"
  by (simp add: payment_ok_def sample_recovery_db_def charges_ok_def charge_view_def attempts_ok_def
      attempt_checks_def relationship_shape_check_def gateway_text_check_def
      resolved_state_check_def review_required_at_check_def timestamp_order_check_def within_column_def
      sample_open_recovery_def sample_open_simps ProcessorEvidence_default_def sample_payment_db_def sample_open_db_def sample_dunning_db_def
      GatewayPaymentDescriptor_from_provider_parts_def PaymentAttemptStatus_is_terminal_def is_none_or_def)

definition sample_recovery_charge :: stored_charge where
  "sample_recovery_charge = observed_charge 130 (ProcessorChargeId 1) sample_open_recovery
     (approved_inner sample_new_card) Primary ProcessorChargeProgression.Pending"

definition sample_recovery_observed :: payment_db where
  "sample_recovery_observed = with_charges \<lparr>cs_attempts = [sample_open_recovery], cs_charges = [sample_recovery_charge],
     cs_attestations = []\<rparr> sample_recovery_db"

definition sample_new_method :: payment_method_row where
  "sample_new_method = \<lparr>pmrow_id = 2, pmrow_billing_scope_id = 1, pmrow_subscriber_id = 2, pmrow_gateway_account_id = 3,
     pmrow_reference = lit ''m'', pmrow_status = lit ''active'',
     pmrow_descriptor = evidence_descriptor (approved_inner sample_new_card),
     pmrow_billing_name = contact_snapshot_name (BillingContactSnapshot_new None None),
     pmrow_billing_email = contact_snapshot_email (BillingContactSnapshot_new None None),
     pmrow_billing_address = contact_snapshot_address (BillingContactSnapshot_new None None)\<rparr>"

definition sample_recovered_row :: subscription_row where
  "sample_recovered_row = recover_row 130 sample_period (PaymentMethodId 2) (GatewayTransactionId (GatewayReferenceValue (lit ''t'')))
     sample_subscription_row"

definition sample_recovery_advanced :: payment_db where
  "sample_recovery_advanced = with_billing ((pay_billing sample_recovery_observed)\<lparr>db_subscriptions := [sample_recovered_row]\<rparr>)
     (sample_recovery_observed\<lparr>pay_methods := [sample_new_method]\<rparr>)"

lemma sample_recovery_simps [simp]:
  "pay_billing sample_recovery_db = sample_open_db\<lparr>db_attempts := [sample_open_recovery]\<rparr>" "pay_charges sample_recovery_db = []"
  "pay_attestations sample_recovery_db = []" "pay_methods sample_recovery_db = []"
  "pay_billing sample_recovery_observed =
     sample_open_db\<lparr>db_attempts := [sample_open_recovery], db_charges := [charge_row_of sample_recovery_charge]\<rparr>"
  "pay_charges sample_recovery_observed = [sample_recovery_charge]" "pay_methods sample_recovery_observed = []"
  "evidence_transaction_id (approved_inner sample_new_card) = Some (GatewayTransactionId (GatewayReferenceValue (lit ''t'')))"
  "evidence_payment_method_reference (approved_inner sample_new_card) = Some (GatewayPaymentMethodReference (GatewayReferenceValue (lit ''m'')))"
  by (simp_all add: sample_recovery_db_def sample_payment_db_def sample_recovery_observed_def with_charges_def sample_new_card_def
      sample_open_simps)

lemma sample_recovery_observe:
  "observe sample_env sample_open_recovery (approved_inner sample_new_card) ProcessorChargeProgression.Pending
     sample_recovery_db =
   Ok (Owned \<lparr>record_id = ProcessorChargeId 1, record_role = Primary, record_exact_replay = False\<rparr>, sample_recovery_observed)"
proof -
  have "charge_checks sample_recovery_charge"
    by (simp add: charge_checks_def dimension_shape_check_def state_timestamps_check_def transaction_identity_check_def
        reversal_eligibility_check_def sample_recovery_charge_def observed_charge_def sample_open_recovery_def
        sample_open_simps sample_charge_def)
  moreover have "set_processor_charge_attempt_dimensions sample_open_recovery sample_recovery_charge = Some sample_recovery_charge"
    by (simp add: set_processor_charge_attempt_dimensions_def sample_recovery_charge_def observed_charge_def)
  moreover have "charge_attempt_id sample_recovery_charge = attempt_key sample_open_recovery"
      "charge_id sample_recovery_charge = ProcessorChargeId 1"
    by (simp_all add: sample_recovery_charge_def observed_charge_def)
  ultimately show ?thesis
    by (auto simp: observe_def on_charges_def sample_env_def charge_view_def sample_recovery_observed_def
        observe_processor_charge_def owned_by_other_attempt_def identify_transactionless_def matching_charge_def
        has_existing_charge_def observe_insert_def initial_charge_progression_def insert_charge_def charge_attempt_def
        Let_def sample_recovery_charge_def [symmetric])
qed

lemma sample_recovery_matches: "recovery_subscription_matches sample_recovery_observed sample_recovery_reservation sample_terms"
  by (simp add: recovery_subscription_matches_def sample_recovery_reservation_def sample_open_recovery_def
      reserved_row_def payment_state_holds_def sample_row_simps sample_open_simps
      canonical_gateway_transaction_ids_equal_def canonical_gateway_transaction_id_def
      trim_gateway_transaction_id_trim trim_id_of_no_whitespace is_whitespace_def)

lemma sample_recovery_selected: "recovered_row sample_recovery_reservation sample_terms sample_subscription_row"
  by (simp add: recovered_row_def reserved_row_def sample_recovery_reservation_def sample_open_recovery_def
      sample_row_simps sample_open_simps)

lemma sample_recovery_advance:
  "advance_recovered_subscription sample_env sample_recovery_reservation sample_terms sample_open_recovery
     (approved_inner sample_new_card) sample_recovery_observed = Ok (PaymentMethodId 2, sample_recovery_advanced)"
proof -
  have "upsert_payment_method sample_env sample_open_recovery (approved_inner sample_new_card) sample_recovery_observed =
      Ok (PaymentMethodId 2, sample_recovery_observed\<lparr>pay_methods := [sample_new_method]\<rparr>)"
    by (simp add: upsert_payment_method_def sample_new_method_def Let_def)
       (simp add: sample_env_def sample_open_recovery_def sample_open_simps)
  then show ?thesis
    using sample_recovery_selected
    by (simp add: advance_recovered_subscription_def advance_subscription_discount_after_successful_charge_def
      update_one_subscription_def Let_def advance_discount_def update_subscriptions_def sample_recovery_advanced_def sample_recovered_row_def
      sample_terms_def with_billing_def disable_payment_method_if_unreferenced_def sample_payment_state_def sample_new_method_def)
qed

definition sample_approved_recovery :: PaymentAttempt where
  "sample_approved_recovery = sample_open_recovery
     \<lparr>attempt_request := (attempt_request sample_open_recovery)\<lparr>request_target :=
        PaymentAttemptTarget.SubscriptionRecovery (offer_plan_key sample_offer) (PaymentMethodId 2) sample_period sample_payment_state\<rparr>,
      attempt_state := (attempt_state sample_open_recovery)\<lparr>state_status := PaymentAttemptStatus.Approved,
        state_processor_evidence := approved_inner sample_new_card,
        state_timestamps := (state_timestamps (attempt_state sample_open_recovery))
          \<lparr>stamp_resolved_at := Some 130, stamp_updated_at := 130\<rparr>\<rparr>\<rparr>"

definition sample_recovery_marked :: payment_db where
  "sample_recovery_marked = with_billing ((pay_billing sample_recovery_advanced)\<lparr>db_attempts := [sample_approved_recovery]\<rparr>)
     sample_recovery_advanced"

definition sample_recovery_applied :: stored_charge where
  "sample_recovery_applied = (set_progression 130 ProcessorChargeProgression.Applied sample_recovery_charge)
     \<lparr>charge_state_code := None, charge_externally_reversed_at := None\<rparr>"

definition sample_recovered_db :: payment_db where
  "sample_recovered_db = with_charges \<lparr>cs_attempts = [sample_approved_recovery], cs_charges = [sample_recovery_applied],
     cs_attestations = []\<rparr> sample_recovery_marked"

definition sample_recovered_subscription :: Subscription where
  "sample_recovered_subscription = sample_renewed_subscription\<lparr>sub_payment_method_id := PaymentMethodId 2\<rparr>"

lemmas sample_recovery_steps = sample_recovered_db_def sample_recovery_marked_def sample_recovery_advanced_def

lemma sample_recovery_mark:
  "mark_attempt_approved sample_env sample_open_recovery (approved_inner sample_new_card) (SubscriptionId 5)
     (PaymentMethodId 2) sample_recovery_advanced = Ok sample_recovery_marked"
proof -
  have row: "transition_row 130 (approved_inner sample_new_card) PaymentAttemptStatus.Approved None
      (Some (SubscriptionId 5)) (Some (PaymentMethodId 2)) sample_open_recovery = Some sample_approved_recovery"
    by (simp add: transition_row_def sample_approved_recovery_def coalesced_def sample_open_recovery_def sample_open_simps
        PaymentAttemptStatus_is_terminal_def sample_payment_state_def)
  have "attempt_checks sample_approved_recovery"
    by (simp add: attempt_checks_def relationship_shape_check_def gateway_text_check_def
        resolved_state_check_def review_required_at_check_def timestamp_order_check_def within_column_def
        sample_approved_recovery_def sample_open_recovery_def sample_open_simps ProcessorEvidence_default_def sample_new_card_def
        GatewayPaymentDescriptor_from_provider_parts_def PaymentAttemptStatus_is_terminal_def is_none_or_def)
  moreover have "PaymentAttemptStatus_is_resolvable (PaymentAttempt_status sample_open_recovery)"
    by (simp add: sample_open_recovery_def sample_open_simps PaymentAttemptStatus_is_resolvable_def)
  ultimately show ?thesis
    using row
    by (simp add: mark_attempt_approved_def on_attempts_def persist_attempt_transition_def require_one_row_def
        update_attempt_def update_attempts_def sample_recovery_advanced_def sample_recovery_marked_def)
qed

lemma sample_recovery_move:
  "move_charge sample_env (ProcessorChargeId 1) ProcessorChargeProgression.Applied None sample_recovery_marked =
     Ok sample_recovered_db"
proof -
  have charge: "charge_id sample_recovery_charge = ProcessorChargeId 1"
      "charge_progression sample_recovery_charge = ProcessorChargeProgression.Pending" "charge_state_code sample_recovery_charge = None"
    by (simp_all add: sample_recovery_charge_def observed_charge_def)
  have eligible: "transition_eligible ProcessorChargeProgression.Applied sample_recovery_charge"
    by (simp add: transition_eligible_def sample_recovery_charge_def observed_charge_def sample_open_simps)
  have "charge_checks sample_recovery_applied"
    by (simp add: charge_checks_def dimension_shape_check_def state_timestamps_check_def transaction_identity_check_def
        reversal_eligibility_check_def sample_recovery_applied_def set_progression_def sample_recovery_charge_def
        observed_charge_def sample_open_recovery_def sample_open_simps sample_charge_def)
  moreover have "pay_attestations sample_recovery_observed = []"
    by (simp add: sample_recovery_observed_def with_charges_def)
  ultimately show ?thesis
    using charge eligible
    by (simp add: move_charge_def on_charges_def transition_charge_def transition_processor_charge_def update_charge_def
        sample_recovery_steps charge_view_def sample_recovery_applied_def with_charges_def)
qed

lemma sample_recovered_row_decodes: "subscription_from_row sample_recovered_row = Ok sample_recovered_subscription"
proof -
  have "slug_text (lit ''base'')" and "lit ''USD'' = [85, 83, 68]"
    by (simp_all add: lit_def ascii_class_defs is_slug_start_def is_slug_byte_def)
  then show ?thesis
    by (simp add: subscription_from_row_def into_subscription_Ok_iff Subscription_wf_def sample_subscription_def
        sample_offer_def sample_charge_def subscription_columns_def FullSubscriptionRow.truncate_def
        sample_subscription_row_def policy_wf_def period_rule_wf_def BillingPeriod_wf_def
        MAX_DUNNING_RETRY_STEPS_def ascii_class_defs sample_recovered_row_def recover_row_def sample_period_def
        sample_recovered_subscription_def sample_renewed_subscription_def)
qed

lemma sample_recovery_run:
  "\<exists>result event. apply_recovery_approved_on_connection sample_env LiveRecipient sample_recovery_reservation
     (offer_plan_key sample_offer, sample_period, sample_payment_state) sample_new_card SubscriptionPeriodExpiryPolicy.Disabled
     sample_recovery_db = Ok (result, Some event, sample_recovered_db)"
proof -
  let ?e = "approved_inner sample_new_card"
  have lock: "lock_expected_reservation_attempt sample_recovery_db (OutcomeReservation.Recovery sample_recovery_reservation) =
      Ok sample_open_recovery"
    by (simp add: lock_expected_reservation_attempt_def find_attempt_def find_payment_attempt_by_id_def matches_exactly_def
        sample_recovery_reservation_def) (simp add: sample_open_recovery_def sample_open_simps)
  have conflict: "stop_conflicting_subscription_approval sample_env sample_open_recovery ?e sample_recovery_db =
      Ok (None, [], sample_recovery_db)"
    by (simp add: stop_conflicting_subscription_approval_def processor_identity_conflict_diagnostics_def
        conflict_diagnostics_def sample_open_recovery_def sample_open_simps sample_new_card_def ProcessorEvidence_default_def)
  have status: "PaymentAttempt_status sample_open_recovery \<noteq> PaymentAttemptStatus.Approved"
      "\<not> is_parked_expired_period_approval sample_open_recovery"
      "\<not> PaymentAttemptStatus_is_terminal (PaymentAttempt_status sample_open_recovery)"
    by (simp_all add: is_parked_expired_period_approval_def sample_open_recovery_def sample_open_simps PaymentAttemptStatus_is_terminal_def)
  have find: "find_attempt sample_recovered_db (reserved_identity sample_recovery_reservation) = Ok sample_approved_recovery"
    by (simp add: find_attempt_def find_payment_attempt_by_id_def sample_recovery_steps
        sample_approved_recovery_def sample_recovery_reservation_def)
  have load: "load_subscription sample_recovered_db (identity_billing_scope_id (reserved_identity sample_recovery_reservation))
      (SubscriptionId 5) = Ok (Some sample_recovered_subscription)"
    using sample_recovered_row_decodes
    by (simp add: load_subscription_def sample_recovery_steps with_charges_def sample_recovery_reservation_def)
       (simp add: sample_recovered_row_def recover_row_def sample_subscription_row_def sample_open_recovery_def sample_open_simps)
  have paid: "ChargeAmount_try_from (request_amount (attempt_request sample_approved_recovery)) = Ok (sample_charge 2000)"
    by (simp add: sample_approved_recovery_def sample_open_recovery_def sample_open_simps ChargeAmount_try_from_def sample_charge_def)
  have "\<exists>result. payment_result_applied sample_approved_recovery sample_recovered_subscription = Ok result"
    by (simp add: payment_result_applied_def require_subscription_attempt_def sample_approved_recovery_def
        sample_open_recovery_def sample_open_simps sample_recovered_subscription_def sample_renewed_subscription_def
        sample_subscription_def sample_payment_state_def)
  then obtain result where result: "payment_result_applied sample_approved_recovery sample_recovered_subscription = Ok result" ..
  have "\<exists>event. finish_payment sample_env (reserved_identity sample_recovery_reservation) (SubscriptionId 5) (ProcessorChargeId 1)
      (renewed_event (reserved_identity sample_recovery_reservation) sample_terms) sample_recovery_marked =
      Ok (result, Some event, sample_recovered_db)"
    using sample_recovery_move find load paid result
    by (simp add: finish_payment_def renewed_event_def sample_terms_def sample_payment_state_def)
  then show ?thesis
    using lock conflict status sample_recovery_observe sample_recovery_matches sample_recovery_advance sample_recovery_mark
    by (auto simp: apply_recovery_approved_on_connection_def settle_approval_def apply_recovery_to_open_attempt_def
        with_primary_charge_def rejects_expired_periods_def sample_terms_def sample_payment_state_def)
qed

theorem recovery_event_matches_database_witness:
  "list_ex (active_method (PaymentMethodId 2) (GatewayPaymentMethodReference (GatewayReferenceValue (lit ''m''))))
     (pay_methods sample_recovered_db) \<and>
   list_ex (\<lambda>row. row_current_period_end_at row = 200 \<and> row_payment_method_id row = 2 \<and>
       row_initial_transaction_id row = lit ''t'') (db_subscriptions (pay_billing sample_recovered_db))"
proof -
  obtain result event where run: "apply_recovery_approved_on_connection sample_env LiveRecipient sample_recovery_reservation
      (offer_plan_key sample_offer, sample_period, sample_payment_state) sample_new_card SubscriptionPeriodExpiryPolicy.Disabled
      sample_recovery_db = Ok (result, Some event, sample_recovered_db)"
    using sample_recovery_run by blast
  have methods: "pay_methods sample_recovered_db = [sample_new_method]"
    by (simp add: sample_recovery_steps with_charges_def with_billing_def)
  have "payment_rely (env_others sample_env)" by (simp add: payment_rely_def charges_rely_def)
  from recovery_event_matches_database [OF sample_recovery_ok this run]
  obtain method_id row row' where
    active: "list_ex (active_method method_id (GatewayPaymentMethodReference (GatewayReferenceValue (lit ''m'')))) (pay_methods sample_recovered_db)"
    and rows: "row \<in> set [sample_subscription_row]"
      "recovered_to 130 sample_period method_id (GatewayTransactionId (GatewayReferenceValue (lit ''t''))) row row'"
      "db_subscriptions (pay_billing sample_recovered_db) = map (\<lambda>s. if row_id s = row_id row then row' else s) [sample_subscription_row]"
    by (auto simp: one_subscription_changes_def)
  have "method_id = PaymentMethodId 2"
    using active by (cases method_id) (simp add: methods active_method_def sample_new_method_def)
  moreover have "db_subscriptions (pay_billing sample_recovered_db) = [row']" using rows(1,3) by simp
  ultimately show ?thesis
    using active rows(2) by (auto simp: recovered_to_def recover_row_def sample_period_def)
qed

theorem applied_recovery_replays_from_attempt_witness:
  "apply_recovery_approved_on_connection sample_env LiveRecipient sample_recovery_reservation
     (offer_plan_key sample_offer, sample_period, sample_payment_state) sample_new_card SubscriptionPeriodExpiryPolicy.Disabled
     sample_recovered_db = Err invalid_application"
proof -
  obtain result event where run: "apply_recovery_approved_on_connection sample_env LiveRecipient sample_recovery_reservation
      (offer_plan_key sample_offer, sample_period, sample_payment_state) sample_new_card SubscriptionPeriodExpiryPolicy.Disabled
      sample_recovery_db = Ok (result, Some event, sample_recovered_db)"
    using sample_recovery_run by blast
  have target: "request_target (reserved_request sample_recovery_reservation) = PaymentAttemptTarget.SubscriptionRecovery
      (offer_plan_key sample_offer) (payment_state_payment_method_id sample_payment_state) sample_period sample_payment_state"
    by (simp add: sample_recovery_reservation_def sample_open_recovery_def sample_payment_state_def)
  have "find_attempt sample_recovered_db (reserved_identity sample_recovery_reservation) = Ok sample_approved_recovery"
    by (simp add: find_attempt_def find_payment_attempt_by_id_def sample_recovery_steps
        sample_approved_recovery_def sample_recovery_reservation_def)
  with applied_recovery_replays_from_attempt [OF sample_recovery_ok _ _ target run, of sample_env LiveRecipient
      SubscriptionPeriodExpiryPolicy.Disabled]
  show ?thesis by (auto simp: sample_approved_recovery_def sample_payment_state_def)
qed

end
