(* ===== verification/Enrollment_Guarantees.thy ===== *)
theory Enrollment_Guarantees
  imports Enrollment_Application Recovery_Guarantees
begin

text \<open>
  What the first charge of an enrollment promises: the event, the new subscription, the approved attempt and the
  applied charge come together or not at all, an enrollment is applied once, and its evidence survives like that
  of every other payment.
\<close>

section \<open>Starting the subscription\<close>

lemma lock_enrollment_Ok:
  assumes "lock_expected_reservation_attempt p (OutcomeReservation.Initial r) = Ok a"
  shows "a \<in> set (db_attempts (pay_billing p))" and "attempt_identity a = enrollment_identity r"
  using lock_reservation_Ok [OF assms] by simp_all

lemma discount_subscriptions:
  "apply_initial_discount a i n p = Ok p' \<Longrightarrow> same_subscriptions p p' \<and> same_payments p p' \<and> pay_methods p' = pay_methods p"
  by (auto simp: apply_initial_discount_def same_payments_def Let_def with_billing_def
      split: PaymentAttemptTarget.splits option.splits if_splits)

lemma insert_subscription_Ok:
  assumes "insert_subscription row p = Ok p'"
  shows "db_subscriptions (pay_billing p') = db_subscriptions (pay_billing p) @ [row]"
    and "list_all (\<lambda>old. \<not> subscription_clash row old) (db_subscriptions (pay_billing p))"
    and "same_payments p p'" and "pay_methods p' = pay_methods p"
  using assms
  by (auto simp: insert_subscription_def same_payments_def Let_def with_billing_def list_ex_iff list_all_iff split: if_splits)

lemma start_subscription_cases:
  assumes "start_subscription env a e activation period p = Ok (method_id, p')"
  obtains transaction_id reference offer where "evidence_transaction_id e = Some transaction_id"
    "evidence_payment_method_reference e = Some reference"
    "target_enrollment_offer (request_target (attempt_request a)) = Some offer"
    "db_subscriptions (pay_billing p') = db_subscriptions (pay_billing p) @
       [started_row env a offer method_id activation period transaction_id]"
    "list_all (\<lambda>old. \<not> subscription_clash (started_row env a offer method_id activation period transaction_id) old)
       (db_subscriptions (pay_billing p))"
    "same_payments p p'" "list_ex (active_method method_id reference) (pay_methods p')"
proof -
  obtain transaction_id p1 offer p2 where t: "evidence_transaction_id e = Some transaction_id"
    and upsert: "upsert_payment_method env a e p = Ok (method_id, p1)"
    and offer: "target_enrollment_offer (request_target (attempt_request a)) = Some offer"
    and insert: "insert_subscription (started_row env a offer method_id activation period transaction_id) p1 = Ok p2"
    and discount: "apply_initial_discount a (env_fresh_subscription env) (activation_discount_periods_applied activation) p2 = Ok p'"
    using assms by (auto simp: start_subscription_def and_then_Inr_iff map_sum_Inr_iff ok_or_Inr_iff)
  have same: "pay_billing p1 = pay_billing p" "pay_charges p1 = pay_charges p" using upsert_tables [OF upsert] by simp_all
  note row = insert_subscription_Ok [OF insert] and rest = discount_subscriptions [OF discount]
  from upsert obtain reference where "evidence_payment_method_reference e = Some reference"
      "list_ex (active_method method_id reference) (pay_methods p1)"
    by (rule upsert_active)
  then show thesis using that t offer row rest same by (simp add: same_payments_def)
qed

lemma start_keeps:
  assumes "start_subscription env a e activation period p = Ok (method_id, p')"
  shows "payment_keeps p p'" and "payment_ok p \<longrightarrow> same_payments p p'"
proof -
  from assms obtain row where rows: "db_subscriptions (pay_billing p') = db_subscriptions (pay_billing p) @ [row]"
      "list_all (\<lambda>old. \<not> subscription_clash row old) (db_subscriptions (pay_billing p))"
    and same: "same_payments p p'"
    by (rule start_subscription_cases)
  have "distinct (map row_id (db_subscriptions (pay_billing p')))" if "distinct (map row_id (db_subscriptions (pay_billing p)))"
    using that rows by (auto simp: list_all_iff subscription_clash_def)
  moreover have "charges_ok (charge_view p') = charges_ok (charge_view p)"
    by (rule charges_ok_cong) (use same in \<open>simp_all add: same_payments_def\<close>)
  moreover have "attempts_ok (pay_billing p') = attempts_ok (pay_billing p)"
    by (rule attempts_ok_cong) (use same in \<open>simp add: same_payments_def\<close>)
  ultimately show "payment_keeps p p'"
    using same rows(1) by (simp add: payment_keeps_def payment_ok_def payment_evolves_def same_payments_def attempts_grow_same
        list_all2_refl)
  show "payment_ok p \<longrightarrow> same_payments p p'" using same by simp
qed

section \<open>Approved enrollments\<close>

lemma terminal_enrollment_recording:
  assumes rely: "payment_rely (env_others env)"
    and run: "observe_enrollment_of_terminal_attempt ch env r a e policy diagnostics p = Ok (result, event, p')"
  shows "recording (attempt_identity a) e p p' \<and> event = None"
proof -
  obtain observation p1 where observe: "observe env a e ExternalReversalRequired p = Ok (observation, p1)"
    using run by (auto simp: observe_enrollment_of_terminal_attempt_def and_then_Inr_iff)
  have moved: "payment_frame p1 p3" if "park_locked_attempt env a e code message p1 = Ok (b, p2)"
      "move_charge env i ExternalReversalRequired None p2 = Ok p3" for code message b p2 i p3
    using that park_locked_frame move_charge_frame charges_frame_frame payment_frame_trans by blast
  have "payment_frame p1 p' \<and> event = None"
    using run observe unfolding observe_enrollment_of_terminal_attempt_def
    by (auto simp: and_then_Inr_iff split: if_splits ObservedCharge.splits option.splits
        dest: park_expired_frame park_locked_frame moved)
  with recording_then [OF observe_recording [OF rely observe]] show ?thesis by blast
qed

lemma enrollment_approved_cases:
  assumes rely: "payment_rely (env_others env)"
    and run: "apply_enrollment_approved_on_connection ch env subject r e policy p = Ok (result, event, p')"
  obtains (recorded) "event = None" "recording (enrollment_identity r) e p p'"
  | (started) a charge p1 activation period method_id p2 p3 where
      "lock_expected_reservation_attempt p (OutcomeReservation.Initial r) = Ok a"
      "PaymentAttemptStatus_is_resolvable (PaymentAttempt_status a)"
      "observe env a e ProcessorChargeProgression.Pending p = Ok (Owned charge, p1)"
      "initial_activation ch r a = Ok (activation, period)"
      "\<not> current_subscription_exists env r p1" "\<not> active_grant_exists env r p1"
      "\<not> (rejects_expired_periods policy \<and> evidence_transaction_id e \<noteq> None \<and>
         period_has_expired_at_database_time (env_txn env) (period_end_at period))"
      "start_subscription env a e activation period p1 = Ok (method_id, p2)"
      "mark_attempt_approved env a e (env_fresh_subscription env) method_id p2 = Ok p3"
      "finish_payment env (enrollment_identity r) (env_fresh_subscription env) (record_id charge)
         (started_event (enrollment_identity r) (env_fresh_subscription env) (enrollment_plan_key r) period
           (activation_phase activation)) p3 = Ok (result, event, p')"
proof -
  obtain a where a: "lock_expected_reservation_attempt p (OutcomeReservation.Initial r) = Ok a"
    and settle: "settle_approval env subject a e True ProcessorChargeProgression.Applied
      (lit ''a new subscription enrollment event requires a live recipient'')
      (observe_enrollment_of_terminal_attempt ch env r a e policy)
      (apply_enrollment_to_open_attempt ch env r a e policy) p = Ok (result, event, p')"
    using run by (auto simp: apply_enrollment_approved_on_connection_def and_then_Inr_iff)
  note identity = lock_enrollment_Ok(2) [OF a]
  have "\<forall>diagnostics. observe_enrollment_of_terminal_attempt ch env r a e policy diagnostics p = Ok (result, event, p') \<longrightarrow>
      recording (attempt_identity a) e p p' \<and> event = None"
    using terminal_enrollment_recording [OF rely] by blast
  from rely lock_enrollment_Ok(1) [OF a] this settle show thesis
  proof (cases rule: settle_cases)
    case recorded
    with identity that(1) show thesis by simp
  next
    case opened
    from rely opened(2) [unfolded apply_enrollment_to_open_attempt_def] show thesis
    proof (cases rule: primary_charge_cases)
      case parked
      with identity that(1) show thesis by simp
    next
      case (primary charge p1)
      have first: "recording (enrollment_identity r) e p p1"
        using observe_recording [OF rely primary(1)] identity by simp
      have frame: thesis if "payment_frame p1 p' \<and> event = None"
        using that recording_then [OF first] recorded by blast
      from primary(3) show thesis
        by (auto simp: and_then_Inr_iff split: if_splits dest: park_stale_frame park_expired_frame
            intro: frame started [OF a opened(1) primary(1)])
    qed
  qed
qed

text \<open>Neither the charge nor the payment method decides whether the subscriber already has access.\<close>

lemma observe_access:
  assumes "observe env a e q p = Ok (out, p1)"
  shows "current_subscription_exists env r p1 = current_subscription_exists env r p"
    and "active_grant_exists env r p1 = active_grant_exists env r p"
  using assms by (auto simp: observe_def on_charges_Ok current_subscription_exists_def active_grant_exists_def with_charges_def)

lemma started_event_Ok:
  "started_event identity i plan_key period phase a = Ok ev \<Longrightarrow>
     \<exists>paid. ChargeAmount_money paid = request_amount (attempt_request a) \<and>
       ev = BillingEvent.SubscriptionStarted (identity_attempt_id identity) i plan_key paid period phase"
  by (auto simp: started_event_def map_sum_Inr_iff result_simps ChargeAmount_cents_def ChargeAmount_currency_def
      intro: Money.equality)

text \<open>The subscription that an open attempt starts.\<close>

definition starts_subscription ::
    "chrono \<Rightarrow> payment_env \<Rightarrow> SubscriptionEnrollmentReservation \<Rightarrow> ProcessorEvidence \<Rightarrow> BillingEvent \<Rightarrow> payment_db \<Rightarrow>
     payment_db \<Rightarrow> PaymentAttempt \<Rightarrow> bool" where
  "starts_subscription ch env r e ev p p' a \<longleftrightarrow>
     (\<exists>activation period offer method_id transaction_id reference paid.
        initial_activation ch r a = Ok (activation, period) \<and>
        target_enrollment_offer (request_target (attempt_request a)) = Some offer \<and>
        evidence_transaction_id e = Some transaction_id \<and> evidence_payment_method_reference e = Some reference \<and>
        db_subscriptions (pay_billing p') = db_subscriptions (pay_billing p) @
          [started_row env a offer method_id activation period transaction_id] \<and>
        list_all (\<lambda>old. \<not> subscription_clash (started_row env a offer method_id activation period transaction_id) old)
          (db_subscriptions (pay_billing p)) \<and>
        list_ex (active_method method_id reference) (pay_methods p') \<and>
        ChargeAmount_money paid = request_amount (attempt_request a) \<and>
        ev = BillingEvent.SubscriptionStarted (identity_attempt_id (enrollment_identity r)) (env_fresh_subscription env)
          (offer_plan_key offer) paid period (activation_phase activation))"

lemma enrollment_plan:
  assumes "lock_expected_reservation_attempt p (OutcomeReservation.Initial r) = Ok a"
    and "target_enrollment_offer (request_target (attempt_request a)) = Some offer"
  shows "enrollment_plan_key r = offer_plan_key offer"
  using lock_reservation_Ok(3) [OF assms(1)] assms(2)
  by (cases "request_target (attempt_request a)") simp_all

text \<open>C2.  An enrollment returns its event exactly when it starts a subscription.  With the event, its open attempt is now
  approved with the evidence of the provider, its primary charge is applied with that transaction, and one
  subscription was added: the subscriber had neither a current one nor an active grant, and its plan, period, phase,
  recurring charge and payment method are those of the terms of the attempt and of the provider's reference.  Without
  the event no subscription was written.\<close>

theorem enrollment_event_matches_database:
  assumes ok: "payment_ok p" and rely: "payment_rely (env_others env)"
    and run: "apply_enrollment_approved_on_connection ch env subject r e policy p = Ok (result, event, p')"
  shows "case event of
      None \<Rightarrow> db_subscriptions (pay_billing p') = db_subscriptions (pay_billing p)
    | Some ev \<Rightarrow>
        \<not> current_subscription_exists env r p \<and> \<not> active_grant_exists env r p \<and>
        list_ex (\<lambda>a. open_attempt_of (enrollment_identity r) a \<and> starts_subscription ch env r e ev p p' a)
          (db_attempts (pay_billing p)) \<and>
        list_ex (approved_attempt (enrollment_identity r) e) (db_attempts (pay_billing p')) \<and>
        list_ex (applied_charge (enrollment_identity r) e) (pay_charges p')"
  using rely run
proof (cases rule: enrollment_approved_cases)
  case recorded
  then show ?thesis by (simp add: recording_def payment_frame_def)
next
  case (started a charge p1 activation period method_id p2 p3)
  note a = lock_enrollment_Ok [OF started(1)] and chain = start_keeps [OF started(8)]
  note states = paid_states [OF ok rely started(3) chain started(9) refl refl started(10)]
  from ok rely a(1,2) started(3) chain started(9) refl refl started(10) obtain b where
    b: "find_attempt p' (enrollment_identity r) = Ok b" "b \<in> set (db_attempts (pay_billing p'))"
      "approved_attempt (enrollment_identity r) e b" "transition_row (env_clock env) e PaymentAttemptStatus.Approved None
        (Some (env_fresh_subscription env)) (Some method_id) a = Some b"
    and charge: "list_ex (applied_charge (enrollment_identity r) e) (pay_charges p')"
    by (rule paid_payment) blast
  have amount: "request_amount (attempt_request b) = request_amount (attempt_request a)"
    using b(4) by (auto simp: transition_row_def)
  obtain ev where ev: "event = Some ev" "started_event (enrollment_identity r) (env_fresh_subscription env)
      (enrollment_plan_key r) period (activation_phase activation) b = Ok ev"
    using started(10) b(1) by (elim finish_payment_cases) simp
  have methods: "pay_methods p' = pay_methods p2" by (rule paid_methods [OF started(9) started(10)])
  from started(8) obtain transaction_id reference offer where row: "evidence_transaction_id e = Some transaction_id"
      "evidence_payment_method_reference e = Some reference"
      "target_enrollment_offer (request_target (attempt_request a)) = Some offer"
      "db_subscriptions (pay_billing p2) = db_subscriptions (pay_billing p1) @
         [started_row env a offer method_id activation period transaction_id]"
      "list_all (\<lambda>old. \<not> subscription_clash (started_row env a offer method_id activation period transaction_id) old)
         (db_subscriptions (pay_billing p1))"
      "list_ex (active_method method_id reference) (pay_methods p2)"
    by (rule start_subscription_cases)
  have "starts_subscription ch env r e ev p p' a"
    unfolding starts_subscription_def
    using started(4) row states(7,8) methods amount started_event_Ok [OF ev(2)] enrollment_plan [OF started(1) row(3)]
    by simp blast
  moreover have "open_attempt_of (enrollment_identity r) a" using a(2) started(2) by (simp add: open_attempt_of_def)
  ultimately have "list_ex (\<lambda>a. open_attempt_of (enrollment_identity r) a \<and> starts_subscription ch env r e ev p p' a)
      (db_attempts (pay_billing p))"
    using a(1) unfolding list_ex_iff by blast
  moreover have "list_ex (approved_attempt (enrollment_identity r) e) (db_attempts (pay_billing p'))"
    using b(2,3) unfolding list_ex_iff by blast
  ultimately show ?thesis
    unfolding ev(1) option.case using charge started(5,6) observe_access [OF started(3)] by simp
qed

section \<open>Replays\<close>

lemma linked_matches:
  assumes "transition_row clock e status code i m a = Some b" and "matches_attempt (OutcomeReservation.Initial r) a"
  shows "matches_attempt (OutcomeReservation.Initial r) b"
proof -
  obtain target where target: "link_target i m (request_target (attempt_request a)) = Some target"
      "b = a\<lparr>attempt_request := (attempt_request a)\<lparr>request_target := target\<rparr>, attempt_state := attempt_state b\<rparr>"
    using assms(1) by (auto simp: transition_row_def)
  have "target_attempt_kind target = target_attempt_kind (request_target (attempt_request a)) \<and>
      target_plan_key target = target_plan_key (request_target (attempt_request a))"
    using target(1) by (auto elim!: link_target.elims split: option.splits if_splits)
  with assms(2) show ?thesis by (subst target(2)) (simp add: PaymentAttempt_kind_def)
qed

text \<open>C8.  An enrollment that was applied is applied once: the same approval, with the same reservation, returns the same
  payment without an event and changes nothing, whatever the state of the subject and the policy are by then.\<close>

theorem applied_enrollment_replays:
  assumes ok: "payment_ok p" and others: "env_others env = id" "env_others env' = id"
    and run: "apply_enrollment_approved_on_connection ch env subject r e policy p = Ok (result, Some event, p')"
  shows "apply_enrollment_approved_on_connection ch' env' subject' r e policy' p' = Ok (result, None, p')"
proof -
  have rely: "payment_rely (env_others env)" by (simp add: others payment_rely_def charges_rely_def)
  from rely run show ?thesis
  proof (cases rule: enrollment_approved_cases)
    case (started a charge p1 activation period method_id p2 p3)
    note a = lock_enrollment_Ok [OF started(1)] and chain = start_keeps [OF started(8)]
    from ok rely a(1,2) started(3) chain started(9) refl refl started(10) obtain b where
      b: "find_attempt p' (enrollment_identity r) = Ok b" "transition_row (env_clock env) e PaymentAttemptStatus.Approved None
          (Some (env_fresh_subscription env)) (Some method_id) a = Some b"
      by (rule paid_payment) blast
    have "matches_attempt (OutcomeReservation.Initial r) b"
      using linked_matches [OF b(2)] lock_reservation_Ok(3) [OF started(1)] by blast
    then have "lock_expected_reservation_attempt p' (OutcomeReservation.Initial r) = Ok b"
      using b(1) by (simp add: lock_expected_reservation_attempt_def del: matches_attempt.simps)
    then show ?thesis
      unfolding apply_enrollment_approved_on_connection_def
      by (simp add: paid_replays [OF ok others a(1,2) started(3) chain started(9) refl refl started(10) b(1)])
  qed simp
qed

section \<open>The whole call\<close>

lemma enrollment_approved_records:
  assumes rely: "payment_rely (env_others env)"
    and run: "apply_enrollment_approved_on_connection ch env subject r e policy p = Ok (result, event, p')"
  shows "payment_keeps p p' \<and> (payment_ok p \<longrightarrow> evidence_recorded (enrollment_identity r) e p')"
  using rely run
proof (cases rule: enrollment_approved_cases)
  case recorded
  then show ?thesis by (simp add: recordingD)
next
  case (started a charge p1 activation period method_id p2 p3)
  from paid_keeps [OF rely started(3) start_keeps(1) [OF started(8)] started(9) refl refl started(10)]
  show ?thesis by (simp add: lock_enrollment_Ok(2) [OF started(1)])
qed

lemma applied_enrollment_records:
  assumes "payment_rely (env_others env)" and "apply_enrollment_approved_outcome ch host r e env p = Ok (x, p')"
  shows "payment_keeps p p' \<and> (payment_ok p \<longrightarrow> evidence_recorded (enrollment_identity r) e p')"
proof -
  obtain result events where x: "x = (result, events)" by (cases x)
  from host_transaction_Ok [OF assms(2) [unfolded apply_enrollment_approved_outcome_def x]]
  show ?thesis using enrollment_approved_records [OF assms(1)] by blast
qed

interpretation enrolling: recording_operation "apply_enrollment_approved_outcome ch host r e" "enrollment_identity r" e
  for ch host r e
  by unfold_locales (use applied_enrollment_records in blast)+

lemma park_enrollment_recording:
  assumes rely: "payment_rely (env_others env)"
    and run: "try_park_enrollment_approved_outcome ch r e policy message env p = Ok (result, p')"
  shows "recording (enrollment_identity r) e p p'"
proof -
  obtain a where a: "lock_expected_reservation_attempt p (OutcomeReservation.Initial r) = Ok a"
    using run unfolding try_park_enrollment_approved_outcome_def Let_def by (elim and_then_OkE)
  note identity = lock_enrollment_Ok(2) [OF a]
  note body = run [unfolded try_park_enrollment_approved_outcome_def Let_def, simplified a and_then_simps]
  have once: "recording (enrollment_identity r) e p p1" if "observe env a e q p = Ok (observation, p1)" for q observation p1
    using observe_recording [OF rely that] identity by simp
  have compensated: "recording (enrollment_identity r) e p p1"
    if "park_compensated_approved_attempt env a e message expired_end p = Ok (b, p1)" for expired_end b p1
    using park_compensated_recording [OF rely that] identity by simp
  have expired: "recording (enrollment_identity r) e p p2" if "observe env a e q p = Ok (observation, p1)"
      "park_expired_period_approval env a i e p1 = Ok (payment, event, p2)" for q observation p1 i payment event p2
    using recording_then [OF once [OF that(1)]] park_expired_frame [OF that(2)] by blast
  consider "PaymentAttempt_status a = PaymentAttemptStatus.Approved"
    | "PaymentAttempt_status a \<noteq> PaymentAttemptStatus.Approved" "PaymentAttemptStatus_is_terminal (PaymentAttempt_status a)"
    | "\<not> PaymentAttemptStatus_is_terminal (PaymentAttempt_status a)"
      "PaymentAttempt_status a \<noteq> PaymentAttemptStatus.Approved"
    by (auto simp: PaymentAttemptStatus_is_terminal_def)
  then show ?thesis
  proof cases
    case 1
    with body show ?thesis by (auto simp: and_then_Inr_iff intro: once)
  next
    case 2
    with body show ?thesis by (auto simp: and_then_Inr_iff split: option.splits intro: once expired)
  next
    case 3
    with body show ?thesis by (auto simp: and_then_Inr_iff intro: compensated)
  qed
qed

lemma observe_enrollment_recording:
  assumes rely: "payment_rely (env_others env)"
    and run: "observe_enrollment_approved_evidence ch r e policy env p = Ok (x, p')"
  shows "recording (enrollment_identity r) e p p'"
proof -
  obtain a observation p1 expired_end parked where lock: "lock_expected_reservation_attempt p (OutcomeReservation.Initial r) = Ok a"
    and observe: "observe env a e ProcessorChargeProgression.Pending p = Ok (observation, p1)"
    and park: "park_observed_approval_if_period_expired env a observation e expired_end p1 = Ok (parked, p')"
    using run unfolding observe_enrollment_approved_evidence_def by (auto simp: and_then_Inr_iff)
  from recording_then [OF observe_recording [OF rely observe] park_observed_frame [OF park]] show ?thesis
    by (simp add: lock_enrollment_Ok(2) [OF lock])
qed

lemma write_enrollment_records:
  assumes "run_rely run" and "write_enrollment_without_lock ch run r e policy p = (out, p')"
  shows "payment_keeps p p' \<and> (payment_ok p \<longrightarrow> out = Inr () \<longrightarrow> evidence_recorded (enrollment_identity r) e p')"
proof -
  have "payment_keeps p p' \<and> (payment_ok p \<longrightarrow> out = Inr () \<longrightarrow>
      evidence_recorded (lock_free_identity (lock_free_terms_initial r)) e p')"
    using assms(1) assms(2) [unfolded write_enrollment_without_lock_def]
    by (rule lock_free_transaction_records) (auto simp: and_then_Inr_iff map_sum_Inr_iff)
  then show ?thesis by (simp add: lock_free_terms_initial_def)
qed

interpretation enrollment: approved_outcome "enrollment_identity r" "approved_inner approved"
    "apply_enrollment_approved_outcome ch host r (approved_inner approved)"
    "try_park_enrollment_approved_outcome ch r (approved_inner approved) policy"
    "observe_enrollment_approved_evidence ch r (approved_inner approved) policy"
    "\<lambda>run. write_enrollment_without_lock ch run r (approved_inner approved) policy"
    "read_pending_confirmation True (enrollment_identity r) approved"
  for ch host r approved policy
proof (rule approved_outcome.intro)
  show "recording_operation (try_park_enrollment_approved_outcome ch r (approved_inner approved) policy message)
      (enrollment_identity r) (approved_inner approved)" for message
    by unfold_locales (use park_enrollment_recording recordingD in blast)+
  show "recording_operation (observe_enrollment_approved_evidence ch r (approved_inner approved) policy)
      (enrollment_identity r) (approved_inner approved)"
    by unfold_locales (use observe_enrollment_recording recordingD in blast)+
qed (rule enrolling.recording_operation_axioms reading.payment_operation_axioms write_enrollment_records, assumption?, assumption?)+

lemma approved_enrollment_settles:
  "run_rely run \<Longrightarrow> settles (enrollment_identity r) (approved_inner approved) p (apply_approved_enrollment ch run host r approved p)"
  using enrollment.applied_outcome [of run r approved p _ ch host]
  by (simp add: apply_approved_enrollment_def park_enrollment_approved_outcome_def [abs_def])

lemma enrollment_outcome_keeps:
  assumes "run_rely run" and "apply_subscription_enrollment_gateway_outcome ch run host r outcome p = (out, p')"
  shows "payment_keeps p p'"
  using assms(2) [unfolded apply_subscription_enrollment_gateway_outcome_def]
  by (rule decided_keeps [OF assms(1)]) (rule approved_enrollment_settles [OF assms(1)])

lemma enrollment_outcome_records:
  assumes "run_rely run" and "payment_ok p" and "outcome_status outcome = GatewayPaymentStatus.Approved"
    and "apply_subscription_enrollment_gateway_outcome ch run host r outcome p = (Inr x, p')"
  shows "evidence_recorded (enrollment_identity r) (outcome_evidence outcome) p'"
  using assms(4) [unfolded apply_subscription_enrollment_gateway_outcome_def]
  by (rule decided_records [OF assms(2,3)]) (rule approved_enrollment_settles [OF assms(1)])

lemma enrollment_approved_result_wf:
  assumes "apply_enrollment_approved_on_connection ch env subject r e policy p = Ok (result, event, p')"
  shows "payment_result_wf result"
proof -
  have opened: "payment_result_wf result"
    if "apply_enrollment_to_open_attempt ch env r a e policy p = Ok (result, event, p')" for a p
    using that unfolding apply_enrollment_to_open_attempt_def
    by (rule primary_charge_result_wf)
       (auto simp: and_then_Inr_iff split: if_splits dest: park_stale_result_wf parked_results_wf finish_result_wf)
  have late: "payment_result_wf result"
    if "observe_enrollment_of_terminal_attempt ch env r a e policy diagnostics p = Ok (result, event, p')" for a diagnostics p
    using that unfolding observe_enrollment_of_terminal_attempt_def
    by (auto simp: and_then_Inr_iff split: if_splits option.splits dest: results_wf) (blast dest: parked_results_wf)+
  from assms show ?thesis
    unfolding apply_enrollment_approved_on_connection_def
    by (auto simp: and_then_Inr_iff elim!: settle_result_wf dest: late opened)
qed

lemma enrollment_outcome_result_wf:
  assumes "apply_subscription_enrollment_gateway_outcome ch run host r outcome p = (Inr (result, events), p')"
  shows "payment_result_wf result"
proof -
  obtain result1 where decide: "decide_outcome run (OutcomeReservation.Initial r) outcome
      (apply_approved_enrollment ch run host r) p = (Inr (result1, events), p')"
    and wf: "payment_result_wf result = payment_result_wf result1"
    using assms by (auto simp: apply_subscription_enrollment_gateway_outcome_def dest: diagnostics_result_wf)
  have "payment_result_wf result1" if "apply_approved_enrollment ch run host r approved p = (Inr (result1, events), p')" for approved
    using that unfolding apply_approved_enrollment_def
  proof (rule applied_result_wf)
    show "payment_result_wf result1"
      if "apply_enrollment_approved_outcome ch host r (approved_inner approved) env q = Ok ((result1, events), q')" for env q q'
      using host_transaction_Ok [OF that [unfolded apply_enrollment_approved_outcome_def]] enrollment_approved_result_wf by blast
    have parked: "payment_result_wf result1"
      if "try_park_enrollment_approved_outcome ch r (approved_inner approved) policy message env q = Ok (result1, q')"
      for policy message env q q'
      using that by (auto simp: try_park_enrollment_approved_outcome_def Let_def and_then_Inr_iff dest: results_wf)
    show "payment_result_wf result1"
      if "park_enrollment_approved_outcome ch run r approved (host_expiry_policy host) message q = (Inr result1, p')" for message q
      using that unfolding park_enrollment_approved_outcome_def
      by (rule park_result_wf) (rule parked read_pending_result_wf, assumption)+
  qed
  with decided_result_wf [OF decide] wf show ?thesis by simp
qed

section \<open>A concrete enrollment\<close>

definition sample_calendar :: chrono where
  "sample_calendar = sample_chrono\<lparr>add_months := \<lambda>at months. Some (at + 90 * int months)\<rparr>"

definition sample_open_enrollment :: PaymentAttempt where
  "sample_open_enrollment = sample_open_renewal
     \<lparr>attempt_request := (attempt_request sample_open_renewal)\<lparr>request_target := SubscriptionInitial V2 sample_offer None None\<rparr>\<rparr>"

definition sample_enrollment_reservation :: SubscriptionEnrollmentReservation where
  "sample_enrollment_reservation = \<lparr>enrollment_identity = attempt_identity sample_open_enrollment,
     enrollment_provider_key = resolved_provider_key sample_gateway,
     enrollment_idempotency_key = request_idempotency_key (attempt_request sample_open_enrollment),
     enrollment_gateway_order_id = request_gateway_order_id (attempt_request sample_open_enrollment),
     enrollment_billing_contact = request_billing_contact (attempt_request sample_open_enrollment),
     enrollment_expected_terms = full_price sample_offer\<rparr>"

definition sample_enrollment_db :: payment_db where
  "sample_enrollment_db = sample_payment_db
     \<lparr>pay_billing := sample_open_db\<lparr>db_attempts := [sample_open_enrollment], db_subscriptions := []\<rparr>\<rparr>"

definition sample_enrollment_activation :: SubscriptionActivationProjection where
  "sample_enrollment_activation = \<lparr>activation_phase = SubscriptionPhase.Recurring, activation_initial_charge = sample_charge 2000,
     activation_initial_period_rule = CalendarMonths 1, activation_recurring_charge_after_initial = sample_charge 2000,
     activation_discount_periods_applied = 0\<rparr>"

definition sample_first_period :: BillingPeriod where
  "sample_first_period = \<lparr>period_start_at = 110, period_end_at = 200\<rparr>"

lemma sample_enrollment_activates:
  "initial_activation sample_calendar sample_enrollment_reservation sample_open_enrollment =
     Ok (sample_enrollment_activation, sample_first_period)"
  by (simp add: initial_activation_def enrollment_from_attempt_def sample_open_enrollment_def sample_open_simps
      activation_projection_def from_expected_terms_def full_price_def sample_offer_def sample_enrollment_activation_def
      sample_first_period_def next_billing_period_def sample_calendar_def submitted_or_created_at_def BillingPeriod_new_def Let_def)

lemma sample_enrollment_ok: "payment_ok sample_enrollment_db"
  by (simp add: payment_ok_def sample_enrollment_db_def charges_ok_def charge_view_def attempts_ok_def
      attempt_checks_def relationship_shape_check_def gateway_text_check_def
      resolved_state_check_def review_required_at_check_def timestamp_order_check_def within_column_def
      sample_open_enrollment_def sample_open_simps ProcessorEvidence_default_def sample_payment_db_def sample_open_db_def sample_dunning_db_def
      GatewayPaymentDescriptor_from_provider_parts_def PaymentAttemptStatus_is_terminal_def is_none_or_def)

definition sample_enrollment_charge :: stored_charge where
  "sample_enrollment_charge = observed_charge 130 (ProcessorChargeId 1) sample_open_enrollment
     (approved_inner sample_new_card) Primary ProcessorChargeProgression.Pending"

definition sample_enrollment_observed :: payment_db where
  "sample_enrollment_observed = with_charges \<lparr>cs_attempts = [sample_open_enrollment], cs_charges = [sample_enrollment_charge],
     cs_attestations = []\<rparr> sample_enrollment_db"

definition sample_started_row :: subscription_row where
  "sample_started_row = started_row sample_env sample_open_enrollment sample_offer (PaymentMethodId 2) sample_enrollment_activation
     sample_first_period (GatewayTransactionId (GatewayReferenceValue (lit ''t'')))"

definition sample_enrollment_started :: payment_db where
  "sample_enrollment_started = with_billing ((pay_billing sample_enrollment_observed)\<lparr>db_subscriptions := [sample_started_row]\<rparr>)
     (sample_enrollment_observed\<lparr>pay_methods := [sample_new_method]\<rparr>)"

lemma sample_enrollment_simps [simp]:
  "pay_billing sample_enrollment_db = sample_open_db\<lparr>db_attempts := [sample_open_enrollment], db_subscriptions := []\<rparr>"
  "pay_charges sample_enrollment_db = []" "pay_attestations sample_enrollment_db = []" "pay_methods sample_enrollment_db = []"
  "pay_billing sample_enrollment_observed = sample_open_db\<lparr>db_attempts := [sample_open_enrollment], db_subscriptions := [],
     db_charges := [charge_row_of sample_enrollment_charge]\<rparr>"
  "pay_charges sample_enrollment_observed = [sample_enrollment_charge]" "pay_methods sample_enrollment_observed = []"
  by (simp_all add: sample_enrollment_db_def sample_payment_db_def sample_enrollment_observed_def with_charges_def)

lemma sample_enrollment_observe:
  "observe sample_env sample_open_enrollment (approved_inner sample_new_card) ProcessorChargeProgression.Pending
     sample_enrollment_db =
   Ok (Owned \<lparr>record_id = ProcessorChargeId 1, record_role = Primary, record_exact_replay = False\<rparr>, sample_enrollment_observed)"
proof -
  have "charge_checks sample_enrollment_charge"
    by (simp add: charge_checks_def dimension_shape_check_def state_timestamps_check_def transaction_identity_check_def
        reversal_eligibility_check_def sample_enrollment_charge_def observed_charge_def sample_open_enrollment_def
        sample_open_simps sample_charge_def)
  moreover have "set_processor_charge_attempt_dimensions sample_open_enrollment sample_enrollment_charge = Some sample_enrollment_charge"
    by (simp add: set_processor_charge_attempt_dimensions_def sample_enrollment_charge_def observed_charge_def)
  moreover have "charge_attempt_id sample_enrollment_charge = attempt_key sample_open_enrollment"
      "charge_id sample_enrollment_charge = ProcessorChargeId 1"
    by (simp_all add: sample_enrollment_charge_def observed_charge_def)
  ultimately show ?thesis
    by (auto simp: observe_def on_charges_def sample_env_def charge_view_def sample_enrollment_observed_def
        observe_processor_charge_def owned_by_other_attempt_def identify_transactionless_def matching_charge_def
        has_existing_charge_def observe_insert_def initial_charge_progression_def insert_charge_def charge_attempt_def
        Let_def sample_enrollment_charge_def [symmetric])
qed

lemma sample_enrollment_start:
  "start_subscription sample_env sample_open_enrollment (approved_inner sample_new_card) sample_enrollment_activation
     sample_first_period sample_enrollment_observed = Ok (PaymentMethodId 2, sample_enrollment_started)"
proof -
  have "upsert_payment_method sample_env sample_open_enrollment (approved_inner sample_new_card) sample_enrollment_observed =
      Ok (PaymentMethodId 2, sample_enrollment_observed\<lparr>pay_methods := [sample_new_method]\<rparr>)"
    by (simp add: upsert_payment_method_def sample_new_method_def Let_def)
       (simp add: sample_env_def sample_open_enrollment_def sample_open_simps)
  moreover have "request_target (attempt_request sample_open_enrollment) = SubscriptionInitial V2 sample_offer None None"
    by (simp add: sample_open_enrollment_def)
  ultimately show ?thesis
    by (simp add: start_subscription_def insert_subscription_def apply_initial_discount_def sample_enrollment_started_def
        sample_started_row_def Let_def)
qed

definition sample_approved_enrollment :: PaymentAttempt where
  "sample_approved_enrollment = sample_open_enrollment
     \<lparr>attempt_request := (attempt_request sample_open_enrollment)\<lparr>request_target := SubscriptionInitial V2 sample_offer None
        (Some \<lparr>application_subscription_id = Some (SubscriptionId 7), application_payment_method_id = PaymentMethodId 2\<rparr>)\<rparr>,
      attempt_state := (attempt_state sample_open_enrollment)\<lparr>state_status := PaymentAttemptStatus.Approved,
        state_processor_evidence := approved_inner sample_new_card,
        state_timestamps := (state_timestamps (attempt_state sample_open_enrollment))
          \<lparr>stamp_resolved_at := Some 130, stamp_updated_at := 130\<rparr>\<rparr>\<rparr>"

definition sample_enrollment_marked :: payment_db where
  "sample_enrollment_marked = with_billing ((pay_billing sample_enrollment_started)\<lparr>db_attempts := [sample_approved_enrollment]\<rparr>)
     sample_enrollment_started"

definition sample_enrollment_applied :: stored_charge where
  "sample_enrollment_applied = (set_progression 130 ProcessorChargeProgression.Applied sample_enrollment_charge)
     \<lparr>charge_state_code := None, charge_externally_reversed_at := None\<rparr>"

definition sample_enrolled_db :: payment_db where
  "sample_enrolled_db = with_charges \<lparr>cs_attempts = [sample_approved_enrollment], cs_charges = [sample_enrollment_applied],
     cs_attestations = []\<rparr> sample_enrollment_marked"

definition sample_started_subscription :: Subscription where
  "sample_started_subscription = sample_subscription\<lparr>sub_id := SubscriptionId 7, sub_payment_method_id := PaymentMethodId 2,
     sub_current_period := sample_first_period, sub_next_renewal_at := 200, sub_next_payment_attempt_at := Some 200\<rparr>"

lemmas sample_enrollment_steps = sample_enrolled_db_def sample_enrollment_marked_def sample_enrollment_started_def

lemma sample_enrollment_mark:
  "mark_attempt_approved sample_env sample_open_enrollment (approved_inner sample_new_card) (SubscriptionId 7)
     (PaymentMethodId 2) sample_enrollment_started = Ok sample_enrollment_marked"
proof -
  have row: "transition_row 130 (approved_inner sample_new_card) PaymentAttemptStatus.Approved None
      (Some (SubscriptionId 7)) (Some (PaymentMethodId 2)) sample_open_enrollment = Some sample_approved_enrollment"
    by (simp add: transition_row_def sample_approved_enrollment_def coalesced_def sample_open_enrollment_def sample_open_simps
        PaymentAttemptStatus_is_terminal_def)
  have "attempt_checks sample_approved_enrollment"
    by (simp add: attempt_checks_def relationship_shape_check_def gateway_text_check_def
        resolved_state_check_def review_required_at_check_def timestamp_order_check_def within_column_def
        sample_approved_enrollment_def sample_open_enrollment_def sample_open_simps ProcessorEvidence_default_def sample_new_card_def
        GatewayPaymentDescriptor_from_provider_parts_def PaymentAttemptStatus_is_terminal_def is_none_or_def)
  moreover have "PaymentAttemptStatus_is_resolvable (PaymentAttempt_status sample_open_enrollment)"
    by (simp add: sample_open_enrollment_def sample_open_simps PaymentAttemptStatus_is_resolvable_def)
  ultimately show ?thesis
    using row
    by (simp add: mark_attempt_approved_def on_attempts_def persist_attempt_transition_def require_one_row_def
        update_attempt_def update_attempts_def sample_enrollment_started_def sample_enrollment_marked_def)
qed

lemma sample_enrollment_move:
  "move_charge sample_env (ProcessorChargeId 1) ProcessorChargeProgression.Applied None sample_enrollment_marked =
     Ok sample_enrolled_db"
proof -
  have charge: "charge_id sample_enrollment_charge = ProcessorChargeId 1"
      "charge_progression sample_enrollment_charge = ProcessorChargeProgression.Pending" "charge_state_code sample_enrollment_charge = None"
    by (simp_all add: sample_enrollment_charge_def observed_charge_def)
  have eligible: "transition_eligible ProcessorChargeProgression.Applied sample_enrollment_charge"
    by (simp add: transition_eligible_def sample_enrollment_charge_def observed_charge_def sample_open_simps)
  have "charge_checks sample_enrollment_applied"
    by (simp add: charge_checks_def dimension_shape_check_def state_timestamps_check_def transaction_identity_check_def
        reversal_eligibility_check_def sample_enrollment_applied_def set_progression_def sample_enrollment_charge_def
        observed_charge_def sample_open_enrollment_def sample_open_simps sample_charge_def)
  moreover have "pay_attestations sample_enrollment_observed = []"
    by (simp add: sample_enrollment_observed_def with_charges_def)
  ultimately show ?thesis
    using charge eligible
    by (simp add: move_charge_def on_charges_def transition_charge_def transition_processor_charge_def update_charge_def
        sample_enrollment_steps charge_view_def sample_enrollment_applied_def with_charges_def)
qed

lemma sample_started_row_decodes: "subscription_from_row sample_started_row = Ok sample_started_subscription"
proof -
  have "slug_text (lit ''base'')" and "lit ''USD'' = [85, 83, 68]"
    by (simp_all add: lit_def ascii_class_defs is_slug_start_def is_slug_byte_def)
  then show ?thesis
    by (simp add: subscription_from_row_def into_subscription_Ok_iff Subscription_wf_def sample_subscription_def
        sample_offer_def sample_charge_def subscription_columns_def FullSubscriptionRow.truncate_def
        policy_wf_def period_rule_wf_def BillingPeriod_wf_def
        MAX_DUNNING_RETRY_STEPS_def ascii_class_defs sample_started_row_def started_row_def sample_first_period_def
        sample_started_subscription_def sample_env_def sample_open_enrollment_def sample_open_simps
        sample_enrollment_activation_def Let_def)
qed

lemma sample_enrollment_run:
  "\<exists>result event. apply_enrollment_approved_on_connection sample_calendar sample_env LiveRecipient sample_enrollment_reservation
     (approved_inner sample_new_card) SubscriptionPeriodExpiryPolicy.Disabled sample_enrollment_db =
   Ok (result, Some event, sample_enrolled_db)"
proof -
  let ?e = "approved_inner sample_new_card"
  have lock: "lock_expected_reservation_attempt sample_enrollment_db (OutcomeReservation.Initial sample_enrollment_reservation) =
      Ok sample_open_enrollment"
    by (simp add: lock_expected_reservation_attempt_def find_attempt_def find_payment_attempt_by_id_def
        sample_enrollment_reservation_def)
       (simp add: sample_open_enrollment_def sample_open_simps full_price_def expected_plan_key_def)
  have conflict: "stop_conflicting_subscription_approval sample_env sample_open_enrollment ?e sample_enrollment_db =
      Ok (None, [], sample_enrollment_db)"
    by (simp add: stop_conflicting_subscription_approval_def processor_identity_conflict_diagnostics_def
        conflict_diagnostics_def sample_open_enrollment_def sample_open_simps sample_new_card_def ProcessorEvidence_default_def)
  have status: "PaymentAttempt_status sample_open_enrollment \<noteq> PaymentAttemptStatus.Approved"
      "\<not> is_parked_expired_period_approval sample_open_enrollment"
      "\<not> PaymentAttemptStatus_is_terminal (PaymentAttempt_status sample_open_enrollment)"
    by (simp_all add: is_parked_expired_period_approval_def sample_open_enrollment_def sample_open_simps PaymentAttemptStatus_is_terminal_def)
  have free: "\<not> current_subscription_exists sample_env sample_enrollment_reservation sample_enrollment_observed"
      "\<not> active_grant_exists sample_env sample_enrollment_reservation sample_enrollment_observed"
    by (simp_all add: current_subscription_exists_def active_grant_exists_def sample_open_db_def sample_dunning_db_def)
  have find: "find_attempt sample_enrolled_db (enrollment_identity sample_enrollment_reservation) = Ok sample_approved_enrollment"
    by (simp add: find_attempt_def find_payment_attempt_by_id_def sample_enrollment_steps
        sample_approved_enrollment_def sample_enrollment_reservation_def)
  have load: "load_subscription sample_enrolled_db (identity_billing_scope_id (enrollment_identity sample_enrollment_reservation))
      (SubscriptionId 7) = Ok (Some sample_started_subscription)"
    using sample_started_row_decodes
    by (simp add: load_subscription_def sample_enrollment_steps with_charges_def sample_enrollment_reservation_def)
       (simp add: sample_started_row_def started_row_def sample_env_def sample_open_enrollment_def sample_open_simps Let_def)
  have paid: "ChargeAmount_new (money_cents (request_amount (attempt_request sample_approved_enrollment)))
      (money_currency (request_amount (attempt_request sample_approved_enrollment))) = Ok (sample_charge 2000)"
    by (simp add: sample_approved_enrollment_def sample_open_enrollment_def sample_open_simps ChargeAmount_new_def sample_charge_def)
  have "\<exists>result. payment_result_applied sample_approved_enrollment sample_started_subscription = Ok result"
    by (simp add: payment_result_applied_def require_subscription_attempt_def sample_approved_enrollment_def
        sample_open_enrollment_def sample_open_simps sample_started_subscription_def sample_subscription_def)
  then obtain result where result: "payment_result_applied sample_approved_enrollment sample_started_subscription = Ok result" ..
  have fresh: "env_fresh_subscription sample_env = SubscriptionId 7" by (simp add: sample_env_def)
  have "\<exists>event. finish_payment sample_env (enrollment_identity sample_enrollment_reservation) (SubscriptionId 7) (ProcessorChargeId 1)
      (started_event (enrollment_identity sample_enrollment_reservation) (SubscriptionId 7)
        (enrollment_plan_key sample_enrollment_reservation) sample_first_period (activation_phase sample_enrollment_activation))
      sample_enrollment_marked = Ok (result, Some event, sample_enrolled_db)"
    using sample_enrollment_move find load paid result by (simp add: finish_payment_def started_event_def)
  then show ?thesis
    using lock conflict status sample_enrollment_observe sample_enrollment_activates free sample_enrollment_start
      sample_enrollment_mark fresh
    by (auto simp: apply_enrollment_approved_on_connection_def settle_approval_def apply_enrollment_to_open_attempt_def
        with_primary_charge_def rejects_expired_periods_def)
qed

theorem enrollment_event_matches_database_witness:
  "\<exists>method_id transaction_id. db_subscriptions (pay_billing sample_enrolled_db) =
       [started_row sample_env sample_open_enrollment sample_offer method_id sample_enrollment_activation sample_first_period transaction_id] \<and>
     list_ex (applied_charge (enrollment_identity sample_enrollment_reservation) (approved_inner sample_new_card))
       (pay_charges sample_enrolled_db)"
proof -
  obtain result event where run: "apply_enrollment_approved_on_connection sample_calendar sample_env LiveRecipient
      sample_enrollment_reservation (approved_inner sample_new_card) SubscriptionPeriodExpiryPolicy.Disabled sample_enrollment_db =
      Ok (result, Some event, sample_enrolled_db)"
    using sample_enrollment_run by blast
  have offer: "target_enrollment_offer (request_target (attempt_request sample_open_enrollment)) = Some sample_offer"
    by (simp add: sample_open_enrollment_def)
  have "payment_rely (env_others sample_env)" by (simp add: payment_rely_def charges_rely_def)
  from enrollment_event_matches_database [OF sample_enrollment_ok this run]
  show ?thesis
    by (auto simp: starts_subscription_def sample_enrollment_activates offer)
qed

theorem applied_enrollment_replays_witness:
  "\<exists>result. apply_enrollment_approved_on_connection sample_calendar
     (sample_env\<lparr>env_txn := \<lparr>txn_now = 500, txn_clock = 500, txn_locked = []\<rparr>\<rparr>) RetainedSubject sample_enrollment_reservation
     (approved_inner sample_new_card) SubscriptionPeriodExpiryPolicy.RejectExpiredPeriods sample_enrolled_db =
   Ok (result, None, sample_enrolled_db)"
proof -
  obtain result event where run: "apply_enrollment_approved_on_connection sample_calendar sample_env LiveRecipient
      sample_enrollment_reservation (approved_inner sample_new_card) SubscriptionPeriodExpiryPolicy.Disabled sample_enrollment_db =
      Ok (result, Some event, sample_enrolled_db)"
    using sample_enrollment_run by blast
  from applied_enrollment_replays [OF sample_enrollment_ok _ _ run,
      of "sample_env\<lparr>env_txn := \<lparr>txn_now = 500, txn_clock = 500, txn_locked = []\<rparr>\<rparr>" sample_calendar RetainedSubject
        SubscriptionPeriodExpiryPolicy.RejectExpiredPeriods]
  show ?thesis by auto
qed

end
