(* ===== verification/Replacement_Application.thy ===== *)
theory Replacement_Application
  imports Approvals
begin

text \<open>
  Applying the outcome of a payment-method replacement, a zero-amount request that stores a new card:
  \<open>enrollment_application/payment_method_replacement.rs\<close> and \<open>payment_method_replacement/approval.rs\<close>.  An approval
  stores the method and attaches it to the subscription; no money moves, so a charge that cannot be applied is
  reconciled, never reversed.  An outcome that a later query reports is first compared with the durable evidence.
\<close>

section \<open>Approved replacements\<close>

definition PAYMENT_METHOD_REPLACEMENT_INCOMPLETE_APPROVAL_TEXT :: rstring where
  "PAYMENT_METHOD_REPLACEMENT_INCOMPLETE_APPROVAL_TEXT =
     lit ''Approved payment method replacement is missing required processor identity.''"

definition PAYMENT_METHOD_REPLACEMENT_STORAGE_FAILURE_TEXT :: rstring where
  "PAYMENT_METHOD_REPLACEMENT_STORAGE_FAILURE_TEXT =
     lit ''Approved payment method replacement could not be applied; manual review is required.''"

definition PAYMENT_METHOD_REPLACEMENT_STALE_STATE_TEXT :: rstring where
  "PAYMENT_METHOD_REPLACEMENT_STALE_STATE_TEXT =
     lit ''Approved payment method replacement could not attach because the subscription changed.''"

definition ADDITIONAL_STORED_METHOD_TEXT :: rstring where
  "ADDITIONAL_STORED_METHOD_TEXT = lit ''An additional approved stored-method result requires manual review.''"

text \<open>The plan and the expected state of a replacement; \<open>None\<close> is the panic of the accessors of another kind.\<close>

type_synonym replacement_terms = "PlanKey \<times> PaymentMethodUpdateSnapshot"

definition reserved_replacement :: "SubscriptionPaymentMethodReplacement \<Rightarrow> replacement_terms option" where
  "reserved_replacement r =
     (case (target_plan_key (request_target (reserved_request r)),
            target_payment_method_update_snapshot (request_target (reserved_request r))) of
        (Some plan_key, Some expected) \<Rightarrow> Some (plan_key, expected)
      | _ \<Rightarrow> None)"

text \<open>How the current subscription compares with the expected state and with the approval.\<close>

definition replaceable_row :: "SubscriptionPaymentMethodReplacement \<Rightarrow> subscription_row \<Rightarrow> bool" where
  "replaceable_row r row \<longleftrightarrow> row_status row \<in> {lit ''active'', lit ''past_due''} \<and>
     row_required_gateway_account_mode row =
       GatewayAccountMode_as_str (identity_required_gateway_account_mode (reserved_identity r))"

definition baseline_matches :: "PaymentMethodUpdateSnapshot \<Rightarrow> subscription_row \<Rightarrow> bool" where
  "baseline_matches expected row \<longleftrightarrow>
     row_payment_method_id row = PaymentMethodId_as_uuid (method_update_payment_method_id expected) \<and>
     row_initial_transaction_id row = GatewayTransactionId_expose (method_update_expected_initial_transaction_id expected)"

definition exact_replay :: "PaymentMethodId \<Rightarrow> GatewayTransactionId \<Rightarrow> subscription_row \<Rightarrow> bool" where
  "exact_replay method_id transaction_id row \<longleftrightarrow>
     row_payment_method_id row = PaymentMethodId_as_uuid method_id \<and>
     row_initial_transaction_id row = GatewayTransactionId_expose transaction_id"

text \<open>\<open>UPDATE billing_subscriptions ... WHERE\<close> of an applied replacement.\<close>

definition replaced_row :: "SubscriptionPaymentMethodReplacement \<Rightarrow> replacement_terms \<Rightarrow> subscription_row \<Rightarrow> bool" where
  "replaced_row r terms row \<longleftrightarrow>
     (case terms of (plan_key, expected) \<Rightarrow>
       reserved_row (reserved_identity r) plan_key (method_update_subscription_id expected) row \<and>
       replaceable_row r row \<and> baseline_matches expected row)"

definition replace_row :: "datetime \<Rightarrow> PaymentMethodId \<Rightarrow> GatewayTransactionId \<Rightarrow> subscription_row \<Rightarrow> subscription_row" where
  "replace_row clock method_id transaction_id row =
     row\<lparr>row_payment_method_id := PaymentMethodId_as_uuid method_id,
         row_initial_transaction_id := GatewayTransactionId_expose transaction_id, row_updated_at := clock\<rparr>"

definition park_stale_replacement ::
    "payment_env \<Rightarrow> PaymentAttempt \<Rightarrow> ProcessorEvidence \<Rightarrow> ProcessorChargeId \<Rightarrow> PaymentResolutionCode \<Rightarrow> payment_db \<Rightarrow>
     approval_result" where
  "park_stale_replacement env attempt evidence charge code =
     park_stale_approval env attempt evidence charge ReconciliationRequired code PAYMENT_METHOD_REPLACEMENT_STALE_STATE_TEXT"

definition replaced_event ::
    "PaymentAttemptIdentity \<Rightarrow> replacement_terms \<Rightarrow> ProcessorEvidence \<Rightarrow> BillingEvent" where
  "replaced_event identity terms evidence =
     (case terms of (plan_key, expected) \<Rightarrow>
       BillingEvent.PaymentMethodChanged (identity_attempt_id identity) (method_update_subscription_id expected) plan_key
         (case (canonical_card_brand (evidence_descriptor evidence), descriptor_card_last_four (evidence_descriptor evidence)) of
            (Some brand, Some last_four) \<Rightarrow> Some \<lparr>card_display_brand = brand, card_display_last_four = last_four\<rparr>
          | _ \<Rightarrow> None))"

text \<open>From the approval of the attempt to the result.\<close>

definition complete_replacement ::
    "payment_env \<Rightarrow> SubscriptionPaymentMethodReplacement \<Rightarrow> replacement_terms \<Rightarrow> PaymentAttempt \<Rightarrow> ProcessorEvidence \<Rightarrow>
     ProcessorChargeId \<Rightarrow> PaymentMethodId \<Rightarrow> payment_db \<Rightarrow> approval_result" where
  "complete_replacement env r terms attempt evidence charge method_id p =
     (let expected = snd terms in
      and_then (mark_attempt_approved env attempt evidence (method_update_subscription_id expected) method_id p) (\<lambda>p.
        finish_payment env (reserved_identity r) (method_update_subscription_id expected) charge
          (\<lambda>_. Ok (replaced_event (reserved_identity r) terms evidence))
          (disable_payment_method_if_unreferenced (method_update_payment_method_id expected) p)))"

text \<open>From the primary charge of an open attempt: the method is stored, then attached where the subscription allows it.\<close>

definition attach_replacement ::
    "payment_env \<Rightarrow> SubscriptionPaymentMethodReplacement \<Rightarrow> replacement_terms \<Rightarrow> PaymentAttempt \<Rightarrow> ProcessorEvidence \<Rightarrow>
     ProcessorChargeId \<Rightarrow> payment_db \<Rightarrow> approval_result" where
  "attach_replacement env r terms attempt evidence charge p =
     and_then (ok_or (evidence_transaction_id evidence) invalid_application) (\<lambda>transaction_id.
     and_then (upsert_payment_method env attempt evidence p) (\<lambda>(method_id, p).
     let (plan_key, expected) = terms in
     case find (reserved_row (reserved_identity r) plan_key (method_update_subscription_id expected))
            (db_subscriptions (pay_billing p)) of
       None \<Rightarrow> park_stale_replacement env attempt evidence charge
         SubscriptionApprovedPaymentMethodUpdateSubscriptionIneligible p
     | Some row \<Rightarrow>
         if \<not> replaceable_row r row \<or> \<not> baseline_matches expected row \<and> \<not> exact_replay method_id transaction_id row
         then park_stale_replacement env attempt evidence charge
           (if replaceable_row r row then SubscriptionApprovedPaymentMethodUpdateStaleState
            else SubscriptionApprovedPaymentMethodUpdateSubscriptionIneligible) p
         else and_then
           (if baseline_matches expected row
            then update_one_subscription (replaced_row r terms) (replace_row (env_clock env) method_id transaction_id) p
            else Ok p)
           (complete_replacement env r terms attempt evidence charge method_id)))"

definition apply_replacement_to_open_attempt ::
    "payment_env \<Rightarrow> SubscriptionPaymentMethodReplacement \<Rightarrow> replacement_terms \<Rightarrow> PaymentAttempt \<Rightarrow> ProcessorEvidence \<Rightarrow>
     payment_db \<Rightarrow> approval_result" where
  "apply_replacement_to_open_attempt env r terms attempt evidence =
     with_primary_charge env attempt evidence ReconciliationRequired ADDITIONAL_STORED_METHOD_TEXT
       (attach_replacement env r terms attempt evidence)"

text \<open>An attempt that was declined or failed before the approval arrived.\<close>

definition observe_replacement_of_terminal_attempt ::
    "payment_env \<Rightarrow> PaymentAttempt \<Rightarrow> ApprovedProcessorEvidence \<Rightarrow> GatewayPaymentDiagnostic list \<Rightarrow> payment_db \<Rightarrow>
     approval_result" where
  "observe_replacement_of_terminal_attempt env attempt approved diagnostics p =
     and_then (observe env attempt (approved_inner approved) ReconciliationRequired p) (\<lambda>(_, p).
       map_sum id (\<lambda>payment. (with_observation_diagnostics diagnostics payment, None, p))
         (built (payment_result_confirmation_pending attempt approved)))"

definition apply_locked_payment_method_replacement_approved_outcome ::
    "payment_env \<Rightarrow> BillingTransactionSubjectState \<Rightarrow> SubscriptionPaymentMethodReplacement \<Rightarrow> replacement_terms \<Rightarrow>
     PaymentAttempt \<Rightarrow> ApprovedProcessorEvidence \<Rightarrow> payment_db \<Rightarrow> approval_result" where
  "apply_locked_payment_method_replacement_approved_outcome env subject_state r terms attempt approved =
     (let evidence = approved_inner approved in
      settle_approval env subject_state attempt evidence False
        (if evidence_transaction_id (state_processor_evidence (attempt_state attempt)) = evidence_transaction_id evidence
         then ProcessorChargeProgression.Applied else ReconciliationRequired)
        (lit ''a payment method replacement event requires a live recipient'')
        (observe_replacement_of_terminal_attempt env attempt approved)
        (apply_replacement_to_open_attempt env r terms attempt evidence))"

definition apply_payment_method_replacement_approved_on_connection ::
    "payment_env \<Rightarrow> BillingTransactionSubjectState \<Rightarrow> SubscriptionPaymentMethodReplacement \<Rightarrow> replacement_terms \<Rightarrow>
     ApprovedProcessorEvidence \<Rightarrow> payment_db \<Rightarrow> approval_result" where
  "apply_payment_method_replacement_approved_on_connection env subject_state r terms approved p =
     and_then (lock_expected_reservation_attempt p (OutcomeReservation.PaymentMethodReplacement r)) (\<lambda>attempt.
       apply_locked_payment_method_replacement_approved_outcome env subject_state r terms attempt approved p)"

definition apply_payment_method_replacement_approved_outcome ::
    "billing_host \<Rightarrow> SubscriptionPaymentMethodReplacement \<Rightarrow> replacement_terms \<Rightarrow> ApprovedProcessorEvidence \<Rightarrow> payment_env \<Rightarrow>
     payment_db \<Rightarrow>
     ((SubscriptionEnrollmentPaymentResult \<times> BillingEvent list) \<times> payment_db, SubscriptionEnrollmentApplicationError) result" where
  "apply_payment_method_replacement_approved_outcome host r terms approved env p =
     in_host_transaction host
       (apply_payment_method_replacement_approved_on_connection env (host_subject_state host) r terms approved p)"

section \<open>Approved replacements that could not be applied\<close>

definition park_locked_payment_method_replacement_approved_outcome ::
    "payment_env \<Rightarrow> PaymentAttempt \<Rightarrow> ProcessorEvidence \<Rightarrow> rstring \<Rightarrow> payment_db \<Rightarrow>
     (SubscriptionEnrollmentPaymentResult \<times> payment_db, SubscriptionEnrollmentApplicationError) result" where
  "park_locked_payment_method_replacement_approved_outcome env attempt evidence message p =
     and_then
       (if PaymentAttempt_status attempt = PaymentAttemptStatus.Approved
        then map_sum id (\<lambda>(_, p). (attempt, p)) (observe env attempt evidence ProcessorChargeProgression.Applied p)
        else if PaymentAttemptStatus_is_terminal (PaymentAttempt_status attempt)
        then map_sum id (\<lambda>(_, p). (attempt, p)) (observe env attempt evidence ReconciliationRequired p)
        else and_then (observe env attempt evidence ProcessorChargeProgression.Pending p) (\<lambda>(observation, p).
          park_locked_attempt env attempt evidence None
            (case observation of Owned _ \<Rightarrow> message | OwnedByOtherAttempt \<Rightarrow> OWNED_BY_ANOTHER_ATTEMPT_TEXT) p))
       (\<lambda>(attempt, p). map_sum id (\<lambda>result. (result, p)) (payment_result_for_attempt p attempt))"

definition try_park_payment_method_replacement_approved_outcome ::
    "SubscriptionPaymentMethodReplacement \<Rightarrow> ProcessorEvidence \<Rightarrow> rstring \<Rightarrow> payment_env \<Rightarrow> payment_db \<Rightarrow>
     (SubscriptionEnrollmentPaymentResult \<times> payment_db, SubscriptionEnrollmentApplicationError) result" where
  "try_park_payment_method_replacement_approved_outcome r evidence message env p =
     and_then (lock_expected_reservation_attempt p (OutcomeReservation.PaymentMethodReplacement r)) (\<lambda>attempt.
       park_locked_payment_method_replacement_approved_outcome env attempt evidence message p)"

definition lock_free_terms_replacement :: "SubscriptionPaymentMethodReplacement \<Rightarrow> PlanKey \<Rightarrow> LockFreeApprovedEvidenceTerms" where
  "lock_free_terms_replacement r plan_key =
     \<lparr>lock_free_identity = reserved_identity r,
      lock_free_attempt_kind = PaymentAttemptKind.SubscriptionPaymentMethodUpdate, lock_free_plan_key = plan_key,
      lock_free_gateway_order_id = request_gateway_order_id (reserved_request r),
      lock_free_amount = (request_amount (reserved_request r))\<lparr>money_cents := 0\<rparr>, lock_free_host_charge_target_id = None\<rparr>"

text \<open>A replacement has no billing period that could expire.\<close>

definition observe_payment_method_replacement_approved_evidence_with_retry ::
    "payment_run \<Rightarrow> SubscriptionPaymentMethodReplacement \<Rightarrow> replacement_terms \<Rightarrow> ProcessorEvidence \<Rightarrow> payment_db \<Rightarrow>
     (unit, SubscriptionEnrollmentApplicationError) result \<times> payment_db" where
  "observe_payment_method_replacement_approved_evidence_with_retry run r terms evidence =
     observe_approved_evidence_with_retry run
       (observe_approved_evidence (OutcomeReservation.PaymentMethodReplacement r) evidence None)
       (write_without_lock run (lock_free_terms_replacement r (fst terms)) evidence None)"

definition park_payment_method_replacement_approved_outcome ::
    "payment_run \<Rightarrow> SubscriptionPaymentMethodReplacement \<Rightarrow> replacement_terms \<Rightarrow> ApprovedProcessorEvidence \<Rightarrow> rstring \<Rightarrow>
     payment_db \<Rightarrow> (SubscriptionEnrollmentPaymentResult, SubscriptionEnrollmentApplicationError) result \<times> payment_db" where
  "park_payment_method_replacement_approved_outcome run r terms approved message =
     park_approved_outcome run (try_park_payment_method_replacement_approved_outcome r (approved_inner approved) message)
       (observe_payment_method_replacement_approved_evidence_with_retry run r terms (approved_inner approved))
       (read_pending_confirmation False (reserved_identity r) approved)"

definition apply_approved_replacement ::
    "payment_run \<Rightarrow> billing_host \<Rightarrow> SubscriptionPaymentMethodReplacement \<Rightarrow> replacement_terms \<Rightarrow>
     ApprovedProcessorEvidence \<Rightarrow> payment_db \<Rightarrow>
     (SubscriptionEnrollmentPaymentResult \<times> BillingEvent list, SubscriptionEnrollmentApplicationError) result \<times> payment_db" where
  "apply_approved_replacement run host r terms approved =
     apply_approved_outcome run
       (evidence_transaction_id (approved_inner approved) \<noteq> None \<and>
        evidence_payment_method_reference (approved_inner approved) \<noteq> None)
       (apply_payment_method_replacement_approved_outcome host r terms approved)
       (park_payment_method_replacement_approved_outcome run r terms approved)
       PAYMENT_METHOD_REPLACEMENT_INCOMPLETE_APPROVAL_TEXT PAYMENT_METHOD_REPLACEMENT_STORAGE_FAILURE_TEXT"

definition apply_subscription_payment_method_replacement_gateway_outcome ::
    "payment_run \<Rightarrow> billing_host \<Rightarrow> SubscriptionPaymentMethodReplacement \<Rightarrow> GatewayPaymentOutcome \<Rightarrow> payment_db \<Rightarrow>
     ((SubscriptionEnrollmentPaymentResult \<times> BillingEvent list, SubscriptionEnrollmentApplicationError) result \<times> payment_db) option" where
  "apply_subscription_payment_method_replacement_gateway_outcome run host r outcome p =
     map_option (\<lambda>terms. with_outcome_diagnostics outcome
       (decide_outcome run (OutcomeReservation.PaymentMethodReplacement r) outcome
         (apply_approved_replacement run host r terms) p))
     (reserved_replacement r)"

section \<open>Outcomes that a later query reports\<close>

record ReconciledPaymentMethodReplacementOutcome =
  rpo_outcome :: GatewayPaymentOutcome
  rpo_observation_diagnostics :: "GatewayPaymentDiagnostic list"
  rpo_conflicting_approved_evidence :: "ProcessorEvidence option"

definition reconciled_outcome_with_persisted_evidence ::
    "PaymentAttempt \<Rightarrow> GatewayPaymentOutcome \<Rightarrow> ReconciledPaymentMethodReplacementOutcome" where
  "reconciled_outcome_with_persisted_evidence attempt outcome =
     (let observed = outcome_evidence outcome; persisted = state_processor_evidence (attempt_state attempt);
          is_resolvable = PaymentAttemptStatus_is_resolvable (PaymentAttempt_status attempt);
          reconciled = reconcile_non_approved_evidence attempt observed;
          diagnosed = (is_resolvable \<and>
            outcome_status outcome \<in> {GatewayPaymentStatus.Approved, GatewayPaymentStatus.Unknown} \<and>
            (has_diagnostic outcome InvalidOrConflictingTransactionIdentifier \<or>
             has_diagnostic outcome InvalidOrConflictingPaymentMethodReference));
          identity_conflict = (is_resolvable \<and>
            (transaction_id_conflict reconciled \<or> payment_method_reference_conflict reconciled \<or> diagnosed));
          evidence = (if \<not> is_resolvable then observed
            else if identity_conflict then persisted
            else if outcome_status outcome = GatewayPaymentStatus.Approved then observed
            else reconciled_evidence reconciled)
      in \<lparr>rpo_outcome = GatewayPaymentOutcome_new
            (if identity_conflict then GatewayPaymentStatus.Unknown else outcome_status outcome) evidence,
          rpo_observation_diagnostics = foldl (\<lambda>ds d. if d \<in> set ds then ds else ds @ [d])
            (outcome_diagnostics outcome) (identity_conflict_diagnostics reconciled),
          rpo_conflicting_approved_evidence =
            (if identity_conflict \<and> outcome_status outcome = GatewayPaymentStatus.Approved then Some observed else None)\<rparr>)"

text \<open>The approval that conflicts with the durable evidence is kept as a charge of its own.\<close>

definition observe_conflicting_approval ::
    "payment_env \<Rightarrow> PaymentAttempt \<Rightarrow> ProcessorEvidence option \<Rightarrow> payment_db \<Rightarrow>
     (payment_db, SubscriptionEnrollmentApplicationError) result" where
  "observe_conflicting_approval env attempt conflicting p =
     (case conflicting of
        None \<Rightarrow> Ok p
      | Some evidence \<Rightarrow> map_sum id snd (observe env attempt evidence ReconciliationRequired p))"

text \<open>The command for an outcome that is not approved.\<close>

definition non_approved_command :: "GatewayPaymentStatus \<Rightarrow> OutcomeResolutionCommand option" where
  "non_approved_command status =
     (case status of
        GatewayPaymentStatus.Declined \<Rightarrow>
          Some (OutcomeResolutionCommand_non_approved AttemptResolutionStatus.Declined None None Submitted)
      | GatewayPaymentStatus.Failed \<Rightarrow>
          Some (OutcomeResolutionCommand_non_approved AttemptResolutionStatus.Failed None None Submitted)
      | GatewayPaymentStatus.Unknown \<Rightarrow> Some (OutcomeResolutionCommand_unknown None)
      | GatewayPaymentStatus.Approved \<Rightarrow> None)"

definition resolve_locked_replacement ::
    "payment_env \<Rightarrow> SubscriptionPaymentMethodReplacement \<Rightarrow> PaymentAttempt \<Rightarrow> ProcessorEvidence \<Rightarrow> OutcomeResolutionCommand \<Rightarrow>
     payment_db \<Rightarrow> (SubscriptionEnrollmentPaymentResult \<times> payment_db, SubscriptionEnrollmentApplicationError) result" where
  "resolve_locked_replacement env r attempt evidence resolution p =
     map_sum id (map_prod oa_payment id)
       (resolve_locked_outcome env (OutcomeReservation.PaymentMethodReplacement r) attempt evidence resolution p)"

definition apply_locked_reconciled_non_approved_payment_method_replacement_outcome ::
    "SubscriptionPaymentMethodReplacement \<Rightarrow> GatewayPaymentOutcome \<Rightarrow> payment_env \<Rightarrow> payment_db \<Rightarrow>
     (SubscriptionEnrollmentPaymentResult \<times> payment_db, SubscriptionEnrollmentApplicationError) result" where
  "apply_locked_reconciled_non_approved_payment_method_replacement_outcome r observed_outcome env p =
     and_then (lock_expected_reservation_attempt p (OutcomeReservation.PaymentMethodReplacement r)) (\<lambda>attempt.
       let reconciled = reconciled_outcome_with_persisted_evidence attempt observed_outcome;
           outcome = rpo_outcome reconciled
       in and_then (ok_or (non_approved_command (outcome_status outcome)) invalid_application) (\<lambda>resolution.
          map_sum id (map_prod (with_observation_diagnostics (rpo_observation_diagnostics reconciled)) id)
            (resolve_locked_replacement env r attempt (outcome_evidence outcome) resolution p)))"

definition apply_locked_reconciled_payment_method_replacement_decision ::
    "payment_env \<Rightarrow> BillingTransactionSubjectState \<Rightarrow> SubscriptionPaymentMethodReplacement \<Rightarrow> replacement_terms \<Rightarrow>
     PaymentAttempt \<Rightarrow> GatewayPaymentOutcome \<Rightarrow> payment_db \<Rightarrow> approval_result" where
  "apply_locked_reconciled_payment_method_replacement_decision env subject_state r terms attempt outcome p =
     (let evidence = outcome_evidence outcome;
          without_event = map_sum id (\<lambda>(result, p). (result, None, p))
      in case non_approved_command (outcome_status outcome) of
           Some resolution \<Rightarrow> without_event (resolve_locked_replacement env r attempt evidence resolution p)
         | None \<Rightarrow>
             and_then (ok_or (approved_evidence outcome) invalid_application) (\<lambda>approved.
               if PaymentAttemptStatus_is_resolvable (PaymentAttempt_status attempt) \<and>
                  (evidence_transaction_id evidence = None \<or> evidence_payment_method_reference evidence = None)
               then without_event (park_locked_payment_method_replacement_approved_outcome env attempt evidence
                 PAYMENT_METHOD_REPLACEMENT_INCOMPLETE_APPROVAL_TEXT p)
               else apply_locked_payment_method_replacement_approved_outcome env subject_state r terms attempt approved p))"

definition apply_locked_reconciled_payment_method_replacement_outcome ::
    "billing_host \<Rightarrow> SubscriptionPaymentMethodReplacement \<Rightarrow> replacement_terms \<Rightarrow> GatewayPaymentOutcome \<Rightarrow> payment_env \<Rightarrow>
     payment_db \<Rightarrow>
     ((SubscriptionEnrollmentPaymentResult \<times> BillingEvent list) \<times> payment_db, SubscriptionEnrollmentApplicationError) result" where
  "apply_locked_reconciled_payment_method_replacement_outcome host r terms observed_outcome env p =
     in_host_transaction host
       (and_then (lock_expected_reservation_attempt p (OutcomeReservation.PaymentMethodReplacement r)) (\<lambda>attempt.
        let reconciled = reconciled_outcome_with_persisted_evidence attempt observed_outcome in
        and_then (observe_conflicting_approval env attempt (rpo_conflicting_approved_evidence reconciled) p) (\<lambda>p.
          map_sum id (map_prod (with_observation_diagnostics (rpo_observation_diagnostics reconciled)) id)
            (apply_locked_reconciled_payment_method_replacement_decision env (host_subject_state host) r terms attempt
              (rpo_outcome reconciled) p))))"

definition try_park_reconciled_payment_method_replacement_approved_outcome ::
    "SubscriptionPaymentMethodReplacement \<Rightarrow> GatewayPaymentOutcome \<Rightarrow> rstring \<Rightarrow> payment_env \<Rightarrow> payment_db \<Rightarrow>
     (SubscriptionEnrollmentPaymentResult \<times> payment_db, SubscriptionEnrollmentApplicationError) result" where
  "try_park_reconciled_payment_method_replacement_approved_outcome r observed_outcome storage_failure_message env p =
     and_then (lock_expected_reservation_attempt p (OutcomeReservation.PaymentMethodReplacement r)) (\<lambda>attempt.
      let reconciled = reconciled_outcome_with_persisted_evidence attempt observed_outcome;
          outcome = rpo_outcome reconciled; evidence = outcome_evidence outcome
      in and_then (observe_conflicting_approval env attempt (rpo_conflicting_approved_evidence reconciled) p) (\<lambda>p.
         map_sum id (map_prod (with_observation_diagnostics (rpo_observation_diagnostics reconciled)) id)
           (case outcome_status outcome of
              GatewayPaymentStatus.Approved \<Rightarrow>
                park_locked_payment_method_replacement_approved_outcome env attempt evidence
                  (if evidence_transaction_id evidence = None \<or> evidence_payment_method_reference evidence = None
                   then PAYMENT_METHOD_REPLACEMENT_INCOMPLETE_APPROVAL_TEXT else storage_failure_message) p
            | GatewayPaymentStatus.Unknown \<Rightarrow>
                resolve_locked_replacement env r attempt evidence (OutcomeResolutionCommand_unknown None) p
            | _ \<Rightarrow> Err invalid_application)))"

text \<open>The last try returns its error.\<close>

definition park_reconciled_payment_method_replacement_approved_outcome ::
    "payment_run \<Rightarrow> SubscriptionPaymentMethodReplacement \<Rightarrow> GatewayPaymentOutcome \<Rightarrow> rstring \<Rightarrow> payment_db \<Rightarrow>
     (SubscriptionEnrollmentPaymentResult, SubscriptionEnrollmentApplicationError) result \<times> payment_db" where
  "park_reconciled_payment_method_replacement_approved_outcome run r observed_outcome storage_failure_message p =
     (let try_park = try_park_reconciled_payment_method_replacement_approved_outcome r observed_outcome storage_failure_message
      in case retry run try_park is_retryable_evidence_error (butlast evidence_transactions) p of
           (Some result, p) \<Rightarrow> (result, p)
         | (None, p) \<Rightarrow> transact run (List.last evidence_transactions) try_park p)"

definition reconciled_replacement_reservation ::
    "displays \<Rightarrow> BillingScopeId \<Rightarrow> PaymentAttemptId \<Rightarrow> payment_db \<Rightarrow>
     (SubscriptionPaymentMethodReplacement, SubscriptionEnrollmentApplicationError) result" where
  "reconciled_replacement_reservation d billing_scope_id attempt_id p =
     and_then (reconciled_attempt (lit ''payment method replacement attempt was not found'')
         (lit ''payment method replacement gateway account was not found'')
         (lit ''payment method replacement gateway provider key is invalid'') billing_scope_id attempt_id p)
     (\<lambda>(attempt, provider_key). map_err (\<lambda>_. SubscriptionEnrollmentApplicationError.InvalidState
           (lit ''reconciled attempt is not a valid payment method replacement''))
         (replacement_from_attempt d attempt provider_key))"

definition settle_reconciled_replacement ::
    "payment_run \<Rightarrow> billing_host \<Rightarrow> SubscriptionPaymentMethodReplacement \<Rightarrow> replacement_terms \<Rightarrow> GatewayPaymentOutcome \<Rightarrow>
     payment_db \<Rightarrow>
     (SubscriptionEnrollmentPaymentResult \<times> BillingEvent list, SubscriptionEnrollmentApplicationError) result \<times> payment_db" where
  "settle_reconciled_replacement run host r terms outcome p =
     (let without_events = map_prod (map_sum id (\<lambda>result. (result, []))) id in
      if outcome_status outcome = GatewayPaymentStatus.Approved then
        (case retry run (apply_locked_reconciled_payment_method_replacement_outcome host r terms outcome) (\<lambda>_. True)
                [0..<APPROVED_APPLICATION_ATTEMPTS] p of
           (Some result, p) \<Rightarrow> (result, p)
         | (None, p) \<Rightarrow> without_events (park_reconciled_payment_method_replacement_approved_outcome run r outcome
             PAYMENT_METHOD_REPLACEMENT_STORAGE_FAILURE_TEXT p))
      else without_events
        (transact run 0 (apply_locked_reconciled_non_approved_payment_method_replacement_outcome r outcome) p))"

definition apply_reconciled_subscription_payment_method_replacement_gateway_outcome ::
    "displays \<Rightarrow> payment_run \<Rightarrow> billing_host \<Rightarrow> BillingScopeId \<Rightarrow> PaymentAttemptId \<Rightarrow> GatewayPaymentOutcome \<Rightarrow>
     payment_db \<Rightarrow>
     ((SubscriptionEnrollmentPaymentResult \<times> BillingEvent list, SubscriptionEnrollmentApplicationError) result \<times> payment_db) option" where
  "apply_reconciled_subscription_payment_method_replacement_gateway_outcome d run host billing_scope_id attempt_id outcome p =
     (case reconciled_replacement_reservation d billing_scope_id attempt_id p of
        Inl e \<Rightarrow> Some (Err e, p)
      | Inr r \<Rightarrow> map_option (\<lambda>terms. settle_reconciled_replacement run host r terms outcome p) (reserved_replacement r))"

end
