(* ===== verification/Replacement_Guarantees.thy ===== *)
theory Replacement_Guarantees
  imports Replacement_Application Recovery_Guarantees
begin

text \<open>
  What a replacement of the payment method promises: the event and the database agree, and approved evidence survives
  in both calls, the one that submitted the request and the one that a later query reports, even where the
  observed identities conflict with the durable ones.
\<close>

section \<open>Attaching the method\<close>

lemma lock_replacement_Ok:
  assumes "lock_expected_reservation_attempt p (OutcomeReservation.PaymentMethodReplacement r) = Ok a"
  shows "a \<in> set (db_attempts (pay_billing p))" and "attempt_identity a = reserved_identity r"
    and "attempt_request a = reserved_request r"
  using lock_reservation_Ok [OF assms] by (simp_all add: matches_exactly_def)

definition on_method :: "SubscriptionPaymentMethodReplacement \<Rightarrow> replacement_terms \<Rightarrow> PaymentMethodId \<Rightarrow> GatewayTransactionId \<Rightarrow>
    subscription_row \<Rightarrow> bool" where
  "on_method r terms method_id transaction_id row \<longleftrightarrow>
     reserved_row (reserved_identity r) (fst terms) (method_update_subscription_id (snd terms)) row \<and>
     replaceable_row r row \<and> exact_replay method_id transaction_id row"

text \<open>The subscription moved to the method, or was on it already.\<close>

definition attached :: "datetime \<Rightarrow> SubscriptionPaymentMethodReplacement \<Rightarrow> replacement_terms \<Rightarrow> PaymentMethodId \<Rightarrow>
    GatewayTransactionId \<Rightarrow> payment_db \<Rightarrow> payment_db \<Rightarrow> bool" where
  "attached clock r terms method_id transaction_id p p' \<longleftrightarrow>
     one_subscription_changes (replaced_row r terms) (\<lambda>row row'. row' = replace_row clock method_id transaction_id row) p p' \<or>
     same_subscriptions p p' \<and> list_ex (on_method r terms method_id transaction_id) (db_subscriptions (pay_billing p))"

lemma attached_row:
  assumes "attached clock r terms method_id transaction_id p p'"
  shows "list_ex (on_method r terms method_id transaction_id) (db_subscriptions (pay_billing p'))"
  using assms unfolding attached_def
proof
  assume "one_subscription_changes (replaced_row r terms) (\<lambda>row row'. row' = replace_row clock method_id transaction_id row) p p'"
  then obtain row where row: "row \<in> set (db_subscriptions (pay_billing p))" "replaced_row r terms row"
      "db_subscriptions (pay_billing p') = map (\<lambda>s. if row_id s = row_id row
         then replace_row clock method_id transaction_id row else s) (db_subscriptions (pay_billing p))"
    unfolding one_subscription_changes_def by blast
  then have "replace_row clock method_id transaction_id row \<in> set (db_subscriptions (pay_billing p'))" by force
  moreover have "on_method r terms method_id transaction_id (replace_row clock method_id transaction_id row)"
    using row(2) by (auto simp: on_method_def replaced_row_def replace_row_def reserved_row_def replaceable_row_def
        exact_replay_def split: prod.splits)
  ultimately show ?thesis unfolding list_ex_iff by blast
qed simp

lemma replaced_row_evolves: "replaced_row r terms row \<Longrightarrow> subscription_evolves row (replace_row clock method_id transaction_id row)"
  by (auto simp: subscription_evolves_def replace_row_def replaced_row_def replaceable_row_def is_current_status_def
      policy_readable_def split: prod.splits)

lemma attached_keeps:
  assumes "attached clock r terms method_id transaction_id p p'" and same: "same_payments p p'"
  shows "payment_keeps p p'"
  using assms(1) unfolding attached_def
proof
  assume change: "one_subscription_changes (replaced_row r terms) (\<lambda>row row'. row' = replace_row clock method_id transaction_id row) p p'"
  show ?thesis
    using change same
    by (rule subscription_change_keeps) (auto intro: replaced_row_evolves)
next
  assume "same_subscriptions p p' \<and> list_ex (on_method r terms method_id transaction_id) (db_subscriptions (pay_billing p))"
  moreover have "charges_ok (charge_view p') = charges_ok (charge_view p)"
    by (rule charges_ok_cong) (use same in \<open>simp_all add: same_payments_def\<close>)
  moreover have "attempts_ok (pay_billing p') = attempts_ok (pay_billing p)"
    by (rule attempts_ok_cong) (use same in \<open>simp add: same_payments_def\<close>)
  ultimately show ?thesis
    using same by (simp add: payment_keeps_def payment_ok_def payment_evolves_def same_payments_def attempts_grow_same
        list_all2_refl)
qed

text \<open>The chain of a replacement that was applied: stored in \<open>p2\<close>, attached in \<open>p3\<close>, marked in \<open>p4\<close>.\<close>

definition replacement_chain ::
    "payment_env \<Rightarrow> SubscriptionPaymentMethodReplacement \<Rightarrow> replacement_terms \<Rightarrow> PaymentAttempt \<Rightarrow> ProcessorEvidence \<Rightarrow>
     ChargeRecord \<Rightarrow> payment_db \<Rightarrow> SubscriptionEnrollmentPaymentResult \<Rightarrow> BillingEvent option \<Rightarrow> payment_db \<Rightarrow>
     GatewayTransactionId \<Rightarrow> PaymentMethodId \<Rightarrow> payment_db \<Rightarrow> payment_db \<Rightarrow> payment_db \<Rightarrow> bool" where
  "replacement_chain env r terms a e charge p1 result event p' transaction_id method_id p2 p3 p4 \<longleftrightarrow>
     evidence_transaction_id e = Some transaction_id \<and> upsert_payment_method env a e p1 = Ok (method_id, p2) \<and>
     (distinct_subscriptions p2 \<longrightarrow> attached (env_clock env) r terms method_id transaction_id p2 p3) \<and>
     same_payments p2 p3 \<and> pay_methods p3 = pay_methods p2 \<and>
     mark_attempt_approved env a e (method_update_subscription_id (snd terms)) method_id p3 = Ok p4 \<and>
     finish_payment env (reserved_identity r) (method_update_subscription_id (snd terms)) (record_id charge)
       (\<lambda>_. Ok (replaced_event (reserved_identity r) terms e))
       (disable_payment_method_if_unreferenced (method_update_payment_method_id (snd terms)) p4) = Ok (result, event, p')"

lemma stale_replacement_frame:
  assumes "upsert_payment_method env a e p1 = Ok (method_id, p2)"
    and "park_stale_replacement env a e charge code p2 = Ok (result, event, p')"
  shows "payment_frame p1 p' \<and> event = None"
  using upsert_tables [OF assms(1)] park_stale_frame [OF assms(2) [unfolded park_stale_replacement_def]]
    tables_frame [of p2 p1] payment_frame_trans by blast

lemma replacement_attached:
  assumes row: "find (reserved_row (reserved_identity r) plan_key (method_update_subscription_id expected))
      (db_subscriptions (pay_billing p2)) = Some row" "replaceable_row r row"
    and attach: "if baseline_matches expected row
      then update_one_subscription (replaced_row r (plan_key, expected)) (replace_row clock method_id transaction_id) p2 = Ok p3
      else exact_replay method_id transaction_id row \<and> p3 = p2"
  shows "distinct_subscriptions p2 \<longrightarrow> attached clock r (plan_key, expected) method_id transaction_id p2 p3"
    and "same_payments p2 p3" and "pay_methods p3 = pay_methods p2"
proof -
  have "attached clock r (plan_key, expected) method_id transaction_id p2 p3" if ok: "distinct_subscriptions p2"
  proof (cases "baseline_matches expected row")
    case True
    with attach ok update_one_rows [of p2] show ?thesis by (simp add: attached_def)
  next
    case False
    with row attach show ?thesis by (auto simp: attached_def on_method_def list_ex_iff find_Some_iff)
  qed
  then show "distinct_subscriptions p2 \<longrightarrow> attached clock r (plan_key, expected) method_id transaction_id p2 p3" ..
  show "same_payments p2 p3" "pay_methods p3 = pay_methods p2"
    using attach by (auto simp: update_one_subscription_def Let_def same_payments_def with_billing_def update_subscriptions_def
        split: if_splits)
qed

lemma primary_replacement_cases:
  assumes run: "attach_replacement env r terms a e (record_id charge) p1 = Ok (result, event, p')"
  obtains (stale) "payment_frame p1 p'" "event = None"
  | (replaced) transaction_id method_id p2 p3 p4 where
      "replacement_chain env r terms a e charge p1 result event p' transaction_id method_id p2 p3 p4"
proof -
  obtain plan_key expected where terms: "terms = (plan_key, expected)" by (cases terms)
  obtain transaction_id method_id p2 where t: "evidence_transaction_id e = Some transaction_id"
    and upsert: "upsert_payment_method env a e p1 = Ok (method_id, p2)"
    using run by (auto simp: attach_replacement_def and_then_Inr_iff)
  note body = run [unfolded attach_replacement_def, simplified t upsert terms, simplified]
  show thesis
  proof (cases "find (reserved_row (reserved_identity r) plan_key (method_update_subscription_id expected))
      (db_subscriptions (pay_billing p2))")
    case None
    with body upsert stale show thesis by (auto dest: stale_replacement_frame)
  next
    case (Some row)
    let ?attach = "\<lambda>p3. if baseline_matches expected row
      then update_one_subscription (replaced_row r (plan_key, expected)) (replace_row (env_clock env) method_id transaction_id) p2 = Ok p3
      else exact_replay method_id transaction_id row \<and> p3 = p2"
    from body Some consider "payment_frame p1 p' \<and> event = None"
      | p3 where "replaceable_row r row" "?attach p3"
          "complete_replacement env r terms a e (record_id charge) method_id p3 = Ok (result, event, p')"
      by (auto simp: terms and_then_Inr_iff split: if_splits dest: stale_replacement_frame [OF upsert])
    then show thesis
    proof cases
      case 1
      with stale show thesis by blast
    next
      case (2 p3)
      note chain = replacement_attached [OF Some 2(1,2)]
      from 2(3) obtain p4 where "mark_attempt_approved env a e (method_update_subscription_id expected) method_id p3 = Ok p4"
          "finish_payment env (reserved_identity r) (method_update_subscription_id expected) (record_id charge)
             (\<lambda>_. Ok (replaced_event (reserved_identity r) terms e))
             (disable_payment_method_if_unreferenced (method_update_payment_method_id expected) p4) = Ok (result, event, p')"
        by (auto simp: complete_replacement_def Let_def and_then_Inr_iff terms)
      with chain t upsert show thesis by (intro replaced) (auto simp: replacement_chain_def terms)
    qed
  qed
qed

lemma replacement_approved_cases:
  assumes rely: "payment_rely (env_others env)" and a: "a \<in> set (db_attempts (pay_billing p))"
    and run: "apply_locked_payment_method_replacement_approved_outcome env subject r terms a approved p = Ok (result, event, p')"
  obtains (recorded) "event = None" "recording (attempt_identity a) (approved_inner approved) p p'"
  | (replaced) charge p1 transaction_id method_id p2 p3 p4 where
      "PaymentAttemptStatus_is_resolvable (PaymentAttempt_status a)"
      "observe env a (approved_inner approved) ProcessorChargeProgression.Pending p = Ok (Owned charge, p1)"
      "replacement_chain env r terms a (approved_inner approved) charge p1 result event p' transaction_id method_id p2 p3 p4"
proof -
  let ?e = "approved_inner approved"
  have terminal: "\<forall>diagnostics. observe_replacement_of_terminal_attempt env a approved diagnostics p = Ok (result, event, p') \<longrightarrow>
      recording (attempt_identity a) ?e p p' \<and> event = None"
    using observe_recording [OF rely]
    by (auto simp: observe_replacement_of_terminal_attempt_def and_then_Inr_iff map_sum_Inr_iff)
  from rely a terminal run [unfolded apply_locked_payment_method_replacement_approved_outcome_def Let_def] show thesis
  proof (cases rule: settle_cases)
    case recorded
    with that(1) show thesis .
  next
    case opened
    from rely opened(2) [unfolded apply_replacement_to_open_attempt_def] show thesis
    proof (cases rule: primary_charge_cases)
      case parked
      with that(1) show thesis .
    next
      case (primary charge p1)
      from primary(3) show thesis
      proof (cases rule: primary_replacement_cases)
        case stale
        with recording_then [OF observe_recording [OF rely primary(1)]] recorded show thesis by blast
      next
        case replaced
        with that(2) opened(1) primary(1) show thesis by blast
      qed
    qed
  qed
qed

section \<open>The event\<close>

lemma chain_states:
  assumes rely: "payment_rely (env_others env)"
    and observe: "observe env a e ProcessorChargeProgression.Pending p = Ok (out, p1)"
    and chain: "replacement_chain env r terms a e charge p1 result event p' transaction_id method_id p2 p3 p4"
  shows "payment_keeps p1 p3" and "payment_ok p1 \<longrightarrow> same_payments p1 p3"
    and "distinct_subscriptions p1 \<longrightarrow> attached (env_clock env) r terms method_id transaction_id p1 p3"
proof -
  have same: "pay_billing p2 = pay_billing p1" "pay_charges p2 = pay_charges p1"
    using chain upsert_tables unfolding replacement_chain_def by blast+
  have frame: "payment_frame p1 p2" using same by (rule tables_frame)
  have attach: "attached (env_clock env) r terms method_id transaction_id p2 p3" if "distinct_subscriptions p1"
    using chain that same unfolding replacement_chain_def by simp
  have kept: "same_payments p2 p3" using chain by (simp add: replacement_chain_def)
  then show "payment_ok p1 \<longrightarrow> same_payments p1 p3" using same by (simp add: same_payments_def)
  show "distinct_subscriptions p1 \<longrightarrow> attached (env_clock env) r terms method_id transaction_id p1 p3"
    using attach same by (simp add: attached_def one_subscription_changes_def)
  have "payment_keeps p1 p3" if "payment_ok p1"
    using attached_keeps [OF attach kept] that frame payment_ok_distinct payment_keeps_trans payment_frame_keeps by blast
  then show "payment_keeps p1 p3" unfolding payment_keeps_def by blast
qed

lemma chain_method:
  assumes chain: "replacement_chain env r terms a e charge p1 result event p' transaction_id method_id p2 p3 p4"
    and attached: "attached clock r terms method_id transaction_id p1 p3"
  obtains reference where "evidence_payment_method_reference e = Some reference"
    "list_ex (active_method method_id reference) (pay_methods p')"
proof -
  let ?q = "disable_payment_method_if_unreferenced (method_update_payment_method_id (snd terms)) p4"
  have upsert: "upsert_payment_method env a e p1 = Ok (method_id, p2)"
    and mark: "mark_attempt_approved env a e (method_update_subscription_id (snd terms)) method_id p3 = Ok p4"
    and finish: "finish_payment env (reserved_identity r) (method_update_subscription_id (snd terms)) (record_id charge)
      (\<lambda>_. Ok (replaced_event (reserved_identity r) terms e)) ?q = Ok (result, event, p')"
    and stored: "pay_methods p3 = pay_methods p2"
    using chain by (simp_all add: replacement_chain_def)
  from upsert obtain reference where reference: "evidence_payment_method_reference e = Some reference"
      "list_ex (active_method method_id reference) (pay_methods p2)"
    by (rule upsert_active)
  obtain row where row: "row \<in> set (db_subscriptions (pay_billing p3))" "on_method r terms method_id transaction_id row"
    using attached_row [OF attached] unfolding list_ex_iff by blast
  have "db_subscriptions (pay_billing p4) = db_subscriptions (pay_billing p3)" "pay_methods p4 = pay_methods p3"
    using mark_frame [OF mark] mark by (auto simp: payment_frame_def mark_attempt_approved_def on_attempts_Ok with_billing_def)
  moreover have "pay_methods p' = pay_methods ?q"
    using finish by (elim finish_payment_cases) (auto simp: move_charge_Ok with_charges_def)
  ultimately show thesis
    using that reference row stored disable_keeps_referenced [of method_id reference p4 row]
    by (simp add: on_method_def exact_replay_def replaceable_row_def)
qed

text \<open>C11.  A replacement returns its event exactly when the new method is attached.  With the event, the attempt was open
  and is now approved with the evidence of the provider, its primary charge is applied with that transaction,
  the method is stored and active, and either one subscription, still on the expected method and
  transaction, moved to the new ones and changed in nothing else, or the subscription was on them already; without the
  event no subscription was written.\<close>

theorem replacement_event_matches_database:
  assumes ok: "payment_ok p" and rely: "payment_rely (env_others env)"
    and run: "apply_payment_method_replacement_approved_on_connection env subject r terms approved p = Ok (result, event, p')"
  shows "case event of
      None \<Rightarrow> db_subscriptions (pay_billing p') = db_subscriptions (pay_billing p)
    | Some ev \<Rightarrow>
        ev = replaced_event (reserved_identity r) terms (approved_inner approved) \<and>
        list_ex (open_attempt_of (reserved_identity r)) (db_attempts (pay_billing p)) \<and>
        list_ex (approved_attempt (reserved_identity r) (approved_inner approved)) (db_attempts (pay_billing p')) \<and>
        list_ex (applied_charge (reserved_identity r) (approved_inner approved)) (pay_charges p') \<and>
        (\<exists>method_id transaction_id reference. evidence_transaction_id (approved_inner approved) = Some transaction_id \<and>
           evidence_payment_method_reference (approved_inner approved) = Some reference \<and>
           list_ex (active_method method_id reference) (pay_methods p') \<and>
           list_ex (on_method r terms method_id transaction_id) (db_subscriptions (pay_billing p')) \<and>
           attached (env_clock env) r terms method_id transaction_id p p')"
proof -
  let ?e = "approved_inner approved"
  obtain a where lock: "lock_expected_reservation_attempt p (OutcomeReservation.PaymentMethodReplacement r) = Ok a"
    and body: "apply_locked_payment_method_replacement_approved_outcome env subject r terms a approved p = Ok (result, event, p')"
    using run by (auto simp: apply_payment_method_replacement_approved_on_connection_def and_then_Inr_iff)
  note a = lock_replacement_Ok [OF lock]
  from rely a(1) body show ?thesis
  proof (cases rule: replacement_approved_cases)
    case recorded
    then show ?thesis by (simp add: recording_def payment_frame_def)
  next
    case (replaced charge p1 transaction_id method_id p2 p3 p4)
    let ?i = "method_update_subscription_id (snd terms)"
      and ?q = "disable_payment_method_if_unreferenced (method_update_payment_method_id (snd terms)) p4"
    note chain = chain_states [OF rely replaced(2,3)]
    have mark: "mark_attempt_approved env a ?e ?i method_id p3 = Ok p4"
      and finish: "finish_payment env (reserved_identity r) ?i (record_id charge)
        (\<lambda>_. Ok (replaced_event (reserved_identity r) terms ?e)) ?q = Ok (result, event, p')"
      and t: "evidence_transaction_id ?e = Some transaction_id"
      using replaced(3) by (simp_all add: replacement_chain_def)
    note states = paid_states [OF ok rely replaced(2) chain(1,2) mark disable_tables finish]
    have moved: "attached (env_clock env) r terms method_id transaction_id p1 p3" using chain(3) payment_ok_distinct [OF states(1)] by blast
    from ok rely a(1,2) replaced(2) chain(1,2) mark disable_tables finish obtain b where
      b: "b \<in> set (db_attempts (pay_billing p'))" "approved_attempt (reserved_identity r) ?e b"
      and charge: "list_ex (applied_charge (reserved_identity r) ?e) (pay_charges p')"
      by (rule paid_payment) blast
    from replaced(3) moved obtain reference where reference: "evidence_payment_method_reference ?e = Some reference"
        "list_ex (active_method method_id reference) (pay_methods p')"
      by (rule chain_method)
    have end_state: "attached (env_clock env) r terms method_id transaction_id p p'"
      using moved states(7,8) by (simp add: attached_def one_subscription_changes_def)
    moreover note attached_row [OF end_state]
    moreover have "event = Some (replaced_event (reserved_identity r) terms ?e)"
      using finish by (elim finish_payment_cases) simp
    moreover have "list_ex (open_attempt_of (reserved_identity r)) (db_attempts (pay_billing p))"
      using a(1,2) replaced(1) unfolding list_ex_iff open_attempt_of_def by blast
    moreover have "list_ex (approved_attempt (reserved_identity r) ?e) (db_attempts (pay_billing p'))"
      using b unfolding list_ex_iff by blast
    ultimately show ?thesis using charge reference t by auto
  qed
qed

section \<open>Evidence\<close>

lemma approved_replacement_records:
  assumes rely: "payment_rely (env_others env)" and a: "a \<in> set (db_attempts (pay_billing p))"
    and run: "apply_locked_payment_method_replacement_approved_outcome env subject r terms a approved p = Ok (result, event, p')"
  shows "payment_keeps p p' \<and> (payment_ok p \<longrightarrow> evidence_recorded (attempt_identity a) (approved_inner approved) p')"
  using rely a run
proof (cases rule: replacement_approved_cases)
  case recorded
  then show ?thesis by (simp add: recordingD)
next
  case (replaced charge p1 transaction_id method_id p2 p3 p4)
  have "mark_attempt_approved env a (approved_inner approved) (method_update_subscription_id (snd terms)) method_id p3 = Ok p4"
    "finish_payment env (reserved_identity r) (method_update_subscription_id (snd terms)) (record_id charge)
      (\<lambda>_. Ok (replaced_event (reserved_identity r) terms (approved_inner approved)))
      (disable_payment_method_if_unreferenced (method_update_payment_method_id (snd terms)) p4) = Ok (result, event, p')"
    using replaced(3) by (simp_all add: replacement_chain_def)
  then show ?thesis
    by (rule paid_keeps [OF rely replaced(2) chain_states(1) [OF rely replaced(2,3)] _ disable_tables])
qed

lemma applied_replacement_records:
  assumes rely: "payment_rely (env_others env)"
    and run: "apply_payment_method_replacement_approved_outcome host r terms approved env p = Ok (x, p')"
  shows "payment_keeps p p' \<and> (payment_ok p \<longrightarrow> evidence_recorded (reserved_identity r) (approved_inner approved) p')"
proof -
  obtain result events where x: "x = (result, events)" by (cases x)
  obtain a event where "lock_expected_reservation_attempt p (OutcomeReservation.PaymentMethodReplacement r) = Ok a"
      "apply_locked_payment_method_replacement_approved_outcome env (host_subject_state host) r terms a approved p = Ok (result, event, p')"
    using host_transaction_Ok [OF run [unfolded apply_payment_method_replacement_approved_outcome_def x]]
    by (auto simp: apply_payment_method_replacement_approved_on_connection_def and_then_Inr_iff)
  with approved_replacement_records [OF rely] lock_replacement_Ok show ?thesis by metis
qed

lemma park_locked_replacement_recording:
  assumes rely: "payment_rely (env_others env)"
    and run: "park_locked_payment_method_replacement_approved_outcome env a e message p = Ok (result, p')"
  shows "recording (attempt_identity a) e p p'"
proof -
  have observed: "recording (attempt_identity a) e p p1" if "observe env a e q p = Ok (out, p1)" for q out p1
    using observe_recording [OF rely that] .
  have parked: "recording (attempt_identity a) e p p2"
    if "observe env a e q p = Ok (out, p1)" "park_locked_attempt env a e code m p1 = Ok (b, p2)" for q out p1 code m b p2
    using observed [OF that(1)] park_locked_frame [OF that(2)] by (rule recording_then)
  from run show ?thesis
    unfolding park_locked_payment_method_replacement_approved_outcome_def
    by (auto simp: and_then_Inr_iff map_sum_Inr_iff split: if_splits intro: observed parked)
qed

lemma try_park_replacement_recording:
  assumes rely: "payment_rely (env_others env)"
    and run: "try_park_payment_method_replacement_approved_outcome r e message env p = Ok (result, p')"
  shows "recording (reserved_identity r) e p p'"
proof -
  obtain a where "lock_expected_reservation_attempt p (OutcomeReservation.PaymentMethodReplacement r) = Ok a"
      "park_locked_payment_method_replacement_approved_outcome env a e message p = Ok (result, p')"
    using run by (auto simp: try_park_payment_method_replacement_approved_outcome_def and_then_Inr_iff)
  with park_locked_replacement_recording [OF rely] lock_replacement_Ok(2) show ?thesis by metis
qed

interpretation replacing: recording_operation "apply_payment_method_replacement_approved_outcome host r terms approved"
    "reserved_identity r" "approved_inner approved" for host r terms approved
  by unfold_locales (use applied_replacement_records in blast)+

interpretation parking_replacement: recording_operation "try_park_payment_method_replacement_approved_outcome r e message"
    "reserved_identity r" e for r e message
  by unfold_locales (use try_park_replacement_recording recordingD in blast)+

interpretation replacement: approved_outcome "reserved_identity r" "approved_inner approved"
    "apply_payment_method_replacement_approved_outcome host r terms approved"
    "try_park_payment_method_replacement_approved_outcome r (approved_inner approved)"
    "observe_approved_evidence (OutcomeReservation.PaymentMethodReplacement r) (approved_inner approved) None"
    "\<lambda>run. write_without_lock run (lock_free_terms_replacement r (fst terms)) (approved_inner approved) None"
    "read_pending_confirmation False (reserved_identity r) approved"
  for host r terms approved
proof (rule approved_outcome.intro)
  show "recording_operation (observe_approved_evidence (OutcomeReservation.PaymentMethodReplacement r) (approved_inner approved) None)
      (reserved_identity r) (approved_inner approved)"
    using observing.recording_operation_axioms [of "OutcomeReservation.PaymentMethodReplacement r"] by simp
  show "payment_keeps p p' \<and> (payment_ok p \<longrightarrow> out = Inr () \<longrightarrow> evidence_recorded (reserved_identity r) (approved_inner approved) p')"
    if "run_rely run" "write_without_lock run (lock_free_terms_replacement r (fst terms)) (approved_inner approved) None p = (out, p')"
    for run p out p'
    using write_without_lock_records [OF that] by (simp add: lock_free_terms_replacement_def)
qed (rule replacing.recording_operation_axioms parking_replacement.recording_operation_axioms reading.payment_operation_axioms)+

lemma approved_replacement_settles:
  "run_rely run \<Longrightarrow> settles (reserved_identity r) (approved_inner approved) p (apply_approved_replacement run host r terms approved p)"
  using replacement.applied_outcome [of run r approved p _ host terms]
  by (simp add: apply_approved_replacement_def park_payment_method_replacement_approved_outcome_def [abs_def]
      observe_payment_method_replacement_approved_evidence_with_retry_def [abs_def])

lemma replacement_outcome_keeps:
  assumes "run_rely run" and "apply_subscription_payment_method_replacement_gateway_outcome run host r outcome p = Some (out, p')"
  shows "payment_keeps p p'"
proof -
  obtain terms where "with_outcome_diagnostics outcome (decide_outcome run (OutcomeReservation.PaymentMethodReplacement r) outcome
      (apply_approved_replacement run host r terms) p) = (out, p')"
    using assms by (auto simp: apply_subscription_payment_method_replacement_gateway_outcome_def)
  then show ?thesis by (rule decided_keeps [OF assms(1)]) (rule approved_replacement_settles [OF assms(1)])
qed

lemma replacement_outcome_records:
  assumes "run_rely run" and "payment_ok p" and "outcome_status outcome = GatewayPaymentStatus.Approved"
    and "apply_subscription_payment_method_replacement_gateway_outcome run host r outcome p = Some (Inr x, p')"
  shows "evidence_recorded (reserved_identity r) (outcome_evidence outcome) p'"
proof -
  obtain terms where "with_outcome_diagnostics outcome (decide_outcome run (OutcomeReservation.PaymentMethodReplacement r) outcome
      (apply_approved_replacement run host r terms) p) = (Inr x, p')"
    using assms by (auto simp: apply_subscription_payment_method_replacement_gateway_outcome_def)
  then show ?thesis by (rule decided_records [OF assms(2,3)]) (rule approved_replacement_settles [OF assms(1)])
qed

section \<open>Outcomes that a later query reports\<close>

text \<open>An approval that conflicts with the durable evidence becomes unknown and is kept beside it; any other goes on as it was
  observed.\<close>

lemma reconciled_approval:
  assumes "outcome_status outcome = GatewayPaymentStatus.Approved"
    and "reconciled = reconciled_outcome_with_persisted_evidence a outcome"
  shows "rpo_conflicting_approved_evidence reconciled = Some (outcome_evidence outcome) \<and>
      outcome_status (rpo_outcome reconciled) = GatewayPaymentStatus.Unknown \<or>
    rpo_conflicting_approved_evidence reconciled = None \<and>
      rpo_outcome reconciled = GatewayPaymentOutcome_new GatewayPaymentStatus.Approved (outcome_evidence outcome)"
  using assms by (auto simp: reconciled_outcome_with_persisted_evidence_def Let_def GatewayPaymentOutcome_new_def)

lemma resolve_replacement_frame:
  "payment_rely (env_others env) \<Longrightarrow> resolve_locked_replacement env r a e resolution p = Ok (result, p') \<Longrightarrow> payment_frame p p'"
  by (auto simp: resolve_locked_replacement_def map_sum_Inr_iff dest: resolve_locked_frame)

text \<open>A body that runs after the comparison: an unknown outcome only resolves the attempt, an approved one records.\<close>

lemma reconciled_body_records:
  assumes rely: "payment_rely (env_others env)" and status: "outcome_status outcome = GatewayPaymentStatus.Approved"
    and a: "a \<in> set (db_attempts (pay_billing p))"
    and reconciled: "reconciled = reconciled_outcome_with_persisted_evidence a outcome"
    and conflict: "observe_conflicting_approval env a (rpo_conflicting_approved_evidence reconciled) p = Ok p1"
    and unknown: "outcome_status (rpo_outcome reconciled) = GatewayPaymentStatus.Unknown \<longrightarrow> payment_keeps p1 p'"
    and approved: "rpo_outcome reconciled = GatewayPaymentOutcome_new GatewayPaymentStatus.Approved (outcome_evidence outcome) \<longrightarrow>
      a \<in> set (db_attempts (pay_billing p1)) \<longrightarrow>
      payment_keeps p1 p' \<and> (payment_ok p1 \<longrightarrow> evidence_recorded (attempt_identity a) (outcome_evidence outcome) p')"
  shows "payment_keeps p p' \<and> (payment_ok p \<longrightarrow> evidence_recorded (attempt_identity a) (outcome_evidence outcome) p')"
  using reconciled_approval [OF status reconciled]
proof
  assume "rpo_conflicting_approved_evidence reconciled = Some (outcome_evidence outcome) \<and>
    outcome_status (rpo_outcome reconciled) = GatewayPaymentStatus.Unknown"
  with conflict unknown obtain out where "observe env a (outcome_evidence outcome) ReconciliationRequired p = Ok (out, p1)"
      "payment_keeps p1 p'"
    by (auto simp: observe_conflicting_approval_def map_sum_Inr_iff)
  from recorded_then_keeps [OF recordingD [OF observe_recording [OF rely this(1)]] this(2)] show ?thesis .
next
  assume "rpo_conflicting_approved_evidence reconciled = None \<and>
    rpo_outcome reconciled = GatewayPaymentOutcome_new GatewayPaymentStatus.Approved (outcome_evidence outcome)"
  with conflict approved a show ?thesis by (simp add: observe_conflicting_approval_def)
qed

lemma reconciled_decision_records:
  assumes rely: "payment_rely (env_others env)"
    and run: "apply_locked_reconciled_payment_method_replacement_decision env subject r terms a outcome p = Ok (result, event, p')"
  shows "outcome_status outcome \<noteq> GatewayPaymentStatus.Approved \<longrightarrow> payment_keeps p p'"
    and "outcome_status outcome = GatewayPaymentStatus.Approved \<longrightarrow> a \<in> set (db_attempts (pay_billing p)) \<longrightarrow>
      payment_keeps p p' \<and> (payment_ok p \<longrightarrow> evidence_recorded (attempt_identity a) (outcome_evidence outcome) p')"
proof -
  show "outcome_status outcome \<noteq> GatewayPaymentStatus.Approved \<longrightarrow> payment_keeps p p'"
    using run resolve_replacement_frame [OF rely] payment_frame_keeps
    by (cases "outcome_status outcome")
       (auto simp: apply_locked_reconciled_payment_method_replacement_decision_def non_approved_command_def Let_def map_sum_Inr_iff)
  show "outcome_status outcome = GatewayPaymentStatus.Approved \<longrightarrow> a \<in> set (db_attempts (pay_billing p)) \<longrightarrow>
      payment_keeps p p' \<and> (payment_ok p \<longrightarrow> evidence_recorded (attempt_identity a) (outcome_evidence outcome) p')"
  proof (intro impI)
    let ?approved = "ApprovedProcessorEvidence (outcome_evidence outcome)"
    assume "outcome_status outcome = GatewayPaymentStatus.Approved" and a: "a \<in> set (db_attempts (pay_billing p))"
    with run consider message where "park_locked_payment_method_replacement_approved_outcome env a (outcome_evidence outcome) message p =
        Ok (result, p')"
      | "apply_locked_payment_method_replacement_approved_outcome env subject r terms a ?approved p = Ok (result, event, p')"
      by (auto simp: apply_locked_reconciled_payment_method_replacement_decision_def non_approved_command_def Let_def
          approved_evidence_def split: if_splits)
    then show "payment_keeps p p' \<and> (payment_ok p \<longrightarrow> evidence_recorded (attempt_identity a) (outcome_evidence outcome) p')"
      by cases (use recordingD [OF park_locked_replacement_recording [OF rely]] approved_replacement_records [OF rely a, of subject r terms ?approved] in auto)
  qed
qed

lemma reconciled_application_records:
  assumes rely: "payment_rely (env_others env)" and status: "outcome_status outcome = GatewayPaymentStatus.Approved"
    and run: "apply_locked_reconciled_payment_method_replacement_outcome host r terms outcome env p = Ok (x, p')"
  shows "payment_keeps p p' \<and> (payment_ok p \<longrightarrow> evidence_recorded (reserved_identity r) (outcome_evidence outcome) p')"
proof -
  obtain a result event p1 where lock: "lock_expected_reservation_attempt p (OutcomeReservation.PaymentMethodReplacement r) = Ok a"
    and conflict: "observe_conflicting_approval env a (rpo_conflicting_approved_evidence
      (reconciled_outcome_with_persisted_evidence a outcome)) p = Ok p1"
    and decision: "apply_locked_reconciled_payment_method_replacement_decision env (host_subject_state host) r terms a
      (rpo_outcome (reconciled_outcome_with_persisted_evidence a outcome)) p1 = Ok (result, event, p')"
    using run host_transaction_Ok
    by (cases x) (fastforce simp: apply_locked_reconciled_payment_method_replacement_outcome_def and_then_Inr_iff Let_def map_sum_Inr_iff)
  note a = lock_replacement_Ok [OF lock]
  note records = reconciled_decision_records [OF rely decision]
  show ?thesis
    unfolding a(2) [symmetric]
    by (rule reconciled_body_records [OF rely status a(1) refl conflict]; intro impI)
       (use records in \<open>auto simp: GatewayPaymentOutcome_new_def\<close>)
qed

lemma reconciled_parking_records:
  assumes rely: "payment_rely (env_others env)" and status: "outcome_status outcome = GatewayPaymentStatus.Approved"
    and run: "try_park_reconciled_payment_method_replacement_approved_outcome r outcome message env p = Ok (result, p')"
  shows "payment_keeps p p' \<and> (payment_ok p \<longrightarrow> evidence_recorded (reserved_identity r) (outcome_evidence outcome) p')"
proof -
  obtain a p1 where lock: "lock_expected_reservation_attempt p (OutcomeReservation.PaymentMethodReplacement r) = Ok a"
    and conflict: "observe_conflicting_approval env a (rpo_conflicting_approved_evidence
      (reconciled_outcome_with_persisted_evidence a outcome)) p = Ok p1"
    using run by (auto simp: try_park_reconciled_payment_method_replacement_approved_outcome_def and_then_Inr_iff Let_def)
  note a = lock_replacement_Ok [OF lock]
  let ?outcome = "rpo_outcome (reconciled_outcome_with_persisted_evidence a outcome)"
  note body = run [unfolded try_park_reconciled_payment_method_replacement_approved_outcome_def Let_def, simplified lock conflict, simplified]
  have "outcome_status ?outcome = GatewayPaymentStatus.Unknown \<longrightarrow> payment_keeps p1 p'"
    using body resolve_replacement_frame [OF rely] payment_frame_keeps conflict by (auto simp: map_sum_Inr_iff)
  moreover have "payment_keeps p1 p' \<and> (payment_ok p1 \<longrightarrow> evidence_recorded (attempt_identity a) (outcome_evidence outcome) p')"
    if outcome: "?outcome = GatewayPaymentOutcome_new GatewayPaymentStatus.Approved (outcome_evidence outcome)"
  proof -
    obtain m result1 where "park_locked_payment_method_replacement_approved_outcome env a (outcome_evidence outcome) m p1 = Ok (result1, p')"
      using body conflict by (auto simp: outcome GatewayPaymentOutcome_new_def map_sum_Inr_iff)
    from recordingD [OF park_locked_replacement_recording [OF rely this]] show ?thesis .
  qed
  ultimately show ?thesis
    using reconciled_body_records [OF rely status a(1) refl conflict, of p'] by (simp add: a(2))
qed

lemma reconciled_operations:
  assumes status: "outcome_status outcome = GatewayPaymentStatus.Approved"
  shows "recording_operation (apply_locked_reconciled_payment_method_replacement_outcome host r terms outcome)
      (reserved_identity r) (outcome_evidence outcome)"
    and "recording_operation (try_park_reconciled_payment_method_replacement_approved_outcome r outcome message)
      (reserved_identity r) (outcome_evidence outcome)"
  by (unfold_locales; use reconciled_application_records [OF _ status] reconciled_parking_records [OF _ status] in blast)+

interpretation reconciled_resolution:
    payment_operation "apply_locked_reconciled_non_approved_payment_method_replacement_outcome r outcome" for r outcome
  by unfold_locales
     (auto simp: apply_locked_reconciled_non_approved_payment_method_replacement_outcome_def Let_def and_then_Inr_iff map_sum_Inr_iff
      dest!: resolve_replacement_frame intro: payment_frame_keeps)

lemma parked_reconciled_settles:
  assumes "run_rely run" and "outcome_status outcome = GatewayPaymentStatus.Approved"
  shows "settles (reserved_identity r) (outcome_evidence outcome) p
    (park_reconciled_payment_method_replacement_approved_outcome run r outcome message p)"
  unfolding park_reconciled_payment_method_replacement_approved_outcome_def Let_def
  using recording_operation.retry_settles [OF reconciled_operations(2) [OF assms(2)] assms(1)]
    recording_operation.transact_settles [OF reconciled_operations(2) [OF assms(2)] assms(1)] by blast

lemma reconciled_replacement_settles:
  assumes rely: "run_rely run" and status: "outcome_status outcome = GatewayPaymentStatus.Approved"
  shows "settles (reserved_identity r) (outcome_evidence outcome) p (settle_reconciled_replacement run host r terms outcome p)"
proof -
  have parked: "settles (reserved_identity r) (outcome_evidence outcome) q (map_prod (map_sum id (\<lambda>result. (result, []))) id
      (park_reconciled_payment_method_replacement_approved_outcome run r outcome message q))" for message q
    using parked_reconciled_settles [OF rely status, of r q message] by (auto simp: settles_def map_sum_Inr_iff)
  from recording_operation.retry_settles [OF reconciled_operations(1) [OF status] rely parked] status show ?thesis
    by (simp add: settle_reconciled_replacement_def Let_def)
qed

lemma reconciled_replacement_keeps:
  assumes rely: "run_rely run" and run: "settle_reconciled_replacement run host r terms outcome p = (out, p')"
  shows "payment_keeps p p'"
proof (cases "outcome_status outcome = GatewayPaymentStatus.Approved")
  case True
  with reconciled_replacement_settles [OF rely True, of r p host terms] run show ?thesis by (simp add: settles_def)
next
  case False
  obtain out1 where "transact run 0 (apply_locked_reconciled_non_approved_payment_method_replacement_outcome r outcome) p = (out1, p')"
    using run False by (cases "transact run 0 (apply_locked_reconciled_non_approved_payment_method_replacement_outcome r outcome) p")
      (auto simp: settle_reconciled_replacement_def Let_def)
  with rely show ?thesis by (rule reconciled_resolution.transact_keeps)
qed

section \<open>Results are well formed\<close>

lemma locked_replacement_result_wf:
  assumes "apply_locked_payment_method_replacement_approved_outcome env subject r terms a approved p = Ok (result, event, p')"
  shows "payment_result_wf result"
proof -
  have attached: "payment_result_wf result" if "attach_replacement env r terms a e charge q = Ok (result, event, p')" for e charge q
    using that by (cases terms) (auto simp: attach_replacement_def complete_replacement_def park_stale_replacement_def Let_def and_then_Inr_iff
        split: option.splits if_splits dest: park_stale_result_wf finish_result_wf)
  from assms show ?thesis
    unfolding apply_locked_payment_method_replacement_approved_outcome_def apply_replacement_to_open_attempt_def Let_def
    by (rule settle_result_wf)
       (auto simp: observe_replacement_of_terminal_attempt_def and_then_Inr_iff map_sum_Inr_iff
        elim!: primary_charge_result_wf dest: results_wf attached)
qed

lemma parked_replacement_result_wf:
  "park_locked_payment_method_replacement_approved_outcome env a e message p = Ok (result, p') \<Longrightarrow> payment_result_wf result"
  by (auto simp: park_locked_payment_method_replacement_approved_outcome_def and_then_Inr_iff map_sum_Inr_iff dest: results_wf)

lemma resolved_replacement_result_wf:
  "resolve_locked_replacement env r a e resolution p = Ok (result, p') \<Longrightarrow> payment_result_wf result"
  by (auto simp: resolve_locked_replacement_def resolve_locked_outcome_def Let_def and_then_Inr_iff map_sum_Inr_iff dest: results_wf)

lemma replacement_outcome_result_wf:
  assumes "apply_subscription_payment_method_replacement_gateway_outcome run host r outcome p = Some (Inr (result, events), p')"
  shows "payment_result_wf result"
proof -
  obtain terms result1 where decide: "decide_outcome run (OutcomeReservation.PaymentMethodReplacement r) outcome
      (apply_approved_replacement run host r terms) p = (Inr (result1, events), p')"
    and wf: "payment_result_wf result = payment_result_wf result1"
    using assms by (auto simp: apply_subscription_payment_method_replacement_gateway_outcome_def dest: diagnostics_result_wf)
  have "payment_result_wf result1" if "apply_approved_replacement run host r terms approved p = (Inr (result1, events), p')" for approved
    using that unfolding apply_approved_replacement_def
  proof (rule applied_result_wf)
    show "payment_result_wf result1"
      if "apply_payment_method_replacement_approved_outcome host r terms approved env q = Ok ((result1, events), q')" for env q q'
      using host_transaction_Ok [OF that [unfolded apply_payment_method_replacement_approved_outcome_def]]
      by (auto simp: apply_payment_method_replacement_approved_on_connection_def and_then_Inr_iff dest: locked_replacement_result_wf)
    show "payment_result_wf result1"
      if "park_payment_method_replacement_approved_outcome run r terms approved message q = (Inr result1, p')" for message q
      using that unfolding park_payment_method_replacement_approved_outcome_def
      by (rule park_result_wf)
         (auto simp: try_park_payment_method_replacement_approved_outcome_def and_then_Inr_iff
          dest: parked_replacement_result_wf read_pending_result_wf)
  qed
  with decided_result_wf [OF decide] wf show ?thesis by simp
qed

lemma reconciled_decision_result_wf:
  "apply_locked_reconciled_payment_method_replacement_decision env subject r terms a outcome p = Ok (result, event, p') \<Longrightarrow>
     payment_result_wf result"
  by (auto simp: apply_locked_reconciled_payment_method_replacement_decision_def Let_def and_then_Inr_iff map_sum_Inr_iff
      split: option.splits if_splits
      dest: resolved_replacement_result_wf parked_replacement_result_wf locked_replacement_result_wf)

lemma reconciled_transactions_result_wf:
  "apply_locked_reconciled_payment_method_replacement_outcome host r terms outcome env p = Ok ((result, events), p') \<Longrightarrow>
     payment_result_wf result"
  "try_park_reconciled_payment_method_replacement_approved_outcome r outcome message env p = Ok (result, p') \<Longrightarrow>
     payment_result_wf result"
  "apply_locked_reconciled_non_approved_payment_method_replacement_outcome r outcome env p = Ok (result, p') \<Longrightarrow>
     payment_result_wf result"
proof -
  show "payment_result_wf result"
    if "apply_locked_reconciled_payment_method_replacement_outcome host r terms outcome env p = Ok ((result, events), p')"
    using host_transaction_Ok [OF that [unfolded apply_locked_reconciled_payment_method_replacement_outcome_def]]
    by (auto simp: and_then_Inr_iff Let_def map_sum_Inr_iff dest: reconciled_decision_result_wf)
  show "payment_result_wf result"
    if "try_park_reconciled_payment_method_replacement_approved_outcome r outcome message env p = Ok (result, p')"
    using that
    by (auto simp: try_park_reconciled_payment_method_replacement_approved_outcome_def and_then_Inr_iff Let_def map_sum_Inr_iff
        split: GatewayPaymentStatus.splits dest: parked_replacement_result_wf resolved_replacement_result_wf)
       (metis GatewayPaymentStatus.exhaust)
  show "payment_result_wf result"
    if "apply_locked_reconciled_non_approved_payment_method_replacement_outcome r outcome env p = Ok (result, p')"
    using that
    by (auto simp: apply_locked_reconciled_non_approved_payment_method_replacement_outcome_def and_then_Inr_iff Let_def
        map_sum_Inr_iff dest: resolved_replacement_result_wf)
qed

lemma reconciled_replacement_result_wf:
  assumes "settle_reconciled_replacement run host r terms outcome p = (Inr (result, events), p')"
  shows "payment_result_wf result"
proof -
  have parked: "payment_result_wf result"
    if "park_reconciled_payment_method_replacement_approved_outcome run r outcome message q = (Inr result, p')" for message q
    using that by (auto simp: park_reconciled_payment_method_replacement_approved_outcome_def Let_def
        split: prod.splits option.splits dest!: retry_result transact_result dest: reconciled_transactions_result_wf)
  from assms show ?thesis
    by (auto simp: settle_reconciled_replacement_def Let_def map_prod_def map_sum_Inr_iff
        split: if_splits prod.splits option.splits dest!: retry_result transact_result
        dest: reconciled_transactions_result_wf parked)
qed

section \<open>A concrete replacement\<close>

definition sample_method_update :: PaymentMethodUpdateSnapshot where
  "sample_method_update = \<lparr>method_update_subscription_id = SubscriptionId 5, method_update_payment_method_id = PaymentMethodId 6,
     method_update_expected_initial_transaction_id = GatewayTransactionId (GatewayReferenceValue (lit ''1''))\<rparr>"

definition sample_replace_terms :: replacement_terms where
  "sample_replace_terms = (offer_plan_key sample_offer, sample_method_update)"

definition sample_open_replacement :: PaymentAttempt where
  "sample_open_replacement = sample_open_renewal
     \<lparr>attempt_request := (attempt_request sample_open_renewal)
        \<lparr>request_target := SubscriptionPaymentMethodUpdate (offer_plan_key sample_offer) (PaymentMethodId 6) sample_method_update,
         request_amount := \<lparr>money_cents = 0, money_currency = CurrencyCode (lit ''USD'')\<rparr>\<rparr>\<rparr>"

definition sample_replacement_reservation :: SubscriptionPaymentMethodReplacement where
  "sample_replacement_reservation = \<lparr>reserved_identity = attempt_identity sample_open_replacement,
     reserved_provider_key = resolved_provider_key sample_gateway, reserved_request = attempt_request sample_open_replacement\<rparr>"

definition sample_replacement_db :: payment_db where
  "sample_replacement_db = sample_payment_db\<lparr>pay_billing := sample_open_db\<lparr>db_attempts := [sample_open_replacement]\<rparr>\<rparr>"

definition sample_replacement_charge :: stored_charge where
  "sample_replacement_charge = observed_charge 130 (ProcessorChargeId 1) sample_open_replacement
     (approved_inner sample_new_card) Primary ProcessorChargeProgression.Pending"

definition sample_replacement_observed :: payment_db where
  "sample_replacement_observed = with_charges \<lparr>cs_attempts = [sample_open_replacement], cs_charges = [sample_replacement_charge],
     cs_attestations = []\<rparr> sample_replacement_db"

definition sample_replaced_row :: subscription_row where
  "sample_replaced_row = replace_row 130 (PaymentMethodId 2) (GatewayTransactionId (GatewayReferenceValue (lit ''t'')))
     sample_subscription_row"

definition sample_replacement_attached :: payment_db where
  "sample_replacement_attached = with_billing ((pay_billing sample_replacement_observed)\<lparr>db_subscriptions := [sample_replaced_row]\<rparr>)
     (sample_replacement_observed\<lparr>pay_methods := [sample_new_method]\<rparr>)"

definition sample_approved_replacement :: PaymentAttempt where
  "sample_approved_replacement = sample_open_replacement
     \<lparr>attempt_request := (attempt_request sample_open_replacement)\<lparr>request_target :=
        SubscriptionPaymentMethodUpdate (offer_plan_key sample_offer) (PaymentMethodId 2) sample_method_update\<rparr>,
      attempt_state := (attempt_state sample_open_replacement)\<lparr>state_status := PaymentAttemptStatus.Approved,
        state_processor_evidence := approved_inner sample_new_card,
        state_timestamps := (state_timestamps (attempt_state sample_open_replacement))
          \<lparr>stamp_resolved_at := Some 130, stamp_updated_at := 130\<rparr>\<rparr>\<rparr>"

definition sample_replacement_marked :: payment_db where
  "sample_replacement_marked = with_billing ((pay_billing sample_replacement_attached)\<lparr>db_attempts := [sample_approved_replacement]\<rparr>)
     sample_replacement_attached"

definition sample_replacement_applied :: stored_charge where
  "sample_replacement_applied = (set_progression 130 ProcessorChargeProgression.Applied sample_replacement_charge)
     \<lparr>charge_state_code := None, charge_externally_reversed_at := None\<rparr>"

definition sample_replaced_db :: payment_db where
  "sample_replaced_db = with_charges \<lparr>cs_attempts = [sample_approved_replacement], cs_charges = [sample_replacement_applied],
     cs_attestations = []\<rparr> sample_replacement_marked"

lemmas sample_replacement_steps = sample_replaced_db_def sample_replacement_marked_def sample_replacement_attached_def

lemmas sample_replace_simps = sample_open_replacement_def sample_method_update_def sample_open_simps

lemma sample_replacement_simps [simp]:
  "pay_billing sample_replacement_db = sample_open_db\<lparr>db_attempts := [sample_open_replacement]\<rparr>" "pay_charges sample_replacement_db = []"
  "pay_attestations sample_replacement_db = []" "pay_methods sample_replacement_db = []"
  "pay_billing sample_replacement_observed =
     sample_open_db\<lparr>db_attempts := [sample_open_replacement], db_charges := [charge_row_of sample_replacement_charge]\<rparr>"
  "pay_charges sample_replacement_observed = [sample_replacement_charge]" "pay_methods sample_replacement_observed = []"
  "pay_attestations sample_replacement_observed = []"
  by (simp_all add: sample_replacement_db_def sample_payment_db_def sample_replacement_observed_def with_charges_def)

lemma sample_replacement_ok: "payment_ok sample_replacement_db"
  by (simp add: payment_ok_def charges_ok_def charge_view_def attempts_ok_def
      attempt_checks_def relationship_shape_check_def gateway_text_check_def
      resolved_state_check_def review_required_at_check_def timestamp_order_check_def within_column_def
      sample_replace_simps ProcessorEvidence_default_def sample_open_db_def sample_dunning_db_def
      GatewayPaymentDescriptor_from_provider_parts_def PaymentAttemptStatus_is_terminal_def is_none_or_def)

lemma sample_replacement_observe:
  "observe sample_env sample_open_replacement (approved_inner sample_new_card) ProcessorChargeProgression.Pending
     sample_replacement_db =
   Ok (Owned \<lparr>record_id = ProcessorChargeId 1, record_role = Primary, record_exact_replay = False\<rparr>, sample_replacement_observed)"
proof -
  have "charge_checks sample_replacement_charge"
    by (simp add: charge_checks_def dimension_shape_check_def state_timestamps_check_def transaction_identity_check_def
        reversal_eligibility_check_def sample_replacement_charge_def observed_charge_def sample_replace_simps sample_charge_def)
  moreover have "set_processor_charge_attempt_dimensions sample_open_replacement sample_replacement_charge = Some sample_replacement_charge"
    by (simp add: set_processor_charge_attempt_dimensions_def sample_replacement_charge_def observed_charge_def)
  moreover have "charge_attempt_id sample_replacement_charge = attempt_key sample_open_replacement"
      "charge_id sample_replacement_charge = ProcessorChargeId 1"
    by (simp_all add: sample_replacement_charge_def observed_charge_def)
  ultimately show ?thesis
    by (auto simp: observe_def on_charges_def sample_env_def charge_view_def sample_replacement_observed_def
        observe_processor_charge_def owned_by_other_attempt_def identify_transactionless_def matching_charge_def
        has_existing_charge_def observe_insert_def initial_charge_progression_def insert_charge_def charge_attempt_def
        Let_def sample_replacement_charge_def [symmetric])
qed

lemma sample_replacement_mark:
  "mark_attempt_approved sample_env sample_open_replacement (approved_inner sample_new_card) (SubscriptionId 5)
     (PaymentMethodId 2) sample_replacement_attached = Ok sample_replacement_marked"
proof -
  have row: "transition_row 130 (approved_inner sample_new_card) PaymentAttemptStatus.Approved None
      (Some (SubscriptionId 5)) (Some (PaymentMethodId 2)) sample_open_replacement = Some sample_approved_replacement"
    by (simp add: transition_row_def sample_approved_replacement_def coalesced_def sample_replace_simps
        PaymentAttemptStatus_is_terminal_def)
  have "attempt_checks sample_approved_replacement"
    by (simp add: attempt_checks_def relationship_shape_check_def gateway_text_check_def
        resolved_state_check_def review_required_at_check_def timestamp_order_check_def within_column_def
        sample_approved_replacement_def sample_replace_simps ProcessorEvidence_default_def sample_new_card_def
        GatewayPaymentDescriptor_from_provider_parts_def PaymentAttemptStatus_is_terminal_def is_none_or_def)
  moreover have "PaymentAttemptStatus_is_resolvable (PaymentAttempt_status sample_open_replacement)"
    by (simp add: sample_replace_simps PaymentAttemptStatus_is_resolvable_def)
  ultimately show ?thesis
    using row
    by (simp add: mark_attempt_approved_def on_attempts_def persist_attempt_transition_def require_one_row_def
        update_attempt_def update_attempts_def sample_replacement_attached_def sample_replacement_marked_def)
qed

lemma sample_replacement_move:
  "move_charge sample_env (ProcessorChargeId 1) ProcessorChargeProgression.Applied None sample_replacement_marked =
     Ok sample_replaced_db"
proof -
  have charge: "charge_id sample_replacement_charge = ProcessorChargeId 1"
      "charge_progression sample_replacement_charge = ProcessorChargeProgression.Pending" "charge_state_code sample_replacement_charge = None"
    by (simp_all add: sample_replacement_charge_def observed_charge_def)
  have eligible: "transition_eligible ProcessorChargeProgression.Applied sample_replacement_charge"
    by (simp add: transition_eligible_def sample_replacement_charge_def observed_charge_def sample_open_simps)
  have "charge_checks sample_replacement_applied"
    by (simp add: charge_checks_def dimension_shape_check_def state_timestamps_check_def transaction_identity_check_def
        reversal_eligibility_check_def sample_replacement_applied_def set_progression_def sample_replacement_charge_def
        observed_charge_def sample_replace_simps sample_charge_def)
  with charge eligible show ?thesis
    by (simp add: move_charge_def on_charges_def transition_charge_def transition_processor_charge_def update_charge_def
        sample_replacement_steps charge_view_def sample_replacement_applied_def with_charges_def)
qed

definition sample_replaced_subscription :: Subscription where
  "sample_replaced_subscription = sample_subscription\<lparr>sub_payment_method_id := PaymentMethodId 2\<rparr>"

lemma sample_replaced_row_decodes: "subscription_from_row sample_replaced_row = Ok sample_replaced_subscription"
proof -
  have "slug_text (lit ''base'')" and "lit ''USD'' = [85, 83, 68]"
    by (simp_all add: lit_def ascii_class_defs is_slug_start_def is_slug_byte_def)
  then show ?thesis
    by (simp add: subscription_from_row_def into_subscription_Ok_iff Subscription_wf_def sample_subscription_def
        sample_offer_def sample_charge_def subscription_columns_def FullSubscriptionRow.truncate_def
        sample_subscription_row_def policy_wf_def period_rule_wf_def BillingPeriod_wf_def
        MAX_DUNNING_RETRY_STEPS_def ascii_class_defs sample_replaced_row_def replace_row_def
        sample_replaced_subscription_def)
qed

lemma sample_replacement_attach:
  "attach_replacement sample_env sample_replacement_reservation sample_replace_terms sample_open_replacement
     (approved_inner sample_new_card) (ProcessorChargeId 1) sample_replacement_observed =
   complete_replacement sample_env sample_replacement_reservation sample_replace_terms sample_open_replacement
     (approved_inner sample_new_card) (ProcessorChargeId 1) (PaymentMethodId 2) sample_replacement_attached"
proof -
  have upsert: "upsert_payment_method sample_env sample_open_replacement (approved_inner sample_new_card) sample_replacement_observed =
      Ok (PaymentMethodId 2, sample_replacement_observed\<lparr>pay_methods := [sample_new_method]\<rparr>)"
    by (simp add: upsert_payment_method_def sample_new_method_def Let_def)
       (simp add: sample_env_def sample_replace_simps)
  have row: "reserved_row (reserved_identity sample_replacement_reservation) (offer_plan_key sample_offer) (SubscriptionId 5) sample_subscription_row"
      "replaceable_row sample_replacement_reservation sample_subscription_row" "baseline_matches sample_method_update sample_subscription_row"
    by (simp_all add: reserved_row_def replaceable_row_def baseline_matches_def sample_replacement_reservation_def sample_replace_simps
        sample_row_simps)
  moreover have "method_update_subscription_id sample_method_update = SubscriptionId 5" by (simp add: sample_method_update_def)
  moreover from this row have "replaced_row sample_replacement_reservation sample_replace_terms sample_subscription_row"
    by (simp add: replaced_row_def sample_replace_terms_def)
  ultimately show ?thesis
    using upsert
    by (simp add: attach_replacement_def sample_replace_terms_def update_one_subscription_def Let_def update_subscriptions_def
        sample_replacement_attached_def sample_replaced_row_def with_billing_def)
qed

lemma sample_replacement_run:
  "\<exists>result event. apply_payment_method_replacement_approved_on_connection sample_env LiveRecipient sample_replacement_reservation
     sample_replace_terms sample_new_card sample_replacement_db = Ok (result, Some event, sample_replaced_db)"
proof -
  let ?e = "approved_inner sample_new_card"
  have lock: "lock_expected_reservation_attempt sample_replacement_db (OutcomeReservation.PaymentMethodReplacement sample_replacement_reservation) =
      Ok sample_open_replacement"
    by (simp add: lock_expected_reservation_attempt_def find_attempt_def find_payment_attempt_by_id_def matches_exactly_def
        sample_replacement_reservation_def) (simp add: sample_replace_simps)
  have conflict: "stop_conflicting_subscription_approval sample_env sample_open_replacement ?e sample_replacement_db =
      Ok (None, [], sample_replacement_db)"
    by (simp add: stop_conflicting_subscription_approval_def processor_identity_conflict_diagnostics_def
        conflict_diagnostics_def sample_replace_simps sample_new_card_def ProcessorEvidence_default_def)
  have status: "PaymentAttempt_status sample_open_replacement \<noteq> PaymentAttemptStatus.Approved"
      "\<not> PaymentAttemptStatus_is_terminal (PaymentAttempt_status sample_open_replacement)"
    by (simp_all add: sample_replace_simps PaymentAttemptStatus_is_terminal_def)
  have disable: "disable_payment_method_if_unreferenced (PaymentMethodId 6) sample_replacement_marked = sample_replacement_marked"
    by (simp add: disable_payment_method_if_unreferenced_def sample_replacement_steps with_billing_def sample_new_method_def)
  have find: "find_attempt sample_replaced_db (reserved_identity sample_replacement_reservation) = Ok sample_approved_replacement"
    by (simp add: find_attempt_def find_payment_attempt_by_id_def sample_replacement_steps
        sample_approved_replacement_def sample_replacement_reservation_def)
  have load: "load_subscription sample_replaced_db (identity_billing_scope_id (reserved_identity sample_replacement_reservation))
      (SubscriptionId 5) = Ok (Some sample_replaced_subscription)"
    using sample_replaced_row_decodes
    by (simp add: load_subscription_def sample_replacement_steps with_charges_def sample_replacement_reservation_def)
       (simp add: sample_replaced_row_def replace_row_def sample_subscription_row_def sample_replace_simps)
  have "\<exists>result. payment_result_applied sample_approved_replacement sample_replaced_subscription = Ok result"
    by (simp add: payment_result_applied_def require_subscription_attempt_def sample_approved_replacement_def
        sample_replace_simps sample_replaced_subscription_def sample_subscription_def)
  then obtain result where "payment_result_applied sample_approved_replacement sample_replaced_subscription = Ok result" ..
  then have "\<exists>event. complete_replacement sample_env sample_replacement_reservation sample_replace_terms sample_open_replacement ?e
      (ProcessorChargeId 1) (PaymentMethodId 2) sample_replacement_attached = Ok (result, Some event, sample_replaced_db)"
    using sample_replacement_mark sample_replacement_move disable find load
    by (simp add: complete_replacement_def finish_payment_def sample_replace_terms_def sample_method_update_def)
  then show ?thesis
    using lock conflict status sample_replacement_observe sample_replacement_attach
    by (auto simp: apply_payment_method_replacement_approved_on_connection_def
        apply_locked_payment_method_replacement_approved_outcome_def settle_approval_def apply_replacement_to_open_attempt_def
        with_primary_charge_def Let_def)
qed

theorem replacement_event_matches_database_witness:
  "list_ex (active_method (PaymentMethodId 2) (GatewayPaymentMethodReference (GatewayReferenceValue (lit ''m''))))
     (pay_methods sample_replaced_db) \<and>
   list_ex (on_method sample_replacement_reservation sample_replace_terms (PaymentMethodId 2)
     (GatewayTransactionId (GatewayReferenceValue (lit ''t'')))) (db_subscriptions (pay_billing sample_replaced_db))"
proof -
  obtain result event where run: "apply_payment_method_replacement_approved_on_connection sample_env LiveRecipient
      sample_replacement_reservation sample_replace_terms sample_new_card sample_replacement_db = Ok (result, Some event, sample_replaced_db)"
    using sample_replacement_run by blast
  have methods: "pay_methods sample_replaced_db = [sample_new_method]"
    by (simp add: sample_replacement_steps with_charges_def with_billing_def)
  have "payment_rely (env_others sample_env)" by (simp add: payment_rely_def charges_rely_def)
  from replacement_event_matches_database [OF sample_replacement_ok this run]
  obtain method_id where active: "list_ex (active_method method_id (GatewayPaymentMethodReference (GatewayReferenceValue (lit ''m''))))
      (pay_methods sample_replaced_db)"
    and row: "list_ex (on_method sample_replacement_reservation sample_replace_terms method_id
      (GatewayTransactionId (GatewayReferenceValue (lit ''t'')))) (db_subscriptions (pay_billing sample_replaced_db))"
    by auto
  have "method_id = PaymentMethodId 2"
    using active by (cases method_id) (simp add: methods active_method_def sample_new_method_def)
  with active row show ?thesis by simp
qed

end
