(* ===== verification/Payment_Lifecycle.thy ===== *)
theory Payment_Lifecycle
  imports Enrollment_Guarantees Replacement_Guarantees
begin

text \<open>
  Every call that applies an outcome of the provider to a subscription payment: enrollments, renewals, recoveries and
  replacements of the payment method, each with the outcome of its own request and with one that a later query reports.  The
  calls follow each other in any order, each over its own transactions, failures and commits of others.
\<close>

section \<open>Calls\<close>

text \<open>A call for the attempt of an identity; a call that finds no such attempt does nothing.\<close>

inductive payment_call ::
    "PaymentAttemptIdentity \<Rightarrow> GatewayPaymentOutcome \<Rightarrow> payment_db \<Rightarrow>
     (SubscriptionEnrollmentPaymentResult \<times> BillingEvent list, SubscriptionEnrollmentApplicationError) result \<Rightarrow> payment_db \<Rightarrow> bool" where
  enrollment: "run_rely run \<Longrightarrow> apply_subscription_enrollment_gateway_outcome ch run host enrolled outcome p = (out, p') \<Longrightarrow>
     payment_call (enrollment_identity enrolled) outcome p out p'"
| reconciled_enrollment: "run_rely run \<Longrightarrow> reconciled_enrollment_reservation scope attempt_id p = Ok enrolled \<Longrightarrow>
     apply_reconciled_subscription_enrollment_gateway_outcome ch run host scope attempt_id outcome p = (out, p') \<Longrightarrow>
     payment_call (enrollment_identity enrolled) outcome p out p'"
| renewal: "run_rely run \<Longrightarrow> apply_subscription_renewal_gateway_outcome ch run host r outcome p = Some (out, p') \<Longrightarrow>
     payment_call (reserved_identity r) outcome p out p'"
| recovery: "run_rely run \<Longrightarrow> apply_subscription_recovery_gateway_outcome run host r outcome p = Some (out, p') \<Longrightarrow>
     payment_call (reserved_identity r) outcome p out p'"
| replacement: "run_rely run \<Longrightarrow>
     apply_subscription_payment_method_replacement_gateway_outcome run host r outcome p = Some (out, p') \<Longrightarrow>
     payment_call (reserved_identity r) outcome p out p'"
| reconciled_renewal: "run_rely run \<Longrightarrow> reconciled_renewal_reservation d scope attempt_id p = Ok r \<Longrightarrow>
     apply_reconciled_subscription_renewal_gateway_outcome d ch run host scope attempt_id outcome p = Some (out, p') \<Longrightarrow>
     payment_call (reserved_identity r) outcome p out p'"
| reconciled_recovery: "run_rely run \<Longrightarrow> reconciled_recovery_reservation d scope attempt_id p = Ok r \<Longrightarrow>
     apply_reconciled_subscription_recovery_gateway_outcome d run host scope attempt_id outcome p = Some (out, p') \<Longrightarrow>
     payment_call (reserved_identity r) outcome p out p'"
| reconciled_replacement: "run_rely run \<Longrightarrow> reconciled_replacement_reservation d scope attempt_id p = Ok r \<Longrightarrow>
     apply_reconciled_subscription_payment_method_replacement_gateway_outcome d run host scope attempt_id outcome p =
       Some (out, p') \<Longrightarrow>
     payment_call (reserved_identity r) outcome p out p'"

inductive payment_history :: "payment_db \<Rightarrow> payment_db \<Rightarrow> bool" where
  start: "payment_history p p"
| call: "payment_history p q \<Longrightarrow> payment_call identity outcome q out p' \<Longrightarrow> payment_history p p'"

lemmas reconciled_calls = apply_reconciled_subscription_enrollment_gateway_outcome_def
  apply_reconciled_subscription_renewal_gateway_outcome_def apply_reconciled_subscription_recovery_gateway_outcome_def

lemma payment_call_keeps: "payment_call identity outcome p out p' \<Longrightarrow> payment_keeps p p'"
  by (induction rule: payment_call.induct)
     (auto simp: reconciled_calls apply_reconciled_subscription_payment_method_replacement_gateway_outcome_def
      intro: enrollment_outcome_keeps renewal_outcome_keeps recovery_outcome_keeps replacement_outcome_keeps reconciled_replacement_keeps)

lemma payment_call_records:
  assumes "payment_call identity outcome p (Ok x) p'" and "payment_ok p"
    and "outcome_status outcome = GatewayPaymentStatus.Approved"
  shows "evidence_recorded identity (outcome_evidence outcome) p'"
  using assms
proof (cases rule: payment_call.cases)
  case (reconciled_replacement run d scope attempt_id r host)
  then obtain terms where "settle_reconciled_replacement run host r terms outcome p = (Ok x, p')"
    by (auto simp: apply_reconciled_subscription_payment_method_replacement_gateway_outcome_def)
  with reconciled_replacement_settles [OF reconciled_replacement(2) assms(3), of r p host terms] assms(2) reconciled_replacement(1)
  show ?thesis by (simp add: settles_def)
qed (auto simp: reconciled_calls intro: enrollment_outcome_records renewal_outcome_records recovery_outcome_records replacement_outcome_records)

lemma payment_history_keeps: "payment_history p p' \<Longrightarrow> payment_keeps p p'"
  by (induction rule: payment_history.induct) (auto intro: payment_keeps_trans payment_call_keeps)

section \<open>What every history promises\<close>

text \<open>C3.  Any sequence of calls, of enrollments, renewals, recoveries and replacements, keeps the database consistent, whichever
  transactions fail, whichever answers of a commit are lost and whatever others commit that meets the rely of \<open>run_rely\<close>: others keep the
  same invariant and only let attempts, charges and subscriptions evolve or add new ones, as every call here and every
  reservation of an attempt does, and while a statement waits they commit charges only.  Then no two open or approved attempts charge the same period, an attempt has
  one applied charge, and approved attempts, ended subscriptions and reversed charges stay as they are.\<close>

theorem payments_keep_database_consistent:
  assumes "payment_ok p" and "payment_history p p'"
  shows "payment_ok p' \<and> database_history p p'"
  by (rule keeps_database_history [OF assms(1) payment_history_keeps [OF assms(2)]])

text \<open>C4.  An approval is never lost: once any call for an approved outcome has returned a result, the evidence of the
  provider is in the database and stays there over all later calls, as a charge with its transaction, as the
  unidentified evidence of the attempt, or as an approved attempt with that transaction.\<close>

theorem approved_evidence_survives:
  assumes "payment_ok p" and "payment_call identity outcome p (Ok x) q"
    and "outcome_status outcome = GatewayPaymentStatus.Approved" and "payment_history q p'"
  shows "evidence_recorded identity (outcome_evidence outcome) p'"
proof -
  have "evidence_recorded identity (outcome_evidence outcome) q"
    using payment_call_records [OF assms(2,1,3)] .
  moreover have "payment_ok q" using payment_call_keeps [OF assms(2)] assms(1) by (simp add: payment_keeps_def)
  ultimately show ?thesis
    using payment_history_keeps [OF assms(4)] evidence_recorded_kept by (auto simp: payment_keeps_def)
qed

text \<open>C12.  Every result of a call agrees with its attempt: it is applied exactly when the attempt is approved, with the
  subscription and the plan of the attempt, and no result belongs to a charge of the host.\<close>

theorem payment_results_well_formed:
  assumes "payment_call identity outcome p (Ok (result, events)) p'"
  shows "payment_result_wf result"
  using assms
proof (cases rule: payment_call.cases)
  case (reconciled_replacement run d scope attempt_id r host)
  then obtain terms where "settle_reconciled_replacement run host r terms outcome p = (Ok (result, events), p')"
    by (auto simp: apply_reconciled_subscription_payment_method_replacement_gateway_outcome_def)
  then show ?thesis by (rule reconciled_replacement_result_wf)
qed (auto simp: reconciled_calls dest: enrollment_outcome_result_wf renewal_outcome_result_wf recovery_outcome_result_wf replacement_outcome_result_wf)

section \<open>Concrete calls\<close>

text \<open>The renewal of the sample: its first transaction fails, the second applies it.\<close>

lemma sample_call:
  "\<exists>x. payment_call (reserved_identity sample_renewal_reservation) sample_outcome sample_payment_db (Ok x) sample_renewed_db"
  using sample_renewal_run [of sample_chrono] sample_run_rely by (blast intro: payment_call.renewal)

text \<open>The rely holds of a run in which another caller reserves an attempt before every transaction.\<close>

lemma reserving_run_rely: "run_rely (sample_run\<lparr>run_between := \<lambda>_. reserve_attempt a\<rparr>)"
  using sample_run_rely reserve_attempt_keeps by (simp add: run_rely_def)

theorem payments_keep_database_consistent_witness:
  "payment_ok sample_renewed_db \<and> database_history sample_payment_db sample_renewed_db"
  using payments_keep_database_consistent [OF sample_payment_db_ok] sample_call
  by (blast intro: payment_history.intros)

theorem approved_evidence_survives_witness:
  "evidence_recorded (reserved_identity sample_renewal_reservation) (outcome_evidence sample_outcome) sample_renewed_db"
proof -
  have "outcome_status sample_outcome = GatewayPaymentStatus.Approved"
    by (simp add: sample_outcome_def GatewayPaymentOutcome_new_def)
  with approved_evidence_survives [OF sample_payment_db_ok] sample_call payment_history.start show ?thesis by blast
qed

theorem payment_results_well_formed_witness:
  "\<exists>result events. payment_call (reserved_identity sample_renewal_reservation) sample_outcome sample_payment_db
     (Ok (result, events)) sample_renewed_db \<and> payment_result_wf result"
proof -
  obtain result events where "payment_call (reserved_identity sample_renewal_reservation) sample_outcome sample_payment_db
      (Ok (result, events)) sample_renewed_db"
    using sample_call by auto
  then show ?thesis using payment_results_well_formed by blast
qed

end
