(* ===== verification/Access_Lifecycle.thy ===== *)
theory Access_Lifecycle
  imports Subscription_Lifecycle Payment_Lifecycle
begin

text \<open>
  Who has access, over every operation that writes subscriptions or grants: the operations of \<open>Subscription_Lifecycle\<close>, the four
  approvals that create or move a subscription (enrollment, renewal, recovery, replacement of the method), the resolution of
  a renewal that was not approved and the retry that an operator brings forward.  Any other transaction may run in between as long as it
  writes neither table.
\<close>

section \<open>An operator brings a retry forward\<close>

definition expedited_row :: "SubscriptionId \<Rightarrow> PaymentAttempt \<Rightarrow> BillingPeriod \<Rightarrow> datetime \<Rightarrow> subscription_row \<Rightarrow> bool" where
  "expedited_row subscription_id attempt period scheduled_at row \<longleftrightarrow>
     row_id row = SubscriptionId_as_uuid subscription_id \<and>
     row_billing_scope_id row = BillingScopeId_as_uuid (identity_billing_scope_id (attempt_identity attempt)) \<and>
     row_subscriber_id row = SubscriberId_as_uuid (identity_subscriber_id (attempt_identity attempt)) \<and>
     row_status row = lit ''past_due'' \<and> row_unpaid_at row = None \<and>
     row_next_renewal_at row = period_start_at period \<and> row_next_payment_attempt_at row = Some scheduled_at"

text \<open>The one event of the failure is moved to the time of the retry.\<close>

definition expedited_events ::
    "PaymentAttempt \<Rightarrow> datetime \<Rightarrow> datetime \<Rightarrow> BillingEvent list \<Rightarrow> (BillingEvent list, OperatorReviewError) result" where
  "expedited_events attempt scheduled_at retry_at events =
     (case events of
        [BillingEvent.SubscriptionPaymentFailed attempt_id subscription_id plan_key disposition access] \<Rightarrow>
          if attempt_id \<noteq> identity_attempt_id (attempt_identity attempt) \<or>
             disposition \<noteq> SubscriptionPaymentFailureDisposition.RetryScheduled scheduled_at
          then Err (OperatorReviewInvalidState INVALID_OPERATOR_STATE)
          else Ok [BillingEvent.SubscriptionPaymentFailed attempt_id subscription_id plan_key
            (SubscriptionPaymentFailureDisposition.RetryScheduled retry_at) access]
      | _ \<Rightarrow> Err (OperatorReviewInvalidState INVALID_OPERATOR_STATE))"

text \<open>\<open>LEAST\<close> of the scheduled time and the clock.\<close>

definition expedite_retry ::
    "datetime \<Rightarrow> PaymentAttempt \<Rightarrow> datetime \<Rightarrow> BillingEvent list \<Rightarrow> billing_db \<Rightarrow>
     (BillingEvent list \<times> billing_db, OperatorReviewError) result" where
  "expedite_retry clock attempt scheduled_at events db =
     (let invalid = OperatorReviewInvalidState INVALID_OPERATOR_STATE; target = request_target (attempt_request attempt) in
      and_then (ok_or (target_subscription_id target) invalid) (\<lambda>subscription_id.
      and_then (ok_or (target_period target) invalid) (\<lambda>period.
      let (updated, db) = update_subscriptions (expedited_row subscription_id attempt period scheduled_at)
            (\<lambda>row. row\<lparr>row_next_payment_attempt_at := map_option (min clock) (row_next_payment_attempt_at row),
               row_updated_at := clock\<rparr>) db
      in and_then (ok_or (Option.bind updated row_next_payment_attempt_at) invalid) (\<lambda>retry_at.
         map_sum id (\<lambda>events. (events, db)) (expedited_events attempt scheduled_at retry_at events)))))"

section \<open>Steps\<close>

inductive access_step :: "datetime \<times> payment_db \<Rightarrow> datetime \<times> payment_db \<Rightarrow> bool" where
  administering: "billing_step (t, pay_billing p) (t', db) \<Longrightarrow> access_step (t, p) (t', with_billing db p)"
| enrolling: "t \<le> env_clock env \<Longrightarrow> payment_rely (env_others env) \<Longrightarrow>
    apply_enrollment_approved_on_connection ch env subject enrolled e policy p = Ok (result, event, p') \<Longrightarrow>
    access_step (t, p) (env_clock env, p')"
| renewing: "t \<le> env_clock env \<Longrightarrow> payment_rely (env_others env) \<Longrightarrow>
    apply_renewal_approved_on_connection env subject renewal terms approved policy p = Ok (result, event, p') \<Longrightarrow>
    access_step (t, p) (env_clock env, p')"
| resolving: "t \<le> env_clock env \<Longrightarrow>
    resolve_renewal_on_connection ch env renewal e resolution p = Ok (application, events, p') \<Longrightarrow>
    access_step (t, p) (env_clock env, p')"
| recovering: "t \<le> env_clock env \<Longrightarrow> payment_rely (env_others env) \<Longrightarrow>
    apply_recovery_approved_on_connection env subject recovery terms approved policy p = Ok (result, event, p') \<Longrightarrow>
    access_step (t, p) (env_clock env, p')"
| replacing: "t \<le> env_clock env \<Longrightarrow> payment_rely (env_others env) \<Longrightarrow> a \<in> set (db_attempts (pay_billing p)) \<Longrightarrow>
    apply_locked_payment_method_replacement_approved_outcome env subject replacement moved a approved p = Ok (result, event, p') \<Longrightarrow>
    access_step (t, p) (env_clock env, p')"
| expediting: "t \<le> clock \<Longrightarrow> expedite_retry clock attempt scheduled_at events (pay_billing p) = Ok (events', db) \<Longrightarrow>
    access_step (t, p) (clock, with_billing db p)"
| elsewhere: "same_subscriptions p p' \<Longrightarrow> same_grants p p' \<Longrightarrow> access_step (t, p) (t, p')"

section \<open>Sources of access\<close>

lemma paid_candidate_evolves:
  assumes "subscription_evolves row row'" and "paid_candidate s t row'"
  shows "paid_candidate s t row"
proof (cases "is_current_status (row_status row)")
  case True
  have "selects_subscription s row' = selects_subscription s row"
    using assms(1) by (simp add: selects_subscription_def row_of_owner_def subscription_evolves_def cong: option.case_cong)
  with True assms(2) show ?thesis by (simp add: paid_candidate_def is_current_status_def)
next
  case False
  with assms show ?thesis by (simp add: subscription_evolves_def)
qed

lemma consistent_evolves:
  assumes "consistent t db" and rows: "list_all2 subscription_evolves (db_subscriptions db) (db_subscriptions db')"
    and grants: "db_grants db' = db_grants db"
  shows "consistent t db'"
proof -
  have "paid_count s t db' \<le> paid_count s t db" for s
    unfolding paid_count_def using rows by (rule filter_list_all2_le) (use paid_candidate_evolves in blast)
  moreover have "grant_count s t db' = grant_count s t db" for s by (simp add: grant_count_def grants)
  ultimately have "exclusive t db'" using assms(1) unfolding consistent_def exclusive_def by (metis add_right_mono order_trans)
  moreover have "list_all policy_readable (db_subscriptions db')" if "list_all policy_readable (db_subscriptions db)"
    using rows that by (induction rule: list_all2_induct) (auto simp: subscription_evolves_def)
  ultimately show ?thesis using assms(1) by (simp add: consistent_def evolved_ids [OF rows] grants)
qed

lemma consistent_same:
  "consistent t (pay_billing p) \<Longrightarrow> same_subscriptions p p' \<Longrightarrow> same_grants p p' \<Longrightarrow> consistent t (pay_billing p')"
  by (rule consistent_evolves) (simp_all add: list_all2_refl)

lemma consistent_framed:
  "consistent t (pay_billing p) \<Longrightarrow> payment_frame p p' \<Longrightarrow> consistent t (pay_billing p')"
  by (rule consistent_same) (simp_all add: payment_frame_def)

lemma consistent_recorded:
  "consistent t (pay_billing p) \<Longrightarrow> recording identity e p p' \<Longrightarrow> consistent t (pay_billing p')"
  unfolding recording_def by (blast intro: consistent_framed)

lemma consistent_changed:
  assumes "consistent t (pay_billing p)" and "one_subscription_changes hit change p p'" and "same_grants p p'"
    and "\<And>row row'. hit row \<Longrightarrow> change row row' \<Longrightarrow> subscription_evolves row row'"
  shows "consistent t (pay_billing p')"
proof -
  have "distinct_subscriptions p" using assms(1) by (simp add: consistent_def)
  from consistent_evolves [OF assms(1) one_change_evolves [OF this assms(2,4)] assms(3)] show ?thesis .
qed

text \<open>A new subscription, of an owner who has neither a live one nor an active grant.\<close>

lemma consistent_started:
  assumes c: "consistent t db" and rows: "db_subscriptions db' = db_subscriptions db @ [row]"
    and grants: "db_grants db' = db_grants db" and fresh: "row_id row \<notin> row_id ` set (db_subscriptions db)"
    and policy: "policy_readable row"
    and alone: "\<And>s. selects_subscription s row \<Longrightarrow> paid_count s t db = 0 \<and> grant_count s t db = 0"
  shows "consistent t db'"
proof -
  have "paid_count s t db' + grant_count s t db' \<le> 1" for s
    using alone [of s] c by (auto simp: consistent_def exclusive_def paid_count_def grant_count_def rows grants paid_candidate_def)
  then show ?thesis using c fresh policy by (simp add: consistent_def exclusive_def rows grants)
qed

lemma owner_without_access:
  assumes "\<not> current_subscription_exists env r p" and "\<not> active_grant_exists env r p"
    and "attempt_identity a = enrollment_identity r" and "offer_plan_key offer = enrollment_plan_key r"
    and "selects_subscription s (started_row env a offer m activation period transaction_id)"
  shows "paid_count s (env_clock env) (pay_billing p) = 0 \<and> grant_count s (env_clock env) (pay_billing p) = 0"
  using assms
  by (auto simp: paid_count_def grant_count_def filter_empty_conv current_subscription_exists_def active_grant_exists_def
      list_ex_iff paid_candidate_def active_grant_def selects_subscription_def selects_grant_def row_of_owner_def grant_of_owner_def
      owned_by_def started_row_def Let_def)

section \<open>Every step keeps the sources of access apart\<close>

text \<open>Before the subscription is written the charge was observed; after it the attempt and the charge are marked.\<close>

lemma consistent_observed:
  "consistent t (pay_billing p) \<Longrightarrow> payment_rely (env_others env) \<Longrightarrow> observe env a e q p = Ok (out, p1) \<Longrightarrow>
     consistent t (pay_billing p1)"
  using consistent_framed charges_frame_frame observe_frame by blast

lemma consistent_marked:
  assumes "consistent t (pay_billing p2)" and "mark_attempt_approved env a e i m p2 = Ok p3"
    and "pay_billing q = pay_billing p3" "pay_charges q = pay_charges p3"
    and "finish_payment env identity j charge event q = Ok (result, ev, p')"
  shows "consistent t (pay_billing p')"
  using consistent_framed [OF consistent_framed [OF consistent_framed [OF assms(1) mark_frame [OF assms(2)]]
      tables_frame [OF assms(3,4)]] charges_frame_frame [OF finish_payment_frame [OF assms(5)]]] .

lemma started_consistent:
  assumes c: "consistent (env_clock env) (pay_billing p)" and a: "attempt_identity a = enrollment_identity r"
    and plan: "\<And>offer. target_enrollment_offer (request_target (attempt_request a)) = Some offer \<Longrightarrow>
      offer_plan_key offer = enrollment_plan_key r"
    and none: "\<not> current_subscription_exists env r p" "\<not> active_grant_exists env r p"
    and run: "start_subscription env a e activation period p = Ok (method_id, p')"
  shows "consistent (env_clock env) (pay_billing p')"
proof -
  from run obtain transaction_id reference offer where
    offer: "target_enrollment_offer (request_target (attempt_request a)) = Some offer"
    and rows: "db_subscriptions (pay_billing p') = db_subscriptions (pay_billing p) @
        [started_row env a offer method_id activation period transaction_id]"
      "list_all (\<lambda>old. \<not> subscription_clash (started_row env a offer method_id activation period transaction_id) old)
        (db_subscriptions (pay_billing p))"
    and same: "same_payments p p'"
    by (rule start_subscription_cases)
  let ?row = "started_row env a offer method_id activation period transaction_id"
  have "row_id ?row \<notin> row_id ` set (db_subscriptions (pay_billing p))"
    using rows(2) by (auto simp: list_all_iff subscription_clash_def)
  moreover have "policy_readable ?row"
    by (simp add: policy_readable_def started_row_def Let_def past_due_access.parse_print)
  moreover have "same_grants p p'" using same by (simp add: same_payments_def)
  ultimately show ?thesis
    using consistent_started [OF c rows(1)] owner_without_access [OF none a plan [OF offer]] by blast
qed

lemma enrolling_consistent:
  assumes c: "consistent (env_clock env) (pay_billing p)" and rely: "payment_rely (env_others env)"
    and run: "apply_enrollment_approved_on_connection ch env subject r e policy p = Ok (result, event, p')"
  shows "consistent (env_clock env) (pay_billing p')"
  using rely run
proof (cases rule: enrollment_approved_cases)
  case recorded
  with c show ?thesis by (blast intro: consistent_recorded)
next
  case (started a charge p1 activation period method_id p2 p3)
  have "consistent (env_clock env) (pay_billing p2)"
    using started_consistent [OF consistent_observed [OF c rely started(3)] lock_enrollment_Ok(2) [OF started(1)] _ started(5,6,8)]
      enrollment_plan [OF started(1)] by simp
  then show ?thesis using started(9) refl refl started(10) by (rule consistent_marked)
qed

lemma renewing_consistent:
  assumes c: "consistent t (pay_billing p)" and rely: "payment_rely (env_others env)"
    and run: "apply_renewal_approved_on_connection env subject r terms approved policy p = Ok (result, event, p')"
  shows "consistent t (pay_billing p')"
proof -
  obtain plan_key period expected where terms: "terms = (plan_key, period, expected)" by (cases terms)
  from rely run [unfolded terms] show ?thesis
  proof (cases rule: renewal_approved_cases)
    case recorded
    with c show ?thesis by (blast intro: consistent_recorded)
  next
    case (renewed a charge p1 p2 p3)
    have c1: "consistent t (pay_billing p1)" by (rule consistent_observed [OF c rely renewed(3)])
    then have "distinct_subscriptions p1" by (simp add: consistent_def)
    from advance_renewed_rows [OF this renewed(4)] c1 have "consistent t (pay_billing p2)"
      using renewed_row_current renewed_to_evolves by (auto simp: same_payments_def elim!: consistent_changed)
    then show ?thesis using renewed(5) refl refl renewed(6) by (rule consistent_marked)
  qed
qed

lemma recovering_consistent:
  assumes c: "consistent t (pay_billing p)" and rely: "payment_rely (env_others env)"
    and run: "apply_recovery_approved_on_connection env subject r terms approved policy p = Ok (result, event, p')"
  shows "consistent t (pay_billing p')"
proof -
  obtain plan_key period expected where terms: "terms = (plan_key, period, expected)" by (cases terms)
  from rely run [unfolded terms] show ?thesis
  proof (cases rule: recovery_approved_cases)
    case recorded
    with c show ?thesis by (blast intro: consistent_recorded)
  next
    case (recovered a charge p1 method_id p2 p3)
    have c1: "consistent t (pay_billing p1)" by (rule consistent_observed [OF c rely recovered(3)])
    then have "distinct_subscriptions p1" by (simp add: consistent_def)
    from this recovered(4) have "consistent t (pay_billing p2)"
      by (rule advance_recovered_rows)
         (use c1 recovered_row_current recovered_to_evolves in \<open>auto simp: same_payments_def elim!: consistent_changed\<close>)
    then show ?thesis using recovered(5) refl refl recovered(6) by (rule consistent_marked)
  qed
qed

lemma attached_consistent:
  assumes "consistent t (pay_billing p)" and "attached clock r terms m i p p'" and "same_grants p p'"
  shows "consistent t (pay_billing p')"
  using assms(2) unfolding attached_def
proof
  assume "one_subscription_changes (replaced_row r terms) (\<lambda>row row'. row' = replace_row clock m i row) p p'"
  from assms(1) this assms(3) show ?thesis
    by (rule consistent_changed) (auto intro: replaced_row_evolves)
qed (use assms(1,3) consistent_same in blast)

lemma replacing_consistent:
  assumes c: "consistent t (pay_billing p)" and rely: "payment_rely (env_others env)" and a: "a \<in> set (db_attempts (pay_billing p))"
    and run: "apply_locked_payment_method_replacement_approved_outcome env subject r terms a approved p = Ok (result, event, p')"
  shows "consistent t (pay_billing p')"
  using rely a run
proof (cases rule: replacement_approved_cases)
  case recorded
  with c show ?thesis by (blast intro: consistent_recorded)
next
  case (replaced charge p1 transaction_id method_id p2 p3 p4)
  have c1: "consistent t (pay_billing p1)" by (rule consistent_observed [OF c rely replaced(2)])
  note chain = replaced(3) [unfolded replacement_chain_def]
  have "same_grants p1 p3" using chain upsert_tables by (auto simp: same_payments_def)
  moreover have "attached (env_clock env) r terms method_id transaction_id p1 p3"
    using chain_states(3) [OF rely replaced(2,3)] c1 by (simp add: consistent_def)
  ultimately have "consistent t (pay_billing p3)" using c1 attached_consistent by blast
  with chain show ?thesis by (blast intro: consistent_marked disable_tables)
qed

lemma resolving_consistent:
  assumes c: "consistent (env_clock env) (pay_billing p)"
    and run: "resolve_renewal_on_connection ch env r e resolution p = Ok (application, events, p')"
  shows "consistent (env_clock env) (pay_billing p')"
proof -
  let ?clock = "env_clock env"
  have cleared: "consistent ?clock (pay_billing p2)"
    if "on_attempts (persist_attempt_transition clock a e' (Resolved status code)) p = Ok p1"
      "clear_resolved_attempt_submission env a p1 = Ok p2" for clock a e' status code p1 p2
    using c resolved_then_cleared_frame [OF that(1) disjI2, OF that(2)] by (rule consistent_framed)
  have failed: "consistent ?clock db"
    if "on_attempts (persist_attempt_transition clock a e' (Resolved status code)) p = Ok p1"
      "apply_resolved_automatic_renewal_failure ch ?clock b (pay_billing p1) = Ok (out, db)"
    for clock a e' status code p1 b out db
    using billing_step_kept [OF billing_step.failing [OF order_refl that(2)] consistent_framed [OF c transition_frame [OF that(1)]]]
    by blast
  from run show ?thesis
    unfolding resolve_renewal_on_connection_def Let_def
    by (elim and_then_OkE) (auto elim!: and_then_OkE split: if_splits,
        (rule c | erule (1) cleared | erule (1) failed | erule consistent_framed [OF c transition_frame])+)
qed

lemma expediting_consistent:
  assumes c: "consistent t db" and run: "expedite_retry clock attempt scheduled_at events db = Ok (events', db')"
  shows "consistent t db'"
proof -
  obtain i period where "db' = snd (update_subscriptions (expedited_row i attempt period scheduled_at)
      (\<lambda>row. row\<lparr>row_next_payment_attempt_at := map_option (min clock) (row_next_payment_attempt_at row),
         row_updated_at := clock\<rparr>) db)"
    using run by (auto simp: expedite_retry_def Let_def and_then_Inr_iff map_sum_Inr_iff update_subscriptions_def)
  moreover have "list_all2 row_history (db_subscriptions db) (db_subscriptions (snd (update_subscriptions
      (expedited_row i attempt period scheduled_at)
      (\<lambda>row. row\<lparr>row_next_payment_attempt_at := map_option (min clock) (row_next_payment_attempt_at row),
         row_updated_at := clock\<rparr>) db)))"
    by (rule update_subscriptions_history)
       (auto simp: expedited_row_def is_current_status_def fixed_columns_def policy_readable_def)
  ultimately show ?thesis
    using consistent_later [OF c order_refl] by (simp add: list_all2_reflI)
qed

lemma access_step_kept:
  assumes "access_step (t, p) (t', p')" and c: "consistent t (pay_billing p)"
  shows "t \<le> t' \<and> consistent t' (pay_billing p')"
proof -
  have later: "consistent t1 (pay_billing p)" if "t \<le> t1" for t1
    using c that by (rule consistent_later) (auto intro!: list_all2_reflI)
  from assms(1) show ?thesis
  proof cases
    case (administering db)
    with billing_step_kept c show ?thesis by auto
  next
    case (enrolling env ch subject enrolled e policy result event)
    with enrolling_consistent later show ?thesis by blast
  next
    case (renewing env subject renewal terms approved policy result event)
    with renewing_consistent later show ?thesis by blast
  next
    case (resolving env ch renewal e resolution application events)
    with resolving_consistent later show ?thesis by blast
  next
    case (recovering env subject recovery terms approved policy result event)
    with recovering_consistent later show ?thesis by blast
  next
    case (replacing env a subject replacement moved approved result event)
    with replacing_consistent later show ?thesis by blast
  next
    case (expediting attempt scheduled_at events events' db)
    with expediting_consistent later show ?thesis by simp blast
  next
    case elsewhere
    with c consistent_same show ?thesis by simp
  qed
qed

lemma access_steps_kept:
  assumes "access_step\<^sup>*\<^sup>* (t, p) (t', p')" and "consistent t (pay_billing p)"
  shows "t \<le> t' \<and> consistent t' (pay_billing p')"
  using assms(1)
proof (induction "(t', p')" arbitrary: t' p' rule: rtranclp_induct)
  case base
  with assms(2) show ?case by simp
next
  case (step c)
  obtain t1 p1 where c: "c = (t1, p1)" by (cases c)
  with step have "t \<le> t1 \<and> consistent t1 (pay_billing p1)" by simp
  with access_step_kept [of t1 p1 t' p'] step(2) show ?case unfolding c by (meson order_trans)
qed

text \<open>C23.  No owner ever holds two sources of access.  From a consistent database, every sequence of enrollments, renewals,
  recoveries, replacements, resolved renewal failures, cancellations, retirements, policy changes, grants, revocations and retries
  brought forward, with any transactions in between that write neither subscriptions nor grants, leads to a consistent one.  There
  the guard of protected writes never reports an inconsistent state, for any selector at any later clock: it
  admits, or says that a subscription is missing or past due.\<close>

theorem guard_never_inconsistent:
  assumes "consistent t (pay_billing p)" and "access_step\<^sup>*\<^sup>* (t, p) (t', p')" and "t' \<le> txn_clock txn"
  shows "consistent t' (pay_billing p') \<and> require_entitlement_for_update txn (EntitlementGuard s) (pay_billing p') \<in>
    {Ok (), Err Required, Err EntitlementGuardError.PastDue}"
proof -
  have c: "consistent t' (pay_billing p')" using access_steps_kept [OF assms(2,1)] by blast
  have "require_entitlement_for_update txn (EntitlementGuard s) (pay_billing p') \<in>
      {Ok (), Err Required, Err EntitlementGuardError.PastDue, Err (EntitlementGuardError.InvalidState INVALID_ENTITLEMENT_STATE)}"
    by (simp add: require_entitlement_for_update_def split: GuardAccess.split)
  with c consistent_guard [OF c assms(3)] show ?thesis by auto
qed

section \<open>A concrete history\<close>

text \<open>An enrollment of an owner without access.\<close>

theorem guard_never_inconsistent_witness:
  "access_step\<^sup>*\<^sup>* (50, sample_enrollment_db) (130, sample_enrolled_db) \<and> consistent 130 (pay_billing sample_enrolled_db) \<and>
     require_entitlement_for_update \<lparr>txn_now = 140, txn_clock = 140, txn_locked = []\<rparr>
       (EntitlementGuard (cancel_selector sample_cancel)) (pay_billing sample_enrolled_db) \<in>
       {Ok (), Err Required, Err EntitlementGuardError.PastDue}"
proof -
  obtain result event where "apply_enrollment_approved_on_connection sample_calendar sample_env LiveRecipient
      sample_enrollment_reservation (approved_inner sample_new_card) SubscriptionPeriodExpiryPolicy.Disabled sample_enrollment_db =
      Ok (result, Some event, sample_enrolled_db)"
    using sample_enrollment_run by blast
  moreover have "payment_rely (env_others sample_env)" by (simp add: payment_rely_def charges_rely_def)
  moreover have clock: "env_clock sample_env = 130" by simp
  ultimately have "access_step (50, sample_enrollment_db) (130, sample_enrolled_db)"
    using access_step.enrolling [of 50 sample_env] by simp
  then have steps: "access_step\<^sup>*\<^sup>* (50, sample_enrollment_db) (130, sample_enrolled_db)" ..
  have "consistent 50 (pay_billing sample_enrollment_db)"
    by (simp add: consistent_def exclusive_def paid_count_def grant_count_def sample_open_db_def sample_dunning_db_def)
  from guard_never_inconsistent [OF this steps, of "\<lparr>txn_now = 140, txn_clock = 140, txn_locked = []\<rparr>"] steps
  show ?thesis by simp
qed

end
