(* ===== verification/Submission.thy ===== *)
theory Submission
  imports Enrollment_Application Renewal_Application Recovery_Application Replacement_Application
begin

text \<open>
  Submitting an admitted payment to the provider: the requests of \<open>gateway/sale.rs\<close> and \<open>gateway.rs\<close>, the
  gateway of \<open>resolver.rs\<close> and \<open>mode_verified_gateway.rs\<close>, and the four functions that send the one request an admission
  authorises and apply or resolve the reply.  The provider is a parameter: its answers to the two queries of the
  account mode and its reply to each request.  A submission returns what it sent beside its result.
\<close>

section \<open>Requests\<close>

datatype GatewaySaleIntent =
    OneTime PaymentToken
  | InitialStoredCredential PaymentToken
  | RecurringStoredCredential GatewayPaymentMethodReference GatewayTransactionId bool

record GatewaySaleRequest =
  sale_charge :: ChargeAmount
  sale_order_id :: GatewayOrderId
  sale_intent :: GatewaySaleIntent
  sale_billing_contact :: "BillingContact option"
  sale_descriptor :: "StatementDescriptor option"

definition GatewaySaleRequest_new ::
    "ChargeAmount \<Rightarrow> GatewayOrderId \<Rightarrow> GatewaySaleIntent \<Rightarrow> BillingContact option \<Rightarrow> GatewaySaleRequest" where
  "GatewaySaleRequest_new charge order_id intent billing_contact =
     \<lparr>sale_charge = charge, sale_order_id = order_id, sale_intent = intent, sale_billing_contact = billing_contact,
      sale_descriptor = None\<rparr>"

definition with_descriptor :: "GatewaySaleRequest \<Rightarrow> StatementDescriptor option \<Rightarrow> GatewaySaleRequest" where
  "with_descriptor self descriptor = self\<lparr>sale_descriptor := descriptor\<rparr>"

record GatewayStorePaymentMethodRequest =
  store_payment_token :: PaymentToken
  store_order_id :: GatewayOrderId
  store_billing_contact :: "BillingContact option"

record StatementDescriptorPolicy =
  descriptor_default :: StatementDescriptor
  descriptor_first_charge_after_paid_trial :: "StatementDescriptor option"

definition StatementDescriptorPolicy_new :: "StatementDescriptor \<Rightarrow> StatementDescriptorPolicy" where
  "StatementDescriptorPolicy_new descriptor = \<lparr>descriptor_default = descriptor, descriptor_first_charge_after_paid_trial = None\<rparr>"

definition with_first_charge_after_paid_trial ::
    "StatementDescriptorPolicy \<Rightarrow> StatementDescriptor \<Rightarrow> StatementDescriptorPolicy" where
  "with_first_charge_after_paid_trial self descriptor = self\<lparr>descriptor_first_charge_after_paid_trial := Some descriptor\<rparr>"

fun descriptor_for :: "StatementDescriptorPolicy \<Rightarrow> GatewaySaleIntent \<Rightarrow> StatementDescriptor" where
  "descriptor_for self (RecurringStoredCredential _ _ True) =
     (case descriptor_first_charge_after_paid_trial self of Some descriptor \<Rightarrow> descriptor | None \<Rightarrow> descriptor_default self)"
| "descriptor_for self _ = descriptor_default self"

section \<open>The gateway\<close>

text \<open>The provider behind a resolved gateway, and the descriptors the host configured for it.\<close>

record gateway_connection =
  connection_account_mode :: "nat \<Rightarrow> (GatewayAccountMode, GatewayError) result"
  connection_sale :: "GatewaySaleRequest \<Rightarrow> (GatewayPaymentOutcome, GatewayMutationError) result"
  connection_store_payment_method :: "GatewayStorePaymentMethodRequest \<Rightarrow> (GatewayPaymentOutcome, GatewayMutationError) result"
  connection_statement_descriptors :: "StatementDescriptorPolicy option"

definition with_policy_statement_descriptor :: "gateway_connection \<Rightarrow> GatewaySaleRequest \<Rightarrow> GatewaySaleRequest" where
  "with_policy_statement_descriptor self request =
     (case (connection_statement_descriptors self, sale_descriptor request) of
        (Some policy, None) \<Rightarrow> with_descriptor request (Some (descriptor_for policy (sale_intent request)))
      | _ \<Rightarrow> request)"

datatype GatewayAccountModeVerificationError =
    AccountModeMismatch GatewayAccountMode GatewayAccountMode
  | Gateway GatewayError

record ModeVerifiedGateway =
  verified_gateway :: ResolvedGateway
  verified_connection :: gateway_connection
  verified_required_mode :: GatewayAccountMode

definition verify_gateway_account_mode ::
    "ResolvedGateway \<Rightarrow> gateway_connection \<Rightarrow> GatewayAccountMode \<Rightarrow>
     (ModeVerifiedGateway, GatewayAccountModeVerificationError) result" where
  "verify_gateway_account_mode gateway connection required_mode =
     and_then (map_err Gateway (connection_account_mode connection 0)) (\<lambda>observed_mode.
       if observed_mode \<noteq> required_mode
       then Err (GatewayAccountModeVerificationError.AccountModeMismatch required_mode observed_mode)
       else Ok \<lparr>verified_gateway = gateway, verified_connection = connection, verified_required_mode = required_mode\<rparr>)"

text \<open>A text of the program that redaction and truncation leave as it is.\<close>

definition gateway_account_mode_mismatch_detail :: GatewayDiagnostic where
  "gateway_account_mode_mismatch_detail = GatewayDiagnostic
     (lit ''Payment was not submitted because the payment processor account mode did not match this deployment.'')"

fun normalize_adapter_mutation_error :: "GatewayMutationError \<Rightarrow> GatewayMutationError" where
  "normalize_adapter_mutation_error (GatewayMutationError.NotSubmitted (GatewayNotSubmittedError.AccountModeMismatch _ _ detail)) =
     GatewayMutationError.NotSubmitted (GatewayNotSubmittedError.Malformed detail)"
| "normalize_adapter_mutation_error (GatewayMutationError.NotSubmitted (AccountModeVerification e)) =
     GatewayMutationError.NotSubmitted (GatewayNotSubmittedError.Malformed (GatewayError_detail e))"
| "normalize_adapter_mutation_error other = other"

definition authorize_attempt :: "ModeVerifiedGateway \<Rightarrow> PaymentAttemptIdentity \<Rightarrow> bool" where
  "authorize_attempt self identity \<longleftrightarrow>
     verified_required_mode self = identity_required_gateway_account_mode identity \<and>
     resolved_billing_scope_id (verified_gateway self) = identity_billing_scope_id identity \<and>
     resolved_gateway_account_id (verified_gateway self) = identity_gateway_account_id identity \<and>
     resolved_gateway_configuration_id (verified_gateway self) = identity_gateway_configuration_id identity"

definition verify_current_mode :: "ModeVerifiedGateway \<Rightarrow> (unit, GatewayMutationError) result" where
  "verify_current_mode self =
     and_then (map_err (\<lambda>e. GatewayMutationError.NotSubmitted (AccountModeVerification e))
         (connection_account_mode (verified_connection self) 1)) (\<lambda>observed.
       if observed \<noteq> verified_required_mode self
       then Err (GatewayMutationError.NotSubmitted (GatewayNotSubmittedError.AccountModeMismatch (verified_required_mode self) observed
         gateway_account_mode_mismatch_detail))
       else Ok ())"

datatype provider_request =
    Sale GatewaySaleRequest
  | StorePaymentMethod GatewayStorePaymentMethodRequest

text \<open>A request goes out only after the second query of the account mode.\<close>

definition send_verified ::
    "ModeVerifiedGateway \<Rightarrow> provider_request \<Rightarrow> (GatewayPaymentOutcome, GatewayMutationError) result \<Rightarrow>
     (GatewayPaymentOutcome, GatewayMutationError) result \<times> provider_request list" where
  "send_verified self request reply =
     (case verify_current_mode self of
        Inl e \<Rightarrow> (Err e, [])
      | Inr _ \<Rightarrow> (map_err normalize_adapter_mutation_error reply, [request]))"

definition AttemptVerifiedGateway_sale ::
    "ModeVerifiedGateway \<Rightarrow> GatewaySaleRequest \<Rightarrow> (GatewayPaymentOutcome, GatewayMutationError) result \<times> provider_request list" where
  "AttemptVerifiedGateway_sale self request =
     (let request = with_policy_statement_descriptor (verified_connection self) request
      in send_verified self (Sale request) (connection_sale (verified_connection self) request))"

definition AttemptVerifiedGateway_store_payment_method ::
    "ModeVerifiedGateway \<Rightarrow> GatewayStorePaymentMethodRequest \<Rightarrow>
     (GatewayPaymentOutcome, GatewayMutationError) result \<times> provider_request list" where
  "AttemptVerifiedGateway_store_payment_method self request =
     send_verified self (StorePaymentMethod request) (connection_store_payment_method (verified_connection self) request)"

section \<open>Admissions\<close>

text \<open>What a committed admission hands out; the one of a renewal also has the stored credential.\<close>

record admitted_payment =
  admitted_reservation :: later_reservation
  admitted_attempt :: PaymentAttempt

record AdmittedSubscriptionRenewal = admitted_payment +
  admitted_payment_method_reference :: GatewayPaymentMethodReference
  admitted_first_charge_after_paid_trial :: bool

record AdmittedSubscriptionEnrollment =
  enrolled_reservation :: SubscriptionEnrollmentReservation
  enrolled_attempt :: PaymentAttempt

type_synonym AdmittedSubscriptionRecovery = admitted_payment
type_synonym AdmittedSubscriptionPaymentMethodReplacement = admitted_payment

definition admission_current :: "later_reservation \<Rightarrow> PaymentAttempt \<Rightarrow> bool" where
  "admission_current r attempt \<longleftrightarrow> attempt_identity attempt = reserved_identity r \<and> attempt_request attempt = reserved_request r \<and>
     PaymentAttempt_status attempt = PaymentAttemptStatus.Pending \<and> attempt_submitted_at attempt \<noteq> None"

text \<open>The result of a submission, the same for every kind.\<close>

datatype SubscriptionProviderResult =
    Payment SubscriptionEnrollmentPaymentResult
  | NotSubmitted SubscriptionEnrollmentPaymentResult GatewayNotSubmittedError

type_synonym applied_call =
  "(SubscriptionEnrollmentPaymentResult \<times> BillingEvent list, SubscriptionEnrollmentApplicationError) result \<times> payment_db"

type_synonym submission_result =
  "((SubscriptionProviderResult \<times> BillingEvent list, SubscriptionEnrollmentApplicationError) result \<times> payment_db) option"

definition paid :: "applied_call \<Rightarrow> submission_result" where
  "paid call = Some (map_prod (map_sum id (map_prod Payment id)) id call)"

definition surfaced ::
    "GatewayNotSubmittedError \<Rightarrow>
     (OutcomeApplication \<times> BillingEvent list, SubscriptionEnrollmentApplicationError) result \<times> payment_db \<Rightarrow> submission_result" where
  "surfaced e call =
     Some (map_prod (map_sum id (\<lambda>(application, events).
       (if should_surface_not_submitted application (GatewayNotSubmittedPolicy_for_error e)
        then NotSubmitted (oa_payment application) e else Payment (oa_payment application), events))) id call)"

section \<open>Submissions\<close>

text \<open>The reply to a renewal, whose attempts are not submitted again.\<close>

definition settle_renewal_reply ::
    "chrono \<Rightarrow> payment_run \<Rightarrow> billing_host \<Rightarrow> SubscriptionRenewalReservation \<Rightarrow>
     (GatewayPaymentOutcome, GatewayMutationError) result \<Rightarrow> payment_db \<Rightarrow> submission_result" where
  "settle_renewal_reply ch run host r reply p =
     (let clock = env_clock (run_env run 0); between = run_between run 0; env = run_env run 0;
          unknown = (\<lambda>detail cooldown. paid (map_prod (map_sum id (\<lambda>result. (result, []))) id
            (resolve_renewal_unknown_outcome clock between env r (mutation_error_evidence detail) cooldown p)))
      in case reply of
           Inr outcome \<Rightarrow> Option.bind (apply_subscription_renewal_gateway_outcome ch run host r outcome p) paid
         | Inl (GatewayMutationError.NotSubmitted e) \<Rightarrow>
             surfaced e (resolve_renewal_non_approved_outcome ch host clock between env r
               (mutation_error_evidence (GatewayNotSubmittedError_detail e))
               (let policy = GatewayNotSubmittedPolicy_for_error e in
                OutcomeResolutionCommand_non_approved AttemptResolutionStatus.Failed
                  (Some (policy_resolution_code policy)) (policy_cooldown policy) AdmittedNotSubmitted) p)
         | Inl (RateLimitedIndeterminate detail) \<Rightarrow> unknown detail (Some Provider)
         | Inl (GatewayMutationError.Indeterminate detail) \<Rightarrow> unknown detail None)"

definition submit_admitted_subscription_renewal ::
    "chrono \<Rightarrow> payment_run \<Rightarrow> billing_host \<Rightarrow> AdmittedSubscriptionRenewal \<Rightarrow> ModeVerifiedGateway \<Rightarrow> payment_db \<Rightarrow>
     submission_result \<times> provider_request list" where
  "submit_admitted_subscription_renewal ch run host admission gateway p =
     (let r = admitted_reservation admission; attempt = admitted_attempt admission
      in if \<not> admission_current r attempt \<or> resolved_provider_key (verified_gateway gateway) \<noteq> reserved_provider_key r \<or>
            \<not> authorize_attempt gateway (reserved_identity r)
         then (Some (Err SubmissionIdentityMismatch, p), [])
         else case ChargeAmount_try_from (request_amount (attempt_request attempt)) of
           Inl _ \<Rightarrow> (Some (Err invalid_application, p), [])
         | Inr charge \<Rightarrow>
             (case reserved_terms r of
                None \<Rightarrow> (None, [])
              | Some (plan_key, period, expected) \<Rightarrow>
                  (case AttemptVerifiedGateway_sale gateway (GatewaySaleRequest_new charge
                      (request_gateway_order_id (attempt_request attempt))
                      (RecurringStoredCredential (admitted_payment_method_reference admission)
                        (payment_state_initial_transaction_id expected) (admitted_first_charge_after_paid_trial admission))
                      (map_option BillingContact_from_address
                        (contact_snapshot_address (request_billing_contact (attempt_request attempt))))) of
                    (reply, sent) \<Rightarrow> (settle_renewal_reply ch run host r reply p, sent))))"

text \<open>The reply to an enrollment, a recovery or a replacement, whose prepared attempts can be submitted again.\<close>

definition settle_reply ::
    "payment_run \<Rightarrow> OutcomeReservation \<Rightarrow> (GatewayPaymentOutcome \<Rightarrow> applied_call option) \<Rightarrow>
     (GatewayPaymentOutcome, GatewayMutationError) result \<Rightarrow> payment_db \<Rightarrow> submission_result" where
  "settle_reply run reservation apply_outcome reply p =
     (let unknown = (\<lambda>detail cooldown. paid (map_prod (map_sum id (\<lambda>result. (result, []))) id
            (resolve_reserved_outcome run reservation (mutation_error_evidence detail) (OutcomeResolutionCommand_unknown cooldown) p)))
      in case reply of
           Inr outcome \<Rightarrow> Option.bind (apply_outcome outcome) paid
         | Inl (GatewayMutationError.NotSubmitted e) \<Rightarrow>
             surfaced e (map_prod (map_sum id (\<lambda>application. (application, []))) id
               (apply_resumable_not_submitted_policy (env_clock (run_env run 0)) (run_between run 0) (run_env run 0) reservation
                 (mutation_error_evidence (GatewayNotSubmittedError_detail e)) (GatewayNotSubmittedPolicy_for_error e) p))
         | Inl (RateLimitedIndeterminate detail) \<Rightarrow> unknown detail (Some Provider)
         | Inl (GatewayMutationError.Indeterminate detail) \<Rightarrow> unknown detail None)"

definition submit_admitted_subscription_recovery ::
    "displays \<Rightarrow> payment_run \<Rightarrow> billing_host \<Rightarrow> AdmittedSubscriptionRecovery \<Rightarrow> RecoverSubscriptionPayment \<Rightarrow>
     ModeVerifiedGateway \<Rightarrow> payment_db \<Rightarrow> submission_result \<times> provider_request list" where
  "submit_admitted_subscription_recovery d run host admission command gateway p =
     (let r = admitted_reservation admission; attempt = admitted_attempt admission
      in if \<not> admission_current r attempt then (Some (Err SubmissionIdentityMismatch, p), [])
         else case recovery_matches_submission d r command (verified_gateway gateway) of
           None \<Rightarrow> (None, [])
         | Some matches \<Rightarrow>
             if \<not> matches \<or> \<not> authorize_attempt gateway (reserved_identity r)
             then (Some (Err SubmissionIdentityMismatch, p), [])
             else (case ChargeAmount_try_from (request_amount (attempt_request attempt)) of
               Inl _ \<Rightarrow> (Some (Err invalid_application, p), [])
             | Inr charge \<Rightarrow>
                 (case AttemptVerifiedGateway_sale gateway (GatewaySaleRequest_new charge
                     (request_gateway_order_id (attempt_request attempt))
                     (InitialStoredCredential (context_payment_token (recover_context command)))
                     (Some (context_billing_contact (recover_context command)))) of
                   (reply, sent) \<Rightarrow>
                     (settle_reply run (OutcomeReservation.Recovery r)
                       (\<lambda>outcome. apply_subscription_recovery_gateway_outcome run host r outcome p) reply p, sent))))"

definition submit_admitted_subscription_payment_method_replacement ::
    "displays \<Rightarrow> payment_run \<Rightarrow> billing_host \<Rightarrow> AdmittedSubscriptionPaymentMethodReplacement \<Rightarrow>
     ReplaceSubscriptionPaymentMethod \<Rightarrow> ModeVerifiedGateway \<Rightarrow> payment_db \<Rightarrow> submission_result \<times> provider_request list" where
  "submit_admitted_subscription_payment_method_replacement d run host admission command gateway p =
     (let r = admitted_reservation admission; attempt = admitted_attempt admission
      in if \<not> admission_current r attempt then (Some (Err SubmissionIdentityMismatch, p), [])
         else case replacement_matches_submission d r command (verified_gateway gateway) of
           None \<Rightarrow> (None, [])
         | Some matches \<Rightarrow>
             if \<not> matches \<or> \<not> authorize_attempt gateway (reserved_identity r)
             then (Some (Err SubmissionIdentityMismatch, p), [])
             else (case AttemptVerifiedGateway_store_payment_method gateway
                 \<lparr>store_payment_token = context_payment_token (replace_context command),
                  store_order_id = request_gateway_order_id (attempt_request attempt),
                  store_billing_contact = Some (context_billing_contact (replace_context command))\<rparr> of
               (reply, sent) \<Rightarrow>
                 (settle_reply run (OutcomeReservation.PaymentMethodReplacement r)
                   (\<lambda>outcome. apply_subscription_payment_method_replacement_gateway_outcome run host r outcome p) reply p, sent)))"

text \<open>The reservation of an enrollment is rebuilt from the command.\<close>

definition submit_admitted_subscription_enrollment ::
    "chrono \<Rightarrow> payment_run \<Rightarrow> billing_host \<Rightarrow> AdmittedSubscriptionEnrollment \<Rightarrow> EnrollSubscription \<Rightarrow> ModeVerifiedGateway \<Rightarrow>
     payment_db \<Rightarrow> submission_result \<times> provider_request list" where
  "submit_admitted_subscription_enrollment ch run host admission command gateway p =
     (let r = enrolled_reservation admission; attempt = enrolled_attempt admission
      in if enrollment_from_command_for_attempt command (verified_gateway gateway) (identity_attempt_id (attempt_identity attempt))
              (identity_required_gateway_account_mode (enrollment_identity r)) \<noteq> Ok r \<or>
            attempt_identity attempt \<noteq> enrollment_identity r \<or>
            PaymentAttempt_status attempt \<noteq> PaymentAttemptStatus.Pending \<or> attempt_submitted_at attempt = None \<or>
            \<not> authorize_attempt gateway (enrollment_identity r)
         then (Some (Err SubmissionIdentityMismatch, p), [])
         else case ChargeAmount_new (money_cents (request_amount (attempt_request attempt)))
             (money_currency (request_amount (attempt_request attempt))) of
           Inl _ \<Rightarrow> (Some (Err invalid_application, p), [])
         | Inr charge \<Rightarrow>
             (case AttemptVerifiedGateway_sale gateway (GatewaySaleRequest_new charge
                 (request_gateway_order_id (attempt_request attempt))
                 (InitialStoredCredential (context_payment_token (enroll_context command)))
                 (Some (context_billing_contact (enroll_context command)))) of
               (reply, sent) \<Rightarrow>
                 (settle_reply run (OutcomeReservation.Initial r)
                   (\<lambda>outcome. Some (apply_subscription_enrollment_gateway_outcome ch run host r outcome p)) reply p, sent)))"

end
