(* ===== verification/Submission_Guarantees.thy ===== *)
theory Submission_Guarantees
  imports Submission Payment_Lifecycle
begin

text \<open>
  What a submission of an admitted enrollment, renewal, recovery or replacement promises: what it sends to the provider, and what
  the database holds once it returns.
\<close>

section \<open>Requests that go out\<close>

definition provider_reply :: "gateway_connection \<Rightarrow> provider_request \<Rightarrow> (GatewayPaymentOutcome, GatewayMutationError) result" where
  "provider_reply connection request =
     (case request of Sale sale \<Rightarrow> connection_sale connection sale
      | StorePaymentMethod store \<Rightarrow> connection_store_payment_method connection store)"

definition request_order :: "provider_request \<Rightarrow> GatewayOrderId" where
  "request_order request = (case request of Sale sale \<Rightarrow> sale_order_id sale | StorePaymentMethod store \<Rightarrow> store_order_id store)"

text \<open>A sale charges the amount; storing a payment method charges nothing.\<close>

definition charges_amount :: "provider_request \<Rightarrow> Money \<Rightarrow> bool" where
  "charges_amount request amount =
     (case request of Sale sale \<Rightarrow> ChargeAmount_money (sale_charge sale) = amount | StorePaymentMethod _ \<Rightarrow> True)"

text \<open>
  What a submission may be for: an attempt of the reservation that is pending and marked as submitted.  A reservation of
  an enrollment has no request of its own; the attempt keeps what was accepted.
\<close>

definition admitted :: "OutcomeReservation \<Rightarrow> PaymentAttempt \<Rightarrow> bool" where
  "admitted reservation attempt \<longleftrightarrow>
     attempt_identity attempt = OutcomeReservation_identity reservation \<and>
     PaymentAttempt_status attempt = PaymentAttemptStatus.Pending \<and> attempt_submitted_at attempt \<noteq> None \<and>
     (case reservation of
        OutcomeReservation.Initial _ \<Rightarrow> True
      | OutcomeReservation.Recovery r \<Rightarrow> attempt_request attempt = reserved_request r
      | OutcomeReservation.Renewal r \<Rightarrow> attempt_request attempt = reserved_request r
      | OutcomeReservation.PaymentMethodReplacement r \<Rightarrow> attempt_request attempt = reserved_request r)"

text \<open>The request of an admission, at a gateway whose account is in the required mode.\<close>

definition request_admitted :: "OutcomeReservation \<Rightarrow> PaymentAttempt \<Rightarrow> ModeVerifiedGateway \<Rightarrow> provider_request \<Rightarrow> bool" where
  "request_admitted reservation attempt gateway request \<longleftrightarrow>
     admitted reservation attempt \<and> authorize_attempt gateway (OutcomeReservation_identity reservation) \<and>
     connection_account_mode (verified_connection gateway) 1 = Ok (verified_required_mode gateway) \<and>
     request_order request = request_gateway_order_id (attempt_request attempt) \<and>
     charges_amount request (request_amount (attempt_request attempt))"

text \<open>The answer a submission goes on with: an error before anything is sent, or the reply to its request.\<close>

definition answered ::
    "ModeVerifiedGateway \<Rightarrow> provider_request \<Rightarrow>
     (GatewayPaymentOutcome, GatewayMutationError) result \<times> provider_request list \<Rightarrow> bool" where
  "answered gateway request call \<longleftrightarrow>
     (snd call = [] \<and> (\<exists>e. fst call = Err (GatewayMutationError.NotSubmitted e))) \<or>
     (snd call = [request] \<and> connection_account_mode (verified_connection gateway) 1 = Ok (verified_required_mode gateway) \<and>
      fst call = map_err normalize_adapter_mutation_error (provider_reply (verified_connection gateway) request))"

lemma send_verified_answered:
  "answered gateway request (send_verified gateway request (provider_reply (verified_connection gateway) request))"
  by (auto simp: answered_def send_verified_def verify_current_mode_def and_then_def map_err_def split: sum.splits if_splits)

lemma policy_descriptor_keeps [simp]:
  "sale_order_id (with_policy_statement_descriptor connection request) = sale_order_id request"
  "sale_charge (with_policy_statement_descriptor connection request) = sale_charge request"
  by (simp_all add: with_policy_statement_descriptor_def with_descriptor_def split: option.splits)

lemma sale_answered:
  "\<exists>request. answered gateway request (AttemptVerifiedGateway_sale gateway sale) \<and>
     request_order request = sale_order_id sale \<and> charges_amount request (ChargeAmount_money (sale_charge sale))"
  using send_verified_answered [of gateway "Sale (with_policy_statement_descriptor (verified_connection gateway) sale)"]
  by (intro exI [of _ "Sale (with_policy_statement_descriptor (verified_connection gateway) sale)"])
     (simp add: AttemptVerifiedGateway_sale_def Let_def provider_reply_def request_order_def charges_amount_def)

lemma store_answered:
  "\<exists>request. answered gateway request (AttemptVerifiedGateway_store_payment_method gateway store) \<and>
     request_order request = store_order_id store \<and> charges_amount request amount"
  using send_verified_answered [of gateway "StorePaymentMethod store"]
  by (intro exI [of _ "StorePaymentMethod store"])
     (simp add: AttemptVerifiedGateway_store_payment_method_def provider_reply_def request_order_def charges_amount_def)

section \<open>Replies that are settled\<close>

text \<open>The database is kept, and a result for an approved answer has its evidence there.\<close>

definition answer_settled ::
    "PaymentAttemptIdentity \<Rightarrow> (GatewayPaymentOutcome, GatewayMutationError) result \<Rightarrow> payment_db \<Rightarrow> submission_result \<Rightarrow> bool" where
  "answer_settled identity answer p submitted \<longleftrightarrow>
     (\<forall>out p'. submitted = Some (out, p') \<longrightarrow> payment_keeps p p' \<and>
       (payment_ok p \<longrightarrow> (\<forall>x outcome. out = Ok x \<longrightarrow> answer = Ok outcome \<longrightarrow>
         outcome_status outcome = GatewayPaymentStatus.Approved \<longrightarrow> evidence_recorded identity (outcome_evidence outcome) p')))"

lemma paid_Some: "paid call = Some (out, p') \<Longrightarrow> \<exists>out1. call = (out1, p') \<and> (\<forall>x. out = Inr x \<longrightarrow> (\<exists>y. out1 = Inr y))"
  by (cases call) (auto simp: paid_def map_sum_Inr_iff)

lemma surfaced_Some: "surfaced e call = Some (out, p') \<Longrightarrow> \<exists>out1. call = (out1, p')"
  by (cases call) (auto simp: surfaced_def)

text \<open>The outcome of a request, applied by a call of the history.\<close>

lemma applied_outcome_settled:
  assumes "\<And>out p'. applied = Some (out, p') \<Longrightarrow> payment_call identity outcome p out p'"
  shows "answer_settled identity (Ok outcome) p (Option.bind applied paid)"
  using assms unfolding answer_settled_def
  by (cases applied) (auto dest!: paid_Some intro: payment_call_keeps payment_call_records)

text \<open>An error of the request has no evidence to keep.\<close>

lemma error_settled:
  assumes "\<And>out p'. submitted = Some (out, p') \<Longrightarrow> payment_keeps p p'"
  shows "answer_settled identity (Err e) p submitted"
  using assms by (simp add: answer_settled_def)

lemma restored_frame: "restore_admitted_attempt_for_retry env reservation p = Ok (application, p') \<Longrightarrow> payment_frame p p'"
  by (auto simp: restore_admitted_attempt_for_retry_def Let_def and_then_Inr_iff map_sum_Inr_iff split: if_splits
      dest: restore_frame)

lemma resumable_keeps:
  assumes "run_rely run"
    and "apply_resumable_not_submitted_policy clock (run_between run 0) (run_env run 0) reservation e policy p = (out, p')"
  shows "payment_keeps p p'"
  using assms(2) resolve_pool_keeps [OF assms(1)] payment_frame_keeps [OF restored_frame]
  by (auto simp: apply_resumable_not_submitted_policy_def split: if_splits sum.splits)

lemma settle_reply_settled:
  assumes rely: "run_rely run"
    and applied: "\<And>outcome out p'. apply_outcome outcome = Some (out, p') \<Longrightarrow> payment_call identity outcome p out p'"
  shows "answer_settled identity answer p (settle_reply run reservation apply_outcome answer p)"
proof (cases answer)
  case (Inr outcome)
  then show ?thesis using applied_outcome_settled [OF applied] by (simp add: settle_reply_def)
next
  case (Inl e)
  have "payment_keeps p p'" if "settle_reply run reservation apply_outcome (Inl e) p = Some (out, p')" for out p'
    using that resumable_keeps [OF rely] resolve_pool_keeps [OF rely]
    by (cases e) (auto simp: settle_reply_def Let_def resolve_reserved_outcome_def map_prod_def split: prod.splits
        dest!: paid_Some surfaced_Some)
  with Inl show ?thesis by (simp add: error_settled)
qed

section \<open>The submissions\<close>

text \<open>A submission is refused before anything is sent, or it sends at most its one request and settles the answer.\<close>

definition submission_ok ::
    "OutcomeReservation \<Rightarrow> PaymentAttempt \<Rightarrow> ModeVerifiedGateway \<Rightarrow> payment_db \<Rightarrow> submission_result \<times> provider_request list \<Rightarrow> bool" where
  "submission_ok reservation attempt gateway p submitted \<longleftrightarrow>
     (case submitted of (result, sent) \<Rightarrow>
        (sent = [] \<and> (result = None \<or> (\<exists>e. result = Some (Err e, p)))) \<or>
        (admitted reservation attempt \<and> authorize_attempt gateway (OutcomeReservation_identity reservation) \<and>
         (\<exists>request answer. answered gateway request (answer, sent) \<and>
            (sent = [request] \<longrightarrow> request_admitted reservation attempt gateway request) \<and>
            answer_settled (OutcomeReservation_identity reservation) answer p result)))"

lemma submission_okI:
  assumes "answered gateway request (answer, sent)" and "admitted reservation attempt"
    and "authorize_attempt gateway (OutcomeReservation_identity reservation)"
    and "request_order request = request_gateway_order_id (attempt_request attempt)"
    and "charges_amount request (request_amount (attempt_request attempt))"
    and "answer_settled (OutcomeReservation_identity reservation) answer p result"
  shows "submission_ok reservation attempt gateway p (result, sent)"
  using assms unfolding submission_ok_def request_admitted_def answered_def by auto

lemma charge_of_amount:
  "ChargeAmount_try_from m = Ok charge \<Longrightarrow> ChargeAmount_money charge = m"
  "ChargeAmount_new (money_cents m) (money_currency m) = Ok charge \<Longrightarrow> ChargeAmount_money charge = m"
  by (auto simp: result_simps ChargeAmount_cents_def ChargeAmount_currency_def intro: Money.equality)

lemma renewal_reply_settled:
  assumes rely: "run_rely run"
  shows "answer_settled (reserved_identity r) answer p (settle_renewal_reply ch run host r answer p)"
proof (cases answer)
  case (Inr outcome)
  then show ?thesis
    using applied_outcome_settled [OF payment_call.renewal [OF rely]] by (simp add: settle_renewal_reply_def Let_def)
next
  case (Inl e)
  have "payment_keeps p p'" if "settle_renewal_reply ch run host r (Inl e) p = Some (out, p')" for out p'
    using that renewal_declined_keeps [OF rely] resolve_pool_keeps [OF rely]
    by (cases e) (auto simp: settle_renewal_reply_def Let_def resolve_renewal_unknown_outcome_def map_prod_def split: prod.splits
        dest!: paid_Some surfaced_Some)
  with Inl show ?thesis by (simp add: error_settled)
qed

text \<open>A refusal sends nothing and changes nothing; a sale or a store goes on with its answer.\<close>

lemma refused_ok [simp]:
  "submission_ok reservation attempt gateway p (Some (Inl e, p), [])" "submission_ok reservation attempt gateway p (None, [])"
  by (simp_all add: submission_ok_def)

lemma sale_submission_ok:
  assumes "AttemptVerifiedGateway_sale gateway (GatewaySaleRequest_new charge
        (request_gateway_order_id (attempt_request attempt)) intent contact) = (answer, sent)"
    and "ChargeAmount_money charge = request_amount (attempt_request attempt)"
    and "admitted reservation attempt" and "authorize_attempt gateway (OutcomeReservation_identity reservation)"
    and "answer_settled (OutcomeReservation_identity reservation) answer p result"
  shows "submission_ok reservation attempt gateway p (result, sent)"
  using sale_answered [of gateway "GatewaySaleRequest_new charge (request_gateway_order_id (attempt_request attempt)) intent contact"]
    assms
  by (auto simp: GatewaySaleRequest_new_def intro!: submission_okI)

lemma admission_admitted:
  assumes "admission_current r attempt"
  shows "admitted (OutcomeReservation.Renewal r) attempt" "admitted (OutcomeReservation.Recovery r) attempt"
    "admitted (OutcomeReservation.PaymentMethodReplacement r) attempt"
  using assms by (simp_all add: admission_current_def admitted_def)

lemma renewal_submission_ok:
  assumes rely: "run_rely run"
  shows "submission_ok (OutcomeReservation.Renewal (admitted_reservation admission)) (admitted_attempt admission) gateway p
    (submit_admitted_subscription_renewal ch run host admission gateway p)"
  unfolding submit_admitted_subscription_renewal_def Let_def
  using renewal_reply_settled [OF rely]
  by (auto split: sum.splits option.splits prod.splits intro: sale_submission_ok charge_of_amount admission_admitted)

lemma recovery_submission_ok:
  assumes rely: "run_rely run"
  shows "submission_ok (OutcomeReservation.Recovery (admitted_reservation admission)) (admitted_attempt admission) gateway p
    (submit_admitted_subscription_recovery d run host admission command gateway p)"
  unfolding submit_admitted_subscription_recovery_def Let_def
  using settle_reply_settled [OF rely payment_call.recovery [OF rely]]
  by (auto split: sum.splits option.splits prod.splits intro: sale_submission_ok charge_of_amount admission_admitted)

lemma enrollment_submission_ok:
  assumes rely: "run_rely run"
  shows "submission_ok (OutcomeReservation.Initial (enrolled_reservation admission)) (enrolled_attempt admission) gateway p
    (submit_admitted_subscription_enrollment ch run host admission command gateway p)"
proof -
  have settled: "answer_settled (enrollment_identity r) answer p (settle_reply run (OutcomeReservation.Initial r)
      (\<lambda>outcome. Some (apply_subscription_enrollment_gateway_outcome ch run host r outcome p)) answer p)" for r answer
    by (rule settle_reply_settled [OF rely]) (auto intro: payment_call.enrollment [OF rely])
  show ?thesis
    unfolding submit_admitted_subscription_enrollment_def Let_def
    by (auto simp: admitted_def settled split: sum.splits prod.splits intro!: sale_submission_ok charge_of_amount)
qed

lemma replacement_submission_ok:
  assumes rely: "run_rely run"
  shows "submission_ok (OutcomeReservation.PaymentMethodReplacement (admitted_reservation admission)) (admitted_attempt admission)
    gateway p (submit_admitted_subscription_payment_method_replacement d run host admission command gateway p)"
proof -
  have stored: "submission_ok reservation attempt gateway p (result, sent)"
    if "AttemptVerifiedGateway_store_payment_method gateway \<lparr>store_payment_token = token,
        store_order_id = request_gateway_order_id (attempt_request attempt), store_billing_contact = contact\<rparr> = (answer, sent)"
      "admitted reservation attempt" "authorize_attempt gateway (OutcomeReservation_identity reservation)"
      "answer_settled (OutcomeReservation_identity reservation) answer p result"
    for token contact answer sent result reservation attempt
    using store_answered [of gateway "\<lparr>store_payment_token = token,
        store_order_id = request_gateway_order_id (attempt_request attempt), store_billing_contact = contact\<rparr>"
        "request_amount (attempt_request attempt)"] that
    by (auto intro!: submission_okI)
  show ?thesis
    unfolding submit_admitted_subscription_payment_method_replacement_def Let_def
    using settle_reply_settled [OF rely payment_call.replacement [OF rely]]
    by (auto split: option.splits prod.splits intro: stored admission_admitted)
qed

section \<open>What every submission promises\<close>

inductive submission ::
    "OutcomeReservation \<Rightarrow> PaymentAttempt \<Rightarrow> ModeVerifiedGateway \<Rightarrow> payment_db \<Rightarrow>
     (SubscriptionProviderResult \<times> BillingEvent list, SubscriptionEnrollmentApplicationError) result \<Rightarrow> payment_db \<Rightarrow>
     provider_request list \<Rightarrow> bool" where
  enrollment: "run_rely run \<Longrightarrow>
     submit_admitted_subscription_enrollment ch run host enrolled enroll gateway p = (Some (out, p'), sent) \<Longrightarrow>
     submission (OutcomeReservation.Initial (enrolled_reservation enrolled)) (enrolled_attempt enrolled) gateway p out p' sent"
| renewal: "run_rely run \<Longrightarrow> submit_admitted_subscription_renewal ch run host renewed gateway p = (Some (out, p'), sent) \<Longrightarrow>
     submission (OutcomeReservation.Renewal (admitted_reservation renewed)) (admitted_attempt renewed) gateway p out p' sent"
| recovery: "run_rely run \<Longrightarrow>
     submit_admitted_subscription_recovery d run host admission recover gateway p = (Some (out, p'), sent) \<Longrightarrow>
     submission (OutcomeReservation.Recovery (admitted_reservation admission)) (admitted_attempt admission) gateway p out p' sent"
| replacement: "run_rely run \<Longrightarrow>
     submit_admitted_subscription_payment_method_replacement d run host admission replace gateway p = (Some (out, p'), sent) \<Longrightarrow>
     submission (OutcomeReservation.PaymentMethodReplacement (admitted_reservation admission)) (admitted_attempt admission)
       gateway p out p' sent"

lemma submission_is_ok:
  "submission reservation attempt gateway p out p' sent \<Longrightarrow> submission_ok reservation attempt gateway p (Some (out, p'), sent)"
  by (induction rule: submission.induct)
     (metis enrollment_submission_ok renewal_submission_ok recovery_submission_ok replacement_submission_ok)+

lemma submission_cases:
  assumes "submission reservation attempt gateway p out p' sent"
  obtains (refused) e where "sent = []" "out = Err e" "p' = p"
  | (answered) request answer where "admitted reservation attempt"
      "authorize_attempt gateway (OutcomeReservation_identity reservation)"
      "answered gateway request (answer, sent)" "sent = [request] \<longrightarrow> request_admitted reservation attempt gateway request"
      "answer_settled (OutcomeReservation_identity reservation) answer p (Some (out, p'))"
  using submission_is_ok [OF assms] by (auto simp: submission_ok_def)

text \<open>C6.  A submission sends at most one request to the provider.  The request carries the order and the amount of its
  attempt, which is still pending, was marked as submitted and has the reserved request, through a gateway of the
  scope, account, configuration and mode of that attempt, and only after the provider answered that the account is
  in this mode.  With any other attempt or gateway the submission is an error that sends nothing and leaves the
  database as it is.\<close>

theorem submission_sends_reserved_request:
  assumes "submission reservation attempt gateway p out p' sent"
  shows "length sent \<le> 1 \<and> (\<forall>request. request \<in> set sent \<longrightarrow> request_admitted reservation attempt gateway request) \<and>
    (\<not> admitted reservation attempt \<or> \<not> authorize_attempt gateway (OutcomeReservation_identity reservation) \<longrightarrow>
       (\<exists>e. out = Err e) \<and> sent = [] \<and> p' = p)"
  using assms
proof (cases rule: submission_cases)
  case (answered request answer)
  then show ?thesis by (auto simp: answered_def)
qed simp

text \<open>C7.  A submission keeps the database consistent, and when the provider approved the request it sent and the
  submission returns a result, the evidence of the approval is in the database.\<close>

theorem submission_records_approval:
  assumes "payment_ok p" and "submission reservation attempt gateway p out p' sent"
  shows "payment_ok p' \<and> database_history p p' \<and>
    (\<forall>request outcome x. request \<in> set sent \<longrightarrow> provider_reply (verified_connection gateway) request = Ok outcome \<longrightarrow>
       outcome_status outcome = GatewayPaymentStatus.Approved \<longrightarrow> out = Ok x \<longrightarrow>
       evidence_recorded (OutcomeReservation_identity reservation) (outcome_evidence outcome) p')"
  using assms(2)
proof (cases rule: submission_cases)
  case (answered request answer)
  then have "payment_keeps p p'" by (simp add: answer_settled_def)
  then have "payment_ok p' \<and> database_history p p'" by (rule keeps_database_history [OF assms(1)])
  moreover have "evidence_recorded (OutcomeReservation_identity reservation) (outcome_evidence outcome) p'"
    if "request' \<in> set sent" "provider_reply (verified_connection gateway) request' = Ok outcome"
      "outcome_status outcome = GatewayPaymentStatus.Approved" "out = Ok x" for request' outcome x
    using answered that assms(1) by (auto simp: answered_def answer_settled_def map_err_def)
  ultimately show ?thesis by blast
qed (use keeps_database_history [OF assms(1) payment_keeps_refl] in simp)

section \<open>A concrete submission\<close>

definition sample_connection :: gateway_connection where
  "sample_connection = \<lparr>connection_account_mode = (\<lambda>_. Ok (identity_required_gateway_account_mode (attempt_identity sample_open_renewal))),
     connection_sale = (\<lambda>_. Ok sample_outcome), connection_store_payment_method = (\<lambda>_. Ok sample_outcome),
     connection_statement_descriptors = None\<rparr>"

definition sample_verified_gateway :: ModeVerifiedGateway where
  "sample_verified_gateway = \<lparr>verified_gateway = sample_gateway, verified_connection = sample_connection,
     verified_required_mode = identity_required_gateway_account_mode (attempt_identity sample_open_renewal)\<rparr>"

definition sample_admission :: AdmittedSubscriptionRenewal where
  "sample_admission = \<lparr>admitted_reservation = sample_renewal_reservation,
     admitted_attempt = sample_open_renewal\<lparr>attempt_state := (attempt_state sample_open_renewal)
       \<lparr>state_status := PaymentAttemptStatus.Pending,
        state_timestamps := (state_timestamps (attempt_state sample_open_renewal))\<lparr>stamp_submitted_at := Some 120\<rparr>\<rparr>\<rparr>,
     admitted_payment_method_reference = GatewayPaymentMethodReference (GatewayReferenceValue (lit ''m'')),
     admitted_first_charge_after_paid_trial = False\<rparr>"

definition sample_sale :: GatewaySaleRequest where
  "sample_sale = GatewaySaleRequest_new (ChargeAmount (request_amount (attempt_request sample_open_renewal)))
     (request_gateway_order_id (attempt_request sample_open_renewal))
     (RecurringStoredCredential (GatewayPaymentMethodReference (GatewayReferenceValue (lit ''m'')))
       (payment_state_initial_transaction_id sample_payment_state) False)
     (map_option BillingContact_from_address (contact_snapshot_address (request_billing_contact (attempt_request sample_open_renewal))))"

lemma sample_admission_ok:
  "admission_current (admitted_reservation sample_admission) (admitted_attempt sample_admission)"
  "authorize_attempt sample_verified_gateway (reserved_identity sample_renewal_reservation)"
  by (simp_all add: admission_current_def sample_admission_def sample_renewal_reservation_def authorize_attempt_def
      sample_verified_gateway_def sample_gateway_def sample_open_simps PaymentAttempt_status_def)

text \<open>The renewal of the sample, sent to a provider that approves it.\<close>

lemma sample_sale_sent:
  "AttemptVerifiedGateway_sale sample_verified_gateway sample_sale = (Ok sample_outcome, [Sale sample_sale])"
  by (simp add: AttemptVerifiedGateway_sale_def send_verified_def verify_current_mode_def sample_verified_gateway_def
      sample_connection_def with_policy_statement_descriptor_def and_then_def map_err_def)

lemma sample_submission:
  "\<exists>x. submission (OutcomeReservation.Renewal sample_renewal_reservation) (admitted_attempt sample_admission)
     sample_verified_gateway sample_payment_db (Ok x) sample_renewed_db
     [Sale sample_sale]"
proof -
  obtain x where applied: "apply_subscription_renewal_gateway_outcome sample_chrono sample_run sample_host sample_renewal_reservation
      sample_outcome sample_payment_db = Some (Ok x, sample_renewed_db)"
    using sample_renewal_run by blast
  have admission: "admitted_reservation sample_admission = sample_renewal_reservation"
      "attempt_request (admitted_attempt sample_admission) = attempt_request sample_open_renewal"
    by (simp_all add: sample_admission_def)
  have charge: "ChargeAmount_try_from (request_amount (attempt_request sample_open_renewal)) =
      Ok (ChargeAmount (request_amount (attempt_request sample_open_renewal)))"
    by (simp add: ChargeAmount_try_from_def sample_open_simps sample_charge_def)
  have key: "resolved_provider_key (verified_gateway sample_verified_gateway) = reserved_provider_key sample_renewal_reservation"
    by (simp add: sample_verified_gateway_def sample_renewal_reservation_def)
  have "submit_admitted_subscription_renewal sample_chrono sample_run sample_host sample_admission sample_verified_gateway
      sample_payment_db = (paid (Ok x, sample_renewed_db), [Sale sample_sale])"
    using applied sample_admission_ok sample_sale_sent charge key
    by (simp add: submit_admitted_subscription_renewal_def admission sample_terms_reserved sample_terms_def sample_sale_def
        sample_admission_def settle_renewal_reply_def Let_def)
  then have "\<exists>x. submit_admitted_subscription_renewal sample_chrono sample_run sample_host sample_admission sample_verified_gateway
      sample_payment_db = (Some (Ok x, sample_renewed_db), [Sale sample_sale])"
    by (simp add: paid_def)
  then show ?thesis using submission.renewal [OF sample_run_rely] admission(1) by metis
qed

theorem submission_sends_reserved_request_witness:
  "\<exists>out. submission (OutcomeReservation.Renewal sample_renewal_reservation) (admitted_attempt sample_admission)
     sample_verified_gateway sample_payment_db out sample_renewed_db
     [Sale sample_sale] \<and> request_admitted (OutcomeReservation.Renewal sample_renewal_reservation) (admitted_attempt sample_admission)
     sample_verified_gateway (Sale sample_sale)"
  using sample_submission submission_sends_reserved_request by (metis list.set_intros(1))

theorem submission_records_approval_witness:
  "\<exists>x. submission (OutcomeReservation.Renewal sample_renewal_reservation) (admitted_attempt sample_admission)
     sample_verified_gateway sample_payment_db (Ok x) sample_renewed_db
     [Sale sample_sale] \<and>
   evidence_recorded (reserved_identity sample_renewal_reservation) (outcome_evidence sample_outcome) sample_renewed_db"
proof -
  obtain x where submitted: "submission (OutcomeReservation.Renewal sample_renewal_reservation) (admitted_attempt sample_admission)
     sample_verified_gateway sample_payment_db (Ok x)
      sample_renewed_db [Sale sample_sale]"
    using sample_submission by blast
  note recorded = submission_records_approval [OF sample_payment_db_ok submitted]
  have "provider_reply (verified_connection sample_verified_gateway) (Sale sample_sale) = Ok sample_outcome"
    by (simp add: provider_reply_def sample_verified_gateway_def sample_connection_def)
  moreover have "outcome_status sample_outcome = GatewayPaymentStatus.Approved"
    by (simp add: sample_outcome_def GatewayPaymentOutcome_new_def)
  ultimately have "evidence_recorded (reserved_identity sample_renewal_reservation) (outcome_evidence sample_outcome) sample_renewed_db"
    using recorded by simp
  with submitted show ?thesis by blast
qed

end
