(* ===== verification/Spec2Isabelle.thy ===== *)
theory Spec2Isabelle
  imports Lifecycle_Ledger Attempt_Fingerprint Access_Lifecycle Submission_Guarantees
begin

text \<open>
  Syrup Rail: subscription billing.

  \<^bold>\<open>The program.\<close>  Four crates.  \<open>syrup-rail\<close> holds the validated domain types and the billing policy;
  \<open>syrup-rail-postgres\<close> runs them in database transactions; \<open>syrup-rail-nmi\<close> adapts one payment provider
  and \<open>syrup-rail-nmi-client\<close> is its HTTP client.  A host calls the operations; each runs in one
  transaction, returns an outcome and the events to store, and never calls the provider inside it.
  Paths below are relative to \<open>src/crates\<close>; \<open>core\<close> is \<open>syrup-rail/src\<close> and \<open>pg\<close> is
  \<open>syrup-rail-postgres/src\<close>.

  \<^bold>\<open>Theories and sources.\<close>

  \<^item> \<open>Prelude\<close>: results as sums, strings as lists of Unicode scalars with their UTF-8 bytes, checked and
    wrapping integers, the interface \<open>text_codec\<close> of every stored vocabulary, lemmas all theories share.
  \<^item> \<open>Money_Types\<close> (\<open>core/money.rs\<close>), \<open>Identity\<close> (\<open>core/identity.rs\<close>), \<open>Resolution\<close>
    (\<open>core/resolution.rs\<close>), \<open>Card_Data\<close> (\<open>core/card_data.rs\<close>), \<open>Gateway_Value\<close>
    (\<open>core/gateway_value.rs\<close>), \<open>Billing_Contact\<close> and \<open>Text_Fields\<close>
    (\<open>core/gateway_value\<close>), \<open>Terms\<close> (terms and policy),
    \<open>Discount\<close> (\<open>core/discount.rs\<close>), \<open>Enrollment_Terms\<close>, \<open>Events\<close> (\<open>core/event.rs\<close>): the domain types with
    their validating constructors.
  \<^item> \<open>Gateway_Outcome\<close>, \<open>Gateway_Lifecycle\<close> (\<open>core/gateway\<close>): processor evidence, payment outcomes and the
    pure transition function of the lifecycle of a charge.  \<open>Lifecycle_Ledger\<close>
    (\<open>pg/lifecycle_reconciliation.rs\<close>): applying, staging and quarantining evidence as transactions.
  \<^item> \<open>Attempt\<close> (\<open>core/attempt\<close>), \<open>Attempt_Fingerprint\<close> (\<open>core/attempt/fingerprint.rs\<close>): payment attempts
    and the texts that identify a request.
  \<^item> \<open>Subscription\<close> (\<open>core/subscription*\<close>, \<open>pg/subscription_persistence.rs\<close>): subscriptions, grants,
    entitlements and the decoding of stored rows.
  \<^item> \<open>Renewal\<close> (\<open>core/renewal.rs\<close>): dispositions, retry pacing and keys.
  \<^item> \<open>Billing_Store\<close> (\<open>pg/attempts/shared.rs\<close>): the tables as lists of rows, the local expiry of attempts and
    the queries every operation shares.
  \<^item> \<open>Entitlement_Access\<close> (\<open>pg/entitlement.rs\<close>): the entitlement query and the guard of protected writes.
  \<^item> \<open>Store_History\<close>: the contract of an operation on the tables (locales \<open>billing_operation\<close> and
    \<open>subscription_operation\<close>), interpreted by the four next theories.
  \<^item> \<open>Dunning\<close> (\<open>pg/renewal_failure.rs\<close>), \<open>Cancellation\<close> (\<open>pg/cancellation.rs\<close>), \<open>Period_Expiry\<close>
    (\<open>core/period_expiry.rs\<close>, \<open>pg/period_expiry.rs\<close>), \<open>Grants\<close> (\<open>pg/grants.rs\<close>): the operations.
  \<^item> \<open>Subscription_Lifecycle\<close>: their interleavings as a step relation.
  \<^item> \<open>Processor_Charges\<close> (\<open>pg/processor_charges*\<close>): the table of processor charges with its checks, unique
    indexes and trigger, recording an observed approval, promoting and compensating charges, and the
    write of approved evidence that takes no attempt lock; the statements on charges of \<open>pg/reconciliation/classification.rs\<close> and
    \<open>pg/operator_review/external_reversal.rs\<close>.  \<open>Charge_History\<close>: the abstract life of
    a charge, the contract \<open>charge_operation\<close> that every operation meets, and their histories.
  \<^item> \<open>Outcome_Policy\<close> (\<open>core/gateway/port.rs\<close>, \<open>pg/enrollment_application/outcome_support.rs\<close> and the pure part of
    \<open>pg/enrollment_application.rs\<close>): provider errors, what to do with a request that was not submitted, and
    joining observed evidence to durable evidence.
  \<^item> \<open>Attempt_Transitions\<close> (\<open>pg/attempts/transitions.rs\<close>): the durable transitions of attempts with the
    constraints and unique indexes of their table, and the contract \<open>attempt_operation\<close>.
  \<^item> \<open>Reservations\<close> (\<open>core/renewal.rs\<close>, \<open>core/recovery.rs\<close>, \<open>core/payment_method_update.rs\<close>,
    \<open>core/enrollment.rs\<close>): the authority to apply one payment, from locked terms or from a stored attempt.
  \<^item> \<open>Payment_Application\<close> (\<open>pg/enrollment_application.rs\<close>): what the application of every outcome shares, on
    one database of attempts, charges, subscriptions, methods and gateway accounts.
    \<open>Approvals\<close>: the text that \<open>initial*\<close>, \<open>renewal.rs\<close>, \<open>recovery.rs\<close> and \<open>payment_method_replacement.rs\<close> of
    \<open>pg/enrollment_application\<close> repeat, once, with what differs as arguments; the host transaction of
    \<open>pg/transactions.rs\<close>.
  \<^item> \<open>Enrollment_Application\<close> (\<open>pg/enrollment_application/initial*\<close>), \<open>Renewal_Application\<close>
    (\<open>pg/enrollment_application/renewal*\<close>), \<open>Recovery_Application\<close>
    (\<open>pg/enrollment_application/recovery*\<close>), \<open>Replacement_Application\<close>
    (\<open>pg/enrollment_application/payment_method_replacement*\<close>): the outcomes of first charges, of automatic renewals, of recoveries
    with a new card and of replacements of the stored card, with every retry and fallback.
  \<^item> \<open>Payment_History\<close>: the invariant of that database, the frames of its statements and what is recorded.
    \<open>Approval_History\<close>: the branches of an approval and the chain from the observed charge to the applied
    payment; \<open>Method_History\<close>: stored payment methods.  \<open>Payment_Runs\<close>: the contracts \<open>payment_operation\<close>,
    \<open>recording_operation\<close> and \<open>approved_outcome\<close> of a transaction and of a whole call, interpreted by
    \<open>Enrollment_Guarantees\<close>, \<open>Renewal_Guarantees\<close>, \<open>Recovery_Guarantees\<close> and \<open>Replacement_Guarantees\<close>: what each kind of payment promises.
    \<open>Payment_Lifecycle\<close>: all their calls as one step relation.  \<open>Access_Lifecycle\<close> (with \<open>expedite_retry\<close> of
    \<open>pg/operator_review/manual_failure.rs\<close>): every operation that writes subscriptions or grants as one step relation.
  \<^item> \<open>Submission\<close> (\<open>core/gateway/sale.rs\<close>, \<open>core/resolver.rs\<close>, \<open>pg/mode_verified_gateway.rs\<close> and the
    submissions of \<open>pg/enrollment_application\<close>): the one request an admission authorises, sent through a gateway
    whose mode was verified, and the handling of its reply.  \<open>Submission_Guarantees\<close>: what a submission promises.

  \<^bold>\<open>How state and operations correspond.\<close>  A struct is a record, an enum a datatype, an unsigned integer a
  word, a signed integer an integer with its bounds written out, a dictionary-like table a list of
  rows.  A function that returns \<open>Result\<close> returns a sum.  An operation in a transaction takes the
  database and the transaction (\<open>billing_txn\<close>: \<open>now()\<close>, \<open>clock_timestamp()\<close>, the rows another transaction
  holds, which \<open>SKIP LOCKED\<close> passes over) and returns an outcome and the database after it; an error
  rolls back.  Where a statement waits for rows of other transactions, what they commit meanwhile is a
  function argument (\<open>others\<close>), and a theorem names what it assumes of it.  A call of several
  transactions takes a \<open>payment_run\<close>: for each transaction, by number, what others commit before it, whether the
  database fails it, whether the answer of its commit is lost (\<open>run_lost_answer\<close>: the caller sees an error of a transaction that took effect), and
  its clock and identifiers.  The theorems on calls assume \<open>run_rely\<close>: what others commit keeps the invariant \<open>payment_ok\<close> and lets attempts,
  charges and subscriptions only evolve or adds new ones (every call here and every reservation does), and
  while a statement waits others commit charges only.  A transaction of the host is a \<open>billing_host\<close>: whether
  it begins, stores an event and commits.  A transaction has one clock.  Attempts are kept as the values
  \<open>pg/attempts/persistence.rs\<close> decodes them to, the other tables column by column.  A validating
  constructor with many arguments takes the built record.

  \<^bold>\<open>Code outside the repository\<close> is a parameter: \<open>chrono\<close> (calendar arithmetic and its range), \<open>unicode\<close>
  (character tables), the display formats of UUIDs and instants, the store of host charge targets, the
  replies of the payment provider (\<open>gateway_connection\<close>).  What
  a property needs of them is a named hypothesis with a concrete instance in its witness.

  \<^bold>\<open>What the theorems show.\<close>  For the ledger: over any history of reports a charge never reopens or refunds more than it
  captured, and a report lands on the attempt its transaction or order names, or is superseded there, quarantined or staged.
  For values: the card scanner reports exactly the strings that hold a card number, discounts, periods
  and delays are exact or refused, fingerprints and keys identify what they stand for, stored
  vocabularies and rows decode exactly.  For dunning: a failure is applied once, follows the accepted
  schedule, ends after at most seventeen failures and agrees with its events.  For access: the
  guard and the query agree, ended subscriptions stay ended over any interleaving of the operations of \<open>Subscription_Lifecycle\<close>, no owner has two
  sources of access over any interleaving of these with enrollments, renewals, recoveries and replacements, only live payments block a
  cancellation, access ends when the event of a cancellation says, and a period is retired only when all its payments are settled.
  For charges: every history of the table refines the abstract machine, an attempt's money is applied
  at most once, an observation replays to what it stored, the write without a lock never claims what
  the table does not hold, and a compensation is retried exactly on the transient failures of the database and stored when it answers.
  The exported transition of a charge can leave external reversal when its caller asks for it (\<open>transition_can_leave_reversal\<close>);
  the machine holds for callers that do not, as those of the repository.
  For attempts: over any history an approved attempt is final, no period has two open or approved charges, and
  reservations are rebuilt exactly from what was stored.  For payments: an
  enrollment, a renewal, a recovery or a replacement returns its event exactly when its subscription started or moved, and a replay changes
  nothing; over any sequence of their calls the invariant of the database holds whichever transactions fail, an
  approval that got a result stays recorded, and results agree with their attempts.  A submission sends at most
  one request, with what was reserved, to the account in the mode of its attempt, and an approval of it is
  recorded once the submission returns a result.  A recovery is replayed from
  its stored attempt; the reservation of one that stored a new method is refused afterwards.

  \<^bold>\<open>Loops.\<close>  Recursion is structural or has a termination proof; the card scanner consumes its input, the
  selection of the current subscription has the two attempts of the source, the staged-evidence
  worker its batch, the application of a payment the three tries to apply and three to
  keep its evidence.  No definition uses fuel beyond the bound the source has.

  \<^bold>\<open>Not modelled.\<close>  SQL text, connection handling, lock timeouts and failing statements (they roll
  back); \<open>Debug\<close> output and the regular expressions that redact diagnostics; schema installation and
  introspection (\<open>pg/schema_contract.rs\<close>), deletion; HTTP transport and XML decoding of the NMI client.
  Foreign keys and the checks of the subscription table; the redaction that decoding a stored
  diagnostic applies again; log messages and pauses between tries.
  The application of host charges, the queries that reserve and admit attempts,
  the decisions of operator review on attempts (its statement on charges and the retry it brings forward are modelled) and the
  NMI lifecycle reports: each is a further set of statements on the tables of
  \<open>Payment_Application\<close>, and nothing here depends on them.
\<close>

end
